(* ===== verification/Prelude.thy ===== *)
theory Prelude
  imports Main "HOL-Library.Word"
begin

text \<open>
  What every component of the development shares: the byte and byte-string types, Python's
  exceptions as values, \<open>struct\<close> packing of big-endian unsigned fields, slicing, the bits of a
  byte in transmission order, the exclusive or of byte strings, and the interface of a
  shift register that is linear over exclusive or (used by the CRC and by the BCH code).
\<close>

unbundle bit_operations_syntax

section \<open>Types\<close>

type_synonym byte = "8 word"
type_synonym bytes = "8 word list"

text \<open>The Python exceptions the modelled code can raise, as values.\<close>

datatype py_error = ValueError | StructError | IndexError | KeyError | TypeError | OverflowError
  | RecursionError | OtherError string

type_synonym 'a result = "py_error + 'a"

named_theorems byte_simps \<open>packing, slicing and bit lists of byte strings\<close>
named_theorems xor_simps \<open>operations that distribute over exclusive or\<close>

definition bind_result :: "'a result \<Rightarrow> ('a \<Rightarrow> 'b result) \<Rightarrow> 'b result" where
  "bind_result r f = (case r of Inl e \<Rightarrow> Inl e | Inr a \<Rightarrow> f a)"

lemma bind_result_simps [simp]:
  "bind_result (Inl e) f = Inl e"
  "bind_result (Inr a) f = f a"
  by (simp_all add: bind_result_def)

lemma bind_result_Inr_iff:
  "bind_result r f = Inr y \<longleftrightarrow> (\<exists>x. r = Inr x \<and> f x = Inr y)"
  by (cases r) simp_all

section \<open>Slices\<close>

text \<open>\<open>xs[a:b]\<close> with \<open>0 \<le> a\<close> and \<open>0 \<le> b\<close>.\<close>

definition pyslice :: "nat \<Rightarrow> nat \<Rightarrow> 'a list \<Rightarrow> 'a list" where
  "pyslice a b xs = take (b - a) (drop a xs)"

lemma length_pyslice [simp]: "length (pyslice a b xs) = min (b - a) (length xs - a)"
  by (auto simp: pyslice_def)

lemma pyslice_0 [byte_simps]: "pyslice 0 b xs = take b xs"
  by (simp add: pyslice_def)

lemma pyslice_append_left [byte_simps]:
  "b \<le> length xs \<Longrightarrow> pyslice a b (xs @ ys) = pyslice a b xs"
  by (simp add: pyslice_def)

lemma pyslice_append_right [byte_simps]:
  "length xs \<le> a \<Longrightarrow> pyslice a b (xs @ ys) = pyslice (a - length xs) (b - length xs) ys"
  by (simp add: pyslice_def)

lemma pyslice_all [byte_simps]: "length xs \<le> b \<Longrightarrow> pyslice 0 b xs = xs"
  by (simp add: pyslice_def)

section \<open>Blocks\<close>

text \<open>The slices \<open>xs[i:i+n] for i in range(0, len(xs), n)\<close>; the last one may be short.\<close>

function chunks :: "nat \<Rightarrow> 'a list \<Rightarrow> 'a list list" where
  "chunks n xs = (if n = 0 \<or> xs = [] then [] else take n xs # chunks n (drop n xs))"
  by pat_completeness auto
termination
  by (relation "measure (\<lambda>(n, xs). length xs)") auto

declare chunks.simps [simp del]

lemma chunks_Nil [simp]: "chunks n [] = []"
  by (simp add: chunks.simps)

lemma chunks_append [byte_simps]:
  "length xs = n \<Longrightarrow> 0 < n \<Longrightarrow> chunks n (xs @ ys) = xs # chunks n ys"
  by (subst chunks.simps) auto

lemma concat_chunks: "0 < n \<Longrightarrow> concat (chunks n xs) = xs"
proof (induction n xs rule: chunks.induct)
  case (1 n xs)
  then show ?case by (subst chunks.simps) auto
qed

lemma chunks_concat:
  "0 < n \<Longrightarrow> \<forall>b \<in> set bs. length b = n \<Longrightarrow> chunks n (concat bs) = bs"
  by (induction bs) (auto simp: chunks_append)

lemma length_in_chunks:
  "0 < n \<Longrightarrow> n dvd length xs \<Longrightarrow> b \<in> set (chunks n xs) \<Longrightarrow> length b = n"
proof (induction n xs rule: chunks.induct)
  case (1 n xs)
  have "n dvd length (drop n xs)" using "1.prems"(2) by (simp add: dvd_diff_nat)
  moreover have "xs \<noteq> [] \<Longrightarrow> n \<le> length xs"
    using "1.prems" by (simp add: dvd_imp_le)
  ultimately show ?case
    using "1.IH" "1.prems" by (subst (asm) chunks.simps) (auto split: if_splits)
qed

section \<open>Big-endian unsigned fields\<close>

text \<open>The \<open>n\<close> low-order bytes of an integer, most significant first, and back.\<close>

fun be_bytes :: "nat \<Rightarrow> int \<Rightarrow> bytes" where
  "be_bytes 0 x = []"
| "be_bytes (Suc n) x = be_bytes n (x div 256) @ [word_of_int x]"

definition be_int :: "bytes \<Rightarrow> int" where
  "be_int bs = foldl (\<lambda>acc b. acc * 256 + uint b) 0 bs"

text \<open>
  \<open>struct.pack\<close> with one of the codes \<open>B\<close>, \<open>H\<close>, \<open>I\<close> (\<open>n\<close> = 1, 2, 4 bytes, big-endian): it
  raises \<open>struct.error\<close> for a value outside the field. \<open>bytes([x])\<close> raises \<open>ValueError\<close>.
\<close>

definition pack_be :: "nat \<Rightarrow> int \<Rightarrow> bytes result" where
  "pack_be n x = (if 0 \<le> x \<and> x < 256 ^ n then Inr (be_bytes n x) else Inl StructError)"

definition mk_byte :: "int \<Rightarrow> bytes result" where
  "mk_byte x = (if 0 \<le> x \<and> x < 256 then Inr [word_of_int x] else Inl ValueError)"

lemma length_be_bytes [simp]: "length (be_bytes n x) = n"
  by (induction n arbitrary: x) auto

lemma be_int_snoc [simp]: "be_int (bs @ [b]) = be_int bs * 256 + uint b"
  by (simp add: be_int_def)

lemma be_int_Nil [simp]: "be_int [] = 0"
  by (simp add: be_int_def)

lemma be_int_one [simp]: "be_int [a] = uint a"
  using be_int_snoc [of "[]" a] by simp

lemma be_int_two [simp]: "be_int [a, b] = uint a * 256 + uint b"
  using be_int_snoc [of "[a]" b] by simp

lemma uint_word_of_int_byte: "uint (word_of_int x :: byte) = x mod 256"
  by (simp add: uint_word_of_int)

lemma be_int_be_bytes [byte_simps]: "be_int (be_bytes n x) = x mod 256 ^ n"
proof (induction n arbitrary: x)
  case 0
  then show ?case by simp
next
  case (Suc n)
  have "x mod (256 * 256 ^ n) = 256 * (x div 256 mod 256 ^ n) + x mod 256"
    by (simp add: zmod_zmult2_eq)
  then show ?case by (simp add: Suc uint_word_of_int_byte)
qed

lemma be_int_bounds: "0 \<le> be_int bs \<and> be_int bs < 256 ^ length bs"
proof (induction bs rule: rev_induct)
  case (snoc b bs)
  have "0 \<le> uint b" "uint b < 256"
    using uint_lt2p [of b] by simp_all
  then show ?case using snoc by auto
qed simp

lemma be_int_nonneg [simp]: "0 \<le> be_int bs"
  using be_int_bounds by blast

lemma be_int_less: "length bs = n \<Longrightarrow> be_int bs < 256 ^ n"
  using be_int_bounds by blast

lemma be_bytes_be_int [byte_simps]: "be_bytes (length bs) (be_int bs) = bs"
proof (induction bs rule: rev_induct)
  case (snoc b bs)
  have b: "0 \<le> uint b" "uint b < 256"
    using uint_lt2p [of b] by simp_all
  then have "(be_int bs * 256 + uint b) div 256 = be_int bs"
    by simp
  moreover have "(word_of_int (be_int bs * 256 + uint b) :: byte) = b"
  proof -
    have "uint (word_of_int (be_int bs * 256 + uint b) :: byte) = uint b"
      unfolding uint_word_of_int_byte using b by simp
    then show ?thesis by (simp only: word_uint_eq_iff)
  qed
  ultimately show ?case by (simp add: snoc)
qed simp

lemma pack_be_Inr [simp]: "0 \<le> x \<Longrightarrow> x < 256 ^ n \<Longrightarrow> pack_be n x = Inr (be_bytes n x)"
  by (simp add: pack_be_def)

lemma pack_be_roundtrip: "pack_be n x = Inr bs \<Longrightarrow> length bs = n \<and> be_int bs = x"
  by (auto simp: pack_be_def be_int_be_bytes split: if_splits)

lemma mk_byte_Inr [simp]: "0 \<le> x \<Longrightarrow> x < 256 \<Longrightarrow> mk_byte x = Inr [word_of_int x]"
  by (simp add: mk_byte_def)

section \<open>Bit fields of integers\<close>

text \<open>\<open>(a << n) | b\<close> with \<open>b\<close> below \<open>2^n\<close> is a sum.\<close>

lemma or_shift_add:
  fixes a b :: int
  assumes "0 \<le> b" "b < 2 ^ n"
  shows "push_bit n a OR b = a * 2 ^ n + b"
proof -
  have b: "take_bit n b = b" using assms by (simp add: take_bit_int_eq_self)
  have "push_bit n a AND b = 0"
  proof (rule bit_eqI)
    fix m
    show "bit (push_bit n a AND b) m \<longleftrightarrow> bit (0 :: int) m"
      by (subst b [symmetric]) (simp add: bit_simps)
  qed
  then have "push_bit n a OR b = push_bit n a + b"
    using plus_and_or [of "push_bit n a" b] by simp
  then show ?thesis by (simp only: push_bit_eq_mult)
qed

lemma bit_mult_2 [byte_simps]: "bit (c * 2 :: int) n \<longleftrightarrow> 0 < n \<and> bit c (n - 1)"
  using bit_push_bit_iff [of 1 c n] by (simp add: push_bit_eq_mult Suc_le_eq)

lemma and_mask_mod: "(x :: int) AND (2 ^ n - 1) = x mod 2 ^ n"
  by (simp only: mask_eq_exp_minus_1 [symmetric] take_bit_eq_mask [symmetric] take_bit_eq_mod)

lemma and_mask_1: "(x :: int) AND 1 = x mod 2"
  using and_mask_mod [of x 1] by simp

lemma and_mask_3: "(x :: int) AND 3 = x mod 4"
  using and_mask_mod [of x 2] by simp

lemma and_mask_7: "(x :: int) AND 7 = x mod 8"
  using and_mask_mod [of x 3] by simp

lemma and_mask_15: "(x :: int) AND 15 = x mod 16"
  using and_mask_mod [of x 4] by simp

lemma and_mask_127: "(x :: int) AND 127 = x mod 128"
  using and_mask_mod [of x 7] by simp

lemma and_mask_255: "(x :: int) AND 255 = x mod 256"
  using and_mask_mod [of x 8] by simp

lemma and_mask_1023: "(x :: int) AND 1023 = x mod 1024"
  using and_mask_mod [of x 10] by simp

lemma and_mask_2047: "(x :: int) AND 2047 = x mod 2048"
  using and_mask_mod [of x 11] by simp

lemma and_mask_16383: "(x :: int) AND 16383 = x mod 16384"
  using and_mask_mod [of x 14] by simp

lemma and_mask_65535: "(x :: int) AND 65535 = x mod 65536"
  using and_mask_mod [of x 16] by simp

lemmas and_masks =
  and_mask_1 and_mask_3 and_mask_7 and_mask_15 and_mask_127
  and_mask_255 and_mask_1023 and_mask_2047 and_mask_16383 and_mask_65535

section \<open>Exclusive or of byte strings\<close>

definition xor_bytes :: "bytes \<Rightarrow> bytes \<Rightarrow> bytes" where
  "xor_bytes xs ys = map2 (XOR) xs ys"

lemma length_xor_bytes [simp]: "length (xor_bytes xs ys) = min (length xs) (length ys)"
  by (simp add: xor_bytes_def)

lemma xor_bytes_simps [simp]:
  "xor_bytes [] ys = []" "xor_bytes xs [] = []"
  "xor_bytes (x # xs) (y # ys) = (x XOR y) # xor_bytes xs ys"
  by (simp_all add: xor_bytes_def)

lemma xor_int_eq_0_iff [simp]: "(x :: int) XOR y = 0 \<longleftrightarrow> x = y"
  by (metis xor.assoc xor.right_neutral xor_self_eq xor.commute)

lemma xor_int_move: "(a :: int) = b XOR c \<longleftrightarrow> b XOR a = c"
  by (auto simp flip: xor.assoc)

lemma xor_byte_eq_0_iff [simp]: "(x :: 'a::len word) XOR y = 0 \<longleftrightarrow> x = y"
  by (metis xor.assoc xor.right_neutral xor_self_eq xor.commute)

lemma xor_below_exp:
  fixes s t :: int
  assumes "0 \<le> s \<and> s < 2 ^ n" "0 \<le> t \<and> t < 2 ^ n"
  shows "0 \<le> s XOR t \<and> s XOR t < 2 ^ n"
proof -
  have "take_bit n (s XOR t) = s XOR t"
    using assms by (simp add: take_bit_xor take_bit_int_eq_self)
  then show ?thesis
    using take_bit_int_less_exp [of n "s XOR t"] take_bit_nonnegative [of n "s XOR t"] by simp
qed

section \<open>Shift registers that are linear over exclusive or\<close>

text \<open>
  The interface of a check register that absorbs a message byte by byte: the register after a
  byte is linear in the register and the byte, it stays in its range, and absorbing a zero
  byte is injective on the range. The client is error detection: two messages that differ in
  one place only leave different registers.
\<close>

locale xor_register =
  fixes absorb :: "int \<Rightarrow> byte \<Rightarrow> int"
    and reg :: "int \<Rightarrow> bool"
  assumes absorb_xor: "absorb (s XOR t) (a XOR b) = absorb s a XOR absorb t b"
    and reg_absorb: "reg s \<Longrightarrow> reg (absorb s a)"
    and reg_xor: "reg s \<Longrightarrow> reg t \<Longrightarrow> reg (s XOR t)"
    and absorb_zero: "reg s \<Longrightarrow> absorb s 0 = 0 \<Longrightarrow> s = 0"
begin

lemma absorb_0: "absorb 0 0 = 0"
  using absorb_xor [of 0 0 0 0] by simp

lemma run_xor:
  "length xs = length ys \<Longrightarrow>
   foldl absorb (s XOR t) (xor_bytes xs ys) = foldl absorb s xs XOR foldl absorb t ys"
proof (induction xs ys arbitrary: s t rule: list_induct2)
  case (Cons x xs y ys)
  then show ?case by (simp add: absorb_xor)
qed simp

lemma run_reg: "reg s \<Longrightarrow> reg (foldl absorb s xs)"
  by (induction xs arbitrary: s) (auto intro: reg_absorb)

lemma absorb_inj:
  assumes "reg s" "reg t" "absorb s a = absorb t a"
  shows "s = t"
proof -
  have "absorb (s XOR t) 0 = 0"
    using absorb_xor [of s t a a] assms(3) by simp
  then have "s XOR t = 0"
    using absorb_zero reg_xor assms(1,2) by blast
  then show ?thesis by simp
qed

lemma run_inj:
  "reg s \<Longrightarrow> reg t \<Longrightarrow> foldl absorb s xs = foldl absorb t xs \<Longrightarrow> s = t"
proof (induction xs arbitrary: s t)
  case (Cons x xs)
  then have "absorb s x = absorb t x" by (simp add: reg_absorb)
  then show ?case using Cons.prems(1,2) absorb_inj by blast
qed simp

text \<open>A change between a common prefix and a common suffix is seen iff it is seen locally.\<close>

lemma run_localises:
  assumes "reg s"
  shows "foldl absorb s (p @ e @ q) = foldl absorb s (p @ e' @ q)
    \<longleftrightarrow> foldl absorb (foldl absorb s p) e = foldl absorb (foldl absorb s p) e'"
  using run_inj [of _ _ q] run_reg assms by (auto simp: foldl_append)

text \<open>Whether a local change is seen depends on its difference only.\<close>

lemma run_difference:
  assumes "length xs = length ys"
  shows "foldl absorb s xs = foldl absorb s ys \<longleftrightarrow> foldl absorb 0 (xor_bytes xs ys) = 0"
  using run_xor [OF assms, of s s] by simp

end

section \<open>Queues by key\<close>

text \<open>
  The interface of a store that appends each item to the queue of the item's key. The client is
  what a queue holds after any sequence of items: those with its key, in order.
\<close>

locale keyed_queues =
  fixes queue :: "'s \<Rightarrow> 'k \<Rightarrow> 'a list"
    and put :: "'a \<Rightarrow> 's \<Rightarrow> 's"
    and key :: "'a \<Rightarrow> 'k"
  assumes queue_put: "queue (put x s) k = (if k = key x then queue s k @ [x] else queue s k)"
begin

lemma queue_put_all:
  "queue (foldl (\<lambda>s x. put x s) s xs) k = queue s k @ filter (\<lambda>x. key x = k) xs"
  by (induction xs arbitrary: s) (auto simp: queue_put)

end

section \<open>Self-delimiting streams\<close>

text \<open>Where a cut after \<open>n\<close> bytes falls in a sequence of frames.\<close>

lemma cut_concat:
  assumes "n \<le> length (concat pend)"
  obtains (border) ps qs where "pend = ps @ qs" "n = length (concat ps)"
    | (inside) ps q qs m where "pend = ps @ q # qs" "0 < m" "m < length q" "n = length (concat ps) + m"
  using assms
proof (induction pend arbitrary: n thesis)
  case Nil
  then show ?case by simp
next
  case (Cons pkt pend)
  show ?case
  proof (cases "length pkt \<le> n")
    case True
    show ?thesis
    proof (rule Cons.IH)
      show "n - length pkt \<le> length (concat pend)" using Cons.prems(3) by simp
    next
      fix ps qs
      assume "pend = ps @ qs" "n - length pkt = length (concat ps)"
      then show thesis using Cons.prems(1) [of "pkt # ps" qs] True by simp
    next
      fix ps q qs m
      assume "pend = ps @ q # qs" "0 < m" "m < length q" "n - length pkt = length (concat ps) + m"
      then show thesis using Cons.prems(2) [of "pkt # ps" q qs m] True by simp
    qed
  next
    case False
    then show ?thesis
      using Cons.prems(1) [of "[]" "pkt # pend"] Cons.prems(2) [of "[]" pkt pend n]
      by (cases "n = 0") auto
  qed
qed

definition proper_start :: "'b list \<Rightarrow> 'b list \<Rightarrow> bool" where
  "proper_start q w \<longleftrightarrow> (\<exists>m. m < length w \<and> q = take m w)"

text \<open>
  The interface of a deframer: given whole frames and the beginning of one more, it returns the
  contents of the whole ones and keeps the beginning. The client is a receiver that is fed the
  stream in pieces: it returns the contents of all frames, however the stream is cut.
\<close>

locale stream_framing =
  fixes frame :: "'a \<Rightarrow> bytes"
    and ok :: "'a \<Rightarrow> bool"
    and deframe :: "bytes \<Rightarrow> 'a list \<times> bytes"
  assumes deframe_frames:
    "(\<forall>x \<in> set xs. ok x) \<Longrightarrow> q = [] \<or> (\<exists>x. ok x \<and> proper_start q (frame x)) \<Longrightarrow>
     deframe (concat (map frame xs) @ q) = (xs, q)"
begin

fun feeds :: "bytes \<Rightarrow> bytes list \<Rightarrow> 'a list \<times> bytes" where
  "feeds buf [] = ([], buf)"
| "feeds buf (c # cs) = (case deframe (buf @ c) of (xs, buf') \<Rightarrow>
     (case feeds buf' cs of (ys, buf'') \<Rightarrow> (xs @ ys, buf'')))"

lemma feed_piece:
  assumes ok: "\<forall>x \<in> set xs. ok x" and s: "d @ future = concat (map frame xs)"
  obtains ys zs q where "xs = ys @ zs" "deframe d = (ys, q)" "q @ future = concat (map frame zs)"
    "q = [] \<or> (\<exists>x. ok x \<and> proper_start q (frame x))"
proof -
  have d: "d = take (length d) (concat (map frame xs))" "future = drop (length d) (concat (map frame xs))"
    by (simp_all flip: s)
  have n: "length d \<le> length (concat (map frame xs))" by (simp flip: s)
  from n show thesis
  proof (rule cut_concat)
    fix ps qs
    assume a: "map frame xs = ps @ qs" "length d = length (concat ps)"
    then obtain ys zs where y: "xs = ys @ zs" "ps = map frame ys" "qs = map frame zs"
      by (auto simp: map_eq_append_conv)
    have "d = concat (map frame ys)" "future = concat (map frame zs)"
      using d a y by (metis append_eq_conv_conj concat_append)+
    then show thesis using that [of ys zs "[]"] deframe_frames [of ys "[]"] ok y by simp
  next
    fix ps w ws m
    assume a: "map frame xs = ps @ w # ws" "0 < m" "m < length w" "length d = length (concat ps) + m"
    then obtain ys x zs where y: "xs = ys @ x # zs" "ps = map frame ys" "w = frame x" "ws = map frame zs"
      by (auto simp: map_eq_append_conv)
    have w: "d = concat (map frame ys) @ take m (frame x)" "take m (frame x) @ future = concat (map frame (x # zs))"
      using d a y by simp_all
    have "proper_start (take m (frame x)) (frame x)" using a y by (auto simp: proper_start_def)
    then show thesis
      using that [of ys "x # zs" "take m (frame x)"] deframe_frames [of ys "take m (frame x)"] ok y w by auto
  qed
qed

lemma feeds_stream:
  "\<forall>x \<in> set xs. ok x \<Longrightarrow> buf = [] \<or> (\<exists>x. ok x \<and> proper_start buf (frame x)) \<Longrightarrow>
   buf @ concat cs = concat (map frame xs) \<Longrightarrow> feeds buf cs = (xs, [])"
proof (induction cs arbitrary: buf xs)
  case Nil
  have "deframe buf = (xs, [])" using deframe_frames [of xs "[]"] Nil by simp
  moreover have "deframe buf = ([], buf)" using deframe_frames [of "[]" buf] Nil.prems(2) by simp
  ultimately show ?case by simp
next
  case (Cons c cs)
  have "(buf @ c) @ concat cs = concat (map frame xs)" using Cons.prems(3) by simp
  then obtain ys zs q where y: "xs = ys @ zs" "deframe (buf @ c) = (ys, q)"
    "q @ concat cs = concat (map frame zs)" "q = [] \<or> (\<exists>x. ok x \<and> proper_start q (frame x))"
    using feed_piece [OF Cons.prems(1)] by blast
  then show ?case using Cons.IH [of zs q] Cons.prems(1) by simp
qed

end

section \<open>Bounded buffers\<close>

text \<open>
  The interface of a buffer that holds at most \<open>cap\<close> items and drops the oldest for a new one.
  The client is what it holds after any number of items: the newest \<open>cap\<close>, in order.
\<close>

definition newest :: "nat \<Rightarrow> 'a list \<Rightarrow> 'a list" where
  "newest cap xs = drop (length xs - cap) xs"

lemma length_newest [simp]: "length (newest cap xs) = min cap (length xs)"
  by (auto simp: newest_def)

lemma newest_all [simp]: "length xs \<le> cap \<Longrightarrow> newest cap xs = xs"
  by (simp add: newest_def)

lemma newest_newest_append: "newest cap (newest cap xs @ ys) = newest cap (xs @ ys)"
  by (cases "length xs \<le> cap") (auto simp: newest_def add.commute)

locale ring_buffer =
  fixes contents :: "'s \<Rightarrow> 'a list"
    and item :: "'x \<Rightarrow> 'a"
    and push :: "'x \<Rightarrow> 's \<Rightarrow> 's"
    and ready :: "'s \<Rightarrow> bool"
    and cap :: nat
  assumes push_newest: "ready s \<Longrightarrow> contents (push x s) = newest cap (contents s @ [item x])"
    and push_ready: "ready s \<Longrightarrow> ready (push x s)"
    and ready_bound: "ready s \<Longrightarrow> length (contents s) \<le> cap"
begin

definition push_all :: "'x list \<Rightarrow> 's \<Rightarrow> 's" where
  "push_all xs s = foldl (\<lambda>s x. push x s) s xs"

lemma push_all_simps [simp]:
  "push_all [] s = s" "push_all (x # xs) s = push_all xs (push x s)"
  by (simp_all add: push_all_def)

lemma ready_all: "ready s \<Longrightarrow> ready (push_all xs s)"
  by (induction xs arbitrary: s) (auto simp: push_ready)

lemma contents_all:
  "ready s \<Longrightarrow> contents (push_all xs s) = newest cap (contents s @ map item xs)"
proof (induction xs arbitrary: s)
  case Nil
  then show ?case by (simp add: ready_bound)
next
  case (Cons x xs)
  then show ?case
    using newest_newest_append [of cap "contents s @ [item x]" "map item xs"]
    by (simp add: push_newest push_ready)
qed

end

text \<open>The same with a count of what was dropped and a flag that something was.\<close>

locale counted_ring = ring_buffer contents item push ready cap
  for contents :: "'s \<Rightarrow> 'a list" and item :: "'x \<Rightarrow> 'a" and push :: "'x \<Rightarrow> 's \<Rightarrow> 's"
    and ready :: "'s \<Rightarrow> bool" and cap :: nat +
  fixes dropped :: "'s \<Rightarrow> nat"
    and lost :: "'s \<Rightarrow> bool"
  assumes push_dropped: "ready s \<Longrightarrow>
      dropped (push x s) = dropped s + (if length (contents s) = cap then 1 else 0)"
    and push_lost: "ready s \<Longrightarrow> lost (push x s) = (lost s \<or> length (contents s) = cap)"
begin

lemma dropped_all:
  "ready s \<Longrightarrow> dropped (push_all xs s) = dropped s + (length (contents s) + length xs - cap)"
proof (induction xs arbitrary: s)
  case Nil
  then show ?case using ready_bound [of s] by simp
next
  case (Cons x xs)
  then show ?case using ready_bound [of s] by (auto simp: push_dropped push_ready push_newest)
qed

lemma lost_all:
  "ready s \<Longrightarrow> lost (push_all xs s) = (lost s \<or> cap < length (contents s) + length xs)"
proof (induction xs arbitrary: s)
  case Nil
  then show ?case using ready_bound [of s] by simp
next
  case (Cons x xs)
  then show ?case using ready_bound [of s] by (auto simp: push_lost push_ready push_newest)
qed

end

end
