(* ===== verification/Ecss_Packet.thy ===== *)
theory Ecss_Packet
  imports Prelude
begin

text \<open>
  The packet layer of \<open>smo_common/protocol/ecss_packet.py\<close>: the CCSDS primary header, the ECSS
  PUS secondary header, the CRC-16/CCITT-FALSE and the functions that build TM and TC packets
  and take them apart. Python integers are \<open>int\<close>, byte strings are lists of 8-bit words,
  \<open>struct.pack\<close> and \<open>bytes([..])\<close> fail with a value of \<open>py_error\<close>.
\<close>

section \<open>Headers\<close>

record primary_header =
  ph_version :: int
  ph_packet_type :: int
  ph_sec_hdr_flag :: int
  ph_apid :: int
  ph_sequence_flags :: int
  ph_sequence_count :: int
  ph_data_length :: int

definition packet_type_TM :: int where "packet_type_TM = 0"
definition packet_type_TC :: int where "packet_type_TC = 1"

definition primary_pack :: "primary_header \<Rightarrow> bytes result" where
  "primary_pack h =
     (let packet_id = push_bit 13 (ph_version h) OR push_bit 12 (ph_packet_type h)
            OR push_bit 11 (ph_sec_hdr_flag h) OR (ph_apid h AND 0x7FF);
          seq_ctrl = push_bit 14 (ph_sequence_flags h) OR (ph_sequence_count h AND 0x3FFF)
      in bind_result (pack_be 2 packet_id) (\<lambda>a.
         bind_result (pack_be 2 seq_ctrl) (\<lambda>b.
         bind_result (pack_be 2 (ph_data_length h)) (\<lambda>c. Inr (a @ b @ c)))))"

definition primary_unpack :: "bytes \<Rightarrow> primary_header result" where
  "primary_unpack d =
     (if length d < 6 then Inl ValueError
      else
        let word0 = be_int (pyslice 0 2 d);
            word1 = be_int (pyslice 2 4 d);
            dl = be_int (pyslice 4 6 d)
        in Inr \<lparr>ph_version = drop_bit 13 word0 AND 0x07,
                ph_packet_type = drop_bit 12 word0 AND 0x01,
                ph_sec_hdr_flag = drop_bit 11 word0 AND 0x01,
                ph_apid = word0 AND 0x7FF,
                ph_sequence_flags = drop_bit 14 word1 AND 0x03,
                ph_sequence_count = word1 AND 0x3FFF,
                ph_data_length = dl\<rparr>)"

record secondary_header =
  sh_pus_version :: int
  sh_service :: int
  sh_subtype :: int
  sh_cuc_time :: int

definition secondary_pack :: "secondary_header \<Rightarrow> bytes result" where
  "secondary_pack h =
     (let spare_pus = 0x10 OR (sh_pus_version h AND 0x0F)
      in bind_result (mk_byte spare_pus) (\<lambda>a.
         bind_result (mk_byte (sh_service h)) (\<lambda>b.
         bind_result (mk_byte (sh_subtype h)) (\<lambda>c.
         bind_result (pack_be 4 (sh_cuc_time h)) (\<lambda>d. Inr (a @ b @ c @ d))))))"

definition secondary_unpack :: "bytes \<Rightarrow> secondary_header result" where
  "secondary_unpack d =
     (if length d < 7 then Inl ValueError
      else Inr \<lparr>sh_pus_version = uint (d ! 0) AND 0x0F, sh_service = uint (d ! 1),
                sh_subtype = uint (d ! 2), sh_cuc_time = be_int (pyslice 3 7 d)\<rparr>)"

section \<open>The check sequence\<close>

text \<open>
  The code's register is an unbounded integer: it is shifted eight times per byte without a
  mask and cut to 16 bits once per byte.
\<close>

definition crc_shift :: "int \<Rightarrow> int" where
  "crc_shift crc =
     (if crc AND 0x8000 \<noteq> 0 then push_bit 1 crc XOR 0x1021 else push_bit 1 crc)"

definition crc_byte :: "int \<Rightarrow> byte \<Rightarrow> int" where
  "crc_byte crc b = (crc_shift ^^ 8) (crc XOR push_bit 8 (uint b)) AND 0xFFFF"

definition crc16_ccitt :: "bytes \<Rightarrow> int" where
  "crc16_ccitt d = foldl crc_byte 0xFFFF d"

section \<open>Packets\<close>

record decommutated_packet =
  dp_primary :: primary_header
  dp_secondary :: "secondary_header option"
  dp_data_field :: bytes
  dp_crc :: int
  dp_crc_valid :: bool
  dp_raw :: bytes

text \<open>
  The result \<open>Inr None\<close> is the code's \<open>None\<close>; \<open>Inl\<close> would be an exception, which
  \<open>decommutate_never_raises\<close> below excludes.
\<close>

definition decommutate_fields ::
  "bytes \<Rightarrow> primary_header \<Rightarrow> nat \<Rightarrow> (secondary_header option \<times> bytes) result" where
  "decommutate_fields r p total_len =
     (if ph_sec_hdr_flag p \<noteq> 0 then
        if ph_packet_type p = packet_type_TC then
          if length r \<ge> 6 + 3 then
            let sec_data = pyslice 6 9 r
            in Inr (Some \<lparr>sh_pus_version = uint (sec_data ! 0) AND 0x0F,
                          sh_service = uint (sec_data ! 1), sh_subtype = uint (sec_data ! 2),
                          sh_cuc_time = 0\<rparr>,
                    pyslice 9 (total_len - 2) r)
          else Inr (None, pyslice 6 (total_len - 2) r)
        else
          if length r > 6 + 7 then
            bind_result (secondary_unpack (pyslice 6 13 r)) (\<lambda>s.
            Inr (Some s, pyslice 13 (total_len - 2) r))
          else Inr (None, pyslice 6 (total_len - 2) r)
      else Inr (None, pyslice 6 (total_len - 2) r))"

definition decommutate_packet :: "bytes \<Rightarrow> decommutated_packet option result" where
  "decommutate_packet r =
     (if length r < 8 then Inr None
      else
        bind_result (primary_unpack (pyslice 0 6 r)) (\<lambda>p.
        let total_len = 6 + nat (ph_data_length p) + 1
        in if length r < total_len then Inr None
           else
             let packet_body = pyslice 0 (total_len - 2) r;
                 crc_received = be_int (pyslice (total_len - 2) total_len r);
                 crc_computed = crc16_ccitt packet_body
             in bind_result (decommutate_fields r p total_len) (\<lambda>(s, df).
                Inr (Some \<lparr>dp_primary = p, dp_secondary = s, dp_data_field = df, dp_crc = crc_received,
                           dp_crc_valid = (crc_received = crc_computed),
                           dp_raw = pyslice 0 total_len r\<rparr>))))"

definition finish_packet :: "int \<Rightarrow> int \<Rightarrow> int \<Rightarrow> bytes \<Rightarrow> bytes result" where
  "finish_packet ptype ap seq_count payload =
     bind_result (primary_pack
       \<lparr>ph_version = 0, ph_packet_type = ptype, ph_sec_hdr_flag = 1, ph_apid = ap, ph_sequence_flags = 3,
        ph_sequence_count = seq_count AND 0x3FFF, ph_data_length = int (length payload) + 1\<rparr>)
     (\<lambda>ph. let packet = ph @ payload
           in bind_result (pack_be 2 (crc16_ccitt packet)) (\<lambda>c. Inr (packet @ c)))"

definition build_tm_packet ::
  "int \<Rightarrow> int \<Rightarrow> int \<Rightarrow> bytes \<Rightarrow> int \<Rightarrow> int \<Rightarrow> bytes result" where
  "build_tm_packet ap srv sub d seq_count cuc =
     bind_result (secondary_pack
       \<lparr>sh_pus_version = 2, sh_service = srv, sh_subtype = sub, sh_cuc_time = cuc\<rparr>)
     (\<lambda>sh. finish_packet packet_type_TM ap seq_count (sh @ d))"

definition build_tc_packet :: "int \<Rightarrow> int \<Rightarrow> int \<Rightarrow> bytes \<Rightarrow> int \<Rightarrow> bytes result" where
  "build_tc_packet ap srv sub d seq_count =
     bind_result (mk_byte srv) (\<lambda>a.
     bind_result (mk_byte sub) (\<lambda>b.
     finish_packet packet_type_TC ap seq_count ([0x20] @ a @ b @ d)))"

section \<open>The CRC as a 16-bit register\<close>

text \<open>One shift of the textbook 16-bit register, and the CRC computed with it.\<close>

definition crc_shift16 :: "16 word \<Rightarrow> 16 word" where
  "crc_shift16 c = (if bit c 15 then push_bit 1 c XOR 0x1021 else push_bit 1 c)"

definition crc_byte16 :: "16 word \<Rightarrow> byte \<Rightarrow> 16 word" where
  "crc_byte16 c b = (crc_shift16 ^^ 8) (c XOR push_bit 8 (ucast b))"

definition crc16_register :: "bytes \<Rightarrow> 16 word" where
  "crc16_register d = foldl crc_byte16 0xFFFF d"

lemma and_32768: "(c :: int) AND 32768 = 0 \<longleftrightarrow> \<not> bit c 15"
  using and_exp_eq_0_iff_not_bit [of c 15] by simp

lemma crc_shift_bit: "crc_shift c = (if bit c 15 then push_bit 1 c XOR 0x1021 else push_bit 1 c)"
  by (simp add: crc_shift_def and_32768)

lemma crc_shift_word: "word_of_int (crc_shift c) = crc_shift16 (word_of_int c)"
proof -
  have "bit (word_of_int c :: 16 word) 15 = bit c 15"
    by (simp add: bit_word_of_int_iff)
  moreover have "(word_of_int (push_bit 1 c) :: 16 word) = push_bit 1 (word_of_int c)"
    by (simp add: push_bit_eq_mult)
  moreover have "(word_of_int (push_bit 1 c XOR 0x1021) :: 16 word)
      = word_of_int (push_bit 1 c) XOR 0x1021"
    by (simp only: of_int_xor_eq of_int_numeral)
  ultimately show ?thesis by (simp add: crc_shift_bit crc_shift16_def)
qed

lemma crc_shifts_word: "word_of_int ((crc_shift ^^ n) c) = (crc_shift16 ^^ n) (word_of_int c)"
  by (induction n) (simp_all add: crc_shift_word)

lemma crc_byte_word: "crc_byte c b = uint (crc_byte16 (word_of_int c) b)"
proof -
  have "(word_of_int (c XOR push_bit 8 (uint b)) :: 16 word)
      = word_of_int c XOR push_bit 8 (ucast b)"
    by (rule bit_word_eqI)
      (auto simp: bit_word_of_int_iff bit_xor_iff bit_push_bit_iff bit_uint_iff bit_ucast_iff)
  then have "crc_byte16 (word_of_int c) b
      = word_of_int ((crc_shift ^^ 8) (c XOR push_bit 8 (uint b)))"
    by (simp only: crc_byte16_def crc_shifts_word)
  then show ?thesis
    by (simp only: crc_byte_def and_mask_65535 uint_word_of_int) simp
qed

lemma foldl_crc_byte_word:
  "foldl crc_byte (uint c) d = uint (foldl crc_byte16 c d)"
  by (induction d arbitrary: c) (simp_all add: crc_byte_word)

lemma crc16_register_eq: "crc16_ccitt d = uint (crc16_register d)"
  using foldl_crc_byte_word [of "0xFFFF" d] by (simp add: crc16_ccitt_def crc16_register_def)

lemma crc16_range: "0 \<le> crc16_ccitt d \<and> crc16_ccitt d < 65536"
  using uint_lt2p [of "crc16_register d"] by (simp add: crc16_register_eq)

section \<open>The CRC detects changes\<close>

lemma crc_shift_xor [xor_simps]: "crc_shift (s XOR t) = crc_shift s XOR crc_shift t"
  by (simp add: crc_shift_bit bit_xor_iff push_bit_xor ac_simps)

lemma crc_shifts_xor [xor_simps]:
  "(crc_shift ^^ n) (s XOR t) = (crc_shift ^^ n) s XOR (crc_shift ^^ n) t"
  by (induction n) (simp_all add: crc_shift_xor)

lemma crc_byte_xor: "crc_byte (s XOR t) (a XOR b) = crc_byte s a XOR crc_byte t b"
proof -
  have "(s XOR t) XOR push_bit 8 (uint (a XOR b))
      = (s XOR push_bit 8 (uint a)) XOR (t XOR push_bit 8 (uint b))"
    by (simp add: unsigned_xor_eq push_bit_xor ac_simps)
  then show ?thesis
    unfolding crc_byte_def
    by (simp add: crc_shifts_xor and_mask_65535 take_bit_xor flip: take_bit_eq_mod [of 16, simplified])
qed


lemma take_bit_crc_shift:
  "take_bit 16 (crc_shift c) = take_bit 16 (crc_shift (take_bit 16 c))"
  by (rule bit_eqI) (auto simp: crc_shift_bit bit_take_bit_iff bit_xor_iff bit_mult_2)

lemma crc_shift_masked_zero:
  assumes "0 \<le> c" "c < 65536" "take_bit 16 (crc_shift c) = 0"
  shows "c = 0"
proof (cases "bit c 15")
  case True
  have "bit (take_bit 16 (crc_shift c)) 0"
    by (simp add: crc_shift_bit True bit_take_bit_iff bit_xor_iff bit_mult_2)
  then show ?thesis using assms(3) by simp
next
  case False
  have "bit c n = False" for n
  proof (cases "n < 15")
    case True
    have "bit (take_bit 16 (crc_shift c)) (Suc n) = bit c n"
      using True False by (simp add: crc_shift_bit bit_take_bit_iff bit_mult_2)
    then show ?thesis using assms(3) by simp
  next
    case False
    have "take_bit 16 c = c"
      using assms(1,2) by (simp add: take_bit_int_eq_self)
    then show ?thesis
      using \<open>\<not> bit c 15\<close> False bit_take_bit_iff [of 16 c n] by (cases "n = 15") auto
  qed
  then show ?thesis by (intro bit_eqI) simp
qed

lemma take_bit_crc_shifts_zero:
  "0 \<le> c \<Longrightarrow> c < 65536 \<Longrightarrow> take_bit 16 ((crc_shift ^^ n) c) = 0 \<Longrightarrow> c = 0"
proof (induction n)
  case 0
  then show ?case by (simp add: take_bit_int_eq_self)
next
  case (Suc n)
  let ?d = "take_bit 16 ((crc_shift ^^ n) c)"
  have "take_bit 16 (crc_shift ?d) = 0"
    using Suc.prems(3) take_bit_crc_shift [of "(crc_shift ^^ n) c"] by simp
  moreover have "0 \<le> ?d" "?d < 65536"
    using take_bit_int_less_exp [of 16 "(crc_shift ^^ n) c"] by simp_all
  ultimately have "?d = 0" by (rule crc_shift_masked_zero [rotated 2])
  then show ?case using Suc by simp
qed

lemma crc_byte_range: "0 \<le> crc_byte s a \<and> crc_byte s a < 65536"
  by (simp add: crc_byte_def and_mask_65535)

interpretation crc_reg: xor_register crc_byte "\<lambda>s. 0 \<le> s \<and> s < 65536"
proof unfold_locales
  fix s t :: int and a b :: byte
  show "crc_byte (s XOR t) (a XOR b) = crc_byte s a XOR crc_byte t b"
    by (rule crc_byte_xor)
  show "0 \<le> crc_byte s a \<and> crc_byte s a < 65536"
    by (rule crc_byte_range)
  show "0 \<le> s \<and> s < 65536 \<Longrightarrow> 0 \<le> t \<and> t < 65536 \<Longrightarrow> 0 \<le> s XOR t \<and> s XOR t < 65536"
    using xor_below_exp [of s 16 t] by simp
  assume s: "0 \<le> s \<and> s < 65536" and z: "crc_byte s 0 = 0"
  have "take_bit 16 ((crc_shift ^^ 8) s) = 0"
    using z by (simp add: crc_byte_def take_bit_eq_mod and_mask_65535)
  then show "s = 0" using s take_bit_crc_shifts_zero by blast
qed

text \<open>A byte absorbed by a zero register is a shifted copy of itself, so two bytes are one word.\<close>

lemma crc_byte_low:
  assumes "0 \<le> e" "e < 256"
  shows "(crc_shift ^^ 8) e = push_bit 8 e"
proof -
  have "n \<le> 8 \<Longrightarrow> (crc_shift ^^ n) e = push_bit n e" for n
  proof (induction n)
    case (Suc n)
    have "\<not> bit e (15 - n)"
    proof -
      have "take_bit 8 e = e" using assms by (simp add: take_bit_int_eq_self)
      then show ?thesis using Suc.prems bit_take_bit_iff [of 8 e "15 - n"] by auto
    qed
    then show ?case
      using Suc by (simp add: crc_shift_bit bit_push_bit_iff)
  qed simp
  then show ?thesis by simp
qed

lemma uint_byte_bounds [simp]: "0 \<le> uint (b :: byte)" "uint (b :: byte) < 256"
  using uint_lt2p [of b] by simp_all

lemma crc_byte_of_low: "crc_byte (uint b) 0 = push_bit 8 (uint b)" for b :: byte
proof -
  have "(crc_shift ^^ 8) (uint b) = uint b * 256"
    using crc_byte_low [of "uint b"] by (simp add: push_bit_eq_mult)
  then have "crc_byte (uint b) 0 = uint b * 256 AND 65535"
    by (simp only: crc_byte_def) simp
  then show ?thesis
    using uint_byte_bounds [of b] by (simp add: and_mask_65535 push_bit_eq_mult)
qed

lemma crc_byte_shift: "crc_byte s b = crc_byte (s XOR push_bit 8 (uint b)) 0"
  by (simp add: crc_byte_def)

lemma crc_two_bytes: "foldl crc_byte 0 [a, b] = crc_byte (crc_byte (push_bit 8 (uint a) XOR uint b) 0) 0"
proof -
  have "crc_byte (push_bit 8 (uint a) XOR uint b) 0
      = crc_byte (push_bit 8 (uint a)) 0 XOR push_bit 8 (uint b)"
    using crc_byte_xor [of "push_bit 8 (uint a)" "uint b" 0 0] crc_byte_of_low [of b] by simp
  then show ?thesis
    using crc_byte_shift [of 0 a] crc_byte_shift [of "crc_byte (push_bit 8 (uint a)) 0" b] by simp
qed

lemma xor_shift_add:
  "push_bit 8 (uint (a :: byte)) XOR uint (b :: byte) = uint a * 256 + uint b"
proof -
  have "push_bit 8 (uint a) XOR uint b = push_bit 8 (uint a) OR uint b"
  proof (rule bit_eqI)
    fix m
    have "take_bit 8 (uint b) = uint b" by (simp add: take_bit_int_eq_self)
    then show "bit (push_bit 8 (uint a) XOR uint b) m \<longleftrightarrow> bit (push_bit 8 (uint a) OR uint b) m"
      using bit_take_bit_iff [of 8 "uint b" m]
      by (auto simp: bit_xor_iff bit_or_iff bit_push_bit_iff)
  qed
  then show ?thesis
    using or_shift_add [of "uint b" 8 "uint a"] by simp
qed

lemma crc_two_bytes_zero: "foldl crc_byte 0 [a, b] = 0 \<Longrightarrow> a = 0 \<and> b = 0"
proof -
  let ?v = "push_bit 8 (uint a) XOR uint b"
  have v: "0 \<le> ?v \<and> ?v < 65536"
    using uint_byte_bounds [of a] uint_byte_bounds [of b] unfolding xor_shift_add by linarith
  assume "foldl crc_byte 0 [a, b] = 0"
  then have "crc_byte ?v 0 = 0"
    using crc_reg.absorb_zero [OF crc_byte_range] by (simp only: crc_two_bytes)
  then have "?v = 0" using crc_reg.absorb_zero v by blast
  then have "uint a * 256 + uint b = 0" by (simp only: xor_shift_add)
  then have "uint a = 0" "uint b = 0"
    using uint_byte_bounds [of a] uint_byte_bounds [of b] by linarith+
  then show "a = 0 \<and> b = 0" by (simp add: uint_0_iff)
qed

lemma crc_burst_local:
  assumes "length e = 2" "length e' = 2" "foldl crc_byte s e = foldl crc_byte s e'"
  shows "e = e'"
proof -
  obtain a b a' b' where e: "e = [a, b]" "e' = [a', b']"
    using assms(1,2) by (auto simp: length_Suc_conv numeral_2_eq_2)
  have "foldl crc_byte 0 [a XOR a', b XOR b'] = 0"
    using crc_reg.run_difference [of e e' s] assms e by simp
  then show ?thesis using crc_two_bytes_zero e by (metis xor_byte_eq_0_iff)
qed

lemma crc_burst_iff:
  assumes "length e = 2" "length e' = 2"
  shows "crc16_ccitt (p @ e @ q) = crc16_ccitt (p @ e' @ q) \<longleftrightarrow> e = e'"
  unfolding crc16_ccitt_def
  using crc_reg.run_localises [of "0xFFFF" p e q e'] crc_burst_local [OF assms] by auto

lemma crc_byte_cancel:
  assumes "0 \<le> s" "s < 65536"
  shows "foldl crc_byte s (be_bytes 2 s) = 0"
proof -
  let ?h = "word_of_int (s div 256) :: byte" and ?l = "word_of_int s :: byte"
  have h: "uint ?h = s div 256" "uint ?l = s mod 256"
    using assms by (simp_all add: uint_word_of_int_byte)
  have s: "s = push_bit 8 (uint ?h) XOR uint ?l"
    using xor_shift_add [of ?h ?l] unfolding h by simp
  have "crc_byte s ?h = push_bit 8 (uint ?l)"
    by (subst s, subst crc_byte_shift) (simp only: crc_byte_of_low [symmetric] xor.assoc
        xor.commute [of _ "uint ?l"] xor_self_eq xor.right_neutral)
  moreover have "crc_byte (push_bit 8 (uint ?l)) ?l = 0"
    using crc_byte_shift [of "push_bit 8 (uint ?l)" ?l] crc_reg.absorb_0 by simp
  ultimately show ?thesis by (simp add: numeral_2_eq_2)
qed

section \<open>Header round trips\<close>

definition wf_primary :: "primary_header \<Rightarrow> bool" where
  "wf_primary h \<longleftrightarrow> 0 \<le> ph_version h \<and> ph_version h < 8 \<and> 0 \<le> ph_packet_type h \<and> ph_packet_type h < 2
     \<and> 0 \<le> ph_sec_hdr_flag h \<and> ph_sec_hdr_flag h < 2 \<and> 0 \<le> ph_apid h \<and> ph_apid h < 2048
     \<and> 0 \<le> ph_sequence_flags h \<and> ph_sequence_flags h < 4
     \<and> 0 \<le> ph_sequence_count h \<and> ph_sequence_count h < 16384
     \<and> 0 \<le> ph_data_length h \<and> ph_data_length h < 65536"

lemma packet_id_sum:
  fixes v t s a :: int
  assumes "0 \<le> t" "t < 2" "0 \<le> s" "s < 2" "0 \<le> a" "a < 2048"
  shows "push_bit 13 v OR push_bit 12 t OR push_bit 11 s OR a = v * 8192 + t * 4096 + s * 2048 + a"
  using assms or_shift_add [of a 11 s] or_shift_add [of "s * 2048 + a" 12 t]
    or_shift_add [of "t * 4096 + (s * 2048 + a)" 13 v]
  by (simp only: or.assoc) simp

lemma seq_ctrl_sum:
  fixes f c :: int
  assumes "0 \<le> c" "c < 16384"
  shows "push_bit 14 f OR c = f * 16384 + c"
  using assms or_shift_add [of c 14 f] by simp

lemma packet_id_fields:
  fixes v t s a :: int
  assumes r: "0 \<le> v" "v < 8" "0 \<le> t" "t < 2" "0 \<le> s" "s < 2" "0 \<le> a" "a < 2048"
    and w: "w = v * 8192 + t * 4096 + s * 2048 + a"
  shows "drop_bit 13 w AND 7 = v" "drop_bit 12 w AND 1 = t" "drop_bit 11 w AND 1 = s"
    "w AND 2047 = a" "0 \<le> w" "w < 65536"
proof -
  have "w div 8192 = v" by (rule int_div_pos_eq [where r = "t * 4096 + s * 2048 + a"]) (use r w in \<open>simp add: algebra_simps\<close>)+
  then show "drop_bit 13 w AND 7 = v" using r by (simp add: drop_bit_eq_div and_masks)
  have "w div 4096 = v * 2 + t" by (rule int_div_pos_eq [where r = "s * 2048 + a"]) (use r w in \<open>simp add: algebra_simps\<close>)+
  then show "drop_bit 12 w AND 1 = t" using r by (simp add: drop_bit_eq_div and_masks)
  have "w div 2048 = (v * 2 + t) * 2 + s" by (rule int_div_pos_eq [where r = a]) (use r w in \<open>simp add: algebra_simps\<close>)+
  then have "w div 2048 mod 2 = ((v * 2 + t) * 2 + s) mod 2" by (rule arg_cong)
  also have "\<dots> = s" using mod_mult_self3 [of "v * 2 + t" 2 s] r by (simp only: mod_pos_pos_trivial)
  finally show "drop_bit 11 w AND 1 = s" by (simp add: drop_bit_eq_div and_masks)
  have "w mod 2048 = a" by (rule int_mod_pos_eq [where q = "(v * 2 + t) * 2 + s"]) (use r w in \<open>simp add: algebra_simps\<close>)+
  then show "w AND 2047 = a" by (simp add: and_masks)
  show "0 \<le> w" "w < 65536" using r w by linarith+
qed

lemma seq_ctrl_fields:
  fixes f c :: int
  assumes r: "0 \<le> f" "f < 4" "0 \<le> c" "c < 16384" and w: "w = f * 16384 + c"
  shows "drop_bit 14 w AND 3 = f" "w AND 16383 = c" "0 \<le> w" "w < 65536"
  using r unfolding w by (simp_all add: drop_bit_eq_div and_masks)

lemma primary_pack_eq:
  assumes "wf_primary h"
  shows "primary_pack h = Inr
     (be_bytes 2 (ph_version h * 8192 + ph_packet_type h * 4096 + ph_sec_hdr_flag h * 2048 + ph_apid h)
      @ be_bytes 2 (ph_sequence_flags h * 16384 + ph_sequence_count h)
      @ be_bytes 2 (ph_data_length h))"
proof -
  have m: "ph_apid h AND 2047 = ph_apid h" "ph_sequence_count h AND 16383 = ph_sequence_count h"
    using assms by (simp_all add: wf_primary_def and_masks)
  show ?thesis
    using assms unfolding primary_pack_def Let_def m
    by (simp add: wf_primary_def packet_id_sum seq_ctrl_sum)
qed

lemma primary_unpack_pack:
  assumes "wf_primary h" "primary_pack h = Inr bs"
  shows "length bs = 6 \<and> primary_unpack (bs @ rest) = Inr h"
proof -
  let ?w0 = "ph_version h * 8192 + ph_packet_type h * 4096 + ph_sec_hdr_flag h * 2048 + ph_apid h"
  let ?w1 = "ph_sequence_flags h * 16384 + ph_sequence_count h"
  have bs: "bs = be_bytes 2 ?w0 @ be_bytes 2 ?w1 @ be_bytes 2 (ph_data_length h)"
    using assms primary_pack_eq by simp
  note r = assms(1) [unfolded wf_primary_def]
  have w0: "drop_bit 13 ?w0 AND 7 = ph_version h" "drop_bit 12 ?w0 AND 1 = ph_packet_type h"
    "drop_bit 11 ?w0 AND 1 = ph_sec_hdr_flag h" "?w0 AND 2047 = ph_apid h" "0 \<le> ?w0" "?w0 < 65536"
    by (rule packet_id_fields [OF _ _ _ _ _ _ _ _ refl], (use r in blast)+)+
  have w1: "drop_bit 14 ?w1 AND 3 = ph_sequence_flags h" "?w1 AND 16383 = ph_sequence_count h"
    "0 \<le> ?w1" "?w1 < 65536"
    by (rule seq_ctrl_fields [OF _ _ _ _ refl], (use r in blast)+)+
  have f: "be_int (pyslice 0 2 (bs @ rest)) = ?w0" "be_int (pyslice 2 4 (bs @ rest)) = ?w1"
    "be_int (pyslice 4 6 (bs @ rest)) = ph_data_length h"
    using w0(5,6) w1(3,4) r unfolding bs
    by (simp_all add: pyslice_def be_int_be_bytes del: be_bytes.simps)
  have len: "length bs = 6" unfolding bs by simp
  then show ?thesis
    unfolding primary_unpack_def Let_def f w0(1-4) w1(1,2) by simp
qed

lemma primary_unpack_wf: "primary_unpack d = Inr h \<Longrightarrow> wf_primary h"
  using be_int_less [of "pyslice 4 6 d" 2]
  by (auto simp: primary_unpack_def wf_primary_def Let_def and_masks split: if_splits)

definition wf_secondary :: "secondary_header \<Rightarrow> bool" where
  "wf_secondary h \<longleftrightarrow> 0 \<le> sh_pus_version h \<and> sh_pus_version h < 16
     \<and> 0 \<le> sh_service h \<and> sh_service h < 256 \<and> 0 \<le> sh_subtype h \<and> sh_subtype h < 256
     \<and> 0 \<le> sh_cuc_time h \<and> sh_cuc_time h < 2 ^ 32"

lemma secondary_unpack_pack:
  assumes "wf_secondary h"
  shows "\<exists>bs. secondary_pack h = Inr bs \<and> length bs = 7
    \<and> (\<forall>rest. secondary_unpack (bs @ rest) = Inr h)"
proof -
  let ?v = "sh_pus_version h"
  have v: "0 \<le> ?v" "?v < 16" using assms by (simp_all add: wf_secondary_def)
  have sp: "0x10 OR (?v AND 0x0F) = 16 + ?v"
    using or_shift_add [of ?v 4 1] v by (simp add: and_masks)
  have u: "uint (word_of_int (16 + ?v) :: byte) AND 15 = ?v"
    unfolding uint_word_of_int_byte and_masks using v by simp
  show ?thesis
    using assms v u unfolding secondary_pack_def Let_def sp wf_secondary_def
    by (simp add: secondary_unpack_def pyslice_def uint_word_of_int_byte be_int_be_bytes
        del: be_bytes.simps)
qed

section \<open>Packet round trips\<close>

definition packet_header :: "int \<Rightarrow> int \<Rightarrow> int \<Rightarrow> nat \<Rightarrow> primary_header" where
  "packet_header ptype ap seq_count n =
     \<lparr>ph_version = 0, ph_packet_type = ptype, ph_sec_hdr_flag = 1, ph_apid = ap mod 2048,
      ph_sequence_flags = 3, ph_sequence_count = seq_count mod 16384,
      ph_data_length = int n + 1\<rparr>"

lemma wf_packet_header:
  "0 \<le> t \<Longrightarrow> t < 2 \<Longrightarrow> n < 65535 \<Longrightarrow> wf_primary (packet_header t ap sc n)"
  by (simp add: wf_primary_def packet_header_def)

lemma finish_packet_eq:
  assumes "0 \<le> t" "t < 2" "length payload < 65535"
  shows "\<exists>ph. primary_pack (packet_header t ap sc (length payload)) = Inr ph \<and> length ph = 6 \<and>
    finish_packet t ap sc payload = Inr (ph @ payload @ be_bytes 2 (crc16_ccitt (ph @ payload)))"
proof -
  let ?h = "packet_header t ap sc (length payload)"
  have wf: "wf_primary ?h" by (rule wf_packet_header [OF assms])
  then obtain ph where ph: "primary_pack ?h = Inr ph" using primary_pack_eq by blast
  have m: "primary_pack \<lparr>ph_version = 0, ph_packet_type = t, ph_sec_hdr_flag = 1, ph_apid = ap,
      ph_sequence_flags = 3, ph_sequence_count = sc AND 0x3FFF,
      ph_data_length = int (length payload) + 1\<rparr> = primary_pack ?h"
    by (simp add: primary_pack_def packet_header_def and_masks)
  show ?thesis
    using ph primary_unpack_pack [OF wf ph] crc16_range [of "ph @ payload"]
    unfolding finish_packet_def m by (simp del: be_bytes.simps)
qed

lemma decommutate_finish:
  assumes "0 \<le> t" "t < 2" "length payload < 65535" "finish_packet t ap sc payload = Inr pkt"
  shows "decommutate_packet (pkt @ rest) =
     bind_result (decommutate_fields (pkt @ rest) (packet_header t ap sc (length payload)) (length pkt))
       (\<lambda>(s, df). Inr (Some \<lparr>dp_primary = packet_header t ap sc (length payload), dp_secondary = s,
          dp_data_field = df, dp_crc = crc16_ccitt (take (length pkt - 2) pkt), dp_crc_valid = True,
          dp_raw = pkt\<rparr>))"
    and "length pkt = length payload + 8" "pyslice 6 (length payload + 6) pkt = payload"
proof -
  let ?h = "packet_header t ap sc (length payload)"
  obtain ph where ph: "primary_pack ?h = Inr ph" "length ph = 6"
    and pkt: "pkt = ph @ payload @ be_bytes 2 (crc16_ccitt (ph @ payload))"
    using finish_packet_eq [OF assms(1-3), of ap sc] assms(4) by auto
  have wf: "wf_primary ?h" by (rule wf_packet_header [OF assms(1-3)])
  have len: "length pkt = length payload + 8" using ph by (simp add: pkt del: be_bytes.simps)
  have up: "primary_unpack (pyslice 0 6 (pkt @ rest)) = Inr ?h"
    using primary_unpack_pack [OF wf ph(1), of "[]"] ph(2) by (simp add: pyslice_def pkt del: be_bytes.simps)
  have dl: "6 + nat (ph_data_length ?h) + 1 = length pkt"
    by (simp add: packet_header_def len)
  have body: "pyslice 0 (length pkt - 2) (pkt @ rest) = ph @ payload"
    "pyslice (length pkt - 2) (length pkt) (pkt @ rest) = be_bytes 2 (crc16_ccitt (ph @ payload))"
    "pyslice 0 (length pkt) (pkt @ rest) = pkt" "take (length pkt - 2) pkt = ph @ payload"
    using ph(2) len by (simp_all add: pyslice_def pkt del: be_bytes.simps)
  have c: "be_int (be_bytes 2 (crc16_ccitt (ph @ payload))) = crc16_ccitt (ph @ payload)"
    using crc16_range [of "ph @ payload"] by (simp add: be_int_be_bytes del: be_bytes.simps)
  show "decommutate_packet (pkt @ rest) =
     bind_result (decommutate_fields (pkt @ rest) ?h (length pkt))
       (\<lambda>(s, df). Inr (Some \<lparr>dp_primary = ?h, dp_secondary = s, dp_data_field = df,
          dp_crc = crc16_ccitt (take (length pkt - 2) pkt), dp_crc_valid = True, dp_raw = pkt\<rparr>))"
    using len unfolding decommutate_packet_def up bind_result_simps Let_def dl body c by simp
  show "length pkt = length payload + 8" by (rule len)
  show "pyslice 6 (length payload + 6) pkt = payload"
    using ph(2) by (simp add: pyslice_def pkt del: be_bytes.simps)
qed

section \<open>Acceptance and the check sequence\<close>

definition packet_length :: "bytes \<Rightarrow> nat" where
  "packet_length r = 7 + nat (be_int (pyslice 4 6 r))"

lemma crc_residue: "crc16_ccitt (m @ be_bytes 2 (crc16_ccitt m)) = 0"
  using crc_byte_cancel [of "crc16_ccitt m"] crc16_range [of m]
  by (simp add: crc16_ccitt_def del: be_bytes.simps)

lemma crc_residue_iff:
  assumes "length c = 2"
  shows "crc16_ccitt (m @ c) = 0 \<longleftrightarrow> be_int c = crc16_ccitt m"
proof
  assume z: "crc16_ccitt (m @ c) = 0"
  have "foldl crc_byte (crc16_ccitt m) c = foldl crc_byte (crc16_ccitt m) (be_bytes 2 (crc16_ccitt m))"
    using z crc_residue [of m] by (simp add: crc16_ccitt_def del: be_bytes.simps)
  then have "c = be_bytes 2 (crc16_ccitt m)"
    by (rule crc_burst_local [rotated 2]) (simp_all add: assms del: be_bytes.simps)
  then show "be_int c = crc16_ccitt m"
    using crc16_range [of m] by (simp add: be_int_be_bytes del: be_bytes.simps)
next
  assume "be_int c = crc16_ccitt m"
  then have "c = be_bytes 2 (crc16_ccitt m)"
    using be_bytes_be_int [of c] assms by simp
  then show "crc16_ccitt (m @ c) = 0" by (simp add: crc_residue)
qed

lemma decommutate_fields_total: "\<exists>s df. decommutate_fields r p n = Inr (s, df)"
  by (auto simp: decommutate_fields_def secondary_unpack_def Let_def)

lemma primary_unpack_length:
  assumes "6 \<le> length r"
  shows "\<exists>p. primary_unpack (pyslice 0 6 r) = Inr p
    \<and> 6 + nat (ph_data_length p) + 1 = packet_length r"
proof -
  have "pyslice 4 6 (pyslice 0 6 r) = pyslice 4 6 r"
    by (simp add: pyslice_def drop_take)
  then show ?thesis
    using assms by (simp add: primary_unpack_def packet_length_def Let_def)
qed

lemma decommutate_short:
  "length r < 8 \<or> length r < packet_length r \<Longrightarrow> decommutate_packet r = Inr None"
proof (cases "length r < 8")
  case True
  then show ?thesis by (simp add: decommutate_packet_def)
next
  case False
  then obtain p where p: "primary_unpack (pyslice 0 6 r) = Inr p"
    "6 + nat (ph_data_length p) + 1 = packet_length r"
    using primary_unpack_length [of r] by auto
  assume "length r < 8 \<or> length r < packet_length r"
  then have "length r < packet_length r" using False by simp
  then show ?thesis
    unfolding decommutate_packet_def p bind_result_simps Let_def by simp
qed

lemma decommutate_long:
  assumes "8 \<le> length r" "packet_length r \<le> length r"
  shows "\<exists>d. decommutate_packet r = Inr (Some d) \<and> dp_raw d = take (packet_length r) r
    \<and> (dp_crc_valid d \<longleftrightarrow> crc16_ccitt (take (packet_length r) r) = 0)"
proof -
  let ?n = "packet_length r"
  obtain p where p: "primary_unpack (pyslice 0 6 r) = Inr p"
    "6 + nat (ph_data_length p) + 1 = packet_length r"
    using primary_unpack_length [of r] assms by auto
  obtain s df where f: "decommutate_fields r p (packet_length r) = Inr (s, df)"
    using decommutate_fields_total by blast
  have n: "2 \<le> ?n" by (simp add: packet_length_def)
  have "take (?n - 2) r @ take 2 (drop (?n - 2) r) = take ?n r"
    using take_add [of "?n - 2" 2 r] n by (simp only: le_add_diff_inverse2)
  then have split: "pyslice 0 (?n - 2) r @ pyslice (?n - 2) ?n r = take ?n r"
    using n by (simp add: pyslice_def)
  have "length (pyslice (?n - 2) ?n r) = 2" using n assms by simp
  then have "be_int (pyslice (?n - 2) ?n r) = crc16_ccitt (pyslice 0 (?n - 2) r)
      \<longleftrightarrow> crc16_ccitt (take ?n r) = 0"
    using crc_residue_iff split by metis
  then show ?thesis
    using assms unfolding decommutate_packet_def p bind_result_simps Let_def
    by (simp add: f pyslice_0)
qed

lemma decommutate_SomeD:
  assumes "decommutate_packet r = Inr (Some d)"
  shows "8 \<le> length r \<and> packet_length r \<le> length r \<and> dp_raw d = take (packet_length r) r
    \<and> (dp_crc_valid d \<longleftrightarrow> crc16_ccitt (take (packet_length r) r) = 0)"
proof -
  have "8 \<le> length r \<and> packet_length r \<le> length r"
    using assms decommutate_short [of r] by fastforce
  then show ?thesis using decommutate_long [of r] assms by auto
qed

lemma secondary_pack_tm:
  "secondary_pack \<lparr>sh_pus_version = 2, sh_service = srv, sh_subtype = sub, sh_cuc_time = cuc\<rparr> =
     bind_result (mk_byte srv) (\<lambda>b. bind_result (mk_byte sub) (\<lambda>c.
     bind_result (pack_be 4 cuc) (\<lambda>d. Inr ([0x12] @ b @ c @ d))))"
  by (simp add: secondary_pack_def)

lemma finish_packet_too_long:
  assumes "65535 \<le> length payload"
  shows "finish_packet t ap sc payload = Inl StructError"
proof -
  have "pack_be 2 (int (length payload) + 1) = Inl StructError"
    using assms by (simp add: pack_be_def)
  then show ?thesis
    by (auto simp: finish_packet_def primary_pack_def Let_def pack_be_def simp del: be_bytes.simps)
qed

lemma build_tm_packet_ok:
  assumes "srv \<in> {0..<256}" "sub \<in> {0..<256}" "cuc \<in> {0..<2 ^ 32}" "length d + 7 < 65535"
  shows "\<exists>pkt. build_tm_packet ap srv sub d sc cuc = Inr pkt"
proof -
  let ?p = "[0x12, word_of_int srv, word_of_int sub] @ be_bytes 4 cuc @ d"
  have "\<exists>ph. finish_packet packet_type_TM ap sc ?p = Inr ph"
    using finish_packet_eq [of packet_type_TM ?p ap sc] assms
    by (auto simp: packet_type_TM_def simp del: be_bytes.simps)
  then show ?thesis
    using assms by (simp add: build_tm_packet_def secondary_pack_tm del: be_bytes.simps)
qed

section \<open>Properties\<close>

text \<open>
  C33: A TM packet that \<open>build_tm_packet\<close> returns, followed by any further bytes, is taken apart by
  \<open>decommutate_packet\<close> into exactly the header fields, the data and a valid check sequence.
\<close>

theorem tm_packet_roundtrip:
  assumes "0 \<le> srv" "srv < 256" "0 \<le> sub" "sub < 256" "0 \<le> cuc" "cuc < 2 ^ 32"
    and "length d + 7 < 65535"
  shows "\<exists>pkt c. build_tm_packet ap srv sub d sc cuc = Inr pkt \<and> length pkt = length d + 15 \<and>
    decommutate_packet (pkt @ rest) = Inr (Some
      \<lparr>dp_primary = packet_header packet_type_TM ap sc (length d + 7),
       dp_secondary = Some \<lparr>sh_pus_version = 2, sh_service = srv, sh_subtype = sub, sh_cuc_time = cuc\<rparr>,
       dp_data_field = d, dp_crc = c, dp_crc_valid = True, dp_raw = pkt\<rparr>)"
proof -
  let ?s = "\<lparr>sh_pus_version = 2, sh_service = srv, sh_subtype = sub, sh_cuc_time = cuc\<rparr>"
  have "wf_secondary ?s" using assms by (simp add: wf_secondary_def)
  then obtain sh where sh: "secondary_pack ?s = Inr sh" "length sh = 7"
    "\<And>rest. secondary_unpack (sh @ rest) = Inr ?s"
    using secondary_unpack_pack by blast
  have t: "0 \<le> packet_type_TM" "packet_type_TM < 2" "length (sh @ d) < 65535"
    using assms sh(2) by (simp_all add: packet_type_TM_def)
  obtain pkt where pkt: "finish_packet packet_type_TM ap sc (sh @ d) = Inr pkt"
    using finish_packet_eq [OF t] by blast
  note D = decommutate_finish(1) [OF t pkt, of rest] decommutate_finish(2,3) [OF t pkt]
  have len: "length pkt = length d + 15" using D(2) sh(2) by simp
  have p: "pyslice 6 (length d + 13) pkt = sh @ d" using D(3) sh(2) by (simp add: add.commute)
  have "pyslice 6 13 pkt = take 7 (pyslice 6 (length d + 13) pkt)"
    by (simp add: pyslice_def min_def)
  then have s6: "pyslice 6 13 pkt = sh" using p sh(2) by simp
  have "pyslice 13 (length d + 13) pkt = drop 7 (pyslice 6 (length d + 13) pkt)"
    by (simp add: pyslice_def drop_take)
  then have s13: "pyslice 13 (13 + length d) pkt = d" using p sh(2) by (simp add: add.commute)
  have "secondary_unpack sh = Inr ?s" using sh(3) [of "[]"] by simp
  then have "decommutate_fields (pkt @ rest) (packet_header packet_type_TM ap sc (length (sh @ d)))
      (length pkt) = Inr (Some ?s, d)"
    using len by (simp add: decommutate_fields_def packet_header_def packet_type_TM_def
        packet_type_TC_def pyslice_append_left s6 s13 numeral_3_eq_3)
  then show ?thesis
    using D(1) len pkt sh(1,2) by (simp add: build_tm_packet_def add.commute)
qed

theorem tm_packet_roundtrip_witness:
  "\<exists>pkt c. build_tm_packet 1 3 25 [1, 2, 3] 7 1000 = Inr pkt \<and> length pkt = 18 \<and>
    decommutate_packet (pkt @ [9]) = Inr (Some
      \<lparr>dp_primary = packet_header packet_type_TM 1 7 10,
       dp_secondary = Some \<lparr>sh_pus_version = 2, sh_service = 3, sh_subtype = 25, sh_cuc_time = 1000\<rparr>,
       dp_data_field = [1, 2, 3], dp_crc = c, dp_crc_valid = True, dp_raw = pkt\<rparr>)"
  using tm_packet_roundtrip [of 3 25 1000 "[1, 2, 3]" 1 7 "[9]"] by simp

text \<open>
  The same round trip for a TC packet. The three-byte secondary header of \<open>build_tc_packet\<close>
  puts the PUS version into the high half of its first byte (0x20), while \<open>decommutate_packet\<close>
  reads the low half, so every TC comes back with PUS version 0 and time 0.
\<close>

theorem tc_packet_roundtrip:
  assumes "0 \<le> srv" "srv < 256" "0 \<le> sub" "sub < 256" and "length d + 3 < 65535"
  shows "\<exists>pkt c. build_tc_packet ap srv sub d sc = Inr pkt \<and> length pkt = length d + 11 \<and>
    decommutate_packet (pkt @ rest) = Inr (Some
      \<lparr>dp_primary = packet_header packet_type_TC ap sc (length d + 3),
       dp_secondary = Some \<lparr>sh_pus_version = 0, sh_service = srv, sh_subtype = sub, sh_cuc_time = 0\<rparr>,
       dp_data_field = d, dp_crc = c, dp_crc_valid = True, dp_raw = pkt\<rparr>)"
proof -
  let ?sh = "[0x20, word_of_int srv, word_of_int sub] :: bytes"
  have t: "0 \<le> packet_type_TC" "packet_type_TC < 2" "length (?sh @ d) < 65535"
    using assms by (simp_all add: packet_type_TC_def)
  obtain pkt where pkt: "finish_packet packet_type_TC ap sc (?sh @ d) = Inr pkt"
    using finish_packet_eq [OF t] by blast
  note D = decommutate_finish(1) [OF t pkt, of rest] decommutate_finish(2,3) [OF t pkt]
  have len: "length pkt = length d + 11" using D(2) by simp
  have p: "pyslice 6 (length d + 9) pkt = ?sh @ d" using D(3) by (simp add: add.commute)
  have "pyslice 6 9 pkt = take 3 (pyslice 6 (length d + 9) pkt)"
    by (simp add: pyslice_def min_def)
  then have s6: "pyslice 6 9 pkt = ?sh" using p by (simp add: numeral_3_eq_3)
  have "pyslice 9 (length d + 9) pkt = drop 3 (pyslice 6 (length d + 9) pkt)"
    by (simp add: pyslice_def drop_take)
  then have s9: "pyslice 9 (9 + length d) pkt = d" using p by (simp add: add.commute numeral_3_eq_3)
  have u: "uint (word_of_int srv :: byte) = srv" "uint (word_of_int sub :: byte) = sub"
    unfolding uint_word_of_int_byte using assms by simp_all
  have "decommutate_fields (pkt @ rest) (packet_header packet_type_TC ap sc (length (?sh @ d)))
      (length pkt)
    = Inr (Some \<lparr>sh_pus_version = 0, sh_service = srv, sh_subtype = sub, sh_cuc_time = 0\<rparr>, d)"
    using len by (simp add: decommutate_fields_def packet_header_def packet_type_TM_def
        packet_type_TC_def pyslice_append_left s6 s9 u)
  then show ?thesis
    using D(1) len pkt assms by (simp add: build_tc_packet_def add.commute numeral_3_eq_3)
qed

theorem tc_packet_roundtrip_witness:
  "\<exists>pkt c. build_tc_packet 1 17 1 [] 5 = Inr pkt \<and> length pkt = 11 \<and>
    decommutate_packet (pkt @ []) = Inr (Some
      \<lparr>dp_primary = packet_header packet_type_TC 1 5 3,
       dp_secondary = Some \<lparr>sh_pus_version = 0, sh_service = 17, sh_subtype = 1, sh_cuc_time = 0\<rparr>,
       dp_data_field = [], dp_crc = c, dp_crc_valid = True, dp_raw = pkt\<rparr>)"
  using tc_packet_roundtrip [of 17 1 "[]" 1 5 "[]"] by simp

text \<open>
  \<open>build_tm_packet\<close> fails exactly when a service or subtype is not a byte (\<open>ValueError\<close>, checked
  first), the time is not a 32-bit value, or the packet is too long for the length field
  (\<open>struct.error\<close>); APID and sequence count never make it fail.
\<close>

theorem build_tm_packet_errors:
  "(build_tm_packet ap srv sub d sc cuc = Inl ValueError \<longleftrightarrow>
      \<not> (srv \<in> {0..<256} \<and> sub \<in> {0..<256})) \<and>
   (build_tm_packet ap srv sub d sc cuc = Inl StructError \<longleftrightarrow>
      srv \<in> {0..<256} \<and> sub \<in> {0..<256} \<and> \<not> (cuc \<in> {0..<2 ^ 32} \<and> length d + 7 < 65535)) \<and>
   ((\<exists>pkt. build_tm_packet ap srv sub d sc cuc = Inr pkt) \<longleftrightarrow>
      srv \<in> {0..<256} \<and> sub \<in> {0..<256} \<and> cuc \<in> {0..<2 ^ 32} \<and> length d + 7 < 65535)"
proof -
  let ?r = "build_tm_packet ap srv sub d sc cuc"
  consider (v) "srv \<notin> {0..<256} \<or> sub \<notin> {0..<256}"
    | (s) "srv \<in> {0..<256}" "sub \<in> {0..<256}" "cuc \<notin> {0..<2 ^ 32} \<or> 65535 \<le> length d + 7"
    | (ok) "srv \<in> {0..<256}" "sub \<in> {0..<256}" "cuc \<in> {0..<2 ^ 32}" "length d + 7 < 65535"
    by force
  then show ?thesis
  proof cases
    case v
    then have "?r = Inl ValueError"
      by (auto simp: build_tm_packet_def secondary_pack_tm mk_byte_def)
    then show ?thesis using v by auto
  next
    case s
    then have "?r = Inl StructError"
      using finish_packet_too_long
      by (auto simp: build_tm_packet_def secondary_pack_tm pack_be_def simp del: be_bytes.simps)
    then show ?thesis using s by auto
  next
    case ok
    then obtain pkt where "?r = Inr pkt"
      using build_tm_packet_ok by blast
    then show ?thesis using ok by auto
  qed
qed

text \<open>
  C34: error detection. Take any packet that decommutates as valid and change two neighbouring
  bytes after the primary header, the check sequence included, in any way: the result still
  decommutates, and its check sequence is reported invalid.
\<close>

theorem packet_corruption_detected:
  assumes "decommutate_packet (p @ e @ q) = Inr (Some d)" "dp_crc_valid d" "dp_raw d = p @ e @ q"
    and "6 \<le> length p" "length e = 2" "length e' = 2" "e' \<noteq> e"
  shows "\<exists>d'. decommutate_packet (p @ e' @ q) = Inr (Some d') \<and> \<not> dp_crc_valid d'"
proof -
  let ?r = "p @ e @ q" and ?r' = "p @ e' @ q"
  note D = decommutate_SomeD [OF assms(1)]
  have n: "packet_length ?r' = packet_length ?r"
    using assms(4) by (simp add: packet_length_def pyslice_def)
  have full: "take (packet_length ?r) ?r = ?r" using D assms(3) by simp
  then have all: "packet_length ?r = length ?r"
    using D by (metis length_take min.absorb2)
  have "crc16_ccitt ?r = 0" using D assms(2) full by simp
  then have "crc16_ccitt ?r' \<noteq> 0" using crc_burst_iff [OF assms(5,6)] assms(7) by metis
  moreover have "take (packet_length ?r') ?r' = ?r'" using n all assms(5,6) by simp
  moreover have "8 \<le> length ?r'" "packet_length ?r' \<le> length ?r'"
    using D n all assms(5,6) by simp_all
  ultimately show ?thesis using decommutate_long [of ?r'] by auto
qed

text \<open>The TC packet of S17.1 (connection test) on APID 1, as the check evaluates it.\<close>

lemma connection_test_packet:
  "decommutate_packet ([24, 1, 192, 5, 0, 4, 32] @ [17, 1] @ [124, 224]) =
     Inr (Some \<lparr>dp_primary = packet_header 1 1 5 3,
       dp_secondary = Some \<lparr>sh_pus_version = 0, sh_service = 17, sh_subtype = 1, sh_cuc_time = 0\<rparr>,
       dp_data_field = [], dp_crc = 31968, dp_crc_valid = True,
       dp_raw = [24, 1, 192, 5, 0, 4, 32, 17, 1, 124, 224]\<rparr>)"
  by code_simp

theorem packet_corruption_detected_witness:
  "\<exists>d'. decommutate_packet ([24, 1, 192, 5, 0, 4, 32] @ [17, 2] @ [124, 224]) = Inr (Some d') \<and>
     \<not> dp_crc_valid d'"
  by (rule packet_corruption_detected [OF connection_test_packet]) simp_all

text \<open>
  The code's unbounded integer register, masked only once per byte, computes the CRC of the
  textbook 16-bit register that drops the carry at every shift.
\<close>

theorem crc16_equivalence: "crc16_ccitt d = uint (crc16_register d) \<and> crc16_ccitt d \<in> {0..<65536}"
  using crc16_range by (simp add: crc16_register_eq)

end
