(* ===== verification/Bch_Cltu.thy ===== *)
theory Bch_Cltu
  imports Prelude
begin

text \<open>
  The uplink code of \<open>smo_rfsim/ccsds/bch.py\<close> and \<open>smo_rfsim/ccsds/tc_cltu.py\<close>: BCH(64,56) code
  blocks (parity by a 7-bit shift register, check, single-bit correction by trial) and the
  CLTU that wraps a telecommand frame into code blocks between a start and a tail sequence.
\<close>

section \<open>Code blocks\<close>

definition bch_bit :: "int \<Rightarrow> int \<Rightarrow> int" where
  "bch_bit sr input_bit =
     (let feedback = input_bit XOR (drop_bit 6 sr AND 1);
          sr' = push_bit 1 sr AND 0x7F
      in if feedback \<noteq> 0 then sr' XOR 0x45 else sr')"

definition bch_byte :: "int \<Rightarrow> byte \<Rightarrow> int" where
  "bch_byte sr b = foldl (\<lambda>sr bit_pos. bch_bit sr (drop_bit bit_pos (uint b) AND 1)) sr [7, 6, 5, 4, 3, 2, 1, 0]"

definition bch_parity :: "bytes \<Rightarrow> int" where
  "bch_parity d =
     (let sr = foldl bch_byte 0 d;
          filler = NOT sr AND 1;
          parity = push_bit 1 (sr AND 0x7F) OR filler
      in parity AND 0xFF)"

definition encode_code_block :: "bytes \<Rightarrow> bytes result" where
  "encode_code_block d =
     (if length d \<noteq> 7 then Inl ValueError
      else bind_result (mk_byte (bch_parity d)) (\<lambda>p. Inr (d @ p)))"

definition check_code_block :: "bytes \<Rightarrow> (bytes \<times> bool) result" where
  "check_code_block block =
     (if length block \<noteq> 8 then Inl ValueError
      else let d = pyslice 0 7 block
           in Inr (d, uint (block ! 7) = bch_parity d))"

text \<open>\<open>block_arr[byte_idx] ^= (1 << bit_idx)\<close>\<close>

definition flip_bit_at :: "nat \<Rightarrow> nat \<Rightarrow> bytes \<Rightarrow> bytes" where
  "flip_bit_at i j block = block[i := block ! i XOR push_bit j 1]"

text \<open>The search over all 64 positions: flip, check, return or flip back.\<close>

fun try_flips :: "(nat \<times> nat) list \<Rightarrow> bytes \<Rightarrow> bytes option result" where
  "try_flips [] arr = Inr None"
| "try_flips ((i, j) # ps) arr =
     (let arr' = flip_bit_at i j arr
      in bind_result (check_code_block arr') (\<lambda>(d, v).
         if v then Inr (Some d) else try_flips ps (flip_bit_at i j arr')))"

definition bit_positions :: "(nat \<times> nat) list" where
  "bit_positions = List.product [0, 1, 2, 3, 4, 5, 6, 7] [0, 1, 2, 3, 4, 5, 6, 7]"

definition correct_code_block :: "bytes \<Rightarrow> (bytes \<times> bool \<times> nat) result" where
  "correct_code_block block =
     bind_result (check_code_block block) (\<lambda>(d, valid).
     if valid then Inr (d, True, 0)
     else bind_result (try_flips bit_positions block) (\<lambda>r.
       case r of Some d' \<Rightarrow> Inr (d', True, 1) | None \<Rightarrow> Inr (d, False, 0)))"

section \<open>The CLTU\<close>

definition START_SEQUENCE :: bytes where "START_SEQUENCE = [0xEB, 0x90]"
definition TAIL_SEQUENCE :: bytes where
  "TAIL_SEQUENCE = [0xC5, 0xC5, 0xC5, 0xC5, 0xC5, 0xC5, 0xC5, 0x79]"

definition pad_frame :: "bytes \<Rightarrow> bytes" where
  "pad_frame tc_frame =
     (let remainder = length tc_frame mod 7
      in if remainder \<noteq> 0 then tc_frame @ replicate (7 - remainder) 0x55 else tc_frame)"

fun encode_blocks :: "bytes list \<Rightarrow> bytes \<Rightarrow> bytes result" where
  "encode_blocks [] cltu = Inr cltu"
| "encode_blocks (b # bs) cltu =
     bind_result (encode_code_block b) (\<lambda>cb. encode_blocks bs (cltu @ cb))"

definition encode_cltu :: "bytes \<Rightarrow> bytes result" where
  "encode_cltu tc_frame =
     bind_result (encode_blocks (chunks 7 (pad_frame tc_frame)) START_SEQUENCE)
       (\<lambda>cltu. Inr (cltu @ TAIL_SEQUENCE))"

fun decode_blocks :: "bool \<Rightarrow> bytes list \<Rightarrow> bytes \<Rightarrow> bytes option result" where
  "decode_blocks correct_errors [] tc_frame = Inr (Some tc_frame)"
| "decode_blocks correct_errors (b # bs) tc_frame =
     bind_result
       (if correct_errors
        then bind_result (correct_code_block b) (\<lambda>(d, valid, corrections). Inr (d, valid))
        else check_code_block b)
       (\<lambda>(d, valid). if \<not> valid then Inr None
                     else decode_blocks correct_errors bs (tc_frame @ d))"

definition decode_cltu :: "bytes \<Rightarrow> bool \<Rightarrow> bytes option result" where
  "decode_cltu cltu correct_errors =
     (if length cltu < length START_SEQUENCE + 8 + length TAIL_SEQUENCE then Inr None
      else if take 2 cltu \<noteq> START_SEQUENCE then Inr None
      else if drop (length cltu - 8) cltu \<noteq> TAIL_SEQUENCE then Inr None
      else
        let payload = pyslice 2 (length cltu - 8) cltu
        in if length payload mod 8 \<noteq> 0 then Inr None
           else decode_blocks correct_errors (chunks 8 payload) [])"

section \<open>The parity register is linear\<close>

lemma bch_bit_eq:
  assumes "i \<in> {0, 1}"
  shows "bch_bit sr i = take_bit 7 (push_bit 1 sr) XOR (if (i = 1) \<noteq> bit sr 6 then 0x45 else 0)"
proof -
  have "drop_bit 6 sr AND 1 = of_bool (bit sr 6)"
    by (simp add: bit_iff_odd_drop_bit and_one_eq mod_2_eq_odd)
  moreover have "push_bit 1 sr AND 127 = take_bit 7 (push_bit 1 sr)"
    by (simp add: and_mask_127 take_bit_eq_mod)
  ultimately show ?thesis using assms by (auto simp: bch_bit_def Let_def)
qed

lemma input_bit: "drop_bit n (uint b) AND 1 = of_bool (bit b n)" for b :: byte
  using bit_imp_le_length [of b n]
  by (auto simp: and_one_eq mod_2_eq_odd bit_uint_iff simp flip: bit_iff_odd_drop_bit)

lemma bch_bit_xor:
  "bch_bit (s XOR t) (of_bool (a \<noteq> b)) = bch_bit s (of_bool a) XOR bch_bit t (of_bool b)"
  by (cases a; cases b) (simp_all add: bch_bit_eq bit_xor_iff push_bit_xor take_bit_xor ac_simps)

lemma bch_byte_xor: "bch_byte (s XOR t) (a XOR b) = bch_byte s a XOR bch_byte t b"
  by (simp only: bch_byte_def foldl.simps input_bit bit_xor_iff bch_bit_xor)

lemma bch_bit_range: "0 \<le> bch_bit s (of_bool a) \<and> bch_bit s (of_bool a) < 128"
proof -
  have "take_bit 7 (bch_bit s (of_bool a)) = bch_bit s (of_bool a)"
    by (simp add: bch_bit_eq take_bit_xor)
  then show ?thesis
    using take_bit_int_less_exp [of 7 "bch_bit s (of_bool a)"]
      take_bit_nonnegative [of 7 "bch_bit s (of_bool a)"] by simp
qed

lemma bch_bit_zero:
  assumes "0 \<le> s" "s < 128" "bch_bit s 0 = 0"
  shows "s = 0"
proof (cases "bit s 6")
  case True
  have "bit (bch_bit s 0) 0"
    by (simp add: bch_bit_eq True bit_xor_iff bit_take_bit_iff bit_mult_2)
  then show ?thesis using assms(3) by simp
next
  case False
  have "s < 64"
  proof -
    have "take_bit 6 s = s"
    proof (rule bit_eqI)
      fix n
      have "take_bit 7 s = s" using assms by (simp add: take_bit_int_eq_self)
      then show "bit (take_bit 6 s) n = bit s n"
        using False bit_take_bit_iff [of 7 s n] by (cases "n = 6") (auto simp: bit_take_bit_iff)
    qed
    then show ?thesis using take_bit_int_less_exp [of 6 s] by simp
  qed
  then show ?thesis
    using assms False by (simp add: bch_bit_eq take_bit_int_eq_self)
qed

lemma bch_byte_zero:
  assumes "0 \<le> s \<and> s < 128" "bch_byte s 0 = 0"
  shows "s = 0"
proof -
  have r: "0 \<le> bch_bit x 0 \<and> bch_bit x 0 < 128" for x
    using bch_bit_range [of x False] by simp
  show ?thesis
    using assms bch_bit_zero r by (auto simp: bch_byte_def input_bit)
qed

interpretation bch_reg: xor_register bch_byte "\<lambda>s. 0 \<le> s \<and> s < 128"
proof unfold_locales
  fix s t :: int and a b :: byte
  show "bch_byte (s XOR t) (a XOR b) = bch_byte s a XOR bch_byte t b" by (rule bch_byte_xor)
  show "0 \<le> bch_byte s a \<and> bch_byte s a < 128"
    by (simp only: bch_byte_def foldl.simps input_bit bch_bit_range)
  show "0 \<le> s \<and> s < 128 \<Longrightarrow> 0 \<le> t \<and> t < 128 \<Longrightarrow> 0 \<le> s XOR t \<and> s XOR t < 128"
   
    using xor_below_exp [of s 7 t] by simp
  show "0 \<le> s \<and> s < 128 \<Longrightarrow> bch_byte s 0 = 0 \<Longrightarrow> s = 0" by (rule bch_byte_zero)
qed

section \<open>Syndromes\<close>

text \<open>
  The parity byte is an affine image of the register. The syndrome of an error pattern is the
  difference it makes between the parity the data calls for and the parity byte that arrives;
  \<open>pattern\<close> is an 8-byte error.
\<close>

definition spread :: "int \<Rightarrow> int" where
  "spread sr = push_bit 1 sr XOR (sr AND 1)"

definition syndrome :: "bytes \<Rightarrow> int" where
  "syndrome e = spread (foldl bch_byte 0 (take 7 e)) XOR uint (e ! 7)"

lemma spread_xor: "spread (s XOR t) = spread s XOR spread t"
  by (rule bit_eqI) (auto simp: spread_def bit_xor_iff bit_and_iff bit_mult_2)

lemma filler_cases: "(x::int) mod 2 = 0 \<or> x mod 2 = 1"
  by presburger

lemma bch_parity_spread:
  assumes "0 \<le> sr" "sr < 128"
  shows "(push_bit 1 (sr AND 0x7F) OR (NOT sr AND 1)) AND 0xFF = spread sr XOR 1"
proof -
  have m: "sr AND 127 = sr" using assms by (simp add: and_mask_127)
  have "push_bit 1 sr OR (NOT sr AND 1) = spread sr XOR 1"
    by (rule bit_eqI)
      (auto simp: spread_def bit_or_iff bit_xor_iff bit_and_iff bit_not_iff bit_mult_2 bit_1_iff)
  moreover have "0 \<le> spread sr XOR 1 \<and> spread sr XOR 1 < 2 ^ 8"
  proof (rule xor_below_exp)
    have "0 \<le> push_bit 1 sr \<and> push_bit 1 sr < 2 ^ 8" using assms by simp
    moreover have "0 \<le> sr AND 1 \<and> sr AND 1 < 2 ^ 8"
      using filler_cases [of sr] by (auto simp: and_mask_1)
    ultimately show "0 \<le> spread sr \<and> spread sr < 2 ^ 8"
      unfolding spread_def by (rule xor_below_exp)
  qed simp
  ultimately show ?thesis by (simp add: m and_mask_255)
qed

lemma bch_parity_eq: "bch_parity d = spread (foldl bch_byte 0 d) XOR 1"
  using bch_parity_spread bch_reg.run_reg [of 0 d] by (simp add: bch_parity_def Let_def)

lemma bch_parity_range: "0 \<le> bch_parity d \<and> bch_parity d < 256"
  by (simp add: bch_parity_def Let_def and_mask_255)

lemma syndrome_xor:
  assumes "length e = 8" "length e' = 8"
  shows "syndrome (xor_bytes e e') = syndrome e XOR syndrome e'"
proof -
  have "take 7 (xor_bytes e e') = xor_bytes (take 7 e) (take 7 e')"
    by (simp add: xor_bytes_def take_map take_zip)
  moreover have "foldl bch_byte 0 (xor_bytes (take 7 e) (take 7 e'))
      = foldl bch_byte 0 (take 7 e) XOR foldl bch_byte 0 (take 7 e')"
    using bch_reg.run_xor [of "take 7 e" "take 7 e'" 0 0] assms by simp
  moreover have "xor_bytes e e' ! 7 = e ! 7 XOR e' ! 7"
    using assms by (simp add: xor_bytes_def)
  ultimately show ?thesis
    by (simp add: syndrome_def spread_xor unsigned_xor_eq ac_simps)
qed

text \<open>A block is valid iff its syndrome is the one of the filler bit.\<close>

lemma check_code_block_syndrome:
  assumes "length block = 8"
  shows "check_code_block block = Inr (take 7 block, syndrome block = 1)"
proof -
  have "uint (block ! 7) = spread (foldl bch_byte 0 (take 7 block)) XOR 1
      \<longleftrightarrow> syndrome block = 1"
    unfolding syndrome_def by (rule xor_int_move)
  then show ?thesis
    using assms by (simp add: check_code_block_def pyslice_0 bch_parity_eq)
qed

lemma encode_code_block_valid:
  assumes "length d = 7"
  shows "\<exists>p. encode_code_block d = Inr (d @ [p]) \<and> syndrome (d @ [p]) = 1"
proof -
  let ?p = "word_of_int (bch_parity d) :: byte"
  have "uint ?p = bch_parity d"
    using bch_parity_range [of d] by (simp add: uint_word_of_int_byte)
  then have "syndrome (d @ [?p]) = 1"
    using assms by (simp add: syndrome_def bch_parity_eq nth_append flip: xor.assoc)
  then show ?thesis
    using assms bch_parity_range [of d] by (simp add: encode_code_block_def)
qed

text \<open>The error pattern of one flipped bit, and the 64 syndromes of single-bit errors.\<close>

definition unit_error :: "nat \<times> nat \<Rightarrow> bytes" where
  "unit_error = (\<lambda>(i, j). (replicate 8 0)[i := push_bit j 1])"

definition unit_syndrome :: "nat \<times> nat \<Rightarrow> int" where
  "unit_syndrome ij = syndrome (unit_error ij)"

lemma length_unit_error [simp]: "length (unit_error ij) = 8"
  by (simp add: unit_error_def split: prod.splits)

lemma unit_syndromes:
  "map unit_syndrome bit_positions =
   [219, 63, 124, 248, 123, 244, 99, 196, 200, 27, 52, 104, 208, 43, 84, 168,
    235, 95, 188, 243, 111, 220, 51, 100, 75, 148, 163, 207, 23, 44, 88, 176,
    83, 164, 195, 15, 28, 56, 112, 224, 215, 39, 76, 152, 187, 255, 119, 236,
    139, 159, 183, 231, 71, 140, 147, 175, 1, 2, 4, 8, 16, 32, 64, 128]"
  by code_simp

lemma unit_syndromes_distinct: "distinct (map unit_syndrome bit_positions)"
  unfolding unit_syndromes by simp

lemma unit_syndrome_inj:
  "p \<in> set bit_positions \<Longrightarrow> q \<in> set bit_positions \<Longrightarrow> unit_syndrome p = unit_syndrome q \<Longrightarrow> p = q"
  using unit_syndromes_distinct by (auto simp: distinct_map dest: inj_onD)

lemma unit_syndrome_nonzero: "p \<in> set bit_positions \<Longrightarrow> unit_syndrome p \<noteq> 0"
proof -
  have "0 \<notin> set (map unit_syndrome bit_positions)"
    unfolding unit_syndromes by simp
  then show "p \<in> set bit_positions \<Longrightarrow> unit_syndrome p \<noteq> 0"
    by (metis image_eqI set_map)
qed

text \<open>
  All single-bit syndromes but the filler bit's have odd weight above bit 0, so the sum of two
  of them is not a third; sums with the filler bit are looked up.
\<close>

definition odd_weight :: "int \<Rightarrow> bool" where
  "odd_weight x \<longleftrightarrow> odd (length (filter (bit x) [1, 2, 3, 4, 5, 6, 7]))"

lemma odd_weight_xor: "odd_weight (x XOR y) \<longleftrightarrow> odd_weight x \<noteq> odd_weight y"
proof -
  have "odd (length (filter (bit (x XOR y)) ns))
      \<longleftrightarrow> odd (length (filter (bit x) ns)) \<noteq> odd (length (filter (bit y) ns))" for ns
    by (induction ns) (auto simp: bit_xor_iff)
  then show ?thesis by (simp only: odd_weight_def)
qed

lemma unit_syndromes_odd:
  "list_all (\<lambda>p. p = (7, 0) \<or> odd_weight (unit_syndrome p)) bit_positions"
  by code_simp

lemma filler_sums:
  "list_all (\<lambda>s. s = 1 \<or> s XOR 1 \<notin> set (map unit_syndrome bit_positions))
     (map unit_syndrome bit_positions)"
  unfolding unit_syndromes by simp

lemma two_syndromes_no_third:
  assumes "p \<in> set bit_positions" "q \<in> set bit_positions" "r \<in> set bit_positions" "p \<noteq> q"
  shows "unit_syndrome p XOR unit_syndrome q \<noteq> unit_syndrome r"
proof
  assume eq: "unit_syndrome p XOR unit_syndrome q = unit_syndrome r"
  have u70: "unit_syndrome (7, 0) = 1" by code_simp
  have filler: "unit_syndrome x XOR 1 \<noteq> unit_syndrome y"
    if "x \<in> set bit_positions" "y \<in> set bit_positions" "x \<noteq> (7, 0)" for x y
  proof -
    have "(7, 0) \<in> set bit_positions" by (simp add: bit_positions_def)
    then have "unit_syndrome x \<noteq> 1"
      using unit_syndrome_inj [of x "(7, 0)"] that(1,3) u70 by metis
    moreover have "unit_syndrome x \<in> set (map unit_syndrome bit_positions)"
      "unit_syndrome y \<in> set (map unit_syndrome bit_positions)"
      using that by simp_all
    ultimately show ?thesis using filler_sums unfolding list_all_iff by metis
  qed
  have odd: "x = (7, 0) \<or> odd_weight (unit_syndrome x)" if "x \<in> set bit_positions" for x
    using unit_syndromes_odd that by (auto simp: list_all_iff)
  show False
  proof (cases "p = (7, 0) \<or> q = (7, 0)")
    case True
    then show False
      using eq filler [of p r] filler [of q r] assms u70 by (auto simp: xor.commute)
  next
    case False
    then have "\<not> odd_weight (unit_syndrome r)"
      using odd assms(1,2) eq odd_weight_xor by metis
    then have "r = (7, 0)" using odd assms(3) by blast
    then have "unit_syndrome p XOR 1 = unit_syndrome q"
      using eq u70 by (metis xor_int_move)
    then show False using filler [of p q] assms False by blast
  qed
qed

section \<open>Correction\<close>

lemma bit_positions_range: "(i, j) \<in> set bit_positions \<longleftrightarrow> i < 8 \<and> j < 8"
proof -
  have "n \<in> set [0, 1, 2, 3, 4, 5, 6, 7] \<longleftrightarrow> n < 8" for n :: nat
    by (simp, presburger)
  then show ?thesis by (simp only: bit_positions_def set_product mem_Times_iff fst_conv snd_conv)
qed

lemma length_flip_bit_at [simp]: "length (flip_bit_at i j b) = length b"
  by (simp add: flip_bit_at_def)

lemma flip_bit_at_twice [simp]: "flip_bit_at i j (flip_bit_at i j b) = b"
  by (cases "i < length b") (simp_all add: flip_bit_at_def xor.assoc list_update_beyond)

lemma flip_bit_at_xor:
  assumes "length b = 8"
  shows "flip_bit_at i j b = xor_bytes b (unit_error (i, j))"
proof (rule nth_equalityI)
  fix k
  assume "k < length (flip_bit_at i j b)"
  then show "flip_bit_at i j b ! k = xor_bytes b (unit_error (i, j)) ! k"
    using assms by (cases "i = k") (simp_all add: flip_bit_at_def xor_bytes_def unit_error_def)
qed (simp add: assms)

lemma syndrome_flip:
  "length b = 8 \<Longrightarrow> syndrome (flip_bit_at i j b) = syndrome b XOR unit_syndrome (i, j)"
  by (simp add: flip_bit_at_xor syndrome_xor unit_syndrome_def)

lemma try_flips_eq:
  assumes "length b = 8"
  shows "try_flips ps b = Inr (map_option (\<lambda>(i, j). take 7 (flip_bit_at i j b))
     (find (\<lambda>p. syndrome b XOR unit_syndrome p = 1) ps))"
proof (induction ps)
  case (Cons p ps)
  obtain i j where "p = (i, j)" by fastforce
  then show ?case
    using Cons assms by (simp add: Let_def check_code_block_syndrome syndrome_flip)
qed simp

text \<open>What the correction does, by the syndrome of the received block.\<close>

lemma correct_code_block_eq:
  assumes "length b = 8"
  shows "correct_code_block b =
     (if syndrome b = 1 then Inr (take 7 b, True, 0)
      else case find (\<lambda>p. syndrome b XOR unit_syndrome p = 1) bit_positions of
        None \<Rightarrow> Inr (take 7 b, False, 0)
      | Some (i, j) \<Rightarrow> Inr (take 7 (flip_bit_at i j b), True, 1))"
  using assms
  by (auto simp: correct_code_block_def check_code_block_syndrome try_flips_eq split: option.splits)

lemma find_eq_Some: "p \<in> set xs \<Longrightarrow> find (\<lambda>q. q = p) xs = Some p"
  by (induction xs) auto

lemma one_error_corrected:
  assumes "length b = 8" "syndrome b = 1" "i < 8" "j < 8"
  shows "correct_code_block (flip_bit_at i j b) = Inr (take 7 b, True, 1)"
proof -
  let ?p = "(i, j)"
  have p: "?p \<in> set bit_positions" using assms by (simp add: bit_positions_range)
  have s: "syndrome (flip_bit_at i j b) = 1 XOR unit_syndrome ?p"
    using assms by (simp add: syndrome_flip)
  have "find (\<lambda>q. (1 XOR unit_syndrome ?p) XOR unit_syndrome q = 1) bit_positions = Some ?p"
  proof -
    have *: "(1 XOR unit_syndrome ?p) XOR unit_syndrome q = 1 \<longleftrightarrow> q = ?p"
      if "q \<in> set bit_positions" for q
      using unit_syndrome_inj [OF p that] by (metis xor.assoc xor_int_eq_0_iff xor_int_move xor_self_eq)
    have "find (\<lambda>q. (1 XOR unit_syndrome ?p) XOR unit_syndrome q = 1) bit_positions
        = find (\<lambda>q. q = ?p) bit_positions"
      by (rule find_cong) (use * in auto)
    also have "\<dots> = Some ?p" using p by (rule find_eq_Some)
    finally show ?thesis .
  qed
  moreover have "1 XOR unit_syndrome ?p \<noteq> 1"
    using unit_syndrome_nonzero [OF p] by (metis xor_int_move xor_self_eq)
  ultimately show ?thesis
    using assms by (simp add: correct_code_block_eq s)
qed

lemma two_errors_rejected:
  assumes "length b = 8" "syndrome b = 1" "i < 8" "j < 8" "k < 8" "l < 8" "(i, j) \<noteq> (k, l)"
  shows "correct_code_block (flip_bit_at k l (flip_bit_at i j b))
     = Inr (take 7 (flip_bit_at k l (flip_bit_at i j b)), False, 0)"
proof -
  let ?p = "(i, j)" and ?q = "(k, l)" and ?b = "flip_bit_at k l (flip_bit_at i j b)"
  have pq: "?p \<in> set bit_positions" "?q \<in> set bit_positions"
    using assms by (simp_all add: bit_positions_range)
  have s: "syndrome ?b = 1 XOR (unit_syndrome ?p XOR unit_syndrome ?q)"
    using assms by (simp add: syndrome_flip xor.assoc)
  have "unit_syndrome ?p \<noteq> unit_syndrome ?q"
    using unit_syndrome_inj [OF pq] assms(7) by blast
  then have "syndrome ?b \<noteq> 1"
    unfolding s by (metis xor_int_eq_0_iff xor_int_move xor_self_eq)
  moreover have "find (\<lambda>r. syndrome ?b XOR unit_syndrome r = 1) bit_positions = None"
  proof -
    have "syndrome ?b XOR unit_syndrome r \<noteq> 1" if r: "r \<in> set bit_positions" for r
      using two_syndromes_no_third [OF pq r assms(7)] unfolding s
      by (metis xor.assoc xor_int_eq_0_iff xor_int_move xor_self_eq)
    then show ?thesis by (simp add: find_None_iff)
  qed
  ultimately show ?thesis using assms by (simp add: correct_code_block_eq)
qed

section \<open>CLTUs\<close>

text \<open>What the encoder puts between the start and the tail sequence.\<close>

definition valid_block :: "bytes \<Rightarrow> bool" where
  "valid_block b \<longleftrightarrow> length b = 8 \<and> syndrome b = 1"

lemma encode_code_block_valid_block:
  "length d = 7 \<Longrightarrow> \<exists>b. encode_code_block d = Inr b \<and> valid_block b \<and> take 7 b = d"
  using encode_code_block_valid [of d] by (auto simp: valid_block_def)

lemma encode_blocks_eq:
  "\<forall>d \<in> set ds. length d = 7 \<Longrightarrow>
   \<exists>bs. encode_blocks ds c = Inr (c @ concat bs) \<and> (\<forall>b \<in> set bs. valid_block b)
     \<and> map (take 7) bs = ds"
proof (induction ds arbitrary: c)
  case Nil
  then show ?case by simp
next
  case (Cons d ds)
  obtain b where b: "encode_code_block d = Inr b" "valid_block b" "take 7 b = d"
    using encode_code_block_valid_block [of d] Cons.prems by auto
  obtain bs where "encode_blocks ds (c @ b) = Inr ((c @ b) @ concat bs)"
    "\<forall>b \<in> set bs. valid_block b" "map (take 7) bs = ds"
    using Cons.IH [of "c @ b"] Cons.prems by auto
  then show ?case using b by (intro exI [of _ "b # bs"]) simp
qed

lemma length_pad_frame: "7 dvd length (pad_frame f)"
proof (cases "length f mod 7 = 0")
  case False
  have "length f mod 7 < 7" by simp
  then have "length f + (7 - length f mod 7) = 7 * (length f div 7 + 1)"
    using mult_div_mod_eq [of 7 "length f"] by arith
  then have "7 dvd length f + (7 - length f mod 7)" by (rule dvdI)
  then show ?thesis using False by (simp add: pad_frame_def Let_def)
qed (simp add: pad_frame_def dvd_eq_mod_eq_0)

lemma encode_cltu_shape:
  "\<exists>bs. encode_cltu f = Inr (START_SEQUENCE @ concat bs @ TAIL_SEQUENCE)
     \<and> (\<forall>b \<in> set bs. valid_block b) \<and> concat (map (take 7) bs) = pad_frame f"
proof -
  have "\<forall>d \<in> set (chunks 7 (pad_frame f)). length d = 7"
    using length_in_chunks [of 7 "pad_frame f"] length_pad_frame by simp
  from encode_blocks_eq [OF this, of START_SEQUENCE] show ?thesis
    using concat_chunks [of 7 "pad_frame f"] by (fastforce simp: encode_cltu_def)
qed

text \<open>A code block with at most one bit flipped.\<close>

fun damage :: "(nat \<times> nat) option \<Rightarrow> bytes \<Rightarrow> bytes" where
  "damage None b = b"
| "damage (Some (i, j)) b = flip_bit_at i j b"

definition one_bit :: "(nat \<times> nat) option \<Rightarrow> bool" where
  "one_bit e = (case e of None \<Rightarrow> True | Some (i, j) \<Rightarrow> i < 8 \<and> j < 8)"

lemma length_damage [simp]: "length (damage e b) = length b"
  by (cases e) auto

lemma correct_damaged:
  assumes "valid_block b" "one_bit e"
  shows "\<exists>n. correct_code_block (damage e b) = Inr (take 7 b, True, n)"
proof (cases e)
  case None
  then show ?thesis using assms by (simp add: correct_code_block_eq valid_block_def)
next
  case (Some p)
  then show ?thesis
    using assms one_error_corrected [of b] by (cases p) (auto simp: one_bit_def valid_block_def)
qed

lemma decode_blocks_damaged:
  "length es = length bs \<Longrightarrow> \<forall>b \<in> set bs. valid_block b \<Longrightarrow> \<forall>e \<in> set es. one_bit e \<Longrightarrow>
   decode_blocks True (map2 damage es bs) acc = Inr (Some (acc @ concat (map (take 7) bs)))"
proof (induction es bs arbitrary: acc rule: list_induct2)
  case (Cons e es b bs)
  then show ?case using correct_damaged [of b e] by fastforce
qed simp

lemma decode_blocks_clean:
  "\<forall>b \<in> set bs. valid_block b \<Longrightarrow>
   decode_blocks False bs acc = Inr (Some (acc @ concat (map (take 7) bs)))"
  by (induction bs arbitrary: acc) (auto simp: valid_block_def check_code_block_syndrome)

lemma decode_cltu_blocks:
  assumes "bs \<noteq> []" "\<forall>b \<in> set bs. length b = 8"
  shows "decode_cltu (START_SEQUENCE @ concat bs @ TAIL_SEQUENCE) c = decode_blocks c bs []"
proof -
  have len: "length (concat bs) = 8 * length bs"
    using assms(2) by (induction bs) auto
  have n: "8 \<le> 8 * length bs" using assms(1) by (cases bs) simp_all
  let ?c = "START_SEQUENCE @ concat bs @ TAIL_SEQUENCE"
  have lc: "length ?c = 8 * length bs + 10"
    by (simp add: START_SEQUENCE_def TAIL_SEQUENCE_def len)
  have "take 2 ?c = START_SEQUENCE" by (simp add: START_SEQUENCE_def)
  moreover have "drop (length ?c - 8) ?c = TAIL_SEQUENCE"
    unfolding lc by (simp add: START_SEQUENCE_def len TAIL_SEQUENCE_def)
  moreover have "pyslice 2 (length ?c - 8) ?c = concat bs"
    unfolding lc by (simp add: pyslice_def START_SEQUENCE_def len)
  moreover have "chunks 8 (concat bs) = bs" using assms(2) by (simp add: chunks_concat)
  ultimately show ?thesis
    using lc len n assms(1) by (simp add: decode_cltu_def START_SEQUENCE_def TAIL_SEQUENCE_def)
qed

lemma encode_cltu_blocks:
  assumes "f \<noteq> []"
  obtains bs where "encode_cltu f = Inr (START_SEQUENCE @ concat bs @ TAIL_SEQUENCE)" "bs \<noteq> []"
    "\<forall>b \<in> set bs. valid_block b" "concat (map (take 7) bs) = pad_frame f"
    "length bs = length (pad_frame f) div 7"
proof -
  obtain bs where bs: "encode_cltu f = Inr (START_SEQUENCE @ concat bs @ TAIL_SEQUENCE)"
    "\<forall>b \<in> set bs. valid_block b" "concat (map (take 7) bs) = pad_frame f"
    using encode_cltu_shape [of f] by blast
  have "pad_frame f \<noteq> []" using assms by (simp add: pad_frame_def Let_def)
  then have ne: "bs \<noteq> []" using bs(3) by auto
  have "length (concat (map (take 7) bs)) = 7 * length bs"
    using bs(2) by (induction bs) (auto simp: valid_block_def)
  then have "length bs = length (pad_frame f) div 7" using bs(3) by simp
  then show thesis using that [of bs] bs ne by blast
qed

section \<open>Properties\<close>

text \<open>
  Every single-bit error in a BCH(64,56) code block, parity byte included, is corrected: the
  search of \<open>correct_code_block\<close> stops at the flipped bit and nowhere else.
\<close>

theorem bch_single_error_corrected:
  assumes "length d = 7" "i < 8" "j < 8"
  shows "\<exists>b. encode_code_block d = Inr b \<and> correct_code_block b = Inr (d, True, 0)
    \<and> correct_code_block (flip_bit_at i j b) = Inr (d, True, 1)"
proof -
  obtain b where "encode_code_block d = Inr b" "valid_block b" "take 7 b = d"
    using encode_code_block_valid_block [OF assms(1)] by blast
  then show ?thesis
    using one_error_corrected [of b i j] assms(2,3) by (auto simp: valid_block_def correct_code_block_eq)
qed

theorem bch_single_error_corrected_witness:
  "\<exists>b. encode_code_block [1, 2, 3, 4, 5, 6, 7] = Inr b
    \<and> correct_code_block b = Inr ([1, 2, 3, 4, 5, 6, 7], True, 0)
    \<and> correct_code_block (flip_bit_at 3 5 b) = Inr ([1, 2, 3, 4, 5, 6, 7], True, 1)"
  by (rule bch_single_error_corrected) simp_all

text \<open>
  Two flipped bits in a code block are never miscorrected: the block is reported invalid and
  no correction is made.
\<close>

theorem bch_double_error_detected:
  assumes "length d = 7" "i < 8" "j < 8" "k < 8" "l < 8" "(i, j) \<noteq> (k, l)"
  shows "\<exists>b d'. encode_code_block d = Inr b
    \<and> correct_code_block (flip_bit_at k l (flip_bit_at i j b)) = Inr (d', False, 0)"
proof -
  obtain b where "encode_code_block d = Inr b" "valid_block b"
    using encode_code_block_valid_block [OF assms(1)] by blast
  then show ?thesis
    using two_errors_rejected [OF _ _ assms(2-)] by (auto simp: valid_block_def)
qed

theorem bch_double_error_detected_witness:
  "\<exists>b d'. encode_code_block [1, 2, 3, 4, 5, 6, 7] = Inr b
    \<and> correct_code_block (flip_bit_at 7 0 (flip_bit_at 3 5 b)) = Inr (d', False, 0)"
  by (rule bch_double_error_detected) simp_all

text \<open>
  C35: a CLTU survives one flipped bit in every code block: decoding with correction gives back the
  frame, filled with 0x55 up to a multiple of seven bytes (the fill is not removed).
\<close>

theorem cltu_corrects_one_bit_per_block:
  assumes "f \<noteq> []" "length es = length (pad_frame f) div 7" "\<forall>e \<in> set es. one_bit e"
  shows "\<exists>bs. encode_cltu f = Inr (START_SEQUENCE @ concat bs @ TAIL_SEQUENCE)
    \<and> length bs = length es
    \<and> decode_cltu (START_SEQUENCE @ concat (map2 damage es bs) @ TAIL_SEQUENCE) True
        = Inr (Some (pad_frame f))"
proof -
  obtain bs where bs: "encode_cltu f = Inr (START_SEQUENCE @ concat bs @ TAIL_SEQUENCE)" "bs \<noteq> []"
    "\<forall>b \<in> set bs. valid_block b" "concat (map (take 7) bs) = pad_frame f"
    "length bs = length (pad_frame f) div 7"
    using encode_cltu_blocks [OF assms(1)] by blast
  have len: "length es = length bs" using bs(5) assms(2) by simp
  have "map2 damage es bs \<noteq> []" using bs(2) len by (cases es; cases bs) auto
  moreover have "\<forall>b \<in> set (map2 damage es bs). length b = 8"
    using bs(3) by (auto simp: valid_block_def dest: set_zip_rightD)
  ultimately show ?thesis
    using decode_cltu_blocks decode_blocks_damaged [OF len bs(3) assms(3)] bs len by auto
qed

theorem cltu_corrects_one_bit_per_block_witness:
  "\<exists>bs. encode_cltu [1, 2, 3, 4, 5, 6, 7, 8] = Inr (START_SEQUENCE @ concat bs @ TAIL_SEQUENCE)
    \<and> length bs = length [Some (0::nat, 3::nat), Some (7, 0)]
    \<and> decode_cltu (START_SEQUENCE @ concat (map2 damage [Some (0, 3), Some (7, 0)] bs)
         @ TAIL_SEQUENCE) True
        = Inr (Some (pad_frame [1, 2, 3, 4, 5, 6, 7, 8]))"
  by (rule cltu_corrects_one_bit_per_block)
    (simp_all add: pad_frame_def one_bit_def Let_def)

end
