(* ===== verification/Conv_Viterbi.thy ===== *)
theory Conv_Viterbi
  imports Prelude
begin

text \<open>
  The rate-1/2, constraint length 7 convolutional code of \<open>smo_rfsim/ccsds/convolutional.py\<close>
  and its decoder \<open>smo_rfsim/ccsds/viterbi.py\<close>. Bits are natural numbers 0 and 1 as in the
  code, path metrics are \<open>nat option\<close> with \<open>None\<close> for the code's infinity.
\<close>

section \<open>The encoder\<close>

definition G1 :: nat where "G1 = 0x79"
definition G2 :: nat where "G2 = 0x5B"
definition K :: nat where "K = 7"

lemma nat_and_le: "(a :: nat) AND b \<le> b"
proof -
  have "int (a AND b) \<le> int b" by (simp add: of_nat_and_eq)
  then show ?thesis by simp
qed

text \<open>\<open>while value: p ^= 1; value &= value - 1\<close>\<close>

function parity_loop :: "nat \<Rightarrow> nat \<Rightarrow> nat" where
  "parity_loop p v = (if v \<noteq> 0 then parity_loop (p XOR 1) (v AND (v - 1)) else p)"
  by pat_completeness auto
termination
proof (relation "measure snd")
  fix p v :: nat
  assume "v \<noteq> 0"
  moreover have "v AND (v - 1) \<le> v - 1" by (rule nat_and_le)
  ultimately show "((p XOR 1, v AND (v - 1)), (p, v)) \<in> measure snd" by simp
qed simp

declare parity_loop.simps [simp del]

definition parity :: "nat \<Rightarrow> nat" where
  "parity v = parity_loop 0 v"

text \<open>The bits of a byte, most significant first.\<close>

definition byte_bits :: "byte \<Rightarrow> nat list" where
  "byte_bits b = map (\<lambda>bit_pos. drop_bit bit_pos (unat b) AND 1) [7, 6, 5, 4, 3, 2, 1, 0]"

definition bits_of_bytes :: "bytes \<Rightarrow> nat list" where
  "bits_of_bytes d = concat (map byte_bits d)"

text \<open>One input bit: shift it in, append the two output bits.\<close>

definition conv_bit :: "nat \<times> nat list \<Rightarrow> nat \<Rightarrow> nat \<times> nat list" where
  "conv_bit = (\<lambda>(register, output_bits) input_bit.
     let register' = (push_bit 1 register OR input_bit) AND 0x7F
     in (register', output_bits @ [parity (register' AND G1), parity (register' AND G2)]))"

definition conv_flush :: "nat \<times> nat list \<Rightarrow> nat \<times> nat list" where
  "conv_flush = (\<lambda>(register, output_bits).
     let register' = push_bit 1 register AND 0x7F
     in (register', output_bits @ [parity (register' AND G1), parity (register' AND G2)]))"

text \<open>Eight bits to a byte; a short last group is filled with zero bits on the right.\<close>

definition pack_byte :: "nat list \<Rightarrow> byte" where
  "pack_byte bs = word_of_nat
     (foldl (\<lambda>v j. if j < length bs then push_bit 1 v OR bs ! j else push_bit 1 v) 0 [0..<8])"

definition pack_bits :: "nat list \<Rightarrow> bytes" where
  "pack_bits bs = map pack_byte (chunks 8 bs)"

definition conv_encode :: "bytes \<Rightarrow> bytes" where
  "conv_encode d =
     (let st = foldl conv_bit (0, []) (bits_of_bytes d);
          st' = (conv_flush ^^ (K - 1)) st
      in pack_bits (snd st'))"

definition encoded_length :: "nat \<Rightarrow> nat" where
  "encoded_length n = ((n * 8 + (K - 1)) * 2 + 7) div 8"

section \<open>The decoder\<close>

definition NUM_STATES :: nat where "NUM_STATES = 64"

definition expected_output :: "nat \<Rightarrow> nat \<Rightarrow> nat \<times> nat" where
  "expected_output state input_bit =
     (let reg = (push_bit 1 state OR input_bit) AND 0x7F
      in (parity (reg AND G1), parity (reg AND G2)))"

definition next_state :: "nat \<Rightarrow> nat \<Rightarrow> nat" where
  "next_state state input_bit = (push_bit 1 state OR input_bit) AND (NUM_STATES - 1)"

definition branch_metric :: "nat \<times> nat \<Rightarrow> nat \<times> nat \<Rightarrow> nat" where
  "branch_metric received expected =
     (fst received XOR fst expected) + (snd received XOR snd expected)"

text \<open>\<open>for i in range(0, len(bits) - 1, 2)\<close>: a last odd bit is dropped.\<close>

fun bit_pairs :: "nat list \<Rightarrow> (nat \<times> nat) list" where
  "bit_pairs (a # b # bs) = (a, b) # bit_pairs bs"
| "bit_pairs _ = []"

type_synonym metric = "nat option"

definition metric_less :: "metric \<Rightarrow> metric \<Rightarrow> bool" where
  "metric_less a b = (case a of None \<Rightarrow> False | Some x \<Rightarrow> (case b of None \<Rightarrow> True | Some y \<Rightarrow> x < y))"

type_synonym trellis = "metric list \<times> nat list list"

definition empty_trellis :: trellis where
  "empty_trellis = (replicate NUM_STATES None, replicate NUM_STATES [])"

definition acs_bit :: "nat \<times> nat \<Rightarrow> nat \<Rightarrow> nat \<Rightarrow> nat list \<Rightarrow> trellis \<Rightarrow> nat \<Rightarrow> trellis" where
  "acs_bit symbol state pm survivor = (\<lambda>(new_metric, new_survivors) input_bit.
     let ns = next_state state input_bit;
         bm = branch_metric symbol (expected_output state input_bit);
         candidate = Some (pm + bm)
     in if metric_less candidate (new_metric ! ns)
        then (new_metric[ns := candidate], new_survivors[ns := survivor @ [input_bit]])
        else (new_metric, new_survivors))"

definition acs_state :: "nat \<times> nat \<Rightarrow> trellis \<Rightarrow> trellis \<Rightarrow> nat \<Rightarrow> trellis" where
  "acs_state symbol old new state =
     (case fst old ! state of
        None \<Rightarrow> new
      | Some pm \<Rightarrow> foldl (acs_bit symbol state pm (snd old ! state)) new [0, 1])"

definition acs_step :: "trellis \<Rightarrow> nat \<times> nat \<Rightarrow> trellis" where
  "acs_step old symbol = foldl (acs_state symbol old) empty_trellis [0..<NUM_STATES]"

definition start_trellis :: trellis where
  "start_trellis = ((replicate NUM_STATES None)[0 := Some 0], replicate NUM_STATES [])"

definition best_step :: "metric list \<Rightarrow> nat \<times> metric \<Rightarrow> nat \<Rightarrow> nat \<times> metric" where
  "best_step pm = (\<lambda>(best_state, best_metric) state.
     if metric_less (pm ! state) best_metric then (state, pm ! state)
     else (best_state, best_metric))"

definition best_state :: "metric list \<Rightarrow> nat" where
  "best_state pm = fst (foldl (best_step pm) (0, pm ! 0) [1..<NUM_STATES])"

definition strip_flush :: "nat option \<Rightarrow> nat list \<Rightarrow> nat list" where
  "strip_flush original_length decoded_bits =
     (case original_length of
        Some n \<Rightarrow> take (n * 8) decoded_bits
      | None \<Rightarrow> if length decoded_bits > K - 1
                then take (length decoded_bits - (K - 1)) decoded_bits else decoded_bits)"

definition viterbi_decode :: "bytes \<Rightarrow> nat option \<Rightarrow> bytes" where
  "viterbi_decode encoded original_length =
     (let symbols = bit_pairs (bits_of_bytes encoded)
      in if symbols = [] then []
         else
           let tr = foldl acs_step start_trellis symbols;
               decoded_bits = snd tr ! best_state (fst tr)
           in pack_bits (strip_flush original_length decoded_bits))"

section \<open>Bits and bytes\<close>

definition bit_list :: "nat list \<Rightarrow> bool" where
  "bit_list bs \<longleftrightarrow> set bs \<subseteq> {0, 1}"

lemma nat_push_or_bit: "b \<in> {0, 1} \<Longrightarrow> push_bit 1 (n :: nat) OR b = 2 * n + b"
  using or_shift_add [of "int b" 1 "int n"]
  by (auto simp: of_nat_or_eq [symmetric] of_nat_push_bit [symmetric] simp flip: of_nat_mult
      intro: int_int_eq [THEN iffD1])

lemma nat_and_127: "(n :: nat) AND 127 = n mod 128"
  using take_bit_eq_mask [of 7 n] by (simp add: take_bit_eq_mod mask_eq_exp_minus_1)

lemma nat_and_63: "(n :: nat) AND 63 = n mod 64"
  using take_bit_eq_mask [of 6 n] by (simp add: take_bit_eq_mod mask_eq_exp_minus_1)

lemma byte_bits_bit_list: "bit_list (byte_bits b)"
  by (auto simp: bit_list_def byte_bits_def and_one_eq)

lemma length_byte_bits [simp]: "length (byte_bits b) = 8"
  by (simp add: byte_bits_def)

lemma bits_of_bytes_bit_list: "bit_list (bits_of_bytes d)"
  using byte_bits_bit_list by (fastforce simp: bit_list_def bits_of_bytes_def)

lemma length_bits_of_bytes [simp]: "length (bits_of_bytes d) = 8 * length d"
  by (induction d) (simp_all add: bits_of_bytes_def)

lemma horner_bit: "push_bit 1 (drop_bit (Suc k) n) OR (drop_bit k n AND 1) = drop_bit k (n :: nat)"
proof -
  have "drop_bit k n AND 1 \<in> {0, 1}" by (auto simp: and_one_eq)
  then have "push_bit 1 (drop_bit (Suc k) n) OR (drop_bit k n AND 1)
      = 2 * drop_bit (Suc k) n + (drop_bit k n AND 1)"
    by (rule nat_push_or_bit)
  also have "\<dots> = 2 * (drop_bit k n div 2) + drop_bit k n mod 2"
    by (simp add: and_one_eq drop_bit_Suc drop_bit_half)
  finally show ?thesis by simp
qed

lemma pack_byte_bits: "pack_byte (byte_bits b) = b"
proof -
  let ?n = "unat b"
  have "?n < 256" using unsigned_less [of b] by simp
  then have top: "drop_bit 8 ?n = 0" by (simp add: drop_bit_eq_div)
  have nth: "byte_bits b ! k = drop_bit (7 - k) ?n AND 1" if "k < 8" for k
  proof -
    have "[7, 6, 5, 4, 3, 2, 1, 0 :: nat] = rev [0..<8]" by (simp add: upt_rec)
    then have "byte_bits b = map (\<lambda>p. drop_bit p ?n AND 1) (rev [0..<8])"
      by (simp only: byte_bits_def)
    then show ?thesis using that by (simp add: rev_nth)
  qed
  have "foldl (\<lambda>v j. if j < length (byte_bits b) then push_bit 1 v OR byte_bits b ! j
      else push_bit 1 v) 0 [0..<k] = drop_bit (8 - k) ?n" if "k \<le> 8" for k
    using that
  proof (induction k)
    case 0
    then show ?case by (simp add: top)
  next
    case (Suc k)
    then have "8 - k = Suc (7 - k)" by simp
    then show ?case using Suc horner_bit [of "7 - k" ?n] nth [of k] by simp
  qed
  from this [of 8] show ?thesis by (simp add: pack_byte_def)
qed

lemma pack_bits_of_bytes: "pack_bits (bits_of_bytes d) = d"
proof -
  have "chunks 8 (concat (map byte_bits d)) = map byte_bits d"
    by (rule chunks_concat) auto
  then show ?thesis
    by (simp add: pack_bits_def bits_of_bytes_def pack_byte_bits comp_def)
qed

lemma inj_byte_bits: "inj byte_bits"
  by (rule inj_on_inverseI [of _ pack_byte]) (rule pack_byte_bits)

lemma eight_bits_are_byte:
  assumes "bit_list c" "length c = 8"
  shows "\<exists>b. c = byte_bits b"
proof -
  let ?L = "{xs :: nat list. set xs \<subseteq> {0, 1} \<and> length xs = 8}"
  have two: "card {0, 1 :: nat} = 2" by (simp add: card_2_iff)
  have fin: "finite ?L" by (rule finite_lists_length_eq) simp
  have sub: "range byte_bits \<subseteq> ?L"
    using byte_bits_bit_list by (auto simp: bit_list_def)
  have "card (range byte_bits) = card (UNIV :: byte set)"
    by (rule card_image) (rule inj_byte_bits)
  also have "\<dots> = 2 ^ 8" by (simp add: card_word)
  also have "\<dots> = card {0, 1 :: nat} ^ 8" by (simp only: two)
  also have "\<dots> = card ?L" by (rule card_lists_length_eq [symmetric]) simp
  finally have "range byte_bits = ?L"
    using fin sub by (simp add: card_subset_eq)
  then show ?thesis using assms by (auto simp: bit_list_def)
qed

lemma pack_byte_fill:
  assumes "length c \<le> 8"
  shows "pack_byte (c @ replicate (8 - length c) 0) = pack_byte c"
proof -
  have "foldl (\<lambda>v j. if j < length (c @ replicate (8 - length c) 0)
        then push_bit 1 v OR (c @ replicate (8 - length c) 0) ! j else push_bit 1 v) 0 [0..<k]
    = foldl (\<lambda>v j. if j < length c then push_bit 1 v OR c ! j else push_bit 1 v) (0 :: nat) [0..<k]"
    if "k \<le> 8" for k
    using that assms by (induction k) (simp_all add: nth_append)
  from this [of 8] show ?thesis by (simp only: pack_byte_def)
qed

lemma byte_bits_pack:
  assumes "bit_list c" "length c \<le> 8"
  shows "byte_bits (pack_byte c) = c @ replicate (8 - length c) 0"
proof -
  let ?c = "c @ replicate (8 - length c) 0"
  have "bit_list ?c" "length ?c = 8" using assms by (auto simp: bit_list_def)
  then obtain b where "?c = byte_bits b" using eight_bits_are_byte by blast
  then show ?thesis using pack_byte_bits [of b] pack_byte_fill [OF assms(2)] by metis
qed

lemma bits_of_pack_bits_aligned:
  "bit_list bs \<Longrightarrow> 8 dvd length bs \<Longrightarrow> bits_of_bytes (pack_bits bs) = bs"
proof -
  assume bl: "bit_list bs" and d: "8 dvd length bs"
  have "byte_bits (pack_byte c) = c" if "c \<in> set (chunks 8 bs)" for c
  proof -
    have "length c = 8" using length_in_chunks [OF _ d that] by simp
    moreover have "set c \<subseteq> set bs"
      using that concat_chunks [of 8 bs] by (metis UN_upper set_concat zero_less_numeral)
    ultimately show ?thesis using bl byte_bits_pack [of c] by (auto simp: bit_list_def)
  qed
  then have "map (byte_bits \<circ> pack_byte) (chunks 8 bs) = chunks 8 bs"
    by (simp add: map_idI)
  then show ?thesis
    using concat_chunks [of 8 bs] by (simp add: bits_of_bytes_def pack_bits_def)
qed

lemma pack_bits_fill:
  "0 < r \<Longrightarrow> r < 8 \<Longrightarrow> 8 dvd length xs \<Longrightarrow> length ys = r \<Longrightarrow>
   pack_bits (xs @ ys) = pack_bits (xs @ ys @ replicate (8 - r) 0)"
proof (induction "length xs" arbitrary: xs rule: less_induct)
  case less
  show ?case
  proof (cases "xs = []")
    case True
    have "ys \<noteq> []" using less.prems by auto
    then have "chunks 8 ys = [ys]" "chunks 8 (ys @ replicate (8 - r) 0) = [ys @ replicate (8 - r) 0]"
      using less.prems by (simp_all add: chunks.simps [of 8 ys] chunks.simps [of 8 "ys @ replicate (8 - r) 0"])
    then show ?thesis
      using True pack_byte_fill [of ys] less.prems by (simp add: pack_bits_def)
  next
    case False
    then have le: "8 \<le> length xs" using less.prems(3) by (simp add: dvd_imp_le)
    then have "pack_bits (drop 8 xs @ ys) = pack_bits (drop 8 xs @ ys @ replicate (8 - r) 0)"
      using less.prems by (intro less.hyps) (auto simp: dvd_diff_nat)
    moreover have "chunks 8 (xs @ zs) = take 8 xs # chunks 8 (drop 8 xs @ zs)" for zs
      using chunks_append [of "take 8 xs" 8 "drop 8 xs @ zs"] le
      by (simp add: append_assoc [symmetric] del: append_assoc)
    ultimately show ?thesis by (simp add: pack_bits_def)
  qed
qed

section \<open>The encoder as a path through the trellis\<close>

fun conv_symbols :: "nat \<Rightarrow> nat list \<Rightarrow> (nat \<times> nat) list" where
  "conv_symbols s [] = []"
| "conv_symbols s (b # bs) = expected_output s b # conv_symbols (next_state s b) bs"

definition flatten :: "(nat \<times> nat) list \<Rightarrow> nat list" where
  "flatten ps = concat (map (\<lambda>(a, b). [a, b]) ps)"

lemma flatten_simps [simp]:
  "flatten [] = []" "flatten ((a, b) # ps) = a # b # flatten ps" "flatten (ps @ qs) = flatten ps @ flatten qs"
  by (simp_all add: flatten_def)

lemma length_flatten [simp]: "length (flatten ps) = 2 * length ps"
  by (induction ps) auto

lemma bit_pairs_flatten: "bit_pairs (flatten ps) = ps"
  by (induction ps) auto

lemma length_conv_symbols [simp]: "length (conv_symbols s bs) = length bs"
  by (induction bs arbitrary: s) auto

lemma conv_symbols_append:
  "conv_symbols s (xs @ ys) = conv_symbols s xs @ conv_symbols (foldl next_state s xs) ys"
  by (induction xs arbitrary: s) auto

lemma next_state_eq: "b \<in> {0, 1} \<Longrightarrow> next_state s b = (2 * s + b) mod 64"
  unfolding next_state_def NUM_STATES_def by (simp only: nat_push_or_bit) (simp add: nat_and_63)

lemma next_state_less: "b \<in> {0, 1} \<Longrightarrow> next_state s b < 64"
  by (simp add: next_state_eq)

lemma double_mod:
  fixes r b :: nat
  shows "(2 * (r mod 64) + b) mod 128 = (2 * r + b) mod 128"
    and "(2 * (r mod 64) + b) mod 64 = (2 * r + b) mod 64"
proof -
  have r: "r = r mod 64 + 64 * (r div 64)" by (rule mod_mult_div_eq [symmetric])
  have "2 * r + b = (2 * (r mod 64) + b) + 128 * (r div 64)" using r by linarith
  then show "(2 * (r mod 64) + b) mod 128 = (2 * r + b) mod 128"
    by (metis mod_mult_self2)
  have "2 * r + b = (2 * (r mod 64) + b) + 64 * (2 * (r div 64))" using r by linarith
  then show "(2 * (r mod 64) + b) mod 64 = (2 * r + b) mod 64"
    by (metis mod_mult_self2)
qed

lemma register_mod:
  assumes "b \<in> {0, 1}"
  shows "(push_bit 1 (r mod 64) OR b) AND 127 = (push_bit 1 r OR b) AND (127 :: nat)"
  using double_mod(1) [of r b] by (simp only: nat_push_or_bit [OF assms] nat_and_127)

lemma conv_bit_eq:
  assumes "b \<in> {0, 1}"
  shows "\<exists>r'. conv_bit (r, out) b = (r', out @ flatten [expected_output (r mod 64) b])
    \<and> r' mod 64 = next_state (r mod 64) b"
proof -
  let ?r = "(push_bit 1 r OR b) AND 127"
  have "conv_bit (r, out) b = (?r, out @ flatten [expected_output (r mod 64) b])"
    by (simp only: conv_bit_def expected_output_def Let_def register_mod [OF assms] prod.case
        flatten_simps)
  moreover have "?r mod 64 = next_state (r mod 64) b"
    using double_mod(2) [of r b]
    by (simp add: nat_push_or_bit [OF assms] nat_and_127 next_state_eq [OF assms] mod_mod_cancel
        del: push_bit_Suc push_bit_of_nat One_nat_def)
  ultimately show ?thesis by blast
qed

lemma conv_run_eq:
  "bit_list bs \<Longrightarrow> \<exists>r'. foldl conv_bit (r, out) bs = (r', out @ flatten (conv_symbols (r mod 64) bs))
    \<and> r' mod 64 = foldl next_state (r mod 64) bs"
proof (induction bs arbitrary: r out)
  case Nil
  then show ?case by simp
next
  case (Cons b bs)
  obtain r1 where r1: "conv_bit (r, out) b = (r1, out @ flatten [expected_output (r mod 64) b])"
    "r1 mod 64 = next_state (r mod 64) b"
    using conv_bit_eq [of b r out] Cons.prems by (auto simp: bit_list_def)
  show ?case
    using Cons.IH [of r1 "out @ flatten [expected_output (r mod 64) b]"] Cons.prems r1
    by (auto simp: bit_list_def flatten_def)
qed

section \<open>The decoder follows a clean path\<close>

text \<open>Both generators tap the input bit, so the two branches out of a state differ.\<close>

lemma nat_odd_and_pred: "Suc (2 * x) AND (2 * x) = 2 * (x :: nat)"
proof -
  have "(push_bit 1 x OR 1) AND push_bit 1 x = push_bit 1 x"
    by (rule bit_eqI) (auto simp: bit_and_iff bit_or_iff)
  then show ?thesis using nat_push_or_bit [of 1 x] by (simp add: mult.commute)
qed

lemma parity_loop_flip: "parity_loop (p XOR 1) v = parity_loop p v XOR 1"
proof (induction p v rule: parity_loop.induct)
  case (1 p v)
  then show ?case
    by (cases "v = 0") (simp_all add: parity_loop.simps [of _ v] parity_loop.simps [of _ 0])
qed

lemma parity_odd: "parity (Suc (2 * x)) = parity (2 * x) XOR 1"
  using parity_loop_flip [of 0 "2 * x"]
  by (simp add: parity_def parity_loop.simps [of 0 "Suc (2 * x)"] nat_odd_and_pred)

lemma generator_tap:
  "parity ((push_bit 1 s OR 1) AND 127 AND 121) = parity ((push_bit 1 s OR 0) AND 127 AND 121) XOR 1"
proof -
  let ?y = "(push_bit 1 s OR 0) AND 127 AND 121"
  have "(push_bit 1 s OR 1) AND 127 AND 121 = ?y OR 1"
    by (rule bit_eqI) (auto simp: bit_and_iff bit_or_iff bit_1_iff simp del: One_nat_def)
  moreover have y: "?y = push_bit 1 (?y div 2)"
  proof -
    have "\<not> bit ?y 0" by (simp add: bit_0 even_and_iff)
    then have "even ?y" by (simp add: bit_0)
    then show ?thesis by simp
  qed
  moreover have "push_bit 1 (?y div 2) OR 1 = Suc (2 * (?y div 2))"
    using nat_push_or_bit [of 1 "?y div 2"] by simp
  moreover have "push_bit 1 (?y div 2) = 2 * (?y div 2)" by simp
  ultimately show ?thesis using parity_odd [of "?y div 2"] by metis
qed

lemma expected_output_differ: "fst (expected_output s 0) \<noteq> fst (expected_output s 1)"
proof
  assume "fst (expected_output s 0) = fst (expected_output s 1)"
  then have "parity ((push_bit 1 s OR 0) AND 127 AND 121)
      = parity ((push_bit 1 s OR 0) AND 127 AND 121) XOR 1"
    using generator_tap [of s] by (simp add: expected_output_def G1_def and.assoc Let_def)
  then show False by (metis xor.assoc xor_self_eq xor.left_neutral zero_neq_one)
qed

lemma expected_output_inj:
  assumes "fst (expected_output s a) = fst (expected_output s b)" "a \<in> {0, 1}" "b \<in> {0, 1}"
  shows "a = b"
  using assms expected_output_differ [of s] by auto

section \<open>Tracking\<close>

text \<open>The trellis knows the path: zero metric at its state, with its bits, and nowhere else.\<close>

definition tracks :: "trellis \<Rightarrow> nat \<Rightarrow> nat list \<Rightarrow> bool" where
  "tracks tr s w \<longleftrightarrow> length (fst tr) = 64 \<and> length (snd tr) = 64 \<and> s < 64
     \<and> fst tr ! s = Some 0 \<and> snd tr ! s = w \<and> (\<forall>t < 64. t \<noteq> s \<longrightarrow> fst tr ! t \<noteq> Some 0)"

text \<open>Halfway through a step towards state \<open>t\<close> with bits \<open>w\<close>.\<close>

definition partway :: "bool \<Rightarrow> trellis \<Rightarrow> nat \<Rightarrow> nat list \<Rightarrow> bool" where
  "partway seen tr t w \<longleftrightarrow> length (fst tr) = 64 \<and> length (snd tr) = 64 \<and> t < 64
     \<and> (\<forall>n < 64. n \<noteq> t \<longrightarrow> fst tr ! n \<noteq> Some 0)
     \<and> (if seen then fst tr ! t = Some 0 \<and> snd tr ! t = w else fst tr ! t \<noteq> Some 0)"

lemma metric_less_Some_0: "metric_less c (Some 0) \<longleftrightarrow> False" "metric_less (Some 0) m \<longleftrightarrow> m \<noteq> Some 0"
  by (auto simp: metric_less_def split: option.splits)

text \<open>A branch of positive cost, or out of a state off the path, changes nothing that matters.\<close>

lemma acs_bit_other:
  assumes "partway seen tr t w" "b \<in> {0, 1}"
    and "0 < pm + branch_metric symbol (expected_output state b)"
  shows "partway seen (acs_bit symbol state pm sv tr b) t w"
proof -
  obtain nm ns where tr: "tr = (nm, ns)" by fastforce
  have "next_state state b < 64" using assms(2) by (rule next_state_less)
  then show ?thesis
    using assms(1,3) unfolding partway_def tr
    by (auto simp: acs_bit_def Let_def nth_list_update metric_less_Some_0 split: if_splits)
qed

lemma acs_bit_path:
  assumes "partway False tr (next_state s b) (w @ [b])" "b \<in> {0, 1}"
  shows "partway True (acs_bit (expected_output s b) s 0 w tr b) (next_state s b) (w @ [b])"
proof -
  obtain nm ns where tr: "tr = (nm, ns)" by fastforce
  show ?thesis
    using assms(1) unfolding partway_def tr
    by (auto simp: acs_bit_def Let_def branch_metric_def metric_less_Some_0 nth_list_update)
qed

lemma branch_metric_zero:
  assumes "branch_metric (expected_output s b) (expected_output s a) = 0" "a \<in> {0, 1}" "b \<in> {0, 1}"
  shows "a = b"
proof (rule expected_output_inj [OF _ assms(2,3)])
  have "fst (expected_output s b) XOR fst (expected_output s a) = 0"
    using assms(1) by (simp add: branch_metric_def)
  then show "fst (expected_output s a) = fst (expected_output s b)"
    by (metis xor.assoc xor.left_neutral xor_self_eq xor.right_neutral)
qed

lemma acs_state_off_path:
  assumes "tracks old s w" "state < 64" "state \<noteq> s" "partway seen new t v"
  shows "partway seen (acs_state symbol old new state) t v"
proof (cases "fst old ! state")
  case None
  then show ?thesis using assms(4) by (simp add: acs_state_def)
next
  case (Some pm)
  then have "0 < pm" using assms(1-3) by (auto simp: tracks_def)
  then show ?thesis
    using assms(4) Some by (simp add: acs_state_def acs_bit_other)
qed

lemma acs_state_on_path:
  assumes "tracks old s w" "partway False new (next_state s b) (w @ [b])" "b \<in> {0, 1}"
  shows "partway True (acs_state (expected_output s b) old new s) (next_state s b) (w @ [b])"
proof -
  have w: "snd old ! s = w" "fst old ! s = Some 0" using assms(1) by (simp_all add: tracks_def)
  let ?f = "acs_bit (expected_output s b) s 0 w"
  have other: "partway seen (?f new' a) (next_state s b) (w @ [b])"
    if "partway seen new' (next_state s b) (w @ [b])" "a \<in> {0, 1}" "a \<noteq> b" for seen new' a
    using branch_metric_zero [of s b a] that assms(3) by (intro acs_bit_other) auto
  have path: "partway True (?f new' b) (next_state s b) (w @ [b])"
    if "partway False new' (next_state s b) (w @ [b])" for new'
    by (rule acs_bit_path [OF that assms(3)])
  have "partway True (?f (?f new 0) 1) (next_state s b) (w @ [b])"
  proof (cases "b = 0")
    case True
    have first: "partway True (?f new 0) (next_state s b) (w @ [b])"
      using path [OF assms(2)] by (simp only: True)
    show ?thesis by (rule other [OF first]) (simp_all add: True)
  next
    case False
    then have b: "b = 1" using assms(3) by simp
    have "partway False (?f new 0) (next_state s b) (w @ [b])"
      by (rule other [OF assms(2)]) (simp_all add: b)
    from path [OF this] show ?thesis by (simp only: b)
  qed
  then show ?thesis by (simp add: acs_state_def w)
qed

lemma foldl_off_path:
  "tracks old s w \<Longrightarrow> \<forall>st \<in> set sts. st < 64 \<and> st \<noteq> s \<Longrightarrow> partway seen new t v \<Longrightarrow>
   partway seen (foldl (acs_state symbol old) new sts) t v"
proof (induction sts arbitrary: new)
  case (Cons a sts)
  then have "partway seen (acs_state symbol old new a) t v"
    by (intro acs_state_off_path) auto
  then show ?case using Cons by simp
qed simp

lemma acs_step_tracks:
  assumes "tracks old s w" "b \<in> {0, 1}"
  shows "tracks (acs_step old (expected_output s b)) (next_state s b) (w @ [b])"
proof -
  let ?t = "next_state s b" and ?sy = "expected_output s b"
  have s: "s < 64" using assms(1) by (simp add: tracks_def)
  have split: "[0..<NUM_STATES] = [0..<s] @ s # [Suc s..<64]"
    using s upt_add_eq_append [of 0 s "64 - s"] by (simp add: NUM_STATES_def upt_conv_Cons)
  have "partway False empty_trellis ?t (w @ [b])"
    using next_state_less [OF assms(2)]
    by (simp add: partway_def empty_trellis_def NUM_STATES_def)
  then have "partway False (foldl (acs_state ?sy old) empty_trellis [0..<s]) ?t (w @ [b])"
    by (rule foldl_off_path [OF assms(1), rotated]) (use s in auto)
  then have "partway True (acs_state ?sy old (foldl (acs_state ?sy old) empty_trellis [0..<s]) s)
      ?t (w @ [b])"
    by (rule acs_state_on_path [OF assms(1) _ assms(2)])
  then have "partway True (acs_step old ?sy) ?t (w @ [b])"
    unfolding acs_step_def split foldl_append foldl.simps
    by (rule foldl_off_path [OF assms(1), rotated]) auto
  then show ?thesis by (simp add: partway_def tracks_def)
qed

lemma foldl_acs_tracks:
  "tracks tr s w \<Longrightarrow> bit_list bs \<Longrightarrow>
   tracks (foldl acs_step tr (conv_symbols s bs)) (foldl next_state s bs) (w @ bs)"
proof (induction bs arbitrary: tr s w)
  case (Cons b bs)
  then have "tracks (acs_step tr (expected_output s b)) (next_state s b) (w @ [b])"
    by (auto simp: bit_list_def intro: acs_step_tracks)
  from Cons.IH [OF this] show ?case using Cons.prems by (simp add: bit_list_def)
qed simp

lemma start_tracks: "tracks start_trellis 0 []"
  by (auto simp: tracks_def start_trellis_def NUM_STATES_def nth_list_update)

lemma best_state_tracks:
  assumes "tracks tr s w"
  shows "best_state (fst tr) = s"
proof -
  let ?pm = "fst tr"
  have pm: "?pm ! s = Some 0" "\<And>t. t < 64 \<Longrightarrow> t \<noteq> s \<Longrightarrow> ?pm ! t \<noteq> Some 0" "s < 64"
    using assms by (auto simp: tracks_def)
  have "\<exists>b. foldl (best_step ?pm) (0, ?pm ! 0) [1..<n] = (b, ?pm ! b) \<and> b < 64 \<and> (s < n \<longrightarrow> b = s)"
    if "1 \<le> n" "n \<le> 64" for n
    using that
  proof (induction n rule: dec_induct)
    case base
    then show ?case by auto
  next
    case (step n)
    then obtain b where b: "foldl (best_step ?pm) (0, ?pm ! 0) [1..<n] = (b, ?pm ! b)" "b < 64"
      "s < n \<longrightarrow> b = s" by auto
    have "foldl (best_step ?pm) (0, ?pm ! 0) [1..<Suc n] = best_step ?pm (b, ?pm ! b) n"
      using step.hyps b(1) by simp
    moreover have "s = n \<Longrightarrow> best_step ?pm (b, ?pm ! b) n = (s, ?pm ! s)"
      using pm b(2) by (cases "b = s") (auto simp: best_step_def metric_less_Some_0)
    moreover have "s < n \<Longrightarrow> best_step ?pm (b, ?pm ! b) n = (s, ?pm ! s)"
      using pm b(3) by (simp add: best_step_def metric_less_Some_0)
    moreover have "\<exists>b'. best_step ?pm (b, ?pm ! b) n = (b', ?pm ! b') \<and> b' < 64"
      using b(2) step.prems by (simp add: best_step_def)
    ultimately show ?case using pm(3) by (metis less_Suc_eq)
  qed
  from this [of 64] show ?thesis using pm(3) by (auto simp: best_state_def NUM_STATES_def)
qed

section \<open>Properties\<close>

definition zeros :: "nat \<Rightarrow> nat list" where
  "zeros n = replicate n 0"

lemma flush_to_zero:
  assumes "s < 64"
  shows "foldl next_state s (zeros 6) = 0" "foldl next_state s (zeros 8) = 0"
proof -
  have "zeros 6 = [0, 0, 0, 0, 0, 0]" "zeros 8 = [0, 0, 0, 0, 0, 0, 0, 0]"
    by (simp_all add: zeros_def eval_nat_numeral)
  then show "foldl next_state s (zeros 6) = 0" "foldl next_state s (zeros 8) = 0"
    by (simp_all add: next_state_eq mod_mult_right_eq mult.assoc [symmetric])
qed

lemma end_state_less: "s < 64 \<Longrightarrow> bit_list bs \<Longrightarrow> foldl next_state s bs < 64"
proof (induction bs arbitrary: s)
  case (Cons b bs)
  then have "next_state s b < 64" by (intro next_state_less) (auto simp: bit_list_def)
  then show ?case using Cons by (simp add: bit_list_def)
qed simp

lemma conv_flush_bit: "conv_flush st = conv_bit st 0"
  by (cases st) (simp add: conv_flush_def conv_bit_def)

lemma parity_bit: "parity v \<in> {0, 1}"
proof -
  have "p \<in> {0, 1} \<Longrightarrow> parity_loop p v \<in> {0, 1}" for p
  proof (induction p v rule: parity_loop.induct)
    case (1 p v)
    then show ?case by (cases "v = 0") (auto simp: parity_loop.simps [of _ v] parity_loop.simps [of _ 0])
  qed
  then show ?thesis by (simp add: parity_def)
qed

lemma flatten_conv_symbols_bits: "bit_list (flatten (conv_symbols s bs))"
proof (induction bs arbitrary: s)
  case (Cons b bs)
  then show ?case
    using parity_bit by (auto simp: bit_list_def expected_output_def Let_def)
qed (simp add: bit_list_def)

text \<open>The coded bits of a message: the path of its bits followed by eight zeros.\<close>

lemma bits_of_conv_encode:
  "bits_of_bytes (conv_encode d) = flatten (conv_symbols 0 (bits_of_bytes d @ zeros 8))"
proof -
  let ?bs = "bits_of_bytes d"
  have bl: "bit_list (?bs @ zeros 6)"
    using bits_of_bytes_bit_list by (auto simp: bit_list_def zeros_def)
  have "(conv_flush ^^ 6) st = foldl conv_bit st (zeros 6)" for st
    by (simp add: zeros_def eval_nat_numeral conv_flush_bit)
  then have "snd ((conv_flush ^^ (K - 1)) (foldl conv_bit (0, []) ?bs))
      = snd (foldl conv_bit (0, []) (?bs @ zeros 6))"
    by (simp add: K_def)
  also have "\<dots> = flatten (conv_symbols 0 (?bs @ zeros 6))"
    using conv_run_eq [OF bl, of 0 "[]"] by auto
  finally have enc: "conv_encode d = pack_bits (flatten (conv_symbols 0 (?bs @ zeros 6)))"
    by (simp add: conv_encode_def)
  have end0: "foldl next_state 0 (?bs @ zeros 6) = 0"
    using flush_to_zero(1) end_state_less [of 0 ?bs] bits_of_bytes_bit_list by simp
  have e0: "expected_output 0 0 = (0, 0)" "next_state 0 0 = 0"
    by (simp_all add: expected_output_def parity_def parity_loop.simps next_state_def)
  have "zeros 8 = zeros 6 @ [0, 0]"
    by (simp add: zeros_def eval_nat_numeral)
  then have tail: "flatten (conv_symbols 0 (?bs @ zeros 8))
      = flatten (conv_symbols 0 (?bs @ zeros 6)) @ [0, 0, 0, 0]"
    using end0 e0 by (simp add: conv_symbols_append)
  let ?xs = "flatten (conv_symbols 0 ?bs) @ take 8 (flatten (conv_symbols (foldl next_state 0 ?bs) (zeros 6)))"
  let ?ys = "drop 8 (flatten (conv_symbols (foldl next_state 0 ?bs) (zeros 6)))"
  have xy: "flatten (conv_symbols 0 (?bs @ zeros 6)) = ?xs @ ?ys"
    by (simp add: conv_symbols_append)
  have lens: "length ?ys = 4" "8 dvd length ?xs"
    by (simp_all add: zeros_def)
  have r4: "replicate (8 - 4) (0 :: nat) = [0, 0, 0, 0]"
    by (simp add: eval_nat_numeral)
  have "pack_bits (?xs @ ?ys) = pack_bits (?xs @ ?ys @ replicate (8 - 4) 0)"
    by (rule pack_bits_fill) (use lens in simp_all)
  then have "conv_encode d = pack_bits (flatten (conv_symbols 0 (?bs @ zeros 8)))"
    unfolding enc tail xy append_assoc r4 .
  moreover have "8 dvd length (flatten (conv_symbols 0 (?bs @ zeros 8)))"
    by (simp add: zeros_def)
  ultimately show ?thesis
    by (simp add: bits_of_pack_bits_aligned flatten_conv_symbols_bits)
qed

lemma viterbi_bits:
  assumes "bit_list bs" "bs \<noteq> []" "bits_of_bytes e = flatten (conv_symbols 0 bs)"
  shows "viterbi_decode e n = pack_bits (strip_flush n bs)"
proof -
  let ?tr = "foldl acs_step start_trellis (conv_symbols 0 bs)"
  have t: "tracks ?tr (foldl next_state 0 bs) bs"
    using foldl_acs_tracks [OF start_tracks assms(1)] by simp
  have "snd ?tr ! best_state (fst ?tr) = bs"
    using best_state_tracks [OF t] t by (simp add: tracks_def)
  moreover have "conv_symbols 0 bs \<noteq> []" using assms(2) by (cases bs) simp_all
  ultimately show ?thesis
    by (simp add: viterbi_decode_def assms(3) bit_pairs_flatten Let_def)
qed

text \<open>
  C36: Viterbi decoding inverts the convolutional encoder. With the original length the decoder
  returns the message; without it one extra zero byte is left over, because the encoder's output
  is filled to whole bytes and only the six flush bits are stripped.
\<close>

theorem viterbi_inverts_encoder:
  "viterbi_decode (conv_encode d) (Some (length d)) = d \<and> viterbi_decode (conv_encode d) None = d @ [0]"
proof -
  let ?bs = "bits_of_bytes d @ zeros 8"
  have bl: "bit_list ?bs"
    using bits_of_bytes_bit_list by (auto simp: bit_list_def zeros_def)
  have ne: "?bs \<noteq> []" by (simp add: zeros_def)
  note v = viterbi_bits [OF bl ne bits_of_conv_encode]
  have "strip_flush (Some (length d)) ?bs = bits_of_bytes d"
    by (simp add: strip_flush_def mult.commute)
  moreover have "strip_flush None ?bs = bits_of_bytes d @ [0, 0]"
    by (simp add: strip_flush_def K_def zeros_def eval_nat_numeral)
  moreover have "pack_bits (bits_of_bytes d @ [0, 0]) = pack_bits (bits_of_bytes (d @ [0]))"
  proof -
    have "byte_bits 0 = [0, 0] @ replicate (8 - 2) 0"
      by (simp add: byte_bits_def eval_nat_numeral)
    moreover have "pack_bits (bits_of_bytes d @ [0, 0])
        = pack_bits (bits_of_bytes d @ [0, 0] @ replicate (8 - 2) 0)"
      by (rule pack_bits_fill) simp_all
    moreover have "bits_of_bytes (d @ [0]) = bits_of_bytes d @ byte_bits 0"
      by (simp add: bits_of_bytes_def)
    ultimately show ?thesis by simp
  qed
  ultimately show ?thesis using v by (simp add: pack_bits_of_bytes)
qed

end
