(* ===== verification/Interleave_Scramble.thy ===== *)
theory Interleave_Scramble
  imports Prelude
begin

text \<open>
  The randomizer of \<open>smo_rfsim/ccsds/scrambler.py\<close> and the interleavers of
  \<open>smo_rfsim/ccsds/interleaver.py\<close>. The loop that lengthens the pseudo-random sequence is a
  partial function, so that its termination is part of what is proved.
\<close>

section \<open>The randomizer\<close>

text \<open>One bit of the sequence: the output bit is the top of the register.\<close>

definition lfsr_bit :: "nat \<times> nat \<Rightarrow> nat \<times> nat" where
  "lfsr_bit = (\<lambda>(register, byte_val).
     let output = drop_bit 7 register AND 1;
         byte_val' = push_bit 1 byte_val OR output;
         feedback = (drop_bit 7 register XOR drop_bit 5 register XOR drop_bit 3 register XOR register) AND 1
     in ((push_bit 1 register OR feedback) AND 0xFF, byte_val'))"

fun lfsr_bytes :: "nat \<Rightarrow> nat \<Rightarrow> bytes" where
  "lfsr_bytes 0 register = []"
| "lfsr_bytes (Suc n) register =
     (case (lfsr_bit ^^ 8) (register, 0) of (register', byte_val) \<Rightarrow>
        word_of_nat byte_val # lfsr_bytes n register')"

definition generate_sequence :: "nat \<Rightarrow> bytes" where
  "generate_sequence n = lfsr_bytes n 0xFF"

definition CCSDS_SEQUENCE :: bytes where
  "CCSDS_SEQUENCE = generate_sequence 2048"

text \<open>\<open>while len(seq) < n: seq = seq + seq\<close>\<close>

partial_function (option) extend_sequence :: "nat \<Rightarrow> bytes \<Rightarrow> bytes option" where
  "extend_sequence n s = (if length s < n then extend_sequence n (s @ s) else Some s)"

definition scramble :: "bytes \<Rightarrow> bytes option" where
  "scramble d =
     (let n = length d
      in map_option (\<lambda>s. map (\<lambda>(a, b). a XOR b) (zip d (take n s)))
           (extend_sequence n CCSDS_SEQUENCE))"

definition descramble :: "bytes \<Rightarrow> bytes option" where
  "descramble d = scramble d"

lemma length_lfsr_bytes [simp]: "length (lfsr_bytes n r) = n"
  by (induction n arbitrary: r) (auto split: prod.splits)

lemma extend_sequence_terminates:
  "s \<noteq> [] \<Longrightarrow> \<exists>s'. extend_sequence n s = Some s' \<and> n \<le> length s'"
proof (induction "n - length s" arbitrary: s rule: less_induct)
  case less
  show ?case
  proof (cases "length s < n")
    case True
    then have "n - length (s @ s) < n - length s" using less.prems by (cases s) auto
    then obtain s' where "extend_sequence n (s @ s) = Some s'" "n \<le> length s'"
      using less.hyps [of "s @ s"] less.prems by auto
    then show ?thesis using True by (simp add: extend_sequence.simps [of n s])
  next
    case False
    then show ?thesis by (simp add: extend_sequence.simps [of n s])
  qed
qed

definition scramble_mask :: "nat \<Rightarrow> bytes" where
  "scramble_mask n = take n (the (extend_sequence n CCSDS_SEQUENCE))"

lemma sequence_nonempty: "CCSDS_SEQUENCE \<noteq> []"
  by (simp add: CCSDS_SEQUENCE_def generate_sequence_def flip: length_greater_0_conv)

lemma length_scramble_mask [simp]: "length (scramble_mask n) = n"
  using extend_sequence_terminates [OF sequence_nonempty, of n] by (auto simp: scramble_mask_def)

lemma scramble_eq: "scramble d = Some (xor_bytes d (scramble_mask (length d)))"
  using extend_sequence_terminates [OF sequence_nonempty, of "length d"]
  by (auto simp: scramble_def scramble_mask_def xor_bytes_def Let_def)

lemma xor_bytes_cancel: "length xs \<le> length m \<Longrightarrow> xor_bytes (xor_bytes xs m) m = xs"
proof (induction xs arbitrary: m)
  case (Cons x xs)
  then show ?case by (cases m) (auto simp: xor.assoc)
qed simp

text \<open>
  scrambling terminates for every length (the sequence is doubled until it is long enough),
  keeps the length, and is undone by descrambling.
\<close>

theorem scramble_involution:
  "\<exists>e. scramble d = Some e \<and> length e = length d \<and> descramble e = Some d"
  by (simp add: scramble_eq descramble_def xor_bytes_cancel)

section \<open>Block interleaver\<close>

text \<open>
  \<open>matrix.reshape(rows, cols).T.flatten()\<close>: element \<open>j * cols + i\<close> of the padded data for \<open>i\<close>
  in columns, \<open>j\<close> in rows.
\<close>

definition transpose_flat :: "nat \<Rightarrow> nat \<Rightarrow> 'a list \<Rightarrow> 'a list" where
  "transpose_flat rows cols xs = concat (map (\<lambda>i. map (\<lambda>j. xs ! (j * cols + i)) [0..<rows]) [0..<cols])"

definition make_depth :: "int \<Rightarrow> nat" where
  "make_depth depth = nat (max 1 depth)"

definition block_interleave :: "nat \<Rightarrow> bytes \<Rightarrow> bytes" where
  "block_interleave depth d =
     (if depth \<le> 1 then d
      else
        let n = length d;
            width = (n + depth - 1) div depth;
            padded = d @ replicate (width * depth - n) 0
        in take n (transpose_flat depth width padded))"

definition block_deinterleave :: "nat \<Rightarrow> bytes \<Rightarrow> bytes" where
  "block_deinterleave depth d =
     (if depth \<le> 1 then d
      else
        let n = length d;
            width = (n + depth - 1) div depth;
            padded = d @ replicate (width * depth - n) 0
        in take n (transpose_flat width depth padded))"

lemma length_transpose_flat [simp]: "length (transpose_flat r c xs) = r * c"
  by (simp add: transpose_flat_def length_concat sum_list_replicate comp_def map_replicate_const)

lemma concat_map_nth:
  "i < c \<Longrightarrow> j < r \<Longrightarrow> concat (map (\<lambda>i. map (f i) [0..<r]) [0..<c]) ! (i * r + j) = f i j"
proof (induction c)
  case (Suc c)
  have len: "length (concat (map (\<lambda>i. map (f i) [0..<r]) [0..<c])) = c * r"
    by (simp add: length_concat sum_list_replicate comp_def map_replicate_const)
  show ?case
  proof (cases "i = c")
    case True
    then show ?thesis using Suc.prems len by (simp add: nth_append)
  next
    case False
    then have ic: "i < c" using Suc.prems by simp
    then have "i * r + j < c * r"
      using Suc.prems(2) mult_le_mono1 [of "Suc i" c r] by simp
    then show ?thesis using Suc.IH ic Suc.prems(2) len by (simp add: nth_append)
  qed
qed simp

lemma nth_transpose_flat:
  "i < c \<Longrightarrow> j < r \<Longrightarrow> transpose_flat r c xs ! (i * r + j) = xs ! (j * c + i)"
  unfolding transpose_flat_def by (rule concat_map_nth)

lemma transpose_flat_inverse:
  assumes "length xs = r * c"
  shows "transpose_flat c r (transpose_flat r c xs) = xs"
proof (rule nth_equalityI)
  show "length (transpose_flat c r (transpose_flat r c xs)) = length xs"
    using assms by (simp add: mult.commute)
  fix k
  assume "k < length (transpose_flat c r (transpose_flat r c xs))"
  then have k: "k < r * c" by (simp add: mult.commute)
  then have c: "0 < c" by (cases c) auto
  have "k div c < r" using k c by (simp add: div_less_iff_less_mult)
  moreover have "k mod c < c" using c by simp
  moreover have "k = k div c * c + k mod c" by simp
  ultimately show "transpose_flat c r (transpose_flat r c xs) ! k = xs ! k"
    by (metis nth_transpose_flat)
qed

lemma width_bounds:
  assumes "0 < (D :: nat)"
  shows "n \<le> (n + D - 1) div D * D" "(n + D - 1) div D * D < n + D"
proof -
  have e: "(n + D - 1) div D * D + (n + D - 1) mod D = n + D - 1" by (rule div_mult_mod_eq)
  have "(n + D - 1) mod D < D" using assms by simp
  then show "n \<le> (n + D - 1) div D * D" "(n + D - 1) div D * D < n + D"
    using e assms by linarith+
qed

definition block_width :: "nat \<Rightarrow> nat \<Rightarrow> nat" where
  "block_width D n = (n + D - 1) div D"

definition block_fill :: "nat \<Rightarrow> nat \<Rightarrow> nat" where
  "block_fill D n = block_width D n * D - n"

lemma block_fill_eq: "0 < D \<Longrightarrow> block_width D n * D = n + block_fill D n"
  using width_bounds(1) [of D n] by (simp add: block_fill_def block_width_def)

lemma block_interleave_eq:
  "1 < D \<Longrightarrow> block_interleave D d = take (length d)
     (transpose_flat D (block_width D (length d)) (d @ replicate (block_fill D (length d)) 0))"
  by (simp add: block_interleave_def block_width_def block_fill_def Let_def)

lemma block_deinterleave_eq:
  "1 < D \<Longrightarrow> block_deinterleave D d = take (length d)
     (transpose_flat (block_width D (length d)) D (d @ replicate (block_fill D (length d)) 0))"
  by (simp add: block_deinterleave_def block_width_def block_fill_def Let_def)

lemma block_roundtrip_shape:
  assumes "1 < D" "length d = n"
  shows "block_deinterleave D (block_interleave D d) = take n (transpose_flat (block_width D n) D
      (take n (transpose_flat D (block_width D n) (d @ replicate (block_fill D n) 0))
       @ replicate (block_fill D n) 0))"
proof -
  have "block_width D n * D = n + block_fill D n" using block_fill_eq [of D n] assms(1) by simp
  then have "length (block_interleave D d) = n"
    using assms by (simp add: block_interleave_eq mult.commute)
  then show ?thesis
    using block_deinterleave_eq [OF assms(1), of "block_interleave D d"]
      block_interleave_eq [OF assms(1), of d] assms(2) by simp
qed

lemma transpose_flat_one_col:
  assumes "length xs = r"
  shows "transpose_flat r 1 xs = xs"
  using map_nth [of xs] assms by (simp add: transpose_flat_def)

lemma block_roundtrip_good:
  assumes D: "1 < D" and n: "length d = n" and good: "block_width D n \<le> 1 \<or> block_fill D n \<le> 1"
  shows "block_deinterleave D (block_interleave D d) = d"
proof -
  let ?w = "block_width D n" and ?m = "block_fill D n"
  let ?p = "d @ replicate ?m 0"
  let ?t = "transpose_flat D ?w ?p"
  have e: "?w * D = n + ?m" using block_fill_eq [of D n] D by simp
  have lp: "length ?p = D * ?w" using n e by (simp add: mult.commute)
  have lt: "length ?t = n + ?m" using e by (simp add: mult.commute)
  have "take n ?t @ replicate ?m 0 = ?t"
  proof (cases "?w \<le> 1")
    case True
    then consider "?w = 0" | "?w = 1" by linarith
    then show ?thesis
    proof cases
      case 1
      then have z: "n + ?m = 0" using e by (simp only: mult_0)
      have m0: "?m = 0" using z by (rule add_is_0 [THEN iffD1, THEN conjunct2])
      have "?t = []" using lt z by (simp only: length_0_conv)
      then show ?thesis by (simp only: m0 take_Nil replicate_0 append_Nil)
    next
      case 2
      then have "?t = ?p" using transpose_flat_one_col [of ?p D] lp by simp
      then show ?thesis using n by simp
    qed
  next
    case False
    then have "?m = 0 \<or> ?m = 1" using good by auto
    moreover have "?m = 1 \<Longrightarrow> ?t ! n = 0"
    proof -
      assume m1: "?m = 1"
      have "?t ! ((?w - 1) * D + (D - 1)) = ?p ! ((D - 1) * ?w + (?w - 1))"
        using False D by (intro nth_transpose_flat) auto
      moreover have "(?w - 1) * D + (D - 1) = n"
        using e m1 False D by (cases ?w; cases D) (auto simp: algebra_simps)
      moreover have "(D - 1) * ?w + (?w - 1) = n"
        using e m1 False D by (cases ?w; cases D) (auto simp: algebra_simps)
      ultimately show "?t ! n = 0" using n m1 by (simp add: nth_append)
    qed
    ultimately show ?thesis
      using lt take_Suc_conv_app_nth [of n ?t] by (elim disjE) (simp_all del: length_transpose_flat)
  qed
  then show ?thesis
    using block_roundtrip_shape [OF D n] transpose_flat_inverse [OF lp] n by simp
qed

lemma block_roundtrip_bad:
  assumes D: "1 < D" and bad: "1 < block_width D n" "1 < block_fill D n"
  shows "\<exists>d. length d = n \<and> block_deinterleave D (block_interleave D d) \<noteq> d"
proof -
  let ?w = "block_width D n" and ?m = "block_fill D n"
  have e: "?w * D = n + ?m" using block_fill_eq [of D n] D by simp
  have mD: "?m < D" using width_bounds(2) [of D n] D e by (simp add: block_width_def)
  let ?j = "D - ?m" and ?i = "?w - 1"
  let ?q = "?j * ?w + ?i"
  have q: "?q < n"
  proof -
    have "(?m - 1) * 1 < (?m - 1) * ?w" using bad by (intro mult_less_mono2) auto
    then have "?m - 1 + ?w < ?m * ?w" using bad(2) by (cases ?m) auto
    moreover have "?j * ?w + ?m * ?w = n + ?m"
    proof -
      have "?j * ?w + ?m * ?w = (?j + ?m) * ?w" by (simp only: add_mult_distrib)
      also have "\<dots> = ?w * D" using mD by (simp add: mult.commute)
      finally show ?thesis using e by simp
    qed
    ultimately show ?thesis using bad by linarith
  qed
  have k: "?i * D + ?j = n"
    using e mD bad by (cases ?w) (auto simp: algebra_simps)
  let ?d = "(replicate n (1 :: byte))"
  let ?x = "take n (transpose_flat D ?w (?d @ replicate ?m 0)) @ replicate ?m 0"
  have "block_deinterleave D (block_interleave D ?d) ! ?q = transpose_flat ?w D ?x ! ?q"
    using block_roundtrip_shape [OF D, of ?d n] q by simp
  also have "\<dots> = ?x ! (?i * D + ?j)"
    using bad D mD by (intro nth_transpose_flat) auto
  also have "\<dots> = 0"
    unfolding k using e bad(2) by (simp add: nth_append mult.commute)
  finally show ?thesis using q by (intro exI [of _ ?d]) auto
qed

text \<open>
  The block interleaver is undone by the deinterleaver for every data of length \<open>n\<close> exactly
  when the data fills one column or leaves at most one cell of the matrix free. For other
  lengths the cut to the input length drops data bytes, so the round trip loses them.
\<close>

theorem block_interleaver_roundtrip_iff:
  "(\<forall>d \<in> {d. length d = n}. block_deinterleave D (block_interleave D d) = d)
    \<longleftrightarrow> D \<le> 1 \<or> block_width D n \<le> 1 \<or> block_fill D n \<le> 1"
proof (cases "D \<le> 1")
  case True
  then show ?thesis by (simp add: block_interleave_def block_deinterleave_def)
next
  case False
  then show ?thesis
    using block_roundtrip_good [of D _ n] block_roundtrip_bad [of D n] by force
qed

theorem block_interleaver_roundtrip_iff_witness:
  "block_deinterleave 5 (block_interleave 5 [1, 2, 3, 4, 5, 6, 7, 8, 9])
      = [1, 2, 3, 4, 5, 6, 7, 8, 9] \<and> \<not> (block_width 5 6 \<le> 1 \<or> block_fill 5 6 \<le> 1)"
  using block_interleaver_roundtrip_iff [of 9 5] by (simp add: block_width_def block_fill_def)

section \<open>Convolutional interleaver\<close>

text \<open>
  \<open>branches\<close> keeps the code's clamped value; the delay lines are built from the arguments as
  given. A read of \<open>lines[branch_idx]\<close> past the end raises \<open>IndexError\<close>.
\<close>

record conv_interleaver =
  branches :: nat
  interleave_lines :: "bytes list"
  deinterleave_lines :: "bytes list"
  branch_idx :: nat

definition make_conv_interleaver :: "int \<Rightarrow> int \<Rightarrow> conv_interleaver" where
  "make_conv_interleaver br unit_delay =
     \<lparr>branches = nat (max 1 br),
      interleave_lines = map (\<lambda>i. replicate (nat (int i * unit_delay)) 0) [0..<nat br],
      deinterleave_lines = map (\<lambda>i. replicate (nat ((br - 1 - int i) * unit_delay)) 0) [0..<nat br],
      branch_idx = 0\<rparr>"

text \<open>\<open>line.pop(0)\<close> and \<open>line.append(byte)\<close>, or the byte itself on an empty line.\<close>

definition push_line :: "bytes \<Rightarrow> byte \<Rightarrow> byte \<times> bytes" where
  "push_line line b = (case line of [] \<Rightarrow> (b, []) | x # xs \<Rightarrow> (x, xs @ [b]))"

fun conv_interleave :: "bytes \<Rightarrow> conv_interleaver \<Rightarrow> (bytes \<times> conv_interleaver) result" where
  "conv_interleave [] c = Inr ([], c)"
| "conv_interleave (b # bs) c =
     (if branch_idx c < length (interleave_lines c) then
        let (x, line) = push_line (interleave_lines c ! branch_idx c) b;
            c' = c\<lparr>interleave_lines := (interleave_lines c)[branch_idx c := line],
                   branch_idx := (branch_idx c + 1) mod branches c\<rparr>
        in bind_result (conv_interleave bs c') (\<lambda>(out, c''). Inr (x # out, c''))
      else Inl IndexError)"

fun conv_deinterleave :: "bytes \<Rightarrow> conv_interleaver \<Rightarrow> (bytes \<times> conv_interleaver) result" where
  "conv_deinterleave [] c = Inr ([], c)"
| "conv_deinterleave (b # bs) c =
     (if branch_idx c < length (deinterleave_lines c) then
        let (x, line) = push_line (deinterleave_lines c ! branch_idx c) b;
            c' = c\<lparr>deinterleave_lines := (deinterleave_lines c)[branch_idx c := line],
                   branch_idx := (branch_idx c + 1) mod branches c\<rparr>
        in bind_result (conv_deinterleave bs c') (\<lambda>(out, c''). Inr (x # out, c''))
      else Inl IndexError)"

text \<open>
  A sender and a receiver object, byte by byte: on branch \<open>r\<close> the receiver's line followed by the
  sender's line is one queue of \<open>N\<close> bytes, and the \<open>B\<close> queues served in turn are one queue.
\<close>

definition joined :: "bytes list \<Rightarrow> bytes list \<Rightarrow> nat \<Rightarrow> bytes" where
  "joined ms ls i = ms ! i @ ls ! i"

definition round_queue :: "(nat \<Rightarrow> bytes) \<Rightarrow> nat \<Rightarrow> nat \<Rightarrow> nat \<Rightarrow> bytes" where
  "round_queue qs B N r = map (\<lambda>k. qs ((r + k) mod B) ! (k div B)) [0..<B * N]"

lemma nat_add_mod_neq:
  assumes "r < (B :: nat)" "k mod B \<noteq> 0"
  shows "(r + k) mod B \<noteq> r"
proof
  assume "(r + k) mod B = r"
  then have "(r + k) mod B = (r + 0) mod B" using assms(1) by simp
  then have "B dvd k" by (metis mod_eq_dvd_iff_nat le_add1 add_diff_cancel_left' add_0_right)
  then show False using assms(2) by simp
qed

lemma round_queue_step:
  assumes B: "0 < B" "0 < N" "r < B" and len: "\<forall>i < B. length (qs i) = N"
    and qs': "qs' r = tl (qs r) @ [x]" "\<forall>i < B. i \<noteq> r \<longrightarrow> qs' i = qs i"
  shows "round_queue qs B N r @ [x] = hd (qs r) # round_queue qs' B N ((r + 1) mod B)"
proof (rule nth_equalityI)
  show "length (round_queue qs B N r @ [x])
      = length (hd (qs r) # round_queue qs' B N ((r + 1) mod B))"
    by (simp add: round_queue_def)
  fix k
  assume "k < length (round_queue qs B N r @ [x])"
  then have k: "k \<le> B * N" by (simp add: round_queue_def)
  have lr: "length (qs r) = N" "qs r \<noteq> []" using len B by auto
  show "(round_queue qs B N r @ [x]) ! k = (hd (qs r) # round_queue qs' B N ((r + 1) mod B)) ! k"
  proof (cases k)
    case 0
    then show ?thesis using B lr by (simp add: round_queue_def nth_append hd_conv_nth)
  next
    case (Suc j)
    then have j: "j < B * N" using k by simp
    define b where "b = (r + Suc j) mod B"
    have rhs: "(hd (qs r) # round_queue qs' B N ((r + 1) mod B)) ! k = qs' b ! (j div B)"
      using j Suc by (simp add: round_queue_def b_def mod_simps)
    have lhs: "(round_queue qs B N r @ [x]) ! k
        = (if k < B * N then qs b ! (Suc j div B) else x)"
      using k Suc by (simp add: round_queue_def b_def nth_append)
    have bB: "b < B" using B by (simp add: b_def)
    show ?thesis
    proof (cases "Suc j mod B = 0")
      case True
      then have br: "b = r"
        using B(3) mod_add_right_eq [of r "Suc j" B] by (simp add: b_def del: mod_add_right_eq)
      have d: "Suc j div B = Suc (j div B)" using True by (simp add: div_Suc)
      have "j div B < N" using j B(1) by (simp add: div_less_iff_less_mult mult.commute)
      then have q: "qs' b ! (j div B) = (if Suc (j div B) < N then qs r ! Suc (j div B) else x)"
        using lr by (auto simp: br qs'(1) nth_append nth_tl)
      have "k < B * N \<longleftrightarrow> Suc (j div B) < N"
        using Suc B(1) by (simp add: d [symmetric] div_less_iff_less_mult mult.commute)
      then show ?thesis unfolding lhs rhs q d by (simp add: br)
    next
      case False
      then have "b \<noteq> r"
        unfolding b_def using nat_add_mod_neq [OF B(3), of "Suc j"] by simp
      then have q: "qs' b = qs b" using qs'(2) bB by blast
      have d: "Suc j div B = j div B" using False by (simp add: div_Suc)
      have "k < B * N" using False k Suc by (cases "Suc j = B * N") auto
      then show ?thesis unfolding lhs rhs q d by simp
    qed
  qed
qed

text \<open>A sender and a receiver in step: equal indices, and queues of \<open>N\<close> bytes on each branch.\<close>

definition paired :: "nat \<Rightarrow> nat \<Rightarrow> conv_interleaver \<Rightarrow> conv_interleaver \<Rightarrow> bool" where
  "paired B N s d \<longleftrightarrow> 0 < B \<and> branches s = B \<and> branches d = B \<and> branch_idx s < B \<and>
     branch_idx d = branch_idx s \<and> length (interleave_lines s) = B \<and>
     length (deinterleave_lines d) = B \<and>
     (\<forall>i < B. length (joined (deinterleave_lines d) (interleave_lines s) i) = N)"

definition in_flight :: "nat \<Rightarrow> nat \<Rightarrow> conv_interleaver \<Rightarrow> conv_interleaver \<Rightarrow> bytes" where
  "in_flight B N s d =
     round_queue (joined (deinterleave_lines d) (interleave_lines s)) B N (branch_idx s)"

lemma push_line_fifo:
  "push_line line b = (x, line') \<Longrightarrow> x # line' = line @ [b] \<and> length line' = length line"
  by (auto simp: push_line_def split: list.splits)

lemma pair_step:
  assumes p: "paired B N s d" and r: "r = branch_idx s"
    and i: "push_line (interleave_lines s ! r) b = (x, l')"
    and m: "push_line (deinterleave_lines d ! r) x = (y, m')"
    and s': "s' = s\<lparr>interleave_lines := (interleave_lines s)[r := l'], branch_idx := (r + 1) mod branches s\<rparr>"
    and d': "d' = d\<lparr>deinterleave_lines := (deinterleave_lines d)[r := m'], branch_idx := (r + 1) mod branches d\<rparr>"
  shows "paired B N s' d' \<and> y # in_flight B N s' d' = in_flight B N s d @ [b]"
proof -
  let ?q = "joined (deinterleave_lines d) (interleave_lines s)"
  let ?q' = "joined (deinterleave_lines d') (interleave_lines s')"
  have rB: "r < B" "0 < B" using p r by (auto simp: paired_def)
  have qr: "?q' r = m' @ l'"
    using p r rB by (simp add: s' d' joined_def paired_def)
  have "y # m' @ l' = (deinterleave_lines d ! r @ [x]) @ l'"
    using push_line_fifo [OF m] by (simp flip: append_Cons)
  also have "\<dots> = deinterleave_lines d ! r @ interleave_lines s ! r @ [b]"
    using push_line_fifo [OF i] by simp
  finally have fifo: "y # ?q' r = ?q r @ [b]" unfolding qr by (simp add: joined_def)
  have other: "\<forall>i < B. i \<noteq> r \<longrightarrow> ?q' i = ?q i"
    by (simp add: s' d' joined_def)
  have len: "length (?q' i) = N" if "i < B" for i
    using p other that arg_cong [OF fifo, of length] by (cases "i = r") (auto simp: paired_def)
  have pair: "paired B N s' d'"
    using p len by (simp add: paired_def s' d' r)
  have "y # in_flight B N s' d' = in_flight B N s d @ [b]"
  proof (cases "N = 0")
    case True
    then have "?q r = []" using p rB by (auto simp: paired_def)
    then show ?thesis using fifo True by (simp add: in_flight_def round_queue_def)
  next
    case False
    have ne: "?q r \<noteq> []" using p rB False by (auto simp: paired_def)
    then have "y = hd (?q r)" "?q' r = tl (?q r) @ [b]"
      using fifo by (cases "?q r"; simp)+
    then show ?thesis
      using round_queue_step [of B N r ?q ?q' b] False rB p other
      by (simp add: in_flight_def paired_def s' d' r)
  qed
  then show ?thesis using pair by blast
qed

definition conv_link :: "bytes \<Rightarrow> conv_interleaver \<Rightarrow> conv_interleaver \<Rightarrow> bytes result" where
  "conv_link data s d =
     bind_result (conv_interleave data s) (\<lambda>(sent, _).
       bind_result (conv_deinterleave sent d) (\<lambda>(received, _). Inr received))"

lemma conv_link_Cons:
  assumes "paired B N s d" "r = branch_idx s"
    and "push_line (interleave_lines s ! r) b = (x, l')"
    and "push_line (deinterleave_lines d ! r) x = (y, m')"
  shows "conv_link (b # bs) s d = bind_result
    (conv_link bs (s\<lparr>interleave_lines := (interleave_lines s)[r := l'], branch_idx := (r + 1) mod branches s\<rparr>)
      (d\<lparr>deinterleave_lines := (deinterleave_lines d)[r := m'], branch_idx := (r + 1) mod branches d\<rparr>))
    (\<lambda>out. Inr (y # out))"
  using assms
  by (simp add: conv_link_def paired_def bind_result_def split: sum.splits prod.splits)

lemma paired_link:
  "paired B N s d \<Longrightarrow> conv_link xs s d = Inr (take (length xs) (in_flight B N s d @ xs))"
proof (induction xs arbitrary: s d)
  case Nil
  then show ?case by (simp add: conv_link_def)
next
  case (Cons b bs)
  let ?r = "branch_idx s"
  obtain x l' where i: "push_line (interleave_lines s ! ?r) b = (x, l')" by fastforce
  obtain y m' where m: "push_line (deinterleave_lines d ! ?r) x = (y, m')" by fastforce
  let ?s = "s\<lparr>interleave_lines := (interleave_lines s)[?r := l'], branch_idx := (?r + 1) mod branches s\<rparr>"
  let ?d = "d\<lparr>deinterleave_lines := (deinterleave_lines d)[?r := m'], branch_idx := (?r + 1) mod branches d\<rparr>"
  have step: "paired B N ?s ?d" "y # in_flight B N ?s ?d = in_flight B N s d @ [b]"
    using pair_step [OF Cons.prems refl i m refl refl] by simp_all
  have c: "in_flight B N s d @ b # bs = y # in_flight B N ?s ?d @ bs"
    using step(2) by (metis append_Cons append_assoc append_Nil)
  show ?case
    unfolding conv_link_Cons [OF Cons.prems refl i m] Cons.IH [OF step(1)] c
    by (simp del: take_append)
qed

lemma make_paired:
  assumes "0 < br"
  shows "paired (nat br) (nat (br - 1) * nat u) (make_conv_interleaver br u) (make_conv_interleaver br u)
    \<and> in_flight (nat br) (nat (br - 1) * nat u) (make_conv_interleaver br u) (make_conv_interleaver br u)
      = replicate (nat br * (nat (br - 1) * nat u)) 0"
proof -
  let ?N = "nat (br - 1) * nat u"
  have q: "joined (deinterleave_lines (make_conv_interleaver br u))
      (interleave_lines (make_conv_interleaver br u)) i = replicate ?N 0" if "i < nat br" for i
  proof -
    have "nat ((br - 1 - int i) * u) + nat (int i * u) = ?N"
    proof (cases "0 \<le> u")
      case True
      have "0 \<le> br - 1 - int i" using that by linarith
      then have "nat ((br - 1 - int i) * u) + nat (int i * u) = nat ((br - 1 - int i) * u + int i * u)"
        using True by (simp add: nat_add_distrib)
      also have "\<dots> = nat ((br - 1) * u)" by (simp add: algebra_simps)
      finally show ?thesis using assms by (simp add: nat_mult_distrib)
    next
      case False
      have "(br - 1 - int i) * u \<le> 0" "int i * u \<le> 0"
        using False that by (simp_all add: mult_nonneg_nonpos)
      then show ?thesis using False by simp
    qed
    then show ?thesis using that by (simp add: joined_def make_conv_interleaver_def flip: replicate_add)
  qed
  have "in_flight (nat br) ?N (make_conv_interleaver br u) (make_conv_interleaver br u)
      = replicate (nat br * ?N) 0"
  proof (rule nth_equalityI)
    fix k
    assume "k < length (in_flight (nat br) ?N (make_conv_interleaver br u) (make_conv_interleaver br u))"
    then have k: "k < nat br * ?N" by (simp add: in_flight_def round_queue_def)
    then have "k div nat br < ?N" using assms by (simp add: div_less_iff_less_mult mult.commute)
    moreover have "k mod nat br < nat br" using assms by simp
    ultimately show "in_flight (nat br) ?N (make_conv_interleaver br u) (make_conv_interleaver br u) ! k
        = replicate (nat br * ?N) 0 ! k"
      using k q by (simp add: in_flight_def round_queue_def make_conv_interleaver_def)
  qed (simp add: in_flight_def round_queue_def)
  then show ?thesis
    using q assms by (simp add: paired_def) (simp add: make_conv_interleaver_def)
qed

text \<open>
  with a fresh convolutional interleaver object at each end the link is a pure delay: the
  receiver gets the sent stream behind \<open>branches * (branches - 1) * unit_delay\<close> zero bytes, for
  every data; with no branches every byte raises \<open>IndexError\<close>.
\<close>

theorem conv_interleaver_delay:
  "conv_link xs (make_conv_interleaver br u) (make_conv_interleaver br u) =
    (if br \<le> 0 \<and> xs \<noteq> [] then Inl IndexError
     else Inr (take (length xs) (replicate (nat br * (nat (br - 1) * nat u)) 0 @ xs)))"
proof (cases "0 < br")
  case True
  then show ?thesis
    using paired_link [of "nat br" "nat (br - 1) * nat u"] make_paired [OF True, of u] by simp
next
  case False
  then show ?thesis by (cases xs) (simp_all add: conv_link_def make_conv_interleaver_def)
qed

end
