(* ===== verification/Asm_Sync.thy ===== *)
theory Asm_Sync
  imports Prelude
begin

text \<open>
  The attached sync marker of \<open>smo_rfsim/ccsds/asm.py\<close> and the frame synchronizer of
  \<open>smo_rfsim/ccsds/frame_sync.py\<close>: a state machine over a byte buffer, one function per method.
  The extraction loop of \<open>feed\<close> is a total function: each extracted frame shortens the buffer,
  or clears the pending first frame.
\<close>

section \<open>The sync marker\<close>

definition ASM_BYTES :: bytes where "ASM_BYTES = [0x1A, 0xCF, 0xFC, 0x1D]"
definition ASM_INT :: int where "ASM_INT = 0x1ACFFC1D"
definition ASM_LENGTH :: nat where "ASM_LENGTH = 4"
definition ASM_INVERTED_INT :: int where "ASM_INVERTED_INT = ASM_INT XOR 0xFFFFFFFF"

definition attach_asm :: "bytes \<Rightarrow> bytes" where
  "attach_asm frame = ASM_BYTES @ frame"

definition strip_asm :: "bytes \<Rightarrow> bytes" where
  "strip_asm d = (if take ASM_LENGTH d = ASM_BYTES then drop ASM_LENGTH d else d)"

text \<open>\<open>bin(x).count('1')\<close> for a non-negative \<open>x\<close>.\<close>

function bin_ones :: "int \<Rightarrow> nat" where
  "bin_ones x = (if x \<le> 0 then 0 else nat (x mod 2) + bin_ones (x div 2))"
  by pat_completeness auto
termination by (relation "measure nat") auto

declare bin_ones.simps [simp del]

definition unpack_I :: "bytes \<Rightarrow> nat \<Rightarrow> int" where
  "unpack_I d i = be_int (pyslice i (i + ASM_LENGTH) d)"

fun correlate_loop :: "bytes \<Rightarrow> int \<Rightarrow> nat list \<Rightarrow> int" where
  "correlate_loop d max_bit_errors [] = -1"
| "correlate_loop d max_bit_errors (i # is) =
     (if int (bin_ones (unpack_I d i XOR ASM_INT)) \<le> max_bit_errors then int i
      else correlate_loop d max_bit_errors is)"

definition correlate_asm :: "bytes \<Rightarrow> nat \<Rightarrow> int \<Rightarrow> int" where
  "correlate_asm d offset max_bit_errors =
     (if length d < offset + ASM_LENGTH then -1
      else correlate_loop d max_bit_errors [offset..<length d - ASM_LENGTH + 1])"

fun correlate_inv_loop :: "bytes \<Rightarrow> int \<Rightarrow> nat list \<Rightarrow> int \<times> bool" where
  "correlate_inv_loop d max_bit_errors [] = (-1, False)"
| "correlate_inv_loop d max_bit_errors (i # is) =
     (let candidate = unpack_I d i in
      if int (bin_ones (candidate XOR ASM_INT)) \<le> max_bit_errors then (int i, False)
      else if int (bin_ones (candidate XOR ASM_INVERTED_INT)) \<le> max_bit_errors then (int i, True)
      else correlate_inv_loop d max_bit_errors is)"

definition correlate_asm_with_inversion :: "bytes \<Rightarrow> nat \<Rightarrow> int \<Rightarrow> int \<times> bool" where
  "correlate_asm_with_inversion d offset max_bit_errors =
     (if length d < offset + ASM_LENGTH then (-1, False)
      else correlate_inv_loop d max_bit_errors [offset..<length d - ASM_LENGTH + 1])"

section \<open>The synchronizer\<close>

datatype sync_state = SEARCH | VERIFY | LOCK

record frame_synchronizer =
  fs_frame_length :: nat
  fs_max_bit_errors :: int
  fs_verify_count :: nat
  fs_flywheel_count :: nat
  fs_state :: sync_state
  fs_buffer :: bytes
  fs_verify_hits :: nat
  fs_flywheel_misses :: nat
  fs_frame_offset :: "int option"
  fs_pending_first_frame :: bool
  fs_total_frames :: nat
  fs_inverted :: bool

definition make_synchronizer :: "nat \<Rightarrow> int \<Rightarrow> nat \<Rightarrow> nat \<Rightarrow> frame_synchronizer" where
  "make_synchronizer frame_length max_bit_errors verify_count flywheel_count =
     \<lparr>fs_frame_length = frame_length, fs_max_bit_errors = max_bit_errors,
      fs_verify_count = verify_count, fs_flywheel_count = flywheel_count,
      fs_state = SEARCH, fs_buffer = [], fs_verify_hits = 0, fs_flywheel_misses = 0,
      fs_frame_offset = None, fs_pending_first_frame = False, fs_total_frames = 0,
      fs_inverted = False\<rparr>"

text \<open>\<open>del self._buffer[:k]\<close>\<close>

definition del_front :: "nat \<Rightarrow> frame_synchronizer \<Rightarrow> frame_synchronizer" where
  "del_front k s = s\<lparr>fs_buffer := drop k (fs_buffer s)\<rparr>"

text \<open>Cutting the next frame off the buffer, with the frame counter, as every branch does it.\<close>

definition cut_frame :: "frame_synchronizer \<Rightarrow> bytes \<times> frame_synchronizer" where
  "cut_frame s = (take (fs_frame_length s) (fs_buffer s),
     (del_front (fs_frame_length s) s)\<lparr>fs_total_frames := fs_total_frames s + 1\<rparr>)"

definition enter_lock :: "frame_synchronizer \<Rightarrow> frame_synchronizer" where
  "enter_lock s = (if fs_verify_count s \<le> fs_verify_hits s
     then s\<lparr>fs_state := LOCK, fs_flywheel_misses := 0\<rparr> else s)"

definition marker_at :: "frame_synchronizer \<Rightarrow> nat \<Rightarrow> bool" where
  "marker_at s offset =
     (fst (correlate_asm_with_inversion (pyslice offset (offset + ASM_LENGTH) (fs_buffer s)) 0
        (fs_max_bit_errors s)) = 0)"

definition state_verify :: "frame_synchronizer \<Rightarrow> bytes option \<times> frame_synchronizer" where
  "state_verify s =
     (if fs_pending_first_frame s then
        if length (fs_buffer s) < fs_frame_length s then (None, s)
        else (case cut_frame s of (frame_data, s') \<Rightarrow>
          (Some frame_data, enter_lock (s'\<lparr>fs_pending_first_frame := False, fs_verify_hits := 1\<rparr>)))
      else if length (fs_buffer s) < ASM_LENGTH + fs_frame_length s then (None, s)
      else if marker_at s 0 then
        (case cut_frame (del_front ASM_LENGTH s) of (frame_data, s') \<Rightarrow>
          (Some frame_data, enter_lock (s'\<lparr>fs_verify_hits := fs_verify_hits s' + 1\<rparr>)))
      else (None, s\<lparr>fs_state := SEARCH, fs_verify_hits := 0\<rparr>))"

definition state_search :: "frame_synchronizer \<Rightarrow> bytes option \<times> frame_synchronizer" where
  "state_search s =
     (case correlate_asm_with_inversion (fs_buffer s) 0 (fs_max_bit_errors s) of (pos, inverted) \<Rightarrow>
       if pos < 0 then
         (None, if ASM_LENGTH < length (fs_buffer s)
                then del_front (length (fs_buffer s) - ASM_LENGTH + 1) s else s)
       else state_verify ((del_front (nat pos + ASM_LENGTH) s)\<lparr>fs_inverted := inverted,
              fs_frame_offset := Some pos, fs_pending_first_frame := True,
              fs_state := VERIFY, fs_verify_hits := 0\<rparr>))"

text \<open>The first offset of the window with a marker.\<close>

fun realign :: "frame_synchronizer \<Rightarrow> nat list \<Rightarrow> nat option" where
  "realign s [] = None"
| "realign s (offset # offsets) = (if marker_at s offset then Some offset else realign s offsets)"

definition state_lock :: "frame_synchronizer \<Rightarrow> bytes option \<times> frame_synchronizer" where
  "state_lock s =
     (if length (fs_buffer s) < ASM_LENGTH + fs_frame_length s then (None, s)
      else if marker_at s 0 then
        (case cut_frame (del_front ASM_LENGTH s) of (frame_data, s') \<Rightarrow>
          (Some frame_data, s'\<lparr>fs_flywheel_misses := 0\<rparr>))
      else
        let search_range = min 3 (length (fs_buffer s) - ASM_LENGTH - fs_frame_length s) in
        case realign s [1..<search_range + 1] of
          Some offset \<Rightarrow>
            (case cut_frame (del_front (offset + ASM_LENGTH) s) of (frame_data, s') \<Rightarrow>
              (Some frame_data, s'\<lparr>fs_flywheel_misses := 0\<rparr>))
        | None \<Rightarrow>
            let s1 = s\<lparr>fs_flywheel_misses := fs_flywheel_misses s + 1\<rparr> in
            if fs_flywheel_count s1 \<le> fs_flywheel_misses s1
            then (None, s1\<lparr>fs_state := SEARCH, fs_flywheel_misses := 0\<rparr>)
            else (case cut_frame (del_front ASM_LENGTH s1) of (frame_data, s') \<Rightarrow>
              (Some frame_data, s')))"

definition try_extract :: "frame_synchronizer \<Rightarrow> bytes option \<times> frame_synchronizer" where
  "try_extract s = (case fs_state s of
      SEARCH \<Rightarrow> state_search s
    | VERIFY \<Rightarrow> state_verify s
    | LOCK \<Rightarrow> state_lock s)"

definition invert :: "bytes \<Rightarrow> bytes" where
  "invert frame = map (\<lambda>b. b XOR 0xFF) frame"

definition cap_buffer :: "frame_synchronizer \<Rightarrow> frame_synchronizer" where
  "cap_buffer s =
     (let max_buf = (fs_frame_length s + ASM_LENGTH) * 10 in
      if max_buf < length (fs_buffer s) then del_front (length (fs_buffer s) - max_buf) s else s)"

text \<open>What a call to \<open>_try_extract\<close> that returns a frame uses up.\<close>

definition left :: "frame_synchronizer \<Rightarrow> nat" where
  "left s = length (fs_buffer s) + (if fs_pending_first_frame s then 1 else 0)"

lemma del_front_simps [simp]:
  "fs_buffer (del_front k s) = drop k (fs_buffer s)"
  "fs_frame_length (del_front k s) = fs_frame_length s"
  "fs_max_bit_errors (del_front k s) = fs_max_bit_errors s"
  "fs_verify_count (del_front k s) = fs_verify_count s"
  "fs_flywheel_count (del_front k s) = fs_flywheel_count s"
  "fs_state (del_front k s) = fs_state s"
  "fs_verify_hits (del_front k s) = fs_verify_hits s"
  "fs_flywheel_misses (del_front k s) = fs_flywheel_misses s"
  "fs_pending_first_frame (del_front k s) = fs_pending_first_frame s"
  "fs_total_frames (del_front k s) = fs_total_frames s"
  "fs_inverted (del_front k s) = fs_inverted s"
  by (simp_all add: del_front_def)

lemma enter_lock_simps [simp]:
  "fs_buffer (enter_lock s) = fs_buffer s"
  "fs_frame_length (enter_lock s) = fs_frame_length s"
  "fs_max_bit_errors (enter_lock s) = fs_max_bit_errors s"
  "fs_verify_count (enter_lock s) = fs_verify_count s"
  "fs_flywheel_count (enter_lock s) = fs_flywheel_count s"
  "fs_verify_hits (enter_lock s) = fs_verify_hits s"
  "fs_pending_first_frame (enter_lock s) = fs_pending_first_frame s"
  "fs_total_frames (enter_lock s) = fs_total_frames s"
  "fs_inverted (enter_lock s) = fs_inverted s"
  "fs_state (enter_lock s) = (if fs_verify_count s \<le> fs_verify_hits s then LOCK else fs_state s)"
  "fs_flywheel_misses (enter_lock s)
     = (if fs_verify_count s \<le> fs_verify_hits s then 0 else fs_flywheel_misses s)"
  by (simp_all add: enter_lock_def)

lemma ASM_LENGTH_pos [simp]: "0 < ASM_LENGTH"
  by (simp add: ASM_LENGTH_def)

lemma realign_in: "realign s os = Some k \<Longrightarrow> k \<in> set os"
  by (induction s os rule: realign.induct) (auto split: if_splits)

lemma state_verify_left: "state_verify s = (Some f, s') \<Longrightarrow> left s' < left s"
  by (auto simp: state_verify_def cut_frame_def left_def ASM_LENGTH_def split: if_splits)

lemma state_lock_left: "state_lock s = (Some f, s') \<Longrightarrow> left s' < left s"
  by (auto simp: state_lock_def cut_frame_def left_def Let_def ASM_LENGTH_def split: if_splits option.splits)

lemma correlate_inv_loop_in:
  "correlate_inv_loop d e is = (pos, v) \<Longrightarrow> pos < 0 \<or> nat pos \<in> set is"
  by (induction d e "is" rule: correlate_inv_loop.induct) (auto simp: Let_def split: if_splits)

lemma correlate_pos:
  assumes "correlate_asm_with_inversion d k e = (pos, v)" "0 \<le> pos"
  shows "k \<le> nat pos \<and> nat pos + ASM_LENGTH \<le> length d"
  using assms correlate_inv_loop_in [of d e _ pos v]
  by (fastforce simp: correlate_asm_with_inversion_def split: if_splits)

lemma state_search_left: "state_search s = (Some f, s') \<Longrightarrow> left s' < left s"
proof -
  assume a: "state_search s = (Some f, s')"
  obtain pos v where c: "correlate_asm_with_inversion (fs_buffer s) 0 (fs_max_bit_errors s) = (pos, v)"
    by fastforce
  let ?t = "(del_front (nat pos + ASM_LENGTH) s)\<lparr>fs_inverted := v, fs_frame_offset := Some pos,
    fs_pending_first_frame := True, fs_state := VERIFY, fs_verify_hits := 0\<rparr>"
  have v: "0 \<le> pos" "state_verify ?t = (Some f, s')"
    using a c by (auto simp: state_search_def split: if_splits)
  have "left ?t \<le> left s"
    using correlate_pos [OF c v(1)] by (auto simp: left_def ASM_LENGTH_def)
  then show ?thesis using state_verify_left [OF v(2)] by linarith
qed

lemma try_extract_left: "try_extract s = (Some f, s') \<Longrightarrow> left s' < left s"
  by (cases "fs_state s")
    (auto simp: try_extract_def dest: state_search_left state_verify_left state_lock_left)

text \<open>The loop of \<open>feed\<close>: extract until \<open>_try_extract\<close> returns \<open>None\<close>.\<close>

function feed_loop :: "frame_synchronizer \<Rightarrow> bytes list \<times> frame_synchronizer" where
  "feed_loop s =
     (case try_extract s of
        (None, s') \<Rightarrow> ([], s')
      | (Some frame, s') \<Rightarrow>
          (case feed_loop s' of (frames, s'') \<Rightarrow>
            ((if fs_inverted s' then invert frame else frame) # frames, s'')))"
  by pat_completeness auto
termination
  by (relation "measure left") (auto dest: try_extract_left [OF sym])

declare feed_loop.simps [simp del]

definition feed :: "bytes \<Rightarrow> frame_synchronizer \<Rightarrow> bytes list \<times> frame_synchronizer" where
  "feed d s = feed_loop (cap_buffer (s\<lparr>fs_buffer := fs_buffer s @ d\<rparr>))"

fun feed_all :: "bytes list \<Rightarrow> frame_synchronizer \<Rightarrow> bytes list \<times> frame_synchronizer" where
  "feed_all [] s = ([], s)"
| "feed_all (c # cs) s =
     (case feed c s of (fs, s') \<Rightarrow> (case feed_all cs s' of (gs, s'') \<Rightarrow> (fs @ gs, s'')))"

section \<open>Invariants\<close>

lemma cut_frame_eq:
  "cut_frame s = (take (fs_frame_length s) (fs_buffer s),
     (del_front (fs_frame_length s) s)\<lparr>fs_total_frames := fs_total_frames s + 1\<rparr>)"
  by (simp add: cut_frame_def)

text \<open>The configuration, which no operation changes.\<close>

definition config :: "frame_synchronizer \<Rightarrow> nat \<times> int \<times> nat \<times> nat" where
  "config s = (fs_frame_length s, fs_max_bit_errors s, fs_verify_count s, fs_flywheel_count s)"

definition sync_ok :: "frame_synchronizer \<Rightarrow> bool" where
  "sync_ok s \<longleftrightarrow>
     (fs_pending_first_frame s \<longrightarrow> fs_state s = VERIFY) \<and>
     (fs_state s = VERIFY \<longrightarrow> fs_pending_first_frame s \<or> fs_verify_hits s < fs_verify_count s) \<and>
     (fs_state s = LOCK \<longrightarrow> fs_flywheel_misses s < max 1 (fs_flywheel_count s)) \<and>
     (fs_state s \<noteq> LOCK \<longrightarrow> fs_flywheel_misses s = 0)"

text \<open>What every extraction step keeps, and what it adds to the counter.\<close>

definition step_ok :: "frame_synchronizer \<Rightarrow> bytes option \<times> frame_synchronizer \<Rightarrow> bool" where
  "step_ok s r \<longleftrightarrow> config (snd r) = config s \<and> sync_ok (snd r) \<and>
     length (fs_buffer (snd r)) \<le> length (fs_buffer s) \<and>
     (case fst r of None \<Rightarrow> fs_total_frames (snd r) = fs_total_frames s
      | Some f \<Rightarrow> length f = fs_frame_length s \<and> fs_total_frames (snd r) = fs_total_frames s + 1)"

lemma verify_step_ok:
  assumes "sync_ok s" "fs_state s = VERIFY"
  shows "step_ok s (state_verify s)"
  using assms
  by (auto simp: step_ok_def state_verify_def cut_frame_eq config_def sync_ok_def)

lemma lock_step_ok:
  assumes ok: "sync_ok s" and st: "fs_state s = LOCK"
  shows "step_ok s (state_lock s)"
proof -
  consider "length (fs_buffer s) < ASM_LENGTH + fs_frame_length s"
    | "\<not> length (fs_buffer s) < ASM_LENGTH + fs_frame_length s" "marker_at s 0"
    | k where "\<not> length (fs_buffer s) < ASM_LENGTH + fs_frame_length s" "\<not> marker_at s 0"
        "realign s [1..<min 3 (length (fs_buffer s) - ASM_LENGTH - fs_frame_length s) + 1] = Some k"
    | "\<not> length (fs_buffer s) < ASM_LENGTH + fs_frame_length s" "\<not> marker_at s 0"
        "realign s [1..<min 3 (length (fs_buffer s) - ASM_LENGTH - fs_frame_length s) + 1] = None"
    by (cases "realign s [1..<min 3 (length (fs_buffer s) - ASM_LENGTH - fs_frame_length s) + 1]")
      blast+
  then show ?thesis
  proof cases
    case 1
    then show ?thesis using ok by (simp add: step_ok_def state_lock_def)
  next
    case 2
    then show ?thesis using ok st
      by (auto simp: step_ok_def state_lock_def cut_frame_eq config_def sync_ok_def)
  next
    case 3
    then have "k \<le> length (fs_buffer s) - ASM_LENGTH - fs_frame_length s"
      using realign_in [OF 3(3)] by auto
    then show ?thesis using 3 ok st
      by (auto simp: step_ok_def state_lock_def cut_frame_eq config_def sync_ok_def Let_def)
  next
    case 4
    then show ?thesis using ok st
      by (auto simp: step_ok_def state_lock_def cut_frame_eq config_def sync_ok_def Let_def)
  qed
qed

lemma search_step_ok:
  assumes ok: "sync_ok s" and st: "fs_state s = SEARCH"
  shows "step_ok s (state_search s)"
proof -
  obtain pos v where c: "correlate_asm_with_inversion (fs_buffer s) 0 (fs_max_bit_errors s) = (pos, v)"
    by fastforce
  show ?thesis
  proof (cases "pos < 0")
    case True
    then show ?thesis using c ok st
      by (auto simp: step_ok_def state_search_def config_def sync_ok_def)
  next
    case False
    let ?t = "(del_front (nat pos + ASM_LENGTH) s)\<lparr>fs_inverted := v, fs_frame_offset := Some pos,
      fs_pending_first_frame := True, fs_state := VERIFY, fs_verify_hits := 0\<rparr>"
    have "step_ok ?t (state_verify ?t)"
      using ok st by (intro verify_step_ok) (auto simp: sync_ok_def)
    then show ?thesis using False c
      by (auto simp: step_ok_def state_search_def config_def split: option.splits)
  qed
qed

lemma try_extract_ok: "sync_ok s \<Longrightarrow> step_ok s (try_extract s)"
  by (cases "fs_state s") (simp_all add: try_extract_def search_step_ok verify_step_ok lock_step_ok)

lemma length_invert [simp]: "length (invert f) = length f"
  by (simp add: invert_def)

lemma feed_loop_ok:
  "sync_ok s \<Longrightarrow> feed_loop s = (fs, s') \<Longrightarrow>
   config s' = config s \<and> sync_ok s' \<and> length (fs_buffer s') \<le> length (fs_buffer s) \<and>
   fs_total_frames s' = fs_total_frames s + length fs \<and> (\<forall>f \<in> set fs. length f = fs_frame_length s)"
proof (induction s arbitrary: fs s' rule: feed_loop.induct)
  case (1 s)
  obtain r t where rt: "try_extract s = (r, t)" by fastforce
  have step: "step_ok s (r, t)" using try_extract_ok [OF 1(2)] rt by simp
  show ?case
  proof (cases r)
    case None
    then show ?thesis using 1(3) rt step by (simp add: feed_loop.simps [of s] step_ok_def)
  next
    case (Some f)
    obtain gs u where gu: "feed_loop t = (gs, u)" by fastforce
    have "sync_ok t" using step by (simp add: step_ok_def)
    then have "config u = config t \<and> sync_ok u \<and> length (fs_buffer u) \<le> length (fs_buffer t) \<and>
      fs_total_frames u = fs_total_frames t + length gs \<and> (\<forall>f \<in> set gs. length f = fs_frame_length t)"
      using 1(1) [OF rt [symmetric]] Some gu by blast
    moreover have "fs = (if fs_inverted t then invert f else f) # gs" "s' = u"
      using 1(3) rt Some gu by (simp_all add: feed_loop.simps [of s])
    ultimately show ?thesis
      using step Some by (auto simp: step_ok_def config_def)
  qed
qed

definition max_buf :: "frame_synchronizer \<Rightarrow> nat" where
  "max_buf s = (fs_frame_length s + ASM_LENGTH) * 10"

lemma cap_buffer_ok:
  "sync_ok s \<Longrightarrow> sync_ok (cap_buffer s) \<and> config (cap_buffer s) = config s \<and>
   fs_total_frames (cap_buffer s) = fs_total_frames s \<and> length (fs_buffer (cap_buffer s)) \<le> max_buf s"
  by (auto simp: cap_buffer_def sync_ok_def config_def max_buf_def Let_def)

lemma feed_ok:
  assumes "sync_ok s" "feed d s = (fs, s')"
  shows "config s' = config s \<and> sync_ok s' \<and> length (fs_buffer s') \<le> max_buf s \<and>
   fs_total_frames s' = fs_total_frames s + length fs \<and> (\<forall>f \<in> set fs. length f = fs_frame_length s)"
proof -
  let ?t = "s\<lparr>fs_buffer := fs_buffer s @ d\<rparr>"
  have t: "sync_ok ?t" using assms(1) by (simp add: sync_ok_def)
  show ?thesis
    using feed_loop_ok [of "cap_buffer ?t" fs s'] cap_buffer_ok [OF t] assms(2)
    by (auto simp: feed_def config_def max_buf_def)
qed

lemma feed_all_ok:
  "sync_ok s \<Longrightarrow> length (fs_buffer s) \<le> max_buf s \<Longrightarrow> feed_all cs s = (fs, s') \<Longrightarrow>
   config s' = config s \<and> sync_ok s' \<and> length (fs_buffer s') \<le> max_buf s \<and>
   fs_total_frames s' = fs_total_frames s + length fs \<and> (\<forall>f \<in> set fs. length f = fs_frame_length s)"
proof (induction cs arbitrary: s fs)
  case (Cons c cs)
  obtain gs t where t: "feed c s = (gs, t)" by fastforce
  obtain hs u where u: "feed_all cs t = (hs, u)" by fastforce
  have ft: "config t = config s \<and> sync_ok t \<and> length (fs_buffer t) \<le> max_buf s \<and>
    fs_total_frames t = fs_total_frames s + length gs \<and> (\<forall>f \<in> set gs. length f = fs_frame_length s)"
    using feed_ok [OF Cons.prems(1) t] .
  then have mb: "max_buf t = max_buf s" by (simp add: config_def max_buf_def)
  show ?case
    using Cons.IH [of t hs] ft mb Cons.prems(3) t u by (auto simp: config_def)
qed simp

text \<open>
  After any sequence of feeds, whatever the bytes, the buffer is at most ten frames long,
  the frame counter is the number of frames returned, each has the configured length, the
  flywheel counter of a locked synchronizer stays below the flywheel limit and is zero in the
  other states, and a verifying synchronizer is below the number of hits that locks.
\<close>

theorem synchronizer_invariant:
  assumes "feed_all cs (make_synchronizer L e v w) = (frames, s)"
  shows "length (fs_buffer s) \<le> 10 * (L + 4) \<and> fs_total_frames s = length frames \<and>
    (\<forall>f \<in> set frames. length f = L) \<and>
    fs_flywheel_misses s < max 1 (if fs_state s = LOCK then w else 0) \<and>
    (fs_state s = VERIFY \<longrightarrow> fs_pending_first_frame s \<or> fs_verify_hits s < v)"
proof -
  have "sync_ok (make_synchronizer L e v w)" by (simp add: sync_ok_def make_synchronizer_def)
  from feed_all_ok [OF this _ assms] show ?thesis
    by (auto simp: make_synchronizer_def config_def max_buf_def sync_ok_def ASM_LENGTH_def)
qed

text \<open>A stream of three frames behind exact markers, fed in two pieces.\<close>

definition sample_chunks :: "bytes list" where
  "sample_chunks = [ASM_BYTES @ [1, 2] @ ASM_BYTES @ [3], [4] @ ASM_BYTES @ [5, 6]]"

lemma sample_feed:
  "fst (feed_all sample_chunks (make_synchronizer 2 0 3 8)) = [[1, 2], [3, 4], [5, 6]]
   \<and> fs_state (snd (feed_all sample_chunks (make_synchronizer 2 0 3 8))) = LOCK"
  by code_simp

theorem synchronizer_invariant_witness:
  "fs_total_frames (snd (feed_all sample_chunks (make_synchronizer 2 0 3 8))) = 3"
  using synchronizer_invariant [of sample_chunks 2 0 3 8, OF prod.collapse [symmetric]] sample_feed
  by simp

section \<open>Streams of markers and frames\<close>

lemma xor_div_2: "((a :: int) XOR b) div 2 = (a div 2) XOR (b div 2)"
  using drop_bit_xor [of 1 a b] by (simp add: drop_bit_eq_div)

lemma xor_mod_2: "((a :: int) XOR b) mod 2 = (a mod 2) XOR (b mod 2)"
  using take_bit_xor [of 1 a b] by (simp add: take_bit_eq_mod)

lemma bin_ones_step: "0 \<le> x \<Longrightarrow> bin_ones x = nat (x mod 2) + bin_ones (x div 2)"
  by (cases "x = 0") (simp_all add: bin_ones.simps [of x] bin_ones.simps [of 0])

lemma bin_ones_flip:
  "0 \<le> y \<Longrightarrow> y < 2 ^ n \<Longrightarrow> bin_ones (y XOR (2 ^ n - 1)) + bin_ones y = n"
proof (induction n arbitrary: y)
  case 0
  then show ?case by (simp add: bin_ones.simps)
next
  case (Suc n)
  have m: "((2 :: int) ^ Suc n - 1) mod 2 = 1" "((2 :: int) ^ Suc n - 1) div 2 = 2 ^ n - 1"
  proof -
    have "(2 :: int) ^ Suc n - 1 = 1 + 2 * (2 ^ n - 1)" by simp
    then show "((2 :: int) ^ Suc n - 1) mod 2 = 1" "((2 :: int) ^ Suc n - 1) div 2 = 2 ^ n - 1"
      by presburger+
  qed
  have "0 \<le> y XOR (2 ^ Suc n - 1)" using Suc.prems(1) by simp
  then have "bin_ones (y XOR (2 ^ Suc n - 1))
      = nat ((y mod 2) XOR 1) + bin_ones ((y div 2) XOR (2 ^ n - 1))"
    by (simp only: bin_ones_step xor_div_2 xor_mod_2 m)
  moreover have "bin_ones y = nat (y mod 2) + bin_ones (y div 2)"
    using Suc.prems(1) by (rule bin_ones_step)
  moreover have "nat ((y mod 2) XOR 1) + nat (y mod 2) = 1"
    using mod_pos_pos_trivial [of "y mod 2" 2] by (cases "y mod 2 = 0") (auto simp: odd_iff_mod_2_eq_one)
  moreover have "bin_ones ((y div 2) XOR (2 ^ n - 1)) + bin_ones (y div 2) = n"
    using Suc.prems by (intro Suc.IH) auto
  ultimately show ?case by linarith
qed

text \<open>A received marker with at most \<open>e\<close> wrong bits, of the stream as sent or inverted.\<close>

definition near_marker :: "int \<Rightarrow> bool \<Rightarrow> bytes \<Rightarrow> bool" where
  "near_marker e inverted m \<longleftrightarrow> length m = ASM_LENGTH \<and>
     int (bin_ones (be_int m XOR (if inverted then ASM_INVERTED_INT else ASM_INT))) \<le> e"

lemma near_inverted_far:
  assumes "near_marker e True m" "e < 16"
  shows "e < int (bin_ones (be_int m XOR ASM_INT))"
proof -
  have b: "0 \<le> be_int m \<and> be_int m < 2 ^ 32"
    using assms be_int_bounds [of m] by (simp add: near_marker_def ASM_LENGTH_def)
  have y: "0 \<le> be_int m XOR ASM_INT \<and> be_int m XOR ASM_INT < 2 ^ 32"
    by (rule xor_below_exp [OF b]) (simp add: ASM_INT_def)
  have "be_int m XOR ASM_INVERTED_INT = (be_int m XOR ASM_INT) XOR (2 ^ 32 - 1)"
    by (simp add: ASM_INVERTED_INT_def xor.assoc)
  then have "bin_ones (be_int m XOR ASM_INVERTED_INT) + bin_ones (be_int m XOR ASM_INT) = 32"
    using bin_ones_flip [of "be_int m XOR ASM_INT" 32] y by simp
  then show ?thesis using assms by (simp add: near_marker_def)
qed

lemma correlate_marker:
  assumes m: "near_marker e v m" and e: "e < 16"
  shows "correlate_asm_with_inversion (m @ rest) 0 e = (0, v)"
proof -
  have l: "length m = ASM_LENGTH" using m by (simp add: near_marker_def)
  have u: "unpack_I (m @ rest) 0 = be_int m"
    using l by (simp add: unpack_I_def pyslice_def)
  have "[0..<length (m @ rest) - ASM_LENGTH + 1] = 0 # [1..<length (m @ rest) - ASM_LENGTH + 1]"
    by (subst upt_conv_Cons) simp_all
  then show ?thesis
    using l u m near_inverted_far [OF _ e, of m]
    by (cases v) (auto simp: correlate_asm_with_inversion_def near_marker_def Let_def)
qed

definition marked :: "(bytes \<times> bytes) list \<Rightarrow> bytes" where
  "marked ms = concat (map (\<lambda>(m, f). m @ f) ms)"

definition good_stream :: "nat \<Rightarrow> int \<Rightarrow> bool \<Rightarrow> (bytes \<times> bytes) list \<Rightarrow> bool" where
  "good_stream L e v ms \<longleftrightarrow> (\<forall>(m, f) \<in> set ms. near_marker e v m \<and> length f = L)"

lemma marked_simps [simp]: "marked [] = []" "marked ((m, f) # ms) = m @ f @ marked ms"
  by (simp_all add: marked_def)

lemma good_stream_simps [simp]:
  "good_stream L e v []"
  "good_stream L e v ((m, f) # ms) \<longleftrightarrow> near_marker e v m \<and> length f = L \<and> good_stream L e v ms"
  by (auto simp: good_stream_def)

lemma length_marked: "good_stream L e v ms \<Longrightarrow> length (marked ms) = length ms * (L + ASM_LENGTH)"
  by (induction ms) (auto simp: near_marker_def)

text \<open>The buffer and the bytes still to come are the frames not yet returned.\<close>

definition aligned :: "nat \<Rightarrow> int \<Rightarrow> bool \<Rightarrow> bytes \<Rightarrow> (bytes \<times> bytes) list \<Rightarrow> frame_synchronizer \<Rightarrow> bool" where
  "aligned L e v future todo s \<longleftrightarrow>
     fs_frame_length s = L \<and> fs_max_bit_errors s = e \<and> good_stream L e v todo \<and>
     (if fs_pending_first_frame s
      then fs_state s = VERIFY \<and> fs_inverted s = v \<and>
        (\<exists>m f rest. todo = (m, f) # rest \<and> fs_buffer s @ future = f @ marked rest)
      else (fs_state s \<noteq> SEARCH \<longrightarrow> fs_inverted s = v) \<and> fs_buffer s @ future = marked todo)"

definition starved :: "frame_synchronizer \<Rightarrow> bool" where
  "starved s \<longleftrightarrow> length (fs_buffer s)
     < (if fs_pending_first_frame s then fs_frame_length s else ASM_LENGTH + fs_frame_length s)"

definition progress ::
  "nat \<Rightarrow> int \<Rightarrow> bool \<Rightarrow> bytes \<Rightarrow> (bytes \<times> bytes) list \<Rightarrow> bytes option \<times> frame_synchronizer \<Rightarrow> bool" where
  "progress L e v future todo r \<longleftrightarrow> (case r of
      (None, s) \<Rightarrow> aligned L e v future todo s \<and> starved s
    | (Some g, s) \<Rightarrow> fs_inverted s = v \<and>
        (\<exists>m rest. todo = (m, g) # rest \<and> aligned L e v future rest s))"

lemma append_split:
  assumes "b @ future = x @ y" "length x = k" "k \<le> length b"
  shows "take k b = x \<and> drop k b @ future = y"
  using assms(2,3) arg_cong [OF assms(1), of "take k"] arg_cong [OF assms(1), of "drop k"] by simp

lemma append_prefix_split:
  assumes "b @ future = x @ y" "length x \<le> length b"
  shows "\<exists>b'. b = x @ b' \<and> b' @ future = y"
  using append_split [OF assms(1) refl assms(2)] by (metis append_take_drop_id)

lemma marker_at_front:
  assumes "near_marker e v m" "e < 16" "fs_max_bit_errors s = e" "fs_buffer s = m @ b"
  shows "marker_at s 0"
  using correlate_marker [OF assms(1,2), of "[]"] assms
  by (simp add: marker_at_def pyslice_def near_marker_def)

text \<open>An aligned synchronizer that is not pending, with a whole marked frame in the buffer.\<close>

lemma aligned_next:
  assumes a: "aligned L e v future todo s" and n: "\<not> starved s" "\<not> fs_pending_first_frame s"
  obtains m f rest b where "todo = (m, f) # rest" "fs_buffer s = m @ f @ b"
    "b @ future = marked rest" "near_marker e v m" "length f = L" "good_stream L e v rest"
proof -
  have buf: "fs_buffer s @ future = marked todo" and L: "fs_frame_length s = L"
    and g: "good_stream L e v todo"
    using a n by (auto simp: aligned_def)
  have long: "ASM_LENGTH + L \<le> length (fs_buffer s)"
    using n L by (simp add: starved_def)
  then obtain m f rest where t: "todo = (m, f) # rest"
    using buf by (cases todo) (auto simp: ASM_LENGTH_def)
  have l: "length (m @ f) = ASM_LENGTH + L" using g t by (simp add: near_marker_def)
  obtain b where "fs_buffer s = (m @ f) @ b" "b @ future = marked rest"
    using append_prefix_split [of "fs_buffer s" future "m @ f" "marked rest"] buf t l long by auto
  then show ?thesis using that t g by simp
qed

lemma verify_pending_progress:
  assumes a: "aligned L e v future todo s" and p: "fs_pending_first_frame s"
  shows "progress L e v future todo (state_verify s)"
proof (cases "starved s")
  case True
  then show ?thesis using a p by (simp add: state_verify_def progress_def starved_def)
next
  case False
  obtain m f rest where t: "todo = (m, f) # rest" "fs_buffer s @ future = f @ marked rest"
    using a p by (auto simp: aligned_def)
  have l: "length f = L" "fs_frame_length s = L" "L \<le> length (fs_buffer s)"
    using a t False p by (auto simp: aligned_def starved_def)
  then obtain b where b: "fs_buffer s = f @ b" "b @ future = marked rest"
    using append_prefix_split [OF t(2)] by auto
  then show ?thesis using a p t l
    by (simp add: state_verify_def progress_def cut_frame_eq aligned_def)
qed

lemma verify_progress:
  assumes a: "aligned L e v future todo s" and st: "fs_state s = VERIFY" and e: "e < 16"
  shows "progress L e v future todo (state_verify s)"
proof (cases "fs_pending_first_frame s")
  case True
  then show ?thesis using a by (rule verify_pending_progress [rotated])
next
  case p: False
  show ?thesis
  proof (cases "starved s")
    case True
    then show ?thesis using a p by (simp add: state_verify_def progress_def starved_def)
  next
    case False
    obtain m f rest b where n: "todo = (m, f) # rest" "fs_buffer s = m @ f @ b"
      "b @ future = marked rest" "near_marker e v m" "length f = L" "good_stream L e v rest"
      using aligned_next [OF a False p] .
    then have mk: "marker_at s 0" using marker_at_front [OF n(4) e _ n(2)] a by (simp add: aligned_def)
    show ?thesis
      using n a p st False mk
      by (auto simp: state_verify_def progress_def cut_frame_eq aligned_def starved_def near_marker_def)
  qed
qed

lemma lock_progress:
  assumes a: "aligned L e v future todo s" and st: "fs_state s = LOCK" and e: "e < 16"
  shows "progress L e v future todo (state_lock s)"
proof -
  have p: "\<not> fs_pending_first_frame s" using a st by (auto simp: aligned_def)
  show ?thesis
  proof (cases "starved s")
    case True
    then show ?thesis using a p by (simp add: state_lock_def progress_def starved_def)
  next
    case False
    obtain m f rest b where n: "todo = (m, f) # rest" "fs_buffer s = m @ f @ b"
      "b @ future = marked rest" "near_marker e v m" "length f = L" "good_stream L e v rest"
      using aligned_next [OF a False p] .
    then have mk: "marker_at s 0" using marker_at_front [OF n(4) e _ n(2)] a by (simp add: aligned_def)
    show ?thesis
      using n a p st False mk
      by (auto simp: state_lock_def progress_def cut_frame_eq aligned_def starved_def near_marker_def)
  qed
qed

lemma search_progress:
  assumes a: "aligned L e v future todo s" and st: "fs_state s = SEARCH" and e: "e < 16"
  shows "progress L e v future todo (state_search s)"
proof -
  have p: "\<not> fs_pending_first_frame s" using a st by (auto simp: aligned_def)
  have buf: "fs_buffer s @ future = marked todo" "fs_frame_length s = L" "good_stream L e v todo"
    "fs_max_bit_errors s = e"
    using a p by (auto simp: aligned_def)
  show ?thesis
  proof (cases "length (fs_buffer s) < ASM_LENGTH")
    case True
    then show ?thesis using a p
      by (simp add: state_search_def progress_def starved_def correlate_asm_with_inversion_def)
  next
    case False
    then obtain m f rest where t: "todo = (m, f) # rest"
      using buf(1) by (cases todo) (auto simp: ASM_LENGTH_def)
    have m: "near_marker e v m" "length m = ASM_LENGTH"
      using buf(3) t by (auto simp: near_marker_def)
    obtain b where b: "fs_buffer s = m @ b" "b @ future = f @ marked rest"
      using append_prefix_split [of "fs_buffer s" future m "f @ marked rest"] buf(1) t m(2) False
      by auto
    let ?t = "(del_front ASM_LENGTH s)\<lparr>fs_inverted := v, fs_frame_offset := Some 0,
      fs_pending_first_frame := True, fs_state := VERIFY, fs_verify_hits := 0\<rparr>"
    have "aligned L e v future todo ?t"
      using a t b m by (auto simp: aligned_def)
    then have "progress L e v future todo (state_verify ?t)"
      by (rule verify_pending_progress) simp
    then show ?thesis
      using correlate_marker [OF m(1) e, of b] b(1) buf(4) by (simp add: state_search_def)
  qed
qed

lemma try_extract_progress:
  "aligned L e v future todo s \<Longrightarrow> e < 16 \<Longrightarrow> progress L e v future todo (try_extract s)"
  by (cases "fs_state s")
    (simp_all add: try_extract_def search_progress verify_progress lock_progress)

definition restore :: "bool \<Rightarrow> bytes \<Rightarrow> bytes" where
  "restore v f = (if v then invert f else f)"

lemma feed_loop_progress:
  "aligned L e v future todo s \<Longrightarrow> e < 16 \<Longrightarrow>
   \<exists>sent rest s'. todo = sent @ rest \<and> feed_loop s = (map (restore v \<circ> snd) sent, s') \<and>
     aligned L e v future rest s' \<and> starved s'"
proof (induction s arbitrary: todo rule: feed_loop.induct)
  case (1 s)
  obtain r t where rt: "try_extract s = (r, t)" by fastforce
  have pr: "progress L e v future todo (r, t)" using try_extract_progress [OF 1(2,3)] rt by simp
  show ?case
  proof (cases r)
    case None
    then show ?thesis using rt pr
      by (intro exI [of _ "[]"] exI [of _ todo] exI [of _ t]) (simp add: feed_loop.simps [of s] progress_def)
  next
    case (Some g)
    then obtain m rest where n: "todo = (m, g) # rest" "fs_inverted t = v" "aligned L e v future rest t"
      using pr by (auto simp: progress_def)
    then obtain sent rest' s' where ih: "rest = sent @ rest'"
      "feed_loop t = (map (restore v \<circ> snd) sent, s')" "aligned L e v future rest' s'" "starved s'"
      using 1(1) [OF rt [symmetric] Some] 1(3) by blast
    have "feed_loop s = (map (restore v \<circ> snd) ((m, g) # sent), s')"
      using rt Some ih n by (simp add: feed_loop.simps [of s] restore_def)
    then show ?thesis using ih n
      by (intro exI [of _ "(m, g) # sent"] exI [of _ rest'] exI [of _ s']) simp
  qed
qed

lemma feed_progress:
  assumes a: "aligned L e v (d @ future) todo s" and n: "starved s" and e: "e < 16"
    and d: "length d \<le> 9 * (L + ASM_LENGTH)"
  shows "\<exists>sent rest s'. todo = sent @ rest \<and> feed d s = (map (restore v \<circ> snd) sent, s') \<and>
    aligned L e v future rest s' \<and> starved s'"
proof -
  let ?s = "s\<lparr>fs_buffer := fs_buffer s @ d\<rparr>"
  have L: "fs_frame_length s = L" using a by (simp add: aligned_def)
  have "length (fs_buffer s) < L + ASM_LENGTH"
    using n L by (auto simp: starved_def ASM_LENGTH_def split: if_splits)
  then have "cap_buffer ?s = ?s" using d L by (simp add: cap_buffer_def Let_def)
  moreover have "aligned L e v future todo ?s" using a by (simp add: aligned_def)
  ultimately show ?thesis using feed_loop_progress [of L e v future todo ?s] e by (simp add: feed_def)
qed

lemma feed_all_progress:
  "aligned L e v (concat cs) todo s \<Longrightarrow> starved s \<Longrightarrow> e < 16 \<Longrightarrow>
   \<forall>c \<in> set cs. length c \<le> 9 * (L + ASM_LENGTH) \<Longrightarrow>
   \<exists>sent rest s'. todo = sent @ rest \<and> feed_all cs s = (map (restore v \<circ> snd) sent, s') \<and>
     aligned L e v [] rest s' \<and> starved s'"
proof (induction cs arbitrary: s todo)
  case Nil
  then show ?case by (intro exI [of _ "[]"] exI [of _ todo] exI [of _ s]) simp
next
  case (Cons c cs)
  have "aligned L e v (c @ concat cs) todo s" using Cons.prems(1) by simp
  then obtain sent rest t where t: "todo = sent @ rest" "feed c s = (map (restore v \<circ> snd) sent, t)"
    "aligned L e v (concat cs) rest t" "starved t"
    using feed_progress [of L e v c "concat cs" todo s] Cons.prems by auto
  obtain sent' rest' u where u: "rest = sent' @ rest'"
    "feed_all cs t = (map (restore v \<circ> snd) sent', u)" "aligned L e v [] rest' u" "starved u"
    using Cons.IH [OF t(3,4) Cons.prems(3)] Cons.prems(4) by auto
  show ?case using t u
    by (intro exI [of _ "sent @ sent'"] exI [of _ rest'] exI [of _ u]) simp
qed

lemma starved_done:
  assumes a: "aligned L e v [] todo s" and n: "starved s"
  shows "todo = []"
proof (cases "fs_pending_first_frame s")
  case True
  then obtain m f rest where t: "todo = (m, f) # rest" "fs_buffer s = f @ marked rest"
    using a by (auto simp: aligned_def)
  then show ?thesis using a n True by (simp add: aligned_def starved_def)
next
  case False
  then have "length todo * (L + ASM_LENGTH) < L + ASM_LENGTH"
    using a n length_marked [of L e v todo]
    by (simp add: aligned_def starved_def add.commute [of ASM_LENGTH])
  then show ?thesis
    using mult_le_mono1 [of 1 "length todo" "L + ASM_LENGTH"] by (cases todo) auto
qed

text \<open>
  C37: a stream of frames behind markers, each marker with at most \<open>e\<close> wrong bits (less than half
  of the 32), is recovered by a fresh synchronizer completely, in order and with the polarity
  restored, whether the stream is inverted or not and however it is cut into feeds, as long as no
  feed is longer than nine marked frames.
\<close>

theorem synchronizer_recovers_stream:
  assumes "good_stream L e v ms" "e < 16" "concat cs = marked ms"
    and "\<forall>c \<in> set cs. length c \<le> 9 * (L + 4)"
  shows "fst (feed_all cs (make_synchronizer L e vc fc)) = map (restore v \<circ> snd) ms"
proof -
  let ?s = "make_synchronizer L e vc fc"
  have "aligned L e v (concat cs) ms ?s"
    using assms by (simp add: aligned_def make_synchronizer_def)
  moreover have "starved ?s" by (simp add: starved_def make_synchronizer_def)
  ultimately obtain sent rest t where t: "ms = sent @ rest"
    "feed_all cs ?s = (map (restore v \<circ> snd) sent, t)" "aligned L e v [] rest t" "starved t"
    using feed_all_progress [of L e v cs ms ?s] assms(2,4) by (auto simp: ASM_LENGTH_def)
  then show ?thesis using starved_done [OF t(3,4)] by simp
qed

text \<open>An inverted stream with a wrong bit in the second marker, fed in pieces.\<close>

definition inverted_stream :: "(bytes \<times> bytes) list" where
  "inverted_stream = [([0xE5, 0x30, 0x03, 0xE2], [1, 2]), ([0xE5, 0x30, 0x03, 0xE3], [3, 4])]"

theorem synchronizer_recovers_stream_witness:
  "fst (feed_all [[0xE5, 0x30, 0x03], [0xE2, 1, 2, 0xE5, 0x30, 0x03, 0xE3, 3], [4]]
     (make_synchronizer 2 1 3 8)) = [[0xFE, 0xFD], [0xFC, 0xFB]]"
proof -
  have g: "good_stream 2 1 True inverted_stream" by code_simp
  have c: "concat [[0xE5, 0x30, 0x03], [0xE2, 1, 2, 0xE5, 0x30, 0x03, 0xE3, 3], [4]]
    = marked inverted_stream" by (simp add: inverted_stream_def)
  show ?thesis
    using synchronizer_recovers_stream [OF g _ c, of 3 8]
    by (simp add: inverted_stream_def restore_def invert_def)
qed

section \<open>The flywheel\<close>

text \<open>No marker, as sent or inverted, at any offset of the data.\<close>

definition no_marker :: "int \<Rightarrow> bytes \<Rightarrow> bool" where
  "no_marker e d \<longleftrightarrow> list_all (\<lambda>i.
     fst (correlate_asm_with_inversion (pyslice i (i + ASM_LENGTH) d) 0 e) \<noteq> 0)
     [0..<length d - ASM_LENGTH + 1]"

lemma no_marker_iff:
  "no_marker e d \<longleftrightarrow> (\<forall>i \<in> {0..length d - ASM_LENGTH}.
     fst (correlate_asm_with_inversion (pyslice i (i + ASM_LENGTH) d) 0 e) \<noteq> 0)"
  unfolding no_marker_def list_all_iff by (auto simp: less_Suc_eq_le)

lemma pyslice_drop: "pyslice a b (drop k xs) = pyslice (k + a) (k + b) xs"
  by (simp add: pyslice_def add.commute)

lemma no_marker_at:
  "no_marker (fs_max_bit_errors s) (fs_buffer s) \<Longrightarrow> i \<le> length (fs_buffer s) - ASM_LENGTH \<Longrightarrow>
   \<not> marker_at s i"
  by (simp add: no_marker_iff marker_at_def)

lemma correlate_short:
  "length c < ASM_LENGTH \<Longrightarrow> fst (correlate_asm_with_inversion c 0 e) \<noteq> 0"
  by (simp add: correlate_asm_with_inversion_def)

lemma no_marker_drop:
  assumes "no_marker e d" "k \<le> length d"
  shows "no_marker e (drop k d)"
  unfolding no_marker_iff
proof
  fix i
  assume "i \<in> {0..length (drop k d) - ASM_LENGTH}"
  then have i: "i \<le> length d - k - ASM_LENGTH" by simp
  let ?c = "pyslice i (i + ASM_LENGTH) (drop k d)"
  show "fst (correlate_asm_with_inversion ?c 0 e) \<noteq> 0"
  proof (cases "length d - k < ASM_LENGTH")
    case True
    then have "length ?c < ASM_LENGTH" by simp
    then show ?thesis by (rule correlate_short)
  next
    case False
    then have "k + i \<in> {0..length d - ASM_LENGTH}"
      using i False by (simp add: ASM_LENGTH_def)
    then show ?thesis
      using assms(1) unfolding no_marker_iff pyslice_drop add.assoc [symmetric] by blast
  qed
qed

lemma realign_None: "\<forall>k \<in> set os. \<not> marker_at s k \<Longrightarrow> realign s os = None"
  by (induction s os rule: realign.induct) auto

lemma lock_without_marker:
  assumes "no_marker (fs_max_bit_errors s) (fs_buffer s)"
    and "ASM_LENGTH + fs_frame_length s \<le> length (fs_buffer s)"
  shows "state_lock s =
    (let s1 = s\<lparr>fs_flywheel_misses := fs_flywheel_misses s + 1\<rparr> in
     if fs_flywheel_count s \<le> fs_flywheel_misses s + 1
     then (None, s1\<lparr>fs_state := SEARCH, fs_flywheel_misses := 0\<rparr>)
     else (case cut_frame (del_front ASM_LENGTH s1) of (frame_data, s') \<Rightarrow> (Some frame_data, s')))"
proof -
  have "\<not> marker_at s 0" using no_marker_at [OF assms(1), of 0] by simp
  moreover have "realign s [1..<min 3 (length (fs_buffer s) - ASM_LENGTH - fs_frame_length s) + 1] = None"
    using no_marker_at [OF assms(1)] by (intro realign_None) auto
  ultimately show ?thesis using assms(2) by (simp add: state_lock_def Let_def)
qed

definition nth_frame :: "nat \<Rightarrow> bytes \<Rightarrow> nat \<Rightarrow> bytes" where
  "nth_frame L d j = pyslice (j * (L + ASM_LENGTH) + ASM_LENGTH) ((j + 1) * (L + ASM_LENGTH)) d"

lemma nth_frame_0: "nth_frame L d 0 = take L (drop ASM_LENGTH d)"
  by (simp add: nth_frame_def pyslice_def)

lemma nth_frame_Suc: "nth_frame L d (Suc j) = nth_frame L (drop (L + ASM_LENGTH) d) j"
  by (simp add: nth_frame_def pyslice_drop algebra_simps)

lemma flywheel_run:
  "fs_state s = LOCK \<Longrightarrow> \<not> fs_pending_first_frame s \<Longrightarrow> fs_flywheel_misses s < fs_flywheel_count s \<Longrightarrow>
   no_marker (fs_max_bit_errors s) (fs_buffer s) \<Longrightarrow>
   length (fs_buffer s) = n * (fs_frame_length s + ASM_LENGTH) \<Longrightarrow>
   fst (feed_loop s) = map (restore (fs_inverted s) \<circ> nth_frame (fs_frame_length s) (fs_buffer s))
       [0..<min n (fs_flywheel_count s - 1 - fs_flywheel_misses s)] \<and>
   fs_state (snd (feed_loop s)) = (if fs_flywheel_misses s + n < fs_flywheel_count s then LOCK else SEARCH)"
proof (induction n arbitrary: s)
  case 0
  then show ?case
    by (simp add: feed_loop.simps [of s] try_extract_def state_lock_def)
next
  case (Suc n)
  let ?L = "fs_frame_length s" and ?k = "fs_flywheel_misses s" and ?w = "fs_flywheel_count s"
  have long: "ASM_LENGTH + ?L \<le> length (fs_buffer s)" using Suc.prems(5) by simp
  note step = lock_without_marker [OF Suc.prems(4) long]
  show ?case
  proof (cases "?w \<le> ?k + 1")
    case True
    then show ?thesis using step Suc.prems(1)
      by (simp add: feed_loop.simps [of s] try_extract_def Let_def)
  next
    case False
    let ?s1 = "s\<lparr>fs_flywheel_misses := ?k + 1\<rparr>"
    define t where "t = snd (cut_frame (del_front ASM_LENGTH ?s1))"
    have tr: "try_extract s = (Some (nth_frame ?L (fs_buffer s) 0), t)"
      using step False Suc.prems(1)
      by (simp add: try_extract_def Let_def cut_frame_eq nth_frame_0 t_def)
    have t: "fs_state t = LOCK" "\<not> fs_pending_first_frame t" "fs_flywheel_misses t = ?k + 1"
      "fs_flywheel_count t = ?w" "fs_max_bit_errors t = fs_max_bit_errors s"
      "fs_buffer t = drop (?L + ASM_LENGTH) (fs_buffer s)" "fs_frame_length t = ?L"
      "fs_inverted t = fs_inverted s"
      using Suc.prems by (simp_all add: cut_frame_eq t_def)
    have "no_marker (fs_max_bit_errors t) (fs_buffer t)"
      using no_marker_drop [OF Suc.prems(4), of "?L + ASM_LENGTH"] long t by (simp add: add.commute)
    moreover have "length (fs_buffer t) = n * (fs_frame_length t + ASM_LENGTH)"
      using t Suc.prems(5) by simp
    ultimately have ih: "fst (feed_loop t)
        = map (restore (fs_inverted s) \<circ> nth_frame ?L (drop (?L + ASM_LENGTH) (fs_buffer s)))
            [0..<min n (?w - 1 - (?k + 1))]"
      "fs_state (snd (feed_loop t)) = (if ?k + 1 + n < ?w then LOCK else SEARCH)"
      using Suc.IH [of t] t False by simp_all
    have m: "min (Suc n) (?w - 1 - ?k) = Suc (min n (?w - 1 - (?k + 1)))" using False by simp
    have "fst (feed_loop s) = restore (fs_inverted s) (nth_frame ?L (fs_buffer s) 0) # fst (feed_loop t)"
      "snd (feed_loop s) = snd (feed_loop t)"
      using tr t(8) by (simp_all add: feed_loop.simps [of s] restore_def split: prod.splits)
    then show ?thesis
      unfolding m by (simp add: ih map_upt_Suc nth_frame_Suc comp_def del: upt_Suc)
  qed
qed

text \<open>
  a locked synchronizer rides through missing markers: fed \<open>n\<close> frame lengths in which no
  marker appears at any offset, it still returns a frame per frame length, up to one less than the
  flywheel limit, and it stays locked exactly when \<open>n\<close> is below the limit.
\<close>

theorem flywheel_holds_lock:
  assumes "fs_state s = LOCK" "\<not> fs_pending_first_frame s" "fs_flywheel_misses s = 0"
    and "0 < fs_flywheel_count s" "fs_buffer s = []"
    and "no_marker (fs_max_bit_errors s) d" "length d = n * (fs_frame_length s + 4)" "n \<le> 10"
  shows "fst (feed d s) = map (restore (fs_inverted s) \<circ> nth_frame (fs_frame_length s) d)
      [0..<min n (fs_flywheel_count s - 1)] \<and>
    fs_state (snd (feed d s)) = (if n < fs_flywheel_count s then LOCK else SEARCH)"
proof -
  let ?s = "s\<lparr>fs_buffer := d\<rparr>"
  have "feed d s = feed_loop ?s"
    using assms(5,7,8) mult_le_mono1 [of n 10 "fs_frame_length s + 4"]
    by (simp add: feed_def cap_buffer_def Let_def ASM_LENGTH_def mult.commute)
  then show ?thesis
    using flywheel_run [of ?s n] assms(1-4,6,7) by (simp add: ASM_LENGTH_def)
qed

definition locked_sample :: frame_synchronizer where
  "locked_sample = (snd (feed_all sample_chunks (make_synchronizer 2 0 3 2)))"

theorem flywheel_holds_lock_witness:
  "fst (feed (replicate 12 0) locked_sample) = [[0, 0]]
   \<and> fs_state (snd (feed (replicate 12 0) locked_sample)) = SEARCH"
proof -
  have l: "fs_state locked_sample = LOCK \<and> \<not> fs_pending_first_frame locked_sample
    \<and> fs_flywheel_misses locked_sample = 0 \<and> 0 < fs_flywheel_count locked_sample
    \<and> fs_buffer locked_sample = []
    \<and> no_marker (fs_max_bit_errors locked_sample) (replicate 12 0)
    \<and> length (replicate 12 (0 :: byte)) = 2 * (fs_frame_length locked_sample + 4)
    \<and> fs_flywheel_count locked_sample = 2 \<and> \<not> fs_inverted locked_sample
    \<and> map (nth_frame 2 (replicate 12 0)) [0..<1] = [[0, 0]]"
    by code_simp
  then show ?thesis
    using flywheel_holds_lock [of locked_sample "replicate 12 0" 2]
    by (simp add: restore_def comp_def)
qed

end
