(* ===== verification/Tm_Frame.thy ===== *)
theory Tm_Frame
  imports Ecss_Packet
begin

text \<open>
  Transfer frames of \<open>smo_rfsim/ccsds/tm_frame.py\<close>: the header, the frame builder with its
  buffers, packet offsets and counters per virtual channel, and the frame parser with its
  reassembly buffer. The builder's drain loop does not end for a data zone of length zero or
  less, so it is a partial function; the parser's loops are total.
\<close>

section \<open>Frame headers\<close>

definition TF_HEADER_LENGTH :: nat where "TF_HEADER_LENGTH = 6"
definition FECF_LENGTH :: nat where "FECF_LENGTH = 2"
definition FIRST_HEADER_POINTER_IDLE :: int where "FIRST_HEADER_POINTER_IDLE = 0x7FE"
definition FIRST_HEADER_POINTER_NO_PACKET :: int where "FIRST_HEADER_POINTER_NO_PACKET = 0x7FF"

record tm_frame_header =
  th_version :: int
  th_scid :: int
  th_vcid :: int
  th_ocf_flag :: int
  th_mc_frame_count :: int
  th_vc_frame_count :: int
  th_sec_hdr_flag :: int
  th_synch_flag :: int
  th_packet_order :: int
  th_segment_length_id :: int
  th_first_header_pointer :: int

definition header_word0 :: "tm_frame_header \<Rightarrow> int" where
  "header_word0 h = push_bit 14 (th_version h AND 0x3) OR push_bit 4 (th_scid h AND 0x3FF)
     OR push_bit 1 (th_vcid h AND 0x7) OR (th_ocf_flag h AND 0x1)"

definition header_word2 :: "tm_frame_header \<Rightarrow> int" where
  "header_word2 h = push_bit 15 (th_sec_hdr_flag h AND 0x1) OR push_bit 14 (th_synch_flag h AND 0x1)
     OR push_bit 13 (th_packet_order h AND 0x1) OR push_bit 11 (th_segment_length_id h AND 0x3)
     OR (th_first_header_pointer h AND 0x7FF)"

text \<open>
  \<open>struct.pack('>HBBH', ...)\<close>: every field is masked, so it never raises
  (\<open>header_words_in_range\<close>).
\<close>

definition header_pack :: "tm_frame_header \<Rightarrow> bytes" where
  "header_pack h = be_bytes 2 (header_word0 h) @ be_bytes 1 (th_mc_frame_count h AND 0xFF)
     @ be_bytes 1 (th_vc_frame_count h AND 0xFF) @ be_bytes 2 (header_word2 h)"

definition header_unpack :: "bytes \<Rightarrow> tm_frame_header result" where
  "header_unpack d =
     (if length d < TF_HEADER_LENGTH then Inl ValueError
      else
        let word0 = be_int (pyslice 0 2 d); mc_count = be_int (pyslice 2 3 d);
            vc_count = be_int (pyslice 3 4 d); word2 = be_int (pyslice 4 6 d)
        in Inr \<lparr>th_version = drop_bit 14 word0 AND 0x3, th_scid = drop_bit 4 word0 AND 0x3FF,
                th_vcid = drop_bit 1 word0 AND 0x7, th_ocf_flag = word0 AND 0x1,
                th_mc_frame_count = mc_count, th_vc_frame_count = vc_count,
                th_sec_hdr_flag = drop_bit 15 word2 AND 0x1, th_synch_flag = drop_bit 14 word2 AND 0x1,
                th_packet_order = drop_bit 13 word2 AND 0x1,
                th_segment_length_id = drop_bit 11 word2 AND 0x3,
                th_first_header_pointer = word2 AND 0x7FF\<rparr>)"

section \<open>Frames\<close>

record tm_frame =
  tf_header :: tm_frame_header
  tf_data :: bytes
  tf_fecf :: "int option"

definition is_idle :: "tm_frame \<Rightarrow> bool" where
  "is_idle f = (th_first_header_pointer (tf_header f) = FIRST_HEADER_POINTER_NO_PACKET)"

section \<open>The frame builder\<close>

record tm_frame_builder =
  fb_scid :: int
  fb_fecf_present :: bool
  fb_data_zone_length :: int
  fb_mc_count :: int
  fb_vc_counts :: "int \<rightharpoonup> int"
  fb_vc_buffers :: "int \<rightharpoonup> bytes"
  fb_pkt_offsets :: "int \<rightharpoonup> int list"

definition make_builder :: "int \<Rightarrow> int \<Rightarrow> bool \<Rightarrow> tm_frame_builder" where
  "make_builder scid frame_length fecf_present =
     \<lparr>fb_scid = scid, fb_fecf_present = fecf_present,
      fb_data_zone_length = frame_length - int TF_HEADER_LENGTH - (if fecf_present then int FECF_LENGTH else 0),
      fb_mc_count = 0, fb_vc_counts = Map.empty, fb_vc_buffers = Map.empty,
      fb_pkt_offsets = Map.empty\<rparr>"

definition get_buffer :: "tm_frame_builder \<Rightarrow> int \<Rightarrow> bytes" where
  "get_buffer b vcid = (case fb_vc_buffers b vcid of Some buf \<Rightarrow> buf | None \<Rightarrow> [])"

definition get_pkt_offsets :: "tm_frame_builder \<Rightarrow> int \<Rightarrow> int list" where
  "get_pkt_offsets b vcid = (case fb_pkt_offsets b vcid of Some os \<Rightarrow> os | None \<Rightarrow> [])"

definition set_buffer :: "int \<Rightarrow> bytes \<Rightarrow> int list \<Rightarrow> tm_frame_builder \<Rightarrow> tm_frame_builder" where
  "set_buffer vcid buf os b =
     b\<lparr>fb_vc_buffers := (fb_vc_buffers b)(vcid \<mapsto> buf), fb_pkt_offsets := (fb_pkt_offsets b)(vcid \<mapsto> os)\<rparr>"

definition next_mc_count :: "tm_frame_builder \<Rightarrow> int \<times> tm_frame_builder" where
  "next_mc_count b = (fb_mc_count b, b\<lparr>fb_mc_count := (fb_mc_count b + 1) AND 0xFF\<rparr>)"

definition next_vc_count :: "int \<Rightarrow> tm_frame_builder \<Rightarrow> int \<times> tm_frame_builder" where
  "next_vc_count vcid b =
     (let c = (case fb_vc_counts b vcid of Some c \<Rightarrow> c | None \<Rightarrow> 0)
      in (c, b\<lparr>fb_vc_counts := (fb_vc_counts b)(vcid \<mapsto> (c + 1) AND 0xFF)\<rparr>))"

definition build_frame :: "int \<Rightarrow> bytes \<Rightarrow> int \<Rightarrow> tm_frame_builder \<Rightarrow> tm_frame \<times> tm_frame_builder" where
  "build_frame vcid data_zone first_header_pointer b =
     (let (mc, b1) = next_mc_count b;
          (vc, b2) = next_vc_count vcid b1;
          header = \<lparr>th_version = 0, th_scid = fb_scid b, th_vcid = vcid, th_ocf_flag = 0,
                    th_mc_frame_count = mc, th_vc_frame_count = vc, th_sec_hdr_flag = 0,
                    th_synch_flag = 0, th_packet_order = 0, th_segment_length_id = 3,
                    th_first_header_pointer = first_header_pointer\<rparr>;
          raw = header_pack header @ data_zone
      in (\<lparr>tf_header = header, tf_data = data_zone,
           tf_fecf = (if fb_fecf_present b then Some (crc16_ccitt raw) else None)\<rparr>, b2))"

text \<open>The first recorded offset in the range, relative to its start.\<close>

fun find_fhp :: "int \<Rightarrow> int \<Rightarrow> int list \<Rightarrow> int" where
  "find_fhp chunk_start chunk_end [] = FIRST_HEADER_POINTER_IDLE"
| "find_fhp chunk_start chunk_end (off # offs) =
     (if chunk_start \<le> off \<and> off < chunk_end then off - chunk_start
      else find_fhp chunk_start chunk_end offs)"

text \<open>Python's \<open>buf[:k]\<close> and \<open>del buf[:k]\<close> for any integer \<open>k\<close>.\<close>

definition py_upto :: "int \<Rightarrow> 'a list \<Rightarrow> nat" where
  "py_upto k xs = (if 0 \<le> k then nat k else length xs - nat (- k))"

text \<open>The loop of \<open>_drain_frames\<close>; no value means that it never ends.\<close>

partial_function (option) drain_loop ::
  "int \<Rightarrow> int \<Rightarrow> bytes \<Rightarrow> int list \<Rightarrow> tm_frame_builder
   \<Rightarrow> (tm_frame list \<times> int \<times> bytes \<times> int list \<times> tm_frame_builder) option" where
  "drain_loop vcid consumed buf offsets b =
     (let dz = fb_data_zone_length b in
      if dz \<le> int (length buf) then
        let chunk = take (py_upto dz buf) buf;
            buf' = drop (py_upto dz buf) buf;
            chunk_end = consumed + dz;
            fhp = find_fhp consumed chunk_end offsets;
            offsets' = dropWhile (\<lambda>off. off < chunk_end) offsets;
            (frame, b') = build_frame vcid chunk fhp b
        in Option.bind (drain_loop vcid chunk_end buf' offsets' b') (\<lambda>(frames, r). Some (frame # frames, r))
      else Some ([], consumed, buf, offsets, b))"

definition drain_frames :: "int \<Rightarrow> tm_frame_builder \<Rightarrow> (tm_frame list \<times> tm_frame_builder) option" where
  "drain_frames vcid b =
     map_option (\<lambda>(frames, consumed, buf, offsets, b').
        (frames, set_buffer vcid buf (map (\<lambda>off. off - consumed) offsets) b'))
       (drain_loop vcid 0 (get_buffer b vcid) (get_pkt_offsets b vcid) b)"

definition add_packet :: "bytes \<Rightarrow> int \<Rightarrow> tm_frame_builder \<Rightarrow> (tm_frame list \<times> tm_frame_builder) option" where
  "add_packet packet vcid b =
     (let buf = get_buffer b vcid; offsets = get_pkt_offsets b vcid
      in drain_frames vcid (set_buffer vcid (buf @ packet) (offsets @ [int (length buf)]) b))"

definition flush :: "int \<Rightarrow> tm_frame_builder \<Rightarrow> (tm_frame list \<times> tm_frame_builder) option" where
  "flush vcid b =
     (let buf = get_buffer b vcid in
      if buf = [] then Some ([], set_buffer vcid [] [] b)
      else map_option (\<lambda>(frames, b').
          let remaining = get_buffer b' vcid; offsets = get_pkt_offsets b' vcid in
          if remaining \<noteq> [] then
            let fhp = find_fhp 0 (int (length remaining)) offsets;
                pad_len = fb_data_zone_length b' - int (length remaining);
                (frame, b'') = build_frame vcid (remaining @ replicate (nat pad_len) 0xFE) fhp
                                 (set_buffer vcid [] [] b')
            in (frames @ [frame], b'')
          else (frames, set_buffer vcid [] [] b'))
        (drain_frames vcid b))"

definition build_idle_frame :: "int \<Rightarrow> tm_frame_builder \<Rightarrow> tm_frame \<times> tm_frame_builder" where
  "build_idle_frame vcid b =
     build_frame vcid (replicate (nat (fb_data_zone_length b)) 0xFE) FIRST_HEADER_POINTER_NO_PACKET b"

section \<open>The frame parser\<close>

record tm_frame_parser =
  fp_fecf_present :: bool
  fp_data_zone_length :: int
  fp_reassembly_buffer :: bytes
  fp_good_frames :: nat
  fp_bad_frames :: nat

definition make_parser :: "int \<Rightarrow> bool \<Rightarrow> tm_frame_parser" where
  "make_parser frame_length fecf_present =
     \<lparr>fp_fecf_present = fecf_present,
      fp_data_zone_length = frame_length - int TF_HEADER_LENGTH - (if fecf_present then int FECF_LENGTH else 0),
      fp_reassembly_buffer = [], fp_good_frames = 0, fp_bad_frames = 0\<rparr>"

definition parse_frame :: "bytes \<Rightarrow> tm_frame_parser \<Rightarrow> (tm_frame option \<times> tm_frame_parser) result" where
  "parse_frame frame_bytes p =
     (let n = length frame_bytes; bad = p\<lparr>fp_bad_frames := fp_bad_frames p + 1\<rparr>;
          good = p\<lparr>fp_good_frames := fp_good_frames p + 1\<rparr> in
      if n < TF_HEADER_LENGTH then Inr (None, bad)
      else bind_result (header_unpack (pyslice 0 TF_HEADER_LENGTH frame_bytes)) (\<lambda>header.
        if fp_fecf_present p then
          let body = take (n - FECF_LENGTH) frame_bytes;
              fecf_received = be_int (drop (n - FECF_LENGTH) frame_bytes);
              fecf_computed = crc16_ccitt body
          in if fecf_received \<noteq> fecf_computed then Inr (None, bad)
             else Inr (Some \<lparr>tf_header = header,
                             tf_data = pyslice TF_HEADER_LENGTH (n - FECF_LENGTH) frame_bytes,
                             tf_fecf = Some fecf_received\<rparr>, good)
        else Inr (Some \<lparr>tf_header = header, tf_data = drop TF_HEADER_LENGTH frame_bytes,
                        tf_fecf = None\<rparr>, good)))"

text \<open>The loop of \<open>_extract_from_buffer\<close>: packets taken and the buffer that is left.\<close>

function extract_loop :: "bytes \<Rightarrow> bytes list \<times> bytes" where
  "extract_loop buf =
     (if length buf < 7 then ([], buf)
      else
        let total_pkt_len = 6 + nat (be_int (pyslice 4 6 buf)) + 1 in
        if total_pkt_len > 4096 then extract_loop (tl buf)
        else if length buf < total_pkt_len then ([], buf)
        else
          let pkt = take total_pkt_len buf;
              buf' = dropWhile (\<lambda>b. b = 0xFE) (drop total_pkt_len buf);
              (packets, buf'') = extract_loop buf'
          in (pkt # packets, buf''))"
  by pat_completeness auto
termination
  by (relation "measure length")
    (auto intro: le_less_trans [OF length_dropWhile_le])

declare extract_loop.simps [simp del]

definition extract_from_buffer :: "tm_frame_parser \<Rightarrow> bytes list \<times> tm_frame_parser" where
  "extract_from_buffer p =
     (if fp_data_zone_length p * 5 < int (length (fp_reassembly_buffer p))
      then ([], p\<lparr>fp_reassembly_buffer := []\<rparr>)
      else (case extract_loop (fp_reassembly_buffer p) of (packets, buf) \<Rightarrow>
        (packets, p\<lparr>fp_reassembly_buffer := buf\<rparr>)))"

text \<open>
  What \<open>extract_packets\<close> keeps of the reassembly buffer when a packet starts at byte 0: all
  three branches of the code discard it.
\<close>

definition discard_partial :: "bytes \<Rightarrow> bytes" where
  "discard_partial buf =
     (if buf \<noteq> [] then
        if 6 \<le> length buf then
          let needed = 6 + nat (be_int (pyslice 4 6 buf)) + 1 in
          if 4096 < needed \<or> needed \<le> length buf then [] else []
        else []
      else buf)"

definition extract_packets :: "tm_frame \<Rightarrow> tm_frame_parser \<Rightarrow> bytes list \<times> tm_frame_parser" where
  "extract_packets f p =
     (if is_idle f then ([], p)
      else
        let fhp = th_first_header_pointer (tf_header f); buf = fp_reassembly_buffer p in
        if fhp = FIRST_HEADER_POINTER_IDLE then
          extract_from_buffer (p\<lparr>fp_reassembly_buffer := buf @ tf_data f\<rparr>)
        else if fhp = 0 then
          extract_from_buffer (p\<lparr>fp_reassembly_buffer := discard_partial buf @ tf_data f\<rparr>)
        else
          let (packets_pre, p1) =
                extract_from_buffer (p\<lparr>fp_reassembly_buffer := buf @ take (py_upto fhp (tf_data f)) (tf_data f)\<rparr>);
              (packets_post, p2) =
                extract_from_buffer (p1\<lparr>fp_reassembly_buffer := drop (py_upto fhp (tf_data f)) (tf_data f)\<rparr>)
          in (packets_pre @ packets_post, p2))"

section \<open>The header round trip\<close>

definition mask_header :: "tm_frame_header \<Rightarrow> tm_frame_header" where
  "mask_header h = \<lparr>th_version = th_version h mod 4, th_scid = th_scid h mod 1024,
     th_vcid = th_vcid h mod 8, th_ocf_flag = th_ocf_flag h mod 2,
     th_mc_frame_count = th_mc_frame_count h mod 256, th_vc_frame_count = th_vc_frame_count h mod 256,
     th_sec_hdr_flag = th_sec_hdr_flag h mod 2, th_synch_flag = th_synch_flag h mod 2,
     th_packet_order = th_packet_order h mod 2, th_segment_length_id = th_segment_length_id h mod 4,
     th_first_header_pointer = th_first_header_pointer h mod 2048\<rparr>"

lemma masks_take_bit:
  "(x :: int) AND 1 = take_bit 1 x" "x AND 3 = take_bit 2 x" "x AND 7 = take_bit 3 x"
  "x AND 255 = take_bit 8 x" "x AND 1023 = take_bit 10 x" "x AND 2047 = take_bit 11 x"
  by (simp_all add: take_bit_eq_mod and_mask_1 and_mask_3 and_mask_7 and_mask_255 and_mask_1023 and_mask_2047)

lemma header_word0_bits:
  "header_word0 h = push_bit 14 (take_bit 2 (th_version h)) OR push_bit 4 (take_bit 10 (th_scid h))
     OR push_bit 1 (take_bit 3 (th_vcid h)) OR take_bit 1 (th_ocf_flag h)"
  by (simp only: header_word0_def masks_take_bit)

lemma header_word2_bits:
  "header_word2 h = push_bit 15 (take_bit 1 (th_sec_hdr_flag h)) OR push_bit 14 (take_bit 1 (th_synch_flag h))
     OR push_bit 13 (take_bit 1 (th_packet_order h)) OR push_bit 11 (take_bit 2 (th_segment_length_id h))
     OR take_bit 11 (th_first_header_pointer h)"
  by (simp only: header_word2_def masks_take_bit)

lemmas field_bits = bit_take_bit_iff bit_drop_bit_eq bit_or_iff bit_push_bit_iff_int o_apply

lemma word0_take: "take_bit 16 (header_word0 h) = header_word0 h"
  unfolding header_word0_bits by (rule bit_eqI, simp only: field_bits, auto)

lemma word2_take: "take_bit 16 (header_word2 h) = header_word2 h"
  unfolding header_word2_bits by (rule bit_eqI, simp only: field_bits, auto)

lemma header_words_in_range:
  "0 \<le> header_word0 h \<and> header_word0 h < 256 ^ 2 \<and> 0 \<le> header_word2 h \<and> header_word2 h < 256 ^ 2
   \<and> th_mc_frame_count h AND 0xFF \<in> {0..<256} \<and> th_vc_frame_count h AND 0xFF \<in> {0..<256}"
  using take_bit_nonnegative [of 16 "header_word0 h"] take_bit_int_less_exp [of 16 "header_word0 h"]
    take_bit_nonnegative [of 16 "header_word2 h"] take_bit_int_less_exp [of 16 "header_word2 h"]
  by (simp add: word0_take word2_take and_mask_255)

lemma word0_fields:
  "take_bit 2 (drop_bit 14 (header_word0 h)) = take_bit 2 (th_version h)"
  "take_bit 10 (drop_bit 4 (header_word0 h)) = take_bit 10 (th_scid h)"
  "take_bit 3 (drop_bit 1 (header_word0 h)) = take_bit 3 (th_vcid h)"
  "take_bit 1 (header_word0 h) = take_bit 1 (th_ocf_flag h)"
  unfolding header_word0_bits by (rule bit_eqI, simp only: field_bits, (auto)[1])+

lemma word2_fields:
  "take_bit 1 (drop_bit 15 (header_word2 h)) = take_bit 1 (th_sec_hdr_flag h)"
  "take_bit 1 (drop_bit 14 (header_word2 h)) = take_bit 1 (th_synch_flag h)"
  "take_bit 1 (drop_bit 13 (header_word2 h)) = take_bit 1 (th_packet_order h)"
  "take_bit 2 (drop_bit 11 (header_word2 h)) = take_bit 2 (th_segment_length_id h)"
  "take_bit 11 (header_word2 h) = take_bit 11 (th_first_header_pointer h)"
  unfolding header_word2_bits by (rule bit_eqI, simp only: field_bits, (auto)[1])+

lemma length_header_pack [simp]: "length (header_pack h) = 6"
  by (simp add: header_pack_def del: be_bytes.simps)

lemma four_fields:
  assumes "length a = 2" "length b = 1" "length c = 1" "length d = 2"
  shows "pyslice 0 2 (a @ b @ c @ d @ r) = a" "pyslice 2 3 (a @ b @ c @ d @ r) = b"
    "pyslice 3 4 (a @ b @ c @ d @ r) = c" "pyslice 4 6 (a @ b @ c @ d @ r) = d"
  using assms by (simp_all add: pyslice_def)

lemma header_pack_slices:
  "be_int (pyslice 0 2 (header_pack h @ r)) = header_word0 h"
  "be_int (pyslice 2 3 (header_pack h @ r)) = th_mc_frame_count h mod 256"
  "be_int (pyslice 3 4 (header_pack h @ r)) = th_vc_frame_count h mod 256"
  "be_int (pyslice 4 6 (header_pack h @ r)) = header_word2 h"
proof -
  have w: "be_int (be_bytes 2 (header_word0 h)) = header_word0 h"
    "be_int (be_bytes 2 (header_word2 h)) = header_word2 h"
    using header_words_in_range [of h] by (simp_all add: be_int_be_bytes del: be_bytes.simps)
  have c: "be_int (be_bytes 1 x) = x mod 256" for x by (simp add: be_int_be_bytes del: be_bytes.simps)
  have e: "header_pack h @ r = be_bytes 2 (header_word0 h) @ be_bytes 1 (th_mc_frame_count h AND 0xFF)
     @ be_bytes 1 (th_vc_frame_count h AND 0xFF) @ be_bytes 2 (header_word2 h) @ r"
    by (simp only: header_pack_def append_assoc)
  note sl = four_fields [of "be_bytes 2 (header_word0 h)" "be_bytes 1 (th_mc_frame_count h AND 0xFF)"
     "be_bytes 1 (th_vc_frame_count h AND 0xFF)" "be_bytes 2 (header_word2 h)" r,
     OF length_be_bytes length_be_bytes length_be_bytes length_be_bytes]
  show "be_int (pyslice 0 2 (header_pack h @ r)) = header_word0 h"
    "be_int (pyslice 2 3 (header_pack h @ r)) = th_mc_frame_count h mod 256"
    "be_int (pyslice 3 4 (header_pack h @ r)) = th_vc_frame_count h mod 256"
    "be_int (pyslice 4 6 (header_pack h @ r)) = header_word2 h"
    unfolding e sl by (simp_all only: w c and_mask_255 mod_mod_trivial)
qed

lemma header_unpack_pack: "header_unpack (header_pack h @ r) = Inr (mask_header h)"
proof -
  have "\<not> length (header_pack h @ r) < TF_HEADER_LENGTH" by (simp add: TF_HEADER_LENGTH_def)
  then show ?thesis
    unfolding header_unpack_def Let_def header_pack_slices masks_take_bit word0_fields word2_fields
      mask_header_def
    by (simp add: take_bit_eq_mod)
qed

lemma mask_header_unpacked: "header_unpack d = Inr h \<Longrightarrow> mask_header h = h"
proof -
  assume "header_unpack d = Inr h"
  then show ?thesis
    using be_int_less [of "pyslice 2 3 d" 1] be_int_less [of "pyslice 3 4 d" 1]
    by (auto simp: header_unpack_def mask_header_def Let_def and_masks TF_HEADER_LENGTH_def split: if_splits)
qed

text \<open>
  the frame header is decoded to what was encoded, each field reduced to its width, and the
  decoder is undone by the encoder: six bytes that decode encode back to themselves.
\<close>

theorem frame_header_roundtrip:
  "header_unpack (header_pack h @ r) = Inr (mask_header h) \<and>
   header_pack (case header_unpack (header_pack h) of Inr h' \<Rightarrow> h' | Inl _ \<Rightarrow> h) = header_pack h"
proof -
  have "header_word0 (mask_header h) = header_word0 h" "header_word2 (mask_header h) = header_word2 h"
    by (simp_all add: header_word0_bits header_word2_bits mask_header_def take_bit_eq_mod)
  then have "header_pack (mask_header h) = header_pack h"
    by (simp add: header_pack_def mask_header_def and_mask_255)
  then show ?thesis
    using header_unpack_pack [of h r] header_unpack_pack [of h "[]"] by simp
qed

section \<open>Frames on the wire\<close>

text \<open>The bytes of a frame as the transmitter serialises them.\<close>

definition frame_bytes :: "tm_frame \<Rightarrow> bytes" where
  "frame_bytes f = header_pack (tf_header f) @ tf_data f @
     (case tf_fecf f of Some c \<Rightarrow> be_bytes 2 c | None \<Rightarrow> [])"

lemma parse_good:
  assumes "length h = 6" "header_unpack h = Inr hd'" "fp_fecf_present p"
  shows "parse_frame (h @ d @ be_bytes 2 (crc16_ccitt (h @ d))) p =
    Inr (Some \<lparr>tf_header = hd', tf_data = d, tf_fecf = Some (crc16_ccitt (h @ d))\<rparr>,
      p\<lparr>fp_good_frames := fp_good_frames p + 1\<rparr>)"
proof -
  let ?c = "be_bytes 2 (crc16_ccitt (h @ d))"
  have c: "be_int ?c = crc16_ccitt (h @ d)"
    using crc16_range [of "h @ d"] by (simp add: be_int_be_bytes del: be_bytes.simps)
  have "pyslice 0 TF_HEADER_LENGTH (h @ d @ ?c) = h"
    "pyslice TF_HEADER_LENGTH (length (h @ d @ ?c) - FECF_LENGTH) (h @ d @ ?c) = d"
    using assms(1) by (simp_all add: pyslice_def TF_HEADER_LENGTH_def FECF_LENGTH_def del: be_bytes.simps)
  then show ?thesis
    using assms c by (simp add: parse_frame_def Let_def TF_HEADER_LENGTH_def FECF_LENGTH_def del: be_bytes.simps)
qed

definition fecf_matches :: "tm_frame_parser \<Rightarrow> tm_frame \<Rightarrow> bool" where
  "fecf_matches p f \<longleftrightarrow> tf_fecf f = (if fp_fecf_present p
     then Some (crc16_ccitt (header_pack (tf_header f) @ tf_data f)) else None)"

definition count_good :: "tm_frame_parser \<Rightarrow> tm_frame_parser" where
  "count_good p = p\<lparr>fp_good_frames := fp_good_frames p + 1\<rparr>"

definition count_bad :: "tm_frame_parser \<Rightarrow> tm_frame_parser" where
  "count_bad p = p\<lparr>fp_bad_frames := fp_bad_frames p + 1\<rparr>"

lemma parse_frame_bytes:
  assumes "fecf_matches p f"
  shows "parse_frame (frame_bytes f) p
    = Inr (Some (f\<lparr>tf_header := mask_header (tf_header f)\<rparr>), count_good p)"
proof (cases "fp_fecf_present p")
  case True
  then show ?thesis
    using parse_good [of "header_pack (tf_header f)" "mask_header (tf_header f)" p "tf_data f"]
      header_unpack_pack [of "tf_header f" "[]"] assms
    by (simp add: frame_bytes_def fecf_matches_def count_good_def del: be_bytes.simps)
next
  case False
  then show ?thesis
    using header_unpack_pack [of "tf_header f" "[]"] assms
    by (simp add: frame_bytes_def fecf_matches_def count_good_def parse_frame_def Let_def
        TF_HEADER_LENGTH_def pyslice_def)
qed

lemma parse_frame_residue:
  assumes "fp_fecf_present p" "8 \<le> length d" "crc16_ccitt d \<noteq> 0"
  shows "parse_frame d p = Inr (None, count_bad p)"
proof -
  let ?b = "take (length d - 2) d" and ?c = "drop (length d - 2) d"
  have "length ?c = 2" using assms(2) by simp
  moreover have "crc16_ccitt (?b @ ?c) \<noteq> 0" using assms(3) by simp
  ultimately have "be_int ?c \<noteq> crc16_ccitt ?b" using crc_residue_iff [of ?c ?b] by blast
  moreover have "\<exists>h. header_unpack (pyslice 0 TF_HEADER_LENGTH d) = Inr h"
    using assms(2) by (simp add: header_unpack_def TF_HEADER_LENGTH_def Let_def)
  ultimately show ?thesis
    using assms(1,2) by (auto simp: parse_frame_def Let_def TF_HEADER_LENGTH_def FECF_LENGTH_def count_bad_def)
qed

text \<open>
  A frame with the check field the receiver expects is parsed back from its bytes, with its
  header fields reduced to their widths, and counted as good; change any two neighbouring bytes
  of it in any way and it is dropped and counted as bad.
\<close>

theorem frame_wire_integrity:
  assumes "fp_fecf_present p" "fecf_matches p f" "frame_bytes f = a @ e @ b"
    and "length e = 2" "length e' = 2" "e' \<noteq> e"
  shows "parse_frame (a @ e @ b) p = Inr (Some (f\<lparr>tf_header := mask_header (tf_header f)\<rparr>), count_good p)
    \<and> parse_frame (a @ e' @ b) p = Inr (None, count_bad p)"
proof -
  have bytes: "a @ e @ b = (header_pack (tf_header f) @ tf_data f)
      @ be_bytes 2 (crc16_ccitt (header_pack (tf_header f) @ tf_data f))"
    using assms(1-3) by (simp add: frame_bytes_def fecf_matches_def del: be_bytes.simps)
  then have "crc16_ccitt (a @ e @ b) = 0" using crc_residue by metis
  then have z: "crc16_ccitt (a @ e' @ b) \<noteq> 0" using crc_burst_iff [OF assms(5,4)] assms(6) by metis
  have "length (a @ e' @ b) = length (a @ e @ b)" using assms(4,5) by simp
  also have "\<dots> \<ge> 8" unfolding bytes by (simp del: be_bytes.simps)
  finally show ?thesis
    using parse_frame_residue [OF assms(1) _ z] parse_frame_bytes [OF assms(2)] assms(3) by simp
qed

text \<open>An idle frame, and a change of two of its data bytes.\<close>

definition sample_header :: tm_frame_header where
  "sample_header = \<lparr>th_version = 0, th_scid = 5, th_vcid = 7, th_ocf_flag = 0, th_mc_frame_count = 0,
     th_vc_frame_count = 0, th_sec_hdr_flag = 0, th_synch_flag = 0, th_packet_order = 0,
     th_segment_length_id = 3, th_first_header_pointer = 0x7FF\<rparr>"

theorem frame_wire_integrity_witness:
  "parse_frame (header_pack sample_header @ [0xFE, 0] @
       be_bytes 2 (crc16_ccitt (header_pack sample_header @ [0xFE, 0xFE]))) (make_parser 10 True)
   = Inr (None, count_bad (make_parser 10 True))"
proof -
  let ?p = "make_parser 10 True"
  let ?f = "\<lparr>tf_header = sample_header, tf_data = [0xFE, 0xFE],
    tf_fecf = Some (crc16_ccitt (header_pack sample_header @ [0xFE, 0xFE]))\<rparr>"
  have p: "fp_fecf_present ?p" by (simp add: make_parser_def)
  have f: "fecf_matches ?p ?f" using p by (simp add: fecf_matches_def)
  have b: "frame_bytes ?f = header_pack sample_header @ [0xFE, 0xFE] @
       be_bytes 2 (crc16_ccitt (header_pack sample_header @ [0xFE, 0xFE]))"
    by (simp add: frame_bytes_def del: be_bytes.simps)
  show ?thesis
    using frame_wire_integrity [OF p f b, of "[0xFE, 0]"] by (simp del: be_bytes.simps)
qed

section \<open>Extraction of packets\<close>

text \<open>A packet the extraction loop can take: its length field agrees with its length.\<close>

definition wf_packet :: "bytes \<Rightarrow> bool" where
  "wf_packet pkt \<longleftrightarrow> packet_length pkt = length pkt \<and> length pkt \<le> 4096 \<and> hd pkt \<noteq> 0xFE"

lemma wf_packet_long: "wf_packet pkt \<Longrightarrow> 7 \<le> length pkt"
  by (auto simp: wf_packet_def packet_length_def)

definition skip_fill :: "bytes \<Rightarrow> bytes" where
  "skip_fill buf = dropWhile (\<lambda>b. b = 0xFE) buf"

lemma extract_loop_packet:
  assumes "wf_packet pkt"
  shows "extract_loop (pkt @ r) = (pkt # fst (extract_loop (skip_fill r)), snd (extract_loop (skip_fill r)))"
proof -
  have l: "7 \<le> length pkt" using assms by (rule wf_packet_long)
  then have "pyslice 4 6 (pkt @ r) = pyslice 4 6 pkt" by (simp add: pyslice_def)
  then have "6 + nat (be_int (pyslice 4 6 (pkt @ r))) + 1 = length pkt"
    using assms by (simp add: wf_packet_def packet_length_def)
  then show ?thesis
    using l assms by (simp add: extract_loop.simps [of "pkt @ r"] Let_def wf_packet_def skip_fill_def
        split: prod.splits)
qed

lemma extract_loop_partial:
  assumes "wf_packet pkt" "n < length pkt"
  shows "extract_loop (take n pkt) = ([], take n pkt)"
proof (cases "n < 7")
  case True
  then show ?thesis by (simp add: extract_loop.simps [of "take n pkt"])
next
  case False
  then have "pyslice 4 6 (take n pkt) = pyslice 4 6 pkt" by (simp add: pyslice_def drop_take)
  then have "6 + nat (be_int (pyslice 4 6 (take n pkt))) + 1 = length pkt"
    using assms by (simp add: wf_packet_def packet_length_def)
  then show ?thesis
    using assms False by (simp add: extract_loop.simps [of "take n pkt"] Let_def wf_packet_def)
qed

lemma extract_loop_Nil [simp]: "extract_loop [] = ([], [])"
  by (simp add: extract_loop.simps)

text \<open>What is left of a packet when the data ends: nothing, or a proper beginning.\<close>

definition part_of_packet :: "bytes \<Rightarrow> bool" where
  "part_of_packet q \<longleftrightarrow> q = [] \<or> (\<exists>pkt n. wf_packet pkt \<and> 0 < n \<and> n < length pkt \<and> q = take n pkt)"

lemma skip_fill_packets:
  assumes "\<forall>pkt \<in> set ps. wf_packet pkt" "part_of_packet q"
  shows "skip_fill (concat ps @ q) = concat ps @ q"
proof (cases ps)
  case Nil
  have "skip_fill (take n pkt) = take n pkt" if "wf_packet pkt" "0 < n" for pkt n
    using that wf_packet_long [of pkt] by (cases pkt; cases n) (auto simp: skip_fill_def wf_packet_def)
  then show ?thesis using assms(2) Nil by (auto simp: part_of_packet_def skip_fill_def)
next
  case (Cons pkt ps')
  then show ?thesis using assms(1) wf_packet_long [of pkt]
    by (cases pkt) (auto simp: skip_fill_def wf_packet_def)
qed

lemma extract_loop_packets:
  assumes "\<forall>pkt \<in> set ps. wf_packet pkt" "part_of_packet q"
  shows "extract_loop (concat ps @ q) = (ps, q)"
  using assms
proof (induction ps)
  case Nil
  then show ?case using extract_loop_partial by (auto simp: part_of_packet_def)
next
  case (Cons pkt ps)
  then show ?case
    using extract_loop_packet [of pkt "concat ps @ q"] skip_fill_packets [of ps q] by simp
qed

lemma part_of_packet_start: "wf_packet pkt \<Longrightarrow> proper_start q pkt \<Longrightarrow> part_of_packet q"
  unfolding proper_start_def part_of_packet_def by (metis gr0I take_0)

interpretation space_packets: stream_framing "\<lambda>pkt. pkt" wf_packet extract_loop
  by unfold_locales
    (metis extract_loop_packets list.map_ident part_of_packet_def part_of_packet_start)

lemma extract_loop_padded:
  assumes "\<forall>pkt \<in> set ps. wf_packet pkt" "ps \<noteq> []"
  shows "extract_loop (concat ps @ replicate k 0xFE) = (ps, [])"
  using assms(2,1)
proof (induction ps rule: list_nonempty_induct)
  case (single pkt)
  then show ?case
    using extract_loop_packet [of pkt "replicate k 0xFE"] by (simp add: skip_fill_def)
next
  case (cons pkt ps)
  have "skip_fill (concat ps @ replicate k 0xFE) = concat ps @ replicate k 0xFE"
    using cons wf_packet_long [of "hd ps"]
    by (cases ps; cases "hd ps") (auto simp: skip_fill_def wf_packet_def)
  then show ?case
    using extract_loop_packet [of pkt "concat ps @ replicate k 0xFE"] cons by simp
qed

section \<open>Packets in frames\<close>

text \<open>The offsets at which the packets start when the first starts at \<open>k\<close>.\<close>

fun starts :: "int \<Rightarrow> bytes list \<Rightarrow> int list" where
  "starts k [] = []"
| "starts k (pkt # ps) = k # starts (k + int (length pkt)) ps"

lemma starts_append: "starts k (ps @ qs) = starts k ps @ starts (k + int (length (concat ps))) qs"
  by (induction ps arbitrary: k) (auto simp: add.assoc)

lemma starts_shift: "map (\<lambda>o'. o' - d) (starts k ps) = starts (k - d) ps"
  by (induction ps arbitrary: k) (auto simp: algebra_simps)

lemma starts_less:
  "\<forall>pkt \<in> set ps. pkt \<noteq> [] \<Longrightarrow> x \<in> set (starts k ps) \<Longrightarrow> x < k + int (length (concat ps))"
proof (induction ps arbitrary: k)
  case (Cons pkt ps)
  have "0 < int (length pkt)" using Cons.prems(1) by simp
  then have "0 < int (length pkt) + int (length (concat ps))" by (rule add_pos_nonneg) simp
  then show ?case
    using Cons.prems Cons.IH [of "k + int (length pkt)"] by (cases "x = k") (auto simp: add.assoc)
qed simp

lemma dropWhile_starts:
  assumes "\<forall>pkt \<in> set ps. pkt \<noteq> []" "k + int (length (concat ps)) \<le> n" "n \<le> l"
  shows "dropWhile (\<lambda>off. off < n) (starts k ps @ starts l qs) = starts l qs"
proof -
  have "dropWhile (\<lambda>off. off < n) (starts k ps @ starts l qs) = dropWhile (\<lambda>off. off < n) (starts l qs)"
    using starts_less [OF assms(1)] assms(2) by (intro dropWhile_append2) fastforce
  also have "\<dots> = starts l qs"
    using assms(3) by (cases qs) auto
  finally show ?thesis .
qed

text \<open>
  Builder and parser in step: \<open>pend\<close> are the packets not yet delivered, of which the parser
  holds the first \<open>j\<close> bytes (with \<open>j = 0\<close> its buffer may hold anything), and the builder the rest
  with the offsets of the packets that start in it.
\<close>

definition in_step :: "bytes \<Rightarrow> int list \<Rightarrow> bytes \<Rightarrow> bytes list \<Rightarrow> nat \<Rightarrow> bool" where
  "in_step R Os B pend j \<longleftrightarrow>
     (if j = 0 then B = concat pend \<and> Os = starts 0 pend
      else \<exists>q qs. pend = q # qs \<and> j < length q \<and> R = take j q \<and> B = drop j q @ concat qs \<and>
             Os = starts (int (length q) - int j) qs)"

definition next_offsets :: "int \<Rightarrow> int list \<Rightarrow> int list" where
  "next_offsets dz Os = map (\<lambda>off. off - dz) (dropWhile (\<lambda>off. off < dz) Os)"

lemma in_step_cut:
  assumes wf: "\<forall>pkt \<in> set pend. wf_packet pkt" and n: "n \<le> length (concat pend)"
  obtains ps rest q j where "pend = ps @ rest" "take n (concat pend) = concat ps @ q" "part_of_packet q"
    "in_step q (next_offsets (int n) (starts 0 pend)) (drop n (concat pend)) rest j"
  using n
proof (rule cut_concat)
  fix ps qs
  assume a: "pend = ps @ qs" "n = length (concat ps)"
  have ne: "\<forall>pkt \<in> set ps. pkt \<noteq> []" using wf a wf_packet_long by fastforce
  have "next_offsets (int n) (starts 0 pend) = starts 0 qs"
    using dropWhile_starts [OF ne, of 0 "int n" "int n" qs] a
    by (simp add: next_offsets_def starts_append starts_shift)
  then show thesis
    using that [of ps qs "[]" 0] a by (simp add: in_step_def part_of_packet_def)
next
  fix ps q qs m
  assume a: "pend = ps @ q # qs" "0 < m" "m < length q" "n = length (concat ps) + m"
  let ?l = "int (length (concat ps)) + int (length q)"
  have ne: "\<forall>pkt \<in> set (ps @ [q]). pkt \<noteq> []" using wf a wf_packet_long by fastforce
  have "dropWhile (\<lambda>off. off < int n) (starts 0 ps @ int (length (concat ps)) # starts ?l qs) = starts ?l qs"
  proof -
    have "dropWhile (\<lambda>off. off < int n) (starts 0 ps @ int (length (concat ps)) # starts ?l qs)
        = dropWhile (\<lambda>off. off < int n) (int (length (concat ps)) # starts ?l qs)"
      using starts_less [of ps _ 0] ne a by (intro dropWhile_append2) fastforce
    also have "\<dots> = dropWhile (\<lambda>off. off < int n) (starts ?l qs)" using a by simp
    also have "\<dots> = starts ?l qs" using a by (cases qs) auto
    finally show ?thesis .
  qed
  then have "next_offsets (int n) (starts 0 pend) = starts (int (length q) - int m) qs"
    using a by (simp add: next_offsets_def starts_append starts_shift algebra_simps)
  moreover have "part_of_packet (take m q)" using wf a by (auto simp: part_of_packet_def)
  ultimately show thesis
    using that [of ps "q # qs" "take m q" m] a by (simp add: in_step_def)
qed

lemma extract_from_buffer_eq:
  "int (length (fp_reassembly_buffer p)) \<le> fp_data_zone_length p * 5 \<Longrightarrow>
   extract_loop (fp_reassembly_buffer p) = (ps, q) \<Longrightarrow>
   extract_from_buffer p = (ps, p\<lparr>fp_reassembly_buffer := q\<rparr>)"
  by (simp add: extract_from_buffer_def)

lemma discard_partial_Nil [simp]: "discard_partial R = []"
  by (simp add: discard_partial_def Let_def)

lemma extract_fresh:
  assumes "th_first_header_pointer (tf_header f) = 0"
    and "int (length (tf_data f)) \<le> fp_data_zone_length p * 5" "extract_loop (tf_data f) = (ps, q)"
  shows "extract_packets f p = (ps, p\<lparr>fp_reassembly_buffer := q\<rparr>)"
  using assms
  by (simp add: extract_packets_def is_idle_def FIRST_HEADER_POINTER_NO_PACKET_def
      FIRST_HEADER_POINTER_IDLE_def extract_from_buffer_def)

lemma extract_continued:
  assumes "th_first_header_pointer (tf_header f) = FIRST_HEADER_POINTER_IDLE"
    and "int (length (fp_reassembly_buffer p @ tf_data f)) \<le> fp_data_zone_length p * 5"
    and "extract_loop (fp_reassembly_buffer p @ tf_data f) = (ps, q)"
  shows "extract_packets f p = (ps, p\<lparr>fp_reassembly_buffer := q\<rparr>)"
  using assms
  by (simp add: extract_packets_def is_idle_def FIRST_HEADER_POINTER_NO_PACKET_def
      FIRST_HEADER_POINTER_IDLE_def extract_from_buffer_def)

lemma extract_spanning:
  assumes k: "th_first_header_pointer (tf_header f) = int k" "0 < k" "k < 2046"
    and "int (length (fp_reassembly_buffer p @ take k (tf_data f))) \<le> fp_data_zone_length p * 5"
    and "extract_loop (fp_reassembly_buffer p @ take k (tf_data f)) = (ps, q)"
    and "int (length (drop k (tf_data f))) \<le> fp_data_zone_length p * 5"
    and "extract_loop (drop k (tf_data f)) = (ps', q')"
  shows "extract_packets f p = (ps @ ps', p\<lparr>fp_reassembly_buffer := q'\<rparr>)"
  using assms
  by (simp add: extract_packets_def is_idle_def FIRST_HEADER_POINTER_NO_PACKET_def
      FIRST_HEADER_POINTER_IDLE_def extract_from_buffer_def py_upto_def)

definition carries :: "nat \<Rightarrow> bytes list \<Rightarrow> bool" where
  "carries dz pend \<longleftrightarrow> (\<forall>pkt \<in> set pend. wf_packet pkt \<and> length pkt \<le> 4 * dz)"

lemma carries_wf: "carries dz pend \<Longrightarrow> \<forall>pkt \<in> set pend. wf_packet pkt"
  by (simp add: carries_def)

lemma find_fhp_none: "n \<le> k \<Longrightarrow> find_fhp 0 n (starts k ps) = FIRST_HEADER_POINTER_IDLE"
  by (induction ps arbitrary: k) auto

lemma next_offsets_shift:
  "k \<le> dz \<Longrightarrow> next_offsets (int dz) (map (\<lambda>x. x + int k) Os) = next_offsets (int (dz - k)) Os"
  by (simp add: next_offsets_def dropWhile_map comp_def of_nat_diff less_diff_eq algebra_simps)

text \<open>A full frame.\<close>

lemma full_frame_step:
  assumes v: "in_step (fp_reassembly_buffer p) Os B pend j" and c: "carries dz pend"
    and dz: "0 < dz" "dz \<le> 2046" "dz \<le> length B" "fp_data_zone_length p = int dz"
    and f: "tf_data f = take dz B" "th_first_header_pointer (tf_header f) = find_fhp 0 (int dz) Os"
  shows "\<exists>outs rest q j'. pend = outs @ rest \<and> extract_packets f p = (outs, p\<lparr>fp_reassembly_buffer := q\<rparr>)
    \<and> in_step q (next_offsets (int dz) Os) (drop dz B) rest j'"
proof (cases "j = 0")
  case True
  then have B: "B = concat pend" "Os = starts 0 pend" using v by (auto simp: in_step_def)
  have n: "dz \<le> length (concat pend)" using B dz by simp
  have "pend \<noteq> []" using B dz by auto
  then have fhp: "find_fhp 0 (int dz) Os = 0" using B dz by (cases pend) auto
  obtain ps rest q j' where cut: "pend = ps @ rest" "take dz (concat pend) = concat ps @ q"
    "part_of_packet q" "in_step q (next_offsets (int dz) (starts 0 pend)) (drop dz (concat pend)) rest j'"
    using in_step_cut [OF carries_wf [OF c] n] .
  have "extract_loop (tf_data f) = (ps, q)"
    using extract_loop_packets [of ps q] carries_wf [OF c] cut f B by auto
  then have "extract_packets f p = (ps, p\<lparr>fp_reassembly_buffer := q\<rparr>)"
    using extract_fresh [of f p ps q] f fhp dz by simp
  then show ?thesis using cut B by blast
next
  case False
  then obtain q qs where q: "pend = q # qs" "j < length q" "fp_reassembly_buffer p = take j q"
    "B = drop j q @ concat qs" "Os = starts (int (length q) - int j) qs"
    using v by (auto simp: in_step_def)
  let ?k = "length q - j"
  have k: "int (length q) - int j = int ?k" using q by simp
  have wq: "wf_packet q" "length q \<le> 4 * dz" using c q by (auto simp: carries_def)
  have cqs: "carries dz qs" using c q by (auto simp: carries_def)
  show ?thesis
  proof (cases "?k < dz")
    case True
    then have qs: "qs \<noteq> []" using dz(3) unfolding q(4) by (cases qs) simp_all
    have fhp: "find_fhp 0 (int dz) Os = int ?k"
      unfolding q(5) k using True qs by (cases qs) simp_all
    have n: "dz - ?k \<le> length (concat qs)" using dz(3) unfolding q(4) by simp
    obtain ps rest r j' where cut: "qs = ps @ rest" "take (dz - ?k) (concat qs) = concat ps @ r"
      "part_of_packet r"
      "in_step r (next_offsets (int (dz - ?k)) (starts 0 qs)) (drop (dz - ?k) (concat qs)) rest j'"
      using in_step_cut [OF carries_wf [OF cqs] n] .
    have d: "take ?k (tf_data f) = drop j q" "drop ?k (tf_data f) = concat ps @ r"
      using f q True cut(2) by (simp_all add: min_def)
    have d3: "fp_reassembly_buffer p @ take ?k (tf_data f) = q" unfolding d q(3) by simp
    have post: "extract_loop (drop ?k (tf_data f)) = (ps, r)"
      unfolding d using extract_loop_packets [of ps r] carries_wf [OF cqs] cut by auto
    have pre: "extract_loop (fp_reassembly_buffer p @ take ?k (tf_data f)) = ([q], [])"
      unfolding d3 using extract_loop_packet [OF wq(1), of "[]"] by (simp add: skip_fill_def)
    have lens: "int (length (fp_reassembly_buffer p @ take ?k (tf_data f))) \<le> fp_data_zone_length p * 5"
      "int (length (drop ?k (tf_data f))) \<le> fp_data_zone_length p * 5"
      unfolding d3 using wq(2) dz f(1) by simp_all
    have "th_first_header_pointer (tf_header f) = int ?k" "0 < ?k" "?k < 2046"
      using f(2) fhp q(2) True dz(2) by simp_all
    then have "extract_packets f p = ([q] @ ps, p\<lparr>fp_reassembly_buffer := r\<rparr>)"
      using extract_spanning [OF _ _ _ lens(1) pre lens(2) post] by simp
    moreover have "next_offsets (int dz) Os = next_offsets (int (dz - ?k)) (starts 0 qs)"
    proof -
      have "Os = map (\<lambda>x. x + int ?k) (starts 0 qs)"
        unfolding q(5) k using starts_shift [of "- int ?k" 0 qs] by (simp only: diff_minus_eq_add add_0)
      then show ?thesis using True next_offsets_shift [of ?k dz "starts 0 qs"] by simp
    qed
    moreover have "drop dz B = drop (dz - ?k) (concat qs)" using q True by simp
    ultimately show ?thesis using cut q(1) by (metis append_Cons append_Nil append_assoc)
  next
    case le: False
    then have k': "int dz \<le> int ?k" by simp
    have fhp: "find_fhp 0 (int dz) Os = FIRST_HEADER_POINTER_IDLE"
      unfolding q(5) k using find_fhp_none [OF k'] .
    have d: "fp_reassembly_buffer p @ tf_data f = take (j + dz) q"
      using f q le by (simp add: take_add)
    have len: "int (length (fp_reassembly_buffer p @ tf_data f)) \<le> fp_data_zone_length p * 5"
      unfolding d using wq(2) dz by simp
    have offs: "next_offsets (int dz) Os = starts (int (length q) - int j - int dz) qs"
    proof -
      have "dropWhile (\<lambda>off. off < int dz) (starts (int ?k) qs) = starts (int ?k) qs"
        using dropWhile_starts [of "[]" 0 "int dz" "int ?k" qs] dz(1) k' by simp
      then show ?thesis unfolding q(5) k next_offsets_def by (simp only: starts_shift)
    qed
    show ?thesis
    proof (cases "j + dz = length q")
      case True
      then have full: "fp_reassembly_buffer p @ tf_data f = q" using d by simp
      have "extract_loop (fp_reassembly_buffer p @ tf_data f) = ([q], [])"
        unfolding full using extract_loop_packet [OF wq(1), of "[]"] by (simp add: skip_fill_def)
      then have "extract_packets f p = ([q], p\<lparr>fp_reassembly_buffer := []\<rparr>)"
        using extract_continued [OF _ len] f(2) fhp by simp
      moreover have z: "int (length q) - int j - int dz = 0" using True by linarith
      have "in_step [] (next_offsets (int dz) Os) (drop dz B) qs 0"
        using True unfolding offs z q(4) in_step_def by (simp add: add.commute)
      ultimately show ?thesis using q(1) by (metis append_Cons append_Nil)
    next
      case False
      then have m: "j + dz < length q" using le q(2) by arith
      have "extract_loop (fp_reassembly_buffer p @ tf_data f) = ([], take (j + dz) q)"
        unfolding d by (rule extract_loop_partial [OF wq(1) m])
      then have "extract_packets f p = ([], p\<lparr>fp_reassembly_buffer := take (j + dz) q\<rparr>)"
        using extract_continued [OF _ len] f(2) fhp by simp
      moreover have "drop dz B = drop (j + dz) q @ concat qs"
        using m unfolding q(4) by (simp add: add.commute)
      then have "in_step (take (j + dz) q) (next_offsets (int dz) Os) (drop dz B) pend (j + dz)"
        using m dz(1) q(1) unfolding offs in_step_def by (simp add: algebra_simps)
      ultimately show ?thesis by (metis append_Nil)
    qed
  qed
qed

text \<open>The last frame of a flush: what is left, padded with fill.\<close>

lemma padded_frame_step:
  assumes v: "in_step (fp_reassembly_buffer p) Os B pend j" and c: "carries dz pend"
    and dz: "dz \<le> 2046" "length B < dz" "B \<noteq> []" "fp_data_zone_length p = int dz"
    and f: "tf_data f = B @ replicate (dz - length B) 0xFE"
      "th_first_header_pointer (tf_header f) = find_fhp 0 (int (length B)) Os"
  shows "\<exists>q. extract_packets f p = (pend, p\<lparr>fp_reassembly_buffer := q\<rparr>)"
proof (cases "j = 0")
  case True
  then have B: "B = concat pend" "Os = starts 0 pend" using v by (auto simp: in_step_def)
  then have ne: "pend \<noteq> []" using dz(3) by auto
  then have fhp: "find_fhp 0 (int (length B)) Os = 0" using B(2) dz(3) by (cases pend) auto
  have "extract_loop (tf_data f) = (pend, [])"
    unfolding f(1) unfolding B(1) by (rule extract_loop_padded [OF carries_wf [OF c] ne])
  then have "extract_packets f p = (pend, p\<lparr>fp_reassembly_buffer := []\<rparr>)"
    using extract_fresh [of f p pend "[]"] f fhp dz by simp
  then show ?thesis by blast
next
  case False
  then obtain q qs where q: "pend = q # qs" "j < length q" "fp_reassembly_buffer p = take j q"
    "B = drop j q @ concat qs" "Os = starts (int (length q) - int j) qs"
    using v by (auto simp: in_step_def)
  let ?k = "length q - j" and ?pad = "replicate (dz - length B) (0xFE :: byte)"
  have k: "int (length q) - int j = int ?k" using q(2) by simp
  have wq: "wf_packet q" "length q \<le> 4 * dz" using c unfolding q(1) by (auto simp: carries_def)
  have cqs: "carries dz qs" using c unfolding q(1) by (auto simp: carries_def)
  have kB: "?k \<le> length B" unfolding q(4) by simp
  show ?thesis
  proof (cases "qs = []")
    case True
    then have B: "B = drop j q" using q(4) by simp
    have fhp: "find_fhp 0 (int (length B)) Os = FIRST_HEADER_POINTER_IDLE"
      unfolding q(5) True by simp
    have all: "fp_reassembly_buffer p @ tf_data f = concat [q] @ ?pad" unfolding q(3) f(1) B by simp
    have "extract_loop (fp_reassembly_buffer p @ tf_data f) = ([q], [])"
      unfolding all using extract_loop_padded [of "[q]"] wq(1) by simp
    moreover have "int (length (fp_reassembly_buffer p @ tf_data f)) \<le> fp_data_zone_length p * 5"
      unfolding all using wq(2) dz by simp
    ultimately have "extract_packets f p = ([q], p\<lparr>fp_reassembly_buffer := []\<rparr>)"
      using extract_continued f(2) fhp by simp
    then show ?thesis using True q(1) by blast
  next
    case qs: False
    have ne: "0 < length (concat qs)" using carries_wf [OF cqs] qs wf_packet_long
      by (cases qs) fastforce+
    then have lt: "?k < length B" unfolding q(4) by simp
    have fhp: "find_fhp 0 (int (length B)) Os = int ?k"
      unfolding q(5) k using lt qs by (cases qs) simp_all
    have d: "take ?k (tf_data f) = drop j q" "drop ?k (tf_data f) = concat qs @ ?pad"
      using kB unfolding f(1) by (simp_all add: q(4))
    have d3: "fp_reassembly_buffer p @ take ?k (tf_data f) = q" unfolding d q(3) by simp
    have post: "extract_loop (drop ?k (tf_data f)) = (qs, [])"
      unfolding d by (rule extract_loop_padded [OF carries_wf [OF cqs] qs])
    have pre: "extract_loop (fp_reassembly_buffer p @ take ?k (tf_data f)) = ([q], [])"
      unfolding d3 using extract_loop_packet [OF wq(1), of "[]"] by (simp add: skip_fill_def)
    have lens: "int (length (fp_reassembly_buffer p @ take ?k (tf_data f))) \<le> fp_data_zone_length p * 5"
      "int (length (drop ?k (tf_data f))) \<le> fp_data_zone_length p * 5"
      unfolding d3 using wq(2) dz f(1) by simp_all
    have "th_first_header_pointer (tf_header f) = int ?k" "0 < ?k" "?k < 2046"
      using f(2) fhp q(2) lt dz(1,2) by simp_all
    then have "extract_packets f p = ([q] @ qs, p\<lparr>fp_reassembly_buffer := []\<rparr>)"
      using extract_spanning [OF _ _ _ lens(1) pre lens(2) post] by simp
    then show ?thesis using q(1) by auto
  qed
qed

section \<open>Builder and parser together\<close>

text \<open>The receiver's side of a frame: parse the bytes, extract when the frame is good.\<close>

definition receive_frame :: "bytes \<Rightarrow> tm_frame_parser \<Rightarrow> (bytes list \<times> tm_frame_parser) result" where
  "receive_frame d p =
     bind_result (parse_frame d p) (\<lambda>(fr, p').
       Inr (case fr of Some f \<Rightarrow> extract_packets f p' | None \<Rightarrow> ([], p')))"

fun receive_all :: "bytes list \<Rightarrow> tm_frame_parser \<Rightarrow> (bytes list \<times> tm_frame_parser) result" where
  "receive_all [] p = Inr ([], p)"
| "receive_all (d # ds) p =
     bind_result (receive_frame d p) (\<lambda>(ps, p').
     bind_result (receive_all ds p') (\<lambda>(qs, p''). Inr (ps @ qs, p'')))"

lemma receive_all_append:
  "receive_all (ds @ es) p = bind_result (receive_all ds p) (\<lambda>(ps, p').
     bind_result (receive_all es p') (\<lambda>(qs, p''). Inr (ps @ qs, p'')))"
  by (induction ds arbitrary: p) (auto simp: bind_result_def split: sum.splits)

lemma extract_packets_masked:
  assumes "0 \<le> th_first_header_pointer (tf_header f)" "th_first_header_pointer (tf_header f) < 2048"
  shows "extract_packets (f\<lparr>tf_header := mask_header (tf_header f)\<rparr>) p = extract_packets f p"
  using assms by (simp add: extract_packets_def is_idle_def mask_header_def Let_def)

lemma receive_frame_bytes:
  assumes "fecf_matches p f"
    and "0 \<le> th_first_header_pointer (tf_header f)" "th_first_header_pointer (tf_header f) < 2048"
  shows "receive_frame (frame_bytes f) p = Inr (extract_packets f (count_good p))"
  using parse_frame_bytes [OF assms(1)] extract_packets_masked [OF assms(2,3)]
  by (simp add: receive_frame_def)

definition linked :: "nat \<Rightarrow> tm_frame_builder \<Rightarrow> tm_frame_parser \<Rightarrow> bool" where
  "linked dz b p \<longleftrightarrow> fb_data_zone_length b = int dz \<and> fp_data_zone_length p = int dz \<and>
     fb_fecf_present b = fp_fecf_present p"

lemma build_frame_facts:
  assumes "build_frame vcid d fhp b = (f, b')"
  shows "tf_data f = d" "th_first_header_pointer (tf_header f) = fhp"
    "linked dz b p \<Longrightarrow> linked dz b' p \<and> fecf_matches p f"
    "fb_vc_buffers b' = fb_vc_buffers b" "fb_pkt_offsets b' = fb_pkt_offsets b"
    "fb_data_zone_length b' = fb_data_zone_length b"
  using assms
  by (auto simp: build_frame_def next_mc_count_def next_vc_count_def Let_def linked_def fecf_matches_def)

lemma find_fhp_range: "e - s \<le> 2046 \<Longrightarrow> 0 \<le> find_fhp s e Os \<and> find_fhp s e Os < 2048"
  by (induction s e Os rule: find_fhp.induct) (auto simp: FIRST_HEADER_POINTER_IDLE_def)

lemma find_fhp_shift: "find_fhp c (c + d) Os = find_fhp 0 d (map (\<lambda>off. off - c) Os)"
  by (induction c "c + d" Os rule: find_fhp.induct) auto

lemma next_offsets_rebase:
  "next_offsets d (map (\<lambda>off. off - c) Os)
     = map (\<lambda>off. off - (c + d)) (dropWhile (\<lambda>off. off < c + d) Os)"
  by (simp add: next_offsets_def dropWhile_map comp_def algebra_simps less_diff_eq diff_less_eq)

text \<open>What a run of the builder and the receiver establishes.\<close>

definition delivered ::
  "tm_frame list \<Rightarrow> tm_frame_parser \<Rightarrow> bytes list \<Rightarrow> tm_frame_parser \<Rightarrow> bool" where
  "delivered frames p outs p' \<longleftrightarrow> receive_all (map frame_bytes frames) p = Inr (outs, p') \<and>
     fp_good_frames p' = fp_good_frames p + length frames \<and> fp_bad_frames p' = fp_bad_frames p"

lemma delivered_Nil [simp]: "delivered [] p [] p"
  by (simp add: delivered_def)

lemma delivered_append:
  "delivered fs p outs p' \<Longrightarrow> delivered gs p' outs' p'' \<Longrightarrow> delivered (fs @ gs) p (outs @ outs') p''"
  by (auto simp: delivered_def receive_all_append)

lemma delivered_frame:
  assumes "fecf_matches p f" "th_first_header_pointer (tf_header f) = fhp" "0 \<le> fhp" "fhp < 2048"
    and "extract_packets f (count_good p) = (outs, (count_good p)\<lparr>fp_reassembly_buffer := q\<rparr>)"
  shows "delivered [f] p outs ((count_good p)\<lparr>fp_reassembly_buffer := q\<rparr>)"
  using receive_frame_bytes [OF assms(1)] assms(2-5) by (simp add: delivered_def count_good_def)

lemma drain_loop_in_step:
  assumes "in_step (fp_reassembly_buffer p) (map (\<lambda>off. off - c) Os) B pend j" "carries dz pend"
    and "0 < dz" "dz \<le> 2046" "linked dz b p"
  shows "\<exists>frames c' B' Os' b' outs rest p' j'. drain_loop vcid c B Os b = Some (frames, c', B', Os', b')
    \<and> pend = outs @ rest \<and> delivered frames p outs p'
    \<and> in_step (fp_reassembly_buffer p') (map (\<lambda>off. off - c') Os') B' rest j'
    \<and> length B' < dz \<and> linked dz b' p' \<and> fb_vc_buffers b' = fb_vc_buffers b
    \<and> fb_pkt_offsets b' = fb_pkt_offsets b"
  using assms
proof (induction "length B" arbitrary: B Os c pend j b p rule: less_induct)
  case less
  have dz: "fb_data_zone_length b = int dz" using less.prems(5) by (simp add: linked_def)
  show ?case
  proof (cases "dz \<le> length B")
    case False
    then have "drain_loop vcid c B Os b = Some ([], c, B, Os, b)"
      using dz by (simp add: drain_loop.simps [of vcid c B Os b] Let_def)
    then show ?thesis
      using less.prems False
      by (intro exI [of _ "[]"] exI [of _ c] exI [of _ B] exI [of _ Os] exI [of _ b] exI [of _ "[]"]
          exI [of _ pend] exI [of _ p] exI [of _ j]) simp
  next
    case True
    let ?fhp = "find_fhp c (c + int dz) Os"
    obtain f b1 where f: "build_frame vcid (take dz B) ?fhp b = (f, b1)" by fastforce
    note F = build_frame_facts [OF f]
    let ?p1 = "count_good p"
    have pg: "fp_reassembly_buffer ?p1 = fp_reassembly_buffer p" "fp_data_zone_length ?p1 = int dz"
      using less.prems(5) by (simp_all add: count_good_def linked_def)
    obtain outs rest q j' where st: "pend = outs @ rest"
      "extract_packets f ?p1 = (outs, ?p1\<lparr>fp_reassembly_buffer := q\<rparr>)"
      "in_step q (next_offsets (int dz) (map (\<lambda>off. off - c) Os)) (drop dz B) rest j'"
      using full_frame_step [of ?p1 _ B pend j dz f] less.prems pg True F(1,2) find_fhp_shift by metis
    let ?p2 = "?p1\<lparr>fp_reassembly_buffer := q\<rparr>"
    have d1: "delivered [f] p outs ?p2"
      using delivered_frame [OF _ F(2) _ _ st(2)] F(3) [OF less.prems(5)]
        find_fhp_range [of "c + int dz" c Os] less.prems(4) by simp
    have l2: "linked dz b1 ?p2" using F(3) [OF less.prems(5)] by (simp add: linked_def count_good_def)
    have "length (drop dz B) < length B" using True less.prems(3) by simp
    moreover have "in_step (fp_reassembly_buffer ?p2)
        (map (\<lambda>off. off - (c + int dz)) (dropWhile (\<lambda>off. off < c + int dz) Os)) (drop dz B) rest j'"
      using st(3) by (simp add: next_offsets_rebase)
    moreover have "carries dz rest" using less.prems(2) st(1) by (simp add: carries_def)
    ultimately obtain frames c' B' Os' b' outs' rest' p' j2 where ih:
      "drain_loop vcid (c + int dz) (drop dz B) (dropWhile (\<lambda>off. off < c + int dz) Os) b1
        = Some (frames, c', B', Os', b')"
      "rest = outs' @ rest'" "delivered frames ?p2 outs' p'"
      "in_step (fp_reassembly_buffer p') (map (\<lambda>off. off - c') Os') B' rest' j2"
      "length B' < dz" "linked dz b' p'" "fb_vc_buffers b' = fb_vc_buffers b1"
      "fb_pkt_offsets b' = fb_pkt_offsets b1"
      using less.hyps [of "drop dz B" ?p2 "c + int dz" _ rest j' b1] less.prems(3,4) l2 by blast
    have "drain_loop vcid c B Os b = Some (f # frames, c', B', Os', b')"
      using dz True f ih(1) by (simp add: drain_loop.simps [of vcid c B Os b] Let_def py_upto_def)
    moreover have "delivered (f # frames) p (outs @ outs') p'"
      using delivered_append [OF d1 ih(3)] by simp
    ultimately show ?thesis
      using ih st(1) F(4,5)
      by (intro exI [of _ "f # frames"] exI [of _ c'] exI [of _ B'] exI [of _ Os'] exI [of _ b']
          exI [of _ "outs @ outs'"] exI [of _ rest'] exI [of _ p'] exI [of _ j2]) simp
  qed
qed

definition on_channel :: "nat \<Rightarrow> int \<Rightarrow> tm_frame_builder \<Rightarrow> tm_frame_parser \<Rightarrow> bytes list \<Rightarrow> bool" where
  "on_channel dz vcid b p pend \<longleftrightarrow> linked dz b p \<and> carries dz pend \<and> length (get_buffer b vcid) < dz \<and>
     (\<exists>j. in_step (fp_reassembly_buffer p) (get_pkt_offsets b vcid) (get_buffer b vcid) pend j)"

lemma set_buffer_simps [simp]:
  "get_buffer (set_buffer v buf os b) v = buf"
  "get_pkt_offsets (set_buffer v buf os b) v = os"
  "fb_data_zone_length (set_buffer v buf os b) = fb_data_zone_length b"
  "fb_fecf_present (set_buffer v buf os b) = fb_fecf_present b"
  "linked dz (set_buffer v buf os b) p = linked dz b p"
  by (simp_all add: set_buffer_def get_buffer_def get_pkt_offsets_def linked_def)

lemma drain_frames_in_step:
  assumes "in_step (fp_reassembly_buffer p) (get_pkt_offsets b vcid) (get_buffer b vcid) pend j"
    and "carries dz pend" "0 < dz" "dz \<le> 2046" "linked dz b p"
  shows "\<exists>frames b' outs rest p'. drain_frames vcid b = Some (frames, b') \<and> pend = outs @ rest \<and>
    delivered frames p outs p' \<and> on_channel dz vcid b' p' rest"
proof -
  obtain frames c' B' Os' b' outs rest p' j' where r:
    "drain_loop vcid 0 (get_buffer b vcid) (get_pkt_offsets b vcid) b = Some (frames, c', B', Os', b')"
    "pend = outs @ rest" "delivered frames p outs p'"
    "in_step (fp_reassembly_buffer p') (map (\<lambda>off. off - c') Os') B' rest j'"
    "length B' < dz" "linked dz b' p'"
    using drain_loop_in_step [of p 0 "get_pkt_offsets b vcid" "get_buffer b vcid" pend j dz b vcid] assms
    by auto
  have "carries dz rest" using assms(2) r(2) by (simp add: carries_def)
  then show ?thesis
    using r by (intro exI [of _ frames] exI [of _ "set_buffer vcid B' (map (\<lambda>off. off - c') Os') b'"]
        exI [of _ outs] exI [of _ rest] exI [of _ p'])
      (auto simp: drain_frames_def on_channel_def)
qed

lemma in_step_append:
  "in_step R Os B pend j \<Longrightarrow> in_step R (Os @ [int (length B)]) (B @ pkt) (pend @ [pkt]) j"
  by (cases "j = 0") (auto simp: in_step_def starts_append of_nat_diff)

lemma add_packet_delivers:
  assumes "on_channel dz vcid b p pend" "wf_packet pkt" "length pkt \<le> 4 * dz" "0 < dz" "dz \<le> 2046"
  shows "\<exists>frames b' outs rest p'. add_packet pkt vcid b = Some (frames, b') \<and> pend @ [pkt] = outs @ rest \<and>
    delivered frames p outs p' \<and> on_channel dz vcid b' p' rest"
proof -
  let ?b = "set_buffer vcid (get_buffer b vcid @ pkt)
    (get_pkt_offsets b vcid @ [int (length (get_buffer b vcid))]) b"
  obtain j where "in_step (fp_reassembly_buffer p) (get_pkt_offsets b vcid) (get_buffer b vcid) pend j"
    using assms(1) by (auto simp: on_channel_def)
  then have "in_step (fp_reassembly_buffer p) (get_pkt_offsets ?b vcid) (get_buffer ?b vcid) (pend @ [pkt]) j"
    using in_step_append by simp
  moreover have "carries dz (pend @ [pkt])" "linked dz ?b p"
    using assms(1-3) by (auto simp: on_channel_def carries_def)
  ultimately show ?thesis
    using drain_frames_in_step [of p ?b vcid "pend @ [pkt]" j dz] assms(4,5)
    by (simp add: add_packet_def Let_def)
qed

lemma in_step_empty:
  assumes "in_step R Os [] pend j" "carries dz pend"
  shows "pend = []"
proof (cases pend)
  case (Cons pkt pend')
  then have "7 \<le> length pkt" using assms(2) wf_packet_long by (simp add: carries_def)
  then show ?thesis using assms(1) Cons by (auto simp: in_step_def split: if_splits)
qed

lemma flush_delivers:
  assumes c: "on_channel dz vcid b p pend" and dz: "0 < dz" "dz \<le> 2046"
  shows "\<exists>frames b' p'. flush vcid b = Some (frames, b') \<and> delivered frames p pend p' \<and>
    on_channel dz vcid b' p' []"
proof (cases "get_buffer b vcid = []")
  case True
  then have "pend = []" using c in_step_empty by (auto simp: on_channel_def)
  then show ?thesis
    using c True by (intro exI [of _ "[]"] exI [of _ "set_buffer vcid [] [] b"] exI [of _ p])
      (auto simp: flush_def on_channel_def in_step_def intro: exI [of _ 0])
next
  case False
  obtain j where j: "in_step (fp_reassembly_buffer p) (get_pkt_offsets b vcid) (get_buffer b vcid) pend j"
    using c by (auto simp: on_channel_def)
  obtain frames b' outs rest p' where d: "drain_frames vcid b = Some (frames, b')" "pend = outs @ rest"
    "delivered frames p outs p'" "on_channel dz vcid b' p' rest"
    using drain_frames_in_step [OF j _ dz] c unfolding on_channel_def by blast
  let ?B = "get_buffer b' vcid" and ?Os = "get_pkt_offsets b' vcid"
  obtain j' where j': "in_step (fp_reassembly_buffer p') ?Os ?B rest j'" "length ?B < dz" "carries dz rest"
    "linked dz b' p'"
    using d(4) by (auto simp: on_channel_def)
  show ?thesis
  proof (cases "?B = []")
    case True
    then have "rest = []" using j'(1,3) in_step_empty by auto
    then show ?thesis
      using d True False j'(4) dz
      by (intro exI [of _ frames] exI [of _ "set_buffer vcid [] [] b'"] exI [of _ p'])
        (auto simp: flush_def Let_def on_channel_def in_step_def carries_def intro: exI [of _ 0])
  next
    case ne: False
    let ?fhp = "find_fhp 0 (int (length ?B)) ?Os" and ?b0 = "set_buffer vcid [] [] b'"
    let ?d = "?B @ replicate (dz - length ?B) 0xFE"
    obtain f b2 where f: "build_frame vcid ?d ?fhp ?b0 = (f, b2)" by fastforce
    note F = build_frame_facts [OF f]
    let ?p1 = "count_good p'"
    have pg: "fp_reassembly_buffer ?p1 = fp_reassembly_buffer p'" "fp_data_zone_length ?p1 = int dz"
      using j'(4) by (simp_all add: count_good_def linked_def)
    obtain q where q: "extract_packets f ?p1 = (rest, ?p1\<lparr>fp_reassembly_buffer := q\<rparr>)"
      using padded_frame_step [of ?p1 ?Os ?B rest j' dz f] j' dz ne pg F(1,2) by auto
    have lk: "linked dz ?b0 p'" using j'(4) by simp
    have d1: "delivered [f] p' rest (?p1\<lparr>fp_reassembly_buffer := q\<rparr>)"
      using delivered_frame [OF _ F(2) _ _ q] F(3) [OF lk] j'(2) dz
        find_fhp_range [of "int (length ?B)" 0 ?Os] by simp
    have dzb: "fb_data_zone_length b' = int dz" using j'(4) by (simp add: linked_def)
    have "flush vcid b = Some (frames @ [f], b2)"
      using False d(1) ne f dzb j'(2) by (simp add: flush_def Let_def of_nat_diff nat_diff_distrib)
    moreover have "delivered (frames @ [f]) p pend (?p1\<lparr>fp_reassembly_buffer := q\<rparr>)"
      using delivered_append [OF d(3) d1] d(2) by simp
    moreover have "on_channel dz vcid b2 (?p1\<lparr>fp_reassembly_buffer := q\<rparr>) []"
      using F(3) [OF lk] F(4,5) dz
      by (auto simp: on_channel_def in_step_def carries_def linked_def count_good_def get_buffer_def
          get_pkt_offsets_def set_buffer_def intro: exI [of _ 0])
    ultimately show ?thesis by blast
  qed
qed

fun send_all :: "bytes list \<Rightarrow> int \<Rightarrow> tm_frame_builder \<Rightarrow> (tm_frame list \<times> tm_frame_builder) option" where
  "send_all [] vcid b = flush vcid b"
| "send_all (pkt # pkts) vcid b =
     Option.bind (add_packet pkt vcid b) (\<lambda>(frames, b').
     map_option (\<lambda>(frames', b''). (frames @ frames', b'')) (send_all pkts vcid b'))"

lemma send_all_delivers:
  assumes "on_channel dz vcid b p pend" "\<forall>pkt \<in> set pkts. wf_packet pkt \<and> length pkt \<le> 4 * dz"
    and "0 < dz" "dz \<le> 2046"
  shows "\<exists>frames b' p'. send_all pkts vcid b = Some (frames, b') \<and> delivered frames p (pend @ pkts) p'"
  using assms
proof (induction pkts arbitrary: b p pend)
  case Nil
  then show ?case using flush_delivers by fastforce
next
  case (Cons pkt pkts)
  obtain frames b1 outs rest p1 where a: "add_packet pkt vcid b = Some (frames, b1)"
    "pend @ [pkt] = outs @ rest" "delivered frames p outs p1" "on_channel dz vcid b1 p1 rest"
    using add_packet_delivers [OF Cons.prems(1) _ _ Cons.prems(3,4)] Cons.prems(2) by fastforce
  obtain frames' b' p' where r: "send_all pkts vcid b1 = Some (frames', b')"
    "delivered frames' p1 (rest @ pkts) p'"
    using Cons.IH [OF a(4) _ Cons.prems(3,4)] Cons.prems(2) by auto
  have "outs @ rest @ pkts = pend @ pkt # pkts" using a(2) by (metis append_Cons append_Nil append_assoc)
  then have "delivered (frames @ frames') p (pend @ pkt # pkts) p'"
    using delivered_append [OF a(3) r(2)] by argo
  then show ?case using a(1) r(1) by auto
qed

text \<open>
  C3: packets through frames. Packets handed to a builder whose channel is empty and then
  flushed come out of the receiver complete and in order, whatever its reassembly buffer held,
  with every frame counted good; the sender's loops end. The data zone, the same on both sides, has between 1
  and 2046 bytes (the first header pointer has 11 bits, two values of which are reserved), and both sides agree
  on the frame error control. A packet has at most 4096 bytes (the receiver gives up a longer one) and at most
  four data zones, starts with a byte other than the fill byte, and has a true length field.
\<close>

theorem packets_through_frames:
  assumes "linked dz b p" "0 < dz" "dz \<le> 2046"
    and "get_buffer b vcid = []" "get_pkt_offsets b vcid = []"
    and "\<forall>pkt \<in> set pkts. wf_packet pkt \<and> length pkt \<le> 4 * dz"
  shows "\<exists>frames b' p'. send_all pkts vcid b = Some (frames, b') \<and>
    receive_all (map frame_bytes frames) p = Inr (pkts, p') \<and>
    fp_good_frames p' = fp_good_frames p + length frames \<and> fp_bad_frames p' = fp_bad_frames p"
proof -
  have "on_channel dz vcid b p []"
    using assms by (auto simp: on_channel_def in_step_def carries_def intro: exI [of _ 0])
  then show ?thesis
    using send_all_delivers [of dz vcid b p "[]" pkts] assms by (auto simp: delivered_def)
qed

text \<open>Three packets of 9, 7 and 12 bytes through frames with a data zone of 5 bytes.\<close>

definition sample_packets :: "bytes list" where
  "sample_packets = [[8, 1, 192, 0, 0, 2, 17, 1, 0], [8, 1, 192, 1, 0, 0, 7],
     [8, 1, 192, 2, 0, 5, 1, 2, 3, 4, 5, 6]]"

theorem packets_through_frames_witness:
  "\<exists>frames b' p'. send_all sample_packets 1 (make_builder 5 13 True) = Some (frames, b') \<and>
    receive_all (map frame_bytes frames) (make_parser 13 True) = Inr (sample_packets, p')"
proof -
  have w: "\<forall>pkt \<in> set sample_packets. wf_packet pkt \<and> length pkt \<le> 4 * 5"
    by (simp add: sample_packets_def wf_packet_def packet_length_def pyslice_def)
  show ?thesis
    using packets_through_frames [OF _ _ _ _ _ w, of "make_builder 5 13 True" "make_parser 13 True" 1]
    by (auto simp: linked_def make_builder_def make_parser_def get_buffer_def get_pkt_offsets_def
        TF_HEADER_LENGTH_def FECF_LENGTH_def)
qed

lemma drain_loop_Some_pos:
  assumes "drain_loop vcid c B Os b = Some y"
  shows "0 < fb_data_zone_length b"
proof (rule drain_loop.raw_induct [of "\<lambda>vcid c B Os b y. 0 < fb_data_zone_length b", OF _ assms])
  fix g vcid c B Os b y
  assume ih: "\<And>vcid c B Os b y. g vcid c B Os b = Some y \<Longrightarrow> 0 < fb_data_zone_length b"
    and r: "(let dz = fb_data_zone_length b in
      if dz \<le> int (length B) then
        let chunk = take (py_upto dz B) B; buf' = drop (py_upto dz B) B; chunk_end = c + dz;
            fhp = find_fhp c chunk_end Os; offsets' = dropWhile (\<lambda>off. off < chunk_end) Os;
            (frame, b') = build_frame vcid chunk fhp b
        in Option.bind (g vcid chunk_end buf' offsets' b') (\<lambda>(frames, r). Some (frame # frames, r))
      else Some ([], c, B, Os, b)) = Some y"
  show "0 < fb_data_zone_length b"
  proof (cases "fb_data_zone_length b \<le> int (length B)")
    case True
    obtain f b' where f: "build_frame vcid (take (py_upto (fb_data_zone_length b) B) B)
      (find_fhp c (c + fb_data_zone_length b) Os) b = (f, b')" by fastforce
    then obtain z where "g vcid (c + fb_data_zone_length b) (drop (py_upto (fb_data_zone_length b) B) B)
        (dropWhile (\<lambda>off. off < c + fb_data_zone_length b) Os) b' = Some z"
      using r True by (auto simp: Let_def bind_eq_Some_conv)
    then show ?thesis using ih build_frame_facts(6) [OF f] by metis
  qed simp
qed

lemma drain_loop_returns:
  "0 < fb_data_zone_length b \<Longrightarrow> \<exists>y. drain_loop vcid c B Os b = Some y"
proof (induction "length B" arbitrary: B Os c b rule: less_induct)
  case less
  let ?dz = "fb_data_zone_length b"
  show ?case
  proof (cases "?dz \<le> int (length B)")
    case True
    obtain f b' where f: "build_frame vcid (take (py_upto ?dz B) B) (find_fhp c (c + ?dz) Os) b = (f, b')"
      by fastforce
    have "length (drop (py_upto ?dz B) B) < length B" using True less.prems by (simp add: py_upto_def)
    moreover have "0 < fb_data_zone_length b'" using less.prems build_frame_facts(6) [OF f] by simp
    ultimately obtain z where "drain_loop vcid (c + ?dz) (drop (py_upto ?dz B) B)
        (dropWhile (\<lambda>off. off < c + ?dz) Os) b' = Some z"
      using less.hyps by blast
    then show ?thesis
      using True f by (cases z) (simp add: drain_loop.simps [of vcid c B Os b] Let_def)
  qed (simp add: drain_loop.simps [of vcid c B Os b] Let_def)
qed

text \<open>
  C38: the builder's drain loop ends exactly when the data zone has a positive length; otherwise
  adding a packet never returns.
\<close>

theorem add_packet_terminates_iff:
  "(add_packet pkt vcid b \<noteq> None) \<longleftrightarrow> 0 < fb_data_zone_length b"
proof -
  have "(drain_loop vcid 0 B Os b' \<noteq> None) \<longleftrightarrow> 0 < fb_data_zone_length b'" for B Os b'
    using drain_loop_Some_pos [of vcid 0 B Os b'] drain_loop_returns [of b' vcid 0 B Os] by fastforce
  then show ?thesis by (simp add: add_packet_def drain_frames_def Let_def del: not_None_eq)
qed

text \<open>
  Resynchronisation. What a frame with a packet start delivers from that start on, and the
  reassembly buffer after it, do not depend on what the receiver had buffered before.
\<close>

theorem header_pointer_resynchronises:
  assumes "0 \<le> th_first_header_pointer (tf_header f)" "th_first_header_pointer (tf_header f) < 0x7FE"
    and "length (tf_data f) \<le> 5 * dz" "fp_data_zone_length p = int dz"
  shows "\<exists>pre. extract_packets f p
    = (pre @ fst (extract_loop (drop (nat (th_first_header_pointer (tf_header f))) (tf_data f))),
       p\<lparr>fp_reassembly_buffer :=
         snd (extract_loop (drop (nat (th_first_header_pointer (tf_header f))) (tf_data f)))\<rparr>)"
proof (cases "th_first_header_pointer (tf_header f) = 0")
  case True
  then show ?thesis
    using extract_fresh [OF True, of p] assms(3,4) by (intro exI [of _ "[]"]) simp
next
  case False
  then show ?thesis
    using assms
    by (auto simp: extract_packets_def is_idle_def FIRST_HEADER_POINTER_NO_PACKET_def Let_def
        FIRST_HEADER_POINTER_IDLE_def extract_from_buffer_def py_upto_def split: prod.splits)
qed

theorem header_pointer_resynchronises_witness:
  "\<exists>pre. extract_packets \<lparr>tf_header = sample_header\<lparr>th_first_header_pointer := 2\<rparr>,
      tf_data = [1, 2, 8, 1, 192, 1, 0, 0, 7], tf_fecf = None\<rparr>
      ((make_parser 15 False)\<lparr>fp_reassembly_buffer := [5, 5, 5]\<rparr>)
    = (pre @ [[8, 1, 192, 1, 0, 0, 7]], make_parser 15 False)"
proof -
  have "extract_loop ([8, 1, 192, 1, 0, 0, 7] @ []) = ([[8, 1, 192, 1, 0, 0, 7]], [])"
    using extract_loop_packet [of "[8, 1, 192, 1, 0, 0, 7]" "[]"]
    by (simp add: wf_packet_def packet_length_def pyslice_def skip_fill_def)
  then show ?thesis
    using header_pointer_resynchronises [of "\<lparr>tf_header = sample_header\<lparr>th_first_header_pointer := 2\<rparr>,
      tf_data = [1, 2, 8, 1, 192, 1, 0, 0, 7], tf_fecf = None\<rparr>" 9
      "(make_parser 15 False)\<lparr>fp_reassembly_buffer := [5, 5, 5]\<rparr>"]
    by (simp add: make_parser_def TF_HEADER_LENGTH_def)
qed

section \<open>Frame counters\<close>

definition vc_next :: "tm_frame_builder \<Rightarrow> int \<Rightarrow> int" where
  "vc_next b vcid = (case fb_vc_counts b vcid of Some c \<Rightarrow> c | None \<Rightarrow> 0)"

definition counters_ok :: "tm_frame_builder \<Rightarrow> int \<Rightarrow> bool" where
  "counters_ok b vcid \<longleftrightarrow> vc_next b vcid \<in> {0..<256} \<and> fb_mc_count b \<in> {0..<256}"

text \<open>A run of frames numbered consecutively modulo 256, from the builder's counters on.\<close>

definition numbered :: "int \<Rightarrow> tm_frame_builder \<Rightarrow> tm_frame list \<Rightarrow> tm_frame_builder \<Rightarrow> bool" where
  "numbered vcid b frames b' \<longleftrightarrow>
     map (\<lambda>f. th_vc_frame_count (tf_header f)) frames
       = map (\<lambda>i. (vc_next b vcid + int i) mod 256) [0..<length frames] \<and>
     map (\<lambda>f. th_mc_frame_count (tf_header f)) frames
       = map (\<lambda>i. (fb_mc_count b + int i) mod 256) [0..<length frames] \<and>
     vc_next b' vcid = (vc_next b vcid + int (length frames)) mod 256 \<and>
     fb_mc_count b' = (fb_mc_count b + int (length frames)) mod 256 \<and>
     fb_data_zone_length b' = fb_data_zone_length b \<and>
     (\<forall>f \<in> set frames. int (length (tf_data f)) = fb_data_zone_length b \<and> th_vcid (tf_header f) = vcid)"

lemma numbered_Nil: "counters_ok b vcid \<Longrightarrow> numbered vcid b [] b"
  by (simp add: numbered_def counters_ok_def)

lemma upt_add_map: "map f [0..<m + n] = map f [0..<m] @ map (\<lambda>i. f (m + i)) [0..<n]"
  by (induction n) (auto simp: add.assoc)

lemma numbered_append:
  assumes "numbered vcid b fs b1" "numbered vcid b1 gs b2"
  shows "numbered vcid b (fs @ gs) b2"
  using assms unfolding numbered_def
  by (auto simp: upt_add_map mod_simps add.assoc simp del: upt_Suc)

lemma numbered_frame:
  assumes "build_frame vcid d fhp b = (f, b')" "counters_ok b vcid" "int (length d) = fb_data_zone_length b"
  shows "numbered vcid b [f] b'"
  using assms
  by (auto simp: build_frame_def next_mc_count_def next_vc_count_def Let_def numbered_def vc_next_def
      counters_ok_def and_mask_255)

lemma numbered_counters: "numbered vcid b frames b' \<Longrightarrow> counters_ok b' vcid"
  by (simp add: numbered_def counters_ok_def)

lemma numbered_set_buffer [simp]:
  "numbered vcid (set_buffer v buf os b) frames b' = numbered vcid b frames b'"
  "numbered vcid b frames (set_buffer v buf os b') = numbered vcid b frames b'"
  "counters_ok (set_buffer v buf os b) vcid = counters_ok b vcid"
  by (simp_all add: numbered_def counters_ok_def vc_next_def set_buffer_def)

lemma drain_loop_numbered:
  "drain_loop vcid c B Os b = Some (frames, c', B', Os', b') \<Longrightarrow> counters_ok b vcid \<Longrightarrow>
   numbered vcid b frames b' \<and> int (length B') < fb_data_zone_length b"
proof (induction "length B" arbitrary: B Os c b frames rule: less_induct)
  case less
  let ?dz = "fb_data_zone_length b"
  have pos: "0 < ?dz" using drain_loop_Some_pos [OF less.prems(1)] .
  show ?case
  proof (cases "?dz \<le> int (length B)")
    case True
    obtain f b1 where f: "build_frame vcid (take (py_upto ?dz B) B) (find_fhp c (c + ?dz) Os) b = (f, b1)"
      by fastforce
    obtain frames1 where r: "frames = f # frames1"
      "drain_loop vcid (c + ?dz) (drop (py_upto ?dz B) B) (dropWhile (\<lambda>off. off < c + ?dz) Os) b1
        = Some (frames1, c', B', Os', b')"
      using less.prems(1) True f
      by (auto simp: drain_loop.simps [of vcid c B Os b] Let_def bind_eq_Some_conv)
    have n: "numbered vcid b [f] b1"
      using numbered_frame [OF f less.prems(2)] True pos by (simp add: py_upto_def)
    have "length (drop (py_upto ?dz B) B) < length B" using True pos by (simp add: py_upto_def)
    then have "numbered vcid b1 frames1 b' \<and> int (length B') < fb_data_zone_length b1"
      using less.hyps r(2) numbered_counters [OF n] by blast
    then show ?thesis
      using numbered_append [OF n] r(1) build_frame_facts(6) [OF f] by auto
  next
    case False
    then show ?thesis
      using less.prems numbered_Nil by (simp add: drain_loop.simps [of vcid c B Os b] Let_def)
  qed
qed

lemma drain_frames_numbered:
  assumes "drain_frames vcid b = Some (frames, b')" "counters_ok b vcid"
  shows "numbered vcid b frames b' \<and> int (length (get_buffer b' vcid)) < fb_data_zone_length b"
  using assms drain_loop_numbered [of vcid 0] by (auto simp: drain_frames_def)

lemma flush_numbered:
  assumes "flush vcid b = Some (frames, b')" "counters_ok b vcid"
  shows "numbered vcid b frames b'"
proof (cases "get_buffer b vcid = []")
  case True
  then show ?thesis using assms numbered_Nil by (auto simp: flush_def)
next
  case False
  then obtain fs b1 where d: "drain_frames vcid b = Some (fs, b1)"
    using assms(1) by (auto simp: flush_def)
  have n: "numbered vcid b fs b1" "int (length (get_buffer b1 vcid)) < fb_data_zone_length b"
    using drain_frames_numbered [OF d assms(2)] by auto
  show ?thesis
  proof (cases "get_buffer b1 vcid = []")
    case True
    then show ?thesis using assms(1) False d n by (simp add: flush_def Let_def) auto
  next
    case ne: False
    let ?B = "get_buffer b1 vcid"
    let ?d = "?B @ replicate (nat (fb_data_zone_length b1 - int (length ?B))) 0xFE"
    let ?fhp = "find_fhp 0 (int (length ?B)) (get_pkt_offsets b1 vcid)"
    obtain f b2 where f: "build_frame vcid ?d ?fhp (set_buffer vcid [] [] b1) = (f, b2)" by fastforce
    have dz: "fb_data_zone_length b1 = fb_data_zone_length b" using n(1) by (simp add: numbered_def)
    have "numbered vcid b1 [f] b2"
      using numbered_frame [OF f] numbered_counters [OF n(1)] n(2) dz by simp
    then show ?thesis
      using numbered_append [OF n(1)] assms(1) False d ne f by (simp add: flush_def Let_def) auto
  qed
qed

text \<open>
  The frames of a sequence of packets all have the full data zone and the channel's
  identifier, and both counters number them consecutively modulo 256, from the builder's
  counters on; the counters the builder is left with continue the sequence.
\<close>

theorem frames_numbered_consecutively:
  assumes "send_all pkts vcid b = Some (frames, b')" "counters_ok b vcid"
  shows "numbered vcid b frames b'"
  using assms
proof (induction pkts arbitrary: b frames)
  case Nil
  then show ?case using flush_numbered by simp
next
  case (Cons pkt pkts)
  then obtain fs b1 gs where a: "add_packet pkt vcid b = Some (fs, b1)"
    "send_all pkts vcid b1 = Some (gs, b')" "frames = fs @ gs"
    by (auto simp: bind_eq_Some_conv)
  have n: "numbered vcid b fs b1"
    using a(1) Cons.prems(2) drain_frames_numbered by (fastforce simp: add_packet_def Let_def)
  then show ?case
    using Cons.IH [OF a(2)] numbered_counters [OF n] numbered_append [OF n] a(3) by blast
qed

theorem frames_numbered_consecutively_witness:
  "\<exists>frames b'. send_all sample_packets 1 (make_builder 5 13 True) = Some (frames, b') \<and>
     numbered 1 (make_builder 5 13 True) frames b'"
proof -
  have w: "\<forall>pkt \<in> set sample_packets. wf_packet pkt \<and> length pkt \<le> 4 * 5"
    by (simp add: sample_packets_def wf_packet_def packet_length_def pyslice_def)
  have "on_channel 5 1 (make_builder 5 13 True) (make_parser 13 True) []"
    by (auto simp: on_channel_def in_step_def carries_def linked_def make_builder_def make_parser_def
        get_buffer_def get_pkt_offsets_def TF_HEADER_LENGTH_def FECF_LENGTH_def intro: exI [of _ 0])
  then obtain frames b' where "send_all sample_packets 1 (make_builder 5 13 True) = Some (frames, b')"
    using send_all_delivers [OF _ w] by fastforce
  moreover have "counters_ok (make_builder 5 13 True) 1"
    by (simp add: counters_ok_def vc_next_def make_builder_def)
  ultimately show ?thesis using frames_numbered_consecutively by blast
qed

end
