(* ===== verification/Virtual_Channel.thy ===== *)
theory Virtual_Channel
  imports Tm_Frame
begin

text \<open>
  The virtual channel multiplexer and demultiplexer of \<open>smo_rfsim/ccsds/virtual_channel.py\<close>.
  An operation that drives a frame builder has no value when the builder's loop does not end.
  The demultiplexer is a bounded view of an interface of keyed queues, stated as a locale.
\<close>

section \<open>The multiplexer\<close>

record vc_multiplexer =
  vm_vc_ids :: "int list"
  vm_builders :: "int \<rightharpoonup> tm_frame_builder"
  vm_pending :: "int \<Rightarrow> tm_frame list"

definition make_mux :: "int \<Rightarrow> int \<Rightarrow> bool \<Rightarrow> int list \<Rightarrow> vc_multiplexer" where
  "make_mux scid frame_length fecf_present vc_ids =
     \<lparr>vm_vc_ids = vc_ids,
      vm_builders = (\<lambda>v. if v \<in> set vc_ids then Some (make_builder scid frame_length fecf_present) else None),
      vm_pending = (\<lambda>v. [])\<rparr>"

definition mux_add_packet :: "bytes \<Rightarrow> int \<Rightarrow> vc_multiplexer \<Rightarrow> vc_multiplexer option" where
  "mux_add_packet packet vcid m =
     (case vm_builders m vcid of
        None \<Rightarrow> Some m
      | Some b \<Rightarrow> map_option (\<lambda>(frames, b').
          m\<lparr>vm_builders := (vm_builders m)(vcid \<mapsto> b'),
            vm_pending := (vm_pending m)(vcid := vm_pending m vcid @ frames)\<rparr>)
          (add_packet packet vcid b))"

text \<open>The first channel of the tuple, other than 7, with a pending frame.\<close>

fun first_pending :: "int list \<Rightarrow> (int \<Rightarrow> tm_frame list) \<Rightarrow> int option" where
  "first_pending [] pend = None"
| "first_pending (v # vs) pend =
     (if v = 7 then first_pending vs pend
      else if pend v \<noteq> [] then Some v else first_pending vs pend)"

definition get_next_frame :: "vc_multiplexer \<Rightarrow> (tm_frame \<times> vc_multiplexer) result" where
  "get_next_frame m =
     (case first_pending (vm_vc_ids m) (vm_pending m) of
        Some v \<Rightarrow> Inr (hd (vm_pending m v), m\<lparr>vm_pending := (vm_pending m)(v := tl (vm_pending m v))\<rparr>)
      | None \<Rightarrow>
          (case vm_builders m 7 of
             Some b \<Rightarrow> (case build_idle_frame 7 b of (f, b') \<Rightarrow>
               Inr (f, m\<lparr>vm_builders := (vm_builders m)(7 \<mapsto> b')\<rparr>))
           | None \<Rightarrow>
               (case vm_vc_ids m of [] \<Rightarrow> Inl IndexError
                | v # vs \<Rightarrow>
                    (case vm_builders m v of None \<Rightarrow> Inl KeyError
                     | Some b \<Rightarrow> (case build_idle_frame 7 b of (f, b') \<Rightarrow>
                         Inr (f, m\<lparr>vm_builders := (vm_builders m)(v \<mapsto> b')\<rparr>))))))"

definition has_data :: "vc_multiplexer \<Rightarrow> bool" where
  "has_data m = list_ex (\<lambda>v. v \<noteq> 7 \<and> vm_pending m v \<noteq> []) (vm_vc_ids m)"

fun flush_loop :: "int list \<Rightarrow> vc_multiplexer \<Rightarrow> (tm_frame list \<times> vc_multiplexer) option" where
  "flush_loop [] m = Some ([], m)"
| "flush_loop (v # vs) m =
     (if v = 7 then flush_loop vs m
      else (case vm_builders m v of None \<Rightarrow> flush_loop vs m
        | Some b \<Rightarrow> Option.bind (flush v b) (\<lambda>(flushed, b').
            map_option (\<lambda>(frames, m'). (flushed @ frames, m'))
              (flush_loop vs (m\<lparr>vm_builders := (vm_builders m)(v \<mapsto> b')\<rparr>)))))"

definition flush_all :: "vc_multiplexer \<Rightarrow> (tm_frame list \<times> vc_multiplexer) option" where
  "flush_all m = flush_loop (vm_vc_ids m) m"

section \<open>The demultiplexer\<close>

record vc_demultiplexer =
  vd_frames :: "int \<rightharpoonup> tm_frame list"
  vd_frame_counts :: "int \<rightharpoonup> nat"

definition make_demux :: vc_demultiplexer where
  "make_demux = \<lparr>vd_frames = Map.empty, vd_frame_counts = Map.empty\<rparr>"

definition process_frame :: "tm_frame \<Rightarrow> vc_demultiplexer \<Rightarrow> int \<times> vc_demultiplexer" where
  "process_frame f d =
     (let vcid = th_vcid (tf_header f);
          d1 = (if vd_frames d vcid = None
                then d\<lparr>vd_frames := (vd_frames d)(vcid \<mapsto> []),
                       vd_frame_counts := (vd_frame_counts d)(vcid \<mapsto> 0)\<rparr> else d);
          queue = (case vd_frames d1 vcid of Some q \<Rightarrow> q | None \<Rightarrow> []);
          n = (case vd_frame_counts d1 vcid of Some n \<Rightarrow> n | None \<Rightarrow> 0)
      in (vcid, d1\<lparr>vd_frames := (vd_frames d1)(vcid \<mapsto> queue @ [f]),
                   vd_frame_counts := (vd_frame_counts d1)(vcid \<mapsto> n + 1)\<rparr>))"

definition get_frames :: "int \<Rightarrow> vc_demultiplexer \<Rightarrow> tm_frame list \<times> vc_demultiplexer" where
  "get_frames vcid d =
     ((case vd_frames d vcid of Some q \<Rightarrow> q | None \<Rightarrow> []),
      d\<lparr>vd_frames := (vd_frames d)(vcid := None)\<rparr>)"

section \<open>Priority\<close>

lemma first_pending_Some:
  "first_pending vs pend = Some v \<Longrightarrow> v \<noteq> 7 \<and> pend v \<noteq> [] \<and>
     (\<exists>us ws. vs = us @ v # ws \<and> (\<forall>u \<in> set us. u = 7 \<or> pend u = []))"
proof (induction vs)
  case (Cons x vs)
  show ?case
  proof (cases "x \<noteq> 7 \<and> pend x \<noteq> []")
    case True
    then show ?thesis using Cons.prems by (auto intro: exI [of _ "[]"])
  next
    case False
    then have "first_pending vs pend = Some v" using Cons.prems by (auto split: if_splits)
    then obtain us ws where "v \<noteq> 7 \<and> pend v \<noteq> []" "vs = us @ v # ws" "\<forall>u \<in> set us. u = 7 \<or> pend u = []"
      using Cons.IH by blast
    then show ?thesis using False by (intro conjI exI [of _ "x # us"] exI [of _ ws]) auto
  qed
qed simp

lemma first_pending_None: "first_pending vs pend = None \<longleftrightarrow> (\<forall>v \<in> set vs. v = 7 \<or> pend v = [])"
  by (induction vs pend rule: first_pending.induct) auto

lemma has_data_iff: "has_data m \<longleftrightarrow> first_pending (vm_vc_ids m) (vm_pending m) \<noteq> None"
  by (auto simp: has_data_def first_pending_None list_ex_iff simp del: not_None_eq)

definition mux_ok :: "vc_multiplexer \<Rightarrow> bool" where
  "mux_ok m \<longleftrightarrow> vm_vc_ids m \<noteq> [] \<and> dom (vm_builders m) = set (vm_vc_ids m)"

text \<open>
  the multiplexer's choice. With data pending the next frame is the oldest one of the first
  channel in the configured order that has any, and only that frame leaves; with none pending the
  frame is idle (no packet) on channel 7 and no pending frame is touched.
\<close>

theorem next_frame_priority:
  assumes "mux_ok m"
  shows "\<exists>f m'. get_next_frame m = Inr (f, m') \<and> mux_ok m' \<and>
    (if has_data m
     then \<exists>us v ws. vm_vc_ids m = us @ v # ws \<and> v \<noteq> 7 \<and> (\<forall>u \<in> set us. u = 7 \<or> vm_pending m u = []) \<and>
       vm_pending m v = f # vm_pending m' v \<and> (\<forall>u. u \<noteq> v \<longrightarrow> vm_pending m' u = vm_pending m u)
     else is_idle f \<and> th_vcid (tf_header f) = 7 \<and> vm_pending m' = vm_pending m)"
proof (cases "first_pending (vm_vc_ids m) (vm_pending m)")
  case None
  have idle: "is_idle (fst (build_idle_frame 7 b)) \<and> th_vcid (tf_header (fst (build_idle_frame 7 b))) = 7" for b
    by (simp add: build_idle_frame_def build_frame_def next_mc_count_def next_vc_count_def Let_def is_idle_def)
  obtain v vs where vs: "vm_vc_ids m = v # vs" using assms by (cases "vm_vc_ids m") (auto simp: mux_ok_def)
  then obtain b where b: "vm_builders m v = Some b" using assms by (auto simp: mux_ok_def dom_def)
  show ?thesis
    using None assms idle vs b
    by (cases "vm_builders m 7")
      (auto simp: get_next_frame_def has_data_iff mux_ok_def dom_def split: prod.splits; metis fst_conv)+
next
  case (Some v)
  note S = first_pending_Some [OF Some]
  obtain us ws where u: "vm_vc_ids m = us @ v # ws" "\<forall>u \<in> set us. u = 7 \<or> vm_pending m u = []"
    using S by blast
  have "vm_pending m v = hd (vm_pending m v) # tl (vm_pending m v)" using S by simp
  then show ?thesis
    using Some S u assms by (auto simp: get_next_frame_def has_data_iff mux_ok_def)
qed

section \<open>Through both ends\<close>

text \<open>The demultiplexer provides queues by channel identifier.\<close>

definition frame_vcid :: "tm_frame \<Rightarrow> int" where
  "frame_vcid f = th_vcid (tf_header f)"

definition received :: "vc_demultiplexer \<Rightarrow> int \<Rightarrow> tm_frame list" where
  "received d vcid = fst (get_frames vcid d)"

interpretation demux: keyed_queues received "\<lambda>f d. snd (process_frame f d)" frame_vcid
  by unfold_locales (auto simp: received_def get_frames_def process_frame_def frame_vcid_def Let_def)

fun transmit :: "nat \<Rightarrow> vc_multiplexer \<Rightarrow> (tm_frame list \<times> vc_multiplexer) result" where
  "transmit 0 m = Inr ([], m)"
| "transmit (Suc n) m = bind_result (get_next_frame m) (\<lambda>(f, m').
     bind_result (transmit n m') (\<lambda>(fs, m''). Inr (f # fs, m'')))"

definition process_all :: "tm_frame list \<Rightarrow> vc_demultiplexer \<Rightarrow> vc_demultiplexer" where
  "process_all fs d = foldl (\<lambda>d f. snd (process_frame f d)) d fs"

definition pending_ok :: "vc_multiplexer \<Rightarrow> bool" where
  "pending_ok m \<longleftrightarrow> (\<forall>v. \<forall>f \<in> set (vm_pending m v). frame_vcid f = v)"

lemma get_next_frame_step:
  assumes "mux_ok m" "pending_ok m"
  shows "\<exists>f m'. get_next_frame m = Inr (f, m') \<and> mux_ok m' \<and> pending_ok m' \<and>
    (\<forall>v. v \<noteq> 7 \<longrightarrow> vm_pending m v = filter (\<lambda>f. frame_vcid f = v) [f] @ vm_pending m' v)"
proof (cases "first_pending (vm_vc_ids m) (vm_pending m)")
  case None
  have idle: "frame_vcid (fst (build_idle_frame 7 b)) = 7" for b
    by (simp add: build_idle_frame_def build_frame_def next_mc_count_def next_vc_count_def Let_def frame_vcid_def)
  obtain v vs where vs: "vm_vc_ids m = v # vs" using assms by (cases "vm_vc_ids m") (auto simp: mux_ok_def)
  then obtain b where b: "vm_builders m v = Some b" using assms by (auto simp: mux_ok_def dom_def)
  show ?thesis
    using None assms idle vs b
    by (cases "vm_builders m 7")
      (auto simp: get_next_frame_def mux_ok_def pending_ok_def dom_def split: prod.splits; metis fst_conv)+
next
  case (Some v)
  note S = first_pending_Some [OF Some]
  then obtain f q where q: "vm_pending m v = f # q" by (cases "vm_pending m v") auto
  then have "frame_vcid f = v" using assms(2) by (auto simp: pending_ok_def)
  then show ?thesis
    using Some q assms by (auto simp: get_next_frame_def mux_ok_def pending_ok_def)
qed

text \<open>
  No frame is lost, repeated or reordered within a channel. However many frames are taken
  from the multiplexer, the frames the demultiplexer then holds for a channel, followed by those
  still pending, are the frames that were pending; taking a frame never fails.
\<close>

theorem channels_kept_apart:
  assumes "mux_ok m" "pending_ok m" "v \<noteq> 7"
  shows "\<exists>fs m'. transmit n m = Inr (fs, m') \<and> length fs = n \<and>
    vm_pending m v = received (process_all fs make_demux) v @ vm_pending m' v"
proof -
  have "\<exists>fs m'. transmit n m = Inr (fs, m') \<and> length fs = n \<and>
      vm_pending m v = filter (\<lambda>f. frame_vcid f = v) fs @ vm_pending m' v"
    using assms
  proof (induction n arbitrary: m)
    case (Suc n)
    obtain f m1 where f: "get_next_frame m = Inr (f, m1)" "mux_ok m1" "pending_ok m1"
      "vm_pending m v = filter (\<lambda>f. frame_vcid f = v) [f] @ vm_pending m1 v"
      using get_next_frame_step [OF Suc.prems(1,2)] Suc.prems(3) by blast
    obtain fs m2 where "transmit n m1 = Inr (fs, m2)" "length fs = n"
      "vm_pending m1 v = filter (\<lambda>f. frame_vcid f = v) fs @ vm_pending m2 v"
      using Suc.IH [OF f(2,3) Suc.prems(3)] by blast
    then show ?case using f by auto
  qed simp
  moreover have "received (process_all fs make_demux) v = filter (\<lambda>f. frame_vcid f = v) fs" for fs
    using demux.queue_put_all [of make_demux fs v]
    by (simp add: process_all_def received_def get_frames_def make_demux_def)
  ultimately show ?thesis by metis
qed

text \<open>Adding packets keeps the two invariants, and touches its own channel only.\<close>

lemma drain_loop_vcid:
  assumes "drain_loop vcid c B Os b = Some y"
  shows "\<forall>f \<in> set (fst y). frame_vcid f = vcid"
proof (rule drain_loop.raw_induct [of "\<lambda>vcid c B Os b y. \<forall>f \<in> set (fst y). frame_vcid f = vcid",
      OF _ assms])
  fix g vcid c B Os b y
  assume ih: "\<And>vcid c B Os b y. g vcid c B Os b = Some y \<Longrightarrow> \<forall>f \<in> set (fst y). frame_vcid f = vcid"
    and r: "(let dz = fb_data_zone_length b in
      if dz \<le> int (length B) then
        let chunk = take (py_upto dz B) B; buf' = drop (py_upto dz B) B; chunk_end = c + dz;
            fhp = find_fhp c chunk_end Os; offsets' = dropWhile (\<lambda>off. off < chunk_end) Os;
            (frame, b') = build_frame vcid chunk fhp b
        in Option.bind (g vcid chunk_end buf' offsets' b') (\<lambda>(frames, r). Some (frame # frames, r))
      else Some ([], c, B, Os, b)) = Some y"
  have h: "frame_vcid (fst (build_frame vcid d fhp b)) = vcid" for d fhp
    by (simp add: build_frame_def next_mc_count_def next_vc_count_def Let_def frame_vcid_def)
  show "\<forall>f \<in> set (fst y). frame_vcid f = vcid"
  proof (cases "fb_data_zone_length b \<le> int (length B)")
    case True
    obtain f b' where f: "build_frame vcid (take (py_upto (fb_data_zone_length b) B) B)
      (find_fhp c (c + fb_data_zone_length b) Os) b = (f, b')" by fastforce
    then obtain z where "g vcid (c + fb_data_zone_length b) (drop (py_upto (fb_data_zone_length b) B) B)
        (dropWhile (\<lambda>off. off < c + fb_data_zone_length b) Os) b' = Some z" "y = (f # fst z, snd z)"
      using r True by (auto simp: Let_def bind_eq_Some_conv)
    then show ?thesis using ih h f by (metis fst_conv set_ConsD)
  next
    case False
    then show ?thesis using r by auto
  qed
qed

lemma mux_add_packet_ok:
  assumes "mux_ok m" "pending_ok m" "mux_add_packet packet v m = Some m'"
  shows "mux_ok m' \<and> pending_ok m' \<and>
    (\<exists>frames. vm_pending m' = (vm_pending m)(v := vm_pending m v @ frames))"
proof (cases "vm_builders m v")
  case None
  then show ?thesis using assms by (auto simp: mux_add_packet_def intro: exI [of _ "[]"])
next
  case (Some b)
  then obtain frames b' where a: "add_packet packet v b = Some (frames, b')"
    "m' = m\<lparr>vm_builders := (vm_builders m)(v \<mapsto> b'), vm_pending := (vm_pending m)(v := vm_pending m v @ frames)\<rparr>"
    using assms(3) by (auto simp: mux_add_packet_def)
  then have "\<forall>f \<in> set frames. frame_vcid f = v"
    using drain_loop_vcid by (fastforce simp: add_packet_def drain_frames_def Let_def)
  then show ?thesis
    using a assms Some by (auto simp: mux_ok_def pending_ok_def)
qed

text \<open>Two channels with pending frames.\<close>

definition sample_mux :: vc_multiplexer where
  "sample_mux = (make_mux 5 16 True [0, 1, 7])\<lparr>vm_pending := (\<lambda>v. if v \<in> {0, 1}
     then [\<lparr>tf_header = sample_header\<lparr>th_vcid := v\<rparr>, tf_data = [1], tf_fecf = None\<rparr>] else [])\<rparr>"

lemma sample_mux_ok: "mux_ok sample_mux \<and> pending_ok sample_mux \<and> has_data sample_mux"
  by (auto simp: sample_mux_def mux_ok_def pending_ok_def make_mux_def frame_vcid_def sample_header_def
      has_data_def dom_def split: if_splits)

theorem next_frame_priority_witness:
  "\<exists>f m'. get_next_frame sample_mux = Inr (f, m') \<and> mux_ok m'"
  using next_frame_priority [of sample_mux] sample_mux_ok by blast

theorem channels_kept_apart_witness:
  "\<exists>fs m'. transmit 2 sample_mux = Inr (fs, m') \<and>
    vm_pending sample_mux 1 = received (process_all fs make_demux) 1 @ vm_pending m' 1"
  using channels_kept_apart [of sample_mux 1 2] sample_mux_ok by auto

section \<open>Counts of the demultiplexer\<close>

definition frame_count :: "int \<Rightarrow> vc_demultiplexer \<Rightarrow> nat" where
  "frame_count vcid d = (case vd_frame_counts d vcid of Some n \<Rightarrow> n | None \<Rightarrow> 0)"

text \<open>
  the count of a channel restarts when its frames are retrieved: after a retrieval the next
  frame of the channel sets the count to one, whatever it was before.
\<close>

theorem frame_count_restarts:
  "frame_count (frame_vcid f) (snd (process_frame f (snd (get_frames (frame_vcid f) d)))) = 1"
  by (simp add: frame_count_def process_frame_def get_frames_def frame_vcid_def Let_def)

end
