(* ===== verification/Framing.thy ===== *)
theory Framing
  imports Prelude
begin

text \<open>
  The length-prefixed framing of \<open>smo_common/protocol/framing.py\<close>: the sender's wrapper, the
  synchronous deframer over a growing buffer, and the reader over a stream that may end.
\<close>

definition FRAME_HEADER_SIZE :: nat where "FRAME_HEADER_SIZE = 2"
definition MAX_PACKET_SIZE :: nat where "MAX_PACKET_SIZE = 65535"

definition frame_packet :: "bytes \<Rightarrow> bytes result" where
  "frame_packet packet =
     (if MAX_PACKET_SIZE < length packet then Inl ValueError
      else bind_result (pack_be 2 (int (length packet))) (\<lambda>h. Inr (h @ packet)))"

function deframe_sync :: "bytes \<Rightarrow> bytes list \<times> bytes" where
  "deframe_sync buffer =
     (if length buffer < FRAME_HEADER_SIZE then ([], buffer)
      else
        let len = nat (be_int (take FRAME_HEADER_SIZE buffer)) in
        if len = 0 \<or> MAX_PACKET_SIZE < len then deframe_sync (tl buffer)
        else
          let total = FRAME_HEADER_SIZE + len in
          if length buffer < total then ([], buffer)
          else (case deframe_sync (drop total buffer) of (packets, rest) \<Rightarrow>
            (pyslice FRAME_HEADER_SIZE total buffer # packets, rest)))"
  by pat_completeness auto
termination
  by (relation "measure length") (auto simp: FRAME_HEADER_SIZE_def)

declare deframe_sync.simps [simp del]

text \<open>
  \<open>reader.readexactly(n)\<close> on a stream that still holds the given bytes and then ends: no value
  is \<open>IncompleteReadError\<close>, which leaves the stream empty.
\<close>

definition readexactly :: "nat \<Rightarrow> bytes \<Rightarrow> bytes option \<times> bytes" where
  "readexactly n r = (if n \<le> length r then (Some (take n r), drop n r) else (None, []))"

definition read_framed_packet :: "bytes \<Rightarrow> bytes option \<times> bytes" where
  "read_framed_packet r =
     (case readexactly FRAME_HEADER_SIZE r of
        (None, r') \<Rightarrow> (None, r')
      | (Some header, r') \<Rightarrow>
          let len = nat (be_int header) in
          if len = 0 \<or> MAX_PACKET_SIZE < len then (None, r')
          else readexactly len r')"

section \<open>Frames\<close>

definition sendable :: "bytes \<Rightarrow> bool" where
  "sendable packet \<longleftrightarrow> packet \<noteq> [] \<and> length packet \<le> MAX_PACKET_SIZE"

definition framed :: "bytes \<Rightarrow> bytes" where
  "framed packet = be_bytes 2 (int (length packet)) @ packet"

lemma frame_packet_eq:
  "frame_packet packet = (if length packet \<le> MAX_PACKET_SIZE then Inr (framed packet) else Inl ValueError)"
  by (simp add: frame_packet_def framed_def MAX_PACKET_SIZE_def del: be_bytes.simps)

lemma take_framed:
  assumes "sendable packet"
  shows "nat (be_int (take FRAME_HEADER_SIZE (framed packet @ r))) = length packet"
proof -
  have "take FRAME_HEADER_SIZE (framed packet @ r) = be_bytes 2 (int (length packet))"
    by (simp add: framed_def FRAME_HEADER_SIZE_def del: be_bytes.simps)
  then show ?thesis
    using assms by (simp add: be_int_be_bytes sendable_def MAX_PACKET_SIZE_def del: be_bytes.simps)
qed

lemma length_framed [simp]: "length (framed packet) = FRAME_HEADER_SIZE + length packet"
  by (simp add: framed_def FRAME_HEADER_SIZE_def del: be_bytes.simps)

lemma framed_body: "pyslice FRAME_HEADER_SIZE (FRAME_HEADER_SIZE + length packet) (framed packet @ r) = packet"
  by (simp add: framed_def FRAME_HEADER_SIZE_def pyslice_def del: be_bytes.simps)

lemma deframe_framed:
  assumes "sendable packet"
  shows "deframe_sync (framed packet @ r) = (packet # fst (deframe_sync r), snd (deframe_sync r))"
proof -
  have "length packet \<noteq> 0" "length packet \<le> MAX_PACKET_SIZE" using assms by (simp_all add: sendable_def)
  then show ?thesis
    using take_framed [OF assms, of r] framed_body [of packet r]
    by (simp add: deframe_sync.simps [of "framed packet @ r"] Let_def split: prod.splits)
qed

lemma deframe_start:
  assumes "sendable packet" "m < length (framed packet)"
  shows "deframe_sync (take m (framed packet)) = ([], take m (framed packet))"
proof (cases "m < FRAME_HEADER_SIZE")
  case True
  then show ?thesis by (simp add: deframe_sync.simps)
next
  case False
  then have "take FRAME_HEADER_SIZE (take m (framed packet)) = take FRAME_HEADER_SIZE (framed packet @ [])"
    by (simp add: min_def)
  then have "nat (be_int (take FRAME_HEADER_SIZE (take m (framed packet)))) = length packet"
    using take_framed [OF assms(1)] by metis
  moreover have "length packet \<noteq> 0" "length packet \<le> MAX_PACKET_SIZE"
    using assms by (simp_all add: sendable_def)
  ultimately show ?thesis
    using assms(2) False by (simp add: deframe_sync.simps [of "take m (framed packet)"] Let_def)
qed

interpretation tcp: stream_framing framed sendable deframe_sync
proof unfold_locales
  fix xs q
  assume "\<forall>x \<in> set xs. sendable x" and q: "q = [] \<or> (\<exists>x. sendable x \<and> proper_start q (framed x))"
  then show "deframe_sync (concat (map framed xs) @ q) = (xs, q)"
  proof (induction xs)
    case Nil
    then show ?case
      using deframe_start by (auto simp: proper_start_def deframe_sync.simps [of "[]"] FRAME_HEADER_SIZE_def)
  next
    case (Cons x xs)
    then show ?case using deframe_framed [of x "concat (map framed xs) @ q"] by simp
  qed
qed

text \<open>The receiving side: a buffer that is extended and deframed as pieces arrive.\<close>

fun deframe_pieces :: "bytes \<Rightarrow> bytes list \<Rightarrow> bytes list \<times> bytes" where
  "deframe_pieces buf [] = ([], buf)"
| "deframe_pieces buf (c # cs) = (case deframe_sync (buf @ c) of (xs, buf') \<Rightarrow>
     (case deframe_pieces buf' cs of (ys, buf'') \<Rightarrow> (xs @ ys, buf'')))"

lemma deframe_pieces_feeds: "deframe_pieces buf cs = tcp.feeds buf cs"
  by (induction cs arbitrary: buf) auto

text \<open>
  The framing round trip. Packets of 1 to 65535 bytes are framed without error, and the
  receiver returns exactly these packets, in order and with nothing left over, however the
  stream is cut into pieces.
\<close>

theorem framing_roundtrip:
  assumes "\<forall>packet \<in> set packets. packet \<noteq> [] \<and> length packet \<le> 65535"
    and "concat pieces = concat frames" "map frame_packet packets = map Inr frames"
  shows "deframe_pieces [] pieces = (packets, [])"
proof -
  have ok: "\<forall>packet \<in> set packets. sendable packet"
    using assms(1) by (simp add: sendable_def MAX_PACKET_SIZE_def)
  then have "map frame_packet packets = map (\<lambda>packet. Inr (framed packet)) packets"
    by (simp add: frame_packet_eq sendable_def)
  then have "map Inr frames = (map Inr (map framed packets) :: bytes result list)"
    using assms(3) by (simp add: comp_def)
  then have "frames = map framed packets" by (metis inj_Inr inj_map_eq_map)
  then show ?thesis
    unfolding deframe_pieces_feeds using tcp.feeds_stream [OF ok, of "[]" pieces] assms(2) by simp
qed

theorem framing_roundtrip_witness:
  "deframe_pieces [] [[0], [2, 7, 8, 0, 1], [9]] = ([[7, 8], [9]], [])"
  using framing_roundtrip [of "[[7, 8], [9]]" "[[0], [2, 7, 8, 0, 1], [9]]" "[[0, 2, 7, 8], [0, 1, 9]]"]
  by (simp add: frame_packet_def MAX_PACKET_SIZE_def pack_be_def numeral_2_eq_2)

text \<open>
  reading a framed packet from a stream gives the packet and leaves the stream behind it; a
  stream that ends inside the frame gives no packet, and an oversized packet is refused when it
  is framed.
\<close>

theorem read_framed_roundtrip:
  assumes "packet \<noteq> []"
  shows "case frame_packet packet of
      Inl e \<Rightarrow> e = ValueError \<and> 65535 < length packet
    | Inr d \<Rightarrow> read_framed_packet (d @ r) = (Some packet, r) \<and>
        (\<forall>m < length d. fst (read_framed_packet (take m d)) = None)"
proof (cases "length packet \<le> MAX_PACKET_SIZE")
  case False
  then show ?thesis by (simp add: frame_packet_eq MAX_PACKET_SIZE_def)
next
  case True
  then have s: "sendable packet" using assms by (simp add: sendable_def)
  have h: "nat (be_int (take FRAME_HEADER_SIZE (framed packet))) = length packet"
    using take_framed [OF s, of "[]"] by simp
  have "fst (read_framed_packet (take m (framed packet))) = None" if "m < length (framed packet)" for m
  proof (cases "m < FRAME_HEADER_SIZE")
    case True
    then show ?thesis using that by (simp add: read_framed_packet_def readexactly_def)
  next
    case False
    then have "take FRAME_HEADER_SIZE (take m (framed packet)) = take FRAME_HEADER_SIZE (framed packet)"
      by (simp add: min_def)
    then show ?thesis
      using that False h s True
      by (simp add: read_framed_packet_def readexactly_def Let_def sendable_def)
  qed
  moreover have "read_framed_packet (framed packet @ r) = (Some packet, r)"
  proof -
    have "readexactly FRAME_HEADER_SIZE (framed packet @ r)
        = (Some (take FRAME_HEADER_SIZE (framed packet)), packet @ r)"
      by (simp add: readexactly_def framed_def FRAME_HEADER_SIZE_def del: be_bytes.simps)
    then show ?thesis
      using h s by (simp add: read_framed_packet_def readexactly_def sendable_def)
  qed
  ultimately show ?thesis using True by (simp add: frame_packet_eq)
qed

theorem read_framed_roundtrip_witness: "read_framed_packet [0, 2, 7, 8, 5] = (Some [7, 8], [5])"
  using read_framed_roundtrip [of "[7, 8]" "[5]"]
  by (simp add: frame_packet_def MAX_PACKET_SIZE_def pack_be_def numeral_2_eq_2)

end
