(* ===== verification/Text_Codecs.thy ===== *)
theory Text_Codecs
  imports Prelude
begin

text \<open>
  The text encodings the code stores bytes and numbers in: decimal numerals, hexadecimal
  (\<open>bytes.hex\<close>, \<open>bytes.fromhex\<close>) and Base64, and Python strings as lists of code points with
  their UTF-8 and ASCII encodings. All of them are functions of the standard library.
\<close>

section \<open>Decimal numerals\<close>

fun decimal :: "nat \<Rightarrow> string" where
  "decimal n = (if n < 10 then [''0123456789'' ! n] else decimal (n div 10) @ [''0123456789'' ! (n mod 10)])"

declare decimal.simps [simp del]

definition str_int :: "int \<Rightarrow> string" where
  "str_int k = (if k < 0 then CHR ''-'' # decimal (nat (- k)) else decimal (nat k))"


section \<open>Hexadecimal text\<close>

text \<open>\<open>bytes.hex\<close> and \<open>bytes.fromhex\<close>, which skips white space between bytes.\<close>

definition hex_digit :: "nat \<Rightarrow> char" where
  "hex_digit n = ''0123456789abcdef'' ! n"

definition digit_value :: "char \<Rightarrow> nat option" where
  "digit_value c =
     (let n = (of_char c :: nat) in
      if 48 \<le> n \<and> n \<le> 57 then Some (n - 48)
      else if 97 \<le> n \<and> n \<le> 102 then Some (n - 87)
      else if 65 \<le> n \<and> n \<le> 70 then Some (n - 55) else None)"

definition hex_space :: "char \<Rightarrow> bool" where
  "hex_space c = (let n = (of_char c :: nat) in n = 32 \<or> (9 \<le> n \<and> n \<le> 13))"

definition bytes_hex :: "bytes \<Rightarrow> string" where
  "bytes_hex bs = concat (map (\<lambda>b. [hex_digit (unat b div 16), hex_digit (unat b mod 16)]) bs)"

fun bytes_fromhex :: "string \<Rightarrow> bytes result" where
  "bytes_fromhex [] = Inr []"
| "bytes_fromhex [c] = (if hex_space c then Inr [] else Inl ValueError)"
| "bytes_fromhex (c # d # cs) =
     (if hex_space c then bytes_fromhex (d # cs)
      else (case (digit_value c, digit_value d) of
        (Some h, Some l) \<Rightarrow> bind_result (bytes_fromhex cs) (\<lambda>bs. Inr (word_of_nat (16 * h + l) # bs))
      | _ \<Rightarrow> Inl ValueError))"


lemma hex_digits: "n < 16 \<Longrightarrow> digit_value (hex_digit n) = Some n \<and> \<not> hex_space (hex_digit n)"
proof -
  have "\<forall>n \<in> set [0..<16]. digit_value (hex_digit n) = Some n \<and> \<not> hex_space (hex_digit n)"
    by code_simp
  then show "n < 16 \<Longrightarrow> digit_value (hex_digit n) = Some n \<and> \<not> hex_space (hex_digit n)" by simp
qed

lemma fromhex_hex: "bytes_fromhex (bytes_hex bs) = Inr bs"
proof (induction bs)
  case (Cons b bs)
  have l: "unat b < 256" using unsigned_less [of b, where 'a = nat] by simp
  then have "unat b div 16 < 16" "unat b mod 16 < 16" by simp_all
  moreover have "(word_of_nat (16 * (unat b div 16) + unat b mod 16) :: byte) = b" by simp
  ultimately show ?case using Cons hex_digits by (simp add: bytes_hex_def del: mult_div_mod_eq)
qed (simp add: bytes_hex_def)


section \<open>Base64\<close>

definition b64_char :: "nat \<Rightarrow> char" where
  "b64_char n =
     (if n < 26 then char_of (n + 65) else if n < 52 then char_of (n + 71)
      else if n < 62 then char_of (n - 4) else if n = 62 then CHR ''+'' else CHR ''/'')"

definition b64_value :: "char \<Rightarrow> nat option" where
  "b64_value c =
     (let n = (of_char c :: nat) in
      if 65 \<le> n \<and> n \<le> 90 then Some (n - 65)
      else if 97 \<le> n \<and> n \<le> 122 then Some (n - 71)
      else if 48 \<le> n \<and> n \<le> 57 then Some (n + 4)
      else if n = 43 then Some 62 else if n = 47 then Some 63 else None)"

fun b64encode :: "bytes \<Rightarrow> string" where
  "b64encode [] = []"
| "b64encode [a] =
     [b64_char (unat a div 4), b64_char (unat a mod 4 * 16), CHR ''='', CHR ''='']"
| "b64encode [a, b] =
     [b64_char (unat a div 4), b64_char (unat a mod 4 * 16 + unat b div 16),
      b64_char (unat b mod 16 * 4), CHR ''='']"
| "b64encode (a # b # c # r) =
     b64_char (unat a div 4) # b64_char (unat a mod 4 * 16 + unat b div 16)
     # b64_char (unat b mod 16 * 4 + unat c div 64) # b64_char (unat c mod 64) # b64encode r"

text \<open>
  The non-strict decoder of the standard library: the position in the group of four, the bits
  left over, and the pad characters seen. Other characters are skipped; an unfinished group
  raises \<open>binascii.Error\<close>, a \<open>ValueError\<close>.
\<close>

fun b64_loop :: "string \<Rightarrow> nat \<Rightarrow> nat \<Rightarrow> nat \<Rightarrow> bytes result" where
  "b64_loop [] quad leftchar pads = (if quad = 0 then Inr [] else Inl ValueError)"
| "b64_loop (c # cs) quad leftchar pads =
     (if c = CHR ''='' then
        if 2 \<le> quad then
          if 4 \<le> quad + (pads + 1) then Inr [] else b64_loop cs quad leftchar (pads + 1)
        else b64_loop cs quad leftchar pads
      else (case b64_value c of
          None \<Rightarrow> b64_loop cs quad leftchar pads
        | Some v \<Rightarrow>
            if quad = 0 then b64_loop cs 1 v 0
            else if quad = 1 then
              bind_result (b64_loop cs 2 (v mod 16) 0) (\<lambda>r. Inr (word_of_nat (leftchar * 4 + v div 16) # r))
            else if quad = 2 then
              bind_result (b64_loop cs 3 (v mod 4) 0) (\<lambda>r. Inr (word_of_nat (leftchar * 16 + v div 4) # r))
            else
              bind_result (b64_loop cs 0 0 0) (\<lambda>r. Inr (word_of_nat (leftchar * 64 + v) # r))))"

definition b64decode :: "string \<Rightarrow> bytes result" where
  "b64decode s = b64_loop s 0 0 0"


lemma b64_chars:
  assumes "n < 64"
  shows "b64_value (b64_char n) = Some n \<and> b64_char n \<noteq> CHR ''=''"
proof -
  have c: "(of_char (b64_char n) :: nat) = (if n < 26 then n + 65 else if n < 52 then n + 71
      else if n < 62 then n - 4 else if n = 62 then 43 else 47)"
    using assms by (simp add: b64_char_def of_char_of)
  then have "(of_char (b64_char n) :: nat) \<noteq> of_char CHR ''=''" using assms by simp arith
  then show ?thesis using c assms by (auto simp: b64_value_def Let_def)
qed

lemma byte_small: "unat (b :: byte) < 256"
  using unsigned_less [of b, where 'a = nat] by simp

lemma digit_div_mod: "(m :: nat) < n \<Longrightarrow> (k * n + m) div n = k \<and> (k * n + m) mod n = m"
  by simp

lemma b64_group:
  fixes a b c :: nat
  assumes "a < 256" "b < 256" "c < 256"
  shows "a div 4 < 64" "a mod 4 * 16 + b div 16 < 64" "b mod 16 * 4 + c div 64 < 64" "c mod 64 < 64"
    "a div 4 * 4 + (a mod 4 * 16 + b div 16) div 16 = a"
    "(a mod 4 * 16 + b div 16) mod 16 * 16 + (b mod 16 * 4 + c div 64) div 4 = b"
    "(b mod 16 * 4 + c div 64) mod 4 * 64 + c mod 64 = c"
proof -
  have d: "a div 4 < 64" "b div 16 < 16" "c div 64 < 4" using assms by (simp_all add: less_mult_imp_div_less)
  have m: "a mod 4 < 4" "b mod 16 < 16" "c mod 64 < 64" by simp_all
  show "a div 4 < 64" "a mod 4 * 16 + b div 16 < 64" "b mod 16 * 4 + c div 64 < 64" "c mod 64 < 64"
    using d m by linarith+
  show "a div 4 * 4 + (a mod 4 * 16 + b div 16) div 16 = a"
    using digit_div_mod [OF d(2), of "a mod 4"] by simp
  show "(a mod 4 * 16 + b div 16) mod 16 * 16 + (b mod 16 * 4 + c div 64) div 4 = b"
    using digit_div_mod [OF d(2), of "a mod 4"] digit_div_mod [OF d(3), of "b mod 16"] by simp
  show "(b mod 16 * 4 + c div 64) mod 4 * 64 + c mod 64 = c"
    using digit_div_mod [OF d(3), of "b mod 16"] by simp
qed

lemma b64_first: "v < 64 \<Longrightarrow> b64_loop (b64_char v # cs) 0 l p = b64_loop cs 1 v 0"
  using b64_chars [of v] by simp

lemma b64_second: "v < 64 \<Longrightarrow> b64_loop (b64_char v # cs) 1 l p
    = bind_result (b64_loop cs 2 (v mod 16) 0) (\<lambda>r. Inr (word_of_nat (l * 4 + v div 16) # r))"
  using b64_chars [of v] by simp

lemma b64_third: "v < 64 \<Longrightarrow> b64_loop (b64_char v # cs) 2 l p
    = bind_result (b64_loop cs 3 (v mod 4) 0) (\<lambda>r. Inr (word_of_nat (l * 16 + v div 4) # r))"
  using b64_chars [of v] by simp

lemma b64_fourth: "v < 64 \<Longrightarrow> b64_loop (b64_char v # cs) 3 l p
    = bind_result (b64_loop cs 0 0 0) (\<lambda>r. Inr (word_of_nat (l * 64 + v) # r))"
  using b64_chars [of v] by simp

lemma b64_pads:
  "b64_loop (CHR ''='' # cs) 3 l 0 = Inr []"
  "b64_loop (CHR ''='' # CHR ''='' # cs) 2 l 0 = Inr []"
  by simp_all

lemmas b64_steps = b64_first b64_second b64_third b64_fourth b64_pads

lemma b64decode_encode: "b64decode (b64encode bs) = Inr bs"
proof (induction bs rule: b64encode.induct)
  case (2 a)
  have G: "unat a div 4 < 64" "unat a mod 4 * 16 < 64"
    using b64_group(1,2) [OF byte_small [of a], of 0 0] by simp_all
  have "b64decode (b64encode [a]) = Inr [word_of_nat (unat a div 4 * 4 + unat a mod 4 * 16 div 16)]"
    unfolding b64decode_def b64encode.simps b64_first [OF G(1)] b64_second [OF G(2)] b64_pads by simp
  then show ?case by simp
next
  case (3 a b)
  have G: "unat a div 4 < 64" "unat a mod 4 * 16 + unat b div 16 < 64" "unat b mod 16 * 4 < 64"
    using b64_group(1-3) [OF byte_small [of a] byte_small [of b], of 0] by simp_all
  have H: "b64decode (b64encode [a, b]) = Inr [word_of_nat (unat a div 4 * 4 +
      (unat a mod 4 * 16 + unat b div 16) div 16),
      word_of_nat ((unat a mod 4 * 16 + unat b div 16) mod 16 * 16 + unat b mod 16 * 4 div 4)]"
    unfolding b64decode_def b64encode.simps b64_first [OF G(1)] b64_second [OF G(2)] b64_third [OF G(3)] b64_pads
    by simp
  have e1: "unat a div 4 * 4 + (unat a mod 4 * 16 + unat b div 16) div 16 = unat a"
    using b64_group(5) [OF byte_small [of a] byte_small [of b], of 0] by simp
  have e2: "(unat a mod 4 * 16 + unat b div 16) mod 16 * 16 + unat b mod 16 * 4 div 4 = unat b"
    using digit_div_mod [of "unat b div 16" 16 "unat a mod 4"] byte_small [of b]
    by (simp add: less_mult_imp_div_less)
  show ?case unfolding H e1 e2 by simp
next
  case (4 a b c r)
  note G = b64_group [OF byte_small [of a] byte_small [of b] byte_small [of c]]
  show ?case
    using 4 unfolding b64decode_def b64encode.simps b64_first [OF G(1)] b64_second [OF G(2)]
      b64_third [OF G(3)] b64_fourth [OF G(4)] G(5-7)
    by simp
qed (simp add: b64decode_def)

section \<open>Unicode text\<close>

text \<open>
  A Python string is the list of its code points; \<open>py\<close> turns an ASCII literal into one. UTF-8 is
  written out with the handler \<open>errors='replace'\<close>: the encoder writes a question mark for a
  surrogate, the decoder one U+FFFD for each maximal ill-formed part.
\<close>

type_synonym pytext = "nat list"

definition py :: "string \<Rightarrow> pytext" where
  "py s = map of_char s"

definition is_scalar :: "nat \<Rightarrow> bool" where
  "is_scalar c \<longleftrightarrow> c < 0x110000 \<and> \<not> (0xD800 \<le> c \<and> c < 0xE000)"

definition utf8_point :: "nat \<Rightarrow> bytes" where
  "utf8_point c =
     (if c < 0x80 then [word_of_nat c]
      else if c < 0x800 then [word_of_nat (0xC0 + c div 64), word_of_nat (0x80 + c mod 64)]
      else if \<not> is_scalar c then [0x3F]
      else if c < 0x10000 then
        [word_of_nat (0xE0 + c div 4096), word_of_nat (0x80 + c div 64 mod 64), word_of_nat (0x80 + c mod 64)]
      else [word_of_nat (0xF0 + c div 262144), word_of_nat (0x80 + c div 4096 mod 64),
            word_of_nat (0x80 + c div 64 mod 64), word_of_nat (0x80 + c mod 64)])"

definition utf8_encode :: "pytext \<Rightarrow> bytes" where
  "utf8_encode t = concat (map utf8_point t)"

definition continuation :: "nat \<Rightarrow> bool" where
  "continuation n \<longleftrightarrow> 0x80 \<le> n \<and> n < 0xC0"

text \<open>
  One step of the decoder behind the byte \<open>a\<close>: the code point, or \<open>None\<close> for an ill-formed
  sequence, and the number of further bytes it takes.
\<close>

fun utf8_next :: "nat \<Rightarrow> nat list \<Rightarrow> nat option \<times> nat" where
  "utf8_next a rest =
     (if a < 0x80 then (Some a, 0)
      else if 0xC2 \<le> a \<and> a < 0xE0 then
        (case rest of b # _ \<Rightarrow> if continuation b then (Some ((a - 0xC0) * 64 + (b - 0x80)), 1) else (None, 0)
         | [] \<Rightarrow> (None, 0))
      else if 0xE0 \<le> a \<and> a < 0xF0 then
        (case rest of [] \<Rightarrow> (None, 0)
         | b # rest' \<Rightarrow>
             if \<not> continuation b \<or> (a = 0xE0 \<and> b < 0xA0) \<or> (a = 0xED \<and> 0xA0 \<le> b) then (None, 0)
             else (case rest' of [] \<Rightarrow> (None, 1)
               | c # _ \<Rightarrow> if continuation c
                   then (Some ((a - 0xE0) * 4096 + (b - 0x80) * 64 + (c - 0x80)), 2) else (None, 1)))
      else if 0xF0 \<le> a \<and> a < 0xF5 then
        (case rest of [] \<Rightarrow> (None, 0)
         | b # rest' \<Rightarrow>
             if \<not> continuation b \<or> (a = 0xF0 \<and> b < 0x90) \<or> (a = 0xF4 \<and> 0x90 \<le> b) then (None, 0)
             else (case rest' of [] \<Rightarrow> (None, 1)
               | c # rest'' \<Rightarrow> if \<not> continuation c then (None, 1)
                   else (case rest'' of [] \<Rightarrow> (None, 2)
                     | d # _ \<Rightarrow> if continuation d
                         then (Some ((a - 0xF0) * 262144 + (b - 0x80) * 4096 + (c - 0x80) * 64 + (d - 0x80)), 3)
                         else (None, 2))))
      else (None, 0))"

declare utf8_next.simps [simp del]

function utf8_points :: "nat list \<Rightarrow> nat option list" where
  "utf8_points [] = []"
| "utf8_points (a # rest) = fst (utf8_next a rest) # utf8_points (drop (snd (utf8_next a rest)) rest)"
  by pat_completeness auto
termination by (relation "measure length") auto

definition utf8_decode_replace :: "bytes \<Rightarrow> pytext" where
  "utf8_decode_replace bs =
     map (\<lambda>p. case p of Some c \<Rightarrow> c | None \<Rightarrow> 0xFFFD) (utf8_points (map unat bs))"

definition utf8_valid :: "bytes \<Rightarrow> bool" where
  "utf8_valid bs = list_all (\<lambda>p. p \<noteq> None) (utf8_points (map unat bs))"

definition ascii_encode_ignore :: "pytext \<Rightarrow> bytes" where
  "ascii_encode_ignore t = map word_of_nat (filter (\<lambda>c. c < 0x80) t)"

definition ascii_decode_replace :: "bytes \<Rightarrow> pytext" where
  "ascii_decode_replace bs = map (\<lambda>b. if unat b < 0x80 then unat b else 0xFFFD) bs"

lemma unat_byte: "n < 256 \<Longrightarrow> unat (word_of_nat n :: byte) = n"
  by (simp add: unat_of_nat take_bit_eq_mod)

lemma base64_split:
  fixes c :: nat
  shows "c div 4096 = c div 64 div 64" "c div 262144 = c div 4096 div 64"
    "c div 4096 * 4096 + c div 64 mod 64 * 64 + c mod 64 = c"
    "c div 262144 * 262144 + c div 4096 mod 64 * 4096 + c div 64 mod 64 * 64 + c mod 64 = c"
proof -
  show a: "c div 4096 = c div 64 div 64" "c div 262144 = c div 4096 div 64"
    by (simp_all add: div_mult2_eq [symmetric])
  have "c div 64 div 64 * 64 + c div 64 mod 64 = c div 64" "c div 64 * 64 + c mod 64 = c"
    "c div 4096 div 64 * 64 + c div 4096 mod 64 = c div 4096" by (simp_all only: div_mult_mod_eq)
  then show "c div 4096 * 4096 + c div 64 mod 64 * 64 + c mod 64 = c"
    "c div 262144 * 262144 + c div 4096 mod 64 * 4096 + c div 64 mod 64 * 64 + c mod 64 = c"
    unfolding a by linarith+
qed

lemma third_byte:
  fixes d :: nat
  assumes "32 \<le> d" "d < 1024" "d < 864 \<or> 896 \<le> d"
  shows "d div 64 < 16 \<and> (d div 64 = 0 \<longrightarrow> 32 \<le> d mod 64) \<and> (d div 64 = 13 \<longrightarrow> d mod 64 < 32)"
proof -
  have "d = 64 * (d div 64) + d mod 64" "d mod 64 < 64" by simp_all
  then show ?thesis using assms by linarith
qed

lemma fourth_byte:
  fixes d :: nat
  assumes "16 \<le> d" "d < 272"
  shows "d div 64 < 5 \<and> (d div 64 = 0 \<longrightarrow> 16 \<le> d mod 64) \<and> (d div 64 = 4 \<longrightarrow> d mod 64 < 16)"
proof -
  have "d = 64 * (d div 64) + d mod 64" "d mod 64 < 64" by simp_all
  then show ?thesis using assms by linarith
qed

lemma point_next:
  assumes "is_scalar c"
  shows "\<exists>a l. map unat (utf8_point c) = a # l \<and> utf8_next a (l @ rest) = (Some c, length l)"
proof -
  note step = utf8_point_def unat_byte utf8_next.simps continuation_def
  consider "c < 0x80" | "0x80 \<le> c" "c < 0x800" | "0x800 \<le> c" "c < 0x10000" | "0x10000 \<le> c" "c < 0x110000"
    using assms unfolding is_scalar_def by linarith
  then show ?thesis
  proof cases
    case 1
    then show ?thesis by (simp add: step del: of_nat_add of_nat_numeral)
  next
    case 2
    have "c div 64 < 32" "2 \<le> c div 64" using 2 by (simp_all add: less_mult_imp_div_less div_greater_zero_iff)
    then show ?thesis using 2 by (simp add: step del: of_nat_add of_nat_numeral)
  next
    case 3
    have d: "32 \<le> c div 64" "c div 64 < 1024" using 3 div_le_mono [of 2048 c 64] by (simp_all add: less_mult_imp_div_less)
    have "c div 64 < 864 \<or> 896 \<le> c div 64"
      using 3 assms div_le_mono [of "0xE000" c 64] unfolding is_scalar_def
      by (cases "c < 0xD800") (auto simp: less_mult_imp_div_less)
    then have "c div 4096 < 16" "c div 4096 = 0 \<longrightarrow> 32 \<le> c div 64 mod 64"
      "c div 4096 = 13 \<longrightarrow> c div 64 mod 64 < 32"
      using third_byte [OF d] unfolding base64_split(1) by blast+
    then show ?thesis using 3 assms base64_split(3) [of c]
      by (auto simp add: step simp del: of_nat_add of_nat_numeral)
  next
    case 4
    have d: "16 \<le> c div 4096" "c div 4096 < 272" using 4 div_le_mono [of "0x10000" c 4096] by (simp_all add: less_mult_imp_div_less)
    have "c div 262144 < 5" "c div 262144 = 0 \<longrightarrow> 16 \<le> c div 4096 mod 64"
      "c div 262144 = 4 \<longrightarrow> c div 4096 mod 64 < 16"
      using fourth_byte [OF d] unfolding base64_split(2) by blast+
    then show ?thesis using 4 assms base64_split(4) [of c]
      by (auto simp add: step simp del: of_nat_add of_nat_numeral)
  qed
qed

lemma points_encoded:
  "list_all is_scalar t \<Longrightarrow> utf8_points (map unat (utf8_encode t @ bs)) = map Some t @ utf8_points (map unat bs)"
proof (induction t)
  case (Cons c t)
  obtain a l where al: "map unat (utf8_point c) = a # l"
    "utf8_next a (l @ map unat (utf8_encode t @ bs)) = (Some c, length l)"
    using point_next [of c "map unat (utf8_encode t @ bs)"] Cons.prems by auto
  have "map unat (utf8_encode (c # t) @ bs) = a # l @ map unat (utf8_encode t @ bs)"
    using al(1) by (simp add: utf8_encode_def)
  then show ?case using Cons al(2) by simp
qed (simp add: utf8_encode_def)

lemma decode_encode_utf8: "list_all is_scalar t \<Longrightarrow> utf8_decode_replace (utf8_encode t) = t"
  using points_encoded [of t "[]"] by (simp add: utf8_decode_replace_def comp_def)

lemma utf8_valid_encode: "list_all is_scalar t \<Longrightarrow> utf8_valid (utf8_encode t)"
  using points_encoded [of t "[]"] by (simp add: utf8_valid_def list_all_iff)

text \<open>
  The truncation of a failure notice: while the bytes do not decode, the last one is dropped.
  What remains of an encoded text cut anywhere is the encoding of a prefix of the text.
\<close>

function utf8_trim :: "bytes \<Rightarrow> bytes" where
  "utf8_trim raw = (if raw = [] then [] else if utf8_valid raw then raw else utf8_trim (butlast raw))"
  by pat_completeness auto
termination by (relation "measure length") auto

declare utf8_trim.simps [simp del]

lemma utf8_trim_valid: "utf8_valid raw \<Longrightarrow> utf8_trim raw = raw"
  by (subst utf8_trim.simps) auto

lemma utf8_trim_take: "\<exists>m. utf8_trim raw = take m raw \<and> utf8_valid (take m raw)"
proof (induction raw rule: utf8_trim.induct)
  case (1 raw)
  show ?case
  proof (cases "raw = [] \<or> utf8_valid raw")
    case True
    then show ?thesis by (subst utf8_trim.simps) (auto simp: utf8_valid_def intro: exI [of _ "length raw"])
  next
    case False
    then obtain m where m: "utf8_trim (butlast raw) = take m (butlast raw)" "utf8_valid (take m (butlast raw))"
      using 1 by auto
    then have "utf8_trim raw = take (min m (length raw - 1)) raw"
      using False by (subst utf8_trim.simps) (simp add: butlast_conv_take min.commute)
    then show ?thesis using m by (metis butlast_conv_take take_take)
  qed
qed

lemma partial_point_invalid:
  assumes "is_scalar c" "0 < n" "n < length (utf8_point c)"
  shows "\<not> utf8_valid (take n (utf8_point c))"
proof -
  obtain a l where al: "map unat (utf8_point c) = a # l"
    using point_next [OF assms(1), of "[]"] by auto
  have l: "length l = length (utf8_point c) - 1" using arg_cong [OF al, of length] by simp
  obtain k where n: "n = Suc k" using assms(2) by (cases n) auto
  have "fst (utf8_next a (take k l)) = None"
  proof -
    consider "c < 0x80" | "0x80 \<le> c" "c < 0x800" | "0x800 \<le> c" "c < 0x10000" | "0x10000 \<le> c" "c < 0x110000"
      using assms unfolding is_scalar_def by linarith
    then show ?thesis
    proof cases
      case 1
      then show ?thesis using assms n by (simp add: utf8_point_def)
    next
      case 2
      then have "k = 0" using assms n by (simp add: utf8_point_def)
      moreover have "c div 64 < 32" using 2 by (simp add: less_mult_imp_div_less)
      ultimately show ?thesis using 2 al by (auto simp: utf8_point_def unat_byte utf8_next.simps simp del: of_nat_add of_nat_numeral)
    next
      case 3
      then have "k = 0 \<or> k = 1" using assms n by (auto simp: utf8_point_def)
      moreover have "c div 4096 < 16" using 3 by (simp add: less_mult_imp_div_less)
      ultimately show ?thesis using 3 al assms
        by (auto simp: utf8_point_def unat_byte utf8_next.simps simp del: of_nat_add of_nat_numeral)
    next
      case 4
      then have "k = 0 \<or> k = 1 \<or> k = 2" using assms n by (auto simp: utf8_point_def)
      moreover have "c div 262144 < 5" using 4 by (simp add: less_mult_imp_div_less)
      ultimately show ?thesis using 4 al assms
        by (auto simp: utf8_point_def unat_byte utf8_next.simps numeral_2_eq_2 simp del: of_nat_add of_nat_numeral)
    qed
  qed
  moreover have "map unat (take n (utf8_point c)) = a # take k l"
    using al n by (metis take_Suc_Cons take_map)
  ultimately show ?thesis by (simp add: utf8_valid_def)
qed

lemma valid_prefix_encoded:
  "list_all is_scalar t \<Longrightarrow> utf8_valid (take n (utf8_encode t)) \<Longrightarrow> \<exists>k. take n (utf8_encode t) = utf8_encode (take k t)"
proof (induction t arbitrary: n)
  case Nil
  then show ?case by (simp add: utf8_encode_def)
next
  case (Cons c t)
  have e: "utf8_encode (c # t) = utf8_point c @ utf8_encode t" by (simp add: utf8_encode_def)
  consider "n = 0" | "0 < n" "n < length (utf8_point c)" | "length (utf8_point c) \<le> n" by linarith
  then show ?case
  proof cases
    case 1
    then show ?thesis by (intro exI [of _ 0]) (simp add: utf8_encode_def)
  next
    case 2
    then show ?thesis using Cons.prems partial_point_invalid [of c n] e by simp
  next
    case 3
    have t: "take n (utf8_encode (c # t)) = utf8_encode [c] @ take (n - length (utf8_point c)) (utf8_encode t)"
      using 3 by (simp add: utf8_encode_def)
    have "utf8_valid (take (n - length (utf8_point c)) (utf8_encode t))"
      using Cons.prems points_encoded [of "[c]" "take (n - length (utf8_point c)) (utf8_encode t)"] t
      by (simp add: utf8_valid_def)
    then obtain k where "take (n - length (utf8_point c)) (utf8_encode t) = utf8_encode (take k t)"
      using Cons by auto
    then have "take n (utf8_encode (c # t)) = utf8_encode (take (Suc k) (c # t))"
      using t by (simp add: utf8_encode_def)
    then show ?thesis by blast
  qed
qed

lemma trimmed_text:
  assumes "list_all is_scalar t"
  shows "\<exists>k. utf8_trim (take n (utf8_encode t)) = utf8_encode (take k t)"
proof -
  obtain m where m: "utf8_trim (take n (utf8_encode t)) = take m (take n (utf8_encode t))"
    "utf8_valid (take m (take n (utf8_encode t)))"
    using utf8_trim_take by blast
  then show ?thesis using valid_prefix_encoded [OF assms, of "min m n"] by simp
qed

end
