(* ===== verification/Tc_Scheduler.thy ===== *)
theory Tc_Scheduler
  imports Ecss_Packet Text_Codecs "HOL-Library.AList"
begin

text \<open>
  The time-tagged command scheduler of \<open>smo_simulator/tc_scheduler.py\<close>. The command dictionary
  is an association list in insertion order (\<open>AList.update\<close> and \<open>AList.delete\<close> are Python's
  assignment and \<open>del\<close>). A step relation over the scheduler's operations carries the property
  that a command is executed at most once.
\<close>

section \<open>The scheduler\<close>

definition DETAIL_DATA_BYTES :: nat where "DETAIL_DATA_BYTES = 8"

record command_identity =
  ci_apid :: int
  ci_service :: int
  ci_subtype :: int
  ci_data_len :: nat
  ci_data :: bytes

definition no_identity :: command_identity where
  "no_identity = \<lparr>ci_apid = 0, ci_service = 0, ci_subtype = 0, ci_data_len = 0, ci_data = []\<rparr>"

text \<open>An exception of the parser leaves the zero identity.\<close>

definition decommutate_identity :: "bytes \<Rightarrow> command_identity" where
  "decommutate_identity tc_packet =
     (case decommutate_packet tc_packet of
        Inl e \<Rightarrow> no_identity
      | Inr None \<Rightarrow> no_identity
      | Inr (Some parsed) \<Rightarrow>
          \<lparr>ci_apid = ph_apid (dp_primary parsed),
           ci_service = (case dp_secondary parsed of Some s \<Rightarrow> sh_service s | None \<Rightarrow> 0),
           ci_subtype = (case dp_secondary parsed of Some s \<Rightarrow> sh_subtype s | None \<Rightarrow> 0),
           ci_data_len = length (dp_data_field parsed),
           ci_data = take DETAIL_DATA_BYTES (dp_data_field parsed)\<rparr>)"

record scheduled_command =
  sc_id :: int
  sc_exec_time :: int
  sc_packet :: bytes
  sc_identity :: command_identity

record tc_scheduler =
  ts_commands :: "(int \<times> scheduled_command) list"
  ts_next_id :: int
  ts_enabled :: bool

definition new_scheduler :: tc_scheduler where
  "new_scheduler = \<lparr>ts_commands = [], ts_next_id = 1, ts_enabled = True\<rparr>"

definition insert_command :: "int \<Rightarrow> bytes \<Rightarrow> tc_scheduler \<Rightarrow> int \<times> tc_scheduler" where
  "insert_command execution_time_cuc tc_packet s =
     (let cmd_id = ts_next_id s;
          c = \<lparr>sc_id = cmd_id, sc_exec_time = execution_time_cuc, sc_packet = tc_packet,
               sc_identity = decommutate_identity tc_packet\<rparr>
      in (cmd_id, s\<lparr>ts_next_id := ts_next_id s + 1,
                    ts_commands := AList.update cmd_id c (ts_commands s)\<rparr>))"

definition delete_command :: "int \<Rightarrow> tc_scheduler \<Rightarrow> bool \<times> tc_scheduler" where
  "delete_command cmd_id s =
     (if map_of (ts_commands s) cmd_id \<noteq> None
      then (True, s\<lparr>ts_commands := AList.delete cmd_id (ts_commands s)\<rparr>) else (False, s))"

definition delete_all :: "tc_scheduler \<Rightarrow> tc_scheduler" where
  "delete_all s = s\<lparr>ts_commands := []\<rparr>"

text \<open>\<open>sorted(..., key=...)\<close> is stable, as \<open>sort_key\<close> is; a listing has no packet.\<close>

record listed_command =
  lc_id :: int
  lc_exec_time :: int
  lc_identity :: command_identity

definition list_commands :: "tc_scheduler \<Rightarrow> listed_command list" where
  "list_commands s =
     map (\<lambda>c. \<lparr>lc_id = sc_id c, lc_exec_time = sc_exec_time c, lc_identity = sc_identity c\<rparr>)
       (sort_key sc_exec_time (map snd (ts_commands s)))"

definition enable_schedule :: "tc_scheduler \<Rightarrow> tc_scheduler" where
  "enable_schedule s = s\<lparr>ts_enabled := True\<rparr>"

definition disable_schedule :: "tc_scheduler \<Rightarrow> tc_scheduler" where
  "disable_schedule s = s\<lparr>ts_enabled := False\<rparr>"

fun tick_scan :: "int \<Rightarrow> (int \<times> scheduled_command) list \<Rightarrow> bytes list \<times> int list" where
  "tick_scan current_cuc [] = ([], [])"
| "tick_scan current_cuc ((cmd_id, cmd) # rest) =
     (case tick_scan current_cuc rest of (due, expired_ids) \<Rightarrow>
       if sc_exec_time cmd \<le> current_cuc then (sc_packet cmd # due, cmd_id # expired_ids)
       else (due, expired_ids))"

definition tick :: "int \<Rightarrow> tc_scheduler \<Rightarrow> bytes list \<times> tc_scheduler" where
  "tick current_cuc s =
     (if \<not> ts_enabled s then ([], s)
      else (case tick_scan current_cuc (ts_commands s) of (due, expired_ids) \<Rightarrow>
        (due, s\<lparr>ts_commands := foldl (\<lambda>cs i. AList.delete i cs) (ts_commands s) expired_ids\<rparr>)))"

record scheduler_status =
  ss_enabled :: bool
  ss_count :: nat
  ss_next_id :: int

definition get_status :: "tc_scheduler \<Rightarrow> scheduler_status" where
  "get_status s = \<lparr>ss_enabled = ts_enabled s, ss_count = length (ts_commands s), ss_next_id = ts_next_id s\<rparr>"

section \<open>Breakpoints\<close>

text \<open>The dictionaries of a saved state; a missing key is \<open>None\<close>.\<close>

record saved_command =
  sv_id :: "int option"
  sv_exec_time :: "int option"
  sv_packet :: "string option"
  sv_apid :: "int option"
  sv_service :: "int option"
  sv_subtype :: "int option"
  sv_data_len :: "nat option"
  sv_data :: "string option"

record saved_schedule =
  sv_enabled :: "bool option"
  sv_next_id :: "int option"
  sv_commands :: "saved_command list option"

definition save_command :: "scheduled_command \<Rightarrow> saved_command" where
  "save_command c = \<lparr>sv_id = Some (sc_id c), sv_exec_time = Some (sc_exec_time c),
     sv_packet = Some (bytes_hex (sc_packet c)), sv_apid = Some (ci_apid (sc_identity c)),
     sv_service = Some (ci_service (sc_identity c)), sv_subtype = Some (ci_subtype (sc_identity c)),
     sv_data_len = Some (ci_data_len (sc_identity c)), sv_data = Some (bytes_hex (ci_data (sc_identity c)))\<rparr>"

definition get_state :: "tc_scheduler \<Rightarrow> saved_schedule" where
  "get_state s = \<lparr>sv_enabled = Some (ts_enabled s), sv_next_id = Some (ts_next_id s),
     sv_commands = Some (map (\<lambda>(k, c). save_command c) (ts_commands s))\<rparr>"

definition required :: "'a option \<Rightarrow> 'a result" where
  "required x = (case x of Some a \<Rightarrow> Inr a | None \<Rightarrow> Inl KeyError)"

definition defaulted :: "'a \<Rightarrow> 'a option \<Rightarrow> 'a" where
  "defaulted d x = (case x of Some a \<Rightarrow> a | None \<Rightarrow> d)"

definition restore_command :: "saved_command \<Rightarrow> scheduled_command result" where
  "restore_command c =
     bind_result (required (sv_id c)) (\<lambda>cmd_id.
     bind_result (required (sv_exec_time c)) (\<lambda>t.
     bind_result (required (sv_packet c)) (\<lambda>h.
     bind_result (bytes_fromhex h) (\<lambda>p.
     bind_result (bytes_fromhex (defaulted [] (sv_data c))) (\<lambda>d.
     Inr \<lparr>sc_id = cmd_id, sc_exec_time = t, sc_packet = p,
          sc_identity = \<lparr>ci_apid = defaulted 0 (sv_apid c), ci_service = defaulted 0 (sv_service c),
            ci_subtype = defaulted 0 (sv_subtype c), ci_data_len = defaulted 0 (sv_data_len c),
            ci_data = d\<rparr>\<rparr>)))))"

fun restore_commands ::
  "saved_command list \<Rightarrow> (int \<times> scheduled_command) list \<Rightarrow> (int \<times> scheduled_command) list result" where
  "restore_commands [] acc = Inr acc"
| "restore_commands (c # cs) acc =
     bind_result (restore_command c) (\<lambda>cmd. restore_commands cs (AList.update (sc_id cmd) cmd acc))"

definition set_state :: "saved_schedule \<Rightarrow> tc_scheduler result" where
  "set_state st =
     bind_result (restore_commands (defaulted [] (sv_commands st)) []) (\<lambda>cs.
     Inr \<lparr>ts_commands = cs, ts_next_id = defaulted 1 (sv_next_id st),
          ts_enabled = defaulted True (sv_enabled st)\<rparr>)"

section \<open>Runs of the scheduler\<close>

datatype sched_event =
    Insert int bytes
  | Delete int
  | DeleteAll
  | Enable
  | Disable
  | Tick int

text \<open>One operation: the identifiers of the commands it executes, and the state after it.\<close>

inductive sched_step :: "tc_scheduler \<Rightarrow> sched_event \<Rightarrow> int list \<Rightarrow> tc_scheduler \<Rightarrow> bool" where
  insert: "sched_step s (Insert t p) [] (snd (insert_command t p s))"
| delete: "sched_step s (Delete i) [] (snd (delete_command i s))"
| delete_all: "sched_step s DeleteAll [] (delete_all s)"
| enable: "sched_step s Enable [] (enable_schedule s)"
| disable: "sched_step s Disable [] (disable_schedule s)"
| tick: "sched_step s (Tick now)
    (if ts_enabled s then snd (tick_scan now (ts_commands s)) else []) (snd (tick now s))"


inductive sched_trace :: "tc_scheduler \<Rightarrow> sched_event list \<Rightarrow> int list \<Rightarrow> tc_scheduler \<Rightarrow> bool" where
  stop: "sched_trace s [] [] s"
| more: "sched_step s e ids s' \<Longrightarrow> sched_trace s' es executed s'' \<Longrightarrow>
    sched_trace s (e # es) (ids @ executed) s''"

inductive_cases trace_NilE: "sched_trace s [] ids s'"
inductive_cases trace_ConsE: "sched_trace s (e # es) ids s'"

section \<open>What a tick does\<close>

definition is_due :: "int \<Rightarrow> int \<times> scheduled_command \<Rightarrow> bool" where
  "is_due now kc \<longleftrightarrow> sc_exec_time (snd kc) \<le> now"

definition sched_ok :: "tc_scheduler \<Rightarrow> bool" where
  "sched_ok s \<longleftrightarrow> distinct (map fst (ts_commands s)) \<and>
     (\<forall>(k, c) \<in> set (ts_commands s). k < ts_next_id s \<and> sc_id c = k)"

lemma tick_scan_eq:
  "tick_scan now cs = (map (sc_packet \<circ> snd) (filter (is_due now) cs), map fst (filter (is_due now) cs))"
  by (induction now cs rule: tick_scan.induct) (auto simp: is_due_def)

lemma foldl_delete: "foldl (\<lambda>cs i. AList.delete i cs) cs is = filter (\<lambda>(k, c). k \<notin> set is) cs"
proof (induction "is" arbitrary: cs)
  case (Cons i "is")
  then show ?case by (auto simp: AList.delete_eq intro!: filter_cong)
qed (auto simp: case_prod_beta)

lemma filter_not_due:
  assumes "distinct (map fst cs)"
  shows "filter (\<lambda>(k, c). k \<notin> set (map fst (filter P cs))) cs = filter (\<lambda>kc. \<not> P kc) cs"
proof (rule filter_cong [OF refl])
  fix kc
  assume kc: "kc \<in> set cs"
  have inj: "a = b" if "a \<in> set cs" "b \<in> set cs" "fst a = fst b" for a b
    using that assms by (auto simp: distinct_map dest: inj_onD)
  have "fst kc \<in> fst ` set (filter P cs) \<longleftrightarrow> P kc"
  proof
    assume "fst kc \<in> fst ` set (filter P cs)"
    then obtain a where "a \<in> set cs" "P a" "fst a = fst kc" by auto
    then show "P kc" using inj kc by blast
  qed (use kc in auto)
  then show "(case kc of (k, c) \<Rightarrow> k \<notin> set (map fst (filter P cs))) = (\<not> P kc)"
    by (simp add: case_prod_beta)
qed

lemma tick_eq:
  assumes "sched_ok s" "ts_enabled s"
  shows "tick now s = (map (sc_packet \<circ> snd) (filter (is_due now) (ts_commands s)),
    s\<lparr>ts_commands := filter (\<lambda>kc. \<not> is_due now kc) (ts_commands s)\<rparr>)"
  using assms filter_not_due [of "ts_commands s" "is_due now"]
  by (simp add: tick_def tick_scan_eq foldl_delete sched_ok_def del: set_map)

section \<open>Executed at most once, and at least once when due\<close>

definition pending_ids :: "tc_scheduler \<Rightarrow> int set" where
  "pending_ids s = fst ` set (ts_commands s)"

lemma update_fresh: "k \<notin> fst ` set cs \<Longrightarrow> AList.update k v cs = cs @ [(k, v)]"
  by (induction cs) auto

lemma insert_fresh:
  "sched_ok s \<Longrightarrow> ts_commands (snd (insert_command t p s)) = ts_commands s @
     [(ts_next_id s, \<lparr>sc_id = ts_next_id s, sc_exec_time = t, sc_packet = p,
        sc_identity = decommutate_identity p\<rparr>)]"
  by (auto simp: insert_command_def sched_ok_def Let_def intro!: update_fresh)

text \<open>One step keeps the state well formed, and moves identifiers only as it should.\<close>

lemma step_ids:
  assumes ok: "sched_ok s" and st: "sched_step s e ids s'"
  shows "sched_ok s'" "distinct ids" "set ids \<subseteq> pending_ids s" "set ids \<inter> pending_ids s' = {}"
    "pending_ids s' \<subseteq> pending_ids s \<union> {ts_next_id s..<ts_next_id s'}" "ts_next_id s \<le> ts_next_id s'"
proof -
  have "sched_ok s' \<and> distinct ids \<and> set ids \<subseteq> pending_ids s \<and> set ids \<inter> pending_ids s' = {} \<and>
    pending_ids s' \<subseteq> pending_ids s \<union> {ts_next_id s..<ts_next_id s'} \<and> ts_next_id s \<le> ts_next_id s'"
    using st
  proof (cases rule: sched_step.cases)
    case (insert t p)
    have "ts_next_id s' = ts_next_id s + 1" by (simp add: insert insert_command_def Let_def)
    then show ?thesis
      using ok insert_fresh [OF ok, of t p] insert by (force simp: sched_ok_def pending_ids_def)
  next
    case (delete i)
    have "set (AList.delete i (ts_commands s)) \<subseteq> set (ts_commands s)"
      by (auto simp: AList.delete_eq)
    then show ?thesis
      using ok delete by (auto simp: delete_command_def sched_ok_def pending_ids_def distinct_delete)
  next
    case delete_all
    then show ?thesis by (simp add: sched_ok_def pending_ids_def delete_all_def)
  next
    case enable
    then show ?thesis using ok by (simp add: sched_ok_def pending_ids_def enable_schedule_def)
  next
    case disable
    then show ?thesis using ok by (simp add: sched_ok_def pending_ids_def disable_schedule_def)
  next
    case (tick now)
    show ?thesis
    proof (cases "ts_enabled s")
      case False
      then show ?thesis using tick ok by (simp add: tick_def pending_ids_def)
    next
      case True
      have d: "distinct (map fst (ts_commands s))" using ok by (simp add: sched_ok_def)
      have "set (map fst (filter (is_due now) (ts_commands s))) \<inter>
          fst ` set (filter (\<lambda>kc. \<not> is_due now kc) (ts_commands s)) = {}"
        using d by (auto simp: distinct_map dest: inj_onD)
      then show ?thesis
        using tick tick_eq [OF ok True, of now] True ok d
        by (auto simp: tick_scan_eq sched_ok_def pending_ids_def distinct_map_filter)
    qed
  qed
  then show "sched_ok s'" "distinct ids" "set ids \<subseteq> pending_ids s" "set ids \<inter> pending_ids s' = {}"
    "pending_ids s' \<subseteq> pending_ids s \<union> {ts_next_id s..<ts_next_id s'}" "ts_next_id s \<le> ts_next_id s'"
    by blast+
qed

lemma pending_below: "sched_ok s \<Longrightarrow> i \<in> pending_ids s \<Longrightarrow> i < ts_next_id s"
  by (auto simp: sched_ok_def pending_ids_def)

lemma gone_stays_gone:
  "sched_trace s es executed s' \<Longrightarrow> sched_ok s \<Longrightarrow> i < ts_next_id s \<Longrightarrow> i \<notin> pending_ids s \<Longrightarrow>
   i \<notin> set executed \<and> i \<notin> pending_ids s'"
proof (induction rule: sched_trace.induct)
  case (more s e ids s' es executed s'')
  note S = step_ids [OF more.prems(1) more.hyps(1)]
  have "i < ts_next_id s'" using S(6) more.prems(2) by linarith
  moreover have "i \<notin> pending_ids s'" using S(5) more.prems(2,3) by auto
  ultimately show ?case using more.IH [OF S(1)] S(3) more.prems(3) by auto
qed simp

text \<open>
  C39: in any sequence of insertions, deletions, enabling, disabling and ticks, from any
  well-formed schedule, no command is executed twice, and a command that is not pending (deleted
  or executed before) is never executed.
\<close>

theorem executed_at_most_once:
  assumes "sched_trace s es executed s'" "sched_ok s"
  shows "distinct executed \<and> sched_ok s' \<and>
    (\<forall>i \<in> set executed. i \<in> pending_ids s \<or> ts_next_id s \<le> i) \<and> set executed \<inter> pending_ids s' = {}"
  using assms
proof (induction rule: sched_trace.induct)
  case (more s e ids s' es executed s'')
  note S = step_ids [OF more.prems more.hyps(1)]
  note ih = more.IH [OF S(1)]
  have out: "i \<notin> set executed \<and> i \<notin> pending_ids s''" if "i \<in> set ids" for i
  proof -
    have "i < ts_next_id s'" using that S(3,6) pending_below [OF more.prems] by fastforce
    then show ?thesis using gone_stays_gone [OF more.hyps(2) S(1)] S(4) that by blast
  qed
  show ?case using S ih out by fastforce
qed simp

text \<open>A schedule with one command due at 50, one at 200, and a run of two ticks.\<close>

definition sample_schedule :: tc_scheduler where
  "sample_schedule = snd (insert_command 50 [] (snd (insert_command 200 [] new_scheduler)))"

lemma sample_schedule_eq:
  "ts_commands sample_schedule =
     [(1, \<lparr>sc_id = 1, sc_exec_time = 200, sc_packet = [], sc_identity = no_identity\<rparr>),
      (2, \<lparr>sc_id = 2, sc_exec_time = 50, sc_packet = [], sc_identity = no_identity\<rparr>)]"
  "ts_enabled sample_schedule" "sched_ok sample_schedule"
  by (simp_all add: sample_schedule_def insert_command_def new_scheduler_def Let_def sched_ok_def
      decommutate_identity_def decommutate_packet_def)

lemma sample_trace:
  "sched_trace sample_schedule [Tick 100, Tick 100] ([2] @ [] @ [])
     (snd (tick 100 (snd (tick 100 sample_schedule))))"
proof -
  have "sched_step sample_schedule (Tick 100) [2] (snd (tick 100 sample_schedule))"
    using sched_step.tick [of sample_schedule 100] by (simp add: sample_schedule_eq)
  moreover have "sched_step (snd (tick 100 sample_schedule)) (Tick 100) []
      (snd (tick 100 (snd (tick 100 sample_schedule))))"
    using sched_step.tick [of "snd (tick 100 sample_schedule)" 100]
    by (simp add: tick_def sample_schedule_eq)
  ultimately show ?thesis using sched_trace.more sched_trace.stop by blast
qed

theorem executed_at_most_once_witness: "distinct [2 :: int] \<and> 2 \<in> pending_ids sample_schedule"
  using executed_at_most_once [OF sample_trace sample_schedule_eq(3)]
  by (simp add: pending_ids_def sample_schedule_eq)

lemma tick_step_ids:
  assumes "sched_ok s" "ts_enabled s" "(i, c) \<in> set (ts_commands s)"
  shows "if sc_exec_time c \<le> now then i \<in> set (snd (tick_scan now (ts_commands s)))
    else (i, c) \<in> set (ts_commands (snd (tick now s)))"
  using assms tick_eq [OF assms(1,2), of now] by (force simp: tick_scan_eq is_due_def)

lemma step_keeps:
  assumes "sched_step s e ids s'" "sched_ok s" "ts_enabled s" "(i, c) \<in> set (ts_commands s)"
    and "e \<noteq> Delete i" "e \<noteq> DeleteAll" "e \<noteq> Disable"
  shows "i \<in> set ids \<or> (i, c) \<in> set (ts_commands s')" "ts_enabled s'"
    "\<And>now. e = Tick now \<Longrightarrow> sc_exec_time c \<le> now \<Longrightarrow> i \<in> set ids"
proof -
  have "(i \<in> set ids \<or> (i, c) \<in> set (ts_commands s')) \<and> ts_enabled s' \<and>
    (\<forall>now. e = Tick now \<longrightarrow> sc_exec_time c \<le> now \<longrightarrow> i \<in> set ids)"
    using assms(1)
  proof (cases rule: sched_step.cases)
    case (insert t p)
    then show ?thesis using assms insert_fresh [OF assms(2), of t p]
      by (auto simp: insert_command_def Let_def)
  next
    case (tick now)
    then show ?thesis
      using assms tick_step_ids [OF assms(2-4), of now] tick_eq [OF assms(2,3), of now]
      by (auto split: if_splits)
  qed (use assms in \<open>auto simp: delete_command_def enable_schedule_def AList.delete_eq\<close>)
  then show "i \<in> set ids \<or> (i, c) \<in> set (ts_commands s')" "ts_enabled s'"
    "\<And>now. e = Tick now \<Longrightarrow> sc_exec_time c \<le> now \<Longrightarrow> i \<in> set ids"
    by blast+
qed

text \<open>
  A pending command of an enabled schedule is executed by the time of a tick at or after its
  execution time, whatever else happens, unless it is deleted or the schedule is disabled.
\<close>

theorem executed_when_due:
  assumes "sched_trace s es executed s'" "sched_ok s" "ts_enabled s" "(i, c) \<in> set (ts_commands s)"
    and "Delete i \<notin> set es" "DeleteAll \<notin> set es" "Disable \<notin> set es"
    and "Tick now \<in> set es" "sc_exec_time c \<le> now"
  shows "i \<in> set executed"
  using assms
proof (induction es arbitrary: s executed)
  case (Cons e es)
  from Cons.prems(1) obtain ids s1 rest where t: "sched_step s e ids s1" "sched_trace s1 es rest s'"
    "executed = ids @ rest"
    by (rule trace_ConsE) blast
  have ne: "e \<noteq> Delete i" "e \<noteq> DeleteAll" "e \<noteq> Disable" using Cons.prems(5-7) by auto
  note K = step_keeps [OF t(1) Cons.prems(2-4) ne]
  show ?case
  proof (cases "i \<in> set ids")
    case False
    then have "(i, c) \<in> set (ts_commands s1)" "Tick now \<in> set es" using K(1,3) Cons.prems(8,9) by auto
    then show ?thesis
      using Cons.IH [OF t(2) step_ids(1) [OF Cons.prems(2) t(1)] K(2)] Cons.prems(5-7,9) t(3) by auto
  qed (simp add: t(3))
qed simp

theorem executed_when_due_witness: "(2 :: int) \<in> set ([2] @ [] @ [])"
  using executed_when_due [OF sample_trace sample_schedule_eq(3,2), of 2
      "\<lparr>sc_id = 2, sc_exec_time = 50, sc_packet = [], sc_identity = no_identity\<rparr>" 100]
  by (simp add: sample_schedule_eq)

section \<open>Breakpoint round trip\<close>

lemma restore_save: "restore_command (save_command c) = Inr c"
  by (simp add: restore_command_def save_command_def required_def defaulted_def fromhex_hex)

lemma restore_saved_commands:
  "distinct (map fst (acc @ cs)) \<Longrightarrow> \<forall>(k, c) \<in> set cs. sc_id c = k \<Longrightarrow>
   restore_commands (map (\<lambda>(k, c). save_command c) cs) acc = Inr (acc @ cs)"
proof (induction cs arbitrary: acc)
  case (Cons kc cs)
  obtain k c where kc: "kc = (k, c)" "sc_id c = k" using Cons.prems(2) by fastforce
  have "AList.update k c acc = acc @ [(k, c)]" using Cons.prems(1) kc by (auto intro: update_fresh)
  then show ?case using Cons.IH [of "acc @ [(k, c)]"] Cons.prems kc by (simp add: restore_save)
qed simp

text \<open>
  a saved schedule is restored exactly: every pending command with its packet, time, identity
  and place, the next identifier and the enabled flag.
\<close>

theorem schedule_breakpoint_roundtrip:
  assumes "sched_ok s"
  shows "set_state (get_state s) = Inr s"
  using assms restore_saved_commands [of "[]" "ts_commands s"]
  by (simp add: set_state_def get_state_def defaulted_def sched_ok_def case_prod_beta)

theorem schedule_breakpoint_roundtrip_witness:
  "set_state (get_state sample_schedule) = Inr sample_schedule"
  using schedule_breakpoint_roundtrip [OF sample_schedule_eq(3)] .

section \<open>Order\<close>

text \<open>
  commands that are due at the same tick are executed in the order of their insertion, not
  of their execution times: the report lists them by time, the tick returns them as inserted.
\<close>

theorem tick_order_is_insertion_order:
  assumes "t2 < t1" "t1 \<le> now"
  shows "fst (tick now (snd (insert_command t2 q (snd (insert_command t1 p new_scheduler))))) = [p, q] \<and>
    map lc_exec_time (list_commands (snd (insert_command t2 q (snd (insert_command t1 p new_scheduler)))))
      = [t2, t1]"
  using assms by (simp add: tick_def insert_command_def new_scheduler_def list_commands_def Let_def)

theorem tick_order_is_insertion_order_witness:
  "fst (tick 30 (snd (insert_command 10 [2] (snd (insert_command 20 [1] new_scheduler))))) = [[1], [2]]"
  using tick_order_is_insertion_order [of 10 20 30 "[2]" "[1]"] by simp

end
