(* ===== verification/Tm_Storage.thy ===== *)
theory Tm_Storage
  imports Text_Codecs Complex_Main "HOL-Library.AList"
begin

text \<open>
  The on-board packet stores of \<open>smo_simulator/tm_storage.py\<close>. The nine dictionaries of the class have the same keys (the constructor sets all of
  them per store, nothing adds or removes one), so a store is one record under its identifier.
  Time stamps are rationals.
\<close>

section \<open>Stores\<close>

record tm_store =
  st_packets :: "bytes list"
  st_capacity :: nat
  st_enabled :: bool
  st_name :: string
  st_overflow :: bool
  st_circular :: bool
  st_oldest_ts :: rat
  st_newest_ts :: rat
  st_wrap_count :: nat

type_synonym tm_storage = "(int \<times> tm_store) list"

text \<open>The dictionary of one store's definition; a missing key is \<open>None\<close>.\<close>

record store_def =
  df_name :: "string option"
  df_capacity :: "nat option"
  df_circular :: "bool option"

definition CIRCULAR_STORES :: "int list" where "CIRCULAR_STORES = [1]"

definition DEFAULT_STORES :: "(int \<times> store_def) list" where
  "DEFAULT_STORES =
    [(1, \<lparr>df_name = Some ''HK_Store'', df_capacity = Some 18000, df_circular = Some True\<rparr>),
     (2, \<lparr>df_name = Some ''Event_Store'', df_capacity = Some 2000, df_circular = Some False\<rparr>),
     (3, \<lparr>df_name = Some ''Science_Store'', df_capacity = Some 10000, df_circular = Some False\<rparr>),
     (4, \<lparr>df_name = Some ''Alarm_Store'', df_capacity = Some 500, df_circular = Some False\<rparr>)]"

definition SERVICE_TO_STORE :: "int \<rightharpoonup> int" where
  "SERVICE_TO_STORE = map_of [(3, 1), (5, 2)]"

definition make_store :: "int \<Rightarrow> store_def \<Rightarrow> tm_store" where
  "make_store store_id info =
     \<lparr>st_packets = [], st_capacity = (case df_capacity info of Some c \<Rightarrow> c | None \<Rightarrow> 5000),
      st_enabled = True,
      st_name = (case df_name info of Some n \<Rightarrow> n | None \<Rightarrow> ''Store_'' @ str_int store_id),
      st_overflow = False,
      st_circular = (case df_circular info of Some b \<Rightarrow> b | None \<Rightarrow> store_id \<in> set CIRCULAR_STORES),
      st_oldest_ts = 0, st_newest_ts = 0, st_wrap_count = 0\<rparr>"

definition make_storage :: "(int \<times> store_def) list option \<Rightarrow> tm_storage" where
  "make_storage store_defs =
     (let defs = (case store_defs of Some ds \<Rightarrow> if ds = [] then DEFAULT_STORES else ds
                  | None \<Rightarrow> DEFAULT_STORES)
      in map (\<lambda>(k, info). (k, make_store k info)) defs)"

text \<open>One store's part of \<open>store_packet_direct\<close>; \<open>store.pop(0)\<close> raises on an empty list.\<close>

definition put_packet :: "bytes \<Rightarrow> rat \<Rightarrow> tm_store \<Rightarrow> (bool \<times> tm_store) result" where
  "put_packet pkt timestamp st =
     (let full = st_capacity st \<le> length (st_packets st) in
      if full \<and> \<not> st_circular st then Inr (False, st\<lparr>st_overflow := True\<rparr>)
      else if full \<and> st_packets st = [] then Inl IndexError
      else
        let st1 = (if full then st\<lparr>st_packets := tl (st_packets st), st_overflow := True,
                                   st_wrap_count := st_wrap_count st + 1\<rparr> else st);
            st2 = st1\<lparr>st_packets := st_packets st1 @ [pkt]\<rparr>;
            st3 = (if 0 < timestamp
                   then (if length (st_packets st2) = 1 then st2\<lparr>st_oldest_ts := timestamp\<rparr> else st2)
                        \<lparr>st_newest_ts := timestamp\<rparr>
                   else st2)
        in Inr (True, st3))"

definition store_packet_direct :: "int \<Rightarrow> bytes \<Rightarrow> rat \<Rightarrow> tm_storage \<Rightarrow> (bool \<times> tm_storage) result" where
  "store_packet_direct store_id pkt timestamp s =
     (case map_of s store_id of
        None \<Rightarrow> Inr (False, s)
      | Some st \<Rightarrow>
          if \<not> st_enabled st then Inr (False, s)
          else bind_result (put_packet pkt timestamp st) (\<lambda>(ok, st').
            Inr (ok, AList.update store_id st' s)))"

definition store_packet :: "int \<Rightarrow> bytes \<Rightarrow> rat \<Rightarrow> tm_storage \<Rightarrow> (bool \<times> tm_storage) result" where
  "store_packet service_type pkt timestamp s =
     (let store_id = (case SERVICE_TO_STORE service_type of Some i \<Rightarrow> i | None \<Rightarrow> 3)
      in store_packet_direct store_id pkt timestamp s)"

definition store_alarm :: "bytes \<Rightarrow> rat \<Rightarrow> tm_storage \<Rightarrow> (bool \<times> tm_storage) result" where
  "store_alarm pkt timestamp s = store_packet_direct 4 pkt timestamp s"

definition start_dump :: "int \<Rightarrow> tm_storage \<Rightarrow> bytes list" where
  "start_dump store_id s = (case map_of s store_id of None \<Rightarrow> [] | Some st \<Rightarrow> st_packets st)"

definition change_store :: "int \<Rightarrow> (tm_store \<Rightarrow> tm_store) \<Rightarrow> tm_storage \<Rightarrow> tm_storage" where
  "change_store store_id f s =
     (case map_of s store_id of None \<Rightarrow> s | Some st \<Rightarrow> AList.update store_id (f st) s)"

definition enable_store :: "int \<Rightarrow> tm_storage \<Rightarrow> tm_storage" where
  "enable_store store_id s = change_store store_id (\<lambda>st. st\<lparr>st_enabled := True\<rparr>) s"

definition disable_store :: "int \<Rightarrow> tm_storage \<Rightarrow> tm_storage" where
  "disable_store store_id s = change_store store_id (\<lambda>st. st\<lparr>st_enabled := False\<rparr>) s"

definition delete_store :: "int \<Rightarrow> tm_storage \<Rightarrow> tm_storage" where
  "delete_store store_id s = change_store store_id
     (\<lambda>st. st\<lparr>st_packets := [], st_overflow := False, st_oldest_ts := 0, st_newest_ts := 0\<rparr>) s"

definition is_overflow :: "int \<Rightarrow> tm_storage \<Rightarrow> bool" where
  "is_overflow store_id s = (case map_of s store_id of None \<Rightarrow> False | Some st \<Rightarrow> st_overflow st)"

section \<open>Breakpoints\<close>

text \<open>
  The saved dictionaries, by integer key: the code writes a key as decimal text and reads it back
  with \<open>int\<close>. \<open>None\<close> is a missing dictionary.
\<close>

record saved_storage =
  sg_stores :: "(int \<times> string list) list"
  sg_enabled :: "(int \<times> bool) list"
  sg_overflow :: "(int \<times> bool) list"
  sg_oldest_ts :: "(int \<times> rat) list"
  sg_newest_ts :: "(int \<times> rat) list"
  sg_wrap_count :: "(int \<times> nat) list"

definition storage_state :: "tm_storage \<Rightarrow> saved_storage" where
  "storage_state s = \<lparr>sg_stores = map (\<lambda>(k, st). (k, map b64encode (st_packets st))) s,
     sg_enabled = map (\<lambda>(k, st). (k, st_enabled st)) s,
     sg_overflow = map (\<lambda>(k, st). (k, st_overflow st)) s,
     sg_oldest_ts = map (\<lambda>(k, st). (k, st_oldest_ts st)) s,
     sg_newest_ts = map (\<lambda>(k, st). (k, st_newest_ts st)) s,
     sg_wrap_count = map (\<lambda>(k, st). (k, st_wrap_count st)) s\<rparr>"

fun decode_all :: "string list \<Rightarrow> bytes list result" where
  "decode_all [] = Inr []"
| "decode_all (p # ps) =
     bind_result (b64decode p) (\<lambda>b. bind_result (decode_all ps) (\<lambda>bs. Inr (b # bs)))"

fun restore_stores :: "(int \<times> string list) list \<Rightarrow> tm_storage \<Rightarrow> tm_storage result" where
  "restore_stores [] s = Inr s"
| "restore_stores ((sid, pkts) # rest) s =
     (if map_of s sid = None then restore_stores rest s
      else bind_result (decode_all pkts) (\<lambda>bs.
        restore_stores rest (change_store sid (\<lambda>st. st\<lparr>st_packets := bs\<rparr>) s)))"

text \<open>One pass of the attribute loop: keys that no store has are ignored.\<close>

definition restore_attr ::
  "('v \<Rightarrow> tm_store \<Rightarrow> tm_store) \<Rightarrow> (int \<times> 'v) list \<Rightarrow> tm_storage \<Rightarrow> tm_storage" where
  "restore_attr set_attr kvs s = foldl (\<lambda>s (k, v). change_store k (set_attr v) s) s kvs"

definition set_storage_state :: "saved_storage option \<Rightarrow> tm_storage \<Rightarrow> tm_storage result" where
  "set_storage_state state s =
     (case state of None \<Rightarrow> Inr s
      | Some sg \<Rightarrow> bind_result (restore_stores (sg_stores sg) s) (\<lambda>s1.
          Inr (restore_attr (\<lambda>v st. st\<lparr>st_wrap_count := v\<rparr>) (sg_wrap_count sg)
              (restore_attr (\<lambda>v st. st\<lparr>st_newest_ts := v\<rparr>) (sg_newest_ts sg)
              (restore_attr (\<lambda>v st. st\<lparr>st_oldest_ts := v\<rparr>) (sg_oldest_ts sg)
              (restore_attr (\<lambda>v st. st\<lparr>st_overflow := v\<rparr>) (sg_overflow sg)
              (restore_attr (\<lambda>v st. st\<lparr>st_enabled := v\<rparr>) (sg_enabled sg) s1)))))))"

section \<open>What a store holds\<close>

text \<open>Packets with time stamps, stored one after the other, with the answer of each call.\<close>

fun store_stream :: "int \<Rightarrow> (bytes \<times> rat) list \<Rightarrow> tm_storage \<Rightarrow> (bool list \<times> tm_storage) result" where
  "store_stream k [] s = Inr ([], s)"
| "store_stream k ((pkt, t) # xs) s =
     bind_result (store_packet_direct k pkt t s) (\<lambda>(ok, s').
     bind_result (store_stream k xs s') (\<lambda>(oks, s''). Inr (ok # oks, s'')))"

text \<open>A store as a bounded buffer: what \<open>put_packet\<close> leaves of it.\<close>

definition put_or_keep :: "bytes \<times> rat \<Rightarrow> tm_store \<Rightarrow> tm_store" where
  "put_or_keep x st = (case put_packet (fst x) (snd x) st of Inr (ok, st') \<Rightarrow> st' | Inl e \<Rightarrow> st)"

definition circular_store :: "nat \<Rightarrow> tm_store \<Rightarrow> bool" where
  "circular_store cap st \<longleftrightarrow> st_enabled st \<and> st_circular st \<and> st_capacity st = cap \<and> 0 < cap \<and>
     length (st_packets st) \<le> cap"

lemma put_circular:
  assumes "circular_store cap st"
  shows "put_packet (fst x) (snd x) st = Inr (True, put_or_keep x st)"
    "circular_store cap (put_or_keep x st)"
    "st_packets (put_or_keep x st) = newest cap (st_packets st @ [fst x])"
    "st_wrap_count (put_or_keep x st) = st_wrap_count st + (if length (st_packets st) = cap then 1 else 0)"
    "st_overflow (put_or_keep x st) = (st_overflow st \<or> length (st_packets st) = cap)"
proof -
  have "put_packet (fst x) (snd x) st = Inr (True, put_or_keep x st) \<and>
    circular_store cap (put_or_keep x st) \<and>
    st_packets (put_or_keep x st) = newest cap (st_packets st @ [fst x]) \<and>
    st_wrap_count (put_or_keep x st) = st_wrap_count st + (if length (st_packets st) = cap then 1 else 0) \<and>
    st_overflow (put_or_keep x st) = (st_overflow st \<or> length (st_packets st) = cap)"
  proof (cases "length (st_packets st) = cap")
    case True
    then have "st_packets st \<noteq> []" using assms by (auto simp: circular_store_def)
    then show ?thesis using assms True
      by (auto simp: put_or_keep_def put_packet_def circular_store_def Let_def newest_def drop_Suc)
  next
    case False
    then have "length (st_packets st) < cap" using assms by (simp add: circular_store_def)
    then show ?thesis using assms
      by (auto simp: put_or_keep_def put_packet_def circular_store_def Let_def)
  qed
  then show "put_packet (fst x) (snd x) st = Inr (True, put_or_keep x st)"
    "circular_store cap (put_or_keep x st)"
    "st_packets (put_or_keep x st) = newest cap (st_packets st @ [fst x])"
    "st_wrap_count (put_or_keep x st) = st_wrap_count st + (if length (st_packets st) = cap then 1 else 0)"
    "st_overflow (put_or_keep x st) = (st_overflow st \<or> length (st_packets st) = cap)"
    by blast+
qed

lemma circular_store_bound: "circular_store cap st \<Longrightarrow> length (st_packets st) \<le> cap"
  by (simp add: circular_store_def)

interpretation hk: counted_ring st_packets fst put_or_keep "circular_store cap" cap st_wrap_count st_overflow
  for cap
  by unfold_locales (use put_circular in \<open>auto simp: circular_store_bound\<close>)

text \<open>A stop-when-full store, with the packets offered to it so far.\<close>

definition linear_store :: "nat \<Rightarrow> bytes list \<Rightarrow> tm_store \<Rightarrow> bool" where
  "linear_store cap offered st \<longleftrightarrow> st_enabled st \<and> \<not> st_circular st \<and> st_capacity st = cap \<and>
     st_packets st = take cap offered \<and> st_overflow st = (cap < length offered)"

lemma put_linear:
  assumes "linear_store cap offered st"
  shows "put_packet (fst x) (snd x) st = Inr (length offered < cap, put_or_keep x st)"
    "linear_store cap (offered @ [fst x]) (put_or_keep x st)"
  using assms by (auto simp: linear_store_def put_or_keep_def put_packet_def Let_def)

lemma linear_fold:
  "linear_store cap offered st \<Longrightarrow>
   linear_store cap (offered @ map fst xs) (foldl (\<lambda>st x. put_or_keep x st) st xs)"
proof (induction xs arbitrary: offered st)
  case (Cons x xs)
  then show ?case using Cons.IH [OF put_linear(2) [OF Cons.prems, of x]] by simp
qed simp

text \<open>The answers to a stream, when each is determined by the store it meets.\<close>

fun answers :: "(tm_store \<Rightarrow> bool) \<Rightarrow> (bytes \<times> rat) list \<Rightarrow> tm_store \<Rightarrow> bool list" where
  "answers ok [] st = []"
| "answers ok (x # xs) st = ok st # answers ok xs (put_or_keep x st)"

lemma answers_all: "answers (\<lambda>_. True) xs st = replicate (length xs) True"
  by (induction xs arbitrary: st) simp_all

lemma answers_linear:
  "linear_store cap offered st \<Longrightarrow> answers (\<lambda>st. length (st_packets st) < cap) xs st =
     replicate (min (length xs) (cap - length offered)) True @
     replicate (length xs - (cap - length offered)) False"
proof (induction xs arbitrary: offered st)
  case (Cons x xs)
  have now: "(length (st_packets st) < cap) = (0 < cap - length offered)"
    using Cons.prems by (auto simp: linear_store_def)
  have "cap - length (offered @ [fst x]) = cap - length offered - 1" by simp
  note later = Cons.IH [OF put_linear(2) [OF Cons.prems, of x], unfolded this]
  show ?case
    unfolding answers.simps later now by (cases "cap - length offered") simp_all
qed simp

text \<open>A stream into one store, for any property of the store that each packet keeps.\<close>

lemma store_step:
  assumes "map_of s k = Some st" "st_enabled st" "put_packet (fst x) (snd x) st = Inr (ok, st')"
  shows "store_packet_direct k (fst x) (snd x) s = Inr (ok, AList.update k st' s)"
  using assms by (simp add: store_packet_direct_def)

lemma store_stream_fold:
  assumes step: "\<And>st x. I st \<Longrightarrow> st_enabled st \<and> I (put_or_keep x st) \<and>
      put_packet (fst x) (snd x) st = Inr (ok st, put_or_keep x st)"
  shows "map_of s k = Some st \<Longrightarrow> I st \<Longrightarrow>
    \<exists>s'. store_stream k xs s = Inr (answers ok xs st, s') \<and>
      map_of s' k = Some (foldl (\<lambda>st x. put_or_keep x st) st xs) \<and>
      (\<forall>k'. k' \<noteq> k \<longrightarrow> map_of s' k' = map_of s k')"
proof (induction xs arbitrary: s st)
  case (Cons x xs)
  have "store_packet_direct k (fst x) (snd x) s = Inr (ok st, AList.update k (put_or_keep x st) s)"
    using step [OF Cons.prems(2)] store_step [OF Cons.prems(1)] by blast
  moreover have "map_of (AList.update k (put_or_keep x st) s) = (map_of s)(k \<mapsto> put_or_keep x st)"
    by (rule update_conv')
  ultimately show ?case
    using Cons.IH [of "AList.update k (put_or_keep x st) s" "put_or_keep x st"] step [OF Cons.prems(2)]
    by (cases x) auto
qed simp

text \<open>
  C40: A circular store of positive capacity, enabled and empty, answers \<open>True\<close> to every packet of a stream
  and afterwards holds the newest packets, as many as fit, in order; it reports an overflow iff more than its
  capacity was stored, and counts every overwritten packet. Other stores are untouched.
\<close>

theorem circular_store_keeps_newest:
  assumes "map_of s k = Some st" "circular_store cap st"
    and "st_packets st = []" "\<not> st_overflow st" "st_wrap_count st = 0"
  shows "\<exists>s' st'. store_stream k xs s = Inr (replicate (length xs) True, s') \<and> map_of s' k = Some st' \<and>
    start_dump k s' = newest cap (map fst xs) \<and> is_overflow k s' = (cap < length xs) \<and>
    st_wrap_count st' = length xs - cap \<and> (\<forall>k'. k' \<noteq> k \<longrightarrow> map_of s' k' = map_of s k')"
proof -
  have "st_enabled st \<and> circular_store cap (put_or_keep x st) \<and>
      put_packet (fst x) (snd x) st = Inr (True, put_or_keep x st)" if "circular_store cap st" for st x
    using that put_circular(1,2) [OF that, of x] unfolding circular_store_def by blast
  then obtain s' where "store_stream k xs s = Inr (replicate (length xs) True, s')"
    "map_of s' k = Some (hk.push_all xs st)" "\<forall>k'. k' \<noteq> k \<longrightarrow> map_of s' k' = map_of s k'"
    using store_stream_fold [of "circular_store cap" "\<lambda>_. True" s k st xs] assms(1,2)
    unfolding hk.push_all_def answers_all by blast
  then show ?thesis
    using hk.contents_all [OF assms(2), of xs] hk.dropped_all [OF assms(2), of xs]
      hk.lost_all [OF assms(2), of xs] assms(3-5)
    by (auto simp: start_dump_def is_overflow_def)
qed

text \<open>
  A stop-when-full store, enabled and empty, keeps the first packets offered, as many as fit, and answers
  \<open>True\<close> to these and \<open>False\<close> to the others; it reports an overflow iff a packet was refused. Other stores
  are untouched.
\<close>

theorem linear_store_keeps_first:
  assumes "map_of s k = Some st" "linear_store cap [] st"
  shows "\<exists>s'. store_stream k xs s =
      Inr (replicate (min (length xs) cap) True @ replicate (length xs - cap) False, s') \<and>
    start_dump k s' = take cap (map fst xs) \<and>
    is_overflow k s' = (cap < length xs) \<and> (\<forall>k'. k' \<noteq> k \<longrightarrow> map_of s' k' = map_of s k')"
proof -
  let ?ok = "\<lambda>st. length (st_packets st) < cap"
  have "st_enabled st \<and> (\<exists>offered. linear_store cap offered (put_or_keep x st)) \<and>
      put_packet (fst x) (snd x) st = Inr (?ok st, put_or_keep x st)"
    if ex: "\<exists>offered. linear_store cap offered st" for st x
  proof -
    obtain offered where l: "linear_store cap offered st" using ex by blast
    then have "(length offered < cap) = ?ok st" "st_enabled st" by (auto simp: linear_store_def)
    then show ?thesis using put_linear [OF l, of x] by auto
  qed
  then obtain s' where s': "store_stream k xs s = Inr (answers ?ok xs st, s')"
    "map_of s' k = Some (foldl (\<lambda>st x. put_or_keep x st) st xs)"
    "\<forall>k'. k' \<noteq> k \<longrightarrow> map_of s' k' = map_of s k'"
    using store_stream_fold [of "\<lambda>st. \<exists>offered. linear_store cap offered st" ?ok s k st xs] assms by blast
  then show ?thesis
    using linear_fold [OF assms(2), of xs] answers_linear [OF assms(2), of xs]
    by (auto simp: linear_store_def start_dump_def is_overflow_def)
qed

definition small_storage :: tm_storage where
  "small_storage = make_storage (Some
     [(1, \<lparr>df_name = None, df_capacity = Some 2, df_circular = None\<rparr>),
      (2, \<lparr>df_name = None, df_capacity = Some 2, df_circular = None\<rparr>)])"

lemma small_storage_eq:
  "\<exists>st. map_of small_storage 1 = Some st \<and> circular_store 2 st \<and> st_packets st = [] \<and>
     \<not> st_overflow st \<and> st_wrap_count st = 0"
  "\<exists>st. map_of small_storage 2 = Some st \<and> linear_store 2 [] st"
  by (simp_all add: small_storage_def make_storage_def make_store_def circular_store_def
      linear_store_def CIRCULAR_STORES_def)

theorem circular_store_keeps_newest_witness:
  "\<exists>s'. store_stream 1 [([1], 5), ([2], 6), ([3], 7)] small_storage = Inr ([True, True, True], s') \<and> start_dump 1 s' = [[2], [3]]"
  using small_storage_eq(1) circular_store_keeps_newest [of small_storage 1 _ 2 "[([1], 5), ([2], 6), ([3], 7)]"]
  by (fastforce simp: newest_def numeral_3_eq_3)

theorem linear_store_keeps_first_witness:
  "\<exists>s'. store_stream 2 [([1], 5), ([2], 6), ([3], 7)] small_storage = Inr ([True, True, False], s') \<and> start_dump 2 s' = [[1], [2]]"
  using small_storage_eq(2) linear_store_keeps_first [of small_storage 2 _ 2 "[([1], 5), ([2], 6), ([3], 7)]"]
  by (fastforce simp: numeral_3_eq_3 numeral_2_eq_2)

text \<open>
  the oldest time stamp goes stale. Storing into an empty circular store of capacity at
  least two, with positive time stamps, leaves the first packet's stamp as the oldest for good,
  also after that packet has been overwritten.
\<close>

theorem oldest_timestamp_is_first:
  assumes "map_of s k = Some st" "circular_store cap st" "st_packets st = []" "2 \<le> cap"
    and "\<forall>x \<in> set ((pkt, t) # xs). 0 < snd x"
  shows "\<exists>oks s' st'. store_stream k ((pkt, t) # xs) s = Inr (oks, s') \<and> map_of s' k = Some st' \<and>
    st_oldest_ts st' = t \<and> st_newest_ts st' = snd (last ((pkt, t) # xs))"
proof -
  have stay: "st_oldest_ts (put_or_keep x st) = st_oldest_ts st \<and> st_newest_ts (put_or_keep x st) = snd x"
    if "circular_store cap st" "st_packets st \<noteq> []" "0 < snd x" for st x
    using that assms(4)
    by (cases "st_packets st"; cases "tl (st_packets st)")
      (auto simp: put_or_keep_def put_packet_def circular_store_def Let_def)
  have keep: "st_oldest_ts (foldl (\<lambda>st x. put_or_keep x st) st xs) = st_oldest_ts st \<and>
      st_newest_ts (foldl (\<lambda>st x. put_or_keep x st) st xs) = (if xs = [] then st_newest_ts st else snd (last xs))"
    if "circular_store cap st" "st_packets st \<noteq> []" "\<forall>x \<in> set xs. 0 < snd x" for st xs
    using that
  proof (induction xs arbitrary: st)
    case (Cons x xs)
    have "circular_store cap (put_or_keep x st)" using put_circular(2) [OF Cons.prems(1)] .
    moreover have "st_packets (put_or_keep x st) \<noteq> []"
      using put_circular(3) [OF Cons.prems(1), of x] assms(4) by (simp add: newest_def)
    ultimately show ?case using Cons.IH stay [OF Cons.prems(1,2)] Cons.prems(3) by simp
  qed simp
  have "st_enabled st \<and> circular_store cap (put_or_keep x st) \<and>
      put_packet (fst x) (snd x) st = Inr (True, put_or_keep x st)" if "circular_store cap st" for st x
    using that put_circular(1,2) [OF that, of x] unfolding circular_store_def by blast
  then obtain oks s' where s': "store_stream k ((pkt, t) # xs) s = Inr (oks, s')"
    "map_of s' k = Some (foldl (\<lambda>st x. put_or_keep x st) (put_or_keep (pkt, t) st) xs)"
    using store_stream_fold [of "circular_store cap" "\<lambda>_. True" s k st "(pkt, t) # xs"] assms(1,2) by auto
  have first: "st_oldest_ts (put_or_keep (pkt, t) st) = t \<and> st_newest_ts (put_or_keep (pkt, t) st) = t"
    using assms(2-5) by (simp add: put_or_keep_def put_packet_def circular_store_def Let_def)
  have "st_packets (put_or_keep (pkt, t) st) \<noteq> []"
    using put_circular(3) [OF assms(2), of "(pkt, t)"] assms(4) by (simp add: newest_def)
  then show ?thesis
    using keep [OF put_circular(2) [OF assms(2)], of "(pkt, t)" xs] s' first assms(5) by simp
qed

theorem oldest_timestamp_is_first_witness:
  "\<exists>oks s' st'. store_stream 1 [([1], 5), ([2], 6), ([3], 7)] small_storage = Inr (oks, s') \<and>
     map_of s' 1 = Some st' \<and> st_oldest_ts st' = 5"
  using small_storage_eq(1) oldest_timestamp_is_first [of small_storage 1 _ 2 "[1]" 5 "[([2], 6), ([3], 7)]"]
  by fastforce

section \<open>Breakpoint round trip\<close>

lemma decode_all_encoded: "decode_all (map b64encode pkts) = Inr pkts"
  by (induction pkts) (simp_all add: b64decode_encode)

lemma change_store_map: "map_of (change_store k f s) = (map_of s)(k := map_option f (map_of s k))"
  by (auto simp: change_store_def update_conv' fun_eq_iff split: option.splits)

lemma change_store_keys [simp]: "map fst (change_store k f s) = map fst s"
proof (cases "map_of s k")
  case None
  then show ?thesis by (simp add: change_store_def)
next
  case (Some st)
  then have "k \<in> set (map fst s)" by (metis domI dom_map_of_conv_image_fst set_map)
  then show ?thesis using Some by (simp add: change_store_def update_keys)
qed

lemma restore_attr_keys [simp]: "map fst (restore_attr f kvs s) = map fst s"
  by (induction kvs arbitrary: s) (auto simp: restore_attr_def)

lemma restore_attr_map:
  "distinct (map fst kvs) \<Longrightarrow> map_of (restore_attr f kvs s) k
     = (case map_of kvs k of None \<Rightarrow> map_of s k | Some v \<Rightarrow> map_option (f v) (map_of s k))"
proof (induction kvs arbitrary: s)
  case (Cons kv kvs)
  obtain i v where kv: "kv = (i, v)" by (cases kv)
  have "map_of kvs i = None" using Cons.prems kv by (simp add: map_of_eq_None_iff)
  moreover have "restore_attr f (kv # kvs) s = restore_attr f kvs (change_store i (f v) s)"
    by (simp add: restore_attr_def kv)
  ultimately show ?case
    using Cons.IH [of "change_store i (f v) s"] Cons.prems kv
    by (auto simp: change_store_map split: option.splits)
qed (simp add: restore_attr_def)

lemma map_of_values: "map_of (map (\<lambda>(k, st). (k, f st)) s) k = map_option f (map_of s k)"
  by (induction s) auto

lemma restore_attr_values:
  assumes "distinct (map fst s')"
  shows "map_of (restore_attr f (map (\<lambda>(k, st). (k, g st)) s') s) k
    = (case map_of s' k of None \<Rightarrow> map_of s k | Some st \<Rightarrow> map_option (f (g st)) (map_of s k))"
proof -
  have "distinct (map fst (map (\<lambda>(k, st). (k, g st)) s'))"
    using assms by (simp add: comp_def case_prod_beta)
  from restore_attr_map [OF this] show ?thesis
    by (simp add: map_of_values split: option.split)
qed

lemma restore_stores_map:
  "distinct (map fst sg) \<Longrightarrow> \<exists>s'. restore_stores (map (\<lambda>(k, ps). (k, map b64encode ps)) sg) s = Inr s' \<and>
     map fst s' = map fst s \<and> (\<forall>k. map_of s' k = (case map_of sg k of None \<Rightarrow> map_of s k
       | Some ps \<Rightarrow> map_option (\<lambda>st. st\<lparr>st_packets := ps\<rparr>) (map_of s k)))"
proof (induction sg arbitrary: s)
  case (Cons kp sg)
  obtain i ps where kp: "kp = (i, ps)" by (cases kp)
  have n: "map_of sg i = None" using Cons.prems kp by (simp add: map_of_eq_None_iff)
  show ?case
  proof (cases "map_of s i")
    case None
    then show ?thesis using Cons.IH [of s] Cons.prems kp n by (fastforce split: option.splits)
  next
    case (Some st)
    let ?s = "change_store i (\<lambda>st. st\<lparr>st_packets := ps\<rparr>) s"
    obtain s' where s': "restore_stores (map (\<lambda>(k, ps). (k, map b64encode ps)) sg) ?s = Inr s'"
      "map fst s' = map fst ?s"
      "\<And>k. map_of s' k = (case map_of sg k of None \<Rightarrow> map_of ?s k
         | Some ps \<Rightarrow> map_option (\<lambda>st. st\<lparr>st_packets := ps\<rparr>) (map_of ?s k))"
      using Cons.IH [of ?s] Cons.prems by auto
    have "map_of s' k = (case map_of (kp # sg) k of None \<Rightarrow> map_of s k
       | Some ps \<Rightarrow> map_option (\<lambda>st. st\<lparr>st_packets := ps\<rparr>) (map_of s k))" for k
      unfolding s'(3) [of k] change_store_map kp
      by (cases "k = i"; cases "map_of sg k") (simp_all add: n [unfolded map_of_eq_None_iff] n)
    then show ?thesis using s'(1,2) Some kp
      by (intro exI [of _ s']) (simp add: decode_all_encoded)
  qed
qed simp

lemma alist_eqI:
  "map fst xs = map fst ys \<Longrightarrow> distinct (map fst xs) \<Longrightarrow> map_of xs = map_of ys \<Longrightarrow> xs = ys"
proof (induction xs arbitrary: ys)
  case (Cons x xs)
  then obtain y zs where y: "ys = y # zs" "fst x = fst y" by (cases ys) auto
  have "snd x = snd y" using fun_cong [OF Cons.prems(3), of "fst x"] y by simp
  then have "x = y" using y by (simp add: prod_eqI)
  moreover have "map_of xs = map_of zs"
  proof
    fix k
    have "map_of (x # xs) k = map_of (y # zs) k" using fun_cong [OF Cons.prems(3), of k] y by simp
    moreover have "fst x \<notin> set (map fst xs)" "fst x \<notin> set (map fst zs)"
      using Cons.prems(1,2) y by (simp_all del: set_map)
    then have "map_of xs (fst x) = None" "map_of zs (fst x) = None"
      by (simp_all add: map_of_eq_None_iff)
    ultimately show "map_of xs k = map_of zs k"
      using \<open>x = y\<close> by (cases "k = fst x") (auto split: if_splits)
  qed
  ultimately show ?case using Cons y by auto
qed simp

text \<open>The static configuration of a store, which a snapshot does not carry.\<close>

definition static_part :: "tm_store \<Rightarrow> nat \<times> string \<times> bool" where
  "static_part st = (st_capacity st, st_name st, st_circular st)"

text \<open>
  a snapshot of the stores restores them exactly, packets and flags, on any storage built
  from the same definitions, whatever that storage held.
\<close>

theorem storage_breakpoint_roundtrip:
  assumes "distinct (map fst s)"
    and "map (\<lambda>(k, st). (k, static_part st)) s0 = map (\<lambda>(k, st). (k, static_part st)) s"
  shows "set_storage_state (Some (storage_state s)) s0 = Inr s"
proof -
  have "map fst (map (\<lambda>(k, st). (k, static_part st)) s0) = map fst (map (\<lambda>(k, st). (k, static_part st)) s)"
    using assms(2) by simp
  then have keys: "map fst s0 = map fst s" by (simp add: comp_def case_prod_beta)
  have static: "map_option static_part (map_of s0 k) = map_option static_part (map_of s k)" for k
    using arg_cong [OF assms(2), of "\<lambda>xs. map_of xs k"] by (simp only: map_of_values)
  have d: "distinct (map fst (map (\<lambda>(k, st). (k, f st)) s))" for f :: "tm_store \<Rightarrow> 'v"
    using assms(1) by (simp add: comp_def case_prod_beta)
  let ?sg = "map (\<lambda>(k, st). (k, st_packets st)) s"
  have pk: "map (\<lambda>(k, ps). (k, map b64encode ps)) ?sg = sg_stores (storage_state s)"
    by (simp add: storage_state_def comp_def case_prod_beta)
  obtain s1 where s1: "restore_stores (sg_stores (storage_state s)) s0 = Inr s1" "map fst s1 = map fst s0"
    "\<And>k. map_of s1 k = (case map_of ?sg k of None \<Rightarrow> map_of s0 k
       | Some ps \<Rightarrow> map_option (\<lambda>st. st\<lparr>st_packets := ps\<rparr>) (map_of s0 k))"
    using restore_stores_map [OF d, of st_packets s0] unfolding pk by blast
  let ?r = "restore_attr (\<lambda>v st. st\<lparr>st_wrap_count := v\<rparr>) (sg_wrap_count (storage_state s))
      (restore_attr (\<lambda>v st. st\<lparr>st_newest_ts := v\<rparr>) (sg_newest_ts (storage_state s))
      (restore_attr (\<lambda>v st. st\<lparr>st_oldest_ts := v\<rparr>) (sg_oldest_ts (storage_state s))
      (restore_attr (\<lambda>v st. st\<lparr>st_overflow := v\<rparr>) (sg_overflow (storage_state s))
      (restore_attr (\<lambda>v st. st\<lparr>st_enabled := v\<rparr>) (sg_enabled (storage_state s)) s1))))"
  have "map_of ?r k = map_of s k" for k
  proof (cases "map_of s k")
    case None
    then have "map_of s0 k = None" using static [of k] by simp
    then have "map_of s1 k = None" using s1(3) [of k] by (simp split: option.splits)
    then show ?thesis unfolding storage_state_def saved_storage.simps restore_attr_values [OF assms(1)] None
      by simp
  next
    case (Some st)
    then obtain st0 where st0: "map_of s0 k = Some st0" "static_part st0 = static_part st"
      using static [of k] by (cases "map_of s0 k") auto
    have "map_of s1 k = Some (st0\<lparr>st_packets := st_packets st\<rparr>)"
      unfolding s1(3) map_of_values Some st0(1) by simp
    then show ?thesis
      unfolding storage_state_def saved_storage.simps restore_attr_values [OF assms(1)] Some
      using st0(2) by (simp add: static_part_def)
  qed
  then have "?r = s"
    using keys s1(2) assms(1) by (intro alist_eqI) auto
  then show ?thesis using s1(1) by (simp add: set_storage_state_def)
qed

theorem storage_breakpoint_roundtrip_witness:
  "set_storage_state (Some (storage_state small_storage)) (enable_store 1 (disable_store 1 small_storage))
     = Inr small_storage"
  by (rule storage_breakpoint_roundtrip)
    (simp_all add: small_storage_def make_storage_def enable_store_def disable_store_def change_store_def
      static_part_def)

end
