(* ===== verification/Py_Float.thy ===== *)
theory Py_Float
  imports Prelude "HOL-Library.Log_Nat" Complex_Main
begin

text \<open>
  Python floats (IEEE 754 binary64) as the code uses them: the fields \<open>'>f'\<close> of \<open>struct\<close>
  (binary32), comparison, and the few arithmetic operations on commanded and monitored values,
  rounded to nearest, ties to even. A finite float is its sign and its magnitude, an exact
  rational; the payload of a NaN is not distinguished. The main result is that packing inverts
  unpacking on every field that is not a NaN.
\<close>

section \<open>Values\<close>

datatype py_float = Fin bool rat | Infinite bool | NaN

definition fin_val :: "bool \<Rightarrow> rat \<Rightarrow> rat" where
  "fin_val neg m = (if neg then - m else m)"

text \<open>The comparison \<open>x < y\<close>: false when an operand is NaN; the zeros are equal.\<close>

fun fless :: "py_float \<Rightarrow> py_float \<Rightarrow> bool" where
  "fless (Fin s m) (Fin t n) = (fin_val s m < fin_val t n)"
| "fless (Fin s m) (Infinite neg) = (\<not> neg)"
| "fless (Infinite neg) (Fin t n) = neg"
| "fless (Infinite a) (Infinite b) = (a \<and> \<not> b)"
| "fless _ _ = False"

definition fle :: "py_float \<Rightarrow> py_float \<Rightarrow> bool" where
  "fle x y \<longleftrightarrow> x \<noteq> NaN \<and> y \<noteq> NaN \<and> \<not> fless y x"

text \<open>\<open>max(a, b)\<close> keeps \<open>a\<close> unless \<open>b > a\<close>; \<open>bool(x)\<close> is false for the zeros only.\<close>

definition fmax :: "py_float \<Rightarrow> py_float \<Rightarrow> py_float" where
  "fmax a b = (if fless a b then b else a)"

definition fbool :: "py_float \<Rightarrow> bool" where
  "fbool x = (case x of Fin s m \<Rightarrow> m \<noteq> 0 | _ \<Rightarrow> True)"

section \<open>Rounding\<close>

text \<open>\<open>2 ^ e\<close> for an integer exponent.\<close>

definition pow2 :: "int \<Rightarrow> rat" where
  "pow2 e = (if 0 \<le> e then 2 ^ nat e else 1 / 2 ^ nat (- e))"

text \<open>The exponent \<open>e\<close> with \<open>2 ^ e \<le> m < 2 ^ (e + 1)\<close> of a positive rational.\<close>

definition ilog2 :: "rat \<Rightarrow> int" where
  "ilog2 m = (case quotient_of m of (p, q) \<Rightarrow>
     let k = bitlen p - bitlen q in if pow2 k \<le> m then k else k - 1)"

definition round_even :: "rat \<Rightarrow> int" where
  "round_even x =
     (let f = \<lfloor>x\<rfloor>; d = x - of_int f
      in if d < 1 / 2 then f else if 1 / 2 < d then f + 1 else if even f then f else f + 1)"

text \<open>
  A magnitude in a format with \<open>p\<close> bits of precision and least exponent \<open>emin\<close>: its exponent and
  its rounded integer significand, which has \<open>p\<close> bits (or is \<open>2 ^ p\<close>) unless the number is
  subnormal.
\<close>

definition round_mag :: "nat \<Rightarrow> int \<Rightarrow> rat \<Rightarrow> int \<times> int" where
  "round_mag p emin m =
     (if m = 0 then (emin, 0)
      else let e = max (ilog2 m) emin in (e, round_even (m / pow2 (e - int p + 1))))"

text \<open>The result of an operation of binary64 whose exact value is \<open>x\<close>.\<close>

definition round64 :: "bool \<Rightarrow> rat \<Rightarrow> py_float" where
  "round64 neg m =
     (let (e, r) = round_mag 53 (-1022) m; v = of_int r * pow2 (e - 52)
      in if pow2 1024 \<le> v then Infinite neg else Fin neg v)"

definition fl :: "rat \<Rightarrow> py_float" where
  "fl x = round64 (x < 0) \<bar>x\<bar>"

text \<open>Subtraction, addition, multiplication; an exact zero difference is \<open>+0.0\<close>.\<close>

fun fsub :: "py_float \<Rightarrow> py_float \<Rightarrow> py_float" where
  "fsub (Fin s m) (Fin t n) =
     (if m = 0 \<and> n = 0 then Fin (s \<and> \<not> t) 0 else fl (fin_val s m - fin_val t n))"
| "fsub (Fin s m) (Infinite b) = Infinite (\<not> b)"
| "fsub (Infinite a) (Fin t n) = Infinite a"
| "fsub (Infinite a) (Infinite b) = (if a = b then NaN else Infinite a)"
| "fsub _ _ = NaN"

definition fneg :: "py_float \<Rightarrow> py_float" where
  "fneg x = (case x of Fin s m \<Rightarrow> Fin (\<not> s) m | Infinite s \<Rightarrow> Infinite (\<not> s) | NaN \<Rightarrow> NaN)"

definition fadd :: "py_float \<Rightarrow> py_float \<Rightarrow> py_float" where
  "fadd x y = fsub x (fneg y)"

definition fmin :: "py_float \<Rightarrow> py_float \<Rightarrow> py_float" where
  "fmin a b = (if fless b a then b else a)"

fun fmul :: "py_float \<Rightarrow> py_float \<Rightarrow> py_float" where
  "fmul (Fin s m) (Fin t n) = round64 (s \<noteq> t) (m * n)"
| "fmul (Fin s m) (Infinite b) = (if m = 0 then NaN else Infinite (s \<noteq> b))"
| "fmul (Infinite a) (Fin t n) = (if n = 0 then NaN else Infinite (a \<noteq> t))"
| "fmul (Infinite a) (Infinite b) = Infinite (a \<noteq> b)"
| "fmul _ _ = NaN"

definition of_pyint :: "int \<Rightarrow> py_float" where
  "of_pyint k = fl (of_int k)"

section \<open>Binary32 fields\<close>

text \<open>\<open>struct.unpack('>f', b)\<close>: sign, biased exponent and fraction of the 32-bit pattern.\<close>

definition f32_mag :: "int \<Rightarrow> int \<Rightarrow> rat" where
  "f32_mag e f = (if e = 0 then of_int f * pow2 (-149) else of_int (2 ^ 23 + f) * pow2 (e - 150))"

definition f32_value :: "int \<Rightarrow> py_float" where
  "f32_value n =
     (let s = 2 ^ 31 \<le> n; e = n div 2 ^ 23 mod 256; f = n mod 2 ^ 23
      in if e = 255 then (if f = 0 then Infinite s else NaN) else Fin s (f32_mag e f))"

definition unpack_f :: "bytes \<Rightarrow> py_float" where
  "unpack_f bs = f32_value (be_int bs)"

text \<open>
  \<open>struct.pack('>f', x)\<close>: the nearest binary32 number; \<open>OverflowError\<close> when that is out of range.
\<close>

definition f32_bits :: "bool \<Rightarrow> rat \<Rightarrow> int" where
  "f32_bits neg m =
     (let (e, r) = round_mag 24 (-126) m in (if neg then 2 ^ 31 else 0) + (e + 126) * 2 ^ 23 + r)"

definition pack_f :: "py_float \<Rightarrow> bytes result" where
  "pack_f x = (case x of
      Fin neg m \<Rightarrow> (let n = f32_bits neg m
                    in if 255 * 2 ^ 23 \<le> f32_bits False m then Inl OverflowError else Inr (be_bytes 4 n))
    | Infinite neg \<Rightarrow> Inr (be_bytes 4 ((if neg then 2 ^ 31 else 0) + 255 * 2 ^ 23))
    | NaN \<Rightarrow> Inr (be_bytes 4 0x7FC00000))"

section \<open>Packing inverts unpacking\<close>

lemma pow2_pos [simp]: "0 < pow2 e"
  by (simp add: pow2_def)

lemma pow2_powi: "pow2 k = 2 powi k"
  by (simp add: pow2_def power_int_def field_simps)

lemma pow2_add: "pow2 (a + b) = pow2 a * pow2 b"
  unfolding pow2_powi by (simp add: power_int_add)

lemma pow2_nat [simp]: "pow2 (int n) = 2 ^ n"
  by (simp add: pow2_def)

lemma pow2_Suc: "pow2 (e + 1) = 2 * pow2 e"
  by (simp add: pow2_add) (simp add: pow2_def)

lemma pow2_less: "a < b \<Longrightarrow> pow2 a < pow2 b"
  unfolding pow2_powi by (rule power_int_strict_increasing) simp_all

lemma pow2_less_iff: "pow2 a < pow2 b \<longleftrightarrow> a < b"
  using pow2_less [of a b] pow2_less [of b a] by (metis less_irrefl linorder_cases order.strict_trans)

lemma exponent_unique:
  assumes "pow2 a \<le> m" "m < pow2 (a + 1)" "pow2 b \<le> m" "m < pow2 (b + 1)"
  shows "a = b"
proof -
  have "pow2 a < pow2 (b + 1)" "pow2 b < pow2 (a + 1)" using assms by linarith+
  then show ?thesis unfolding pow2_less_iff by linarith
qed

lemma bitlen_pow2:
  assumes "0 < x"
  shows "pow2 (bitlen x - 1) \<le> of_int x" "of_int x < pow2 (bitlen x)"
proof -
  obtain n where n: "bitlen x = int (Suc n)"
    using assms bitlen_nonneg [of x] bitlen_eq_zero_iff [of x] by (metis not_le gr0_implies_Suc nonneg_int_cases of_nat_0_less_iff order_le_imp_less_or_eq)
  then have "nat (bitlen x) = Suc n" "nat (bitlen x - 1) = n" by simp_all
  then have "2 ^ n \<le> x" "x < 2 ^ Suc n" using bitlen_bounds [OF assms] by simp_all
  then have "(of_int (2 ^ n) :: rat) \<le> of_int x" "of_int x < (of_int (2 ^ Suc n) :: rat)"
    by (simp_all only: of_int_le_iff of_int_less_iff)
  then show "pow2 (bitlen x - 1) \<le> of_int x" "of_int x < pow2 (bitlen x)"
    unfolding n pow2_nat by simp_all
qed

lemma ilog2_bounds:
  assumes "0 < m"
  shows "pow2 (ilog2 m) \<le> m" "m < pow2 (ilog2 m + 1)"
proof -
  obtain p q where pq: "quotient_of m = (p, q)" by (cases "quotient_of m")
  have q: "0 < q" using quotient_of_denom_pos [OF pq] .
  have m: "m = of_int p / of_int q" using quotient_of_div [OF pq] .
  have p: "0 < p" using assms q unfolding m by (simp add: zero_less_divide_iff)
  let ?k = "bitlen p - bitlen q"
  have "m < pow2 (bitlen p) / pow2 (bitlen q - 1)"
    unfolding m using bitlen_pow2 [OF p] bitlen_pow2 [OF q] q p
    by (intro frac_less) (simp_all add: less_imp_le)
  also have "\<dots> = pow2 (?k + 1)"
    using pow2_add [of "?k + 1" "bitlen q - 1"] by (simp add: less_imp_neq [symmetric])
  finally have up: "m < pow2 (?k + 1)" .
  have "pow2 (bitlen p - 1) / pow2 (bitlen q) \<le> m"
    unfolding m using bitlen_pow2 [OF p] bitlen_pow2 [OF q] q p
    by (intro frac_le) (simp_all add: less_imp_le)
  moreover have "pow2 (bitlen p - 1) / pow2 (bitlen q) = pow2 (?k - 1)"
    using pow2_add [of "?k - 1" "bitlen q"] by (simp add: less_imp_neq [symmetric])
  ultimately have "pow2 (?k - 1) \<le> m" by simp
  then show "pow2 (ilog2 m) \<le> m" "m < pow2 (ilog2 m + 1)"
    using up by (auto simp: ilog2_def pq Let_def)
qed

lemma round_even_int [simp]: "round_even (of_int r) = r"
  by (simp add: round_even_def Let_def)

lemma f32_bits_subnormal:
  assumes "0 \<le> f" "f < 2 ^ 23"
  shows "f32_bits s (f32_mag 0 f) = (if s then 2 ^ 31 else 0) + f"
proof (cases "f = 0")
  case True
  then show ?thesis by (simp add: f32_bits_def f32_mag_def round_mag_def)
next
  case False
  let ?m = "of_int f * pow2 (- 149)"
  have "?m < 2 ^ 23 * pow2 (- 149)"
    using assms by (intro mult_strict_right_mono) (simp_all add: of_int_less_iff [of f "2 ^ 23", simplified])
  also have "\<dots> = pow2 (- 126)" using pow2_add [of 23 "- 149"] pow2_nat [of 23] by simp
  finally have m: "?m < pow2 (- 126)" .
  have pos: "0 < ?m" using False assms by simp
  have "pow2 (ilog2 ?m) < pow2 (- 126)" using ilog2_bounds(1) [OF pos] m by linarith
  then have "max (ilog2 ?m) (- 126) = - 126" unfolding pow2_less_iff by simp
  moreover have "?m / pow2 (- 126 - 24 + 1) = of_int f" by (simp add: less_imp_neq [symmetric])
  ultimately show ?thesis
    using pos by (simp add: f32_bits_def f32_mag_def round_mag_def Let_def less_imp_neq [symmetric])
qed

lemma f32_bits_normal:
  assumes "1 \<le> e" "0 \<le> f" "f < 2 ^ 23"
  shows "f32_bits s (f32_mag e f) = (if s then 2 ^ 31 else 0) + e * 2 ^ 23 + f"
proof -
  let ?m = "of_int (2 ^ 23 + f) * pow2 (e - 150)"
  have pos: "0 < ?m" using assms by simp
  have lo: "pow2 (e - 127) \<le> ?m"
  proof -
    have "pow2 (e - 127) = 2 ^ 23 * pow2 (e - 150)" using pow2_add [of 23 "e - 150"] pow2_nat [of 23] by simp
    also have "\<dots> \<le> ?m" using assms by (intro mult_right_mono) (simp_all add: less_imp_le)
    finally show ?thesis .
  qed
  have hi: "?m < pow2 (e - 127 + 1)"
  proof -
    have "(of_int (2 ^ 23 + f) :: rat) < of_int (2 ^ 24)" using assms by (simp only: of_int_less_iff) simp
    then have "?m < of_int (2 ^ 24) * pow2 (e - 150)" by (intro mult_strict_right_mono) simp_all
    then show ?thesis using pow2_add [of 24 "e - 150"] pow2_nat [of 24] by simp
  qed
  have "ilog2 ?m = e - 127"
    using exponent_unique [OF ilog2_bounds [OF pos] lo hi] .
  moreover have "?m / pow2 (e - 127 - 24 + 1) = of_int (2 ^ 23 + f)" by (simp add: less_imp_neq [symmetric])
  ultimately have "round_mag 24 (- 126) ?m = (e - 127, 2 ^ 23 + f)"
    using pos assms round_even_int [of "2 ^ 23 + f"]
    by (simp add: round_mag_def Let_def max_def less_imp_neq [symmetric] del: of_int_add of_int_power)
  then show ?thesis using assms by (simp add: f32_bits_def f32_mag_def algebra_simps)
qed

lemma f32_bits_mag:
  assumes "0 \<le> e" "0 \<le> f" "f < 2 ^ 23"
  shows "f32_bits s (f32_mag e f) = (if s then 2 ^ 31 else 0) + e * 2 ^ 23 + f"
  using assms f32_bits_subnormal [of f s] f32_bits_normal [of e f s] by (cases "e = 0") simp_all

lemma f32_fields:
  fixes k :: int
  assumes "0 \<le> k" "k < 2 ^ 32"
  shows "k = (if 2 ^ 31 \<le> k then 2 ^ 31 else 0) + k div 2 ^ 23 mod 256 * 2 ^ 23 + k mod 2 ^ 23"
proof -
  define h where "h = k div 2 ^ 23"
  have k: "k = h * 2 ^ 23 + k mod 2 ^ 23" "0 \<le> k mod 2 ^ 23" "k mod 2 ^ 23 < 2 ^ 23" unfolding h_def by simp_all
  then have h: "0 \<le> h" "h < 512" using assms by simp_all
  show ?thesis
  proof (cases "h < 256")
    case True
    then have "\<not> 2 ^ 31 \<le> k" using k by simp
    then show ?thesis using k h True unfolding h_def [symmetric] by simp
  next
    case False
    then have "h mod 256 = h - 256" using h by presburger
    moreover have "2 ^ 31 \<le> k" using k False by simp
    ultimately show ?thesis using k h False unfolding h_def [symmetric] by simp
  qed
qed

lemma pack_unpack_f:
  assumes "length bs = 4" "unpack_f bs \<noteq> NaN"
  shows "pack_f (unpack_f bs) = Inr bs"
proof -
  let ?n = "be_int bs"
  have n: "0 \<le> ?n" "?n < 2 ^ 32" using be_int_less [OF assms(1)] by simp_all
  define s e f where "s = (2 ^ 31 \<le> ?n)" "e = ?n div 2 ^ 23 mod 256" "f = ?n mod 2 ^ 23"
  have split: "?n = (if s then 2 ^ 31 else 0) + e * 2 ^ 23 + f"
    using f32_fields [OF n] unfolding s_e_f_def by simp
  have b: "0 \<le> e" "e < 256" "0 \<le> f" "f < 2 ^ 23" unfolding s_e_f_def by simp_all
  have whole: "be_bytes 4 ?n = bs" using be_bytes_be_int [of bs] assms(1) by simp
  show ?thesis
  proof (cases "e = 255")
    case True
    then have "f = 0" using assms(2) by (auto simp: unpack_f_def f32_value_def s_e_f_def Let_def split: if_splits)
    then have "unpack_f bs = Infinite s"
      using True by (simp add: unpack_f_def f32_value_def s_e_f_def Let_def)
    then show ?thesis using split True \<open>f = 0\<close> whole by (simp add: pack_f_def del: be_bytes.simps)
  next
    case False
    then have v: "unpack_f bs = Fin s (f32_mag e f)"
      by (simp add: unpack_f_def f32_value_def s_e_f_def Let_def)
    have "f32_bits False (f32_mag e f) < 255 * 2 ^ 23"
      using f32_bits_mag [of e f False] b False by simp
    then show ?thesis
      using f32_bits_mag [of e f s] b split whole unfolding v pack_f_def by (simp add: Let_def del: be_bytes.simps)
  qed
qed

section \<open>Integers are exact, non-negative values stay non-negative\<close>

lemma round64_int:
  assumes "0 \<le> k" "k < 2 ^ 53"
  shows "round64 s (of_int k) = Fin s (of_int k)"
proof (cases "k = 0")
  case True
  then show ?thesis by (simp add: round64_def round_mag_def not_le)
next
  case False
  let ?m = "of_int k :: rat"
  have pos: "0 < ?m" using False assms by simp
  define n where "n = ilog2 ?m"
  have b: "pow2 n \<le> ?m" "?m < pow2 (n + 1)" using ilog2_bounds [OF pos] unfolding n_def by simp_all
  have "?m < of_int (2 ^ 53)" using assms(2) by (simp only: of_int_less_iff)
  then have up: "?m < pow2 53" using pow2_nat [of 53] by simp
  then have "n < 53" using b(1) unfolding pow2_less_iff [symmetric] by linarith
  moreover have "0 \<le> n"
  proof (rule ccontr)
    assume "\<not> 0 \<le> n"
    then have "pow2 (n + 1) \<le> pow2 0" using pow2_less [of "n + 1" 0] by (cases "n + 1 = 0") auto
    then have "?m < 1" using b(2) by (simp add: pow2_def)
    then show False using False assms by simp
  qed
  ultimately have e: "max n (- 1022) = n" "n - int 53 + 1 = - int (nat (52 - n))" by simp_all
  have "?m / pow2 (n - int 53 + 1) = of_int (k * 2 ^ nat (52 - n))"
    unfolding e(2) by (simp add: pow2_def)
  then have "round_mag 53 (- 1022) ?m = (n, k * 2 ^ nat (52 - n))"
    using pos e(1) round_even_int [of "k * 2 ^ nat (52 - n)"] unfolding round_mag_def n_def [symmetric]
    by (simp add: Let_def del: of_int_mult of_int_power)
  moreover have "2 ^ nat (52 - n) * pow2 (n - 52) = 1"
    using \<open>n < 53\<close> by (simp add: pow2_def)
  moreover have "\<not> pow2 1024 \<le> ?m" using up pow2_less [of 53 1024] by linarith
  ultimately show ?thesis by (simp add: round64_def Let_def mult.assoc)
qed

lemma of_pyint_exact: "0 \<le> k \<Longrightarrow> k < 2 ^ 53 \<Longrightarrow> of_pyint k = Fin False (of_int k)"
  using round64_int [of k False] by (simp add: of_pyint_def fl_def)

definition nonneg :: "py_float \<Rightarrow> bool" where
  "nonneg x \<longleftrightarrow> fle (Fin False 0) x"

lemma nonneg_Fin: "nonneg (Fin s m) \<longleftrightarrow> 0 \<le> fin_val s m"
  by (auto simp: nonneg_def fle_def fin_val_def)

lemma nonneg_simps [simp]: "nonneg (Infinite s) \<longleftrightarrow> \<not> s" "\<not> nonneg NaN"
  by (auto simp: nonneg_def fle_def)

lemma round_even_nonneg: "0 \<le> x \<Longrightarrow> 0 \<le> round_even x"
  unfolding round_even_def Let_def by (auto intro: order_trans [of 0 "\<lfloor>x\<rfloor>"])

lemma nonneg_round64:
  assumes "0 \<le> m"
  shows "nonneg (round64 False m)"
proof -
  obtain e r where er: "round_mag 53 (- 1022) m = (e, r)" by (cases "round_mag 53 (- 1022) m")
  then have "0 \<le> r"
    using assms round_even_nonneg by (auto simp: round_mag_def Let_def less_imp_le split: if_splits)
  then have "0 \<le> of_int r * pow2 (e - 52)" by (simp add: less_imp_le)
  then show ?thesis by (simp add: round64_def er nonneg_Fin fin_val_def Let_def)
qed

lemma nonneg_fl: "0 \<le> x \<Longrightarrow> nonneg (fl x)"
  by (simp add: fl_def nonneg_round64)

lemma nonneg_fsub:
  assumes "fle y x" "nonneg y" "\<And>s. y \<noteq> Infinite s"
  shows "nonneg (fsub x y)"
proof -
  obtain t n where y: "y = Fin t n" using assms by (cases y) auto
  show ?thesis
    using assms unfolding y
    by (cases x) (auto simp: fle_def nonneg_fl nonneg_Fin fin_val_def split: if_splits)
qed

lemma nonneg_fadd:
  assumes "nonneg x" "nonneg y"
  shows "nonneg (fadd x y)"
  using assms by (cases x; cases y) (auto simp: fadd_def fneg_def nonneg_fl nonneg_Fin fin_val_def split: if_splits)

lemma fmin_le: "nonneg x \<Longrightarrow> nonneg y \<Longrightarrow> fle (fmin x y) y \<and> nonneg (fmin x y)"
  by (cases x; cases y) (auto simp: fmin_def fle_def)

lemma round64_finite:
  assumes "0 \<le> m" "m < 2 ^ 1000"
  shows "\<exists>v. round64 s m = Fin s v \<and> 0 \<le> v"
proof (cases "m = 0")
  case True
  then show ?thesis by (simp add: round64_def round_mag_def not_le)
next
  case False
  define e where "e = max (ilog2 m) (- 1022)"
  define x where "x = m / pow2 (e - 52)"
  have m: "round_mag 53 (- 1022) m = (e, round_even x)"
    using False by (simp add: round_mag_def e_def x_def Let_def)
  have x: "0 \<le> x" using assms by (simp add: x_def less_imp_le)
  have "of_int (round_even x) \<le> x + 1"
    unfolding round_even_def Let_def by (auto simp: algebra_simps) linarith+
  then have "of_int (round_even x) * pow2 (e - 52) \<le> (x + 1) * pow2 (e - 52)"
    by (intro mult_right_mono) (simp_all add: less_imp_le)
  also have "\<dots> = m + pow2 (e - 52)" by (simp add: x_def distrib_right less_imp_neq [symmetric])
  also have "pow2 (e - 52) \<le> m + 1"
  proof (cases "ilog2 m \<le> - 1022")
    case True
    then have "pow2 (e - 52) < pow2 0" by (intro pow2_less) (simp add: e_def)
    then show ?thesis using assms by (simp add: pow2_def)
  next
    case F: False
    then have "pow2 (e - 52) < pow2 (ilog2 m)" by (intro pow2_less) (simp add: e_def)
    then show ?thesis using ilog2_bounds(1) [of m] assms False by simp
  qed
  also have "m + (m + 1) < pow2 1024"
    using assms(2) by (simp add: pow2_def)
  finally have "of_int (round_even x) * pow2 (e - 52) < pow2 1024" by simp
  then show ?thesis
    using round_even_nonneg [OF x] by (simp add: round64_def m Let_def not_le less_imp_le)
qed

end
