(* ===== verification/Py_State.thy ===== *)
theory Py_State
  imports Prelude
begin

text \<open>
  Code that changes state and may raise: a function from the state to a result and the state at
  the end, where an exception keeps what was changed before it. \<open>zoom\<close> runs such code on a field
  of a larger state. Invariants and frame conditions are propagated through the combinators by
  the rules in \<open>py_intros\<close>.
\<close>

type_synonym ('s, 'a) py = "'s \<Rightarrow> 'a result \<times> 's"

named_theorems py_simps \<open>evaluation of the combinators\<close>
named_theorems py_intros \<open>preservation of a relation between the states before and after\<close>

definition ret :: "'a \<Rightarrow> ('s, 'a) py" where
  "ret a s = (Inr a, s)"

definition raise :: "py_error \<Rightarrow> ('s, 'a) py" where
  "raise e s = (Inl e, s)"

definition bind_py :: "('s, 'a) py \<Rightarrow> ('a \<Rightarrow> ('s, 'b) py) \<Rightarrow> ('s, 'b) py" where
  "bind_py m f s = (case m s of (Inl e, s') \<Rightarrow> (Inl e, s') | (Inr a, s') \<Rightarrow> f a s')"

definition seq_py :: "('s, 'a) py \<Rightarrow> ('s, 'b) py \<Rightarrow> ('s, 'b) py" where
  "seq_py m n = bind_py m (\<lambda>_. n)"

definition gets :: "('s \<Rightarrow> 'a) \<Rightarrow> ('s, 'a) py" where
  "gets f s = (Inr (f s), s)"

definition modify :: "('s \<Rightarrow> 's) \<Rightarrow> ('s, unit) py" where
  "modify f s = (Inr (), f s)"

definition of_result :: "'a result \<Rightarrow> ('s, 'a) py" where
  "of_result r s = (r, s)"

text \<open>\<open>try: m except Exception: h\<close>.\<close>

definition catch :: "('s, 'a) py \<Rightarrow> (py_error \<Rightarrow> ('s, 'a) py) \<Rightarrow> ('s, 'a) py" where
  "catch m h s = (case m s of (Inl e, s') \<Rightarrow> h e s' | (Inr a, s') \<Rightarrow> (Inr a, s'))"

definition zoom :: "('s \<Rightarrow> 't) \<Rightarrow> ('t \<Rightarrow> 's \<Rightarrow> 's) \<Rightarrow> ('t, 'a) py \<Rightarrow> ('s, 'a) py" where
  "zoom rd wr m s = (case m (rd s) of (r, t) \<Rightarrow> (r, wr t s))"

fun each :: "('x \<Rightarrow> ('s, unit) py) \<Rightarrow> 'x list \<Rightarrow> ('s, unit) py" where
  "each f [] = ret ()"
| "each f (x # xs) = seq_py (f x) (each f xs)"

definition when_py :: "bool \<Rightarrow> ('s, unit) py \<Rightarrow> ('s, unit) py" where
  "when_py b m = (if b then m else ret ())"

lemma py_evals [py_simps]:
  "ret a s = (Inr a, s)" "raise e s = (Inl e, s)" "gets f s = (Inr (f s), s)"
  "modify g s = (Inr (), g s)" "of_result r s = (r, s)"
  by (simp_all add: ret_def raise_def gets_def modify_def of_result_def)

lemma bind_py_simps [py_simps]:
  "m s = (Inl e, s') \<Longrightarrow> bind_py m f s = (Inl e, s')"
  "m s = (Inr a, s') \<Longrightarrow> bind_py m f s = f a s'"
  "m s = (Inl e, s') \<Longrightarrow> seq_py m n s = (Inl e, s')"
  "m s = (Inr a, s') \<Longrightarrow> seq_py m n s = n s'"
  by (simp_all add: bind_py_def seq_py_def)

lemma bind_ret [simp]: "bind_py (ret a) f = f a"
  by (rule ext) (simp add: bind_py_def ret_def)

lemma bind_gets [simp]: "bind_py (gets g) f s = f (g s) s"
  by (simp add: bind_py_def gets_def)

lemma bind_of_Inr [simp]: "bind_py (of_result (Inr a)) f = f a"
  by (rule ext) (simp add: bind_py_def of_result_def)

lemma bind_of_Inl [simp]: "bind_py (of_result (Inl e)) f s = (Inl e, s)"
  by (simp add: bind_py_def of_result_def)

lemma seq_modify [simp]: "seq_py (modify g) n s = n (g s)"
  by (simp add: bind_py_def seq_py_def modify_def)

lemma seq_ret [simp]: "seq_py (ret a) n = n"
  by (rule ext) (simp add: bind_py_def seq_py_def ret_def)

lemma seq_assoc: "seq_py (seq_py m n) p = seq_py m (seq_py n p)"
  by (rule ext) (simp add: seq_py_def bind_py_def split: prod.splits sum.splits)

text \<open>Runs that return.\<close>

lemma bind_returns:
  "bind_py m f s = (Inr b, s'') \<longleftrightarrow> (\<exists>a s'. m s = (Inr a, s') \<and> f a s' = (Inr b, s''))"
  by (auto simp: bind_py_def split: prod.splits sum.splits)

lemma seq_returns:
  "seq_py m n s = (Inr b, s'') \<longleftrightarrow> (\<exists>a s'. m s = (Inr a, s') \<and> n s' = (Inr b, s''))"
  by (simp add: seq_py_def bind_returns)

lemma zoom_returns:
  "zoom rd wr m s = (Inr a, s') \<longleftrightarrow> (\<exists>t. m (rd s) = (Inr a, t) \<and> s' = wr t s)"
  by (auto simp: zoom_def split: prod.splits)

lemmas returns = bind_returns seq_returns zoom_returns

section \<open>Relations between the states before and after\<close>

text \<open>\<open>rel_py R m\<close>: the run of \<open>m\<close> relates the state before to the state after.\<close>

definition rel_py :: "('s \<Rightarrow> 's \<Rightarrow> bool) \<Rightarrow> ('s, 'a) py \<Rightarrow> bool" where
  "rel_py R m \<longleftrightarrow> (\<forall>s. R s (snd (m s)))"

lemma rel_pyD: "rel_py R m \<Longrightarrow> m s = (r, s') \<Longrightarrow> R s s'"
  unfolding rel_py_def by (metis snd_conv)

text \<open>The interface of the relations the combinators propagate: preorders.\<close>

locale py_frame =
  fixes R :: "'s \<Rightarrow> 's \<Rightarrow> bool"
  assumes frame_refl: "R s s"
    and frame_trans: "R s t \<Longrightarrow> R t u \<Longrightarrow> R s u"
begin

lemma rel_ret: "rel_py R (ret a)"
  by (simp add: rel_py_def ret_def frame_refl)

lemma rel_raise: "rel_py R (raise e)"
  by (simp add: rel_py_def raise_def frame_refl)

lemma rel_gets: "rel_py R (gets f)"
  by (simp add: rel_py_def gets_def frame_refl)

lemma rel_of_result: "rel_py R (of_result r)"
  by (simp add: rel_py_def of_result_def frame_refl)

lemma rel_modify: "(\<And>s. R s (f s)) \<Longrightarrow> rel_py R (modify f)"
  by (simp add: rel_py_def modify_def)

lemma rel_bind: "rel_py R m \<Longrightarrow> (\<And>a. rel_py R (f a)) \<Longrightarrow> rel_py R (bind_py m f)"
  unfolding rel_py_def bind_py_def by (auto split: prod.splits sum.splits intro: frame_trans) (metis frame_trans snd_conv)+

lemma rel_seq: "rel_py R m \<Longrightarrow> rel_py R n \<Longrightarrow> rel_py R (seq_py m n)"
  unfolding seq_py_def by (rule rel_bind)

lemma rel_catch: "rel_py R m \<Longrightarrow> (\<And>e. rel_py R (h e)) \<Longrightarrow> rel_py R (catch m h)"
  unfolding rel_py_def catch_def by (auto split: prod.splits sum.splits intro: frame_trans) (metis frame_trans snd_conv)+

lemma rel_each: "(\<And>x. rel_py R (f x)) \<Longrightarrow> rel_py R (each f xs)"
  by (induction xs) (auto intro: rel_ret rel_seq)

lemma rel_when: "rel_py R m \<Longrightarrow> rel_py R (when_py b m)"
  by (simp add: when_py_def rel_ret)

lemma rel_if: "rel_py R m \<Longrightarrow> rel_py R n \<Longrightarrow> rel_py R (if b then m else n)"
  by simp

lemma rel_option:
  "rel_py R m \<Longrightarrow> (\<And>a. rel_py R (f a)) \<Longrightarrow> rel_py R (case x of None \<Rightarrow> m | Some a \<Rightarrow> f a)"
  by (cases x) simp_all

lemma rel_prod: "(\<And>a b. rel_py R (f a b)) \<Longrightarrow> rel_py R (case x of (a, b) \<Rightarrow> f a b)"
  by (cases x) simp

lemma rel_sum:
  "(\<And>a. rel_py R (f a)) \<Longrightarrow> (\<And>b. rel_py R (g b)) \<Longrightarrow> rel_py R (case x of Inl a \<Rightarrow> f a | Inr b \<Rightarrow> g b)"
  by (cases x) simp_all

lemma rel_let: "(\<And>x. rel_py R (f x)) \<Longrightarrow> rel_py R (let x = t in f x)"
  by simp

text \<open>Code whose shape depends on the state it starts in.\<close>

lemma rel_self: "(\<And>s. rel_py R (f s)) \<Longrightarrow> rel_py R (\<lambda>s. f s s)" for f :: "'s \<Rightarrow> ('s, 'a) py"
  by (simp add: rel_py_def)

lemma rel_read: "rel_py R (\<lambda>s. (f s, s))"
  by (simp add: rel_py_def frame_refl)

lemma rel_zoom: "(\<And>s t. R s (wr t s)) \<Longrightarrow> rel_py R (zoom rd wr m)"
  by (simp add: rel_py_def zoom_def split: prod.split)

lemmas frame_rules = rel_ret rel_raise rel_gets rel_of_result rel_bind rel_seq rel_catch rel_each
  rel_when rel_if rel_sum rel_option rel_prod rel_let rel_read

end

section \<open>Results\<close>

text \<open>\<open>ends Q m\<close>: whenever \<open>m\<close> returns, its value and the state at the end satisfy \<open>Q\<close>.\<close>

definition ends :: "('a \<Rightarrow> 's \<Rightarrow> bool) \<Rightarrow> ('s, 'a) py \<Rightarrow> bool" where
  "ends Q m \<longleftrightarrow> (\<forall>s a s'. m s = (Inr a, s') \<longrightarrow> Q a s')"

lemma endsD: "ends Q m \<Longrightarrow> m s = (Inr a, s') \<Longrightarrow> Q a s'"
  by (simp add: ends_def)

lemma ends_ret: "(\<And>s. Q a s) \<Longrightarrow> ends Q (ret a)"
  by (simp add: ends_def ret_def)

lemma ends_raise: "ends Q (raise e)"
  by (simp add: ends_def raise_def)

lemma ends_bind: "(\<And>a. ends Q (f a)) \<Longrightarrow> ends Q (bind_py m f)"
  by (auto simp: ends_def bind_py_def split: prod.splits sum.splits)

lemma ends_seq: "ends Q n \<Longrightarrow> ends Q (seq_py m n)"
  by (simp add: seq_py_def ends_bind)

lemma ends_if: "(b \<Longrightarrow> ends Q m) \<Longrightarrow> (\<not> b \<Longrightarrow> ends Q n) \<Longrightarrow> ends Q (if b then m else n)"
  by simp

lemma ends_option:
  "(x = None \<Longrightarrow> ends Q m) \<Longrightarrow> (\<And>a. x = Some a \<Longrightarrow> ends Q (f a)) \<Longrightarrow>
   ends Q (case x of None \<Rightarrow> m | Some a \<Rightarrow> f a)"
  by (cases x) simp_all

lemma ends_prod: "(\<And>a b. x = (a, b) \<Longrightarrow> ends Q (f a b)) \<Longrightarrow> ends Q (case x of (a, b) \<Rightarrow> f a b)"
  by (cases x) simp

lemma ends_let: "(\<And>x. x = t \<Longrightarrow> ends Q (f x)) \<Longrightarrow> ends Q (let x = t in f x)"
  by simp

lemma ends_sum:
  "(\<And>a. x = Inl a \<Longrightarrow> ends Q (f a)) \<Longrightarrow> (\<And>b. x = Inr b \<Longrightarrow> ends Q (g b)) \<Longrightarrow>
   ends Q (case x of Inl a \<Rightarrow> f a | Inr b \<Rightarrow> g b)"
  by (cases x) simp_all

lemmas ends_rules = ends_sum ends_raise ends_bind ends_seq ends_if ends_option ends_prod ends_let

end
