(* ===== verification/Subsystems.thy ===== *)
theory Subsystems
  imports Text_Codecs Py_Float Py_State
begin

text \<open>
  The interface through which the on-board software reaches the subsystem models
  (\<open>engine.subsystems\<close>): commands with named arguments, the replies of \<open>handle_command\<close>, the
  device switches of S2 and the attributes of a model's state that the gates look at. The models
  themselves (orbit, attitude, power, thermal and radio physics) are a parameter: a record of
  functions over a type \<open>'m\<close> of model states.
\<close>

section \<open>Values\<close>

datatype pyval =
  VNone | VInt int | VBool bool | VFloat py_float | VStr string | VText pytext | VFloats "py_float list"
  | VBools "bool list" | VBytes bytes | VDict "(string \<times> pyval) list" | VInts "int list"

type_synonym command = "(string \<times> pyval) list"

text \<open>
  A reply: \<open>success\<close>, \<open>message\<close> and \<open>error_code\<close> when the dictionary has them, and its other
  entries. \<open>None\<close> stands for a return value that is not a dictionary.
\<close>

record reply =
  rp_success :: "bool option"
  rp_message :: "pytext option"
  rp_error_code :: "int option"
  rp_fields :: "string \<rightharpoonup> pyval"

definition empty_reply :: reply where
  "empty_reply = \<lparr>rp_success = None, rp_message = None, rp_error_code = None, rp_fields = Map.empty\<rparr>"

text \<open>\<open>float(v)\<close>, \<open>int(v)\<close> and \<open>bool(v)\<close>; \<open>int\<close> truncates towards zero.\<close>

definition val_float :: "pyval \<Rightarrow> py_float result" where
  "val_float v = (case v of VInt k \<Rightarrow> Inr (of_pyint k) | VBool b \<Rightarrow> Inr (of_pyint (of_bool b))
     | VFloat x \<Rightarrow> Inr x | VStr _ \<Rightarrow> Inl ValueError
     | VText _ \<Rightarrow> Inl ValueError | _ \<Rightarrow> Inl TypeError)"

definition trunc_float :: "py_float \<Rightarrow> int result" where
  "trunc_float x = (case x of Fin s m \<Rightarrow> Inr (if s then - \<lfloor>m\<rfloor> else \<lfloor>m\<rfloor>)
     | Infinite _ \<Rightarrow> Inl OverflowError | NaN \<Rightarrow> Inl ValueError)"

definition val_int :: "pyval \<Rightarrow> int result" where
  "val_int v = (case v of VInt k \<Rightarrow> Inr k | VBool b \<Rightarrow> Inr (of_bool b)
     | VFloat x \<Rightarrow> trunc_float x | VStr _ \<Rightarrow> Inl ValueError
     | VText _ \<Rightarrow> Inl ValueError | _ \<Rightarrow> Inl TypeError)"

section \<open>The interface\<close>

record 'm subsystems =
  sy_present :: "string \<Rightarrow> bool"
  sy_command :: "string \<Rightarrow> command \<Rightarrow> ('m, reply option) py"
  sy_set_device :: "string \<Rightarrow> int \<Rightarrow> bool \<Rightarrow> ('m, bool) py"
  sy_get_device :: "string \<Rightarrow> int \<Rightarrow> ('m, bool) py"
  sy_attr :: "string \<Rightarrow> string \<Rightarrow> 'm \<Rightarrow> pyval option"
  sy_set_attr :: "string \<Rightarrow> string \<Rightarrow> pyval \<Rightarrow> 'm \<Rightarrow> 'm"
  sy_has_setter :: "string \<Rightarrow> string \<Rightarrow> bool"
  sy_call_setter :: "string \<Rightarrow> string \<Rightarrow> string \<Rightarrow> pyval \<Rightarrow> ('m, unit) py"
  sy_power_line :: "string \<Rightarrow> 'm \<Rightarrow> bool option"
  sy_set_line :: "string \<Rightarrow> bool \<Rightarrow> 'm \<Rightarrow> 'm"
  sy_count :: "string \<Rightarrow> 'm \<Rightarrow> 'm"
  sy_failure_code :: "int \<Rightarrow> ('m, unit) py"
  sy_gps_time_sync :: "(int \<rightharpoonup> py_float) \<Rightarrow> rat \<Rightarrow> ('m, reply option) py"
  sy_default_rate :: "'m \<Rightarrow> int"
  sy_beacon_tier :: "'m \<Rightarrow> int"
  sy_safe_tier :: "'m \<Rightarrow> int"
  sy_apply_tier :: "int \<Rightarrow> 'm \<Rightarrow> 'm"

text \<open>
  \<open>sy_power_line n\<close> is the entry \<open>n\<close> of \<open>eps._state.power_lines\<close> and \<open>sy_set_line\<close> its
  assignment; \<open>sy_count\<close> runs one of the counters of the OBDH model (\<open>record_tc_received\<close> and its
  like), \<open>sy_failure_code\<close> its \<open>record_tc_failure_code\<close>; \<open>sy_gps_time_sync\<close> is the OBDH command that
  is handed the shared parameters and the simulation time, \<open>sy_default_rate\<close> the command code of the
  default tier of the TM rate ladder, \<open>sy_beacon_tier\<close> and \<open>sy_safe_tier\<close> its other named tiers and
  \<open>sy_apply_tier\<close> the radio's \<open>_apply_tier\<close>. The events the models raise wait in a
  queue of their own, part of \<open>'m\<close>, until the engine's tick delivers them.
\<close>

text \<open>A spacecraft without models, on which the examples run.\<close>

definition plain_subsystems :: "unit subsystems" where
  "plain_subsystems = \<lparr>sy_present = (\<lambda>_. False), sy_command = (\<lambda>_ _. ret None), sy_set_device = (\<lambda>_ _ _. ret False),
     sy_get_device = (\<lambda>_ _. ret False), sy_attr = (\<lambda>_ _ _. None), sy_set_attr = (\<lambda>_ _ _ u. u),
     sy_has_setter = (\<lambda>_ _. False), sy_call_setter = (\<lambda>_ _ _ _. ret ()), sy_power_line = (\<lambda>_ _. None),
     sy_set_line = (\<lambda>_ _ u. u), sy_count = (\<lambda>_ u. u), sy_failure_code = (\<lambda>_. ret ()),
     sy_gps_time_sync = (\<lambda>_ _. ret None), sy_default_rate = (\<lambda>_. 1), sy_beacon_tier = (\<lambda>_. 0),
     sy_safe_tier = (\<lambda>_. 1), sy_apply_tier = (\<lambda>_ u. u)\<rparr>"

end
