(* ===== verification/Memory_Map.thy ===== *)
theory Memory_Map
  imports Subsystems "HOL-Library.AList"
begin

text \<open>
  The memory map and the sparse page store of \<open>smo_simulator/memory_map.py\<close>. Regions are declared
  with their access and the pattern of unwritten bytes; a region may be bound to attributes of a
  live model, which then supplies and takes its bytes. The pages are a dictionary in insertion
  order. A memory image refines a total map from addresses to bytes: a write through an unbound
  region changes the bytes it names and no others, when regions and pages agree.
\<close>

section \<open>Regions\<close>

definition PAGE_SIZE :: int where "PAGE_SIZE = 256"

definition ERR_ILLEGAL_ADDRESS :: int where "ERR_ILLEGAL_ADDRESS = 1"
definition ERR_WRITE_PROTECTED :: int where "ERR_WRITE_PROTECTED = 2"
definition ERR_BAD_ARGUMENT :: int where "ERR_BAD_ARGUMENT = 3"
definition ERR_LENGTH_EXCEEDED :: int where "ERR_LENGTH_EXCEEDED = 4"

datatype field_type = Float32 | Uint32 | Uint16 | Uint8 | Other_type string

fun field_size :: "field_type \<Rightarrow> nat" where
  "field_size Uint16 = 2" | "field_size Uint8 = 1" | "field_size _ = 4"

record binding_field =
  bf_offset :: nat
  bf_attr :: string
  bf_type :: field_type
  bf_key :: string

record region_binding =
  rb_model :: string
  rb_fields :: "binding_field list"
  rb_setter :: string

datatype fill_kind = Fill_zero | Fill_constant | Fill_address_high | Fill_address_xor

record memory_region =
  rg_name :: string
  rg_start :: int
  rg_size :: int
  rg_access :: string
  rg_fill_kind :: fill_kind
  rg_fill :: int
  rg_description :: string
  rg_patchable :: bool
  rg_binding :: "region_binding option"

definition rg_end :: "memory_region \<Rightarrow> int" where
  "rg_end r = rg_start r + rg_size r"

definition writable :: "memory_region \<Rightarrow> bool" where
  "writable r \<longleftrightarrow> rg_access r = ''rw''"

definition region_contains :: "memory_region \<Rightarrow> int \<Rightarrow> int \<Rightarrow> bool" where
  "region_contains r addr len \<longleftrightarrow> rg_start r \<le> addr \<and> addr + len \<le> rg_end r"

definition fill_byte :: "memory_region \<Rightarrow> int \<Rightarrow> byte" where
  "fill_byte r addr = word_of_int (case rg_fill_kind r of
      Fill_constant \<Rightarrow> rg_fill r AND 0xFF
    | Fill_address_high \<Rightarrow> drop_bit 8 addr AND 0xFF
    | Fill_address_xor \<Rightarrow> (addr AND 0xFF) XOR (drop_bit 8 addr AND 0xFF)
    | Fill_zero \<Rightarrow> 0)"

record memory_limits =
  lim_load :: nat
  lim_dump :: nat
  lim_check :: nat

record memory_map =
  mm_regions :: "memory_region list"
  mm_limits :: memory_limits

definition region_at :: "memory_map \<Rightarrow> int \<Rightarrow> int \<Rightarrow> memory_region option" where
  "region_at m addr len = List.find (\<lambda>r. region_contains r addr len) (mm_regions m)"

definition is_mapped :: "memory_map \<Rightarrow> int \<Rightarrow> int \<Rightarrow> bool" where
  "is_mapped m addr len \<longleftrightarrow> region_at m addr len \<noteq> None"

definition is_readonly :: "memory_map \<Rightarrow> int \<Rightarrow> int \<Rightarrow> bool" where
  "is_readonly m addr len = (case region_at m addr len of None \<Rightarrow> False | Some r \<Rightarrow> \<not> writable r)"

definition default_limits :: memory_limits where
  "default_limits = \<lparr>lim_load = 512, lim_dump = 1024, lim_check = 0x100000\<rparr>"

definition mk_region :: "string \<Rightarrow> int \<Rightarrow> int \<Rightarrow> string \<Rightarrow> fill_kind \<Rightarrow> int \<Rightarrow> string \<Rightarrow> bool \<Rightarrow> memory_region" where
  "mk_region n start sz acc fk fill descr patch =
     \<lparr>rg_name = n, rg_start = start, rg_size = sz, rg_access = acc, rg_fill_kind = fk, rg_fill = fill,
      rg_description = descr, rg_patchable = patch, rg_binding = None\<rparr>"

definition default_map :: memory_map where
  "default_map = \<lparr>mm_regions =
     [mk_region ''boot_rom'' 0x00000000 0x10000 ''ro'' Fill_constant 0x55 ''Boot ROM (primary)'' False,
      mk_region ''boot_backup'' 0x00010000 0x10000 ''ro'' Fill_constant 0x55 ''Boot ROM (backup copy)'' False,
      mk_region ''app_a'' 0x00100000 0x80000 ''rw'' Fill_address_high 0x00 ''Application image A'' True,
      mk_region ''app_b'' 0x00180000 0x80000 ''rw'' Fill_address_high 0x00 ''Application image B'' True,
      mk_region ''config'' 0x00200000 0x20000 ''rw'' Fill_constant 0xAA ''Configuration / parameter store'' True,
      mk_region ''scratch_ram'' 0x20000000 0x40000 ''rw'' Fill_address_xor 0x00 ''Scratchpad RAM'' True,
      (mk_region ''aocs_gains'' 0x20100000 12 ''rw'' Fill_zero 0x00
         ''AOCS per-axis control torque gains (live model binding)'' True)
        \<lparr>rg_binding := Some \<lparr>rb_model = ''aocs'',
           rb_fields =
             [\<lparr>bf_offset = 0, bf_attr = ''torque_gain_x'', bf_type = Float32, bf_key = ''x''\<rparr>,
              \<lparr>bf_offset = 4, bf_attr = ''torque_gain_y'', bf_type = Float32, bf_key = ''y''\<rparr>,
              \<lparr>bf_offset = 8, bf_attr = ''torque_gain_z'', bf_type = Float32, bf_key = ''z''\<rparr>],
           rb_setter = ''set_torque_gain''\<rparr>\<rparr>],
     mm_limits = default_limits\<rparr>"

section \<open>The image\<close>

record memory_image =
  mi_map :: memory_map
  mi_pages :: "(int \<times> bytes) list"

text \<open>
  \<open>_binding_image\<close>: \<open>None\<close> when the model, an attribute or a conversion is missing. A value outside
  the range of its binary32 field raises \<open>OverflowError\<close>, which the code does not catch, an
  unknown field type a \<open>KeyError\<close>.
\<close>

definition pack_field :: "field_type \<Rightarrow> pyval \<Rightarrow> bytes result" where
  "pack_field t v = (case t of
      Float32 \<Rightarrow> bind_result (val_float v) pack_f
    | Other_type _ \<Rightarrow> Inl KeyError
    | _ \<Rightarrow> bind_result (val_int v) (pack_be (field_size t)))"

fun binding_fields :: "'m subsystems \<Rightarrow> 'm \<Rightarrow> string \<Rightarrow> binding_field list \<Rightarrow> bytes \<Rightarrow> bytes option result" where
  "binding_fields sys m model [] buf = Inr (Some buf)"
| "binding_fields sys m model (f # fs) buf =
     (case sy_attr sys model (bf_attr f) m of
        None \<Rightarrow> Inr None
      | Some v \<Rightarrow>
          (case pack_field (bf_type f) v of
             Inr packed \<Rightarrow> binding_fields sys m model fs
               (take (bf_offset f) buf @ packed @ drop (bf_offset f + field_size (bf_type f)) buf)
           | Inl e \<Rightarrow> if e \<in> {StructError, TypeError, ValueError} then Inr None else Inl e))"

definition binding_image :: "'m subsystems \<Rightarrow> 'm \<Rightarrow> memory_region \<Rightarrow> region_binding \<Rightarrow> bytes option result" where
  "binding_image sys m r b =
     (if \<not> sy_present sys (rb_model b) then Inr None
      else binding_fields sys m (rb_model b) (rb_fields b) (replicate (nat (rg_size r)) 0))"

definition unpack_field :: "field_type \<Rightarrow> bytes \<Rightarrow> pyval result" where
  "unpack_field t raw = (case t of
      Float32 \<Rightarrow> Inr (VFloat (unpack_f raw))
    | Other_type _ \<Rightarrow> Inl KeyError
    | _ \<Rightarrow> Inr (VInt (be_int raw)))"

definition write_field :: "'m subsystems \<Rightarrow> region_binding \<Rightarrow> int \<Rightarrow> bytes \<Rightarrow> binding_field \<Rightarrow> ('m, unit) py" where
  "write_field sys b offset payload f =
     (let lo = int (bf_offset f) - offset; sz = field_size (bf_type f)
      in if lo < 0 \<or> int (length payload) < lo + int sz then ret ()
         else bind_py (of_result (unpack_field (bf_type f) (pyslice (nat lo) (nat lo + sz) payload))) (\<lambda>v.
           if rb_setter b \<noteq> '''' \<and> sy_has_setter sys (rb_model b) (rb_setter b)
           then sy_call_setter sys (rb_model b) (rb_setter b) (if bf_key f \<noteq> '''' then bf_key f else bf_attr f) v
           else modify (sy_set_attr sys (rb_model b) (bf_attr f) v)))"

definition binding_write :: "'m subsystems \<Rightarrow> memory_region \<Rightarrow> region_binding \<Rightarrow> int \<Rightarrow> bytes \<Rightarrow> ('m, unit) py" where
  "binding_write sys r b addr payload =
     (if \<not> sy_present sys (rb_model b) then ret ()
      else each (write_field sys b (addr - rg_start r) payload) (rb_fields b))"

text \<open>One byte of \<open>read\<close>, from the page store or from a binding.\<close>

definition stored_byte :: "memory_image \<Rightarrow> int \<Rightarrow> byte" where
  "stored_byte img cur =
     (case map_of (mi_pages img) (cur div PAGE_SIZE) of
        Some page \<Rightarrow> page ! nat (cur mod PAGE_SIZE)
      | None \<Rightarrow> (case region_at (mi_map img) cur 1 of Some r \<Rightarrow> fill_byte r cur | None \<Rightarrow> 0))"

definition read_byte :: "'m subsystems \<Rightarrow> 'm \<Rightarrow> memory_image \<Rightarrow> int \<Rightarrow> byte result" where
  "read_byte sys m img cur =
     (case region_at (mi_map img) cur 1 of
        Some r \<Rightarrow>
          (case rg_binding r of
             Some b \<Rightarrow> bind_result (binding_image sys m r b) (\<lambda>im. case im of
                 Some buf \<Rightarrow> let idx = nat (cur - rg_start r)
                               in Inr (if idx < length buf then buf ! idx else 0)
               | None \<Rightarrow> Inr (stored_byte img cur))
           | None \<Rightarrow> Inr (stored_byte img cur))
      | None \<Rightarrow> Inr (stored_byte img cur))"

fun read_memory :: "'m subsystems \<Rightarrow> 'm \<Rightarrow> memory_image \<Rightarrow> int \<Rightarrow> nat \<Rightarrow> bytes result" where
  "read_memory sys m img addr 0 = Inr []"
| "read_memory sys m img addr (Suc n) =
     bind_result (read_byte sys m img addr) (\<lambda>b.
     bind_result (read_memory sys m img (addr + 1) n) (\<lambda>bs. Inr (b # bs)))"

definition fresh_page :: "memory_map \<Rightarrow> int \<Rightarrow> bytes" where
  "fresh_page m cur =
     (let base = cur div PAGE_SIZE * PAGE_SIZE;
          r = (case region_at m base 1 of Some r \<Rightarrow> Some r | None \<Rightarrow> region_at m cur 1)
      in map (\<lambda>k. case r of Some r \<Rightarrow> fill_byte r (base + int k) | None \<Rightarrow> 0) [0..<nat PAGE_SIZE])"

definition write_byte :: "int \<Rightarrow> byte \<Rightarrow> memory_image \<Rightarrow> memory_image" where
  "write_byte cur b img =
     (let page_no = cur div PAGE_SIZE;
          page = (case map_of (mi_pages img) page_no of Some p \<Rightarrow> p | None \<Rightarrow> fresh_page (mi_map img) cur)
      in img\<lparr>mi_pages := AList.update page_no (page[nat (cur mod PAGE_SIZE) := b]) (mi_pages img)\<rparr>)"

fun write_bytes :: "int \<Rightarrow> bytes \<Rightarrow> memory_image \<Rightarrow> memory_image" where
  "write_bytes addr [] img = img"
| "write_bytes addr (b # bs) img = write_bytes (addr + 1) bs (write_byte addr b img)"

definition write_memory :: "'m subsystems \<Rightarrow> int \<Rightarrow> bytes \<Rightarrow> (memory_image \<times> 'm, unit) py" where
  "write_memory sys addr payload =
     (\<lambda>(img, m).
       case region_at (mi_map img) addr (int (length payload)) of
         Some r \<Rightarrow> (case rg_binding r of
             Some b \<Rightarrow> zoom snd (\<lambda>m (img, _). (img, m)) (binding_write sys r b addr payload) (img, m)
           | None \<Rightarrow> (Inr (), (write_bytes addr payload img, m)))
       | None \<Rightarrow> (Inr (), (write_bytes addr payload img, m)))"

definition patched_pages :: "memory_image \<Rightarrow> nat" where
  "patched_pages img = length (mi_pages img)"

definition clear_image :: "memory_image \<Rightarrow> memory_image" where
  "clear_image img = img\<lparr>mi_pages := []\<rparr>"

text \<open>Breakpoints: pages as hexadecimal text, by page number; a page that does not parse is skipped.\<close>

definition image_state :: "memory_image \<Rightarrow> (int \<times> string) list" where
  "image_state img = map (\<lambda>(n, p). (n, bytes_hex p)) (mi_pages img)"

fun restore_pages :: "(int \<times> string) list \<Rightarrow> (int \<times> bytes) list \<Rightarrow> (int \<times> bytes) list" where
  "restore_pages [] ps = ps"
| "restore_pages ((n, h) # rest) ps =
     restore_pages rest (case bytes_fromhex h of Inr p \<Rightarrow> AList.update n p ps | Inl e \<Rightarrow> ps)"

definition set_image_state :: "(int \<times> string) list option \<Rightarrow> memory_image \<Rightarrow> memory_image" where
  "set_image_state st img =
     img\<lparr>mi_pages := restore_pages (case st of Some s \<Rightarrow> s | None \<Rightarrow> []) []\<rparr>"

section \<open>The image as a map from addresses to bytes\<close>

text \<open>
  A map is page-safe when its unbound regions are whole pages and no bound region shares a page
  with one of them (the built-in map is). Then the pages materialised by writes never change
  what a byte that was not written reads as.
\<close>

definition page_safe :: "memory_map \<Rightarrow> bool" where
  "page_safe m \<longleftrightarrow>
     list_all (\<lambda>r. rg_binding r = None \<longrightarrow> 256 dvd rg_start r \<and> 256 dvd rg_size r) (mm_regions m) \<and>
     list_all (\<lambda>r. list_all (\<lambda>q. rg_binding r = None \<and> rg_binding q \<noteq> None \<longrightarrow>
       rg_end r \<le> rg_start q div 256 * 256 \<or> (rg_end q + 255) div 256 * 256 \<le> rg_start r)
       (mm_regions m)) (mm_regions m)"

definition image_ok :: "memory_image \<Rightarrow> bool" where
  "image_ok img \<longleftrightarrow> list_all (\<lambda>(n, p). length p = 256) (mi_pages img)"

lemma whole_pages:
  fixes x :: int
  assumes "256 dvd s" "s \<le> x" "x div 256 = y div 256"
  shows "s \<le> y"
proof -
  obtain k where k: "s = 256 * k" using assms(1) by (elim dvdE)
  then have "k \<le> x div 256" using assms(2) by simp
  then show ?thesis using assms(3) k by simp
qed

lemma unbound_page:
  assumes "256 dvd rg_start r" "256 dvd rg_size r" "x div 256 = y div 256" "region_contains r x 1"
  shows "region_contains r y 1"
proof -
  have e: "256 dvd rg_end r" using assms(1,2) by (simp add: rg_end_def)
  have "rg_start r \<le> y" using whole_pages [OF assms(1) _ assms(3)] assms(4) by (simp add: region_contains_def)
  moreover have "y < rg_end r"
    using whole_pages [OF e _ assms(3) [symmetric]] assms(4) unfolding region_contains_def by linarith
  ultimately show ?thesis by (simp add: region_contains_def)
qed

lemma page_bounds:
  fixes l y k :: int
  assumes "256 * l \<le> y" "y < 256 * k"
  shows "l \<le> y div 256 \<and> y div 256 < k"
proof
  show "l \<le> y div 256" using zdiv_mono1 [OF assms(1), of 256] by simp
  have "256 * (y div 256) \<le> y" using mult_div_mod_eq [of 256 y] pos_mod_sign [of 256 y] by linarith
  then show "y div 256 < k" using assms(2) by linarith
qed

lemma page_round: "y < e \<Longrightarrow> y div 256 < (e + 255) div 256" for y e :: int
  using zdiv_mono1 [of "y + 256" "e + 255" 256] by simp

lemma bound_page:
  assumes sep: "rg_end r \<le> rg_start q div 256 * 256 \<or> (rg_end q + 255) div 256 * 256 \<le> rg_start r"
    and r: "256 dvd rg_start r" "256 dvd rg_size r" "region_contains r x 1" and eq: "x div 256 = y div 256"
  shows "\<not> region_contains q y 1"
proof
  assume q: "region_contains q y 1"
  have y: "region_contains r y 1" by (rule unbound_page [OF r(1,2) eq r(3)])
  have "256 dvd rg_end r" using r by (simp add: rg_end_def)
  then obtain k l where k: "rg_end r = 256 * k" and l: "rg_start r = 256 * l" using r(1) by (auto elim!: dvdE)
  have "256 * l \<le> y" "y < 256 * k" "rg_start q \<le> y" "y < rg_end q"
    using y q unfolding region_contains_def k l by linarith+
  then have "l \<le> y div 256" "y div 256 < k" "rg_start q div 256 \<le> y div 256" "y div 256 < (rg_end q + 255) div 256"
    using page_bounds [of l y k] page_round [of y "rg_end q"] by (simp_all add: zdiv_mono1)
  then show False using sep unfolding k l by linarith
qed

lemma same_page_region:
  assumes "page_safe m" "r \<in> set (mm_regions m)" "rg_binding r = None" "region_contains r x 1"
    and eq: "x div 256 = y div 256"
  shows "region_at m y 1 = region_at m x 1"
    and "\<exists>q. region_at m x 1 = Some q \<and> rg_binding q = None"
proof -
  have r: "256 dvd rg_start r" "256 dvd rg_size r"
    using assms by (auto simp: page_safe_def list_all_iff)
  have unb: "rg_binding q \<noteq> None \<Longrightarrow> q \<in> set (mm_regions m) \<Longrightarrow> x div 256 = z div 256 \<Longrightarrow> \<not> region_contains q z 1" for q z
    using bound_page [OF _ r assms(4), of q z] assms unfolding page_safe_def list_all_iff by blast
  have c: "region_contains q y 1 \<longleftrightarrow> region_contains q x 1" if "q \<in> set (mm_regions m)" for q
  proof (cases "rg_binding q = None")
    case True
    then have "256 dvd rg_start q" "256 dvd rg_size q" using that assms(1) by (auto simp: page_safe_def list_all_iff)
    then show ?thesis using unbound_page [of q x y] unbound_page [of q y x] eq by metis
  next
    case False
    then show ?thesis using unb that eq by blast
  qed
  show "region_at m y 1 = region_at m x 1"
    unfolding region_at_def using c by (intro find_cong) auto
  obtain q where q: "region_at m x 1 = Some q"
    using assms(2,4) unfolding region_at_def by (metis find_None_iff not_Some_eq)
  then have "q \<in> set (mm_regions m)" "region_contains q x 1"
    unfolding region_at_def by (auto simp: find_Some_iff)
  then show "\<exists>q. region_at m x 1 = Some q \<and> rg_binding q = None" using unb q by blast
qed

lemma image_page: "image_ok img \<Longrightarrow> map_of (mi_pages img) n = Some p \<Longrightarrow> length p = 256"
  by (auto simp: image_ok_def list_all_iff dest!: map_of_SomeD)

lemma set_alist_update: "set (AList.update k v xs) \<subseteq> insert (k, v) (set xs)"
  by (induction xs) auto

lemma image_ok_update: "image_ok img \<Longrightarrow> length p = 256 \<Longrightarrow> image_ok (img\<lparr>mi_pages := AList.update n p (mi_pages img)\<rparr>)"
  using set_alist_update [of n p "mi_pages img"] by (auto simp: image_ok_def list_all_iff)

lemma fresh_page_nth:
  assumes "page_safe m" "r \<in> set (mm_regions m)" "rg_binding r = None" "region_contains r cur 1"
    and "a div 256 = cur div 256"
  shows "fresh_page m cur ! nat (a mod 256) = (case region_at m a 1 of Some q \<Rightarrow> fill_byte q a | None \<Rightarrow> 0)"
proof -
  let ?base = "cur div 256 * 256"
  have "cur div 256 = ?base div 256" by simp
  then have "region_at m ?base 1 = region_at m cur 1" by (rule same_page_region(1) [OF assms(1-4)])
  moreover have "region_at m a 1 = region_at m cur 1" by (rule same_page_region(1) [OF assms(1-4) assms(5) [symmetric]])
  moreover obtain q where "region_at m cur 1 = Some q" using same_page_region(2) [OF assms(1-4) refl] by blast
  moreover obtain k where k: "k = nat (a mod 256)" "k < 256" by simp
  moreover have "?base + int k = a"
    unfolding k assms(5) [symmetric] by (simp only: nat_0_le pos_mod_sign zero_less_numeral div_mult_mod_eq)
  ultimately show ?thesis
    unfolding k(1) [symmetric] by (simp add: fresh_page_def PAGE_SIZE_def Let_def)
qed

lemma write_byte_stored:
  assumes "page_safe (mi_map img)" "image_ok img" "r \<in> set (mm_regions (mi_map img))" "rg_binding r = None"
    and "region_contains r cur 1"
  shows "stored_byte (write_byte cur b img) a = (if a = cur then b else stored_byte img a)"
proof -
  define page where "page = (case map_of (mi_pages img) (cur div 256) of Some p \<Rightarrow> p | None \<Rightarrow> fresh_page (mi_map img) cur)"
  have len: "length page = 256"
    using image_page [OF assms(2)] by (auto simp: page_def fresh_page_def PAGE_SIZE_def Let_def split: option.splits)
  have w: "write_byte cur b img = img\<lparr>mi_pages := AList.update (cur div 256) (page[nat (cur mod 256) := b]) (mi_pages img)\<rparr>"
    by (simp add: write_byte_def page_def PAGE_SIZE_def Let_def)
  show ?thesis
  proof (cases "a div 256 = cur div 256")
    case True
    have old: "page ! nat (a mod 256) = stored_byte img a"
      using fresh_page_nth [OF assms(1,3-5) True] True
      by (auto simp: page_def stored_byte_def PAGE_SIZE_def split: option.splits)
    have "nat (cur mod 256) = nat (a mod 256) \<longleftrightarrow> a = cur"
      using True by (metis div_mult_mod_eq eq_nat_nat_iff pos_mod_sign zero_less_numeral)
    moreover have "nat (cur mod 256) < length page" using len by simp
    ultimately show ?thesis using old True by (simp add: w stored_byte_def PAGE_SIZE_def update_conv' nth_list_update)
  next
    case False
    then show ?thesis by (auto simp: w stored_byte_def PAGE_SIZE_def update_conv' split: option.split)
  qed
qed

lemma write_byte_ok:
  assumes "image_ok img"
  shows "image_ok (write_byte cur b img)" "mi_map (write_byte cur b img) = mi_map img"
proof -
  have "length (case map_of (mi_pages img) (cur div 256) of Some p \<Rightarrow> p | None \<Rightarrow> fresh_page (mi_map img) cur) = 256"
    using image_page [OF assms] by (auto simp: fresh_page_def PAGE_SIZE_def Let_def split: option.splits)
  then show "image_ok (write_byte cur b img)" "mi_map (write_byte cur b img) = mi_map img"
    using image_ok_update [OF assms] by (simp_all add: write_byte_def PAGE_SIZE_def Let_def)
qed

lemma write_byte_read:
  assumes "page_safe (mi_map img)" "image_ok img" "r \<in> set (mm_regions (mi_map img))" "rg_binding r = None"
    and "region_contains r cur 1"
  shows "read_byte sys m (write_byte cur b img) a = (if a = cur then Inr b else read_byte sys m img a)"
proof -
  obtain q where "region_at (mi_map img) cur 1 = Some q" "rg_binding q = None"
    using same_page_region(2) [OF assms(1,3-5) refl] by blast
  moreover note s = write_byte_stored [OF assms, of b a] write_byte_ok(2) [OF assms(2)]
  ultimately show ?thesis
    by (cases "a = cur") (simp_all add: read_byte_def s split: option.split)
qed

lemma write_bytes_read:
  assumes "page_safe (mi_map img)" "image_ok img" "r \<in> set (mm_regions (mi_map img))" "rg_binding r = None"
    and "region_contains r addr (int (length bs))"
  shows "image_ok (write_bytes addr bs img) \<and> mi_map (write_bytes addr bs img) = mi_map img \<and>
    read_byte sys m (write_bytes addr bs img) a =
      (if addr \<le> a \<and> a < addr + int (length bs) then Inr (bs ! nat (a - addr)) else read_byte sys m img a)"
  using assms
proof (induction bs arbitrary: addr img)
  case (Cons b bs)
  note w = write_byte_ok [OF Cons.prems(2), of addr b]
  have c: "region_contains r addr 1" "region_contains r (addr + 1) (int (length bs))"
    using Cons.prems(5) by (simp_all add: region_contains_def)
  note IH = Cons.IH [of "write_byte addr b img" "addr + 1"]
  note R = write_byte_read [OF Cons.prems(1-4) c(1), of sys m b a]
  have "image_ok (write_bytes (addr + 1) bs (write_byte addr b img)) \<and>
    mi_map (write_bytes (addr + 1) bs (write_byte addr b img)) = mi_map img \<and>
    read_byte sys m (write_bytes (addr + 1) bs (write_byte addr b img)) a =
      (if addr + 1 \<le> a \<and> a < addr + 1 + int (length bs) then Inr (bs ! nat (a - (addr + 1)))
       else if a = addr then Inr b else read_byte sys m img a)"
    unfolding R [symmetric] using IH Cons.prems w c by simp
  moreover have "nat (a - addr) = Suc (nat (a - (addr + 1)))" if "addr + 1 \<le> a" using that by simp
  ultimately show ?case by (auto simp: algebra_simps)
next
  case Nil
  then show ?case by auto
qed

lemma read_memory_nth:
  assumes "\<And>i. i < n \<Longrightarrow> read_byte sys m img (addr + int i) = Inr (bs ! i)" "length bs = n"
  shows "read_memory sys m img addr n = Inr bs"
  using assms
proof (induction n arbitrary: addr bs)
  case (Suc n)
  obtain b bs' where bs: "bs = b # bs'" using Suc.prems(2) by (cases bs) auto
  have "read_memory sys m img (addr + 1) n = Inr bs'"
    using Suc.prems Suc.prems(1) [of "Suc i" for i] bs by (intro Suc.IH) (auto simp: algebra_simps)
  then show ?case using Suc.prems(1) [of 0] bs by simp
qed simp

lemma region_at_SomeD:
  "region_at m addr len = Some r \<Longrightarrow> r \<in> set (mm_regions m) \<and> region_contains r addr len"
  unfolding region_at_def by (auto simp: find_Some_iff)

lemma memory_written:
  assumes "page_safe (mi_map img)" "image_ok img"
    and "region_at (mi_map img) addr (int (length payload)) = Some r" "rg_binding r = None"
  shows "\<exists>img'. write_memory sys addr payload (img, m) = (Inr (), (img', m)) \<and>
    image_ok img' \<and> mi_map img' = mi_map img \<and>
    (\<forall>a. read_byte sys m img' a =
       (if addr \<le> a \<and> a < addr + int (length payload) then Inr (payload ! nat (a - addr))
        else read_byte sys m img a)) \<and>
    read_memory sys m img' addr (length payload) = Inr payload"
proof -
  let ?i = "write_bytes addr payload img"
  have r: "r \<in> set (mm_regions (mi_map img))" "region_contains r addr (int (length payload))"
    using region_at_SomeD [OF assms(3)] by auto
  note W = write_bytes_read [OF assms(1,2) r(1) assms(4) r(2), of sys m]
  have "read_memory sys m ?i addr (length payload) = Inr payload"
    by (rule read_memory_nth) (simp_all add: W)
  then show ?thesis using W assms by (auto simp: write_memory_def)
qed

text \<open>
  The memory image refines a map from addresses to bytes. When the regions of the map are
  whole pages, a write through an unbound region overrides exactly the bytes it names: every
  address of the payload then reads as its byte, every other address (patched or not, mapped or
  not, bound to a model or not) reads as before, and dumping the written range returns the payload.
\<close>

theorem memory_write_overrides:
  assumes "page_safe (mi_map img)" "image_ok img"
    and "region_at (mi_map img) addr (int (length payload)) = Some r" "rg_binding r = None"
  shows "\<exists>img'. write_memory sys addr payload (img, m) = (Inr (), (img', m)) \<and>
    image_ok img' \<and> mi_map img' = mi_map img \<and>
    (\<forall>a. read_byte sys m img' a =
       (if addr \<le> a \<and> a < addr + int (length payload) then Inr (payload ! nat (a - addr))
        else read_byte sys m img a)) \<and>
    read_memory sys m img' addr (length payload) = Inr payload"
  by (rule memory_written [OF assms])

lemma default_map_page_safe: "page_safe default_map"
  by (simp add: page_safe_def default_map_def mk_region_def rg_end_def)

theorem memory_write_overrides_witness:
  "\<exists>img'. write_memory plain_subsystems 0x100100 [1, 2, 3] (\<lparr>mi_map = default_map, mi_pages = []\<rparr>, ()) = (Inr (), (img', ())) \<and>
    image_ok img' \<and> mi_map img' = default_map \<and>
    (\<forall>a. read_byte plain_subsystems () img' a =
       (if 0x100100 \<le> a \<and> a < 0x100103 then Inr ([1, 2, 3] ! nat (a - 0x100100))
        else read_byte plain_subsystems () \<lparr>mi_map = default_map, mi_pages = []\<rparr> a)) \<and>
    read_memory plain_subsystems () img' 0x100100 3 = Inr [1, 2, 3]"
proof -
  let ?img = "\<lparr>mi_map = default_map, mi_pages = []\<rparr>"
  obtain r where "region_at default_map 0x100100 3 = Some r" "rg_binding r = None"
    by (simp add: region_at_def default_map_def mk_region_def region_contains_def rg_end_def)
  then show ?thesis
    using memory_write_overrides [where img = ?img and addr = "0x100100" and payload = "[1, 2, 3]" and r = r and sys = plain_subsystems and m = "()"] default_map_page_safe
    by (simp add: image_ok_def numeral_3_eq_3 del: read_memory.simps)
qed

end
