(* ===== verification/Pus_Reports.thy ===== *)
theory Pus_Reports
  imports Ecss_Packet Text_Codecs Py_Float Py_State
begin

text \<open>
  The service reports of the spacecraft and their ground parsers: \<open>telemetry/tm_builder.py\<close>
  (assembly of the TM packets with the sequence counter of their APID) and
  \<open>protocol/pus_services.py\<close> (the failure notice and the parsers of the S1, S3, S5 and S20 data
  fields), both of \<open>smo_common\<close>. A text of the code is a list of code points. The formats of the
  housekeeping structures are the integer codes of \<open>struct\<close> that the mission's structures use.
\<close>

section \<open>Failure notice\<close>

definition FAILURE_REASON_MAX_BYTES :: nat where "FAILURE_REASON_MAX_BYTES = 160"

definition encode_failure_reason :: "pytext \<Rightarrow> bytes" where
  "encode_failure_reason reason =
     (if reason = [] then []
      else
        let raw = utf8_encode reason;
            raw = (if FAILURE_REASON_MAX_BYTES < length raw
                   then utf8_trim (take FAILURE_REASON_MAX_BYTES raw) else raw)
        in if raw = [] then [] else word_of_nat (length raw) # raw)"

definition decode_failure_reason :: "bytes \<Rightarrow> nat \<Rightarrow> pytext" where
  "decode_failure_reason d offset =
     (if length d \<le> offset then []
      else
        let len = unat (d ! offset)
        in if len = 0 \<or> length d < offset + 1 + len then []
           else utf8_decode_replace (pyslice (offset + 1) (offset + 1 + len) d))"

text \<open>The text of a rejection; \<open>fmt_X\<close> is the format \<open>04X\<close> and its like.\<close>

fun hex_digits_upper :: "nat \<Rightarrow> string" where
  "hex_digits_upper n =
     (if n < 16 then [''0123456789ABCDEF'' ! n]
      else hex_digits_upper (n div 16) @ [''0123456789ABCDEF'' ! (n mod 16)])"

declare hex_digits_upper.simps [simp del]

definition fmt_X :: "nat \<Rightarrow> int \<Rightarrow> string" where
  "fmt_X width n =
     (let ds = hex_digits_upper (nat \<bar>n\<bar>); sign = (if n < 0 then ''-'' else '''');
          pad = width - length ds - length sign
      in sign @ replicate pad CHR ''0'' @ ds)"

definition format_command_rejection :: "pytext \<Rightarrow> pytext \<Rightarrow> int \<Rightarrow> pytext \<Rightarrow> pytext" where
  "format_command_rejection identity stage error_code reason =
     (let t = identity @ py '' rejected at '' @ stage @ py '', err 0x'' @ py (fmt_X 4 error_code)
      in if reason \<noteq> [] then t @ py '': '' @ reason else t)"

section \<open>The packet builder\<close>

definition EVENT_AUX_TEXT_MAX :: nat where "EVENT_AUX_TEXT_MAX = 120"

record tm_builder =
  tb_apid :: int
  tb_seq_count :: int

definition make_tm_builder :: "int \<Rightarrow> tm_builder" where
  "make_tm_builder ap = \<lparr>tb_apid = ap, tb_seq_count = 0\<rparr>"

definition set_apid :: "int \<Rightarrow> tm_builder \<Rightarrow> tm_builder" where
  "set_apid ap tb =
     (let new_apid = ap AND 0x7FF
      in if new_apid \<noteq> tb_apid tb then tb\<lparr>tb_apid := new_apid, tb_seq_count := 0\<rparr> else tb)"

text \<open>
  \<open>_pack_tm\<close>: the sequence count advances before the primary header is packed, so it also does
  when the packet is too long for the length field.
\<close>

definition pack_primary_words :: "tm_builder \<Rightarrow> nat \<Rightarrow> bytes result" where
  "pack_primary_words tb n =
     bind_result (pack_be 2 ((1 * 2 ^ 11) OR (tb_apid tb AND 0x7FF))) (\<lambda>a.
     bind_result (pack_be 2 ((3 * 2 ^ 14) OR tb_seq_count tb)) (\<lambda>b.
     bind_result (pack_be 2 (int n)) (\<lambda>c. Inr (a @ b @ c))))"

definition pack_tm :: "int \<Rightarrow> int \<Rightarrow> bytes \<Rightarrow> int \<Rightarrow> (tm_builder, bytes) py" where
  "pack_tm service subtype d cuc =
     bind_py (of_result (mk_byte service)) (\<lambda>a.
     bind_py (of_result (mk_byte subtype)) (\<lambda>b.
     bind_py (of_result (pack_be 4 cuc)) (\<lambda>c.
     let payload = [0x10] @ a @ b @ c @ d
     in seq_py (modify (\<lambda>tb. tb\<lparr>tb_seq_count := (tb_seq_count tb + 1) AND 0x3FFF\<rparr>))
        (\<lambda>tb. bind_py (of_result (pack_primary_words tb (length payload + 1))) (\<lambda>ph.
          let packet = ph @ payload
          in bind_py (of_result (pack_be 2 (crc16_ccitt packet))) (\<lambda>crc. ret (packet @ crc))) tb))))"

definition request_id :: "int \<Rightarrow> int \<Rightarrow> int" where
  "request_id tc_apid tc_seq = ((tc_apid AND 0x7FF) * 2 ^ 14) OR (tc_seq AND 0x3FFF)"

definition build_verification_acceptance :: "int \<Rightarrow> int \<Rightarrow> (tm_builder, bytes) py" where
  "build_verification_acceptance tc_apid tc_seq =
     bind_py (of_result (pack_be 4 (request_id tc_apid tc_seq))) (\<lambda>d. pack_tm 1 1 d 0)"

definition build_verification_completion :: "int \<Rightarrow> int \<Rightarrow> (tm_builder, bytes) py" where
  "build_verification_completion tc_apid tc_seq =
     bind_py (of_result (pack_be 4 (request_id tc_apid tc_seq))) (\<lambda>d. pack_tm 1 7 d 0)"

definition failure_data :: "int \<Rightarrow> int \<Rightarrow> int \<Rightarrow> pytext \<Rightarrow> bytes result" where
  "failure_data tc_apid tc_seq error_code reason =
     bind_result (pack_be 4 (request_id tc_apid tc_seq)) (\<lambda>r.
     bind_result (pack_be 2 error_code) (\<lambda>c. Inr (r @ c @ encode_failure_reason reason)))"

definition build_verification_failure :: "int \<Rightarrow> int \<Rightarrow> int \<Rightarrow> pytext \<Rightarrow> (tm_builder, bytes) py" where
  "build_verification_failure tc_apid tc_seq error_code reason =
     bind_py (of_result (failure_data tc_apid tc_seq error_code reason)) (\<lambda>d. pack_tm 1 2 d 0)"

definition build_execution_failure :: "int \<Rightarrow> int \<Rightarrow> int \<Rightarrow> pytext \<Rightarrow> (tm_builder, bytes) py" where
  "build_execution_failure tc_apid tc_seq error_code reason =
     bind_py (of_result (failure_data tc_apid tc_seq error_code reason)) (\<lambda>d. pack_tm 1 8 d 0)"

text \<open>The reports below are stamped with the time \<open>now\<close> of the builder's time source.\<close>

definition build_event_packet :: "int \<Rightarrow> int \<Rightarrow> int \<Rightarrow> pytext \<Rightarrow> (tm_builder, bytes) py" where
  "build_event_packet now event_id severity aux_text =
     (let aux = take EVENT_AUX_TEXT_MAX (ascii_encode_ignore aux_text)
      in bind_py (of_result (pack_be 2 event_id)) (\<lambda>a.
         bind_py (of_result (pack_be 1 severity)) (\<lambda>b.
         bind_py (of_result (pack_be 4 now)) (\<lambda>c.
         bind_py (of_result (pack_be 1 (int (length aux)))) (\<lambda>l.
         pack_tm 5 severity (a @ b @ c @ l @ aux) now)))))"

definition build_time_report :: "int \<Rightarrow> (tm_builder, bytes) py" where
  "build_time_report cuc = bind_py (of_result (pack_be 4 cuc)) (\<lambda>d. pack_tm 9 2 d cuc)"

definition build_connection_test_report :: "int \<Rightarrow> (tm_builder, bytes) py" where
  "build_connection_test_report now = pack_tm 17 2 [] now"

definition build_param_value_report :: "int \<Rightarrow> int \<Rightarrow> py_float \<Rightarrow> (tm_builder, bytes) py" where
  "build_param_value_report now param_id value =
     bind_py (of_result (pack_be 2 param_id)) (\<lambda>a.
     bind_py (of_result (pack_f value)) (\<lambda>b. pack_tm 20 2 (a @ [1] @ b) now))"

text \<open>
  Housekeeping: \<open>round\<close> of a float is to even, of an infinity or a NaN an exception. A value that
  does not fit its field is sent as zero.
\<close>

datatype hk_format = Fmt_B | Fmt_b | Fmt_H | Fmt_h | Fmt_I | Fmt_i

fun format_size :: "hk_format \<Rightarrow> nat" where
  "format_size Fmt_B = 1" | "format_size Fmt_b = 1" | "format_size Fmt_H = 2"
| "format_size Fmt_h = 2" | "format_size Fmt_I = 4" | "format_size Fmt_i = 4"

definition format_signed :: "hk_format \<Rightarrow> bool" where
  "format_signed f \<longleftrightarrow> f \<in> {Fmt_b, Fmt_h, Fmt_i}"

definition pack_format :: "hk_format \<Rightarrow> int \<Rightarrow> bytes result" where
  "pack_format f x =
     (let n = format_size f; half = 256 ^ n div 2
      in if format_signed f
         then (if - half \<le> x \<and> x < half then Inr (be_bytes n (x mod 256 ^ n)) else Inl StructError)
         else pack_be n x)"

definition round_float :: "py_float \<Rightarrow> int result" where
  "round_float x = (case x of Fin s m \<Rightarrow> Inr (round_even (fin_val s m))
     | Infinite _ \<Rightarrow> Inl OverflowError | NaN \<Rightarrow> Inl ValueError)"

record hk_field =
  hk_param :: int
  hk_fmt :: hk_format
  hk_scale :: py_float

type_synonym params = "int \<rightharpoonup> py_float"

definition hk_value :: "params \<Rightarrow> hk_field \<Rightarrow> bytes result" where
  "hk_value ps f =
     (let v = (case ps (hk_param f) of Some v \<Rightarrow> v | None \<Rightarrow> Fin False 0)
      in case bind_result (round_float (fmul v (hk_scale f))) (pack_format (hk_fmt f)) of
           Inr b \<Rightarrow> Inr b
         | Inl e \<Rightarrow> if e = StructError \<or> e = OverflowError \<or> e = TypeError
                    then pack_format (hk_fmt f) 0 else Inl e)"

fun hk_data :: "params \<Rightarrow> hk_field list \<Rightarrow> bytes result" where
  "hk_data ps [] = Inr []"
| "hk_data ps (f # fs) =
     bind_result (hk_value ps f) (\<lambda>b. bind_result (hk_data ps fs) (\<lambda>bs. Inr (b @ bs)))"

definition build_hk_packet :: "int \<Rightarrow> int \<Rightarrow> params \<Rightarrow> hk_field list option \<Rightarrow> (tm_builder, bytes option) py" where
  "build_hk_packet now sid ps hk_structure =
     (case hk_structure of
        None \<Rightarrow> ret None
      | Some fs \<Rightarrow>
          bind_py (of_result (pack_be 2 sid)) (\<lambda>a.
          bind_py (of_result (hk_data ps fs)) (\<lambda>b.
          bind_py (pack_tm 3 25 (a @ b) now) (\<lambda>pkt. ret (Some pkt)))))"

section \<open>The ground parsers\<close>

record verification_data =
  vd_request_id :: int
  vd_tc_apid :: int
  vd_tc_seq :: int
  vd_error_code :: int
  vd_reason :: pytext

definition no_verification :: verification_data where
  "no_verification = \<lparr>vd_request_id = 0, vd_tc_apid = 0, vd_tc_seq = 0, vd_error_code = 0, vd_reason = []\<rparr>"

definition parse_verification :: "bytes \<Rightarrow> int \<Rightarrow> verification_data" where
  "parse_verification d subtype =
     (if length d < 4 then no_verification
      else if subtype = 4 then
        (let r = be_int (take 2 d)
         in \<lparr>vd_request_id = r, vd_tc_apid = 0, vd_tc_seq = r AND 0x3FFF,
             vd_error_code = be_int (pyslice 2 4 d), vd_reason = decode_failure_reason d 4\<rparr>)
      else
        (let r = be_int (take 4 d); failed = subtype \<in> {2, 8} \<and> 6 \<le> length d
         in \<lparr>vd_request_id = r, vd_tc_apid = (r div 2 ^ 14) AND 0x7FF, vd_tc_seq = r AND 0x3FFF,
             vd_error_code = (if failed then be_int (pyslice 4 6 d) else 0),
             vd_reason = (if failed then decode_failure_reason d 6 else [])\<rparr>))"

record event_data =
  ed_event_id :: int
  ed_severity :: int
  ed_cuc_time :: int
  ed_aux_text :: pytext

definition parse_event :: "bytes \<Rightarrow> event_data" where
  "parse_event d =
     (if length d < 3 then \<lparr>ed_event_id = 0, ed_severity = 1, ed_cuc_time = 0, ed_aux_text = []\<rparr>
      else
        \<lparr>ed_event_id = be_int (take 2 d), ed_severity = be_int (pyslice 2 3 d),
         ed_cuc_time = (if 7 \<le> length d then be_int (pyslice 3 7 d) else 0),
         ed_aux_text =
           (if 8 \<le> length d then
              let aux_len = unat (d ! 7)
              in if 8 + aux_len \<le> length d then ascii_decode_replace (pyslice 8 (8 + aux_len) d) else []
            else [])\<rparr>)"

record hk_report =
  hr_sid :: int
  hr_raw_data :: bytes

definition parse_housekeeping :: "bytes \<Rightarrow> hk_report" where
  "parse_housekeeping d =
     (if length d < 2 then \<lparr>hr_sid = 0, hr_raw_data = []\<rparr>
      else \<lparr>hr_sid = be_int (take 2 d), hr_raw_data = drop 2 d\<rparr>)"

record parameter_value =
  pv_param_id :: int
  pv_validity :: int
  pv_value :: py_float

definition parse_parameter_value :: "bytes \<Rightarrow> parameter_value" where
  "parse_parameter_value d =
     (if length d < 7 then \<lparr>pv_param_id = 0, pv_validity = 0, pv_value = Fin False 0\<rparr>
      else \<lparr>pv_param_id = be_int (take 2 d), pv_validity = be_int (pyslice 2 3 d),
            pv_value = unpack_f (pyslice 3 7 d)\<rparr>)"

datatype service_data =
  Verification verification_data | Housekeeping hk_report | Event_report event_data
| Parameter_value parameter_value

definition parse_service_data :: "int \<Rightarrow> int \<Rightarrow> bytes \<Rightarrow> service_data option" where
  "parse_service_data service subtype d =
     (if service = 1 then Some (Verification (parse_verification d subtype))
      else if service = 3 \<and> subtype = 25 then Some (Housekeeping (parse_housekeeping d))
      else if service = 5 then Some (Event_report (parse_event d))
      else if service = 20 \<and> subtype = 2 then Some (Parameter_value (parse_parameter_value d))
      else None)"

section \<open>Packets of the builder\<close>

text \<open>
  The builder's packets are those of \<open>finish_packet\<close> with the PUS version nibble 0; the counter
  it uses is the one it leaves behind.
\<close>

definition tb_next :: "tm_builder \<Rightarrow> tm_builder" where
  "tb_next tb = tb\<lparr>tb_seq_count := (tb_seq_count tb + 1) mod 16384\<rparr>"

definition tb_ok :: "tm_builder \<Rightarrow> bool" where
  "tb_ok tb \<longleftrightarrow> 0 \<le> tb_seq_count tb \<and> tb_seq_count tb < 16384"

lemma tb_next_ok: "tb_ok (tb_next tb)"
  by (simp add: tb_ok_def tb_next_def)

lemma primary_words:
  assumes "tb_ok tb" "n < 65536"
  shows "pack_primary_words tb n = Inr
     (be_bytes 2 (2048 + tb_apid tb mod 2048) @ be_bytes 2 (49152 + tb_seq_count tb) @ be_bytes 2 (int n))"
proof -
  have "push_bit 11 1 OR (tb_apid tb AND 2047) = 2048 + tb_apid tb mod 2048"
    using or_shift_add [of "tb_apid tb mod 2048" 11 1] by (simp only: and_masks) simp
  then have a: "2048 OR (tb_apid tb AND 2047) = 2048 + tb_apid tb mod 2048" by simp
  have b: "49152 OR tb_seq_count tb = 49152 + tb_seq_count tb"
    using or_shift_add [of "tb_seq_count tb" 14 3] assms by (simp add: tb_ok_def)
  have "tb_apid tb mod 2048 < 2048" by simp
  then have "2048 + tb_apid tb mod 2048 < 65536" by linarith
  then show ?thesis
    using assms by (simp add: pack_primary_words_def a b tb_ok_def del: be_bytes.simps)
qed

lemma finish_words:
  assumes "tb_ok tb" "length payload < 65535"
  shows "bind_result (pack_primary_words tb (length payload + 1))
      (\<lambda>ph. bind_result (pack_be 2 (crc16_ccitt (ph @ payload))) (\<lambda>c. Inr (ph @ payload @ c)))
    = finish_packet packet_type_TM (tb_apid tb) (tb_seq_count tb) payload"
proof -
  let ?h = "packet_header packet_type_TM (tb_apid tb) (tb_seq_count tb) (length payload)"
  have t: "0 \<le> packet_type_TM" "packet_type_TM < 2" by (simp_all add: packet_type_TM_def)
  have s: "tb_seq_count tb mod 16384 = tb_seq_count tb" using assms(1) by (simp add: tb_ok_def)
  have "pack_primary_words tb (length payload + 1) = primary_pack ?h"
    using primary_words [OF assms(1), of "length payload + 1"] assms(2) s
      primary_pack_eq [OF wf_packet_header [OF t assms(2), of "tb_apid tb" "tb_seq_count tb"]]
    by (simp add: packet_header_def packet_type_TM_def add.commute del: be_bytes.simps)
  then show ?thesis
    using finish_packet_eq [OF t assms(2), of "tb_apid tb" "tb_seq_count tb"] crc16_range
    by (auto simp del: be_bytes.simps)
qed

lemma pack_tm_finish:
  assumes "srv \<in> {0..<256}" "sub \<in> {0..<256}" "cuc \<in> {0..<2 ^ 32}" "length d + 7 < 65535"
  shows "pack_tm srv sub d cuc tb =
     (finish_packet packet_type_TM (tb_apid tb) (tb_seq_count (tb_next tb))
        ([0x10, word_of_int srv, word_of_int sub] @ be_bytes 4 cuc @ d), tb_next tb)"
proof -
  let ?p = "[0x10, word_of_int srv, word_of_int sub] @ be_bytes 4 cuc @ d"
  have m: "tb\<lparr>tb_seq_count := (tb_seq_count tb + 1) AND 16383\<rparr> = tb_next tb"
    by (simp add: tb_next_def and_masks)
  have l: "length ?p < 65535" using assms by (simp del: be_bytes.simps)
  have "pack_tm srv sub d cuc tb = (bind_result (pack_primary_words (tb_next tb) (length ?p + 1))
      (\<lambda>ph. bind_result (pack_be 2 (crc16_ccitt (ph @ ?p))) (\<lambda>c. Inr (ph @ ?p @ c))), tb_next tb)"
    using assms m primary_words [OF tb_next_ok, of "length ?p + 1"] l crc16_range
    by (simp add: pack_tm_def Let_def ret_def del: be_bytes.simps)
  then show ?thesis
    using finish_words [OF tb_next_ok l, of tb] by (simp add: tb_next_def del: be_bytes.simps)
qed

lemma pack_tm_fails:
  assumes "\<not> (srv \<in> {0..<256} \<and> sub \<in> {0..<256} \<and> cuc \<in> {0..<2 ^ 32} \<and> length d + 7 < 65535)"
  shows "\<exists>e. fst (pack_tm srv sub d cuc tb) = Inl e"
proof (cases "srv \<in> {0..<256} \<and> sub \<in> {0..<256} \<and> cuc \<in> {0..<2 ^ 32}")
  case True
  then have "\<not> length d + 8 < 65536" using assms by auto
  then have "pack_be 2 (int (length d + 8)) = Inl StructError" by (simp add: pack_be_def)
  then have "\<exists>e. pack_primary_words tb' (length d + 8) = Inl e" for tb'
    by (cases "pack_be 2 (1 * 2 ^ 11 OR (tb_apid tb' AND 0x7FF))"; cases "pack_be 2 (3 * 2 ^ 14 OR tb_seq_count tb')")
      (simp_all add: pack_primary_words_def)
  then obtain e where "pack_primary_words (tb\<lparr>tb_seq_count := (tb_seq_count tb + 1) AND 16383\<rparr>) (length d + 8) = Inl e"
    by blast
  then show ?thesis using True by (simp add: pack_tm_def Let_def add.commute del: be_bytes.simps)
next
  case False
  then show ?thesis
    by (auto simp: pack_tm_def mk_byte_def pack_be_def not_less Let_def)
qed

text \<open>A packet of the builder, as the ground reads it.\<close>

definition tm_reads :: "tm_builder \<Rightarrow> int \<Rightarrow> int \<Rightarrow> int \<Rightarrow> bytes \<Rightarrow> bytes \<Rightarrow> bool" where
  "tm_reads tb srv sub cuc d pkt \<longleftrightarrow> length pkt = length d + 15 \<and>
     (\<forall>rest. \<exists>c. decommutate_packet (pkt @ rest) = Inr (Some
       \<lparr>dp_primary = packet_header packet_type_TM (tb_apid tb) (tb_seq_count tb) (length d + 7),
        dp_secondary = Some \<lparr>sh_pus_version = 0, sh_service = srv, sh_subtype = sub, sh_cuc_time = cuc\<rparr>,
        dp_data_field = d, dp_crc = c, dp_crc_valid = True, dp_raw = pkt\<rparr>))"

lemma pack_tm_reads:
  assumes "srv \<in> {0..<256}" "sub \<in> {0..<256}" "cuc \<in> {0..<2 ^ 32}" "length d + 7 < 65535"
  shows "\<exists>pkt. pack_tm srv sub d cuc tb = (Inr pkt, tb_next tb) \<and> tm_reads (tb_next tb) srv sub cuc d pkt"
proof -
  let ?sh = "[0x10, word_of_int srv, word_of_int sub] @ be_bytes 4 cuc"
  have sh: "length ?sh = 7" by (simp del: be_bytes.simps)
  have t: "0 \<le> packet_type_TM" "packet_type_TM < 2" "length (?sh @ d) < 65535"
    using assms sh by (simp_all add: packet_type_TM_def del: be_bytes.simps)
  let ?ap = "tb_apid tb" and ?sc = "tb_seq_count (tb_next tb)"
  obtain pkt where pkt: "finish_packet packet_type_TM ?ap ?sc (?sh @ d) = Inr pkt"
    using finish_packet_eq [OF t] by blast
  note D = decommutate_finish(1) [OF t pkt] decommutate_finish(2,3) [OF t pkt]
  have len: "length pkt = length d + 15" using D(2) sh by (simp del: be_bytes.simps)
  have p: "pyslice 6 (length d + 13) pkt = ?sh @ d" using D(3) sh by (simp add: add.commute del: be_bytes.simps)
  have "pyslice 6 13 pkt = take 7 (pyslice 6 (length d + 13) pkt)" by (simp add: pyslice_def min_def)
  then have s6: "pyslice 6 13 pkt = ?sh" using p sh by (simp del: be_bytes.simps)
  have "pyslice 13 (length d + 13) pkt = drop 7 (pyslice 6 (length d + 13) pkt)"
    by (simp add: pyslice_def drop_take)
  then have s13: "pyslice 13 (13 + length d) pkt = d" using p sh by (simp add: add.commute del: be_bytes.simps)
  have u: "uint (word_of_int srv :: byte) = srv" "uint (word_of_int sub :: byte) = sub"
    unfolding uint_word_of_int_byte using assms by simp_all
  have q: "pyslice 3 7 ?sh = be_bytes 4 cuc" by (simp add: pyslice_def numeral_3_eq_3 del: be_bytes.simps)
  have "secondary_unpack ?sh = Inr \<lparr>sh_pus_version = 0, sh_service = srv, sh_subtype = sub, sh_cuc_time = cuc\<rparr>"
    using sh u q assms unfolding secondary_unpack_def by (simp add: be_int_be_bytes del: be_bytes.simps)
  then have "decommutate_fields (pkt @ rest) (packet_header packet_type_TM ?ap ?sc (length (?sh @ d))) (length pkt)
    = Inr (Some \<lparr>sh_pus_version = 0, sh_service = srv, sh_subtype = sub, sh_cuc_time = cuc\<rparr>, d)" for rest
    using len by (simp add: decommutate_fields_def packet_header_def packet_type_TM_def
        packet_type_TC_def pyslice_append_left s6 s13 del: be_bytes.simps)
  then have "tm_reads (tb_next tb) srv sub cuc d pkt"
    using D(1) len sh by (simp add: tm_reads_def add.commute tb_next_def del: be_bytes.simps)
  moreover have "pack_tm srv sub d cuc tb = (Inr pkt, tb_next tb)"
    using pack_tm_finish [OF assms, of tb] pkt by (simp del: be_bytes.simps)
  ultimately show ?thesis by blast
qed

end
