(* ===== verification/On_Board.thy ===== *)
theory On_Board
  imports Memory_Map Pus_Reports Tc_Scheduler Tm_Storage
begin

text \<open>
  The state of the on-board software that the telecommand path works on (the relevant attributes
  of \<open>SimulationEngine\<close>, \<open>ServiceDispatcher\<close> and \<open>ObcpManager\<close>) and the way a telemetry packet
  takes out of it: \<open>_enqueue_tm\<close>, \<open>_put_tm\<close> and \<open>_emit_event\<close> of \<open>smo_simulator/engine.py\<close>.
  What is fixed while the software runs is a record of its own, \<open>config\<close>: the subsystem models, the
  housekeeping structures, the pacing of the downlink, \<open>cf_time\<close>, the time stamp of the tick,
  \<open>cf_rate\<close>, the TM rate of the active tier, and \<open>cf_order\<close>, the order in which a set of numbers is
  iterated.
\<close>

section \<open>State\<close>

record s12_definition =
  md_mon_id :: int
  md_param_id :: int
  md_check_type :: int
  md_low :: py_float
  md_high :: py_float
  md_enabled :: bool
  md_last_value :: "py_float option"
  md_severity :: string
  md_name :: pytext
  md_description :: pytext

record ea_definition =
  ea_event_type :: int
  ea_trigger_kind :: int
  ea_func_id :: int
  ea_action_data :: bytes

datatype transfer_status = ACTIVE | PAUSED | COMPLETE

record transfer =
  xf_scene_id :: int
  xf_size_mb :: int
  xf_total_blocks :: int
  xf_blocks_sent :: int
  xf_status :: transfer_status

record hk_definition =
  hd_interval :: py_float
  hd_param_ids :: "int list"

record dispatcher =
  ds_err_reason :: pytext
  ds_err_code :: int
  ds_exec_fail :: "(int \<times> pytext) option"
  ds_request_id :: int
  ds_custom_sids :: "(int \<times> hk_definition) list"
  ds_event_types :: "int set"
  ds_s12 :: "(int \<times> s12_definition) list"
  ds_s12_enabled :: bool
  ds_s19 :: "(int \<times> ea_definition) list"
  ds_s19_enabled :: "int set"
  ds_transfers :: "(int \<times> transfer) list"
  ds_transfer_counter :: int

definition new_dispatcher :: dispatcher where
  "new_dispatcher = \<lparr>ds_err_reason = [], ds_err_code = 0, ds_exec_fail = None, ds_request_id = 0,
     ds_custom_sids = [], ds_event_types = set (map int [0..<256]), ds_s12 = [], ds_s12_enabled = True,
     ds_s19 = [], ds_s19_enabled = {}, ds_transfers = [], ds_transfer_counter = 1\<rparr>"

text \<open>An event: its severity is a number or one of the models' names, its other entries are kept.\<close>

datatype severity = Sev_int int | Sev_name string

record event =
  ev_id :: int
  ev_severity :: severity
  ev_description :: pytext
  ev_extra :: "(string \<times> pyval) list"

record obcp_step =
  os_delay :: py_float
  os_tc :: bytes

record obcp_procedure =
  op_name :: pytext
  op_steps :: "obcp_step list"

record obcp_run =
  or_step_index :: nat
  or_wait :: py_float
  or_param :: int

text \<open>A limit violation, as \<open>check_monitoring\<close> reports it.\<close>

record violation =
  vi_param_id :: int
  vi_mon_id :: int
  vi_value :: py_float
  vi_raw_value :: py_float
  vi_low :: py_float
  vi_high :: py_float
  vi_check_type :: int
  vi_severity :: int
  vi_name :: pytext
  vi_description :: pytext

record 'm engine =
  en_models :: 'm
  en_params :: params
  en_builder :: tm_builder
  en_disp :: dispatcher
  en_memory :: memory_image
  en_scheduler :: tc_scheduler
  en_storage :: tm_storage
  en_procedures :: "(int \<times> obcp_procedure) list"
  en_running :: "(int \<times> obcp_run) list"
  en_hk_enabled :: "(int \<times> bool) list"
  en_hk_intervals :: "(int \<times> py_float) list"
  en_hk_timers :: "(int \<times> py_float) list"
  en_violation_active :: "int set"
  en_violation_records :: "(int \<times> violation) list"
  en_phase :: int
  en_sep_timer :: py_float
  en_in_contact :: bool
  en_override_passes :: bool
  en_auto_tx :: py_float
  en_tm_queue :: "bytes list"
  en_tm_enqueued :: nat
  en_tm_drops :: nat
  en_rt_pending :: "bytes list"
  en_rt_budget :: py_float
  en_event_queue :: "event list"
  en_dump_pending :: "(bytes \<times> int) list"
  en_dump_active :: "int list"
  en_dump_budget :: py_float

record 'm config =
  cf_sys :: "'m subsystems"
  cf_time :: rat
  cf_hk_structures :: "int \<rightharpoonup> hk_field list"
  cf_pacing :: bool
  cf_rt_backlog_max :: nat
  cf_auto_tx_hold :: py_float
  cf_rate :: "'m \<Rightarrow> py_float"
  cf_order :: "int set \<Rightarrow> int list"
  cf_bootloader_apid :: int
  cf_application_apid :: int
  cf_default_sids :: "int list"

abbreviation on_models :: "('m, 'a) py \<Rightarrow> ('m engine, 'a) py" where
  "on_models \<equiv> zoom en_models (\<lambda>m e. e\<lparr>en_models := m\<rparr>)"

abbreviation on_builder :: "(tm_builder, 'a) py \<Rightarrow> ('m engine, 'a) py" where
  "on_builder \<equiv> zoom en_builder (\<lambda>b e. e\<lparr>en_builder := b\<rparr>)"

abbreviation on_disp :: "(dispatcher \<Rightarrow> dispatcher) \<Rightarrow> ('m engine, unit) py" where
  "on_disp f \<equiv> modify (\<lambda>e. e\<lparr>en_disp := f (en_disp e)\<rparr>)"

text \<open>\<open>getattr(subsystem._state, attr, None)\<close>, and the comparison of a value with an integer.\<close>

definition attr_of :: "'m config \<Rightarrow> string \<Rightarrow> string \<Rightarrow> 'm engine \<Rightarrow> pyval option" where
  "attr_of cf name attr e =
     (if sy_present (cf_sys cf) name then sy_attr (cf_sys cf) name attr (en_models e) else None)"

definition is_number :: "int \<Rightarrow> pyval \<Rightarrow> bool" where
  "is_number k v = (case v of VInt n \<Rightarrow> n = k | VBool b \<Rightarrow> of_bool b = k
     | VFloat (Fin s m) \<Rightarrow> fin_val s m = of_int k | _ \<Rightarrow> False)"

definition power_line :: "'m config \<Rightarrow> string \<Rightarrow> bool \<Rightarrow> 'm engine \<Rightarrow> bool" where
  "power_line cf name dflt e =
     (if sy_present (cf_sys cf) ''eps''
      then (case sy_power_line (cf_sys cf) name (en_models e) of Some b \<Rightarrow> b | None \<Rightarrow> dflt) else dflt)"

text \<open>\<open>_get_cuc_time\<close>, the time source of the packet builder.\<close>

definition cuc_time :: "'m config \<Rightarrow> 'm engine \<Rightarrow> int" where
  "cuc_time cf e =
     (if sy_present (cf_sys cf) ''obdh''
      then (case sy_attr (cf_sys cf) ''obdh'' ''obc_time_cuc'' (en_models e) of Some (VInt k) \<Rightarrow> k | _ \<Rightarrow> 0)
      else 0)"

text \<open>\<open>int(params.get(0x0311, 1))\<close>: the software image, 0 for the bootloader.\<close>

definition image_param :: "'m engine \<Rightarrow> int result" where
  "image_param e = (case en_params e 0x0311 of None \<Rightarrow> Inr 1 | Some v \<Rightarrow> trunc_float v)"

section \<open>Formatting\<close>

text \<open>\<open>f"{x:.nf}"\<close>: \<open>places\<close> decimals, the exact value rounded half to even.\<close>

definition fmt_fixed :: "nat \<Rightarrow> py_float \<Rightarrow> string" where
  "fmt_fixed places x = (case x of
       NaN \<Rightarrow> ''nan''
     | Infinite s \<Rightarrow> (if s then ''-inf'' else ''inf'')
     | Fin s m \<Rightarrow>
         (let n = nat (round_even (m * 10 ^ places)); f = decimal (n mod 10 ^ places)
          in (if s then ''-'' else []) @ decimal (n div 10 ^ places) @
             (if places = 0 then [] else ''.'' @ replicate (places - length f) (CHR ''0'') @ f)))"

section \<open>Sending telemetry\<close>

definition TM_QUEUE_SIZE :: nat where "TM_QUEUE_SIZE = 2000"
definition EVENT_QUEUE_SIZE :: nat where "EVENT_QUEUE_SIZE = 500"

definition downlink_active :: "'m engine \<Rightarrow> bool" where
  "downlink_active e =
     (en_in_contact e \<and> (case en_params e 0x0501 of Some v \<Rightarrow> fbool v | None \<Rightarrow> True) \<or> en_override_passes e)"

definition uplink_active :: "'m engine \<Rightarrow> bool" where
  "uplink_active e =
     (en_in_contact e \<and> (case en_params e 0x0501 of Some v \<Rightarrow> fbool v | None \<Rightarrow> True) \<or> en_override_passes e)"

definition put_tm :: "bytes \<Rightarrow> 'm engine \<Rightarrow> 'm engine" where
  "put_tm pkt e =
     (if length (en_tm_queue e) < TM_QUEUE_SIZE
      then e\<lparr>en_tm_queue := en_tm_queue e @ [pkt], en_tm_enqueued := en_tm_enqueued e + 1\<rparr>
      else e\<lparr>en_tm_drops := en_tm_drops e + 1\<rparr>)"

definition downlink_tm :: "'m config \<Rightarrow> bytes \<Rightarrow> 'm engine \<Rightarrow> 'm engine" where
  "downlink_tm cf pkt e =
     (if \<not> downlink_active e then e
      else if cf_pacing cf then
        (if cf_rt_backlog_max cf \<le> length (en_rt_pending e) then e\<lparr>en_tm_drops := en_tm_drops e + 1\<rparr>
         else e\<lparr>en_rt_pending := en_rt_pending e @ [pkt]\<rparr>)
      else put_tm pkt e)"

definition file_packet :: "int \<Rightarrow> bytes \<Rightarrow> ('m engine, unit) py" where
  "file_packet service pkt =
     (\<lambda>e. case store_packet service pkt 0 (en_storage e) of
        Inl err \<Rightarrow> (Inl err, e) | Inr (ok, s) \<Rightarrow> (Inr (), e\<lparr>en_storage := s\<rparr>))"

definition enqueue_tm :: "'m config \<Rightarrow> bytes \<Rightarrow> ('m engine, unit) py" where
  "enqueue_tm cf pkt =
     seq_py (modify (downlink_tm cf pkt))
     (if length pkt \<le> 13 then ret ()
      else bind_py (\<lambda>e. (image_param e, e)) (\<lambda>sw_image.
        if sw_image = 0 then ret ()
        else bind_py (of_result (decommutate_packet pkt)) (\<lambda>parsed.
          case parsed of None \<Rightarrow> ret ()
          | Some p \<Rightarrow> (case dp_secondary p of None \<Rightarrow> ret () | Some s \<Rightarrow> file_packet (sh_service s) pkt))))"

definition send_tm :: "'m config \<Rightarrow> (tm_builder, bytes) py \<Rightarrow> ('m engine, unit) py" where
  "send_tm cf b = bind_py (on_builder b) (enqueue_tm cf)"

section \<open>Events\<close>

definition upper_char :: "char \<Rightarrow> char" where
  "upper_char c = (let n = of_char c :: nat in if 97 \<le> n \<and> n \<le> 122 then char_of (n - 32) else c)"

definition strip_text :: "string \<Rightarrow> string" where
  "strip_text s = rev (dropWhile hex_space (rev (dropWhile hex_space s)))"

definition SEVERITY_NAME_TO_INT :: "string \<rightharpoonup> int" where
  "SEVERITY_NAME_TO_INT = map_of
     [(''INFO'', 1), (''LOW'', 1), (''DEBUG'', 1), (''WARNING'', 2), (''WARN'', 2), (''MEDIUM'', 2),
      (''ALARM'', 3), (''HIGH'', 3), (''ERROR'', 3), (''CRITICAL'', 4), (''SEVERE'', 4), (''FATAL'', 4)]"

definition severity_level :: "severity \<Rightarrow> int" where
  "severity_level sv = (case sv of Sev_int k \<Rightarrow> k
     | Sev_name s \<Rightarrow> (case SEVERITY_NAME_TO_INT (map upper_char (strip_text s)) of Some k \<Rightarrow> k | None \<Rightarrow> 1))"

definition TRIGGER_KIND_EVENT :: int where "TRIGGER_KIND_EVENT = 0"
definition TRIGGER_KIND_PARAM :: int where "TRIGGER_KIND_PARAM = 1"

definition store_alarm_tm :: "'m config \<Rightarrow> bytes \<Rightarrow> 'm engine \<Rightarrow> 'm engine" where
  "store_alarm_tm cf pkt e =
     (case store_alarm pkt (cf_time cf) (en_storage e) of Inl _ \<Rightarrow> e | Inr (ok, s) \<Rightarrow> e\<lparr>en_storage := s\<rparr>)"

definition queue_event :: "event \<Rightarrow> 'm engine \<Rightarrow> 'm engine" where
  "queue_event ev e =
     (if length (en_event_queue e) < EVENT_QUEUE_SIZE then e\<lparr>en_event_queue := en_event_queue e @ [ev]\<rparr> else e)"

text \<open>The part of \<open>_emit_event\<close> before the event-action rules, and the call it makes to them.\<close>

definition report_event :: "'m config \<Rightarrow> event \<Rightarrow> ('m engine, unit) py" where
  "report_event cf ev =
     (let sev = severity_level (ev_severity ev)
      in bind_py (\<lambda>e. on_builder (build_event_packet (cuc_time cf e) (ev_id ev) sev (ev_description ev)) e) (\<lambda>pkt.
         seq_py (enqueue_tm cf pkt)
         (seq_py
            (if 2 \<le> sev
             then bind_py (\<lambda>e. (image_param e, e)) (\<lambda>sw. when_py (sw \<noteq> 0) (modify (store_alarm_tm cf pkt)))
             else ret ())
            (modify (queue_event ev)))))"

definition event_trigger :: "event \<Rightarrow> int \<times> int" where
  "event_trigger ev =
     (if ev_id ev AND 0xF000 = 0x9000 then (ev_id ev AND 0x0FFF, TRIGGER_KIND_PARAM)
      else (ev_id ev, TRIGGER_KIND_EVENT))"

end
