(* ===== verification/Function_Routing.thy ===== *)
theory Function_Routing
  imports On_Board
begin

text \<open>
  Function management (S8) of \<open>smo_simulator/service_dispatch.py\<close>: \<open>_handle_s8\<close> and its routes,
  which decode the argument bytes of a function and command the subsystem that owns it, and the
  maps from functions to power lines and subsystems that the acceptance gates use. \<open>emit\<close> stands
  for \<open>_emit_event\<close>, which calls back into this module through the event-action rules.
\<close>

section \<open>Commanding a subsystem\<close>

definition make_error_response :: "pytext option \<Rightarrow> int option \<Rightarrow> ('m engine, bytes list) py" where
  "make_error_response message error_code =
     seq_py (on_disp (\<lambda>d. d
       \<lparr>ds_err_reason := (case message of Some t \<Rightarrow> t | None \<Rightarrow> py ''Unknown error''),
        ds_err_code := (case error_code of Some c \<Rightarrow> c | None \<Rightarrow> 1)\<rparr>)) (ret [])"

definition cmd :: "'m config \<Rightarrow> string \<Rightarrow> command \<Rightarrow> ('m engine, reply) py" where
  "cmd cf name c =
     (if \<not> sy_present (cf_sys cf) name then ret empty_reply
      else bind_py (on_models (sy_command (cf_sys cf) name c)) (\<lambda>r. case r of
          None \<Rightarrow> ret empty_reply
        | Some rp \<Rightarrow>
            if rp_success rp = Some False
            then seq_py (make_error_response (rp_message rp) (rp_error_code rp)) (ret rp)
            else ret rp))"

definition cmd_only :: "'m config \<Rightarrow> string \<Rightarrow> string \<Rightarrow> command \<Rightarrow> ('m engine, bytes list) py" where
  "cmd_only cf name verb args = seq_py (cmd cf name ((''command'', VStr verb) # args)) (ret [])"

definition succeeded :: "reply \<Rightarrow> bool" where
  "succeeded rp \<longleftrightarrow> rp_success rp = Some True"

text \<open>A report through \<open>tm_builder._pack_tm\<close>.\<close>

definition report :: "int \<Rightarrow> int \<Rightarrow> bytes \<Rightarrow> ('m engine, bytes list) py" where
  "report service subtype d = bind_py (on_builder (pack_tm service subtype d 0)) (\<lambda>pkt. ret [pkt])"

text \<open>Argument fields, with the code's defaults for missing bytes.\<close>

definition arg_byte :: "nat \<Rightarrow> int \<Rightarrow> bytes \<Rightarrow> int" where
  "arg_byte i dflt d = (if i < length d then uint (d ! i) else dflt)"

definition arg_flag :: "bool \<Rightarrow> bytes \<Rightarrow> bool" where
  "arg_flag dflt d = (if d = [] then dflt else d ! 0 \<noteq> 0)"

definition arg_u16 :: "nat \<Rightarrow> bytes \<Rightarrow> int" where
  "arg_u16 i d = (if i + 2 \<le> length d then be_int (pyslice i (i + 2) d) else 0)"

definition arg_f32 :: "nat \<Rightarrow> bytes \<Rightarrow> py_float" where
  "arg_f32 i d = unpack_f (pyslice i (i + 4) d)"

definition signed16 :: "int \<Rightarrow> int" where
  "signed16 n = (if 0x8000 \<le> n then n - 0x10000 else n)"

section \<open>Execution-start failures\<close>

definition generate_s1_exec_fail :: "int \<Rightarrow> int \<Rightarrow> pytext \<Rightarrow> ('m engine, bytes list) py" where
  "generate_s1_exec_fail req error_code reason =
     bind_py (of_result (pack_be 2 req)) (\<lambda>a.
     bind_py (of_result (pack_be 2 error_code)) (\<lambda>b.
     seq_py (on_disp (\<lambda>d. d\<lparr>ds_exec_fail := Some (error_code, reason)\<rparr>))
     (report 1 4 (a @ b @ encode_failure_reason reason))))"

text \<open>The call all handlers make, with the request of the command being dispatched.\<close>

definition refuse :: "int \<Rightarrow> pytext \<Rightarrow> ('m engine, bytes list) py" where
  "refuse error_code reason =
     bind_py (gets (\<lambda>e. ds_request_id (en_disp e))) (\<lambda>r. generate_s1_exec_fail r error_code reason)"

section \<open>Propulsion and quick actions\<close>

text \<open>
  Values out of a reply or of a dictionary in it, with the code's defaults, and \<open>struct.pack\<close> of
  several floats.
\<close>

definition dict_of :: "(string \<rightharpoonup> pyval) \<Rightarrow> string \<Rightarrow> (string \<times> pyval) list" where
  "dict_of m k = (case m k of Some (VDict d) \<Rightarrow> d | _ \<Rightarrow> [])"

definition get_int :: "(string \<rightharpoonup> pyval) \<Rightarrow> string \<Rightarrow> int \<Rightarrow> int result" where
  "get_int m k dflt = (case m k of Some v \<Rightarrow> val_int v | None \<Rightarrow> Inr dflt)"

definition get_float :: "(string \<rightharpoonup> pyval) \<Rightarrow> string \<Rightarrow> py_float result" where
  "get_float m k = (case m k of Some v \<Rightarrow> val_float v | None \<Rightarrow> Inr (Fin False 0))"

fun get_floats :: "(string \<rightharpoonup> pyval) \<Rightarrow> string list \<Rightarrow> py_float list result" where
  "get_floats m [] = Inr []"
| "get_floats m (k # ks) = bind_result (get_float m k) (\<lambda>x. bind_result (get_floats m ks) (\<lambda>xs. Inr (x # xs)))"

fun pack_fs :: "py_float list \<Rightarrow> bytes result" where
  "pack_fs [] = Inr []"
| "pack_fs (x # xs) = bind_result (pack_f x) (\<lambda>a. bind_result (pack_fs xs) (\<lambda>b. Inr (a @ b)))"

definition prop_status :: "(string \<rightharpoonup> pyval) \<Rightarrow> bytes result" where
  "prop_status st =
     bind_result (get_int st ''state'' 0) (\<lambda>s.
     bind_result (get_floats st [''tank_p_bar'', ''propellant_g'', ''catbed_c'', ''dv_remaining_m_s'']) (\<lambda>fs.
     bind_result (get_int st ''arm_inhibit_mask'' 0) (\<lambda>m.
     bind_result (get_int st ''abort_reason'' 0) (\<lambda>r.
     bind_result (pack_fs fs) (\<lambda>a.
     Inr (be_bytes 1 (s AND 0xFF) @ a @ be_bytes 2 (m AND 0xFFFF) @ be_bytes 1 (r AND 0xFF)))))))"

definition route_prop_cmd :: "'m config \<Rightarrow> int \<Rightarrow> bytes \<Rightarrow> ('m engine, bytes list) py" where
  "route_prop_cmd cf func_id d =
     (let p = cmd_only cf ''prop'' in
      if \<not> sy_present (cf_sys cf) ''prop'' then ret []
      else if func_id = 108 then p ''arm'' [(''arm_code'', VInt (arg_u16 0 d))]
      else if func_id = 109 then p ''disarm'' []
      else if func_id = 110 then
        (if 10 \<le> length d
         then p ''set_burn'' [(''dv_m_s'', VFloat (arg_f32 0 d)), (''direction'', VInt (uint (d ! 4))),
                (''mode'', VInt (uint (d ! 5))), (''t_start_cuc'', VInt (be_int (pyslice 6 10 d)))]
         else make_error_response
                (Some (py ''PROP_SET_BURN needs dv(f32)+direction(u8)+mode(u8)+t_start(u32)'')) (Some 3))
      else if func_id = 111 then p ''execute'' []
      else if func_id = 112 then p ''abort'' []
      else if func_id = 113 then p ''iso_open'' [(''branch'', VInt (arg_byte 0 2 d))]
      else if func_id = 114 then p ''iso_close'' [(''branch'', VInt (arg_byte 0 2 d))]
      else if func_id = 115 then
        (if 16 \<le> length d
         then p ''set_limits'' [(''att_err_max_deg'', VFloat (arg_f32 0 d)), (''p_min_bar'', VFloat (arg_f32 4 d)),
                (''catbed_max_c'', VFloat (arg_f32 8 d)), (''t_burn_max_s'', VFloat (arg_f32 12 d))]
         else ret [])
      else if func_id = 116 then p ''inhibit_set'' [(''on'', VBool (arg_flag True d))]
      else if func_id = 117 then p ''inhibit_clr'' [(''key'', VInt (arg_u16 0 d))]
      else if func_id = 118 then
        bind_py (cmd cf ''prop'' [(''command'', VStr ''get_status'')]) (\<lambda>rp.
          let st = dict_of (rp_fields rp) ''status''
          in if st = [] then ret []
             else bind_py (of_result (prop_status (map_of st))) (\<lambda>resp. report 8 2 resp))
      else ret [])"

definition route_legacy_quick_action :: "'m config \<Rightarrow> int \<Rightarrow> ('m engine, bytes list) py" where
  "route_legacy_quick_action cf func_id =
     (let eps = sy_present (cf_sys cf) ''eps''; tcs = sy_present (cf_sys cf) ''tcs'';
          array = (\<lambda>verb a. cmd_only cf ''eps'' verb [(''array'', VStr a)]);
          heater = (\<lambda>c on. cmd_only cf ''tcs'' ''heater'' [(''circuit'', VStr c), (''on'', VBool on)])
      in if func_id = 100 \<and> eps then array ''enable_array'' ''A''
         else if func_id = 101 \<and> eps then array ''disable_array'' ''A''
         else if func_id = 102 \<and> eps then array ''enable_array'' ''B''
         else if func_id = 103 \<and> eps then array ''disable_array'' ''B''
         else if func_id = 104 \<and> tcs then heater ''battery'' True
         else if func_id = 105 \<and> tcs then heater ''battery'' False
         else if func_id = 106 \<and> tcs then heater ''obc'' True
         else if func_id = 107 \<and> tcs then heater ''obc'' False
         else ret [])"

section \<open>Attitude control\<close>

definition momentum_report :: "reply \<Rightarrow> bytes result" where
  "momentum_report rp =
     bind_result (get_floats (rp_fields rp) [''total_momentum_nms'', ''saturation_percent'']) pack_fs"

definition ERR_ARGUMENT_TEXTS :: "int \<Rightarrow> pytext" where
  "ERR_ARGUMENT_TEXTS func_id =
     (if func_id = 86 then py ''AOCS_SET_TARGET_QUAT needs 16 data bytes (4x float32)''
      else if func_id = 87 then py ''AOCS_SET_TARGET_GEO needs 12 data bytes (3x float32)''
      else py ''AOCS_SET_CONTROL_BW needs 8 data bytes (2x float32)'')"

definition route_aocs_cmd :: "'m config \<Rightarrow> int \<Rightarrow> bytes \<Rightarrow> ('m engine, bytes list) py" where
  "route_aocs_cmd cf func_id d =
     (let a = cmd_only cf ''aocs'' in
      if \<not> sy_present (cf_sys cf) ''aocs'' then ret []
      else if func_id = 0 then a ''set_mode'' [(''mode'', VInt (arg_byte 0 0 d))]
      else if func_id = 1 then a ''desaturate'' []
      else if func_id = 2 then a ''disable_wheel'' [(''wheel'', VInt (arg_byte 0 0 d))]
      else if func_id = 3 then a ''enable_wheel'' [(''wheel'', VInt (arg_byte 0 0 d))]
      else if func_id = 4 then a ''st_power'' [(''unit'', VInt 1), (''on'', VBool (arg_flag True d))]
      else if func_id = 5 then a ''st_power'' [(''unit'', VInt 2), (''on'', VBool (arg_flag True d))]
      else if func_id = 6 then a ''st_select'' [(''unit'', VInt (arg_byte 0 1 d))]
      else if func_id = 7 then a ''mag_select'' [(''source'', VStr (if arg_byte 0 0 d \<noteq> 0 then ''B'' else ''A''))]
      else if func_id = 8 then
        (if 5 \<le> length d
         then a ''rw_set_speed_bias'' [(''wheel'', VInt (uint (d ! 0))), (''bias'', VFloat (arg_f32 1 d))]
         else ret [])
      else if func_id = 9 then a (if arg_flag True d then ''mtq_enable'' else ''mtq_disable'') []
      else if func_id = 10 then
        (if 20 \<le> length d
         then a ''slew_to_quaternion'' [(''quaternion'', VFloats (map (\<lambda>i. arg_f32 i d) [0, 4, 8, 12])),
                (''rate_dps'', VFloat (arg_f32 16 d))]
         else ret [])
      else if func_id = 11 then
        bind_py (cmd cf ''aocs'' [(''command'', VStr ''check_momentum'')]) (\<lambda>rp.
          if succeeded rp then bind_py (of_result (momentum_report rp)) (\<lambda>resp. report 8 130 resp) else ret [])
      else if func_id = 12 then a ''begin_acquisition'' []
      else if func_id = 13 then a ''gyro_calibration'' []
      else if func_id = 14 then
        a ''rw_ramp_down'' [(''wheel'', VInt (arg_byte 0 255 d)),
          (''target_rpm'', VFloat (if 5 \<le> length d then arg_f32 1 d else Fin False 0))]
      else if func_id = 15 then
        a ''set_deadband'' [(''deadband_deg'', VFloat (if 4 \<le> length d then arg_f32 0 d else fl (1 / 100)))]
      else if func_id = 84 then a ''gps_set_start_mode'' [(''start_mode'', VInt (arg_byte 0 0 d))]
      else if func_id = 85 then a ''set_pointing_frame'' [(''frame'', VInt (arg_byte 0 1 d))]
      else if func_id = 86 then
        (if 16 \<le> length d
         then a ''set_target_quat'' [(''quaternion'', VFloats (map (\<lambda>i. arg_f32 i d) [0, 4, 8, 12]))]
         else refuse ERR_BAD_ARGUMENT (ERR_ARGUMENT_TEXTS func_id))
      else if func_id = 87 then
        (if 12 \<le> length d
         then a ''set_target_geo'' [(''lat'', VFloat (arg_f32 0 d)), (''lon'', VFloat (arg_f32 4 d)),
                (''alt_m'', VFloat (arg_f32 8 d))]
         else refuse ERR_BAD_ARGUMENT (ERR_ARGUMENT_TEXTS func_id))
      else if func_id = 88 then
        (if 8 \<le> length d
         then a ''set_control_bw'' [(''omega_n'', VFloat (arg_f32 0 d)), (''zeta'', VFloat (arg_f32 4 d))]
         else refuse ERR_BAD_ARGUMENT (ERR_ARGUMENT_TEXTS func_id))
      else if func_id = 89 then
        bind_py (cmd cf ''aocs'' [(''command'', VStr ''fine_ready_check'')]) (\<lambda>rp.
        bind_py (of_result (get_int (rp_fields rp) ''fine_ready_mask'' 0x7F)) (\<lambda>mask.
        report 8 130 (be_bytes 1 (mask AND 0xFF))))
      else if func_id = 90 then
        a ''set_mom_mgmt'' [(''enable'', VBool (arg_flag False d)), (''entry_pct'', VInt (arg_byte 1 70 d)),
          (''exit_pct'', VInt (arg_byte 2 20 d))]
      else if func_id = 91 then a ''est_reset'' [(''mode'', VInt (arg_byte 0 0 d))]
      else ret [])"

section \<open>Power\<close>

definition cooler :: "'m config \<Rightarrow> bool \<Rightarrow> ('m engine, bytes list) py" where
  "cooler cf on = cmd_only cf ''tcs'' ''fpa_cooler'' [(''on'', VBool on)]"

definition route_eps_cmd :: "'m config \<Rightarrow> int \<Rightarrow> bytes \<Rightarrow> ('m engine, bytes list) py" where
  "route_eps_cmd cf func_id d =
     (let p = cmd_only cf ''eps'' in
      if \<not> sy_present (cf_sys cf) ''eps'' then ret []
      else if func_id = 16 then
        (let mode = arg_byte 0 0 d
         in seq_py (p ''set_payload_mode'' [(''mode'', VInt mode)])
            (seq_py (cmd_only cf ''payload'' ''set_mode'' [(''mode'', VInt mode)]) (cooler cf (1 \<le> mode))))
      else if func_id = 17 then
        (let on = arg_flag False d
         in seq_py (p ''set_fpa_cooler'' [(''on'', VBool on)]) (cooler cf on))
      else if func_id = 18 then p ''set_transponder_tx'' [(''on'', VBool (arg_flag True d))]
      else if func_id = 19 then (if d = [] then ret [] else p ''power_line_on'' [(''line_index'', VInt (uint (d ! 0)))])
      else if func_id = 20 then (if d = [] then ret [] else p ''power_line_off'' [(''line_index'', VInt (uint (d ! 0)))])
      else if func_id = 21 then (if d = [] then ret [] else p ''reset_oc_flag'' [(''line_index'', VInt (uint (d ! 0)))])
      else if func_id = 22 then
        (if 2 \<le> length d
         then p ''switch_load'' [(''load_id'', VInt (uint (d ! 0))), (''state'', VBool (d ! 1 \<noteq> 0))] else ret [])
      else if func_id = 23 then
        (if 4 \<le> length d then p ''set_charge_rate'' [(''rate_a'', VFloat (arg_f32 0 d))] else ret [])
      else if func_id = 24 then
        (if 2 \<le> length d
         then p ''set_solar_array_drive'' [(''angle_deg'', VFloat (fl (of_int (signed16 (arg_u16 0 d)) / 100)))]
         else ret [])
      else if func_id = 25 then (if d = [] then ret [] else p ''emergency_load_shed'' [(''stage'', VInt (uint (d ! 0)))])
      else if func_id = 81 then
        (let b = arg_byte 0 2 d
         in p ''deploy_wing'' [(''wing'', VStr (if b = 0 then ''py'' else if b = 1 then ''my'' else ''both''))])
      else if func_id = 82 then p ''get_wing_status'' []
      else if func_id = 83 then p ''set_eps_mode'' [(''mode'', VInt (arg_byte 0 1 d))]
      else ret [])"

section \<open>Payload\<close>

text \<open>A fixed-point argument: \<open>n * x\<close> for an integer and a float.\<close>

definition scaled :: "int \<Rightarrow> rat \<Rightarrow> py_float" where
  "scaled n x = fmul (of_pyint n) (fl x)"

definition length_error :: "string \<Rightarrow> ('m engine, bytes list) py" where
  "length_error text = make_error_response (Some (py text)) (Some 3)"

definition route_payload_cmd :: "'m config \<Rightarrow> int \<Rightarrow> bytes \<Rightarrow> ('m engine, bytes list) py" where
  "route_payload_cmd cf func_id d =
     (let p = cmd_only cf ''payload'' in
      if \<not> sy_present (cf_sys cf) ''payload'' then ret []
      else if func_id = 26 then
        (let mode = arg_byte 0 0 d
         in bind_py (cmd cf ''payload'' [(''command'', VStr ''set_mode''), (''mode'', VInt mode)]) (\<lambda>rp.
              if succeeded rp then cooler cf (1 \<le> mode) else ret []))
      else if func_id = 27 then p ''set_scene'' [(''scene_id'', VInt (arg_u16 0 d))]
      else if func_id = 28 then p ''capture'' [(''scene_id'', VInt (arg_u16 0 d)), (''lines'', VInt (arg_u16 2 d))]
      else if func_id = 29 then p ''download_image'' [(''scene_id'', VInt (arg_u16 0 d))]
      else if func_id = 30 then p ''delete_image'' [(''scene_id'', VInt (arg_u16 0 d))]
      else if func_id = 31 then p ''mark_bad_segment'' [(''segment'', VInt (arg_byte 0 0 d))]
      else if func_id = 32 then p ''get_image_catalog'' []
      else if func_id = 33 then p ''set_band_config'' [(''mask'', VInt (arg_byte 0 0x0F d))]
      else if func_id = 34 then
        (if 8 \<le> length d
         then p ''set_integration_time''
                [(''times'', VFloats (map (\<lambda>i. scaled (arg_u16 i d) (1 / 100)) [0, 2, 4, 6]))]
         else length_error ''PAYLOAD_SET_INTEGRATION_TIME needs 4x uint16 (0.01 ms/LSB, blue/green/red/nir)'')
      else if func_id = 35 then
        (if 2 \<le> length d
         then p ''set_detector_gain'' [(''gain'', VFloat (scaled (arg_u16 0 d) (1 / 1000)))]
         else length_error ''PAYLOAD_SET_GAIN needs uint16 milli-gain (100-10000 = 0.100-10.000)'')
      else if func_id = 36 then
        (if 2 \<le> length d
         then (let setpoint = fsub (scaled (arg_u16 0 d) (1 / 100)) (fl (27315 / 100))
               in seq_py (p ''set_cooler_setpoint'' [(''setpoint'', VFloat setpoint)])
                  (bind_py (gets (\<lambda>e. ds_err_reason (en_disp e))) (\<lambda>r.
                     if r = [] then cmd_only cf ''tcs'' ''set_fpa_setpoint'' [(''setpoint_c'', VFloat setpoint)]
                     else ret [])))
         else length_error ''PAYLOAD_COOLER_SETPOINT needs uint16 centi-kelvin (25315-27315 = -20..0 degC)'')
      else if func_id = 37 then p ''start_calibration'' [(''mode'', VInt (arg_byte 0 2 d))]
      else if func_id = 38 then p ''stop_calibration'' []
      else if func_id = 39 then
        (if 2 \<le> length d
         then p ''set_compression''
                [(''algorithm'', VInt (uint (d ! 0))), (''ratio'', VFloat (scaled (uint (d ! 1)) (1 / 10)))]
         else length_error ''PAYLOAD_SET_COMPRESSION needs algorithm(u8) + ratio_deci(u8, 0=auto)'')
      else if func_id = 92 then p ''select_filter'' [(''position'', VInt (arg_byte 0 0 d))]
      else if func_id = 93 then p ''cycle_shutter'' [(''cycles'', VInt (arg_byte 0 1 d))]
      else if func_id = 94 then p ''initiate_transfer'' [(''scene_id'', VInt (arg_u16 0 d))]
      else if func_id = 95 then p ''set_cal_lamp'' [(''on'', VBool (arg_flag False d))]
      else ret [])"

section \<open>Thermal control\<close>

definition thermal_keys :: "string list" where
  "thermal_keys = [''temp_panel_px'', ''temp_panel_mx'', ''temp_panel_py'', ''temp_panel_my'', ''temp_panel_pz'',
     ''temp_panel_mz'', ''temp_obc'', ''temp_battery'', ''temp_fpa'', ''temp_thruster'']"

definition route_tcs_cmd :: "'m config \<Rightarrow> int \<Rightarrow> bytes \<Rightarrow> ('m engine, bytes list) py" where
  "route_tcs_cmd cf func_id d =
     (let t = cmd_only cf ''tcs'';
          heater = (\<lambda>c. t ''heater'' [(''circuit'', VStr c), (''on'', VBool (arg_flag True d))])
      in if \<not> sy_present (cf_sys cf) ''tcs'' then ret []
      else if func_id = 40 then heater ''battery''
      else if func_id = 41 then heater ''obc''
      else if func_id = 42 then heater ''thruster''
      else if func_id = 43 then cooler cf (arg_flag True d)
      else if func_id = 44 then
        (if 9 \<le> length d
         then t ''set_setpoint'' [(''circuit'', VInt (uint (d ! 0))), (''on_temp'', VFloat (arg_f32 1 d)),
                (''off_temp'', VFloat (arg_f32 5 d))]
         else ret [])
      else if func_id = 45 then t ''auto_mode'' [(''circuit'', VInt (arg_byte 0 0 d))]
      else if func_id = 46 then
        (if 2 \<le> length d
         then t ''set_heater_duty_limit''
                [(''circuit'', VInt (uint (d ! 0))), (''duty_limit_pct'', VFloat (of_pyint (uint (d ! 1))))]
         else ret [])
      else if func_id = 47 then
        t ''decontamination_start''
          [(''target_temp_c'', VFloat (if 4 \<le> length d then arg_f32 0 d else Fin False 50))]
      else if func_id = 48 then t ''decontamination_stop'' []
      else if func_id = 49 then
        bind_py (cmd cf ''tcs'' [(''command'', VStr ''get_thermal_map'')]) (\<lambda>rp.
          if \<not> succeeded rp then ret []
          else bind_py (of_result (get_floats (map_of (dict_of (rp_fields rp) ''thermal_map'')) thermal_keys)) (\<lambda>vs.
               bind_py (of_result (pack_fs vs)) (\<lambda>resp. report 8 2 resp)))
      else ret [])"

section \<open>On-board computer\<close>

definition data_reply :: "'m config \<Rightarrow> string \<Rightarrow> ('m engine, bytes list) py" where
  "data_reply cf verb =
     bind_py (cmd cf ''obdh'' [(''command'', VStr verb)]) (\<lambda>rp.
       if \<not> succeeded rp then ret []
       else case rp_fields rp ''data'' of
              None \<Rightarrow> report 8 2 [] | Some (VBytes b) \<Rightarrow> report 8 2 b | Some _ \<Rightarrow> raise TypeError)"

text \<open>The attributes \<open>GPS time sync\<close> forces on the attitude model after a large jump.\<close>

definition safe_boot :: "'m subsystems \<Rightarrow> 'm \<Rightarrow> 'm" where
  "safe_boot sy m =
     sy_set_attr sy ''aocs'' ''time_in_mode'' (VFloat (Fin False 0))
       (sy_set_attr sy ''aocs'' ''submode'' (VInt 0) (sy_set_attr sy ''aocs'' ''mode'' (VInt 1) m))"

definition float_abs :: "py_float \<Rightarrow> py_float" where
  "float_abs x = (case x of Fin s m \<Rightarrow> Fin False m | Infinite s \<Rightarrow> Infinite False | NaN \<Rightarrow> NaN)"

definition jump_event :: "py_float \<Rightarrow> event" where
  "jump_event j = \<lparr>ev_id = 0x020F, ev_severity = Sev_name ''HIGH'',
     ev_description = py (''AOCS forced to SAFE_BOOT: GPS time sync jump '' @ fmt_fixed 1 j @ ''s''), ev_extra = []\<rparr>"

definition gps_time_sync :: "'m config \<Rightarrow> (event \<Rightarrow> ('m engine, unit) py) \<Rightarrow> ('m engine, bytes list) py" where
  "gps_time_sync cf emit =
     bind_py (\<lambda>e. on_models (sy_gps_time_sync (cf_sys cf) (en_params e) (cf_time cf)) e) (\<lambda>r.
       case r of None \<Rightarrow> ret []
       | Some rp \<Rightarrow>
           if rp_success rp = Some False then make_error_response (rp_message rp) (rp_error_code rp)
           else if \<not> succeeded rp then ret []
           else bind_py (of_result (get_float (rp_fields rp) ''time_jump_s'')) (\<lambda>j.
                if fless (Fin False 5) (float_abs j) \<and> sy_present (cf_sys cf) ''aocs''
                then seq_py (modify (\<lambda>e. e\<lparr>en_models := safe_boot (cf_sys cf) (en_models e)\<rparr>))
                     (seq_py (emit (jump_event j)) (ret []))
                else ret []))"

definition route_obdh_cmd ::
  "'m config \<Rightarrow> (event \<Rightarrow> ('m engine, unit) py) \<Rightarrow> int \<Rightarrow> bytes \<Rightarrow> ('m engine, bytes list) py" where
  "route_obdh_cmd cf emit func_id d =
     (let p = cmd_only cf ''obdh'' in
      if \<not> sy_present (cf_sys cf) ''obdh'' then ret []
      else if func_id = 50 then p ''set_mode'' [(''mode'', VInt (arg_byte 0 0 d))]
      else if func_id = 51 then p ''memory_scrub'' []
      else if func_id = 52 then p ''obc_reboot'' []
      else if func_id = 53 then p ''obc_switch_unit'' []
      else if func_id = 54 then p ''obc_select_bus'' [(''bus'', VInt (arg_byte 0 0 d))]
      else if func_id = 55 then p ''obc_boot_app'' []
      else if func_id = 56 then p ''obc_boot_inhibit'' [(''inhibit'', VBool (arg_flag True d))]
      else if func_id = 57 then p ''obc_clear_reboot_cnt'' []
      else if func_id = 58 then
        (if 2 \<le> length d then p ''set_watchdog_period'' [(''period'', VInt (arg_u16 0 d))] else ret [])
      else if func_id = 59 then p ''watchdog_enable'' []
      else if func_id = 60 then p ''watchdog_disable'' []
      else if func_id = 61 then data_reply cf ''diagnostic''
      else if func_id = 62 then data_reply cf ''error_log''
      else if func_id = 80 then gps_time_sync cf emit
      else ret [])"

section \<open>Radio\<close>

definition route_ttc_cmd :: "'m config \<Rightarrow> int \<Rightarrow> bytes \<Rightarrow> ('m engine, bytes list) py" where
  "route_ttc_cmd cf func_id d =
     (let p = cmd_only cf ''ttc'';
          on = [(''on'', VBool (arg_flag True d))];
          tuned = (\<lambda>verb k. if 4 \<le> length d then p verb [(k, VFloat (arg_f32 0 d))] else ret [])
      in if \<not> sy_present (cf_sys cf) ''ttc'' then ret []
      else if func_id = 63 then p ''switch_primary'' []
      else if func_id = 64 then p ''switch_redundant'' []
      else if func_id = 65 then
        bind_py (gets (\<lambda>e. sy_default_rate (cf_sys cf) (en_models e))) (\<lambda>dflt.
          p ''set_tm_rate'' [(''rate'', VInt (if 4 \<le> length d then be_int (take 4 d) else arg_byte 0 dflt d))])
      else if func_id = 66 then p ''pa_on'' []
      else if func_id = 67 then p ''pa_off'' []
      else if func_id = 68 then
        (if d \<noteq> [] then p ''set_tx_power'' [(''level'', VInt (uint (d ! 0)))]
         else length_error ''TTC_SET_TX_POWER needs a 1-byte level (0=LOW 1 W, 1=NOMINAL 2 W, 2=HIGH 5 W)'')
      else if func_id = 69 then p ''deploy_antennas'' []
      else if func_id = 70 then p ''set_beacon_mode'' on
      else if func_id = 71 then p ''cmd_channel_start'' []
      else if func_id = 72 then tuned ''set_ul_freq'' ''freq_mhz''
      else if func_id = 73 then tuned ''set_dl_freq'' ''freq_mhz''
      else if func_id = 74 then p ''set_modulation'' [(''mode'', VInt (arg_byte 0 0 d))]
      else if func_id = 75 then tuned ''set_rx_gain'' ''agc_db''
      else if func_id = 76 then p ''ranging_start'' []
      else if func_id = 77 then p ''ranging_stop'' []
      else if func_id = 78 then p ''set_coherent_mode'' on
      else if func_id = 79 then p ''set_downlink_mode'' on
      else ret [])"

section \<open>Routing\<close>

definition handle_s8 ::
  "'m config \<Rightarrow> (event \<Rightarrow> ('m engine, unit) py) \<Rightarrow> int \<Rightarrow> bytes \<Rightarrow> ('m engine, bytes list) py" where
  "handle_s8 cf emit subtype data =
     (if subtype \<noteq> 1 \<or> data = [] then ret []
      else let f = uint (data ! 0); d = drop 1 data in
        if f < 16 then route_aocs_cmd cf f d
        else if f < 26 then route_eps_cmd cf f d
        else if f < 40 then route_payload_cmd cf f d
        else if f < 50 then route_tcs_cmd cf f d
        else if f < 63 then route_obdh_cmd cf emit f d
        else if f < 80 then route_ttc_cmd cf f d
        else if f = 80 then route_obdh_cmd cf emit f d
        else if f < 84 then route_eps_cmd cf f d
        else if f < 92 then route_aocs_cmd cf f d
        else if f < 96 then route_payload_cmd cf f d
        else if 108 \<le> f \<and> f < 119 then route_prop_cmd cf f d
        else if 100 \<le> f \<and> f < 108 then route_legacy_quick_action cf f
        else ret [])"

section \<open>Owners of the functions\<close>

definition func_id_owner :: "int \<Rightarrow> string option" where
  "func_id_owner f =
     (if 0 \<le> f \<and> f < 16 then Some ''aocs_wheels'' else if 16 \<le> f \<and> f < 26 then None
      else if 26 \<le> f \<and> f < 40 then Some ''payload'' else if 40 \<le> f \<and> f < 63 then None
      else if 63 \<le> f \<and> f < 79 then Some ''ttc_tx'' else None)"

definition func_id_subsys :: "int \<Rightarrow> string option" where
  "func_id_subsys f =
     (if 0 \<le> f \<and> f < 16 then Some ''aocs'' else if 16 \<le> f \<and> f < 26 then None
      else if 26 \<le> f \<and> f < 40 then Some ''payload'' else None)"

end
