(* ===== verification/Memory_Service.thy ===== *)
theory Memory_Service
  imports Function_Routing
begin

text \<open>
  Memory management (S6) of \<open>smo_simulator/service_dispatch.py\<close>: the two wire formats of a
  request, its limits and refusals, load, dump and check over the memory image, and the CRC of the
  check report, which is proved to be the CRC of the packets.
\<close>

section \<open>Requests\<close>

type_synonym mem_request = "int \<times> int \<times> int \<times> bytes"

definition mem_candidates :: "bool \<Rightarrow> bytes \<Rightarrow> mem_request list" where
  "mem_candidates with_length d =
     (let fixed = (if with_length then 6 else 4) in
      (if fixed + 1 \<le> length d
       then [(uint (d ! 0), be_int (pyslice 1 5 d), if with_length then be_int (pyslice 5 7 d) else 0,
              drop (if with_length then 7 else 5) d)] else []) @
      (if fixed \<le> length d
       then [(0, be_int (take 4 d), if with_length then be_int (pyslice 4 6 d) else 0,
              drop (if with_length then 6 else 4) d)] else []))"

definition mem_probe :: "bool \<Rightarrow> mem_request \<Rightarrow> int" where
  "mem_probe with_length c = (case c of (mem_id, addr, len, payload) \<Rightarrow>
     if with_length then len else max 1 (int (length payload)))"

definition decode_mem_request :: "memory_map \<Rightarrow> bool \<Rightarrow> bytes \<Rightarrow> mem_request option" where
  "decode_mem_request m with_length d =
     (let cands = mem_candidates with_length d in
      if cands = [] then None
      else case List.find (\<lambda>c. is_mapped m (fst (snd c)) (mem_probe with_length c)) cands of
             Some c \<Rightarrow> Some c | None \<Rightarrow> Some (last cands))"

section \<open>The check sequence\<close>

definition mem_crc_shift :: "int \<Rightarrow> int" where
  "mem_crc_shift crc =
     (let c = push_bit 1 crc; c = (if c AND 0x10000 \<noteq> 0 then c XOR 0x1021 else c) in c AND 0xFFFF)"

definition mem_crc_byte :: "int \<Rightarrow> byte \<Rightarrow> int" where
  "mem_crc_byte crc b = (mem_crc_shift ^^ 8) (crc XOR push_bit 8 (uint b))"

definition mem_crc16 :: "bytes \<Rightarrow> int" where
  "mem_crc16 d = foldl mem_crc_byte 0xFFFF d"

section \<open>Telecommands\<close>

definition generate_s1_progress :: "int \<Rightarrow> int \<Rightarrow> ('m engine, bytes list) py" where
  "generate_s1_progress req step =
     bind_py (of_result (pack_be 2 req)) (\<lambda>a. bind_py (of_result (pack_be 1 step)) (\<lambda>b. report 1 5 (a @ b)))"

definition on_memory :: "(memory_image \<times> 'm, 'a) py \<Rightarrow> ('m engine, 'a) py" where
  "on_memory = zoom (\<lambda>e. (en_memory e, en_models e)) (\<lambda>(img, m) e. e\<lparr>en_memory := img, en_models := m\<rparr>)"

definition read_image :: "'m config \<Rightarrow> int \<Rightarrow> int \<Rightarrow> ('m engine, bytes) py" where
  "read_image cf addr len =
     bind_py (gets (\<lambda>e. read_memory (cf_sys cf) (en_models e) (en_memory e) addr (nat len))) of_result"

definition address_text :: "int \<Rightarrow> int \<Rightarrow> string" where
  "address_text addr len = ''0x'' @ fmt_X 8 addr @ ''+'' @ str_int len"

definition exceeds_text :: "string \<Rightarrow> int \<Rightarrow> nat \<Rightarrow> string \<Rightarrow> pytext" where
  "exceeds_text verb n limit what =
     py (verb @ '': '' @ str_int n @ '' bytes exceeds the '' @ str_int (int limit) @ ''-byte '' @ what @ '' limit'')"

definition mem_load :: "'m config \<Rightarrow> mem_request \<Rightarrow> memory_map \<Rightarrow> ('m engine, bytes list) py" where
  "mem_load cf req m =
     (case req of (mem_id, addr, _, payload) \<Rightarrow>
       let n = int (length payload) in
       if payload = [] then refuse ERR_BAD_ARGUMENT (py ''S6 MEM_LOAD: no data to write'')
       else if lim_load (mm_limits m) < length payload
         then refuse ERR_LENGTH_EXCEEDED (exceeds_text ''S6 MEM_LOAD'' n (lim_load (mm_limits m)) ''load'')
       else case region_at m addr n of
           None \<Rightarrow> refuse ERR_ILLEGAL_ADDRESS
                     (py (''S6 MEM_LOAD: '' @ address_text addr n @ '' is not in any declared memory region''))
         | Some r \<Rightarrow>
             if \<not> writable r
             then refuse ERR_WRITE_PROTECTED
                    (py (''S6 MEM_LOAD: region '' @ [CHR 0x27] @ rg_name r @ [CHR 0x27] @ '' at 0x'' @ fmt_X 8 addr @ '' is read-only''))
             else seq_py (on_memory (write_memory (cf_sys cf) addr payload)) (generate_s1_progress 0 1))"

text \<open>The tests MEM_DUMP and MEM_CHECK share; \<open>act\<close> runs on an address and a length that pass.\<close>

definition mem_fetch ::
  "string \<Rightarrow> string \<Rightarrow> nat \<Rightarrow> (int \<Rightarrow> int \<Rightarrow> ('m engine, bytes list) py) \<Rightarrow> mem_request \<Rightarrow> memory_map \<Rightarrow>
   ('m engine, bytes list) py" where
  "mem_fetch verb what limit act req m =
     (case req of (mem_id, addr, len, _) \<Rightarrow>
       if len \<le> 0 then refuse ERR_BAD_ARGUMENT (py (verb @ '': zero-length request''))
       else if int limit < len then refuse ERR_LENGTH_EXCEEDED (exceeds_text verb len limit what)
       else if \<not> is_mapped m addr len
         then refuse ERR_ILLEGAL_ADDRESS (py (verb @ '': '' @ address_text addr len @ '' is not mapped''))
       else act addr len)"

definition mem_dump :: "'m config \<Rightarrow> int \<Rightarrow> int \<Rightarrow> ('m engine, bytes list) py" where
  "mem_dump cf addr len =
     bind_py (read_image cf addr len) (\<lambda>content.
     bind_py (of_result (pack_be 4 addr)) (\<lambda>a.
     bind_py (of_result (pack_be 2 (int (length content)))) (\<lambda>n. report 6 6 (a @ n @ content))))"

definition mem_check :: "'m config \<Rightarrow> int \<Rightarrow> int \<Rightarrow> ('m engine, bytes list) py" where
  "mem_check cf addr len =
     bind_py (read_image cf addr len) (\<lambda>content.
     bind_py (of_result (pack_be 4 addr)) (\<lambda>a.
     bind_py (of_result (pack_be 2 len)) (\<lambda>n.
     bind_py (of_result (pack_be 2 (mem_crc16 content))) (\<lambda>c. report 6 10 (a @ n @ c)))))"

definition decoded :: "string \<Rightarrow> bool \<Rightarrow> bytes \<Rightarrow>
    (mem_request \<Rightarrow> memory_map \<Rightarrow> ('m engine, bytes list) py) \<Rightarrow> ('m engine, bytes list) py" where
  "decoded verb with_length d act =
     bind_py (gets (\<lambda>e. mi_map (en_memory e))) (\<lambda>m.
       case decode_mem_request m with_length d of
         None \<Rightarrow> refuse ERR_BAD_ARGUMENT (py (verb @ '': malformed request''))
       | Some req \<Rightarrow> act req m)"

definition handle_s6 :: "'m config \<Rightarrow> int \<Rightarrow> bytes \<Rightarrow> ('m engine, bytes list) py" where
  "handle_s6 cf subtype d =
     (if subtype = 2 \<and> 5 \<le> length d then decoded ''S6 MEM_LOAD'' False d (mem_load cf)
      else if subtype = 5 \<and> 6 \<le> length d then
        decoded ''S6 MEM_DUMP'' True d (\<lambda>req m.
          mem_fetch ''S6 MEM_DUMP'' ''dump'' (lim_dump (mm_limits m)) (mem_dump cf) req m)
      else if subtype = 9 \<and> 6 \<le> length d then
        decoded ''S6 MEM_CHECK'' True d (\<lambda>req m.
          mem_fetch ''S6 MEM_CHECK'' ''check'' (lim_check (mm_limits m)) (mem_check cf) req m)
      else ret [])"

section \<open>The CRC of a check is the CRC of a packet\<close>

lemma mem_crc_shift_word: "(word_of_int (mem_crc_shift c) :: 16 word) = crc_shift16 (word_of_int c)"
proof -
  have b: "bit (push_bit 1 c) 16 = bit c 15"
    by (simp only: bit_push_bit_iff) simp
  have "(push_bit 1 c AND 0x10000 \<noteq> 0) = bit (word_of_int c :: 16 word) 15"
    using and_exp_eq_0_iff_not_bit [of "push_bit 1 c" 16] b by (simp add: bit_word_of_int_iff)
  moreover have "(word_of_int (push_bit 1 c) :: 16 word) = push_bit 1 (word_of_int c)"
    by (simp add: push_bit_eq_mult)
  moreover have "(word_of_int (x AND 0xFFFF) :: 16 word) = word_of_int x" for x
    by (simp only: and_mask_65535) (simp add: word_of_int_eq_iff take_bit_eq_mod)
  moreover have "(word_of_int (push_bit 1 c XOR 0x1021) :: 16 word) = word_of_int (push_bit 1 c) XOR 0x1021"
    by (simp only: of_int_xor_eq of_int_numeral)
  ultimately show ?thesis by (simp add: mem_crc_shift_def crc_shift16_def Let_def)
qed

lemma mem_crc_shifts_word: "(word_of_int ((mem_crc_shift ^^ n) c) :: 16 word) = (crc_shift16 ^^ n) (word_of_int c)"
  by (induction n) (simp_all add: mem_crc_shift_word)

lemma mem_crc_shift_range: "0 \<le> mem_crc_shift c \<and> mem_crc_shift c < 65536"
  by (simp add: mem_crc_shift_def and_mask_65535 Let_def)

lemma mem_crc_byte_word: "mem_crc_byte c b = uint (crc_byte16 (word_of_int c) b)"
proof -
  let ?x = "c XOR push_bit 8 (uint b)"
  have "(word_of_int ?x :: 16 word) = word_of_int c XOR push_bit 8 (ucast b)"
    by (rule bit_word_eqI) (auto simp: bit_word_of_int_iff bit_xor_iff bit_push_bit_iff bit_uint_iff bit_ucast_iff)
  then have "crc_byte16 (word_of_int c) b = word_of_int ((mem_crc_shift ^^ 8) ?x)"
    by (simp only: crc_byte16_def mem_crc_shifts_word)
  moreover have "(mem_crc_shift ^^ 8) ?x = mem_crc_shift ((mem_crc_shift ^^ 7) ?x)"
    by (simp add: numeral_eq_Suc)
  ultimately show ?thesis
    using mem_crc_shift_range [of "(mem_crc_shift ^^ 7) ?x"]
    by (simp add: mem_crc_byte_def uint_word_of_int)
qed

text \<open>
  MEM_CHECK's bit-serial CRC, masked at every shift, equals the packet CRC of
  \<open>ecss_packet.py\<close>, whose register is cut once per byte, on every byte string; so a ground tool
  that computes the packet CRC verifies an upload.
\<close>

theorem memory_crc_is_packet_crc: "mem_crc16 d = crc16_ccitt d"
proof -
  have "foldl mem_crc_byte (uint c) d = uint (foldl crc_byte16 c d)" for c :: "16 word"
    by (induction d arbitrary: c) (simp_all add: mem_crc_byte_word)
  from this [of "0xFFFF"] show ?thesis
    by (simp add: mem_crc16_def crc16_register_eq crc16_register_def)
qed

end
