(* ===== verification/Event_Actions.thy ===== *)
theory Event_Actions
  imports Function_Routing
begin

text \<open>
  Event-action (S19) of \<open>smo_simulator/service_dispatch.py\<close> and its loop through the engine: an
  event is reported and stored, the enabled rules that match it run an S8 function, which may
  raise another event. \<open>emit_event\<close> is \<open>_emit_event\<close> of \<open>smo_simulator/engine.py\<close> with the number
  of nested calls the interpreter's stack allows.
\<close>

section \<open>The outcome accumulators\<close>

type_synonym accumulators = "pytext \<times> int \<times> (int \<times> pytext) option \<times> int"

definition accumulators :: "dispatcher \<Rightarrow> accumulators" where
  "accumulators d = (ds_err_reason d, ds_err_code d, ds_exec_fail d, ds_request_id d)"

definition restore_acc :: "accumulators \<Rightarrow> dispatcher \<Rightarrow> dispatcher" where
  "restore_acc acc d = (case acc of (a, b, c, r) \<Rightarrow>
     d\<lparr>ds_err_reason := a, ds_err_code := b, ds_exec_fail := c, ds_request_id := r\<rparr>)"

definition clear_acc :: "dispatcher \<Rightarrow> dispatcher" where
  "clear_acc d = d\<lparr>ds_err_reason := [], ds_err_code := 0, ds_exec_fail := None\<rparr>"

text \<open>\<open>outer = \<dots>; prepare; try: m finally: restore\<close>.\<close>

definition isolated :: "(dispatcher \<Rightarrow> dispatcher) \<Rightarrow> ('m engine, 'a) py \<Rightarrow> ('m engine, 'a) py" where
  "isolated prepare m e =
     (case m (e\<lparr>en_disp := prepare (en_disp e)\<rparr>) of (r, e') \<Rightarrow>
       (r, e'\<lparr>en_disp := restore_acc (accumulators (en_disp e)) (en_disp e')\<rparr>))"

section \<open>Running a rule\<close>

definition OBC_CRITICAL_FUNCS :: "int list" where "OBC_CRITICAL_FUNCS = [52, 53, 55, 56]"

definition obc_blocked :: "'m config \<Rightarrow> int \<Rightarrow> 'm engine \<Rightarrow> bool" where
  "obc_blocked cf func_id e =
     (func_id \<in> set OBC_CRITICAL_FUNCS \<and>
      (case attr_of cf ''obdh'' ''sw_image'' e of Some v \<Rightarrow> is_number 0 v | None \<Rightarrow> False))"

definition s19_dispatch ::
  "'m config \<Rightarrow> (event \<Rightarrow> ('m engine, unit) py) \<Rightarrow> int \<Rightarrow> bytes \<Rightarrow> ('m engine, unit) py" where
  "s19_dispatch cf emit func_id action_data =
     bind_py (gets (obc_blocked cf func_id)) (\<lambda>blocked.
       if blocked then ret ()
       else seq_py (isolated clear_acc
              (bind_py (of_result (mk_byte func_id)) (\<lambda>f. handle_s8 cf emit 1 (f @ action_data)))) (ret ()))"

definition rule_matches :: "int \<Rightarrow> int \<Rightarrow> int \<Rightarrow> ea_definition \<Rightarrow> 'm engine \<Rightarrow> bool" where
  "rule_matches trigger_id kind ea_id d e \<longleftrightarrow>
     ea_id \<in> ds_s19_enabled (en_disp e) \<and> ea_trigger_kind d = kind \<and> ea_event_type d = trigger_id"

definition trigger_event_action ::
  "'m config \<Rightarrow> (event \<Rightarrow> ('m engine, unit) py) \<Rightarrow> int \<Rightarrow> int \<Rightarrow> ('m engine, unit) py" where
  "trigger_event_action cf emit trigger_id kind =
     bind_py (gets (\<lambda>e. ds_s19 (en_disp e))) (each (\<lambda>(ea_id, d).
       bind_py (gets (rule_matches trigger_id kind ea_id d)) (\<lambda>m.
         when_py m (s19_dispatch cf emit (ea_func_id d) (ea_action_data d)))))"

fun emit_event :: "'m config \<Rightarrow> nat \<Rightarrow> event \<Rightarrow> ('m engine, unit) py" where
  "emit_event cf 0 ev = raise RecursionError"
| "emit_event cf (Suc n) ev =
     seq_py (report_event cf ev)
       (case event_trigger ev of (trigger_id, kind) \<Rightarrow>
          trigger_event_action cf (emit_event cf n) trigger_id kind)"

section \<open>Telecommands of the service\<close>

definition add_rule :: "int \<Rightarrow> ea_definition \<Rightarrow> dispatcher \<Rightarrow> dispatcher" where
  "add_rule ea_id r d =
     d\<lparr>ds_s19 := AList.update ea_id r (ds_s19 d), ds_s19_enabled := insert ea_id (ds_s19_enabled d)\<rparr>"

definition rule_record :: "int set \<Rightarrow> int \<times> ea_definition \<Rightarrow> bytes" where
  "rule_record enabled p = (case p of (ea_id, r) \<Rightarrow>
     be_bytes 2 (ea_id AND 0xFFFF) @ be_bytes 1 (ea_trigger_kind r AND 0xFF) @
     be_bytes 2 (ea_event_type r AND 0xFFFF) @ be_bytes 1 (ea_func_id r AND 0xFF) @
     be_bytes 1 (of_bool (ea_id \<in> enabled)))"

definition rules_report :: "dispatcher \<Rightarrow> bytes result" where
  "rules_report d = bind_result (pack_be 2 (int (length (ds_s19 d)))) (\<lambda>n.
     Inr (n @ concat (map (rule_record (ds_s19_enabled d)) (ds_s19 d))))"

definition handle_s19 :: "int \<Rightarrow> bytes \<Rightarrow> ('m engine, bytes list) py" where
  "handle_s19 subtype d =
     (let ea_id = be_int (take 2 d); n = length d in
      if subtype = 1 \<and> 6 \<le> n then
        (let kind = uint (d ! 2) in
         if kind \<noteq> TRIGGER_KIND_EVENT \<and> kind \<noteq> TRIGGER_KIND_PARAM
         then refuse 3 (py (''S19 trigger kind '' @ str_int kind @ '' is not 0 (event) or 1 (parameter)''))
         else seq_py (on_disp (add_rule ea_id \<lparr>ea_event_type = be_int (pyslice 3 5 d), ea_trigger_kind = kind,
                                               ea_func_id = uint (d ! 5), ea_action_data = []\<rparr>)) (ret []))
      else if subtype = 1 \<and> 4 \<le> n then
        seq_py (on_disp (add_rule ea_id \<lparr>ea_event_type = uint (d ! 2), ea_trigger_kind = TRIGGER_KIND_EVENT,
                                         ea_func_id = uint (d ! 3), ea_action_data = []\<rparr>)) (ret [])
      else if subtype = 2 \<and> 2 \<le> n then
        seq_py (on_disp (\<lambda>ds. ds\<lparr>ds_s19 := AList.delete ea_id (ds_s19 ds),
                                 ds_s19_enabled := ds_s19_enabled ds - {ea_id}\<rparr>)) (ret [])
      else if subtype = 4 \<and> 2 \<le> n then
        seq_py (on_disp (\<lambda>ds. if map_of (ds_s19 ds) ea_id \<noteq> None
                               then ds\<lparr>ds_s19_enabled := insert ea_id (ds_s19_enabled ds)\<rparr> else ds)) (ret [])
      else if subtype = 5 \<and> 2 \<le> n then
        seq_py (on_disp (\<lambda>ds. ds\<lparr>ds_s19_enabled := ds_s19_enabled ds - {ea_id}\<rparr>)) (ret [])
      else if subtype = 8 then
        bind_py (gets (\<lambda>e. rules_report (en_disp e))) (\<lambda>r. bind_py (of_result r) (report 19 128))
      else ret [])"

end
