(* ===== verification/Monitoring.thy ===== *)
theory Monitoring
  imports Event_Actions
begin

text \<open>
  On-board monitoring (S12): the telecommands and \<open>check_monitoring\<close> of
  \<open>smo_simulator/service_dispatch.py\<close>, and the edge-triggered reporting of
  \<open>_tick_s12_monitoring\<close> in \<open>smo_simulator/engine.py\<close>.
\<close>

section \<open>Telecommands\<close>

definition S12_CHECK_DELTA :: int where "S12_CHECK_DELTA = 1"

abbreviation on_monitors :: "((int \<times> s12_definition) list \<Rightarrow> (int \<times> s12_definition) list) \<Rightarrow> ('m engine, unit) py" where
  "on_monitors f \<equiv> on_disp (\<lambda>ds. ds\<lparr>ds_s12 := f (ds_s12 ds)\<rparr>)"

definition ground_monitor :: "int \<Rightarrow> int \<Rightarrow> int \<Rightarrow> py_float \<Rightarrow> py_float \<Rightarrow> s12_definition" where
  "ground_monitor mon_id param_id check_type low high =
     \<lparr>md_mon_id = mon_id, md_param_id = param_id, md_check_type = check_type, md_low = low, md_high = high,
      md_enabled = True, md_last_value = None, md_severity = ''WARNING'',
      md_name = py (''ground_mon_0x'' @ fmt_X 4 mon_id), md_description = py ''Added from ground via TC(12,6)''\<rparr>"

definition parse_monitor :: "bytes \<Rightarrow> s12_definition" where
  "parse_monitor d =
     (if 13 \<le> length d
      then ground_monitor (be_int (take 2 d)) (be_int (pyslice 2 4 d)) (uint (d ! 4)) (arg_f32 5 d) (arg_f32 9 d)
      else ground_monitor (be_int (take 2 d)) (be_int (take 2 d)) (uint (d ! 2)) (arg_f32 3 d) (arg_f32 7 d))"

definition monitor_record :: "int \<times> s12_definition \<Rightarrow> bytes result" where
  "monitor_record p = (case p of (mon_id, d) \<Rightarrow>
     bind_result (pack_fs [md_low d, md_high d]) (\<lambda>lims.
     Inr (be_bytes 2 (mon_id AND 0xFFFF) @ be_bytes 2 (md_param_id d AND 0xFFFF) @
          be_bytes 1 (md_check_type d AND 0xFF) @ be_bytes 1 (of_bool (md_enabled d)) @ lims)))"

fun monitor_records :: "(int \<times> s12_definition) list \<Rightarrow> bytes result" where
  "monitor_records [] = Inr []"
| "monitor_records (p # ps) =
     bind_result (monitor_record p) (\<lambda>a. bind_result (monitor_records ps) (\<lambda>b. Inr (a @ b)))"

definition monitors_report :: "dispatcher \<Rightarrow> bytes result" where
  "monitors_report ds =
     bind_result (pack_be 2 (int (length (ds_s12 ds)))) (\<lambda>n.
     bind_result (monitor_records (ds_s12 ds)) (\<lambda>r. Inr (n @ r)))"

definition enable_monitor :: "bool \<Rightarrow> s12_definition \<Rightarrow> s12_definition" where
  "enable_monitor on d = (if on then d\<lparr>md_enabled := True\<rparr> else d\<lparr>md_enabled := False, md_last_value := None\<rparr>)"

definition handle_s12 :: "int \<Rightarrow> bytes \<Rightarrow> ('m engine, bytes list) py" where
  "handle_s12 subtype d =
     (let n = length d; mon_id = be_int (take 2 d) in
      if subtype = 1 then seq_py (on_disp (\<lambda>ds. ds\<lparr>ds_s12_enabled := True\<rparr>)) (ret [])
      else if subtype = 2 then seq_py (on_disp (\<lambda>ds. ds\<lparr>ds_s12_enabled := False\<rparr>)) (ret [])
      else if (subtype = 3 \<or> subtype = 4) \<and> 2 \<le> n then
        bind_py (gets (\<lambda>e. map_of (ds_s12 (en_disp e)) mon_id)) (\<lambda>defn. case defn of
            None \<Rightarrow> refuse 7 (py (''S12 monitoring definition 0x'' @ fmt_X 4 mon_id @ '' is not defined''))
          | Some m \<Rightarrow> seq_py (on_monitors (AList.update mon_id (enable_monitor (subtype = 3) m))) (ret []))
      else if subtype = 6 \<and> 11 \<le> n then
        seq_py (on_monitors (AList.update mon_id (parse_monitor d))) (ret [])
      else if subtype = 7 \<and> 2 \<le> n then seq_py (on_monitors (AList.delete mon_id)) (ret [])
      else if subtype = 12 then
        bind_py (gets (\<lambda>e. monitors_report (en_disp e))) (\<lambda>r. bind_py (of_result r) (report 12 13))
      else ret [])"

section \<open>Checking the limits\<close>

text \<open>\<open>int(getattr(state, attr, default))\<close>.\<close>

definition attr_int :: "'m config \<Rightarrow> string \<Rightarrow> string \<Rightarrow> int \<Rightarrow> 'm engine \<Rightarrow> int result" where
  "attr_int cf name attr dflt e = (case attr_of cf name attr e of Some v \<Rightarrow> val_int v | None \<Rightarrow> Inr dflt)"

definition param_source_powered :: "'m config \<Rightarrow> int \<Rightarrow> 'm engine \<Rightarrow> bool result" where
  "param_source_powered cf p e =
     (if 0x0100 \<le> p \<and> p \<le> 0x012F then Inr True
      else if 0x0200 \<le> p \<and> p \<le> 0x02FF then
        (if \<not> power_line cf ''aocs_wheels'' False e then Inr False
         else bind_result (attr_int cf ''aocs'' ''mode'' 0 e) (\<lambda>m. Inr (0 < m)))
      else if 0x0300 \<le> p \<and> p \<le> 0x033F then
        bind_result (attr_int cf ''obdh'' ''sw_image'' 1 e) (\<lambda>sw. Inr (sw = 1))
      else if 0x0400 \<le> p \<and> p \<le> 0x04FF then Inr True
      else if 0x0500 \<le> p \<and> p \<le> 0x05FF then Inr (power_line cf ''ttc_tx'' False e)
      else if 0x0600 \<le> p \<and> p \<le> 0x06FF then
        (if \<not> power_line cf ''payload'' False e then Inr False
         else bind_result (attr_int cf ''payload'' ''mode'' 0 e) (\<lambda>m. Inr (0 < m)))
      else Inr True)"

definition severity_map :: "string \<Rightarrow> int" where
  "severity_map s = (case map_of [(''INFO'', 1), (''WARNING'', 2), (''ALARM'', 3), (''HIGH'', 4)] s of
     Some k \<Rightarrow> k | None \<Rightarrow> 2)"

definition set_last :: "int \<Rightarrow> s12_definition \<Rightarrow> py_float option \<Rightarrow> ('m engine, unit) py" where
  "set_last mon_id d v = on_monitors (AList.update mon_id (d\<lparr>md_last_value := v\<rparr>))"

text \<open>The value a monitor compares: \<open>None\<close> for the first sample of a delta check.\<close>

definition checked_value :: "s12_definition \<Rightarrow> py_float \<Rightarrow> py_float option" where
  "checked_value d v =
     (if md_check_type d = S12_CHECK_DELTA
      then (case md_last_value d of None \<Rightarrow> None | Some l \<Rightarrow> Some (fsub v l)) else Some v)"

definition outside :: "py_float \<Rightarrow> py_float \<Rightarrow> py_float \<Rightarrow> bool" where
  "outside x low high \<longleftrightarrow> fless x low \<or> fless high x"

definition violation_of :: "int \<Rightarrow> s12_definition \<Rightarrow> py_float \<Rightarrow> violation option" where
  "violation_of mon_id d v =
     (case checked_value d v of
        None \<Rightarrow> None
      | Some x \<Rightarrow>
          if outside x (md_low d) (md_high d)
          then Some \<lparr>vi_param_id = md_param_id d, vi_mon_id = mon_id, vi_value = x, vi_raw_value = v,
                     vi_low = md_low d, vi_high = md_high d, vi_check_type = md_check_type d,
                     vi_severity = severity_map (md_severity d), vi_name = md_name d,
                     vi_description = md_description d\<rparr>
          else None)"

definition check_one :: "'m config \<Rightarrow> int \<times> s12_definition \<Rightarrow> ('m engine, violation option) py" where
  "check_one cf p = (case p of (mon_id, d) \<Rightarrow>
     if \<not> md_enabled d then ret None
     else bind_py (gets (\<lambda>e. en_params e (md_param_id d))) (\<lambda>value. case value of
         None \<Rightarrow> ret None
       | Some v \<Rightarrow>
           bind_py (gets (param_source_powered cf (md_param_id d))) (\<lambda>pw.
           bind_py (of_result pw) (\<lambda>powered.
             if \<not> powered then seq_py (set_last mon_id d None) (ret None)
             else seq_py (set_last mon_id d (Some v)) (ret (violation_of mon_id d v))))))"

fun check_all :: "'m config \<Rightarrow> (int \<times> s12_definition) list \<Rightarrow> ('m engine, violation list) py" where
  "check_all cf [] = ret []"
| "check_all cf (p # ps) =
     bind_py (check_one cf p) (\<lambda>v. bind_py (check_all cf ps) (\<lambda>vs.
       ret (case v of None \<Rightarrow> vs | Some x \<Rightarrow> x # vs)))"

definition check_monitoring :: "'m config \<Rightarrow> ('m engine, violation list) py" where
  "check_monitoring cf =
     bind_py (gets en_disp) (\<lambda>ds. if \<not> ds_s12_enabled ds then ret [] else check_all cf (ds_s12 ds))"

section \<open>Reports of the transitions\<close>

text \<open>\<open>value or 0.0\<close>.\<close>

definition or_zero :: "py_float \<Rightarrow> py_float" where
  "or_zero x = (if fbool x then x else Fin False 0)"

definition build_s12_transition_report :: "violation \<Rightarrow> bool \<Rightarrow> (tm_builder, bytes) py" where
  "build_s12_transition_report v entered =
     bind_py (of_result (pack_f (or_zero (vi_value v)))) (\<lambda>x.
     bind_py (of_result (pack_fs [vi_low v, vi_high v])) (\<lambda>lims.
       pack_tm 12 (if entered then 9 else 10)
         (be_bytes 2 (vi_param_id v AND 0xFFFF) @ x @ be_bytes 2 (vi_mon_id v AND 0xFFFF) @
          be_bytes 1 (vi_check_type v AND 0xFF) @ be_bytes 1 (vi_severity v AND 0xFF) @ lims) 0))"

definition emit_s12_transition :: "'m config \<Rightarrow> violation \<Rightarrow> bool \<Rightarrow> ('m engine, unit) py" where
  "emit_s12_transition cf v entered =
     bind_py (catch (bind_py (on_builder (build_s12_transition_report v entered)) (\<lambda>p. ret (Some p)))
                (\<lambda>_. ret None))
       (\<lambda>pkt. case pkt of None \<Rightarrow> ret () | Some p \<Rightarrow> enqueue_tm cf p)"

definition TTC_SIGNAL_PARAMS :: "int list" where
  "TTC_SIGNAL_PARAMS = [0x0502, 0x0503, 0x0519, 0x050C]"

definition violation_event :: "violation \<Rightarrow> event" where
  "violation_event v = \<lparr>ev_id = 0x9000 OR (vi_param_id v AND 0x0FFF), ev_severity = Sev_int (vi_severity v),
     ev_description = vi_name v @ py '': '' @ vi_description v @
       py ('' | value='' @ fmt_fixed 2 (vi_value v) @ '' limits=['' @ fmt_fixed 2 (vi_low v) @ '', '' @
           fmt_fixed 2 (vi_high v) @ '']''), ev_extra = []\<rparr>"

definition cleared_event :: "int \<Rightarrow> event" where
  "cleared_event mon_id = \<lparr>ev_id = 0xA000 OR (mon_id AND 0x0FFF), ev_severity = Sev_int 1,
     ev_description = py (''S12 mon '' @ str_int mon_id @ '': parameter returned to nominal''), ev_extra = []\<rparr>"

text \<open>A violation that is not new, or a signal parameter during a forced pass, is not announced.\<close>

definition announces :: "'m engine \<Rightarrow> violation \<Rightarrow> bool" where
  "announces e v \<longleftrightarrow> vi_mon_id v \<notin> en_violation_active e \<and>
     \<not> (en_override_passes e \<and> vi_param_id v \<in> set TTC_SIGNAL_PARAMS)"

definition announce :: "'m config \<Rightarrow> (event \<Rightarrow> ('m engine, unit) py) \<Rightarrow> violation \<Rightarrow> ('m engine, unit) py" where
  "announce cf emit v =
     bind_py (gets (\<lambda>e. announces e v)) (\<lambda>b.
       when_py b (seq_py (emit_s12_transition cf v True) (emit (violation_event v))))"

definition announce_cleared :: "'m config \<Rightarrow> (event \<Rightarrow> ('m engine, unit) py) \<Rightarrow> int \<Rightarrow> ('m engine, unit) py" where
  "announce_cleared cf emit mon_id =
     bind_py (gets (\<lambda>e. map_of (en_violation_records e) mon_id)) (\<lambda>r.
       seq_py (modify (\<lambda>e. e\<lparr>en_violation_records := AList.delete mon_id (en_violation_records e)\<rparr>))
       (seq_py (case r of None \<Rightarrow> ret () | Some v \<Rightarrow> emit_s12_transition cf v False)
          (emit (cleared_event mon_id))))"

definition record_violations :: "violation list \<Rightarrow> 'm engine \<Rightarrow> 'm engine" where
  "record_violations vs e = e\<lparr>en_violation_records :=
     foldl (\<lambda>rs v. AList.update (vi_mon_id v) v rs) (en_violation_records e) vs\<rparr>"

definition tick_s12_monitoring :: "'m config \<Rightarrow> (event \<Rightarrow> ('m engine, unit) py) \<Rightarrow> ('m engine, unit) py" where
  "tick_s12_monitoring cf emit =
     bind_py (check_monitoring cf) (\<lambda>vs.
       let current = set (map vi_mon_id vs) in
       seq_py (modify (record_violations vs))
       (seq_py (each (announce cf emit) vs)
       (bind_py (gets (\<lambda>e. cf_order cf (en_violation_active e - current))) (\<lambda>gone.
        seq_py (each (announce_cleared cf emit) gone)
          (modify (\<lambda>e. e\<lparr>en_violation_active := current\<rparr>))))))"

end
