(* ===== verification/Tc_Acceptance.thy ===== *)
theory Tc_Acceptance
  imports Text_Codecs
begin

text \<open>
  Acceptance of a telecommand by its service, subtype and length: \<open>_check_tc_acceptance\<close> of
  \<open>smo_simulator/engine.py\<close> and the texts of its refusals.
\<close>

definition known_services :: "int list" where
  "known_services = [2, 3, 5, 6, 8, 9, 11, 12, 15, 17, 18, 19, 20]"

definition valid_subtypes :: "int \<rightharpoonup> int list" where
  "valid_subtypes = map_of
     [(2, [1, 5, 6]), (3, [1, 2, 3, 4, 5, 6, 27, 31]), (5, [5, 6, 7, 8]), (6, [2, 5, 9]), (8, [1]), (9, [1, 2]),
      (11, [4, 7, 9, 11, 13, 17]), (12, [1, 2, 6, 7]), (15, [1, 2, 9, 11, 13]), (17, [1]),
      (18, [1, 2, 3, 4, 6]), (19, [1, 2, 4, 5, 8]), (20, [1, 3])]"

definition check_tc_acceptance :: "int \<Rightarrow> int \<Rightarrow> bytes \<Rightarrow> bool \<times> int" where
  "check_tc_acceptance service subtype d =
     (if service \<notin> set known_services then (False, 1)
      else if (case valid_subtypes service of Some ss \<Rightarrow> subtype \<notin> set ss | None \<Rightarrow> False) then (False, 2)
      else if service = 8 \<and> subtype = 1 \<and> length d < 1 then (False, 3)
      else (True, 0))"

definition service_text :: "int \<Rightarrow> int \<Rightarrow> string" where
  "service_text service subtype = ''S'' @ str_int service @ ''.'' @ str_int subtype"

definition acceptance_failure_reason :: "int \<Rightarrow> int \<Rightarrow> bytes \<Rightarrow> int \<Rightarrow> pytext" where
  "acceptance_failure_reason service subtype d error_code =
     py (if error_code = 1 then ''Service '' @ str_int service @ '' is not implemented by this on-board software''
         else if error_code = 2 then service_text service subtype @ '' is not an implemented subtype''
         else if error_code = 3 then service_text service subtype @
           '': application data field is too short ('' @ str_int (int (length d)) @ '' octets)''
         else service_text service subtype @ '' refused at acceptance'')"

definition tc_identity :: "int \<Rightarrow> int \<Rightarrow> bytes \<Rightarrow> pytext" where
  "tc_identity service subtype d =
     py (service_text service subtype @
         (if service = 8 \<and> subtype = 1 \<and> d \<noteq> [] then '' func '' @ str_int (uint (d ! 0)) else []))"

end
