(* ===== verification/Obcp.thy ===== *)
theory Obcp
  imports Event_Actions Tc_Acceptance
begin

text \<open>
  On-board control procedures: \<open>ObcpManager\<close> of \<open>smo_simulator/obcp.py\<close> and the S18 telecommands of
  \<open>smo_simulator/service_dispatch.py\<close>. \<open>emit\<close> is the engine's \<open>_emit_event\<close>, \<open>dispatch\<close> its
  \<open>_dispatch_tc\<close>.
\<close>

section \<open>The store\<close>

definition MAX_PROCEDURES :: nat where "MAX_PROCEDURES = 16"
definition MAX_STEPS :: nat where "MAX_STEPS = 32"

definition obcp_event :: "int \<Rightarrow> int \<Rightarrow> pytext \<Rightarrow> event" where
  "obcp_event i severity description =
     \<lparr>ev_id = i, ev_severity = Sev_int severity, ev_description = description, ev_extra = []\<rparr>"

definition obcp_emit :: "(event \<Rightarrow> ('m engine, unit) py) \<Rightarrow> int \<Rightarrow> int \<Rightarrow> pytext \<Rightarrow> ('m engine, unit) py" where
  "obcp_emit emit i severity description = catch (emit (obcp_event i severity description)) (\<lambda>_. ret ())"

definition procedure_name :: "int \<Rightarrow> 'm engine \<Rightarrow> pytext" where
  "procedure_name proc_id e = (case map_of (en_procedures e) proc_id of Some p \<Rightarrow> op_name p | None \<Rightarrow> py ''?'')"

definition obcp_text :: "int \<Rightarrow> pytext \<Rightarrow> string \<Rightarrow> pytext" where
  "obcp_text proc_id name rest =
     py (''OBCP '' @ str_int proc_id @ '' '' @ [CHR 0x27]) @ name @ py ([CHR 0x27] @ rest)"

abbreviation is_running :: "int \<Rightarrow> 'm engine \<Rightarrow> bool" where
  "is_running proc_id e \<equiv> map_of (en_running e) proc_id \<noteq> None"

abbreviation on_running :: "((int \<times> obcp_run) list \<Rightarrow> (int \<times> obcp_run) list) \<Rightarrow> ('m engine, unit) py" where
  "on_running f \<equiv> modify (\<lambda>e. e\<lparr>en_running := f (en_running e)\<rparr>)"

abbreviation on_procedures ::
  "((int \<times> obcp_procedure) list \<Rightarrow> (int \<times> obcp_procedure) list) \<Rightarrow> ('m engine, unit) py" where
  "on_procedures f \<equiv> modify (\<lambda>e. e\<lparr>en_procedures := f (en_procedures e)\<rparr>)"

definition abort_procedure :: "(event \<Rightarrow> ('m engine, unit) py) \<Rightarrow> int \<Rightarrow> string \<Rightarrow> ('m engine, unit) py" where
  "abort_procedure emit proc_id reason =
     seq_py (on_running (AList.delete proc_id))
     (bind_py (gets (procedure_name proc_id)) (\<lambda>name.
        obcp_emit emit 0x0702 2 (obcp_text proc_id name ('' aborted: '' @ reason))))"

definition load_procedure ::
  "(event \<Rightarrow> ('m engine, unit) py) \<Rightarrow> int \<Rightarrow> pytext \<Rightarrow> obcp_step list \<Rightarrow> ('m engine, bool) py" where
  "load_procedure emit proc_id name steps =
     (if steps = [] \<or> MAX_STEPS < length steps then ret False
      else bind_py (gets (\<lambda>e. map_of (en_procedures e) proc_id = None \<and> MAX_PROCEDURES \<le> length (en_procedures e)))
        (\<lambda>store_full. if store_full then ret False
          else bind_py (gets (is_running proc_id)) (\<lambda>running.
               seq_py (when_py running (abort_procedure emit proc_id ''replaced by new load''))
               (seq_py (on_procedures (AList.update proc_id \<lparr>op_name = name, op_steps = steps\<rparr>)) (ret True)))))"

definition delete_procedure :: "(event \<Rightarrow> ('m engine, unit) py) \<Rightarrow> int \<Rightarrow> ('m engine, bool) py" where
  "delete_procedure emit proc_id =
     bind_py (gets (is_running proc_id)) (\<lambda>running.
     seq_py (when_py running (abort_procedure emit proc_id ''deleted while running''))
     (bind_py (gets (\<lambda>e. map_of (en_procedures e) proc_id \<noteq> None)) (\<lambda>known.
        if known then seq_py (on_procedures (AList.delete proc_id)) (ret True) else ret False)))"

definition start_procedure :: "(event \<Rightarrow> ('m engine, unit) py) \<Rightarrow> int \<Rightarrow> int \<Rightarrow> ('m engine, bool) py" where
  "start_procedure emit proc_id param =
     bind_py (gets (\<lambda>e. map_of (en_procedures e) proc_id)) (\<lambda>proc. case proc of
         None \<Rightarrow> ret False
       | Some p \<Rightarrow>
           bind_py (gets (is_running proc_id)) (\<lambda>running.
             if running then ret False
             else if op_steps p = [] then raise IndexError
             else seq_py (on_running (AList.update proc_id
                      \<lparr>or_step_index = 0, or_wait = os_delay (op_steps p ! 0), or_param = param AND 0xFF\<rparr>))
                  (seq_py (obcp_emit emit 0x0700 1 (obcp_text proc_id (op_name p)
                      ('' started ('' @ str_int (int (length (op_steps p))) @ '' steps, param='' @ str_int param @ '')'')))
                   (ret True))))"

definition stop_procedure :: "(event \<Rightarrow> ('m engine, unit) py) \<Rightarrow> int \<Rightarrow> ('m engine, bool) py" where
  "stop_procedure emit proc_id =
     (if proc_id = 0 then
        bind_py (gets (\<lambda>e. map fst (en_running e))) (\<lambda>ids.
        seq_py (each (\<lambda>pid. abort_procedure emit pid ''stopped by TC(18,4)'') ids) (ret (ids \<noteq> [])))
      else bind_py (gets (is_running proc_id)) (\<lambda>running.
        if running then seq_py (abort_procedure emit proc_id ''stopped by TC(18,4)'') (ret True) else ret False))"

record procedure_status =
  ps_proc_id :: int
  ps_name :: pytext
  ps_n_steps :: nat
  ps_status :: int
  ps_current_step :: nat

definition procedures_status :: "'m engine \<Rightarrow> procedure_status list" where
  "procedures_status e = map (\<lambda>(pid, p).
     \<lparr>ps_proc_id = pid, ps_name = op_name p, ps_n_steps = length (op_steps p),
      ps_status = of_bool (is_running pid e),
      ps_current_step = (case map_of (en_running e) pid of Some r \<Rightarrow> or_step_index r | None \<Rightarrow> 0)\<rparr>)
     (sort_key fst (en_procedures e))"

section \<open>The load blob\<close>

text \<open>\<open>ValueError\<close> with its text, on the left.\<close>

fun parse_steps :: "nat \<Rightarrow> bytes \<Rightarrow> string + obcp_step list" where
  "parse_steps 0 d = Inr []"
| "parse_steps (Suc k) d =
     (if length d < 6 then Inl ''load blob truncated in step header''
      else
        let tc_len = nat (be_int (pyslice 4 6 d))
        in if length d < 6 + tc_len then Inl ''load blob truncated in step TC''
           else case parse_steps k (drop (6 + tc_len) d) of
                  Inl e \<Rightarrow> Inl e
                | Inr steps \<Rightarrow> Inr (\<lparr>os_delay = unpack_f (take 4 d), os_tc = pyslice 6 (6 + tc_len) d\<rparr> # steps))"

definition parse_load_blob :: "bytes \<Rightarrow> string + int \<times> pytext \<times> obcp_step list" where
  "parse_load_blob d =
     (if length d < 4 then Inl ''load blob too short''
      else
        let off = 3 + unat (d ! 2)
        in if length d < off + 1 then Inl ''load blob truncated in name''
           else case parse_steps (unat (d ! off)) (drop (off + 1) d) of
                  Inl e \<Rightarrow> Inl e
                | Inr steps \<Rightarrow>
                    if steps = [] then Inl ''load blob has no steps''
                    else Inr (be_int (take 2 d), utf8_decode_replace (pyslice 3 off d), steps))"

fun encode_steps :: "obcp_step list \<Rightarrow> bytes result" where
  "encode_steps [] = Inr []"
| "encode_steps (s # ss) =
     bind_result (pack_f (os_delay s)) (\<lambda>a.
     bind_result (pack_be 2 (int (length (os_tc s)))) (\<lambda>n.
     bind_result (encode_steps ss) (\<lambda>rest. Inr (a @ n @ os_tc s @ rest))))"

definition encode_load_blob :: "int \<Rightarrow> pytext \<Rightarrow> obcp_step list \<Rightarrow> bytes result" where
  "encode_load_blob proc_id name steps =
     (let name_b = take 255 (utf8_encode name) in
      bind_result (pack_be 2 proc_id) (\<lambda>a.
      bind_result (mk_byte (int (length name_b))) (\<lambda>l.
      bind_result (mk_byte (int (length steps))) (\<lambda>n.
      bind_result (encode_steps steps) (\<lambda>ss. Inr (a @ l @ name_b @ n @ ss))))))"

section \<open>The interpreter\<close>

text \<open>
  The steps of one procedure that fall due: the commands with their step numbers, and how the
  procedure stands afterwards. A step number beyond the list (a restored state can hold one)
  raises \<open>IndexError\<close>.
\<close>

datatype progress = Waiting nat py_float | Finished | Broken nat py_float

function consume_steps :: "obcp_step list \<Rightarrow> nat \<Rightarrow> py_float \<Rightarrow> (nat \<times> bytes) list \<times> progress" where
  "consume_steps steps idx wait =
     (if \<not> fle wait (Fin False 0) then ([], Waiting idx wait)
      else if length steps \<le> idx then ([], Broken idx wait)
      else if length steps \<le> idx + 1 then ([(idx, os_tc (steps ! idx))], Finished)
      else case consume_steps steps (idx + 1) (fadd wait (os_delay (steps ! (idx + 1)))) of
             (due, p) \<Rightarrow> ((idx, os_tc (steps ! idx)) # due, p))"
  by pat_completeness auto
termination
  by (relation "measure (\<lambda>(steps, idx, wait). length steps - idx)") auto

declare consume_steps.simps [simp del]

definition advance_procedure :: "py_float \<Rightarrow> int \<Rightarrow> ('m engine, (int \<times> nat \<times> bytes) list \<times> int list) py" where
  "advance_procedure dt pid =
     bind_py (gets (\<lambda>e. (map_of (en_running e) pid, map_of (en_procedures e) pid))) (\<lambda>x. case x of
         (None, _) \<Rightarrow> raise KeyError
       | (Some run, None) \<Rightarrow> seq_py (on_running (AList.delete pid)) (ret ([], []))
       | (Some run, Some proc) \<Rightarrow>
           (case consume_steps (op_steps proc) (or_step_index run) (fsub (or_wait run) dt) of (due, p) \<Rightarrow>
             let tagged = map (\<lambda>(i, tc). (pid, i, tc)) due;
                 save = (\<lambda>i w. on_running (AList.update pid (run\<lparr>or_step_index := i, or_wait := w\<rparr>)))
             in case p of
                  Waiting i w \<Rightarrow> seq_py (save i w) (ret (tagged, []))
                | Finished \<Rightarrow> seq_py (on_running (AList.delete pid)) (ret (tagged, [pid]))
                | Broken i w \<Rightarrow> seq_py (save i w) (raise IndexError)))"

fun advance_all :: "py_float \<Rightarrow> int list \<Rightarrow> ('m engine, (int \<times> nat \<times> bytes) list \<times> int list) py" where
  "advance_all dt [] = ret ([], [])"
| "advance_all dt (pid # pids) =
     bind_py (advance_procedure dt pid) (\<lambda>(due, done). bind_py (advance_all dt pids) (\<lambda>(due', done').
       ret (due @ due', done @ done')))"

definition fail_step :: "(event \<Rightarrow> ('m engine, unit) py) \<Rightarrow> int \<Rightarrow> nat \<Rightarrow> string \<Rightarrow> ('m engine, unit) py" where
  "fail_step emit proc_id step_idx reason =
     (let step = '' step '' @ str_int (int step_idx) in
      bind_py (gets (procedure_name proc_id)) (\<lambda>name.
      seq_py (obcp_emit emit 0x0703 2 (obcp_text proc_id name (step @ '' failed: '' @ reason)))
      (bind_py (gets (is_running proc_id)) (\<lambda>running.
         when_py running (abort_procedure emit proc_id (tl step @ '' failed''))))))"

text \<open>The name of an exception stands for its message.\<close>

definition execute_step ::
  "(event \<Rightarrow> ('m engine, unit) py) \<Rightarrow> (bytes \<Rightarrow> ('m engine, unit) py) \<Rightarrow> (py_error \<Rightarrow> string) \<Rightarrow>
   int \<times> nat \<times> bytes \<Rightarrow> ('m engine, unit) py" where
  "execute_step emit dispatch message step = (case step of (proc_id, step_idx, tc) \<Rightarrow>
     bind_py (of_result (decommutate_packet tc)) (\<lambda>pkt.
       case (case pkt of None \<Rightarrow> None | Some p \<Rightarrow> map_option (Pair p) (dp_secondary p)) of
         None \<Rightarrow> fail_step emit proc_id step_idx ''malformed step TC''
       | Some (p, sec) \<Rightarrow>
           (case check_tc_acceptance (sh_service sec) (sh_subtype sec) (dp_data_field p) of
              (False, err) \<Rightarrow> fail_step emit proc_id step_idx
                 (''step TC '' @ service_text (sh_service sec) (sh_subtype sec) @
                  '' rejected at acceptance (error 0x'' @ fmt_X 4 err @ '')'')
            | (True, _) \<Rightarrow> catch (dispatch tc) (\<lambda>x.
                 fail_step emit proc_id step_idx (''dispatch error: '' @ message x)))))"

definition tick_procedures ::
  "(event \<Rightarrow> ('m engine, unit) py) \<Rightarrow> (bytes \<Rightarrow> ('m engine, unit) py) \<Rightarrow> (py_error \<Rightarrow> string) \<Rightarrow> py_float \<Rightarrow>
   ('m engine, unit) py" where
  "tick_procedures emit dispatch message dt =
     bind_py (gets (\<lambda>e. map fst (en_running e))) (\<lambda>pids.
     bind_py (advance_all dt pids) (\<lambda>(due, completed).
     seq_py (each (execute_step emit dispatch message) due)
       (each (\<lambda>pid. bind_py (gets (procedure_name pid)) (\<lambda>name.
          obcp_emit emit 0x0701 1 (obcp_text pid name '' completed''))) completed)))"

section \<open>Breakpoints\<close>

text \<open>The saved dictionaries, by integer key; a missing entry is \<open>None\<close>.\<close>

record saved_procedure =
  so_name :: "pytext option"
  so_steps :: "(py_float option \<times> string option) list"

record saved_run =
  sr_step_index :: "nat option"
  sr_wait :: "py_float option"
  sr_param :: "int option"

record saved_obcp =
  sb_procedures :: "(int \<times> saved_procedure) list"
  sb_running :: "(int \<times> saved_run) list"

definition obcp_state :: "'m engine \<Rightarrow> saved_obcp" where
  "obcp_state e =
     \<lparr>sb_procedures = map (\<lambda>(pid, p). (pid, \<lparr>so_name = Some (op_name p),
        so_steps = map (\<lambda>s. (Some (os_delay s), Some (bytes_hex (os_tc s)))) (op_steps p)\<rparr>)) (en_procedures e),
      sb_running = map (\<lambda>(pid, r). (pid, \<lparr>sr_step_index = Some (or_step_index r), sr_wait = Some (or_wait r),
        sr_param = Some (or_param r)\<rparr>)) (en_running e)\<rparr>"

fun restore_steps :: "(py_float option \<times> string option) list \<Rightarrow> obcp_step list result" where
  "restore_steps [] = Inr []"
| "restore_steps ((delay, hex) # rest) =
     (case (delay, hex) of
        (Some w, Some h) \<Rightarrow> bind_result (bytes_fromhex h) (\<lambda>tc. bind_result (restore_steps rest) (\<lambda>ss.
          Inr (\<lparr>os_delay = w, os_tc = tc\<rparr> # ss)))
      | _ \<Rightarrow> Inl KeyError)"

definition restore_procedure ::
  "(int \<times> saved_procedure) \<Rightarrow> (int \<times> obcp_procedure) list \<Rightarrow> (int \<times> obcp_procedure) list" where
  "restore_procedure q ps = (case q of (pid, p) \<Rightarrow>
     (case restore_steps (so_steps p) of
        Inl _ \<Rightarrow> ps
      | Inr ss \<Rightarrow> AList.update pid
          \<lparr>op_name = (case so_name p of Some t \<Rightarrow> t | None \<Rightarrow> []), op_steps = ss\<rparr> ps))"

definition restore_run ::
  "(int \<times> obcp_procedure) list \<Rightarrow> (int \<times> saved_run) \<Rightarrow> (int \<times> obcp_run) list \<Rightarrow> (int \<times> obcp_run) list" where
  "restore_run procs q rs = (case q of (pid, r) \<Rightarrow>
     if map_of procs pid = None then rs
     else AList.update pid \<lparr>or_step_index = (case sr_step_index r of Some i \<Rightarrow> i | None \<Rightarrow> 0),
            or_wait = (case sr_wait r of Some w \<Rightarrow> w | None \<Rightarrow> Fin False 0),
            or_param = (case sr_param r of Some k \<Rightarrow> k | None \<Rightarrow> 0)\<rparr> rs)"

definition set_obcp_state :: "saved_obcp \<Rightarrow> 'm engine \<Rightarrow> 'm engine" where
  "set_obcp_state st e =
     (let procs = fold restore_procedure (sb_procedures st) []
      in e\<lparr>en_procedures := procs, en_running := fold (restore_run procs) (sb_running st) []\<rparr>)"

section \<open>Telecommands\<close>

definition status_record :: "procedure_status \<Rightarrow> bytes result" where
  "status_record s =
     bind_result (pack_be 2 (ps_proc_id s)) (\<lambda>a.
     bind_result (pack_be 1 (ps_status s)) (\<lambda>b.
     bind_result (pack_be 1 (int (ps_current_step s))) (\<lambda>c.
     bind_result (pack_be 1 (int (ps_n_steps s))) (\<lambda>d. Inr (a @ b @ c @ d)))))"

fun status_records :: "procedure_status list \<Rightarrow> bytes result" where
  "status_records [] = Inr []"
| "status_records (s # ss) =
     bind_result (status_record s) (\<lambda>a. bind_result (status_records ss) (\<lambda>b. Inr (a @ b)))"

definition handle_s18 ::
  "(event \<Rightarrow> ('m engine, unit) py) \<Rightarrow> int \<Rightarrow> bytes \<Rightarrow> ('m engine, bytes list) py" where
  "handle_s18 emit subtype d =
     (let n = length d; proc_id = be_int (take 2 d); obcp = ''OBCP '' @ str_int proc_id;
          answer = (\<lambda>ok code text. if ok then ret [] else make_error_response (Some (py text)) (Some code))
      in if subtype = 1 \<and> 4 \<le> n then
           (case parse_load_blob d of
              Inl err \<Rightarrow> make_error_response (Some (py (''OBCP load parse error: '' @ err))) (Some 3)
            | Inr (pid, name, steps) \<Rightarrow>
                bind_py (load_procedure emit pid name steps)
                  (\<lambda>ok. answer ok 7 ''OBCP load rejected (store full or bad steps)''))
         else if subtype = 2 \<and> 2 \<le> n then
           bind_py (delete_procedure emit proc_id) (\<lambda>ok. answer ok 7 (obcp @ '' not loaded''))
         else if subtype = 3 \<and> 2 \<le> n then
           bind_py (start_procedure emit proc_id (arg_byte 2 0 d))
             (\<lambda>ok. answer ok 7 (obcp @ '' start refused (not loaded or already running)''))
         else if subtype = 4 \<and> 2 \<le> n then
           bind_py (stop_procedure emit proc_id) (\<lambda>ok. answer ok 7 (obcp @ '' not running''))
         else if subtype = 6 then
           bind_py (gets procedures_status) (\<lambda>st.
           bind_py (of_result (pack_be 1 (int (length st)))) (\<lambda>c.
           bind_py (of_result (status_records st)) (\<lambda>r. report 18 7 (c @ r))))
         else ret [])"

end
