(* ===== verification/Service_Dispatch.thy ===== *)
theory Service_Dispatch
  imports Memory_Service Monitoring Obcp
begin

text \<open>
  The telecommand dispatcher of \<open>smo_simulator/service_dispatch.py\<close>: the device, housekeeping,
  event, time, scheduling, transfer, storage, test and parameter services, the power gate, and
  \<open>dispatch\<close> with its outcome. S6, S8, S12, S18 and S19 have theories of their own.
\<close>

section \<open>Device access (S2)\<close>

definition device_owner :: "int \<Rightarrow> string option" where
  "device_owner i =
     (if 0x0100 \<le> i \<and> i \<le> 0x010F then Some ''eps'' else if 0x0200 \<le> i \<and> i \<le> 0x021F then Some ''aocs''
      else if 0x0300 \<le> i \<and> i \<le> 0x030F then Some ''tcs'' else if 0x0400 \<le> i \<and> i \<le> 0x040F then Some ''ttc''
      else if 0x0500 \<le> i \<and> i \<le> 0x050F then Some ''obdh'' else if 0x0600 \<le> i \<and> i \<le> 0x060F then Some ''payload''
      else None)"

definition with_device :: "'m config \<Rightarrow> int \<Rightarrow> (string \<Rightarrow> ('m engine, bool) py) \<Rightarrow> ('m engine, bool) py" where
  "with_device cf i act =
     (case device_owner i of None \<Rightarrow> ret False
      | Some name \<Rightarrow> if sy_present (cf_sys cf) name then act name else ret False)"

definition set_device_state :: "'m config \<Rightarrow> int \<Rightarrow> bool \<Rightarrow> ('m engine, bool) py" where
  "set_device_state cf i on =
     with_device cf i (\<lambda>name. bind_py (on_models (sy_set_device (cf_sys cf) name i on)) (\<lambda>ok.
       if ok \<and> i = 0x0601 then seq_py (cooler cf on) (ret ok) else ret ok))"

definition get_device_state :: "'m config \<Rightarrow> int \<Rightarrow> ('m engine, bool) py" where
  "get_device_state cf i = with_device cf i (\<lambda>name. on_models (sy_get_device (cf_sys cf) name i))"

definition device_report :: "int \<Rightarrow> bool \<Rightarrow> ('m engine, bytes list) py" where
  "device_report i on = bind_py (of_result (pack_be 2 i)) (\<lambda>a. report 2 6 (a @ [of_bool on]))"

definition handle_s2 :: "'m config \<Rightarrow> int \<Rightarrow> bytes \<Rightarrow> ('m engine, bytes list) py" where
  "handle_s2 cf subtype d =
     (let i = be_int (take 2 d); n = length d in
      if subtype = 1 \<and> 3 \<le> n then seq_py (set_device_state cf i (d ! 2 \<noteq> 0)) (ret [])
      else if subtype = 5 \<and> 3 \<le> n then
        bind_py (set_device_state cf i (d ! 2 \<noteq> 0)) (\<lambda>ok.
          if ok then bind_py (get_device_state cf i) (device_report i) else ret [])
      else if subtype = 6 \<and> 2 \<le> n then bind_py (get_device_state cf i) (device_report i)
      else ret [])"

section \<open>Housekeeping (S3)\<close>

definition BOOTLOADER_BEACON_SID :: int where "BOOTLOADER_BEACON_SID = 11"

definition is_bootloader_beacon_sid :: "'m config \<Rightarrow> int \<Rightarrow> 'm engine \<Rightarrow> bool result" where
  "is_bootloader_beacon_sid cf sid e =
     (if sid \<noteq> BOOTLOADER_BEACON_SID then Inr False
      else case attr_of cf ''obdh'' ''sw_image'' e of
             None \<Rightarrow> (case image_param e of Inr k \<Rightarrow> Inr (k = 0) | Inl _ \<Rightarrow> Inr False)
           | Some v \<Rightarrow> (case val_int v of Inr k \<Rightarrow> Inr (k = 0)
                         | Inl x \<Rightarrow> if x = TypeError \<or> x = ValueError then Inr False else Inl x))"

definition set_hk_enabled :: "int \<Rightarrow> bool \<Rightarrow> 'm engine \<Rightarrow> 'm engine" where
  "set_hk_enabled sid b e = e\<lparr>en_hk_enabled := AList.update sid b (en_hk_enabled e)\<rparr>"

definition set_hk_interval :: "int \<Rightarrow> py_float \<Rightarrow> 'm engine \<Rightarrow> 'm engine" where
  "set_hk_interval sid x e = e\<lparr>en_hk_intervals := AList.update sid x (en_hk_intervals e)\<rparr>"

fun parse_param_ids :: "nat \<Rightarrow> bytes \<Rightarrow> int list" where
  "parse_param_ids 0 d = []"
| "parse_param_ids (Suc n) d =
     (if length d < 2 then [] else be_int (take 2 d) # parse_param_ids n (drop 2 d))"

definition parse_hk_definition :: "bytes \<Rightarrow> hk_definition" where
  "parse_hk_definition d =
     \<lparr>hd_interval = fmax (Fin False 1) (if 6 \<le> length d then arg_f32 2 d else Fin False 4),
      hd_param_ids = (if 6 < length d then parse_param_ids (unat (d ! 6)) (drop 7 d) else [])\<rparr>"

definition beacon_refusal :: "int \<Rightarrow> pytext" where
  "beacon_refusal sid = py (''HK SID '' @ str_int sid @
     '' (beacon) is mandatory while the OBC is in the bootloader - disabling it would silence the spacecraft'')"

definition handle_s3 :: "'m config \<Rightarrow> int \<Rightarrow> bytes \<Rightarrow> ('m engine, bytes list) py" where
  "handle_s3 cf subtype d =
     (let sid = be_int (take 2 d); n = length d in
      if subtype = 1 \<and> 4 \<le> n then
        seq_py (on_disp (\<lambda>ds. ds\<lparr>ds_custom_sids := AList.update sid (parse_hk_definition d) (ds_custom_sids ds)\<rparr>))
        (seq_py (modify (set_hk_enabled sid True)) (ret []))
      else if subtype = 2 \<and> 2 \<le> n then
        seq_py (on_disp (\<lambda>ds. ds\<lparr>ds_custom_sids := AList.delete sid (ds_custom_sids ds)\<rparr>))
        (seq_py (modify (set_hk_enabled sid False)) (ret []))
      else if subtype = 27 \<and> 2 \<le> n then
        bind_py (\<lambda>e. on_builder (build_hk_packet (cuc_time cf e) sid (en_params e) (cf_hk_structures cf sid)) e)
          (\<lambda>pkt. case pkt of Some p \<Rightarrow> ret [p] | None \<Rightarrow> ret [])
      else if (subtype = 3 \<or> subtype = 5) \<and> 2 \<le> n then seq_py (modify (set_hk_enabled sid True)) (ret [])
      else if (subtype = 4 \<or> subtype = 6) \<and> 2 \<le> n then
        bind_py (gets (is_bootloader_beacon_sid cf sid)) (\<lambda>r. bind_py (of_result r) (\<lambda>beacon.
          if beacon then refuse 5 (beacon_refusal sid)
          else seq_py (modify (set_hk_enabled sid False)) (ret [])))
      else if (subtype = 31 \<or> subtype = 5) \<and> 6 \<le> n then
        seq_py (modify (set_hk_interval sid (fmax (Fin False 1) (arg_f32 2 d)))) (ret [])
      else ret [])"

section \<open>Events (S5) and time (S9)\<close>

definition handle_s5 :: "int \<Rightarrow> bytes \<Rightarrow> ('m engine, bytes list) py" where
  "handle_s5 subtype d =
     (let types = (\<lambda>f. seq_py (on_disp (\<lambda>ds. ds\<lparr>ds_event_types := f (ds_event_types ds)\<rparr>)) (ret [])) in
      if subtype = 5 \<and> 1 \<le> length d then types (insert (uint (d ! 0)))
      else if subtype = 6 \<and> 1 \<le> length d then types (\<lambda>s. s - {uint (d ! 0)})
      else if subtype = 7 then types (\<lambda>s. s \<union> set [1, 2, 3, 4])
      else if subtype = 8 then types (\<lambda>s. {})
      else ret [])"

definition is_event_enabled :: "int \<Rightarrow> dispatcher \<Rightarrow> bool" where
  "is_event_enabled event_type ds \<longleftrightarrow> event_type \<in> ds_event_types ds"

definition handle_s9 :: "'m config \<Rightarrow> int \<Rightarrow> bytes \<Rightarrow> ('m engine, bytes list) py" where
  "handle_s9 cf subtype d =
     (if subtype = 1 \<and> 4 \<le> length d
      then cmd_only cf ''obdh'' ''set_time'' [(''cuc'', VInt (be_int (take 4 d)))]
      else if subtype = 2
      then bind_py (\<lambda>e. on_builder (build_time_report (cuc_time cf e)) e) (\<lambda>pkt. ret [pkt])
      else ret [])"

section \<open>Time-tagged commands (S11)\<close>

definition schedule_record :: "listed_command \<Rightarrow> bytes result" where
  "schedule_record c =
     (let i = lc_identity c; detail = take 255 (ci_data i) in
      Inr (be_bytes 2 (lc_id c AND 0xFFFF) @ be_bytes 4 (lc_exec_time c AND 0xFFFFFFFF) @
           be_bytes 2 (ci_apid i AND 0xFFFF) @ be_bytes 1 (ci_service i AND 0xFF) @
           be_bytes 1 (ci_subtype i AND 0xFF) @ be_bytes 1 (min (int (ci_data_len i)) 255) @
           be_bytes 1 (int (length detail)) @ detail))"

fun concat_results :: "bytes result list \<Rightarrow> bytes result" where
  "concat_results [] = Inr []"
| "concat_results (r # rs) = bind_result r (\<lambda>a. bind_result (concat_results rs) (\<lambda>b. Inr (a @ b)))"

definition schedule_report :: "tc_scheduler \<Rightarrow> bytes result" where
  "schedule_report s =
     bind_result (pack_be 2 (int (length (list_commands s)))) (\<lambda>n.
     bind_result (concat_results (map schedule_record (list_commands s))) (\<lambda>rs.
     Inr (n @ [of_bool (ss_enabled (get_status s))] @ be_bytes 2 (ss_next_id (get_status s) AND 0xFFFF) @ rs)))"

abbreviation on_scheduler :: "(tc_scheduler \<Rightarrow> tc_scheduler) \<Rightarrow> ('m engine, unit) py" where
  "on_scheduler f \<equiv> modify (\<lambda>e. e\<lparr>en_scheduler := f (en_scheduler e)\<rparr>)"

definition handle_s11 :: "int \<Rightarrow> bytes \<Rightarrow> ('m engine, bytes list) py" where
  "handle_s11 subtype d =
     (if subtype = 4 \<and> 4 \<le> length d then
        bind_py (gets (\<lambda>e. insert_command (be_int (take 4 d)) (drop 4 d) (en_scheduler e))) (\<lambda>(cmd_id, s).
        seq_py (on_scheduler (\<lambda>_. s))
        (bind_py (of_result (pack_be 2 cmd_id)) (report 11 5)))
      else if subtype = 7 \<and> 2 \<le> length d then
        seq_py (on_scheduler (\<lambda>s. snd (delete_command (be_int (take 2 d)) s))) (ret [])
      else if subtype = 9 then seq_py (on_scheduler disable_schedule) (ret [])
      else if subtype = 11 then seq_py (on_scheduler delete_all) (ret [])
      else if subtype = 13 then seq_py (on_scheduler enable_schedule) (ret [])
      else if subtype = 17 then
        bind_py (gets (\<lambda>e. schedule_report (en_scheduler e))) (\<lambda>r. bind_py (of_result r) (report 11 18))
      else ret [])"

section \<open>Large data transfer (S13)\<close>

definition DEFAULT_IMAGE_SIZE_MB :: int where "DEFAULT_IMAGE_SIZE_MB = 4"

definition default_image_size_mb :: "'m config \<Rightarrow> 'm engine \<Rightarrow> int" where
  "default_image_size_mb cf e =
     (case attr_of cf ''payload'' ''image_size_mb'' e of
        Some (VInt k) \<Rightarrow> if 0 < k then max 1 k else DEFAULT_IMAGE_SIZE_MB
      | Some (VFloat x) \<Rightarrow>
          if fless (Fin False 0) x
          then (case round_float x of Inr k \<Rightarrow> max 1 k | Inl _ \<Rightarrow> DEFAULT_IMAGE_SIZE_MB)
          else DEFAULT_IMAGE_SIZE_MB
      | _ \<Rightarrow> DEFAULT_IMAGE_SIZE_MB)"

definition new_transfer :: "int \<Rightarrow> int \<Rightarrow> transfer" where
  "new_transfer scene_id size_mb = \<lparr>xf_scene_id = scene_id, xf_size_mb = size_mb,
     xf_total_blocks = (size_mb * 1024 * 1024 + 1023) div 1024, xf_blocks_sent = 0, xf_status = ACTIVE\<rparr>"

abbreviation on_transfers :: "((int \<times> transfer) list \<Rightarrow> (int \<times> transfer) list) \<Rightarrow> ('m engine, unit) py" where
  "on_transfers f \<equiv> on_disp (\<lambda>ds. ds\<lparr>ds_transfers := f (ds_transfers ds)\<rparr>)"

definition block_data :: "int \<Rightarrow> bytes" where
  "block_data segment_num = map (\<lambda>i. word_of_int ((segment_num + int i) mod 256)) [0..<1024]"

fun status_code :: "transfer_status \<Rightarrow> int" where
  "status_code ACTIVE = 1" | "status_code PAUSED = 2" | "status_code COMPLETE = 3"

definition transfer_report :: "int \<Rightarrow> transfer \<Rightarrow> bytes result" where
  "transfer_report i x =
     bind_result (pack_be 2 i) (\<lambda>a.
     bind_result (pack_be 4 (xf_blocks_sent x)) (\<lambda>b.
     bind_result (pack_be 4 (xf_total_blocks x)) (\<lambda>c. Inr (a @ b @ c @ be_bytes 1 (status_code (xf_status x))))))"

definition handle_s13 :: "'m config \<Rightarrow> int \<Rightarrow> bytes \<Rightarrow> ('m engine, bytes list) py" where
  "handle_s13 cf subtype d =
     (let i = be_int (take 2 d) in
      if subtype = 1 \<and> 4 \<le> length d then
        bind_py (gets (default_image_size_mb cf)) (\<lambda>dflt.
        bind_py (gets (\<lambda>e. ds_transfer_counter (en_disp e))) (\<lambda>tid.
        let size_mb = (if arg_u16 2 d = 0 then dflt else arg_u16 2 d) in
        seq_py (on_disp (\<lambda>ds. ds\<lparr>ds_transfer_counter := tid + 1,
                 ds_transfers := AList.update tid (new_transfer i size_mb) (ds_transfers ds)\<rparr>))
        (bind_py (of_result (pack_be 2 tid)) (report 13 2))))
      else if subtype = 3 \<and> 4 \<le> length d then
        (let seg = be_int (pyslice 2 4 d) in
         bind_py (gets (\<lambda>e. map_of (ds_transfers (en_disp e)) i)) (\<lambda>x. case x of
             None \<Rightarrow> report 13 4 (take 2 d)
           | Some xfer \<Rightarrow>
               if xf_status xfer \<noteq> ACTIVE then ret []
               else seq_py (on_transfers (AList.update i (xfer\<lparr>xf_blocks_sent := seg + 1\<rparr>)))
                    (report 13 4 (take 4 d @ block_data seg))))
      else if subtype = 5 \<and> 2 \<le> length d then seq_py (on_transfers (AList.delete i)) (ret [])
      else if subtype = 9 \<and> 2 \<le> length d then
        bind_py (gets (\<lambda>e. map_of (ds_transfers (en_disp e)) i)) (\<lambda>x. case x of
            None \<Rightarrow> ret []
          | Some xfer \<Rightarrow> bind_py (of_result (transfer_report i xfer)) (report 13 10))
      else ret [])"

section \<open>Packet stores (S15)\<close>

definition MAX_DUMP_PENDING :: nat where "MAX_DUMP_PENDING = 5000"

text \<open>\<open>queue_dump\<close> of the engine, without the archive file it writes.\<close>

definition queue_dump :: "int \<Rightarrow> ('m engine, nat) py" where
  "queue_dump store_id =
     bind_py (gets (\<lambda>e. start_dump store_id (en_storage e))) (\<lambda>packets.
       if packets = [] then ret 0
       else seq_py (modify (\<lambda>e. e
              \<lparr>en_dump_pending := en_dump_pending e @
                 map (\<lambda>p. (p, store_id)) (take (MAX_DUMP_PENDING - length (en_dump_pending e)) packets),
               en_dump_active := List.insert store_id (en_dump_active e)\<rparr>))
            (ret (length packets)))"

record store_status =
  tt_id :: int
  tt_name :: string
  tt_count :: nat
  tt_capacity :: nat
  tt_enabled :: bool
  tt_fill_pct :: py_float
  tt_overflow :: bool
  tt_circular :: bool
  tt_wrap_count :: nat

text \<open>\<open>round(count / cap * 100, 1)\<close>, each operation rounded to binary64.\<close>

definition round1 :: "py_float \<Rightarrow> py_float" where
  "round1 x = (case x of Fin s m \<Rightarrow> fl (of_int (round_even (fin_val s m * 10)) / 10) | _ \<Rightarrow> x)"

definition fill_pct :: "nat \<Rightarrow> nat \<Rightarrow> py_float" where
  "fill_pct count cap =
     (if 0 < cap then round1 (fmul (fl (of_nat count / of_nat cap)) (Fin False 100)) else Fin False 0)"

definition storage_status :: "tm_storage \<Rightarrow> store_status list" where
  "storage_status s = map (\<lambda>(k, st).
     \<lparr>tt_id = k, tt_name = st_name st, tt_count = length (st_packets st), tt_capacity = st_capacity st,
      tt_enabled = st_enabled st, tt_fill_pct = fill_pct (length (st_packets st)) (st_capacity st),
      tt_overflow = st_overflow st, tt_circular = st_circular st, tt_wrap_count = st_wrap_count st\<rparr>)
     (sort_key fst s)"

definition ascii_name :: "string \<Rightarrow> bytes" where
  "ascii_name n = map (\<lambda>c. if of_char c < (128 :: nat) then of_char c else 63) (take 32 n)"

definition store_record :: "store_status \<Rightarrow> bytes result" where
  "store_record s =
     bind_result (round_float (fmul (tt_fill_pct s) (Fin False 10))) (\<lambda>fill.
     bind_result (pack_be 2 (min fill 0xFFFF)) (\<lambda>f.
     Inr (be_bytes 1 (tt_id s AND 0xFF) @ be_bytes 2 (int (tt_count s) AND 0xFFFF) @
          be_bytes 2 (int (tt_capacity s) AND 0xFFFF) @ [of_bool (tt_enabled s)] @ f @
          [of_bool (tt_overflow s) OR (if tt_circular s then 2 else 0)] @
          be_bytes 2 (int (tt_wrap_count s) AND 0xFFFF) @ be_bytes 1 (int (length (ascii_name (tt_name s)))) @
          ascii_name (tt_name s))))"

definition stores_report :: "tm_storage \<Rightarrow> bytes result" where
  "stores_report s =
     bind_result (pack_be 1 (int (length (storage_status s)))) (\<lambda>n.
     bind_result (concat_results (map store_record (storage_status s))) (\<lambda>rs. Inr (n @ rs)))"

definition handle_s15 :: "int \<Rightarrow> bytes \<Rightarrow> ('m engine, bytes list) py" where
  "handle_s15 subtype d =
     (let sid = uint (d ! 0); some = d \<noteq> [];
          stores = (\<lambda>f. seq_py (modify (\<lambda>e. e\<lparr>en_storage := f (en_storage e)\<rparr>)) (ret [])) in
      if subtype = 1 \<and> some then stores (enable_store sid)
      else if subtype = 2 \<and> some then stores (disable_store sid)
      else if subtype = 9 \<and> some then
        bind_py (queue_dump sid) (\<lambda>count. if 0 < count then generate_s1_progress 0 (int count) else ret [])
      else if subtype = 11 \<and> some then stores (delete_store sid)
      else if subtype = 13 then
        bind_py (gets (\<lambda>e. stores_report (en_storage e))) (\<lambda>r. bind_py (of_result r) (report 15 14))
      else ret [])"

section \<open>Connection test (S17) and parameters (S20)\<close>

definition handle_s17 :: "'m config \<Rightarrow> int \<Rightarrow> ('m engine, bytes list) py" where
  "handle_s17 cf subtype =
     (if subtype = 1
      then bind_py (\<lambda>e. on_builder (build_connection_test_report (cuc_time cf e)) e) (\<lambda>pkt. ret [pkt])
      else ret [])"

definition PASS_OVERRIDE_PARAM :: int where "PASS_OVERRIDE_PARAM = 0x05FF"

definition set_parameter :: "int \<Rightarrow> py_float \<Rightarrow> 'm engine \<Rightarrow> 'm engine" where
  "set_parameter p v e =
     (let e' = e\<lparr>en_params := (en_params e)(p \<mapsto> v)\<rparr>
      in if p = PASS_OVERRIDE_PARAM then e'\<lparr>en_override_passes := fbool v\<rparr> else e')"

definition handle_s20 :: "'m config \<Rightarrow> int \<Rightarrow> bytes \<Rightarrow> ('m engine, bytes list) py" where
  "handle_s20 cf subtype d =
     (let p = be_int (take 2 d) in
      if subtype = 1 \<and> 6 \<le> length d then seq_py (modify (set_parameter p (arg_f32 2 d))) (ret [])
      else if subtype = 3 \<and> 2 \<le> length d then
        bind_py (\<lambda>e. on_builder (build_param_value_report (cuc_time cf e) p
                      (case en_params e p of Some v \<Rightarrow> v | None \<Rightarrow> Fin False 0)) e) (\<lambda>pkt. ret [pkt])
      else ret [])"

section \<open>The power gate\<close>

definition EQUIPMENT_MGMT_FUNC_IDS :: "int list" where
  "EQUIPMENT_MGMT_FUNC_IDS = [0, 2, 3, 4, 5, 6, 7, 9, 26]"

definition function_gate :: "'m config \<Rightarrow> int \<Rightarrow> 'm engine \<Rightarrow> (bool \<times> pytext) result" where
  "function_gate cf func_id e =
     (let line = func_id_owner func_id;
          owner = (if func_id \<in> set EQUIPMENT_MGMT_FUNC_IDS then None else func_id_subsys func_id);
          label = ''S8 func_id '' @ str_int func_id
      in case line of
           Some l \<Rightarrow>
             if \<not> power_line cf l True e
             then Inr (False, py (label @ '': power line '' @ [CHR 0x27] @ l @ [CHR 0x27] @ '' is OFF''))
             else (case owner of None \<Rightarrow> Inr (True, [])
                   | Some name \<Rightarrow>
                       (case attr_of cf name ''mode'' e of None \<Rightarrow> Inr (True, [])
                        | Some v \<Rightarrow> bind_result (val_int v) (\<lambda>m.
                            Inr (if m \<le> 0 then (False, py (label @ '': '' @ name @ '' subsystem in MODE_OFF''))
                                 else (True, [])))))
         | None \<Rightarrow> Inr (True, []))"

definition check_power_state :: "'m config \<Rightarrow> int \<Rightarrow> int \<Rightarrow> bytes \<Rightarrow> 'm engine \<Rightarrow> (bool \<times> pytext) result" where
  "check_power_state cf service subtype d e =
     (if \<not> sy_present (cf_sys cf) ''eps'' then Inr (True, [])
      else if service = 8 \<and> subtype = 1 \<and> d \<noteq> [] then function_gate cf (uint (d ! 0)) e
      else if service = 20 \<and> (subtype = 1 \<or> subtype = 3) \<and> 2 \<le> length d then
        (let p = be_int (take 2 d) in
         bind_result (param_source_powered cf p e) (\<lambda>ok.
           Inr (if ok then (True, [])
                else (False, py (''S20.'' @ str_int subtype @ '' param 0x'' @ fmt_X 4 p @
                                 '': source subsystem unpowered or in MODE_OFF'')))))
      else Inr (True, []))"

section \<open>Dispatch\<close>

definition generate_s1_reports :: "int \<Rightarrow> ('m engine, bytes list) py" where
  "generate_s1_reports req = bind_py (of_result (pack_be 2 req)) (report 1 3)"

definition handle_service ::
  "'m config \<Rightarrow> (event \<Rightarrow> ('m engine, unit) py) \<Rightarrow> int \<Rightarrow> int \<Rightarrow> bytes \<Rightarrow> ('m engine, bytes list) py" where
  "handle_service cf emit service subtype d =
     (if service = 2 then handle_s2 cf subtype d
      else if service = 3 then handle_s3 cf subtype d
      else if service = 5 then handle_s5 subtype d
      else if service = 6 then handle_s6 cf subtype d
      else if service = 8 then handle_s8 cf emit subtype d
      else if service = 9 then handle_s9 cf subtype d
      else if service = 11 then handle_s11 subtype d
      else if service = 12 then handle_s12 subtype d
      else if service = 13 then handle_s13 cf subtype d
      else if service = 15 then handle_s15 subtype d
      else if service = 17 then handle_s17 cf subtype
      else if service = 18 then handle_s18 emit subtype d
      else if service = 19 then handle_s19 subtype d
      else if service = 20 then handle_s20 cf subtype d
      else ret [])"

datatype failure_kind = No_failure | Execution | Exec_start

record dispatch_result =
  dr_packets :: "bytes list"
  dr_error_code :: int
  dr_reason :: pytext
  dr_kind :: failure_kind

definition outcome :: "bytes list \<Rightarrow> dispatcher \<Rightarrow> dispatch_result" where
  "outcome packets ds =
     (if ds_err_reason ds \<noteq> []
      then \<lparr>dr_packets = packets, dr_error_code = ds_err_code ds, dr_reason = ds_err_reason ds, dr_kind = Execution\<rparr>
      else case ds_exec_fail ds of
             Some (code, reason) \<Rightarrow>
               \<lparr>dr_packets = packets, dr_error_code = code, dr_reason = reason, dr_kind = Exec_start\<rparr>
           | None \<Rightarrow> \<lparr>dr_packets = packets, dr_error_code = 0, dr_reason = [], dr_kind = No_failure\<rparr>)"

definition dispatch_inner ::
  "'m config \<Rightarrow> (event \<Rightarrow> ('m engine, unit) py) \<Rightarrow> int \<Rightarrow> int \<Rightarrow> bytes \<Rightarrow> ('m engine, dispatch_result) py" where
  "dispatch_inner cf emit service subtype d =
     bind_py (catch (handle_service cf emit service subtype d) (\<lambda>_. ret [])) (\<lambda>packets.
       gets (\<lambda>e. outcome packets (en_disp e)))"

definition dispatch ::
  "'m config \<Rightarrow> (event \<Rightarrow> ('m engine, unit) py) \<Rightarrow> int \<Rightarrow> int \<Rightarrow> bytes \<Rightarrow> int \<Rightarrow> ('m engine, dispatch_result) py" where
  "dispatch cf emit service subtype d sequence_count =
     isolated (\<lambda>ds. (clear_acc ds)\<lparr>ds_request_id := sequence_count\<rparr>) (dispatch_inner cf emit service subtype d)"

section \<open>Breakpoints\<close>

record saved_dispatcher =
  sd_s12_enabled :: "bool option"
  sd_s12 :: "(int \<times> s12_definition) list option"
  sd_s19 :: "(int \<times> ea_definition) list option"
  sd_s19_enabled :: "int list option"
  sd_transfers :: "(int \<times> transfer) list option"
  sd_transfer_counter :: "int option"
  sd_custom_sids :: "(int \<times> hk_definition) list option"
  sd_event_types :: "int list option"

definition dispatcher_state :: "dispatcher \<Rightarrow> saved_dispatcher" where
  "dispatcher_state ds =
     \<lparr>sd_s12_enabled = Some (ds_s12_enabled ds), sd_s12 = Some (ds_s12 ds), sd_s19 = Some (ds_s19 ds),
      sd_s19_enabled = Some (sorted_list_of_set (ds_s19_enabled ds)), sd_transfers = Some (ds_transfers ds),
      sd_transfer_counter = Some (ds_transfer_counter ds), sd_custom_sids = Some (ds_custom_sids ds),
      sd_event_types = Some (sorted_list_of_set (ds_event_types ds))\<rparr>"

definition set_dispatcher_state :: "saved_dispatcher \<Rightarrow> dispatcher \<Rightarrow> dispatcher" where
  "set_dispatcher_state st ds = ds
     \<lparr>ds_s12_enabled := defaulted True (sd_s12_enabled st), ds_s12 := defaulted [] (sd_s12 st),
      ds_s19 := defaulted [] (sd_s19 st), ds_s19_enabled := set (defaulted [] (sd_s19_enabled st)),
      ds_transfers := defaulted [] (sd_transfers st),
      ds_transfer_counter := defaulted 1 (sd_transfer_counter st),
      ds_custom_sids := defaulted [] (sd_custom_sids st),
      ds_event_types := (case sd_event_types st of Some l \<Rightarrow> set l | None \<Rightarrow> ds_event_types ds)\<rparr>"

end
