(* ===== verification/Tc_Pipeline.thy ===== *)
theory Tc_Pipeline
  imports Service_Dispatch
begin

text \<open>
  The life of a telecommand in \<open>smo_simulator/engine.py\<close>: the gates at acceptance, the S1 reports
  around execution, and the refusals, which are reported on the ground and in the event log
  (\<open>_drain_tc_queue\<close>, \<open>_dispatch_tc\<close>, \<open>_reject_tc\<close>, \<open>_emit_command_rejected\<close>).
\<close>

section \<open>Counters of the on-board computer\<close>

definition count_obdh :: "'m config \<Rightarrow> string \<Rightarrow> ('m engine, unit) py" where
  "count_obdh cf counter =
     when_py (sy_present (cf_sys cf) ''obdh'') (modify (\<lambda>e. e\<lparr>en_models := sy_count (cf_sys cf) counter (en_models e)\<rparr>))"

section \<open>Refusals\<close>

definition EV_COMMAND_REJECTED :: int where "EV_COMMAND_REJECTED = 0x030B"

definition rejection_event :: "int \<Rightarrow> int \<Rightarrow> bytes \<Rightarrow> int \<Rightarrow> pytext \<Rightarrow> string \<Rightarrow> event" where
  "rejection_event service subtype d error_code reason stage =
     \<lparr>ev_id = EV_COMMAND_REJECTED, ev_severity = Sev_name ''MEDIUM'',
      ev_description = format_command_rejection (tc_identity service subtype d) (py stage) error_code reason,
      ev_extra = [(''service'', VInt service), (''subtype'', VInt subtype),
        (''func_id'', if service = 8 \<and> subtype = 1 \<and> d \<noteq> [] then VInt (uint (d ! 0)) else VNone),
        (''error_code'', VInt error_code), (''reason'', VText reason), (''stage'', VStr stage)]\<rparr>"

definition emit_command_rejected ::
  "'m config \<Rightarrow> (event \<Rightarrow> ('m engine, unit) py) \<Rightarrow> int \<Rightarrow> int \<Rightarrow> bytes \<Rightarrow> int \<Rightarrow> pytext \<Rightarrow> string \<Rightarrow> ('m engine, unit) py" where
  "emit_command_rejected cf emit service subtype d error_code reason stage =
     seq_py (when_py (sy_present (cf_sys cf) ''obdh'')
               (catch (on_models (sy_failure_code (cf_sys cf) error_code)) (\<lambda>_. ret ())))
       (catch (emit (rejection_event service subtype d error_code reason stage)) (\<lambda>_. ret ()))"

definition reject_tc ::
  "'m config \<Rightarrow> (event \<Rightarrow> ('m engine, unit) py) \<Rightarrow> decommutated_packet \<Rightarrow> secondary_header \<Rightarrow> int \<Rightarrow> pytext \<Rightarrow>
   ('m engine, unit) py" where
  "reject_tc cf emit p sec error_code reason =
     (let ph = dp_primary p in
      seq_py (send_tm cf (build_verification_failure (ph_apid ph) (ph_sequence_count ph) error_code reason))
      (seq_py (count_obdh cf ''tc_rejected'')
        (emit_command_rejected cf emit (sh_service sec) (sh_subtype sec) (dp_data_field p) error_code reason
           ''acceptance'')))"

section \<open>The gates\<close>

definition in_bootloader :: "'m engine \<Rightarrow> bool" where
  "in_bootloader e \<longleftrightarrow> en_phase e \<le> 3"

definition BOOTLOADER_FUNCS :: "int list" where
  "BOOTLOADER_FUNCS = [19, 20, 52, 53, 54, 55, 56, 57, 61, 66, 67, 69]"

definition bootloader_allowed :: "int \<Rightarrow> int \<Rightarrow> bytes \<Rightarrow> bool" where
  "bootloader_allowed service subtype d =
     (if service = 17 \<and> subtype = 1 then True
      else if service = 9 \<and> subtype = 1 then True
      else if service = 3 \<and> subtype \<in> set [1, 3, 5, 6, 9, 27] then True
      else if service = 20 \<and> subtype \<in> set [1, 3] then True
      else service = 8 \<and> subtype = 1 \<and> d \<noteq> [] \<and> uint (d ! 0) \<in> set BOOTLOADER_FUNCS)"

definition BUS_FAILED :: int where "BUS_FAILED = 2"

definition obdh_is :: "'m config \<Rightarrow> string \<Rightarrow> int \<Rightarrow> 'm engine \<Rightarrow> bool" where
  "obdh_is cf attr k e = (case attr_of cf ''obdh'' attr e of Some v \<Rightarrow> is_number k v | None \<Rightarrow> k = 0)"

definition obc_bus_failed :: "'m config \<Rightarrow> 'm engine \<Rightarrow> bool" where
  "obc_bus_failed cf e =
     (sy_present (cf_sys cf) ''obdh'' \<and>
      obdh_is cf (if obdh_is cf ''active_bus'' 0 e then ''bus_a_status'' else ''bus_b_status'') BUS_FAILED e)"

definition bootloader_reason :: "int \<Rightarrow> int \<Rightarrow> bytes \<Rightarrow> int \<Rightarrow> pytext" where
  "bootloader_reason service subtype d phase =
     tc_identity service subtype d @ py ('' is not in the bootloader command subset (phase '' @ str_int phase @
       ''); boot the application (S8.1 func 55) first'')"

definition bus_reason :: "int \<Rightarrow> pytext" where
  "bus_reason func_id = py (''S8.1 func '' @ str_int func_id @ '': target subsystem is unreachable '') @ [0x2014] @
     py ('' the OBC'' @ [CHR 0x27] @ ''s active CAN bus has failed (recover with func 54 OBC_SELECT_BUS)'')"

definition obdh_function :: "int \<Rightarrow> bool" where
  "obdh_function f \<longleftrightarrow> 50 \<le> f \<and> f \<le> 62 \<or> f = 80"

text \<open>The first gate that refuses the command, with the code and reason of its S1.2.\<close>

definition refusal :: "'m config \<Rightarrow> int \<Rightarrow> int \<Rightarrow> bytes \<Rightarrow> 'm engine \<Rightarrow> (int \<times> pytext) option result" where
  "refusal cf service subtype d e =
     (if in_bootloader e \<and> \<not> bootloader_allowed service subtype d
      then Inr (Some (6, bootloader_reason service subtype d (en_phase e)))
      else if service = 8 \<and> subtype = 1 \<and> d \<noteq> [] \<and> obc_bus_failed cf e \<and> \<not> obdh_function (uint (d ! 0))
      then Inr (Some (4, bus_reason (uint (d ! 0))))
      else case check_tc_acceptance service subtype d of
             (False, code) \<Rightarrow> Inr (Some (code, acceptance_failure_reason service subtype d code))
           | (True, _) \<Rightarrow>
               if in_bootloader e then Inr None
               else bind_result (check_power_state cf service subtype d e) (\<lambda>(ok, reason).
                      Inr (if ok then None else Some (4, reason))))"

section \<open>Execution\<close>

definition arm_auto_tx_hold :: "'m config \<Rightarrow> 'm engine \<Rightarrow> 'm engine" where
  "arm_auto_tx_hold cf e =
     (if sy_present (cf_sys cf) ''eps''
      then e\<lparr>en_models := sy_set_line (cf_sys cf) ''ttc_tx'' True (en_models e), en_auto_tx := cf_auto_tx_hold cf\<rparr>
      else e\<lparr>en_auto_tx := cf_auto_tx_hold cf\<rparr>)"

text \<open>\<open>result.error_code or 0x0001\<close>.\<close>

definition code_or_1 :: "int \<Rightarrow> int" where
  "code_or_1 c = (if c = 0 then 1 else c)"

definition report_outcome ::
  "'m config \<Rightarrow> (event \<Rightarrow> ('m engine, unit) py) \<Rightarrow> decommutated_packet \<Rightarrow> secondary_header \<Rightarrow> dispatch_result \<Rightarrow>
   ('m engine, unit) py" where
  "report_outcome cf emit p sec result =
     (let ph = dp_primary p; ap = ph_apid ph; sq = ph_sequence_count ph;
          rejected = (\<lambda>code. emit_command_rejected cf emit (sh_service sec) (sh_subtype sec) (dp_data_field p)
                                code (dr_reason result) ''execution'')
      in case dr_kind result of
           Execution \<Rightarrow>
             (let code = code_or_1 (dr_error_code result) in
              seq_py (send_tm cf (build_execution_failure ap sq code (dr_reason result))) (rejected code))
         | Exec_start \<Rightarrow> rejected (dr_error_code result)
         | No_failure \<Rightarrow> send_tm cf (build_verification_completion ap sq))"

definition execute_tc ::
  "'m config \<Rightarrow> (event \<Rightarrow> ('m engine, unit) py) \<Rightarrow> decommutated_packet \<Rightarrow> secondary_header \<Rightarrow> ('m engine, unit) py" where
  "execute_tc cf emit p sec =
     (let ph = dp_primary p; sq = ph_sequence_count ph in
      seq_py (send_tm cf (build_verification_acceptance (ph_apid ph) sq))
      (seq_py (count_obdh cf ''tc_accepted'')
      (seq_py (modify (arm_auto_tx_hold cf))
      (bind_py (generate_s1_reports sq) (\<lambda>started.
       seq_py (each (enqueue_tm cf) started)
       (bind_py (dispatch cf emit (sh_service sec) (sh_subtype sec) (dp_data_field p) sq) (\<lambda>result.
        seq_py (each (enqueue_tm cf) (dr_packets result))
        (seq_py (report_outcome cf emit p sec result)
          (count_obdh cf ''tc_executed'')))))))))"

definition dispatch_packet ::
  "'m config \<Rightarrow> (event \<Rightarrow> ('m engine, unit) py) \<Rightarrow> decommutated_packet \<Rightarrow> secondary_header \<Rightarrow> ('m engine, unit) py" where
  "dispatch_packet cf emit p sec =
     seq_py (count_obdh cf ''tc_received'')
     (bind_py (gets (refusal cf (sh_service sec) (sh_subtype sec) (dp_data_field p))) (\<lambda>r.
      bind_py (of_result r) (\<lambda>refused. case refused of
          Some (code, reason) \<Rightarrow> reject_tc cf emit p sec code reason
        | None \<Rightarrow> execute_tc cf emit p sec)))"

definition dispatch_tc :: "'m config \<Rightarrow> (event \<Rightarrow> ('m engine, unit) py) \<Rightarrow> bytes \<Rightarrow> ('m engine, unit) py" where
  "dispatch_tc cf emit raw =
     bind_py (of_result (decommutate_packet raw)) (\<lambda>pkt. case pkt of
         None \<Rightarrow> ret ()
       | Some p \<Rightarrow> (case dp_secondary p of None \<Rightarrow> ret () | Some sec \<Rightarrow> dispatch_packet cf emit p sec))"

section \<open>The uplink queue\<close>

definition uplink_refusal :: pytext where
  "uplink_refusal = py ''Uplink is not available (no command channel lock); the telecommand was not accepted''"

definition refuse_uplink :: "'m config \<Rightarrow> bytes \<Rightarrow> ('m engine, unit) py" where
  "refuse_uplink cf raw =
     bind_py (of_result (decommutate_packet raw)) (\<lambda>pkt. case pkt of
         None \<Rightarrow> ret ()
       | Some p \<Rightarrow> send_tm cf (build_verification_failure (ph_apid (dp_primary p))
                     (ph_sequence_count (dp_primary p)) 5 uplink_refusal))"

definition drain_one :: "'m config \<Rightarrow> (event \<Rightarrow> ('m engine, unit) py) \<Rightarrow> bytes \<Rightarrow> ('m engine, unit) py" where
  "drain_one cf emit raw =
     catch (bind_py (gets uplink_active) (\<lambda>up. if up then dispatch_tc cf emit raw else refuse_uplink cf raw))
       (\<lambda>_. ret ())"

definition drain_tc_queue :: "'m config \<Rightarrow> (event \<Rightarrow> ('m engine, unit) py) \<Rightarrow> bytes list \<Rightarrow> ('m engine, unit) py" where
  "drain_tc_queue cf emit raws = each (drain_one cf emit) raws"

text \<open>The time-tagged commands of one tick; an exception ends the tick.\<close>

definition release_schedule :: "'m config \<Rightarrow> (event \<Rightarrow> ('m engine, unit) py) \<Rightarrow> ('m engine, unit) py" where
  "release_schedule cf emit =
     bind_py (gets (\<lambda>e. tick (cuc_time cf e) (en_scheduler e))) (\<lambda>(due, s).
     seq_py (on_scheduler (\<lambda>_. s)) (each (dispatch_tc cf emit) due))"

end
