(* ===== verification/Outbox.thy ===== *)
theory Outbox
  imports Tc_Pipeline
begin

text \<open>
  What the telecommand path leaves alone and what it sends: the function routes, the event-action
  rules and \<open>emit_event\<close> change the models, the packet builder, the outcome accumulators, the
  packet stores and the queues of the downlink, and nothing else; the packets they send are event
  reports. The packets the handlers return are well-formed reports of their services. These facts
  are propagated by the rules of \<open>py_frame\<close> and \<open>ends_rules\<close>.
\<close>

section \<open>Reports\<close>

text \<open>The service and subtype of a packet that the ground accepts.\<close>

definition report_kind :: "bytes \<Rightarrow> (int \<times> int) option" where
  "report_kind p = (case decommutate_packet p of
      Inr (Some d) \<Rightarrow> if dp_crc_valid d then map_option (\<lambda>s. (sh_service s, sh_subtype s)) (dp_secondary d) else None
    | _ \<Rightarrow> None)"

lemma pack_tm_kind:
  assumes "pack_tm srv sub d cuc tb = (Inr p, tb')"
  shows "report_kind p = Some (srv, sub)"
proof -
  have ok: "srv \<in> {0..<256} \<and> sub \<in> {0..<256} \<and> cuc \<in> {0..<2 ^ 32} \<and> length d + 7 < 65535"
    using pack_tm_fails [of srv sub cuc d tb] assms by force
  then obtain q where "pack_tm srv sub d cuc tb = (Inr q, tb_next tb)" "tm_reads (tb_next tb) srv sub cuc d q"
    using pack_tm_reads [of srv sub cuc d tb] by blast
  then have "tm_reads (tb_next tb) srv sub cuc d p" using assms by simp
  then obtain c where "decommutate_packet (p @ []) = Inr (Some
       \<lparr>dp_primary = packet_header packet_type_TM (tb_apid (tb_next tb)) (tb_seq_count (tb_next tb)) (length d + 7),
        dp_secondary = Some \<lparr>sh_pus_version = 0, sh_service = srv, sh_subtype = sub, sh_cuc_time = cuc\<rparr>,
        dp_data_field = d, dp_crc = c, dp_crc_valid = True, dp_raw = p\<rparr>)"
    unfolding tm_reads_def by blast
  then show ?thesis by (simp add: report_kind_def)
qed

definition makes :: "int \<Rightarrow> int \<Rightarrow> (tm_builder, bytes) py \<Rightarrow> bool" where
  "makes srv sub b \<longleftrightarrow> ends (\<lambda>p tb. report_kind p = Some (srv, sub)) b"

lemma makes_pack_tm: "makes srv sub (pack_tm srv sub d cuc)"
  unfolding makes_def ends_def using pack_tm_kind by blast

lemma makes_bind: "(\<And>a. makes srv sub (f a)) \<Longrightarrow> makes srv sub (bind_py m f)"
  unfolding makes_def by (rule ends_bind)

lemma makes_let: "(\<And>x. makes srv sub (f x)) \<Longrightarrow> makes srv sub (let x = t in f x)"
  by simp

lemma makes_builders:
  "makes 1 1 (build_verification_acceptance ap sq)" "makes 1 7 (build_verification_completion ap sq)"
  "makes 1 2 (build_verification_failure ap sq code r)" "makes 1 8 (build_execution_failure ap sq code r)"
  "makes 5 sev (build_event_packet now i sev t)" "makes 9 2 (build_time_report now)"
  "makes 17 2 (build_connection_test_report now)" "makes 20 2 (build_param_value_report now p v)"
  unfolding build_verification_acceptance_def build_verification_completion_def build_verification_failure_def
    build_execution_failure_def build_event_packet_def build_time_report_def build_connection_test_report_def
    build_param_value_report_def
  by (intro makes_bind makes_let makes_pack_tm)+

section \<open>The frame\<close>

definition configuration :: "dispatcher \<Rightarrow> dispatcher" where
  "configuration d = restore_acc ([], 0, None, 0) d"

definition kept :: "'m engine \<Rightarrow> 'm engine \<Rightarrow> bool" where
  "kept e e' \<longleftrightarrow>
     configuration (en_disp e') = configuration (en_disp e) \<and> en_params e' = en_params e \<and>
     en_memory e' = en_memory e \<and> en_scheduler e' = en_scheduler e \<and> en_procedures e' = en_procedures e \<and>
     en_running e' = en_running e \<and> en_hk_enabled e' = en_hk_enabled e \<and> en_hk_intervals e' = en_hk_intervals e \<and>
     en_hk_timers e' = en_hk_timers e \<and> en_violation_active e' = en_violation_active e \<and>
     en_violation_records e' = en_violation_records e \<and> en_phase e' = en_phase e \<and>
     en_sep_timer e' = en_sep_timer e \<and> en_in_contact e' = en_in_contact e \<and>
     en_override_passes e' = en_override_passes e \<and> en_auto_tx e' = en_auto_tx e \<and>
     en_rt_budget e' = en_rt_budget e \<and> en_dump_pending e' = en_dump_pending e \<and>
     en_dump_active e' = en_dump_active e \<and> en_dump_budget e' = en_dump_budget e"

definition outbox :: "'m config \<Rightarrow> 'm engine \<Rightarrow> bytes list" where
  "outbox cf e = (if cf_pacing cf then en_rt_pending e else en_tm_queue e)"

text \<open>The three queues of the engine are within their limits.\<close>

definition within_limits :: "'m config \<Rightarrow> 'm engine \<Rightarrow> bool" where
  "within_limits cf e \<longleftrightarrow> length (en_tm_queue e) \<le> TM_QUEUE_SIZE \<and>
     length (en_rt_pending e) \<le> cf_rt_backlog_max cf \<and> length (en_event_queue e) \<le> EVENT_QUEUE_SIZE"

definition sends :: "'m config \<Rightarrow> (bytes \<Rightarrow> bool) \<Rightarrow> 'm engine \<Rightarrow> 'm engine \<Rightarrow> bool" where
  "sends cf P e e' \<longleftrightarrow> (\<exists>ps. outbox cf e' = outbox cf e @ ps \<and> list_all P ps) \<and>
     (within_limits cf e \<longrightarrow> within_limits cf e')"

definition is_event_report :: "bytes \<Rightarrow> bool" where
  "is_event_report p \<longleftrightarrow> (\<exists>s. report_kind p = Some (5, s))"

definition evt :: "'m config \<Rightarrow> 'm engine \<Rightarrow> 'm engine \<Rightarrow> bool" where
  "evt cf e e' \<longleftrightarrow> kept e e' \<and> sends cf is_event_report e e'"

lemma acc_simps [simp]:
  "restore_acc (accumulators d) d = d"
  "accumulators (restore_acc a d) = a"
  "restore_acc a (restore_acc b d) = restore_acc a d"
  "configuration (restore_acc a d) = configuration d"
  by (cases a; cases b; simp add: restore_acc_def accumulators_def configuration_def)+

lemma configuration_acc [simp]:
  "configuration (d\<lparr>ds_err_reason := r\<rparr>) = configuration d" "configuration (d\<lparr>ds_err_code := k\<rparr>) = configuration d"
  "configuration (d\<lparr>ds_exec_fail := x\<rparr>) = configuration d" "configuration (d\<lparr>ds_request_id := i\<rparr>) = configuration d"
  by (simp_all add: configuration_def restore_acc_def)

lemma configuration_sel [simp]:
  "ds_custom_sids (configuration d) = ds_custom_sids d"
  "ds_event_types (configuration d) = ds_event_types d"
  "ds_s12 (configuration d) = ds_s12 d"
  "ds_s12_enabled (configuration d) = ds_s12_enabled d"
  "ds_s19 (configuration d) = ds_s19 d"
  "ds_s19_enabled (configuration d) = ds_s19_enabled d"
  "ds_transfers (configuration d) = ds_transfers d"
  "ds_transfer_counter (configuration d) = ds_transfer_counter d"
  by (simp_all add: configuration_def restore_acc_def)

lemma configuration_fields:
  assumes "configuration d' = configuration d"
  shows "ds_custom_sids d' = ds_custom_sids d"
    "ds_event_types d' = ds_event_types d"
    "ds_s12 d' = ds_s12 d"
    "ds_s12_enabled d' = ds_s12_enabled d"
    "ds_s19 d' = ds_s19 d"
    "ds_s19_enabled d' = ds_s19_enabled d"
    "ds_transfers d' = ds_transfers d"
    "ds_transfer_counter d' = ds_transfer_counter d"
  using arg_cong [OF assms, of ds_custom_sids]
    arg_cong [OF assms, of ds_event_types]
    arg_cong [OF assms, of ds_s12]
    arg_cong [OF assms, of ds_s12_enabled]
    arg_cong [OF assms, of ds_s19]
    arg_cong [OF assms, of ds_s19_enabled]
    arg_cong [OF assms, of ds_transfers]
    arg_cong [OF assms, of ds_transfer_counter] by simp_all

lemma kept_refl: "kept e e"
  by (simp add: kept_def)

lemma kept_trans: "kept s t \<Longrightarrow> kept t u \<Longrightarrow> kept s u"
  by (simp add: kept_def)

lemma sends_refl: "sends cf P e e"
  by (simp add: sends_def)

lemma sends_trans: "sends cf P s t \<Longrightarrow> sends cf P t u \<Longrightarrow> sends cf P s u"
  by (auto simp: sends_def)

interpretation ev: py_frame "evt cf" for cf
  by unfold_locales (auto simp: evt_def kept_refl sends_refl intro: kept_trans sends_trans)

lemma evt_silent:
  assumes "kept e e'" "en_tm_queue e' = en_tm_queue e" "en_rt_pending e' = en_rt_pending e"
    "en_event_queue e' = en_event_queue e"
  shows "evt cf e e'"
  using assms by (simp add: evt_def sends_def outbox_def within_limits_def)

lemma ev_on_models: "rel_py (evt cf) (on_models m)"
  by (rule ev.rel_zoom, rule evt_silent) (simp_all add: kept_def)

lemma ev_on_builder: "rel_py (evt cf) (on_builder m)"
  by (rule ev.rel_zoom, rule evt_silent) (simp_all add: kept_def)

lemma ev_models: "rel_py (evt cf) (modify (\<lambda>e. e\<lparr>en_models := f e\<rparr>))"
  by (rule ev.rel_modify, rule evt_silent) (simp_all add: kept_def)

lemma ev_disp: "(\<And>d. configuration (f d) = configuration d) \<Longrightarrow> rel_py (evt cf) (on_disp f)"
  by (rule ev.rel_modify, rule evt_silent) (simp_all add: kept_def)

lemma ev_modify_event_queue: "rel_py (evt cf) (modify (queue_event x))"
  by (rule ev.rel_modify) (simp add: evt_def sends_def outbox_def within_limits_def kept_def queue_event_def)

lemma ev_modify_alarm: "rel_py (evt cf) (modify (store_alarm_tm cf' p))"
  by (rule ev.rel_modify, rule evt_silent) (simp_all add: kept_def store_alarm_tm_def split: sum.splits)

lemma ev_file_packet: "rel_py (evt cf) (file_packet srv p)"
  unfolding rel_py_def file_packet_def
  by (auto split: sum.splits intro!: evt_silent simp: kept_def)

lemma downlink_sends:
  "kept e (downlink_tm cf p e) \<and> (within_limits cf e \<longrightarrow> within_limits cf (downlink_tm cf p e)) \<and>
   (outbox cf (downlink_tm cf p e) = outbox cf e \<or> outbox cf (downlink_tm cf p e) = outbox cf e @ [p])"
  by (simp add: downlink_tm_def put_tm_def kept_def outbox_def within_limits_def)

lemma ev_downlink: "is_event_report p \<Longrightarrow> rel_py (evt cf) (modify (downlink_tm cf p))"
  using downlink_sends [of _ cf p] by (intro ev.rel_modify) (fastforce simp: evt_def sends_def)

lemma ev_enqueue: "is_event_report p \<Longrightarrow> rel_py (evt cf) (enqueue_tm cf p)"
  unfolding enqueue_tm_def by (intro ev.frame_rules ev_downlink ev_file_packet)

section \<open>Functions, rules and events\<close>

lemma ev_make_error: "rel_py (evt cf) (make_error_response m c)"
  unfolding make_error_response_def by (intro ev.frame_rules ev_disp) simp_all

lemma ev_cmd: "rel_py (evt cf) (cmd cf' name c)"
  unfolding cmd_def by (intro ev.frame_rules ev_on_models ev_make_error)

lemma ev_cmd_only: "rel_py (evt cf) (cmd_only cf' name verb args)"
  unfolding cmd_only_def by (intro ev.frame_rules ev_cmd)

lemma ev_report: "rel_py (evt cf) (report srv sub d)"
  unfolding report_def by (intro ev.frame_rules ev_on_builder)

lemma ev_refuse: "rel_py (evt cf) (refuse code reason)"
  unfolding refuse_def generate_s1_exec_fail_def by (intro ev.frame_rules ev_report ev_disp) simp_all

lemma ev_cooler: "rel_py (evt cf) (cooler cf' on)"
  unfolding cooler_def by (rule ev_cmd_only)

lemma ev_length_error: "rel_py (evt cf) (length_error t)"
  unfolding length_error_def by (rule ev_make_error)

lemmas ev_calls = ev_cmd ev_cmd_only ev_report ev_refuse ev_cooler ev_length_error ev_make_error ev_models ev_on_models

lemma ev_routes:
  "rel_py (evt cf) (route_prop_cmd cf' f d)" "rel_py (evt cf) (route_legacy_quick_action cf' f)"
  "rel_py (evt cf) (route_aocs_cmd cf' f d)" "rel_py (evt cf) (route_eps_cmd cf' f d)"
  "rel_py (evt cf) (route_payload_cmd cf' f d)" "rel_py (evt cf) (route_tcs_cmd cf' f d)"
  "rel_py (evt cf) (route_ttc_cmd cf' f d)"
  unfolding route_prop_cmd_def route_legacy_quick_action_def route_aocs_cmd_def route_eps_cmd_def
    route_payload_cmd_def route_tcs_cmd_def route_ttc_cmd_def Let_def
  by (intro ev.frame_rules ev_calls)+

lemma ev_data_reply: "rel_py (evt cf) (data_reply cf' verb)"
  unfolding data_reply_def
  by (intro ev.frame_rules ev_calls) (simp split: pyval.split add: ev_report ev.rel_raise)

lemma ev_state_call:
  assumes "\<And>s. rel_py (evt cf) (f s)"
  shows "rel_py (evt cf) (\<lambda>s. f s s)"
  using assms by (simp add: rel_py_def)

lemma ev_gps_time_sync:
  assumes "\<And>x. rel_py (evt cf) (emit x)"
  shows "rel_py (evt cf) (gps_time_sync cf' emit)"
  unfolding gps_time_sync_def
  by (intro ev.frame_rules ev_calls assms ev_state_call [of cf "\<lambda>e. on_models (sy_gps_time_sync (cf_sys cf') (en_params e) (cf_time cf'))"])

lemma ev_handle_s8:
  assumes "\<And>x. rel_py (evt cf) (emit x)"
  shows "rel_py (evt cf) (handle_s8 cf' emit subtype d)"
  unfolding handle_s8_def route_obdh_cmd_def Let_def
  by (intro ev.frame_rules ev_routes ev_calls ev_data_reply ev_gps_time_sync assms)

lemma ev_isolated:
  fixes m :: "('m engine, 'a) py"
  assumes "\<And>d. configuration (prepare d) = configuration d" "rel_py (evt cf) m"
  shows "rel_py (evt cf) (isolated prepare m)"
  unfolding rel_py_def
proof
  fix e :: "'m engine"
  let ?e1 = "e\<lparr>en_disp := prepare (en_disp e)\<rparr>"
  have "evt cf e ?e1" by (rule evt_silent) (simp_all add: kept_def assms(1))
  moreover have "evt cf ?e1 (snd (m ?e1))" using assms(2) by (simp add: rel_py_def)
  moreover have "evt cf t (t\<lparr>en_disp := restore_acc a (en_disp t)\<rparr>)" for t :: "'m engine" and a
    by (rule evt_silent) (simp_all add: kept_def)
  ultimately have "evt cf e ((snd (m ?e1))\<lparr>en_disp := restore_acc (accumulators (en_disp e)) (en_disp (snd (m ?e1)))\<rparr>)"
    by (blast intro: ev.frame_trans)
  then show "evt cf e (snd (isolated prepare m e))"
    by (cases "m ?e1") (simp add: isolated_def)
qed

lemma configuration_clear [simp]: "configuration (clear_acc d) = configuration d"
  by (simp add: clear_acc_def)

lemma ev_s19_dispatch:
  assumes "\<And>x. rel_py (evt cf) (emit x)"
  shows "rel_py (evt cf) (s19_dispatch cf' emit f d)"
  unfolding s19_dispatch_def by (intro ev.frame_rules ev_isolated ev_handle_s8 assms) simp_all

lemma ev_trigger:
  assumes "\<And>x. rel_py (evt cf) (emit x)"
  shows "rel_py (evt cf) (trigger_event_action cf' emit i k)"
  unfolding trigger_event_action_def
  by (intro ev.frame_rules ev_s19_dispatch assms)

lemma ev_event_packet: "rel_py (evt cf) (bind_py (\<lambda>e. on_builder (build_event_packet (now e) i sev t) e) (\<lambda>pkt.
    seq_py (enqueue_tm cf pkt) (f pkt)))" if "\<And>p. rel_py (evt cf) (f p)"
  unfolding rel_py_def
proof
  fix e
  have b: "evt cf e (snd (on_builder (build_event_packet (now e) i sev t) e))"
    using ev_on_builder [of cf] unfolding rel_py_def by blast
  show "evt cf e (snd (bind_py (\<lambda>e. on_builder (build_event_packet (now e) i sev t) e) (\<lambda>pkt. seq_py (enqueue_tm cf pkt) (f pkt)) e))"
  proof (cases "on_builder (build_event_packet (now e) i sev t) e")
    case (Pair r e')
    show ?thesis
    proof (cases r)
      case (Inr p)
      have "\<exists>tb'. build_event_packet (now e) i sev t (en_builder e) = (Inr p, tb')"
        using Pair Inr by (auto simp: zoom_def split: prod.splits)
      then have "is_event_report p"
        using makes_builders(5) [of sev "now e" i t] unfolding makes_def is_event_report_def by (meson endsD)
      then have "rel_py (evt cf) (seq_py (enqueue_tm cf p) (f p))"
        by (intro ev.frame_rules ev_enqueue that)
      then have "evt cf e' (snd (seq_py (enqueue_tm cf p) (f p) e'))" by (simp add: rel_py_def)
      then show ?thesis using b Pair Inr ev.frame_trans by (simp add: bind_py_simps(2)) blast
    qed (use b Pair in \<open>simp add: bind_py_simps(1)\<close>)
  qed
qed

lemma ev_report_event: "rel_py (evt cf) (report_event cf ev)"
  unfolding report_event_def Let_def
  by (intro ev_event_packet ev.frame_rules ev_modify_alarm ev_modify_event_queue)

lemma ev_emit_event: "rel_py (evt cf) (emit_event cf n x)"
proof (induction n arbitrary: x)
  case (Suc n)
  show ?case
    by (simp only: emit_event.simps) (intro ev.frame_rules ev_report_event ev_trigger Suc.IH)
qed (simp add: ev.rel_raise)

section \<open>What the handlers return\<close>

definition handler_kind :: "int \<times> int \<Rightarrow> bool" where
  "handler_kind k \<longleftrightarrow> fst k \<noteq> 1 \<or> snd k = 4 \<or> snd k = 5"

text \<open>
  At most one report, well-formed, of S1 only the failed start and the progress; an execution-start failure
  is recorded in the accumulators.
\<close>

definition well_answered :: "bytes list \<Rightarrow> 'm engine \<Rightarrow> bool" where
  "well_answered ps e \<longleftrightarrow> length ps \<le> 1 \<and>
     list_all (\<lambda>p. \<exists>k. report_kind p = Some k \<and> handler_kind k) ps \<and>
     ((\<exists>p \<in> set ps. report_kind p = Some (1, 4)) \<longrightarrow> ds_exec_fail (en_disp e) \<noteq> None)"

lemma answer_nil: "ends well_answered (ret [])"
  by (rule ends_ret) (simp add: well_answered_def)

lemma answer_builder:
  assumes "\<And>e. makes srv sub (b e)" "handler_kind (srv, sub)" "(srv, sub) \<noteq> (1, 4)"
  shows "ends well_answered (bind_py (\<lambda>e. on_builder (b e) e) (\<lambda>pkt. ret [pkt]))"
  unfolding ends_def
proof (intro allI impI)
  fix s ps s' assume a: "bind_py (\<lambda>e. on_builder (b e) e) (\<lambda>pkt. ret [pkt]) s = (Inr ps, s')"
  then obtain p tb where "b s (en_builder s) = (Inr p, tb)" "ps = [p]"
    by (auto simp: bind_py_def zoom_def ret_def split: prod.splits sum.splits)
  then show "well_answered ps s'"
    using assms(1) [of s] assms(2,3) unfolding makes_def well_answered_def by (auto dest!: endsD)
qed

lemma answer_report:
  assumes "handler_kind (srv, sub)" "(srv, sub) \<noteq> (1, 4)"
  shows "ends well_answered (report srv sub d)"
  unfolding report_def using answer_builder [of srv sub "\<lambda>_. pack_tm srv sub d 0"] assms makes_pack_tm by simp

lemma answer_exec_fail: "ends well_answered (generate_s1_exec_fail req code reason)"
  unfolding ends_def
proof (intro allI impI)
  fix s ps s' assume a: "generate_s1_exec_fail req code reason s = (Inr ps, s')"
  then obtain p tb tb' d where p: "pack_tm 1 4 d 0 tb = (Inr p, tb')" "ps = [p]" "ds_exec_fail (en_disp s') \<noteq> None"
    unfolding generate_s1_exec_fail_def report_def
    by (auto simp: bind_py_def seq_py_def of_result_def modify_def zoom_def ret_def split: prod.splits sum.splits)
  then show "well_answered ps s'"
    using pack_tm_kind [OF p(1)] by (simp add: well_answered_def handler_kind_def)
qed

lemma answer_refuse: "ends well_answered (refuse code reason)"
  unfolding refuse_def by (intro ends_rules answer_exec_fail)

lemma answer_cmd_only: "ends well_answered (cmd_only cf name verb args)"
  unfolding cmd_only_def by (intro ends_rules answer_nil)

lemma answer_make_error: "ends well_answered (make_error_response m c)"
  unfolding make_error_response_def by (intro ends_rules answer_nil)

lemma answer_cooler: "ends well_answered (cooler cf on)"
  unfolding cooler_def by (rule answer_cmd_only)

lemma answer_length_error: "ends well_answered (length_error t)"
  unfolding length_error_def by (rule answer_make_error)

lemma own_service:
  "handler_kind (srv, sub)" "(srv, sub) \<noteq> (1, 4)" if "srv \<noteq> 1"
  using that by (simp_all add: handler_kind_def)

lemmas answers = answer_nil answer_refuse answer_cmd_only answer_make_error answer_cooler answer_length_error
  answer_report [OF own_service]

lemma answer_routes:
  "ends well_answered (route_prop_cmd cf f d)" "ends well_answered (route_legacy_quick_action cf f)"
  "ends well_answered (route_aocs_cmd cf f d)" "ends well_answered (route_eps_cmd cf f d)"
  "ends well_answered (route_payload_cmd cf f d)" "ends well_answered (route_tcs_cmd cf f d)"
  "ends well_answered (route_ttc_cmd cf f d)"
  unfolding route_prop_cmd_def route_legacy_quick_action_def route_aocs_cmd_def route_eps_cmd_def
    route_payload_cmd_def route_tcs_cmd_def route_ttc_cmd_def Let_def
  by ((intro answers ends_rules; simp)+)

lemma answer_data_reply: "ends well_answered (data_reply cf verb)"
  unfolding data_reply_def
  by (intro answers ends_rules) (auto split: pyval.split intro!: answers ends_raise)

lemma answer_handle_s8: "ends well_answered (handle_s8 cf emit subtype d)"
  unfolding handle_s8_def route_obdh_cmd_def gps_time_sync_def Let_def
  by (intro answers answer_routes answer_data_reply ends_rules)

lemma answer_handle_s2: "ends well_answered (handle_s2 cf subtype d)"
  unfolding handle_s2_def device_report_def Let_def by (intro answers ends_rules; simp)

lemma answer_handle_s6: "ends well_answered (handle_s6 cf subtype d)"
  unfolding handle_s6_def decoded_def mem_load_def mem_fetch_def mem_dump_def mem_check_def generate_s1_progress_def Let_def
  by (intro answers ends_rules answer_report; simp add: handler_kind_def)

lemma answer_simple_services:
  "ends well_answered (handle_s5 subtype d)" "ends well_answered (handle_s11 subtype d)"
  "ends well_answered (handle_s12 subtype d)" "ends well_answered (handle_s13 cf subtype d)"
  "ends well_answered (handle_s18 emit subtype d)" "ends well_answered (handle_s19 subtype d)"
  unfolding handle_s5_def handle_s11_def handle_s12_def handle_s13_def handle_s18_def handle_s19_def Let_def
  by ((intro answers ends_rules; simp)+)

lemma answer_hk:
  "ends well_answered (bind_py (\<lambda>e. on_builder (build_hk_packet (now e) sid (ps e) fs) e)
     (\<lambda>pkt. case pkt of Some p \<Rightarrow> ret [p] | None \<Rightarrow> ret []))"
  unfolding ends_def
proof (intro allI impI)
  fix s qs s'
  assume a: "bind_py (\<lambda>e. on_builder (build_hk_packet (now e) sid (ps e) fs) e)
     (\<lambda>pkt. case pkt of Some p \<Rightarrow> ret [p] | None \<Rightarrow> ret []) s = (Inr qs, s')"
  then obtain pk tb where o: "build_hk_packet (now s) sid (ps s) fs (en_builder s) = (Inr pk, tb)"
    "qs = (case pk of Some p \<Rightarrow> [p] | None \<Rightarrow> [])"
    by (auto simp: bind_py_def zoom_def ret_def split: prod.splits sum.splits option.splits)
  have "\<exists>d t. pack_tm 3 25 d (now s) t = (Inr p, tb)" if "pk = Some p" for p
    using o(1) that by (auto simp: build_hk_packet_def bind_py_def of_result_def ret_def split: option.splits prod.splits sum.splits)
  then have "report_kind p = Some (3, 25)" if "pk = Some p" for p
    using pack_tm_kind that by blast
  then show "well_answered qs s'"
    using o(2) by (cases pk) (simp_all add: well_answered_def handler_kind_def)
qed

lemma answer_builder_services:
  "ends well_answered (handle_s3 cf subtype d)" "ends well_answered (handle_s9 cf subtype d)"
  "ends well_answered (handle_s15 subtype d)" "ends well_answered (handle_s17 cf subtype)"
  "ends well_answered (handle_s20 cf subtype d)"
  unfolding handle_s3_def handle_s9_def handle_s15_def handle_s17_def handle_s20_def generate_s1_progress_def Let_def
  by ((intro answer_builder [OF makes_builders(6)] answer_builder [OF makes_builders(7)]
        answer_builder [OF makes_builders(8)] answer_hk answers ends_rules answer_report;
       simp add: handler_kind_def)+)

lemma answer_handle_service: "ends well_answered (handle_service cf emit service subtype d)"
  unfolding handle_service_def
  by (intro ends_if answer_handle_s8 answer_handle_s2 answer_handle_s6 answer_simple_services
      answer_builder_services answer_nil)

section \<open>What the handlers send\<close>

abbreviation sent :: "'m config \<Rightarrow> 'm engine \<Rightarrow> 'm engine \<Rightarrow> bool" where
  "sent cf \<equiv> sends cf is_event_report"

interpretation out: py_frame "sent cf" for cf
  by unfold_locales (auto intro: sends_refl sends_trans)

lemma out_evt: "rel_py (evt cf) m \<Longrightarrow> rel_py (sent cf) m"
  by (simp add: rel_py_def evt_def)

lemma out_modify:
  assumes "\<And>e. en_tm_queue (f e) = en_tm_queue e" "\<And>e. en_rt_pending (f e) = en_rt_pending e"
    "\<And>e. en_event_queue (f e) = en_event_queue e"
  shows "rel_py (sent cf) (modify f)"
  by (rule out.rel_modify) (simp add: sends_def outbox_def within_limits_def assms)

lemma out_builder: "rel_py (sent cf) (\<lambda>e. on_builder (b e) e)"
  by (auto simp: rel_py_def zoom_def sends_def outbox_def within_limits_def split: prod.splits)

lemma out_on_memory: "rel_py (sent cf) (on_memory m)"
  unfolding on_memory_def by (rule out.rel_zoom) (simp add: sends_def outbox_def within_limits_def split: prod.split)

lemma out_cmd_only: "rel_py (sent cf) (cmd_only cf' name verb args)"
  by (rule out_evt [OF ev_cmd_only])

lemmas out_calls = out_evt [OF ev_report] out_evt [OF ev_refuse] out_evt [OF ev_cooler] out_evt [OF ev_make_error]
  out_cmd_only out_evt [OF ev_on_models] out_on_memory out_builder

lemma out_obcp_emit:
  assumes "\<And>x. rel_py (sent cf) (emit x)"
  shows "rel_py (sent cf) (obcp_emit emit i s t)" "rel_py (sent cf) (abort_procedure emit p r)"
  unfolding abort_procedure_def obcp_emit_def
  by ((intro out.frame_rules assms out_modify; simp)+)

lemma out_handle_s18:
  assumes "\<And>x. rel_py (sent cf) (emit x)"
  shows "rel_py (sent cf) (handle_s18 emit subtype d)"
  unfolding handle_s18_def load_procedure_def delete_procedure_def start_procedure_def stop_procedure_def Let_def
  by (intro out.frame_rules out_obcp_emit assms out_calls out_modify; simp)

lemma out_services:
  "rel_py (sent cf) (handle_s2 cf' subtype d)" "rel_py (sent cf) (handle_s3 cf' subtype d)"
  "rel_py (sent cf) (handle_s5 subtype d)" "rel_py (sent cf) (handle_s6 cf' subtype d)"
  "rel_py (sent cf) (handle_s9 cf' subtype d)" "rel_py (sent cf) (handle_s11 subtype d)"
  "rel_py (sent cf) (handle_s12 subtype d)" "rel_py (sent cf) (handle_s13 cf' subtype d)"
  "rel_py (sent cf) (handle_s15 subtype d)" "rel_py (sent cf) (handle_s17 cf' subtype)"
  "rel_py (sent cf) (handle_s19 subtype d)" "rel_py (sent cf) (handle_s20 cf' subtype d)"
  unfolding handle_s2_def device_report_def set_device_state_def get_device_state_def with_device_def
    handle_s3_def handle_s5_def handle_s6_def decoded_def mem_load_def mem_fetch_def mem_dump_def mem_check_def
    read_image_def handle_s9_def handle_s11_def handle_s12_def handle_s13_def handle_s15_def queue_dump_def
    handle_s17_def handle_s19_def handle_s20_def generate_s1_progress_def Let_def
  by ((intro out.frame_rules out_calls out_modify; simp add: set_hk_enabled_def set_hk_interval_def set_parameter_def Let_def)+)

lemma out_handle_service:
  assumes "\<And>x. rel_py (evt cf) (emit x)"
  shows "rel_py (sent cf) (handle_service cf' emit service subtype d)"
  unfolding handle_service_def
  by (intro out.frame_rules out_services out_handle_s18 out_evt [OF ev_handle_s8] out_evt assms)

end
