(* ===== verification/Event_Reports.thy ===== *)
theory Event_Reports
  imports Outbox
begin

text \<open>
  What reporting an event leaves alone, and what it does when telemetry can be stored: \<open>emit_event\<close>
  touches the packet builder's count, the stores, the downlink queue and the event queue only, unless an
  enabled event-action rule watches the event; and then it returns, queues the event while the event
  queue has room and puts exactly one report on the downlink while that has room.
\<close>

section \<open>What reporting leaves alone\<close>

interpretation kp: py_frame kept
  by unfold_locales (auto intro: kept_refl kept_trans)

lemma kept_evt: "rel_py (evt cf) m \<Longrightarrow> rel_py kept m"
  by (simp add: rel_py_def evt_def)

text \<open>Nothing but the stores, the downlink queues and the count of packets built has changed.\<close>

definition quiet :: "'m engine \<Rightarrow> 'm engine \<Rightarrow> bool" where
  "quiet e e' \<longleftrightarrow> kept e e' \<and> en_disp e' = en_disp e \<and> tb_apid (en_builder e') = tb_apid (en_builder e) \<and>
     en_models e' = en_models e \<and> en_event_queue e' = en_event_queue e"

interpretation qt: py_frame quiet
  by unfold_locales (auto simp: quiet_def kept_refl intro: kept_trans)

interpretation apid: py_frame "\<lambda>tb tb'. tb_apid tb' = tb_apid tb"
  by unfold_locales simp_all

lemma apid_pack_tm: "rel_py (\<lambda>tb tb'. tb_apid tb' = tb_apid tb) (pack_tm srv sub d cuc)"
proof -
  have step: "rel_py (\<lambda>tb tb'. tb_apid tb' = tb_apid tb) (\<lambda>tb. bind_py (of_result (w tb)) f tb)"
    if "\<And>ph. rel_py (\<lambda>tb tb'. tb_apid tb' = tb_apid tb) (f ph)"
    for w :: "tm_builder \<Rightarrow> bytes result" and f :: "bytes \<Rightarrow> (tm_builder, bytes) py"
    by (rule apid.rel_self) (intro apid.frame_rules that)
  show ?thesis
    unfolding pack_tm_def Let_def by (intro apid.frame_rules apid.rel_modify step) simp
qed

lemma apid_builders:
  "rel_py (\<lambda>tb tb'. tb_apid tb' = tb_apid tb) (build_verification_failure ap sq code r)"
  "rel_py (\<lambda>tb tb'. tb_apid tb' = tb_apid tb) (build_event_packet t i sev txt)"
  unfolding build_verification_failure_def build_event_packet_def Let_def
  by (intro apid.frame_rules apid_pack_tm)+

lemma quiet_builder:
  assumes "rel_py (\<lambda>tb tb'. tb_apid tb' = tb_apid tb) b"
  shows "rel_py quiet (on_builder b)"
  using assms by (auto simp: rel_py_def zoom_def quiet_def kept_def split: prod.splits) (metis snd_conv)

lemma quiet_downlink: "quiet e (downlink_tm cf p e)"
  by (simp add: quiet_def kept_def downlink_tm_def put_tm_def)

lemma quiet_enqueue: "rel_py quiet (enqueue_tm cf p)"
proof -
  have "rel_py quiet (file_packet srv p)" for srv
    unfolding rel_py_def file_packet_def by (auto split: sum.splits simp: quiet_def kept_def)
  then show ?thesis
    unfolding enqueue_tm_def by (intro qt.frame_rules qt.rel_modify quiet_downlink)
qed

lemma kept_quiet: "rel_py quiet m \<Longrightarrow> rel_py kept m"
  by (simp add: rel_py_def quiet_def)

lemma quiet_event_packet:
  "rel_py quiet (\<lambda>e. on_builder (build_event_packet (now e) i sev t) e)"
  by (rule qt.rel_self) (rule quiet_builder [OF apid_builders(2)])

text \<open>An event is reported: nothing but the event queue has changed, by that event if it was not full.\<close>

definition noted :: "event \<Rightarrow> 'm engine \<Rightarrow> 'm engine \<Rightarrow> bool" where
  "noted ev e e' \<longleftrightarrow> (\<exists>t. quiet e t \<and> (e' = t \<or> e' = queue_event ev t))"

lemma report_event_notes: "noted ev e (snd (report_event cf ev e))"
proof -
  define send where "send pkt = seq_py (enqueue_tm cf pkt)
     (if 2 \<le> severity_level (ev_severity ev)
      then bind_py (\<lambda>e. (image_param e, e)) (\<lambda>sw. when_py (sw \<noteq> 0) (modify (store_alarm_tm cf pkt)))
      else ret ())" for pkt
  define build where "build = (\<lambda>e :: 'a engine. on_builder
     (build_event_packet (cuc_time cf e) (ev_id ev) (severity_level (ev_severity ev)) (ev_description ev)) e)"
  have alarm: "rel_py quiet (modify (store_alarm_tm cf pkt))" for pkt
    by (rule qt.rel_modify) (simp add: quiet_def kept_def store_alarm_tm_def split: sum.splits)
  have q: "rel_py quiet (bind_py build send)"
    unfolding build_def send_def by (intro qt.frame_rules quiet_event_packet quiet_enqueue alarm)
  have r: "report_event cf ev e = seq_py (bind_py build send) (modify (queue_event ev)) e"
    unfolding report_event_def build_def send_def Let_def
    by (simp add: seq_py_def bind_py_def ret_def split: prod.splits sum.splits)
  obtain x t where t: "bind_py build send e = (x, t)" by fastforce
  then have "quiet e t" using q rel_pyD by metis
  then show ?thesis
    using t by (cases x) (auto simp: r noted_def seq_py_def bind_py_def modify_def)
qed

text \<open>An enabled event-action rule watches the event.\<close>

definition watched :: "int \<times> int \<Rightarrow> 'm engine \<Rightarrow> bool" where
  "watched trigger e \<longleftrightarrow> (\<exists>(i, d) \<in> set (ds_s19 (en_disp e)). rule_matches (fst trigger) (snd trigger) i d e)"

lemma trigger_unwatched:
  assumes "\<not> watched (i, k) e"
  shows "trigger_event_action cf emit i k e = (Inr (), e)"
proof -
  have "each (\<lambda>(ea_id, d). bind_py (gets (rule_matches i k ea_id d)) (\<lambda>m. when_py m (g ea_id d))) xs e = (Inr (), e)"
    if "\<forall>(j, d) \<in> set xs. \<not> rule_matches i k j d e" for xs g
    using that
    by (induction xs) (auto simp: ret_def seq_py_def bind_py_def gets_def when_py_def)
  then show ?thesis
    using assms by (simp add: trigger_event_action_def watched_def case_prod_beta)
qed

lemma noted_watched:
  assumes "noted ev e e'"
  shows "watched t e' = watched t e"
  using assms by (elim noted_def [THEN iffD1, elim_format] exE conjE disjE)
    (simp_all add: quiet_def watched_def rule_matches_def queue_event_def)

lemma emit_event_notes:
  assumes "\<not> watched (event_trigger ev) e"
  shows "noted ev e (snd (emit_event cf n ev e))"
proof (cases n)
  case 0
  have "quiet e e" by (simp add: quiet_def kept_refl)
  then show ?thesis using 0 by (auto simp: noted_def raise_def)
next
  case (Suc k)
  obtain x t where t: "report_event cf ev e = (x, t)" by fastforce
  have n: "noted ev e t" using report_event_notes [of ev e cf] t by simp
  then have "\<not> watched (event_trigger ev) t" using assms noted_watched by blast
  then have "trigger_event_action cf f (fst (event_trigger ev)) (snd (event_trigger ev)) t = (Inr (), t)" for f
    using trigger_unwatched [of "fst (event_trigger ev)" "snd (event_trigger ev)"] by simp
  then show ?thesis
    using n t by (cases x) (auto simp: Suc seq_py_def bind_py_def case_prod_beta)
qed



section \<open>Reports that are delivered\<close>

text \<open>
  Telemetry can be sent: the image parameter is a number, no store has capacity zero, and the clock of the
  on-board computer fits its field.
\<close>

definition ready :: "'m config \<Rightarrow> 'm engine \<Rightarrow> bool" where
  "ready cf e \<longleftrightarrow> \<not> isl (image_param e) \<and> (\<forall>st \<in> ran (map_of (en_storage e)). 0 < st_capacity st) \<and>
     cuc_time cf e \<in> {0..<2 ^ 32}"

definition capacity :: "'m config \<Rightarrow> nat" where
  "capacity cf = (if cf_pacing cf then cf_rt_backlog_max cf else TM_QUEUE_SIZE)"

text \<open>Of a sequence of reports, those the downlink takes: none without a link, else as many as it has room for.\<close>

definition taken :: "'m config \<Rightarrow> 'm engine \<Rightarrow> 'a list \<Rightarrow> 'a list" where
  "taken cf e ks = (if downlink_active e then take (capacity cf - length (outbox cf e)) ks else [])"

definition held :: "'m engine \<Rightarrow> 'm engine \<Rightarrow> bool" where
  "held e e' \<longleftrightarrow> en_params e' = en_params e \<and> en_models e' = en_models e \<and> en_disp e' = en_disp e \<and>
     en_violation_active e' = en_violation_active e \<and> en_override_passes e' = en_override_passes e \<and>
     en_in_contact e' = en_in_contact e"

text \<open>The events queued and the kinds of the reports sent from one state to another.\<close>

definition logged :: "'m config \<Rightarrow> 'm engine \<Rightarrow> event list \<Rightarrow> (int \<times> int) list \<Rightarrow> 'm engine \<Rightarrow> bool" where
  "logged cf e evs ks e' \<longleftrightarrow> ready cf e' \<and> held e e' \<and>
     en_event_queue e' = en_event_queue e @ take (EVENT_QUEUE_SIZE - length (en_event_queue e)) evs \<and>
     (\<exists>ps. outbox cf e' = outbox cf e @ ps \<and> map report_kind ps = map Some (taken cf e ks))"

definition runs :: "'m config \<Rightarrow> 'm engine \<Rightarrow> ('m engine, unit) py \<Rightarrow> event list \<Rightarrow> (int \<times> int) list \<Rightarrow> bool" where
  "runs cf e m evs ks \<longleftrightarrow> fst (m e) = Inr () \<and> logged cf e evs ks (snd (m e))"

lemma held_facts:
  assumes "held e e'"
  shows "downlink_active e' = downlink_active e" "image_param e' = image_param e" "cuc_time cf e' = cuc_time cf e"
    "watched t e' = watched t e" "en_violation_active e' = en_violation_active e"
  using assms by (simp_all add: held_def downlink_active_def image_param_def cuc_time_def watched_def rule_matches_def)

lemma ready_held:
  assumes "ready cf e" "held e e'" "\<forall>st \<in> ran (map_of (en_storage e')). 0 < st_capacity st"
  shows "ready cf e'"
  using assms(1,3) held_facts(2,3) [OF assms(2)] by (simp add: ready_def)

text \<open>Steps that queue nothing for the downlink.\<close>

lemma logged_silent:
  assumes "ready cf e" "held e e'" "\<forall>st \<in> ran (map_of (en_storage e')). 0 < st_capacity st"
    "outbox cf e' = outbox cf e"
    "en_event_queue e' = en_event_queue e @ take (EVENT_QUEUE_SIZE - length (en_event_queue e)) evs"
  shows "logged cf e evs [] e'"
  using ready_held [OF assms(1-3)] assms(2,4,5) by (simp add: logged_def taken_def)

lemma logged_trans:
  assumes "logged cf s as ks t" "logged cf t bs ls u"
  shows "logged cf s (as @ bs) (ks @ ls) u"
proof -
  have h: "held s t" "held t u" using assms by (simp_all add: logged_def)
  obtain ps qs where ps: "outbox cf t = outbox cf s @ ps" "map report_kind ps = map Some (taken cf s ks)"
    and qs: "outbox cf u = outbox cf t @ qs" "map report_kind qs = map Some (taken cf t ls)"
    using assms by (auto simp: logged_def)
  have "length ps = length (taken cf s ks)" using arg_cong [OF ps(2), of length] by simp
  then have "taken cf s (ks @ ls) = taken cf s ks @ taken cf t ls"
    using ps(1) held_facts(1) [OF h(1)] by (auto simp: taken_def min_def)
  then have "\<exists>rs. outbox cf u = outbox cf s @ rs \<and> map report_kind rs = map Some (taken cf s (ks @ ls))"
    using ps qs by (intro exI [of _ "ps @ qs"]) simp
  moreover have "held s u" using h by (simp add: held_def)
  moreover have "en_event_queue u = en_event_queue s @ take (EVENT_QUEUE_SIZE - length (en_event_queue s)) (as @ bs)"
    using assms by (auto simp: logged_def min_def)
  ultimately show ?thesis using assms(2) by (simp add: logged_def)
qed

lemma logged_refl: "ready cf e \<Longrightarrow> logged cf e [] [] e"
  by (simp add: logged_def held_def taken_def)

lemma runs_ret: "ready cf e \<Longrightarrow> runs cf e (ret ()) [] []"
  by (simp add: runs_def ret_def logged_refl)

lemma runs_seq:
  assumes "runs cf e m as ks" "\<And>t. logged cf e as ks t \<Longrightarrow> runs cf t n bs ls"
  shows "runs cf e (seq_py m n) (as @ bs) (ks @ ls)"
proof -
  obtain t where t: "m e = (Inr (), t)" "logged cf e as ks t" using assms(1) by (cases "m e") (auto simp: runs_def)
  then have "runs cf t n bs ls" using assms(2) by blast
  then have "fst (n t) = Inr ()" "logged cf t bs ls (snd (n t))" by (simp_all add: runs_def)
  then show ?thesis using t(1) logged_trans [OF t(2)] by (simp add: runs_def seq_py_def bind_py_def)
qed

lemma runs_each:
  assumes "ready cf e" "\<And>x t. x \<in> set xs \<Longrightarrow> ready cf t \<Longrightarrow> held e t \<Longrightarrow> runs cf t (f x) (g x) (h x)"
  shows "runs cf e (each f xs) (concat (map g xs)) (concat (map h xs))"
  using assms
proof (induction xs arbitrary: e)
  case Nil
  then show ?case by (simp add: runs_ret)
next
  case (Cons x xs)
  have "runs cf t (each f xs) (concat (map g xs)) (concat (map h xs))" if "logged cf e (g x) (h x) t" for t
  proof (rule Cons.IH)
    show "ready cf t" using that by (simp add: logged_def)
    fix y u assume "y \<in> set xs" "ready cf u" "held t u"
    moreover from \<open>held t u\<close> that have "held e u" by (simp add: logged_def held_def)
    ultimately show "runs cf u (f y) (g y) (h y)" using Cons.prems by simp
  qed
  then show ?case
    using runs_seq [of cf e "f x"] Cons.prems by (simp add: held_def)
qed

section \<open>Sending cannot fail\<close>

lemma put_packet_safe:
  assumes "0 < st_capacity st"
  shows "\<exists>ok st'. put_packet p ts st = Inr (ok, st') \<and> st_capacity st' = st_capacity st"
  using assms by (auto simp: put_packet_def Let_def)

lemma ran_update: "ran (map_of (AList.update k v s)) \<subseteq> insert v (ran (map_of s))"
  by (auto simp: ran_def update_conv' split: if_splits)

lemma store_direct_safe:
  assumes "\<forall>st \<in> ran (map_of s). 0 < st_capacity st"
  shows "\<exists>ok s'. store_packet_direct k p ts s = Inr (ok, s') \<and> (\<forall>st \<in> ran (map_of s'). 0 < st_capacity st)"
proof (cases "map_of s k")
  case None
  then show ?thesis using assms by (auto simp: store_packet_direct_def)
next
  case (Some st)
  then have "0 < st_capacity st" using assms by (auto simp: ran_def)
  then obtain ok st' where "put_packet p ts st = Inr (ok, st')" "0 < st_capacity st'"
    using put_packet_safe by metis
  then show ?thesis
    using Some assms ran_update [of k st' s] by (auto simp: store_packet_direct_def)
qed

lemma stored_logged:
  assumes "ready cf e" "\<forall>st \<in> ran (map_of s). 0 < st_capacity st"
  shows "logged cf e [] [] (e\<lparr>en_storage := s\<rparr>)"
  using assms by (intro logged_silent) (simp_all add: held_def outbox_def)

lemma runs_file: "ready cf e \<Longrightarrow> runs cf e (file_packet srv p) [] []"
proof -
  assume r: "ready cf e"
  then have "\<forall>st \<in> ran (map_of (en_storage e)). 0 < st_capacity st" by (simp add: ready_def)
  from store_direct_safe [OF this] obtain ok s where
    "store_packet srv p 0 (en_storage e) = Inr (ok, s)" "\<forall>st \<in> ran (map_of s). 0 < st_capacity st"
    unfolding store_packet_def Let_def by metis
  then show ?thesis using stored_logged [OF r] by (simp add: runs_def file_packet_def)
qed

lemma alarm_logged:
  assumes "ready cf e"
  shows "logged cf e [] [] (store_alarm_tm cf p e)"
proof -
  have "\<forall>st \<in> ran (map_of (en_storage e)). 0 < st_capacity st" using assms by (simp add: ready_def)
  from store_direct_safe [OF this] obtain ok s where
    "store_alarm p (cf_time cf) (en_storage e) = Inr (ok, s)" "\<forall>st \<in> ran (map_of s). 0 < st_capacity st"
    unfolding store_alarm_def by metis
  then show ?thesis using stored_logged [OF assms] by (simp add: store_alarm_tm_def)
qed

lemma downlink_logged:
  assumes "ready cf e" "report_kind p = Some k"
  shows "logged cf e [] [k] (downlink_tm cf p e)"
proof -
  let ?e = "downlink_tm cf p e"
  have h: "held e ?e" "en_storage ?e = en_storage e" "en_event_queue ?e = en_event_queue e"
    by (simp_all add: downlink_tm_def put_tm_def held_def)
  moreover have "ready cf ?e"
    using ready_held [OF assms(1) h(1)] assms(1) h(2) by (simp add: ready_def)
  moreover have "outbox cf ?e = outbox cf e @ taken cf e [p]"
    by (simp add: downlink_tm_def put_tm_def outbox_def taken_def capacity_def)
  moreover have "map report_kind (taken cf e [p]) = map Some (taken cf e [k])"
    using assms(2) by (cases "capacity cf - length (outbox cf e)") (simp_all add: taken_def)
  ultimately show ?thesis unfolding logged_def by simp
qed

lemma runs_enqueue:
  assumes "ready cf e" "report_kind p = Some k"
  shows "runs cf e (enqueue_tm cf p) [] [k]"
proof -
  obtain q where q: "decommutate_packet p = Inr (Some q)"
    using assms by (auto simp: report_kind_def split: sum.splits option.splits)
  let ?e = "downlink_tm cf p e"
  have l: "logged cf e [] [k] ?e" by (rule downlink_logged [OF assms])
  then have r: "ready cf ?e" by (simp add: logged_def)
  then obtain i where i: "image_param ?e = Inr i" by (cases "image_param ?e") (simp_all add: ready_def)
  let ?store = "case dp_secondary q of None \<Rightarrow> ret () | Some s \<Rightarrow> file_packet (sh_service s) p"
  have "runs cf ?e ?store [] []" using runs_ret [OF r] runs_file [OF r] by (simp split: option.split)
  then show ?thesis
    using l logged_trans [OF l] i q runs_ret [OF r]
    by (simp add: runs_def enqueue_tm_def bind_py_def of_result_def ret_def)
qed

section \<open>Events\<close>

lemma runs_report:
  assumes "ready cf e" "ev_id ev \<in> {0..<2 ^ 16}" "severity_level (ev_severity ev) \<in> {0..<2 ^ 8}"
  shows "runs cf e (report_event cf ev) [ev] [(5, severity_level (ev_severity ev))]"
proof -
  let ?sev = "severity_level (ev_severity ev)"
  let ?aux = "take EVENT_AUX_TEXT_MAX (ascii_encode_ignore (ev_description ev))"
  have cuc: "cuc_time cf e \<in> {0..<2 ^ 32}" using assms(1) by (simp add: ready_def)
  have aux: "length ?aux \<le> 120" by (simp add: EVENT_AUX_TEXT_MAX_def)
  have p: "pack_be 2 (ev_id ev) = Inr (be_bytes 2 (ev_id ev))" "pack_be 1 ?sev = Inr (be_bytes 1 ?sev)"
    "pack_be 4 (cuc_time cf e) = Inr (be_bytes 4 (cuc_time cf e))"
    "pack_be 1 (int (length ?aux)) = Inr (be_bytes 1 (int (length ?aux)))"
    using assms(2,3) cuc aux by (simp_all add: pack_be_def)
  obtain pkt tb where b: "build_event_packet (cuc_time cf e) (ev_id ev) ?sev (ev_description ev) (en_builder e) = (Inr pkt, tb)"
    using pack_tm_reads [of 5 ?sev "cuc_time cf e" "be_bytes 2 (ev_id ev) @ be_bytes 1 ?sev @ be_bytes 4 (cuc_time cf e) @
        be_bytes 1 (int (length ?aux)) @ ?aux" "en_builder e"] assms(3) cuc aux p
    by (auto simp: build_event_packet_def Let_def simp del: be_bytes.simps)
  have k: "report_kind pkt = Some (5, ?sev)"
    using makes_builders(5) b unfolding makes_def by (meson endsD)
  let ?e = "e\<lparr>en_builder := tb\<rparr>"
  have l0: "logged cf e [] [] ?e"
    using assms(1) by (intro logged_silent) (simp_all add: held_def outbox_def ready_def)
  then have "ready cf ?e" by (simp add: logged_def)
  define alarm where "alarm = (if 2 \<le> ?sev
     then bind_py (\<lambda>e. (image_param e, e)) (\<lambda>sw. when_py (sw \<noteq> 0) (modify (store_alarm_tm cf pkt))) else ret ())"
  have alarm: "runs cf t alarm [] []" if r: "ready cf t" for t
  proof -
    obtain i where "image_param t = Inr i" using r by (cases "image_param t") (simp_all add: ready_def)
    then show ?thesis
      using alarm_logged [OF r] logged_refl [OF r]
      by (simp add: alarm_def runs_def bind_py_def when_py_def modify_def ret_def)
  qed
  have queue: "runs cf t (modify (queue_event ev)) [ev] []" if "ready cf t" for t
  proof -
    have "logged cf t [ev] [] (queue_event ev t)"
      using that by (intro logged_silent) (simp_all add: held_def outbox_def queue_event_def ready_def)
    then show ?thesis by (simp add: runs_def modify_def)
  qed
  have "runs cf ?e (seq_py (enqueue_tm cf pkt) (seq_py alarm (modify (queue_event ev)))) ([] @ [] @ [ev]) ([(5, ?sev)] @ [] @ [])"
    by (intro runs_seq runs_enqueue alarm queue k \<open>ready cf ?e\<close>) (simp_all add: logged_def)
  moreover have "report_event cf ev e = seq_py (enqueue_tm cf pkt) (seq_py alarm (modify (queue_event ev))) ?e"
    using b by (simp add: report_event_def alarm_def bind_py_def zoom_def)
  ultimately show ?thesis using logged_trans [OF l0] by (simp add: runs_def)
qed

lemma runs_emit:
  assumes "ready cf e" "ev_id ev \<in> {0..<2 ^ 16}" "severity_level (ev_severity ev) \<in> {0..<2 ^ 8}"
    "\<not> watched (event_trigger ev) e"
  shows "runs cf e (emit_event cf (Suc n) ev) [ev] [(5, severity_level (ev_severity ev))]"
proof -
  let ?act = "trigger_event_action cf (emit_event cf n) (fst (event_trigger ev)) (snd (event_trigger ev))"
  have "runs cf t ?act [] []" if "logged cf e [ev] [(5, severity_level (ev_severity ev))] t" for t
    using that assms(4) held_facts(4) [of e t] trigger_unwatched [of "fst (event_trigger ev)" "snd (event_trigger ev)" t]
    by (simp add: runs_def logged_def [of cf e] logged_refl)
  then show ?thesis
    using runs_seq [OF runs_report [OF assms(1-3)], of ?act "[]" "[]"] by (simp add: case_prod_beta)
qed

end
