(* ===== verification/Bare_Spacecraft.thy ===== *)
theory Bare_Spacecraft
  imports On_Board
begin

text \<open>
  A spacecraft none of whose subsystem models is loaded, with an empty memory map and the clock at
  the epoch of the CUC time: the concrete configuration and state on which theorems about the
  telecommand and telemetry paths are instantiated.
\<close>

definition bare_systems :: "unit subsystems" where
  "bare_systems = \<lparr>sy_present = (\<lambda>_. False), sy_command = (\<lambda>_ _. ret None), sy_set_device = (\<lambda>_ _ _. ret False),
     sy_get_device = (\<lambda>_ _. ret False), sy_attr = (\<lambda>_ _ _. None), sy_set_attr = (\<lambda>_ _ _ m. m),
     sy_has_setter = (\<lambda>_ _. False), sy_call_setter = (\<lambda>_ _ _ _. ret ()), sy_power_line = (\<lambda>_ _. None),
     sy_set_line = (\<lambda>_ _ m. m), sy_count = (\<lambda>_ m. m), sy_failure_code = (\<lambda>_. ret ()),
     sy_gps_time_sync = (\<lambda>_ _. ret None), sy_default_rate = (\<lambda>_. 0), sy_beacon_tier = (\<lambda>_. 0),
     sy_safe_tier = (\<lambda>_. 0), sy_apply_tier = (\<lambda>_ m. m)\<rparr>"

definition bare_config :: "unit config" where
  "bare_config = \<lparr>cf_sys = bare_systems, cf_time = 946728000, cf_hk_structures = Map.empty, cf_pacing = False,
     cf_rt_backlog_max = 500, cf_auto_tx_hold = Fin False 900, cf_rate = (\<lambda>_. Fin False 64000),
     cf_order = (\<lambda>s. sorted_list_of_set s), cf_bootloader_apid = 2, cf_application_apid = 1,
     cf_default_sids = []\<rparr>"

definition bare_dispatcher :: dispatcher where
  "bare_dispatcher = \<lparr>ds_err_reason = [], ds_err_code = 0, ds_exec_fail = None, ds_request_id = 0,
     ds_custom_sids = [], ds_event_types = {1, 2, 3, 4}, ds_s12 = [], ds_s12_enabled = True, ds_s19 = [],
     ds_s19_enabled = {}, ds_transfers = [], ds_transfer_counter = 1\<rparr>"

definition bare_engine :: "int \<Rightarrow> unit engine" where
  "bare_engine phase = \<lparr>en_models = (), en_params = Map.empty, en_builder = \<lparr>tb_apid = 1, tb_seq_count = 0\<rparr>,
     en_disp = bare_dispatcher,
     en_memory = \<lparr>mi_map = \<lparr>mm_regions = [], mm_limits = \<lparr>lim_load = 0, lim_dump = 0, lim_check = 0\<rparr>\<rparr>, mi_pages = []\<rparr>,
     en_scheduler = \<lparr>ts_commands = [], ts_next_id = 1, ts_enabled = True\<rparr>, en_storage = [],
     en_procedures = [], en_running = [], en_hk_enabled = [], en_hk_intervals = [], en_hk_timers = [],
     en_violation_active = {}, en_violation_records = [], en_phase = phase, en_sep_timer = Fin False 0,
     en_in_contact = True, en_override_passes = False, en_auto_tx = Fin False 0, en_tm_queue = [],
     en_tm_enqueued = 0, en_tm_drops = 0, en_rt_pending = [], en_rt_budget = Fin False 0,
     en_event_queue = [], en_dump_pending = [], en_dump_active = [], en_dump_budget = Fin False 0\<rparr>"

lemmas bare_simps = bare_systems_def bare_config_def bare_dispatcher_def bare_engine_def

end
