(* ===== verification/Tc_Verdict.thy ===== *)
theory Tc_Verdict
  imports Event_Reports Bare_Spacecraft "HOL-Library.Sublist"
begin

text \<open>
  Properties of the telecommand path as a whole: the S1 reports of one telecommand form one of
  four life cycles, a refused telecommand changes nothing but counters and reports, and the
  outcome of a nested dispatch does not leak.
\<close>

section \<open>Life cycles\<close>

text \<open>The S1 reports among some packets, in order, progress reports left out.\<close>

definition cycle :: "bytes list \<Rightarrow> (int \<times> int) list" where
  "cycle ps = filter (\<lambda>k. fst k = 1 \<and> snd k \<noteq> 5) (map (\<lambda>p. the (report_kind p)) ps)"

definition adds :: "'m config \<Rightarrow> (int \<times> int) list \<Rightarrow> 'm engine \<Rightarrow> 'm engine \<Rightarrow> bool" where
  "adds cf L e e' \<longleftrightarrow> (\<exists>ps. outbox cf e' = outbox cf e @ ps \<and>
     list_all (\<lambda>p. report_kind p \<noteq> None) ps \<and> subseq (cycle ps) L) \<and>
     (within_limits cf e \<longrightarrow> within_limits cf e')"

lemma adds_trans:
  assumes "adds cf K s t" "adds cf L t u"
  shows "adds cf (K @ L) s u"
proof -
  obtain ps qs where
    "outbox cf t = outbox cf s @ ps" "list_all (\<lambda>p. report_kind p \<noteq> None) ps" "subseq (cycle ps) K"
    "outbox cf u = outbox cf t @ qs" "list_all (\<lambda>p. report_kind p \<noteq> None) qs" "subseq (cycle qs) L"
    using assms unfolding adds_def by blast
  then have "\<exists>rs. outbox cf u = outbox cf s @ rs \<and> list_all (\<lambda>p. report_kind p \<noteq> None) rs \<and> subseq (cycle rs) (K @ L)"
    by (intro exI [of _ "ps @ qs"]) (simp add: cycle_def list_emb_append_mono)
  then show ?thesis using assms unfolding adds_def by blast
qed

lemma adds_mono: "adds cf K e e' \<Longrightarrow> subseq K L \<Longrightarrow> adds cf L e e'"
  unfolding adds_def using subseq_order.trans by blast

lemma adds_sent: "sent cf e e' \<Longrightarrow> adds cf [] e e'"
  unfolding adds_def sends_def is_event_report_def cycle_def
  by (fastforce simp: list_all_iff filter_empty_conv)

text \<open>One of several sequences, depending on what was returned.\<close>

definition adds_some :: "'m config \<Rightarrow> (int \<times> int) list list \<Rightarrow> 'm engine \<Rightarrow> 'm engine \<Rightarrow> bool" where
  "adds_some cf Ls e e' \<longleftrightarrow> (\<exists>L \<in> set Ls. adds cf L e e')"

lemma adds_some_bind:
  assumes "rel_py (adds cf K) m" "ends Q m" "Ls \<noteq> []"
    "\<And>a s. Q a s \<Longrightarrow> adds_some cf Ls s (snd (f a s))"
  shows "rel_py (adds_some cf (map ((@) K) Ls)) (bind_py m f)"
  unfolding rel_py_def
proof
  fix s
  obtain r t where m: "m s = (r, t)" by (cases "m s")
  have K: "adds cf K s t" using assms(1) m by (metis rel_pyD)
  show "adds_some cf (map ((@) K) Ls) s (snd (bind_py m f s))"
  proof (cases r)
    case (Inl x)
    obtain L where "L \<in> set Ls" using \<open>Ls \<noteq> []\<close> by (meson list.set_intros(1) neq_Nil_conv hd_in_set)
    then show ?thesis using adds_mono [OF K prefix_imp_subseq, of "K @ L"] m Inl
      by (auto simp: bind_py_simps adds_some_def)
  next
    case (Inr a)
    then obtain L where "L \<in> set Ls" "adds cf L t (snd (f a t))"
      using assms(4) endsD [OF assms(2)] m by (metis adds_some_def)
    then show ?thesis using adds_trans [OF K] m Inr by (auto simp: bind_py_simps adds_some_def)
  qed
qed

lemma adds_bind:
  assumes "rel_py (adds cf K) m" "ends Q m" "\<And>a s. Q a s \<Longrightarrow> adds cf L s (snd (f a s))"
  shows "rel_py (adds cf (K @ L)) (bind_py m f)"
  using adds_some_bind [OF assms(1,2), of "[L]" f] assms(3) by (simp add: adds_some_def rel_py_def)

lemma adds_silent: "rel_py (sent cf) m \<Longrightarrow> rel_py (adds cf []) m"
  by (simp add: rel_py_def adds_sent)

lemma adds_some_after:
  assumes "rel_py (sent cf) m" "\<And>a. rel_py (adds_some cf Ls) (f a)" "Ls \<noteq> []"
  shows "rel_py (adds_some cf Ls) (bind_py m f)"
  using adds_some_bind [OF adds_silent [OF assms(1)], of "\<lambda>_ _. True" Ls f] assms(2,3)
  by (simp add: ends_def rel_py_def map_idI)

lemma adds_some_then:
  "rel_py (sent cf) m \<Longrightarrow> rel_py (adds_some cf Ls) n \<Longrightarrow> Ls \<noteq> [] \<Longrightarrow> rel_py (adds_some cf Ls) (seq_py m n)"
  unfolding seq_py_def by (rule adds_some_after)

lemma adds_some_ret:
  assumes "Ls \<noteq> []"
  shows "rel_py (adds_some cf Ls) (ret a)"
proof -
  have "adds cf L e e" for L :: "(int \<times> int) list" and e
    using adds_mono [OF adds_sent [OF sends_refl], where cf = cf and L = L] by simp
  then show ?thesis using assms by (cases Ls) (auto simp: rel_py_def ret_def adds_some_def)
qed

lemma adds_some_seq:
  "rel_py (adds cf K) m \<Longrightarrow> rel_py (adds_some cf Ls) n \<Longrightarrow> Ls \<noteq> [] \<Longrightarrow>
   rel_py (adds_some cf (map ((@) K) Ls)) (seq_py m n)"
  unfolding seq_py_def by (rule adds_some_bind [where Q = "\<lambda>_ _. True"]) (simp_all add: ends_def rel_py_def)

lemma adds_seq:
  "rel_py (adds cf K) m \<Longrightarrow> rel_py (adds cf L) n \<Longrightarrow> rel_py (adds cf (K @ L)) (seq_py m n)"
  unfolding seq_py_def by (rule adds_bind [where Q = "\<lambda>_ _. True"]) (simp_all add: ends_def rel_py_def)

lemma adds_then: "rel_py (sent cf) m \<Longrightarrow> rel_py (adds cf L) n \<Longrightarrow> rel_py (adds cf L) (seq_py m n)"
  using adds_seq [OF adds_silent, of cf m L n] by simp

lemma adds_enqueue:
  assumes "report_kind p = Some k"
  shows "rel_py (adds cf (cycle [p])) (enqueue_tm cf p)"
proof -
  have "adds cf (cycle [p]) e (downlink_tm cf p e)" for e
    using downlink_sends [of e cf p] assms unfolding adds_def
    by (elim conjE disjE) (force simp: cycle_def intro: exI [of _ "[]"] exI [of _ "[p]"])+
  then have d: "rel_py (adds cf (cycle [p])) (modify (downlink_tm cf p))"
    by (simp add: rel_py_def modify_def)
  have s: "rel_py (adds cf (cycle [p])) (seq_py (modify (downlink_tm cf p)) n)" if "rel_py (sent cf) n" for n :: "('a engine, unit) py"
    using adds_seq [OF d adds_silent, OF that] by simp
  show ?thesis
    unfolding enqueue_tm_def by (rule s) (intro out.frame_rules out_evt [OF ev_file_packet])
qed

lemma adds_send:
  assumes "makes 1 k b" "k \<noteq> 5"
  shows "rel_py (adds cf [(1, k)]) (send_tm cf b)"
proof -
  have "ends (\<lambda>p e. report_kind p = Some (1, k)) (on_builder b)"
    using assms(1) unfolding makes_def ends_def zoom_def by (auto split: prod.splits)
  moreover have "adds cf [(1, k)] e (snd (enqueue_tm cf p e))" if "report_kind p = Some (1, k)" for p e
    using adds_enqueue [OF that, of cf] that assms(2) by (simp add: rel_py_def cycle_def)
  ultimately show ?thesis
    unfolding send_tm_def using adds_bind [where cf = cf, OF adds_silent [OF out_evt [OF ev_on_builder]]] by fastforce
qed

lemma adds_each:
  "list_all (\<lambda>p. report_kind p \<noteq> None) ps \<Longrightarrow> rel_py (adds cf (cycle ps)) (each (enqueue_tm cf) ps)"
proof (induction ps)
  case Nil
  then show ?case using adds_silent [OF out.rel_ret] by (simp add: cycle_def)
next
  case (Cons p ps)
  have "cycle (p # ps) = cycle [p] @ cycle ps" by (simp add: cycle_def)
  then show ?case using Cons adds_seq [OF adds_enqueue, of p _ cf "cycle ps"] by auto
qed

section \<open>One telecommand\<close>

lemma out_count: "rel_py (sent cf) (count_obdh cf' c)"
  unfolding count_obdh_def by (intro out.frame_rules out_modify) simp_all

lemma out_rejected:
  assumes "\<And>x. rel_py (sent cf) (emit x)"
  shows "rel_py (sent cf) (emit_command_rejected cf' emit srv sub d code r stage)"
  unfolding emit_command_rejected_def by (intro out.frame_rules out_calls assms)

lemma adds_reject:
  assumes "\<And>x. rel_py (sent cf) (emit x)"
  shows "rel_py (adds cf [(1, 2)]) (reject_tc cf emit p sec code reason)"
  unfolding reject_tc_def Let_def
  by (rule adds_seq [OF adds_send [OF makes_builders(3)] adds_silent, simplified])
    (auto intro!: out.rel_seq out_count out_rejected assms)

text \<open>The packets and the verdict of a dispatch.\<close>

definition verdict_cycle :: "dispatch_result \<Rightarrow> (int \<times> int) list" where
  "verdict_cycle r = cycle (dr_packets r) @
     (case dr_kind r of Execution \<Rightarrow> [(1, 8)] | Exec_start \<Rightarrow> [] | No_failure \<Rightarrow> [(1, 7)])"

definition fair_result :: "dispatch_result \<Rightarrow> bool" where
  "fair_result r \<longleftrightarrow> list_all (\<lambda>p. report_kind p \<noteq> None) (dr_packets r) \<and>
     cycle (dr_packets r) \<in> set [[], [(1, 4)]] \<and> (dr_kind r = No_failure \<longrightarrow> cycle (dr_packets r) = [])"

lemma answered_fair:
  assumes "well_answered ps e"
  shows "fair_result (outcome ps (en_disp e))"
proof -
  have one: "ps = [] \<or> (\<exists>p. ps = [p])" using assms by (cases ps) (auto simp: well_answered_def)
  then have "list_all (\<lambda>p. report_kind p \<noteq> None) ps" "cycle ps \<in> set [[], [(1, 4)]]"
    using assms by (auto simp: well_answered_def cycle_def handler_kind_def)
  moreover have "ds_exec_fail (en_disp e) \<noteq> None" if "cycle ps = [(1, 4)]"
    using one assms that by (auto simp: well_answered_def cycle_def split: if_splits)
  ultimately show ?thesis by (auto simp: fair_result_def outcome_def split: option.splits)
qed

lemma well_answered_dispatched: "ends well_answered (catch (handle_service cf emit service subtype d) (\<lambda>_. ret []))"
  unfolding ends_def catch_def using endsD [OF answer_handle_service] endsD [OF answer_nil]
  by (auto split: prod.splits sum.splits)

lemma dispatch_fair: "ends (\<lambda>r _. fair_result r) (dispatch cf emit service subtype d sq)"
proof -
  have "ends (\<lambda>r _. fair_result r) (dispatch_inner cf emit service subtype d)"
    unfolding dispatch_inner_def ends_def
    by (auto simp: bind_py_def gets_def split: prod.splits sum.splits
        intro!: answered_fair elim!: endsD [OF well_answered_dispatched])
  then show ?thesis
    by (auto simp: dispatch_def isolated_def ends_def split: prod.splits)
qed

lemma outbox_disp [simp]:
  "outbox cf (e\<lparr>en_disp := x\<rparr>) = outbox cf e" "within_limits cf (e\<lparr>en_disp := x\<rparr>) = within_limits cf e"
  by (simp_all add: outbox_def within_limits_def)

lemma out_isolated:
  assumes "rel_py (sent cf) m"
  shows "rel_py (sent cf) (isolated prepare m)"
  unfolding rel_py_def
proof
  fix e
  have "sent cf (e\<lparr>en_disp := prepare (en_disp e)\<rparr>) (snd (m (e\<lparr>en_disp := prepare (en_disp e)\<rparr>)))"
    using assms by (simp add: rel_py_def)
  then show "sent cf e (snd (isolated prepare m e))"
    by (cases "m (e\<lparr>en_disp := prepare (en_disp e)\<rparr>)") (simp add: isolated_def sends_def)
qed

lemma out_dispatch:
  assumes "\<And>x. rel_py (evt cf) (emit x)"
  shows "rel_py (sent cf) (dispatch cf' emit service subtype d sq)"
  unfolding dispatch_def dispatch_inner_def
  by (intro out_isolated out.frame_rules out_handle_service assms)

lemma arm_silent: "rel_py (sent cf) (modify (arm_auto_tx_hold cf'))"
  by (rule out_modify) (simp_all add: arm_auto_tx_hold_def)

lemma started_reports:
  "ends (\<lambda>ps _. list_all (\<lambda>p. report_kind p \<noteq> None) ps \<and> cycle ps = [(1, 3)]) (generate_s1_reports sq)"
proof -
  have "ends (\<lambda>ps _. list_all (\<lambda>p. report_kind p \<noteq> None) ps \<and> cycle ps = [(1, 3)]) (report 1 3 d)"
    for d :: bytes
    unfolding report_def ends_def zoom_def bind_py_def ret_def
    by (auto split: prod.splits sum.splits dest!: pack_tm_kind simp: cycle_def)
  then show ?thesis unfolding generate_s1_reports_def by (rule ends_bind)
qed

definition finish :: "dispatch_result \<Rightarrow> (int \<times> int) list" where
  "finish r = (case dr_kind r of Execution \<Rightarrow> [(1, 8)] | Exec_start \<Rightarrow> [] | No_failure \<Rightarrow> [(1, 7)])"

lemma adds_report_outcome:
  assumes "\<And>x. rel_py (evt cf) (emit x)"
  shows "rel_py (adds cf (finish r)) (report_outcome cf emit p sec r)"
proof (cases "dr_kind r")
  case Execution
  then show ?thesis
    using adds_seq [OF adds_send [OF makes_builders(4)] adds_silent [OF out_rejected]] out_evt [OF assms]
    unfolding report_outcome_def Let_def finish_def by fastforce
next
  case Exec_start
  then show ?thesis
    unfolding report_outcome_def Let_def finish_def
    by (simp add: adds_silent [OF out_rejected] out_evt [OF assms])
next
  case No_failure
  then show ?thesis
    using adds_send [OF makes_builders(2)] unfolding report_outcome_def Let_def finish_def by simp
qed

definition run_cycles :: "(int \<times> int) list list" where
  "run_cycles = [[(1, 7)], [(1, 4), (1, 8)]]"

lemma fair_cycles: "fair_result r \<Longrightarrow> \<exists>L \<in> set run_cycles. subseq (cycle (dr_packets r) @ finish r) L"
  by (auto simp: fair_result_def finish_def run_cycles_def split: failure_kind.splits)

lemma adds_execute:
  assumes "\<And>x. rel_py (evt cf) (emit x)"
  shows "rel_py (adds_some cf (map ((@) [(1, 1), (1, 3)]) run_cycles)) (execute_tc cf emit p sec)"
proof -
  define finished where "finished r =
    seq_py (each (enqueue_tm cf) (dr_packets r)) (seq_py (report_outcome cf emit p sec r) (count_obdh cf ''tc_executed''))" for r
  have fin: "adds_some cf run_cycles s (snd (finished r s))" if "fair_result r" for r s
  proof -
    have "rel_py (adds cf (cycle (dr_packets r) @ finish r @ [])) (finished r)"
      unfolding finished_def using that
      by (intro adds_seq adds_each adds_report_outcome assms adds_silent out_count) (simp add: fair_result_def)
    then have "adds cf (cycle (dr_packets r) @ finish r) s (snd (finished r s))" by (simp add: rel_py_def)
    then show ?thesis using fair_cycles [OF that] adds_mono unfolding adds_some_def by blast
  qed
  define run where "run = bind_py (dispatch cf emit (sh_service sec) (sh_subtype sec) (dp_data_field p)
    (ph_sequence_count (dp_primary p))) finished"
  have run: "rel_py (adds_some cf run_cycles) run"
    using adds_some_bind [OF adds_silent [OF out_dispatch] dispatch_fair, of cf emit run_cycles finished cf]
    unfolding run_def using assms fin by (simp add: run_cycles_def)
  have "adds_some cf (map ((@) [(1, 3)]) run_cycles) s (snd (seq_py (each (enqueue_tm cf) ps) run s))"
    if "list_all (\<lambda>p. report_kind p \<noteq> None) ps \<and> cycle ps = [(1, 3)]" for ps s
    using adds_some_seq [OF adds_each run, of ps] that by (simp add: run_cycles_def rel_py_def)
  then have "rel_py (adds_some cf (map ((@) []) (map ((@) [(1, 3)]) run_cycles)))
      (bind_py (generate_s1_reports (ph_sequence_count (dp_primary p))) (\<lambda>started. seq_py (each (enqueue_tm cf) started) run))"
    by (intro adds_some_bind [OF adds_silent started_reports])
      (auto simp: generate_s1_reports_def run_cycles_def intro!: out.frame_rules out_calls)
  then show ?thesis
    unfolding execute_tc_def Let_def run_def finished_def
    using adds_some_seq [OF adds_send [OF makes_builders(1)] adds_some_then [OF out_count adds_some_then [OF arm_silent]],
        where cf = cf and Ls = "map ((@) [(1, 3)]) run_cycles"]
    by (simp add: run_cycles_def)
qed

text \<open>The four life cycles of a telecommand, by the S1 reports it gives.\<close>

definition life_cycles :: "(int \<times> int) list list" where
  "life_cycles = [[(1, 2)], [(1, 1), (1, 3), (1, 7)], [(1, 1), (1, 3), (1, 4), (1, 8)]]"

lemma adds_dispatch_tc:
  assumes "\<And>x. rel_py (evt cf) (emit x)"
  shows "rel_py (adds_some cf life_cycles) (dispatch_tc cf emit raw)"
proof -
  have some: "life_cycles \<noteq> []" by (simp add: life_cycles_def)
  have reject: "rel_py (adds_some cf life_cycles) (reject_tc cf emit p sec c r)" for p sec c r
    using adds_reject [of cf emit p sec c r] out_evt [OF assms]
    by (simp add: rel_py_def adds_some_def life_cycles_def)
  have execute: "rel_py (adds_some cf life_cycles) (execute_tc cf emit p sec)" for p sec
    using adds_execute [of cf emit p sec] assms
    by (auto simp: rel_py_def adds_some_def life_cycles_def run_cycles_def)
  have packet: "rel_py (adds_some cf life_cycles) (dispatch_packet cf emit p sec)" for p sec
    unfolding dispatch_packet_def
    by (intro adds_some_then adds_some_after out_count out.rel_gets out.rel_of_result some)
      (simp add: reject execute split: option.split)
  show ?thesis
    unfolding dispatch_tc_def
    by (intro adds_some_after out.rel_of_result some) (simp add: packet adds_some_ret [OF some] split: option.split)
qed

text \<open>
  C1: Whatever a telecommand is and whatever the handlers do, its S1 reports (progress reports left out)
  come in the order of one of three life cycles, each report at most once: refused (1,2); completed
  (1,1) (1,3) (1,7); failed (1,1) (1,3) (1,4) (1,8). A telecommand is never both completed and failed
  or refused, and everything put on the downlink is a well-formed packet.
\<close>
theorem one_verdict:
  "\<exists>L \<in> set [[(1, 2)], [(1, 1), (1, 3), (1, 7)], [(1, 1), (1, 3), (1, 4), (1, 8)]].
     \<exists>ps. outbox cf (snd (dispatch_tc cf (emit_event cf n) raw e)) = outbox cf e @ ps \<and>
          list_all (\<lambda>p. report_kind p \<noteq> None) ps \<and> subseq (cycle ps) L"
proof -
  have "rel_py (adds_some cf life_cycles) (dispatch_tc cf (emit_event cf n) raw)"
    by (rule adds_dispatch_tc) (rule ev_emit_event)
  then show ?thesis by (simp add: rel_py_def adds_some_def adds_def life_cycles_def)
qed

text \<open>
  C10: The queues stay within their limits: a telecommand, with every report it sends and every event and
  event-action rule it sets off, leaves the downlink queue at most \<open>TM_QUEUE_SIZE\<close>, the real-time backlog
  at most its configured size and the event queue at most \<open>EVENT_QUEUE_SIZE\<close> long.
\<close>
theorem queues_within_limits:
  assumes "within_limits cf e"
  shows "within_limits cf (snd (dispatch_tc cf (emit_event cf n) raw e))"
proof -
  have "rel_py (adds_some cf life_cycles) (dispatch_tc cf (emit_event cf n) raw)"
    by (rule adds_dispatch_tc) (rule ev_emit_event)
  then show ?thesis using assms unfolding rel_py_def adds_some_def adds_def by blast
qed

theorem queues_within_limits_witness:
  "within_limits bare_config (snd (dispatch_tc bare_config (emit_event bare_config 5) [0x18, 0x02] (bare_engine 4)))"
  by (rule queues_within_limits) (simp add: within_limits_def bare_simps)

section \<open>Refusals\<close>

lemma kept_enqueue: "rel_py kept (enqueue_tm cf p)"
  unfolding enqueue_tm_def using downlink_sends [of _ cf p]
  by (intro kp.frame_rules kp.rel_modify kept_evt [OF ev_file_packet]) simp

lemma kept_send: "rel_py kept (send_tm cf b)"
  unfolding send_tm_def by (intro kp.frame_rules kept_enqueue kept_evt [OF ev_on_builder])

lemma kept_count: "rel_py kept (count_obdh cf c)"
  unfolding count_obdh_def by (intro kp.frame_rules kept_evt [OF ev_models])

lemma kept_reject:
  assumes "\<And>x. rel_py kept (emit x)"
  shows "rel_py kept (reject_tc cf emit p sec code reason)"
  unfolding reject_tc_def emit_command_rejected_def Let_def
  by (intro kp.frame_rules kept_send kept_count kept_evt [OF ev_on_models] assms)

text \<open>What a refusal does to the models: the counters of the on-board computer, and the code of the last failure.\<close>

definition tallied :: "'m config \<Rightarrow> string \<Rightarrow> 'm \<Rightarrow> 'm" where
  "tallied cf counter m = (if sy_present (cf_sys cf) ''obdh'' then sy_count (cf_sys cf) counter m else m)"

definition failure_noted :: "'m config \<Rightarrow> int \<Rightarrow> 'm \<Rightarrow> 'm" where
  "failure_noted cf code m =
     (if sy_present (cf_sys cf) ''obdh'' then snd (sy_failure_code (cf_sys cf) code m) else m)"

definition refusal_of :: "'m config \<Rightarrow> decommutated_packet \<Rightarrow> secondary_header \<Rightarrow> 'm engine \<Rightarrow> (int \<times> pytext) option" where
  "refusal_of cf p sec e =
     (case refusal cf (sh_service sec) (sh_subtype sec) (dp_data_field p) (snd (count_obdh cf ''tc_received'' e)) of
        Inr r \<Rightarrow> r | Inl _ \<Rightarrow> None)"

text \<open>As \<open>quiet\<close>, but for the models and the event queue.\<close>

definition spared :: "'m engine \<Rightarrow> 'm engine \<Rightarrow> bool" where
  "spared e e' \<longleftrightarrow> kept e e' \<and> en_disp e' = en_disp e \<and> tb_apid (en_builder e') = tb_apid (en_builder e)"

lemma spared_trans: "spared s t \<Longrightarrow> spared t u \<Longrightarrow> spared s u"
  by (auto simp: spared_def intro: kept_trans)

lemma spared_models: "spared e (e\<lparr>en_models := m\<rparr>)"
  by (simp add: spared_def kept_def)

lemma spared_quiet: "quiet e e' \<Longrightarrow> spared e e' \<and> en_models e' = en_models e \<and> en_event_queue e' = en_event_queue e"
  by (simp add: quiet_def spared_def)

lemma noted_effect:
  assumes "noted ev e e'"
  shows "spared e e' \<and> en_models e' = en_models e \<and>
    en_event_queue e' \<in> {en_event_queue e, en_event_queue e @ [ev]}"
proof -
  obtain t where t: "quiet e t" "e' = t \<or> e' = queue_event ev t" using assms by (auto simp: noted_def)
  have "spared t (queue_event ev t)" "en_models (queue_event ev t) = en_models t"
    "en_event_queue (queue_event ev t) \<in> {en_event_queue t, en_event_queue t @ [ev]}"
    by (simp_all add: spared_def kept_def queue_event_def)
  then show ?thesis using t(2) spared_quiet [OF t(1)] spared_trans by auto
qed

lemma count_runs: "count_obdh cf c e = (Inr (), e\<lparr>en_models := tallied cf c (en_models e)\<rparr>)"
  by (cases e) (simp add: count_obdh_def when_py_def modify_def ret_def tallied_def)

lemma failure_code_runs:
  "when_py (sy_present (cf_sys cf) ''obdh'') (catch (on_models (sy_failure_code (cf_sys cf) code)) (\<lambda>_. ret ())) e =
   (Inr (), e\<lparr>en_models := failure_noted cf code (en_models e)\<rparr>)"
proof (cases "sy_present (cf_sys cf) ''obdh''")
  case True
  obtain r m where "sy_failure_code (cf_sys cf) code (en_models e) = (r, m)" by fastforce
  then have "on_models (sy_failure_code (cf_sys cf) code) e = (r, e\<lparr>en_models := failure_noted cf code (en_models e)\<rparr>)"
    using True by (simp add: zoom_def failure_noted_def)
  then show ?thesis
    using True by (cases r) (simp_all add: when_py_def catch_def ret_def)
next
  case False
  then show ?thesis by (cases e) (simp add: when_py_def ret_def failure_noted_def)
qed

lemma watched_spared: "spared e e' \<Longrightarrow> watched t e' = watched t e"
  by (simp add: spared_def watched_def rule_matches_def)

lemma rejected_effect:
  assumes "\<not> watched (EV_COMMAND_REJECTED, TRIGGER_KIND_EVENT) e"
  shows "let e' = snd (emit_command_rejected cf (emit_event cf n) srv sub d code reason stage e) in
    spared e e' \<and> en_models e' = failure_noted cf code (en_models e) \<and>
    en_event_queue e' \<in> {en_event_queue e, en_event_queue e @ [rejection_event srv sub d code reason stage]}"
proof -
  let ?ev = "rejection_event srv sub d code reason stage" and ?t = "e\<lparr>en_models := failure_noted cf code (en_models e)\<rparr>"
  have "event_trigger ?ev = (EV_COMMAND_REJECTED, TRIGGER_KIND_EVENT)"
    by (simp add: event_trigger_def rejection_event_def EV_COMMAND_REJECTED_def)
  then have "\<not> watched (event_trigger ?ev) ?t" using assms watched_spared [OF spared_models] by metis
  then have n: "noted ?ev ?t (snd (emit_event cf n ?ev ?t))" by (rule emit_event_notes)
  have "snd (emit_command_rejected cf (emit_event cf n) srv sub d code reason stage e) = snd (emit_event cf n ?ev ?t)"
    by (simp add: emit_command_rejected_def bind_py_simps(4) [OF failure_code_runs] catch_def ret_def split: prod.split sum.split)
  then show ?thesis
    using noted_effect [OF n] spared_trans [OF spared_models [of e "failure_noted cf code (en_models e)"]]
    by (simp add: Let_def)
qed

lemma reject_effect:
  assumes "\<not> watched (EV_COMMAND_REJECTED, TRIGGER_KIND_EVENT) e"
  shows "let e' = snd (reject_tc cf (emit_event cf n) p sec code reason e) in
    spared e e' \<and>
    en_models e' \<in> {en_models e, failure_noted cf code (tallied cf ''tc_rejected'' (en_models e))} \<and>
    en_event_queue e' \<in> {en_event_queue e, en_event_queue e @
      [rejection_event (sh_service sec) (sh_subtype sec) (dp_data_field p) code reason ''acceptance'']}"
proof -
  define rest where "rest = seq_py (count_obdh cf ''tc_rejected'')
    (emit_command_rejected cf (emit_event cf n) (sh_service sec) (sh_subtype sec) (dp_data_field p) code reason ''acceptance'')"
  define snt where "snt = send_tm cf (build_verification_failure (ph_apid (dp_primary p)) (ph_sequence_count (dp_primary p)) code reason)"
  have r: "reject_tc cf (emit_event cf n) p sec code reason = seq_py snt rest"
    by (simp add: reject_tc_def rest_def snt_def Let_def)
  have "rel_py quiet snt"
    unfolding snt_def send_tm_def by (intro qt.frame_rules quiet_enqueue quiet_builder apid_builders)
  moreover obtain x t where t: "snt e = (x, t)" by fastforce
  ultimately have q: "spared e t" "en_models t = en_models e" "en_event_queue t = en_event_queue e"
    using rel_pyD spared_quiet by metis+
  show ?thesis
  proof (cases x)
    case (Inl err)
    then show ?thesis using q t by (simp add: r seq_py_def bind_py_def)
  next
    case (Inr u)
    let ?t = "t\<lparr>en_models := tallied cf ''tc_rejected'' (en_models t)\<rparr>"
    have "reject_tc cf (emit_event cf n) p sec code reason e = rest t"
      using t Inr by (simp add: r seq_py_def bind_py_def)
    moreover have "rest t = emit_command_rejected cf (emit_event cf n) (sh_service sec) (sh_subtype sec)
        (dp_data_field p) code reason ''acceptance'' ?t"
      by (simp add: rest_def bind_py_simps(4) [OF count_runs])
    ultimately have run: "reject_tc cf (emit_event cf n) p sec code reason e =
        emit_command_rejected cf (emit_event cf n) (sh_service sec) (sh_subtype sec) (dp_data_field p) code reason
          ''acceptance'' ?t" by simp
    have s: "spared e ?t" by (rule spared_trans [OF q(1) spared_models])
    have "\<not> watched (EV_COMMAND_REJECTED, TRIGGER_KIND_EVENT) ?t"
      using assms by (simp only: watched_spared [OF s] not_False_eq_True)
    note rejected = rejected_effect [OF this, of cf n "sh_service sec" "sh_subtype sec" "dp_data_field p" code reason "''acceptance''"]
    define e' where "e' = snd (reject_tc cf (emit_event cf n) p sec code reason e)"
    have "spared ?t e' \<and> en_models e' = failure_noted cf code (en_models ?t) \<and>
        en_event_queue e' \<in> {en_event_queue ?t, en_event_queue ?t @
          [rejection_event (sh_service sec) (sh_subtype sec) (dp_data_field p) code reason ''acceptance'']}"
      using rejected unfolding e'_def run Let_def .
    then show ?thesis using q(2,3) spared_trans [OF s, of e'] by (simp add: Let_def flip: e'_def)
  qed
qed

text \<open>
  C2: A telecommand refused at acceptance has no effect: memory, schedule, procedures, housekeeping
  configuration, event-action rules, monitoring, transfers, parameters, phase, timers and dump state are
  as before. Unless an enabled event-action rule watches the rejection event, the subsystem models are as
  before but for the counters of received and rejected telecommands and the code of the last failure (the
  latter two only when the report could be sent), the event queue has at most the rejection event more,
  and the whole dispatcher and the packet builder's identifier are as before: what is left is the count of
  packets built, the packet stores and the downlink.
\<close>
theorem refused_tc_changes_nothing:
  assumes "refusal_of cf p sec e = Some (code, reason)"
  shows "let e' = snd (dispatch_packet cf (emit_event cf n) p sec e);
             received = tallied cf ''tc_received'' (en_models e) in
    kept e e' \<and>
    (\<not> watched (EV_COMMAND_REJECTED, TRIGGER_KIND_EVENT) e \<longrightarrow>
       en_models e' \<in> {received, failure_noted cf code (tallied cf ''tc_rejected'' received)} \<and>
       en_event_queue e' \<in> {en_event_queue e, en_event_queue e @
         [rejection_event (sh_service sec) (sh_subtype sec) (dp_data_field p) code reason ''acceptance'']} \<and>
       en_disp e' = en_disp e \<and> tb_apid (en_builder e') = tb_apid (en_builder e))"
proof -
  define t where "t = e\<lparr>en_models := tallied cf ''tc_received'' (en_models e)\<rparr>"
  have r: "refusal cf (sh_service sec) (sh_subtype sec) (dp_data_field p) t = Inr (Some (code, reason))"
    using assms by (simp add: refusal_of_def count_runs t_def split: sum.splits)
  have d: "dispatch_packet cf (emit_event cf n) p sec e = reject_tc cf (emit_event cf n) p sec code reason t"
    by (simp add: dispatch_packet_def bind_py_simps(4) [OF count_runs] r flip: t_def)
  have "rel_py kept (reject_tc cf (emit_event cf n) p sec code reason)"
    by (rule kept_reject) (rule kept_evt [OF ev_emit_event])
  then have "kept t (snd (reject_tc cf (emit_event cf n) p sec code reason t))"
    unfolding rel_py_def by blast
  moreover have s: "spared e t" unfolding t_def by (rule spared_models)
  ultimately have k: "kept e (snd (dispatch_packet cf (emit_event cf n) p sec e))"
    unfolding d by (blast intro: kept_trans dest: spared_def [THEN iffD1])
  have "\<not> watched (EV_COMMAND_REJECTED, TRIGGER_KIND_EVENT) t"
    if "\<not> watched (EV_COMMAND_REJECTED, TRIGGER_KIND_EVENT) e"
    using that watched_spared [OF s] by blast
  then show ?thesis
    using k s reject_effect [of t cf n p sec code reason]
    by (auto simp: d Let_def spared_def t_def)
qed

definition s6_load :: decommutated_packet where
  "s6_load = \<lparr>dp_primary = packet_header packet_type_TC 2 7 9,
     dp_secondary = Some \<lparr>sh_pus_version = 2, sh_service = 6, sh_subtype = 2, sh_cuc_time = 0\<rparr>,
     dp_data_field = [0, 0, 0, 0, 0, 0xFF], dp_crc = 0, dp_crc_valid = True, dp_raw = []\<rparr>"

lemma refused_tc_changes_nothing_witness:
  "let e' = snd (dispatch_packet bare_config (emit_event bare_config 5) s6_load
       \<lparr>sh_pus_version = 2, sh_service = 6, sh_subtype = 2, sh_cuc_time = 0\<rparr> (bare_engine 3));
       reason = bootloader_reason 6 2 (dp_data_field s6_load) 3
   in kept (bare_engine 3) e' \<and> en_models e' = () \<and> en_disp e' = en_disp (bare_engine 3) \<and>
     en_event_queue e' \<in> {[], [rejection_event 6 2 (dp_data_field s6_load) 6 reason ''acceptance'']}"
proof -
  have r: "refusal_of bare_config s6_load \<lparr>sh_pus_version = 2, sh_service = 6, sh_subtype = 2, sh_cuc_time = 0\<rparr>
      (bare_engine 3) = Some (6, bootloader_reason 6 2 (dp_data_field s6_load) 3)"
    by (simp add: refusal_of_def refusal_def bare_simps in_bootloader_def bootloader_allowed_def count_obdh_def
        when_py_def ret_def)
  moreover have "\<not> watched (EV_COMMAND_REJECTED, TRIGGER_KIND_EVENT) (bare_engine 3)"
    by (simp add: watched_def bare_simps)
  moreover have "en_event_queue (bare_engine 3) = []" by (simp add: bare_simps)
  ultimately show ?thesis
    using refused_tc_changes_nothing [OF r, of 5] by (simp add: Let_def)
qed

section \<open>Nested dispatch\<close>

text \<open>
  C9: Dispatch is re-entrant: it neither sees nor disturbs the outcome accumulators of a dispatch it is
  nested in. The accumulators afterwards are those before, and with other accumulators before it the
  result and the rest of the state are the same.
\<close>
theorem dispatch_is_reentrant:
  "accumulators (en_disp (snd (dispatch cf emit srv sub d sq e))) = accumulators (en_disp e) \<and>
   dispatch cf emit srv sub d sq (e\<lparr>en_disp := restore_acc a (en_disp e)\<rparr>) =
     map_prod id (\<lambda>e'. e'\<lparr>en_disp := restore_acc a (en_disp e')\<rparr>) (dispatch cf emit srv sub d sq e)"
proof -
  let ?prep = "\<lambda>ds. (clear_acc ds)\<lparr>ds_request_id := sq\<rparr>"
  have "?prep (restore_acc a (en_disp e)) = ?prep (en_disp e)"
    by (cases a) (simp add: clear_acc_def restore_acc_def)
  then show ?thesis
    by (cases "dispatch_inner cf emit srv sub d (e\<lparr>en_disp := ?prep (en_disp e)\<rparr>)")
      (simp add: dispatch_def isolated_def)
qed

end
