(* ===== verification/Spacecraft_Phase.thy ===== *)
theory Spacecraft_Phase
  imports Service_Dispatch
begin

text \<open>
  The phase machine of the spacecraft (\<open>_tick_spacecraft_phase\<close> of \<open>smo_simulator/engine.py\<close>) and
  the two mode changes it makes, into and out of the bootloader.
\<close>

section \<open>Attributes of the models\<close>

definition set_attrs :: "'m subsystems \<Rightarrow> string \<Rightarrow> (string \<times> pyval) list \<Rightarrow> 'm \<Rightarrow> 'm" where
  "set_attrs sy name avs m =
     (if sy_present sy name then fold (\<lambda>(a, v). sy_set_attr sy name a v) avs m else m)"

text \<open>The assignments guarded by \<open>hasattr\<close>.\<close>

definition set_existing :: "'m subsystems \<Rightarrow> string \<Rightarrow> (string \<times> pyval) list \<Rightarrow> 'm \<Rightarrow> 'm" where
  "set_existing sy name avs m =
     (if sy_present sy name
      then fold (\<lambda>(a, v) m. if sy_attr sy name a m \<noteq> None then sy_set_attr sy name a v m else m) avs m else m)"

abbreviation (input) zero_float :: pyval where "zero_float \<equiv> VFloat (Fin False 0)"

definition aocs_off :: "'m subsystems \<Rightarrow> 'm \<Rightarrow> 'm" where
  "aocs_off sy m =
     set_existing sy ''aocs'' [(''gps_fix'', VInt 0), (''gps_num_sats'', VInt 0)]
     (set_attrs sy ''aocs'' [(''mtq_enabled'', VBool False), (''mtq_x_duty'', zero_float),
        (''mtq_y_duty'', zero_float), (''mtq_z_duty'', zero_float)]
     (set_existing sy ''aocs'' [(''rw_enabled'', VBools (replicate 4 False)),
        (''active_wheels'', VBools (replicate 4 False)), (''rw_speed'', VFloats (replicate 4 (Fin False 0)))]
     (set_attrs sy ''aocs'' [(''css_valid'', VBool False), (''css_sun_x'', zero_float),
        (''css_sun_y'', zero_float), (''css_sun_z'', zero_float), (''mag_valid'', VBool False)]
     (set_existing sy ''aocs'' [(''_prev_st1_status'', VInt 0), (''_prev_st2_status'', VInt 0)]
     (set_attrs sy ''aocs'' [(''mode'', VInt 0), (''st1_status'', VInt 0), (''st2_status'', VInt 0),
        (''st1_num_stars'', VInt 0), (''st2_num_stars'', VInt 0), (''st1_failed'', VBool False),
        (''st2_failed'', VBool False), (''st_valid'', VBool False), (''st_selected'', VInt 1)] m)))))"

definition ttc_beacon :: "'m subsystems \<Rightarrow> 'm \<Rightarrow> 'm" where
  "ttc_beacon sy m =
     (if sy_present sy ''ttc''
      then sy_apply_tier sy (sy_beacon_tier sy m)
             (set_attrs sy ''ttc'' [(''pa_on'', VBool False), (''beacon_mode'', VBool True),
                (''antenna_deployed'', VBool False), (''data_rate_mode'', VInt (sy_beacon_tier sy m)),
                (''downlink_mode'', VBool False)] m)
      else m)"

section \<open>Entering and leaving the bootloader\<close>

definition restrict_hk :: "(int \<Rightarrow> bool) \<Rightarrow> (int \<times> bool) list \<Rightarrow> (int \<times> bool) list" where
  "restrict_hk f l = map (\<lambda>(sid, _). (sid, f sid)) l"

definition close_stores :: "tm_storage \<Rightarrow> tm_storage" where
  "close_stores s = fold (\<lambda>sid s. disable_store sid (delete_store sid s)) (map fst s) s"

definition open_stores :: "tm_storage \<Rightarrow> tm_storage" where
  "open_stores s = fold enable_store (map fst s) s"

definition enter_bootloader_mode :: "'m config \<Rightarrow> 'm engine \<Rightarrow> 'm engine" where
  "enter_bootloader_mode cf e =
     (let sy = cf_sys cf;
          m = set_existing sy ''obdh'' [(''boot_app_pending'', VBool False)]
                (set_attrs sy ''obdh'' [(''sw_image'', VInt 0)] (en_models e))
      in e\<lparr>en_phase := 3, en_sep_timer := Fin False 0,
           en_hk_enabled := restrict_hk (\<lambda>sid. sid = BOOTLOADER_BEACON_SID) (en_hk_enabled e),
           en_builder := set_apid (cf_bootloader_apid cf) (en_builder e),
           en_storage := close_stores (en_storage e),
           en_models := set_attrs sy ''payload'' [(''mode'', VInt 0)] (ttc_beacon sy (aocs_off sy m)),
           en_params := (en_params e)(0x0129 \<mapsto> Fin False 3, 0x0311 \<mapsto> Fin False 0)\<rparr>)"

definition leave_beacon_tier :: "'m subsystems \<Rightarrow> 'm \<Rightarrow> 'm" where
  "leave_beacon_tier sy m =
     (if sy_present sy ''ttc'' \<and>
         (case sy_attr sy ''ttc'' ''beacon_mode'' m of Some (VBool b) \<Rightarrow> \<not> b | _ \<Rightarrow> False)
      then sy_set_attr sy ''ttc'' ''data_rate_mode'' (VInt (sy_safe_tier sy m)) m else m)"

definition exit_bootloader_mode :: "'m config \<Rightarrow> 'm engine \<Rightarrow> 'm engine" where
  "exit_bootloader_mode cf e =
     e\<lparr>en_builder := set_apid (cf_application_apid cf) (en_builder e),
       en_hk_enabled := restrict_hk (\<lambda>sid. sid \<in> set (cf_default_sids cf)) (en_hk_enabled e),
       en_storage := open_stores (en_storage e),
       en_models := leave_beacon_tier (cf_sys cf) (en_models e)\<rparr>"

section \<open>The phase machine\<close>

definition phase_event :: "int \<Rightarrow> int \<Rightarrow> pytext \<Rightarrow> event" where
  "phase_event i severity text =
     \<lparr>ev_id = i, ev_severity = Sev_int severity, ev_description = text, ev_extra = []\<rparr>"

abbreviation set_params :: "(int \<times> py_float) list \<Rightarrow> ('m engine, unit) py" where
  "set_params kvs \<equiv> modify (\<lambda>e. e\<lparr>en_params := en_params e ++ map_of kvs\<rparr>)"

abbreviation set_phase :: "int \<Rightarrow> ('m engine, unit) py" where
  "set_phase k \<equiv> modify (\<lambda>e. e\<lparr>en_phase := k\<rparr>)"

definition sw_image_is :: "'m config \<Rightarrow> int \<Rightarrow> 'm engine \<Rightarrow> bool" where
  "sw_image_is cf k e = (case attr_of cf ''obdh'' ''sw_image'' e of Some v \<Rightarrow> is_number k v | None \<Rightarrow> False)"

definition publish_phase :: "('m engine, unit) py" where
  "publish_phase = bind_py (gets en_phase) (\<lambda>k.
     set_params [(0x0129, of_pyint k), (0x0127, Fin False 0), (0x0128, Fin False 0)])"

definition tick_spacecraft_phase ::
  "'m config \<Rightarrow> (event \<Rightarrow> ('m engine, unit) py) \<Rightarrow> py_float \<Rightarrow> ('m engine, unit) py" where
  "tick_spacecraft_phase cf emit dt =
     bind_py (gets en_phase) (\<lambda>phase.
       if phase = 0 then set_params [(0x0129, Fin False 0), (0x0127, Fin False 0), (0x0128, Fin False 0)]
       else if phase = 1 then
         bind_py (gets (\<lambda>e. fsub (en_sep_timer e) dt)) (\<lambda>t.
         seq_py (modify (\<lambda>e. e\<lparr>en_sep_timer := t\<rparr>))
         (seq_py (set_params [(0x0128, fmax (Fin False 0) t), (0x0127, Fin False 1), (0x0129, Fin False 1)])
           (when_py (fle t (Fin False 0)) (seq_py (set_phase 2)
              (emit (phase_event 0x0050 2 (py ''Separation timer expired '' @ [0x2014] @ py '' initial power-on'')))))))
       else seq_py
         (if phase = 2 then
            seq_py (modify (\<lambda>e. e\<lparr>en_models := set_attrs (cf_sys cf) ''obdh'' [(''sw_image'', VInt 0)] (en_models e)\<rparr>))
            (seq_py (set_phase 3)
            (seq_py (set_params [(0x0129, Fin False 2)])
              (emit (phase_event 0x0051 2 (py ''OBC bootloader started '' @ [0x2014] @ py '' beacon mode'')))))
          else if phase = 3 then
            seq_py (set_params [(0x0129, Fin False 3)])
            (bind_py (gets (sw_image_is cf 1)) (\<lambda>booted.
              when_py booted (seq_py (set_phase 4)
              (seq_py (modify (exit_bootloader_mode cf))
                (emit (phase_event 0x0052 2 (py ''OBC application booted '' @ [0x2014] @ py '' LEOP phase started'')))))))
          else ret ())
         (seq_py
           (if 4 \<le> phase
            then bind_py (gets (sw_image_is cf 0)) (\<lambda>reverted.
              when_py reverted (seq_py (modify (enter_bootloader_mode cf))
                (emit (phase_event 0x0054 3 (py ''OBC reboot '' @ [0x2014] @ py '' reverted to bootloader/beacon mode'')))))
            else ret ())
           publish_phase))"

end
