(* ===== verification/Phase_Rules.thy ===== *)
theory Phase_Rules
  imports Outbox Spacecraft_Phase Bare_Spacecraft
begin

text \<open>
  The spacecraft phase as a state machine: the steps a tick can make, depending on the software image
  the on-board computer runs, and what entering the bootloader guarantees.
\<close>

text \<open>
  A step of the phase, given whether the on-board computer runs the application (\<open>booted\<close>) or the
  bootloader (\<open>reverted\<close>): 0 pre-launch, 1 separation timer, 2 power-on, 3 bootloader, 4 and above the
  phases of the application.
\<close>

inductive phase_step :: "bool \<Rightarrow> bool \<Rightarrow> int \<Rightarrow> int \<Rightarrow> bool" for booted reverted where
  pre_launch: "phase_step booted reverted 0 0"
| timer_runs: "phase_step booted reverted 1 1"
| timer_expires: "phase_step booted reverted 1 2"
| power_on: "phase_step booted reverted 2 3"
| boots: "booted \<Longrightarrow> phase_step booted reverted 3 4"
| waits: "\<not> booted \<Longrightarrow> phase_step booted reverted 3 3"
| reverts: "reverted \<Longrightarrow> 4 \<le> k \<Longrightarrow> phase_step booted reverted k 3"
| nominal: "\<not> reverted \<Longrightarrow> 4 \<le> k \<Longrightarrow> phase_step booted reverted k k"

inductive_cases to_application: "phase_step booted reverted k 4"
inductive_simps step_from_bootloader: "phase_step booted reverted 3 k"

definition same_phase :: "'m engine \<Rightarrow> 'm engine \<Rightarrow> bool" where
  "same_phase e e' \<longleftrightarrow> en_phase e' = en_phase e"

interpretation sp: py_frame same_phase
  by unfold_locales (simp_all add: same_phase_def)

lemma same_phase_emit: "rel_py same_phase (emit_event cf n ev)"
  using ev_emit_event [of cf n ev] by (simp add: rel_py_def evt_def kept_def same_phase_def)

lemma same_phase_publish: "rel_py same_phase publish_phase"
  unfolding publish_phase_def by (intro sp.frame_rules sp.rel_modify) (simp add: same_phase_def)

text \<open>The phase after code that ends with steps leaving the phase alone.\<close>

lemma phase_seq: "rel_py same_phase n \<Longrightarrow> en_phase (snd (seq_py m n e)) = en_phase (snd (m e))"
  by (simp add: rel_py_def same_phase_def seq_py_def bind_py_def split: prod.split sum.split)

lemma phase_keep: "rel_py same_phase m \<Longrightarrow> en_phase (snd (m e)) = en_phase e"
  by (simp add: rel_py_def same_phase_def)

lemma phase_enter: "en_phase (enter_bootloader_mode cf e) = 3"
  by (simp add: enter_bootloader_mode_def Let_def)

lemma phase_exit: "en_phase (exit_bootloader_mode cf e) = en_phase e"
  by (simp add: exit_bootloader_mode_def)

lemmas phase_simps = phase_seq phase_keep same_phase_emit same_phase_publish phase_enter phase_exit
  when_py_def ret_def modify_def sw_image_is_def attr_of_def

text \<open>
  C8: The phase moves only along the steps of \<open>phase_step\<close>: the application phases are entered from the
  bootloader only, and only when the on-board computer runs the application image; an application phase is
  left for the bootloader exactly when the computer has reverted to it.
\<close>
theorem phase_follows_machine:
  assumes "0 \<le> en_phase e"
  shows "phase_step (sw_image_is cf 1 e) (sw_image_is cf 0 e) (en_phase e)
    (en_phase (snd (tick_spacecraft_phase cf (emit_event cf n) dt e)))"
proof -
  consider "en_phase e = 0" | "en_phase e = 1" | "en_phase e = 2" | "en_phase e = 3" | "4 \<le> en_phase e"
    using assms by linarith
  then show ?thesis
  proof cases
    case 1
    then show ?thesis by (simp add: tick_spacecraft_phase_def phase_simps phase_step.simps)
  next
    case 2
    then show ?thesis by (simp add: tick_spacecraft_phase_def phase_simps phase_step.simps)
  next
    case 3
    then show ?thesis by (simp add: tick_spacecraft_phase_def phase_simps phase_step.simps)
  next
    case 4
    then show ?thesis by (simp add: tick_spacecraft_phase_def phase_simps phase_step.simps)
  next
    case 5
    then show ?thesis by (simp add: tick_spacecraft_phase_def phase_simps phase_step.simps)
  qed
qed

theorem phase_follows_machine_witness:
  "phase_step False False 1 (en_phase (snd (tick_spacecraft_phase bare_config (emit_event bare_config 5)
     (Fin False 1) (bare_engine 1))))"
  using phase_follows_machine [of "bare_engine 1" bare_config 5 "Fin False 1"]
  by (simp add: sw_image_is_def attr_of_def bare_simps)

end
