(* ===== verification/Tm_Emission.thy ===== *)
theory Tm_Emission
  imports Service_Dispatch Tc_Pipeline
begin

text \<open>
  Telemetry sent from the engine's tick (\<open>smo_simulator/engine.py\<close>): periodic housekeeping with its
  gates, the paced release of real-time telemetry and of store dumps, and the hold-down timer of the
  transmitter.
\<close>

section \<open>Periodic housekeeping\<close>

definition BUS_GATED_SIDS :: "int list" where "BUS_GATED_SIDS = [1, 2, 3, 5, 6]"

definition sid_power_owner :: "int \<rightharpoonup> string" where
  "sid_power_owner = map_of [(2, ''aocs_wheels''), (5, ''payload'')]"

definition set_timer :: "int \<Rightarrow> py_float \<Rightarrow> ('m engine, unit) py" where
  "set_timer sid t = modify (\<lambda>e. e\<lparr>en_hk_timers := AList.update sid t (en_hk_timers e)\<rparr>)"

definition timer :: "int \<Rightarrow> 'm engine \<Rightarrow> py_float" where
  "timer sid e = (case map_of (en_hk_timers e) sid of Some t \<Rightarrow> t | None \<Rightarrow> Fin False 0)"

definition send_hk :: "'m config \<Rightarrow> int \<Rightarrow> ('m engine, unit) py" where
  "send_hk cf sid =
     bind_py (\<lambda>e. on_builder (build_hk_packet (cuc_time cf e) sid (en_params e) (cf_hk_structures cf sid)) e)
       (\<lambda>pkt. case pkt of None \<Rightarrow> ret () | Some p \<Rightarrow> seq_py (enqueue_tm cf p) (count_obdh cf ''tm_packet''))"

datatype hk_gate = Skip | Hold | Run

definition hk_gate :: "'m config \<Rightarrow> int \<Rightarrow> bool \<Rightarrow> int \<Rightarrow> 'm engine \<Rightarrow> hk_gate" where
  "hk_gate cf sw_image bus_blocked sid e =
     (if map_of (en_hk_enabled e) sid = Some False then Skip
      else if sw_image = 0 \<and> sid \<noteq> 10 \<and> sid \<noteq> 11 then Skip
      else if bus_blocked \<and> sid \<in> set BUS_GATED_SIDS then Hold
      else (case sid_power_owner sid of
              Some owner \<Rightarrow> if \<not> power_line cf owner True e then Hold else Run
            | None \<Rightarrow> Run))"

definition hk_slot :: "'m config \<Rightarrow> int \<Rightarrow> bool \<Rightarrow> py_float \<Rightarrow> int \<times> py_float \<Rightarrow> ('m engine, unit) py" where
  "hk_slot cf sw_image bus_blocked dt slot = (case slot of (sid, interval) \<Rightarrow>
     bind_py (gets (hk_gate cf sw_image bus_blocked sid)) (\<lambda>g. case g of
         Skip \<Rightarrow> ret ()
       | Hold \<Rightarrow> set_timer sid (Fin False 0)
       | Run \<Rightarrow>
           bind_py (gets (\<lambda>e. fadd (timer sid e) dt)) (\<lambda>t.
           seq_py (set_timer sid t)
             (when_py (fle interval t) (seq_py (set_timer sid (Fin False 0)) (send_hk cf sid))))))"

definition emit_hk_packets :: "'m config \<Rightarrow> py_float \<Rightarrow> ('m engine, unit) py" where
  "emit_hk_packets cf dt =
     bind_py (gets image_param) (\<lambda>r. bind_py (of_result r) (\<lambda>sw_image.
     bind_py (gets (obc_bus_failed cf)) (\<lambda>bus_blocked.
     bind_py (gets en_hk_intervals) (each (hk_slot cf sw_image bus_blocked dt)))))"

section \<open>Pacing\<close>

definition bytes_per_second :: "'m config \<Rightarrow> 'm engine \<Rightarrow> py_float" where
  "bytes_per_second cf e = fmul (cf_rate cf (en_models e)) (Fin False (1 / 8))"

text \<open>Packets leave the head of the queue while the budget covers them.\<close>

fun release :: "py_float \<Rightarrow> bytes list \<Rightarrow> bytes list \<times> bytes list \<times> py_float" where
  "release budget [] = ([], [], budget)"
| "release budget (p # ps) =
     (let n = of_pyint (int (length p)) in
      if fle n budget
      then (case release (fsub budget n) ps of (out, rest, b) \<Rightarrow> (p # out, rest, b))
      else ([], p # ps, budget))"

definition capped :: "bytes list \<Rightarrow> py_float \<Rightarrow> py_float" where
  "capped rest budget = fmin budget (of_pyint (int (length (hd rest))))"

definition tick_rt_emission :: "'m config \<Rightarrow> py_float \<Rightarrow> 'm engine \<Rightarrow> 'm engine" where
  "tick_rt_emission cf dt e =
     (let b = fadd (en_rt_budget e) (fmul (bytes_per_second cf e) (fmax dt (Fin False 0)))
      in case release b (en_rt_pending e) of (out, rest, b') \<Rightarrow>
           (fold put_tm out e)\<lparr>en_rt_pending := rest,
              en_rt_budget := (if rest \<noteq> [] then capped rest b' else fmin b' (bytes_per_second cf e))\<rparr>)"

definition put_quiet :: "bytes \<Rightarrow> 'm engine \<Rightarrow> 'm engine" where
  "put_quiet pkt e =
     (if length (en_tm_queue e) < TM_QUEUE_SIZE then e\<lparr>en_tm_queue := en_tm_queue e @ [pkt]\<rparr> else e)"

definition clear_dumped :: "'m engine \<Rightarrow> 'm engine" where
  "clear_dumped e = e\<lparr>en_storage := fold delete_store (en_dump_active e) (en_storage e), en_dump_active := []\<rparr>"

definition tick_dump_emission :: "'m config \<Rightarrow> py_float \<Rightarrow> 'm engine \<Rightarrow> 'm engine" where
  "tick_dump_emission cf dt e =
     (if en_dump_pending e = [] then e\<lparr>en_dump_budget := Fin False 0\<rparr>
      else
        let b = fadd (en_dump_budget e) (fmul (bytes_per_second cf e) dt)
        in case release b (map fst (en_dump_pending e)) of (out, rest, b') \<Rightarrow>
             let e1 = (if downlink_active e then fold put_quiet out e else e);
                 e2 = e1\<lparr>en_dump_pending := drop (length out) (en_dump_pending e1),
                         en_dump_budget := (if rest \<noteq> [] then capped rest b' else b')\<rparr>
             in if rest = [] then clear_dumped e2 else e2)"

section \<open>The transmitter hold-down\<close>

definition tick_auto_tx_hold :: "'m config \<Rightarrow> py_float \<Rightarrow> 'm engine \<Rightarrow> 'm engine" where
  "tick_auto_tx_hold cf dt e =
     (if fle (en_auto_tx e) (Fin False 0) then e
      else
        let r = fsub (en_auto_tx e) dt
        in if fle r (Fin False 0)
           then (let e' = e\<lparr>en_auto_tx := Fin False 0\<rparr>
                 in if power_line cf ''ttc_tx'' False e'
                    then e'\<lparr>en_models := sy_set_line (cf_sys cf) ''ttc_tx'' False (en_models e')\<rparr> else e')
           else e\<lparr>en_auto_tx := r\<rparr>)"

end
