(* ===== verification/Downlink_Rules.thy ===== *)
theory Downlink_Rules
  imports Outbox Tm_Emission Spacecraft_Phase Bare_Spacecraft
begin

text \<open>
  What periodic telemetry may send and at what pace: housekeeping in the bootloader is the beacon
  alone, the paced release keeps the order and loses nothing silently, and its byte budget stays within
  its bounds.
\<close>

section \<open>Housekeeping reports\<close>

definition report_data :: "bytes \<Rightarrow> bytes" where
  "report_data p = (case decommutate_packet p of Inr (Some d) \<Rightarrow> dp_data_field d | _ \<Rightarrow> [])"

lemma pack_tm_data:
  assumes "pack_tm srv sub d cuc tb = (Inr p, tb')"
  shows "report_data p = d"
proof -
  have "srv \<in> {0..<256} \<and> sub \<in> {0..<256} \<and> cuc \<in> {0..<2 ^ 32} \<and> length d + 7 < 65535"
    using pack_tm_fails [of srv sub cuc d tb] assms by force
  then have "tm_reads (tb_next tb) srv sub cuc d p" using pack_tm_reads [of srv sub cuc d tb] assms by auto
  then have "\<exists>h sh c. decommutate_packet (p @ []) = Inr (Some \<lparr>dp_primary = h, dp_secondary = sh,
      dp_data_field = d, dp_crc = c, dp_crc_valid = True, dp_raw = p\<rparr>)"
    unfolding tm_reads_def by blast
  then show ?thesis by (auto simp: report_data_def)
qed

text \<open>A housekeeping report of the structure \<open>sid\<close>, as the ground reads it.\<close>

definition is_hk_of :: "int \<Rightarrow> bytes \<Rightarrow> bool" where
  "is_hk_of sid p \<longleftrightarrow> report_kind p = Some (3, 25) \<and> hr_sid (parse_housekeeping (report_data p)) = sid"

lemma build_hk_is_hk:
  assumes "build_hk_packet now sid ps fs tb = (Inr (Some p), tb')"
  shows "is_hk_of sid p"
proof -
  obtain a b t where ab: "pack_be 2 sid = Inr a" "pack_tm 3 25 (a @ b) now t = (Inr p, tb')"
    using assms
    by (auto simp: build_hk_packet_def bind_py_def of_result_def ret_def split: option.splits prod.splits sum.splits)
  then show ?thesis
    using pack_tm_kind [OF ab(2)] pack_tm_data [OF ab(2)] pack_be_roundtrip [OF ab(1)]
    by (simp add: is_hk_of_def parse_housekeeping_def)
qed

interpretation sn: py_frame "sends cf P" for cf P
  by unfold_locales (auto intro: sends_refl sends_trans)

lemma sends_enqueue: "P p \<Longrightarrow> rel_py (sends cf P) (enqueue_tm cf p)"
proof -
  assume p: "P p"
  have "sends cf P e (downlink_tm cf p e)" for e
    using downlink_sends [of e cf p] p by (auto simp: sends_def)
  then have "rel_py (sends cf P) (modify (downlink_tm cf p))" by (intro sn.rel_modify)
  moreover have "rel_py (sends cf P) (file_packet k p)" for k
    unfolding rel_py_def file_packet_def by (auto simp: sends_def outbox_def within_limits_def split: sum.splits)
  ultimately show ?thesis unfolding enqueue_tm_def by (intro sn.frame_rules)
qed

lemma sends_silent:
  assumes "\<And>e. en_tm_queue (f e) = en_tm_queue e" "\<And>e. en_rt_pending (f e) = en_rt_pending e"
    "\<And>e. en_event_queue (f e) = en_event_queue e"
  shows "rel_py (sends cf P) (modify f)"
  by (rule sn.rel_modify) (simp add: sends_def outbox_def within_limits_def assms)

lemma sends_hk: "rel_py (sends cf (is_hk_of sid)) (send_hk cf sid)"
  unfolding rel_py_def
proof
  fix e
  obtain r tb where b: "build_hk_packet (cuc_time cf e) sid (en_params e) (cf_hk_structures cf sid) (en_builder e) = (r, tb)"
    by (cases "build_hk_packet (cuc_time cf e) sid (en_params e) (cf_hk_structures cf sid) (en_builder e)")
  let ?e = "e\<lparr>en_builder := tb\<rparr>"
  have s: "sends cf P e ?e" for P :: "bytes \<Rightarrow> bool" by (simp add: sends_def outbox_def within_limits_def)
  have "sends cf (is_hk_of sid) ?e (snd (seq_py (enqueue_tm cf p) (count_obdh cf ''tm_packet'') ?e))"
    if "r = Inr (Some p)" for p
  proof -
    have "rel_py (sends cf (is_hk_of sid)) (seq_py (enqueue_tm cf p) (count_obdh cf ''tm_packet''))"
      unfolding count_obdh_def using build_hk_is_hk b that
      by (intro sn.frame_rules sends_enqueue sends_silent) auto
    then show ?thesis by (simp add: rel_py_def)
  qed
  then show "sends cf (is_hk_of sid) e (snd (send_hk cf sid e))"
    unfolding send_hk_def bind_py_def zoom_def using b s sends_trans [OF s]
    by (auto simp: ret_def split: sum.split option.split)
qed

section \<open>The beacon\<close>

definition is_beacon :: "bytes \<Rightarrow> bool" where
  "is_beacon p \<longleftrightarrow> is_hk_of 10 p \<or> is_hk_of 11 p"

lemma sends_mono: "rel_py (sends cf P) m \<Longrightarrow> (\<And>p. P p \<Longrightarrow> Q p) \<Longrightarrow> rel_py (sends cf Q) m"
  unfolding rel_py_def sends_def list_all_iff by blast

lemma slot_beacon: "rel_py (sends cf is_beacon) (hk_slot cf 0 bus dt slot)"
proof (cases "fst slot = 10 \<or> fst slot = 11")
  case True
  then have "rel_py (sends cf is_beacon) (send_hk cf (fst slot))"
    by (auto intro!: sends_mono [OF sends_hk] simp: is_beacon_def)
  then show ?thesis
    unfolding hk_slot_def set_timer_def
    by (cases slot) (auto intro!: sn.frame_rules sends_silent split: hk_gate.split)
next
  case False
  then have "hk_gate cf 0 bus (fst slot) e = Skip" for e by (simp add: hk_gate_def)
  then show ?thesis
    by (cases slot) (simp add: hk_slot_def rel_py_def ret_def sends_refl)
qed

text \<open>
  C13: While the on-board computer runs the bootloader, periodic housekeeping puts nothing on the downlink
  but beacon packets: housekeeping reports, well-formed for the ground, of the structures 10 and 11.
\<close>
theorem bootloader_sends_beacon_only:
  assumes "image_param e = Inr 0"
  shows "\<exists>ps. outbox cf (snd (emit_hk_packets cf dt e)) = outbox cf e @ ps \<and> list_all is_beacon ps"
proof -
  have "rel_py (sends cf is_beacon) (each (hk_slot cf 0 b dt) slots)" for b slots
    by (intro sn.rel_each slot_beacon)
  then have "sends cf is_beacon e (snd (emit_hk_packets cf dt e))"
    using assms by (simp add: emit_hk_packets_def rel_py_def)
  then show ?thesis by (simp add: sends_def)
qed

theorem bootloader_sends_beacon_only_witness:
  "\<exists>ps. outbox bare_config (snd (emit_hk_packets bare_config (Fin False 1) (enter_bootloader_mode bare_config (bare_engine 4)))) =
     outbox bare_config (enter_bootloader_mode bare_config (bare_engine 4)) @ ps \<and> list_all is_beacon ps"
  by (rule bootloader_sends_beacon_only)
    (simp add: image_param_def enter_bootloader_mode_def Let_def trunc_float_def fin_val_def)

section \<open>Pacing\<close>

lemma release_order: "release b ps = (out, rest, b') \<Longrightarrow> ps = out @ rest"
  by (induction ps arbitrary: b out rest b') (auto simp: Let_def split: if_splits prod.splits)

lemma release_budget:
  assumes "release b ps = (out, rest, b')" "nonneg b" "list_all (\<lambda>p. length p < 2 ^ 53) ps"
  shows "nonneg b'"
  using assms
proof (induction ps arbitrary: b out)
  case (Cons p ps)
  have n: "of_pyint (int (length p)) = Fin False (of_nat (length p))"
    using of_pyint_exact [of "int (length p)"] Cons.prems(3) by (simp add: of_nat_less_iff [of _ "2 ^ 53", simplified])
  show ?case
  proof (cases "fle (of_pyint (int (length p))) b")
    case True
    then obtain out' where "release (fsub b (of_pyint (int (length p)))) ps = (out', rest, b')"
      using Cons.prems(1) by (auto split: prod.splits)
    moreover have "nonneg (fsub b (of_pyint (int (length p))))"
      using True unfolding n by (intro nonneg_fsub) (simp_all add: nonneg_Fin fin_val_def)
    ultimately show ?thesis using Cons.IH Cons.prems(3) by simp
  next
    case False
    then show ?thesis using Cons.prems by simp
  qed
qed simp

lemma fold_put_tm:
  "en_tm_queue (fold put_tm ps e) = en_tm_queue e @ take (TM_QUEUE_SIZE - length (en_tm_queue e)) ps"
  "en_tm_drops (fold put_tm ps e) = en_tm_drops e + (length ps - (TM_QUEUE_SIZE - length (en_tm_queue e)))"
  by (induction ps arbitrary: e) (auto simp: put_tm_def Suc_diff_le take_Cons' diff_Suc split: nat.split)

text \<open>
  C12: The pacing of real-time telemetry keeps the order and loses nothing silently: a tick moves a prefix
  of the backlog to the downlink queue, in order; what does not fit there is counted as dropped.
\<close>
theorem pacing_keeps_order:
  "\<exists>out. en_rt_pending e = out @ en_rt_pending (tick_rt_emission cf dt e) \<and>
     en_tm_queue (tick_rt_emission cf dt e) =
       en_tm_queue e @ take (TM_QUEUE_SIZE - length (en_tm_queue e)) out \<and>
     en_tm_drops (tick_rt_emission cf dt e) =
       en_tm_drops e + (length out - (TM_QUEUE_SIZE - length (en_tm_queue e)))"
proof -
  obtain out rest b where r: "release (fadd (en_rt_budget e) (fmul (bytes_per_second cf e) (fmax dt (Fin False 0))))
      (en_rt_pending e) = (out, rest, b)"
    by (metis prod_cases3)
  then have "\<exists>b. tick_rt_emission cf dt e = (fold put_tm out e)\<lparr>en_rt_pending := rest, en_rt_budget := b\<rparr>"
    unfolding tick_rt_emission_def by (simp only: Let_def r prod.case) blast
  then show ?thesis
    using release_order [OF r] by (intro exI [of _ out]) (auto simp: fold_put_tm)
qed

text \<open>
  C11: The byte budget of the pacing stays within bounds: it is never negative, and after a tick it is at
  most the next packet's length, or, with an empty backlog, at most one second's worth of octets, so that
  an idle link never earns a burst.
\<close>
theorem pacing_budget_bounded:
  assumes "nonneg (en_rt_budget e)" "cf_rate cf (en_models e) = Fin False r" "0 \<le> r" "r < 2 ^ 1000" "0 \<le> d"
    "list_all (\<lambda>p. length p < 2 ^ 53) (en_rt_pending e)"
  shows "nonneg (en_rt_budget (tick_rt_emission cf (Fin False d) e)) \<and>
    fle (en_rt_budget (tick_rt_emission cf (Fin False d) e))
      (case en_rt_pending (tick_rt_emission cf (Fin False d) e) of
         [] \<Rightarrow> bytes_per_second cf e | p # _ \<Rightarrow> of_pyint (int (length p)))"
proof -
  obtain v where v: "bytes_per_second cf e = Fin False v" "0 \<le> v"
    using round64_finite [of "r / 8" False] assms(2-4) by (auto simp: bytes_per_second_def)
  let ?b = "fadd (en_rt_budget e) (fmul (Fin False v) (fmax (Fin False d) (Fin False 0)))"
  have "nonneg ?b"
    using assms(1,5) v(2) by (intro nonneg_fadd) (simp_all add: fmax_def fin_val_def nonneg_round64)
  moreover obtain out rest b where r: "release ?b (en_rt_pending e) = (out, rest, b)" by (metis prod_cases3)
  ultimately have b: "nonneg b" using release_budget assms(6) by blast
  have "list_all (\<lambda>p. length p < 2 ^ 53) rest" using release_order [OF r] assms(6) by simp
  then have "nonneg (of_pyint (int (length (hd rest))))" if "rest \<noteq> []"
    using that by (simp add: of_pyint_def nonneg_fl)
  moreover have "nonneg (Fin False v)" using v(2) by (simp add: nonneg_Fin fin_val_def)
  ultimately show ?thesis
    using fmin_le [OF b] v by (cases rest) (simp_all add: tick_rt_emission_def r capped_def)
qed

definition paced_engine :: "unit engine" where
  "paced_engine = (bare_engine 4)\<lparr>en_rt_pending := [[1, 2, 3], [4]], en_rt_budget := Fin False 2\<rparr>"

theorem pacing_budget_bounded_witness:
  "nonneg (en_rt_budget (tick_rt_emission bare_config (Fin False 1) paced_engine)) \<and>
   fle (en_rt_budget (tick_rt_emission bare_config (Fin False 1) paced_engine))
     (case en_rt_pending (tick_rt_emission bare_config (Fin False 1) paced_engine) of
        [] \<Rightarrow> bytes_per_second bare_config paced_engine | p # _ \<Rightarrow> of_pyint (int (length p)))"
  by (rule pacing_budget_bounded [where r = 64000]) (simp_all add: paced_engine_def bare_simps nonneg_Fin fin_val_def)

end
