(* ===== verification/Ground_Readback.thy ===== *)
theory Ground_Readback
  imports Downlink_Rules
begin

text \<open>
  The ground reads back what the spacecraft reports: the refusal of a telecommand, through the
  packet builder, the packet format and the parsers of the ground.
\<close>

section \<open>The request\<close>

lemma request_id_value: "request_id ap sq = ap mod 2048 * 16384 + sq mod 16384"
  using or_shift_add [of "sq mod 16384" 14 "ap mod 2048"]
  by (simp add: request_id_def and_masks push_bit_eq_mult)

lemma request_parts:
  "request_id ap sq div 2 ^ 14 AND 0x7FF = ap mod 2048" "request_id ap sq AND 0x3FFF = sq mod 16384"
  "0 \<le> request_id ap sq" "request_id ap sq < 256 ^ 4"
proof -
  have "0 \<le> ap mod 2048" "ap mod 2048 < 2048" "0 \<le> sq mod 16384" "sq mod 16384 < 16384" by simp_all
  then show "0 \<le> request_id ap sq" "request_id ap sq < 256 ^ 4"
    unfolding request_id_value by simp_all
  show "request_id ap sq div 2 ^ 14 AND 0x7FF = ap mod 2048" "request_id ap sq AND 0x3FFF = sq mod 16384"
    unfolding request_id_value by (simp_all add: and_masks)
qed

section \<open>The reason\<close>

lemma encoded_empty:
  assumes "list_all is_scalar t"
  shows "utf8_encode t = [] \<longleftrightarrow> t = []"
proof
  assume "utf8_encode t = []"
  then have "t = utf8_decode_replace []" using decode_encode_utf8 [OF assms] by simp
  then show "t = []" by (simp add: utf8_decode_replace_def)
qed (simp add: utf8_encode_def)

lemma counted_reason:
  assumes "list_all is_scalar t" "length (utf8_encode t) \<le> 160" "length h = n"
  shows "decode_failure_reason (h @ (if utf8_encode t = [] then [] else word_of_nat (length (utf8_encode t)) # utf8_encode t)) n = t"
proof -
  have "unat (word_of_nat (length (utf8_encode t)) :: byte) = length (utf8_encode t)"
    using assms by (intro unat_byte) simp
  then show ?thesis
    using assms decode_encode_utf8 [OF assms(1)] encoded_empty [OF assms(1)]
    by (simp add: decode_failure_reason_def pyslice_def Let_def nth_append)
qed

text \<open>The text the ground shows for a reason: the whole reason when its UTF-8 form fits.\<close>

definition shown_reason :: "pytext \<Rightarrow> pytext" where
  "shown_reason t =
     (if length (utf8_encode t) \<le> FAILURE_REASON_MAX_BYTES then t
      else utf8_decode_replace (utf8_trim (take FAILURE_REASON_MAX_BYTES (utf8_encode t))))"

lemma shown_prefix: "list_all is_scalar t \<Longrightarrow> \<exists>k. shown_reason t = take k t"
proof -
  assume t: "list_all is_scalar t"
  obtain k where "utf8_trim (take 160 (utf8_encode t)) = utf8_encode (take k t)" using trimmed_text [OF t] by blast
  moreover have "list_all is_scalar (take k t)" using t by (auto simp: list_all_iff dest: in_set_takeD)
  ultimately show ?thesis
    by (auto simp: shown_reason_def FAILURE_REASON_MAX_BYTES_def decode_encode_utf8 intro: exI [of _ "length t"])
qed

lemma reason_roundtrip:
  assumes "list_all is_scalar t" "length h = n"
  shows "decode_failure_reason (h @ encode_failure_reason t) n = shown_reason t"
proof (cases "length (utf8_encode t) \<le> 160")
  case True
  then show ?thesis
    using counted_reason [OF assms(1) True assms(2)] encoded_empty [OF assms(1)]
    by (auto simp: encode_failure_reason_def shown_reason_def FAILURE_REASON_MAX_BYTES_def Let_def)
next
  case False
  obtain k where k: "utf8_trim (take 160 (utf8_encode t)) = utf8_encode (take k t)"
    using trimmed_text [OF assms(1)] by blast
  have s: "list_all is_scalar (take k t)" using assms(1) by (auto simp: list_all_iff dest: in_set_takeD)
  obtain m where "utf8_encode (take k t) = take m (take 160 (utf8_encode t))"
    using utf8_trim_take k by metis
  then have "length (utf8_encode (take k t)) \<le> 160" by simp
  moreover have "t \<noteq> []" using False by (auto simp: utf8_encode_def)
  ultimately show ?thesis
    using counted_reason [OF s _ assms(2)] False decode_encode_utf8 [OF s]
    by (auto simp: encode_failure_reason_def shown_reason_def FAILURE_REASON_MAX_BYTES_def Let_def k)
qed

lemma reason_length: "length (encode_failure_reason t) \<le> 161"
proof -
  have "length (utf8_trim (take 160 raw)) \<le> 160" for raw
  proof -
    obtain m where "utf8_trim (take 160 raw) = take m (take 160 raw)" using utf8_trim_take by blast
    then show ?thesis by simp
  qed
  then show ?thesis by (simp add: encode_failure_reason_def FAILURE_REASON_MAX_BYTES_def Let_def)
qed

text \<open>
  A refusal reaches the ground: for every telecommand, error code and reason the builder does produce
  an S1.2 report, the ground accepts it, and its parser recovers the APID and the sequence count of the
  telecommand, the error code and the reason, whole when its UTF-8 form fits the report and otherwise cut
  to a prefix of whole characters.
\<close>
theorem refusal_read_back:
  assumes "0 \<le> code" "code < 65536" "list_all is_scalar reason"
  shows "\<exists>p tb' k. build_verification_failure ap sq code reason tb = (Inr p, tb') \<and> report_kind p = Some (1, 2) \<and>
     parse_service_data 1 2 (report_data p) = Some (Verification
       \<lparr>vd_request_id = request_id ap sq, vd_tc_apid = ap mod 2048, vd_tc_seq = sq mod 16384,
        vd_error_code = code,
        vd_reason = (if length (utf8_encode reason) \<le> 160 then reason else take k reason)\<rparr>)"
proof -
  let ?d = "be_bytes 4 (request_id ap sq) @ be_bytes 2 code @ encode_failure_reason reason"
  have len: "length ?d \<le> 167" using reason_length [of reason] by (simp del: be_bytes.simps)
  have d: "failure_data ap sq code reason = Inr ?d"
    using assms request_parts(3,4) [of ap sq] by (simp add: failure_data_def del: be_bytes.simps)
  obtain p where p: "pack_tm 1 2 ?d 0 tb = (Inr p, tb_next tb)"
    using pack_tm_reads [of 1 2 0 ?d tb] len by (auto simp del: be_bytes.simps)
  have "parse_verification ?d 2 = \<lparr>vd_request_id = request_id ap sq, vd_tc_apid = ap mod 2048,
      vd_tc_seq = sq mod 16384, vd_error_code = code, vd_reason = shown_reason reason\<rparr>"
    using assms request_parts [of ap sq] reason_roundtrip [OF assms(3), of "be_bytes 4 (request_id ap sq) @ be_bytes 2 code" 6]
    by (simp add: parse_verification_def Let_def be_int_be_bytes pyslice_def del: be_bytes.simps)
  moreover obtain k where "shown_reason reason = (if length (utf8_encode reason) \<le> 160 then reason else take k reason)"
    using shown_prefix [OF assms(3)]
    by (cases "length (utf8_encode reason) \<le> 160") (auto simp: shown_reason_def FAILURE_REASON_MAX_BYTES_def)
  ultimately show ?thesis
    using d p pack_tm_kind [OF p] pack_tm_data [OF p]
    by (auto simp: build_verification_failure_def parse_service_data_def simp del: be_bytes.simps)
qed

theorem refusal_read_back_witness:
  "\<exists>p tb' k. build_verification_failure 1 7 4 (py ''bus off'' @ [0x2014]) \<lparr>tb_apid = 1, tb_seq_count = 0\<rparr> = (Inr p, tb') \<and>
     report_kind p = Some (1, 2) \<and>
     parse_service_data 1 2 (report_data p) = Some (Verification
       \<lparr>vd_request_id = request_id 1 7, vd_tc_apid = 1 mod 2048, vd_tc_seq = 7 mod 16384, vd_error_code = 4,
        vd_reason = (if length (utf8_encode (py ''bus off'' @ [0x2014])) \<le> 160 then py ''bus off'' @ [0x2014]
                     else take k (py ''bus off'' @ [0x2014]))\<rparr>)"
  by (rule refusal_read_back) (simp_all add: py_def is_scalar_def)

end
