(* ===== verification/Monitor_Rules.thy ===== *)
theory Monitor_Rules
  imports Event_Reports Monitoring Bare_Spacecraft
begin

text \<open>
  On-board monitoring reports transitions, not states: a violation is announced by one transition report
  and one event when it appears and by one report and one event when it is gone. The events go through
  \<open>emit_event\<close>; the theorem fixes the event queue, the reports on the downlink and the set of
  active violations after a tick.
\<close>

section \<open>The limit check\<close>

definition unchanged :: "'m engine \<Rightarrow> 'm engine \<Rightarrow> bool" where
  "unchanged e e' \<longleftrightarrow> en_params e' = en_params e \<and> en_models e' = en_models e \<and> en_storage e' = en_storage e \<and>
     ds_s19 (en_disp e') = ds_s19 (en_disp e) \<and> ds_s19_enabled (en_disp e') = ds_s19_enabled (en_disp e) \<and>
     en_violation_active e' = en_violation_active e \<and> en_violation_records e' = en_violation_records e \<and>
     en_override_passes e' = en_override_passes e \<and> en_in_contact e' = en_in_contact e \<and>
     en_event_queue e' = en_event_queue e \<and> en_tm_queue e' = en_tm_queue e \<and> en_rt_pending e' = en_rt_pending e"

interpretation un: py_frame unchanged
  by unfold_locales (simp_all add: unchanged_def)

lemma unchanged_last: "rel_py unchanged (set_last i d v)"
  unfolding set_last_def by (rule un.rel_modify) (simp add: unchanged_def)

lemma unchanged_check_one: "rel_py unchanged (check_one cf p)"
  unfolding check_one_def by (intro un.frame_rules unchanged_last)

lemma unchanged_check_all: "rel_py unchanged (check_all cf ps)"
  by (induction ps) (simp_all only: check_all.simps, intro un.frame_rules, intro un.frame_rules unchanged_check_one)

lemma unchanged_check: "rel_py unchanged (check_monitoring cf)"
  unfolding check_monitoring_def by (intro un.frame_rules unchanged_check_all)

lemma unchanged_facts:
  assumes "unchanged e e'"
  shows "ready cf e' = ready cf e" "announces e' v = announces e v" "watched t e' = watched t e"
    "taken cf e' ks = taken cf e ks" "outbox cf e' = outbox cf e" "en_event_queue e' = en_event_queue e"
    "en_violation_active e' = en_violation_active e" "en_violation_records e' = en_violation_records e"
proof -
  have q: "en_params e' = en_params e" "en_models e' = en_models e" "en_storage e' = en_storage e"
    "ds_s19 (en_disp e') = ds_s19 (en_disp e)" "ds_s19_enabled (en_disp e') = ds_s19_enabled (en_disp e)"
    "en_in_contact e' = en_in_contact e" "en_override_passes e' = en_override_passes e"
    "en_tm_queue e' = en_tm_queue e" "en_rt_pending e' = en_rt_pending e"
    using assms by (simp_all add: unchanged_def)
  have "image_param e' = image_param e" "cuc_time cf e' = cuc_time cf e"
    using q by (simp_all add: image_param_def cuc_time_def)
  then show "ready cf e' = ready cf e" using q by (simp add: ready_def)
  show "announces e' v = announces e v" using assms by (simp add: unchanged_def announces_def)
  show "watched t e' = watched t e" using q by (simp add: watched_def rule_matches_def)
  show out: "outbox cf e' = outbox cf e" using q by (simp add: outbox_def)
  have "downlink_active e' = downlink_active e" using q by (simp add: downlink_active_def)
  then show "taken cf e' ks = taken cf e ks" using out by (simp add: taken_def)
qed (use assms in \<open>simp_all add: unchanged_def\<close>)

text \<open>The severities of the violations found.\<close>

definition graded :: "violation option \<Rightarrow> bool" where
  "graded r \<longleftrightarrow> (case r of None \<Rightarrow> True | Some v \<Rightarrow> vi_severity v \<in> {1..4})"

lemma graded_violation: "graded (violation_of i d v)"
proof -
  have "severity_map s \<in> {1..4}" for s
    by (auto simp: severity_map_def split: option.split dest: map_of_SomeD)
  then show ?thesis by (auto simp: graded_def violation_of_def split: option.splits)
qed

lemma check_one_severity: "ends (\<lambda>r _. graded r) (check_one cf p)"
proof -
  have "graded None" by (simp add: graded_def)
  then show ?thesis
    unfolding check_one_def by (intro ends_rules ends_ret graded_violation)
qed

lemma check_all_severity: "ends (\<lambda>vs _. \<forall>v \<in> set vs. vi_severity v \<in> {1..4}) (check_all cf ps)"
proof (induction ps)
  case Nil
  then show ?case by (simp add: ends_ret)
next
  case (Cons p ps)
  show ?case
    unfolding ends_def check_all.simps
  proof (intro allI impI)
    fix s vs s'
    assume "bind_py (check_one cf p) (\<lambda>v. bind_py (check_all cf ps) (\<lambda>vs. ret (case v of None \<Rightarrow> vs | Some x \<Rightarrow> x # vs))) s = (Inr vs, s')"
    then obtain r t ws where "check_one cf p s = (Inr r, t)" "check_all cf ps t = (Inr ws, s')"
      "vs = (case r of None \<Rightarrow> ws | Some x \<Rightarrow> x # ws)"
      by (auto simp: bind_returns ret_def)
    then show "\<forall>v \<in> set vs. vi_severity v \<in> {1..4}"
      using endsD [OF check_one_severity, of cf p s r t] endsD [OF Cons.IH, of t ws s'] 
      by (auto simp: graded_def split: option.splits)
  qed
qed

lemma found_severity: "check_monitoring cf e = (Inr vs, e') \<Longrightarrow> v \<in> set vs \<Longrightarrow> vi_severity v \<in> {1..4}"
  using endsD [OF check_all_severity]
  by (fastforce simp: check_monitoring_def bind_returns gets_def ret_def split: if_splits)

section \<open>Transitions\<close>

text \<open>The numbers of a transition report fit single precision.\<close>

definition packable :: "violation \<Rightarrow> bool" where
  "packable v \<longleftrightarrow> \<not> isl (pack_f (or_zero (vi_value v))) \<and> \<not> isl (pack_fs [vi_low v, vi_high v])"

lemma pack_f_four: "pack_f x = Inr b \<Longrightarrow> length b = 4"
  by (auto simp: pack_f_def Let_def split: py_float.splits if_splits simp del: be_bytes.simps)

lemma transition_builds:
  defines "b v entered tb \<equiv> build_s12_transition_report v entered tb"
  shows "if packable v then \<exists>p tb'. b v entered tb = (Inr p, tb') \<and> report_kind p = Some (12, if entered then 9 else 10)
    else \<exists>err. b v entered tb = (Inl err, tb)"
proof (cases "packable v")
  case True
  then obtain x ls where x: "pack_f (or_zero (vi_value v)) = Inr x" and ls: "pack_fs [vi_low v, vi_high v] = Inr ls"
    unfolding packable_def by (metis sum.collapse(2))
  have "length ls = 8"
    using ls by (cases "pack_f (vi_low v)"; cases "pack_f (vi_high v)") (auto dest!: pack_f_four)
  then obtain p tb' where "b v entered tb = (Inr p, tb')"
    using x ls pack_f_four [OF x] pack_tm_reads [of 12 "if entered then 9 else 10" 0 _ tb]
    unfolding b_def build_s12_transition_report_def by (force simp del: be_bytes.simps pack_fs.simps)
  moreover from this have "report_kind p = Some (12, if entered then 9 else 10)"
    unfolding b_def build_s12_transition_report_def x ls by (auto dest!: pack_tm_kind simp del: be_bytes.simps)
  ultimately show ?thesis using True by simp
next
  case False
  then consider err where "pack_f (or_zero (vi_value v)) = Inl err"
    | x err where "pack_f (or_zero (vi_value v)) = Inr x" "pack_fs [vi_low v, vi_high v] = Inl err"
    unfolding packable_def by (metis isl_def sum.collapse(2))
  then show ?thesis using False
    by cases (simp_all add: b_def build_s12_transition_report_def del: pack_fs.simps)
qed

definition transition_reports :: "violation \<Rightarrow> bool \<Rightarrow> (int \<times> int) list" where
  "transition_reports v entered = (if packable v then [(12, if entered then 9 else 10)] else [])"

lemma runs_transition:
  assumes "ready cf e"
  shows "runs cf e (emit_s12_transition cf v entered) [] (transition_reports v entered)"
proof -
  have silent: "logged cf e [] [] (e\<lparr>en_builder := tb\<rparr>)" for tb
    using assms by (intro logged_silent) (simp_all add: held_def outbox_def ready_def)
  show ?thesis
  proof (cases "packable v")
    case True
    then obtain p tb where b: "build_s12_transition_report v entered (en_builder e) = (Inr p, tb)"
      "report_kind p = Some (12, if entered then 9 else 10)"
      using transition_builds [of v entered "en_builder e"] by auto
    have "ready cf (e\<lparr>en_builder := tb\<rparr>)" using silent by (simp add: logged_def)
    from runs_enqueue [OF this b(2)] show ?thesis
      using b(1) True logged_trans [OF silent, of tb "[]" "[(12, if entered then 9 else 10)]"]
      by (auto simp: runs_def emit_s12_transition_def transition_reports_def bind_py_def catch_def zoom_def ret_def)
  next
    case False
    then obtain err where "build_s12_transition_report v entered (en_builder e) = (Inl err, en_builder e)"
      using transition_builds [of v entered "en_builder e"] by auto
    then show ?thesis
      using silent [of "en_builder e"] False
      by (simp add: runs_def emit_s12_transition_def transition_reports_def bind_py_def catch_def zoom_def ret_def)
  qed
qed

section \<open>Announcements\<close>

lemma event_id_range:
  fixes n :: int
  assumes "0 \<le> k" "k < 2 ^ 16"
  shows "k OR (n AND 0x0FFF) \<in> {0..<2 ^ 16}"
proof -
  have "0 \<le> n AND 0x0FFF" "n AND 0x0FFF \<le> 0x0FFF" by (simp_all add: AND_upper2')
  then show ?thesis using assms OR_upper [of k 16 "n AND 0x0FFF"] by (simp add: or_nonnegative_int_iff)
qed

definition alarm_reports :: "violation \<Rightarrow> (int \<times> int) list" where
  "alarm_reports v = transition_reports v True @ [(5, vi_severity v)]"

definition cleared_reports :: "'m engine \<Rightarrow> int \<Rightarrow> (int \<times> int) list" where
  "cleared_reports e i =
     (case map_of (en_violation_records e) i of None \<Rightarrow> [] | Some v \<Rightarrow> transition_reports v False) @ [(5, 1)]"

lemma runs_announce:
  assumes "ready cf e" "vi_severity v \<in> {1..4}" "announces e v \<Longrightarrow> \<not> watched (event_trigger (violation_event v)) e"
  shows "runs cf e (announce cf (emit_event cf (Suc n)) v)
    (if announces e v then [violation_event v] else []) (if announces e v then alarm_reports v else [])"
proof (cases "announces e v")
  case True
  have "ev_id (violation_event v) \<in> {0..<2 ^ 16}"
    unfolding violation_event_def event.simps by (rule event_id_range) simp_all
  moreover have sev: "severity_level (ev_severity (violation_event v)) = vi_severity v"
    by (simp add: violation_event_def severity_level_def)
  moreover have "vi_severity v \<in> {0..<2 ^ 8}" using assms(2) by auto
  moreover have "\<not> watched (event_trigger (violation_event v)) t"
    if "logged cf e [] (transition_reports v True) t" for t
    using that assms(3) True held_facts(4) [of e t] by (simp add: logged_def)
  ultimately have "runs cf t (emit_event cf (Suc n) (violation_event v)) [violation_event v] [(5, vi_severity v)]"
    if "logged cf e [] (transition_reports v True) t" for t
    using that runs_emit [of cf t "violation_event v" n] unfolding logged_def [of cf e] sev by blast
  from runs_seq [OF runs_transition [OF assms(1), of v True] this] show ?thesis
    using True by (simp add: runs_def announce_def when_py_def alarm_reports_def del: emit_event.simps)
qed (simp add: announce_def when_py_def runs_ret [OF assms(1)] runs_def ret_def logged_refl [OF assms(1)])

lemma runs_cleared:
  assumes "ready cf e" "\<not> watched (event_trigger (cleared_event i)) e"
  shows "runs cf e (announce_cleared cf (emit_event cf (Suc n)) i) [cleared_event i] (cleared_reports e i)"
proof -
  let ?e = "e\<lparr>en_violation_records := AList.delete i (en_violation_records e)\<rparr>"
  define report where "report = (case map_of (en_violation_records e) i of None \<Rightarrow> ret () | Some v \<Rightarrow> emit_s12_transition cf v False)"
  define ks where "ks = (case map_of (en_violation_records e) i of None \<Rightarrow> [] | Some v \<Rightarrow> transition_reports v False)"
  have l: "logged cf e [] [] ?e"
    using assms(1) by (intro logged_silent) (simp_all add: held_def outbox_def ready_def)
  then have r: "ready cf ?e" by (simp add: logged_def)
  have "runs cf ?e report [] ks"
    using runs_ret [OF r] runs_transition [OF r] by (simp add: report_def ks_def split: option.split)
  moreover have "runs cf t (emit_event cf (Suc n) (cleared_event i)) [cleared_event i] [(5, 1)]"
    if "logged cf ?e [] ks t" for t
  proof -
    have t: "ready cf t" "held ?e t" using that by (simp_all add: logged_def)
    have "ev_id (cleared_event i) \<in> {0..<2 ^ 16}"
      unfolding cleared_event_def event.simps by (rule event_id_range) simp_all
    moreover have "severity_level (ev_severity (cleared_event i)) = 1"
      by (simp add: cleared_event_def severity_level_def)
    moreover have "\<not> watched (event_trigger (cleared_event i)) t"
      using assms(2) held_facts(4) [OF t(2)] by (simp add: watched_def rule_matches_def)
    ultimately show ?thesis using runs_emit [OF t(1), of "cleared_event i" n] by simp
  qed
  ultimately have "runs cf ?e (seq_py report (emit_event cf (Suc n) (cleared_event i))) ([] @ [cleared_event i]) (ks @ [(5, 1)])"
    by (rule runs_seq)
  then show ?thesis
    using logged_trans [OF l]
    by (simp add: runs_def announce_cleared_def report_def ks_def cleared_reports_def del: emit_event.simps)
qed


section \<open>One tick\<close>

text \<open>What a tick announces: the violations that are new, and the active ones that are gone.\<close>

definition gone :: "'m config \<Rightarrow> violation list \<Rightarrow> 'm engine \<Rightarrow> int list" where
  "gone cf vs e = cf_order cf (en_violation_active e - set (map vi_mon_id vs))"

definition alarm_events :: "'m config \<Rightarrow> violation list \<Rightarrow> 'm engine \<Rightarrow> event list" where
  "alarm_events cf vs e = map violation_event (filter (announces e) vs) @ map cleared_event (gone cf vs e)"

definition alarm_telemetry :: "'m config \<Rightarrow> violation list \<Rightarrow> 'm engine \<Rightarrow> (int \<times> int) list" where
  "alarm_telemetry cf vs e =
     concat (map alarm_reports (filter (announces e) vs)) @ concat (map (cleared_reports e) (gone cf vs e))"

lemma concat_if: "concat (map (\<lambda>x. if P x then f x else []) xs) = concat (map f (filter P xs))"
  by (induction xs) simp_all

lemma record_absent: "map_of (en_violation_records (record_violations vs e)) i = map_of (en_violation_records e) i"
  if "i \<notin> set (map vi_mon_id vs)"
proof -
  have "map_of (foldl (\<lambda>rs v. AList.update (vi_mon_id v) v rs) rs vs) i = map_of rs i" for rs
    using that by (induction vs arbitrary: rs) (auto simp: update_conv')
  then show ?thesis by (simp add: record_violations_def)
qed

lemma kept_transition: "rel_py kept (emit_s12_transition cf v entered)"
proof -
  have "rel_py (\<lambda>tb tb'. tb_apid tb' = tb_apid tb) (build_s12_transition_report v entered)"
    unfolding build_s12_transition_report_def by (intro apid.frame_rules apid_pack_tm)
  then show ?thesis
    unfolding emit_s12_transition_def by (intro kept_quiet qt.frame_rules quiet_builder quiet_enqueue)
qed

lemma kept_announce: "rel_py kept (announce cf (emit_event cf n) v)"
  unfolding announce_def by (intro kp.frame_rules kept_transition kept_evt [OF ev_emit_event])

lemma cleared_records:
  assumes "j \<noteq> i"
  shows "map_of (en_violation_records (snd (announce_cleared cf (emit_event cf n) i e))) j = map_of (en_violation_records e) j"
proof -
  let ?e = "e\<lparr>en_violation_records := AList.delete i (en_violation_records e)\<rparr>"
  define rest where "rest = seq_py (case map_of (en_violation_records e) i of None \<Rightarrow> ret () | Some v \<Rightarrow> emit_s12_transition cf v False)
    (emit_event cf n (cleared_event i))"
  have "rel_py kept rest"
    unfolding rest_def by (intro kp.frame_rules kept_transition kept_evt [OF ev_emit_event])
  then have "kept ?e (snd (rest ?e))" unfolding rel_py_def by blast
  moreover have "announce_cleared cf (emit_event cf n) i e = rest ?e"
    by (simp add: announce_cleared_def rest_def)
  ultimately show ?thesis using assms by (simp add: kept_def delete_conv')
qed

lemma runs_all_cleared:
  assumes "ready cf e" "distinct is" "\<And>i. i \<in> set is \<Longrightarrow> \<not> watched (event_trigger (cleared_event i)) e"
  shows "runs cf e (each (announce_cleared cf (emit_event cf (Suc n))) is)
    (map cleared_event is) (concat (map (cleared_reports e) is))"
  using assms
proof (induction "is" arbitrary: e)
  case Nil
  then show ?case by (simp add: runs_ret)
next
  case (Cons i "is")
  let ?step = "announce_cleared cf (emit_event cf (Suc n)) i"
  have one: "runs cf e ?step [cleared_event i] (cleared_reports e i)"
    using Cons.prems by (intro runs_cleared) simp_all
  define t where "t = snd (?step e)"
  have t: "logged cf e [cleared_event i] (cleared_reports e i) t" "fst (?step e) = Inr ()"
    using one by (simp_all add: runs_def t_def)
  have other: "cleared_reports t j = cleared_reports e j" if "j \<noteq> i" for j
    unfolding t_def cleared_reports_def cleared_records [OF that] by simp
  have same: "map (cleared_reports t) is = map (cleared_reports e) is"
    using Cons.prems(2) by (intro map_cong refl other) auto
  have "runs cf t (each (announce_cleared cf (emit_event cf (Suc n))) is) (map cleared_event is)
      (concat (map (cleared_reports t) is))"
    using t(1) Cons.prems held_facts(4) [of e t] by (intro Cons.IH) (simp_all add: logged_def)
  moreover have "?step e = (Inr (), t)" using t(2) by (simp add: prod_eq_iff t_def)
  ultimately show ?case
    using logged_trans [OF t(1)] unfolding same
    by (simp add: runs_def bind_py_simps(4) [where m = ?step] del: emit_event.simps)
qed


lemma record_keeps:
  "unchanged e1 (record_violations vs e1\<lparr>en_violation_records := en_violation_records e1\<rparr>)"
  by (simp add: unchanged_def record_violations_def)

lemma record_facts:
  "ready cf (record_violations vs e) = ready cf e" "announces (record_violations vs e) v = announces e v"
  "watched t (record_violations vs e) = watched t e" "taken cf (record_violations vs e) ks = taken cf e ks"
  "outbox cf (record_violations vs e) = outbox cf e" "en_event_queue (record_violations vs e) = en_event_queue e"
  "en_violation_active (record_violations vs e) = en_violation_active e"
  by (simp_all add: record_violations_def ready_def image_param_def cuc_time_def announces_def watched_def
      rule_matches_def taken_def downlink_active_def outbox_def)

text \<open>
  C7: On-board monitoring is edge-triggered. Let \<open>vs\<close> be the violations the limit check finds, suppose that
  telemetry can be stored (\<open>ready\<close>), that no enabled event-action rule watches an event of this tick, and
  that the active violations that are gone are visited once each. Then the tick returns; afterwards the
  active set is the set of the violations found; as far as it has room, the event queue has grown by
  exactly one event for each violation that was not active (none for a signal parameter during a forced
  pass), in order, then one for each active violation that is gone; and, when there is a link, as far as
  it has room the downlink has grown by exactly the reports of these transitions: TM(12,9) when its
  numbers fit single precision and one S5 report for each new violation, TM(12,10) when the violation was
  recorded and fits and one S5 report for each that is gone. A violation that persists raises nothing.
\<close>
theorem alarms_are_edge_triggered:
  assumes "ready cf e" "fst (check_monitoring cf e) = Inr vs"
    "\<And>ev. ev \<in> set (alarm_events cf vs e) \<Longrightarrow> \<not> watched (event_trigger ev) e"
    "distinct (gone cf vs e)" "set (gone cf vs e) = en_violation_active e - set (map vi_mon_id vs)"
  shows "let (r, e') = tick_s12_monitoring cf (emit_event cf (Suc n)) e in
    r = Inr () \<and> en_violation_active e' = set (map vi_mon_id vs) \<and>
    en_event_queue e' = en_event_queue e @
      take (EVENT_QUEUE_SIZE - length (en_event_queue e)) (alarm_events cf vs e) \<and>
    (\<exists>ps. outbox cf e' = outbox cf e @ ps \<and>
       map report_kind ps = map Some (taken cf e (alarm_telemetry cf vs e)))"
proof -
  let ?emit = "emit_event cf (Suc n)"
  obtain e1 where ck: "check_monitoring cf e = (Inr vs, e1)" using assms(2) by (cases "check_monitoring cf e") auto
  then have "unchanged e e1" using rel_pyD [OF unchanged_check] by blast
  note un = unchanged_facts [OF this]
  let ?e2 = "record_violations vs e1"
  let ?gone = "gone cf vs e"
  have r2: "ready cf ?e2" using assms(1) by (simp add: record_facts un)
  have one: "runs cf ?e2 (each (announce cf ?emit) vs)
      (concat (map (\<lambda>v. if announces e v then [violation_event v] else []) vs))
      (concat (map (\<lambda>v. if announces e v then alarm_reports v else []) vs))"
  proof (rule runs_each [OF r2])
    fix v t assume v: "v \<in> set vs" "ready cf t" "held ?e2 t"
    have "announces t v = announces e v"
    proof -
      have "announces t v = announces ?e2 v" using v(3) by (simp add: held_def announces_def)
      then show ?thesis by (simp add: record_facts un)
    qed
    moreover have "announces e v \<Longrightarrow> \<not> watched (event_trigger (violation_event v)) t"
      using assms(3) v held_facts(4) [OF v(3)] by (simp add: record_facts un alarm_events_def)
    ultimately show "runs cf t (announce cf ?emit v) (if announces e v then [violation_event v] else [])
        (if announces e v then alarm_reports v else [])"
      using runs_announce [OF v(2) found_severity [OF ck v(1)], of n] by simp
  qed
  define e3 where "e3 = snd (each (announce cf ?emit) vs ?e2)"
  have singles: "concat (map (\<lambda>v. if P v then [f v] else []) xs) = map f (filter P xs)"
    for P and f :: "violation \<Rightarrow> event" and xs
    by (induction xs) simp_all
  have e3: "each (announce cf ?emit) vs ?e2 = (Inr (), e3)"
    "logged cf ?e2 (map violation_event (filter (announces e) vs)) (concat (map alarm_reports (filter (announces e) vs))) e3"
    using one unfolding runs_def concat_if singles e3_def by (simp_all add: prod_eq_iff del: emit_event.simps)
  have rec: "cleared_reports e3 i = cleared_reports e i" if "i \<in> set ?gone" for i
  proof -
    have "rel_py kept (each (announce cf ?emit) vs)" by (intro kp.frame_rules kept_announce)
    then have "en_violation_records e3 = en_violation_records ?e2"
      unfolding rel_py_def kept_def e3_def by blast
    then show ?thesis
      using that assms(5) record_absent [of i vs e1] by (simp add: cleared_reports_def un)
  qed
  have two: "runs cf e3 (each (announce_cleared cf ?emit) ?gone) (map cleared_event ?gone)
      (concat (map (cleared_reports e3) ?gone))"
    using e3(2) assms(3,4) held_facts(4) [of ?e2 e3]
    by (intro runs_all_cleared) (simp_all add: logged_def record_facts un alarm_events_def)
  define e4 where "e4 = snd (each (announce_cleared cf ?emit) ?gone e3)"
  have same: "map (cleared_reports e3) ?gone = map (cleared_reports e) ?gone" using rec by (rule map_cong [OF refl])
  have e4: "each (announce_cleared cf ?emit) ?gone e3 = (Inr (), e4)"
    "logged cf e3 (map cleared_event ?gone) (concat (map (cleared_reports e) ?gone)) e4"
    using two unfolding runs_def same e4_def by (simp_all add: prod_eq_iff del: emit_event.simps)
  have active: "en_violation_active e3 = en_violation_active e"
    using e3(2) by (simp add: logged_def held_def record_violations_def un)
  have g: "gone cf vs e3 = ?gone" by (simp add: gone_def active)
  have tick: "tick_s12_monitoring cf ?emit e = (Inr (), e4\<lparr>en_violation_active := set (map vi_mon_id vs)\<rparr>)"
    by (simp add: tick_s12_monitoring_def bind_py_simps(2) [where m = "check_monitoring cf", OF ck] Let_def
        bind_py_simps(4) [where m = "each (announce cf ?emit) vs", OF e3(1)] g gone_def [symmetric]
        bind_py_simps(4) [where m = "each (announce_cleared cf ?emit) ?gone", OF e4(1)] modify_def
        del: set_map list.set_map emit_event.simps)
  have "logged cf ?e2 (alarm_events cf vs e) (alarm_telemetry cf vs e) e4"
    using logged_trans [OF e3(2) e4(2)] by (simp add: alarm_events_def alarm_telemetry_def)
  moreover have "outbox cf (e4\<lparr>en_violation_active := set (map vi_mon_id vs)\<rparr>) = outbox cf e4"
    by (simp add: outbox_def)
  ultimately show ?thesis
    unfolding tick logged_def record_facts un by (simp del: list.set_map set_map)
qed


text \<open>A monitored temperature above its limit, seen for the first time, while another monitor has recovered.\<close>

definition monitored_engine :: "unit engine" where
  "monitored_engine = (bare_engine 4)\<lparr>en_params := [0x0405 \<mapsto> Fin False 61], en_violation_active := {9},
     en_disp := bare_dispatcher\<lparr>ds_s12 := [(7, ground_monitor 7 0x0405 0 (Fin True 20) (Fin False 60))]\<rparr>\<rparr>"

definition hot_violation :: violation where
  "hot_violation = \<lparr>vi_param_id = 0x0405, vi_mon_id = 7, vi_value = Fin False 61, vi_raw_value = Fin False 61,
     vi_low = Fin True 20, vi_high = Fin False 60, vi_check_type = 0, vi_severity = 2,
     vi_name = md_name (ground_monitor 7 0x0405 0 (Fin True 20) (Fin False 60)),
     vi_description = md_description (ground_monitor 7 0x0405 0 (Fin True 20) (Fin False 60))\<rparr>"

lemma hot_found: "fst (check_monitoring bare_config monitored_engine) = Inr [hot_violation]"
  by (simp add: check_monitoring_def monitored_engine_def bare_simps check_one_def ground_monitor_def
      param_source_powered_def set_last_def violation_of_def checked_value_def S12_CHECK_DELTA_def outside_def
      fin_val_def severity_map_def hot_violation_def bind_py_def seq_py_def modify_def of_result_def ret_def gets_def)

lemma hot_packable: "packable hot_violation"
  by code_simp

lemma monitored_facts:
  "ready bare_config monitored_engine" "gone bare_config [hot_violation] monitored_engine = [9]"
  "alarm_events bare_config [hot_violation] monitored_engine = [violation_event hot_violation, cleared_event 9]"
  "\<not> watched t monitored_engine"
  "taken bare_config monitored_engine (alarm_telemetry bare_config [hot_violation] monitored_engine) = [(12, 9), (5, 2), (5, 1)]"
proof -
  show g: "gone bare_config [hot_violation] monitored_engine = [9]"
    by (simp add: gone_def monitored_engine_def bare_simps hot_violation_def)
  have a: "announces monitored_engine hot_violation"
    by (simp add: announces_def monitored_engine_def bare_simps hot_violation_def)
  then show "alarm_events bare_config [hot_violation] monitored_engine = [violation_event hot_violation, cleared_event 9]"
    by (simp add: alarm_events_def g)
  have "alarm_reports hot_violation = [(12, 9), (5, 2)]"
    using hot_packable by (simp add: alarm_reports_def transition_reports_def) (simp add: hot_violation_def)
  moreover have "cleared_reports monitored_engine 9 = [(5, 1)]"
    by (simp add: cleared_reports_def monitored_engine_def bare_simps)
  ultimately have "alarm_telemetry bare_config [hot_violation] monitored_engine = [(12, 9), (5, 2), (5, 1)]"
    using a by (simp add: alarm_telemetry_def g)
  then show "taken bare_config monitored_engine (alarm_telemetry bare_config [hot_violation] monitored_engine) = [(12, 9), (5, 2), (5, 1)]"
    by (simp add: taken_def downlink_active_def capacity_def outbox_def TM_QUEUE_SIZE_def monitored_engine_def bare_simps)
qed (simp_all add: ready_def image_param_def cuc_time_def watched_def monitored_engine_def bare_simps)

theorem alarms_are_edge_triggered_witness:
  "let (r, e') = tick_s12_monitoring bare_config (emit_event bare_config (Suc 4)) monitored_engine in
   r = Inr () \<and> en_violation_active e' = {7} \<and>
   en_event_queue e' = [violation_event hot_violation, cleared_event 9] \<and>
   map report_kind (outbox bare_config e') = [Some (12, 9), Some (5, 2), Some (5, 1)]"
proof -
  have "distinct (gone bare_config [hot_violation] monitored_engine)"
    "set (gone bare_config [hot_violation] monitored_engine) = en_violation_active monitored_engine - set (map vi_mon_id [hot_violation])"
    unfolding monitored_facts(2) by (simp_all add: monitored_engine_def hot_violation_def)
  from alarms_are_edge_triggered [OF monitored_facts(1) hot_found _ this, of 4]
  have "let (r, e') = tick_s12_monitoring bare_config (emit_event bare_config (Suc 4)) monitored_engine in
    r = Inr () \<and> en_violation_active e' = set (map vi_mon_id [hot_violation]) \<and>
    en_event_queue e' = en_event_queue monitored_engine @
      take (EVENT_QUEUE_SIZE - length (en_event_queue monitored_engine)) [violation_event hot_violation, cleared_event 9] \<and>
    (\<exists>ps. outbox bare_config e' = outbox bare_config monitored_engine @ ps \<and>
       map report_kind ps = map Some [(12, 9), (5, 2), (5, 1)])"
    unfolding monitored_facts(3,5) using monitored_facts(4) by blast
  moreover have "en_event_queue monitored_engine = []" "outbox bare_config monitored_engine = []"
    "set (map vi_mon_id [hot_violation]) = {7}"
    by (simp_all add: monitored_engine_def bare_simps outbox_def hot_violation_def)
  ultimately show ?thesis
    by (auto simp: EVENT_QUEUE_SIZE_def split_beta Let_def simp del: emit_event.simps)
qed

end
