(* ===== verification/Float_Arith.thy ===== *)
theory Float_Arith
  imports Subsystems
begin

text \<open>
  The rest of Python's floating point that the simulated subsystems use: \<open>abs\<close>, \<open>/\<close>, \<open>min\<close> and
  \<open>max\<close> on floats, \<open>round(x, n)\<close> and \<open>str(x)\<close>, the shortest decimal that reads back as \<open>x\<close>.
\<close>

definition fabs :: "py_float \<Rightarrow> py_float" where
  "fabs x = (case x of Fin s m \<Rightarrow> Fin False \<bar>m\<bar> | Infinite _ \<Rightarrow> Infinite False | NaN \<Rightarrow> NaN)"

abbreviation f0 :: py_float where "f0 \<equiv> Fin False 0"

fun fdiv :: "py_float \<Rightarrow> py_float \<Rightarrow> py_float result" where
  "fdiv (Fin s m) (Fin t n) =
     (if n = 0 then Inl (OtherError ''ZeroDivisionError'') else Inr (round64 (s \<noteq> t) (m / n)))"
| "fdiv (Fin s m) (Infinite b) = Inr (Fin (s \<noteq> b) 0)"
| "fdiv (Infinite a) (Fin t n) =
     (if n = 0 then Inl (OtherError ''ZeroDivisionError'') else Inr (Infinite (a \<noteq> t)))"
| "fdiv NaN (Fin t n) = (if n = 0 then Inl (OtherError ''ZeroDivisionError'') else Inr NaN)"
| "fdiv _ _ = Inr NaN"

text \<open>\<open>round(x, n)\<close>: the exact value to \<open>n\<close> decimals, half to even, then the nearest float.\<close>

definition fround :: "nat \<Rightarrow> py_float \<Rightarrow> py_float" where
  "fround n x = (case x of Fin s m \<Rightarrow> round64 s (of_int (round_even (m * 10 ^ n)) / 10 ^ n) | _ \<Rightarrow> x)"

section \<open>Shortest decimals\<close>

definition pow10 :: "int \<Rightarrow> rat" where
  "pow10 e = (if 0 \<le> e then 10 ^ nat e else 1 / 10 ^ nat (- e))"

text \<open>The exponent \<open>e\<close> with \<open>10 ^ e \<le> m < 10 ^ (e + 1)\<close> of a positive rational.\<close>

definition ilog10 :: "rat \<Rightarrow> int" where
  "ilog10 m = (case quotient_of m of (p, q) \<Rightarrow>
     let k = int (length (decimal (nat p))) - int (length (decimal (nat q)))
     in if pow10 k \<le> m then k else k - 1)"

text \<open>
  The \<open>n\<close>-digit significand next to \<open>m\<close> that reads back as \<open>m\<close>, the nearer of the two neighbours
  first; and the shortest one of at most 17 digits, with its number of digits.
\<close>

definition reads_back :: "rat \<Rightarrow> rat \<Rightarrow> bool" where
  "reads_back m v \<longleftrightarrow> round64 False v = Fin False m"

definition digits_near :: "rat \<Rightarrow> int \<Rightarrow> nat \<Rightarrow> int option" where
  "digits_near m e n =
     (let sc = pow10 (e - int n + 1); near = round_even (m / sc); lo = \<lfloor>m / sc\<rfloor>;
          far = (if near = lo then lo + 1 else lo)
      in if reads_back m (of_int near * sc) then Some near
         else if reads_back m (of_int far * sc) then Some far else None)"

fun shortest_from :: "nat \<Rightarrow> nat \<Rightarrow> rat \<Rightarrow> int \<Rightarrow> nat \<times> int" where
  "shortest_from 0 n m e = (n, round_even (m / pow10 (e - int n + 1)))"
| "shortest_from (Suc k) n m e =
     (case digits_near m e n of Some d \<Rightarrow> (n, d) | None \<Rightarrow> shortest_from k (n + 1) m e)"

text \<open>The digits of the shortest decimal and the position of its decimal point.\<close>

definition shortest_digits :: "rat \<Rightarrow> string \<times> int" where
  "shortest_digits m =
     (let e = ilog10 m; (n, d) = shortest_from 16 1 m e; ds = decimal (nat d)
      in if n < length ds then (butlast ds, e + 2) else (ds, e + 1))"

definition repr_mag :: "rat \<Rightarrow> string" where
  "repr_mag m =
     (if m = 0 then ''0.0''
      else let (ds, pt) = shortest_digits m; n = int (length ds)
        in if - 4 < pt \<and> pt \<le> 16 then
             (if pt \<le> 0 then ''0.'' @ replicate (nat (- pt)) (CHR ''0'') @ ds
              else if n \<le> pt then ds @ replicate (nat (pt - n)) (CHR ''0'') @ ''.0''
              else take (nat pt) ds @ ''.'' @ drop (nat pt) ds)
           else take 1 ds @ (if 1 < n then ''.'' @ drop 1 ds else []) @ ''e'' @
             (if pt - 1 < 0 then ''-'' else ''+'') @
             (let x = decimal (nat \<bar>pt - 1\<bar>) in replicate (2 - length x) (CHR ''0'') @ x))"

definition float_repr :: "py_float \<Rightarrow> string" where
  "float_repr x = (case x of Fin s m \<Rightarrow> (if s then ''-'' else []) @ repr_mag m
     | Infinite s \<Rightarrow> (if s then ''-inf'' else ''inf'') | NaN \<Rightarrow> ''nan'')"

section \<open>Values as text\<close>

text \<open>
  \<open>str(v)\<close> of the scalar values that occur as names and numbers of instances; byte strings and
  containers are not distinguished.
\<close>

definition val_text :: "pyval \<Rightarrow> pytext" where
  "val_text v = (case v of VStr s \<Rightarrow> py s | VText t \<Rightarrow> t | VInt k \<Rightarrow> py (str_int k)
     | VBool b \<Rightarrow> py (if b then ''True'' else ''False'') | VFloat x \<Rightarrow> py (float_repr x) | VNone \<Rightarrow> py ''None'' | _ \<Rightarrow> [])"

text \<open>\<open>bool(v)\<close>.\<close>

definition val_bool :: "pyval \<Rightarrow> bool" where
  "val_bool v = (case v of VNone \<Rightarrow> False | VInt k \<Rightarrow> k \<noteq> 0 | VBool b \<Rightarrow> b | VFloat x \<Rightarrow> fbool x | VStr s \<Rightarrow> s \<noteq> []
     | VText t \<Rightarrow> t \<noteq> [] | VFloats xs \<Rightarrow> xs \<noteq> [] | VBools bs \<Rightarrow> bs \<noteq> [] | VBytes bs \<Rightarrow> bs \<noteq> []
     | VDict d \<Rightarrow> d \<noteq> [] | VInts ks \<Rightarrow> ks \<noteq> [])"

text \<open>Division by a constant that is not zero.\<close>

definition fquot :: "py_float \<Rightarrow> py_float \<Rightarrow> py_float" where
  "fquot x y = (case fdiv x y of Inr z \<Rightarrow> z | Inl _ \<Rightarrow> NaN)"

text \<open>\<open>max(lo, min(hi, x))\<close>.\<close>

definition clamp :: "py_float \<Rightarrow> py_float \<Rightarrow> py_float \<Rightarrow> py_float" where
  "clamp lo hi x = fmax lo (fmin hi x)"

end
