(* ===== verification/Number_Text.thy ===== *)
theory Number_Text
  imports Float_Arith
begin

text \<open>
  Python's numbers as text: \<open>float(s)\<close>, \<open>int(s, 0)\<close> and \<open>s.split()\<close> on ASCII text, with the
  underscores the language allows between digits. \<open>None\<close> stands for the \<open>ValueError\<close> of text that is
  no number.
\<close>

definition is_space :: "char \<Rightarrow> bool" where
  "is_space c \<longleftrightarrow> (of_char c :: nat) \<in> {9, 10, 11, 12, 13, 28, 29, 30, 31, 32}"

definition strip :: "string \<Rightarrow> string" where
  "strip s = rev (dropWhile is_space (rev (dropWhile is_space s)))"

fun split_from :: "string \<Rightarrow> string \<Rightarrow> string list" where
  "split_from w [] = (if w = [] then [] else [rev w])"
| "split_from w (c # cs) =
     (if is_space c then (if w = [] then split_from [] cs else rev w # split_from [] cs)
      else split_from (c # w) cs)"

definition py_split :: "string \<Rightarrow> string list" where
  "py_split s = split_from [] s"

definition lower_char :: "char \<Rightarrow> char" where
  "lower_char c = (if 65 \<le> (of_char c :: nat) \<and> (of_char c :: nat) \<le> 90 then char_of ((of_char c :: nat) + 32) else c)"

definition is_digit_of :: "nat \<Rightarrow> char \<Rightarrow> bool" where
  "is_digit_of b c = (case digit_value c of Some d \<Rightarrow> d < b | None \<Rightarrow> False)"

text \<open>The digits at the front of a text and what follows them; \<open>after\<close> tells that a digit came before.\<close>

fun scan_digits :: "nat \<Rightarrow> bool \<Rightarrow> string \<Rightarrow> nat list \<times> string" where
  "scan_digits b after [] = ([], [])"
| "scan_digits b after (c # cs) =
     (if is_digit_of b c then (case scan_digits b True cs of (ds, r) \<Rightarrow> (the (digit_value c) # ds, r))
      else if c = CHR ''_'' \<and> after \<and> (case cs of d # _ \<Rightarrow> is_digit_of b d | [] \<Rightarrow> False)
      then scan_digits b False cs else ([], c # cs))"

definition digits_nat :: "nat \<Rightarrow> nat list \<Rightarrow> nat" where
  "digits_nat b ds = foldl (\<lambda>k d. b * k + d) 0 ds"

definition sign_of :: "string \<Rightarrow> bool \<times> string" where
  "sign_of s = (case s of c # r \<Rightarrow> (if c = CHR ''-'' then (True, r) else if c = CHR ''+'' then (False, r) else (False, s))
     | [] \<Rightarrow> (False, []))"

section \<open>Integers\<close>

text \<open>\<open>int(s, 0)\<close>: a prefix gives the base; a decimal number other than zero has no leading zero.\<close>

definition whole :: "nat \<Rightarrow> bool \<Rightarrow> string \<Rightarrow> nat option" where
  "whole b after s = (case scan_digits b after s of (ds, r) \<Rightarrow> if ds = [] \<or> r \<noteq> [] then None else Some (digits_nat b ds))"

definition unsigned_int :: "string \<Rightarrow> nat option" where
  "unsigned_int s =
     (case s of z # x # r \<Rightarrow>
        if z = CHR ''0'' \<and> lower_char x = CHR ''x'' then whole 16 True r
        else if z = CHR ''0'' \<and> lower_char x = CHR ''o'' then whole 8 True r
        else if z = CHR ''0'' \<and> lower_char x = CHR ''b'' then whole 2 True r
        else (case whole 10 False s of Some k \<Rightarrow> if z = CHR ''0'' \<and> k \<noteq> 0 then None else Some k | None \<Rightarrow> None)
      | _ \<Rightarrow> whole 10 False s)"

definition parse_int0 :: "string \<Rightarrow> int option" where
  "parse_int0 s = (case sign_of (strip s) of (neg, u) \<Rightarrow>
     case unsigned_int u of None \<Rightarrow> None | Some k \<Rightarrow> Some (if neg then - int k else int k))"

section \<open>Floats\<close>

definition exponent_of :: "string \<Rightarrow> int option" where
  "exponent_of s = (case s of [] \<Rightarrow> Some 0
     | e # r \<Rightarrow> if lower_char e = CHR ''e''
         then (case sign_of r of (neg, u) \<Rightarrow> case whole 10 False u of None \<Rightarrow> None
             | Some k \<Rightarrow> Some (if neg then - int k else int k))
         else None)"

definition unsigned_float :: "string \<Rightarrow> rat option" where
  "unsigned_float s =
     (case scan_digits 10 False s of (ip, r) \<Rightarrow>
      case (case r of c # r' \<Rightarrow> if c = CHR ''.'' then scan_digits 10 False r' else ([], r) | [] \<Rightarrow> ([], [])) of (fp, r'') \<Rightarrow>
        if ip = [] \<and> fp = [] then None
        else (case exponent_of r'' of None \<Rightarrow> None
            | Some e \<Rightarrow> Some (of_nat (digits_nat 10 (ip @ fp)) * pow10 (e - int (length fp)))))"

definition parse_float :: "string \<Rightarrow> py_float option" where
  "parse_float s = (case sign_of (strip s) of (neg, u) \<Rightarrow>
     let l = map lower_char u in
     if l = ''inf'' \<or> l = ''infinity'' then Some (Infinite neg)
     else if l = ''nan'' then Some NaN
     else map_option (round64 neg) (unsigned_float u))"

text \<open>\<open>float(v)\<close>, \<open>int(v)\<close> and \<open>int(v, 0) if isinstance(v, str) else int(v)\<close> on the values of the configuration files.\<close>

definition value_float :: "pyval \<Rightarrow> py_float result" where
  "value_float v = (case v of VStr s \<Rightarrow> (case parse_float s of Some x \<Rightarrow> Inr x | None \<Rightarrow> Inl ValueError) | _ \<Rightarrow> val_float v)"

definition value_int :: "pyval \<Rightarrow> int result" where
  "value_int v = (case v of VStr s \<Rightarrow> (case sign_of (strip s) of (neg, u) \<Rightarrow>
       (case whole 10 False u of Some k \<Rightarrow> Inr (if neg then - int k else int k) | None \<Rightarrow> Inl ValueError))
     | _ \<Rightarrow> val_int v)"

definition value_id :: "pyval \<Rightarrow> int result" where
  "value_id v = (case v of VStr s \<Rightarrow> (case parse_int0 s of Some k \<Rightarrow> Inr k | None \<Rightarrow> Inl ValueError) | _ \<Rightarrow> val_int v)"

end
