(* ===== verification/Model_Basics.thy ===== *)
theory Model_Basics
  imports On_Board Number_Text
begin

text \<open>
  What the simulated subsystems share: their random source, Python's \<open>math\<close> functions, the replies of
  \<open>handle_command\<close>, the reading of a command's arguments and the writing of the shared parameters.
\<close>

section \<open>Random numbers and transcendental functions\<close>

text \<open>
  The random source of a model is a parameter: \<open>rg_random\<close> draws from \<open>[0, 1)\<close>, \<open>rg_gauss\<close> is
  \<open>gauss(0, sigma)\<close> and \<open>rg_randint\<close> is \<open>randint(lo, hi)\<close>. So is the platform's C library, which
  Python's \<open>math\<close> calls: its functions may raise, as \<open>cos(inf)\<close> and \<open>sqrt(-1)\<close> do.
\<close>

record 'r random_source =
  rg_random :: "'r \<Rightarrow> py_float \<times> 'r"
  rg_gauss :: "py_float \<Rightarrow> 'r \<Rightarrow> py_float \<times> 'r"
  rg_randint :: "int \<Rightarrow> int \<Rightarrow> 'r \<Rightarrow> int \<times> 'r"

record libm =
  lm_cos :: "py_float \<Rightarrow> py_float result"
  lm_sin :: "py_float \<Rightarrow> py_float result"
  lm_atan2 :: "py_float \<Rightarrow> py_float \<Rightarrow> py_float"
  lm_sqrt :: "py_float \<Rightarrow> py_float result"
  lm_exp :: "py_float \<Rightarrow> py_float result"
  lm_log10 :: "py_float \<Rightarrow> py_float result"
  lm_erfc :: "py_float \<Rightarrow> py_float"
  lm_pow :: "py_float \<Rightarrow> py_float \<Rightarrow> py_float result"

text \<open>\<open>x ** 2\<close>, which raises when the square of a finite number is out of range.\<close>

definition fsquare :: "py_float \<Rightarrow> py_float result" where
  "fsquare x = (case fmul x x of Infinite s \<Rightarrow> (case x of Fin _ _ \<Rightarrow> Inl OverflowError | _ \<Rightarrow> Inr (Infinite s)) | z \<Rightarrow> Inr z)"

text \<open>\<open>math.radians\<close> and \<open>math.degrees\<close> multiply by constants computed from the double next to \<open>\<pi>\<close>.\<close>

definition PI :: rat where "PI = 884279719003555 / 281474976710656"

definition radians :: "py_float \<Rightarrow> py_float" where "radians x = fmul x (fl (PI / 180))"
definition degrees :: "py_float \<Rightarrow> py_float" where "degrees x = fmul x (fl (180 / PI))"

text \<open>\<open>sum(xs)\<close> starts from the integer 0.\<close>

definition fsum :: "py_float list \<Rightarrow> py_float" where
  "fsum = foldl fadd f0"

section \<open>Configuration and parameters\<close>

definition or_else :: "'a option \<Rightarrow> 'a \<Rightarrow> 'a" where
  "or_else x d = (case x of Some a \<Rightarrow> a | None \<Rightarrow> d)"

definition write_params :: "(int \<times> py_float) list \<Rightarrow> params \<Rightarrow> params" where
  "write_params kvs p = fold (\<lambda>(k, v) p. p(k \<mapsto> v)) kvs p"

definition shared :: "params \<Rightarrow> int \<Rightarrow> py_float \<Rightarrow> py_float" where
  "shared p k d = or_else (p k) d"

definition flag_value :: "bool \<Rightarrow> py_float" where
  "flag_value b = (if b then Fin False 1 else f0)"

section \<open>Commands and replies\<close>

text \<open>A command is a dictionary whose entry \<open>command\<close> is a string.\<close>

definition accepted :: "reply" where
  "accepted = empty_reply\<lparr>rp_success := Some True\<rparr>"

definition refused :: "pytext \<Rightarrow> reply" where
  "refused text = empty_reply\<lparr>rp_success := Some False, rp_message := Some text\<rparr>"

text \<open>\<open>int(cmd.get(key, default))\<close>.\<close>

definition arg_int :: "command \<Rightarrow> string \<Rightarrow> int \<Rightarrow> int result" where
  "arg_int c key d = (case map_of c key of Some v \<Rightarrow> value_int v | None \<Rightarrow> Inr d)"

definition command_name :: "command \<Rightarrow> string" where
  "command_name c = (case map_of c ''command'' of Some (VStr s) \<Rightarrow> s | _ \<Rightarrow> [])"

text \<open>\<open>float(cmd.get(key, default))\<close>, \<open>bool(cmd.get(key, default))\<close> and \<open>cmd.get(key, default)\<close>.\<close>

definition arg_float :: "command \<Rightarrow> string \<Rightarrow> py_float \<Rightarrow> py_float result" where
  "arg_float c key d = (case map_of c key of Some v \<Rightarrow> value_float v | None \<Rightarrow> Inr d)"

definition arg_bool :: "command \<Rightarrow> string \<Rightarrow> bool \<Rightarrow> bool" where
  "arg_bool c key d = (case map_of c key of Some v \<Rightarrow> val_bool v | None \<Rightarrow> d)"

definition arg :: "command \<Rightarrow> string \<Rightarrow> pyval \<Rightarrow> pyval" where
  "arg c key d = or_else (map_of c key) d"

text \<open>An integer in the sense of \<open>isinstance(v, int)\<close>.\<close>

definition as_int :: "pyval \<Rightarrow> int option" where
  "as_int v = (case v of VInt k \<Rightarrow> Some k | VBool b \<Rightarrow> Some (of_bool b) | _ \<Rightarrow> None)"

definition accepted_with :: "string \<Rightarrow> reply" where
  "accepted_with text = accepted\<lparr>rp_message := Some (py text)\<rparr>"

section \<open>Ranges\<close>

definition between :: "py_float \<Rightarrow> py_float \<Rightarrow> py_float \<Rightarrow> bool" where
  "between lo hi x \<longleftrightarrow> fle lo x \<and> fle x hi"

lemma clamp_between:
  "fle lo hi \<Longrightarrow> between lo hi (clamp lo hi x)"
proof -
  assume h: "fle lo hi"
  have "lo \<noteq> NaN" "hi \<noteq> NaN" using h by (auto simp: fle_def)
  then show ?thesis
    using h by (cases lo; cases hi; cases x) (auto simp: between_def clamp_def fmax_def fmin_def fle_def split: if_splits)
qed

lemma const_le [simp]: "fle (Fin False a) (Fin False b) \<longleftrightarrow> a \<le> b"
  by (auto simp: fle_def fin_val_def)

section \<open>Whole numbers, and division by a number that is not zero\<close>

lemma round64_numeral: "numeral n < (2 ^ 53 :: int) \<Longrightarrow> round64 s (numeral n) = Fin s (numeral n)"
  using round64_int [of "numeral n" s] by simp

lemma divided: "n \<noteq> 0 \<Longrightarrow> fdiv x (Fin b n) = Inr (fquot x (Fin b n))"
  by (cases x) (simp_all add: fquot_def)

lemma fdiv_returns: "n \<noteq> 0 \<Longrightarrow> \<exists>z. fdiv x (Fin t n) = Inr z"
  by (simp add: divided)

section \<open>Concrete instances\<close>

text \<open>A random source that draws zeros, for the concrete instances.\<close>

definition quiet :: "unit random_source" where
  "quiet = \<lparr>rg_random = (\<lambda>r. (Fin False (1 / 2), r)), rg_gauss = (\<lambda>_ r. (f0, r)), rg_randint = (\<lambda>lo _ r. (lo, r))\<rparr>"

text \<open>A library on which the examples run: its functions return zero, its square root one.\<close>

definition plain_libm :: libm where
  "plain_libm = \<lparr>lm_cos = (\<lambda>_. Inr f0), lm_sin = (\<lambda>_. Inr f0), lm_atan2 = (\<lambda>_ _. f0), lm_sqrt = (\<lambda>_. Inr (Fin False 1)),
     lm_exp = (\<lambda>_. Inr f0), lm_log10 = (\<lambda>_. Inr f0), lm_erfc = (\<lambda>_. f0), lm_pow = (\<lambda>_ _. Inr f0)\<rparr>"

end
