(* ===== verification/Obcp_Rules.thy ===== *)
theory Obcp_Rules
  imports Outbox Bare_Spacecraft Model_Basics
begin

text \<open>
  On-board control procedures: the load blob is read back, the procedure store stays well-formed under
  every S18 telecommand, and with a well-formed store the interpreter cannot fail.
\<close>

section \<open>The load blob\<close>

text \<open>A delay that a binary32 field carries exactly.\<close>

definition single :: "py_float \<Rightarrow> bool" where
  "single w \<longleftrightarrow> (case pack_f w of Inr b \<Rightarrow> unpack_f b = w | Inl _ \<Rightarrow> False)"

definition loadable :: "obcp_step \<Rightarrow> bool" where
  "loadable s \<longleftrightarrow> single (os_delay s) \<and> length (os_tc s) < 65536"

lemma pack_f_length: "pack_f w = Inr b \<Longrightarrow> length b = 4"
  by (auto simp: pack_f_def Let_def split: py_float.splits if_splits simp del: be_bytes.simps)

lemma steps_roundtrip:
  "list_all loadable ss \<Longrightarrow> \<exists>b. encode_steps ss = Inr b \<and> parse_steps (length ss) (b @ rest) = Inr ss"
proof (induction ss)
  case (Cons s ss)
  obtain b where b: "encode_steps ss = Inr b" "parse_steps (length ss) (b @ rest) = Inr ss"
    using Cons by auto
  obtain w where w: "pack_f (os_delay s) = Inr w" "unpack_f w = os_delay s" "length w = 4"
    using Cons.prems pack_f_length by (auto simp: loadable_def single_def split: sum.splits)
  let ?n = "be_bytes 2 (int (length (os_tc s)))"
  have n: "pack_be 2 (int (length (os_tc s))) = Inr ?n" "be_int ?n = int (length (os_tc s))"
    using Cons.prems by (simp_all add: loadable_def be_int_be_bytes del: be_bytes.simps)
  have "parse_steps (length (s # ss)) (w @ ?n @ os_tc s @ b @ rest) = Inr (s # ss)"
    using w(2,3) n(2) b(2) by (simp add: pyslice_def Let_def del: be_bytes.simps)
  then show ?case using w(1) n(1) b(1) by (intro exI [of _ "w @ ?n @ os_tc s @ b"]) simp
qed simp

text \<open>
  A control procedure reaches the on-board store unaltered: every procedure with a 16-bit identifier,
  a name of at most 255 octets of UTF-8, and 1 to 255 steps with binary32 delays and packets below 64 KiB
  is encoded on the ground, and the parser of S18.1 recovers it.
\<close>
theorem obcp_blob_roundtrip:
  assumes "0 \<le> pid" "pid < 65536" "list_all is_scalar name" "length (utf8_encode name) \<le> 255"
    "steps \<noteq> []" "length steps \<le> 255" "list_all loadable steps"
  shows "\<exists>blob. encode_load_blob pid name steps = Inr blob \<and> parse_load_blob blob = Inr (pid, name, steps)"
proof -
  obtain b where b: "encode_steps steps = Inr b" "parse_steps (length steps) (b @ []) = Inr steps"
    using steps_roundtrip [OF assms(7)] by blast
  let ?u = "utf8_encode name"
  have l: "unat (word_of_nat (length ?u) :: byte) = length ?u" "unat (word_of_nat (length steps) :: byte) = length steps"
    using assms(4,6) by (intro unat_byte; simp)+
  let ?blob = "be_bytes 2 pid @ word_of_nat (length ?u) # ?u @ word_of_nat (length steps) # b"
  have "encode_load_blob pid name steps = Inr ?blob"
    using assms b(1) by (simp add: encode_load_blob_def Let_def del: be_bytes.simps)
  moreover have "parse_load_blob ?blob = Inr (pid, name, steps)"
    using assms b(2) l decode_encode_utf8 [OF assms(3)]
    by (simp add: parse_load_blob_def Let_def nth_append pyslice_def be_int_be_bytes del: be_bytes.simps)
  ultimately show ?thesis by blast
qed

theorem obcp_blob_roundtrip_witness:
  "\<exists>blob. encode_load_blob 9 (py ''detumble'') [\<lparr>os_delay = Infinite False, os_tc = [0x18, 0x01]\<rparr>] = Inr blob \<and>
     parse_load_blob blob = Inr (9, py ''detumble'', [\<lparr>os_delay = Infinite False, os_tc = [0x18, 0x01]\<rparr>])"
  by (rule obcp_blob_roundtrip)
    (simp_all add: py_def is_scalar_def utf8_encode_def utf8_point_def loadable_def single_def pack_f_def unpack_f_def
      be_int_be_bytes f32_value_def)

section \<open>The store\<close>

definition procedure_ok :: "obcp_procedure \<Rightarrow> bool" where
  "procedure_ok p \<longleftrightarrow> op_steps p \<noteq> [] \<and> length (op_steps p) \<le> MAX_STEPS"

definition run_ok :: "(int \<times> obcp_procedure) list \<Rightarrow> int \<times> obcp_run \<Rightarrow> bool" where
  "run_ok procs x = (case map_of procs (fst x) of None \<Rightarrow> False | Some p \<Rightarrow> or_step_index (snd x) < length (op_steps p))"

text \<open>
  At most \<open>MAX_PROCEDURES\<close> procedures with distinct identifiers, 1 to \<open>MAX_STEPS\<close> steps each; what runs is
  loaded and at one of its steps.
\<close>

definition obcp_ok :: "'m engine \<Rightarrow> bool" where
  "obcp_ok e \<longleftrightarrow> length (en_procedures e) \<le> MAX_PROCEDURES \<and> distinct (map fst (en_procedures e)) \<and>
     list_all (\<lambda>x. procedure_ok (snd x)) (en_procedures e) \<and>
     distinct (map fst (en_running e)) \<and> list_all (run_ok (en_procedures e)) (en_running e)"

lemma obcp_ok_kept: "kept e e' \<Longrightarrow> obcp_ok e' = obcp_ok e"
  by (simp add: obcp_ok_def kept_def)

lemma procedure_of: "obcp_ok e \<Longrightarrow> map_of (en_procedures e) pid = Some p \<Longrightarrow> procedure_ok p"
  by (auto simp: obcp_ok_def list_all_iff dest: map_of_SomeD)

text \<open>The procedures stay; the runs become \<open>rs\<close>.\<close>

definition runs_now :: "'m engine \<Rightarrow> (int \<times> obcp_run) list \<Rightarrow> 'm engine \<Rightarrow> bool" where
  "runs_now e rs e' \<longleftrightarrow> en_procedures e' = en_procedures e \<and> en_running e' = rs"

text \<open>What \<open>emit_event\<close> promises the handlers.\<close>

definition quiet :: "'m config \<Rightarrow> (event \<Rightarrow> ('m engine, unit) py) \<Rightarrow> bool" where
  "quiet cf emit \<longleftrightarrow> (\<forall>x. rel_py (evt cf) (emit x))"

lemma quiet_emit_event: "quiet cf (emit_event cf n)"
  by (simp add: quiet_def ev_emit_event)

lemma emit_runs:
  assumes "quiet cf emit"
  shows "\<exists>e'. obcp_emit emit i s t e = (Inr (), e') \<and> runs_now e (en_running e) e'"
proof -
  have "evt cf e (snd (emit x e))" for x using assms by (simp add: quiet_def rel_py_def)
  then have "runs_now e (en_running e) (snd (emit x e))" for x by (auto simp: evt_def kept_def runs_now_def)
  then have "runs_now e (en_running e) (snd (emit (obcp_event i s t) e))" .
  moreover obtain r e' where "emit (obcp_event i s t) e = (r, e')" by (cases "emit (obcp_event i s t) e")
  ultimately show ?thesis by (simp add: obcp_emit_def catch_def ret_def split: sum.split)
qed

lemma abort_runs:
  assumes "quiet cf emit"
  shows "\<exists>e'. abort_procedure emit pid r e = (Inr (), e') \<and> runs_now e (AList.delete pid (en_running e)) e'"
  using emit_runs [OF assms, where e = "e\<lparr>en_running := AList.delete pid (en_running e)\<rparr>"]
  by (fastforce simp: abort_procedure_def runs_now_def)

lemma delete_subset: "set (AList.delete k xs) \<subseteq> set xs"
  by (auto simp: AList.delete_eq)

lemma runs_deleted:
  assumes "obcp_ok e" "runs_now e (AList.delete pid (en_running e)) e'"
  shows "obcp_ok e'"
  using assms delete_subset [of pid "en_running e"]
  by (auto simp: obcp_ok_def runs_now_def distinct_delete list_all_iff)

lemma runs_updated:
  assumes "obcp_ok e" "runs_now e (AList.update pid r (en_running e)) e'" "run_ok (en_procedures e) (pid, r)"
  shows "obcp_ok e'"
  using assms set_alist_update [of pid r "en_running e"]
  by (auto simp: obcp_ok_def runs_now_def distinct_update list_all_iff)

lemma runs_same: "obcp_ok e \<Longrightarrow> runs_now e (en_running e) e' \<Longrightarrow> obcp_ok e'"
  by (simp add: obcp_ok_def runs_now_def)

lemma length_update: "length (AList.update k v xs) = (if map_of xs k = None then Suc (length xs) else length xs)"
  by (induction xs) auto

lemma load_ok:
  assumes "quiet cf emit" "obcp_ok e"
  shows "obcp_ok (snd (load_procedure emit pid name steps e))"
proof (cases "steps = [] \<or> MAX_STEPS < length steps \<or> (map_of (en_procedures e) pid = None \<and> MAX_PROCEDURES \<le> length (en_procedures e))")
  case True
  then show ?thesis using assms(2) by (auto simp: load_procedure_def ret_def)
next
  case False
  define p where "p = \<lparr>op_name = name, op_steps = steps\<rparr>"
  obtain e1 where e1: "when_py (is_running pid e) (abort_procedure emit pid ''replaced by new load'') e = (Inr (), e1)"
    "obcp_ok e1" "en_procedures e1 = en_procedures e" "map_of (en_running e1) pid = None"
  proof (cases "is_running pid e")
    case True
    then show ?thesis
      using that abort_runs [OF assms(1), where pid = pid and r = "''replaced by new load''" and e = e] runs_deleted [OF assms(2)]
      by (auto simp: when_py_def runs_now_def delete_conv')
  next
    case F: False
    then show ?thesis using that assms(2) by (simp add: when_py_def ret_def)
  qed
  have "snd (load_procedure emit pid name steps e) = e1\<lparr>en_procedures := AList.update pid p (en_procedures e1)\<rparr>"
    using False e1(1) by (auto simp: load_procedure_def p_def seq_py_def bind_py_def gets_def modify_def ret_def)
  moreover have "obcp_ok (e1\<lparr>en_procedures := AList.update pid p (en_procedures e1)\<rparr>)"
  proof -
    have "run_ok (AList.update pid p (en_procedures e1)) x" if "x \<in> set (en_running e1)" for x
    proof -
      have "fst x \<noteq> pid" using that e1(4) by (metis image_eqI map_of_eq_None_iff)
      then show ?thesis
        using e1(2) that by (auto simp: obcp_ok_def list_all_iff run_ok_def update_conv')
    qed
    then show ?thesis
      using e1(2,3) False set_alist_update [of pid p "en_procedures e1"]
      by (auto simp: obcp_ok_def list_all_iff distinct_update length_update procedure_ok_def p_def)
  qed
  ultimately show ?thesis by simp
qed

lemma delete_ok:
  assumes "quiet cf emit" "obcp_ok e"
  shows "obcp_ok (snd (delete_procedure emit pid e))"
proof -
  obtain e1 where e1: "when_py (is_running pid e) (abort_procedure emit pid ''deleted while running'') e = (Inr (), e1)"
    "obcp_ok e1" "map_of (en_running e1) pid = None"
  proof (cases "is_running pid e")
    case True
    then show ?thesis
      using that abort_runs [OF assms(1), where pid = pid and r = "''deleted while running''" and e = e] runs_deleted [OF assms(2)]
      by (auto simp: when_py_def runs_now_def delete_conv')
  next
    case F: False
    then show ?thesis using that assms(2) by (simp add: when_py_def ret_def)
  qed
  have "run_ok (AList.delete pid (en_procedures e1)) x" if "x \<in> set (en_running e1)" for x
  proof -
    have "fst x \<noteq> pid" using that e1(3) by (metis image_eqI map_of_eq_None_iff)
    then show ?thesis using e1(2) that by (auto simp: obcp_ok_def list_all_iff run_ok_def delete_conv')
  qed
  then have "obcp_ok (e1\<lparr>en_procedures := AList.delete pid (en_procedures e1)\<rparr>)"
    using e1(2) delete_subset [of pid "en_procedures e1"] length_delete_le [of pid "en_procedures e1"]
    by (auto simp: obcp_ok_def list_all_iff distinct_delete)
  then show ?thesis
    using e1(1,2) by (auto simp: delete_procedure_def seq_py_def bind_py_def gets_def modify_def ret_def)
qed

lemma start_ok:
  assumes "quiet cf emit" "obcp_ok e"
  shows "obcp_ok (snd (start_procedure emit pid param e))"
proof (cases "map_of (en_procedures e) pid")
  case None
  then show ?thesis using assms(2) by (simp add: start_procedure_def ret_def)
next
  case (Some p)
  have steps: "op_steps p \<noteq> []" using procedure_of [OF assms(2) Some] by (simp add: procedure_ok_def)
  show ?thesis
  proof (cases "is_running pid e")
    case True
    then show ?thesis using Some assms(2) by (simp add: start_procedure_def ret_def)
  next
    case False
    let ?run = "\<lparr>or_step_index = 0, or_wait = os_delay (op_steps p ! 0), or_param = param AND 0xFF\<rparr>"
    let ?e = "e\<lparr>en_running := AList.update pid ?run (en_running e)\<rparr>"
    have "runs_now e (AList.update pid ?run (en_running e)) ?e" by (simp add: runs_now_def)
    then have "obcp_ok ?e" using runs_updated [OF assms(2)] Some steps by (simp add: run_ok_def)
    moreover obtain e2 where e2: "obcp_emit emit 0x0700 1 (obcp_text pid (op_name p)
        ('' started ('' @ str_int (int (length (op_steps p))) @ '' steps, param='' @ str_int param @ '')'')) ?e = (Inr (), e2)"
      "runs_now ?e (en_running ?e) e2"
      using emit_runs [OF assms(1)] by blast
    ultimately have "obcp_ok e2" using runs_same by blast
    then show ?thesis
      using Some False steps e2(1) by (simp add: start_procedure_def seq_py_def bind_py_def gets_def modify_def ret_def)
  qed
qed

lemma abort_each_ok:
  assumes "quiet cf emit" "obcp_ok e"
  shows "obcp_ok (snd (each (\<lambda>pid. abort_procedure emit pid r) ids e))"
  using assms(2)
proof (induction ids arbitrary: e)
  case (Cons pid ids)
  obtain e1 where "abort_procedure emit pid r e = (Inr (), e1)" "runs_now e (AList.delete pid (en_running e)) e1"
    using abort_runs [OF assms(1)] by blast
  then show ?case using Cons.IH runs_deleted [OF Cons.prems] by (simp add: seq_py_def bind_py_def)
qed (simp add: ret_def)

lemma stop_ok:
  assumes "quiet cf emit" "obcp_ok e"
  shows "obcp_ok (snd (stop_procedure emit pid e))"
proof -
  obtain e1 where "abort_procedure emit pid ''stopped by TC(18,4)'' e = (Inr (), e1)"
    "runs_now e (AList.delete pid (en_running e)) e1"
    using abort_runs [OF assms(1)] by blast
  moreover have "obcp_ok (snd (each (\<lambda>pid. abort_procedure emit pid ''stopped by TC(18,4)'') (map fst (en_running e)) e))"
    using abort_each_ok [OF assms] .
  ultimately show ?thesis
    using assms(2) runs_deleted [OF assms(2)]
    by (cases "each (\<lambda>pid. abort_procedure emit pid ''stopped by TC(18,4)'') (map fst (en_running e)) e")
      (auto simp: stop_procedure_def seq_py_def bind_py_def gets_def ret_def split: sum.splits)
qed

text \<open>Answers leave the procedures alone.\<close>

lemma then_answer:
  assumes "obcp_ok (snd (m e))" "\<And>a. rel_py (evt cf) (f a)"
  shows "obcp_ok (snd (bind_py m f e))"
proof (cases "m e")
  case (Pair r e1)
  have "kept e1 (snd (f a e1))" for a using assms(2) by (simp add: rel_py_def evt_def)
  then have "obcp_ok (snd (f a e1)) = obcp_ok e1" for a by (rule obcp_ok_kept)
  then show ?thesis using assms(1) Pair by (cases r) (simp_all add: bind_py_def)
qed

lemma ev_answer: "rel_py (evt cf) (if ok then ret [] else make_error_response t c)"
  by (intro ev.rel_if ev.rel_ret ev_make_error)

lemma ok_if: "obcp_ok (snd (m e)) \<Longrightarrow> obcp_ok (snd (n e)) \<Longrightarrow> obcp_ok (snd ((if b then m else n) e))"
  by simp

lemma ok_sum:
  "(\<And>a. obcp_ok (snd (f a e))) \<Longrightarrow> (\<And>b. obcp_ok (snd (g b e))) \<Longrightarrow>
   obcp_ok (snd ((case x of Inl a \<Rightarrow> f a | Inr b \<Rightarrow> g b) e))"
  by (cases x) simp_all

lemma ok_prod: "(\<And>a b. obcp_ok (snd (f a b e))) \<Longrightarrow> obcp_ok (snd ((case x of (a, b) \<Rightarrow> f a b) e))"
  by (cases x) simp

text \<open>
  C6: The store of the control procedures stays well-formed under every S18 telecommand, whatever its
  data: at most 16 procedures, each of 1 to 32 steps, and what runs is loaded and at one of its steps.
\<close>
theorem s18_keeps_store_wellformed:
  assumes "obcp_ok e"
  shows "obcp_ok (snd (handle_s18 (emit_event cf n) subtype d e))"
proof -
  note q = quiet_emit_event [of cf n]
  have r: "obcp_ok (snd (f e))" if "rel_py (evt cf) f" for f :: "('a engine, bytes list) py"
    using that assms obcp_ok_kept by (auto simp: rel_py_def evt_def)
  have status: "rel_py (evt cf) (bind_py (gets procedures_status) (\<lambda>st. bind_py (of_result (pack_be 1 (int (length st)))) (\<lambda>c.
      bind_py (of_result (status_records st)) (\<lambda>rs. report 18 7 (c @ rs)))))"
    by (intro ev.frame_rules ev_report)
  have answer: "obcp_ok (snd (bind_py m (\<lambda>ok. if ok then ret [] else make_error_response t c) e))"
    if "obcp_ok (snd (m e))" for m :: "('a engine, bool) py" and t c
    using that by (rule then_answer) (rule ev_answer)
  have same: "obcp_ok (snd (make_error_response t c e))" "obcp_ok (snd (ret xs e))" for t c and xs :: "bytes list"
    using r [OF ev_make_error] r [OF ev.rel_ret] by simp_all
  show ?thesis
    unfolding handle_s18_def Let_def
    by (intro ok_if ok_sum ok_prod answer load_ok [OF q assms] delete_ok [OF q assms] start_ok [OF q assms]
        stop_ok [OF q assms] r [OF status] same)
qed

text \<open>One procedure of one step, not running.\<close>

definition loaded_engine :: "unit engine" where
  "loaded_engine = (bare_engine 4)\<lparr>en_procedures :=
     [(3, \<lparr>op_name = py ''safe'', op_steps = [\<lparr>os_delay = Fin False 0, os_tc = [0x18, 0x01]\<rparr>]\<rparr>)]\<rparr>"

lemma loaded_engine_ok: "obcp_ok loaded_engine"
  by (simp add: obcp_ok_def loaded_engine_def bare_simps procedure_ok_def MAX_STEPS_def MAX_PROCEDURES_def)

theorem s18_keeps_store_wellformed_witness:
  "obcp_ok (snd (handle_s18 (emit_event bare_config 5) 3 [0, 3] loaded_engine))"
  by (rule s18_keeps_store_wellformed) (rule loaded_engine_ok)

section \<open>The interpreter\<close>

text \<open>
  The wait left before step \<open>idx + j\<close>, when the steps before it have been executed, and what the elapsed
  time makes of a procedure: \<open>m\<close> steps are due, and either none is left or the next one has to wait.
\<close>

definition remaining :: "obcp_step list \<Rightarrow> nat \<Rightarrow> py_float \<Rightarrow> nat \<Rightarrow> py_float" where
  "remaining steps idx wait j = foldl fadd wait (map (\<lambda>i. os_delay (steps ! i)) [idx + 1 ..< idx + j + 1])"

definition falls_due :: "obcp_step list \<Rightarrow> nat \<Rightarrow> py_float \<Rightarrow> nat \<Rightarrow> bool" where
  "falls_due steps idx wait m \<longleftrightarrow> idx + m \<le> length steps \<and>
     (\<forall>j<m. fle (remaining steps idx wait j) (Fin False 0)) \<and>
     (idx + m < length steps \<longrightarrow> \<not> fle (remaining steps idx wait m) (Fin False 0))"

lemma remaining_step: "remaining steps idx wait (Suc j) = remaining steps (idx + 1) (fadd wait (os_delay (steps ! (idx + 1)))) j"
proof -
  have "[idx + 1 ..< idx + Suc j + 1] = (idx + 1) # [idx + 1 + 1 ..< idx + 1 + j + 1]" by (simp add: upt_conv_Cons)
  then show ?thesis by (simp add: remaining_def)
qed

lemma consume_meaning:
  "idx < length steps \<Longrightarrow> consume_steps steps idx wait = (due, p) \<Longrightarrow>
   \<exists>m. due = map (\<lambda>i. (i, os_tc (steps ! i))) [idx ..< idx + m] \<and> falls_due steps idx wait m \<and>
     p = (if idx + m = length steps then Finished else Waiting (idx + m) (remaining steps idx wait m))"
proof (induction steps idx wait arbitrary: due p rule: consume_steps.induct)
  case (1 steps idx wait)
  have zero: "remaining steps idx wait 0 = wait" by (simp add: remaining_def)
  consider "\<not> fle wait (Fin False 0)" | "fle wait (Fin False 0)" "idx + 1 = length steps"
    | "fle wait (Fin False 0)" "idx + 1 < length steps"
    using 1(2) by linarith
  then show ?case
  proof cases
    case 1
    then have "due = []" "p = Waiting idx wait" using \<open>consume_steps steps idx wait = (due, p)\<close>
      by (subst (asm) consume_steps.simps; simp)+
    then show ?thesis using 1 \<open>idx < length steps\<close> zero by (intro exI [of _ 0]) (simp add: falls_due_def)
  next
    case 2
    then have "due = [(idx, os_tc (steps ! idx))]" "p = Finished"
      using \<open>consume_steps steps idx wait = (due, p)\<close> by (subst (asm) consume_steps.simps; simp)+
    moreover have "length steps = Suc idx" using 2(2) by simp
    ultimately show ?thesis using 2(1) zero by (intro exI [of _ 1]) (simp add: falls_due_def)
  next
    case 3
    then have c: "\<not> length steps \<le> idx" "\<not> length steps \<le> idx + 1" by simp_all
    let ?w = "fadd wait (os_delay (steps ! (idx + 1)))"
    obtain due' p' where r: "consume_steps steps (idx + 1) ?w = (due', p')" by fastforce
    have "consume_steps steps idx wait = ((idx, os_tc (steps ! idx)) # due', p')"
      by (subst consume_steps.simps) (use 3 c r in \<open>simp del: consume_steps.simps\<close>)
    then have d: "due = (idx, os_tc (steps ! idx)) # due'" "p = p'"
      using \<open>consume_steps steps idx wait = (due, p)\<close> by (simp_all del: consume_steps.simps)
    obtain m where m: "due' = map (\<lambda>i. (i, os_tc (steps ! i))) [idx + 1 ..< idx + 1 + m]"
      "falls_due steps (idx + 1) ?w m"
      "p' = (if idx + 1 + m = length steps then Finished else Waiting (idx + 1 + m) (remaining steps (idx + 1) ?w m))"
      using "1.IH" [OF _ c _ r] 3 by auto
    have "fle (remaining steps idx wait j) (Fin False 0)" if "j < Suc m" for j
      using that 3(1) zero m(2) by (cases j) (auto simp: falls_due_def remaining_step)
    then have "falls_due steps idx wait (Suc m)"
      using m(2) by (simp add: falls_due_def remaining_step)
    moreover have "[idx ..< idx + Suc m] = idx # [idx + 1 ..< idx + 1 + m]" by (simp add: upt_conv_Cons)
    then have "due = map (\<lambda>i. (i, os_tc (steps ! i))) [idx ..< idx + Suc m]"
      unfolding d(1) m(1) by (simp del: upt_Suc)
    moreover have "p = (if idx + Suc m = length steps then Finished
        else Waiting (idx + Suc m) (remaining steps idx wait (Suc m)))"
      using d(2) m(3) by (simp add: remaining_step)
    ultimately show ?thesis by blast
  qed
qed

text \<open>The procedure and the run of a number, and how one tick leaves the run.\<close>

definition the_steps :: "'m engine \<Rightarrow> int \<Rightarrow> obcp_step list" where
  "the_steps e pid = (case map_of (en_procedures e) pid of Some p \<Rightarrow> op_steps p | None \<Rightarrow> [])"

definition the_run :: "'m engine \<Rightarrow> int \<Rightarrow> obcp_run" where
  "the_run e pid = the (map_of (en_running e) pid)"

definition counts_due :: "py_float \<Rightarrow> 'm engine \<Rightarrow> int \<Rightarrow> nat \<Rightarrow> bool" where
  "counts_due dt e pid m \<longleftrightarrow> falls_due (the_steps e pid) (or_step_index (the_run e pid)) (fsub (or_wait (the_run e pid)) dt) m"

definition due_of :: "'m engine \<Rightarrow> int \<Rightarrow> nat \<Rightarrow> (int \<times> nat \<times> bytes) list" where
  "due_of e pid m = map (\<lambda>i. (pid, i, os_tc (the_steps e pid ! i)))
     [or_step_index (the_run e pid) ..< or_step_index (the_run e pid) + m]"

definition ends_after :: "'m engine \<Rightarrow> int \<Rightarrow> nat \<Rightarrow> bool" where
  "ends_after e pid m \<longleftrightarrow> or_step_index (the_run e pid) + m = length (the_steps e pid)"

definition run_after :: "py_float \<Rightarrow> 'm engine \<Rightarrow> int \<Rightarrow> nat \<Rightarrow> obcp_run option" where
  "run_after dt e pid m =
     (if ends_after e pid m then None
      else let r = the_run e pid in Some (r\<lparr>or_step_index := or_step_index r + m,
        or_wait := remaining (the_steps e pid) (or_step_index r) (fsub (or_wait r) dt) m\<rparr>))"

lemma advance_one:
  assumes "obcp_ok e" "map_of (en_running e) pid \<noteq> None"
  shows "\<exists>m e'. advance_procedure dt pid e = (Inr (due_of e pid m, if ends_after e pid m then [pid] else []), e') \<and>
    obcp_ok e' \<and> counts_due dt e pid m \<and> en_procedures e' = en_procedures e \<and>
    (\<forall>k. map_of (en_running e') k = (if k = pid then run_after dt e pid m else map_of (en_running e) k))"
proof -
  obtain run where run: "map_of (en_running e) pid = Some run" using assms(2) by auto
  have "run_ok (en_procedures e) (pid, run)"
    using assms run by (auto simp: obcp_ok_def list_all_iff dest: map_of_SomeD)
  then obtain proc where proc: "map_of (en_procedures e) pid = Some proc" "or_step_index run < length (op_steps proc)"
    by (auto simp: run_ok_def split: option.splits)
  obtain due p where c: "consume_steps (op_steps proc) (or_step_index run) (fsub (or_wait run) dt) = (due, p)" by fastforce
  obtain m where m: "due = map (\<lambda>i. (i, os_tc (op_steps proc ! i))) [or_step_index run ..< or_step_index run + m]"
    "falls_due (op_steps proc) (or_step_index run) (fsub (or_wait run) dt) m"
    "p = (if or_step_index run + m = length (op_steps proc) then Finished
      else Waiting (or_step_index run + m) (remaining (op_steps proc) (or_step_index run) (fsub (or_wait run) dt) m))"
    using consume_meaning [OF proc(2) c] by blast
  have f: "the_run e pid = run" "the_steps e pid = op_steps proc" by (simp_all add: the_run_def the_steps_def run proc(1))
  have tagged: "map (\<lambda>(i, tc). (pid, i, tc)) due = due_of e pid m" by (simp add: m(1) due_of_def f)
  show ?thesis
  proof (cases "ends_after e pid m")
    case True
    let ?e = "e\<lparr>en_running := AList.delete pid (en_running e)\<rparr>"
    have "obcp_ok ?e" using runs_deleted [OF assms(1), of pid ?e] by (simp add: runs_now_def)
    moreover have "advance_procedure dt pid e = (Inr (due_of e pid m, [pid]), ?e)"
      using True run proc(1) c m(3) tagged by (simp add: advance_procedure_def ret_def ends_after_def f)
    ultimately show ?thesis
      using True m(2) by (intro exI [of _ m]) (simp add: counts_due_def f run_after_def delete_conv')
  next
    case False
    let ?run = "run\<lparr>or_step_index := or_step_index run + m,
      or_wait := remaining (op_steps proc) (or_step_index run) (fsub (or_wait run) dt) m\<rparr>"
    let ?e = "e\<lparr>en_running := AList.update pid ?run (en_running e)\<rparr>"
    have "or_step_index run + m < length (op_steps proc)"
      using False m(2) by (simp add: ends_after_def f falls_due_def)
    then have "obcp_ok ?e"
      using runs_updated [OF assms(1), of pid ?run ?e] proc(1) by (simp add: runs_now_def run_ok_def)
    moreover have "advance_procedure dt pid e = (Inr (due_of e pid m, []), ?e)"
      using False run proc(1) c m(3) tagged by (simp add: advance_procedure_def ret_def ends_after_def f)
    ultimately show ?thesis
      using False m(2) by (intro exI [of _ m]) (simp add: counts_due_def f run_after_def update_conv')
  qed
qed

lemma advance_each:
  "obcp_ok e \<Longrightarrow> distinct pids \<Longrightarrow> (\<forall>k \<in> set pids. map_of (en_running e) k \<noteq> None) \<Longrightarrow>
   \<exists>m e'. advance_all dt pids e = (Inr (concat (map (\<lambda>k. due_of e k (m k)) pids), filter (\<lambda>k. ends_after e k (m k)) pids), e') \<and>
     obcp_ok e' \<and> en_procedures e' = en_procedures e \<and> (\<forall>k \<in> set pids. counts_due dt e k (m k)) \<and>
     (\<forall>k. map_of (en_running e') k = (if k \<in> set pids then run_after dt e k (m k) else map_of (en_running e) k))"
proof (induction pids arbitrary: e)
  case Nil
  then show ?case by (auto simp: ret_def)
next
  case (Cons pid pids)
  obtain n e1 where e1: "advance_procedure dt pid e = (Inr (due_of e pid n, if ends_after e pid n then [pid] else []), e1)"
    "obcp_ok e1" "counts_due dt e pid n" "en_procedures e1 = en_procedures e"
    "\<And>k. map_of (en_running e1) k = (if k = pid then run_after dt e pid n else map_of (en_running e) k)"
    using advance_one [OF Cons.prems(1), of pid dt] Cons.prems(3) by auto
  have same: "the_run e1 k = the_run e k" "the_steps e1 k = the_steps e k" if "k \<noteq> pid" for k
    using that e1(4,5) by (simp_all add: the_run_def the_steps_def)
  have "\<forall>k \<in> set pids. map_of (en_running e1) k \<noteq> None" using Cons.prems(2,3) e1(5) by auto
  note rest = Cons.IH [OF e1(2) _ this]
  obtain m e2 where m: "advance_all dt pids e1 =
      (Inr (concat (map (\<lambda>k. due_of e1 k (m k)) pids), filter (\<lambda>k. ends_after e1 k (m k)) pids), e2)"
    "obcp_ok e2" "en_procedures e2 = en_procedures e1" "\<forall>k \<in> set pids. counts_due dt e1 k (m k)"
    "\<forall>k. map_of (en_running e2) k = (if k \<in> set pids then run_after dt e1 k (m k) else map_of (en_running e1) k)"
    using rest Cons.prems(2) by auto
  let ?m = "m(pid := n)"
  have other: "due_of e1 k (m k) = due_of e k (?m k)" "ends_after e1 k (m k) = ends_after e k (?m k)"
    "counts_due dt e1 k (m k) = counts_due dt e k (?m k)" "run_after dt e1 k (m k) = run_after dt e k (?m k)"
    if "k \<in> set pids" for k
  proof -
    have "k \<noteq> pid" using that Cons.prems(2) by auto
    then show "due_of e1 k (m k) = due_of e k (?m k)" "ends_after e1 k (m k) = ends_after e k (?m k)"
      "counts_due dt e1 k (m k) = counts_due dt e k (?m k)" "run_after dt e1 k (m k) = run_after dt e k (?m k)"
      using same by (simp_all add: due_of_def ends_after_def counts_due_def run_after_def)
  qed
  have lists: "map (\<lambda>k. due_of e1 k (m k)) pids = map (\<lambda>k. due_of e k (?m k)) pids"
    "filter (\<lambda>k. ends_after e1 k (m k)) pids = filter (\<lambda>k. ends_after e k (?m k)) pids"
    using other by (auto intro: map_cong filter_cong)
  have "advance_all dt (pid # pids) e =
      (Inr (concat (map (\<lambda>k. due_of e k (?m k)) (pid # pids)), filter (\<lambda>k. ends_after e k (?m k)) (pid # pids)), e2)"
    using e1(1) m(1) by (simp add: bind_py_def ret_def lists del: fun_upd_apply) simp
  moreover have "map_of (en_running e2) k =
      (if k \<in> set (pid # pids) then run_after dt e k (?m k) else map_of (en_running e) k)" for k
    using m(5) e1(5) other(4) Cons.prems(2) by auto
  moreover have "\<forall>k \<in> set (pid # pids). counts_due dt e k (?m k)" using m(4) e1(3) other(3) by auto
  ultimately show ?case using m(2,3) e1(4) by (intro exI [of _ ?m] exI [of _ e2]) simp
qed

text \<open>
  C32: A tick of the procedure interpreter runs exactly the steps whose delays have elapsed. With a
  well-formed store it advances every running procedure without an exception, whatever the delays and the
  elapsed time are: of each procedure, as many steps from its current one on are due as the elapsed time and
  their delays allow, in order; a procedure with steps left waits for the next one with its time counted
  down, and one with none left is no longer running. The store stays well-formed, and what is left of the
  tick is to execute the due steps, one procedure after the other, and to report the completed procedures.
\<close>
theorem interpreter_runs_due_steps:
  assumes "obcp_ok e"
  shows "let pids = map fst (en_running e) in \<exists>m e'. tick_procedures emit send message dt e =
      seq_py (each (execute_step emit send message) (concat (map (\<lambda>k. due_of e k (m k)) pids)))
        (each (\<lambda>pid. bind_py (gets (procedure_name pid)) (\<lambda>name.
            obcp_emit emit 0x0701 1 (obcp_text pid name '' completed''))) (filter (\<lambda>k. ends_after e k (m k)) pids)) e' \<and>
    obcp_ok e' \<and> en_procedures e' = en_procedures e \<and>
    (\<forall>k \<in> set pids. counts_due dt e k (m k) \<and> map_of (en_running e') k = run_after dt e k (m k))"
proof -
  define pids where "pids = map fst (en_running e)"
  have "distinct pids" using assms(1) by (simp add: pids_def obcp_ok_def)
  moreover have "\<forall>k \<in> set pids. map_of (en_running e) k \<noteq> None" by (auto simp: pids_def map_of_eq_None_iff)
  note advanced = advance_each [OF assms(1) calculation this, of dt]
  then obtain m e' where m: "advance_all dt pids e =
      (Inr (concat (map (\<lambda>k. due_of e k (m k)) pids), filter (\<lambda>k. ends_after e k (m k)) pids), e')"
    "obcp_ok e'" "en_procedures e' = en_procedures e" "\<forall>k \<in> set pids. counts_due dt e k (m k)"
    "\<forall>k. map_of (en_running e') k = (if k \<in> set pids then run_after dt e k (m k) else map_of (en_running e) k)"
    by blast
  then show ?thesis
    unfolding Let_def
    by (intro exI [of _ m] exI [of _ e'])
      (simp add: tick_procedures_def bind_py_simps(2) [where m = "advance_all dt pids", OF m(1)] flip: pids_def)
qed

text \<open>A procedure that has waited one of its five seconds.\<close>

definition waiting_engine :: "unit engine" where
  "waiting_engine = loaded_engine\<lparr>en_running := [(3, \<lparr>or_step_index = 0, or_wait = Fin False 5, or_param = 0\<rparr>)]\<rparr>"

theorem interpreter_runs_due_steps_witness:
  "\<exists>e'. tick_procedures (emit_event bare_config 5) (\<lambda>_. ret ()) (\<lambda>_. ''x'') (Fin False 1) waiting_engine = (Inr (), e') \<and>
     map_of (en_running e') 3 = Some \<lparr>or_step_index = 0, or_wait = fsub (Fin False 5) (Fin False 1), or_param = 0\<rparr>"
proof -
  let ?e = "waiting_engine"
  have w: "fsub (Fin False 5) (Fin False 1) = Fin False 4"
    by (simp add: fadd_def fneg_def fl_def fin_val_def round64_numeral)
  have f: "en_running ?e = [(3, the_run ?e 3)]" "the_run ?e 3 = \<lparr>or_step_index = 0, or_wait = Fin False 5, or_param = 0\<rparr>"
    "the_steps ?e 3 = [\<lparr>os_delay = Fin False 0, os_tc = [0x18, 0x01]\<rparr>]"
    by (simp_all add: waiting_engine_def the_run_def the_steps_def loaded_engine_def)
  have ok: "obcp_ok ?e"
    using loaded_engine_ok by (simp add: obcp_ok_def loaded_engine_def run_ok_def waiting_engine_def)
  have "remaining steps i x 0 = x" for steps i x by (simp add: remaining_def)
  moreover have "\<not> fle (Fin False 4) (Fin False 0)" by (simp add: fle_def fin_val_def)
  ultimately have d: "m = 0" if "counts_due (Fin False 1) ?e 3 m" for m
    using that unfolding counts_due_def falls_due_def f obcp_run.simps w by (cases m) auto
  from interpreter_runs_due_steps [OF ok, of "emit_event bare_config 5" "\<lambda>_. ret ()" "\<lambda>_. ''x''" "Fin False 1"]
  obtain m e' where e': "tick_procedures (emit_event bare_config 5) (\<lambda>_. ret ()) (\<lambda>_. ''x'') (Fin False 1) ?e =
      seq_py (each (execute_step (emit_event bare_config 5) (\<lambda>_. ret ()) (\<lambda>_. ''x'')) (due_of ?e 3 (m 3)))
        (each (\<lambda>pid. bind_py (gets (procedure_name pid)) (\<lambda>name.
            obcp_emit (emit_event bare_config 5) 0x0701 1 (obcp_text pid name '' completed'')))
          (filter (\<lambda>k. ends_after ?e k (m k)) [3])) e'"
    "counts_due (Fin False 1) ?e 3 (m 3)" "map_of (en_running e') 3 = run_after (Fin False 1) ?e 3 (m 3)"
    by (auto simp: f(1) Let_def)
  then show ?thesis
    using d [OF e'(2)] by (simp add: due_of_def ends_after_def run_after_def f remaining_def Let_def ret_def del: emit_event.simps)
qed

end
