(* ===== verification/Memory_Rules.thy ===== *)
theory Memory_Rules
  imports Downlink_Rules
begin

text \<open>
  Memory management end to end: what a MEM_LOAD telecommand writes, a MEM_DUMP telecommand reports,
  byte for byte, through the request decoder, the image with its pages and fills, and the packet
  builder.
\<close>

lemma report_packet:
  assumes "srv \<in> {0..<256}" "sub \<in> {0..<256}" "length d < 65528"
  shows "\<exists>p. report srv sub d e = (Inr [p], e\<lparr>en_builder := tb_next (en_builder e)\<rparr>) \<and>
    report_kind p = Some (srv, sub) \<and> report_data p = d"
proof -
  obtain p where "pack_tm srv sub d 0 (en_builder e) = (Inr p, tb_next (en_builder e))"
    using pack_tm_reads [of srv sub 0 d "en_builder e"] assms by auto
  then show ?thesis
    using pack_tm_kind pack_tm_data by (fastforce simp: report_def bind_py_def zoom_def ret_def)
qed

lemma region_mapped: "region_at m addr len = Some r \<Longrightarrow> is_mapped m addr len"
  by (simp add: is_mapped_def)

definition load_data :: "byte \<Rightarrow> int \<Rightarrow> bytes \<Rightarrow> bytes" where
  "load_data mem_id addr payload = mem_id # be_bytes 4 addr @ payload"

definition dump_data :: "byte \<Rightarrow> int \<Rightarrow> nat \<Rightarrow> bytes" where
  "dump_data mem_id addr n = mem_id # be_bytes 4 addr @ be_bytes 2 (int n)"

lemma decode_load:
  assumes "0 \<le> addr" "addr < 2 ^ 32" "payload \<noteq> []" "is_mapped m addr (int (length payload))"
  shows "decode_mem_request m False (load_data mem_id addr payload) = Some (uint mem_id, addr, 0, payload)"
proof -
  have "max 1 (int (length payload)) = int (length payload)" using assms(3) by (cases payload) auto
  then show ?thesis
    using assms by (simp add: decode_mem_request_def mem_candidates_def load_data_def Let_def pyslice_def
        be_int_be_bytes mem_probe_def del: be_bytes.simps)
qed

lemma decode_dump:
  assumes "0 \<le> addr" "addr < 2 ^ 32" "n < 65536" "is_mapped m addr (int n)"
  shows "decode_mem_request m True (dump_data mem_id addr n) = Some (uint mem_id, addr, int n, [])"
  using assms by (simp add: decode_mem_request_def mem_candidates_def dump_data_def Let_def pyslice_def
      be_int_be_bytes mem_probe_def del: be_bytes.simps)

text \<open>What a load needs: data for a writable region that is not bound to a model, within the limits.\<close>

definition accepts_load :: "memory_image \<Rightarrow> int \<Rightarrow> bytes \<Rightarrow> bool" where
  "accepts_load img addr payload \<longleftrightarrow>
     0 \<le> addr \<and> addr < 2 ^ 32 \<and> payload \<noteq> [] \<and> length payload < 65522 \<and>
     length payload \<le> lim_load (mm_limits (mi_map img)) \<and> length payload \<le> lim_dump (mm_limits (mi_map img)) \<and>
     (case region_at (mi_map img) addr (int (length payload)) of
        Some r \<Rightarrow> writable r \<and> rg_binding r = None | None \<Rightarrow> False)"

text \<open>
  C4: What is loaded is dumped. With a page-safe memory map and an image of whole pages, a MEM_LOAD in the
  format with a memory id (not the historical one) of data that is not empty, no longer than the load limit,
  the dump limit and 65521 bytes, and lies at a 32-bit address wholly in a writable region that is not bound
  to a model, is answered by a progress report, and a MEM_DUMP of the same range, in the same format, then
  reports the address, the length and the data, byte for byte, in a packet the ground accepts.
\<close>
theorem loaded_data_is_dumped:
  assumes "page_safe (mi_map (en_memory e))" "image_ok (en_memory e)" "accepts_load (en_memory e) addr payload"
  shows "\<exists>p1 e1 p2 e2. handle_s6 cf 2 (load_data i addr payload) e = (Inr [p1], e1) \<and> report_kind p1 = Some (1, 5) \<and>
     handle_s6 cf 5 (dump_data k addr (length payload)) e1 = (Inr [p2], e2) \<and> report_kind p2 = Some (6, 6) \<and>
     report_data p2 = be_bytes 4 addr @ be_bytes 2 (int (length payload)) @ payload"
proof -
  let ?n = "length payload"
  obtain r where a: "0 \<le> addr" "addr < 2 ^ 32" "payload \<noteq> []" "?n < 65522"
    "?n \<le> lim_load (mm_limits (mi_map (en_memory e)))" "?n \<le> lim_dump (mm_limits (mi_map (en_memory e)))"
    "region_at (mi_map (en_memory e)) addr (int ?n) = Some r" "writable r" "rg_binding r = None"
    using assms(3) by (auto simp: accepts_load_def split: option.splits)
  obtain img where w: "write_memory (cf_sys cf) addr payload (en_memory e, en_models e) = (Inr (), (img, en_models e))"
    "mi_map img = mi_map (en_memory e)" "read_memory (cf_sys cf) (en_models e) img addr ?n = Inr payload"
    using memory_written [OF assms(1,2) a(7,9), of "cf_sys cf" "en_models e"] by blast
  let ?e = "e\<lparr>en_memory := img\<rparr>"
  obtain p1 where p1: "report 1 5 (be_bytes 2 0 @ be_bytes 1 1) ?e =
      (Inr [p1], ?e\<lparr>en_builder := tb_next (en_builder ?e)\<rparr>)" "report_kind p1 = Some (1, 5)"
    using report_packet [of 1 5 "be_bytes 2 0 @ be_bytes 1 1" ?e] by (auto simp del: be_bytes.simps)
  let ?e1 = "?e\<lparr>en_builder := tb_next (en_builder ?e)\<rparr>"
  let ?d = "be_bytes 4 addr @ be_bytes 2 (int ?n) @ payload"
  obtain p2 e2 where p2: "report 6 6 ?d ?e1 = (Inr [p2], e2)" "report_kind p2 = Some (6, 6)" "report_data p2 = ?d"
    using report_packet [of 6 6 ?d ?e1] a(4) by (auto simp del: be_bytes.simps)
  have "handle_s6 cf 2 (load_data i addr payload) e = (Inr [p1], ?e1)"
    using a p1 w(1) decode_load [OF a(1-3) region_mapped [OF a(7)]]
    by (simp add: handle_s6_def decoded_def mem_load_def on_memory_def zoom_def seq_py_def bind_py_def gets_def
        generate_s1_progress_def of_result_def load_data_def del: be_bytes.simps)
  moreover have "handle_s6 cf 5 (dump_data k addr ?n) ?e1 = (Inr [p2], e2)"
    using a p2(1) w(2,3) decode_dump [OF a(1,2) _ region_mapped [OF a(7)]] region_mapped [OF a(7)]
    by (simp add: handle_s6_def decoded_def mem_fetch_def mem_dump_def read_image_def bind_py_def gets_def
        of_result_def dump_data_def del: be_bytes.simps)
  ultimately show ?thesis using p1(2) p2(2,3) by blast
qed

text \<open>The built-in memory map.\<close>

definition mapped_engine :: "unit engine" where
  "mapped_engine = (bare_engine 4)\<lparr>en_memory := \<lparr>mi_map = default_map, mi_pages = []\<rparr>\<rparr>"

theorem loaded_data_is_dumped_witness:
  "\<exists>p1 e1 p2 e2. handle_s6 bare_config 2 (load_data 0 0x100100 [1, 2, 3]) mapped_engine = (Inr [p1], e1) \<and>
     report_kind p1 = Some (1, 5) \<and>
     handle_s6 bare_config 5 (dump_data 0 0x100100 (length [1, 2, 3 :: byte])) e1 = (Inr [p2], e2) \<and>
     report_kind p2 = Some (6, 6) \<and>
     report_data p2 = be_bytes 4 0x100100 @ be_bytes 2 (int (length [1, 2, 3 :: byte])) @ [1, 2, 3]"
proof (rule loaded_data_is_dumped)
  show "page_safe (mi_map (en_memory mapped_engine))" "image_ok (en_memory mapped_engine)"
    by (simp_all add: mapped_engine_def default_map_page_safe image_ok_def)
  show "accepts_load (en_memory mapped_engine) 0x100100 [1, 2, 3]"
    by (simp add: accepts_load_def mapped_engine_def default_map_def default_limits_def region_at_def mk_region_def
        region_contains_def rg_end_def writable_def)
qed

section \<open>Protection\<close>

definition same_memory :: "'m engine \<Rightarrow> 'm engine \<Rightarrow> bool" where
  "same_memory e e' \<longleftrightarrow> en_memory e' = en_memory e \<and> en_models e' = en_models e"

interpretation sm: py_frame same_memory
  by unfold_locales (simp_all add: same_memory_def)

lemma same_report: "rel_py same_memory (report srv sub d)"
  unfolding report_def by (intro sm.frame_rules sm.rel_zoom) (simp add: same_memory_def)

lemma same_refuse: "rel_py same_memory (refuse code reason)"
  unfolding refuse_def generate_s1_exec_fail_def
  by (intro sm.frame_rules same_report sm.rel_modify) (simp_all add: same_memory_def)

lemma same_fetch:
  "(\<And>a n. rel_py same_memory (act a n)) \<Longrightarrow> rel_py same_memory (mem_fetch verb what limit act req m)"
  unfolding mem_fetch_def by (intro sm.frame_rules same_refuse)

lemma same_reads: "rel_py same_memory (mem_dump cf addr len)" "rel_py same_memory (mem_check cf addr len)"
  unfolding mem_dump_def mem_check_def read_image_def by (intro sm.frame_rules same_report)+

lemma same_decoded:
  "(\<And>req m. rel_py same_memory (act req m)) \<Longrightarrow> rel_py same_memory (decoded verb with_length d act)"
  unfolding decoded_def by (intro sm.frame_rules same_refuse)

lemma load_writes:
  assumes "\<not> same_memory e (snd (mem_load cf (mem_id, addr, len, payload) m e))"
  shows "payload \<noteq> [] \<and> length payload \<le> lim_load (mm_limits m) \<and>
    (case region_at m addr (int (length payload)) of None \<Rightarrow> False | Some r \<Rightarrow> writable r)"
proof -
  have r: "same_memory e (snd (refuse code reason e))" for code reason
    using same_refuse [of code reason] unfolding rel_py_def by blast
  show ?thesis using assms unfolding mem_load_def
    by (auto simp: r Let_def split: if_splits option.splits)
qed

text \<open>
  C5: Memory is protected: whatever its data, an S6 telecommand that changes the memory image or a model is
  a MEM_LOAD whose decoded request has data within the load limit for a declared region that is writable.
  Every other request, malformed, too long, unmapped, read-only or only reading, leaves both unchanged.
\<close>
theorem only_writable_memory_changes:
  "en_memory (snd (handle_s6 cf subtype d e)) = en_memory e \<and> en_models (snd (handle_s6 cf subtype d e)) = en_models e \<or>
   subtype = 2 \<and>
   (case decode_mem_request (mi_map (en_memory e)) False d of
      None \<Rightarrow> False
    | Some (_, addr, _, payload) \<Rightarrow> payload \<noteq> [] \<and> length payload \<le> lim_load (mm_limits (mi_map (en_memory e))) \<and>
        (case region_at (mi_map (en_memory e)) addr (int (length payload)) of
           None \<Rightarrow> False | Some r \<Rightarrow> writable r))"
proof (cases "same_memory e (snd (handle_s6 cf subtype d e))")
  case True
  then show ?thesis by (simp add: same_memory_def)
next
  case False
  have r: "same_memory e (snd (f e))" if "rel_py same_memory f" for f :: "('a engine, bytes list) py"
    using that by (simp add: rel_py_def)
  have reads: "same_memory e (snd (decoded verb b d (\<lambda>req m. mem_fetch verb what (lim m) (mem_dump cf) req m) e))"
    "same_memory e (snd (decoded verb b d (\<lambda>req m. mem_fetch verb what (lim m) (mem_check cf) req m) e))"
    for verb b what lim
    by (intro r same_decoded same_fetch same_reads)+
  have two: "subtype = 2" and d: "\<not> same_memory e (snd (decoded ''S6 MEM_LOAD'' False d (mem_load cf) e))"
    using False reads r [OF sm.rel_ret] by (auto simp: handle_s6_def split: if_splits)
  obtain req where q: "decode_mem_request (mi_map (en_memory e)) False d = Some req"
    using d r [OF same_refuse] by (auto simp: decoded_def split: option.splits)
  then have "\<not> same_memory e (snd (mem_load cf req (mi_map (en_memory e)) e))"
    using d by (simp add: decoded_def)
  then show ?thesis using load_writes two q by (cases req) fastforce
qed

end
