(* ===== verification/Fdir.thy ===== *)
theory Fdir
  imports Subsystems On_Board Float_Arith
begin

text \<open>
  Fault detection, isolation and recovery (\<open>smo_simulator/fdir.py\<close>): the conditions of the fault
  rules, \<open>FaultPropagator\<close> with its recovery states, \<open>LoadSheddingManager\<close> and
  \<open>ProcedureExecutor\<close>. The callbacks that act on the subsystems are functions over a type \<open>'w\<close>;
  an exception one of them raises is caught where the code catches it. Thresholds and times are
  Python floats; \<open>None\<close> stands for a missing entry of a configuration dictionary.
\<close>

section \<open>Conditions\<close>

definition starts_with :: "string \<Rightarrow> string \<Rightarrow> bool" where
  "starts_with s p \<longleftrightarrow> take (length p) s = p"

definition evaluate_condition :: "string \<Rightarrow> py_float \<Rightarrow> py_float \<Rightarrow> bool" where
  "evaluate_condition condition v t =
     (let cond = strip_text condition in
      if starts_with cond ''<'' then fless v t
      else if starts_with cond ''>'' then fless t v
      else if starts_with cond ''=='' then fless (fabs (fsub v t)) (fl (1 / 1000))
      else False)"

record cascade_config =
  cc_target :: "string option"
  cc_action :: "string option"
  cc_description :: "pytext option"
  cc_delay :: "py_float option"

record requirement =
  rq_param :: "string option"
  rq_min :: "py_float option"

record fault_rule =
  fr_fault_id :: string
  fr_description :: pytext
  fr_primary_param :: string
  fr_threshold :: "py_float option"
  fr_cascades :: "cascade_config list"
  fr_condition :: string
  fr_flags :: "int list"
  fr_persist :: py_float
  fr_recovery :: string
  fr_requires :: "requirement option"

text \<open>
  \<open>any((mask >> b) & 1 for b in flags)\<close>; a negative shift count raises \<open>ValueError\<close>. A value that is
  not a number gives no mask, an infinite one raises \<open>OverflowError\<close>.
\<close>

fun any_flag :: "int \<Rightarrow> int list \<Rightarrow> bool result" where
  "any_flag m [] = Inr False"
| "any_flag m (b # bs) =
     (if b < 0 then Inl ValueError else if bit m (nat b) then Inr True else any_flag m bs)"

definition evaluate_rule :: "fault_rule \<Rightarrow> py_float \<Rightarrow> bool result" where
  "evaluate_rule r v =
     (let cond = strip_text (if fr_condition r = [] then ''<'' else fr_condition r) in
      if cond = ''bitset'' then
        (case trunc_float v of Inl ValueError \<Rightarrow> Inr False | Inl err \<Rightarrow> Inl err
           | Inr m \<Rightarrow> any_flag m (fr_flags r))
      else case fr_threshold r of None \<Rightarrow> Inr False
        | Some t \<Rightarrow> Inr
            (if starts_with cond ''<'' then fless v t
             else if starts_with cond ''>'' then fless t v
             else if starts_with cond ''=='' then fless (fabs (fsub v t)) (Fin False (1 / 2))
             else False))"

section \<open>Faults and recoveries\<close>

datatype run_state = St_idle | St_running | St_complete | St_failed

record recovery_state =
  rs_fault_id :: string
  rs_response :: string
  rs_timestamp :: py_float
  rs_attempts :: int
  rs_max_attempts :: int
  rs_last_attempt :: py_float
  rs_state :: run_state
  rs_level :: int
  rs_level_started :: py_float
  rs_exec_id :: string
  rs_procedure :: string
  rs_group :: string

record fault_propagator =
  fp_rules :: "(string \<times> fault_rule) list"
  fp_active :: "(string \<times> py_float) list"
  fp_recoveries :: "(string \<times> recovery_state) list"

definition new_propagator :: fault_propagator where
  "new_propagator = \<lparr>fp_rules = [], fp_active = [], fp_recoveries = []\<rparr>"

definition register_rule :: "fault_rule \<Rightarrow> fault_propagator \<Rightarrow> fault_propagator" where
  "register_rule r p = p\<lparr>fp_rules := AList.update (fr_fault_id r) r (fp_rules p)\<rparr>"

text \<open>A cascading action on its way; the engine adds when it is due.\<close>

record cascade =
  ca_fault_id :: string
  ca_target :: string
  ca_action :: string
  ca_description :: pytext
  ca_delay :: py_float
  ca_timestamp :: py_float
  ca_due :: "py_float option"

definition make_cascade :: "string \<Rightarrow> py_float \<Rightarrow> cascade_config \<Rightarrow> cascade result" where
  "make_cascade fault_id now c =
     (case cc_target c of None \<Rightarrow> Inl KeyError | Some target \<Rightarrow>
        (case cc_action c of None \<Rightarrow> Inl KeyError | Some action \<Rightarrow>
           Inr \<lparr>ca_fault_id = fault_id, ca_target = target, ca_action = action,
                ca_description = (case cc_description c of Some d \<Rightarrow> d | None \<Rightarrow> []),
                ca_delay = (case cc_delay c of Some d \<Rightarrow> d | None \<Rightarrow> f0),
                ca_timestamp = now, ca_due = None\<rparr>))"

fun make_cascades :: "string \<Rightarrow> py_float \<Rightarrow> cascade_config list \<Rightarrow> cascade list result" where
  "make_cascades fault_id now [] = Inr []"
| "make_cascades fault_id now (c # cs) = bind_result (make_cascade fault_id now c) (\<lambda>x.
     bind_result (make_cascades fault_id now cs) (\<lambda>xs. Inr (x # xs)))"

definition fault_active :: "string \<Rightarrow> fault_propagator \<Rightarrow> bool" where
  "fault_active fault_id p \<longleftrightarrow> map_of (fp_active p) fault_id \<noteq> None"

definition detect_fault :: "string \<Rightarrow> py_float \<Rightarrow> (fault_propagator, cascade list) py" where
  "detect_fault fault_id now p =
     (if fault_active fault_id p then (Inr [], p)
      else (case map_of (fp_rules p) fault_id of None \<Rightarrow> Inr []
              | Some r \<Rightarrow> make_cascades fault_id now (fr_cascades r),
            p\<lparr>fp_active := AList.update fault_id now (fp_active p)\<rparr>))"

definition clear_fault :: "string \<Rightarrow> fault_propagator \<Rightarrow> fault_propagator" where
  "clear_fault fault_id p = p\<lparr>fp_active := AList.delete fault_id (fp_active p)\<rparr>"

definition active_faults :: "fault_propagator \<Rightarrow> string list" where
  "active_faults p = map fst (fp_active p)"

definition get_recovery_state :: "string \<Rightarrow> fault_propagator \<Rightarrow> recovery_state option" where
  "get_recovery_state fault_id p = map_of (fp_recoveries p) fault_id"

definition new_recovery :: "string \<Rightarrow> string \<Rightarrow> py_float \<Rightarrow> int \<Rightarrow> recovery_state" where
  "new_recovery fault_id response now max_attempts =
     \<lparr>rs_fault_id = fault_id, rs_response = response, rs_timestamp = now, rs_attempts = 0,
      rs_max_attempts = max_attempts, rs_last_attempt = f0, rs_state = St_idle, rs_level = 0,
      rs_level_started = f0, rs_exec_id = [], rs_procedure = [], rs_group = []\<rparr>"

definition set_recovery :: "string \<Rightarrow> recovery_state \<Rightarrow> fault_propagator \<Rightarrow> fault_propagator" where
  "set_recovery fault_id rs p = p\<lparr>fp_recoveries := AList.update fault_id rs (fp_recoveries p)\<rparr>"

definition create_recovery_state ::
  "string \<Rightarrow> string \<Rightarrow> py_float \<Rightarrow> int \<Rightarrow> fault_propagator \<Rightarrow> fault_propagator" where
  "create_recovery_state fault_id response now max_attempts =
     set_recovery fault_id (new_recovery fault_id response now max_attempts)"

definition increment_recovery_attempt ::
  "string \<Rightarrow> py_float \<Rightarrow> fault_propagator \<Rightarrow> bool \<times> fault_propagator" where
  "increment_recovery_attempt fault_id now p =
     (case get_recovery_state fault_id p of None \<Rightarrow> (False, p)
      | Some rs \<Rightarrow> (rs_attempts rs + 1 < rs_max_attempts rs,
          set_recovery fault_id (rs\<lparr>rs_attempts := rs_attempts rs + 1, rs_last_attempt := now\<rparr>) p))"

definition fault_detected_at :: "string \<Rightarrow> fault_propagator \<Rightarrow> py_float option" where
  "fault_detected_at fault_id p = map_of (fp_active p) fault_id"

text \<open>What a breakpoint keeps of the propagator.\<close>

type_synonym propagator_state = "(string \<times> py_float) list \<times> (string \<times> recovery_state) list"

definition propagator_get_state :: "fault_propagator \<Rightarrow> propagator_state" where
  "propagator_get_state p = (fp_active p, fp_recoveries p)"

definition propagator_set_state :: "propagator_state \<Rightarrow> fault_propagator \<Rightarrow> fault_propagator" where
  "propagator_set_state st p = p\<lparr>fp_active := fst st, fp_recoveries := snd st\<rparr>"

section \<open>Load shedding\<close>

record shed_command =
  sc_subsystem :: "string option"
  sc_command :: "string option"
  sc_value :: "pyval option"

record stage_config =
  sg_name :: "pytext option"
  sg_commands :: "shed_command list"

record load_shedding =
  ls_stage :: int
  ls_config :: "(int \<times> stage_config) list"
  ls_last_change :: py_float
  ls_thresholds :: "py_float list"

definition DEFAULT_SOC_STAGE_THRESHOLDS :: "py_float list" where
  "DEFAULT_SOC_STAGE_THRESHOLDS = [Fin False 30, Fin False 20, Fin False 10]"

definition new_load_shedding :: load_shedding where
  "new_load_shedding = \<lparr>ls_stage = 0, ls_config = [], ls_last_change = f0,
     ls_thresholds = DEFAULT_SOC_STAGE_THRESHOLDS\<rparr>"

text \<open>\<open>sorted(vals, reverse=True)\<close>; equal values keep their order.\<close>

fun insert_desc :: "py_float \<Rightarrow> py_float list \<Rightarrow> py_float list" where
  "insert_desc x [] = [x]"
| "insert_desc x (y # ys) = (if fless x y then y # insert_desc x ys else x # y # ys)"

definition sort_desc :: "py_float list \<Rightarrow> py_float list" where
  "sort_desc xs = foldr insert_desc xs []"

definition set_soc_stage_thresholds :: "py_float option list \<Rightarrow> load_shedding \<Rightarrow> load_shedding" where
  "set_soc_stage_thresholds ts l =
     (let vals = [t. Some t \<leftarrow> ts] in
      if length vals \<noteq> 3 then l else l\<lparr>ls_thresholds := sort_desc vals\<rparr>)"

definition register_stage_config :: "int \<Rightarrow> stage_config \<Rightarrow> load_shedding \<Rightarrow> load_shedding" where
  "register_stage_config stage c l = l\<lparr>ls_config := AList.update stage c (ls_config l)\<rparr>"

text \<open>Unpacking a list of another length than three raises \<open>ValueError\<close>.\<close>

definition get_required_stage :: "load_shedding \<Rightarrow> py_float \<Rightarrow> int result" where
  "get_required_stage l soc = (case ls_thresholds l of
       [t1, t2, t3] \<Rightarrow> Inr (if fle t1 soc then 0 else if fle t2 soc then 1 else if fle t3 soc then 2 else 3)
     | _ \<Rightarrow> Inl ValueError)"

definition update_stage :: "py_float \<Rightarrow> py_float \<Rightarrow> (load_shedding, int option) py" where
  "update_stage soc now =
     bind_py (\<lambda>l. (get_required_stage l soc, l)) (\<lambda>required.
     bind_py (gets ls_stage) (\<lambda>current.
       if required \<noteq> current
       then seq_py (modify (\<lambda>l. l\<lparr>ls_stage := required, ls_last_change := now\<rparr>)) (ret (Some required))
       else ret None))"

text \<open>\<open>try: callback(\<dots>) except Exception\<close>; an unknown action is skipped.\<close>

definition attempt :: "('w, unit) py \<Rightarrow> ('w, unit) py" where
  "attempt m = catch m (\<lambda>_. ret ())"

definition shed_step :: "(string \<Rightarrow> (pyval \<Rightarrow> ('w, unit) py) option) \<Rightarrow> shed_command \<Rightarrow> ('w, unit) py" where
  "shed_step callbacks c =
     (case sc_subsystem c of None \<Rightarrow> raise KeyError | Some s \<Rightarrow>
      (case sc_command c of None \<Rightarrow> raise KeyError | Some k \<Rightarrow>
       (case callbacks (s @ ''_'' @ k) of None \<Rightarrow> ret ()
        | Some cb \<Rightarrow> attempt (cb (case sc_value c of Some v \<Rightarrow> v | None \<Rightarrow> VNone)))))"

definition execute_stage ::
  "(string \<Rightarrow> (pyval \<Rightarrow> ('w, unit) py) option) \<Rightarrow> load_shedding \<Rightarrow> int \<Rightarrow> ('w, unit) py" where
  "execute_stage callbacks l stage =
     (case map_of (ls_config l) stage of None \<Rightarrow> ret () | Some c \<Rightarrow> each (shed_step callbacks) (sg_commands c))"

definition stage_name :: "load_shedding \<Rightarrow> int \<Rightarrow> pytext" where
  "stage_name l stage =
     (case map_of (ls_config l) stage of
        Some c \<Rightarrow> (case sg_name c of Some n \<Rightarrow> n | None \<Rightarrow> py (''Stage '' @ str_int stage))
      | None \<Rightarrow> py (''Stage '' @ str_int stage))"

definition shedding_get_state :: "load_shedding \<Rightarrow> int \<times> py_float" where
  "shedding_get_state l = (ls_stage l, ls_last_change l)"

definition shedding_set_state :: "int option \<times> py_float option \<Rightarrow> load_shedding \<Rightarrow> load_shedding" where
  "shedding_set_state st l =
     l\<lparr>ls_stage := (case fst st of Some k \<Rightarrow> k | None \<Rightarrow> 0),
       ls_last_change := (case snd st of Some t \<Rightarrow> t | None \<Rightarrow> f0)\<rparr>"

section \<open>Procedures\<close>

record procedure_step =
  ps_command :: string
  ps_params :: command
  ps_delay :: py_float
  ps_executed :: bool

record procedure_execution =
  pe_exec_id :: string
  pe_proc_id :: string
  pe_steps :: "procedure_step list"
  pe_start :: py_float
  pe_state :: run_state
  pe_current :: int
  pe_completed :: int

text \<open>A registered procedure is its list of steps, or \<open>None\<close> for an empty configuration.\<close>

record procedure_executor =
  px_procedures :: "(string \<times> procedure_step list option) list"
  px_active :: "(string \<times> procedure_execution) list"
  px_last_finished :: "procedure_execution option"

definition new_executor :: procedure_executor where
  "new_executor = \<lparr>px_procedures = [], px_active = [], px_last_finished = None\<rparr>"

definition register_procedure ::
  "string \<Rightarrow> procedure_step list option \<Rightarrow> procedure_executor \<Rightarrow> procedure_executor" where
  "register_procedure proc_id c x = x\<lparr>px_procedures := AList.update proc_id c (px_procedures x)\<rparr>"

definition procedure_event :: "int \<Rightarrow> string \<Rightarrow> string \<Rightarrow> py_float \<Rightarrow> event" where
  "procedure_event k proc_id exec_id now =
     \<lparr>ev_id = k, ev_severity = Sev_int 1, ev_description = [],
      ev_extra = [(''procedure_id'', VStr proc_id), (''execution_id'', VStr exec_id), (''timestamp'', VFloat now)]\<rparr>"

text \<open>The executor beside the world its callbacks act on.\<close>

abbreviation on_world :: "('w, 'a) py \<Rightarrow> ('w \<times> procedure_executor, 'a) py" where
  "on_world \<equiv> zoom fst (\<lambda>w wx. (w, snd wx))"

abbreviation on_executor :: "(procedure_executor \<Rightarrow> procedure_executor) \<Rightarrow> ('w \<times> procedure_executor, unit) py" where
  "on_executor f \<equiv> modify (\<lambda>(w, x). (w, f x))"

definition executor_start ::
  "(event \<Rightarrow> ('w, unit) py) \<Rightarrow> string \<Rightarrow> py_float \<Rightarrow> ('w \<times> procedure_executor, string option) py" where
  "executor_start emit proc_id now =
     bind_py (gets (\<lambda>wx. map_of (px_procedures (snd wx)) proc_id)) (\<lambda>c. case c of
       Some (Some steps) \<Rightarrow>
         bind_py (of_result (trunc_float now)) (\<lambda>k.
           let exec_id = proc_id @ ''_'' @ str_int k;
               pe = \<lparr>pe_exec_id = exec_id, pe_proc_id = proc_id, pe_steps = steps, pe_start = now,
                     pe_state = St_running, pe_current = 0, pe_completed = 0\<rparr>
           in seq_py (on_executor (\<lambda>x. x\<lparr>px_active := AList.update exec_id pe (px_active x)\<rparr>))
             (seq_py (on_world (emit (procedure_event 0x0F07 proc_id exec_id now))) (ret (Some exec_id))))
     | _ \<Rightarrow> ret None)"

text \<open>
  One step of an execution; a callback that raises fails the procedure, whose other due steps are
  executed all the same. The execution is an object of its own: what was changed before an
  exception stays changed.
\<close>

type_synonym 'w stepping = "'w \<times> procedure_execution"

abbreviation on_execution :: "(procedure_execution \<Rightarrow> procedure_execution) \<Rightarrow> ('w stepping, unit) py" where
  "on_execution f \<equiv> modify (\<lambda>(w, pe). (w, f pe))"

abbreviation beside :: "('w, 'a) py \<Rightarrow> ('w stepping, 'a) py" where
  "beside \<equiv> zoom fst (\<lambda>w wp. (w, snd wp))"

definition executor_step ::
  "(string \<Rightarrow> (command \<Rightarrow> ('w, unit) py) option) \<Rightarrow> (event \<Rightarrow> ('w, unit) py) \<Rightarrow> py_float \<Rightarrow>
   procedure_step \<Rightarrow> ('w stepping, unit) py" where
  "executor_step callbacks emit now st =
     (case callbacks (ps_command st) of None \<Rightarrow> ret ()
      | Some cb \<Rightarrow> catch (beside (cb (ps_params st))) (\<lambda>_.
          seq_py (on_execution (\<lambda>pe. pe\<lparr>pe_state := St_failed\<rparr>))
          (bind_py (gets snd) (\<lambda>pe. beside (emit (procedure_event 0x0F09 (pe_proc_id pe) (pe_exec_id pe) now))))))"

definition step_due :: "py_float \<Rightarrow> py_float \<Rightarrow> procedure_step \<Rightarrow> bool" where
  "step_due now start st \<longleftrightarrow> \<not> ps_executed st \<and> fle (ps_delay st) (fsub now start)"

definition mark_executed :: "nat \<Rightarrow> procedure_execution \<Rightarrow> procedure_execution" where
  "mark_executed i pe = pe\<lparr>pe_steps := (pe_steps pe)[i := (pe_steps pe ! i)\<lparr>ps_executed := True\<rparr>]\<rparr>"

definition tick_step ::
  "(string \<Rightarrow> (command \<Rightarrow> ('w, unit) py) option) \<Rightarrow> (event \<Rightarrow> ('w, unit) py) \<Rightarrow> py_float \<Rightarrow> nat \<Rightarrow>
   ('w stepping, unit) py" where
  "tick_step callbacks emit now i =
     bind_py (gets (\<lambda>wp. (pe_steps (snd wp) ! i, pe_start (snd wp)))) (\<lambda>(st, start).
       when_py (step_due now start st)
         (seq_py (executor_step callbacks emit now st) (on_execution (mark_executed i))))"

definition count_steps :: "procedure_execution \<Rightarrow> procedure_execution" where
  "count_steps pe =
     (let k = int (length (filter ps_executed (pe_steps pe)))
      in pe\<lparr>pe_completed := k,
            pe_current := (if pe_steps pe = [] then 0 else min (k + 1) (int (length (pe_steps pe))))\<rparr>)"

definition all_executed :: "procedure_execution \<Rightarrow> bool" where
  "all_executed pe \<longleftrightarrow> (\<forall>st\<in>set (pe_steps pe). ps_executed st)"

text \<open>The body of the loop of \<open>tick_procedures\<close> on a running execution: is it completed now?\<close>

definition tick_execution ::
  "(string \<Rightarrow> (command \<Rightarrow> ('w, unit) py) option) \<Rightarrow> (event \<Rightarrow> ('w, unit) py) \<Rightarrow> py_float \<Rightarrow>
   ('w stepping, bool) py" where
  "tick_execution callbacks emit now =
     bind_py (gets (\<lambda>wp. length (pe_steps (snd wp)))) (\<lambda>n.
     seq_py (each (tick_step callbacks emit now) [0..<n])
     (seq_py (on_execution count_steps)
     (bind_py (gets snd) (\<lambda>pe.
        if all_executed pe \<and> pe_state pe = St_running
        then seq_py (on_execution (\<lambda>pe. pe\<lparr>pe_state := St_complete\<rparr>))
          (seq_py (beside (emit (procedure_event 0x0F08 (pe_proc_id pe) (pe_exec_id pe) now))) (ret True))
        else ret False))))"

abbreviation at_execution :: "string \<Rightarrow> ('w stepping, 'a) py \<Rightarrow> ('w \<times> procedure_executor, 'a) py" where
  "at_execution k \<equiv> zoom (\<lambda>(w, x). (w, the (map_of (px_active x) k)))
     (\<lambda>(w, pe) (_, x). (w, x\<lparr>px_active := AList.update k pe (px_active x)\<rparr>))"

fun tick_active ::
  "(string \<Rightarrow> (command \<Rightarrow> ('w, unit) py) option) \<Rightarrow> (event \<Rightarrow> ('w, unit) py) \<Rightarrow> py_float \<Rightarrow> string list \<Rightarrow>
   ('w \<times> procedure_executor, string list) py" where
  "tick_active callbacks emit now [] = ret []"
| "tick_active callbacks emit now (k # ks) =
     bind_py (gets (\<lambda>wx. the (map_of (px_active (snd wx)) k))) (\<lambda>pe.
     bind_py
       (if pe_state pe = St_complete \<or> pe_state pe = St_failed
        then seq_py (on_executor (\<lambda>x. x\<lparr>px_last_finished := Some pe\<rparr>)) (ret True)
        else at_execution k (tick_execution callbacks emit now)) (\<lambda>ended.
     bind_py (tick_active callbacks emit now ks) (\<lambda>rest. ret ((if ended then [k] else []) @ rest))))"

definition executor_tick ::
  "(string \<Rightarrow> (command \<Rightarrow> ('w, unit) py) option) \<Rightarrow> (event \<Rightarrow> ('w, unit) py) \<Rightarrow> py_float \<Rightarrow>
   ('w \<times> procedure_executor, unit) py" where
  "executor_tick callbacks emit now =
     bind_py (gets (\<lambda>wx. map fst (px_active (snd wx)))) (\<lambda>ks.
     bind_py (tick_active callbacks emit now ks) (\<lambda>completed.
       on_executor (\<lambda>x. x\<lparr>px_active := fold AList.delete completed (px_active x)\<rparr>)))"

text \<open>
  \<open>get_active_procedures\<close>: of each execution its identifiers, state, counters and the percentage of
  its steps that are executed, \<open>100.0 * completed / len(steps)\<close>.
\<close>

record active_procedure =
  ap_exec_id :: string
  ap_proc_id :: string
  ap_state :: run_state
  ap_step :: int
  ap_completed :: int
  ap_total :: int
  ap_progress :: py_float

definition progress_of :: "procedure_execution \<Rightarrow> py_float" where
  "progress_of pe =
     (if pe_steps pe = [] then f0
      else (case fdiv (fmul (Fin False 100) (of_pyint (pe_completed pe))) (of_pyint (int (length (pe_steps pe)))) of
              Inr x \<Rightarrow> x | Inl _ \<Rightarrow> f0))"

definition get_active_procedures :: "procedure_executor \<Rightarrow> active_procedure list" where
  "get_active_procedures x = map (\<lambda>(_, pe).
     \<lparr>ap_exec_id = pe_exec_id pe, ap_proc_id = pe_proc_id pe, ap_state = pe_state pe,
      ap_step = pe_current pe, ap_completed = pe_completed pe, ap_total = int (length (pe_steps pe)),
      ap_progress = progress_of pe\<rparr>) (px_active x)"

definition execution_state :: "string \<Rightarrow> procedure_executor \<Rightarrow> run_state option" where
  "execution_state exec_id x =
     (case map_of (px_active x) exec_id of Some pe \<Rightarrow> Some (pe_state pe)
      | None \<Rightarrow> (case px_last_finished x of
          Some pe \<Rightarrow> (if pe_exec_id pe = exec_id then Some (pe_state pe) else None) | None \<Rightarrow> None))"

definition executor_get_state :: "procedure_executor \<Rightarrow> procedure_execution list" where
  "executor_get_state x = map snd (px_active x)"

definition executor_set_state :: "procedure_execution list \<Rightarrow> procedure_executor \<Rightarrow> procedure_executor" where
  "executor_set_state pes x =
     x\<lparr>px_active := fold (\<lambda>pe l. AList.update (pe_exec_id pe) pe l) pes []\<rparr>"

end
