(* ===== verification/Fdir_Engine.thy ===== *)
theory Fdir_Engine
  imports Fdir Service_Dispatch
begin

text \<open>
  The engine's side of FDIR (\<open>smo_simulator/engine.py\<close>): the basic rules with their actions and the
  mode flags (\<open>_tick_fdir\<close>), the derived spacecraft mode, and the advanced tick with load shedding,
  fault detection, cascades, recoveries and procedures. \<open>fdir\<close> is the part of the engine's state
  only this code changes, beside the engine state of the telecommand path; \<open>fdir_config\<close> is what the
  configuration files fix. \<open>emit\<close> stands for \<open>_emit_event\<close>.
\<close>

section \<open>State\<close>

record fdir_rule =
  ru_parameter :: string
  ru_condition :: string
  ru_threshold :: "py_float option"
  ru_level :: int
  ru_action :: string
  ru_persist :: py_float

record recovery_action =
  ra_procedure :: string
  ra_action :: string

text \<open>
  A group of recovery actions is keyed by \<open>level_1\<close>, \<open>level_2\<close>, \<dots>; \<open>None\<close> is an empty entry. The names
  of the parameters come from the \<open>param_ids\<close> of the subsystem configurations and the catalogue.
\<close>

record 'm fdir_config =
  fc_base :: "'m config"
  fc_rules :: "fdir_rule list"
  fc_subsystem_ids :: "string \<rightharpoonup> (string \<rightharpoonup> int)"
  fc_catalogue :: "string \<rightharpoonup> int"
  fc_recovery_actions :: "string \<rightharpoonup> (string \<times> recovery_action option) list"
  fc_initial_level :: int
  fc_max_attempts :: int
  fc_level_delays :: "int \<rightharpoonup> py_float"
  fc_stations :: "string list"

record 'm fdir =
  fd_engine :: "'m engine"
  fd_propagator :: fault_propagator
  fd_shedding :: load_shedding
  fd_executor :: procedure_executor
  fd_triggered :: "(string \<times> bool) list"
  fd_rule_persist :: "(string \<times> py_float) list"
  fd_fault_persist :: "(string \<times> py_float) list"
  fd_pending :: "cascade list"
  fd_shed_stage :: int
  fd_elapsed :: py_float
  fd_safe :: bool
  fd_emergency :: bool
  fd_sc_mode :: int
  fd_prev_safe :: bool
  fd_prev_eps :: "int option"
  fd_active_gs :: "string option"

abbreviation on_engine :: "('m engine, 'a) py \<Rightarrow> ('m fdir, 'a) py" where
  "on_engine \<equiv> zoom fd_engine (\<lambda>e f. f\<lparr>fd_engine := e\<rparr>)"

abbreviation on_executor_of :: "('m engine \<times> procedure_executor, 'a) py \<Rightarrow> ('m fdir, 'a) py" where
  "on_executor_of \<equiv> zoom (\<lambda>f. (fd_engine f, fd_executor f))
     (\<lambda>(e, x) f. f\<lparr>fd_engine := e, fd_executor := x\<rparr>)"

abbreviation on_propagator :: "(fault_propagator, 'a) py \<Rightarrow> ('m fdir, 'a) py" where
  "on_propagator \<equiv> zoom fd_propagator (\<lambda>p f. f\<lparr>fd_propagator := p\<rparr>)"

abbreviation on_shedding :: "(load_shedding, 'a) py \<Rightarrow> ('m fdir, 'a) py" where
  "on_shedding \<equiv> zoom fd_shedding (\<lambda>l f. f\<lparr>fd_shedding := l\<rparr>)"

definition fdir_event :: "int \<Rightarrow> int \<Rightarrow> pytext \<Rightarrow> event" where
  "fdir_event k severity text =
     \<lparr>ev_id = k, ev_severity = Sev_int severity, ev_description = text, ev_extra = []\<rparr>"

definition raise_event ::
  "(event \<Rightarrow> ('m engine, unit) py) \<Rightarrow> int \<Rightarrow> int \<Rightarrow> pytext \<Rightarrow> ('m fdir, unit) py" where
  "raise_event emit k severity text = on_engine (emit (fdir_event k severity text))"

text \<open>\<open>name.split('.', 1)\<close> and the two tables.\<close>

definition resolve_param_name :: "'m fdir_config \<Rightarrow> string \<Rightarrow> int option" where
  "resolve_param_name c name =
     (let subsys = takeWhile (\<lambda>x. x \<noteq> CHR ''.'') name; key = drop (length subsys + 1) name in
      if length subsys = length name then None
      else case fc_subsystem_ids c subsys of
             Some ids \<Rightarrow> (case ids key of Some k \<Rightarrow> Some k | None \<Rightarrow> fc_catalogue c name)
           | None \<Rightarrow> fc_catalogue c name)"

definition param_value :: "'m fdir_config \<Rightarrow> string \<Rightarrow> 'm fdir \<Rightarrow> (int \<times> py_float) option" where
  "param_value c name f =
     (case resolve_param_name c name of None \<Rightarrow> None
      | Some k \<Rightarrow> (case en_params (fd_engine f) k of None \<Rightarrow> None | Some v \<Rightarrow> Some (k, v)))"

section \<open>Actions on the subsystems\<close>

text \<open>A call of \<open>handle_command\<close> whose reply is not looked at.\<close>

definition order_to :: "'m config \<Rightarrow> string \<Rightarrow> command \<Rightarrow> ('m engine, unit) py" where
  "order_to cf name c = seq_py (on_models (sy_command (cf_sys cf) name c)) (ret ())"

definition set_mode_of :: "'m config \<Rightarrow> string \<Rightarrow> int \<Rightarrow> ('m engine, unit) py" where
  "set_mode_of cf name k = order_to cf name [(''command'', VStr ''set_mode''), (''mode'', VInt k)]"

definition battery_heater :: "'m config \<Rightarrow> bool \<Rightarrow> ('m engine, unit) py" where
  "battery_heater cf on =
     order_to cf ''tcs'' [(''command'', VStr ''heater''), (''circuit'', VStr ''battery''), (''on'', VBool on)]"

text \<open>\<open>_wire_fdir\<close>: the actions of the basic rules, bound when the subsystem is there.\<close>

definition bound :: "'m config \<Rightarrow> string \<Rightarrow> ('m engine, unit) py \<Rightarrow> ('m fdir, unit) py option" where
  "bound cf name m = (if sy_present (cf_sys cf) name then Some (on_engine m) else None)"

definition fdir_callback :: "'m config \<Rightarrow> string \<Rightarrow> ('m fdir, unit) py option" where
  "fdir_callback cf action =
     (if action = ''payload_poweroff'' then bound cf ''payload'' (set_mode_of cf ''payload'' 0)
      else if action = ''heater_on_battery'' then bound cf ''tcs'' (battery_heater cf True)
      else if action = ''heater_off_battery'' then bound cf ''tcs'' (battery_heater cf False)
      else if action = ''safe_mode_aocs'' then bound cf ''aocs'' (set_mode_of cf ''aocs'' 3)
      else if action \<in> {''disable_rw1'', ''disable_rw2'', ''disable_rw3'', ''disable_rw4''} then
        bound cf ''aocs'' (order_to cf ''aocs''
          [(''command'', VStr ''disable_wheel''), (''wheel'', VInt (of_char (last action) - 49))])
      else if action = ''safe_mode_obc'' then bound cf ''obdh'' (set_mode_of cf ''obdh'' 1)
      else if action = ''safe_mode_eps'' then
        bound cf ''eps'' (order_to cf ''eps'' [(''command'', VStr ''set_eps_mode''), (''mode'', VInt 1)])
      else if action = ''spacecraft_emergency'' then Some (modify (\<lambda>f. f\<lparr>fd_emergency := True\<rparr>))
      else None)"

definition tcs_duty_limit_all :: "'m config \<Rightarrow> py_float \<Rightarrow> ('m engine, unit) py" where
  "tcs_duty_limit_all cf pct =
     (if sy_present (cf_sys cf) ''tcs''
      then each (\<lambda>circuit. order_to cf ''tcs'' [(''command'', VStr ''set_heater_duty_limit''),
                (''circuit'', VInt circuit), (''duty_limit_pct'', VFloat pct)]) [0, 1, 2]
      else ret ())"

definition cascade_reduce_data_rate :: "'m config \<Rightarrow> ('m engine, unit) py" where
  "cascade_reduce_data_rate cf =
     (if \<not> sy_present (cf_sys cf) ''ttc'' then ret ()
      else bind_py (gets (\<lambda>e. case attr_of cf ''ttc'' ''data_rate_mode'' e of Some v \<Rightarrow> val_int v | None \<Rightarrow> Inr 1)) (\<lambda>r.
           bind_py (of_result r) (\<lambda>cur.
             order_to cf ''ttc'' [(''command'', VStr ''set_data_rate_mode''), (''mode'', VInt (max 0 (cur - 1)))])))"

text \<open>\<open>_wire_load_shedding\<close>: the callbacks take the value of the stage's command.\<close>

definition shed_callback :: "'m config \<Rightarrow> string \<Rightarrow> (pyval \<Rightarrow> ('m engine, unit) py) option" where
  "shed_callback cf action =
     (let here = sy_present (cf_sys cf) in
      if action = ''payload_mode'' \<and> here ''payload'' then
        Some (\<lambda>v. bind_py (of_result (val_int v)) (set_mode_of cf ''payload''))
      else if action = ''aocs_mode'' \<and> here ''aocs'' then
        Some (\<lambda>v. bind_py (of_result (val_int v)) (set_mode_of cf ''aocs''))
      else if action = ''tcs_heater_duty'' \<and> here ''tcs'' then
        Some (\<lambda>v. bind_py (of_result (val_float v)) (\<lambda>x. tcs_duty_limit_all cf (fmul x (Fin False 100))))
      else if action = ''ttc_power_level'' \<and> here ''ttc'' then
        Some (\<lambda>v. bind_py (of_result (val_float v)) (\<lambda>x.
          order_to cf ''ttc'' [(''command'', VStr ''set_tx_power''), (''power_w'', VFloat x)]))
      else None)"

text \<open>\<open>_wire_fault_cascades\<close>, keyed by \<open>target:action\<close>.\<close>

definition cascade_callback :: "'m config \<Rightarrow> string \<Rightarrow> ('m engine, unit) py option" where
  "cascade_callback cf key =
     (let here = (\<lambda>name m. if sy_present (cf_sys cf) name then Some m else None);
          tx = (\<lambda>w. order_to cf ''ttc'' [(''command'', VStr ''set_tx_power''), (''power_w'', VFloat w)]) in
      if key = ''aocs:enter_safe_mode'' then here ''aocs'' (set_mode_of cf ''aocs'' 3)
      else if key = ''payload:power_off'' then here ''payload'' (set_mode_of cf ''payload'' 0)
      else if key = ''payload:standby'' \<or> key = ''payload:reduce_duty_cycle'' then
        here ''payload'' (set_mode_of cf ''payload'' 1)
      else if key = ''tcs:heater_standby'' then here ''tcs'' (tcs_duty_limit_all cf (Fin False 30))
      else if key = ''tcs:heater_emergency_off'' then here ''tcs'' (tcs_duty_limit_all cf f0)
      else if key = ''ttc:reduce_tx_power'' then here ''ttc'' (tx (Fin False 1))
      else if key = ''ttc:standby'' then here ''ttc'' (tx (Fin False (1 / 2)))
      else if key = ''ttc:reduce_data_rate'' then here ''ttc'' (cascade_reduce_data_rate cf)
      else if key = ''eps:enter_safe_mode'' then
        here ''eps'' (order_to cf ''eps'' [(''command'', VStr ''set_eps_mode''), (''mode'', VInt 1)])
      else if key = ''eps:reduce_charge_rate'' then
        here ''eps'' (order_to cf ''eps'' [(''command'', VStr ''set_charge_rate''), (''rate_a'', VFloat (Fin False (1 / 2)))])
      else if key = ''eps:reduce_power_to_aocs'' then
        here ''eps'' (order_to cf ''eps'' [(''command'', VStr ''power_line_off''), (''line_name'', VStr ''aocs_wheels'')])
      else None)"

text \<open>The command \<open>s8_command\<close> of a procedure step: an S8 function of the dispatcher.\<close>

definition step_data :: "command \<Rightarrow> bytes result" where
  "step_data params =
     (case map_of params ''data'' of
        None \<Rightarrow> Inr []
      | Some (VInts ks) \<Rightarrow> (if \<forall>k\<in>set ks. 0 \<le> k \<and> k < 256 then Inr (map word_of_int ks) else Inl ValueError)
      | Some (VStr s) \<Rightarrow> Inr (utf8_encode (py s))
      | Some (VText t) \<Rightarrow> Inr (utf8_encode t)
      | Some (VBytes bs) \<Rightarrow> Inr bs
      | Some (VBools bs) \<Rightarrow> Inr (map (\<lambda>b. if b then 1 else 0) bs)
      | Some (VFloats xs) \<Rightarrow> (if xs = [] then Inr [] else Inl TypeError)
      | Some _ \<Rightarrow> Inr [])"

definition step_function :: "command \<Rightarrow> bytes result" where
  "step_function params = (case map_of params ''func_id'' of
       None \<Rightarrow> mk_byte 0 | Some (VInt k) \<Rightarrow> mk_byte k | Some (VBool b) \<Rightarrow> mk_byte (of_bool b) | Some _ \<Rightarrow> Inl TypeError)"

definition execute_s8_command ::
  "'m config \<Rightarrow> (event \<Rightarrow> ('m engine, unit) py) \<Rightarrow> command \<Rightarrow> ('m engine, unit) py" where
  "execute_s8_command cf emit params =
     bind_py (of_result (step_data params)) (\<lambda>d.
     bind_py (of_result (step_function params)) (\<lambda>k.
     bind_py (dispatch cf emit 8 1 (k @ d) 0) (\<lambda>res. each (enqueue_tm cf) (dr_packets res))))"

definition procedure_callback ::
  "'m config \<Rightarrow> (event \<Rightarrow> ('m engine, unit) py) \<Rightarrow> string \<Rightarrow> (command \<Rightarrow> ('m engine, unit) py) option" where
  "procedure_callback cf emit name = (if name = ''s8_command'' then Some (execute_s8_command cf emit) else None)"

section \<open>The basic rules\<close>

definition rule_key :: "fdir_rule \<Rightarrow> string" where
  "rule_key r = ru_parameter r @ ''_'' @ ru_action r"

definition rule_triggered :: "fdir_rule \<Rightarrow> 'm fdir \<Rightarrow> bool" where
  "rule_triggered r f \<longleftrightarrow> map_of (fd_triggered f) (rule_key r) = Some True"

definition rule_condition :: "fdir_rule \<Rightarrow> py_float \<Rightarrow> py_float \<Rightarrow> bool" where
  "rule_condition r t v =
     (let cond = strip_text (ru_condition r) in
      if starts_with cond ''<'' then fless v t else if starts_with cond ''>'' then fless t v else False)"

text \<open>
  The persistence filter: how long the condition has held, and whether it counts now. The basic
  rules count ticks (1.0 each), the fault rules add the length of the tick.
\<close>

definition persist_filter ::
  "string \<Rightarrow> py_float \<Rightarrow> py_float \<Rightarrow> bool \<Rightarrow> (string \<times> py_float) list \<Rightarrow> bool \<times> (string \<times> py_float) list" where
  "persist_filter key persist step present accs =
     (if fless f0 persist
      then let acc = (if present then fadd (case map_of accs key of Some a \<Rightarrow> a | None \<Rightarrow> f0) step else f0)
           in (present \<and> \<not> fless acc persist, AList.update key acc accs)
      else (present, accs))"

definition set_triggered :: "fdir_rule \<Rightarrow> bool \<Rightarrow> ('m fdir, unit) py" where
  "set_triggered r b = modify (\<lambda>f. f\<lparr>fd_triggered := AList.update (rule_key r) b (fd_triggered f)\<rparr>)"

definition run_action :: "'m config \<Rightarrow> fdir_rule \<Rightarrow> ('m fdir, unit) py" where
  "run_action cf r = (case fdir_callback cf (ru_action r) of None \<Rightarrow> ret () | Some cb \<Rightarrow> attempt cb)"

definition rule_event :: "fdir_rule \<Rightarrow> int \<Rightarrow> py_float \<Rightarrow> event" where
  "rule_event r param_id v =
     fdir_event (0x8000 OR (param_id AND 0x0FFF)) (ru_level r + 1)
       (py (''FDIR L'' @ str_int (ru_level r) @ '': '' @ ru_action r @ '' | param='' @ ru_parameter r @
            '' val='' @ fmt_fixed 2 v))"

definition tick_rule ::
  "'m fdir_config \<Rightarrow> (event \<Rightarrow> ('m engine, unit) py) \<Rightarrow> fdir_rule \<Rightarrow> ('m fdir, unit) py" where
  "tick_rule c emit r =
     (case ru_threshold r of None \<Rightarrow> ret () | Some t \<Rightarrow>
      bind_py (gets (param_value c (ru_parameter r))) (\<lambda>pv. case pv of None \<Rightarrow> ret () | Some (param_id, v) \<Rightarrow>
      bind_py (gets (rule_triggered r)) (\<lambda>was.
      bind_py (gets fd_rule_persist) (\<lambda>accs.
        case persist_filter (rule_key r) (ru_persist r) (Fin False 1) (rule_condition r t v) accs of (met, accs') \<Rightarrow>
        seq_py (modify (\<lambda>f. f\<lparr>fd_rule_persist := accs'\<rparr>))
          (if met \<and> \<not> was
           then seq_py (set_triggered r True) (seq_py (run_action (fc_base c) r) (on_engine (emit (rule_event r param_id v))))
           else if \<not> met \<and> was then set_triggered r False
           else ret ())))))"

definition level_latched :: "fdir_rule list \<Rightarrow> int \<Rightarrow> 'm fdir \<Rightarrow> bool" where
  "level_latched rules k f \<longleftrightarrow> (\<exists>r\<in>set rules. rule_triggered r f \<and> k \<le> ru_level r)"

definition tick_fdir :: "'m fdir_config \<Rightarrow> (event \<Rightarrow> ('m engine, unit) py) \<Rightarrow> ('m fdir, unit) py" where
  "tick_fdir c emit =
     seq_py (each (tick_rule c emit) (fc_rules c))
       (modify (\<lambda>f. f\<lparr>fd_safe := level_latched (fc_rules c) 2 f, fd_emergency := level_latched (fc_rules c) 3 f\<rparr>))"

section \<open>The spacecraft mode\<close>

definition SC_SAFE :: int where "SC_SAFE = 0"
definition SC_NOMINAL :: int where "SC_NOMINAL = 1"
definition SC_SCIENCE :: int where "SC_SCIENCE = 2"
definition SC_EMERGENCY :: int where "SC_EMERGENCY = 3"
definition SC_PHASE_NOMINAL :: int where "SC_PHASE_NOMINAL = 6"

definition update_sc_mode :: "('m fdir, unit) py" where
  "update_sc_mode = (\<lambda>f.
     if fd_emergency f then (Inr (), f\<lparr>fd_sc_mode := SC_EMERGENCY\<rparr>)
     else if fd_safe f \<or> en_phase (fd_engine f) < SC_PHASE_NOMINAL then (Inr (), f\<lparr>fd_sc_mode := SC_SAFE\<rparr>)
     else case (case en_params (fd_engine f) 0x0600 of None \<Rightarrow> Inr 0 | Some v \<Rightarrow> trunc_float v) of
            Inl err \<Rightarrow> (Inl err, f)
          | Inr mode \<Rightarrow> (Inr (), f\<lparr>fd_sc_mode := (if mode = 2 then SC_SCIENCE else SC_NOMINAL)\<rparr>))"

text \<open>\<open>int(getattr(eps._state, 'eps_mode', 0) or 0)\<close>.\<close>

definition eps_mode_of :: "'m config \<Rightarrow> 'm engine \<Rightarrow> int result" where
  "eps_mode_of cf e = (case attr_of cf ''eps'' ''eps_mode'' e of
       None \<Rightarrow> Inr 0 | Some VNone \<Rightarrow> Inr 0 | Some (VStr []) \<Rightarrow> Inr 0 | Some v \<Rightarrow> val_int v)"

definition check_safe_mode :: "(event \<Rightarrow> ('m engine, unit) py) \<Rightarrow> ('m fdir, unit) py" where
  "check_safe_mode emit =
     bind_py (gets (\<lambda>f. (fd_sc_mode f = SC_SAFE, fd_prev_safe f))) (\<lambda>(safe, prev).
       if safe \<noteq> prev
       then seq_py (modify (\<lambda>f. f\<lparr>fd_prev_safe := safe\<rparr>))
         (if safe then raise_event emit 0x0F0A 3 (py ''Spacecraft entered SAFE mode'')
          else raise_event emit 0x0F0B 1 (py ''Spacecraft exited SAFE mode''))
       else ret ())"

definition check_eps_mode :: "'m config \<Rightarrow> (event \<Rightarrow> ('m engine, unit) py) \<Rightarrow> ('m fdir, unit) py" where
  "check_eps_mode cf emit =
     (if sy_present (cf_sys cf) ''eps''
      then bind_py (gets (\<lambda>f. (eps_mode_of cf (fd_engine f), fd_prev_eps f))) (\<lambda>(r, prev_eps).
           bind_py (of_result r) (\<lambda>mode. case prev_eps of
               None \<Rightarrow> modify (\<lambda>f. f\<lparr>fd_prev_eps := Some mode\<rparr>)
             | Some k \<Rightarrow>
                 if mode \<noteq> k
                 then seq_py (when_py (mode \<noteq> 0)
                        (raise_event emit 0x0111 2 (py (''EPS entered contingency mode '' @ str_int mode))))
                      (modify (\<lambda>f. f\<lparr>fd_prev_eps := Some mode\<rparr>))
                 else ret ()))
      else ret ())"

definition check_safe_mode_events ::
  "'m config \<Rightarrow> (event \<Rightarrow> ('m engine, unit) py) \<Rightarrow> ('m fdir, unit) py" where
  "check_safe_mode_events cf emit = seq_py (check_safe_mode emit) (check_eps_mode cf emit)"

end
