(* ===== verification/Fdir_Advanced.thy ===== *)
theory Fdir_Advanced
  imports Fdir_Engine
begin

text \<open>
  The advanced FDIR tick of \<open>smo_simulator/engine.py\<close>: \<open>_tick_fault_detection\<close>,
  \<open>_tick_pending_cascades\<close>, \<open>_start_recovery\<close>, \<open>_enter_recovery_level\<close>, \<open>_tick_recovery\<close>,
  \<open>_complete_recovery\<close>, \<open>_publish_fdir_parameters\<close> and \<open>_tick_fdir_advanced\<close>, which runs them. A
  recovery state is the entry of its fault in the propagator; the code changes it in place.
\<close>

section \<open>Recoveries\<close>

definition with_recovery :: "string \<Rightarrow> (recovery_state \<Rightarrow> recovery_state) \<Rightarrow> ('m fdir, unit) py" where
  "with_recovery fault_id g = on_propagator (modify (\<lambda>p.
     case get_recovery_state fault_id p of None \<Rightarrow> p | Some rs \<Rightarrow> set_recovery fault_id (g rs) p))"

definition level_key :: "int \<Rightarrow> string" where
  "level_key k = ''level_'' @ str_int k"

text \<open>\<open>recovery_actions.get(rs.group) or {}\<close>, and its entry for a level unless that is empty.\<close>

definition actions_of :: "'m fdir_config \<Rightarrow> string \<Rightarrow> (string \<times> recovery_action option) list" where
  "actions_of c grp = (case fc_recovery_actions c grp of Some g \<Rightarrow> g | None \<Rightarrow> [])"

definition level_action :: "'m fdir_config \<Rightarrow> string \<Rightarrow> int \<Rightarrow> recovery_action option" where
  "level_action c grp k = (case map_of (actions_of c grp) (level_key k) of Some (Some a) \<Rightarrow> Some a | _ \<Rightarrow> None)"

definition procedure_stem :: "string \<Rightarrow> string" where
  "procedure_stem ref = (if starts_with (rev ref) (rev ''.yaml'') then take (length ref - 5) ref else ref)"

definition enter_level :: "int \<Rightarrow> py_float \<Rightarrow> string \<Rightarrow> recovery_state \<Rightarrow> recovery_state" where
  "enter_level k now proc_id rs = rs
     \<lparr>rs_level := k, rs_level_started := now, rs_state := St_running, rs_attempts := rs_attempts rs + 1,
      rs_last_attempt := now, rs_procedure := proc_id\<rparr>"

definition enter_recovery_level ::
  "'m fdir_config \<Rightarrow> (event \<Rightarrow> ('m engine, unit) py) \<Rightarrow> string \<Rightarrow> recovery_state \<Rightarrow> int \<Rightarrow> py_float \<Rightarrow> bool \<Rightarrow>
   ('m fdir, unit) py" where
  "enter_recovery_level c emit fault_id rs k now escalated =
     (case level_action c (rs_group rs) k of None \<Rightarrow> ret () | Some a \<Rightarrow>
        let proc_id = procedure_stem (ra_procedure a); who = rs_fault_id rs; level = ''L'' @ str_int k in
        seq_py (with_recovery fault_id (enter_level k now proc_id))
        (bind_py (on_executor_of (executor_start emit proc_id now)) (\<lambda>exec_id.
         seq_py (with_recovery fault_id (\<lambda>rs. rs\<lparr>rs_exec_id := (case exec_id of Some x \<Rightarrow> x | None \<Rightarrow> [])\<rparr>))
         (seq_py (when_py escalated (raise_event emit 0x0F04 4
            (py (''FDIR escalation '' @ level @ '' for '' @ who @ '': '' @ ra_action a))))
         (seq_py (raise_event emit 0x0F01 3
            (py (''Recovery '' @ level @ '' '' @ proc_id @ '' for '' @ who @
                 (if exec_id = None \<or> exec_id = Some [] then '' (procedure not registered)'' else []))))
         (when_py (exec_id = None)
            (seq_py (with_recovery fault_id (\<lambda>rs. rs\<lparr>rs_state := St_failed\<rparr>))
               (raise_event emit 0x0F03 4
                  (py (''Recovery '' @ level @ '' for '' @ who @ '' could not start: unknown procedure '' @ proc_id))))))))))"

definition recovery_of :: "string \<Rightarrow> 'm fdir \<Rightarrow> recovery_state option" where
  "recovery_of fault_id f = get_recovery_state fault_id (fd_propagator f)"

definition start_recovery ::
  "'m fdir_config \<Rightarrow> (event \<Rightarrow> ('m engine, unit) py) \<Rightarrow> fault_rule \<Rightarrow> py_float \<Rightarrow> ('m fdir, unit) py" where
  "start_recovery c emit r now =
     (if actions_of c (fr_recovery r) = [] then ret ()
      else let rs = (new_recovery (fr_fault_id r) (fr_recovery r) now (fc_max_attempts c))\<lparr>rs_group := fr_recovery r\<rparr> in
        seq_py (on_propagator (modify (set_recovery (fr_fault_id r) rs)))
          (enter_recovery_level c emit (fr_fault_id r) rs (fc_initial_level c) now False))"

definition escalation_due :: "'m fdir_config \<Rightarrow> py_float \<Rightarrow> string \<Rightarrow> recovery_state \<Rightarrow> 'm fdir \<Rightarrow> bool" where
  "escalation_due c now fault_id rs f \<longleftrightarrow>
     rs_state rs \<noteq> St_complete \<and> rs_state rs \<noteq> St_failed \<and> fault_active fault_id (fd_propagator f) \<and>
     (let delay = (case fc_level_delays c (rs_level rs) of Some d \<Rightarrow> d | None \<Rightarrow> f0)
      in \<not> fle delay f0 \<and> \<not> fless (fsub now (rs_level_started rs)) delay)"

definition tick_one_recovery ::
  "'m fdir_config \<Rightarrow> (event \<Rightarrow> ('m engine, unit) py) \<Rightarrow> py_float \<Rightarrow> string \<Rightarrow> ('m fdir, unit) py" where
  "tick_one_recovery c emit now fault_id =
     bind_py (gets (recovery_of fault_id)) (\<lambda>r. case r of None \<Rightarrow> ret () | Some rs \<Rightarrow>
     bind_py (gets (escalation_due c now fault_id rs)) (\<lambda>due.
       if \<not> due then ret ()
       else if map_of (actions_of c (rs_group rs)) (level_key (rs_level rs + 1)) \<noteq> None \<and>
               rs_attempts rs < rs_max_attempts rs
       then seq_py (raise_event emit 0x0F03 3 (py (''Recovery L'' @ str_int (rs_level rs) @ '' for '' @ fault_id @
                      '' did not clear the fault; escalating'')))
              (enter_recovery_level c emit fault_id rs (rs_level rs + 1) now True)
       else seq_py (with_recovery fault_id (\<lambda>rs. rs\<lparr>rs_state := St_failed\<rparr>))
              (raise_event emit 0x0F03 4 (py (''Recovery exhausted for '' @ fault_id @ '' after L'' @ str_int (rs_level rs))))))"

definition tick_recovery ::
  "'m fdir_config \<Rightarrow> (event \<Rightarrow> ('m engine, unit) py) \<Rightarrow> py_float \<Rightarrow> ('m fdir, unit) py" where
  "tick_recovery c emit now =
     bind_py (gets (\<lambda>f. map fst (fp_recoveries (fd_propagator f)))) (each (tick_one_recovery c emit now))"

definition complete_recovery :: "(event \<Rightarrow> ('m engine, unit) py) \<Rightarrow> string \<Rightarrow> ('m fdir, unit) py" where
  "complete_recovery emit fault_id =
     bind_py (gets (recovery_of fault_id)) (\<lambda>r. case r of None \<Rightarrow> ret () | Some rs \<Rightarrow>
       if rs_state rs = St_complete then ret ()
       else seq_py (with_recovery fault_id (\<lambda>rs. rs\<lparr>rs_state := St_complete\<rparr>))
         (raise_event emit 0x0F02 1 (py (''Fault '' @ fault_id @ '' cleared'' @
            (if rs_level rs \<noteq> 0 then '' after recovery L'' @ str_int (rs_level rs) else [])))))"

section \<open>Detection and cascades\<close>

text \<open>\<open>_fault_precondition_met\<close>.\<close>

definition precondition_met :: "'m fdir_config \<Rightarrow> fault_rule \<Rightarrow> 'm fdir \<Rightarrow> bool" where
  "precondition_met c r f =
     (case fr_requires r of None \<Rightarrow> True
      | Some req \<Rightarrow> (case rq_param req of None \<Rightarrow> True
          | Some name \<Rightarrow>
              if name = [] then True
              else (case resolve_param_name c name of None \<Rightarrow> True
                | Some k \<Rightarrow> (case en_params (fd_engine f) k of None \<Rightarrow> False
                    | Some v \<Rightarrow> fle (case rq_min req of Some x \<Rightarrow> x | None \<Rightarrow> Fin False 1) v))))"

definition withdraw_fault :: "fault_rule \<Rightarrow> 'm fdir \<Rightarrow> 'm fdir" where
  "withdraw_fault r f = f
     \<lparr>fd_propagator := (if fault_active (fr_fault_id r) (fd_propagator f)
                        then clear_fault (fr_fault_id r) (fd_propagator f) else fd_propagator f),
      fd_fault_persist := AList.delete (fr_fault_id r) (fd_fault_persist f)\<rparr>"

definition set_due :: "py_float \<Rightarrow> cascade \<Rightarrow> cascade" where
  "set_due now ca = ca\<lparr>ca_due := Some (fadd now (if fbool (ca_delay ca) then ca_delay ca else f0))\<rparr>"

definition fault_event :: "fault_rule \<Rightarrow> py_float \<Rightarrow> pytext" where
  "fault_event r v = py (''FDIR fault '' @ fr_fault_id r @ '': '' @ fr_primary_param r @ ''='' @ fmt_fixed 3 v @
     '' '' @ fr_condition r @ '' '' @ (case fr_threshold r of Some t \<Rightarrow> float_repr t | None \<Rightarrow> ''None''))"

definition fault_appears ::
  "'m fdir_config \<Rightarrow> (event \<Rightarrow> ('m engine, unit) py) \<Rightarrow> py_float \<Rightarrow> fault_rule \<Rightarrow> py_float \<Rightarrow> ('m fdir, unit) py" where
  "fault_appears c emit now r v =
     bind_py (on_propagator (detect_fault (fr_fault_id r) now)) (\<lambda>cs.
     seq_py (raise_event emit 0x0F00 3 (fault_event r v))
     (seq_py (modify (\<lambda>f. f\<lparr>fd_pending := fd_pending f @ map (set_due now) cs\<rparr>))
       (when_py (fr_recovery r \<noteq> []) (start_recovery c emit r now))))"

definition fault_vanishes :: "(event \<Rightarrow> ('m engine, unit) py) \<Rightarrow> string \<Rightarrow> ('m fdir, unit) py" where
  "fault_vanishes emit fault_id =
     seq_py (modify (\<lambda>f. f\<lparr>fd_propagator := clear_fault fault_id (fd_propagator f),
                             fd_pending := filter (\<lambda>ca. ca_fault_id ca \<noteq> fault_id) (fd_pending f)\<rparr>))
       (complete_recovery emit fault_id)"

definition judge_value ::
  "'m fdir_config \<Rightarrow> (event \<Rightarrow> ('m engine, unit) py) \<Rightarrow> py_float \<Rightarrow> py_float \<Rightarrow> fault_rule \<Rightarrow> py_float \<Rightarrow>
   ('m fdir, unit) py" where
  "judge_value c emit dt now r v =
     bind_py (of_result (evaluate_rule r v)) (\<lambda>raw.
     bind_py (gets fd_fault_persist) (\<lambda>accs.
       case persist_filter (fr_fault_id r) (fr_persist r) dt raw accs of (present, accs') \<Rightarrow>
       seq_py (modify (\<lambda>f. f\<lparr>fd_fault_persist := accs'\<rparr>))
       (bind_py (gets (\<lambda>f. fault_active (fr_fault_id r) (fd_propagator f))) (\<lambda>already.
          if present \<and> \<not> already then fault_appears c emit now r v
          else if \<not> present \<and> already then fault_vanishes emit (fr_fault_id r)
          else ret ()))))"

definition judge_rule ::
  "'m fdir_config \<Rightarrow> (event \<Rightarrow> ('m engine, unit) py) \<Rightarrow> py_float \<Rightarrow> py_float \<Rightarrow> fault_rule \<Rightarrow> ('m fdir, unit) py" where
  "judge_rule c emit dt now r =
     bind_py (gets (precondition_met c r)) (\<lambda>ok.
       if \<not> ok then modify (withdraw_fault r)
       else bind_py (gets (param_value c (fr_primary_param r))) (\<lambda>pv.
         case pv of None \<Rightarrow> ret () | Some (_, v) \<Rightarrow> judge_value c emit dt now r v))"

definition tick_fault_detection ::
  "'m fdir_config \<Rightarrow> (event \<Rightarrow> ('m engine, unit) py) \<Rightarrow> py_float \<Rightarrow> py_float \<Rightarrow> ('m fdir, unit) py" where
  "tick_fault_detection c emit dt now =
     bind_py (gets (\<lambda>f. map snd (fp_rules (fd_propagator f)))) (each (judge_rule c emit dt now))"

definition due_time :: "cascade \<Rightarrow> py_float" where
  "due_time ca = (case ca_due ca of Some t \<Rightarrow> t | None \<Rightarrow> f0)"

definition apply_cascade ::
  "'m fdir_config \<Rightarrow> (event \<Rightarrow> ('m engine, unit) py) \<Rightarrow> cascade \<Rightarrow> ('m fdir, unit) py" where
  "apply_cascade c emit ca =
     (case cascade_callback (fc_base c) (ca_target ca @ '':'' @ ca_action ca) of None \<Rightarrow> ret ()
      | Some cb \<Rightarrow> bind_py (catch (seq_py (on_engine cb) (ret True)) (\<lambda>_. ret False)) (\<lambda>ok.
          when_py ok (raise_event emit 0x0F00 2
            (py (''Cascade '' @ ca_fault_id ca @ '' -> '' @ ca_target ca @ ''.'' @ ca_action ca)))))"

definition tick_pending_cascades ::
  "'m fdir_config \<Rightarrow> (event \<Rightarrow> ('m engine, unit) py) \<Rightarrow> py_float \<Rightarrow> ('m fdir, unit) py" where
  "tick_pending_cascades c emit now =
     bind_py (gets (\<lambda>f. filter (\<lambda>ca. fle (due_time ca) now) (fd_pending f))) (\<lambda>due.
       if due = [] then ret ()
       else seq_py (modify (\<lambda>f. f\<lparr>fd_pending := filter (\<lambda>ca. fless now (due_time ca)) (fd_pending f)\<rparr>))
              (each (apply_cascade c emit) due))"

section \<open>The tick\<close>

definition station_index :: "string list \<Rightarrow> string option \<Rightarrow> int" where
  "station_index names gs = (case gs of None \<Rightarrow> 0 | Some g \<Rightarrow>
     (if g = [] then 0 else
      (let before = takeWhile (\<lambda>n. n \<noteq> g) names
       in if length before = length names then 0 else int (length before) + 1)))"

definition fdir_level :: "'m fdir \<Rightarrow> int" where
  "fdir_level f =
     (if fd_emergency f then 3
      else if fd_safe f \<or> (\<exists>rs\<in>set (map snd (fp_recoveries (fd_propagator f))). rs_state rs = St_running) then 2
      else if active_faults (fd_propagator f) \<noteq> [] then 1 else 0)"

definition fdir_parameters :: "'m fdir_config \<Rightarrow> 'm fdir \<Rightarrow> (int \<times> py_float) list" where
  "fdir_parameters c f =
     (let rss = map snd (fp_recoveries (fd_propagator f)); n = (\<lambda>k. of_pyint (int k)) in
      [(0x0700, of_pyint (fdir_level f)), (0x0701, n (length (active_faults (fd_propagator f)))),
       (0x0702, n (length (filter (\<lambda>rs. rs_state rs = St_failed) rss))), (0x0703, n (length (filter (\<lambda>rs. rs_state rs = St_running) rss)))] @
      (case get_active_procedures (fd_executor f) of
         [] \<Rightarrow> [(0x0900, f0), (0x0901, f0), (0x0902, f0), (0x0903, f0)]
       | p # _ \<Rightarrow> [(0x0900, fround 1 (ap_progress p)), (0x0901, of_pyint (ap_step p)),
                   (0x0902, of_pyint (ap_total p)), (0x0903, Fin False 1)]) @
      [(0x0001, if fd_emergency f then Fin False 2 else if fd_safe f then f0 else Fin False 1),
       (0x0523, of_pyint (station_index (fc_stations c) (fd_active_gs f)))])"

definition publish_fdir_parameters :: "'m fdir_config \<Rightarrow> ('m fdir, unit) py" where
  "publish_fdir_parameters c =
     modify (\<lambda>f. f\<lparr>fd_engine := (fd_engine f)\<lparr>en_params := en_params (fd_engine f) ++ map_of (fdir_parameters c f)\<rparr>\<rparr>)"

text \<open>The charge of the battery as it is compared with the thresholds; \<open>100.0\<close> without the attribute.\<close>

definition battery_soc :: "'m config \<Rightarrow> 'm engine \<Rightarrow> py_float result" where
  "battery_soc cf e = (case attr_of cf ''eps'' ''bat_soc_pct'' e of
       None \<Rightarrow> Inr (Fin False 100)
     | Some v \<Rightarrow> (case v of VStr _ \<Rightarrow> Inl TypeError | VText _ \<Rightarrow> Inl TypeError | _ \<Rightarrow> val_float v))"

definition tick_load_shedding ::
  "'m fdir_config \<Rightarrow> (event \<Rightarrow> ('m engine, unit) py) \<Rightarrow> py_float \<Rightarrow> ('m fdir, unit) py" where
  "tick_load_shedding c emit now =
     (if \<not> sy_present (cf_sys (fc_base c)) ''eps'' then ret ()
      else bind_py (gets (\<lambda>f. (battery_soc (fc_base c) (fd_engine f), fd_shed_stage f))) (\<lambda>(r, prev).
        bind_py (of_result r) (\<lambda>soc.
        bind_py (on_shedding (update_stage soc now)) (\<lambda>changed. case changed of None \<Rightarrow> ret () | Some stage \<Rightarrow>
          seq_py (modify (\<lambda>f. f\<lparr>fd_shed_stage := stage\<rparr>))
          (bind_py (gets fd_shedding) (\<lambda>l.
           seq_py (on_engine (execute_stage (shed_callback (fc_base c)) l stage))
             (if prev < stage
              then raise_event emit 0x0F05 2 (py ''Load shedding activated: '' @ stage_name l stage)
              else raise_event emit 0x0F06 1 (py ''Load shedding relaxed to '' @ stage_name l stage))))))))"

definition disarm :: "'m fdir \<Rightarrow> 'm fdir" where
  "disarm f =
     (if active_faults (fd_propagator f) \<noteq> [] \<or> fd_pending f \<noteq> []
      then f\<lparr>fd_propagator := fold clear_fault (active_faults (fd_propagator f)) (fd_propagator f),
             fd_pending := [], fd_fault_persist := []\<rparr>
      else f)"

definition tick_fdir_advanced ::
  "'m fdir_config \<Rightarrow> (event \<Rightarrow> ('m engine, unit) py) \<Rightarrow> py_float \<Rightarrow> ('m fdir, unit) py" where
  "tick_fdir_advanced c emit dt =
     seq_py (modify (\<lambda>f. f\<lparr>fd_elapsed := fadd (fd_elapsed f) dt\<rparr>))
     (bind_py (gets fd_elapsed) (\<lambda>now.
      seq_py (tick_load_shedding c emit now)
      (bind_py (gets (\<lambda>f. en_phase (fd_engine f))) (\<lambda>phase.
       seq_py
         (if SC_PHASE_NOMINAL \<le> phase
          then seq_py (tick_fault_detection c emit dt now)
                 (seq_py (tick_pending_cascades c emit now) (tick_recovery c emit now))
          else modify disarm)
       (seq_py (on_executor_of (executor_tick (procedure_callback (fc_base c) emit) emit now))
         (publish_fdir_parameters c))))))"

text \<open>The FDIR part of a tick of the simulation, with what it derives.\<close>

definition tick_fdir_all ::
  "'m fdir_config \<Rightarrow> bool \<Rightarrow> (event \<Rightarrow> ('m engine, unit) py) \<Rightarrow> py_float \<Rightarrow> ('m fdir, unit) py" where
  "tick_fdir_all c enabled emit dt =
     seq_py (when_py enabled (seq_py (tick_fdir c emit) (tick_fdir_advanced c emit dt)))
       (seq_py update_sc_mode (check_safe_mode_events (fc_base c) emit))"

end
