(* ===== verification/Fdir_Rules.thy ===== *)
theory Fdir_Rules
  imports Fdir_Advanced Bare_Spacecraft Outbox "HOL-Library.Multiset"
begin

text \<open>
  What the FDIR of the engine guarantees: a recovery climbs its levels one at a time and starts at
  most as many procedures as it has attempts, the load-shedding stage follows the charge of the
  battery, a fault is declared only when it has persisted, every procedure ends, and the mode of the
  spacecraft is the one the latched rules and the phase call for.
\<close>

section \<open>Recoveries\<close>

definition recovery_ok :: "'m fdir_config \<Rightarrow> recovery_state \<Rightarrow> bool" where
  "recovery_ok c rs \<longleftrightarrow>
     0 \<le> rs_attempts rs \<and> rs_attempts rs \<le> max 1 (rs_max_attempts rs) \<and>
     rs_level rs = (if rs_attempts rs = 0 then 0 else fc_initial_level c + rs_attempts rs - 1)"

definition recoveries_ok :: "'m fdir_config \<Rightarrow> 'm fdir \<Rightarrow> bool" where
  "recoveries_ok c f \<longleftrightarrow> (\<forall>rs\<in>snd ` set (fp_recoveries (fd_propagator f)). recovery_ok c rs)"

definition same_recoveries :: "'m fdir \<Rightarrow> 'm fdir \<Rightarrow> bool" where
  "same_recoveries f f' \<longleftrightarrow> fp_recoveries (fd_propagator f') = fp_recoveries (fd_propagator f)"

definition keeps_ok :: "'m fdir_config \<Rightarrow> 'm fdir \<Rightarrow> 'm fdir \<Rightarrow> bool" where
  "keeps_ok c f f' \<longleftrightarrow> (recoveries_ok c f \<longrightarrow> recoveries_ok c f')"

interpretation rc: py_frame same_recoveries
  by unfold_locales (simp_all add: same_recoveries_def)

interpretation ok: py_frame "keeps_ok c" for c
  by unfold_locales (simp_all add: keeps_ok_def)

lemma same_keeps: "rel_py same_recoveries m \<Longrightarrow> rel_py (keeps_ok c) m"
  by (simp add: rel_py_def same_recoveries_def keeps_ok_def recoveries_ok_def)

lemma same_engine [py_intros]: "rel_py same_recoveries (on_engine m)"
  by (rule rc.rel_zoom) (simp add: same_recoveries_def)

lemma same_executor [py_intros]: "rel_py same_recoveries (on_executor_of m)"
  by (rule rc.rel_zoom) (simp add: same_recoveries_def split: prod.split)

lemma same_shedding [py_intros]: "rel_py same_recoveries (on_shedding m)"
  by (rule rc.rel_zoom) (simp add: same_recoveries_def)

lemma same_event [py_intros]: "rel_py same_recoveries (raise_event emit k s t)"
  unfolding raise_event_def by (rule same_engine)

lemmas same_rules = rc.frame_rules same_engine same_executor same_shedding same_event

lemma recovery_entry:
  "recoveries_ok c f \<Longrightarrow> recovery_of fault_id f = Some rs \<Longrightarrow> recovery_ok c rs"
  by (force simp: recoveries_ok_def recovery_of_def get_recovery_state_def dest: map_of_SomeD)

lemma set_recovery_ok:
  "recoveries_ok c f \<Longrightarrow> recovery_ok c rs \<Longrightarrow>
   recoveries_ok c (f\<lparr>fd_propagator := set_recovery fault_id rs (fd_propagator f)\<rparr>)"
  using set_alist_update [of fault_id rs "fp_recoveries (fd_propagator f)"]
  by (auto simp: recoveries_ok_def set_recovery_def)

text \<open>Changes of an entry in place.\<close>

lemma with_recovery_run:
  "with_recovery fault_id g f = (Inr (), case recovery_of fault_id f of None \<Rightarrow> f
     | Some rs \<Rightarrow> f\<lparr>fd_propagator := set_recovery fault_id (g rs) (fd_propagator f)\<rparr>)"
  by (simp add: with_recovery_def recovery_of_def zoom_def modify_def split: option.split)

lemma with_recovery_ok:
  "recoveries_ok c f \<Longrightarrow> (\<And>rs. recovery_of fault_id f = Some rs \<Longrightarrow> recovery_ok c (g rs)) \<Longrightarrow>
   recoveries_ok c (snd (with_recovery fault_id g f))"
  by (auto simp: with_recovery_run set_recovery_ok split: option.split)

lemma with_recovery_keeps:
  "(\<And>rs. recovery_ok c rs \<Longrightarrow> recovery_ok c (g rs)) \<Longrightarrow> rel_py (keeps_ok c) (with_recovery fault_id g)"
  by (auto simp: rel_py_def keeps_ok_def intro!: with_recovery_ok dest: recovery_entry)

text \<open>Entering a level, from a state in which the attempt is allowed and the level is the next one.\<close>

definition may_enter :: "'m fdir_config \<Rightarrow> string \<Rightarrow> int \<Rightarrow> 'm fdir \<Rightarrow> bool" where
  "may_enter c fault_id k f \<longleftrightarrow> (\<forall>rs. recovery_of fault_id f = Some rs \<longrightarrow>
     0 \<le> rs_attempts rs \<and> rs_attempts rs + 1 \<le> max 1 (rs_max_attempts rs) \<and> k = fc_initial_level c + rs_attempts rs)"

lemma enter_recovery_level_ok:
  assumes "recoveries_ok c f" "may_enter c fault_id k f"
  shows "recoveries_ok c (snd (enter_recovery_level c emit fault_id rs k now esc f))"
proof (cases "level_action c (rs_group rs) k")
  case None
  then show ?thesis using assms by (simp add: enter_recovery_level_def ret_def)
next
  case (Some a)
  let ?g = "enter_level k now (procedure_stem (ra_procedure a))"
  have first: "recoveries_ok c (snd (with_recovery fault_id ?g f))"
    using assms by (intro with_recovery_ok) (auto simp: may_enter_def recovery_ok_def enter_level_def)
  have rest: "\<And>m. rel_py (keeps_ok c) m \<Longrightarrow> recoveries_ok c (snd (seq_py (with_recovery fault_id ?g) m f))"
    using first by (simp add: seq_py_def bind_py_def with_recovery_run rel_py_def keeps_ok_def)
  show ?thesis
    unfolding enter_recovery_level_def Some option.case Let_def
    by (rule rest, intro ok.rel_bind ok.rel_seq ok.rel_when with_recovery_keeps same_keeps same_rules)
      (simp_all add: recovery_ok_def)
qed

lemma seq_ok:
  assumes "rel_py same_recoveries m"
    and "\<And>f'. same_recoveries f f' \<Longrightarrow> recoveries_ok c (snd (n f'))" "recoveries_ok c f"
  shows "recoveries_ok c (snd (seq_py m n f))"
proof (cases "m f")
  case (Pair r f')
  then have s: "same_recoveries f f'" using assms(1) rel_pyD by fastforce
  show ?thesis
    using assms(2) [OF s] assms(3) s Pair
    by (cases r) (auto simp: seq_py_def bind_py_def same_recoveries_def recoveries_ok_def)
qed

lemma start_recovery_ok: "rel_py (keeps_ok c) (start_recovery c emit r now)"
proof (cases "actions_of c (fr_recovery r) = []")
  case True
  then show ?thesis by (simp add: start_recovery_def ok.rel_ret)
next
  case False
  define rs where "rs = (new_recovery (fr_fault_id r) (fr_recovery r) now (fc_max_attempts c))\<lparr>rs_group := fr_recovery r\<rparr>"
  have rs: "recovery_ok c rs" by (simp add: rs_def recovery_ok_def new_recovery_def)
  show ?thesis
    unfolding rel_py_def keeps_ok_def
  proof (intro allI impI)
    fix f assume f: "recoveries_ok c f"
    let ?f = "f\<lparr>fd_propagator := set_recovery (fr_fault_id r) rs (fd_propagator f)\<rparr>"
    have "may_enter c (fr_fault_id r) (fc_initial_level c) ?f"
      by (simp add: may_enter_def recovery_of_def get_recovery_state_def set_recovery_def update_conv'
          rs_def new_recovery_def)
    then have "recoveries_ok c (snd (enter_recovery_level c emit (fr_fault_id r) rs (fc_initial_level c) now False ?f))"
      by (rule enter_recovery_level_ok [OF set_recovery_ok [OF f rs]])
    then show "recoveries_ok c (snd (start_recovery c emit r now f))"
      using False by (simp add: start_recovery_def rs_def [symmetric] seq_py_def bind_py_def zoom_def modify_def)
  qed
qed

lemma tick_one_recovery_ok:
  assumes "fc_level_delays c 0 = None"
  shows "rel_py (keeps_ok c) (tick_one_recovery c emit now fault_id)"
  unfolding rel_py_def keeps_ok_def
proof (intro allI impI)
  fix f assume f: "recoveries_ok c f"
  show "recoveries_ok c (snd (tick_one_recovery c emit now fault_id f))"
  proof (cases "recovery_of fault_id f")
    case None
    then show ?thesis using f by (simp add: tick_one_recovery_def ret_def)
  next
    case (Some rs)
    have ok: "recovery_ok c rs" using recovery_entry [OF f Some] .
    show ?thesis
    proof (cases "escalation_due c now fault_id rs f")
      case False
      then show ?thesis using f Some by (simp add: tick_one_recovery_def ret_def)
    next
      case True
      then have "rs_level rs \<noteq> 0" using assms by (auto simp: escalation_due_def fle_def Let_def)
      then have att: "0 < rs_attempts rs" using ok by (auto simp: recovery_ok_def split: if_splits)
      let ?up = "map_of (actions_of c (rs_group rs)) (level_key (rs_level rs + 1)) \<noteq> None \<and>
               rs_attempts rs < rs_max_attempts rs"
      show ?thesis
      proof (cases ?up)
        case up: True
        have enter: "recoveries_ok c (snd (enter_recovery_level c emit fault_id rs (rs_level rs + 1) now True f'))"
          if "same_recoveries f f'" for f'
        proof (rule enter_recovery_level_ok)
          show "recoveries_ok c f'" using f that by (simp add: recoveries_ok_def same_recoveries_def)
          have "recovery_of fault_id f' = Some rs"
            using Some that by (simp add: recovery_of_def get_recovery_state_def same_recoveries_def)
          then show "may_enter c fault_id (rs_level rs + 1) f'"
            using ok att up by (auto simp: may_enter_def recovery_ok_def)
        qed
        show ?thesis
          using seq_ok [OF same_event enter f] up True Some by (simp add: tick_one_recovery_def)
      next
        case no: False
        have "rel_py (keeps_ok c) (seq_py (with_recovery fault_id (\<lambda>rs. rs\<lparr>rs_state := St_failed\<rparr>)) (raise_event emit a b t))" for a b t
          by (intro ok.rel_seq with_recovery_keeps same_keeps [OF same_event]) (simp add: recovery_ok_def)
        then show ?thesis
          using no True Some f by (auto simp: tick_one_recovery_def rel_py_def keeps_ok_def)
      qed
    qed
  qed
qed

lemma complete_recovery_keeps: "rel_py (keeps_ok c) (complete_recovery emit fault_id)"
  unfolding complete_recovery_def
  by (intro ok.frame_rules with_recovery_keeps same_keeps [OF same_event]) (simp add: recovery_ok_def)

lemma propagator_same: "(\<And>p. fp_recoveries (snd (m p)) = fp_recoveries p) \<Longrightarrow> rel_py same_recoveries (on_propagator m)"
  by (simp add: rel_py_def same_recoveries_def zoom_def split: prod.split) (metis snd_conv)

lemma detect_fault_same: "rel_py same_recoveries (on_propagator (detect_fault fault_id now))"
  by (rule propagator_same) (simp add: detect_fault_def)

lemma modify_same: "(\<And>f. fp_recoveries (fd_propagator (g f)) = fp_recoveries (fd_propagator f)) \<Longrightarrow> rel_py same_recoveries (modify g)"
  by (rule rc.rel_modify) (simp add: same_recoveries_def)

lemma judge_value_keeps: "rel_py (keeps_ok c) (judge_value c emit dt now r v)"
  unfolding judge_value_def fault_appears_def fault_vanishes_def
  by (intro ok.frame_rules start_recovery_ok complete_recovery_keeps same_keeps [OF same_event]
        same_keeps [OF detect_fault_same] same_keeps [OF modify_same]) (simp_all add: clear_fault_def)

lemma judge_rule_keeps: "rel_py (keeps_ok c) (judge_rule c emit dt now r)"
  unfolding judge_rule_def
  by (intro ok.frame_rules judge_value_keeps same_keeps [OF modify_same]) (simp add: withdraw_fault_def clear_fault_def)

lemma apply_cascade_same: "rel_py same_recoveries (apply_cascade c emit ca)"
  unfolding apply_cascade_def by (intro same_rules)

lemma tick_load_shedding_same: "rel_py same_recoveries (tick_load_shedding c emit now)"
  unfolding tick_load_shedding_def by (intro same_rules modify_same) simp_all

lemma recoveries_disarm: "fp_recoveries (fold clear_fault fs p) = fp_recoveries p"
  by (induction fs arbitrary: p) (simp_all add: clear_fault_def)

lemma advanced_keeps_levels:
  assumes "fc_level_delays c 0 = None" "recoveries_ok c f"
  shows "recoveries_ok c (snd (tick_fdir_advanced c emit dt f))"
proof -
  have "rel_py (keeps_ok c) (tick_fdir_advanced c emit dt)"
    unfolding tick_fdir_advanced_def tick_fault_detection_def tick_pending_cascades_def tick_recovery_def
      publish_fdir_parameters_def
    by (intro ok.frame_rules judge_rule_keeps tick_one_recovery_ok [OF assms(1)] same_keeps [OF tick_load_shedding_same]
        same_keeps [OF apply_cascade_same] same_keeps [OF same_executor] same_keeps [OF modify_same])
      (simp_all add: disarm_def recoveries_disarm)
  then show ?thesis using assms(2) by (simp add: rel_py_def keeps_ok_def)
qed

text \<open>
  C29: A recovery climbs its levels one at a time and never makes more attempts than it may: from a state
  with no recovery under way, after any number of FDIR ticks of any lengths, also of ticks that an exception
  cuts short, every recovery is at level 0 before its first attempt and then at the initial level plus the
  attempts made before the current one, and has made at most as many attempts as it may (at least one). No
  delay is configured for level 0.
\<close>

theorem recoveries_climb_one_level_at_a_time:
  assumes "fc_level_delays c 0 = None" "fp_recoveries (fd_propagator f) = []"
  shows "list_all (\<lambda>(k, rs). 0 \<le> rs_attempts rs \<and> rs_attempts rs \<le> max 1 (rs_max_attempts rs) \<and>
       rs_level rs = (if rs_attempts rs = 0 then 0 else fc_initial_level c + rs_attempts rs - 1))
     (fp_recoveries (fd_propagator (fold (\<lambda>dt f. snd (tick_fdir_advanced c emit dt f)) dts f)))"
proof -
  let ?g = "fold (\<lambda>dt f. snd (tick_fdir_advanced c emit dt f)) dts f"
  have "recoveries_ok c f" using assms(2) by (simp add: recoveries_ok_def)
  then have ok: "recoveries_ok c ?g"
    by (rule fold_invariant [where Q = "\<lambda>_. True", rotated]) (rule advanced_keeps_levels [OF assms(1)], simp_all)
  show ?thesis
    unfolding list_all_iff
  proof
    fix x assume "x \<in> set (fp_recoveries (fd_propagator ?g))"
    then have "recovery_ok c (snd x)" using ok unfolding recoveries_ok_def by blast
    then show "case x of (k, rs) \<Rightarrow> 0 \<le> rs_attempts rs \<and> rs_attempts rs \<le> max 1 (rs_max_attempts rs) \<and>
        rs_level rs = (if rs_attempts rs = 0 then 0 else fc_initial_level c + rs_attempts rs - 1)"
      by (simp only: recovery_ok_def case_prod_beta)
  qed
qed

section \<open>Load shedding\<close>

text \<open>What fault detection, cascades, recoveries and procedures leave alone.\<close>

definition aside :: "'m fdir \<Rightarrow> 'm fdir \<Rightarrow> bool" where
  "aside f f' \<longleftrightarrow> fd_shedding f' = fd_shedding f \<and> fd_shed_stage f' = fd_shed_stage f \<and>
     fd_triggered f' = fd_triggered f \<and> fd_safe f' = fd_safe f \<and> fd_emergency f' = fd_emergency f"

interpretation as: py_frame aside
  by unfold_locales (simp_all add: aside_def)

lemma aside_zooms:
  "rel_py aside (on_engine m)" "rel_py aside (on_executor_of x)" "rel_py aside (on_propagator p)"
  "rel_py aside (raise_event emit k s t)" "rel_py aside (with_recovery i g)"
  unfolding raise_event_def with_recovery_def by (intro as.rel_zoom; simp add: aside_def split: prod.split)+

lemma aside_modify: "(\<And>f. aside f (g f)) \<Longrightarrow> rel_py aside (modify g)"
  by (rule as.rel_modify)

lemma aside_enter: "rel_py aside (enter_recovery_level c emit i rs k now esc)"
  unfolding enter_recovery_level_def by (intro as.frame_rules aside_zooms)

lemma aside_start: "rel_py aside (start_recovery c emit r now)"
  unfolding start_recovery_def by (intro as.frame_rules aside_zooms aside_enter)

lemma aside_judge: "rel_py aside (judge_rule c emit dt now r)"
  unfolding judge_rule_def judge_value_def fault_appears_def fault_vanishes_def complete_recovery_def
  by (intro as.frame_rules aside_zooms aside_start aside_modify) (simp_all add: aside_def withdraw_fault_def)

lemma aside_recovery: "rel_py aside (tick_one_recovery c emit now i)"
  unfolding tick_one_recovery_def by (intro as.frame_rules aside_zooms aside_enter)

lemma aside_cascade: "rel_py aside (apply_cascade c emit ca)"
  unfolding apply_cascade_def by (intro as.frame_rules aside_zooms)

text \<open>The part of the advanced tick after load shedding.\<close>

definition fault_part ::
  "'m fdir_config \<Rightarrow> (event \<Rightarrow> ('m engine, unit) py) \<Rightarrow> py_float \<Rightarrow> py_float \<Rightarrow> ('m fdir, unit) py" where
  "fault_part c emit dt now =
     bind_py (gets (\<lambda>f. en_phase (fd_engine f))) (\<lambda>phase.
       seq_py
         (if SC_PHASE_NOMINAL \<le> phase
          then seq_py (tick_fault_detection c emit dt now)
                 (seq_py (tick_pending_cascades c emit now) (tick_recovery c emit now))
          else modify disarm)
       (seq_py (on_executor_of (executor_tick (procedure_callback (fc_base c) emit) emit now))
         (publish_fdir_parameters c)))"

lemma tick_fdir_advanced_parts:
  "tick_fdir_advanced c emit dt f =
     (let now = fadd (fd_elapsed f) dt in
      seq_py (tick_load_shedding c emit now) (fault_part c emit dt now) (f\<lparr>fd_elapsed := now\<rparr>))"
  by (simp add: tick_fdir_advanced_def fault_part_def Let_def cong: if_cong)

lemma aside_fault_part: "rel_py aside (fault_part c emit dt now)"
  unfolding fault_part_def tick_fault_detection_def tick_pending_cascades_def tick_recovery_def publish_fdir_parameters_def
  by (intro as.frame_rules aside_zooms aside_judge aside_recovery aside_cascade aside_modify)
    (simp_all add: aside_def disarm_def)

text \<open>The thresholds, sorted as the configuration code does.\<close>

definition descending :: "py_float list \<Rightarrow> bool" where
  "descending = sorted_wrt (\<lambda>x y. fle y x)"

lemma fle_trans: "fle x y \<Longrightarrow> fle y z \<Longrightarrow> fle x z"
  by (cases x; cases y; cases z) (auto simp: fle_def)

lemma fle_total: "x \<noteq> NaN \<Longrightarrow> y \<noteq> NaN \<Longrightarrow> fle x y \<longleftrightarrow> \<not> fless y x"
  by (simp add: fle_def)

lemma fless_fle: "fless x y \<Longrightarrow> fle x y"
  by (cases x; cases y) (auto simp: fle_def)

lemma set_insert_desc: "mset (insert_desc x ys) = add_mset x (mset ys)"
  by (induction ys) auto

lemma mset_sort_desc: "mset (sort_desc xs) = mset xs"
  by (induction xs) (simp_all add: sort_desc_def set_insert_desc)

lemma insert_desc_descending:
  "x \<noteq> NaN \<Longrightarrow> NaN \<notin> set ys \<Longrightarrow> descending ys \<Longrightarrow> descending (insert_desc x ys)"
proof (induction ys)
  case (Cons y ys)
  have "set (insert_desc x ys) = insert x (set ys)"
    using arg_cong [OF set_insert_desc, of set_mset x ys] by simp
  then show ?case
    using Cons by (auto simp: descending_def fle_total intro: fless_fle fle_trans)
qed (simp add: descending_def)

lemma sort_desc_descending: "NaN \<notin> set xs \<Longrightarrow> descending (sort_desc xs)"
proof (induction xs)
  case (Cons x xs)
  have "set (sort_desc xs) = set xs" using mset_sort_desc [of xs] by (metis set_mset_mset)
  then show ?case using Cons insert_desc_descending [of x "sort_desc xs"] by (auto simp: sort_desc_def)
qed (simp add: sort_desc_def descending_def)

text \<open>The stage is the number of thresholds above the charge.\<close>

lemma required_stage_counts:
  assumes "length (ls_thresholds l) = 3" "descending (ls_thresholds l)" "NaN \<notin> set (ls_thresholds l)" "soc \<noteq> NaN"
  shows "get_required_stage l soc = Inr (int (length (filter (fless soc) (ls_thresholds l))))"
proof -
  obtain a b d where t: "ls_thresholds l = [a, b, d]"
    using assms(1) by (auto simp: length_Suc_conv numeral_3_eq_3)
  then have "fle b a" "fle d b" "fle d a" using assms(2) by (simp_all add: descending_def)
  then show ?thesis
    using assms(3,4) t by (auto simp: get_required_stage_def fle_total dest: fle_trans [of _ _ soc])
qed

lemma update_stage_follows:
  "update_stage soc now l = (Inr x, l') \<Longrightarrow>
   get_required_stage l soc = Inr (ls_stage l') \<and> ls_thresholds l' = ls_thresholds l \<and>
   x = (if ls_stage l' = ls_stage l then None else Some (ls_stage l'))"
  by (auto simp: update_stage_def bind_returns gets_def modify_def ret_def split: if_splits)

lemma load_shedding_follows:
  assumes "sy_present (cf_sys (fc_base c)) ''eps''" "battery_soc (fc_base c) (fd_engine f) = Inr soc"
    and "fd_shed_stage f = ls_stage (fd_shedding f)" "tick_load_shedding c emit now f = (Inr (), f')"
  shows "get_required_stage (fd_shedding f) soc = Inr (ls_stage (fd_shedding f'))"
    and "fd_shed_stage f' = ls_stage (fd_shedding f')"
proof -
  obtain x l where up: "update_stage soc now (fd_shedding f) = (Inr x, l)"
    and rest: "(case x of None \<Rightarrow> ret () | Some stage \<Rightarrow>
          seq_py (modify (\<lambda>f. f\<lparr>fd_shed_stage := stage\<rparr>))
          (bind_py (gets fd_shedding) (\<lambda>l.
           seq_py (on_engine (execute_stage (shed_callback (fc_base c)) l stage))
             (if fd_shed_stage f < stage
              then raise_event emit 0x0F05 2 (py ''Load shedding activated: '' @ stage_name l stage)
              else raise_event emit 0x0F06 1 (py ''Load shedding relaxed to '' @ stage_name l stage)))))
         (f\<lparr>fd_shedding := l\<rparr>) = (Inr (), f')"
    using assms(1,2,4) by (auto simp: tick_load_shedding_def returns of_result_def)
  have l: "get_required_stage (fd_shedding f) soc = Inr (ls_stage l)"
      "x = (if ls_stage l = ls_stage (fd_shedding f) then None else Some (ls_stage l))"
    using update_stage_follows [OF up] by simp_all
  have "fd_shedding f' = l \<and> fd_shed_stage f' = ls_stage l"
    using rest l(2) assms(3) by (auto simp: returns raise_event_def gets_def ret_def split: if_splits)
  then show "get_required_stage (fd_shedding f) soc = Inr (ls_stage (fd_shedding f'))"
    "fd_shed_stage f' = ls_stage (fd_shedding f')" using l by simp_all
qed

text \<open>
  The load-shedding stage follows the battery: when the advanced tick returns, the stage of the
  manager (and the engine's copy of it) is the number of the configured charge thresholds that lie
  above the state of charge, in whatever order they were configured.
\<close>

theorem shed_stage_follows_charge:
  assumes "sy_present (cf_sys (fc_base c)) ''eps''" "battery_soc (fc_base c) (fd_engine f) = Inr soc" "soc \<noteq> NaN"
    and "fd_shedding f = set_soc_stage_thresholds (map Some ts) l" "length ts = 3" "NaN \<notin> set ts"
    and "fd_shed_stage f = ls_stage (fd_shedding f)" "tick_fdir_advanced c emit dt f = (Inr (), f')"
  shows "ls_stage (fd_shedding f') = int (length (filter (fless soc) ts)) \<and>
         fd_shed_stage f' = int (length (filter (fless soc) ts))"
proof -
  let ?now = "fadd (fd_elapsed f) dt"
  obtain f1 where f1: "tick_load_shedding c emit ?now (f\<lparr>fd_elapsed := ?now\<rparr>) = (Inr (), f1)"
    and rest: "fault_part c emit dt ?now f1 = (Inr (), f')"
    using assms(8) by (auto simp: tick_fdir_advanced_parts Let_def returns)
  have "aside f1 f'" using rel_pyD [OF aside_fault_part rest] .
  then have same: "fd_shedding f' = fd_shedding f1" "fd_shed_stage f' = fd_shed_stage f1" by (simp_all add: aside_def)
  note follows = load_shedding_follows [OF assms(1) _ _ f1, of soc, simplified, OF assms(2,7)]
  have "[t. Some t \<leftarrow> map Some ts] = ts" by (induction ts) simp_all
  then have th: "ls_thresholds (fd_shedding f) = sort_desc ts"
    using assms(4,5) by (simp add: set_soc_stage_thresholds_def)
  have len: "length (sort_desc ts) = 3" "set (sort_desc ts) = set ts"
    using mset_sort_desc [of ts] assms(5) by (metis size_mset, metis set_mset_mset)
  have "length (filter (fless soc) (sort_desc ts)) = length (filter (fless soc) ts)"
    using arg_cong [OF mset_sort_desc [of ts], of "\<lambda>m. size (filter_mset (fless soc) m)"]
    by (simp flip: mset_filter)
  then have "get_required_stage (fd_shedding f) soc = Inr (int (length (filter (fless soc) ts)))"
    using required_stage_counts [of "fd_shedding f" soc] sort_desc_descending [OF assms(6)] len assms(3,6) th by simp
  then show ?thesis using follows same by simp
qed

section \<open>Declaring a fault\<close>

definition same_faults :: "'m fdir \<Rightarrow> 'm fdir \<Rightarrow> bool" where
  "same_faults f f' \<longleftrightarrow> fp_active (fd_propagator f') = fp_active (fd_propagator f) \<and>
     fd_fault_persist f' = fd_fault_persist f"

interpretation sf: py_frame same_faults
  by unfold_locales (simp_all add: same_faults_def)

lemma same_faults_zooms:
  "rel_py same_faults (on_engine m)" "rel_py same_faults (on_executor_of x)"
  "rel_py same_faults (raise_event emit k s t)" "rel_py same_faults (with_recovery i g)"
  unfolding raise_event_def
  by (intro sf.rel_zoom; simp add: same_faults_def split: prod.split)+
    (auto simp: rel_py_def same_faults_def with_recovery_run set_recovery_def split: option.split)

lemma same_faults_enter: "rel_py same_faults (enter_recovery_level c emit i rs k now esc)"
  unfolding enter_recovery_level_def by (intro sf.frame_rules same_faults_zooms)

lemma same_faults_start: "rel_py same_faults (start_recovery c emit r now)"
  unfolding start_recovery_def
  by (intro sf.frame_rules same_faults_zooms same_faults_enter)
    (simp add: rel_py_def zoom_def modify_def same_faults_def set_recovery_def)

lemma same_faults_complete: "rel_py same_faults (complete_recovery emit i)"
  unfolding complete_recovery_def by (intro sf.frame_rules same_faults_zooms)

lemma fault_active_update:
  "fault_active i (p\<lparr>fp_active := AList.update i t xs\<rparr>)" "\<not> fault_active i (p\<lparr>fp_active := AList.delete i xs\<rparr>)"
  by (simp_all add: fault_active_def update_conv' delete_conv')

lemma same_faults_active:
  "same_faults f f' \<Longrightarrow> fault_active i (fd_propagator f') = fault_active i (fd_propagator f)"
  by (simp add: same_faults_def fault_active_def)

lemma fault_appears_active:
  assumes "fault_appears c emit now r v f = (Inr (), f')"
  shows "fault_active (fr_fault_id r) (fd_propagator f') \<and> fd_fault_persist f' = fd_fault_persist f"
proof -
  obtain cs p f1 where d: "detect_fault (fr_fault_id r) now (fd_propagator f) = (Inr cs, p)"
    and ev: "raise_event emit 0x0F00 3 (fault_event r v) (f\<lparr>fd_propagator := p\<rparr>) = (Inr (), f1)"
    and rec: "when_py (fr_recovery r \<noteq> []) (start_recovery c emit r now)
                (f1\<lparr>fd_pending := fd_pending f1 @ map (set_due now) cs\<rparr>) = (Inr (), f')"
    using assms by (auto simp: fault_appears_def returns)
  have "fault_active (fr_fault_id r) p"
    using d fault_active_update(1) by (auto simp: detect_fault_def split: if_splits)
  moreover have "same_faults (f\<lparr>fd_propagator := p\<rparr>) f1" using rel_pyD [OF same_faults_zooms(3) ev] .
  moreover have "same_faults f1 f'"
    using rel_pyD [OF sf.rel_when [OF same_faults_start] rec] by (simp add: same_faults_def)
  ultimately show ?thesis by (simp add: same_faults_def fault_active_def)
qed

lemma fault_vanishes_inactive:
  assumes "fault_vanishes emit i f = (Inr (), f')"
  shows "\<not> fault_active i (fd_propagator f') \<and> fd_fault_persist f' = fd_fault_persist f"
proof -
  let ?f = "f\<lparr>fd_propagator := clear_fault i (fd_propagator f), fd_pending := filter (\<lambda>ca. ca_fault_id ca \<noteq> i) (fd_pending f)\<rparr>"
  have "complete_recovery emit i ?f = (Inr (), f')" using assms by (simp add: fault_vanishes_def)
  then have "same_faults ?f f'" by (rule rel_pyD [OF same_faults_complete])
  then show ?thesis by (simp add: same_faults_def clear_fault_def fault_active_def delete_conv')
qed

lemma judge_value_verdict:
  assumes "judge_value c emit dt now r v f = (Inr (), f')"
  shows "(fault_active (fr_fault_id r) (fd_propagator f'), fd_fault_persist f') =
         persist_filter (fr_fault_id r) (fr_persist r) dt (evaluate_rule r v = Inr True) (fd_fault_persist f)"
proof -
  obtain raw where raw: "evaluate_rule r v = Inr raw" and
    run: "(case persist_filter (fr_fault_id r) (fr_persist r) dt raw (fd_fault_persist f) of (present, accs') \<Rightarrow>
       seq_py (modify (\<lambda>f. f\<lparr>fd_fault_persist := accs'\<rparr>))
       (bind_py (gets (\<lambda>f. fault_active (fr_fault_id r) (fd_propagator f))) (\<lambda>already.
          if present \<and> \<not> already then fault_appears c emit now r v
          else if \<not> present \<and> already then fault_vanishes emit (fr_fault_id r)
          else ret ()))) f = (Inr (), f')"
    using assms by (auto simp: judge_value_def bind_returns of_result_def gets_def)
  obtain p a where pf: "persist_filter (fr_fault_id r) (fr_persist r) dt raw (fd_fault_persist f) = (p, a)"
    by (cases "persist_filter (fr_fault_id r) (fr_persist r) dt raw (fd_fault_persist f)")
  have "fault_active (fr_fault_id r) (fd_propagator f') = p \<and> fd_fault_persist f' = a"
    using run fault_appears_active [of c emit now r v "f\<lparr>fd_fault_persist := a\<rparr>" f']
      fault_vanishes_inactive [of emit "fr_fault_id r" "f\<lparr>fd_fault_persist := a\<rparr>" f']
    unfolding pf by (auto simp: ret_def split: if_splits)
  then show ?thesis using raw pf by simp
qed

text \<open>How long a condition has held at the end of a sequence of samples, each with its tick.\<close>

definition held_for :: "(py_float \<times> bool) list \<Rightarrow> py_float" where
  "held_for xs = foldl fadd f0 (map fst (rev (takeWhile snd (rev xs))))"

lemma held_for_simps [simp]:
  "held_for [] = f0" "held_for (xs @ [(dt, True)]) = fadd (held_for xs) dt" "held_for (xs @ [(dt, False)]) = f0"
  by (simp_all add: held_for_def)

lemma persist_filter_step:
  assumes "fless f0 persist" "map_of accs key = (if xs = [] then None else Some (held_for xs))"
  shows "persist_filter key persist dt b accs =
           (b \<and> \<not> fless (held_for (xs @ [(dt, b)])) persist, AList.update key (held_for (xs @ [(dt, b)])) accs)"
  using assms by (cases b) (simp_all add: persist_filter_def Let_def)

text \<open>
  C28: A fault is declared exactly when its condition has persisted: after any sequence of judged
  samples of a rule with a persistence time, the fault is active if and only if the last sample
  meets the condition and the ticks of the unbroken run of samples that do add up to that time.
\<close>

theorem fault_declared_when_persistent:
  assumes "fless f0 (fr_persist r)" "map_of (fd_fault_persist f) (fr_fault_id r) = None" "samples \<noteq> []"
    and "each (\<lambda>(dt, now, v). judge_value c emit dt now r v) samples f = (Inr (), f')"
  shows "fault_active (fr_fault_id r) (fd_propagator f') \<longleftrightarrow>
           (let xs = map (\<lambda>(dt, now, v). (dt, evaluate_rule r v = Inr True)) samples
            in snd (last xs) \<and> \<not> fless (held_for xs) (fr_persist r))"
proof -
  let ?x = "\<lambda>(dt, now, v). (dt, evaluate_rule r v = Inr True)"
  have run: "map_of (fd_fault_persist g) (fr_fault_id r) = (if seen = [] then None else Some (held_for seen)) \<Longrightarrow>
     each (\<lambda>(dt, now, v). judge_value c emit dt now r v) ss g = (Inr (), g') \<Longrightarrow> ss \<noteq> [] \<Longrightarrow>
     fault_active (fr_fault_id r) (fd_propagator g') \<longleftrightarrow>
       snd (last (map ?x ss)) \<and> \<not> fless (held_for (seen @ map ?x ss)) (fr_persist r)" for ss seen g g'
  proof (induction ss arbitrary: seen g)
    case (Cons s ss)
    obtain dt now v where s: "s = (dt, now, v)" by (cases s)
    obtain g1 where g1: "judge_value c emit dt now r v g = (Inr (), g1)"
      and rest: "each (\<lambda>(dt, now, v). judge_value c emit dt now r v) ss g1 = (Inr (), g')"
      using Cons.prems(2) s by (auto simp: returns)
    let ?seen = "seen @ [(dt, evaluate_rule r v = Inr True)]"
    have step: "fault_active (fr_fault_id r) (fd_propagator g1) \<longleftrightarrow>
          evaluate_rule r v = Inr True \<and> \<not> fless (held_for ?seen) (fr_persist r)"
        "map_of (fd_fault_persist g1) (fr_fault_id r) = Some (held_for ?seen)"
      using judge_value_verdict [OF g1] persist_filter_step [OF assms(1) Cons.prems(1), of dt "evaluate_rule r v = Inr True"]
      by (simp_all add: update_conv')
    show ?case
    proof (cases "ss = []")
      case True
      then show ?thesis using step(1) rest s by (simp add: ret_def)
    next
      case False
      then show ?thesis using Cons.IH [OF _ rest False, of ?seen] step(2) s by simp
    qed
  qed simp
  show ?thesis using run [of f "[]" samples f'] assms(2,3,4) by (simp add: Let_def)
qed

section \<open>The mode of the spacecraft\<close>

definition same_latches :: "'m fdir \<Rightarrow> 'm fdir \<Rightarrow> bool" where
  "same_latches f f' \<longleftrightarrow> fd_triggered f' = fd_triggered f \<and> fd_safe f' = fd_safe f \<and> fd_emergency f' = fd_emergency f"

interpretation lt: py_frame same_latches
  by unfold_locales (simp_all add: same_latches_def)

lemma same_latches_zooms:
  "rel_py same_latches (on_engine m)" "rel_py same_latches (on_shedding n)" "rel_py same_latches (raise_event emit k s t)"
  unfolding raise_event_def by (intro lt.rel_zoom; simp add: same_latches_def)+

lemma same_latches_modify: "(\<And>f. same_latches f (g f)) \<Longrightarrow> rel_py same_latches (modify g)"
  by (rule lt.rel_modify)

lemma same_latches_advanced: "rel_py same_latches (tick_fdir_advanced c emit dt)"
proof -
  have shed: "rel_py same_latches (tick_load_shedding c emit now)" for now
    unfolding tick_load_shedding_def
    by (intro lt.frame_rules same_latches_zooms same_latches_modify) (simp add: same_latches_def)
  have faults: "rel_py same_latches (fault_part c emit dt now)" for now
    using aside_fault_part [of c emit dt now] by (simp add: rel_py_def aside_def same_latches_def)
  have "same_latches f (snd (tick_fdir_advanced c emit dt f))" for f
    using lt.rel_seq [OF shed faults, of "fadd (fd_elapsed f) dt"]
    by (simp add: tick_fdir_advanced_parts Let_def rel_py_def same_latches_def)
  then show ?thesis by (simp add: rel_py_def)
qed

definition mode_of :: "'m fdir_config \<Rightarrow> 'm fdir \<Rightarrow> int" where
  "mode_of c f =
     (if level_latched (fc_rules c) 3 f then SC_EMERGENCY
      else if level_latched (fc_rules c) 2 f \<or> en_phase (fd_engine f) < SC_PHASE_NOMINAL then SC_SAFE
      else if (case en_params (fd_engine f) 0x0600 of None \<Rightarrow> False | Some v \<Rightarrow> trunc_float v = Inr 2) then SC_SCIENCE
      else SC_NOMINAL)"

lemma level_latched_cong: "fd_triggered f' = fd_triggered f \<Longrightarrow> level_latched rs k f' = level_latched rs k f"
  by (simp add: level_latched_def rule_triggered_def)

lemma tick_fdir_flags:
  assumes "tick_fdir c emit f = (Inr (), f')"
  shows "fd_safe f' = level_latched (fc_rules c) 2 f' \<and> fd_emergency f' = level_latched (fc_rules c) 3 f'"
  using assms by (auto simp: tick_fdir_def returns modify_def level_latched_def rule_triggered_def)

definition same_modes :: "'m fdir \<Rightarrow> 'm fdir \<Rightarrow> bool" where
  "same_modes f f' \<longleftrightarrow> fd_sc_mode f' = fd_sc_mode f \<and> fd_triggered f' = fd_triggered f \<and>
     en_phase (fd_engine f') = en_phase (fd_engine f) \<and> en_params (fd_engine f') = en_params (fd_engine f)"

interpretation md: py_frame same_modes
  by unfold_locales (simp_all add: same_modes_def)

lemma same_modes_event: "rel_py same_modes (raise_event (emit_event cf n) k s t)"
proof -
  have "kept e (snd (emit_event cf n ev e))" for ev e
    using ev_emit_event [of cf n ev] by (simp add: rel_py_def evt_def)
  then show ?thesis
    by (simp add: rel_py_def raise_event_def zoom_def same_modes_def kept_def split: prod.split) (metis snd_conv)
qed

lemma same_modes_check: "rel_py same_modes (check_safe_mode_events cf (emit_event cf n))"
  unfolding check_safe_mode_events_def check_safe_mode_def check_eps_mode_def
  by (intro md.frame_rules same_modes_event md.rel_modify) (simp_all add: same_modes_def)

definition same_prev :: "'m fdir \<Rightarrow> 'm fdir \<Rightarrow> bool" where
  "same_prev f f' \<longleftrightarrow> fd_prev_safe f' = fd_prev_safe f"

interpretation pv: py_frame same_prev
  by unfold_locales (simp_all add: same_prev_def)

lemma same_prev_event: "rel_py same_prev (raise_event emit k s t)"
  unfolding raise_event_def by (rule pv.rel_zoom) (simp add: same_prev_def)

lemma same_prev_eps: "rel_py same_prev (check_eps_mode cf emit)"
  unfolding check_eps_mode_def by (intro pv.frame_rules same_prev_event pv.rel_modify) (simp_all add: same_prev_def)

lemma prev_safe_settles:
  assumes "check_safe_mode_events cf emit f = (Inr (), f')"
  shows "fd_prev_safe f' = (fd_sc_mode f = SC_SAFE)"
proof -
  obtain f1 where one: "check_safe_mode emit f = (Inr (), f1)" and two: "check_eps_mode cf emit f1 = (Inr (), f')"
    using assms by (auto simp: check_safe_mode_events_def seq_returns)
  have "fd_prev_safe f1 = (fd_sc_mode f = SC_SAFE)"
  proof (cases "(fd_sc_mode f = SC_SAFE) = fd_prev_safe f")
    case True
    then show ?thesis using one by (auto simp: check_safe_mode_def ret_def)
  next
    case False
    let ?g = "f\<lparr>fd_prev_safe := (fd_sc_mode f = SC_SAFE)\<rparr>"
    obtain k s t where "raise_event emit k s t ?g = (Inr (), f1)"
      using one False by (auto simp: check_safe_mode_def split: if_splits)
    then show ?thesis using rel_pyD [OF same_prev_event] by (fastforce simp: same_prev_def)
  qed
  then show ?thesis using rel_pyD [OF same_prev_eps two] by (simp add: same_prev_def)
qed

lemma update_sc_mode_mode:
  assumes "update_sc_mode f = (Inr (), f')" "fd_safe f = level_latched (fc_rules c) 2 f" "fd_emergency f = level_latched (fc_rules c) 3 f"
  shows "fd_sc_mode f' = mode_of c f'"
proof -
  have "\<exists>k. f' = f\<lparr>fd_sc_mode := k\<rparr> \<and> k = mode_of c f"
    using assms(1) unfolding update_sc_mode_def assms(2,3) mode_of_def
    by (auto split: if_splits option.splits sum.splits)
  then show ?thesis by (auto simp: mode_of_def level_latched_def rule_triggered_def)
qed

text \<open>
  The mode of the spacecraft is derived from the contingencies: when the FDIR part of a tick
  returns, it is EMERGENCY exactly when a rule of level 3 is latched, otherwise SAFE when a rule of
  level 2 is latched or the spacecraft is not commissioned, otherwise SCIENCE or NOMINAL by the mode
  of the payload, and a change into or out of SAFE has been reported.
\<close>

theorem mode_follows_contingencies:
  assumes "tick_fdir_all c True (emit_event (fc_base c) n) dt f = (Inr (), f')"
  shows "fd_sc_mode f' = mode_of c f' \<and> fd_prev_safe f' = (fd_sc_mode f' = SC_SAFE)"
proof -
  let ?emit = "emit_event (fc_base c) n"
  obtain f1 f2 f3 where f1: "tick_fdir c ?emit f = (Inr (), f1)" and f2: "tick_fdir_advanced c ?emit dt f1 = (Inr (), f2)"
    and f3: "update_sc_mode f2 = (Inr (), f3)" and f4: "check_safe_mode_events (fc_base c) ?emit f3 = (Inr (), f')"
    using assms by (auto simp: tick_fdir_all_def returns when_py_def)
  have l: "same_latches f1 f2" using rel_pyD [OF same_latches_advanced f2] .
  have "fd_safe f2 = level_latched (fc_rules c) 2 f2" "fd_emergency f2 = level_latched (fc_rules c) 3 f2"
    using tick_fdir_flags [OF f1] l level_latched_cong [of f2 f1] by (simp_all add: same_latches_def)
  then have m: "fd_sc_mode f3 = mode_of c f3" using update_sc_mode_mode [OF f3] by simp
  have "same_modes f3 f'" using rel_pyD [OF same_modes_check f4] .
  then have "fd_sc_mode f' = fd_sc_mode f3" "mode_of c f' = mode_of c f3"
    using level_latched_cong [of f' f3] by (simp_all add: same_modes_def mode_of_def)
  then show ?thesis using m prev_safe_settles [OF f4] by simp
qed

section \<open>A spacecraft to run it on\<close>

definition bare_fdir_config :: "unit fdir_config" where
  "bare_fdir_config = \<lparr>fc_base = bare_config, fc_rules = [], fc_subsystem_ids = Map.empty, fc_catalogue = Map.empty,
     fc_recovery_actions = Map.empty, fc_initial_level = 1, fc_max_attempts = 3, fc_level_delays = Map.empty,
     fc_stations = []\<rparr>"

definition bare_fdir :: "unit engine \<Rightarrow> unit fdir" where
  "bare_fdir e = \<lparr>fd_engine = e, fd_propagator = new_propagator, fd_shedding = new_load_shedding,
     fd_executor = new_executor, fd_triggered = [], fd_rule_persist = [], fd_fault_persist = [], fd_pending = [],
     fd_shed_stage = 0, fd_elapsed = f0, fd_safe = False, fd_emergency = False, fd_sc_mode = SC_SAFE,
     fd_prev_safe = True, fd_prev_eps = None, fd_active_gs = None\<rparr>"

lemmas bare_fdir_simps = bare_fdir_config_def bare_fdir_def new_propagator_def new_load_shedding_def new_executor_def

theorem recoveries_climb_one_level_at_a_time_witness:
  "list_all (\<lambda>(k, rs). 0 \<le> rs_attempts rs \<and> rs_attempts rs \<le> max 1 (rs_max_attempts rs) \<and>
       rs_level rs = (if rs_attempts rs = 0 then 0 else fc_initial_level bare_fdir_config + rs_attempts rs - 1))
     (fp_recoveries (fd_propagator (fold (\<lambda>dt f. snd (tick_fdir_advanced bare_fdir_config (\<lambda>_. ret ()) dt f)) [f0, f0]
        (bare_fdir (bare_engine 6)))))"
  by (rule recoveries_climb_one_level_at_a_time) (simp_all add: bare_fdir_simps)

lemma executor_tick_empty: "px_active x = [] \<Longrightarrow> executor_tick callbacks emit now (e, x) = (Inr (), (e, x))"
  by (cases x) (simp add: executor_tick_def bind_py_def gets_def ret_def modify_def)

lemma load_shedding_bare: "tick_load_shedding bare_fdir_config emit now = ret ()"
  by (simp add: tick_load_shedding_def bare_fdir_config_def bare_config_def bare_systems_def)

lemma bare_advanced:
  "\<exists>p. tick_fdir_advanced bare_fdir_config emit f0 (bare_fdir (bare_engine 3)) =
     (Inr (), (bare_fdir ((bare_engine 3)\<lparr>en_params := p\<rparr>))\<lparr>fd_elapsed := fadd f0 f0\<rparr>) \<and> p 0x0600 = None"
  by (simp add: tick_fdir_advanced_parts fault_part_def load_shedding_bare Let_def SC_PHASE_NOMINAL_def
      publish_fdir_parameters_def seq_py_def bind_py_def gets_def modify_def ret_def zoom_def executor_tick_empty
      disarm_def active_faults_def bare_fdir_def new_propagator_def new_executor_def bare_engine_def
      fdir_parameters_def get_active_procedures_def)

lemma bare_tick:
  "\<exists>f'. tick_fdir_all bare_fdir_config True emit f0 (bare_fdir (bare_engine 3)) = (Inr (), f')"
proof -
  have first: "tick_fdir bare_fdir_config emit (bare_fdir (bare_engine 3)) = (Inr (), bare_fdir (bare_engine 3))"
    by (simp add: tick_fdir_def bare_fdir_config_def bare_fdir_def level_latched_def modify_def)
  obtain p where adv: "tick_fdir_advanced bare_fdir_config emit f0 (bare_fdir (bare_engine 3)) =
      (Inr (), (bare_fdir ((bare_engine 3)\<lparr>en_params := p\<rparr>))\<lparr>fd_elapsed := fadd f0 f0\<rparr>)"
    using bare_advanced by blast
  let ?f = "(bare_fdir ((bare_engine 3)\<lparr>en_params := p\<rparr>))\<lparr>fd_elapsed := fadd f0 f0\<rparr>"
  have up: "update_sc_mode ?f = (Inr (), ?f)"
    by (simp add: update_sc_mode_def bare_fdir_def bare_engine_def SC_PHASE_NOMINAL_def)
  have check: "check_safe_mode_events (fc_base bare_fdir_config) emit ?f = (Inr (), ?f)"
    by (simp add: check_safe_mode_events_def check_safe_mode_def check_eps_mode_def bind_py_def seq_py_def gets_def ret_def bare_fdir_def bare_fdir_config_def
        bare_config_def bare_systems_def)
  show ?thesis
    unfolding tick_fdir_all_def seq_py_def bind_py_def when_py_def by (simp add: first adv up check)
qed

theorem mode_follows_contingencies_witness:
  "\<exists>f'. tick_fdir_all bare_fdir_config True (emit_event (fc_base bare_fdir_config) 1) f0 (bare_fdir (bare_engine 3)) = (Inr (), f') \<and>
     fd_sc_mode f' = mode_of bare_fdir_config f'"
  using bare_tick mode_follows_contingencies [of bare_fdir_config 1 f0 "bare_fdir (bare_engine 3)"] by blast

text \<open>A battery at 15 % in a spacecraft of which only the power subsystem is loaded.\<close>

definition low_battery_config :: "unit fdir_config" where
  "low_battery_config = bare_fdir_config\<lparr>fc_base := bare_config\<lparr>cf_sys := bare_systems
     \<lparr>sy_present := (\<lambda>n. n = ''eps''),
      sy_attr := (\<lambda>n a m. if a = ''bat_soc_pct'' then Some (VFloat (Fin False 15)) else None)\<rparr>\<rparr>\<rparr>"

definition ladder_fdir :: "unit fdir" where
  "ladder_fdir = (bare_fdir (bare_engine 3))
     \<lparr>fd_shedding := set_soc_stage_thresholds (map Some [Fin False 10, Fin False 30, Fin False 20]) new_load_shedding\<rparr>"

lemma ladder_sorted: "sort_desc [Fin False 10, Fin False 30, Fin False 20] = [Fin False 30, Fin False 20, Fin False 10]"
  by (simp add: sort_desc_def fin_val_def)

lemma fault_part_disarmed:
  "en_phase (fd_engine f) < SC_PHASE_NOMINAL \<Longrightarrow> px_active (fd_executor f) = [] \<Longrightarrow>
   \<exists>f'. fault_part c emit dt now f = (Inr (), f')"
  by (simp add: fault_part_def bind_py_def seq_py_def gets_def modify_def zoom_def publish_fdir_parameters_def
      executor_tick_empty disarm_def)

lemma ladder_tick: "\<exists>f'. tick_fdir_advanced low_battery_config (\<lambda>_. ret ()) f0 ladder_fdir = (Inr (), f')"
proof -
  have s: "fd_shedding ladder_fdir = new_load_shedding"
    by (simp add: ladder_fdir_def set_soc_stage_thresholds_def ladder_sorted new_load_shedding_def DEFAULT_SOC_STAGE_THRESHOLDS_def)
  let ?f = "ladder_fdir\<lparr>fd_elapsed := fadd f0 f0\<rparr>"
  have up: "update_stage (Fin False 15) now new_load_shedding = (Inr (Some 2), new_load_shedding\<lparr>ls_stage := 2, ls_last_change := now\<rparr>)" for now
    by (simp add: update_stage_def new_load_shedding_def DEFAULT_SOC_STAGE_THRESHOLDS_def get_required_stage_def
        bind_py_def seq_py_def gets_def modify_def ret_def fle_def fin_val_def)
  have shed: "tick_load_shedding low_battery_config (\<lambda>_. ret ()) now ?f = (Inr (), ?f\<lparr>fd_shedding :=
      new_load_shedding\<lparr>ls_stage := 2, ls_last_change := now\<rparr>, fd_shed_stage := 2\<rparr>)" for now
    using s up
    by (simp add: tick_load_shedding_def low_battery_config_def bare_fdir_config_def bare_config_def bare_systems_def
        battery_soc_def attr_of_def val_float_def bind_py_def seq_py_def gets_def of_result_def zoom_def modify_def
        execute_stage_def new_load_shedding_def raise_event_def ret_def ladder_fdir_def bare_fdir_def)
  have "fd_elapsed ladder_fdir = f0" by (simp add: ladder_fdir_def bare_fdir_def)
  then have "tick_fdir_advanced low_battery_config (\<lambda>_. ret ()) f0 ladder_fdir =
      fault_part low_battery_config (\<lambda>_. ret ()) f0 (fadd f0 f0)
        (?f\<lparr>fd_shedding := new_load_shedding\<lparr>ls_stage := 2, ls_last_change := fadd f0 f0\<rparr>, fd_shed_stage := 2\<rparr>)"
    using shed by (simp add: tick_fdir_advanced_parts bind_py_def seq_py_def Let_def)
  then show ?thesis
    by (simp only:) (rule fault_part_disarmed, simp_all add: ladder_fdir_def bare_fdir_def bare_engine_def new_executor_def SC_PHASE_NOMINAL_def)
qed

theorem shed_stage_follows_charge_witness:
  "\<exists>f'. tick_fdir_advanced low_battery_config (\<lambda>_. ret ()) f0 ladder_fdir = (Inr (), f') \<and> ls_stage (fd_shedding f') = 2"
proof -
  obtain f' where f': "tick_fdir_advanced low_battery_config (\<lambda>_. ret ()) f0 ladder_fdir = (Inr (), f')"
    using ladder_tick by blast
  have "ls_stage (fd_shedding f') = int (length (filter (fless (Fin False 15)) [Fin False 10, Fin False 30, Fin False 20]))"
    by (rule conjunct1 [OF shed_stage_follows_charge [OF _ _ _ _ _ _ _ f', where l = new_load_shedding]])
      (simp_all add: ladder_fdir_def low_battery_config_def bare_fdir_def bare_fdir_config_def bare_config_def
        bare_systems_def battery_soc_def attr_of_def val_float_def set_soc_stage_thresholds_def new_load_shedding_def)
  then show ?thesis using f' by (simp add: fin_val_def)
qed

text \<open>A rule with persistence: the charge below 10 for two ticks of one second.\<close>

definition low_rule :: fault_rule where
  "low_rule = \<lparr>fr_fault_id = ''low'', fr_description = [], fr_primary_param = ''eps.bat_soc'',
     fr_threshold = Some (Fin False 10), fr_cascades = [], fr_condition = ''<'', fr_flags = [],
     fr_persist = Infinite False, fr_recovery = [], fr_requires = None\<rparr>"

theorem fault_declared_when_persistent_witness:
  "\<exists>f'. each (\<lambda>(dt, now, v). judge_value bare_fdir_config (\<lambda>_. ret ()) dt now low_rule v) [(f0, f0, Fin False 5)]
          (bare_fdir (bare_engine 6)) = (Inr (), f') \<and> \<not> fault_active ''low'' (fd_propagator f')"
proof -
  have "\<exists>f'. each (\<lambda>(dt, now, v). judge_value bare_fdir_config (\<lambda>_. ret ()) dt now low_rule v) [(f0, f0, Fin False 5)]
          (bare_fdir (bare_engine 6)) = (Inr (), f')"
    by (simp add: judge_value_def low_rule_def evaluate_rule_def strip_text_def hex_space_def starts_with_def persist_filter_def
        bind_py_def seq_py_def gets_def modify_def of_result_def ret_def bare_fdir_def new_propagator_def fault_active_def
        fin_val_def fadd_def fneg_def)
  then obtain f' where f': "each (\<lambda>(dt, now, v). judge_value bare_fdir_config (\<lambda>_. ret ()) dt now low_rule v) [(f0, f0, Fin False 5)]
          (bare_fdir (bare_engine 6)) = (Inr (), f')" by blast
  have "fault_active (fr_fault_id low_rule) (fd_propagator f') \<longleftrightarrow>
      (let xs = map (\<lambda>(dt, now, v). (dt, evaluate_rule low_rule v = Inr True)) [(f0, f0, Fin False 5)]
       in snd (last xs) \<and> \<not> fless (held_for xs) (fr_persist low_rule))"
    by (rule fault_declared_when_persistent [OF _ _ _ f']) (simp_all add: low_rule_def bare_fdir_def)
  then show ?thesis
    using f' by (simp add: low_rule_def held_for_def fadd_def fneg_def)
qed

section \<open>Withdrawn faults\<close>

text \<open>
  When the precondition of a rule fails, its fault is cleared, but the cascades it has scheduled stay
  pending and its recovery goes on running, unlike when its condition ends; and so do the recoveries
  when the spacecraft falls back below its nominal phase.
\<close>

lemma withdrawn_fault_keeps_its_effects:
  assumes "\<not> precondition_met c r f"
  shows "\<exists>f'. judge_rule c emit dt now r f = (Inr (), f') \<and> \<not> fault_active (fr_fault_id r) (fd_propagator f') \<and>
     fd_pending f' = fd_pending f \<and> fp_recoveries (fd_propagator f') = fp_recoveries (fd_propagator f)"
  using assms
  by (simp add: judge_rule_def modify_def withdraw_fault_def clear_fault_def fault_active_def delete_conv')

lemma disarm_keeps_recoveries: "fp_recoveries (fd_propagator (disarm f)) = fp_recoveries (fd_propagator f)"
  by (simp add: disarm_def recoveries_disarm)

end
