(* ===== verification/Executor_Rules.thy ===== *)
theory Executor_Rules
  imports Fdir
begin

text \<open>
  The procedure executor of \<open>smo_simulator/fdir.py\<close>: what a tick does to the executions, and that
  each of them leaves the executor when its steps are due.
\<close>

definition mark_due :: "py_float \<Rightarrow> py_float \<Rightarrow> procedure_step \<Rightarrow> procedure_step" where
  "mark_due now start st = (if step_due now start st then st\<lparr>ps_executed := True\<rparr> else st)"

text \<open>What a step of an execution may change: the world, and the state of the execution to failed.\<close>

definition stepped :: "procedure_execution \<Rightarrow> procedure_execution \<Rightarrow> bool" where
  "stepped pe pe' \<longleftrightarrow> pe' = pe \<or> pe' = pe\<lparr>pe_state := St_failed\<rparr>"

lemma executor_step_stepped:
  "executor_step callbacks emit now st (w, pe) = (r, (w', pe')) \<Longrightarrow> stepped pe pe'"
  by (auto simp: executor_step_def stepped_def ret_def catch_def zoom_def seq_py_def bind_py_def gets_def modify_def
      split: option.splits prod.splits sum.splits)

lemma tick_step_marks:
  assumes "tick_step callbacks emit now i (w, pe) = (Inr (), (w', pe'))" "i < length (pe_steps pe)"
  shows "pe_steps pe' = (pe_steps pe)[i := mark_due now (pe_start pe) (pe_steps pe ! i)]"
    and "pe_start pe' = pe_start pe" "pe_exec_id pe' = pe_exec_id pe" "pe_proc_id pe' = pe_proc_id pe"
    and "pe_state pe' = pe_state pe \<or> pe_state pe' = St_failed"
proof -
  let ?st = "pe_steps pe ! i"
  have "pe_steps pe' = (pe_steps pe)[i := mark_due now (pe_start pe) ?st] \<and> pe_start pe' = pe_start pe \<and>
      pe_exec_id pe' = pe_exec_id pe \<and> pe_proc_id pe' = pe_proc_id pe \<and> (pe_state pe' = pe_state pe \<or> pe_state pe' = St_failed)"
  proof (cases "step_due now (pe_start pe) ?st")
    case True
    then obtain w1 pe1 where s: "executor_step callbacks emit now ?st (w, pe) = (Inr (), (w1, pe1))"
      and pe': "pe' = mark_executed i pe1"
      using assms(1) by (auto simp: tick_step_def when_py_def returns modify_def split: prod.splits)
    then show ?thesis
      using executor_step_stepped [OF s] True by (auto simp: stepped_def mark_executed_def mark_due_def)
  next
    case False
    then show ?thesis using assms by (simp add: tick_step_def when_py_def ret_def mark_due_def)
  qed
  then show "pe_steps pe' = (pe_steps pe)[i := mark_due now (pe_start pe) ?st]"
    "pe_start pe' = pe_start pe" "pe_exec_id pe' = pe_exec_id pe" "pe_proc_id pe' = pe_proc_id pe"
    "pe_state pe' = pe_state pe \<or> pe_state pe' = St_failed" by simp_all
qed

lemma tick_steps_mark:
  assumes "each (tick_step callbacks emit now) is (w, pe) = (Inr (), (w', pe'))"
    and "distinct is" "\<forall>i\<in>set is. i < length (pe_steps pe)"
  shows "length (pe_steps pe') = length (pe_steps pe) \<and>
     (\<forall>i<length (pe_steps pe). pe_steps pe' ! i =
        (if i \<in> set is then mark_due now (pe_start pe) (pe_steps pe ! i) else pe_steps pe ! i)) \<and>
     pe_start pe' = pe_start pe \<and> pe_exec_id pe' = pe_exec_id pe \<and> pe_proc_id pe' = pe_proc_id pe \<and>
     (pe_state pe' = pe_state pe \<or> pe_state pe' = St_failed)"
  using assms
proof (induction "is" arbitrary: w pe)
  case (Cons i "is")
  obtain w1 pe1 where one: "tick_step callbacks emit now i (w, pe) = (Inr (), (w1, pe1))"
    and rest: "each (tick_step callbacks emit now) is (w1, pe1) = (Inr (), (w', pe'))"
    using Cons.prems(1) by (auto simp: returns)
  have i: "i < length (pe_steps pe)" using Cons.prems(3) by simp
  note m = tick_step_marks [OF one i]
  have "length (pe_steps pe1) = length (pe_steps pe)" using m(1) by simp
  then show ?case
    using Cons.IH [OF rest] Cons.prems(2,3) m i by (auto simp: nth_list_update)
qed (simp add: ret_def)

text \<open>One tick of an execution: exactly the due steps are executed.\<close>

lemma tick_execution_effect:
  assumes "tick_execution callbacks emit now (w, pe) = (Inr ended, (w', pe'))"
  shows "pe_steps pe' = map (mark_due now (pe_start pe)) (pe_steps pe)"
    and "ended \<Longrightarrow> all_executed pe' \<and> pe_state pe' = St_complete"
    and "\<not> ended \<Longrightarrow> pe_state pe' = St_failed \<or> pe_state pe' = pe_state pe \<and> \<not> (all_executed pe' \<and> pe_state pe = St_running)"
    and "pe_completed pe' = int (length (filter ps_executed (pe_steps pe')))"
proof -
  obtain w1 pe1 where run: "each (tick_step callbacks emit now) [0..<length (pe_steps pe)] (w, pe) = (Inr (), (w1, pe1))"
    and rest: "(if all_executed (count_steps pe1) \<and> pe_state (count_steps pe1) = St_running
        then seq_py (on_execution (\<lambda>pe. pe\<lparr>pe_state := St_complete\<rparr>))
          (seq_py (beside (emit (procedure_event 0x0F08 (pe_proc_id (count_steps pe1)) (pe_exec_id (count_steps pe1)) now))) (ret True))
        else ret False) (w1, count_steps pe1) = (Inr ended, (w', pe'))"
    using assms by (auto simp: tick_execution_def returns cong: if_cong)
  have m: "length (pe_steps pe1) = length (pe_steps pe)"
      "\<And>i. i < length (pe_steps pe) \<Longrightarrow> pe_steps pe1 ! i = mark_due now (pe_start pe) (pe_steps pe ! i)"
      "pe_state pe1 = pe_state pe \<or> pe_state pe1 = St_failed"
    using tick_steps_mark [OF run] by auto
  have steps: "pe_steps pe1 = map (mark_due now (pe_start pe)) (pe_steps pe)"
    by (rule nth_equalityI) (simp_all add: m)
  have c: "pe_steps (count_steps pe1) = pe_steps pe1" "pe_state (count_steps pe1) = pe_state pe1"
      "pe_completed (count_steps pe1) = int (length (filter ps_executed (pe_steps pe1)))"
    by (simp_all add: count_steps_def Let_def)
  have e: "(ended \<longrightarrow> pe' = (count_steps pe1)\<lparr>pe_state := St_complete\<rparr> \<and> all_executed (count_steps pe1)) \<and>
      (\<not> ended \<longrightarrow> pe' = count_steps pe1 \<and> \<not> (all_executed (count_steps pe1) \<and> pe_state pe1 = St_running))"
    using rest c by (auto simp: returns ret_def modify_def split: if_splits)
  show "pe_steps pe' = map (mark_due now (pe_start pe)) (pe_steps pe)" using e c steps by (cases ended) simp_all
  show "pe_completed pe' = int (length (filter ps_executed (pe_steps pe')))" using e c by (cases ended) simp_all
  show "ended \<Longrightarrow> all_executed pe' \<and> pe_state pe' = St_complete" using e by (simp add: all_executed_def)
  show "\<not> ended \<Longrightarrow> pe_state pe' = St_failed \<or> pe_state pe' = pe_state pe \<and> \<not> (all_executed pe' \<and> pe_state pe = St_running)"
    using e c m(3) by auto
qed

definition is_over :: "procedure_execution \<Rightarrow> bool" where
  "is_over pe \<longleftrightarrow> pe_state pe = St_complete \<or> pe_state pe = St_failed"

text \<open>How one execution fares in a tick: is it taken off, and what is it then?\<close>

definition ticked ::
  "(string \<Rightarrow> (command \<Rightarrow> ('w, unit) py) option) \<Rightarrow> (event \<Rightarrow> ('w, unit) py) \<Rightarrow> py_float \<Rightarrow>
   procedure_execution \<Rightarrow> procedure_execution \<Rightarrow> bool \<Rightarrow> bool" where
  "ticked callbacks emit now pe pe' b \<longleftrightarrow>
     (if is_over pe then pe' = pe \<and> b else \<exists>w1 w2. tick_execution callbacks emit now (w1, pe) = (Inr b, (w2, pe')))"

lemma map_of_delete_fold:
  "map_of (fold AList.delete ks xs) k = (if k \<in> set ks then None else map_of xs k)"
  by (induction ks arbitrary: xs) (simp_all add: delete_conv')

lemma tick_active_effect:
  assumes "tick_active callbacks emit now ks (w, x) = (Inr ended, (w', x'))" "distinct ks"
    and "\<forall>k\<in>set ks. map_of (px_active x) k \<noteq> None"
  shows "set ended \<subseteq> set ks \<and> (\<forall>k. k \<notin> set ks \<longrightarrow> map_of (px_active x') k = map_of (px_active x) k) \<and>
     (\<forall>k\<in>set ks. \<exists>pe pe'. map_of (px_active x) k = Some pe \<and> map_of (px_active x') k = Some pe' \<and>
        ticked callbacks emit now pe pe' (k \<in> set ended))"
  using assms
proof (induction ks arbitrary: w x ended)
  case (Cons k ks)
  obtain pe where pe: "map_of (px_active x) k = Some pe" using Cons.prems(3) by auto
  define m where "m = (if pe_state pe = St_complete \<or> pe_state pe = St_failed
        then seq_py (on_executor (\<lambda>x. x\<lparr>px_last_finished := Some pe\<rparr>)) (ret True)
        else at_execution k (tick_execution callbacks emit now))"
  obtain b w1 x1 rest where one: "m (w, x) = (Inr b, (w1, x1))"
    and more: "tick_active callbacks emit now ks (w1, x1) = (Inr rest, (w', x'))"
    and ended: "ended = (if b then [k] else []) @ rest"
    using Cons.prems(1) pe by (auto simp: m_def bind_returns gets_def ret_def cong: if_cong)
  have step: "\<exists>pe'. map_of (px_active x1) k = Some pe' \<and> (\<forall>j. j \<noteq> k \<longrightarrow> map_of (px_active x1) j = map_of (px_active x) j) \<and>
      ticked callbacks emit now pe pe' b"
  proof (cases "is_over pe")
    case True
    then have "x1 = x\<lparr>px_last_finished := Some pe\<rparr> \<and> b" using one by (auto simp: m_def is_over_def ret_def)
    then show ?thesis using pe True by (simp add: ticked_def)
  next
    case False
    then have "at_execution k (tick_execution callbacks emit now) (w, x) = (Inr b, (w1, x1))"
      using one by (auto simp: m_def is_over_def)
    then obtain pe' where "tick_execution callbacks emit now (w, pe) = (Inr b, (w1, pe'))"
      and "x1 = x\<lparr>px_active := AList.update k pe' (px_active x)\<rparr>"
      using pe by (auto simp: zoom_returns split: prod.splits)
    then show ?thesis using False by (auto simp: update_conv' ticked_def)
  qed
  have k: "k \<notin> set ks" "distinct ks" using Cons.prems(2) by simp_all
  have dom: "\<forall>j\<in>set ks. map_of (px_active x1) j \<noteq> None" using step k Cons.prems(3) by (metis list.set_intros(2))
  note IH = Cons.IH [OF more k(2) dom]
  have "k \<notin> set rest" using IH k(1) by blast
  then have in_ended: "k \<in> set ended \<longleftrightarrow> b" "\<And>j. j \<noteq> k \<Longrightarrow> j \<in> set ended \<longleftrightarrow> j \<in> set rest"
    using ended by (cases b; simp)+
  obtain pe' where pe': "map_of (px_active x1) k = Some pe'"
    and others: "\<And>j. j \<noteq> k \<Longrightarrow> map_of (px_active x1) j = map_of (px_active x) j"
    and eff: "ticked callbacks emit now pe pe' b"
    using step by auto
  have last: "map_of (px_active x') k = Some pe'" using IH k(1) pe' by simp
  show ?case
  proof (intro conjI ballI allI impI)
    show "set ended \<subseteq> set (k # ks)" using IH ended by auto
    show "map_of (px_active x') j = map_of (px_active x) j" if "j \<notin> set (k # ks)" for j
      using IH others that by simp
    show "\<exists>pe pe'. map_of (px_active x) j = Some pe \<and> map_of (px_active x') j = Some pe' \<and>
        ticked callbacks emit now pe pe' (j \<in> set ended)"
      if "j \<in> set (k # ks)" for j
    proof (cases "j = k")
      case True
      then show ?thesis using pe last eff in_ended(1) by simp
    next
      case False
      then show ?thesis using IH that others in_ended(2) by auto
    qed
  qed
qed (simp add: ret_def)

lemma executor_tick_parts:
  assumes "executor_tick callbacks emit now (w, x) = (Inr (), (w', x'))"
  obtains ended x1 where "tick_active callbacks emit now (map fst (px_active x)) (w, x) = (Inr ended, (w', x1))"
    and "x' = x1\<lparr>px_active := fold AList.delete ended (px_active x1)\<rparr>"
  using assms by (auto simp: executor_tick_def bind_returns gets_def modify_def)

lemma active_keys: "\<forall>j\<in>set (map fst xs). map_of xs j \<noteq> None" "k \<notin> set (map fst xs) \<longleftrightarrow> map_of xs k = None"
  by (metis map_of_eq_None_iff set_map)+

lemma executor_tick_effect:
  assumes "executor_tick callbacks emit now (w, x) = (Inr (), (w', x'))" "distinct (map fst (px_active x))"
    and "map_of (px_active x) k = Some pe"
  shows "\<exists>b pe'. ticked callbacks emit now pe pe' b \<and> map_of (px_active x') k = (if b then None else Some pe')"
proof -
  obtain ended x1 where t: "tick_active callbacks emit now (map fst (px_active x)) (w, x) = (Inr ended, (w', x1))"
    and x': "x' = x1\<lparr>px_active := fold AList.delete ended (px_active x1)\<rparr>"
    using assms(1) by (rule executor_tick_parts)
  have "k \<in> set (map fst (px_active x))" using active_keys(2) [of k "px_active x"] assms(3) by auto
  then obtain pe0 pe' where "map_of (px_active x) k = Some pe0" "map_of (px_active x1) k = Some pe'"
    "ticked callbacks emit now pe0 pe' (k \<in> set ended)"
    using tick_active_effect [OF t assms(2) active_keys(1)] by blast
  then show ?thesis using x' assms(3) by (intro exI [of _ "k \<in> set ended"] exI [of _ pe']) (simp add: map_of_delete_fold)
qed

lemma executor_tick_gone:
  assumes "executor_tick callbacks emit now (w, x) = (Inr (), (w', x'))" "distinct (map fst (px_active x))"
    and "map_of (px_active x) k = None"
  shows "map_of (px_active x') k = None"
proof -
  obtain ended x1 where t: "tick_active callbacks emit now (map fst (px_active x)) (w, x) = (Inr ended, (w', x1))"
    and x': "x' = x1\<lparr>px_active := fold AList.delete ended (px_active x1)\<rparr>"
    using assms(1) by (rule executor_tick_parts)
  have "k \<notin> set (map fst (px_active x))" using assms(3) by (simp only: active_keys(2))
  then have "map_of (px_active x1) k = map_of (px_active x) k"
    using tick_active_effect [OF t assms(2) active_keys(1)] by blast
  then have "map_of (px_active x1) k = None" using assms(3) by (rule trans)
  then show ?thesis using x' by (simp add: map_of_delete_fold)
qed

definition keys_kept :: "'w \<times> procedure_executor \<Rightarrow> 'w \<times> procedure_executor \<Rightarrow> bool" where
  "keys_kept s t \<longleftrightarrow> (distinct (map fst (px_active (snd s))) \<longrightarrow> distinct (map fst (px_active (snd t))))"

interpretation kk: py_frame keys_kept
  by unfold_locales (simp_all add: keys_kept_def)

lemma tick_active_keys: "rel_py keys_kept (tick_active callbacks emit now ks)"
proof (induction ks)
  case (Cons k ks)
  show ?case
    unfolding tick_active.simps
    by (intro kk.frame_rules kk.rel_modify kk.rel_zoom Cons)
      (auto simp: keys_kept_def distinct_update split: prod.splits)
qed (simp add: kk.rel_ret)

lemma distinct_delete_fold: "distinct (map fst xs) \<Longrightarrow> distinct (map fst (fold AList.delete ks xs))"
  by (induction ks arbitrary: xs) (simp_all add: distinct_delete)

lemma executor_tick_distinct:
  assumes "executor_tick callbacks emit now s = (r, t)" "distinct (map fst (px_active (snd s)))"
  shows "distinct (map fst (px_active (snd t)))"
proof -
  have "rel_py keys_kept (executor_tick callbacks emit now)"
    unfolding executor_tick_def
    by (intro kk.frame_rules tick_active_keys kk.rel_modify) (auto simp: keys_kept_def distinct_delete_fold)
  then show ?thesis using rel_pyD assms by (fastforce simp: keys_kept_def)
qed

text \<open>
  C30: Every procedure ends: an execution that is not idle and each of whose steps has been executed or is due,
  in an executor whose active executions have distinct keys, is no longer active after the next two ticks that
  return, whatever its commands do, also when they fail.
\<close>

theorem procedures_end_when_due:
  assumes "distinct (map fst (px_active x))" "map_of (px_active x) k = Some pe" "pe_state pe \<noteq> St_idle"
    and "\<forall>st\<in>set (pe_steps pe). ps_executed st \<or> fle (ps_delay st) (fsub now (pe_start pe))"
    and "executor_tick callbacks emit now (w, x) = (Inr (), (w', x'))"
    and "executor_tick callbacks emit now' (w', x') = (Inr (), (w'', x''))"
  shows "map_of (px_active x'') k = None"
proof (cases "map_of (px_active x') k")
  case None
  then show ?thesis
    using executor_tick_gone [OF assms(6)] executor_tick_distinct [OF assms(5)] assms(1) by simp
next
  case (Some pe')
  then have "ticked callbacks emit now pe pe' False"
    using executor_tick_effect [OF assms(5,1,2)] by (auto split: if_splits)
  then obtain w1 w2 where t: "tick_execution callbacks emit now (w1, pe) = (Inr False, (w2, pe'))" and "\<not> is_over pe"
    by (auto simp: ticked_def split: if_splits)
  then have "pe_state pe = St_running" using assms(3) by (cases "pe_state pe") (auto simp: is_over_def)
  moreover have "all_executed pe'"
    using tick_execution_effect(1) [OF t] assms(4) by (auto simp: all_executed_def mark_due_def step_due_def)
  ultimately have "is_over pe'" using tick_execution_effect(3) [OF t] by (auto simp: is_over_def)
  then show ?thesis
    using executor_tick_effect [OF assms(6) _ Some] executor_tick_distinct [OF assms(5)] assms(1) by (auto simp: ticked_def)
qed

definition wait_procedure :: "procedure_execution" where
  "wait_procedure = \<lparr>pe_exec_id = ''p_0'', pe_proc_id = ''p'',
     pe_steps = [\<lparr>ps_command = ''s8_command'', ps_params = [], ps_delay = f0, ps_executed = False\<rparr>],
     pe_start = f0, pe_state = St_running, pe_current = 0, pe_completed = 0\<rparr>"

definition waiting_executor :: procedure_executor where
  "waiting_executor = new_executor\<lparr>px_active := [(''p_0'', wait_procedure)]\<rparr>"

lemma waiting_executor_tick:
  "executor_tick (\<lambda>_. None) (\<lambda>_. ret ()) f0 ((), waiting_executor) = (Inr (), ((), waiting_executor\<lparr>px_active := []\<rparr>))"
  by (simp add: executor_tick_def waiting_executor_def wait_procedure_def bind_py_def seq_py_def gets_def ret_def
      zoom_def tick_execution_def tick_step_def when_py_def step_due_def executor_step_def modify_def mark_executed_def
      count_steps_def all_executed_def fle_def)

theorem procedures_end_when_due_witness:
  "map_of (px_active (waiting_executor\<lparr>px_active := []\<rparr>)) ''p_0'' = None \<and>
   map_of (px_active waiting_executor) ''p_0'' = Some wait_procedure"
proof -
  have again: "executor_tick (\<lambda>_. None) (\<lambda>_. ret ()) f0 ((), waiting_executor\<lparr>px_active := []\<rparr>) =
      (Inr (), ((), waiting_executor\<lparr>px_active := []\<rparr>))"
    by (simp add: executor_tick_def bind_py_def gets_def ret_def modify_def)
  have "map_of (px_active (waiting_executor\<lparr>px_active := []\<rparr>)) ''p_0'' = None"
    by (rule procedures_end_when_due [OF _ _ _ _ waiting_executor_tick again, of "''p_0''" wait_procedure])
      (simp_all add: waiting_executor_def wait_procedure_def fle_def)
  then show ?thesis by (simp add: waiting_executor_def)
qed

end
