(* ===== verification/Failure_Manager.thy ===== *)
theory Failure_Manager
  imports Subsystems Float_Arith Memory_Map
begin

text \<open>
  Injected failures (\<open>smo_simulator/failure_manager.py\<close>): step, gradual and intermittent onsets, their
  expiry, and the state a breakpoint keeps. The two callbacks act on a world \<open>'w\<close> and every exception
  they raise is caught; the random numbers in \<open>[0, 1)\<close> that \<open>uniform\<close> scales come from a generator
  of states \<open>'r\<close>. \<open>environment\<close> holds these three.
\<close>

section \<open>State\<close>

datatype onset = Onset_step | Onset_gradual | Onset_intermittent | Onset_other string

record active_failure =
  af_id :: pytext
  af_subsystem :: string
  af_failure :: string
  af_target :: py_float
  af_onset :: onset
  af_onset_duration :: py_float
  af_duration :: py_float
  af_extra :: command
  af_current :: py_float
  af_elapsed :: py_float
  af_active :: bool
  af_flicker_on :: bool
  af_flicker_next :: py_float

record ('w, 'r) environment =
  ev_inject :: "command \<Rightarrow> ('w, unit) py"
  ev_clear :: "command \<Rightarrow> ('w, unit) py"
  ev_random :: "'r \<Rightarrow> py_float \<times> 'r"

record 'r failure_manager =
  fm_rng :: 'r
  fm_failures :: "(pytext \<times> active_failure) list"
  fm_elapsed :: py_float
  fm_default_onset :: py_float
  fm_first_flicker :: "py_float \<times> py_float"
  fm_flicker_on :: "py_float \<times> py_float"
  fm_flicker_off :: "py_float \<times> py_float"

definition new_failure_manager :: "'r \<Rightarrow> 'r failure_manager" where
  "new_failure_manager r = \<lparr>fm_rng = r, fm_failures = [], fm_elapsed = f0, fm_default_onset = Fin False 90,
     fm_first_flicker = (Fin False 2, Fin False 6), fm_flicker_on = (Fin False 2, Fin False 8),
     fm_flicker_off = (Fin False 5, Fin False 20)\<rparr>"

text \<open>\<open>configure\<close>: entries that are missing keep their values, ranges must have two ends.\<close>

record failures_config =
  cg_default_onset :: "py_float option"
  cg_intermittent :: "(string \<times> py_float list) list option"

definition range_of :: "(string \<times> py_float list) list \<Rightarrow> string \<Rightarrow> py_float \<times> py_float \<Rightarrow> py_float \<times> py_float" where
  "range_of cfg key cur = (case map_of cfg key of Some [a, b] \<Rightarrow> (a, b) | _ \<Rightarrow> cur)"

definition configure :: "failures_config \<Rightarrow> 'r failure_manager \<Rightarrow> 'r failure_manager" where
  "configure cfg m =
     (let m = (case cg_default_onset cfg of Some x \<Rightarrow> m\<lparr>fm_default_onset := x\<rparr> | None \<Rightarrow> m)
      in case cg_intermittent cfg of None \<Rightarrow> m
         | Some itm \<Rightarrow> m
             \<lparr>fm_first_flicker := range_of itm ''first_flicker_s'' (fm_first_flicker m),
              fm_flicker_on := range_of itm ''on_s'' (fm_flicker_on m),
              fm_flicker_off := range_of itm ''off_s'' (fm_flicker_off m)\<rparr>)"

text \<open>\<open>rng.uniform(a, b)\<close> is \<open>a + (b - a) * random()\<close>.\<close>

definition uniform :: "('w, 'r) environment \<Rightarrow> py_float \<times> py_float \<Rightarrow> 'r \<Rightarrow> py_float \<times> 'r" where
  "uniform env ab r = (case ev_random env r of (x, r') \<Rightarrow> (fadd (fst ab) (fmul (fsub (snd ab) (fst ab)) x), r'))"

section \<open>Applying and clearing\<close>

text \<open>\<open>cmd.update(extra)\<close>.\<close>

definition dict_update :: "command \<Rightarrow> command \<Rightarrow> command" where
  "dict_update c extra = fold (\<lambda>(k, v) c. AList.update k v c) extra c"

definition guarded :: "('w, unit) py \<Rightarrow> 'w \<Rightarrow> 'w" where
  "guarded m w = snd (m w)"

definition inject_command :: "active_failure \<Rightarrow> py_float \<Rightarrow> command" where
  "inject_command af magnitude = dict_update
     [(''type'', VStr ''inject''), (''subsystem'', VStr (af_subsystem af)), (''failure'', VStr (af_failure af)),
      (''magnitude'', VFloat magnitude)] (af_extra af)"

definition clear_command :: "active_failure \<Rightarrow> command" where
  "clear_command af = dict_update
     [(''type'', VStr ''clear_failure''), (''subsystem'', VStr (af_subsystem af)), (''failure'', VStr (af_failure af))]
     (af_extra af)"

definition apply_failure :: "('w, 'r) environment \<Rightarrow> active_failure \<Rightarrow> py_float \<Rightarrow> 'w \<Rightarrow> 'w" where
  "apply_failure env af magnitude = guarded (ev_inject env (inject_command af magnitude))"

definition clear_failure :: "('w, 'r) environment \<Rightarrow> active_failure \<Rightarrow> 'w \<Rightarrow> 'w" where
  "clear_failure env af = guarded (ev_clear env (clear_command af))"

text \<open>
  The instance a failure is about, in its identifier: the array, the wheel or the circuit. The
  identifiers of the instances are strings and numbers.
\<close>

definition failure_instance :: "command \<Rightarrow> pytext" where
  "failure_instance extra =
     (case map_of extra ''array'' of Some v \<Rightarrow> val_text v | None \<Rightarrow>
      (case map_of extra ''wheel'' of Some v \<Rightarrow> val_text v | None \<Rightarrow>
       (case map_of extra ''circuit'' of Some v \<Rightarrow> val_text v | None \<Rightarrow> py ''0'')))"

definition failure_id :: "string \<Rightarrow> string \<Rightarrow> command \<Rightarrow> pytext" where
  "failure_id subsystem failure extra = py (subsystem @ ''.'' @ failure @ ''.'') @ failure_instance extra"

definition inject ::
  "('w, 'r) environment \<Rightarrow> string \<Rightarrow> string \<Rightarrow> py_float \<Rightarrow> onset \<Rightarrow> py_float \<Rightarrow> py_float option \<Rightarrow> command \<Rightarrow>
   'w \<times> 'r failure_manager \<Rightarrow> pytext \<times> 'w \<times> 'r failure_manager" where
  "inject env subsystem failure magnitude onset duration onset_duration extra = (\<lambda>(w, m).
     let fid = failure_id subsystem failure extra;
         od = (if onset = Onset_step then f0
               else case onset_duration of Some x \<Rightarrow> x | None \<Rightarrow> fm_default_onset m);
         af = \<lparr>af_id = fid, af_subsystem = subsystem, af_failure = failure, af_target = magnitude, af_onset = onset,
               af_onset_duration = od, af_duration = (if fbool duration then duration else f0), af_extra = extra,
               af_current = (if onset = Onset_step then magnitude else f0), af_elapsed = f0, af_active = True,
               af_flicker_on = True, af_flicker_next = f0\<rparr>
     in if onset = Onset_step then
          (fid, apply_failure env af magnitude w, m\<lparr>fm_failures := AList.update fid af (fm_failures m)\<rparr>)
        else if onset = Onset_intermittent then
          (case uniform env (fm_first_flicker m) (fm_rng m) of (x, r) \<Rightarrow>
             (fid, w, m\<lparr>fm_rng := r, fm_failures :=
                AList.update fid (af\<lparr>af_flicker_next := fadd (fm_elapsed m) x\<rparr>) (fm_failures m)\<rparr>))
        else (fid, w, m\<lparr>fm_failures := AList.update fid af (fm_failures m)\<rparr>))"

definition clear_id ::
  "('w, 'r) environment \<Rightarrow> pytext \<Rightarrow> 'w \<times> 'r failure_manager \<Rightarrow> bool \<times> 'w \<times> 'r failure_manager" where
  "clear_id env fid = (\<lambda>(w, m).
     case map_of (fm_failures m) fid of None \<Rightarrow> (False, w, m)
     | Some af \<Rightarrow> (True, clear_failure env af w, m\<lparr>fm_failures := AList.delete fid (fm_failures m)\<rparr>))"

definition clear_all :: "('w, 'r) environment \<Rightarrow> 'w \<times> 'r failure_manager \<Rightarrow> 'w \<times> 'r failure_manager" where
  "clear_all env = (\<lambda>(w, m). (fold (clear_failure env) (map snd (fm_failures m)) w, m\<lparr>fm_failures := []\<rparr>))"

section \<open>The tick\<close>

text \<open>\<open>_tick_gradual\<close>; the division is by a positive onset (or by no number).\<close>

definition gradual_magnitude :: "active_failure \<Rightarrow> py_float \<Rightarrow> py_float" where
  "gradual_magnitude af dt =
     (if fle (af_onset_duration af) f0 then af_target af
      else case fdiv (af_target af) (af_onset_duration af) of
          Inr ramp \<Rightarrow> fmin (af_target af) (fadd (af_current af) (fmul ramp dt))
        | Inl _ \<Rightarrow> af_current af)"

definition tick_gradual ::
  "('w, 'r) environment \<Rightarrow> py_float \<Rightarrow> 'w \<times> active_failure \<Rightarrow> 'w \<times> active_failure" where
  "tick_gradual env dt = (\<lambda>(w, af).
     let new_mag = gradual_magnitude af dt
     in if fless (fl (1 / 1000)) (fabs (fsub new_mag (af_current af)))
        then (apply_failure env (af\<lparr>af_current := new_mag\<rparr>) new_mag w, af\<lparr>af_current := new_mag\<rparr>)
        else (w, af))"

definition tick_intermittent ::
  "('w, 'r) environment \<Rightarrow> 'w \<times> 'r failure_manager \<Rightarrow> active_failure \<Rightarrow> 'w \<times> 'r \<times> active_failure" where
  "tick_intermittent env = (\<lambda>(w, m) af.
     if fle (af_flicker_next af) (fm_elapsed m) then
       (if af_flicker_on af
        then (case uniform env (fm_flicker_off m) (fm_rng m) of (x, r) \<Rightarrow>
                (clear_failure env af w, r,
                 af\<lparr>af_flicker_on := False, af_flicker_next := fadd (fm_elapsed m) x\<rparr>))
        else (case uniform env (fm_flicker_on m) (fm_rng m) of (x, r) \<Rightarrow>
                (apply_failure env af (af_target af) w, r,
                 af\<lparr>af_flicker_on := True, af_flicker_next := fadd (fm_elapsed m) x\<rparr>)))
     else (w, fm_rng m, af))"

definition expires :: "active_failure \<Rightarrow> bool" where
  "expires af \<longleftrightarrow> fless f0 (af_duration af) \<and> fle (af_duration af) (af_elapsed af)"

text \<open>One entry of the loop: what becomes of it, \<open>None\<close> when it is taken off.\<close>

definition tick_failure ::
  "('w, 'r) environment \<Rightarrow> py_float \<Rightarrow> active_failure \<Rightarrow> 'w \<times> 'r failure_manager \<Rightarrow>
   active_failure option \<times> 'w \<times> 'r failure_manager" where
  "tick_failure env dt af0 = (\<lambda>(w, m).
     if \<not> af_active af0 then (None, w, m)
     else let af = af0\<lparr>af_elapsed := fadd (af_elapsed af0) dt\<rparr> in
       if expires af then (None, clear_failure env af w, m)
       else if af_onset af = Onset_gradual then
         (case tick_gradual env dt (w, af) of (w', af') \<Rightarrow> (Some af', w', m))
       else if af_onset af = Onset_intermittent then
         (case tick_intermittent env (w, m) af of (w', r, af') \<Rightarrow> (Some af', w', m\<lparr>fm_rng := r\<rparr>))
       else (Some af, w, m))"

fun tick_entries ::
  "('w, 'r) environment \<Rightarrow> py_float \<Rightarrow> (pytext \<times> active_failure) list \<Rightarrow> 'w \<times> 'r failure_manager \<Rightarrow>
   (pytext \<times> active_failure) list \<times> 'w \<times> 'r failure_manager" where
  "tick_entries env dt [] wm = ([], wm)"
| "tick_entries env dt ((fid, af) # fs) wm =
     (case tick_failure env dt af wm of (r, wm') \<Rightarrow>
      (case tick_entries env dt fs wm' of (rest, wm'') \<Rightarrow>
        ((case r of Some af' \<Rightarrow> (fid, af') # rest | None \<Rightarrow> rest), wm'')))"

definition tick_failures ::
  "('w, 'r) environment \<Rightarrow> py_float \<Rightarrow> 'w \<times> 'r failure_manager \<Rightarrow> 'w \<times> 'r failure_manager" where
  "tick_failures env dt = (\<lambda>(w, m).
     let m = m\<lparr>fm_elapsed := fadd (fm_elapsed m) dt\<rparr>
     in case tick_entries env dt (fm_failures m) (w, m) of (fs, w', m') \<Rightarrow> (w', m'\<lparr>fm_failures := fs\<rparr>))"

section \<open>Displays and breakpoints\<close>

record failure_display =
  fx_id :: pytext
  fx_subsystem :: string
  fx_failure :: string
  fx_onset :: onset
  fx_magnitude :: py_float
  fx_elapsed :: py_float
  fx_duration :: py_float

definition active_failures :: "'r failure_manager \<Rightarrow> failure_display list" where
  "active_failures m = map (\<lambda>af. \<lparr>fx_id = af_id af, fx_subsystem = af_subsystem af, fx_failure = af_failure af,
       fx_onset = af_onset af, fx_magnitude = fround 3 (af_current af), fx_elapsed = fround 1 (af_elapsed af),
       fx_duration = af_duration af\<rparr>) (filter af_active (map snd (fm_failures m)))"

type_synonym 'r failures_state = "py_float option \<times> 'r option \<times> active_failure list"

definition failures_get_state :: "'r failure_manager \<Rightarrow> 'r failures_state" where
  "failures_get_state m = (Some (fm_elapsed m), Some (fm_rng m), map snd (fm_failures m))"

definition failures_set_state :: "'r failures_state \<Rightarrow> 'r failure_manager \<Rightarrow> 'r failure_manager" where
  "failures_set_state st m = (case st of (elapsed, rng, afs) \<Rightarrow> m
     \<lparr>fm_rng := (case rng of Some r \<Rightarrow> r | None \<Rightarrow> fm_rng m),
      fm_elapsed := (case elapsed of Some t \<Rightarrow> t | None \<Rightarrow> f0),
      fm_failures := fold (\<lambda>af l. AList.update (af_id af) af l) afs []\<rparr>)"

end
