(* ===== verification/Failure_Rules.thy ===== *)
theory Failure_Rules
  imports Failure_Manager
begin

text \<open>
  What the failure manager guarantees: the magnitude of a gradual failure stays between zero and its
  target, a failure with a duration is taken off exactly when its time is up, and a breakpoint
  restores the failures; and where an onset does not do what its name says.
\<close>

section \<open>Gradual onset\<close>

text \<open>Floats (their magnitude is not negative), and those that are not below zero.\<close>

definition proper :: "py_float \<Rightarrow> bool" where
  "proper x = (case x of Fin s m \<Rightarrow> 0 \<le> m | _ \<Rightarrow> True)"

definition pos :: "py_float \<Rightarrow> bool" where
  "pos x = (case x of Fin s m \<Rightarrow> 0 \<le> m \<and> (s \<longrightarrow> m = 0) | Infinite s \<Rightarrow> \<not> s | NaN \<Rightarrow> False)"

lemma pos_zero [simp]: "pos (Fin s 0)"
  by (simp add: pos_def)

lemma round64_zero: "round64 s 0 = Fin s 0"
  by (simp add: round64_def round_mag_def not_le)

lemma pos_round64:
  assumes "0 \<le> m"
  shows "pos (round64 False m)"
proof -
  obtain e r where er: "round_mag 53 (- 1022) m = (e, r)" by (cases "round_mag 53 (- 1022) m")
  then have "0 \<le> r"
    using assms round_even_nonneg by (auto simp: round_mag_def Let_def less_imp_le split: if_splits)
  then have "0 \<le> of_int r * pow2 (e - 52)" by (simp add: less_imp_le)
  then show ?thesis by (simp add: round64_def er pos_def Let_def)
qed

lemma pos_round64_sign: "0 \<le> m \<Longrightarrow> s \<longrightarrow> m = 0 \<Longrightarrow> pos (round64 s m)"
  by (cases s) (simp_all add: round64_zero pos_round64)

lemma pos_fadd: "pos x \<Longrightarrow> pos y \<Longrightarrow> pos (fadd x y)"
  by (cases x; cases y) (auto simp: pos_def fadd_def fneg_def fl_def fin_val_def intro: pos_round64 [unfolded pos_def])

lemma pos_fmul: "pos x \<Longrightarrow> pos y \<Longrightarrow> fmul x y = NaN \<or> pos (fmul x y)"
  by (cases x; cases y) (auto simp: pos_def intro!: pos_round64_sign [unfolded pos_def])

lemma pos_fdiv: "pos x \<Longrightarrow> pos y \<Longrightarrow> fdiv x y = Inr z \<Longrightarrow> z = NaN \<or> pos z"
  by (cases x; cases y) (auto simp: pos_def split: if_splits intro!: pos_round64_sign [unfolded pos_def])

lemma fadd_NaN: "fadd x NaN = NaN"
  by (cases x) (simp_all add: fadd_def fneg_def)

lemma pos_not_NaN: "pos x \<Longrightarrow> x \<noteq> NaN"
  by (auto simp: pos_def)

lemma fle_refl: "x \<noteq> NaN \<Longrightarrow> fle x x"
  by (cases x) (auto simp: fle_def)

lemma proper_pos: "proper x \<Longrightarrow> \<not> fle x f0 \<Longrightarrow> x = NaN \<or> pos x"
  by (cases x) (auto simp: proper_def pos_def fle_def fin_val_def split: if_splits)

lemma fmin_below: "pos t \<Longrightarrow> x = NaN \<or> pos x \<Longrightarrow> pos (fmin t x) \<and> fle (fmin t x) t"
proof -
  assume t: "pos t" and x: "x = NaN \<or> pos x"
  show ?thesis
  proof (cases "fless x t")
    case True
    then have "x \<noteq> NaN" by (cases x) auto
    moreover have "fle x t" using True by (cases x; cases t) (auto simp: fle_def)
    ultimately show ?thesis using True x by (simp add: fmin_def)
  next
    case False
    then show ?thesis using t fle_refl [OF pos_not_NaN [OF t]] by (simp add: fmin_def)
  qed
qed

definition within_target :: "active_failure \<Rightarrow> bool" where
  "within_target af \<longleftrightarrow>
     (af_onset af = Onset_gradual \<and> pos (af_target af) \<and> proper (af_onset_duration af) \<longrightarrow>
      pos (af_current af) \<and> fle (af_current af) (af_target af))"

lemma gradual_magnitude_bounded:
  assumes "pos (af_target af)" "pos (af_current af)" "proper (af_onset_duration af)" "pos dt" "fle (af_current af) (af_target af)"
  shows "pos (gradual_magnitude af dt) \<and> fle (gradual_magnitude af dt) (af_target af)"
proof (cases "fle (af_onset_duration af) f0")
  case True
  then show ?thesis using assms fle_refl [OF pos_not_NaN] by (simp add: gradual_magnitude_def)
next
  case False
  show ?thesis
  proof (cases "fdiv (af_target af) (af_onset_duration af)")
    case (Inl e)
    then show ?thesis using assms False by (simp add: gradual_magnitude_def)
  next
    case (Inr ramp)
    have "ramp = NaN \<or> pos ramp"
    proof (cases "af_onset_duration af = NaN")
      case True
      then show ?thesis using Inr by (cases "af_target af") simp_all
    next
      case N: False
      then have "pos (af_onset_duration af)" using proper_pos [OF assms(3) False] by simp
      then show ?thesis using pos_fdiv [OF assms(1) _ Inr] by simp
    qed
    then have "fmul ramp dt = NaN \<or> pos (fmul ramp dt)" using pos_fmul [of ramp dt] assms(4) by (cases "ramp = NaN") auto
    then have "fadd (af_current af) (fmul ramp dt) = NaN \<or> pos (fadd (af_current af) (fmul ramp dt))"
      using pos_fadd [OF assms(2)] by (auto simp: fadd_NaN)
    then show ?thesis using Inr False fmin_below [OF assms(1)] by (simp add: gradual_magnitude_def)
  qed
qed

lemma tick_gradual_within:
  assumes "within_target af" "pos dt" "af_onset af = Onset_gradual"
  shows "within_target (snd (tick_gradual env dt (w, af)))"
  using assms gradual_magnitude_bounded [of af dt] by (auto simp: tick_gradual_def within_target_def Let_def)

lemma tick_failure_shape:
  "fst (tick_failure env dt af wm) =
     (if af_active af \<and> \<not> expires (af\<lparr>af_elapsed := fadd (af_elapsed af) dt\<rparr>)
      then Some (let af1 = af\<lparr>af_elapsed := fadd (af_elapsed af) dt\<rparr> in
        if af_onset af = Onset_gradual then snd (tick_gradual env dt (fst wm, af1))
        else if af_onset af = Onset_intermittent then snd (snd (tick_intermittent env wm af1)) else af1)
      else None)"
  by (cases wm) (simp add: tick_failure_def Let_def split: prod.split)

text \<open>What a tick leaves alone, and what it adds to the time of a failure.\<close>

definition same_failure :: "active_failure \<Rightarrow> active_failure \<Rightarrow> bool" where
  "same_failure af af' \<longleftrightarrow> af_id af' = af_id af \<and> af_onset af' = af_onset af \<and> af_duration af' = af_duration af \<and>
     af_elapsed af' = af_elapsed af \<and> af_active af' = af_active af"

lemma same_failure_ticks:
  "same_failure af (snd (tick_gradual env dt (w, af)))" "same_failure af (snd (snd (tick_intermittent env wm af)))"
  by (cases wm; auto simp: same_failure_def tick_gradual_def tick_intermittent_def Let_def split: if_splits prod.splits)+

lemma tick_failure_fields:
  assumes "fst (tick_failure env dt af wm) = Some af'"
  shows "same_failure (af\<lparr>af_elapsed := fadd (af_elapsed af) dt\<rparr>) af'" "af_active af"
proof -
  let ?af = "af\<lparr>af_elapsed := fadd (af_elapsed af) dt\<rparr>"
  show "af_active af" using assms by (simp add: tick_failure_shape split: if_split_asm)
  have "af' = (if af_onset af = Onset_gradual then snd (tick_gradual env dt (fst wm, ?af))
        else if af_onset af = Onset_intermittent then snd (snd (tick_intermittent env wm ?af)) else ?af)"
    using assms by (simp add: tick_failure_shape Let_def split: if_split_asm)
  then show "same_failure ?af af'"
    using same_failure_ticks [of ?af] by (simp add: same_failure_def split: if_splits)
qed

lemma tick_failure_within:
  assumes "within_target af" "pos dt" "fst (tick_failure env dt af wm) = Some af'"
  shows "within_target af'"
proof -
  have one: "within_target (af\<lparr>af_elapsed := fadd (af_elapsed af) dt\<rparr>)"
    using assms(1) by (simp add: within_target_def)
  show ?thesis
  proof (cases "af_onset af = Onset_gradual")
    case True
    then have "af' = snd (tick_gradual env dt (fst wm, af\<lparr>af_elapsed := fadd (af_elapsed af) dt\<rparr>))"
      using assms(3) by (simp add: tick_failure_shape Let_def split: if_splits)
    then show ?thesis using tick_gradual_within [OF one assms(2)] True by simp
  next
    case False
    then show ?thesis using tick_failure_fields [OF assms(3)] by (simp add: within_target_def same_failure_def)
  qed
qed

lemma tick_entries_within:
  "\<forall>af\<in>snd ` set fs. within_target af \<Longrightarrow> pos dt \<Longrightarrow> tick_entries env dt fs wm = (fs', wm') \<Longrightarrow>
   \<forall>af\<in>snd ` set fs'. within_target af"
proof (induction fs arbitrary: fs' wm wm')
  case (Cons x fs)
  obtain fid af where x: "x = (fid, af)" by (cases x)
  obtain r wm1 where r: "tick_failure env dt af wm = (r, wm1)" by (cases "tick_failure env dt af wm")
  obtain rest wm2 where rest: "tick_entries env dt fs wm1 = (rest, wm2)" by (cases "tick_entries env dt fs wm1")
  have "\<forall>af\<in>snd ` set rest. within_target af" using Cons.IH [OF _ Cons.prems(2) rest] Cons.prems(1) by simp
  moreover have "r = Some af' \<Longrightarrow> within_target af'" for af'
    using tick_failure_within [of af dt env wm af'] Cons.prems(1,2) r x by simp
  moreover have "fs' = (case r of Some af' \<Rightarrow> (fid, af') # rest | None \<Rightarrow> rest)"
    using Cons.prems(3) x r rest by simp
  ultimately show ?case by (auto split: option.splits)
qed simp

definition all_within :: "'r failure_manager \<Rightarrow> bool" where
  "all_within m \<longleftrightarrow> (\<forall>af\<in>snd ` set (fm_failures m). within_target af)"

lemma all_within_update:
  assumes "all_within m" "within_target af"
  shows "all_within (m\<lparr>fm_failures := AList.update fid af (fm_failures m)\<rparr>)"
    and "all_within (m\<lparr>fm_rng := r, fm_failures := AList.update fid af (fm_failures m)\<rparr>)"
  using assms set_alist_update [of fid af "fm_failures m"] by (fastforce simp: all_within_def)+

lemma inject_within:
  assumes "all_within m"
  shows "all_within (snd (snd (inject env s f mag on dur od extra (w, m))))"
proof -
  have "fle f0 mag" if "pos mag" using that by (cases mag) (auto simp: pos_def fle_def fin_val_def)
  then show ?thesis
    unfolding inject_def
    by (auto simp: Let_def within_target_def split: prod.split intro!: all_within_update [OF assms])
qed

text \<open>
  A gradual failure grows into its target and never beyond: whatever failures are injected and
  however time advances, the magnitude of a gradual failure lies between zero and its target.
\<close>

theorem gradual_failure_within_target:
  assumes "all_within m" "pos dt"
  shows "all_within (snd (tick_failures env dt (w, m))) \<and>
         all_within (snd (snd (inject env subsystem failure magnitude onset duration od extra (w, m))))"
proof -
  obtain fs w' m' where t: "tick_entries env dt (fm_failures m) (w, m\<lparr>fm_elapsed := fadd (fm_elapsed m) dt\<rparr>) = (fs, (w', m'))"
    by (metis prod.exhaust)
  then have "\<forall>af\<in>snd ` set fs. within_target af"
    using tick_entries_within [OF _ assms(2) t] assms(1) by (simp add: all_within_def)
  then have "all_within (snd (tick_failures env dt (w, m)))"
    using t by (simp add: tick_failures_def all_within_def Let_def)
  then show ?thesis by (rule conjI) (rule inject_within [OF assms(1)])
qed

section \<open>Expiry\<close>

lemma tick_entries_map:
  assumes "distinct (map fst fs)" "tick_entries env dt fs wm = (fs', wm')"
  shows "distinct (map fst fs') \<and> set (map fst fs') \<subseteq> set (map fst fs) \<and>
     (\<forall>k af. map_of fs k = Some af \<longrightarrow> (\<exists>wm0. map_of fs' k = fst (tick_failure env dt af wm0)))"
  using assms
proof (induction fs arbitrary: fs' wm wm')
  case (Cons x fs)
  obtain fid af where x: "x = (fid, af)" by (cases x)
  obtain r wm1 where r: "tick_failure env dt af wm = (r, wm1)" by (cases "tick_failure env dt af wm")
  obtain rest wm2 where rest: "tick_entries env dt fs wm1 = (rest, wm2)" by (cases "tick_entries env dt fs wm1")
  have d: "fid \<notin> set (map fst fs)" "distinct (map fst fs)" using Cons.prems(1) x by simp_all
  note IH = Cons.IH [OF d(2) rest]
  have fs': "fs' = (case r of Some af' \<Rightarrow> (fid, af') # rest | None \<Rightarrow> rest)"
    using Cons.prems(2) x r rest by simp
  have fid: "fid \<notin> set (map fst rest)" using IH d(1) by blast
  then have self: "map_of fs' fid = r"
    using fs' by (cases r) (simp_all add: map_of_eq_None_iff)
  have other: "map_of fs' k = map_of rest k" if "k \<noteq> fid" for k
    using fs' that by (cases r) simp_all
  show ?case
  proof (intro conjI allI impI)
    show "distinct (map fst fs')" using IH fid fs' by (cases r) simp_all
    show "set (map fst fs') \<subseteq> set (map fst (x # fs))" using IH fs' x by (cases r) auto
    show "\<exists>wm0. map_of fs' k = fst (tick_failure env dt a wm0)" if "map_of (x # fs) k = Some a" for k a
    proof (cases "k = fid")
      case True
      then have "a = af" using that x by simp
      then show ?thesis using self r True by (metis fst_conv)
    next
      case False
      then show ?thesis using IH other that x by simp
    qed
  qed
qed simp

definition failure_of :: "pytext \<Rightarrow> 'w \<times> 'r failure_manager \<Rightarrow> active_failure option" where
  "failure_of fid wm = map_of (fm_failures (snd wm)) fid"

definition keyed :: "'w \<times> 'r failure_manager \<Rightarrow> bool" where
  "keyed wm \<longleftrightarrow> distinct (map fst (fm_failures (snd wm)))"

lemma tick_failures_of:
  assumes "keyed wm"
  shows "keyed (tick_failures env dt wm)"
    and "failure_of fid wm = None \<Longrightarrow> failure_of fid (tick_failures env dt wm) = None"
    and "failure_of fid wm = Some af \<Longrightarrow> \<exists>wm0. failure_of fid (tick_failures env dt wm) = fst (tick_failure env dt af wm0)"
proof -
  obtain w m where wm: "wm = (w, m)" by (cases wm)
  obtain fs w' m' where t: "tick_entries env dt (fm_failures m) (w, m\<lparr>fm_elapsed := fadd (fm_elapsed m) dt\<rparr>) = (fs, (w', m'))"
    by (metis prod.exhaust)
  then have res: "fm_failures (snd (tick_failures env dt wm)) = fs"
    by (simp add: tick_failures_def wm Let_def)
  have d: "distinct (map fst (fm_failures m))" using assms wm by (simp add: keyed_def)
  note e = tick_entries_map [OF d t]
  show "keyed (tick_failures env dt wm)" using e res by (simp add: keyed_def)
  show "failure_of fid wm = None \<Longrightarrow> failure_of fid (tick_failures env dt wm) = None"
    using e by (auto simp: failure_of_def res [unfolded wm] wm map_of_eq_None_iff)
  show "failure_of fid wm = Some af \<Longrightarrow> \<exists>wm0. failure_of fid (tick_failures env dt wm) = fst (tick_failure env dt af wm0)"
    using e by (simp add: failure_of_def res [unfolded wm] wm)
qed

text \<open>
  A failure with a duration is taken off exactly on time: after any sequence of ticks, whatever
  the callbacks do, it is still there if and only if at no tick so far the accumulated time had
  reached its duration.
\<close>

theorem failure_expires_on_time:
  assumes "keyed wm" "failure_of fid wm = Some af" "af_active af" "fless f0 (af_duration af)"
  shows "failure_of fid (foldl (\<lambda>wm dt. tick_failures env dt wm) wm dts) \<noteq> None \<longleftrightarrow>
           (\<forall>n\<in>{1..length dts}. \<not> fle (af_duration af) (foldl fadd (af_elapsed af) (take n dts)))"
  using assms
proof (induction dts arbitrary: wm af)
  case (Cons dt dts)
  let ?wm = "tick_failures env dt wm"
  let ?e = "fadd (af_elapsed af) dt"
  have split: "(\<forall>n\<in>{1..length (dt # dts)}. P n) \<longleftrightarrow> P 1 \<and> (\<forall>n\<in>{1..length dts}. P (Suc n))" for P
  proof -
    have "{1..length (dt # dts)} = insert 1 (Suc ` {1..length dts})" by auto
    then show ?thesis by (simp del: image_Suc_atLeastAtMost)
  qed
  obtain wm0 where t: "failure_of fid ?wm = fst (tick_failure env dt af wm0)"
    using tick_failures_of(3) [OF Cons.prems(1,2)] by blast
  have gone: "failure_of fid wm' = None \<Longrightarrow> keyed wm' \<Longrightarrow> failure_of fid (foldl (\<lambda>wm dt. tick_failures env dt wm) wm' ds) = None" for wm' ds
    by (induction ds arbitrary: wm') (simp_all add: tick_failures_of)
  show ?case
  proof (cases "fle (af_duration af) ?e")
    case True
    then have "failure_of fid ?wm = None" using t Cons.prems(3,4) by (simp add: tick_failure_shape expires_def)
    then show ?thesis using gone tick_failures_of(1) [OF Cons.prems(1)] True unfolding split by simp
  next
    case False
    then obtain af' where af': "failure_of fid ?wm = Some af'" "fst (tick_failure env dt af wm0) = Some af'"
      using t Cons.prems(3) by (simp add: tick_failure_shape expires_def)
    note f = tick_failure_fields [OF af'(2)]
    show ?thesis
      using Cons.IH [OF tick_failures_of(1) [OF Cons.prems(1)] af'(1)] f Cons.prems(4) False
      unfolding split by (simp add: same_failure_def)
  qed
qed simp

section \<open>Examples\<close>

definition quiet_environment :: "(unit, unit) environment" where
  "quiet_environment = \<lparr>ev_inject = (\<lambda>_. ret ()), ev_clear = (\<lambda>_. ret ()), ev_random = (\<lambda>r. (f0, r))\<rparr>"

definition heater_failure :: active_failure where
  "heater_failure = \<lparr>af_id = py ''tcs.heater.0'', af_subsystem = ''tcs'', af_failure = ''heater'', af_target = Fin False 1,
     af_onset = Onset_gradual, af_onset_duration = f0, af_duration = Fin False 60, af_extra = [], af_current = f0,
     af_elapsed = f0, af_active = True, af_flicker_on = True, af_flicker_next = f0\<rparr>"

definition one_failure :: "unit failure_manager" where
  "one_failure = (new_failure_manager ())\<lparr>fm_failures := [(af_id heater_failure, heater_failure)]\<rparr>"

theorem gradual_failure_within_target_witness:
  "all_within (snd (tick_failures quiet_environment f0 ((), one_failure)))"
proof -
  have "all_within one_failure"
    by (simp add: all_within_def one_failure_def new_failure_manager_def within_target_def heater_failure_def fle_def fin_val_def)
  then show ?thesis using gradual_failure_within_target [of one_failure f0 quiet_environment "()"] by simp
qed

theorem failure_expires_on_time_witness:
  "failure_of (af_id heater_failure)
     (foldl (\<lambda>wm dt. tick_failures quiet_environment dt wm) ((), one_failure) [f0, Infinite False]) = None"
proof -
  have one: "keyed ((), one_failure)" "failure_of (af_id heater_failure) ((), one_failure) = Some heater_failure"
    "af_active heater_failure" "fless f0 (af_duration heater_failure)"
    by (simp_all add: keyed_def failure_of_def one_failure_def heater_failure_def fin_val_def)
  have "\<not> (\<forall>n\<in>{1..length [f0, Infinite False]}.
      \<not> fle (af_duration heater_failure) (foldl fadd (af_elapsed heater_failure) (take n [f0, Infinite False])))"
    by (intro notI) (drule bspec [of _ _ 2], simp_all add: heater_failure_def fadd_def fneg_def fle_def numeral_2_eq_2)
  then show ?thesis using failure_expires_on_time [OF one, of quiet_environment "[f0, Infinite False]"] by blast
qed

section \<open>Onsets that do not take effect\<close>

text \<open>
  The magnitude only moves in steps of more than 0.001, and it is compared with the magnitude it
  moved to last: a ramp that climbs more slowly per tick never starts. A negative target is reached
  in the first tick, since the magnitude is the smaller of the ramp and the target.
\<close>

lemma slow_ramp_never_starts:
  assumes "\<not> fless (fl (1 / 1000)) (fabs (fsub (gradual_magnitude af dt) (af_current af)))"
  shows "tick_gradual env dt (w, af) = (w, af)"
  using assms by (simp add: tick_gradual_def Let_def)

lemma first_flicker_clears:
  assumes "af_flicker_on af" "fle (af_flicker_next af) (fm_elapsed m)"
  shows "\<exists>r af'. tick_intermittent env (w, m) af = (clear_failure env af w, r, af') \<and> \<not> af_flicker_on af' \<and>
     af_current af' = af_current af"
  using assms by (simp add: tick_intermittent_def split: prod.split)

section \<open>Breakpoints\<close>

definition named :: "'r failure_manager \<Rightarrow> bool" where
  "named m \<longleftrightarrow> distinct (map fst (fm_failures m)) \<and> (\<forall>(fid, af)\<in>set (fm_failures m). af_id af = fid)"

lemma rebuild_failures:
  "distinct (map fst fs) \<Longrightarrow> \<forall>(fid, af)\<in>set fs. af_id af = fid \<Longrightarrow> set (map fst acc) \<inter> set (map fst fs) = {} \<Longrightarrow>
   fold (\<lambda>af l. AList.update (af_id af) af l) (map snd fs) acc = acc @ fs"
proof (induction fs arbitrary: acc)
  case (Cons x fs)
  obtain fid af where x: "x = (fid, af)" by (cases x)
  have "fid \<notin> fst ` set acc" using Cons.prems(3) x by auto
  then have "AList.update fid af acc = acc @ [(fid, af)]" by (induction acc) auto
  then show ?case using Cons.IH [of "acc @ [(fid, af)]"] Cons.prems x by auto
qed simp

lemma failures_breakpoint:
  assumes "named m" "fm_default_onset m' = fm_default_onset m" "fm_first_flicker m' = fm_first_flicker m"
    "fm_flicker_on m' = fm_flicker_on m" "fm_flicker_off m' = fm_flicker_off m"
  shows "failures_set_state (failures_get_state m) m' = m"
  using assms rebuild_failures [of "fm_failures m" "[]"]
  by (cases m; cases m') (simp add: failures_set_state_def failures_get_state_def named_def)

end
