(* ===== verification/Obdh_Model.thy ===== *)
theory Obdh_Model
  imports Model_Basics
begin

text \<open>
  The on-board computer of the simulator (\<open>smo_simulator/models/obdh_basic.py\<close>): two cold-redundant
  units, boot loader and application image, watchdog, two CAN buses, buffers, the injected failures
  and the device switches. The random source of the model is a parameter.
\<close>

section \<open>State\<close>

record obdh_state =
  ob_mode :: int
  ob_temp :: py_float
  ob_cpu_load :: py_float
  ob_mmm_used :: py_float
  ob_tc_rx :: int
  ob_tc_acc :: int
  ob_tc_rej :: int
  ob_tm_pkt :: int
  ob_last_tc_error :: int
  ob_uptime :: int
  ob_obc_time :: int
  ob_reboot_count :: int
  ob_sw_version :: int
  ob_mem_errors :: int
  ob_watchdog_armed :: bool
  ob_watchdog_timer :: int
  ob_watchdog_period :: int
  ob_active_obc :: int
  ob_obc_b_status :: int
  ob_boot_count_a :: int
  ob_boot_count_b :: int
  ob_sw_image :: int
  ob_boot_app_timer :: py_float
  ob_boot_app_pending :: bool
  ob_boot_inhibit :: bool
  ob_boot_image_corrupt :: bool
  ob_active_bus :: int
  ob_bus_a_status :: int
  ob_bus_b_status :: int
  ob_hktm_fill :: py_float
  ob_hktm_capacity :: int
  ob_event_fill :: int
  ob_event_capacity :: int
  ob_alarm_fill :: int
  ob_alarm_capacity :: int
  ob_last_reboot_cause :: int
  ob_memory_segments :: "bool list"
  ob_seu_count :: int
  ob_scrub_progress :: py_float
  ob_scrub_active :: bool
  ob_task_count :: int
  ob_stack_usage :: py_float
  ob_heap_usage :: py_float
  ob_heat :: py_float
  ob_bus_a_subsystems :: "string list"
  ob_bus_b_subsystems :: "string list"
  ob_devices :: "(int \<times> bool) list"

definition new_obdh_state :: obdh_state where
  "new_obdh_state = \<lparr>ob_mode = 0, ob_temp = Fin False 25, ob_cpu_load = Fin False 35, ob_mmm_used = Fin False 20,
     ob_tc_rx = 0, ob_tc_acc = 0, ob_tc_rej = 0, ob_tm_pkt = 0, ob_last_tc_error = 0, ob_uptime = 0, ob_obc_time = 0,
     ob_reboot_count = 0, ob_sw_version = 0x0100, ob_mem_errors = 0, ob_watchdog_armed = True, ob_watchdog_timer = 0,
     ob_watchdog_period = 30, ob_active_obc = 0, ob_obc_b_status = 1, ob_boot_count_a = 0, ob_boot_count_b = 0,
     ob_sw_image = 0, ob_boot_app_timer = f0, ob_boot_app_pending = False, ob_boot_inhibit = False,
     ob_boot_image_corrupt = False, ob_active_bus = 0, ob_bus_a_status = 0, ob_bus_b_status = 0, ob_hktm_fill = f0,
     ob_hktm_capacity = 1000, ob_event_fill = 0, ob_event_capacity = 500, ob_alarm_fill = 0, ob_alarm_capacity = 200,
     ob_last_reboot_cause = 0, ob_memory_segments = [True, True, True, True], ob_seu_count = 0, ob_scrub_progress = f0,
     ob_scrub_active = False, ob_task_count = 12, ob_stack_usage = Fin False 35, ob_heap_usage = Fin False 40,
     ob_heat = f0, ob_bus_a_subsystems = [''eps'', ''tcs'', ''aocs''], ob_bus_b_subsystems = [''ttc'', ''payload''],
     ob_devices = [(0x0500, True), (0x0501, True), (0x0502, True), (0x0503, True), (0x0504, True)]\<rparr>"

definition SW_BOOTLOADER :: int where "SW_BOOTLOADER = 0"
definition SW_APPLICATION :: int where "SW_APPLICATION = 1"
definition OBC_OFF :: int where "OBC_OFF = 0"
definition OBC_STANDBY :: int where "OBC_STANDBY = 1"
definition OBC_ACTIVE :: int where "OBC_ACTIVE = 2"
definition BUS_OK :: int where "BUS_OK = 0"
definition BUS_DEGRADED :: int where "BUS_DEGRADED = 1"
definition BUS_FAILED :: int where "BUS_FAILED = 2"
definition REBOOT_COMMAND :: int where "REBOOT_COMMAND = 1"
definition REBOOT_WATCHDOG :: int where "REBOOT_WATCHDOG = 2"
definition REBOOT_MEMORY_ERROR :: int where "REBOOT_MEMORY_ERROR = 3"
definition REBOOT_SWITCHOVER :: int where "REBOOT_SWITCHOVER = 4"

lemmas obdh_codes = SW_BOOTLOADER_def SW_APPLICATION_def OBC_OFF_def OBC_STANDBY_def OBC_ACTIVE_def BUS_OK_def
  BUS_DEGRADED_def BUS_FAILED_def REBOOT_COMMAND_def REBOOT_WATCHDOG_def REBOOT_MEMORY_ERROR_def REBOOT_SWITCHOVER_def

record 'r obdh =
  om_state :: obdh_state
  om_rng :: 'r
  om_cpu_base :: py_float
  om_param_ids :: "string \<rightharpoonup> int"
  om_event :: "(int \<times> string) option"
  om_prev_mode :: int
  om_prev_reboots :: int
  om_prev_bus_a :: int
  om_prev_bus_b :: int
  om_prev_obc :: int

definition new_obdh :: "'r \<Rightarrow> 'r obdh" where
  "new_obdh r = \<lparr>om_state = new_obdh_state, om_rng = r, om_cpu_base = Fin False 35, om_param_ids = Map.empty,
     om_event = None, om_prev_mode = 0, om_prev_reboots = 0, om_prev_bus_a = 0, om_prev_bus_b = 0, om_prev_obc = 0\<rparr>"

abbreviation on_obdh :: "(obdh_state \<Rightarrow> obdh_state) \<Rightarrow> 'r obdh \<Rightarrow> 'r obdh" where
  "on_obdh f m \<equiv> m\<lparr>om_state := f (om_state m)\<rparr>"

definition pend :: "int \<Rightarrow> string \<Rightarrow> 'r obdh \<Rightarrow> 'r obdh" where
  "pend k name m = m\<lparr>om_event := Some (k, name)\<rparr>"

text \<open>\<open>configure\<close>, with the missing entries of the configuration as \<open>None\<close>; the time of day is given.\<close>

record obdh_config =
  oc_watchdog :: "int option"
  oc_cpu_base :: "py_float option"
  oc_hktm :: "int option"
  oc_event :: "int option"
  oc_alarm :: "int option"
  oc_bus_a :: "string list option"
  oc_bus_b :: "string list option"
  oc_param_ids :: "(string \<rightharpoonup> int) option"

definition default_param_ids :: "string \<rightharpoonup> int" where
  "default_param_ids = map_of
     [(''obc_mode'', 0x0300), (''obc_temp'', 0x0301), (''cpu_load'', 0x0302), (''mmm_used'', 0x0303),
      (''tc_rx'', 0x0304), (''tc_acc'', 0x0305), (''tc_rej'', 0x0306), (''tm_pkt'', 0x0307), (''uptime'', 0x0308),
      (''obc_time'', 0x0309), (''reboot_count'', 0x030A), (''sw_version'', 0x030B), (''active_obc'', 0x030C),
      (''obc_b_status'', 0x030D), (''active_bus'', 0x030E), (''bus_a_status'', 0x030F), (''bus_b_status'', 0x0310),
      (''sw_image'', 0x0311), (''hktm_buf_fill'', 0x0312), (''event_buf_fill'', 0x0313), (''alarm_buf_fill'', 0x0314),
      (''last_reboot_cause'', 0x0316), (''boot_count_a'', 0x0317), (''boot_count_b'', 0x0318)]"

definition obdh_configure :: "obdh_config \<Rightarrow> int \<Rightarrow> 'r obdh \<Rightarrow> 'r obdh" where
  "obdh_configure c now m = m
     \<lparr>om_cpu_base := or_else (oc_cpu_base c) (Fin False 35),
      om_param_ids := or_else (oc_param_ids c) default_param_ids,
      om_state := (om_state m)
        \<lparr>ob_watchdog_period := or_else (oc_watchdog c) 30, ob_hktm_capacity := or_else (oc_hktm c) 1000,
         ob_event_capacity := or_else (oc_event c) 500, ob_alarm_capacity := or_else (oc_alarm c) 200,
         ob_bus_a_subsystems := or_else (oc_bus_a c) (ob_bus_a_subsystems (om_state m)),
         ob_bus_b_subsystems := or_else (oc_bus_b c) (ob_bus_b_subsystems (om_state m)),
         ob_obc_time := now\<rparr>\<rparr>"

section \<open>Rebooting\<close>

definition reboot_state :: "int \<Rightarrow> obdh_state \<Rightarrow> obdh_state" where
  "reboot_state cause s = s
     \<lparr>ob_reboot_count := ob_reboot_count s + 1, ob_last_reboot_cause := cause, ob_uptime := 0, ob_tc_rx := 0,
      ob_tc_acc := 0, ob_tc_rej := 0, ob_last_tc_error := 0, ob_tm_pkt := 0, ob_watchdog_timer := 0,
      ob_sw_image := SW_BOOTLOADER, ob_mode := 1,
      ob_boot_app_pending := \<not> ob_boot_inhibit s,
      ob_boot_app_timer := (if ob_boot_inhibit s then f0 else Fin False 10),
      ob_boot_count_a := (if ob_active_obc s = 0 then ob_boot_count_a s + 1 else ob_boot_count_a s),
      ob_boot_count_b := (if ob_active_obc s = 0 then ob_boot_count_b s else ob_boot_count_b s + 1)\<rparr>"

definition reboot :: "int \<Rightarrow> 'r obdh \<Rightarrow> 'r obdh" where
  "reboot cause = on_obdh (reboot_state cause)"

definition switchover :: "'r obdh \<Rightarrow> 'r obdh" where
  "switchover m = reboot REBOOT_SWITCHOVER (on_obdh (\<lambda>s. s
     \<lparr>ob_active_obc := 1 - ob_active_obc s,
      ob_obc_b_status := (if ob_active_obc s = 0 then OBC_ACTIVE else OBC_STANDBY),
      ob_last_reboot_cause := REBOOT_SWITCHOVER\<rparr>) m)"

definition is_subsystem_reachable :: "string \<Rightarrow> obdh_state \<Rightarrow> bool" where
  "is_subsystem_reachable name s =
     (if ob_active_bus s = 0 \<and> ob_bus_a_status s = BUS_FAILED then False
      else if ob_active_bus s = 1 \<and> ob_bus_b_status s = BUS_FAILED then False
      else if ob_active_bus s = 0 then name \<in> set (ob_bus_a_subsystems s)
      else name \<in> set (ob_bus_b_subsystems s))"

section \<open>Counters\<close>

definition record_tc_received :: "obdh_state \<Rightarrow> obdh_state" where
  "record_tc_received s = s\<lparr>ob_tc_rx := ob_tc_rx s + 1\<rparr>"

definition record_tc_accepted :: "obdh_state \<Rightarrow> obdh_state" where
  "record_tc_accepted s = s\<lparr>ob_tc_acc := ob_tc_acc s + 1\<rparr>"

definition record_tc_rejected :: "obdh_state \<Rightarrow> obdh_state" where
  "record_tc_rejected s = s\<lparr>ob_tc_rej := ob_tc_rej s + 1\<rparr>"

definition record_tc_failure_code :: "int \<Rightarrow> obdh_state \<Rightarrow> obdh_state" where
  "record_tc_failure_code code s = s\<lparr>ob_last_tc_error := code AND 0xFFFF\<rparr>"

definition record_tm_packet :: "obdh_state \<Rightarrow> obdh_state" where
  "record_tm_packet s = s\<lparr>ob_tm_pkt := ob_tm_pkt s + 1\<rparr>"

definition get_pending_event :: "'r obdh \<Rightarrow> (int \<times> string) option \<times> 'r obdh" where
  "get_pending_event m = (om_event m, m\<lparr>om_event := None\<rparr>)"

definition record_event :: "obdh_state \<Rightarrow> bool \<times> obdh_state" where
  "record_event s = (if ob_event_capacity s \<le> ob_event_fill s then (False, s)
     else (True, s\<lparr>ob_event_fill := ob_event_fill s + 1\<rparr>))"

definition record_alarm :: "obdh_state \<Rightarrow> bool \<times> obdh_state" where
  "record_alarm s = (if ob_alarm_capacity s \<le> ob_alarm_fill s then (False, s)
     else (True, s\<lparr>ob_alarm_fill := ob_alarm_fill s + 1\<rparr>))"

definition obdh_telemetry :: "obdh_state \<Rightarrow> (int \<times> py_float) list" where
  "obdh_telemetry s = [(0x0302, ob_cpu_load s), (0x030A, of_pyint (ob_reboot_count s))]"

section \<open>Devices\<close>

definition device_on :: "int \<Rightarrow> obdh_state \<Rightarrow> bool" where
  "device_on k s \<longleftrightarrow> map_of (ob_devices s) k \<noteq> Some False"

definition set_device_state :: "int \<Rightarrow> bool \<Rightarrow> obdh_state \<Rightarrow> bool \<times> obdh_state" where
  "set_device_state k on s = (case map_of (ob_devices s) k of None \<Rightarrow> (False, s)
     | Some _ \<Rightarrow> (True, s\<lparr>ob_devices := AList.update k on (ob_devices s)\<rparr>))"

definition get_device_state :: "int \<Rightarrow> obdh_state \<Rightarrow> bool" where
  "get_device_state k s \<longleftrightarrow> map_of (ob_devices s) k = Some True"

text \<open>\<open>_apply_device_power_gates\<close>.\<close>

definition power_gates :: "obdh_state \<Rightarrow> obdh_state" where
  "power_gates s = s
     \<lparr>ob_obc_b_status := (if device_on 0x0501 s then ob_obc_b_status s else OBC_OFF),
      ob_mmm_used := (if device_on 0x0502 s then ob_mmm_used s else f0),
      ob_watchdog_armed := (device_on 0x0503 s \<and> ob_watchdog_armed s),
      ob_bus_a_status := (if \<not> device_on 0x0504 s \<and> ob_active_bus s = 0 \<and> ob_bus_a_status s = BUS_OK
                          then BUS_DEGRADED else ob_bus_a_status s),
      ob_bus_b_status := (if \<not> device_on 0x0504 s \<and> ob_active_bus s = 1 \<and> ob_bus_b_status s = BUS_OK
                          then BUS_DEGRADED else ob_bus_b_status s)\<rparr>"

section \<open>The tick\<close>

definition pick :: "(int \<times> py_float) list \<Rightarrow> int \<Rightarrow> py_float" where
  "pick table k = (case map_of table k of Some x \<Rightarrow> x | None \<Rightarrow> f0)"

text \<open>A draw of the random source.\<close>

definition draw :: "('r \<Rightarrow> 'a \<times> 'r) \<Rightarrow> 'r obdh \<Rightarrow> 'a \<times> 'r obdh" where
  "draw g m = (case g (om_rng m) of (x, r) \<Rightarrow> (x, m\<lparr>om_rng := r\<rparr>))"

definition advance_clock :: "int \<Rightarrow> obdh_state \<Rightarrow> obdh_state" where
  "advance_clock k s = s\<lparr>ob_uptime := ob_uptime s + k, ob_obc_time := ob_obc_time s + k\<rparr>"

definition read_temperature :: "params \<Rightarrow> obdh_state \<Rightarrow> obdh_state" where
  "read_temperature p s = (case p 0x0406 of Some t \<Rightarrow> s\<lparr>ob_temp := t\<rparr> | None \<Rightarrow> s)"

definition boot_step :: "py_float \<Rightarrow> 'r obdh \<Rightarrow> 'r obdh" where
  "boot_step dt m =
     (let s = om_state m; t = fsub (ob_boot_app_timer s) dt in
      if \<not> ob_boot_app_pending s then m
      else if \<not> fle t f0 then on_obdh (\<lambda>s. s\<lparr>ob_boot_app_timer := t\<rparr>) m
      else if ob_boot_image_corrupt s
      then pend 0x0305 ''BOOT_FAILURE'' (on_obdh (\<lambda>s. s\<lparr>ob_boot_app_timer := t, ob_boot_app_pending := False,
             ob_sw_image := SW_BOOTLOADER\<rparr>) m)
      else on_obdh (\<lambda>s. s\<lparr>ob_boot_app_timer := t, ob_boot_app_pending := False, ob_sw_image := SW_APPLICATION,
             ob_mode := 0\<rparr>) m)"

definition cpu_step :: "'r random_source \<Rightarrow> 'r obdh \<Rightarrow> 'r obdh" where
  "cpu_step rg m =
     (if ob_sw_image (om_state m) = SW_BOOTLOADER
      then (case draw (rg_gauss rg (Fin False 1)) m of (g, m) \<Rightarrow>
              on_obdh (\<lambda>s. s\<lparr>ob_cpu_load := clamp f0 (Fin False 100) (fadd (Fin False 15) g)\<rparr>) m)
      else (case draw (rg_gauss rg (Fin False 2)) m of (g, m) \<Rightarrow>
              on_obdh (\<lambda>s. s\<lparr>ob_cpu_load := clamp f0 (Fin False 100)
                (fadd (fadd (om_cpu_base m) (pick [(0, f0), (1, Fin True 10), (2, Fin False 20)] (ob_mode s))) g)\<rparr>) m))"

definition watchdog_step :: "'r obdh \<Rightarrow> 'r obdh" where
  "watchdog_step m =
     (let s = om_state m in
      if ob_sw_image s = SW_APPLICATION \<and> ob_watchdog_armed s \<and> ob_mode s = 0 \<and>
         ob_watchdog_period s \<le> ob_watchdog_timer s
      then reboot REBOOT_WATCHDOG (pend 0x0303 ''WATCHDOG_TIMEOUT'' m)
      else on_obdh (\<lambda>s. s\<lparr>ob_watchdog_timer := 0\<rparr>) m)"

definition seu_step :: "'r random_source \<Rightarrow> py_float \<Rightarrow> 'r obdh \<Rightarrow> 'r obdh" where
  "seu_step rg dt m =
     (case draw (rg_random rg) m of (x, m) \<Rightarrow>
        if fless x (fmul (fl (15 / 100000)) dt)
        then pend 0x0307 ''SEU_DETECTED'' (on_obdh (\<lambda>s. s\<lparr>ob_seu_count := ob_seu_count s + 1,
               ob_mem_errors := ob_mem_errors s + 1\<rparr>) m)
        else m)"

definition scrub_step :: "py_float \<Rightarrow> 'r obdh \<Rightarrow> 'r obdh" where
  "scrub_step dt m =
     (let s = om_state m; p = fadd (ob_scrub_progress s) (fmul (fquot dt (Fin False 60)) (Fin False 5)) in
      if \<not> ob_scrub_active s then m
      else if fle (Fin False 100) p
      then pend 0x0308 ''SCRUB_COMPLETE'' (on_obdh (\<lambda>s. s\<lparr>ob_scrub_progress := f0, ob_scrub_active := False,
             ob_mem_errors := max 0 (ob_mem_errors s - 3)\<rparr>) m)
      else on_obdh (\<lambda>s. s\<lparr>ob_scrub_progress := p\<rparr>) m)"

definition task_step :: "'r random_source \<Rightarrow> 'r obdh \<Rightarrow> 'r obdh" where
  "task_step rg m =
     (if ob_sw_image (om_state m) = SW_APPLICATION
      then (case draw (rg_gauss rg (Fin False 1)) m of (g, m) \<Rightarrow> case draw (rg_gauss rg (Fin False (1 / 2))) m of (h, m) \<Rightarrow>
        on_obdh (\<lambda>s. s\<lparr>ob_task_count := 12 + (if ob_mode s = 0 then 3 else 0),
          ob_stack_usage := clamp (Fin False 10) (Fin False 95)
            (fadd (fadd (Fin False 30) (fmul (ob_cpu_load s) (fl (3 / 10)))) g),
          ob_heap_usage := clamp (Fin False 10) (Fin False 95)
            (fadd (fadd (Fin False 35) (fmul (ob_mmm_used s) (fl (4 / 10)))) h)\<rparr>) m)
      else (case draw (rg_gauss rg (Fin False (1 / 2))) m of (g, m) \<Rightarrow> case draw (rg_gauss rg (Fin False (1 / 2))) m of (h, m) \<Rightarrow>
        on_obdh (\<lambda>s. s\<lparr>ob_task_count := 4, ob_stack_usage := fadd (Fin False 15) g,
          ob_heap_usage := fadd (Fin False 10) h\<rparr>) m))"

definition heat_step :: "'r random_source \<Rightarrow> 'r obdh \<Rightarrow> 'r obdh" where
  "heat_step rg m =
     (if ob_sw_image (om_state m) = SW_APPLICATION
      then (case draw (rg_gauss rg (Fin False (1 / 2))) m of (g, m) \<Rightarrow>
        on_obdh (\<lambda>s. s\<lparr>ob_heat := clamp (Fin False 5) (Fin False 35)
          (fadd (fadd (fadd (Fin False 12) (fmul (fquot (ob_cpu_load s) (Fin False 10)) (Fin False 2)))
             (pick [(0, Fin False 3), (1, Fin False (1 / 2)), (2, Fin False 6)] (ob_mode s))) g)\<rparr>) m)
      else (case draw (rg_gauss rg (fl (1 / 10))) m of (g, m) \<Rightarrow>
        on_obdh (\<lambda>s. s\<lparr>ob_heat := fadd (Fin False 2) g\<rparr>) m))"

text \<open>\<open>uniform(a, b) * dt * (100.0 / max(1, capacity))\<close>.\<close>

definition fill_rate :: "py_float \<Rightarrow> py_float \<Rightarrow> py_float \<Rightarrow> py_float \<Rightarrow> obdh_state \<Rightarrow> py_float" where
  "fill_rate a b x dt s = fmul (fmul (fadd a (fmul (fsub b a) x)) dt)
     (fquot (Fin False 100) (of_pyint (max 1 (ob_hktm_capacity s))))"

definition drain_step :: "'r random_source \<Rightarrow> py_float \<Rightarrow> params \<Rightarrow> 'r obdh \<Rightarrow> 'r obdh" where
  "drain_step rg dt p m =
     (if (case p 0x0510 of Some v \<Rightarrow> fbool v | None \<Rightarrow> False)
      then (case draw (rg_random rg) m of (x, m) \<Rightarrow> case draw (rg_randint rg 0 2) m of (k, m) \<Rightarrow>
        on_obdh (\<lambda>s. s\<lparr>ob_hktm_fill := fmax f0 (fsub (ob_hktm_fill s) (fill_rate (Fin False 1) (Fin False 5) x dt s)),
          ob_event_fill := max 0 (ob_event_fill s - k)\<rparr>) m)
      else m)"

definition buffer_step :: "'r random_source \<Rightarrow> py_float \<Rightarrow> params \<Rightarrow> 'r obdh \<Rightarrow> 'r obdh" where
  "buffer_step rg dt p m =
     on_obdh (\<lambda>s. s\<lparr>ob_hktm_fill := clamp f0 (Fin False 100) (ob_hktm_fill s)\<rparr>)
       (if ob_sw_image (om_state m) = SW_APPLICATION
        then (case draw (rg_random rg) m of (x, m) \<Rightarrow> drain_step rg dt p
          (on_obdh (\<lambda>s. s\<lparr>ob_hktm_fill := fmin (Fin False 100)
             (fadd (ob_hktm_fill s) (fill_rate f0 (Fin False 2) x dt s))\<rparr>) m))
        else m)"

text \<open>The events of the transitions since the last tick; each also becomes the pending event.\<close>

definition model_event :: "int \<Rightarrow> string \<Rightarrow> string \<Rightarrow> event" where
  "model_event k name severity =
     \<lparr>ev_id = k, ev_severity = Sev_name severity, ev_description = py name, ev_extra = [(''subsystem'', VStr ''obdh'')]\<rparr>"

definition transitions :: "'r obdh \<Rightarrow> (int \<times> string \<times> string) list" where
  "transitions m =
     (let s = om_state m in
      (if ob_mode s \<noteq> om_prev_mode m then [(0x0300, ''OBDH_MODE_CHANGE'', ''INFO'')] else []) @
      (if ob_reboot_count s \<noteq> om_prev_reboots m then [(0x0301, ''OBC_REBOOT'', ''HIGH'')] else []) @
      (if ob_bus_a_status s \<noteq> om_prev_bus_a m \<and> ob_bus_a_status s = BUS_FAILED then [(0x0304, ''BUS_FAILURE_A'', ''HIGH'')] else []) @
      (if ob_bus_b_status s \<noteq> om_prev_bus_b m \<and> ob_bus_b_status s = BUS_FAILED then [(0x0304, ''BUS_FAILURE_B'', ''HIGH'')] else []) @
      (if ob_active_obc s \<noteq> om_prev_obc m then [(0x0306, ''OBC_SWITCHOVER'', ''MEDIUM'')] else []))"

definition note_transitions :: "'r obdh \<Rightarrow> 'r obdh" where
  "note_transitions m =
     (let ts = transitions m; s = om_state m in m
      \<lparr>om_event := (if ts = [] then om_event m else Some (fst (last ts), fst (snd (last ts)))),
       om_prev_mode := ob_mode s, om_prev_reboots := ob_reboot_count s, om_prev_bus_a := ob_bus_a_status s,
       om_prev_bus_b := ob_bus_b_status s, om_prev_obc := ob_active_obc s\<rparr>)"

definition obdh_params :: "(string \<rightharpoonup> int) \<Rightarrow> obdh_state \<Rightarrow> (int \<times> py_float) list" where
  "obdh_params ids s =
     (let p = (\<lambda>name d. or_else (ids name) d); i = of_pyint in
      [(p ''obc_mode'' 0x0300, i (ob_mode s)), (p ''obc_temp'' 0x0301, ob_temp s),
       (p ''cpu_load'' 0x0302, ob_cpu_load s), (p ''mmm_used'' 0x0303, ob_mmm_used s),
       (p ''tc_rx'' 0x0304, i (ob_tc_rx s)), (p ''tc_acc'' 0x0305, i (ob_tc_acc s)),
       (p ''tc_rej'' 0x0306, i (ob_tc_rej s)), (p ''last_tc_error_code'' 0x0315, i (ob_last_tc_error s)),
       (p ''tm_pkt'' 0x0307, i (ob_tm_pkt s)), (p ''uptime'' 0x0308, i (ob_uptime s)),
       (p ''obc_time'' 0x0309, i (ob_obc_time s)), (p ''reboot_count'' 0x030A, i (ob_reboot_count s)),
       (p ''sw_version'' 0x030B, i (ob_sw_version s)), (p ''active_obc'' 0x030C, i (ob_active_obc s)),
       (p ''obc_b_status'' 0x030D, i (ob_obc_b_status s)), (p ''active_bus'' 0x030E, i (ob_active_bus s)),
       (p ''bus_a_status'' 0x030F, i (ob_bus_a_status s)), (p ''bus_b_status'' 0x0310, i (ob_bus_b_status s)),
       (p ''sw_image'' 0x0311, i (ob_sw_image s)), (p ''hktm_buf_fill'' 0x0312, ob_hktm_fill s),
       (p ''event_buf_fill'' 0x0313, i (ob_event_fill s)), (p ''alarm_buf_fill'' 0x0314, i (ob_alarm_fill s)),
       (p ''last_reboot_cause'' 0x0316, i (ob_last_reboot_cause s)), (p ''boot_count_a'' 0x0317, i (ob_boot_count_a s)),
       (p ''boot_count_b'' 0x0318, i (ob_boot_count_b s)), (0x0319, i (ob_seu_count s)), (0x031A, ob_scrub_progress s),
       (0x031B, i (ob_task_count s)), (0x031C, ob_stack_usage s), (0x031D, ob_heap_usage s),
       (0x031E, i (ob_mem_errors s)), (0x031F, ob_heat s), (0x0A10, ob_mmm_used s),
       (0x0A11, if (if ob_active_bus s = 0 then ob_bus_a_status s else ob_bus_b_status s) = BUS_FAILED
                then f0 else Fin False 1)])"

text \<open>
  The whole tick: the new model, the events for the engine's queue and the shared parameters. The
  steps between the clock and the edge detection are one function, since nothing leaves in between.
\<close>

definition obdh_dynamics :: "'r random_source \<Rightarrow> py_float \<Rightarrow> params \<Rightarrow> int \<Rightarrow> 'r obdh \<Rightarrow> 'r obdh" where
  "obdh_dynamics rg dt p k m =
     buffer_step rg dt p (heat_step rg (task_step rg (scrub_step dt (seu_step rg dt (watchdog_step (cpu_step rg
       (boot_step dt (on_obdh (\<lambda>s. read_temperature p (advance_clock k s)) m))))))))"

definition obdh_tick ::
  "'r random_source \<Rightarrow> py_float \<Rightarrow> params \<Rightarrow> ('r obdh, event list \<times> params) py" where
  "obdh_tick rg dt p m =
     (case trunc_float dt of Inl e \<Rightarrow> (Inl e, m)
      | Inr k \<Rightarrow>
          (let m1 = obdh_dynamics rg dt p k m; events = map (\<lambda>(i, n, sv). model_event i n sv) (transitions m1);
               m2 = on_obdh power_gates (note_transitions m1)
           in (Inr (events, write_params (obdh_params (om_param_ids m2) (om_state m2)) p), m2)))"

end
