(* ===== verification/Obdh_Commands.thy ===== *)
theory Obdh_Commands
  imports Obdh_Model
begin

text \<open>
  The commands, the failures and the interface of the on-board computer
  (\<open>handle_command\<close>, \<open>inject_failure\<close>, \<open>clear_failure\<close> of \<open>smo_simulator/models/obdh_basic.py\<close>), and
  \<open>obdh_subsystems\<close>: the subsystem interface of the on-board software with this model behind it.
\<close>

section \<open>Replies\<close>

definition with_data :: "bytes \<Rightarrow> reply" where
  "with_data bs = accepted\<lparr>rp_fields := [''data'' \<mapsto> VBytes bs]\<rparr>"

definition BOOTLOADER_ALLOWED :: "string list" where
  "BOOTLOADER_ALLOWED = [''obc_boot_app'', ''obc_boot_inhibit'', ''obc_reboot'', ''obc_switch_unit'', ''obc_select_bus'',
     ''obc_clear_reboot_cnt'', ''diagnostic'', ''error_log'']"

section \<open>Time\<close>

text \<open>
  \<open>gps_time_sync\<close> with the shared parameters and the simulation time in seconds since the epoch of
  the computer's clock. Without a fix the time of the reply's text is the fix type.
\<close>

definition gps_time_sync :: "params \<Rightarrow> rat \<Rightarrow> obdh_state \<Rightarrow> reply result \<times> obdh_state" where
  "gps_time_sync p now s =
     (let fix_type = (case p 0x0274 of Some v \<Rightarrow> v | None \<Rightarrow> f0) in
      if fless fix_type (Fin False 2) then
        (bind_result (trunc_float fix_type) (\<lambda>k. Inr (refused (py (''GPS time sync requires 3D fix (current fix type: '' @ str_int k @ '')'')))), s)
      else
        (let t = (if 0 \<le> now then \<lfloor>now\<rfloor> else \<lceil>now\<rceil>); old = ob_obc_time s;
             jump = (if 0 < old then of_pyint (t - old) else f0)
         in (Inr (accepted\<lparr>rp_fields := [''time_jump_s'' \<mapsto> VFloat jump],
               rp_message := Some (py (''OBC time synced to GPS: '' @ str_int t @ '' (jump '' @ fmt_fixed 1 jump @ ''s)''))\<rparr>),
             s\<lparr>ob_obc_time := t\<rparr>)))"

section \<open>Commands\<close>

fun pack_be_all :: "(nat \<times> int) list \<Rightarrow> bytes result" where
  "pack_be_all [] = Inr []"
| "pack_be_all ((n, k) # nks) = bind_result (pack_be n k) (\<lambda>a. bind_result (pack_be_all nks) (\<lambda>b. Inr (a @ b)))"

definition diagnostic_data :: "obdh_state \<Rightarrow> bytes result" where
  "diagnostic_data s =
     bind_result (pack_be 1 (ob_mode s)) (\<lambda>a. bind_result (pack_f (ob_cpu_load s)) (\<lambda>b.
     bind_result (pack_be_all (map (\<lambda>k. (1, k)) [of_bool (ob_watchdog_armed s), ob_active_obc s, ob_obc_b_status s,
       ob_active_bus s, ob_bus_a_status s, ob_bus_b_status s, ob_sw_image s])) (\<lambda>c.
     bind_result (pack_f (ob_temp s)) (\<lambda>d. Inr (a @ b @ c @ d)))))"

definition error_log_data :: "obdh_state \<Rightarrow> bytes result" where
  "error_log_data s = pack_be_all (map (\<lambda>k. (2, k)) [ob_mem_errors s, ob_reboot_count s, ob_last_reboot_cause s, ob_seu_count s])"

definition unknown_command :: "string \<Rightarrow> reply" where
  "unknown_command name = refused (py (''Unknown: '' @ name))"

definition of_data :: "bytes result \<Rightarrow> reply result" where
  "of_data r = bind_result r (\<lambda>bs. Inr (with_data bs))"

text \<open>The commands on the state alone; \<open>None\<close> for those that need the model or are unknown.\<close>

definition state_command :: "string \<Rightarrow> command \<Rightarrow> obdh_state \<Rightarrow> (reply result \<times> obdh_state) option" where
  "state_command name c s =
     (if name = ''set_mode'' then Some (case arg_int c ''mode'' 0 of Inl e \<Rightarrow> (Inl e, s)
        | Inr k \<Rightarrow> if k \<in> {0, 1, 2} then (Inr accepted, s\<lparr>ob_mode := k\<rparr>) else (Inr (unknown_command name), s))
      else if name = ''set_time'' then Some (case arg_int c ''cuc'' 0 of Inl e \<Rightarrow> (Inl e, s)
        | Inr k \<Rightarrow> (Inr accepted, s\<lparr>ob_obc_time := k\<rparr>))
      else if name = ''memory_scrub'' then Some (Inr accepted, s\<lparr>ob_scrub_active := True, ob_scrub_progress := f0\<rparr>)
      else if name = ''obc_select_bus'' then Some (case arg_int c ''bus'' 0 of Inl e \<Rightarrow> (Inl e, s)
        | Inr k \<Rightarrow>
            if k \<noteq> 0 \<and> k \<noteq> 1 then (Inr (refused (py ''Invalid bus (0=A, 1=B)'')), s)
            else if k = 0 \<and> ob_bus_a_status s = BUS_FAILED then (Inr (refused (py ''Bus A is FAILED'')), s)
            else if k = 1 \<and> ob_bus_b_status s = BUS_FAILED then (Inr (refused (py ''Bus B is FAILED'')), s)
            else (Inr accepted, s\<lparr>ob_active_bus := k\<rparr>))
      else if name = ''obc_boot_app'' then Some
        (if ob_sw_image s = SW_APPLICATION then (Inr (refused (py ''Already in application'')), s)
         else (Inr accepted, s\<lparr>ob_boot_app_pending := True, ob_boot_app_timer := Fin False 10\<rparr>))
      else if name = ''obc_boot_inhibit'' then Some (Inr accepted,
        s\<lparr>ob_boot_inhibit := (case map_of c ''inhibit'' of Some v \<Rightarrow> val_bool v | None \<Rightarrow> True)\<rparr>)
      else if name = ''obc_clear_reboot_cnt'' then Some (Inr accepted,
        s\<lparr>ob_boot_count_a := 0, ob_boot_count_b := 0, ob_reboot_count := 0\<rparr>)
      else if name = ''set_watchdog_period'' then Some (case arg_int c ''period'' 30 of Inl e \<Rightarrow> (Inl e, s)
        | Inr k \<Rightarrow> (Inr accepted, s\<lparr>ob_watchdog_period := max 1 k\<rparr>))
      else if name = ''watchdog_enable'' then Some (Inr accepted, s\<lparr>ob_watchdog_armed := True\<rparr>)
      else if name = ''watchdog_disable'' then Some (Inr accepted, s\<lparr>ob_watchdog_armed := False\<rparr>)
      else if name = ''diagnostic'' then Some (of_data (diagnostic_data s), s)
      else if name = ''error_log'' then Some (of_data (error_log_data s), s)
      else None)"

definition boot_gate :: "string \<Rightarrow> obdh_state \<Rightarrow> bool" where
  "boot_gate name s \<longleftrightarrow> ob_sw_image s = SW_BOOTLOADER \<and> name \<notin> set BOOTLOADER_ALLOWED"

definition pre_boot :: "string \<Rightarrow> reply" where
  "pre_boot name = refused (py (''Bootloader: '' @ name @ '' not available pre-boot''))"

text \<open>Without shared parameters \<open>gps_time_sync\<close> finds no fix; the time it would set is not looked at.\<close>

definition obdh_handle :: "command \<Rightarrow> ('r obdh, reply) py" where
  "obdh_handle c m =
     (let name = command_name c; s = om_state m in
      if boot_gate name s then (Inr (pre_boot name), m)
      else if name = ''obc_reboot'' then (Inr accepted, reboot REBOOT_COMMAND m)
      else if name = ''obc_switch_unit'' then (Inr accepted, switchover m)
      else if name = ''gps_time_sync'' then (fst (gps_time_sync Map.empty 0 s), m)
      else case state_command name c s of
             Some (r, s') \<Rightarrow> (r, m\<lparr>om_state := s'\<rparr>)
           | None \<Rightarrow> (Inr (unknown_command name), m))"

definition obdh_gps_sync :: "params \<Rightarrow> rat \<Rightarrow> ('r obdh, reply) py" where
  "obdh_gps_sync p now m =
     (if boot_gate ''gps_time_sync'' (om_state m) then (Inr (pre_boot ''gps_time_sync''), m)
      else case gps_time_sync p now (om_state m) of (r, s) \<Rightarrow> (r, m\<lparr>om_state := s\<rparr>))"

section \<open>Failures\<close>

text \<open>\<open>kw.get("bus", "A").upper()\<close>.\<close>

definition failed_bus :: "command \<Rightarrow> string result" where
  "failed_bus c = (case map_of c ''bus'' of None \<Rightarrow> Inr ''A'' | Some (VStr b) \<Rightarrow> Inr (map upper_char b)
     | Some _ \<Rightarrow> Inl (OtherError ''AttributeError''))"

definition set_bus :: "int \<Rightarrow> string \<Rightarrow> obdh_state \<Rightarrow> obdh_state" where
  "set_bus status b s =
     (if b = ''A'' then s\<lparr>ob_bus_a_status := status\<rparr>
      else if b = ''B'' then s\<lparr>ob_bus_b_status := status\<rparr> else s)"

text \<open>A failed segment of the mass memory; the usage rises by the share of the lost capacity.\<close>

definition fail_segment :: "nat \<Rightarrow> obdh_state \<Rightarrow> obdh_state" where
  "fail_segment i s =
     (let segs = (ob_memory_segments s)[i := False]; n = length segs; lost = n - length (filter id segs)
      in s\<lparr>ob_memory_segments := segs, ob_mem_errors := ob_mem_errors s + 1,
           ob_mmm_used := (if 0 < lost
             then fmin (Fin False 100) (fadd (ob_mmm_used s)
               (fquot (fmul (fl (of_nat lost / of_nat n)) (Fin False 100)) (of_pyint (int n))))
             else ob_mmm_used s)\<rparr>)"

definition inject_obdh :: "string \<Rightarrow> command \<Rightarrow> ('r obdh, unit) py" where
  "inject_obdh failure c =
     (if failure = ''watchdog_reset'' then
        modify (on_obdh (\<lambda>s. s\<lparr>ob_watchdog_armed := True, ob_watchdog_timer := ob_watchdog_period s\<rparr>))
      else if failure = ''memory_errors'' then bind_py (of_result (arg_int c ''count'' 5)) (\<lambda>k.
        modify (on_obdh (\<lambda>s. s\<lparr>ob_mem_errors := ob_mem_errors s + k\<rparr>)))
      else if failure = ''cpu_spike'' then
        bind_py (of_result (case map_of c ''load'' of Some v \<Rightarrow> val_float v | None \<Rightarrow> Inr (Fin False 95))) (\<lambda>x.
          modify (\<lambda>m. m\<lparr>om_cpu_base := x\<rparr>))
      else if failure = ''obc_crash'' then modify (reboot REBOOT_WATCHDOG)
      else if failure = ''bus_failure'' then bind_py (of_result (failed_bus c)) (\<lambda>b. modify (on_obdh (set_bus BUS_FAILED b)))
      else if failure = ''boot_image_corrupt'' then modify (on_obdh (\<lambda>s. s\<lparr>ob_boot_image_corrupt := True\<rparr>))
      else if failure = ''memory_corruption'' then bind_py (of_result (arg_int c ''count'' 10)) (\<lambda>k.
        modify (\<lambda>m. reboot REBOOT_MEMORY_ERROR (pend 0x0302 ''MEMORY_ERROR''
          (on_obdh (\<lambda>s. s\<lparr>ob_mem_errors := ob_mem_errors s + k\<rparr>) m))))
      else if failure = ''memory_segment_fail'' then bind_py (of_result (arg_int c ''segment'' 0)) (\<lambda>k.
        modify (\<lambda>m. if 0 \<le> k \<and> k < int (length (ob_memory_segments (om_state m)))
          then pend 0x0302 ''MEMORY_SEGMENT_FAIL'' (on_obdh (fail_segment (nat k)) m) else m))
      else if failure = ''stuck_in_bootloader'' then
        modify (\<lambda>m. pend 0x0305 ''BOOT_FAILURE'' (on_obdh (\<lambda>s. s\<lparr>ob_boot_image_corrupt := True,
          ob_sw_image := SW_BOOTLOADER, ob_boot_app_pending := False, ob_boot_inhibit := True\<rparr>) m))
      else ret ())"

definition clear_obdh :: "string \<Rightarrow> command \<Rightarrow> ('r obdh, unit) py" where
  "clear_obdh failure c =
     (if failure = ''watchdog_reset'' then modify (on_obdh (\<lambda>s. s\<lparr>ob_watchdog_timer := 0\<rparr>))
      else if failure = ''memory_errors'' then bind_py (of_result (arg_int c ''count'' 5)) (\<lambda>k.
        modify (on_obdh (\<lambda>s. s\<lparr>ob_mem_errors := max 0 (ob_mem_errors s - k)\<rparr>)))
      else if failure = ''cpu_spike'' then modify (\<lambda>m. m\<lparr>om_cpu_base := Fin False 35\<rparr>)
      else if failure = ''bus_failure'' then bind_py (of_result (failed_bus c)) (\<lambda>b. modify (on_obdh (set_bus BUS_OK b)))
      else if failure = ''boot_image_corrupt'' then modify (on_obdh (\<lambda>s. s\<lparr>ob_boot_image_corrupt := False\<rparr>))
      else if failure = ''memory_corruption'' then modify (on_obdh (\<lambda>s. s\<lparr>ob_mem_errors := 0\<rparr>))
      else if failure = ''memory_segment_fail'' then bind_py (of_result (arg_int c ''segment'' 0)) (\<lambda>k.
        modify (on_obdh (\<lambda>s. if 0 \<le> k \<and> k < int (length (ob_memory_segments s))
          then s\<lparr>ob_memory_segments := (ob_memory_segments s)[nat k := True]\<rparr> else s)))
      else if failure = ''stuck_in_bootloader'' then
        modify (on_obdh (\<lambda>s. s\<lparr>ob_boot_image_corrupt := False, ob_boot_inhibit := False\<rparr>))
      else ret ())"

section \<open>Breakpoints\<close>

definition obdh_get_state :: "'r obdh \<Rightarrow> obdh_state \<times> 'r" where
  "obdh_get_state m = (om_state m, om_rng m)"

definition obdh_set_state :: "obdh_state \<times> 'r option \<Rightarrow> 'r obdh \<Rightarrow> 'r obdh" where
  "obdh_set_state st m = m\<lparr>om_state := fst st, om_rng := or_else (snd st) (om_rng m)\<rparr>"

section \<open>The interface of the on-board software\<close>

text \<open>\<open>getattr(obdh._state, name)\<close> of the scalar attributes.\<close>

definition obdh_attr :: "string \<Rightarrow> obdh_state \<Rightarrow> pyval option" where
  "obdh_attr name s = map_of
     [(''mode'', VInt (ob_mode s)), (''temp'', VFloat (ob_temp s)), (''cpu_load'', VFloat (ob_cpu_load s)),
      (''mmm_used_pct'', VFloat (ob_mmm_used s)), (''tc_rx_count'', VInt (ob_tc_rx s)), (''tc_acc_count'', VInt (ob_tc_acc s)),
      (''tc_rej_count'', VInt (ob_tc_rej s)), (''tm_pkt_count'', VInt (ob_tm_pkt s)),
      (''last_tc_error_code'', VInt (ob_last_tc_error s)), (''uptime_s'', VInt (ob_uptime s)),
      (''obc_time_cuc'', VInt (ob_obc_time s)), (''reboot_count'', VInt (ob_reboot_count s)),
      (''sw_version'', VInt (ob_sw_version s)), (''mem_errors'', VInt (ob_mem_errors s)),
      (''watchdog_armed'', VBool (ob_watchdog_armed s)), (''watchdog_timer'', VInt (ob_watchdog_timer s)),
      (''watchdog_period'', VInt (ob_watchdog_period s)), (''active_obc'', VInt (ob_active_obc s)),
      (''obc_b_status'', VInt (ob_obc_b_status s)), (''boot_count_a'', VInt (ob_boot_count_a s)),
      (''boot_count_b'', VInt (ob_boot_count_b s)), (''sw_image'', VInt (ob_sw_image s)),
      (''boot_app_timer'', VFloat (ob_boot_app_timer s)), (''boot_app_pending'', VBool (ob_boot_app_pending s)),
      (''boot_inhibit'', VBool (ob_boot_inhibit s)), (''boot_image_corrupt'', VBool (ob_boot_image_corrupt s)),
      (''active_bus'', VInt (ob_active_bus s)), (''bus_a_status'', VInt (ob_bus_a_status s)),
      (''bus_b_status'', VInt (ob_bus_b_status s)), (''hktm_buf_fill'', VFloat (ob_hktm_fill s)),
      (''hktm_buf_capacity'', VInt (ob_hktm_capacity s)), (''event_buf_fill'', VInt (ob_event_fill s)),
      (''event_buf_capacity'', VInt (ob_event_capacity s)), (''alarm_buf_fill'', VInt (ob_alarm_fill s)),
      (''alarm_buf_capacity'', VInt (ob_alarm_capacity s)), (''last_reboot_cause'', VInt (ob_last_reboot_cause s)),
      (''memory_segments'', VBools (ob_memory_segments s)), (''seu_count'', VInt (ob_seu_count s)),
      (''scrub_progress_pct'', VFloat (ob_scrub_progress s)), (''scrub_active'', VBool (ob_scrub_active s)),
      (''task_count'', VInt (ob_task_count s)), (''stack_usage_pct'', VFloat (ob_stack_usage s)),
      (''heap_usage_pct'', VFloat (ob_heap_usage s)), (''heat_dissipation_w'', VFloat (ob_heat s))] name"

text \<open>The assignments the engine makes to the state: the software image and the pending boot.\<close>

definition obdh_set_attr :: "string \<Rightarrow> pyval \<Rightarrow> obdh_state \<Rightarrow> obdh_state" where
  "obdh_set_attr name v s = (case v of
       VInt k \<Rightarrow> (if name = ''sw_image'' then s\<lparr>ob_sw_image := k\<rparr> else if name = ''mode'' then s\<lparr>ob_mode := k\<rparr> else s)
     | VBool b \<Rightarrow> (if name = ''boot_app_pending'' then s\<lparr>ob_boot_app_pending := b\<rparr> else s)
     | _ \<Rightarrow> s)"

definition obdh_count :: "string \<Rightarrow> obdh_state \<Rightarrow> obdh_state" where
  "obdh_count name s =
     (if name = ''record_tc_received'' then record_tc_received s
      else if name = ''record_tc_accepted'' then record_tc_accepted s
      else if name = ''record_tc_rejected'' then record_tc_rejected s
      else if name = ''record_tm_packet'' then record_tm_packet s
      else s)"

definition obdh_subsystems :: "'r obdh subsystems" where
  "obdh_subsystems = \<lparr>sy_present = (\<lambda>n. n = ''obdh''),
     sy_command = (\<lambda>n c m. if n = ''obdh'' then (case obdh_handle c m of (Inl e, m') \<Rightarrow> (Inl e, m') | (Inr r, m') \<Rightarrow> (Inr (Some r), m')) else (Inr None, m)),
     sy_set_device = (\<lambda>n k on m. if n = ''obdh'' then (case set_device_state k on (om_state m) of (b, s) \<Rightarrow> (Inr b, m\<lparr>om_state := s\<rparr>)) else (Inr False, m)),
     sy_get_device = (\<lambda>n k m. (Inr (n = ''obdh'' \<and> get_device_state k (om_state m)), m)),
     sy_attr = (\<lambda>n a m. if n = ''obdh'' then obdh_attr a (om_state m) else None),
     sy_set_attr = (\<lambda>n a v m. if n = ''obdh'' then m\<lparr>om_state := obdh_set_attr a v (om_state m)\<rparr> else m),
     sy_has_setter = (\<lambda>_ _. False), sy_call_setter = (\<lambda>_ _ _ _. ret ()), sy_power_line = (\<lambda>_ _. None),
     sy_set_line = (\<lambda>_ _ m. m), sy_count = (\<lambda>name m. m\<lparr>om_state := obdh_count name (om_state m)\<rparr>),
     sy_failure_code = (\<lambda>k. modify (\<lambda>m. m\<lparr>om_state := record_tc_failure_code k (om_state m)\<rparr>)),
     sy_gps_time_sync = (\<lambda>p now m. case obdh_gps_sync p now m of (Inl e, m') \<Rightarrow> (Inl e, m') | (Inr r, m') \<Rightarrow> (Inr (Some r), m')),
     sy_default_rate = (\<lambda>_. 0), sy_beacon_tier = (\<lambda>_. 0), sy_safe_tier = (\<lambda>_. 0), sy_apply_tier = (\<lambda>_ m. m)\<rparr>"

end
