(* ===== verification/Obdh_Rules.thy ===== *)
theory Obdh_Rules
  imports Obdh_Commands
begin

text \<open>
  What the on-board computer guarantees: its percentages are percentages whatever the noise, the
  application image runs only after a verified boot and a pending boot ends on time, healthy
  software is never reset by its watchdog, and the boot loader refuses what the application offers.
\<close>

section \<open>Ranges\<close>

text \<open>What the steps of a tick leave alone.\<close>

lemma draw_state: "draw g m = (x, m') \<Longrightarrow> om_state m' = om_state m"
  by (auto simp: draw_def split: prod.splits)

lemma fst_draw: "om_state (snd (draw g m)) = om_state m"
  by (simp add: draw_def split: prod.split)

lemma buffer_step_fill: "between f0 (Fin False 100) (ob_hktm_fill (om_state (buffer_step rg dt p m)))"
  by (simp add: buffer_step_def clamp_between)

text \<open>
  The control part of the state. Of the steps of a tick only the boot, the watchdog and the clock
  change it; the others move the loads, the fills and the counters.
\<close>

definition control :: "obdh_state \<Rightarrow> (int \<times> int \<times> int \<times> int) \<times> (py_float \<times> bool \<times> bool \<times> bool) \<times>
    (bool \<times> int \<times> int) \<times> (int \<times> int \<times> int)" where
  "control s = ((ob_mode s, ob_sw_image s, ob_reboot_count s, ob_active_obc s),
     (ob_boot_app_timer s, ob_boot_app_pending s, ob_boot_inhibit s, ob_boot_image_corrupt s),
     (ob_watchdog_armed s, ob_watchdog_timer s, ob_watchdog_period s),
     (ob_active_bus s, ob_bus_a_status s, ob_bus_b_status s))"

lemma noise_steps:
  "control (om_state (cpu_step rg m)) = control (om_state m)"
  "control (om_state (seu_step rg dt m)) = control (om_state m)"
  "control (om_state (scrub_step dt m)) = control (om_state m)"
  "control (om_state (task_step rg m)) = control (om_state m)"
  "control (om_state (heat_step rg m)) = control (om_state m)"
  "control (om_state (buffer_step rg dt p m)) = control (om_state m)"
  by (simp_all add: control_def cpu_step_def seu_step_def scrub_step_def task_step_def heat_step_def
      buffer_step_def drain_step_def draw_def pend_def Let_def split: prod.split)

lemma cpu_kept:
  "ob_cpu_load (om_state (watchdog_step m)) = ob_cpu_load (om_state m)"
  "ob_cpu_load (om_state (seu_step rg dt m)) = ob_cpu_load (om_state m)"
  "ob_cpu_load (om_state (scrub_step dt m)) = ob_cpu_load (om_state m)"
  "ob_cpu_load (om_state (task_step rg m)) = ob_cpu_load (om_state m)"
  "ob_cpu_load (om_state (heat_step rg m)) = ob_cpu_load (om_state m)"
  "ob_cpu_load (om_state (buffer_step rg dt p m)) = ob_cpu_load (om_state m)"
  by (simp_all add: watchdog_step_def reboot_def reboot_state_def seu_step_def scrub_step_def task_step_def heat_step_def
      buffer_step_def drain_step_def draw_def pend_def Let_def split: prod.split)

lemma usage_kept:
  "ob_stack_usage (om_state (heat_step rg m)) = ob_stack_usage (om_state m)"
  "ob_stack_usage (om_state (buffer_step rg dt p m)) = ob_stack_usage (om_state m)"
  "ob_heap_usage (om_state (heat_step rg m)) = ob_heap_usage (om_state m)"
  "ob_heap_usage (om_state (buffer_step rg dt p m)) = ob_heap_usage (om_state m)"
  "ob_heat (om_state (buffer_step rg dt p m)) = ob_heat (om_state m)"
  by (simp_all add: heat_step_def buffer_step_def drain_step_def draw_def Let_def split: prod.split)

lemma cpu_step_range: "between f0 (Fin False 100) (ob_cpu_load (om_state (cpu_step rg m)))"
  by (simp add: cpu_step_def draw_def clamp_between split: prod.split)

lemma task_step_range:
  assumes "ob_sw_image (om_state m) = SW_APPLICATION"
  shows "between (Fin False 10) (Fin False 95) (ob_stack_usage (om_state (task_step rg m)))"
    and "between (Fin False 10) (Fin False 95) (ob_heap_usage (om_state (task_step rg m)))"
  using assms by (simp_all add: task_step_def draw_def clamp_between split: prod.split)

lemma heat_step_range:
  "ob_sw_image (om_state m) = SW_APPLICATION \<Longrightarrow> between (Fin False 5) (Fin False 35) (ob_heat (om_state (heat_step rg m)))"
  by (simp add: heat_step_def draw_def clamp_between split: prod.split)

lemma control_image: "control s = control t \<Longrightarrow> ob_sw_image s = ob_sw_image t"
  by (simp add: control_def)

text \<open>A tick in its parts.\<close>

lemma obdh_tick_parts:
  assumes "obdh_tick rg dt p m = (Inr (events, p'), m')"
  obtains k m1 where "trunc_float dt = Inr k" "m1 = obdh_dynamics rg dt p k m"
    "events = map (\<lambda>(i, n, sv). model_event i n sv) (transitions m1)"
    "m' = on_obdh power_gates (note_transitions m1)"
  using assms by (auto simp: obdh_tick_def Let_def split: sum.splits)

lemma gates_kept:
  "ob_sw_image (power_gates s) = ob_sw_image s" "ob_cpu_load (power_gates s) = ob_cpu_load s"
  "ob_stack_usage (power_gates s) = ob_stack_usage s" "ob_heap_usage (power_gates s) = ob_heap_usage s"
  "ob_heat (power_gates s) = ob_heat s" "ob_hktm_fill (power_gates s) = ob_hktm_fill s"
  "ob_reboot_count (power_gates s) = ob_reboot_count s" "ob_watchdog_timer (power_gates s) = ob_watchdog_timer s"
  "ob_watchdog_period (power_gates s) = ob_watchdog_period s" "ob_boot_app_pending (power_gates s) = ob_boot_app_pending s"
  "ob_boot_app_timer (power_gates s) = ob_boot_app_timer s" "ob_boot_image_corrupt (power_gates s) = ob_boot_image_corrupt s"
  "ob_mode (power_gates s) = ob_mode s" "ob_boot_inhibit (power_gates s) = ob_boot_inhibit s"
  by (simp_all add: power_gates_def)

lemma note_state: "om_state (note_transitions m) = om_state m"
  by (simp add: note_transitions_def Let_def)

text \<open>
  Whatever the noise, the failures and the history, after a tick the fill of the housekeeping
  buffer and the processor load lie between 0 and 100 percent, and under the application image the
  stack and heap usage between 10 and 95 percent and the dissipation between 5 and 35 watts.
\<close>

theorem percentages_are_percentages:
  assumes "obdh_tick rg dt p m = (Inr (events, p'), m')"
  shows "between f0 (Fin False 100) (ob_hktm_fill (om_state m')) \<and>
     between f0 (Fin False 100) (ob_cpu_load (om_state m')) \<and>
     (ob_sw_image (om_state m') = SW_APPLICATION \<longrightarrow>
        between (Fin False 10) (Fin False 95) (ob_stack_usage (om_state m')) \<and>
        between (Fin False 10) (Fin False 95) (ob_heap_usage (om_state m')) \<and>
        between (Fin False 5) (Fin False 35) (ob_heat (om_state m')))"
proof -
  obtain k m1 where m1: "m1 = obdh_dynamics rg dt p k m" "m' = on_obdh power_gates (note_transitions m1)"
    using obdh_tick_parts [OF assms] by metis
  define t where "t = scrub_step dt (seu_step rg dt (watchdog_step (cpu_step rg
       (boot_step dt (on_obdh (\<lambda>s. read_temperature p (advance_clock k s)) m)))))"
  have d: "m1 = buffer_step rg dt p (heat_step rg (task_step rg t))"
    unfolding m1(1) obdh_dynamics_def t_def ..
  have image: "ob_sw_image (om_state m1) = ob_sw_image (om_state t)"
    "ob_sw_image (om_state (task_step rg t)) = ob_sw_image (om_state t)"
    unfolding d by (rule control_image, simp add: noise_steps)+
  have cpu: "between f0 (Fin False 100) (ob_cpu_load (om_state m1))"
    unfolding d t_def by (simp add: cpu_kept cpu_step_range)
  have app: "between (Fin False 10) (Fin False 95) (ob_stack_usage (om_state m1)) \<and>
        between (Fin False 10) (Fin False 95) (ob_heap_usage (om_state m1)) \<and>
        between (Fin False 5) (Fin False 35) (ob_heat (om_state m1))"
    if "ob_sw_image (om_state t) = SW_APPLICATION"
    using that unfolding d by (simp add: usage_kept task_step_range heat_step_range image(2))
  have fill: "between f0 (Fin False 100) (ob_hktm_fill (om_state m1))"
    unfolding d by (rule buffer_step_fill)
  show ?thesis unfolding m1(2) using cpu app fill image(1) by (simp add: gates_kept note_state)
qed


lemma tick_returns:
  "trunc_float dt = Inr k \<Longrightarrow> \<exists>events p' m'. obdh_tick rg dt p m = (Inr (events, p'), m')"
  by (simp add: obdh_tick_def Let_def)

lemma percentages_are_percentages_witness:
  "between f0 (Fin False 100) (ob_hktm_fill (om_state (snd (obdh_tick quiet (Fin False 1) Map.empty (new_obdh ())))))"
proof -
  obtain es p' m' where t: "obdh_tick quiet (Fin False 1) Map.empty (new_obdh ()) = (Inr (es, p'), m')"
    using tick_returns [of "Fin False 1" 1 quiet Map.empty "new_obdh ()"] by (auto simp: trunc_float_def)
  show ?thesis using percentages_are_percentages [OF t] by (simp add: t)
qed

section \<open>Booting\<close>

lemma control_eqD:
  assumes "control s = control t"
  shows "ob_mode s = ob_mode t" "ob_sw_image s = ob_sw_image t" "ob_reboot_count s = ob_reboot_count t"
    "ob_boot_app_timer s = ob_boot_app_timer t" "ob_boot_app_pending s = ob_boot_app_pending t"
    "ob_boot_inhibit s = ob_boot_inhibit t" "ob_boot_image_corrupt s = ob_boot_image_corrupt t"
    "ob_watchdog_armed s = ob_watchdog_armed t" "ob_watchdog_timer s = ob_watchdog_timer t"
    "ob_watchdog_period s = ob_watchdog_period t" "ob_active_obc s = ob_active_obc t"
  using assms by (simp_all add: control_def)

lemma clock_control: "control (read_temperature p (advance_clock k s)) = control s"
  by (simp add: control_def read_temperature_def advance_clock_def split: option.split)

text \<open>A step on the control part: what it makes of the control part depends on that part alone.\<close>

lemma boot_step_control:
  "control (om_state m) = control (om_state n) \<Longrightarrow>
   control (om_state (boot_step dt m)) = control (om_state (boot_step dt n))"
  by (simp add: control_def boot_step_def pend_def Let_def)

lemma watchdog_step_control:
  "control (om_state m) = control (om_state n) \<Longrightarrow>
   control (om_state (watchdog_step m)) = control (om_state (watchdog_step n))"
  by (simp add: control_def watchdog_step_def pend_def reboot_def reboot_state_def Let_def)

lemma dynamics_control:
  "control (om_state (obdh_dynamics rg dt p k m)) = control (om_state (watchdog_step (boot_step dt m)))"
  unfolding obdh_dynamics_def noise_steps
  by (rule watchdog_step_control, simp only: noise_steps, rule boot_step_control) (simp add: clock_control)

text \<open>The last reboot's cause is no part of the control; only a reboot changes it.\<close>

lemma cause_kept:
  "ob_last_reboot_cause (om_state (cpu_step rg m)) = ob_last_reboot_cause (om_state m)"
  "ob_last_reboot_cause (om_state (seu_step rg dt m)) = ob_last_reboot_cause (om_state m)"
  "ob_last_reboot_cause (om_state (scrub_step dt m)) = ob_last_reboot_cause (om_state m)"
  "ob_last_reboot_cause (om_state (task_step rg m)) = ob_last_reboot_cause (om_state m)"
  "ob_last_reboot_cause (om_state (heat_step rg m)) = ob_last_reboot_cause (om_state m)"
  "ob_last_reboot_cause (om_state (buffer_step rg dt p m)) = ob_last_reboot_cause (om_state m)"
  "ob_last_reboot_cause (om_state (boot_step dt m)) = ob_last_reboot_cause (om_state m)"
  by (simp_all add: cpu_step_def seu_step_def scrub_step_def task_step_def heat_step_def
      buffer_step_def drain_step_def boot_step_def draw_def pend_def Let_def split: prod.split)

text \<open>The computer boots: the application is due, its image is sound and the watchdog is quiet.\<close>

definition booting :: "obdh_state \<Rightarrow> bool" where
  "booting s \<longleftrightarrow> ob_boot_app_pending s \<and> \<not> ob_boot_image_corrupt s \<and> ob_sw_image s = SW_BOOTLOADER \<and>
     0 \<le> ob_watchdog_timer s \<and> ob_watchdog_timer s < ob_watchdog_period s"

lemma tick_state:
  assumes "trunc_float dt = Inr k"
  shows "om_state (snd (obdh_tick rg dt p m)) = power_gates (om_state (obdh_dynamics rg dt p k m))"
  using assms by (simp add: obdh_tick_def Let_def note_state)

lemma booting_tick:
  fixes rg :: "'r random_source" and p :: params
  assumes k: "trunc_float dt = Inr k" and m: "booting (om_state m)"
  defines "t \<equiv> fsub (ob_boot_app_timer (om_state m)) dt" and "s' \<equiv> om_state (snd (obdh_tick rg dt p m))"
  shows "\<not> fle t f0 \<Longrightarrow> booting s' \<and> ob_boot_app_timer s' = t"
    and "fle t f0 \<Longrightarrow> ob_sw_image s' = SW_APPLICATION \<and> ob_mode s' = 0 \<and> \<not> ob_boot_app_pending s'"
proof -
  note d = dynamics_control [of rg dt p k m]
  note e = control_eqD [OF d]
  show "booting s' \<and> ob_boot_app_timer s' = t" if "\<not> fle t f0"
    using m that unfolding s'_def tick_state [OF k] booting_def gates_kept e
    by (simp add: t_def boot_step_def watchdog_step_def Let_def obdh_codes)
  show "ob_sw_image s' = SW_APPLICATION \<and> ob_mode s' = 0 \<and> \<not> ob_boot_app_pending s'" if "fle t f0"
    using m that unfolding s'_def tick_state [OF k] booting_def gates_kept e
    by (simp add: t_def boot_step_def watchdog_step_def Let_def obdh_codes)
qed

text \<open>A series of ticks, each with its length and the shared parameters it sees.\<close>

fun obdh_run :: "'r random_source \<Rightarrow> (py_float \<times> params) list \<Rightarrow> 'r obdh \<Rightarrow> 'r obdh" where
  "obdh_run rg [] m = m"
| "obdh_run rg ((dt, p) # ts) m = obdh_run rg ts (snd (obdh_tick rg dt p m))"

definition time_left :: "(py_float \<times> params) list \<Rightarrow> py_float \<Rightarrow> py_float" where
  "time_left ts t = fold (\<lambda>(dt, p) t. fsub t dt) ts t"

lemma obdh_run_snoc: "obdh_run rg (ts @ [(dt, p)]) m = snd (obdh_tick rg dt p (obdh_run rg ts m))"
  by (induction ts arbitrary: m) auto

lemma booting_run:
  assumes "booting (om_state m)"
    and "list_all (\<lambda>(dt, p). isl (trunc_float dt) = False) ts"
    and "\<forall>k\<le>length ts. \<not> fle (time_left (take k ts) (ob_boot_app_timer (om_state m))) f0"
  shows "booting (om_state (obdh_run rg ts m)) \<and>
     ob_boot_app_timer (om_state (obdh_run rg ts m)) = time_left ts (ob_boot_app_timer (om_state m))"
  using assms
proof (induction ts rule: rev_induct)
  case (snoc x ts)
  obtain dt p where x: "x = (dt, p)" by fastforce
  obtain k where k: "trunc_float dt = Inr k" using snoc.prems(2) x by (cases "trunc_float dt") auto
  have pre: "\<forall>k\<le>length ts. \<not> fle (time_left (take k ts) (ob_boot_app_timer (om_state m))) f0"
  proof (intro allI impI)
    fix k assume "k \<le> length ts"
    then show "\<not> fle (time_left (take k ts) (ob_boot_app_timer (om_state m))) f0"
      using snoc.prems(3) [rule_format, of k] by simp
  qed
  have ih: "booting (om_state (obdh_run rg ts m))"
    "ob_boot_app_timer (om_state (obdh_run rg ts m)) = time_left ts (ob_boot_app_timer (om_state m))"
    using snoc.IH [OF snoc.prems(1) _ pre] snoc.prems(2) by auto
  have "\<not> fle (time_left (ts @ [x]) (ob_boot_app_timer (om_state m))) f0"
    using snoc.prems(3) [rule_format, of "length (ts @ [x])"] by simp
  then have "\<not> fle (fsub (ob_boot_app_timer (om_state (obdh_run rg ts m))) dt) f0"
    by (simp add: time_left_def x ih(2))
  from booting_tick(1) [OF k ih(1) this] show ?case
    by (simp add: obdh_run_snoc x time_left_def ih(2))
qed (simp add: time_left_def)

text \<open>
  A boot ends on time. From a state in which the application is due and its image is sound, the
  computer stays in the boot loader, through any number of ticks of any lengths, as long as time is
  left on the boot timer, and the tick that uses it up starts the application in mode 0.
\<close>

theorem boot_ends_on_time:
  assumes "booting (om_state m)"
    and "list_all (\<lambda>(dt, p). isl (trunc_float dt) = False) (ts @ [(dt, p)])"
    and "\<forall>k\<le>length ts. \<not> fle (time_left (take k ts) (ob_boot_app_timer (om_state m))) f0"
  shows "ob_sw_image (om_state (obdh_run rg ts m)) = SW_BOOTLOADER \<and>
     (if fle (time_left (ts @ [(dt, p)]) (ob_boot_app_timer (om_state m))) f0
      then ob_sw_image (om_state (obdh_run rg (ts @ [(dt, p)]) m)) = SW_APPLICATION \<and>
           ob_mode (om_state (obdh_run rg (ts @ [(dt, p)]) m)) = 0
      else booting (om_state (obdh_run rg (ts @ [(dt, p)]) m)))"
proof -
  obtain k where k: "trunc_float dt = Inr k" using assms(2) by (cases "trunc_float dt") auto
  have b: "booting (om_state (obdh_run rg ts m))"
    "ob_boot_app_timer (om_state (obdh_run rg ts m)) = time_left ts (ob_boot_app_timer (om_state m))"
    using booting_run [OF assms(1) _ assms(3)] assms(2) by auto
  have t: "time_left (ts @ [(dt, p)]) (ob_boot_app_timer (om_state m)) =
      fsub (ob_boot_app_timer (om_state (obdh_run rg ts m))) dt"
    by (simp add: time_left_def b(2))
  show ?thesis
    using booting_tick [OF k b(1), of rg p] b(1) unfolding t obdh_run_snoc by (auto simp: booting_def)
qed

text \<open>Whole seconds count down exactly.\<close>

lemma fsub_int:
  assumes "0 \<le> b" "b \<le> a" "a < 2 ^ 53"
  shows "fsub (Fin False (of_int a)) (Fin False (of_int b)) = Fin False (of_int (a - b))"
proof -
  have "fl (of_int (a - b)) = Fin False (of_int (a - b))"
    using of_pyint_exact [of "a - b"] assms by (simp add: of_pyint_def)
  then show ?thesis using assms by (simp add: fin_val_def)
qed

lemma replicate_Suc_snoc: "replicate (Suc k) x = replicate k x @ [x]"
  by (simp add: replicate_append_same)

lemma seconds_left:
  "k \<le> n \<Longrightarrow> n < 2 ^ 53 \<Longrightarrow>
   time_left (replicate k (Fin False 1, Map.empty)) (Fin False (of_int (int n))) = Fin False (of_int (int (n - k)))"
proof (induction k)
  case (Suc k)
  have f: "fsub (Fin False (of_int (int (n - k)))) (Fin False 1) = Fin False (of_int (int (n - Suc k)))"
    using Suc.prems fsub_int [of 1 "int (n - k)"] by (simp add: of_nat_diff del: fsub.simps)
  show ?case
    unfolding replicate_Suc_snoc time_left_def fold_append comp_apply
    using Suc f by (simp add: time_left_def del: fsub.simps)
qed (simp add: time_left_def)

lemma boot_ends_on_time_witness:
  "ob_sw_image (om_state (obdh_run quiet (replicate 9 (Fin False 1, Map.empty) @ [(Fin False 1, Map.empty)])
     (reboot REBOOT_COMMAND (new_obdh ())))) = SW_APPLICATION"
proof -
  let ?m = "reboot REBOOT_COMMAND (new_obdh ())" and ?ts = "replicate 9 (Fin False 1, Map.empty)"
  have m: "booting (om_state ?m)" "ob_boot_app_timer (om_state ?m) = Fin False 10"
    by (simp_all add: booting_def reboot_def reboot_state_def new_obdh_def new_obdh_state_def obdh_codes)
  have left: "time_left (replicate k (Fin False 1, Map.empty)) (Fin False 10) = Fin False (of_nat (10 - k))" if "k \<le> 10" for k
    using that seconds_left [of k 10] by simp
  have prefix: "\<forall>k\<le>length ?ts. \<not> fle (time_left (take k ?ts) (ob_boot_app_timer (om_state ?m))) f0"
    by (auto simp: m(2) left min_def)
  have "list_all (\<lambda>(dt, p). isl (trunc_float dt) = False) (?ts @ [(Fin False 1, Map.empty)])"
    by (simp add: list_all_iff trunc_float_def)
  from boot_ends_on_time [OF m(1) this prefix, of quiet] show ?thesis
    using left [of 10] by (simp add: m(2) replicate_append_same [symmetric] eval_nat_numeral)
qed

section \<open>The steps of the computer\<close>

text \<open>
  Everything that changes the model between two breakpoints: ticks, commands, device switches,
  counters and, when \<open>faults\<close> is set, injected failures and their removal.
\<close>

inductive obdh_step :: "'r random_source \<Rightarrow> bool \<Rightarrow> string set \<Rightarrow> 'r obdh \<Rightarrow> 'r obdh \<Rightarrow> bool"
  for rg :: "'r random_source" and faults :: bool and kept :: "string set" where
  step_tick: "obdh_step rg faults kept m (snd (obdh_tick rg dt p m))"
| step_command: "obdh_step rg faults kept m (snd (obdh_handle c m))"
| step_time: "obdh_step rg faults kept m (snd (obdh_gps_sync p now m))"
| step_device: "obdh_step rg faults kept m (on_obdh (\<lambda>s. snd (set_device_state k on s)) m)"
| step_count: "obdh_step rg faults kept m (on_obdh (obdh_count name) m)"
| step_error_code: "obdh_step rg faults kept m (on_obdh (record_tc_failure_code code) m)"
| step_inject: "faults \<Longrightarrow> obdh_step rg faults kept m (snd (inject_obdh failure c m))"
| step_clear: "faults \<Longrightarrow> failure \<notin> kept \<Longrightarrow> obdh_step rg faults kept m (snd (clear_obdh failure c m))"

inductive_cases obdh_stepE: "obdh_step rg faults kept m m'"

lemma reachable_invariant:
  assumes "(obdh_step rg faults kept)\<^sup>*\<^sup>* m m'" "P m"
    and "\<And>m m'. obdh_step rg faults kept m m' \<Longrightarrow> P m \<Longrightarrow> P m'"
  shows "P m'"
  using assms(1,2) by (induction rule: rtranclp_induct) (auto intro: assms(3))




text \<open>Invariants of the state carried through the commands: the rules follow the shape of the code.\<close>

definition keeps :: "(obdh_state \<Rightarrow> bool) \<Rightarrow> ('a \<times> obdh_state) option \<Rightarrow> bool" where
  "keeps P x \<longleftrightarrow> (\<forall>r s. x = Some (r, s) \<longrightarrow> P s)"

lemma keeps_rules:
  "keeps P x \<Longrightarrow> keeps P y \<Longrightarrow> keeps P (if b then x else y)"
  "P s \<Longrightarrow> keeps P (Some (r, s))" "keeps P None"
  "(\<And>e. v = Inl e \<Longrightarrow> keeps P (Some (f e))) \<Longrightarrow> (\<And>k. v = Inr k \<Longrightarrow> keeps P (Some (g k))) \<Longrightarrow>
   keeps P (Some (case v of Inl e \<Rightarrow> f e | Inr k \<Rightarrow> g k))"
  "keeps P (Some u) \<Longrightarrow> keeps P (Some w) \<Longrightarrow> keeps P (Some (if b then u else w))"
  by (auto simp: keeps_def split: sum.split)

lemma keeps_state_command:
  assumes "P s" "\<And>k. P (s\<lparr>ob_mode := k\<rparr>)" "\<And>k. P (s\<lparr>ob_obc_time := k\<rparr>)"
    "P (s\<lparr>ob_scrub_active := True, ob_scrub_progress := f0\<rparr>)" "\<And>k. P (s\<lparr>ob_active_bus := k\<rparr>)"
    "P (s\<lparr>ob_boot_app_pending := True, ob_boot_app_timer := Fin False 10\<rparr>)" "\<And>b. P (s\<lparr>ob_boot_inhibit := b\<rparr>)"
    "P (s\<lparr>ob_boot_count_a := 0, ob_boot_count_b := 0, ob_reboot_count := 0\<rparr>)"
    "\<And>k. 1 \<le> k \<Longrightarrow> P (s\<lparr>ob_watchdog_period := k\<rparr>)" "\<And>b. P (s\<lparr>ob_watchdog_armed := b\<rparr>)"
  shows "keeps P (state_command name c s)"
  unfolding state_command_def by (intro keeps_rules assms max.cobounded1)

lemma keepsD: "keeps P x \<Longrightarrow> x = Some (r, s) \<Longrightarrow> P s"
  by (simp add: keeps_def)

lemma handle_keeps:
  assumes "P (om_state m)" "P (reboot_state REBOOT_COMMAND (om_state m))" "P (om_state (switchover m))"
    "\<And>name. keeps P (state_command name c (om_state m))"
  shows "P (om_state (snd (obdh_handle c m)))"
  unfolding obdh_handle_def Let_def using assms
  by (auto simp: reboot_def split: option.split dest: keepsD)

lemma gps_keeps:
  assumes "P (om_state m)" "\<And>k. P ((om_state m)\<lparr>ob_obc_time := k\<rparr>)"
  shows "P (om_state (snd (obdh_gps_sync p now m)))"
  unfolding obdh_gps_sync_def gps_time_sync_def Let_def using assms by simp

text \<open>The parts of a state that counters and device switches leave alone.\<close>

lemma bookkeeping:
  "control (snd (set_device_state k on s)) = control s" "control (obdh_count name s) = control s"
  "control (record_tc_failure_code code s) = control s"
  "ob_last_reboot_cause (snd (set_device_state k on s)) = ob_last_reboot_cause s"
  "ob_last_reboot_cause (obdh_count name s) = ob_last_reboot_cause s"
  "ob_last_reboot_cause (record_tc_failure_code code s) = ob_last_reboot_cause s"
  by (simp_all add: control_def set_device_state_def obdh_count_def record_tc_received_def record_tc_accepted_def
      record_tc_rejected_def record_tm_packet_def record_tc_failure_code_def split: option.split)








text \<open>Without injected failures the watchdog timer never runs.\<close>

definition watchdog_quiet :: "obdh_state \<Rightarrow> bool" where
  "watchdog_quiet s \<longleftrightarrow> ob_watchdog_timer s = 0 \<and> 1 \<le> ob_watchdog_period s \<and>
     ob_last_reboot_cause s \<noteq> REBOOT_WATCHDOG"

lemma watchdog_quiet_control:
  "control s = control t \<Longrightarrow> ob_last_reboot_cause s = ob_last_reboot_cause t \<Longrightarrow> watchdog_quiet s = watchdog_quiet t"
  by (simp add: control_def watchdog_quiet_def)

lemma watchdog_quiet_tick: "watchdog_quiet (om_state m) \<Longrightarrow> watchdog_quiet (om_state (snd (obdh_tick rg dt p m)))"
proof (cases "trunc_float dt")
  case (Inr k)
  assume g: "watchdog_quiet (om_state m)"
  define b where "b = boot_step dt (on_obdh (\<lambda>s. read_temperature p (advance_clock k s)) m)"
  have b: "watchdog_quiet (om_state b)"
    using g unfolding b_def watchdog_quiet_def cause_kept
    by (simp add: boot_step_def pend_def Let_def read_temperature_def advance_clock_def split: option.split)
  have "watchdog_quiet (om_state (watchdog_step (cpu_step rg b)))"
  proof -
    have "watchdog_quiet (om_state (cpu_step rg b))"
      using b watchdog_quiet_control [OF noise_steps(1) cause_kept(1)] by blast
    then show ?thesis by (auto simp: watchdog_quiet_def watchdog_step_def Let_def)
  qed
  then have "watchdog_quiet (om_state (obdh_dynamics rg dt p k m))"
    using watchdog_quiet_control [of "om_state (obdh_dynamics rg dt p k m)" "om_state (watchdog_step (cpu_step rg b))"]
    unfolding obdh_dynamics_def b_def by (simp add: noise_steps cause_kept)
  then show ?thesis by (simp add: tick_state [OF Inr] watchdog_quiet_def gates_kept power_gates_def)
qed (simp add: obdh_tick_def)

lemma watchdog_quiet_step:
  assumes "obdh_step rg False kept m m'" "watchdog_quiet (om_state m)"
  shows "watchdog_quiet (om_state m')"
  using assms(1)
proof (cases rule: obdh_step.cases)
  case step_tick
  then show ?thesis using assms(2) watchdog_quiet_tick by blast
next
  case (step_command c)
  have "keeps watchdog_quiet (state_command name c (om_state m))" for name
    using assms(2) by (intro keeps_state_command [where P = watchdog_quiet]) (simp_all add: watchdog_quiet_def)
  then show ?thesis unfolding step_command using assms(2)
    by (intro handle_keeps [where P = watchdog_quiet])
      (simp_all add: watchdog_quiet_def reboot_state_def switchover_def reboot_def obdh_codes)
next
  case step_time
  then show ?thesis using assms(2)
    by (simp only:) (rule gps_keeps [where P = watchdog_quiet], simp_all add: watchdog_quiet_def)
qed (use assms(2) in \<open>simp_all add: watchdog_quiet_control [OF bookkeeping(1) bookkeeping(4)]
    watchdog_quiet_control [OF bookkeeping(2) bookkeeping(5)] watchdog_quiet_control [OF bookkeeping(3) bookkeeping(6)]\<close>)

text \<open>
  Healthy software is never reset by its watchdog. From the configured model with a period of at
  least one second, no sequence of ticks of any length, commands (also those that set the period or
  switch the watchdog), time synchronisations and device switches leads to a reboot whose cause is the
  watchdog; the watchdog timer is zero whenever a tick or a command ends.
\<close>

theorem watchdog_resets_only_on_failures:
  assumes "(obdh_step rg False kept)\<^sup>*\<^sup>* (obdh_configure c now (new_obdh r)) m"
    and "1 \<le> or_else (oc_watchdog c) 30"
  shows "ob_last_reboot_cause (om_state m) \<noteq> REBOOT_WATCHDOG \<and> ob_watchdog_timer (om_state m) = 0"
proof -
  have "watchdog_quiet (om_state (obdh_configure c now (new_obdh r)))"
    using assms(2) by (simp add: watchdog_quiet_def obdh_configure_def new_obdh_def new_obdh_state_def obdh_codes)
  with assms(1) have "watchdog_quiet (om_state m)"
    by (rule reachable_invariant) (rule watchdog_quiet_step)
  then show ?thesis by (simp add: watchdog_quiet_def)
qed

definition default_obdh_config :: obdh_config where
  "default_obdh_config = \<lparr>oc_watchdog = None, oc_cpu_base = None, oc_hktm = None, oc_event = None, oc_alarm = None,
     oc_bus_a = None, oc_bus_b = None, oc_param_ids = None\<rparr>"

lemma watchdog_resets_only_on_failures_witness:
  "ob_watchdog_timer (om_state (snd (obdh_tick quiet (Fin False 60) Map.empty
     (obdh_configure default_obdh_config 0 (new_obdh ()))))) = 0"
proof -
  let ?m = "obdh_configure default_obdh_config 0 (new_obdh ())"
  have "(obdh_step quiet False {})\<^sup>*\<^sup>* ?m (snd (obdh_tick quiet (Fin False 60) Map.empty ?m))"
    by (rule r_into_rtranclp) (rule step_tick)
  from watchdog_resets_only_on_failures [OF this] show ?thesis
    by (simp add: default_obdh_config_def or_else_def)
qed

text \<open>
  In the same tick the reboot's own event replaces the watchdog's as the pending event, so the
  timeout is never announced.
\<close>

lemma watchdog_event_is_lost:
  "ob_reboot_count (om_state m) \<noteq> om_prev_reboots m \<Longrightarrow> om_event (note_transitions m) \<noteq> Some (0x0303, ''WATCHDOG_TIMEOUT'')"
  by (auto simp: note_transitions_def transitions_def Let_def)

text \<open>A tick shorter than a second does not move the clocks.\<close>

lemma short_ticks_stop_the_clock:
  assumes "0 \<le> x" "x < 1"
  shows "\<exists>k. trunc_float (Fin False x) = Inr k \<and> advance_clock k s = s"
proof -
  have "\<lfloor>x\<rfloor> = 0" using assms by (simp add: floor_eq_iff)
  then show ?thesis by (simp add: trunc_float_def advance_clock_def)
qed

end
