(* ===== verification/Eps_Model.thy ===== *)
theory Eps_Model
  imports Model_Basics
begin

text \<open>
  The electrical power subsystem (\<open>smo_simulator/models/eps_basic.py\<close>): body panels and deployable wings
  on a drive, the switchable power lines with their overcurrent protection, the battery, the shedding of
  loads and the events. Voltages, powers and currents are binary64 floats; the random source and the
  platform's trigonometry are parameters. The dictionaries of a fixed set of names are functions.
\<close>

section \<open>Power lines\<close>

definition POWER_LINE_NAMES :: "string list" where
  "POWER_LINE_NAMES = [''obc'', ''ttc_rx'', ''ttc_tx'', ''payload'', ''fpa_cooler'', ''htr_bat'', ''htr_obc'', ''aocs_wheels'', ''prop'']"

definition switchable :: "string \<Rightarrow> bool" where
  "switchable name \<longleftrightarrow> name \<in> set POWER_LINE_NAMES \<and> name \<noteq> ''obc'' \<and> name \<noteq> ''ttc_rx''"

definition POWER_LINE_DEFAULTS :: "string \<rightharpoonup> bool" where
  "POWER_LINE_DEFAULTS = map_of (map (\<lambda>n. (n, \<not> switchable n)) POWER_LINE_NAMES)"

definition OC_THRESHOLDS :: "string \<rightharpoonup> py_float" where
  "OC_THRESHOLDS = map_of [(''obc'', Fin False 2), (''ttc_rx'', fl (3 / 10)), (''ttc_tx'', Fin False 1), (''payload'', Fin False (5 / 2)),
     (''fpa_cooler'', Fin False 1), (''htr_bat'', Fin False (1 / 2)), (''htr_obc'', fl (3 / 10)), (''aocs_wheels'', fl (8 / 10)),
     (''prop'', fl (8 / 10))]"

definition LOAD_SHED_ORDER :: "string list" where
  "LOAD_SHED_ORDER = [''payload'', ''fpa_cooler'', ''ttc_tx'', ''aocs_wheels'', ''prop'']"

section \<open>Configuration and state\<close>

text \<open>The faces of the body with their normals, in the order of the code.\<close>

definition PANEL_NORMALS :: "(string \<times> int \<times> int \<times> int) list" where
  "PANEL_NORMALS = [(''px'', 1, 0, 0), (''mx'', - 1, 0, 0), (''py'', 0, 1, 0), (''my'', 0, - 1, 0), (''pz'', 0, 0, 1), (''mz'', 0, 0, - 1)]"

abbreviation "FACES \<equiv> map fst PANEL_NORMALS"

record array_losses =
  al_temp_coeff :: py_float
  al_temp_sunlit :: py_float
  al_temp_ref :: py_float
  al_inherent :: py_float
  al_harness :: py_float

record eps_thresholds =
  et_soc_low :: py_float
  et_soc_critical :: py_float
  et_soc_full :: py_float
  et_bus_warning :: py_float
  et_bus_critical :: py_float
  et_overtemp :: py_float
  et_undertemp :: py_float
  et_degraded :: py_float

record eps_config =
  ec_capacity :: py_float
  ec_obc_w :: py_float
  ec_payload_w :: py_float
  ec_standby_w :: py_float
  ec_cooler_w :: py_float
  ec_tx_w :: py_float
  ec_tx_hi_w :: py_float
  ec_rx_w :: py_float
  ec_soc_100_v :: py_float
  ec_soc_0_v :: py_float
  ec_resistance :: py_float
  ec_charge_eff :: py_float
  ec_discharge_eff :: py_float
  ec_taper_start :: "py_float option"
  ec_cell_eff :: py_float
  ec_losses :: "array_losses option"
  ec_sada_present :: bool
  ec_sada_tracking :: bool
  ec_sada_axis :: string
  ec_heater_duty :: bool
  ec_auto_restore :: bool
  ec_temp_tau :: py_float
  ec_uv :: py_float
  ec_body_areas :: "string \<Rightarrow> py_float"
  ec_wing_py_area :: py_float
  ec_wing_my_area :: py_float
  ec_deploy_time :: py_float
  ec_line_power :: "string \<rightharpoonup> py_float"
  ec_shed_order :: "string list"
  ec_shed_voltage :: py_float
  ec_hysteresis :: py_float
  ec_oc_thresholds :: "string \<rightharpoonup> py_float"
  ec_events :: eps_thresholds
  ec_param_ids :: "string \<rightharpoonup> int"

definition default_eps_config :: eps_config where
  "default_eps_config = \<lparr>ec_capacity = Fin False 120, ec_obc_w = Fin False 15, ec_payload_w = Fin False 45, ec_standby_w = Fin False 8,
     ec_cooler_w = Fin False 15, ec_tx_w = Fin False 20, ec_tx_hi_w = Fin False 20, ec_rx_w = Fin False 5,
     ec_soc_100_v = fl (292 / 10), ec_soc_0_v = Fin False (43 / 2), ec_resistance = fl (5 / 100), ec_charge_eff = Fin False 1,
     ec_discharge_eff = Fin False 1, ec_taper_start = None, ec_cell_eff = fl (295 / 1000), ec_losses = None,
     ec_sada_present = False, ec_sada_tracking = False, ec_sada_axis = ''z'', ec_heater_duty = False, ec_auto_restore = False,
     ec_temp_tau = Fin False 600, ec_uv = Fin False (53 / 2),
     ec_body_areas = (\<lambda>f. if f = ''py'' \<or> f = ''my'' then fl (3 / 100) else fl (6 / 100)),
     ec_wing_py_area = fl (24 / 100), ec_wing_my_area = fl (24 / 100), ec_deploy_time = Fin False 30,
     ec_line_power = [''htr_bat'' \<mapsto> Fin False 6, ''htr_obc'' \<mapsto> Fin False 4, ''aocs_wheels'' \<mapsto> Fin False 6],
     ec_shed_order = LOAD_SHED_ORDER, ec_shed_voltage = Fin False (53 / 2), ec_hysteresis = Fin False (1 / 2),
     ec_oc_thresholds = OC_THRESHOLDS,
     ec_events = \<lparr>et_soc_low = Fin False 20, et_soc_critical = Fin False 10, et_soc_full = Fin False 99, et_bus_warning = Fin False 27,
       et_bus_critical = Fin False 25, et_overtemp = Fin False 45, et_undertemp = Fin True 5, et_degraded = fl (7 / 10)\<rparr>,
     ec_param_ids = Map.empty\<rparr>"

text \<open>The state, with the fields of the array, of the event edges and of the switches in records of their own.\<close>

record array_state =
  as_a_current :: py_float
  as_b_current :: py_float
  as_a_voltage :: py_float
  as_b_voltage :: py_float
  as_a_enabled :: bool
  as_b_enabled :: bool
  as_a_degradation :: py_float
  as_b_degradation :: py_float
  as_panel_currents :: "string \<Rightarrow> py_float"
  as_wing_currents :: "string \<Rightarrow> py_float"
  as_panel_degradation :: "string \<Rightarrow> py_float"
  as_py_deployed :: bool
  as_my_deployed :: bool
  as_py_deploying :: bool
  as_my_deploying :: bool
  as_deploy_timer :: py_float
  as_mppt :: py_float
  as_lifetime_hours :: py_float
  as_age_factor :: py_float
  as_drive_angle :: py_float

record eps_edges =
  ee_mode :: int
  ee_soc :: py_float
  ee_bus_voltage :: py_float
  ee_eclipse :: bool
  ee_trips :: int
  ee_line_mask :: int
  ee_shed_stage :: int
  ee_overtemp :: bool
  ee_undertemp :: bool
  ee_degraded :: bool

record eps_state =
  es_soc :: py_float
  es_bat_voltage :: py_float
  es_bat_current :: py_float
  es_bat_temp :: py_float
  es_bus_voltage :: py_float
  es_power_gen :: py_float
  es_power_cons :: py_float
  es_in_eclipse :: bool
  es_payload_mode :: int
  es_cooler_on :: bool
  es_transponder_tx :: bool
  es_cell_failure :: bool
  es_bus_short :: bool
  es_lines :: "string \<rightharpoonup> bool"
  es_currents :: "string \<Rightarrow> py_float"
  es_trips :: int
  es_uv :: bool
  es_ov :: bool
  es_oc_inject :: "(string \<times> py_float) list"
  es_sep_active :: bool
  es_sep_remaining :: py_float
  es_pdm :: int
  es_dod :: py_float
  es_cycles :: int
  es_was_charging :: bool
  es_shed_stage :: int
  es_shed_lines :: "string list"
  es_rate_override :: py_float
  es_charge_current :: py_float
  es_heater_on :: bool
  es_heater_setpoint :: py_float
  es_mode :: int
  es_devices :: "(int \<times> bool) list"
  es_array :: array_state
  es_edges :: eps_edges

definition new_eps_state :: eps_state where
  "new_eps_state = \<lparr>es_soc = Fin False 75, es_bat_voltage = fl (264 / 10), es_bat_current = f0, es_bat_temp = Fin False 15,
     es_bus_voltage = fl (282 / 10), es_power_gen = Fin False 252, es_power_cons = Fin False 120, es_in_eclipse = False,
     es_payload_mode = 0, es_cooler_on = False, es_transponder_tx = True, es_cell_failure = False, es_bus_short = False,
     es_lines = POWER_LINE_DEFAULTS, es_currents = (\<lambda>_. f0), es_trips = 0, es_uv = False, es_ov = False, es_oc_inject = [],
     es_sep_active = False, es_sep_remaining = f0, es_pdm = 3, es_dod = Fin False 25, es_cycles = 0, es_was_charging = False,
     es_shed_stage = 0, es_shed_lines = [], es_rate_override = f0, es_charge_current = f0, es_heater_on = True,
     es_heater_setpoint = Fin False 10, es_mode = 0,
     es_devices = [(0x0100, True), (0x0101, True), (0x0102, True), (0x0103, True), (0x0104, True), (0x010F, True)],
     es_array = \<lparr>as_a_current = Fin False (9 / 2), as_b_current = Fin False (9 / 2), as_a_voltage = fl (282 / 10),
       as_b_voltage = fl (282 / 10), as_a_enabled = True, as_b_enabled = True, as_a_degradation = Fin False 1,
       as_b_degradation = Fin False 1, as_panel_currents = (\<lambda>_. f0), as_wing_currents = (\<lambda>_. f0),
       as_panel_degradation = (\<lambda>_. Fin False 1), as_py_deployed = False, as_my_deployed = False, as_py_deploying = False,
       as_my_deploying = False, as_deploy_timer = f0, as_mppt = fl (97 / 100), as_lifetime_hours = f0,
       as_age_factor = Fin False 1, as_drive_angle = f0\<rparr>,
     es_edges = \<lparr>ee_mode = 0, ee_soc = Fin False 75, ee_bus_voltage = fl (282 / 10), ee_eclipse = False, ee_trips = 0,
       ee_line_mask = - 1, ee_shed_stage = 0, ee_overtemp = False, ee_undertemp = False, ee_degraded = False\<rparr>\<rparr>"

text \<open>The model: its state, its random source, and the attributes that injected failures and couplings change.\<close>

record 'r eps =
  ep_state :: eps_state
  ep_rng :: 'r
  ep_ov :: py_float
  ep_env :: py_float
  ep_areas :: "string \<Rightarrow> py_float"

definition new_eps :: "eps_config \<Rightarrow> 'r \<Rightarrow> 'r eps" where
  "new_eps c r = \<lparr>ep_state = new_eps_state, ep_rng = r, ep_ov = Fin False (59 / 2), ep_env = Fin False 15, ep_areas = ec_body_areas c\<rparr>"

abbreviation on_eps :: "(eps_state \<Rightarrow> eps_state) \<Rightarrow> ('r eps, unit) py" where
  "on_eps f \<equiv> modify (\<lambda>m. m\<lparr>ep_state := f (ep_state m)\<rparr>)"

abbreviation on_array :: "(array_state \<Rightarrow> array_state) \<Rightarrow> ('r eps, unit) py" where
  "on_array f \<equiv> on_eps (\<lambda>s. s\<lparr>es_array := f (es_array s)\<rparr>)"

abbreviation on_edges :: "(eps_edges \<Rightarrow> eps_edges) \<Rightarrow> ('r eps, unit) py" where
  "on_edges f \<equiv> on_eps (\<lambda>s. s\<lparr>es_edges := f (es_edges s)\<rparr>)"

definition gauss :: "'r random_source \<Rightarrow> py_float \<Rightarrow> ('r eps, py_float) py" where
  "gauss rg sigma m = (case rg_gauss rg sigma (ep_rng m) of (x, r) \<Rightarrow> (Inr x, m\<lparr>ep_rng := r\<rparr>))"

definition eps_device_on :: "int \<Rightarrow> eps_state \<Rightarrow> bool" where
  "eps_device_on k s \<longleftrightarrow> map_of (es_devices s) k \<noteq> Some False"

definition line_on :: "bool \<Rightarrow> string \<Rightarrow> eps_state \<Rightarrow> bool" where
  "line_on d name s = or_else (es_lines s name) d"

text \<open>What switching a line off does besides.\<close>

definition line_lost :: "string \<Rightarrow> eps_state \<Rightarrow> eps_state" where
  "line_lost name s =
     (if name = ''payload'' then s\<lparr>es_payload_mode := 0\<rparr>
      else if name = ''fpa_cooler'' then s\<lparr>es_cooler_on := False\<rparr>
      else if name = ''ttc_tx'' then s\<lparr>es_transponder_tx := False\<rparr>
      else s)"

definition set_line :: "string \<Rightarrow> bool \<Rightarrow> eps_state \<Rightarrow> eps_state" where
  "set_line name on s = s\<lparr>es_lines := (es_lines s)(name \<mapsto> on)\<rparr>"

end
