(* ===== verification/Eps_Tick.thy ===== *)
theory Eps_Tick
  imports Eps_Model
begin

text \<open>
  One tick of the electrical power subsystem (\<open>EPSBasicModel.tick\<close>), in the order of the code: wings,
  generation, consumption with the overcurrent protection, battery, load shedding, events, published
  parameters. An exception leaves the changes made before it.
\<close>

type_synonym eps_event = "int \<times> string"

definition when_event :: "bool \<Rightarrow> int \<Rightarrow> string \<Rightarrow> eps_event list" where
  "when_event b k text = (if b then [(k, text)] else [])"

section \<open>Wings\<close>

definition eclipse_step :: "bool \<Rightarrow> ('r eps, eps_event list) py" where
  "eclipse_step dark =
     seq_py (on_eps (\<lambda>s. s\<lparr>es_in_eclipse := dark\<rparr>))
       (gets (\<lambda>m. let s = ep_state m; was = ee_eclipse (es_edges s) in
          when_event (dark \<and> \<not> was) 0x010C (''Eclipse entry: SoC='' @ fmt_fixed 1 (es_soc s) @ ''%'') @
          when_event (\<not> dark \<and> was) 0x010D ''Eclipse exit: resuming solar generation''))"

definition wing_area :: "eps_config \<Rightarrow> string \<Rightarrow> py_float" where
  "wing_area c face = fadd (ec_body_areas c face) (if face = ''py'' then ec_wing_py_area c else ec_wing_my_area c)"

definition set_area :: "eps_config \<Rightarrow> string \<Rightarrow> 'r eps \<Rightarrow> 'r eps" where
  "set_area c face m = m\<lparr>ep_areas := (ep_areas m)(face := wing_area c face)\<rparr>"

definition finish_wings :: "eps_config \<Rightarrow> 'r eps \<Rightarrow> eps_event list \<times> 'r eps" where
  "finish_wings c m =
     (let a = es_array (ep_state m); py = as_py_deploying a; my = as_my_deploying a;
          ev = (\<lambda>face k sign. (k, sign @ ''Y solar wing deployed: area now '' @ fmt_fixed 3 (wing_area c face) @ '' m2''));
          m1 = (if py then set_area c ''py'' m else m); m2 = (if my then set_area c ''my'' m1 else m1)
      in ((if py then [ev ''py'' 0x0112 ''+''] else []) @ (if my then [ev ''my'' 0x0113 ''-''] else []),
          m2\<lparr>ep_state := (ep_state m2)\<lparr>es_array := a
            \<lparr>as_deploy_timer := f0, as_py_deployed := as_py_deployed a \<or> py, as_my_deployed := as_my_deployed a \<or> my,
             as_py_deploying := False, as_my_deploying := False\<rparr>\<rparr>\<rparr>))"

definition wings_step :: "eps_config \<Rightarrow> py_float \<Rightarrow> ('r eps, eps_event list) py" where
  "wings_step c dt m =
     (let a = es_array (ep_state m); t = fsub (as_deploy_timer a) dt;
          m1 = m\<lparr>ep_state := (ep_state m)\<lparr>es_array := a\<lparr>as_deploy_timer := t\<rparr>\<rparr>\<rparr>;
          (evs, m2) = (if \<not> as_py_deploying a \<and> \<not> as_my_deploying a then ([], m)
             else if fle t f0 then finish_wings c m1 else ([], m1));
          b = es_array (ep_state m2);
          m3 = (if as_py_deployed b \<and> \<not> as_py_deploying b then set_area c ''py'' m2 else m2)
      in (Inr evs, if as_my_deployed b \<and> \<not> as_my_deploying b then set_area c ''my'' m3 else m3))"

definition age_step :: "py_float \<Rightarrow> ('r eps, unit) py" where
  "age_step dt = seq_py
     (on_eps (\<lambda>s. if es_in_eclipse s then s else s\<lparr>es_array := (es_array s)
        \<lparr>as_lifetime_hours := fadd (as_lifetime_hours (es_array s)) (fquot dt (Fin False 3600))\<rparr>\<rparr>))
     (on_array (\<lambda>a. a\<lparr>as_age_factor := fmax (Fin False (1 / 2))
        (fsub (Fin False 1) (fmul (as_lifetime_hours a) (fl (314 / 100000000))))\<rparr>))"

section \<open>Generation\<close>

definition css_vector :: "params \<Rightarrow> py_float \<times> py_float \<times> py_float" where
  "css_vector p = (shared p 0x0245 f0, shared p 0x0246 f0, shared p 0x0247 f0)"

text \<open>The true sun vector when it is published and not zero; one with a missing component cannot be squared.\<close>

definition sun_vector :: "params \<Rightarrow> (py_float \<times> py_float \<times> py_float) result" where
  "sun_vector p =
     (case p 0x02B3 of None \<Rightarrow> Inr (css_vector p)
      | Some x \<Rightarrow> (case (p 0x02B4, p 0x02B5) of
          (Some y, Some z) \<Rightarrow> Inr (if fbool x \<or> fbool y \<or> fbool z then (x, y, z) else css_vector p)
        | _ \<Rightarrow> Inl TypeError))"

definition sun_magnitude :: "libm \<Rightarrow> py_float \<times> py_float \<times> py_float \<Rightarrow> py_float result" where
  "sun_magnitude lm v = (case v of (x, y, z) \<Rightarrow>
     bind_result (fsquare x) (\<lambda>xx. bind_result (fsquare y) (\<lambda>yy. bind_result (fsquare z) (\<lambda>zz.
       lm_pow lm (fadd (fadd xx yy) zz) (Fin False (1 / 2))))))"

definition loss_factor :: "eps_config \<Rightarrow> py_float" where
  "loss_factor c = (case ec_losses c of None \<Rightarrow> Fin False 1
     | Some al \<Rightarrow> fmul (fmul (al_inherent al)
         (fadd (Fin False 1) (fmul (al_temp_coeff al) (fsub (al_temp_sunlit al) (al_temp_ref al))))) (al_harness al))"

definition k_eff :: "eps_config \<Rightarrow> array_state \<Rightarrow> py_float" where
  "k_eff c a = fmul (fmul (fmul (fmul (ec_cell_eff c) (Fin False 1361)) (loss_factor c)) (as_mppt a)) (as_age_factor a)"

definition bus_divisor :: "eps_state \<Rightarrow> py_float" where
  "bus_divisor s = fmax (es_bus_voltage s) (Fin False 20)"

text \<open>The results are the generated and the expected power.\<close>

definition no_generation :: "('r eps, py_float \<times> py_float) py" where
  "no_generation = seq_py (on_array (\<lambda>a. a\<lparr>as_panel_currents := (\<lambda>_. f0), as_a_current := f0, as_b_current := f0\<rparr>)) (ret (f0, f0))"

definition tumbling :: "libm \<Rightarrow> 'r random_source \<Rightarrow> eps_config \<Rightarrow> py_float \<Rightarrow> ('r eps, py_float \<times> py_float) py" where
  "tumbling lm rg c beta =
     bind_py (of_result (lm_cos lm (radians beta))) (\<lambda>cs.
     bind_py (gets (\<lambda>m. fsum (map (ep_areas m) FACES))) (\<lambda>total.
     bind_py (gauss rg (fl (25 / 10000))) (\<lambda>g.
     bind_py (gets (\<lambda>m. m)) (\<lambda>m.
       let s = ep_state m; a = es_array s; cb = fmax f0 (fabs cs); area = fmul total (Fin False (1 / 4));
           gen0 = fmul (fmul (fmul area (k_eff c a)) cb) (fadd (Fin False 1) g);
           expect = fmul (fmul area (k_eff c a)) cb;
           sa = (if as_a_enabled a then fmul (Fin False (1 / 2)) (as_a_degradation a) else f0);
           sb = (if as_b_enabled a then fmul (Fin False (1 / 2)) (as_b_degradation a) else f0);
           share = fadd sa sb;
           gen = fmul gen0 (if fbool share then fquot share (Fin False (1 / 2)) else f0);
           pa = (if fbool share then fmul gen (fquot sa share) else f0);
           pb = fsub gen pa; bus = bus_divisor s
       in seq_py (on_array (\<lambda>a. a\<lparr>as_panel_currents := (\<lambda>f. if fless f0 total then fquot (fquot (fmul gen (ep_areas m f)) total) bus else f0),
            as_a_current := fquot pa bus, as_b_current := fquot pb bus\<rparr>)) (ret (gen, expect))))))"

fun panel_loop :: "'r random_source \<Rightarrow> eps_config \<Rightarrow> py_float \<Rightarrow> py_float \<times> py_float \<times> py_float \<Rightarrow> (string \<times> int \<times> int \<times> int) list
    \<Rightarrow> py_float \<times> py_float \<Rightarrow> ('r eps, py_float \<times> py_float) py" where
  "panel_loop rg c bus n [] acc = ret acc"
| "panel_loop rg c bus (nx, ny, nz) ((face, a, b, d) # faces) (gen, expect) =
     (let illum = fmax f0 (fadd (fadd (fmul (of_pyint a) nx) (fmul (of_pyint b) ny)) (fmul (of_pyint d) nz)) in
      bind_py (gauss rg (fl (5 / 1000))) (\<lambda>g.
      bind_py (gets (\<lambda>m. (k_eff c (es_array (ep_state m)), as_panel_degradation (es_array (ep_state m)) face))) (\<lambda>(k, degr).
        let lit = fmul (fmul (ec_body_areas c face) k) illum; power = fmul (fmul lit degr) (fadd (Fin False 1) g) in
        seq_py (on_array (\<lambda>a. a\<lparr>as_panel_currents := (as_panel_currents a)(face := fquot power bus)\<rparr>))
          (panel_loop rg c bus (nx, ny, nz) faces (fadd gen power, fadd expect lit)))))"

definition drive_axis :: "eps_config \<Rightarrow> py_float \<times> py_float \<times> py_float" where
  "drive_axis c = (if ec_sada_axis c = ''x'' then (Fin False 1, f0, f0)
     else if ec_sada_axis c = ''y'' then (f0, Fin False 1, f0) else (f0, f0, Fin False 1))"

definition dot :: "py_float \<times> py_float \<times> py_float \<Rightarrow> py_float \<times> py_float \<times> py_float \<Rightarrow> py_float" where
  "dot u v = (case (u, v) of ((a, b, d), (x, y, z)) \<Rightarrow> fadd (fadd (fmul a x) (fmul b y)) (fmul d z))"

text \<open>The illumination of the two wings on the drive.\<close>

definition wing_illumination :: "libm \<Rightarrow> eps_config \<Rightarrow> py_float \<times> py_float \<times> py_float \<Rightarrow> ('r eps, py_float \<times> py_float) py" where
  "wing_illumination lm c n = (case n of (nx, ny, nz) \<Rightarrow>
     if ec_sada_present c \<and> ec_sada_tracking c then
       (let d = dot n (drive_axis c) in
        bind_py (of_result (lm_sqrt lm (fmax f0 (fsub (Fin False 1) (fmul d d))))) (\<lambda>i.
          seq_py (when_py (fless (fl (1 / 1000000)) i \<and> ec_sada_axis c = ''z'')
                (on_array (\<lambda>a. a\<lparr>as_drive_angle := degrees (lm_atan2 lm (fneg nx) ny)\<rparr>)))
         (seq_py (when_py (fless (fl (1 / 1000000)) i \<and> ec_sada_axis c = ''y'')
                (on_array (\<lambda>a. a\<lparr>as_drive_angle := degrees (lm_atan2 lm nz nx)\<rparr>)))
            (ret (i, i)))))
     else
       bind_py (gets (\<lambda>m. radians (if ec_sada_present c then as_drive_angle (es_array (ep_state m)) else f0))) (\<lambda>theta.
       bind_py (of_result (lm_sin lm theta)) (\<lambda>sn. bind_py (of_result (lm_cos lm theta)) (\<lambda>cs.
         let d = dot n (fneg sn, cs, f0) in ret (fmax f0 d, fmax f0 (fneg d))))))"

definition wing_power :: "'r random_source \<Rightarrow> eps_config \<Rightarrow> py_float \<Rightarrow> string \<Rightarrow> py_float \<Rightarrow> py_float \<Rightarrow> bool \<Rightarrow> py_float \<times> py_float
    \<Rightarrow> ('r eps, py_float \<times> py_float) py" where
  "wing_power rg c bus face area illum deployed acc =
     (if \<not> deployed then ret acc
      else bind_py (gauss rg (fl (5 / 1000))) (\<lambda>g.
        bind_py (gets (\<lambda>m. (k_eff c (es_array (ep_state m)), as_panel_degradation (es_array (ep_state m)) face))) (\<lambda>(k, degr).
          let lit = fmul (fmul area k) illum; power = fmul (fmul lit degr) (fadd (Fin False 1) g); amps = fquot power bus in
          seq_py (on_array (\<lambda>a. a\<lparr>as_wing_currents := (as_wing_currents a)(face := amps),
              as_panel_currents := (as_panel_currents a)(face := fadd (as_panel_currents a face) amps)\<rparr>))
            (ret (fadd (fst acc) power, fadd (snd acc) lit)))))"

definition sunlit :: "libm \<Rightarrow> 'r random_source \<Rightarrow> eps_config \<Rightarrow> py_float \<times> py_float \<times> py_float \<Rightarrow> py_float \<Rightarrow> ('r eps, py_float \<times> py_float) py" where
  "sunlit lm rg c v mag = (case v of (x, y, z) \<Rightarrow>
     let n = (fquot x mag, fquot y mag, fquot z mag) in
     bind_py (gets (\<lambda>m. bus_divisor (ep_state m))) (\<lambda>bus.
     bind_py (panel_loop rg c bus n PANEL_NORMALS (f0, f0)) (\<lambda>acc.
     bind_py (wing_illumination lm c n) (\<lambda>(ipy, imy).
     bind_py (gets (\<lambda>m. es_array (ep_state m))) (\<lambda>a.
     bind_py (wing_power rg c bus ''py'' (ec_wing_py_area c) ipy (as_py_deployed a) acc) (\<lambda>acc.
     bind_py (wing_power rg c bus ''my'' (ec_wing_my_area c) imy (as_my_deployed a) acc) (\<lambda>acc.
     seq_py (on_array (\<lambda>a. a\<lparr>as_a_current := fsum (map (as_panel_currents a) [''px'', ''py'', ''pz'']),
         as_b_current := fsum (map (as_panel_currents a) [''mx'', ''my'', ''mz''])\<rparr>)) (ret acc))))))))"

definition generation :: "libm \<Rightarrow> 'r random_source \<Rightarrow> eps_config \<Rightarrow> py_float \<Rightarrow> params \<Rightarrow> ('r eps, py_float \<times> py_float) py" where
  "generation lm rg c beta p =
     bind_py (of_result (sun_vector p)) (\<lambda>v.
      bind_py (of_result (sun_magnitude lm v)) (\<lambda>mag.
      seq_py (on_array (\<lambda>a. a\<lparr>as_wing_currents := (\<lambda>_. f0)\<rparr>))
      (bind_py (gets (\<lambda>m. es_in_eclipse (ep_state m))) (\<lambda>dark.
        if dark then no_generation
        else if fless mag (fl (1 / 100)) then tumbling lm rg c beta
        else sunlit lm rg c v mag))))"

text \<open>With the drive switched off nothing is generated; then the voltages of the arrays.\<close>

definition drive_gate :: "py_float \<times> py_float \<Rightarrow> ('r eps, py_float \<times> py_float) py" where
  "drive_gate ge = bind_py (gets (\<lambda>m. eps_device_on 0x0101 (ep_state m))) (\<lambda>on.
     if on then ret ge
     else seq_py (on_array (\<lambda>a. a\<lparr>as_a_current := f0, as_b_current := f0, as_panel_currents := (\<lambda>_. f0), as_wing_currents := (\<lambda>_. f0)\<rparr>))
       (ret (f0, f0)))"

definition array_voltages :: "py_float \<Rightarrow> ('r eps, unit) py" where
  "array_voltages gen = on_eps (\<lambda>s. s\<lparr>es_power_gen := gen, es_array := (es_array s)
     \<lparr>as_a_voltage := (if fless (fl (1 / 100)) (as_a_current (es_array s)) then fl (324 / 10) else f0),
      as_b_voltage := (if fless (fl (1 / 100)) (as_b_current (es_array s)) then fl (324 / 10) else f0)\<rparr>\<rparr>)"

section \<open>Consumption\<close>

definition payload_mode_of :: "params \<Rightarrow> eps_state \<Rightarrow> int result" where
  "payload_mode_of p s = (case p 0x0600 of Some x \<Rightarrow> trunc_float x | None \<Rightarrow> Inr (es_payload_mode s))"

text \<open>The power of every line, by the state of its load; \<open>m\<close> is the mode of the payload.\<close>

definition line_powers :: "eps_config \<Rightarrow> params \<Rightarrow> eps_state \<Rightarrow> int \<Rightarrow> string \<Rightarrow> py_float" where
  "line_powers c p s m name =
     (let rating = (\<lambda>d. or_else (ec_line_power c name) d);
          heater = (\<lambda>k. (if ec_heater_duty c then (case p k of Some x \<Rightarrow> fbool x | None \<Rightarrow> True) else True)) in
      if name = ''obc'' then ec_obc_w c
      else if name = ''ttc_rx'' then ec_rx_w c
      else if name = ''ttc_tx'' then (if line_on True name s
        then (if fless (Fin False 32000) (shared p 0x0506 f0) then ec_tx_hi_w c else ec_tx_w c) else f0)
      else if name = ''payload'' then (if line_on False name s
        then (if m = 1 then ec_standby_w c else if m = 2 then ec_payload_w c else f0) else f0)
      else if name = ''fpa_cooler'' then (if line_on False name s \<and> (case p 0x040C of Some x \<Rightarrow> fbool x | None \<Rightarrow> es_cooler_on s)
        then ec_cooler_w c else f0)
      else if name = ''htr_bat'' then (if line_on True name s \<and> heater 0x040A then rating (Fin False 6) else f0)
      else if name = ''htr_obc'' then (if line_on True name s \<and> heater 0x040B then rating (Fin False 4) else f0)
      else if name = ''aocs_wheels'' then (if line_on True name s then or_else (p 0x02C8) (rating (Fin False 6)) else f0)
      else if name = ''prop'' then (if line_on False name s then or_else (p 0x0B1B) (rating f0) else f0)
      else f0)"

definition with_overload :: "(string \<times> py_float) list \<Rightarrow> (string \<Rightarrow> py_float) \<Rightarrow> string \<Rightarrow> py_float" where
  "with_overload injected w name =
     (if name \<in> set POWER_LINE_NAMES then (case map_of injected name of Some mult \<Rightarrow> fmul (w name) mult | None \<Rightarrow> w name) else w name)"

text \<open>The protection of line \<open>i\<close>: its current, or a trip. The result is the power it draws.\<close>

definition trip :: "nat \<Rightarrow> string \<Rightarrow> eps_state \<Rightarrow> eps_state" where
  "trip i name s = line_lost name (set_line name False s)
     \<lparr>es_trips := es_trips s OR 2 ^ i, es_currents := (es_currents s)(name := f0)\<rparr>"

definition protect :: "eps_config \<Rightarrow> (string \<Rightarrow> py_float) \<Rightarrow> py_float \<Rightarrow> nat \<times> string \<Rightarrow> eps_state \<Rightarrow> py_float \<times> eps_state" where
  "protect c w bus line s = (case line of (i, name) \<Rightarrow>
     let amps = fquot (w name) bus in
     if fless (or_else (ec_oc_thresholds c name) (Fin False 999)) amps \<and> switchable name
     then (f0, trip i name s)
     else (w name, s\<lparr>es_currents := (es_currents s)(name := amps)\<rparr>))"

fun protect_all :: "eps_config \<Rightarrow> (string \<Rightarrow> py_float) \<Rightarrow> py_float \<Rightarrow> (nat \<times> string) list \<Rightarrow> eps_state \<Rightarrow> (string \<times> py_float) list \<times> eps_state" where
  "protect_all c w bus [] s = ([], s)"
| "protect_all c w bus (l # ls) s = (case protect c w bus l s of (x, s) \<Rightarrow>
     case protect_all c w bus ls s of (xs, s) \<Rightarrow> ((snd l, x) # xs, s))"

text \<open>The result is the billed power of every line.\<close>

definition consumption :: "'r random_source \<Rightarrow> eps_config \<Rightarrow> params \<Rightarrow> ('r eps, (string \<times> py_float) list) py" where
  "consumption rg c p =
     bind_py (gets (\<lambda>m. ep_state m)) (\<lambda>s.
     bind_py (of_result (payload_mode_of p s)) (\<lambda>mode.
     case protect_all c (with_overload (es_oc_inject s) (line_powers c p s mode)) (bus_divisor s) (enumerate 0 POWER_LINE_NAMES) s of
       (bill, s') \<Rightarrow>
         seq_py (on_eps (\<lambda>_. s'))
         (bind_py (gauss rg (Fin False 1)) (\<lambda>g.
           let cons = fsum (map snd bill); total = (if es_bus_short s' then fadd cons (Fin False 80) else cons) in
           seq_py (on_eps (\<lambda>s. s\<lparr>es_power_cons := fadd total g\<rparr>)) (ret bill)))))"

section \<open>Battery\<close>

text \<open>The power into the battery: the regulator, the commanded rate and the taper limit the charge.\<close>

definition net_power :: "eps_config \<Rightarrow> py_float \<Rightarrow> eps_state \<Rightarrow> py_float" where
  "net_power c gen s =
     (let n0 = fsub gen (es_power_cons s);
          n1 = (if eps_device_on 0x010F s then n0 else fmin n0 f0);
          n2 = (if fless f0 n1 \<and> fless f0 (es_rate_override s) then fmin n1 (fmul (es_rate_override s) (Fin False 28)) else n1)
      in case ec_taper_start c of
           Some start \<Rightarrow> if fless f0 n2 \<and> fless start (es_soc s)
             then fmul n2 (fmax f0 (fquot (fsub (Fin False 100) (es_soc s)) (fmax (fl (1 / 1000000)) (fsub (Fin False 100) start))))
             else n2
         | None \<Rightarrow> n2)"

definition charge :: "py_float \<Rightarrow> bool \<Rightarrow> eps_state \<Rightarrow> eps_state" where
  "charge d_soc charging s =
     (let soc = fmax f0 (fmin (Fin False 100) (fadd (es_soc s) d_soc)) in s
      \<lparr>es_soc := soc, es_dod := fsub (Fin False 100) soc, es_was_charging := charging,
       es_cycles := (if es_was_charging s \<and> \<not> charging then es_cycles s + 1 else es_cycles s)\<rparr>)"

definition battery_step :: "'r random_source \<Rightarrow> eps_config \<Rightarrow> py_float \<Rightarrow> py_float \<Rightarrow> ('r eps, unit) py" where
  "battery_step rg c dt gen =
     bind_py (gets (\<lambda>m. net_power c gen (ep_state m))) (\<lambda>net.
     let charging = fless f0 net;
         stored = (if charging then fmul net (ec_charge_eff c) else fquot net (fmax (ec_discharge_eff c) (fl (1 / 1000000)))) in
     bind_py (of_result (fdiv stored (fmul (ec_capacity c) (Fin False 3600)))) (\<lambda>rate.
     seq_py (on_eps (charge (fmul (fmul rate (Fin False 100)) dt) charging))
     (bind_py (gets (\<lambda>m. fadd (ec_soc_0_v c) (fmul (fsub (ec_soc_100_v c) (ec_soc_0_v c)) (fquot (es_soc (ep_state m)) (Fin False 100))))) (\<lambda>ocv.
      bind_py (of_result (fdiv net (fadd ocv (fl (1 / 1000000))))) (\<lambda>amps.
      bind_py (gauss rg (fl (1 / 10))) (\<lambda>g1.
      seq_py (on_eps (\<lambda>s. s\<lparr>es_bat_current := fadd amps g1, es_charge_current := (if charging then fmax f0 amps else f0)\<rparr>))
      (bind_py (gets (\<lambda>m. let v = fadd ocv (fmul amps (ec_resistance c)) in
           if es_cell_failure (ep_state m) then fsub v (fl (37 / 10)) else v)) (\<lambda>loaded.
      bind_py (gauss rg (fl (2 / 100))) (\<lambda>g2.
      seq_py (on_eps (\<lambda>s. s\<lparr>es_bat_voltage := fadd (fmax f0 loaded) g2\<rparr>))
      (bind_py (gauss rg (fl (1 / 100))) (\<lambda>g3.
        on_eps (\<lambda>s. s\<lparr>es_bus_voltage := fadd (fmin (Fin False 29) (fmax f0 (es_bat_voltage s))) g3\<rparr>))))))))))))"

definition voltage_flags :: "eps_config \<Rightarrow> ('r eps, unit) py" where
  "voltage_flags c = modify (\<lambda>m. let v = es_bus_voltage (ep_state m) in m\<lparr>ep_state := (ep_state m)
     \<lparr>es_uv := fless v (ec_uv c), es_ov := fless (ep_ov m) v\<rparr>\<rparr>)"

section \<open>Load shedding\<close>

definition shed_one :: "eps_config \<Rightarrow> eps_state \<Rightarrow> eps_state" where
  "shed_one c s = (case List.find (\<lambda>n. line_on False n s) (ec_shed_order c) of
       Some name \<Rightarrow> line_lost name (set_line name False s)\<lparr>es_shed_lines := es_shed_lines s @ [name]\<rparr>
     | None \<Rightarrow> s)"

definition restore_one :: "eps_state \<Rightarrow> eps_state" where
  "restore_one s =
     (let name = last (es_shed_lines s); s1 = s\<lparr>es_shed_lines := butlast (es_shed_lines s)\<rparr> in
      if line_on False name s then s1
      else (set_line name True s1)\<lparr>es_transponder_tx := (name = ''ttc_tx'' \<or> es_transponder_tx s)\<rparr>)"

definition shed_step :: "eps_config \<Rightarrow> eps_state \<Rightarrow> eps_state" where
  "shed_step c s =
     (if fless (es_bus_voltage s) (ec_shed_voltage c) then shed_one c s
      else if ec_auto_restore c \<and> es_shed_lines s \<noteq> [] \<and> fless (fadd (ec_shed_voltage c) (ec_hysteresis c)) (es_bus_voltage s)
      then restore_one s
      else s)"

section \<open>Temperature and events\<close>

definition temperature_step :: "libm \<Rightarrow> 'r random_source \<Rightarrow> eps_config \<Rightarrow> py_float \<Rightarrow> ('r eps, unit) py" where
  "temperature_step lm rg c dt =
     bind_py (gets (\<lambda>m. m)) (\<lambda>m.
     bind_py (of_result (fsquare (fabs (es_bat_current (ep_state m))))) (\<lambda>sq.
     bind_py (of_result (fdiv (fsub (ep_env m) (es_bat_temp (ep_state m))) (ec_temp_tau c))) (\<lambda>cool.
     let delta = fmul (fadd cool (fquot (fmul sq (ec_resistance c)) (Fin False 30))) dt in
     bind_py (gauss rg (fl (5 / 100))) (\<lambda>g.
     bind_py (of_result (lm_sqrt lm dt)) (\<lambda>root.
       on_eps (\<lambda>s. s\<lparr>es_bat_temp := fadd (es_bat_temp s) (fadd delta (fmul g root))\<rparr>))))))"

definition temperature_events :: "eps_config \<Rightarrow> eps_state \<Rightarrow> eps_event list" where
  "temperature_events c s =
     (let t = es_bat_temp s; e = es_edges s in
      when_event (fless (et_overtemp (ec_events c)) t \<and> \<not> ee_overtemp e) 0x0109 (''Battery overtemp: '' @ fmt_fixed 1 t @ ''C'') @
      when_event (fless t (et_undertemp (ec_events c)) \<and> \<not> ee_undertemp e) 0x010A (''Battery undertemp: '' @ fmt_fixed 1 t @ ''C''))"

definition crossed :: "py_float \<Rightarrow> py_float \<Rightarrow> py_float \<Rightarrow> bool" where
  "crossed level was now \<longleftrightarrow> fless now level \<and> fle level was"

definition level_events :: "eps_config \<Rightarrow> eps_state \<Rightarrow> eps_event list" where
  "level_events c s =
     (let et = ec_events c; e = es_edges s; soc = es_soc s; v = es_bus_voltage s; low = fmt_fixed 1 soc @ ''%'' in
      (if crossed (et_soc_critical et) (ee_soc e) soc then [(0x0102, ''Battery critical SoC: '' @ low)]
       else when_event (crossed (et_soc_low et) (ee_soc e) soc) 0x0101 (''Battery low SoC warning: '' @ low)) @
      when_event (fle (et_soc_full et) soc \<and> fless (ee_soc e) (et_soc_full et) \<and> es_was_charging s) 0x010E
        (''Battery charge complete: '' @ low) @
      (if crossed (et_bus_critical et) (ee_bus_voltage e) v then [(0x0104, ''Bus undervoltage critical: '' @ fmt_fixed 2 v @ ''V'')]
       else when_event (crossed (et_bus_warning et) (ee_bus_voltage e) v) 0x0103 (''Bus undervoltage warning: '' @ fmt_fixed 2 v @ ''V'')))"

definition trip_events :: "eps_state \<Rightarrow> eps_event list" where
  "trip_events s = concat (map (\<lambda>(i, name). when_event (bit (es_trips s) i \<and> \<not> bit (ee_trips (es_edges s)) i)
     0x010F (''PDU overcurrent trip: '' @ name)) (enumerate 0 POWER_LINE_NAMES))"

definition shed_stage :: "eps_config \<Rightarrow> eps_state \<Rightarrow> int" where
  "shed_stage c s = (if fless (es_bus_voltage s) (ec_shed_voltage c)
     then min 3 (int (length (filter (\<lambda>n. \<not> line_on False n s) (ec_shed_order c)))) else 0)"

definition stage_events :: "eps_config \<Rightarrow> eps_state \<Rightarrow> eps_event list" where
  "stage_events c s = (let k = shed_stage c s in
     when_event (ee_shed_stage (es_edges s) < k) (0x0106 + k - 1) (''Load shed stage '' @ str_int k))"

text \<open>The array is judged only in sunlight and when enough power is expected.\<close>

definition array_judged :: "py_float \<Rightarrow> eps_state \<Rightarrow> bool" where
  "array_judged expect s \<longleftrightarrow> \<not> es_in_eclipse s \<and> fless (Fin False 50) expect"

definition array_degraded :: "eps_config \<Rightarrow> py_float \<Rightarrow> eps_state \<Rightarrow> bool" where
  "array_degraded c expect s \<longleftrightarrow> array_judged expect s \<and> fless (es_power_gen s) (fmul expect (et_degraded (ec_events c)))"

definition array_events :: "eps_config \<Rightarrow> py_float \<Rightarrow> eps_state \<Rightarrow> eps_event list" where
  "array_events c expect s = when_event (array_degraded c expect s \<and> \<not> ee_degraded (es_edges s)) 0x010B
     (''Solar array degraded: '' @ fmt_fixed 1 (es_power_gen s) @ ''W vs '' @ fmt_fixed 1 expect @ ''W'')"

definition line_mask :: "eps_state \<Rightarrow> int" where
  "line_mask s = (\<Sum>(i, name)\<leftarrow>enumerate 0 POWER_LINE_NAMES. if line_on False name s then 2 ^ i else 0)"

definition line_events :: "eps_state \<Rightarrow> eps_event list" where
  "line_events s = (if ee_line_mask (es_edges s) = - 1 then []
     else concat (map (\<lambda>(i, name). when_event (line_on False name s \<and> \<not> bit (ee_line_mask (es_edges s)) i \<and> switchable name)
       0x0110 (''Power line '' @ name @ '' switched ON'')) (enumerate 0 POWER_LINE_NAMES)))"

text \<open>The stage and the edges as they are after the events; a new mode then sheds its loads.\<close>

definition note_levels :: "eps_config \<Rightarrow> py_float \<Rightarrow> eps_state \<Rightarrow> eps_state" where
  "note_levels c expect s = s
     \<lparr>es_shed_stage := shed_stage c s, es_edges := (es_edges s)
       \<lparr>ee_overtemp := fless (et_overtemp (ec_events c)) (es_bat_temp s), ee_undertemp := fless (es_bat_temp s) (et_undertemp (ec_events c)),
        ee_degraded := (if array_judged expect s then array_degraded c expect s else ee_degraded (es_edges s)),
        ee_line_mask := line_mask s\<rparr>\<rparr>"

definition mode_event :: "eps_state \<Rightarrow> eps_event list" where
  "mode_event s = when_event (es_mode s \<noteq> ee_mode (es_edges s)) 0x0100
     (''EPS mode change: '' @ str_int (ee_mode (es_edges s)) @ '' -> '' @ str_int (es_mode s))"

definition mode_shed :: "eps_config \<Rightarrow> eps_state \<Rightarrow> eps_state" where
  "mode_shed c s =
     (if es_mode s \<noteq> ee_mode (es_edges s) \<and> 1 \<le> es_mode s then
        (let n = (if 2 \<le> es_mode s then length (ec_shed_order c) else 2) in
         (fold (\<lambda>name. set_line name False) (take n (ec_shed_order c)) s)\<lparr>es_shed_stage := max (es_shed_stage s) (int n)\<rparr>)
      else s)"

definition note_edges :: "eps_state \<Rightarrow> eps_state" where
  "note_edges s = s\<lparr>es_edges := (es_edges s)\<lparr>ee_soc := es_soc s, ee_bus_voltage := es_bus_voltage s, ee_eclipse := es_in_eclipse s,
     ee_trips := es_trips s, ee_shed_stage := es_shed_stage s, ee_mode := es_mode s\<rparr>\<rparr>"

definition tick_events :: "eps_config \<Rightarrow> py_float \<Rightarrow> eps_state \<Rightarrow> eps_event list" where
  "tick_events c expect s = temperature_events c s @ level_events c s @ trip_events s @ stage_events c s @
     array_events c expect s @ line_events s @ mode_event s"

section \<open>Published parameters\<close>

definition wing_status :: "array_state \<Rightarrow> int" where
  "wing_status a = of_bool (as_py_deployed a) + 2 * of_bool (as_my_deployed a) + 16 * of_bool (as_py_deploying a) + 32 * of_bool (as_my_deploying a)"

definition eps_params :: "eps_config \<Rightarrow> (string \<times> py_float) list \<Rightarrow> eps_state \<Rightarrow> (int \<times> py_float) list" where
  "eps_params c bill s =
     (let p = (\<lambda>name d. or_else (ec_param_ids c name) d); a = es_array s; i = of_pyint; b = flag_value;
          lp = (\<lambda>name. or_else (map_of bill name) f0) in
      [(p ''bat_voltage'' 0x0100, es_bat_voltage s), (p ''bat_soc'' 0x0101, es_soc s), (p ''bat_temp'' 0x0102, es_bat_temp s),
       (p ''bat_current'' 0x0109, es_bat_current s),
       (p ''bat_capacity_wh'' 0x010A, fmul (ec_capacity c) (fquot (es_soc s) (Fin False 100))),
       (p ''sa_a_current'' 0x0103, as_a_current a), (p ''sa_b_current'' 0x0104, as_b_current a),
       (p ''bus_voltage'' 0x0105, es_bus_voltage s), (p ''power_cons'' 0x0106, es_power_cons s),
       (p ''power_gen'' 0x0107, es_power_gen s), (p ''eclipse_flag'' 0x0108, b (es_in_eclipse s)),
       (0x010B, as_a_voltage a), (0x010C, as_b_voltage a), (0x010D, i (es_trips s)), (0x010E, b (es_uv s)), (0x010F, b (es_ov s))] @
      map (\<lambda>(k, name). (0x0110 + int k, b (line_on False name s))) (enumerate 0 (take 8 POWER_LINE_NAMES)) @
      map (\<lambda>(k, name). (0x0118 + int k, es_currents s name)) (enumerate 0 (take 8 POWER_LINE_NAMES)) @
      [(0x014A, b (line_on False ''prop'' s)), (0x014B, es_currents s ''prop''),
       (0x0120, es_dod s), (0x0121, i (es_cycles s)), (0x0122, as_mppt a), (0x0123, as_age_factor a), (0x0124, as_a_degradation a),
       (0x0125, as_b_degradation a), (0x0126, as_lifetime_hours a), (0x0127, b (es_sep_active s)), (0x0128, es_sep_remaining s),
       (0x012A, i (es_pdm s)), (0x013A, b (es_in_eclipse s))] @
      map (\<lambda>(k, face). (0x012B + int k, as_panel_currents a face)) (enumerate 0 FACES) @
      [(0x0131, i (line_mask s)), (0x0132, es_rate_override s), (0x0143, es_charge_current s), (0x0133, as_drive_angle a),
       (0x0134, i (es_shed_stage s)), (0x0135, fsub (es_power_gen s) (es_power_cons s)), (0x0136, fmax f0 (fsub (Fin False 100) (es_dod s))),
       (0x0137, i (es_mode s)), (0x0138, b (es_heater_on s)), (0x0139, es_heater_setpoint s), (0x010E, b (es_uv s)), (0x010F, b (es_ov s)),
       (0x0144, i (wing_status a)), (0x0145, as_deploy_timer a), (0x013B, fsub (es_power_gen s) (es_power_cons s)), (0x013C, f0),
       (0x013D, lp ''aocs_wheels''), (0x013E, fadd (lp ''htr_bat'') (lp ''htr_obc'')), (0x013F, fadd (lp ''ttc_rx'') (lp ''ttc_tx'')),
       (0x0140, fadd (lp ''payload'') (lp ''fpa_cooler'')), (0x0141, lp ''obc''), (0x0146, as_wing_currents a ''py''),
       (0x0147, as_wing_currents a ''my''), (0x0148, fsum (map (es_currents s) POWER_LINE_NAMES)), (0x0149, b (es_cooler_on s))])"

section \<open>The tick\<close>

text \<open>The environment of a tick: eclipse and the angle of the sun over the orbit's plane.\<close>

record eps_orbit =
  eo_eclipse :: bool
  eo_beta :: py_float

text \<open>Everything up to the bus voltage: the events so far, the expected power of the array and the bill of the lines.\<close>

definition eps_physics :: "libm \<Rightarrow> 'r random_source \<Rightarrow> eps_config \<Rightarrow> py_float \<Rightarrow> eps_orbit \<Rightarrow> params
    \<Rightarrow> ('r eps, eps_event list \<times> py_float \<times> (string \<times> py_float) list) py" where
  "eps_physics lm rg c dt orbit p =
     bind_py (eclipse_step (eo_eclipse orbit)) (\<lambda>ev1.
     bind_py (wings_step c dt) (\<lambda>ev2.
     seq_py (age_step dt)
     (bind_py (generation lm rg c (eo_beta orbit) p) (\<lambda>ge.
      bind_py (drive_gate ge) (\<lambda>(gen, expect).
      seq_py (array_voltages gen)
      (bind_py (consumption rg c p) (\<lambda>bill.
       seq_py (battery_step rg c dt gen)
       (seq_py (voltage_flags c)
         (ret (ev1 @ ev2, expect, bill))))))))))"

definition eps_tick :: "libm \<Rightarrow> 'r random_source \<Rightarrow> eps_config \<Rightarrow> py_float \<Rightarrow> eps_orbit \<Rightarrow> params \<Rightarrow> ('r eps, eps_event list \<times> params) py" where
  "eps_tick lm rg c dt orbit p =
     bind_py (eps_physics lm rg c dt orbit p) (\<lambda>(evs, expect, bill).
     seq_py (on_eps (shed_step c))
     (seq_py (temperature_step lm rg c dt)
     (bind_py (gets (\<lambda>m. tick_events c expect (ep_state m))) (\<lambda>more.
      seq_py (on_eps (\<lambda>s. note_edges (mode_shed c (note_levels c expect s))))
        (gets (\<lambda>m. (evs @ more, write_params (eps_params c bill (ep_state m)) p)))))))"

end
