(* ===== verification/Eps_Commands.thy ===== *)
theory Eps_Commands
  imports Eps_Tick
begin

text \<open>
  The commands, device switches, failures and breakpoints of the electrical power subsystem
  (\<open>handle_command\<close>, \<open>set_device_state\<close>, \<open>inject_failure\<close>, \<open>clear_failure\<close>, \<open>get_state\<close> of
  \<open>smo_simulator/models/eps_basic.py\<close>).
\<close>

section \<open>Power lines\<close>

definition line_at :: "int \<Rightarrow> string option" where
  "line_at k = (if 0 \<le> k \<and> k < int (length POWER_LINE_NAMES) then Some (POWER_LINE_NAMES ! nat k) else None)"

definition indexed_line :: "pyval \<Rightarrow> string option" where
  "indexed_line v = (case as_int v of Some k \<Rightarrow> line_at k | None \<Rightarrow> None)"

definition coded :: "int \<Rightarrow> pytext \<Rightarrow> reply" where
  "coded code text = (refused text)\<lparr>rp_error_code := Some code\<rparr>"

text \<open>The line of a command, by its index or else by its name.\<close>

definition named_line :: "command \<Rightarrow> pyval" where
  "named_line c = (case indexed_line (arg c ''line_index'' (VInt (- 1))) of Some n \<Rightarrow> VStr n | None \<Rightarrow> arg c ''line_name'' (VStr []))"

definition set_power_line :: "command \<Rightarrow> bool \<Rightarrow> eps_state \<Rightarrow> reply \<times> eps_state" where
  "set_power_line c on s =
     (let v = named_line c; unknown = coded 5 (py ''Unknown power line: '' @ val_text v) in
      case v of VStr name \<Rightarrow>
          if name \<notin> set POWER_LINE_NAMES then (unknown, s)
          else if \<not> switchable name then (coded 6 (py (''Power line '' @ name @ '' is not switchable'')), s)
          else (accepted, if \<not> on then line_lost name (set_line name False s)
            else (set_line name True s)\<lparr>es_transponder_tx := (name = ''ttc_tx'' \<or> es_transponder_tx s)\<rparr>)
      | _ \<Rightarrow> (unknown, s))"

definition clear_trip :: "nat \<Rightarrow> eps_state \<Rightarrow> eps_state" where
  "clear_trip i s = s\<lparr>es_trips := es_trips s AND NOT (2 ^ i)\<rparr>"

definition reset_oc_flag :: "command \<Rightarrow> eps_state \<Rightarrow> reply \<times> eps_state" where
  "reset_oc_flag c s = (case as_int (arg c ''line_index'' (VInt (- 1))) of
       Some k \<Rightarrow> (case line_at k of
           Some name \<Rightarrow> if \<not> bit (es_trips s) (nat k) then (refused (py ''Line not tripped''), s)
             else (accepted, (if switchable name then set_line name True else id) (clear_trip (nat k) s))
         | None \<Rightarrow> (refused (py ''Invalid line index''), s))
     | None \<Rightarrow> (refused (py ''Invalid line index''), s))"

definition reset_trip :: "command \<Rightarrow> eps_state \<Rightarrow> reply \<times> eps_state" where
  "reset_trip c s = (case as_int (arg c ''line_index'' (VInt (- 1))) of
       Some k \<Rightarrow> (case line_at k of
           Some name \<Rightarrow> (accepted_with (''Trip reset: '' @ name), set_line name True (clear_trip (nat k) s))
         | None \<Rightarrow> (refused (py ''Invalid line index''), s))
     | None \<Rightarrow> (refused (py ''Invalid line index''), s))"

text \<open>A list index that is not an integer raises, unless the comparison with the limits fails first.\<close>

definition switch_load :: "pyval \<Rightarrow> bool \<Rightarrow> eps_state \<Rightarrow> reply result \<times> eps_state" where
  "switch_load v on s =
     (let invalid = (Inr (coded 5 (py ''Invalid load ID: '' @ val_text v)), s) in
      case as_int v of
        Some k \<Rightarrow> (case line_at k of
            Some name \<Rightarrow> if \<not> switchable name then (Inr (coded 6 (py (''Load '' @ name @ '' is not switchable''))), s)
              else (Inr (accepted_with (''Load '' @ name @ '' switched '' @ (if on then ''ON'' else ''OFF''))), set_line name on s)
          | None \<Rightarrow> invalid)
      | None \<Rightarrow> (case v of VFloat x \<Rightarrow> if fless x f0 \<or> fle (Fin False 9) x then invalid else (Inl TypeError, s) | _ \<Rightarrow> (Inl TypeError, s)))"

definition emergency_load_shed :: "int \<Rightarrow> eps_state \<Rightarrow> reply \<times> eps_state" where
  "emergency_load_shed stage s =
     (if stage < 0 \<or> 3 < stage then (refused (py ''Invalid load shed stage (0-3)''), s)
      else (accepted_with (''Emergency load shed stage '' @ str_int stage),
        (fold (\<lambda>(i, name). set_line name (stage < int i + 1)) (enumerate 0 LOAD_SHED_ORDER) s)\<lparr>es_shed_stage := stage\<rparr>))"

section \<open>Wings\<close>

definition start_wing :: "eps_config \<Rightarrow> bool \<Rightarrow> eps_state \<Rightarrow> reply \<times> eps_state" where
  "start_wing c is_py s =
     (let a = es_array s; sign = (if is_py then ''+'' else ''-'') in
      if (if is_py then as_py_deployed a else as_my_deployed a) then (refused (py (sign @ ''Y wing already deployed'')), s)
      else if (if is_py then as_py_deploying a else as_my_deploying a) then (refused (py (sign @ ''Y wing deployment in progress'')), s)
      else (accepted_with (sign @ ''Y wing deployment initiated ('' @ fmt_fixed 0 (ec_deploy_time c) @ ''s)''),
        s\<lparr>es_array := a\<lparr>as_py_deploying := (is_py \<or> as_py_deploying a), as_my_deploying := (\<not> is_py \<or> as_my_deploying a),
          as_deploy_timer := ec_deploy_time c\<rparr>\<rparr>))"

definition start_both :: "eps_config \<Rightarrow> eps_state \<Rightarrow> reply \<times> eps_state" where
  "start_both c s =
     (let a = es_array s; py_free = (\<not> as_py_deployed a \<and> \<not> as_py_deploying a); my_free = (\<not> as_my_deployed a \<and> \<not> as_my_deploying a) in
      if \<not> py_free \<and> \<not> my_free then (refused (py ''Both wings already deployed''), s)
      else (accepted_with (''Wing deployment initiated: '' @ (if py_free \<and> my_free then ''+Y, -Y'' else if py_free then ''+Y'' else ''-Y'') @
          '' ('' @ fmt_fixed 0 (ec_deploy_time c) @ ''s)''),
        s\<lparr>es_array := a\<lparr>as_py_deploying := (py_free \<or> as_py_deploying a), as_my_deploying := (my_free \<or> as_my_deploying a),
          as_deploy_timer := ec_deploy_time c\<rparr>\<rparr>))"

definition deploy_wing :: "eps_config \<Rightarrow> command \<Rightarrow> eps_state \<Rightarrow> reply result \<times> eps_state" where
  "deploy_wing c cd s = (case arg cd ''wing'' (VStr []) of
       VStr w \<Rightarrow> (let wing = map lower_char w; (r, s') =
           (if wing = ''py'' \<or> wing = ''+y'' then start_wing c True s
            else if wing = ''my'' \<or> wing = ''-y'' then start_wing c False s
            else if wing = ''both'' then start_both c s
            else (refused (py (''Invalid wing: '' @ wing @ '' (use '' @ [CHR 0x27] @ ''py'' @ [CHR 0x27] @ '', '' @ [CHR 0x27] @
                ''my'' @ [CHR 0x27] @ '', or '' @ [CHR 0x27] @ ''both'' @ [CHR 0x27] @ '')'')), s)) in (Inr r, s'))
     | _ \<Rightarrow> (Inl (OtherError ''AttributeError''), s))"

section \<open>Commands\<close>

definition wing_reply :: "array_state \<Rightarrow> reply" where
  "wing_reply a = accepted\<lparr>rp_fields := [''py_deployed'' \<mapsto> VBool (as_py_deployed a), ''my_deployed'' \<mapsto> VBool (as_my_deployed a),
     ''py_deploying'' \<mapsto> VBool (as_py_deploying a), ''my_deploying'' \<mapsto> VBool (as_my_deploying a),
     ''deploy_timer'' \<mapsto> VFloat (as_deploy_timer a)]\<rparr>"

definition power_budget :: "eps_state \<Rightarrow> reply" where
  "power_budget s =
     (let gen = es_power_gen s; margin = fsub gen (es_power_cons s) in
      accepted\<lparr>rp_fields := [''power_gen_w'' \<mapsto> VFloat gen, ''power_cons_w'' \<mapsto> VFloat (es_power_cons s), ''power_margin_w'' \<mapsto> VFloat margin,
        ''power_margin_pct'' \<mapsto> VFloat (fmul (fquot margin (fmax gen (Fin False 1))) (Fin False 100)),
        ''bus_voltage_v'' \<mapsto> VFloat (es_bus_voltage s), ''bat_soc_pct'' \<mapsto> VFloat (es_soc s)]\<rparr>)"

definition array_enable :: "pyval \<Rightarrow> bool \<Rightarrow> array_state \<Rightarrow> array_state" where
  "array_enable v on a = (if v = VStr ''A'' then a\<lparr>as_a_enabled := on\<rparr> else if v = VStr ''B'' then a\<lparr>as_b_enabled := on\<rparr> else a)"

definition with_arg :: "'a result \<Rightarrow> ('a \<Rightarrow> eps_state \<Rightarrow> reply \<times> eps_state) \<Rightarrow> eps_state \<Rightarrow> reply result \<times> eps_state" where
  "with_arg r f s = (case r of Inl e \<Rightarrow> (Inl e, s) | Inr x \<Rightarrow> (case f x s of (y, s') \<Rightarrow> (Inr y, s')))"

definition mode_or_refuse :: "string \<Rightarrow> (int \<Rightarrow> eps_state \<Rightarrow> reply \<times> eps_state) \<Rightarrow> int \<Rightarrow> eps_state \<Rightarrow> reply \<times> eps_state" where
  "mode_or_refuse text f k s = (if k \<in> {0, 1, 2} then f k s else (refused (py text), s))"

definition eps_command :: "eps_config \<Rightarrow> string \<Rightarrow> command \<Rightarrow> eps_state \<Rightarrow> reply result \<times> eps_state" where
  "eps_command cf name c s =
     (let ok = (\<lambda>s. (accepted, s)); always = (\<lambda>r. case r of (x, s) \<Rightarrow> (Inr x, s)) in
      if name = ''set_payload_mode'' then with_arg (arg_int c ''mode'' 0) (mode_or_refuse ''Invalid mode'' (\<lambda>k s. ok (s\<lparr>es_payload_mode := k\<rparr>))) s
      else if name = ''set_fpa_cooler'' then always (ok (let on = arg_bool c ''on'' False in (set_line ''fpa_cooler'' on s)\<lparr>es_cooler_on := on\<rparr>))
      else if name = ''set_transponder_tx'' then always (ok (s\<lparr>es_transponder_tx := arg_bool c ''on'' True\<rparr>))
      else if name = ''disable_array'' then always (ok (s\<lparr>es_array := array_enable (arg c ''array'' (VStr ''A'')) False (es_array s)\<rparr>))
      else if name = ''enable_array'' then always (ok (s\<lparr>es_array := array_enable (arg c ''array'' (VStr ''A'')) True (es_array s)\<rparr>))
      else if name = ''power_line_on'' then always (set_power_line c True s)
      else if name = ''power_line_off'' then always (set_power_line c False s)
      else if name = ''reset_oc_flag'' then always (reset_oc_flag c s)
      else if name = ''switch_load'' then switch_load (arg c ''load_id'' (VInt 0)) (arg_bool c ''state'' False) s
      else if name = ''set_charge_rate'' then with_arg (arg_float c ''rate_a'' f0) (\<lambda>x s.
        (accepted_with (''Charge rate set to '' @ float_repr x @ ''A''), s\<lparr>es_rate_override := x\<rparr>)) s
      else if name = ''set_solar_array_drive'' then with_arg (arg_float c ''angle_deg'' f0) (\<lambda>x s.
        let y = fmax (Fin True 90) (fmin (Fin False 90) x) in
        (accepted_with (''Solar array drive angle set to '' @ float_repr y), s\<lparr>es_array := (es_array s)\<lparr>as_drive_angle := y\<rparr>\<rparr>)) s
      else if name = ''emergency_load_shed'' then with_arg (arg_int c ''stage'' 1) emergency_load_shed s
      else if name = ''bus_isolate'' then with_arg (arg_int c ''bus_id'' 0) (\<lambda>k s.
        (accepted_with (''Bus '' @ str_int k @ '' isolation command acknowledged''), s)) s
      else if name = ''set_battery_heater'' then with_arg (arg_float c ''setpoint_c'' (Fin False 10)) (\<lambda>x s.
        let on = arg_bool c ''on'' True in
        (accepted_with (''Battery heater: '' @ (if on then ''True'' else ''False'') @ '', setpoint '' @ float_repr x @ ''C''),
         s\<lparr>es_heater_on := on, es_heater_setpoint := x\<rparr>)) s
      else if name = ''reset_trip'' then always (reset_trip c s)
      else if name = ''get_power_budget'' then always (power_budget s, s)
      else if name = ''set_eps_mode'' then with_arg (arg_int c ''mode'' 0) (mode_or_refuse ''Invalid EPS mode'' (\<lambda>k s.
        (accepted_with (''EPS mode set to '' @ str_int k), s\<lparr>es_mode := k\<rparr>))) s
      else if name = ''deploy_wing'' then deploy_wing cf c s
      else if name = ''get_wing_status'' then always (wing_reply (es_array s), s)
      else (Inr (refused (py (''Unknown command: '' @ name))), s))"

definition eps_handle :: "eps_config \<Rightarrow> command \<Rightarrow> ('r eps, reply) py" where
  "eps_handle cf c m = (case eps_command cf (command_name c) c (ep_state m) of (r, s) \<Rightarrow> (r, m\<lparr>ep_state := s\<rparr>))"

definition eps_set_device :: "int \<Rightarrow> bool \<Rightarrow> eps_state \<Rightarrow> bool \<times> eps_state" where
  "eps_set_device k on s = (case map_of (es_devices s) k of None \<Rightarrow> (False, s)
     | Some _ \<Rightarrow> (True, s\<lparr>es_devices := AList.update k on (es_devices s)\<rparr>))"

definition eps_get_device :: "int \<Rightarrow> eps_state \<Rightarrow> bool" where
  "eps_get_device k s \<longleftrightarrow> map_of (es_devices s) k = Some True"

definition eps_telemetry :: "eps_config \<Rightarrow> eps_state \<Rightarrow> (int \<times> py_float) list" where
  "eps_telemetry c s = (let p = (\<lambda>name d. or_else (ec_param_ids c name) d) in
     [(p ''bat_voltage'' 0x0100, es_bat_voltage s), (p ''bat_soc'' 0x0101, es_soc s), (p ''bat_temp'' 0x0102, es_bat_temp s),
      (p ''bus_voltage'' 0x0105, es_bus_voltage s), (p ''power_gen'' 0x0107, es_power_gen s), (p ''power_cons'' 0x0106, es_power_cons s)])"

section \<open>Failures\<close>

definition degrade_array :: "pyval \<Rightarrow> py_float \<Rightarrow> array_state \<Rightarrow> array_state" where
  "degrade_array v x a = (if v = VStr ''A'' then a\<lparr>as_a_degradation := x\<rparr> else a\<lparr>as_b_degradation := x\<rparr>)"

definition degrade_face :: "pyval \<Rightarrow> py_float \<Rightarrow> array_state \<Rightarrow> array_state" where
  "degrade_face v x a = (case v of VStr face \<Rightarrow> if face \<in> set FACES
       then a\<lparr>as_panel_degradation := (as_panel_degradation a)(face := x)\<rparr> else a
     | _ \<Rightarrow> a)"

definition all_degraded :: "py_float \<Rightarrow> array_state \<Rightarrow> array_state" where
  "all_degraded x a = a\<lparr>as_a_degradation := x, as_b_degradation := x, as_panel_degradation := (\<lambda>_. x)\<rparr>"

definition inject_eps :: "string \<Rightarrow> py_float \<Rightarrow> command \<Rightarrow> 'r eps \<Rightarrow> 'r eps" where
  "inject_eps failure mag c m =
     (let st = (\<lambda>f. m\<lparr>ep_state := f (ep_state m)\<rparr>); array = (\<lambda>f. st (\<lambda>s. s\<lparr>es_array := f (es_array s)\<rparr>)) in
      if failure = ''solar_array_partial'' then array (degrade_array (arg c ''array'' (VStr ''A''))
        (fmax f0 (fmin (Fin False 1) (fsub (Fin False 1) mag))))
      else if failure = ''bat_cell'' then st (\<lambda>s. s\<lparr>es_cell_failure := fbool mag\<rparr>)
      else if failure = ''bus_short'' then st (\<lambda>s. s\<lparr>es_bus_short := fbool mag\<rparr>)
      else if failure = ''overcurrent'' then (case indexed_line (arg c ''line_index'' (VInt 3)) of
          Some name \<Rightarrow> st (\<lambda>s. s\<lparr>es_oc_inject := AList.update name mag (es_oc_inject s)\<rparr>) | None \<Rightarrow> m)
      else if failure = ''undervoltage'' then st (\<lambda>s. s\<lparr>es_soc := fmax f0 (fsub (es_soc s) (fmul mag (Fin False 10)))\<rparr>)
      else if failure = ''overvoltage'' then m\<lparr>ep_ov := fmax (Fin False 25) (fsub (ep_ov m) mag)\<rparr>
      else if failure = ''solar_panel_loss'' then array (degrade_face (arg c ''face'' (VStr ''px'')) (fmax f0 (fsub (Fin False 1) mag)))
      else if failure = ''solar_array_total_loss'' then array (all_degraded f0)
      else m)"

definition clear_eps :: "string \<Rightarrow> command \<Rightarrow> 'r eps \<Rightarrow> 'r eps" where
  "clear_eps failure c m =
     (let st = (\<lambda>f. m\<lparr>ep_state := f (ep_state m)\<rparr>); array = (\<lambda>f. st (\<lambda>s. s\<lparr>es_array := f (es_array s)\<rparr>)) in
      if failure = ''solar_array_partial'' then array (degrade_array (arg c ''array'' (VStr ''A'')) (Fin False 1))
      else if failure = ''bat_cell'' then st (\<lambda>s. s\<lparr>es_cell_failure := False\<rparr>)
      else if failure = ''bus_short'' then st (\<lambda>s. s\<lparr>es_bus_short := False\<rparr>)
      else if failure = ''overcurrent'' then (case indexed_line (arg c ''line_index'' (VInt 3)) of
          Some name \<Rightarrow> st (\<lambda>s. s\<lparr>es_oc_inject := AList.delete name (es_oc_inject s)\<rparr>) | None \<Rightarrow> m)
      else if failure = ''overvoltage'' then m\<lparr>ep_ov := Fin False (59 / 2)\<rparr>
      else if failure = ''solar_panel_loss'' then array (degrade_face (arg c ''face'' (VStr ''px'')) (Fin False 1))
      else if failure = ''solar_array_total_loss'' then array (all_degraded (Fin False 1))
      else m)"

section \<open>Breakpoints and couplings\<close>

definition eps_get_state :: "'r eps \<Rightarrow> eps_state \<times> 'r" where
  "eps_get_state m = (ep_state m, ep_rng m)"

definition eps_set_state :: "eps_state \<times> 'r option \<Rightarrow> 'r eps \<Rightarrow> 'r eps" where
  "eps_set_state st m = m\<lparr>ep_state := fst st, ep_rng := or_else (snd st) (ep_rng m)\<rparr>"

definition set_bat_ambient_temp :: "py_float \<Rightarrow> 'r eps \<Rightarrow> 'r eps" where
  "set_bat_ambient_temp t m = m\<lparr>ep_env := t\<rparr>"

end
