(* ===== verification/Py_Total.thy ===== *)
theory Py_Total
  imports Py_State
begin

text \<open>
  Code that never raises: \<open>total_py m\<close> says that \<open>m\<close> returns from every state. The rules follow the
  combinators, so that the totality of composed code is found by introduction.
\<close>

definition total_py :: "('s, 'a) py \<Rightarrow> bool" where
  "total_py m \<longleftrightarrow> (\<forall>s. \<exists>a s'. m s = (Inr a, s'))"

lemma total_pyD: "total_py m \<Longrightarrow> \<exists>a s'. m s = (Inr a, s')"
  by (simp add: total_py_def)

lemma total_ret: "total_py (ret a)"
  by (simp add: total_py_def ret_def)

lemma total_gets: "total_py (gets f)"
  by (simp add: total_py_def gets_def)

lemma total_modify: "total_py (modify f)"
  by (simp add: total_py_def modify_def)

lemma total_of_result: "r = Inr a \<Longrightarrow> total_py (of_result r)"
  by (simp add: total_py_def of_result_def)

lemma total_bind: "total_py m \<Longrightarrow> (\<And>a. total_py (f a)) \<Longrightarrow> total_py (bind_py m f)"
  unfolding total_py_def bind_py_def by (auto split: prod.split sum.split) (metis Pair_inject Inl_Inr_False old.sum.exhaust surj_pair)+

lemma total_seq: "total_py m \<Longrightarrow> total_py n \<Longrightarrow> total_py (seq_py m n)"
  unfolding seq_py_def by (rule total_bind)

text \<open>Code that only depends on a value it reads: the value may be assumed to be one that was read.\<close>

lemma total_bind_gets: "(\<And>s. total_py (f (g s))) \<Longrightarrow> total_py (bind_py (gets g) f)"
  by (simp add: total_py_def bind_py_def gets_def)

lemma total_catch: "(\<And>e. total_py (h e)) \<Longrightarrow> total_py (catch m h)"
  unfolding total_py_def catch_def by (auto split: prod.split sum.split)

lemma total_each: "(\<And>x. total_py (f x)) \<Longrightarrow> total_py (each f xs)"
  by (induction xs) (auto intro: total_ret total_seq)

lemma total_when: "(b \<Longrightarrow> total_py m) \<Longrightarrow> total_py (when_py b m)"
  by (simp add: when_py_def total_ret)

lemma total_if: "(b \<Longrightarrow> total_py m) \<Longrightarrow> (\<not> b \<Longrightarrow> total_py n) \<Longrightarrow> total_py (if b then m else n)"
  by simp

lemma total_option: "(x = None \<Longrightarrow> total_py m) \<Longrightarrow> (\<And>a. x = Some a \<Longrightarrow> total_py (f a)) \<Longrightarrow>
    total_py (case x of None \<Rightarrow> m | Some a \<Rightarrow> f a)"
  by (cases x) simp_all

lemma total_prod: "(\<And>a b. x = (a, b) \<Longrightarrow> total_py (f a b)) \<Longrightarrow> total_py (case x of (a, b) \<Rightarrow> f a b)"
  by (cases x) simp

lemma total_let: "total_py (f t) \<Longrightarrow> total_py (let x = t in f x)"
  by simp

lemma total_zoom: "total_py m \<Longrightarrow> total_py (zoom rd wr m)"
  unfolding total_py_def zoom_def by (metis (no_types, lifting) case_prod_conv)

lemmas total_rules = total_ret total_gets total_modify total_bind_gets total_bind total_seq total_catch total_each
  total_when total_if total_option total_prod total_let total_zoom

end
