(* ===== verification/Eps_Rules.thy ===== *)
theory Eps_Rules
  imports Eps_Commands Py_Total
begin

text \<open>
  What the power subsystem guarantees: the lines of the computer and of the receiver are never switched
  off, whatever is commanded or injected; at low voltage every tick sheds a load until none is left; and
  the overcurrent protection leaves no switchable line above its threshold.
\<close>

section \<open>What the steps of a tick leave alone\<close>

definition same_lines :: "'r eps \<Rightarrow> 'r eps \<Rightarrow> bool" where
  "same_lines m m' \<longleftrightarrow> es_lines (ep_state m') = es_lines (ep_state m) \<and> es_shed_lines (ep_state m') = es_shed_lines (ep_state m) \<and>
     es_mode (ep_state m') = es_mode (ep_state m)"

interpretation sl: py_frame same_lines
  by unfold_locales (auto simp: same_lines_def)

named_theorems eps_frame \<open>steps of the tick that leave the power lines alone\<close>

lemma on_eps_lines: "(\<And>s. es_lines (f s) = es_lines s \<and> es_shed_lines (f s) = es_shed_lines s \<and> es_mode (f s) = es_mode s) \<Longrightarrow>
    rel_py same_lines (on_eps f)"
  by (rule sl.rel_modify) (simp add: same_lines_def)

lemma gauss_lines [eps_frame]: "rel_py same_lines (gauss rg sigma)"
  by (simp add: rel_py_def gauss_def same_lines_def split: prod.split)

lemma finish_wings_lines: "finish_wings c m = (evs, m') \<Longrightarrow> same_lines m m'"
  by (auto simp: finish_wings_def set_area_def same_lines_def Let_def)

lemma set_area_lines: "same_lines m m' \<Longrightarrow> same_lines m (set_area c face m')"
  by (simp add: set_area_def same_lines_def)

lemma wings_lines [eps_frame]: "rel_py same_lines (wings_step c dt)"
  by (auto simp: rel_py_def wings_step_def Let_def intro!: set_area_lines split: prod.split)
     (auto simp: same_lines_def finish_wings_def set_area_def Let_def split: if_splits)

lemma panel_loop_lines [eps_frame]: "rel_py same_lines (panel_loop rg c bus n faces acc)"
  by (induction rg c bus n faces acc rule: panel_loop.induct)
     (auto simp: Let_def intro!: sl.frame_rules on_eps_lines eps_frame)

lemma array_lines [eps_frame]:
  "rel_py same_lines (eclipse_step b)" "rel_py same_lines (age_step dt)" "rel_py same_lines no_generation"
  "rel_py same_lines (tumbling lm rg c beta)" "rel_py same_lines (wing_illumination lm c n)"
  "rel_py same_lines (wing_power rg c bus face area illum deployed acc)" "rel_py same_lines (drive_gate ge)"
  "rel_py same_lines (array_voltages gen)" "rel_py same_lines (battery_step rg c dt gen)"
  and temperature_lines [eps_frame]: "rel_py same_lines (temperature_step lm rg c dt)"
  unfolding eclipse_step_def age_step_def no_generation_def tumbling_def wing_illumination_def wing_power_def drive_gate_def
    array_voltages_def battery_step_def temperature_step_def Let_def
  by (auto simp: charge_def Let_def intro!: sl.frame_rules on_eps_lines eps_frame)

lemma flags_lines [eps_frame]: "rel_py same_lines (voltage_flags c)"
  by (simp add: rel_py_def voltage_flags_def modify_def same_lines_def Let_def)

lemma generation_lines [eps_frame]: "rel_py same_lines (sunlit lm rg c v mag)" "rel_py same_lines (generation lm rg c beta p)"
  unfolding sunlit_def generation_def Let_def
  by (auto intro!: sl.frame_rules on_eps_lines eps_frame simp: sunlit_def Let_def)

lemma line_lost_simps [simp]: "es_lines (line_lost n s) = es_lines s" "es_shed_lines (line_lost n s) = es_shed_lines s"
  "es_bus_voltage (line_lost n s) = es_bus_voltage s" "es_edges (line_lost n s) = es_edges s" "es_mode (line_lost n s) = es_mode s"
  by (simp_all add: line_lost_def)

lemma set_line_simps [simp]: "es_lines (set_line n b s) = (es_lines s)(n \<mapsto> b)" "es_shed_lines (set_line n b s) = es_shed_lines s"
  "es_bus_voltage (set_line n b s) = es_bus_voltage s" "es_edges (set_line n b s) = es_edges s" "es_mode (set_line n b s) = es_mode s"
  by (simp_all add: set_line_def)

lemma line_on_set: "line_on d n (set_line a b s) = (if n = a then b else line_on d n s)"
  by (simp add: line_on_def or_else_def)

text \<open>
  A relation that holds between states with the same lines, and that a trip, the shedder and the mode's
  shedding respect, holds over a whole tick.
\<close>

locale line_frame = py_frame R for R :: "'r eps \<Rightarrow> 'r eps \<Rightarrow> bool" +
  fixes c :: eps_config
  assumes same: "same_lines m m' \<Longrightarrow> R m m'"
    and tripped: "switchable n \<Longrightarrow> R m (m\<lparr>ep_state := trip i n (ep_state m)\<rparr>)"
    and shedding: "R m (m\<lparr>ep_state := shed_step c (ep_state m)\<rparr>)"
    and mode_shedding: "R m (m\<lparr>ep_state := mode_shed c (ep_state m)\<rparr>)"
begin

lemma same_py: "rel_py same_lines x \<Longrightarrow> rel_py R x"
  by (auto simp: rel_py_def intro: same)

lemma protected: "protect c w bus l s = (x, s') \<Longrightarrow> R (m\<lparr>ep_state := s\<rparr>) (m\<lparr>ep_state := s'\<rparr>)"
  using tripped [of "snd l" "m\<lparr>ep_state := s\<rparr>"]
  by (auto simp: protect_def Let_def same_lines_def intro: same split: prod.splits if_splits)

lemma protected_all: "protect_all c w bus ls s = (xs, s') \<Longrightarrow> R (m\<lparr>ep_state := s\<rparr>) (m\<lparr>ep_state := s'\<rparr>)"
proof (induction ls arbitrary: s xs)
  case (Cons l ls)
  then show ?case by (auto split: prod.splits intro: frame_trans dest: protected)
qed (simp add: frame_refl)

lemma keeps_consumption: "rel_py R (consumption rg c p)"
proof -
  have "R m m'" if run: "consumption rg c p m = (r, m')" for m r m'
  proof (cases "payload_mode_of p (ep_state m)")
    case (Inr k)
    obtain xs s' where a: "protect_all c (with_overload (es_oc_inject (ep_state m)) (line_powers c p (ep_state m) k))
        (bus_divisor (ep_state m)) (enumerate 0 POWER_LINE_NAMES) (ep_state m) = (xs, s')" by fastforce
    have "R m (m\<lparr>ep_state := s'\<rparr>)" using protected_all [OF a, of m] by simp
    moreover have "same_lines (m\<lparr>ep_state := s'\<rparr>) m'"
      using run Inr a by (auto simp: consumption_def seq_py_def bind_py_def gets_def of_result_def modify_def ret_def gauss_def
            same_lines_def Let_def split: prod.splits)
    ultimately show ?thesis using frame_trans same by blast
  next
    case (Inl e)
    then show ?thesis using run by (auto simp: consumption_def bind_py_def gets_def of_result_def intro: frame_refl)
  qed
  then show ?thesis by (simp add: rel_py_def) (metis surjective_pairing)
qed

lemma keeps_end: "R m (m\<lparr>ep_state := note_edges (mode_shed c (note_levels c x (ep_state m)))\<rparr>)"
proof -
  let ?n = "m\<lparr>ep_state := note_levels c x (ep_state m)\<rparr>"
  have "R m ?n" by (rule same) (simp add: same_lines_def note_levels_def)
  moreover have "R ?n (?n\<lparr>ep_state := mode_shed c (ep_state ?n)\<rparr>)" by (rule mode_shedding)
  moreover have "same_lines (?n\<lparr>ep_state := mode_shed c (ep_state ?n)\<rparr>) (m\<lparr>ep_state := note_edges (mode_shed c (note_levels c x (ep_state m)))\<rparr>)"
    by (simp add: same_lines_def note_edges_def)
  ultimately show ?thesis using frame_trans same by blast
qed

lemma keeps_tick: "rel_py R (eps_tick lm rg c dt orbit p)"
  unfolding eps_tick_def eps_physics_def
  by (intro frame_rules allI keeps_consumption rel_modify shedding keeps_end same_py eps_frame)

end

section \<open>The essential lines\<close>

definition essential :: "string set" where "essential = {''obc'', ''ttc_rx''}"

definition powered :: "eps_state \<Rightarrow> bool" where
  "powered s \<longleftrightarrow> (\<forall>n\<in>essential. es_lines s n = Some True)"

definition spares :: "eps_config \<Rightarrow> bool" where
  "spares c \<longleftrightarrow> set (ec_shed_order c) \<inter> essential = {}"

definition keeps_powered :: "eps_config \<Rightarrow> 'r eps \<Rightarrow> 'r eps \<Rightarrow> bool" where
  "keeps_powered c m m' \<longleftrightarrow> (spares c \<and> powered (ep_state m) \<longrightarrow> powered (ep_state m'))"

lemma switchable_not_essential: "switchable n \<Longrightarrow> n \<notin> essential"
  by (auto simp: switchable_def essential_def)

lemma powered_set: "powered s \<Longrightarrow> b \<or> n \<notin> essential \<Longrightarrow> powered (set_line n b s)"
  by (auto simp: powered_def)

lemma powered_off: "powered s \<Longrightarrow> set ns \<inter> essential = {} \<Longrightarrow> powered (fold (\<lambda>n. set_line n False) ns s)"
  by (induction ns arbitrary: s) (auto simp: powered_set)

lemma powered_shed:
  assumes "spares c" "powered s"
  shows "powered (shed_step c s)" "powered (mode_shed c s)"
proof -
  have find: "n \<notin> essential" if "List.find P (ec_shed_order c) = Some n" for P n
    using that assms(1) nth_mem by (fastforce simp: find_Some_iff spares_def)
  show "powered (shed_step c s)"
    using assms(2) find by (auto simp: shed_step_def shed_one_def restore_one_def powered_def Let_def split: option.splits)
  have "set (take n (ec_shed_order c)) \<inter> essential = {}" for n
    using assms(1) set_take_subset [of n "ec_shed_order c"] by (auto simp: spares_def)
  then have "powered (fold (\<lambda>name. set_line name False) (take n (ec_shed_order c)) s)" for n
    by (rule powered_off [OF assms(2)])
  then show "powered (mode_shed c s)"
    using assms(2) by (simp add: mode_shed_def powered_def Let_def)
qed

interpretation kp: line_frame "keeps_powered c" c for c
proof
  show "switchable n \<Longrightarrow> keeps_powered c m (m\<lparr>ep_state := trip i n (ep_state m)\<rparr>)" for n i and m :: "'a eps"
    by (auto simp: keeps_powered_def powered_def trip_def dest: switchable_not_essential)
  show "keeps_powered c m (m\<lparr>ep_state := shed_step c (ep_state m)\<rparr>)" "keeps_powered c m (m\<lparr>ep_state := mode_shed c (ep_state m)\<rparr>)"
    for m :: "'a eps"
    by (auto simp: keeps_powered_def powered_shed)
qed (auto simp: keeps_powered_def same_lines_def powered_def)

lemma line_at_name: "line_at k = Some n \<Longrightarrow> n \<in> set POWER_LINE_NAMES"
  by (auto simp: line_at_def split: if_splits)

lemma powered_update: "es_lines s' = es_lines s \<Longrightarrow> powered s' \<longleftrightarrow> powered s"
  by (simp add: powered_def)

lemma powered_wings: "powered (snd (deploy_wing c cd s)) = powered s"
  by (rule powered_update, cases "arg cd ''wing'' (VStr [])") (simp_all add: deploy_wing_def start_wing_def start_both_def Let_def)

lemma powered_line_command: "powered s \<Longrightarrow> powered (snd (set_power_line cd on s))"
  by (cases "named_line cd") (auto simp: set_power_line_def powered_def dest: switchable_not_essential)

lemma powered_resets: "powered s \<Longrightarrow> powered (snd (reset_oc_flag cd s))" "powered s \<Longrightarrow> powered (snd (reset_trip cd s))"
  by (auto simp: reset_oc_flag_def reset_trip_def clear_trip_def powered_def split: option.split)

lemma powered_switch: "powered s \<Longrightarrow> powered (snd (switch_load v on s))"
proof (cases "as_int v")
  case None
  then show "powered s \<Longrightarrow> ?thesis" by (cases v) (simp_all add: switch_load_def as_int_def)
next
  case (Some k)
  then show "powered s \<Longrightarrow> ?thesis"
    by (auto simp: switch_load_def powered_def dest: switchable_not_essential split: option.split)
qed

lemma powered_emergency: "powered s \<Longrightarrow> powered (snd (emergency_load_shed k s))"
  by (simp add: emergency_load_shed_def LOAD_SHED_ORDER_def powered_def essential_def set_line_def)

lemma powered_with_arg: "powered s \<Longrightarrow> (\<And>x. powered (snd (f x s))) \<Longrightarrow> powered (snd (with_arg r f s))"
  by (cases r) (simp_all add: with_arg_def case_prod_unfold)

lemma powered_mode: "powered s \<Longrightarrow> (\<And>k. powered (snd (f k s))) \<Longrightarrow> powered (snd (mode_or_refuse t f k s))"
  by (simp add: mode_or_refuse_def)

lemma powered_always: "powered (snd r) \<Longrightarrow> powered (snd (case r of (x, s) \<Rightarrow> (Inr x, s)))"
  by (cases r) simp

lemma powered_cooler: "powered s \<Longrightarrow> powered ((set_line ''fpa_cooler'' on s)\<lparr>es_cooler_on := b\<rparr>)"
  by (simp add: powered_def essential_def)

lemma powered_if: "powered (snd x) \<Longrightarrow> powered (snd y) \<Longrightarrow> powered (snd (if b then x else y))"
  by simp

lemma powered_command: "powered s \<Longrightarrow> powered (snd (eps_command cf name c s))"
  unfolding eps_command_def Let_def
  by (intro powered_if powered_with_arg powered_mode powered_always powered_line_command powered_resets powered_switch powered_emergency
      powered_wings [THEN iffD2])
     (simp_all add: powered_cooler, simp_all add: powered_def)

lemma powered_failure:
  "es_lines (ep_state (inject_eps failure mag cd m)) = es_lines (ep_state m)"
  "es_lines (ep_state (clear_eps failure cd m)) = es_lines (ep_state m)"
  by (simp_all add: inject_eps_def clear_eps_def Let_def split: option.split)

text \<open>Everything that happens to the model: ticks, commands, switches, failures and the coupled temperature.\<close>

inductive eps_step :: "libm \<Rightarrow> 'r random_source \<Rightarrow> eps_config \<Rightarrow> 'r eps \<Rightarrow> 'r eps \<Rightarrow> bool" for lm rg c where
  ticked: "eps_tick lm rg c dt orbit p m = (r, m') \<Longrightarrow> eps_step lm rg c m m'"
| commanded: "eps_handle c cd m = (r, m') \<Longrightarrow> eps_step lm rg c m m'"
| switched: "eps_step lm rg c m (m\<lparr>ep_state := snd (eps_set_device k on (ep_state m))\<rparr>)"
| injected: "eps_step lm rg c m (inject_eps failure mag cd m)"
| cleared: "eps_step lm rg c m (clear_eps failure cd m)"
| coupled: "eps_step lm rg c m (set_bat_ambient_temp t m)"

lemma step_powered: "eps_step lm rg c m m' \<Longrightarrow> keeps_powered c m m'"
proof (induction rule: eps_step.cases)
  case (ticked dt orbit p r)
  then show ?case using rel_pyD [OF kp.keeps_tick] by blast
next
  case (commanded cd r)
  then show ?case using powered_command [of "ep_state m" c "command_name cd" cd]
    by (auto simp: eps_handle_def keeps_powered_def split: prod.splits)
qed (auto simp: keeps_powered_def powered_def powered_failure set_bat_ambient_temp_def eps_set_device_def split: option.splits)

text \<open>
  C21: The computer and the receiver stay powered. With a shedding order that spares the two lines that cannot
  be switched, and from a state in which both are powered, no sequence of ticks, commands, device switches
  and injected failures ever switches them off, at any load, voltage or noise, not even an emergency shedding
  of all stages or an overcurrent.
\<close>

theorem essential_lines_stay_on:
  assumes "(eps_step lm rg c)\<^sup>*\<^sup>* m m'" "set (ec_shed_order c) \<inter> {''obc'', ''ttc_rx''} = {}"
    and "es_lines (ep_state m) ''obc'' = Some True" "es_lines (ep_state m) ''ttc_rx'' = Some True"
  shows "es_lines (ep_state m') ''obc'' = Some True \<and> es_lines (ep_state m') ''ttc_rx'' = Some True"
proof -
  have "keeps_powered c m m'"
    using assms(1) by induction (auto intro: kp.frame_refl kp.frame_trans step_powered)
  then show ?thesis using assms by (simp add: keeps_powered_def powered_def spares_def essential_def)
qed

lemma default_lines: "es_lines (ep_state (new_eps c r)) ''obc'' = Some True" "es_lines (ep_state (new_eps c r)) ''ttc_rx'' = Some True"
  by (simp_all add: new_eps_def new_eps_state_def POWER_LINE_DEFAULTS_def POWER_LINE_NAMES_def switchable_def)

lemma essential_lines_stay_on_witness:
  "es_lines (ep_state (snd (eps_handle default_eps_config [(''command'', VStr ''emergency_load_shed''), (''stage'', VInt 3)]
     (new_eps default_eps_config ())))) ''obc'' = Some True"
proof -
  obtain r m where t: "eps_handle default_eps_config [(''command'', VStr ''emergency_load_shed''), (''stage'', VInt 3)]
     (new_eps default_eps_config ()) = (r, m)" by fastforce
  have "(eps_step plain_libm quiet default_eps_config)\<^sup>*\<^sup>* (new_eps default_eps_config ()) m"
    using eps_step.commanded [OF t] by blast
  moreover have "set (ec_shed_order default_eps_config) \<inter> {''obc'', ''ttc_rx''} = {}"
    by (simp add: default_eps_config_def LOAD_SHED_ORDER_def)
  ultimately show ?thesis using essential_lines_stay_on default_lines by (metis t snd_conv)
qed

section \<open>Shedding at low voltage\<close>

definition fewer_on :: "'r eps \<Rightarrow> 'r eps \<Rightarrow> bool" where
  "fewer_on m m' \<longleftrightarrow> (\<forall>n. line_on False n (ep_state m') \<longrightarrow> line_on False n (ep_state m))"

text \<open>Of a configuration that never sheds or restores, the whole tick has this frame; here the part up to the shedder.\<close>

interpretation fo: py_frame fewer_on
  by unfold_locales (auto simp: fewer_on_def)

lemma same_fewer: "same_lines m m' \<Longrightarrow> fewer_on m m'"
  by (simp add: same_lines_def fewer_on_def line_on_def)

lemma same_fewer_py: "rel_py same_lines x \<Longrightarrow> rel_py fewer_on x"
  by (auto simp: rel_py_def intro: same_fewer)

lemma protect_fewer: "protect_all c w bus ls s = (xs, s') \<Longrightarrow> line_on False n s' \<Longrightarrow> line_on False n s"
proof (induction ls arbitrary: s xs)
  case (Cons l ls)
  then obtain x t ys where "protect c w bus l s = (x, t)" "protect_all c w bus ls t = (ys, s')"
    by (auto split: prod.splits)
  then show ?case using Cons.IH Cons.prems(2)
    by (fastforce simp: protect_def trip_def line_on_def or_else_def Let_def split: prod.splits if_splits)
qed simp

lemma consumption_fewer: "rel_py fewer_on (consumption rg c p)"
proof -
  have "fewer_on m m'" if "consumption rg c p m = (r, m')" for m r m'
    using that protect_fewer
    by (fastforce simp: consumption_def bind_py_def seq_py_def gets_def of_result_def modify_def ret_def gauss_def fewer_on_def line_on_def
          Let_def split: prod.splits sum.splits)
  then show ?thesis by (simp add: rel_py_def) (metis surjective_pairing)
qed

lemma physics_fewer: "rel_py fewer_on (eps_physics lm rg c dt orbit p)"
  unfolding eps_physics_def by (intro fo.frame_rules allI consumption_fewer same_fewer_py eps_frame)

lemma temperature_bus: "temperature_step lm rg c dt m = (r, m') \<Longrightarrow> es_bus_voltage (ep_state m') = es_bus_voltage (ep_state m)"
  by (auto simp: temperature_step_def bind_py_def gets_def of_result_def modify_def gauss_def Let_def split: prod.splits sum.splits)

lemma mode_shed_fewer: "line_on False n (mode_shed c s) \<Longrightarrow> line_on False n s"
proof -
  have "line_on False n (fold (\<lambda>name. set_line name False) ns s) \<Longrightarrow> line_on False n s" for ns s
  proof (induction ns arbitrary: s)
    case (Cons a ns)
    have "line_on False n (set_line a False s)" using Cons.IH [of "set_line a False s"] Cons.prems by simp
    then show ?case by (simp add: line_on_set split: if_splits)
  qed simp
  moreover obtain ns where "es_lines (mode_shed c s) = es_lines (fold (\<lambda>name. set_line name False) ns s)"
    using that [of "[]"] that [of "take (if 2 \<le> es_mode s then length (ec_shed_order c) else 2) (ec_shed_order c)"]
    by (cases "es_mode s \<noteq> ee_mode (es_edges s) \<and> 1 \<le> es_mode s") (simp_all add: mode_shed_def Let_def)
  ultimately show "line_on False n (mode_shed c s) \<Longrightarrow> line_on False n s" by (simp add: line_on_def)
qed

lemma mode_shed_bus: "es_bus_voltage (mode_shed c s) = es_bus_voltage s"
proof -
  have "es_bus_voltage (fold (\<lambda>name. set_line name False) ns s) = es_bus_voltage s" for ns s
    by (induction ns arbitrary: s) simp_all
  then show ?thesis by (simp add: mode_shed_def Let_def)
qed

definition loads_on :: "eps_config \<Rightarrow> eps_state \<Rightarrow> nat" where
  "loads_on c s = length (filter (\<lambda>n. line_on False n s) (ec_shed_order c))"

lemma filter_fewer: "(\<And>n. Q n \<Longrightarrow> P n) \<Longrightarrow> length (filter Q xs) \<le> length (filter P xs)"
  by (induction xs) auto

lemma loads_fewer: "fewer_on m m' \<Longrightarrow> loads_on c (ep_state m') \<le> loads_on c (ep_state m)"
  unfolding loads_on_def by (rule filter_fewer) (simp add: fewer_on_def)

lemma filter_less: "x \<in> set xs \<Longrightarrow> P x \<Longrightarrow> \<not> Q x \<Longrightarrow> (\<And>n. Q n \<Longrightarrow> P n) \<Longrightarrow> length (filter Q xs) < length (filter P xs)"
  by (induction xs) (auto simp: less_Suc_eq_le filter_fewer)

lemma shed_one_loads: "loads_on c (shed_one c s) \<le> loads_on c s - 1"
proof (cases "List.find (\<lambda>n. line_on False n s) (ec_shed_order c)")
  case None
  then have "shed_one c s = s" by (simp add: shed_one_def)
  moreover have "loads_on c s = 0" using None by (simp add: loads_on_def find_None_iff filter_empty_conv)
  ultimately show ?thesis by simp
next
  case (Some n)
  then have n: "n \<in> set (ec_shed_order c)" "line_on False n s" by (auto simp: find_Some_iff)
  have "es_lines (shed_one c s) = (es_lines s)(n \<mapsto> False)" by (simp add: shed_one_def Some)
  then have "line_on False k (shed_one c s) = (k \<noteq> n \<and> line_on False k s)" for k by (simp add: line_on_def or_else_def)
  then have "loads_on c (shed_one c s) < loads_on c s"
    unfolding loads_on_def using n by (intro filter_less [of n]) simp_all
  then show ?thesis by simp
qed

lemma tick_sheds:
  assumes "eps_tick lm rg c dt orbit p m = (Inr r, m')" "fless (es_bus_voltage (ep_state m')) (ec_shed_voltage c)"
  shows "loads_on c (ep_state m') \<le> loads_on c (ep_state m) - 1"
proof -
  obtain x m1 m3 where 1: "eps_physics lm rg c dt orbit p m = (Inr x, m1)"
    and 3: "temperature_step lm rg c dt (m1\<lparr>ep_state := shed_step c (ep_state m1)\<rparr>) = (Inr (), m3)"
    and m': "m' = m3\<lparr>ep_state := note_edges (mode_shed c (note_levels c (fst (snd x)) (ep_state m3)))\<rparr>"
    using assms(1) by (auto simp: eps_tick_def returns gets_def modify_def split: prod.splits)
  let ?m2 = "m1\<lparr>ep_state := shed_step c (ep_state m1)\<rparr>"
  have "es_bus_voltage (ep_state m') = es_bus_voltage (shed_step c (ep_state m1))"
    using temperature_bus [OF 3] by (simp add: m' note_edges_def note_levels_def mode_shed_bus)
  also have "\<dots> = es_bus_voltage (ep_state m1)"
    by (simp add: shed_step_def shed_one_def restore_one_def Let_def split: option.split)
  finally have shed: "shed_step c (ep_state m1) = shed_one c (ep_state m1)"
    using assms(2) by (simp add: shed_step_def)
  have "fewer_on ?m2 m3" using rel_pyD [OF same_fewer_py [OF temperature_lines] 3] .
  moreover have "fewer_on m3 m'"
    unfolding fewer_on_def m' by (auto simp: note_edges_def note_levels_def line_on_def dest: mode_shed_fewer [unfolded line_on_def])
  ultimately have "loads_on c (ep_state m') \<le> loads_on c (shed_one c (ep_state m1))"
    using loads_fewer [OF fo.frame_trans, of ?m2 m3 m' c] shed by simp
  also have "\<dots> \<le> loads_on c (ep_state m1) - 1" by (rule shed_one_loads)
  also have "\<dots> \<le> loads_on c (ep_state m) - 1" using loads_fewer [OF rel_pyD [OF physics_fewer 1]] by (simp add: diff_le_mono)
  finally show ?thesis .
qed

text \<open>
  C22: A low bus sheds every load. When each of \<open>n\<close> successive ticks ends with the bus below the shedding
  voltage and \<open>n\<close> is at least the number of loads of the shedding order, all of them are off at the end,
  whatever the array, the noise, the temperatures and the published parameters of the other subsystems were.
\<close>

theorem low_voltage_sheds_all:
  assumes "\<forall>i<n. \<exists>dt orbit p r. eps_tick lm rg c dt orbit p (ms i) = (Inr r, ms (Suc i)) \<and>
      fless (es_bus_voltage (ep_state (ms (Suc i)))) (ec_shed_voltage c)"
    and "length (ec_shed_order c) \<le> n" "load \<in> set (ec_shed_order c)"
  shows "\<not> line_on False load (ep_state (ms n))"
proof -
  have "loads_on c (ep_state (ms k)) \<le> length (ec_shed_order c) - k" if "k \<le> n" for k
    using that
  proof (induction k)
    case (Suc k)
    then show ?case using assms(1) tick_sheds by (fastforce dest: Suc_le_lessD)
  qed (simp add: loads_on_def)
  then have "loads_on c (ep_state (ms n)) = 0" using assms(2) by fastforce
  then show ?thesis using assms(3) by (simp add: loads_on_def filter_empty_conv)
qed

section \<open>Overcurrent\<close>

definition limit_of :: "eps_config \<Rightarrow> string \<Rightarrow> py_float" where
  "limit_of c name = or_else (ec_oc_thresholds c name) (Fin False 999)"

definition same_currents :: "'r eps \<Rightarrow> 'r eps \<Rightarrow> bool" where
  "same_currents m m' \<longleftrightarrow> es_currents (ep_state m') = es_currents (ep_state m)"

interpretation sc: py_frame same_currents
  by unfold_locales (auto simp: same_currents_def)

lemma gauss_currents: "rel_py same_currents (gauss rg sigma)"
  by (simp add: rel_py_def gauss_def same_currents_def split: prod.split)

lemma on_eps_currents: "(\<And>s. es_currents (f s) = es_currents s) \<Longrightarrow> rel_py same_currents (on_eps f)"
  by (rule sc.rel_modify) (simp add: same_currents_def)

lemma after_currents: "rel_py same_currents (battery_step rg c dt gen)" "rel_py same_currents (temperature_step lm rg c dt)"
  unfolding battery_step_def temperature_step_def Let_def
  by (auto simp: charge_def Let_def intro!: sc.frame_rules on_eps_currents gauss_currents)

lemma shed_currents: "es_currents (shed_step c s) = es_currents s" "es_currents (mode_shed c s) = es_currents s"
proof -
  have "es_currents (fold (\<lambda>name. set_line name False) ns s) = es_currents s" for ns s
    by (induction ns arbitrary: s) (simp_all add: set_line_def)
  then show "es_currents (mode_shed c s) = es_currents s" by (simp add: mode_shed_def Let_def)
qed (simp add: shed_step_def shed_one_def restore_one_def set_line_def line_lost_def Let_def split: option.split)

lemma protect_within:
  assumes "protect c w bus (i, n) s = (x, s')" "switchable n" "nonneg (limit_of c n)"
  shows "\<not> fless (limit_of c n) (es_currents s' n)"
  using assms by (cases "limit_of c n")
    (auto simp: protect_def trip_def limit_of_def Let_def fin_val_def line_lost_def nonneg_Fin split: if_splits)

lemma protect_others: "protect c w bus (i, k) s = (x, s') \<Longrightarrow> n \<noteq> k \<Longrightarrow> es_currents s' n = es_currents s n"
  by (auto simp: protect_def trip_def Let_def line_lost_def set_line_def split: if_splits)

lemma protect_all_others: "protect_all c w bus ls s = (xs, s') \<Longrightarrow> n \<notin> snd ` set ls \<Longrightarrow> es_currents s' n = es_currents s n"
proof (induction ls arbitrary: s xs)
  case (Cons l ls)
  then show ?case using protect_others [of c w bus "fst l" "snd l" s _ _ n] by (fastforce split: prod.splits)
qed simp

lemma protect_all_within:
  assumes "protect_all c w bus ls s = (xs, s')" "n \<in> snd ` set ls" "distinct (map snd ls)" "switchable n" "nonneg (limit_of c n)"
  shows "\<not> fless (limit_of c n) (es_currents s' n)"
  using assms(1-3)
proof (induction ls arbitrary: s xs)
  case (Cons l ls)
  obtain i k where l: "l = (i, k)" by fastforce
  obtain x t ys where t: "protect c w bus (i, k) s = (x, t)" "protect_all c w bus ls t = (ys, s')"
    using Cons.prems(1) by (auto simp: l split: prod.splits)
  show ?case
  proof (cases "n = k")
    case True
    then have "n \<notin> snd ` set ls" using Cons.prems(3) by (simp add: l)
    then show ?thesis
      using protect_all_others [OF t(2)] protect_within [OF t(1)] True assms(4,5) by simp
  next
    case False
    then show ?thesis using Cons.IH [OF t(2)] Cons.prems by (simp add: l)
  qed
qed simp

lemma consumption_within:
  assumes "consumption rg c p m = (Inr bill, m')" "switchable n" "nonneg (limit_of c n)"
  shows "\<not> fless (limit_of c n) (es_currents (ep_state m') n)"
proof -
  obtain k where k: "payload_mode_of p (ep_state m) = Inr k"
    using assms(1) by (auto simp: consumption_def returns of_result_def gets_def)
  obtain xs s where a: "protect_all c (with_overload (es_oc_inject (ep_state m)) (line_powers c p (ep_state m) k))
      (bus_divisor (ep_state m)) (enumerate 0 POWER_LINE_NAMES) (ep_state m) = (xs, s)" by fastforce
  then have e: "es_currents (ep_state m') = es_currents s"
    using assms(1) k by (auto simp: consumption_def bind_py_def seq_py_def gets_def of_result_def modify_def ret_def gauss_def Let_def
        split: prod.splits)
  have "n \<in> snd ` set (enumerate 0 POWER_LINE_NAMES)" using assms(2) by (simp add: switchable_def flip: set_map)
  then show ?thesis using protect_all_within [OF a] assms(2,3) e by (simp add: POWER_LINE_NAMES_def)
qed

text \<open>
  C23: The protection works within the tick. After a tick that returns, the current of no switchable line is
  above its overcurrent limit, when the limit is not negative, whatever the configured powers, the injected
  overcurrents and the bus voltage were.
\<close>

theorem no_line_above_its_limit:
  assumes "eps_tick lm rg c dt orbit p m = (Inr r, m')" "switchable name" "nonneg (limit_of c name)"
  shows "\<not> fless (limit_of c name) (es_currents (ep_state m') name)"
proof -
  obtain x m1 m3 where 1: "eps_physics lm rg c dt orbit p m = (Inr x, m1)"
    and 3: "temperature_step lm rg c dt (m1\<lparr>ep_state := shed_step c (ep_state m1)\<rparr>) = (Inr (), m3)"
    and m': "es_currents (ep_state m') = es_currents (ep_state m3)"
    using assms(1) by (auto simp: eps_tick_def returns gets_def modify_def note_edges_def note_levels_def shed_currents split: prod.splits)
  obtain m0 bill m2 m4 gen where "consumption rg c p m0 = (Inr bill, m2)" and b: "battery_step rg c dt gen m2 = (Inr (), m4)"
    and v: "voltage_flags c m4 = (Inr (), m1)"
    using 1 by (auto simp: eps_physics_def returns ret_def split: prod.splits)
  then have "\<not> fless (limit_of c name) (es_currents (ep_state m2) name)" using consumption_within assms(2,3) by blast
  moreover have "es_currents (ep_state m') = es_currents (ep_state m2)"
    using rel_pyD [OF after_currents(1) b] rel_pyD [OF after_currents(2) 3] v
    by (auto simp: same_currents_def m' shed_currents voltage_flags_def modify_def Let_def)
  ultimately show ?thesis by simp
qed

section \<open>A concrete run\<close>

text \<open>An orbit night of a battery whose cut-off voltage is configured as \<open>.nan\<close>: its bus reads zero volts.\<close>

definition weak_config :: eps_config where
  "weak_config = default_eps_config\<lparr>ec_shed_order := [''payload''], ec_soc_0_v := NaN\<rparr>"

abbreviation night :: "unit eps \<Rightarrow> (eps_event list \<times> params) result \<times> unit eps" where
  "night \<equiv> eps_tick plain_libm quiet weak_config (Fin False 1) \<lparr>eo_eclipse = True, eo_beta = f0\<rparr> Map.empty"

lemma fdiv_NaN [simp]: "fdiv x NaN = Inr NaN"
  by (cases x) simp_all

lemma NaN_arith [simp]: "fsub NaN x = NaN" "fsub x NaN = NaN" "fadd NaN x = NaN" "fadd x NaN = NaN" "fmul NaN x = NaN" "fmul x NaN = NaN"
  "fabs NaN = NaN" "fless NaN x \<longleftrightarrow> False" "fless x NaN \<longleftrightarrow> False" "fsquare NaN = Inr NaN"
  by (cases x; simp add: fadd_def fneg_def fabs_def fsquare_def)+

lemma fsquare_0: "fsquare f0 = Inr f0"
  by (simp add: fsquare_def round64_def round_mag_def pow2_def)

lemma total_gauss: "total_py (gauss rg x)"
  by (simp add: total_py_def gauss_def split: prod.split)

lemma total_wings: "total_py (wings_step c dt)"
  by (simp add: total_py_def wings_step_def Let_def split: prod.split)

lemma total_division: "n \<noteq> 0 \<Longrightarrow> total_py (of_result (fdiv x (Fin t n)))" "total_py (of_result (fdiv x NaN))"
  using fdiv_returns [of n x t] by (auto intro: total_of_result)

lemma plain_functions: "lm_cos plain_libm x = Inr f0" "lm_sin plain_libm x = Inr f0" "lm_sqrt plain_libm x = Inr (Fin False 1)"
  "lm_pow plain_libm x y = Inr f0"
  by (simp_all add: plain_libm_def)

lemma total_panels: "total_py (panel_loop rg c bus n faces acc)"
  by (induction rg c bus n faces acc rule: panel_loop.induct) (auto simp: Let_def intro!: total_rules total_gauss)

lemma night_sun: "sun_vector Map.empty = Inr (css_vector Map.empty)" "sun_magnitude plain_libm (css_vector Map.empty) = Inr f0"
  by (simp_all add: sun_vector_def sun_magnitude_def css_vector_def shared_def or_else_def fsquare_0 plain_functions)

lemma total_generation: "total_py (generation plain_libm rg c beta Map.empty)"
  unfolding generation_def no_generation_def tumbling_def sunlit_def wing_illumination_def wing_power_def Let_def night_sun
    plain_functions bind_of_Inr
  by (intro total_rules total_gauss total_panels)

lemma total_consumption: "total_py (consumption rg c Map.empty)"
  unfolding consumption_def payload_mode_of_def Let_def option.case bind_of_Inr
  by (intro total_rules total_gauss)

lemma weak_fields: "ec_soc_0_v weak_config = NaN" "ec_temp_tau weak_config = Fin False 600" "ec_shed_order weak_config = [''payload'']"
  "ec_shed_voltage weak_config = Fin False (53 / 2)" "fmul (ec_capacity weak_config) (Fin False 3600) = Fin False 432000"
  using round64_int [of 432000 False] by (simp_all add: weak_config_def default_eps_config_def)

lemma total_battery: "total_py (battery_step rg weak_config dt gen)"
  unfolding battery_step_def Let_def weak_fields NaN_arith
  by (intro total_rules total_gauss total_division) (simp_all add: total_of_result [OF refl])

lemma battery_bus: "battery_step quiet weak_config dt gen m = (Inr (), m') \<Longrightarrow>
    es_bus_voltage (ep_state m') = f0 \<and> es_bat_current (ep_state m') = NaN"
  by (auto simp: battery_step_def returns gets_def of_result_def modify_def gauss_def weak_fields Let_def quiet_def fmax_def fmin_def fadd_def
      fneg_def fin_val_def split: prod.splits)

lemma after_battery_bus:
  "voltage_flags c m = (Inr (), m') \<Longrightarrow> es_bus_voltage (ep_state m') = es_bus_voltage (ep_state m) \<and>
     es_bat_current (ep_state m') = es_bat_current (ep_state m)"
  "es_bus_voltage (shed_step c s) = es_bus_voltage s" "es_bat_current (shed_step c s) = es_bat_current s"
  by (auto simp: voltage_flags_def modify_def Let_def shed_step_def shed_one_def restore_one_def set_line_def line_lost_def split: option.split)

lemma night_physics:
  "\<exists>x m'. eps_physics plain_libm quiet weak_config dt orbit Map.empty m = (Inr x, m') \<and> es_bus_voltage (ep_state m') = f0 \<and>
     es_bat_current (ep_state m') = NaN"
proof -
  have "total_py (eps_physics plain_libm quiet weak_config dt orbit Map.empty)"
    unfolding eps_physics_def eclipse_step_def age_step_def drive_gate_def array_voltages_def voltage_flags_def
    by (intro total_rules total_wings total_generation total_consumption total_battery)
  then obtain x m' where run: "eps_physics plain_libm quiet weak_config dt orbit Map.empty m = (Inr x, m')"
    by (metis total_pyD)
  then obtain gen m1 m2 where "battery_step quiet weak_config dt gen m1 = (Inr (), m2)" "voltage_flags weak_config m2 = (Inr (), m')"
    by (auto simp: eps_physics_def returns ret_def split: prod.splits)
  then show ?thesis using run battery_bus after_battery_bus by metis
qed

lemma night_returns: "\<exists>r. night m = (Inr r, snd (night m)) \<and> es_bus_voltage (ep_state (snd (night m))) = f0"
proof -
  obtain x m1 where 1: "eps_physics plain_libm quiet weak_config (Fin False 1) \<lparr>eo_eclipse = True, eo_beta = f0\<rparr> Map.empty m = (Inr x, m1)"
    and v: "es_bus_voltage (ep_state m1) = f0" "es_bat_current (ep_state m1) = NaN"
    using night_physics by blast
  let ?m2 = "m1\<lparr>ep_state := shed_step weak_config (ep_state m1)\<rparr>"
  obtain z where "fdiv (fsub (ep_env ?m2) (es_bat_temp (ep_state ?m2))) (Fin False 600) = Inr z"
    using fdiv_returns [of 600] by fastforce
  then obtain m3 where 3: "temperature_step plain_libm quiet weak_config (Fin False 1) ?m2 = (Inr (), m3)"
    by (simp add: temperature_step_def bind_py_def of_result_def gets_def gauss_def modify_def weak_fields plain_functions quiet_def
        after_battery_bus v)
  have "es_bus_voltage (ep_state m3) = f0" using temperature_bus [OF 3] by (simp add: after_battery_bus v)
  then show ?thesis
    using 1 3 by (cases x) (simp add: eps_tick_def bind_py_def seq_py_def modify_def gets_def note_edges_def note_levels_def mode_shed_bus)
qed

lemma low_voltage_sheds_all_witness: "\<not> line_on False ''payload'' (ep_state (snd (night (new_eps weak_config ()))))"
proof -
  let ?m = "new_eps weak_config ()"
  define ms where "ms = (\<lambda>i::nat. if i = 0 then ?m else snd (night ?m))"
  obtain r where r: "night (ms 0) = (Inr r, ms (Suc 0))" and v: "es_bus_voltage (ep_state (ms (Suc 0))) = f0"
    using night_returns [of ?m] by (auto simp: ms_def)
  have "fless (es_bus_voltage (ep_state (ms (Suc 0)))) (ec_shed_voltage weak_config)"
    by (simp add: v weak_fields fin_val_def)
  then have "\<exists>dt orbit p r. eps_tick plain_libm quiet weak_config dt orbit p (ms 0) = (Inr r, ms (Suc 0)) \<and>
      fless (es_bus_voltage (ep_state (ms (Suc 0)))) (ec_shed_voltage weak_config)" using r by blast
  then have "\<forall>i<1. \<exists>dt orbit p r. eps_tick plain_libm quiet weak_config dt orbit p (ms i) = (Inr r, ms (Suc i)) \<and>
      fless (es_bus_voltage (ep_state (ms (Suc i)))) (ec_shed_voltage weak_config)" by (simp only: less_one simp_thms)
  from low_voltage_sheds_all [OF this, of "''payload''"] show ?thesis by (simp add: weak_fields ms_def)
qed

lemma no_line_above_its_limit_witness:
  "\<not> fless (limit_of weak_config ''ttc_tx'') (es_currents (ep_state (snd (night (new_eps weak_config ())))) ''ttc_tx'')"
proof -
  obtain r where t: "night (new_eps weak_config ()) = (Inr r, snd (night (new_eps weak_config ())))"
    using night_returns by blast
  show ?thesis
    by (rule no_line_above_its_limit [OF t])
       (simp_all add: switchable_def POWER_LINE_NAMES_def limit_of_def weak_config_def default_eps_config_def OC_THRESHOLDS_def or_else_def
          nonneg_Fin fin_val_def)
qed

section \<open>Where the code departs from its comments\<close>

text \<open>An emergency shedding of stage 1 switches on every load of the order but the first, whether it was on or not.\<close>

lemma emergency_shed_switches_on:
  "line_on False ''fpa_cooler'' (snd (emergency_load_shed 1 new_eps_state))" "\<not> line_on False ''fpa_cooler'' new_eps_state"
  by (simp_all add: emergency_load_shed_def LOAD_SHED_ORDER_def line_on_def or_else_def set_line_def new_eps_state_def
      POWER_LINE_DEFAULTS_def POWER_LINE_NAMES_def switchable_def)

text \<open>A load that was shed and then switched off by command is restored by the shedder.\<close>

lemma commanded_off_is_restored:
  assumes "List.find (\<lambda>n. line_on False n s) (ec_shed_order c) = Some ''payload''"
  shows "line_on False ''payload'' (restore_one (snd (set_power_line [(''line_name'', VStr ''payload'')] False (shed_one c s))))"
  using assms by (simp add: restore_one_def set_power_line_def named_line_def arg_def or_else_def indexed_line_def as_int_def line_at_def
      shed_one_def line_on_def line_lost_def set_line_def switchable_def POWER_LINE_NAMES_def accepted_def Let_def)

text \<open>A negative undervoltage fills the battery beyond its capacity.\<close>

lemma undervoltage_can_charge:
  "es_soc (ep_state (inject_eps ''undervoltage'' (Fin True 10) [] (new_eps c r))) = Fin False 175"
proof -
  have "fmul (Fin True 10) (Fin False 10) = Fin True 100" using round64_int [of 100 True] by simp
  moreover have "fl 175 = Fin False 175" using round64_int [of 175 False] by (simp add: fl_def)
  ultimately show ?thesis
    by (simp add: inject_eps_def new_eps_def new_eps_state_def fin_val_def fmax_def Let_def)
qed

end
