(* ===== verification/Ttc_Model.thy ===== *)
theory Ttc_Model
  imports Model_Basics
begin

text \<open>
  The radio of the spacecraft (\<open>smo_simulator/models/ttc_basic.py\<close>): two transponders, a power amplifier with
  thermal shutdown, the sequence of uplink locks, the ladder of telemetry rates with its permissions, and the
  link budget. The platform's \<open>math\<close> functions and the random source are parameters.
\<close>

section \<open>The rate ladder and the configuration\<close>

record rate_tier =
  tr_name :: string
  tr_bps :: int
  tr_code :: "int option"
  tr_modulation :: string
  tr_coding :: string
  tr_gain :: "py_float option"
  tr_beacon_only :: bool
  tr_requires_antenna :: bool
  tr_requires_downlink :: bool
  tr_min_elevation :: py_float

record radio_config =
  rk_eirp :: py_float
  rk_gs_gt :: py_float
  rk_sc_gain :: py_float
  rk_tiers :: "rate_tier list"
  rk_default_tier :: nat
  rk_beacon_tier :: nat
  rk_safe_tier :: nat
  rk_uplink_bps :: int
  rk_atmospheric :: py_float
  rk_polarization :: py_float
  rk_implementation :: py_float
  rk_derate_10 :: py_float
  rk_derate_30 :: py_float
  rk_required_eb_n0 :: py_float
  rk_pa_max_w :: py_float
  rk_pa_shutdown :: py_float
  rk_pa_tau :: py_float
  rk_param_ids :: "string \<rightharpoonup> int"

definition DEFAULT_TM_RATE_TIERS :: "rate_tier list" where
  "DEFAULT_TM_RATE_TIERS =
     [\<lparr>tr_name = ''BEACON'', tr_bps = 1000, tr_code = Some 0xFF, tr_modulation = ''BPSK'', tr_coding = ''CONV_RS'',
       tr_gain = Some (Fin False (15 / 2)), tr_beacon_only = True, tr_requires_antenna = False, tr_requires_downlink = False,
       tr_min_elevation = f0\<rparr>,
      \<lparr>tr_name = ''LOW'', tr_bps = 16000, tr_code = Some 0, tr_modulation = ''BPSK'', tr_coding = ''CONV_RS'',
       tr_gain = Some (Fin False (15 / 2)), tr_beacon_only = False, tr_requires_antenna = False, tr_requires_downlink = False,
       tr_min_elevation = f0\<rparr>,
      \<lparr>tr_name = ''HIGH'', tr_bps = 128000, tr_code = Some 1, tr_modulation = ''QPSK'', tr_coding = ''RS'',
       tr_gain = Some (Fin False 6), tr_beacon_only = False, tr_requires_antenna = True, tr_requires_downlink = True,
       tr_min_elevation = Fin False 10\<rparr>]"

definition default_radio_config :: radio_config where
  "default_radio_config = \<lparr>rk_eirp = Fin False 10, rk_gs_gt = Fin False 20, rk_sc_gain = Fin False 3, rk_tiers = DEFAULT_TM_RATE_TIERS,
     rk_default_tier = 1, rk_beacon_tier = 0, rk_safe_tier = 1, rk_uplink_bps = 4000, rk_atmospheric = Fin False (1 / 2),
     rk_polarization = fl (3 / 10), rk_implementation = Fin False 2, rk_derate_10 = Fin False (3 / 2), rk_derate_30 = Fin False (1 / 2),
     rk_required_eb_n0 = fl (96 / 10), rk_pa_max_w = Fin False 5, rk_pa_shutdown = Fin False 70, rk_pa_tau = Fin False 60,
     rk_param_ids = Map.empty\<rparr>"

text \<open>Bits per symbol and the penalty in Eb/N0 of the modulations BPSK, QPSK, 8PSK and OQPSK.\<close>

definition MODULATION_NAMES :: "string list" where "MODULATION_NAMES = [''BPSK'', ''QPSK'', ''8PSK'', ''OQPSK'']"

definition bits_per_symbol :: "int \<Rightarrow> int" where
  "bits_per_symbol m = (if m = 1 \<or> m = 3 then 2 else if m = 2 then 3 else 1)"

definition modulation_penalty :: "int \<Rightarrow> py_float" where
  "modulation_penalty m = (if m = 2 then fl (36 / 10) else f0)"

definition upper :: "string \<Rightarrow> string" where "upper = map upper_char"

definition modulation_index :: "string \<Rightarrow> int" where
  "modulation_index name = (let n = upper name in
     if n = ''QPSK'' then 1 else if n = ''8PSK'' then 2 else if n = ''OQPSK'' then 3 else 0)"

section \<open>State\<close>

text \<open>The penalties of injected ground failures, and the previous values the events compare with.\<close>

record ground_losses =
  gr_lna :: py_float
  gr_mispoint :: py_float
  gr_feed :: py_float
  gr_rfi :: py_float
  gr_hpa :: py_float
  gr_osc :: py_float
  gr_tracking :: py_float

record radio_edges =
  rd_carrier :: bool
  rd_bit :: bool
  rd_frame :: bool
  rd_ranging :: bool
  rd_pa_warning :: bool
  rd_pa_shutdown :: bool
  rd_margin_warning :: bool
  rd_margin_critical :: bool
  rd_ber :: bool
  rd_mode :: int
  rd_deployed_sent :: bool
  rd_fault_sent :: bool
  rd_agc :: bool
  rd_uplink_timeout :: bool

record radio_state =
  ra_mode :: int
  ra_link_active :: bool
  ra_rssi :: py_float
  ra_margin :: py_float
  ra_data_rate :: int
  ra_xpdr_temp :: py_float
  ra_ranging :: bool
  ra_range :: py_float
  ra_elevation :: py_float
  ra_azimuth :: py_float
  ra_primary_failed :: bool
  ra_redundant_failed :: bool
  ra_pa_on :: bool
  ra_pa_temp :: py_float
  ra_pa_shutdown :: bool
  ra_tx_power :: py_float
  ra_power_level :: int
  ra_ber :: py_float
  ra_eb_n0 :: py_float
  ra_carrier :: bool
  ra_bit :: bool
  ra_frame :: bool
  ra_lock_timer :: py_float
  ra_cmd_rx :: int
  ra_agc :: py_float
  ra_doppler :: py_float
  ra_range_rate :: py_float
  ra_bytes_tx :: int
  ra_bytes_rx :: int
  ra_cmd_timer :: py_float
  ra_cmd_active :: bool
  ra_antenna :: bool
  ra_beacon :: bool
  ra_rate_mode :: int
  ra_tier :: nat
  ra_downlink :: bool
  ra_antenna_ready :: bool
  ra_antenna_sensor :: int
  ra_timeout_counter :: py_float
  ra_ber_offset :: py_float
  ra_pa_heat :: py_float
  ra_uplink_lost :: bool
  ra_nf_degrade :: py_float
  ra_modulation :: int
  ra_coherent :: bool
  ra_devices :: "(int \<times> bool) list"
  ra_ground :: ground_losses

definition new_radio_state :: radio_state where
  "new_radio_state = \<lparr>ra_mode = 0, ra_link_active = False, ra_rssi = Fin True 120, ra_margin = f0, ra_data_rate = 16000,
     ra_xpdr_temp = Fin False 28, ra_ranging = False, ra_range = f0, ra_elevation = Fin True 90, ra_azimuth = f0,
     ra_primary_failed = False, ra_redundant_failed = False, ra_pa_on = True, ra_pa_temp = Fin False 35, ra_pa_shutdown = False,
     ra_tx_power = Fin False 2, ra_power_level = 1, ra_ber = Fin True 10, ra_eb_n0 = Fin False 20, ra_carrier = False,
     ra_bit = False, ra_frame = False, ra_lock_timer = f0, ra_cmd_rx = 0, ra_agc = Fin True 60, ra_doppler = f0,
     ra_range_rate = f0, ra_bytes_tx = 0, ra_bytes_rx = 0, ra_cmd_timer = f0, ra_cmd_active = False, ra_antenna = False,
     ra_beacon = False, ra_rate_mode = 1, ra_tier = 1, ra_downlink = False, ra_antenna_ready = True, ra_antenna_sensor = 1,
     ra_timeout_counter = f0, ra_ber_offset = f0, ra_pa_heat = f0, ra_uplink_lost = False, ra_nf_degrade = f0, ra_modulation = 0,
     ra_coherent = False,
     ra_devices = [(0x0400, True), (0x0401, True), (0x0402, True), (0x0403, True), (0x0404, True)],
     ra_ground = \<lparr>gr_lna = f0, gr_mispoint = f0, gr_feed = f0, gr_rfi = f0, gr_hpa = f0, gr_osc = f0, gr_tracking = f0\<rparr>\<rparr>"

definition new_radio_edges :: radio_edges where
  "new_radio_edges = \<lparr>rd_carrier = False, rd_bit = False, rd_frame = False, rd_ranging = False, rd_pa_warning = False,
     rd_pa_shutdown = False, rd_margin_warning = False, rd_margin_critical = False, rd_ber = False, rd_mode = 0,
     rd_deployed_sent = False, rd_fault_sent = False, rd_agc = False, rd_uplink_timeout = False\<rparr>"

record 'r radio =
  rm_state :: radio_state
  rm_edges :: radio_edges
  rm_rng :: 'r
  rm_gain :: py_float
  rm_applied :: "nat option"
  rm_nominal_w :: py_float
  rm_ul_freq :: py_float
  rm_dl_freq :: py_float
  rm_was_contact :: bool

definition new_radio :: "'r \<Rightarrow> 'r radio" where
  "new_radio r = \<lparr>rm_state = new_radio_state, rm_edges = new_radio_edges, rm_rng = r, rm_gain = Fin False 3, rm_applied = None,
     rm_nominal_w = Fin False 2, rm_ul_freq = Fin False 449, rm_dl_freq = Fin False 2200500000, rm_was_contact = False\<rparr>"

abbreviation on_radio :: "(radio_state \<Rightarrow> radio_state) \<Rightarrow> 'r radio \<Rightarrow> 'r radio" where
  "on_radio f m \<equiv> m\<lparr>rm_state := f (rm_state m)\<rparr>"

definition radio_gauss :: "'r random_source \<Rightarrow> py_float \<Rightarrow> ('r radio, py_float) py" where
  "radio_gauss rg sigma m = (case rg_gauss rg sigma (rm_rng m) of (x, r) \<Rightarrow> (Inr x, m\<lparr>rm_rng := r\<rparr>))"

section \<open>Tiers\<close>

definition tier :: "radio_config \<Rightarrow> int \<Rightarrow> rate_tier" where
  "tier c k = rk_tiers c ! nat (max 0 (min (int (length (rk_tiers c)) - 1) k))"

definition tier_index :: "radio_config \<Rightarrow> string \<Rightarrow> nat option" where
  "tier_index c name = map_option fst (List.find (\<lambda>(i, t). upper (tr_name t) = upper (strip name)) (enumerate 0 (rk_tiers c)))"

definition tier_bps :: "radio_config \<Rightarrow> int \<Rightarrow> int" where
  "tier_bps c k = tr_bps (tier c k)"

definition tier_symbol_rate :: "radio_config \<Rightarrow> int \<Rightarrow> py_float" where
  "tier_symbol_rate c k = fquot (of_pyint (tr_bps (tier c k))) (of_pyint (bits_per_symbol (modulation_index (tr_modulation (tier c k)))))"

definition tier_occupied_bw_hz :: "radio_config \<Rightarrow> int \<Rightarrow> py_float \<Rightarrow> py_float" where
  "tier_occupied_bw_hz c k rolloff =
     (let coding = upper (tr_coding (tier c k)) in
      fmul (fmul (fmul (fmul (tier_symbol_rate c k)
        (if coding \<noteq> ''NONE'' then fquot (Fin False 255) (Fin False 223) else Fin False 1))
        (fquot (Fin False 1115) (Fin False 1107)))
        (if coding = ''CONV_RS'' then Fin False 2 else Fin False 1)) (fadd (Fin False 1) rolloff))"

text \<open>
  A tier by its name, its command code or its rate. An infinite number cannot be converted and raises; the
  other failures of \<open>int\<close> are no tier.
\<close>

definition tier_argument :: "radio_config \<Rightarrow> int \<Rightarrow> nat option" where
  "tier_argument c k =
     (case List.find (\<lambda>(i, t). k = or_else (tr_code t) (int i)) (enumerate 0 (rk_tiers c)) of
        Some (i, _) \<Rightarrow> Some i
      | None \<Rightarrow> map_option fst (List.find (\<lambda>(i, t). k = tr_bps t) (enumerate 0 (rk_tiers c))))"

definition decode_tier_arg :: "radio_config \<Rightarrow> pyval \<Rightarrow> nat option result" where
  "decode_tier_arg c v = (case v of
       VStr s \<Rightarrow> Inr (case tier_index c (strip s) of Some i \<Rightarrow> Some i
         | None \<Rightarrow> (case parse_int0 (strip s) of Some k \<Rightarrow> tier_argument c k | None \<Rightarrow> None))
     | _ \<Rightarrow> (case value_int v of Inr k \<Rightarrow> Inr (tier_argument c k)
         | Inl e \<Rightarrow> if e = OverflowError then Inl e else Inr None))"

text \<open>Why a tier may not be selected; \<open>None\<close> when it may.\<close>

definition tier_permission_error :: "radio_config \<Rightarrow> nat \<Rightarrow> radio_state \<Rightarrow> string option" where
  "tier_permission_error c i s =
     (if length (rk_tiers c) \<le> i then Some (''Invalid TM rate tier '' @ str_int (int i))
      else let t = rk_tiers c ! i; bps = '' ('' @ str_int (tr_bps t) @ '' bps)'' in
        if tr_beacon_only t \<and> \<not> ra_beacon s
        then Some (tr_name t @ '' is a bootloader/beacon-only tier'' @ bps @ ''; not selectable in nominal operations'')
        else if ra_beacon s \<and> \<not> tr_beacon_only t
        then Some (''TM rate is forced to the beacon tier in beacon mode ('' @ tr_name t @ '' refused)'')
        else if tr_requires_antenna t \<and> \<not> ra_antenna s then Some (tr_name t @ bps @ '' requires a deployed antenna'')
        else if tr_requires_downlink t \<and> \<not> ra_downlink s
        then Some (tr_name t @ bps @ '' requires DOWNLINK/dump mode (TTC_SET_DOWNLINK_MODE)'')
        else if fless f0 (tr_min_elevation t) \<and> ra_link_active s \<and> fless (ra_elevation s) (tr_min_elevation t)
        then Some (tr_name t @ bps @ '' requires elevation >= '' @ fmt_fixed 0 (tr_min_elevation t) @ '' deg (now '' @
          fmt_fixed 1 (ra_elevation s) @ '' deg)'')
        else None)"

text \<open>The first index at or below \<open>n\<close> that is not to be skipped, or 0.\<close>

fun walk_down :: "(nat \<Rightarrow> bool) \<Rightarrow> nat \<Rightarrow> nat" where
  "walk_down skip 0 = 0"
| "walk_down skip (Suc n) = (if skip (Suc n) then walk_down skip n else Suc n)"

definition effective_tier :: "radio_config \<Rightarrow> radio_state \<Rightarrow> nat" where
  "effective_tier c s =
     (if ra_beacon s then rk_beacon_tier c
      else let i0 = nat (max 0 (min (int (length (rk_tiers c)) - 1) (ra_rate_mode s)));
               i1 = walk_down (\<lambda>i. tr_beacon_only (rk_tiers c ! i)) i0;
               i2 = (if tr_beacon_only (rk_tiers c ! i1) then rk_safe_tier c else i1);
               i3 = walk_down (\<lambda>i. tier_permission_error c i s \<noteq> None) i2
           in if tier_permission_error c i3 s \<noteq> None then rk_safe_tier c else i3)"

text \<open>The modulation follows the tier only when the active tier changes.\<close>

definition apply_tier :: "radio_config \<Rightarrow> nat \<Rightarrow> 'r radio \<Rightarrow> 'r radio" where
  "apply_tier c i m =
     (let t = tier c (int i); changed = (rm_applied m \<noteq> Some i) in
      m\<lparr>rm_applied := Some i, rm_gain := or_else (tr_gain t) (rm_gain m),
        rm_state := (rm_state m)\<lparr>ra_tier := i, ra_data_rate := tr_bps t,
          ra_modulation := (if changed then modulation_index (tr_modulation t) else ra_modulation (rm_state m))\<rparr>\<rparr>)"

definition active_coding :: "radio_config \<Rightarrow> radio_state \<Rightarrow> string" where
  "active_coding c s = upper (tr_coding (tier c (int (ra_tier s))))"

definition active_symbol_rate :: "radio_state \<Rightarrow> py_float" where
  "active_symbol_rate s = fquot (of_pyint (ra_data_rate s)) (of_pyint (bits_per_symbol (ra_modulation s)))"

definition radio_configure :: "radio_config \<Rightarrow> 'r radio \<Rightarrow> 'r radio" where
  "radio_configure c m = apply_tier c (rk_default_tier c) (on_radio (\<lambda>s. s\<lparr>ra_rate_mode := int (rk_default_tier c),
     ra_tx_power := rm_nominal_w m\<rparr>) m)"

section \<open>Devices\<close>

definition radio_device_on :: "int \<Rightarrow> radio_state \<Rightarrow> bool" where
  "radio_device_on k s \<longleftrightarrow> map_of (ra_devices s) k \<noteq> Some False"

definition device_rx_available :: "radio_state \<Rightarrow> bool" where
  "device_rx_available s \<longleftrightarrow>
     (if ra_mode s = 0 then radio_device_on 0x0400 s else if ra_mode s = 1 then radio_device_on 0x0401 s else True)"

definition rx_available :: "radio_state \<Rightarrow> bool" where
  "rx_available s \<longleftrightarrow> \<not> (ra_primary_failed s \<and> ra_mode s = 0) \<and> \<not> (ra_redundant_failed s \<and> ra_mode s = 1) \<and> device_rx_available s"

definition radio_power_gates :: "radio_state \<Rightarrow> radio_state" where
  "radio_power_gates s = s\<lparr>ra_pa_on := (ra_pa_on s \<and> radio_device_on 0x0402 s)\<rparr>"

section \<open>Link budget\<close>

definition atmospheric_loss_at :: "libm \<Rightarrow> radio_config \<Rightarrow> py_float \<Rightarrow> py_float result" where
  "atmospheric_loss_at lm c el =
     (if fle (Fin False 30) el then Inr (rk_atmospheric c)
      else bind_result (lm_sin lm (radians (Fin False 30))) (\<lambda>top.
        bind_result (lm_sin lm (radians (fmax el (Fin False 1)))) (\<lambda>low. fdiv (fmul (rk_atmospheric c) top) low)))"

definition gt_derate_db :: "radio_config \<Rightarrow> py_float \<Rightarrow> py_float" where
  "gt_derate_db c el = (if fless el (Fin False 10) then rk_derate_10 c else if fless el (Fin False 30) then rk_derate_30 c else f0)"

definition free_space_loss :: "libm \<Rightarrow> py_float \<Rightarrow> py_float \<Rightarrow> py_float result" where
  "free_space_loss lm metres hz =
     bind_result (lm_log10 lm metres) (\<lambda>a. bind_result (lm_log10 lm hz) (\<lambda>b.
       Inr (fsub (fadd (fmul (Fin False 20) a) (fmul (Fin False 20) b)) (fl (14755 / 100)))))"

record link_margin =
  lk_fspl :: py_float
  lk_losses :: py_float
  lk_gt_eff :: py_float
  lk_c_n0 :: py_float
  lk_eb_n0 :: py_float
  lk_gain :: py_float
  lk_required :: py_float
  lk_margin :: py_float

definition link_margin_for :: "libm \<Rightarrow> radio_config \<Rightarrow> 'r radio \<Rightarrow> int \<Rightarrow> py_float \<Rightarrow> py_float \<Rightarrow> py_float option \<Rightarrow> link_margin result" where
  "link_margin_for lm c m k km el gs =
     (let t = tier c k in
      bind_result (free_space_loss lm (fmul (fmax km (fl (1 / 1000))) (Fin False 1000)) (rm_dl_freq m)) (\<lambda>fspl.
      bind_result (atmospheric_loss_at lm c el) (\<lambda>atm.
      bind_result (lm_log10 lm (of_pyint (tr_bps t))) (\<lambda>bw.
        let losses = fadd (fadd atm (rk_polarization c)) (rk_implementation c);
            gt = fsub (or_else gs (rk_gs_gt c)) (gt_derate_db c el);
            cn = fadd (fadd (fsub (fsub (fadd (rk_eirp c) (rk_sc_gain c)) fspl) losses) gt) (fl (2286 / 10));
            eb = fsub cn (fmul (Fin False 10) bw); gain = or_else (tr_gain t) (rm_gain m);
            required = fsub (fadd (rk_required_eb_n0 c) (modulation_penalty (modulation_index (tr_modulation t)))) gain
        in Inr \<lparr>lk_fspl = fspl, lk_losses = losses, lk_gt_eff = gt, lk_c_n0 = cn, lk_eb_n0 = eb, lk_gain = gain,
             lk_required = required, lk_margin = fsub eb required\<rparr>))))"

definition half_erfc :: "libm \<Rightarrow> py_float \<Rightarrow> py_float" where
  "half_erfc lm x = fmul (Fin False (1 / 2)) (lm_erfc lm x)"

definition ber_for_modulation :: "libm \<Rightarrow> int \<Rightarrow> py_float \<Rightarrow> py_float result" where
  "ber_for_modulation lm m x =
     (if fle x f0 then Inr (Fin False (1 / 2))
      else if m = 0 \<or> m = 1 \<or> m = 3 then bind_result (lm_sqrt lm x) (\<lambda>r.
        Inr (if fless (Fin False 5) r then fl (1 / 1000000000000) else half_erfc lm r))
      else if m = 2 then bind_result (lm_sqrt lm (fmul (fl (4 / 10)) x)) (\<lambda>r.
        Inr (if fless (Fin False 5) r then fl (1 / 1000000000000) else fmul (fquot (Fin False 2) (Fin False 3)) (lm_erfc lm r)))
      else bind_result (lm_sqrt lm x) (\<lambda>r. Inr (half_erfc lm r)))"

end
