(* ===== verification/Ttc_Tick.thy ===== *)
theory Ttc_Tick
  imports Ttc_Model Py_State
begin

text \<open>
  One tick of the radio (\<open>TTCBasicModel.tick\<close>), in the order of the code: power gates, availability,
  transmitter, command channel, geometry, active tier, locks, link budget, ranging, temperatures, events and
  published parameters. An exception leaves the changes made before it.
\<close>

record radio_orbit =
  ro_contact :: bool
  ro_elevation :: py_float
  ro_azimuth :: py_float
  ro_range :: py_float

abbreviation at_radio :: "(radio_state \<Rightarrow> radio_state) \<Rightarrow> ('r radio, unit) py" where
  "at_radio f \<equiv> modify (on_radio f)"

section \<open>Availability, transmitter and command channel\<close>

definition pass_override :: "params \<Rightarrow> bool" where
  "pass_override p \<longleftrightarrow> fbool (shared p 0x05FF f0)"

definition in_contact :: "radio_orbit \<Rightarrow> params \<Rightarrow> radio_state \<Rightarrow> bool" where
  "in_contact orbit p s \<longleftrightarrow> (ro_contact orbit \<or> pass_override p) \<and> rx_available s"

definition can_transmit :: "radio_state \<Rightarrow> bool" where
  "can_transmit s \<longleftrightarrow> ra_pa_on s \<and> \<not> ra_pa_shutdown s \<and> rx_available s"

definition transmit_step :: "py_float \<Rightarrow> radio_state \<Rightarrow> radio_state" where
  "transmit_step w s = s\<lparr>ra_tx_power := (if can_transmit s then w else f0)\<rparr>"

definition uplink_clock :: "py_float \<Rightarrow> bool \<Rightarrow> radio_state \<Rightarrow> radio_state" where
  "uplink_clock dt contact s = s\<lparr>ra_timeout_counter := (if contact \<and> ra_frame s then f0 else fadd (ra_timeout_counter s) dt)\<rparr>"

text \<open>While its timer runs, the command channel keeps an energised amplifier on.\<close>

definition channel_step :: "py_float \<Rightarrow> py_float \<Rightarrow> radio_state \<Rightarrow> radio_state" where
  "channel_step w dt s =
     (if \<not> ra_cmd_active s then s
      else let t = fsub (ra_cmd_timer s) dt in
        if fless f0 t
        then (if radio_device_on 0x0402 s then s\<lparr>ra_cmd_timer := t, ra_pa_on := True, ra_tx_power := w\<rparr> else s\<lparr>ra_cmd_timer := t\<rparr>)
        else s\<lparr>ra_cmd_timer := f0, ra_cmd_active := False\<rparr>)"

definition beacon_step :: "radio_config \<Rightarrow> radio_state \<Rightarrow> radio_state" where
  "beacon_step c s = (if ra_beacon s then s\<lparr>ra_rate_mode := int (rk_beacon_tier c)\<rparr> else s)"

text \<open>A pass that is only simulated has a fixed geometry.\<close>

definition geometry_step :: "radio_orbit \<Rightarrow> params \<Rightarrow> bool \<Rightarrow> radio_state \<Rightarrow> radio_state" where
  "geometry_step orbit p contact s =
     (if pass_override p \<and> \<not> ro_contact orbit
      then s\<lparr>ra_link_active := contact, ra_range := Fin False 500, ra_elevation := Fin False 45, ra_azimuth := Fin False 180\<rparr>
      else s\<lparr>ra_link_active := contact, ra_range := ro_range orbit, ra_elevation := ro_elevation orbit, ra_azimuth := ro_azimuth orbit\<rparr>)"

section \<open>Locks\<close>

definition rate_factor :: "int \<Rightarrow> py_float" where
  "rate_factor bps = (if bps \<le> 1000 then Fin False 3 else if 64000 \<le> bps then fl (7 / 10) else Fin False 1)"

definition lock_step :: "radio_config \<Rightarrow> py_float \<Rightarrow> bool \<Rightarrow> bool \<Rightarrow> radio_state \<Rightarrow> radio_state" where
  "lock_step c dt contact was s =
     (if contact \<and> fless f0 (ra_range s) \<and> \<not> ra_uplink_lost s \<and> radio_device_on 0x0403 s
      then let t = fadd (if was then ra_lock_timer s else f0) dt; reached = (\<lambda>d. fle (fmul (Fin False d) (rate_factor (rk_uplink_bps c))) t);
               carrier = reached 2; bits = (carrier \<and> reached 5)
           in s\<lparr>ra_lock_timer := t, ra_carrier := carrier, ra_bit := bits, ra_frame := (bits \<and> reached 10)\<rparr>
      else s\<lparr>ra_carrier := False, ra_bit := False, ra_frame := False, ra_lock_timer := f0\<rparr>)"

section \<open>Link budget\<close>

definition ground_penalty :: "ground_losses \<Rightarrow> py_float" where
  "ground_penalty g = fadd (fadd (fadd (fadd (fadd (fadd (gr_lna g) (gr_mispoint g)) (gr_feed g)) (gr_rfi g)) (gr_hpa g)) (gr_osc g)) (gr_tracking g)"

definition signal_level :: "libm \<Rightarrow> 'r random_source \<Rightarrow> radio_config \<Rightarrow> ('r radio, unit) py" where
  "signal_level lm rg c =
     bind_py (gets (\<lambda>m. free_space_loss lm (fmul (ra_range (rm_state m)) (Fin False 1000)) (rm_dl_freq m))) (\<lambda>r.
     bind_py (of_result r) (\<lambda>fspl.
     bind_py (radio_gauss rg (Fin False (1 / 2))) (\<lambda>g.
       at_radio (\<lambda>s. s\<lparr>ra_rssi := fadd (fadd (fsub (fadd (rk_eirp c) (rk_sc_gain c)) fspl) (Fin False 30)) g\<rparr>))))"

definition signal_to_noise :: "libm \<Rightarrow> 'r random_source \<Rightarrow> radio_config \<Rightarrow> ('r radio, unit) py" where
  "signal_to_noise lm rg c =
     bind_py (gets (\<lambda>m. m)) (\<lambda>m. let s = rm_state m in
     bind_py (of_result (lm_log10 lm (of_pyint (ra_data_rate s)))) (\<lambda>bw.
     bind_py (of_result (atmospheric_loss_at lm c (ra_elevation s))) (\<lambda>atm.
     bind_py (radio_gauss rg (fl (2 / 10))) (\<lambda>g.
     let gt = fsub (rk_gs_gt c) (gt_derate_db c (ra_elevation s));
         losses = fadd (fadd atm (rk_polarization c)) (rk_implementation c);
         cn = fadd (fadd (fsub (fsub (ra_rssi s) (Fin False 30)) losses) gt) (fl (2286 / 10));
         snr = fsub cn (fmul (Fin False 10) bw)
     in at_radio (\<lambda>s. s\<lparr>ra_eb_n0 := fadd (fsub (fsub (fsub (fadd snr (rm_gain m)) (ra_ber_offset s)) (ra_nf_degrade s))
          (ground_penalty (ra_ground s))) g\<rparr>)))))"

definition margin_step :: "'r random_source \<Rightarrow> radio_config \<Rightarrow> ('r radio, unit) py" where
  "margin_step rg c =
     bind_py (radio_gauss rg (fl (2 / 10))) (\<lambda>g.
       at_radio (\<lambda>s. let x = fadd (fsub (fsub (ra_eb_n0 s) (rk_required_eb_n0 c)) (modulation_penalty (ra_modulation s))) g in
         s\<lparr>ra_margin := (if ra_antenna s then x else fsub x (Fin False 6))\<rparr>))"

definition bit_error_step :: "libm \<Rightarrow> ('r radio, unit) py" where
  "bit_error_step lm =
     bind_py (gets rm_state) (\<lambda>s.
     bind_py (of_result (lm_pow lm (Fin False 10) (fquot (ra_eb_n0 s) (Fin False 10)))) (\<lambda>x.
     if fless f0 x
     then bind_py (of_result (ber_for_modulation lm (ra_modulation s) x)) (\<lambda>b.
          bind_py (of_result (lm_log10 lm (fmax b (fl (1 / 1000000000000))))) (\<lambda>y.
            at_radio (\<lambda>s. s\<lparr>ra_ber := fmax (Fin True 12) y\<rparr>)))
     else at_radio (\<lambda>s. s\<lparr>ra_ber := Fin True 1\<rparr>)))"

definition no_link :: "'r random_source \<Rightarrow> ('r radio, unit) py" where
  "no_link rg = bind_py (radio_gauss rg (Fin False (1 / 2))) (\<lambda>g. at_radio (\<lambda>s. s
     \<lparr>ra_rssi := fadd (Fin True 120) g, ra_margin := f0, ra_eb_n0 := f0, ra_ber := Fin True 10\<rparr>))"

text \<open>\<open>can\<close> is what the transmitter could do before the command channel acted.\<close>

definition link_step :: "libm \<Rightarrow> 'r random_source \<Rightarrow> radio_config \<Rightarrow> bool \<Rightarrow> bool \<Rightarrow> ('r radio, unit) py" where
  "link_step lm rg c contact can =
     bind_py (gets rm_state) (\<lambda>s.
       if contact \<and> can \<and> fless f0 (ra_range s) \<and> ra_frame s
       then seq_py (signal_level lm rg c) (seq_py (signal_to_noise lm rg c) (seq_py (margin_step rg c) (bit_error_step lm)))
       else no_link rg)"

section \<open>Gain control, Doppler and traffic\<close>

definition doppler_step :: "libm \<Rightarrow> 'r random_source \<Rightarrow> ('r radio, unit) py" where
  "doppler_step lm rg =
     bind_py (radio_gauss rg (fl (3 / 10))) (\<lambda>g1.
     seq_py (at_radio (\<lambda>s. s\<lparr>ra_agc := fadd (fadd (ra_rssi s) (Fin False 60)) g1\<rparr>))
     (bind_py (gets rm_state) (\<lambda>s.
      bind_py (of_result (lm_cos lm (radians (fmax f0 (ra_elevation s))))) (\<lambda>k.
      bind_py (radio_gauss rg (Fin False 5)) (\<lambda>g2.
      let v = fadd (fmul (fmul (Fin False 7500) k) (if fless (ra_elevation s) (Fin False 45) then Fin True 1 else Fin False 1)) g2 in
      seq_py (modify (\<lambda>m. on_radio (\<lambda>s. s\<lparr>ra_range_rate := v, ra_doppler := fquot (fmul (rm_dl_freq m) v) (Fin False 300000000)\<rparr>) m))
      (bind_py (radio_gauss rg (Fin False 2)) (\<lambda>g3. at_radio (\<lambda>s. s\<lparr>ra_doppler := fadd (ra_doppler s) g3\<rparr>))))))))"

definition traffic_step :: "radio_config \<Rightarrow> py_float \<Rightarrow> ('r radio, unit) py" where
  "traffic_step c dt =
     bind_py (gets rm_state) (\<lambda>s.
       let bits = (\<lambda>bps. trunc_float (fmul (fquot (of_pyint bps) (Fin False 8)) dt)) in
       if ra_frame s
       then bind_py (of_result (bits (ra_data_rate s))) (\<lambda>tx.
            seq_py (at_radio (\<lambda>s. s\<lparr>ra_bytes_tx := ra_bytes_tx s + tx\<rparr>))
            (bind_py (of_result (bits (rk_uplink_bps c))) (\<lambda>rx. at_radio (\<lambda>s. s\<lparr>ra_bytes_rx := ra_bytes_rx s + rx\<rparr>))))
       else ret ())"

definition ranging_step :: "bool \<Rightarrow> radio_state \<Rightarrow> radio_state" where
  "ranging_step contact s = s\<lparr>ra_ranging := (contact \<and> fless f0 (ra_range s) \<and> ra_frame s)\<rparr>"

definition pass_step :: "libm \<Rightarrow> 'r random_source \<Rightarrow> radio_config \<Rightarrow> py_float \<Rightarrow> bool \<Rightarrow> ('r radio, unit) py" where
  "pass_step lm rg c dt contact =
     bind_py (gets (\<lambda>m. m)) (\<lambda>m.
       if contact \<and> fless f0 (ra_range (rm_state m)) then seq_py (doppler_step lm rg) (traffic_step c dt)
       else at_radio (\<lambda>s. let s1 = s\<lparr>ra_agc := Fin True 120, ra_doppler := f0, ra_range_rate := f0\<rparr> in
         if \<not> contact \<and> rm_was_contact m then s1\<lparr>ra_bytes_tx := 0, ra_bytes_rx := 0\<rparr> else s1))"

section \<open>Temperatures\<close>

definition pa_limits :: "radio_config \<Rightarrow> radio_state \<Rightarrow> radio_state" where
  "pa_limits c s =
     (let s1 = (if fle (rk_pa_shutdown c) (ra_pa_temp s) then s\<lparr>ra_pa_shutdown := True, ra_pa_on := False\<rparr> else s) in
      if ra_pa_shutdown s1 \<and> fless (ra_pa_temp s1) (fsub (rk_pa_shutdown c) (Fin False 15)) then s1\<lparr>ra_pa_shutdown := False\<rparr> else s1)"

definition pa_thermal :: "'r random_source \<Rightarrow> radio_config \<Rightarrow> py_float \<Rightarrow> bool \<Rightarrow> ('r radio, unit) py" where
  "pa_thermal rg c dt contact =
     bind_py (gets rm_state) (\<lambda>s.
       let heat = fadd (fmul (if contact \<and> ra_pa_on s then Fin False 1 else fl (2 / 10)) (Fin False 5)) (ra_pa_heat s) in
       bind_py (of_result (fdiv (fsub (fadd (Fin False 25) (fmul heat (Fin False 2))) (ra_pa_temp s)) (rk_pa_tau c))) (\<lambda>rate.
       bind_py (radio_gauss rg (fl (3 / 100))) (\<lambda>g.
         seq_py (at_radio (\<lambda>s. s\<lparr>ra_pa_temp := fadd (ra_pa_temp s) (fadd (fmul rate dt) g)\<rparr>)) (at_radio (pa_limits c)))))"

definition transponder_thermal :: "'r random_source \<Rightarrow> py_float \<Rightarrow> bool \<Rightarrow> ('r radio, unit) py" where
  "transponder_thermal rg dt contact =
     bind_py (radio_gauss rg (fl (2 / 100))) (\<lambda>g. at_radio (\<lambda>s.
       let load = (if contact then Fin False 1 else fl (2 / 10));
           rate = fquot (fsub (fadd (Fin False 28) (fmul (Fin False 8) load)) (ra_xpdr_temp s)) (Fin False 300)
       in s\<lparr>ra_xpdr_temp := fadd (ra_xpdr_temp s) (fadd (fmul rate dt) g)\<rparr>))"

section \<open>Events\<close>

type_synonym radio_event = "int \<times> string"

definition raised :: "bool \<Rightarrow> int \<Rightarrow> string \<Rightarrow> radio_event list" where
  "raised b k text = (if b then [(k, text)] else [])"

definition edge_event :: "bool \<Rightarrow> bool \<Rightarrow> int \<Rightarrow> string \<Rightarrow> string \<Rightarrow> string \<Rightarrow> radio_event list" where
  "edge_event was now k what gained lost = (if now \<and> \<not> was then [(k, what @ gained)] else if was \<and> \<not> now then [(k + 1, what @ lost)] else [])"

text \<open>\<open>f'{x:.2e}'\<close>.\<close>

definition fmt_exp :: "py_float \<Rightarrow> string" where
  "fmt_exp x = (case x of
       Fin neg m \<Rightarrow>
         (let e0 = (if m = 0 then 0 else ilog10 m); k0 = round_even (m * pow10 (2 - e0));
              (k, e) = (if k0 = 1000 then (100, e0 + 1) else (k0, e0)); two = (\<lambda>n. (if n < 10 then ''0'' else []) @ str_int n)
          in (if neg then ''-'' else []) @ str_int (k div 100) @ ''.'' @ two (k mod 100) @ ''e'' @
             (if e < 0 then ''-'' else ''+'') @ two \<bar>e\<bar>)
     | Infinite neg \<Rightarrow> if neg then ''-inf'' else ''inf''
     | NaN \<Rightarrow> ''nan'')"

definition lock_events :: "radio_edges \<Rightarrow> radio_state \<Rightarrow> radio_event list" where
  "lock_events e s =
     edge_event (rd_carrier e) (ra_carrier s) 0x0500 ''Carrier lock'' '' acquired'' '' lost'' @
     edge_event (rd_bit e) (ra_bit s) 0x0502 ''Bit sync'' '' acquired'' '' lost'' @
     edge_event (rd_frame e) (ra_frame s) 0x0504 ''Frame sync'' '' acquired'' '' lost''"

definition margin_warning :: "radio_state \<Rightarrow> bool" where
  "margin_warning s \<longleftrightarrow> ra_link_active s \<and> fless (ra_eb_n0 s) (Fin False 6)"

definition margin_critical :: "radio_state \<Rightarrow> bool" where
  "margin_critical s \<longleftrightarrow> ra_link_active s \<and> fless (ra_eb_n0 s) (Fin False 3)"

definition pa_warning :: "radio_state \<Rightarrow> bool" where
  "pa_warning s \<longleftrightarrow> fless (Fin False 55) (ra_pa_temp s) \<and> \<not> ra_pa_shutdown s"

text \<open>The recovery looks at the warning as this tick has just set it.\<close>

definition level_events :: "radio_edges \<Rightarrow> radio_state \<Rightarrow> radio_event list" where
  "level_events e s =
     raised (margin_warning s \<and> \<not> rd_margin_warning e) 0x0506 (''Link margin warning: Eb/N0 = '' @ fmt_fixed 1 (ra_eb_n0 s) @ '' dB'') @
     raised (margin_critical s \<and> \<not> rd_margin_critical e) 0x0507 (''Link margin critical: Eb/N0 = '' @ fmt_fixed 1 (ra_eb_n0 s) @ '' dB'') @
     raised (pa_warning s \<and> \<not> rd_pa_warning e) 0x0508 (''PA overtemp warning: '' @ fmt_fixed 1 (ra_pa_temp s) @ ''C'') @
     raised (ra_pa_shutdown s \<and> \<not> rd_pa_shutdown e) 0x0509 (''PA overheat shutdown at '' @ fmt_fixed 1 (ra_pa_temp s) @ ''C'') @
     raised (pa_warning s \<and> fless (ra_pa_temp s) (Fin False 50) \<and> \<not> ra_pa_shutdown s) 0x050A ''PA temperature recovered''"

text \<open>Ten to a power below -5 is in range, so that the text of the error rate exists.\<close>

definition error_events :: "libm \<Rightarrow> radio_edges \<Rightarrow> radio_state \<Rightarrow> radio_event list" where
  "error_events lm e s =
     raised (ra_mode s \<noteq> rd_mode e) 0x050B (''Transponder switched to '' @ (if ra_mode s = 0 then ''primary'' else ''redundant'')) @
     raised (fless (ra_ber s) (Fin True 5) \<and> \<not> rd_ber e) 0x050C (''BER threshold exceeded: '' @
       (case lm_pow lm (Fin False 10) (ra_ber s) of Inr x \<Rightarrow> fmt_exp x | Inl _ \<Rightarrow> []))"

definition antenna_events :: "radio_edges \<Rightarrow> radio_state \<Rightarrow> radio_event list" where
  "antenna_events e s =
     raised (ra_antenna s \<and> \<not> rd_deployed_sent e) 0x050D ''Antenna deployment confirmed'' @
     raised (\<not> ra_antenna_ready s \<and> \<not> rd_fault_sent e) 0x050D ''Antenna deployment fault: pyro continuity or sensor failure'' @
     raised (ra_antenna_ready s \<and> rd_fault_sent e) 0x0512 ''Antenna deployment readiness recovered''"

definition agc_saturated :: "radio_state \<Rightarrow> bool" where
  "agc_saturated s \<longleftrightarrow> ra_link_active s \<and> fless f0 (ra_agc s)"

definition uplink_timeout :: "radio_state \<Rightarrow> bool" where
  "uplink_timeout s \<longleftrightarrow> fless (Fin False 300) (ra_timeout_counter s)"

definition uplink_events :: "radio_edges \<Rightarrow> radio_state \<Rightarrow> radio_event list" where
  "uplink_events e s =
     edge_event (rd_ranging e) (ra_ranging s) 0x050E ''Ranging'' '' acquired'' '' lost'' @
     raised (agc_saturated s \<and> \<not> rd_agc e) 0x0510 (''AGC saturation detected: '' @ fmt_fixed 1 (ra_agc s) @ '' dB'') @
     raised (uplink_timeout s \<and> \<not> rd_uplink_timeout e) 0x0511 ''Uplink timeout: no valid TC for 300.0s''"

definition ttc_events :: "libm \<Rightarrow> radio_edges \<Rightarrow> radio_state \<Rightarrow> radio_event list" where
  "ttc_events lm e s = lock_events e s @ level_events e s @ error_events lm e s @ antenna_events e s @ uplink_events e s"

definition new_edges :: "radio_edges \<Rightarrow> radio_state \<Rightarrow> radio_edges" where
  "new_edges e s = \<lparr>rd_carrier = ra_carrier s, rd_bit = ra_bit s, rd_frame = ra_frame s, rd_ranging = ra_ranging s,
     rd_pa_warning = pa_warning s, rd_pa_shutdown = ra_pa_shutdown s, rd_margin_warning = margin_warning s,
     rd_margin_critical = margin_critical s, rd_ber = fless (ra_ber s) (Fin True 5), rd_mode = ra_mode s,
     rd_deployed_sent = (rd_deployed_sent e \<or> ra_antenna s), rd_fault_sent = (\<not> ra_antenna_ready s), rd_agc = agc_saturated s,
     rd_uplink_timeout = uplink_timeout s\<rparr>"

section \<open>Published parameters\<close>

definition link_status :: "radio_state \<Rightarrow> int" where
  "link_status s = (if ra_frame s then 2 else if ra_carrier s then 1 else 0)"

definition ground_mask :: "ground_losses \<Rightarrow> int" where
  "ground_mask g = of_bool (fle (gr_mispoint g) f0 \<and> fle (gr_tracking g) f0) + 2 * of_bool (fle (gr_lna g) f0) +
     4 * of_bool (fle (gr_hpa g) f0) + 8 * of_bool (fle (gr_osc g) f0 \<and> fle (gr_feed g) f0)"

definition ttc_params :: "radio_config \<Rightarrow> 'r radio \<Rightarrow> (int \<times> py_float) list" where
  "ttc_params c m =
     (let s = rm_state m; p = (\<lambda>name d. or_else (rk_param_ids c name) d); i = of_pyint; b = flag_value in
      [(p ''ttc_mode'' 0x0500, i (ra_mode s)), (p ''link_status'' 0x0501, i (link_status s)), (p ''rssi'' 0x0502, ra_rssi s),
       (p ''link_margin'' 0x0503, ra_margin s), (p ''ul_freq'' 0x0504, rm_ul_freq m),
       (p ''dl_freq'' 0x0505, fquot (rm_dl_freq m) (Fin False 1000000)), (p ''tm_data_rate'' 0x0506, i (ra_data_rate s)),
       (p ''xpdr_temp'' 0x0507, ra_xpdr_temp s), (p ''ranging_status'' 0x0508, b (ra_ranging s)), (p ''range_km'' 0x0509, ra_range s),
       (p ''contact_elevation'' 0x050A, ra_elevation s), (p ''contact_az'' 0x050B, ra_azimuth s), (p ''ber'' 0x050C, ra_ber s),
       (p ''tx_fwd_power'' 0x050D, ra_tx_power s), (p ''pa_temp'' 0x050F, ra_pa_temp s), (p ''carrier_lock'' 0x0510, b (ra_carrier s)),
       (p ''bit_sync'' 0x0511, b (ra_bit s)), (p ''frame_sync'' 0x0512, b (ra_frame s)), (p ''cmd_rx_count'' 0x0513, i (ra_cmd_rx s)),
       (p ''pa_on'' 0x0516, b (ra_pa_on s)), (p ''eb_n0'' 0x0519, ra_eb_n0 s), (0x051A, ra_agc s), (0x051B, ra_doppler s),
       (0x051C, ra_range_rate s), (0x051D, Fin False 1), (0x051E, i (ra_bytes_tx s)), (0x051F, i (ra_bytes_rx s)),
       (0x0520, b (ra_antenna s)), (0x0521, b (ra_beacon s)), (0x0522, ra_cmd_timer s), (0x0535, b (ra_antenna_ready s)),
       (0x0536, i (ra_antenna_sensor s)), (0x0537, i (ra_modulation s)), (0x0539, i (int (ra_tier s))), (0x053A, i (ra_rate_mode s)),
       (0x053B, active_symbol_rate s), (0x053C, b (ra_downlink s)), (0x0538, ground_penalty (ra_ground s)),
       (0x0524, i (ground_mask (ra_ground s)))])"

section \<open>The tick\<close>

definition before_lock :: "radio_config \<Rightarrow> py_float \<Rightarrow> radio_orbit \<Rightarrow> params \<Rightarrow> bool \<Rightarrow> py_float \<Rightarrow> radio_state \<Rightarrow> radio_state" where
  "before_lock c dt orbit p contact w s =
     geometry_step orbit p contact (beacon_step c (channel_step w dt (uplink_clock dt contact (transmit_step w s))))"

definition ttc_tick :: "libm \<Rightarrow> 'r random_source \<Rightarrow> radio_config \<Rightarrow> py_float \<Rightarrow> radio_orbit \<Rightarrow> params \<Rightarrow> ('r radio, radio_event list \<times> params) py" where
  "ttc_tick lm rg c dt orbit p =
     seq_py (at_radio radio_power_gates)
     (bind_py (gets (\<lambda>m. m)) (\<lambda>m.
      let contact = in_contact orbit p (rm_state m); can = can_transmit (rm_state m) in
      seq_py (modify (\<lambda>m. on_radio (before_lock c dt orbit p contact (rm_nominal_w m)) m))
      (seq_py (modify (\<lambda>m. apply_tier c (effective_tier c (rm_state m)) m))
      (seq_py (at_radio (lock_step c dt contact (rm_was_contact m)))
      (seq_py (link_step lm rg c contact can)
      (seq_py (at_radio (ranging_step contact))
      (seq_py (pass_step lm rg c dt contact)
      (seq_py (pa_thermal rg c dt contact)
      (seq_py (transponder_thermal rg dt contact)
      (bind_py (gets (\<lambda>m. ttc_events lm (rm_edges m) (rm_state m))) (\<lambda>evs.
       seq_py (modify (\<lambda>m. m\<lparr>rm_edges := new_edges (rm_edges m) (rm_state m), rm_was_contact := contact\<rparr>))
         (gets (\<lambda>m. (evs, write_params (ttc_params c m) p))))))))))))))"

end
