(* ===== verification/Ttc_Commands.thy ===== *)
theory Ttc_Commands
  imports Ttc_Tick
begin

text \<open>
  The commands, device switches and failures of the radio (\<open>handle_command\<close>, \<open>record_cmd_received\<close>,
  \<open>inject_failure\<close>, \<open>clear_failure\<close>, \<open>set_device_state\<close>, \<open>get_state\<close> of
  \<open>smo_simulator/models/ttc_basic.py\<close>).
\<close>

section \<open>Rate tiers\<close>

definition with_code :: "int \<Rightarrow> reply \<Rightarrow> reply" where
  "with_code k r = r\<lparr>rp_error_code := Some k\<rparr>"

definition join_commas :: "string list \<Rightarrow> string" where
  "join_commas xs = (case xs of [] \<Rightarrow> [] | x # xs \<Rightarrow> x @ concat (map (\<lambda>y. '', '' @ y) xs))"

definition tier_list :: "radio_config \<Rightarrow> string" where
  "tier_list c = join_commas (map (\<lambda>(i, t). str_int (int i) @ ''='' @ tr_name t @ ''('' @ str_int (tr_bps t) @ '' bps)'') (enumerate 0 (rk_tiers c)))"

definition tier_reply :: "radio_config \<Rightarrow> nat \<Rightarrow> radio_state \<Rightarrow> reply" where
  "tier_reply c i s =
     (let t = tier c (int i) in accepted\<lparr>rp_fields := [''data_rate_mode'' \<mapsto> VInt (int i), ''tier'' \<mapsto> VStr (tr_name t),
        ''tier_index'' \<mapsto> VInt (int i), ''modulation'' \<mapsto> VStr (tr_modulation t), ''coding'' \<mapsto> VStr (tr_coding t),
        ''symbol_rate_bd'' \<mapsto> VFloat (tier_symbol_rate c (int i)), ''tm_data_rate'' \<mapsto> VInt (ra_data_rate s)]\<rparr>)"

text \<open>\<open>rp\<close> is Python's \<open>repr\<close> of the argument in the message of a refusal.\<close>

definition set_tm_rate :: "(pyval \<Rightarrow> pytext) \<Rightarrow> radio_config \<Rightarrow> pyval \<Rightarrow> ('r radio, reply) py" where
  "set_tm_rate rp c raw =
     bind_py (of_result (decode_tier_arg c raw)) (\<lambda>x. case x of
       None \<Rightarrow> ret (with_code 3 (refused (py ''Invalid TM rate/tier '' @ rp raw @ py (''. Valid: '' @ tier_list c))))
     | Some i \<Rightarrow> bind_py (gets (\<lambda>m. tier_permission_error c i (rm_state m))) (\<lambda>why. case why of
         Some text \<Rightarrow> ret (with_code 7 (refused (py text)))
       | None \<Rightarrow> seq_py (modify (\<lambda>m. apply_tier c i (on_radio (\<lambda>s. s\<lparr>ra_rate_mode := int i\<rparr>) m)))
           (gets (\<lambda>m. tier_reply c i (rm_state m)))))"

section \<open>Amplifier and frequencies\<close>

definition command_channel_start :: "radio_state \<Rightarrow> radio_state" where
  "command_channel_start s = s\<lparr>ra_cmd_timer := Fin False 900, ra_cmd_active := True, ra_pa_on := True\<rparr>"

definition power_watts :: "radio_config \<Rightarrow> int \<Rightarrow> py_float option" where
  "power_watts c k = (if k = 0 then Some (Fin False 1) else if k = 1 then Some (Fin False 2) else if k = 2 then Some (rk_pa_max_w c) else None)"

definition set_tx_power :: "radio_config \<Rightarrow> command \<Rightarrow> ('r radio, reply) py" where
  "set_tx_power c cd =
     (if map_of cd ''level'' \<noteq> None
      then bind_py (of_result (arg_int cd ''level'' 1)) (\<lambda>k. case power_watts c k of
          None \<Rightarrow> ret (with_code 3 (refused (py (''Unknown TX power level '' @ str_int k @ '' (0=LOW 1 W, 1=NOMINAL 2 W, 2=HIGH 5 W)''))))
        | Some w \<Rightarrow> seq_py (modify (\<lambda>m. (on_radio (\<lambda>s. s\<lparr>ra_power_level := k\<rparr>) m)\<lparr>rm_nominal_w := w\<rparr>))
            (ret (accepted\<lparr>rp_fields := [''power_w'' \<mapsto> VFloat w]\<rparr>)))
      else bind_py (gets (\<lambda>m. arg_float cd ''power_w'' (rm_nominal_w m))) (\<lambda>r. bind_py (of_result r) (\<lambda>w.
        if fless f0 w \<and> fle w (rk_pa_max_w c) then seq_py (modify (\<lambda>m. m\<lparr>rm_nominal_w := w\<rparr>)) (ret accepted)
        else ret (with_code 3 (refused (py ''Power out of range''))))))"

text \<open>The dash of the messages is not ASCII.\<close>

definition band_text :: "string \<Rightarrow> string \<Rightarrow> string \<Rightarrow> pytext" where
  "band_text what lo hi = py (what @ '' frequency out of range ('' @ lo) @ [0x2013] @ py (hi @ '' MHz, S-band)'')"

definition set_ul_freq :: "command \<Rightarrow> ('r radio, reply) py" where
  "set_ul_freq cd = bind_py (gets (\<lambda>m. arg_float cd ''freq_mhz'' (rm_ul_freq m))) (\<lambda>r. bind_py (of_result r) (\<lambda>x.
     if between (Fin False 2025) (Fin False 2110) x then seq_py (modify (\<lambda>m. m\<lparr>rm_ul_freq := x\<rparr>)) (ret accepted)
     else ret (refused (band_text ''Uplink'' ''2025'' ''2110''))))"

definition set_dl_freq :: "command \<Rightarrow> ('r radio, reply) py" where
  "set_dl_freq cd = bind_py (gets (\<lambda>m. arg_float cd ''freq_mhz'' (fquot (rm_dl_freq m) (Fin False 1000000)))) (\<lambda>r. bind_py (of_result r) (\<lambda>x.
     if between (Fin False 2200) (Fin False 2290) x
     then seq_py (modify (\<lambda>m. m\<lparr>rm_dl_freq := fmul x (Fin False 1000000)\<rparr>)) (ret accepted)
     else ret (refused (band_text ''Downlink'' ''2200'' ''2290''))))"

definition set_modulation :: "command \<Rightarrow> ('r radio, reply) py" where
  "set_modulation cd = bind_py (of_result (arg_int cd ''mode'' 0)) (\<lambda>k.
     if k < 0 \<or> 3 < k
     then ret (refused (py (''Invalid modulation mode '' @ str_int k @ ''. Valid: 0=BPSK, 1=QPSK, 2=8PSK, 3=OQPSK'')))
     else seq_py (at_radio (\<lambda>s. s\<lparr>ra_modulation := k\<rparr>))
       (gets (\<lambda>m. accepted\<lparr>rp_fields := [''modulation'' \<mapsto> VStr (MODULATION_NAMES ! nat k),
          ''data_rate_bps'' \<mapsto> VInt (ra_data_rate (rm_state m)), ''symbol_rate_bd'' \<mapsto> VFloat (active_symbol_rate (rm_state m))]\<rparr>)))"

definition deploy_antennas :: "radio_state \<Rightarrow> reply \<times> radio_state" where
  "deploy_antennas s =
     (if \<not> radio_device_on 0x0404 s then (refused (py ''Antenna drive (device 0x0404) is powered off''), s)
      else if \<not> ra_antenna_ready s then (refused (py ''Antenna deployment not ready (pyro continuity or sensor fault)''), s)
      else (accepted, s\<lparr>ra_antenna := True, ra_antenna_sensor := 2\<rparr>))"

section \<open>Commands\<close>

text \<open>A command that only looks at and changes the state, and cannot raise.\<close>

definition on_state :: "(radio_state \<Rightarrow> reply \<times> radio_state) \<Rightarrow> ('r radio, reply) py" where
  "on_state f m = (case f (rm_state m) of (r, s) \<Rightarrow> (Inr r, m\<lparr>rm_state := s\<rparr>))"

definition always :: "(radio_state \<Rightarrow> radio_state) \<Rightarrow> ('r radio, reply) py" where
  "always f = on_state (\<lambda>s. (accepted, f s))"

definition unless_failed :: "bool \<Rightarrow> string \<Rightarrow> (radio_state \<Rightarrow> radio_state) \<Rightarrow> radio_state \<Rightarrow> reply \<times> radio_state" where
  "unless_failed b text f s = (if b then (refused (py text), s) else (accepted, f s))"

definition ttc_command :: "(pyval \<Rightarrow> pytext) \<Rightarrow> radio_config \<Rightarrow> string \<Rightarrow> command \<Rightarrow> ('r radio, reply) py" where
  "ttc_command rp c name cd =
     (let default = VInt (int (rk_default_tier c)) in
      if name = ''switch_redundant'' then on_state (\<lambda>s. unless_failed (ra_redundant_failed s) ''Redundant XPDR failed'' (\<lambda>s. s\<lparr>ra_mode := 1\<rparr>) s)
      else if name = ''switch_primary'' then on_state (\<lambda>s. unless_failed (ra_primary_failed s) ''Primary XPDR failed'' (\<lambda>s. s\<lparr>ra_mode := 0\<rparr>) s)
      else if name = ''set_tm_rate'' then set_tm_rate rp c (arg cd ''rate'' default)
      else if name = ''set_data_rate_mode'' then set_tm_rate rp c (arg cd ''mode'' default)
      else if name = ''set_downlink_mode'' then (let on = arg_bool cd ''on'' True in
        on_state (\<lambda>s. (accepted\<lparr>rp_fields := [''downlink_mode'' \<mapsto> VBool on]\<rparr>, s\<lparr>ra_downlink := on\<rparr>)))
      else if name = ''pa_on'' then on_state (\<lambda>s. unless_failed (ra_pa_shutdown s) ''PA shutdown due to overheat, wait for cooldown''
        (\<lambda>s. s\<lparr>ra_pa_on := True\<rparr>) s)
      else if name = ''pa_off'' then always (\<lambda>s. s\<lparr>ra_pa_on := False, ra_tx_power := f0\<rparr>)
      else if name = ''set_tx_power'' then set_tx_power c cd
      else if name = ''cmd_channel_start'' then always command_channel_start
      else if name = ''deploy_antennas'' then on_state deploy_antennas
      else if name = ''set_beacon_mode'' then always (\<lambda>s. s\<lparr>ra_beacon := arg_bool cd ''on'' True\<rparr>)
      else if name = ''set_ul_freq'' then set_ul_freq cd
      else if name = ''set_dl_freq'' then set_dl_freq cd
      else if name = ''set_modulation'' then set_modulation cd
      else if name = ''set_rx_gain'' then bind_py (of_result (arg_float cd ''agc_db'' (Fin True 60))) (\<lambda>x.
        if between (Fin True 100) f0 x then always (\<lambda>s. s\<lparr>ra_agc := x\<rparr>) else ret (refused (py ''AGC target out of range'')))
      else if name = ''ranging_start'' then on_state (\<lambda>s. unless_failed (\<not> (ra_link_active s \<and> ra_frame s))
        ''Link must be active with frame sync'' (\<lambda>s. s\<lparr>ra_ranging := True\<rparr>) s)
      else if name = ''ranging_stop'' then always (\<lambda>s. s\<lparr>ra_ranging := False\<rparr>)
      else if name = ''set_coherent_mode'' then always (\<lambda>s. s\<lparr>ra_coherent := arg_bool cd ''on'' True\<rparr>)
      else ret (refused (py (''Unknown: '' @ name))))"

definition ttc_handle :: "(pyval \<Rightarrow> pytext) \<Rightarrow> radio_config \<Rightarrow> command \<Rightarrow> ('r radio, reply) py" where
  "ttc_handle rp c cd = ttc_command rp c (command_name cd) cd"

definition record_cmd_received :: "radio_state \<Rightarrow> radio_state" where
  "record_cmd_received s = (if ra_uplink_lost s then s else s\<lparr>ra_cmd_rx := ra_cmd_rx s + 1\<rparr>)"

definition radio_set_device :: "int \<Rightarrow> bool \<Rightarrow> radio_state \<Rightarrow> bool \<times> radio_state" where
  "radio_set_device k on s = (case map_of (ra_devices s) k of None \<Rightarrow> (False, s)
     | Some _ \<Rightarrow> (True, s\<lparr>ra_devices := AList.update k on (ra_devices s)\<rparr>))"

definition radio_get_device :: "int \<Rightarrow> radio_state \<Rightarrow> bool" where
  "radio_get_device k s \<longleftrightarrow> map_of (ra_devices s) k = Some True"

definition radio_telemetry :: "radio_state \<Rightarrow> (int \<times> py_float) list" where
  "radio_telemetry s = [(0x0501, flag_value (ra_link_active s)), (0x0502, ra_rssi s)]"

section \<open>Failures\<close>

text \<open>The penalty of a failure of the ground station, per unit of magnitude.\<close>

definition ground_failure :: "string \<Rightarrow> py_float \<Rightarrow> ground_losses \<Rightarrow> ground_losses" where
  "ground_failure failure mag g =
     (let x = (\<lambda>k. fmul mag (Fin False k)) in
      if failure = ''gs_lna_degradation'' then g\<lparr>gr_lna := x 6\<rparr>
      else if failure = ''gs_antenna_mispoint'' then g\<lparr>gr_mispoint := x 10\<rparr>
      else if failure = ''gs_feed_loss'' then g\<lparr>gr_feed := x 4\<rparr>
      else if failure = ''gs_rfi_interference'' then g\<lparr>gr_rfi := x 8\<rparr>
      else if failure = ''gs_hpa_degradation'' then g\<lparr>gr_hpa := x 5\<rparr>
      else if failure = ''gs_ref_osc_drift'' then g\<lparr>gr_osc := x 3\<rparr>
      else if failure = ''gs_tracking_loss'' then g\<lparr>gr_tracking := x 15\<rparr>
      else g)"

definition inject_radio :: "string \<Rightarrow> py_float \<Rightarrow> command \<Rightarrow> radio_state \<Rightarrow> radio_state result" where
  "inject_radio failure mag c s =
     (if failure = ''primary_failure'' then Inr (s\<lparr>ra_primary_failed := fbool mag,
        ra_link_active := (ra_link_active s \<and> \<not> (fbool mag \<and> ra_mode s = 0))\<rparr>)
      else if failure = ''redundant_failure'' then Inr (s\<lparr>ra_redundant_failed := fbool mag\<rparr>)
      else if failure = ''high_ber'' then bind_result (arg_float c ''offset'' (fmul mag (Fin False 10))) (\<lambda>x. Inr (s\<lparr>ra_ber_offset := x\<rparr>))
      else if failure = ''pa_overheat'' then bind_result (arg_float c ''heat_w'' (Fin False 20)) (\<lambda>x. Inr (s\<lparr>ra_pa_heat := x\<rparr>))
      else if failure = ''uplink_loss'' then Inr (s\<lparr>ra_uplink_lost := True, ra_carrier := False\<rparr>)
      else if failure = ''receiver_degrade'' then bind_result (arg_float c ''nf_db'' (fmul mag (Fin False 5))) (\<lambda>x. Inr (s\<lparr>ra_nf_degrade := x\<rparr>))
      else if failure = ''antenna_deploy_failed'' then Inr (s\<lparr>ra_antenna := False, ra_antenna_ready := False, ra_antenna_sensor := 3\<rparr>)
      else Inr (s\<lparr>ra_ground := ground_failure failure mag (ra_ground s)\<rparr>))"

definition clear_radio :: "string \<Rightarrow> radio_state \<Rightarrow> radio_state" where
  "clear_radio failure s =
     (if failure = ''primary_failure'' then s\<lparr>ra_primary_failed := False\<rparr>
      else if failure = ''redundant_failure'' then s\<lparr>ra_redundant_failed := False\<rparr>
      else if failure = ''high_ber'' then s\<lparr>ra_ber_offset := f0\<rparr>
      else if failure = ''pa_overheat'' then s\<lparr>ra_pa_heat := f0\<rparr>
      else if failure = ''uplink_loss'' then s\<lparr>ra_uplink_lost := False\<rparr>
      else if failure = ''receiver_degrade'' then s\<lparr>ra_nf_degrade := f0\<rparr>
      else if failure = ''antenna_deploy_failed'' then s\<lparr>ra_antenna_ready := True, ra_antenna_sensor := 1\<rparr>
      else s\<lparr>ra_ground := ground_failure failure f0 (ra_ground s)\<rparr>)"

section \<open>Breakpoints\<close>

text \<open>The snapshot holds the fields of \<open>TTCState\<close>; the other attributes of the model stay as they are.\<close>

definition radio_get_state :: "'r radio \<Rightarrow> radio_state \<times> radio_edges \<times> 'r" where
  "radio_get_state m = (rm_state m, rm_edges m, rm_rng m)"

definition radio_set_state :: "radio_state \<times> radio_edges \<times> 'r option \<Rightarrow> 'r radio \<Rightarrow> 'r radio" where
  "radio_set_state st m = (case st of (s, e, r) \<Rightarrow> let f = rm_edges m in m
     \<lparr>rm_state := s, rm_rng := or_else r (rm_rng m),
      rm_edges := e\<lparr>rd_deployed_sent := rd_deployed_sent f, rd_fault_sent := rd_fault_sent f, rd_agc := rd_agc f,
        rd_uplink_timeout := rd_uplink_timeout f\<rparr>\<rparr>)"

end
