(* ===== verification/Ttc_Rules.thy ===== *)
theory Ttc_Rules
  imports Ttc_Commands Py_Total
begin

text \<open>
  What the radio guarantees: the telemetry rate on air is the commanded one whenever the spacecraft may use
  it, and otherwise the best one below it; the locks are acquired in order and only on a live uplink; and an
  amplifier that shut itself down for heat stays off, unless the command channel forces it on.
\<close>

section \<open>What the end of a tick leaves alone\<close>

text \<open>Everything the permissions, the tiers and the locks look at.\<close>

definition same_gates :: "'r radio \<Rightarrow> 'r radio \<Rightarrow> bool" where
  "same_gates m m' \<longleftrightarrow> (let s = rm_state m; s' = rm_state m' in
     ra_carrier s' = ra_carrier s \<and> ra_bit s' = ra_bit s \<and> ra_frame s' = ra_frame s \<and> ra_beacon s' = ra_beacon s \<and>
     ra_antenna s' = ra_antenna s \<and> ra_downlink s' = ra_downlink s \<and> ra_link_active s' = ra_link_active s \<and>
     ra_elevation s' = ra_elevation s \<and> ra_tier s' = ra_tier s \<and> ra_data_rate s' = ra_data_rate s \<and> ra_rate_mode s' = ra_rate_mode s \<and>
     ra_uplink_lost s' = ra_uplink_lost s \<and> ra_devices s' = ra_devices s)"

interpretation sg: py_frame same_gates
  by unfold_locales (auto simp: same_gates_def Let_def)

text \<open>The amplifier is off while it is latched, and the command channel is idle.\<close>

definition cool :: "radio_state \<Rightarrow> bool" where
  "cool s \<longleftrightarrow> \<not> ra_cmd_active s \<and> (ra_pa_shutdown s \<longrightarrow> \<not> ra_pa_on s)"

definition stays_cool :: "'r radio \<Rightarrow> 'r radio \<Rightarrow> bool" where
  "stays_cool m m' \<longleftrightarrow> (cool (rm_state m) \<longrightarrow> cool (rm_state m'))"

interpretation co: py_frame stays_cool
  by unfold_locales (auto simp: stays_cool_def)

named_theorems gate_rules \<open>steps at the end of a tick that leave the gates alone\<close>
named_theorems cool_rules \<open>steps that keep the amplifier off while it is latched\<close>

lemma on_radio_gates: "(\<And>m. same_gates m (f m)) \<Longrightarrow> rel_py same_gates (modify f)"
  by (rule sg.rel_modify)

lemma on_radio_cool: "(\<And>m. stays_cool m (f m)) \<Longrightarrow> rel_py stays_cool (modify f)"
  by (rule co.rel_modify)

lemma gauss_rules [gate_rules]: "rel_py same_gates (radio_gauss rg x)"
  and [cool_rules]: "rel_py stays_cool (radio_gauss rg x)"
  by (auto simp: rel_py_def radio_gauss_def same_gates_def stays_cool_def Let_def split: prod.split)

lemma link_gates [gate_rules]:
  "rel_py same_gates (link_step lm rg c contact can)"
  unfolding link_step_def signal_level_def signal_to_noise_def margin_step_def bit_error_step_def no_link_def Let_def
  by (intro sg.frame_rules on_radio_gates gate_rules allI; simp add: same_gates_def Let_def)

lemma link_cool [cool_rules]:
  "rel_py stays_cool (link_step lm rg c contact can)"
  unfolding link_step_def signal_level_def signal_to_noise_def margin_step_def bit_error_step_def no_link_def Let_def
  by (intro co.frame_rules on_radio_cool cool_rules allI; simp add: stays_cool_def cool_def Let_def)

lemma pass_gates [gate_rules]: "rel_py same_gates (pass_step lm rg c dt contact)"
  unfolding pass_step_def doppler_step_def traffic_step_def Let_def
  by (intro sg.frame_rules on_radio_gates gate_rules allI; simp add: same_gates_def Let_def)

lemma pass_cool [cool_rules]: "rel_py stays_cool (pass_step lm rg c dt contact)"
  unfolding pass_step_def doppler_step_def traffic_step_def Let_def
  by (intro co.frame_rules on_radio_cool cool_rules allI; simp add: stays_cool_def cool_def Let_def)

lemma thermal_gates [gate_rules]: "rel_py same_gates (pa_thermal rg c dt contact)" "rel_py same_gates (transponder_thermal rg dt contact)"
  unfolding pa_thermal_def transponder_thermal_def Let_def
  by (intro sg.frame_rules on_radio_gates gate_rules allI; simp add: same_gates_def pa_limits_def Let_def)+

lemma thermal_cool [cool_rules]: "rel_py stays_cool (pa_thermal rg c dt contact)" "rel_py stays_cool (transponder_thermal rg dt contact)"
  unfolding pa_thermal_def transponder_thermal_def Let_def
  by (intro co.frame_rules on_radio_cool cool_rules allI; simp add: stays_cool_def cool_def pa_limits_def Let_def)+

lemma start_cool: "stays_cool m (on_radio (before_lock c dt orbit p contact w) m)"
  by (simp add: stays_cool_def before_lock_def geometry_step_def beacon_step_def channel_step_def uplink_clock_def transmit_step_def
      cool_def Let_def)

lemma tier_cool: "stays_cool m (apply_tier c i m)"
  by (simp add: stays_cool_def apply_tier_def cool_def Let_def)

lemma tick_cool: "rel_py stays_cool (ttc_tick lm rg c dt orbit p)"
  unfolding ttc_tick_def Let_def
  by (intro co.frame_rules on_radio_cool cool_rules allI start_cool tier_cool;
      simp add: stays_cool_def cool_def radio_power_gates_def lock_step_def ranging_step_def Let_def)

text \<open>The state when the locks have been looked at.\<close>

definition locked :: "radio_config \<Rightarrow> py_float \<Rightarrow> radio_orbit \<Rightarrow> params \<Rightarrow> 'r radio \<Rightarrow> 'r radio" where
  "locked c dt orbit p m =
     (let g = on_radio radio_power_gates m; contact = in_contact orbit p (rm_state g);
          b = on_radio (before_lock c dt orbit p contact (rm_nominal_w g)) g
      in on_radio (lock_step c dt contact (rm_was_contact g)) (apply_tier c (effective_tier c (rm_state b)) b))"

lemma tick_gates: "ttc_tick lm rg c dt orbit p m = (r, m') \<Longrightarrow> same_gates (locked c dt orbit p m) m'"
proof -
  assume run: "ttc_tick lm rg c dt orbit p m = (r, m')"
  let ?contact = "in_contact orbit p (rm_state (on_radio radio_power_gates m))"
  let ?rest = "seq_py (link_step lm rg c ?contact (can_transmit (rm_state (on_radio radio_power_gates m))))
      (seq_py (at_radio (ranging_step ?contact))
      (seq_py (pass_step lm rg c dt ?contact)
      (seq_py (pa_thermal rg c dt ?contact)
      (seq_py (transponder_thermal rg dt ?contact)
      (bind_py (gets (\<lambda>m. ttc_events lm (rm_edges m) (rm_state m))) (\<lambda>evs.
       seq_py (modify (\<lambda>m. m\<lparr>rm_edges := new_edges (rm_edges m) (rm_state m), rm_was_contact := ?contact\<rparr>))
         (gets (\<lambda>m. (evs, write_params (ttc_params c m) p)))))))))"
  have "rel_py same_gates ?rest"
    by (intro sg.frame_rules on_radio_gates gate_rules allI; simp add: same_gates_def ranging_step_def Let_def)
  moreover have "?rest (locked c dt orbit p m) = (r, m')"
    using run by (simp add: ttc_tick_def locked_def Let_def)
  ultimately show ?thesis by (rule rel_pyD)
qed

section \<open>Tiers\<close>

lemma walk_down_le: "walk_down skip n \<le> n"
  by (induction n) auto


lemma walk_down_result: "walk_down skip n = 0 \<or> \<not> skip (walk_down skip n)"
  by (induction n) auto

lemma walk_down_skipped: "walk_down skip n < k \<Longrightarrow> k \<le> n \<Longrightarrow> skip k"
  by (induction n) (auto split: if_splits simp: le_Suc_eq)




text \<open>What a tick decides, seen in the state it leaves.\<close>

lemma permission_same: "same_gates m m' \<Longrightarrow> tier_permission_error c i (rm_state m') = tier_permission_error c i (rm_state m)"
  by (simp add: same_gates_def tier_permission_error_def Let_def)







section \<open>Locks\<close>

lemma before_lock_gates:
  "ra_link_active (before_lock c dt orbit p contact w s) = contact" "ra_devices (before_lock c dt orbit p contact w s) = ra_devices s"
  "ra_uplink_lost (before_lock c dt orbit p contact w s) = ra_uplink_lost s"
  by (simp_all add: before_lock_def geometry_step_def beacon_step_def channel_step_def uplink_clock_def transmit_step_def Let_def)

lemma locked_order:
  "(ra_frame (rm_state (locked c dt orbit p m)) \<longrightarrow> ra_bit (rm_state (locked c dt orbit p m))) \<and>
   (ra_bit (rm_state (locked c dt orbit p m)) \<longrightarrow> ra_carrier (rm_state (locked c dt orbit p m))) \<and>
   (ra_carrier (rm_state (locked c dt orbit p m)) \<longrightarrow> ra_link_active (rm_state (locked c dt orbit p m)) \<and>
      radio_device_on 0x0403 (rm_state (locked c dt orbit p m)) \<and> \<not> ra_uplink_lost (rm_state (locked c dt orbit p m)))"
proof -
  have order: "(ra_frame t \<longrightarrow> ra_bit t) \<and> (ra_bit t \<longrightarrow> ra_carrier t) \<and> (ra_carrier t \<longrightarrow> contact \<and> radio_device_on 0x0403 s \<and> \<not> ra_uplink_lost s) \<and>
      ra_link_active t = ra_link_active s \<and> ra_devices t = ra_devices s \<and> ra_uplink_lost t = ra_uplink_lost s"
    if "t = lock_step c dt contact was s" for t contact was s
    unfolding that by (simp add: lock_step_def Let_def)
  define g where "g = on_radio radio_power_gates m"
  define s where "s = rm_state (apply_tier c (effective_tier c (before_lock c dt orbit p (in_contact orbit p (rm_state g)) (rm_nominal_w g) (rm_state g)))
    (on_radio (before_lock c dt orbit p (in_contact orbit p (rm_state g)) (rm_nominal_w g)) g))"
  have l: "rm_state (locked c dt orbit p m) = lock_step c dt (in_contact orbit p (rm_state g)) (rm_was_contact g) s"
    by (simp add: locked_def g_def s_def Let_def)
  have "ra_link_active s = in_contact orbit p (rm_state g)"
    by (simp add: s_def apply_tier_def before_lock_gates Let_def)
  then show ?thesis
    using order [OF l] by (simp add: radio_device_on_def)
qed

text \<open>
  C25: The uplink locks in order and only on a live receiver. After any tick a frame lock has a bit lock and a
  bit lock a carrier lock; and there is a carrier lock only when a contact with a station is active, the
  receiver's amplifier is powered and the uplink is not lost.
\<close>

theorem locks_in_order:
  assumes "ttc_tick lm rg c dt orbit p m = (r, m')"
  shows "(ra_frame (rm_state m') \<longrightarrow> ra_bit (rm_state m')) \<and> (ra_bit (rm_state m') \<longrightarrow> ra_carrier (rm_state m')) \<and>
    (ra_carrier (rm_state m') \<longrightarrow> ra_link_active (rm_state m') \<and> radio_device_on 0x0403 (rm_state m') \<and> \<not> ra_uplink_lost (rm_state m'))"
  using tick_gates [OF assms] locked_order [of c dt orbit p m]
  by (simp add: same_gates_def radio_device_on_def Let_def)

text \<open>Twelve seconds of contact lock a new radio completely.\<close>

definition contact_orbit :: radio_orbit where
  "contact_orbit = \<lparr>ro_contact = True, ro_elevation = Fin False 50, ro_azimuth = f0, ro_range = Fin False 600\<rparr>"

lemma twelve_seconds: "ra_frame (rm_state (locked default_radio_config (Fin False 12) contact_orbit Map.empty (new_radio ())))"
proof -
  have t: "fadd f0 (Fin False 12) = Fin False 12" "fmul (Fin False 2) (Fin False 1) = Fin False 2"
    "fmul (Fin False 5) (Fin False 1) = Fin False 5" "fmul (Fin False 10) (Fin False 1) = Fin False 10"
    by (simp_all add: fadd_def fneg_def fl_def fin_val_def round64_numeral)
  have first: "ra_frame (lock_step default_radio_config (Fin False 12) True False s)"
    if "fless f0 (ra_range s)" "\<not> ra_uplink_lost s" "radio_device_on 0x0403 s" for s
    using that by (simp add: lock_step_def rate_factor_def default_radio_config_def t round64_numeral fle_def fin_val_def Let_def)
  define g where "g = on_radio radio_power_gates (new_radio ())"
  have g: "\<not> rm_was_contact g" "\<not> ra_uplink_lost (rm_state g)" "ra_devices (rm_state g) = ra_devices new_radio_state"
    "in_contact contact_orbit Map.empty (rm_state g)"
    by (simp_all add: g_def new_radio_def new_radio_state_def radio_power_gates_def in_contact_def rx_available_def device_rx_available_def
        radio_device_on_def contact_orbit_def)
  define s where "s = rm_state (apply_tier default_radio_config (effective_tier default_radio_config
      (before_lock default_radio_config (Fin False 12) contact_orbit Map.empty True (rm_nominal_w g) (rm_state g)))
      (on_radio (before_lock default_radio_config (Fin False 12) contact_orbit Map.empty True (rm_nominal_w g)) g))"
  have "ra_range s = Fin False 600" "\<not> ra_uplink_lost s" "radio_device_on 0x0403 s"
    using g by (simp_all add: s_def apply_tier_def before_lock_gates radio_device_on_def Let_def)
      (simp_all add: before_lock_def geometry_step_def contact_orbit_def new_radio_state_def)
  then have "ra_frame (lock_step default_radio_config (Fin False 12) True False s)"
    by (intro first) (simp_all add: fin_val_def)
  then show ?thesis
    using g by (simp add: locked_def g_def s_def Let_def)
qed

theorem locks_in_order_witness:
  "\<exists>r m'. ttc_tick plain_libm quiet default_radio_config (Fin False 12) contact_orbit Map.empty (new_radio ()) = (r, m') \<and>
     ra_frame (rm_state m') \<and> ra_bit (rm_state m') \<and> ra_carrier (rm_state m') \<and> ra_link_active (rm_state m')"
proof -
  obtain r m' where run: "ttc_tick plain_libm quiet default_radio_config (Fin False 12) contact_orbit Map.empty (new_radio ()) = (r, m')"
    by fastforce
  have "ra_frame (rm_state m')"
    using tick_gates [OF run] twelve_seconds by (simp add: same_gates_def Let_def)
  then show ?thesis using run locks_in_order [OF run] by blast
qed

section \<open>The amplifier\<close>

text \<open>Everything that happens to the model, except the opening of the command channel.\<close>

inductive radio_step :: "(pyval \<Rightarrow> pytext) \<Rightarrow> libm \<Rightarrow> 'r random_source \<Rightarrow> radio_config \<Rightarrow> 'r radio \<Rightarrow> 'r radio \<Rightarrow> bool" for rp lm rg c where
  ticked: "ttc_tick lm rg c dt orbit p m = (r, m') \<Longrightarrow> radio_step rp lm rg c m m'"
| commanded: "command_name cd \<noteq> ''cmd_channel_start'' \<Longrightarrow> ttc_handle rp c cd m = (r, m') \<Longrightarrow> radio_step rp lm rg c m m'"
| switched: "radio_step rp lm rg c m (on_radio (\<lambda>s. snd (radio_set_device k on s)) m)"
| injected: "inject_radio failure mag cd (rm_state m) = Inr s \<Longrightarrow> radio_step rp lm rg c m (m\<lparr>rm_state := s\<rparr>)"
| cleared: "radio_step rp lm rg c m (on_radio (clear_radio failure) m)"
| counted: "radio_step rp lm rg c m (on_radio record_cmd_received m)"

lemma on_state_cool: "(\<And>s. cool s \<Longrightarrow> cool (snd (f s))) \<Longrightarrow> rel_py stays_cool (on_state f)"
  by (auto simp: rel_py_def stays_cool_def on_state_def case_prod_unfold)

lemma rate_cool [cool_rules]: "rel_py stays_cool (set_tm_rate rp c raw)"
  unfolding set_tm_rate_def
  by (intro co.frame_rules on_radio_cool allI; simp add: stays_cool_def cool_def apply_tier_def Let_def)

lemma settings_cool [cool_rules]: "rel_py stays_cool (set_tx_power c cd)" "rel_py stays_cool (set_ul_freq cd)"
  "rel_py stays_cool (set_dl_freq cd)" "rel_py stays_cool (set_modulation cd)"
  unfolding set_tx_power_def set_ul_freq_def set_dl_freq_def set_modulation_def
  by (intro co.frame_rules on_radio_cool allI; simp add: stays_cool_def cool_def)+

lemma command_cool: "name \<noteq> ''cmd_channel_start'' \<Longrightarrow> rel_py stays_cool (ttc_command rp c name cd)"
  unfolding ttc_command_def Let_def always_def
  by (simp only: if_False, intro co.frame_rules cool_rules on_state_cool; simp add: cool_def unless_failed_def deploy_antennas_def)

lemma step_cool: "radio_step rp lm rg c m m' \<Longrightarrow> stays_cool m m'"
proof (induction rule: radio_step.cases)
  case (ticked dt orbit p r)
  then show ?case using rel_pyD [OF tick_cool] by blast
next
  case (commanded cd r)
  then show ?case using rel_pyD [OF command_cool] by (metis ttc_handle_def)
next
  case (injected failure mag cd s)
  then show ?case
    by (auto simp: stays_cool_def cool_def inject_radio_def bind_result_def split: if_splits sum.splits)
qed (auto simp: stays_cool_def cool_def radio_set_device_def clear_radio_def record_cmd_received_def split: option.splits)

text \<open>
  An amplifier that shut down for heat stays off. As long as nobody opens the command channel, no
  sequence of ticks, commands, device switches and failures, from a state with an idle channel and a latch
  that is respected, ever has the amplifier on while its thermal latch is set.
\<close>

theorem latched_amplifier_is_off:
  assumes "(radio_step rp lm rg c)\<^sup>*\<^sup>* m m'" "\<not> ra_cmd_active (rm_state m)" "\<not> (ra_pa_shutdown (rm_state m) \<and> ra_pa_on (rm_state m))"
  shows "\<not> (ra_pa_shutdown (rm_state m') \<and> ra_pa_on (rm_state m'))"
proof -
  have "stays_cool m m'"
    using assms(1) by induction (auto intro: co.frame_refl co.frame_trans step_cool)
  then show ?thesis using assms(2,3) by (auto simp: stays_cool_def cool_def)
qed

text \<open>A command to switch on a latched amplifier is refused.\<close>

definition hot_radio :: "unit radio" where
  "hot_radio = on_radio (\<lambda>s. s\<lparr>ra_pa_shutdown := True, ra_pa_on := False\<rparr>) (new_radio ())"

theorem latched_amplifier_is_off_witness:
  "\<exists>r m'. ttc_handle (\<lambda>_. []) default_radio_config [(''command'', VStr ''pa_on'')] hot_radio = (Inr r, m') \<and>
     rp_success r = Some False \<and> \<not> (ra_pa_shutdown (rm_state m') \<and> ra_pa_on (rm_state m'))"
proof -
  define cd where "cd = [(''command'', VStr ''pa_on'')]"
  have name: "command_name cd = ''pa_on''" by (simp add: cd_def command_name_def)
  obtain r m' where run: "ttc_handle (\<lambda>_. []) default_radio_config cd hot_radio = (Inr r, m')" and no: "rp_success r = Some False"
    by (simp add: ttc_handle_def name ttc_command_def on_state_def unless_failed_def hot_radio_def refused_def)
  have "(radio_step (\<lambda>_. []) plain_libm quiet default_radio_config)\<^sup>*\<^sup>* hot_radio m'"
    by (rule r_into_rtranclp, rule radio_step.commanded [OF _ run]) (simp add: name)
  then have "\<not> (ra_pa_shutdown (rm_state m') \<and> ra_pa_on (rm_state m'))"
    by (rule latched_amplifier_is_off) (simp_all add: hot_radio_def new_radio_def new_radio_state_def)
  then show ?thesis using run no by (auto simp: cd_def)
qed

section \<open>Deviations\<close>

text \<open>The command channel switches the amplifier on although the thermal latch is set.\<close>

lemma channel_overrides_latch:
  "ra_pa_on (command_channel_start s) \<and> ra_pa_shutdown (command_channel_start s) = ra_pa_shutdown s"
  by (simp add: command_channel_start_def)

text \<open>The recovery event asks for a warning above 55 degrees and a temperature below 50.\<close>

lemma no_recovery_event: "(0x050A, text) \<notin> set (ttc_events lm e s)"
proof -
  have "\<not> (pa_warning s \<and> fless (ra_pa_temp s) (Fin False 50) \<and> \<not> ra_pa_shutdown s)"
    by (cases "ra_pa_temp s") (auto simp: pa_warning_def fin_val_def)
  then show ?thesis
    by (auto simp: ttc_events_def lock_events_def level_events_def error_events_def antenna_events_def uplink_events_def raised_def
        edge_event_def split: if_splits)
qed

text \<open>The event for a high error rate is raised by an error rate of \<open>10 ^ -10\<close>, and not by one in ten.\<close>

lemma error_event_inverted:
  "error_events lm (new_radio_edges) (new_radio_state) = [(0x050C, ''BER threshold exceeded: '' @
     (case lm_pow lm (Fin False 10) (Fin True 10) of Inr x \<Rightarrow> fmt_exp x | Inl _ \<Rightarrow> []))]"
  "error_events lm new_radio_edges (new_radio_state\<lparr>ra_ber := Fin True 1\<rparr>) = []"
  by (simp_all add: error_events_def raised_def new_radio_edges_def new_radio_state_def fin_val_def)

text \<open>A snapshot does not hold the commanded downlink frequency.\<close>

lemma snapshot_without_frequency: "rm_dl_freq (radio_set_state (s, e, r) m) = rm_dl_freq m"
  by (simp add: radio_set_state_def Let_def)

end
