(* ===== verification/Scenario_Engine.thy ===== *)
theory Scenario_Engine
  imports Number_Text Failure_Manager
begin

text \<open>
  Training scenarios (\<open>smo_simulator/scenario_engine.py\<close>): definitions with timed and conditional
  events, their start with initial conditions, the tick that fires events and ends the scenario, the
  debrief and the state a breakpoint keeps. The engine is reached through \<open>host\<close>, a record of the
  calls the scenario engine makes on it, over the world \<open>'w\<close> on which the callbacks of the failure
  manager act too. Names of subsystems, failures and onsets in the dictionaries are strings. Reading
  and parsing the YAML files is not modelled; their content is. Log messages are left out.
\<close>

section \<open>Definitions\<close>

record scenario_event =
  se_offset :: "py_float option"
  se_condition :: "string option"
  se_action :: string
  se_params :: "command option"
  se_fired :: bool

record initial_conditions =
  ic_phase :: "pyval option"
  ic_speed :: "pyval option"
  ic_override :: "pyval option"
  ic_soc :: "pyval option"
  ic_power_lines :: "(string \<times> pyval) list"
  ic_params :: "(pyval \<times> pyval) list"
  ic_failures :: "command list"

record scenario_definition =
  sd_name :: string
  sd_difficulty :: string
  sd_duration :: py_float
  sd_briefing :: string
  sd_events :: "scenario_event list"
  sd_expected :: "(string \<times> string) list list"
  sd_initial :: initial_conditions

record scenario_response =
  sr_category :: string
  sr_description :: string
  sr_time :: py_float

record debrief =
  db_name :: string
  db_duration :: py_float
  db_score :: py_float
  db_detect :: "py_float option"
  db_isolate :: "py_float option"
  db_recover :: "py_float option"
  db_responses :: "scenario_response list"

definition SUPPORTED_ACTIONS :: "string list" where
  "SUPPORTED_ACTIONS = [''inject'', ''clear'', ''set_parameter'', ''message'', ''set_speed'', ''set_phase'']"

record scenario_defaults =
  df_duration :: py_float
  df_difficulty :: string
  df_tolerance :: py_float
  df_difficulties :: "string list"

definition fallback_defaults :: scenario_defaults where
  "fallback_defaults = \<lparr>df_duration = Fin False 1800, df_difficulty = ''BASIC'', df_tolerance = fl (1 / 100),
     df_difficulties = [''BASIC'', ''BEGINNER'', ''INTERMEDIATE'', ''ADVANCED'']\<rparr>"

datatype scenario_issue =
  Unknown_action string | Missing_target | Unknown_failure string string | Never_fires
  | Bad_difficulty string | Duplicate_name

record scenario_engine =
  sx_defaults :: scenario_defaults
  sx_scenarios :: "(string \<times> scenario_definition) list"
  sx_issues :: "(string \<times> int \<times> scenario_issue) list"
  sx_active :: "scenario_definition option"
  sx_elapsed :: py_float
  sx_responses :: "scenario_response list"
  sx_times :: "(string \<times> py_float) list"
  sx_last :: "debrief option"
  sx_injected :: "pytext list"

definition new_scenario_engine :: "scenario_defaults \<Rightarrow> scenario_engine" where
  "new_scenario_engine d = \<lparr>sx_defaults = d, sx_scenarios = [], sx_issues = [], sx_active = None, sx_elapsed = f0,
     sx_responses = [], sx_times = [], sx_last = None, sx_injected = []\<rparr>"

section \<open>Loading\<close>

text \<open>
  \<open>_validate_event\<close>; \<open>known\<close> gives the failures a subsystem implements, empty when unknown. An event
  without parameters counts as one with an empty dictionary.
\<close>

definition param_string :: "command \<Rightarrow> string \<Rightarrow> string \<Rightarrow> string" where
  "param_string c key d = (case map_of c key of Some (VStr s) \<Rightarrow> s | Some _ \<Rightarrow> [] | None \<Rightarrow> d)"

definition validate_event :: "(string \<Rightarrow> string list) \<Rightarrow> scenario_event \<Rightarrow> scenario_issue option" where
  "validate_event known ev =
     (let c = (case se_params ev of Some c \<Rightarrow> c | None \<Rightarrow> []);
          subsystem = param_string c ''subsystem'' []; failure = param_string c ''failure'' [] in
      if se_action ev \<notin> set SUPPORTED_ACTIONS then Some (Unknown_action (se_action ev))
      else if se_action ev = ''inject'' \<and> (subsystem = [] \<or> failure = []) then Some Missing_target
      else if se_action ev = ''inject'' \<and> known subsystem \<noteq> [] \<and> failure \<notin> set (known subsystem)
      then Some (Unknown_failure failure subsystem)
      else if se_offset ev = None \<and> (se_condition ev = None \<or> se_condition ev = Some []) then Some Never_fires
      else None)"

text \<open>
  What a file holds, with missing entries as \<open>None\<close>. The events that pass are kept in their order,
  the others are recorded with their index.
\<close>

record scenario_file =
  sf_stem :: string
  sf_name :: "string option"
  sf_difficulty :: "string option"
  sf_duration :: "py_float option"
  sf_briefing :: "string option"
  sf_events :: "scenario_event list"
  sf_expected :: "(string \<times> string) list list"
  sf_initial :: initial_conditions

definition file_name :: "scenario_file \<Rightarrow> string" where
  "file_name f = (case sf_name f of Some n \<Rightarrow> n | None \<Rightarrow> sf_stem f)"

definition event_issues :: "(string \<Rightarrow> string list) \<Rightarrow> scenario_file \<Rightarrow> (string \<times> int \<times> scenario_issue) list" where
  "event_issues known f = map (\<lambda>(k, i). (file_name f, int k, i))
     (List.map_filter (\<lambda>(k, ev). map_option (Pair k) (validate_event known ev)) (enumerate 0 (sf_events f)))"

definition definition_of :: "(string \<Rightarrow> string list) \<Rightarrow> scenario_defaults \<Rightarrow> scenario_file \<Rightarrow> scenario_definition" where
  "definition_of known d f = \<lparr>sd_name = file_name f,
     sd_difficulty = (case sf_difficulty f of Some x \<Rightarrow> x | None \<Rightarrow> df_difficulty d),
     sd_duration = (case sf_duration f of Some x \<Rightarrow> x | None \<Rightarrow> df_duration d),
     sd_briefing = (case sf_briefing f of Some x \<Rightarrow> x | None \<Rightarrow> []),
     sd_events = map (\<lambda>ev. ev\<lparr>se_fired := False\<rparr>) (filter (\<lambda>ev. validate_event known ev = None) (sf_events f)),
     sd_expected = sf_expected f, sd_initial = sf_initial f\<rparr>"

definition load_scenario :: "(string \<Rightarrow> string list) \<Rightarrow> scenario_file \<Rightarrow> scenario_engine \<Rightarrow> scenario_engine" where
  "load_scenario known f x =
     (let def = definition_of known (sx_defaults x) f;
          bad = (if sd_difficulty def \<in> set (df_difficulties (sx_defaults x)) then []
                 else [(sd_name def, -1, Bad_difficulty (sd_difficulty def))]);
          dup = (if sd_name def \<in> fst ` set (sx_scenarios x) then [(sd_name def, -1, Duplicate_name)] else [])
      in x\<lparr>sx_issues := sx_issues x @ event_issues known f @ bad @ dup,
           sx_scenarios := AList.update (sd_name def) def (sx_scenarios x)\<rparr>)"

definition load_scenarios :: "(string \<Rightarrow> string list) \<Rightarrow> scenario_file list \<Rightarrow> scenario_engine \<Rightarrow> scenario_engine" where
  "load_scenarios known fs x = fold (load_scenario known) fs x"

definition list_scenarios :: "scenario_engine \<Rightarrow> (string \<times> string \<times> py_float \<times> string) list" where
  "list_scenarios x = map (\<lambda>(_, s). (sd_name s, sd_difficulty s, sd_duration s, sd_briefing s)) (sx_scenarios x)"

section \<open>The world\<close>

text \<open>
  The engine as the scenarios use it. \<open>sh_soc\<close> sets the charge of the battery and is \<open>None\<close> without a
  power subsystem, \<open>sh_has_line\<close> tells the power lines it has.
\<close>

record 'w host =
  sh_params :: "'w \<Rightarrow> int \<rightharpoonup> py_float"
  sh_set_param :: "int \<Rightarrow> pyval \<Rightarrow> 'w \<Rightarrow> 'w"
  sh_speed_max :: py_float
  sh_set_speed :: "py_float \<Rightarrow> 'w \<Rightarrow> 'w"
  sh_instructor :: "command \<Rightarrow> ('w, unit) py"
  sh_soc :: "(py_float \<Rightarrow> 'w \<Rightarrow> 'w) option"
  sh_has_line :: "string \<Rightarrow> 'w \<Rightarrow> bool"
  sh_set_line :: "string \<Rightarrow> bool \<Rightarrow> 'w \<Rightarrow> 'w"

type_synonym ('w, 'r) stage = "('w \<times> 'r failure_manager) \<times> scenario_engine"

abbreviation on_stage_world :: "('w, 'a) py \<Rightarrow> (('w, 'r) stage, 'a) py" where
  "on_stage_world m \<equiv> zoom (\<lambda>s. fst (fst s)) (\<lambda>w s. ((w, snd (fst s)), snd s)) m"

abbreviation change_world :: "('w \<Rightarrow> 'w) \<Rightarrow> (('w, 'r) stage, unit) py" where
  "change_world f \<equiv> modify (\<lambda>s. ((f (fst (fst s)), snd (fst s)), snd s))"

abbreviation change_scenario :: "(scenario_engine \<Rightarrow> scenario_engine) \<Rightarrow> (('w, 'r) stage, unit) py" where
  "change_scenario f \<equiv> modify (\<lambda>s. (fst s, f (snd s)))"

text \<open>\<open>try: m except Exception: log\<close>.\<close>

definition logged_call :: "('s, unit) py \<Rightarrow> ('s, unit) py" where
  "logged_call m = catch m (\<lambda>_. ret ())"

definition set_speed :: "'w host \<Rightarrow> py_float \<Rightarrow> 'w \<Rightarrow> 'w" where
  "set_speed h v = sh_set_speed h (fmax f0 (fmin v (sh_speed_max h)))"

section \<open>Injecting\<close>

definition onset_of :: "string \<Rightarrow> onset" where
  "onset_of s = (if s = ''step'' then Onset_step else if s = ''gradual'' then Onset_gradual
     else if s = ''intermittent'' then Onset_intermittent else Onset_other s)"

definition param_float :: "command \<Rightarrow> string \<Rightarrow> py_float \<Rightarrow> py_float result" where
  "param_float c key d = (case map_of c key of Some v \<Rightarrow> value_float v | None \<Rightarrow> Inr d)"

definition param_value :: "command \<Rightarrow> string \<Rightarrow> pyval" where
  "param_value c key = (case map_of c key of Some v \<Rightarrow> v | None \<Rightarrow> VNone)"

text \<open>
  The keyword arguments of \<open>inject\<close> beyond the named ones; an \<open>onset_duration_s\<close> among them, a number,
  binds to the parameter of that name.
\<close>

definition extra_params :: "command \<Rightarrow> command" where
  "extra_params c = filter (\<lambda>(k, _). k \<notin>
     {''subsystem'', ''failure'', ''magnitude'', ''onset'', ''duration_s'', ''onset_duration_s''}) c"

definition onset_duration_of :: "command \<Rightarrow> py_float option" where
  "onset_duration_of c = (case map_of c ''onset_duration_s'' of
     Some v \<Rightarrow> (case val_float v of Inr x \<Rightarrow> Some x | Inl _ \<Rightarrow> None) | None \<Rightarrow> None)"

definition inject_from ::
  "('w, 'r) environment \<Rightarrow> command \<Rightarrow> py_float option \<Rightarrow> command \<Rightarrow> (('w, 'r) stage, unit) py" where
  "inject_from env c od extra =
     bind_py (of_result (param_float c ''magnitude'' (Fin False 1))) (\<lambda>magnitude.
     bind_py (of_result (param_float c ''duration_s'' f0)) (\<lambda>duration.
       modify (\<lambda>(wm, x). case inject env (param_string c ''subsystem'' []) (param_string c ''failure'' []) magnitude
             (onset_of (param_string c ''onset'' ''step'')) duration od extra wm of
           (fid, wm') \<Rightarrow> (wm', x\<lparr>sx_injected := sx_injected x @ [fid]\<rparr>))))"

section \<open>Starting and finishing\<close>

definition set_initial_param :: "'w host \<Rightarrow> pyval \<times> pyval \<Rightarrow> (('w, 'r) stage, unit) py" where
  "set_initial_param h kv = (case value_id (fst kv) of Inr pid \<Rightarrow> change_world (sh_set_param h pid (snd kv)) | Inl _ \<Rightarrow> ret ())"

definition set_initial_line :: "'w host \<Rightarrow> string \<times> pyval \<Rightarrow> (('w, 'r) stage, unit) py" where
  "set_initial_line h lv = change_world (\<lambda>w. if sh_has_line h (fst lv) w
     then sh_set_line h (fst lv) (val_bool (snd lv)) w else w)"

definition apply_initial_conditions ::
  "'w host \<Rightarrow> ('w, 'r) environment \<Rightarrow> initial_conditions \<Rightarrow> (('w, 'r) stage, unit) py" where
  "apply_initial_conditions h env ic =
     seq_py (case ic_phase ic of None \<Rightarrow> ret ()
       | Some v \<Rightarrow> logged_call (bind_py (of_result (value_int v)) (\<lambda>k.
           on_stage_world (sh_instructor h [(''type'', VStr ''set_phase''), (''phase'', VInt k)]))))
     (seq_py (case ic_speed ic of None \<Rightarrow> ret ()
       | Some v \<Rightarrow> bind_py (of_result (value_float v)) (\<lambda>x. change_world (set_speed h x)))
     (seq_py (case ic_override ic of None \<Rightarrow> ret ()
       | Some v \<Rightarrow> logged_call (on_stage_world (sh_instructor h
           [(''type'', VStr ''override_passes''), (''value'', VBool (val_bool v))])))
     (seq_py (case (ic_soc ic, sh_soc h) of
         (Some v, Some set_soc) \<Rightarrow> bind_py (of_result (value_float v)) (\<lambda>x. change_world (set_soc x))
       | _ \<Rightarrow> ret ())
     (seq_py (each (set_initial_line h) (ic_power_lines ic))
     (seq_py (each (set_initial_param h) (ic_params ic))
       (each (\<lambda>c. inject_from env c None []) (ic_failures ic)))))))"

definition reset_fired :: "scenario_definition \<Rightarrow> scenario_definition" where
  "reset_fired s = s\<lparr>sd_events := map (\<lambda>ev. ev\<lparr>se_fired := False\<rparr>) (sd_events s)\<rparr>"

definition start_scenario :: "'w host \<Rightarrow> ('w, 'r) environment \<Rightarrow> string \<Rightarrow> (('w, 'r) stage, bool) py" where
  "start_scenario h env name = (\<lambda>s. case map_of (sx_scenarios (snd s)) name of
       None \<Rightarrow> (Inr False, s)
     | Some s0 \<Rightarrow> bind_py (change_scenario (\<lambda>x. x\<lparr>sx_active := Some (reset_fired s0), sx_elapsed := f0,
           sx_responses := [], sx_times := [], sx_injected := []\<rparr>))
         (\<lambda>_. bind_py (apply_initial_conditions h env (sd_initial s0)) (\<lambda>_. ret True)) s)"

definition build_debrief :: "scenario_definition \<Rightarrow> scenario_engine \<Rightarrow> debrief" where
  "build_debrief s x =
     (let expected = length (sd_expected s); completed = length (sx_responses x);
          score = fmul (fl (of_nat completed / of_nat (max expected 1))) (Fin False 100)
      in \<lparr>db_name = sd_name s, db_duration = sx_elapsed x, db_score = fmin (Fin False 100) score,
          db_detect = map_of (sx_times x) ''detect'', db_isolate = map_of (sx_times x) ''isolate'',
          db_recover = map_of (sx_times x) ''recover'', db_responses = sx_responses x\<rparr>)"

definition finish_scenario :: "('w, 'r) environment \<Rightarrow> ('w, 'r) stage \<Rightarrow> debrief option \<times> ('w, 'r) stage" where
  "finish_scenario env = (\<lambda>(wm, x). case sx_active x of None \<Rightarrow> (None, wm, x)
     | Some s \<Rightarrow> (Some (build_debrief s x),
         fold (\<lambda>fid wm. snd (clear_id env fid wm)) (sx_injected x) wm,
         x\<lparr>sx_last := Some (build_debrief s x), sx_injected := [], sx_active := None\<rparr>))"

definition stop_scenario :: "('w, 'r) environment \<Rightarrow> ('w, 'r) stage \<Rightarrow> debrief option \<times> ('w, 'r) stage" where
  "stop_scenario = finish_scenario"

section \<open>Conditions and events\<close>

text \<open>The parameter whose identifier is written in decimal as \<open>name\<close>.\<close>

definition named_param :: "(int \<rightharpoonup> py_float) \<Rightarrow> string \<Rightarrow> py_float option" where
  "named_param p name = (case parse_int0 name of None \<Rightarrow> None | Some k \<Rightarrow> if str_int k = name then p k else None)"

definition eval_condition :: "py_float \<Rightarrow> string \<Rightarrow> (int \<rightharpoonup> py_float) \<Rightarrow> bool" where
  "eval_condition tolerance condition p = (case py_split condition of
       [name, op, t] \<Rightarrow> (case (parse_float t, named_param p name) of
           (Some y, Some x) \<Rightarrow>
             (if op = ''<'' then fless x y else if op = ''>'' then fless y x
              else if op = ''=='' then fless (fabs (fsub x y)) tolerance
              else if op = ''<='' then fle x y else if op = ''>='' then fle y x else False)
         | _ \<Rightarrow> False)
     | _ \<Rightarrow> False)"

definition event_due :: "scenario_engine \<Rightarrow> (int \<rightharpoonup> py_float) \<Rightarrow> scenario_event \<Rightarrow> bool" where
  "event_due x p ev =
     ((case se_offset ev of Some t \<Rightarrow> fle t (sx_elapsed x) | None \<Rightarrow> False) \<or>
      (case se_condition ev of Some c \<Rightarrow> eval_condition (df_tolerance (sx_defaults x)) c p | None \<Rightarrow> False))"

text \<open>\<open>_fire_event\<close> after the event has been marked; a clear without an identifier clears all.\<close>

definition failure_ref :: "command \<Rightarrow> pytext option" where
  "failure_ref c = (case map_of c ''failure_id'' of Some v \<Rightarrow> if val_bool v then Some (val_text v) else None | None \<Rightarrow> None)"

definition fire_action :: "'w host \<Rightarrow> ('w, 'r) environment \<Rightarrow> string \<Rightarrow> command \<Rightarrow> (('w, 'r) stage, unit) py" where
  "fire_action h env action c =
     (if action = ''inject'' then inject_from env c (onset_duration_of c) (extra_params c)
      else if action = ''clear'' then modify (\<lambda>(wm, x).
        (case failure_ref c of Some fid \<Rightarrow> snd (clear_id env fid wm) | None \<Rightarrow> clear_all env wm, x))
      else if action = ''set_parameter'' then
        (if param_value c ''param_id'' = VNone then ret ()
         else set_initial_param h (param_value c ''param_id'', param_value c ''value''))
      else if action = ''message'' then ret ()
      else if action = ''set_speed'' then
        bind_py (of_result (value_float (case map_of c ''value'' of Some v \<Rightarrow> v
            | None \<Rightarrow> (case map_of c ''speed'' of Some v \<Rightarrow> v | None \<Rightarrow> VFloat (Fin False 1)))))
          (\<lambda>x. change_world (set_speed h x))
      else if action = ''set_phase'' then
        logged_call (bind_py (of_result (value_int (case map_of c ''phase'' of Some v \<Rightarrow> v | None \<Rightarrow> VInt 6))) (\<lambda>k.
          on_stage_world (sh_instructor h [(''type'', VStr ''set_phase''), (''phase'', VInt k)])))
      else ret ())"

definition fire_event :: "'w host \<Rightarrow> ('w, 'r) environment \<Rightarrow> scenario_event \<Rightarrow> (('w, 'r) stage, unit) py" where
  "fire_event h env ev = (case se_params ev of
       Some c \<Rightarrow> fire_action h env (se_action ev) c
     | None \<Rightarrow> if se_action ev \<in> set SUPPORTED_ACTIONS then raise (OtherError ''AttributeError'') else ret ())"

section \<open>The tick\<close>

definition mark_fired :: "nat \<Rightarrow> scenario_engine \<Rightarrow> scenario_engine" where
  "mark_fired i x = x\<lparr>sx_active := map_option (\<lambda>s. s\<lparr>sd_events :=
     (sd_events s)[i := (sd_events s ! i)\<lparr>se_fired := True\<rparr>]\<rparr>) (sx_active x)\<rparr>"

definition events_of :: "scenario_engine \<Rightarrow> scenario_event list" where
  "events_of x = (case sx_active x of Some s \<Rightarrow> sd_events s | None \<Rightarrow> [])"

definition tick_event :: "'w host \<Rightarrow> ('w, 'r) environment \<Rightarrow> nat \<Rightarrow> (('w, 'r) stage, unit) py" where
  "tick_event h env i = (\<lambda>s.
     let ev = events_of (snd s) ! i in
     if \<not> se_fired ev \<and> event_due (snd s) (sh_params h (fst (fst s))) ev
     then seq_py (change_scenario (mark_fired i)) (fire_event h env ev) s else (Inr (), s))"

definition end_on_duration :: "('w, 'r) environment \<Rightarrow> (('w, 'r) stage, unit) py" where
  "end_on_duration env = modify (\<lambda>s. case sx_active (snd s) of
       Some d \<Rightarrow> (if fle (sd_duration d) (sx_elapsed (snd s)) then snd (finish_scenario env s) else s)
     | None \<Rightarrow> s)"

text \<open>The parameters are the engine's own dictionary: what an event sets, the conditions after it see.\<close>

definition tick_scenario :: "'w host \<Rightarrow> ('w, 'r) environment \<Rightarrow> py_float \<Rightarrow> (('w, 'r) stage, unit) py" where
  "tick_scenario h env dt = (\<lambda>s. case sx_active (snd s) of None \<Rightarrow> (Inr (), s)
     | Some d \<Rightarrow> seq_py (change_scenario (\<lambda>x. x\<lparr>sx_elapsed := fadd (sx_elapsed x) dt\<rparr>))
         (seq_py (each (tick_event h env) [0..<length (sd_events d)]) (end_on_duration env)) s)"

section \<open>Responses and breakpoints\<close>

definition record_response :: "string \<Rightarrow> string \<Rightarrow> scenario_engine \<Rightarrow> scenario_engine" where
  "record_response category description x = (case sx_active x of None \<Rightarrow> x
     | Some _ \<Rightarrow> x\<lparr>sx_responses := sx_responses x @ [\<lparr>sr_category = category, sr_description = description, sr_time = sx_elapsed x\<rparr>],
         sx_times := (if category \<in> fst ` set (sx_times x) then sx_times x else sx_times x @ [(category, sx_elapsed x)])\<rparr>)"

record scenario_state =
  ss_active :: string
  ss_elapsed :: py_float
  ss_responses :: "scenario_response list"
  ss_times :: "(string \<times> py_float) list"
  ss_injected :: "pytext list"
  ss_fired :: "nat list"

definition scenario_get_state :: "scenario_engine \<Rightarrow> scenario_state option" where
  "scenario_get_state x = (case sx_active x of None \<Rightarrow> None
     | Some s \<Rightarrow> Some \<lparr>ss_active = sd_name s, ss_elapsed = sx_elapsed x, ss_responses = sx_responses x,
         ss_times = sx_times x, ss_injected = sx_injected x,
         ss_fired = filter (\<lambda>i. se_fired (sd_events s ! i)) [0..<length (sd_events s)]\<rparr>)"

definition restore_fired :: "nat list \<Rightarrow> scenario_definition \<Rightarrow> scenario_definition" where
  "restore_fired fired s = s\<lparr>sd_events := map (\<lambda>(i, ev). ev\<lparr>se_fired := i \<in> set fired\<rparr>) (enumerate 0 (sd_events s))\<rparr>"

definition scenario_set_state :: "scenario_state option \<Rightarrow> scenario_engine \<Rightarrow> scenario_engine" where
  "scenario_set_state st x = (case st of None \<Rightarrow> x\<lparr>sx_active := None, sx_injected := []\<rparr>
     | Some st \<Rightarrow> if ss_active st = [] then x\<lparr>sx_active := None, sx_injected := []\<rparr>
         else (case map_of (sx_scenarios x) (ss_active st) of
             None \<Rightarrow> x\<lparr>sx_active := None, sx_injected := []\<rparr>
           | Some s \<Rightarrow> x\<lparr>sx_active := Some (restore_fired (ss_fired st) s), sx_elapsed := ss_elapsed st,
               sx_responses := ss_responses st, sx_times := ss_times st, sx_injected := ss_injected st\<rparr>))"

definition current_name :: "scenario_engine \<Rightarrow> string" where
  "current_name x = (case sx_active x of Some s \<Rightarrow> sd_name s | None \<Rightarrow> [])"

end
