(* ===== verification/Scenario_Rules.thy ===== *)
theory Scenario_Rules
  imports Scenario_Engine
begin

text \<open>
  What scenarios guarantee: a tick fires exactly the events that are due, in their order; no injected
  failure outlives its scenario; a breakpoint restores the progress of the running scenario.
\<close>

section \<open>Actions only inject\<close>

definition failure_keys :: "'w \<times> 'r failure_manager \<Rightarrow> pytext set" where
  "failure_keys wm = fst ` set (fm_failures (snd wm))"

abbreviation add_injected :: "pytext list \<Rightarrow> scenario_engine \<Rightarrow> scenario_engine" where
  "add_injected ids x \<equiv> x\<lparr>sx_injected := sx_injected x @ ids\<rparr>"

text \<open>
  \<open>injects m\<close>: the run of \<open>m\<close> does not look at the progress of the scenario, and all it makes of it is to
  note identifiers; failures that are new are among those.
\<close>

definition injects :: "(('w, 'r) stage, 'a) py \<Rightarrow> bool" where
  "injects m \<longleftrightarrow> (\<forall>wm. \<exists>r wm' ids. failure_keys wm' \<subseteq> failure_keys wm \<union> set ids \<and>
     (\<forall>x. m (wm, x) = (r, (wm', add_injected ids x))))"

lemma injectsI:
  assumes "\<And>wm. failure_keys (f wm) \<subseteq> failure_keys wm \<union> set (ids wm)"
    and "\<And>wm x. m (wm, x) = (r wm, (f wm, add_injected (ids wm) x))"
  shows "injects m"
  unfolding injects_def using assms by blast

lemma injects_ret: "injects (ret a)"
  by (rule injectsI [where f = id and ids = "\<lambda>_. []"]) (simp_all add: ret_def)

lemma injects_raise: "injects (raise e)"
  by (rule injectsI [where f = id and ids = "\<lambda>_. []"]) (simp_all add: raise_def)

lemma injects_of_result: "injects (of_result r)"
  by (rule injectsI [where f = id and ids = "\<lambda>_. []"]) (simp_all add: of_result_def)

lemma injects_bind:
  assumes "injects m" "\<And>a. injects (f a)"
  shows "injects (bind_py m f)"
  unfolding injects_def
proof
  fix wm
  obtain r wm1 ids1 where 1: "failure_keys wm1 \<subseteq> failure_keys wm \<union> set ids1"
    "\<And>x. m (wm, x) = (r, (wm1, add_injected ids1 x))" using assms(1) unfolding injects_def by metis
  show "\<exists>r wm' ids. failure_keys wm' \<subseteq> failure_keys wm \<union> set ids \<and>
     (\<forall>x. bind_py m f (wm, x) = (r, (wm', add_injected ids x)))"
  proof (cases r)
    case (Inl e)
    then show ?thesis using 1 by (intro exI [of _ "Inl e"] exI [of _ wm1] exI [of _ ids1]) (simp add: bind_py_def)
  next
    case (Inr a)
    obtain r2 wm2 ids2 where 2: "failure_keys wm2 \<subseteq> failure_keys wm1 \<union> set ids2"
      "\<And>x. f a (wm1, x) = (r2, (wm2, add_injected ids2 x))" using assms(2) unfolding injects_def by metis
    have "failure_keys wm2 \<subseteq> failure_keys wm \<union> set (ids1 @ ids2)" using 1(1) 2(1) by auto
    then show ?thesis using 1(2) 2(2) Inr
      by (intro exI [of _ r2] exI [of _ wm2] exI [of _ "ids1 @ ids2"]) (simp add: bind_py_def)
  qed
qed

lemma injects_seq: "injects m \<Longrightarrow> injects n \<Longrightarrow> injects (seq_py m n)"
  unfolding seq_py_def by (rule injects_bind)

lemma injects_logged:
  assumes "injects m"
  shows "injects (logged_call m)"
  unfolding injects_def
proof
  fix wm
  obtain r wm1 ids where "failure_keys wm1 \<subseteq> failure_keys wm \<union> set ids"
    "\<And>x. m (wm, x) = (r, (wm1, add_injected ids x))" using assms unfolding injects_def by metis
  then show "\<exists>r wm' ids. failure_keys wm' \<subseteq> failure_keys wm \<union> set ids \<and>
     (\<forall>x. logged_call m (wm, x) = (r, (wm', add_injected ids x)))"
    by (intro exI [of _ "Inr ()"] exI [of _ wm1] exI [of _ ids])
      (cases r; simp add: logged_call_def catch_def ret_def)
qed

lemma injects_each: "(\<And>y. injects (f y)) \<Longrightarrow> injects (each f ys)"
  by (induction ys) (auto intro: injects_ret injects_seq)

lemma injects_world: "injects (change_world f)"
  by (rule injectsI [where f = "\<lambda>wm. (f (fst wm), snd wm)" and ids = "\<lambda>_. []"])
    (simp_all add: modify_def failure_keys_def)

lemma injects_on_world: "injects (on_stage_world m)"
  by (rule injectsI [where f = "\<lambda>wm. (snd (m (fst wm)), snd wm)" and ids = "\<lambda>_. []" and r = "\<lambda>wm. fst (m (fst wm))"])
    (simp_all add: zoom_def failure_keys_def split: prod.split)

text \<open>What the operations of the failure manager do to the set of failures.\<close>

lemma keys_update: "fst ` set (AList.update k v l) = insert k (fst ` set l)"
  by (simp add: dom_update)

lemma keys_delete: "fst ` set (AList.delete k l) = fst ` set l - {k}"
  using arg_cong [OF AList.delete_keys [of k l], of set] by simp

lemma inject_keys:
  "inject env subsystem failure magnitude onset duration od extra wm = (fid, wm') \<Longrightarrow>
   failure_keys wm' = insert fid (failure_keys wm)"
  by (cases wm) (simp add: inject_def failure_keys_def keys_update Let_def split: if_split_asm prod.splits; force simp: keys_update)

lemma clear_id_keys: "failure_keys (snd (clear_id env fid wm)) = failure_keys wm - {fid}"
proof (cases wm)
  case (Pair w m)
  show ?thesis
  proof (cases "map_of (fm_failures m) fid")
    case None
    then have "fid \<notin> fst ` set (fm_failures m)" by (simp add: map_of_eq_None_iff)
    then show ?thesis using None by (simp add: Pair clear_id_def failure_keys_def)
  next
    case (Some af)
    then show ?thesis by (simp add: Pair clear_id_def failure_keys_def keys_delete)
  qed
qed

lemma clear_all_keys: "failure_keys (clear_all env wm) = {}"
  by (cases wm) (simp add: clear_all_def failure_keys_def)

lemma tick_entries_keys: "tick_entries env dt fs wm = (fs', wm') \<Longrightarrow> fst ` set fs' \<subseteq> fst ` set fs"
proof (induction fs arbitrary: wm fs' wm')
  case (Cons f fs)
  obtain fid af where f: "f = (fid, af)" by fastforce
  obtain r wm1 where 1: "tick_failure env dt af wm = (r, wm1)" by (rule prod.exhaust)
  obtain rest wm2 where 2: "tick_entries env dt fs wm1 = (rest, wm2)" by (rule prod.exhaust)
  have "fs' = (case r of Some af' \<Rightarrow> (fid, af') # rest | None \<Rightarrow> rest)" using Cons.prems by (simp add: f 1 2)
  then show ?case using Cons.IH [OF 2] by (cases r) (simp_all add: f subset_insertI2)
qed simp

lemma tick_failures_keys: "failure_keys (tick_failures env dt wm) \<subseteq> failure_keys wm"
proof (cases wm)
  case (Pair w m)
  let ?m = "m\<lparr>fm_elapsed := fadd (fm_elapsed m) dt\<rparr>"
  obtain fs w' m' where t: "tick_entries env dt (fm_failures ?m) (w, ?m) = (fs, w', m')" using prod_cases3 by blast
  show ?thesis using tick_entries_keys [OF t] t by (simp add: Pair tick_failures_def failure_keys_def)
qed

lemma injects_inject: "injects (inject_from env c od extra)"
  unfolding inject_from_def
proof (intro injects_bind injects_of_result)
  fix magnitude duration
  let ?i = "\<lambda>wm. inject env (param_string c ''subsystem'' []) (param_string c ''failure'' []) magnitude
      (onset_of (param_string c ''onset'' ''step'')) duration od extra wm"
  show "injects (modify (\<lambda>(wm, x). case ?i wm of (fid, wm') \<Rightarrow> (wm', add_injected [fid] x)))"
    by (rule injectsI [where f = "\<lambda>wm. snd (?i wm)" and ids = "\<lambda>wm. [fst (?i wm)]"])
      (auto simp: modify_def inject_keys [OF surjective_pairing] split: prod.split)
qed

lemma injects_param: "injects (set_initial_param h kv)"
  unfolding set_initial_param_def by (auto intro: injects_world injects_ret split: sum.split)

lemma injects_clear:
  "injects (modify (\<lambda>(wm, x). (case failure_ref c of Some fid \<Rightarrow> snd (clear_id env fid wm) | None \<Rightarrow> clear_all env wm, x)))"
  by (rule injectsI [where f = "\<lambda>wm. case failure_ref c of Some fid \<Rightarrow> snd (clear_id env fid wm) | None \<Rightarrow> clear_all env wm"
        and ids = "\<lambda>_. []"])
    (auto simp: modify_def clear_id_keys clear_all_keys split: option.split)

lemma injects_action: "injects (fire_action h env action c)"
  unfolding fire_action_def
  by (auto intro!: injects_inject injects_clear injects_ret injects_param injects_bind injects_of_result injects_world
      injects_logged injects_on_world)

lemma injects_fire: "injects (fire_event h env ev)"
  unfolding fire_event_def by (auto intro: injects_action injects_raise injects_ret split: option.split)

section \<open>A tick fires what is due\<close>

definition fires :: "'w host \<Rightarrow> ('w, 'r) stage \<Rightarrow> scenario_event \<Rightarrow> bool" where
  "fires h s ev \<longleftrightarrow> \<not> se_fired ev \<and> event_due (snd s) (sh_params h (fst (fst s))) ev"

text \<open>The events executed one after the other, each when it is due at its turn, with their marks.\<close>

fun fire_due ::
  "'w host \<Rightarrow> ('w, 'r) environment \<Rightarrow> scenario_event list \<Rightarrow> (('w, 'r) stage, scenario_event list) py" where
  "fire_due h env [] = ret []"
| "fire_due h env (ev # evs) =
     bind_py (gets (\<lambda>s. fires h s ev)) (\<lambda>due.
     seq_py (when_py due (fire_event h env ev))
       (bind_py (fire_due h env evs) (\<lambda>l. ret ((if due then ev\<lparr>se_fired := True\<rparr> else ev) # l))))"

lemma fire_due_returns:
  "fire_due h env (ev # evs) s = (Inr l, s'') \<longleftrightarrow>
     (\<exists>s' l'. when_py (fires h s ev) (fire_event h env ev) s = (Inr (), s') \<and> fire_due h env evs s' = (Inr l', s'') \<and>
        l = (if fires h s ev then ev\<lparr>se_fired := True\<rparr> else ev) # l')"
  by (cases s''; cases "fst s''") (auto simp: bind_returns seq_returns ret_def)

lemma fire_due_snoc:
  assumes "fire_due h env evs s = (Inr l, s')" "when_py (fires h s' ev) (fire_event h env ev) s' = (Inr (), s'')"
  shows "fire_due h env (evs @ [ev]) s = (Inr (l @ [if fires h s' ev then ev\<lparr>se_fired := True\<rparr> else ev]), s'')"
  using assms
proof (induction evs arbitrary: s l)
  case Nil
  have "fire_due h env [] s'' = (Inr [], s'')" by (simp add: ret_def)
  with Nil show ?case unfolding append_Nil fire_due_returns by (auto simp: ret_def)
next
  case (Cons e evs)
  then show ?case unfolding append_Cons fire_due_returns by fastforce
qed

lemma fire_due_length: "fire_due h env evs s = (Inr l, s') \<Longrightarrow> length l = length evs"
  by (induction evs arbitrary: s l) (auto simp: fire_due_returns ret_def simp del: fire_due.simps(2))

text \<open>The scenario with the first events replaced by their treated forms.\<close>

definition treated :: "scenario_event list \<Rightarrow> scenario_definition \<Rightarrow> scenario_definition" where
  "treated evs d = d\<lparr>sd_events := evs @ drop (length evs) (sd_events d)\<rparr>"

lemma each_append: "each f (xs @ ys) = seq_py (each f xs) (each f ys)"
  by (induction xs) (simp_all add: seq_assoc)

lemma event_due_cong:
  "sx_elapsed x = sx_elapsed y \<Longrightarrow> sx_defaults x = sx_defaults y \<Longrightarrow> event_due x p ev = event_due y p ev"
  unfolding event_due_def by (rule arg_cong2 [where f = "(\<or>)"]; simp cong: option.case_cong)

lemma tick_events_fire:
  assumes "i \<le> length (sd_events d)" "sx_active x = Some d"
    and "each (tick_event h env) [0..<i] (wm, x) = (Inr (), (wm', x'))"
  shows "\<exists>ids evs. fire_due h env (take i (sd_events d)) (wm, x) = (Inr evs, (wm', add_injected ids x)) \<and>
     x' = x\<lparr>sx_active := Some (treated evs d), sx_injected := sx_injected x @ ids\<rparr>"
  using assms(1,3)
proof (induction i arbitrary: wm' x')
  case 0
  have "x\<lparr>sx_active := Some d\<rparr> = x" using assms(2) by (cases x) simp
  with 0 show ?case by (auto simp: ret_def treated_def intro!: exI [of _ "[]"])
next
  case (Suc i)
  let ?ev = "sd_events d ! i"
  obtain wm1 x1 where a: "each (tick_event h env) [0..<i] (wm, x) = (Inr (), (wm1, x1))"
    and b: "tick_event h env i (wm1, x1) = (Inr (), (wm', x'))"
    using Suc.prems(2) by (auto simp: each_append seq_returns ret_def)
  obtain ids evs where f: "fire_due h env (take i (sd_events d)) (wm, x) = (Inr evs, (wm1, add_injected ids x))"
    and x1: "x1 = x\<lparr>sx_active := Some (treated evs d), sx_injected := sx_injected x @ ids\<rparr>"
    using Suc.IH [OF _ a] Suc.prems(1) by auto
  have n: "length evs = i" using fire_due_length [OF f] Suc.prems(1) by simp
  have ev: "events_of x1 ! i = ?ev" using Suc.prems(1) n by (simp add: x1 events_of_def treated_def nth_append)
  have due: "\<not> se_fired ?ev \<and> event_due x1 (sh_params h (fst wm1)) ?ev \<longleftrightarrow> fires h (wm1, add_injected ids x) ?ev"
    using event_due_cong [of x1 "add_injected ids x" "sh_params h (fst wm1)" ?ev] by (simp add: fires_def x1)
  have t: "take (Suc i) (sd_events d) = take i (sd_events d) @ [?ev]" "drop i (sd_events d) = ?ev # drop (Suc i) (sd_events d)"
    using Suc.prems(1) by (simp_all add: take_Suc_conv_app_nth Cons_nth_drop_Suc)
  show ?case
  proof (cases "fires h (wm1, add_injected ids x) ?ev")
    case True
    obtain r wm2 ids2 where g: "\<And>y. fire_event h env ?ev (wm1, y) = (r, (wm2, add_injected ids2 y))"
      using injects_fire [of h env ?ev] unfolding injects_def by metis
    have r: "r = Inr ()" "wm' = wm2" "x' = add_injected ids2 (mark_fired i x1)"
      using b True g by (simp_all add: tick_event_def Let_def ev due)
    have "mark_fired i x1 = x1\<lparr>sx_active := Some (treated (evs @ [?ev\<lparr>se_fired := True\<rparr>]) d)\<rparr>"
      using Suc.prems(1) by (simp add: mark_fired_def x1 treated_def t n nth_append list_update_append)
    then have "x' = x\<lparr>sx_active := Some (treated (evs @ [?ev\<lparr>se_fired := True\<rparr>]) d), sx_injected := sx_injected x @ ids @ ids2\<rparr>"
      by (simp add: r(3) x1)
    moreover have "fire_due h env (take (Suc i) (sd_events d)) (wm, x) =
        (Inr (evs @ [?ev\<lparr>se_fired := True\<rparr>]), (wm', add_injected (ids @ ids2) x))"
      using fire_due_snoc [OF f, of ?ev] True by (simp add: t when_py_def g r(1,2))
    ultimately show ?thesis by blast
  next
    case False
    have r: "wm' = wm1" "x' = x1" using b False by (auto simp: tick_event_def Let_def ev due)
    have "treated (evs @ [?ev]) d = treated evs d" by (simp add: treated_def t n)
    moreover have "fire_due h env (take (Suc i) (sd_events d)) (wm, x) = (Inr (evs @ [?ev]), (wm', add_injected ids x))"
      using fire_due_snoc [OF f, of ?ev] False by (simp add: t when_py_def r(1) ret_def)
    ultimately show ?thesis by (auto simp: r x1)
  qed
qed

text \<open>
  A tick of a scenario fires exactly the events that are due: when it returns and the scenario's duration
  has not passed, each event that is not marked as fired and whose time has come or whose condition holds on
  the parameters as the events before it left them has been executed, in the order of the scenario, and marked;
  the others stay as they are, and the scenario goes on.
\<close>

theorem tick_fires_due_events:
  assumes "sx_active x = Some d" "tick_scenario h env dt (wm, x) = (Inr (), (wm', x'))"
  defines "x1 \<equiv> x\<lparr>sx_elapsed := fadd (sx_elapsed x) dt\<rparr>"
  assumes "\<not> fle (sd_duration d) (sx_elapsed x1)"
  shows "\<exists>ids evs. fire_due h env (sd_events d) (wm, x1) = (Inr evs, (wm', add_injected ids x1)) \<and>
     x' = x1\<lparr>sx_active := Some (d\<lparr>sd_events := evs\<rparr>), sx_injected := sx_injected x @ ids\<rparr>"
proof -
  obtain s2 where e: "each (tick_event h env) [0..<length (sd_events d)] (wm, x1) = (Inr (), s2)"
    and f: "end_on_duration env s2 = (Inr (), (wm', x'))"
    using assms(2) by (auto simp: tick_scenario_def assms(1) x1_def seq_returns)
  obtain wm2 x2 where s2: "s2 = (wm2, x2)" by fastforce
  obtain ids evs where i: "fire_due h env (sd_events d) (wm, x1) = (Inr evs, (wm2, add_injected ids x1))"
    "x2 = x1\<lparr>sx_active := Some (treated evs d), sx_injected := sx_injected x1 @ ids\<rparr>"
    using tick_events_fire [OF order_refl _ e [unfolded s2]] assms(1) by (auto simp: x1_def)
  have "(wm', x') = (wm2, x2)"
    using f assms(4) by (simp add: s2 end_on_duration_def modify_def i(2) treated_def)
  then show ?thesis using i fire_due_length [OF i(1)] by (auto simp: treated_def x1_def)
qed

section \<open>Nothing is left behind\<close>

text \<open>
  What happens while a scenario runs: its own ticks (also those an exception cuts short), the ticks of
  the failure manager, the operator's responses, and the instructor stopping the scenario.
\<close>

inductive stage_step :: "'w host \<Rightarrow> ('w, 'r) environment \<Rightarrow> ('w, 'r) stage \<Rightarrow> ('w, 'r) stage \<Rightarrow> bool"
  for h :: "'w host" and env :: "('w, 'r) environment" where
  scenario_ticks: "stage_step h env s (snd (tick_scenario h env dt s))"
| failures_tick: "stage_step h env (wm, x) (tick_failures env dt wm, x)"
| operator_responds: "stage_step h env (wm, x) (wm, record_response category description x)"
| instructor_stops: "stage_step h env s (snd (stop_scenario env s))"
| world_changes: "stage_step h env ((w, m), x) ((w', m), x)"

definition contained :: "pytext set \<Rightarrow> ('w, 'r) stage \<Rightarrow> bool" where
  "contained before s \<longleftrightarrow> failure_keys (fst s) \<subseteq> before \<union> set (sx_injected (snd s)) \<and>
     (sx_active (snd s) = None \<longrightarrow> failure_keys (fst s) \<subseteq> before)"

lemma clear_ids_keys: "failure_keys (fold (\<lambda>fid wm. snd (clear_id env fid wm)) ids wm) = failure_keys wm - set ids"
  by (induction ids arbitrary: wm) (auto simp: clear_id_keys)

lemma contained_finish: "contained before s \<Longrightarrow> contained before (snd (finish_scenario env s))"
  by (cases s) (auto simp: contained_def finish_scenario_def clear_ids_keys split: option.splits)

text \<open>Between the ends of scenarios the noted failures only grow, and no tick event ends a scenario.\<close>

definition running_on :: "pytext set \<Rightarrow> ('w, 'r) stage \<Rightarrow> bool" where
  "running_on before s \<longleftrightarrow> failure_keys (fst s) \<subseteq> before \<union> set (sx_injected (snd s)) \<and> sx_active (snd s) \<noteq> None"

lemma running_tick_event: "running_on before s \<Longrightarrow> running_on before (snd (tick_event h env i s))"
proof (cases s)
  case (Pair wm x)
  assume run: "running_on before s"
  let ?ev = "events_of x ! i"
  show ?thesis
  proof (cases "\<not> se_fired ?ev \<and> event_due x (sh_params h (fst wm)) ?ev")
    case True
    obtain r wm' ids where f: "failure_keys wm' \<subseteq> failure_keys wm \<union> set ids"
      "\<And>y. fire_event h env ?ev (wm, y) = (r, (wm', add_injected ids y))"
      using injects_fire [of h env ?ev] unfolding injects_def by metis
    show ?thesis using True run f(1)
      by (auto simp: Pair tick_event_def Let_def f(2) running_on_def mark_fired_def)
  next
    case False
    then show ?thesis using run by (auto simp: Pair tick_event_def Let_def)
  qed
qed

lemma running_events: "running_on before s \<Longrightarrow> running_on before (snd (each (tick_event h env) is s))"
proof (induction "is" arbitrary: s)
  case (Cons i "is")
  obtain r s1 where e: "tick_event h env i s = (r, s1)" by (rule prod.exhaust)
  have "running_on before s1" using running_tick_event [OF Cons.prems, of h env i] by (simp add: e)
  then show ?case using Cons.IH by (cases r) (simp_all add: seq_py_def bind_py_def e)
qed (simp add: ret_def)

lemma running_contained: "running_on before s \<Longrightarrow> contained before s"
  by (auto simp: running_on_def contained_def)

lemma contained_tick: "contained before s \<Longrightarrow> contained before (snd (tick_scenario h env dt s))"
proof (cases "sx_active (snd s)")
  case (Some d)
  assume c: "contained before s"
  let ?s1 = "(fst s, (snd s)\<lparr>sx_elapsed := fadd (sx_elapsed (snd s)) dt\<rparr>)"
  have "running_on before ?s1" using c Some by (simp add: contained_def running_on_def)
  from running_events [OF this, of h env "[0..<length (sd_events d)]"]
  obtain r s2 where e: "each (tick_event h env) [0..<length (sd_events d)] ?s1 = (r, s2)" and run: "running_on before s2"
    by (metis prod.exhaust snd_conv)
  have "contained before (snd (end_on_duration env s2))"
    using running_contained [OF run] contained_finish [of before s2 env]
    by (simp add: end_on_duration_def modify_def split: option.split)
  then show ?thesis using running_contained [OF run]
    by (cases r) (simp_all add: tick_scenario_def Some seq_py_def bind_py_def modify_def e)
qed (simp add: tick_scenario_def)

lemma contained_step: "stage_step h env s s' \<Longrightarrow> contained before s \<Longrightarrow> contained before s'"
proof (induction rule: stage_step.induct)
  case (failures_tick wm x dt)
  then show ?case using tick_failures_keys [of env dt wm] by (auto simp: contained_def)
qed (simp_all add: contained_tick stop_scenario_def contained_finish, auto simp: contained_def failure_keys_def record_response_def split: option.split)

text \<open>
  C27: A scenario leaves no failure behind. From the start of a scenario, whatever its events do, however
  the ticks of scenario and failures interleave, and whether it ends by itself or is stopped, once it is
  over the active failures are among those that were active before it began.
\<close>

theorem scenario_leaves_no_failure:
  assumes "start_scenario h env name s = (Inr True, s1)" "(stage_step h env)\<^sup>*\<^sup>* s1 s2" "sx_active (snd s2) = None"
  shows "failure_keys (fst s2) \<subseteq> failure_keys (fst s)"
proof -
  have "contained (failure_keys (fst s)) s1"
  proof (cases s)
    case (Pair wm x)
    then obtain s0 where s0: "map_of (sx_scenarios x) name = Some s0"
      using assms(1) by (cases "map_of (sx_scenarios x) name") (simp_all add: start_scenario_def)
    let ?x = "x\<lparr>sx_active := Some (reset_fired s0), sx_elapsed := f0, sx_responses := [], sx_times := [], sx_injected := []\<rparr>"
    have "injects (apply_initial_conditions h env (sd_initial s0))"
      unfolding apply_initial_conditions_def set_initial_line_def
      by (auto intro!: injects_seq injects_logged injects_bind injects_of_result injects_on_world injects_world injects_ret
          injects_each injects_param injects_inject split: option.split)
    then obtain r wm' ids where i: "failure_keys wm' \<subseteq> failure_keys wm \<union> set ids"
      "apply_initial_conditions h env (sd_initial s0) (wm, ?x) = (r, (wm', add_injected ids ?x))"
      unfolding injects_def by metis
    have "s1 = (wm', add_injected ids ?x)"
      using assms(1) by (cases r) (simp_all add: Pair start_scenario_def s0 bind_py_def modify_def i(2) ret_def)
    then show ?thesis using i(1) by (simp add: contained_def Pair)
  qed
  with assms(2) have "contained (failure_keys (fst s)) s2"
    by (induction rule: rtranclp_induct) (auto intro: contained_step)
  then show ?thesis using assms(3) by (simp add: contained_def)
qed

section \<open>Breakpoints\<close>

lemma restore_fired_idem:
  assumes "map (\<lambda>ev. ev\<lparr>se_fired := False\<rparr>) (sd_events d) = map (\<lambda>ev. ev\<lparr>se_fired := False\<rparr>) (sd_events e)"
    and "d\<lparr>sd_events := []\<rparr> = e\<lparr>sd_events := []\<rparr>"
  shows "restore_fired (filter (\<lambda>i. se_fired (sd_events d ! i)) [0..<length (sd_events d)]) e = d"
proof -
  have n: "length (sd_events e) = length (sd_events d)" using assms(1) by (metis length_map)
  have "map (\<lambda>(i, ev). ev\<lparr>se_fired := i \<in> set (filter (\<lambda>i. se_fired (sd_events d ! i)) [0..<length (sd_events d)])\<rparr>)
      (enumerate 0 (sd_events e)) = sd_events d"
  proof (rule nth_equalityI)
    fix i assume "i < length (map (\<lambda>(i, ev). ev\<lparr>se_fired := i \<in> set (filter (\<lambda>i. se_fired (sd_events d ! i)) [0..<length (sd_events d)])\<rparr>)
      (enumerate 0 (sd_events e)))"
    then have i: "i < length (sd_events d)" by (simp add: n)
    have "(sd_events d ! i)\<lparr>se_fired := False\<rparr> = (sd_events e ! i)\<lparr>se_fired := False\<rparr>"
      using arg_cong [OF assms(1), of "\<lambda>l. l ! i"] i n by simp
    then have "(sd_events e ! i)\<lparr>se_fired := se_fired (sd_events d ! i)\<rparr> = sd_events d ! i"
      by (cases "sd_events d ! i"; cases "sd_events e ! i") simp
    then show "map (\<lambda>(i, ev). ev\<lparr>se_fired := i \<in> set (filter (\<lambda>i. se_fired (sd_events d ! i)) [0..<length (sd_events d)])\<rparr>)
      (enumerate 0 (sd_events e)) ! i = sd_events d ! i" using i n by (simp add: nth_enumerate_eq)
  qed (simp add: n)
  then show ?thesis using assms(2) by (cases d; cases e) (simp add: restore_fired_def)
qed

text \<open>
  A breakpoint restores a running scenario: loaded into an engine whose catalogue has the scenario,
  in whatever progress that engine is, the saved state makes its progress the same in every respect,
  down to the events that have fired, the responses with their times and the failures to be cleared.
\<close>

theorem scenario_breakpoint:
  assumes "sx_active x = Some d" "sd_name d \<noteq> []" "map_of (sx_scenarios y) (sd_name d) = Some e"
    and "reset_fired e = reset_fired d"
  shows "scenario_set_state (scenario_get_state x) y =
     y\<lparr>sx_active := Some d, sx_elapsed := sx_elapsed x, sx_responses := sx_responses x, sx_times := sx_times x,
       sx_injected := sx_injected x\<rparr>"
proof -
  have "map (\<lambda>ev. ev\<lparr>se_fired := False\<rparr>) (sd_events d) = map (\<lambda>ev. ev\<lparr>se_fired := False\<rparr>) (sd_events e)"
    "d\<lparr>sd_events := []\<rparr> = e\<lparr>sd_events := []\<rparr>"
    using assms(4) by (cases d; cases e; simp add: reset_fired_def)+
  from restore_fired_idem [OF this] show ?thesis
    using assms(1-3) by (simp add: scenario_get_state_def scenario_set_state_def)
qed

section \<open>A concrete scenario\<close>

text \<open>A world in which nothing can be reached, and a scenario that fails the heater after a minute.\<close>

definition still_environment :: "(unit, unit) environment" where
  "still_environment = \<lparr>ev_inject = (\<lambda>_. ret ()), ev_clear = (\<lambda>_. ret ()), ev_random = (\<lambda>r. (f0, r))\<rparr>"

definition still_host :: "unit host" where
  "still_host = \<lparr>sh_params = (\<lambda>_. Map.empty), sh_set_param = (\<lambda>_ _ w. w), sh_speed_max = Fin False 1000, sh_set_speed = (\<lambda>_ w. w), sh_instructor = (\<lambda>_. ret ()),
     sh_soc = None, sh_has_line = (\<lambda>_ _. False), sh_set_line = (\<lambda>_ _ w. w)\<rparr>"

definition no_conditions :: initial_conditions where
  "no_conditions = \<lparr>ic_phase = None, ic_speed = None, ic_override = None, ic_soc = None, ic_power_lines = [],
     ic_params = [], ic_failures = []\<rparr>"

definition heater_event :: scenario_event where
  "heater_event = \<lparr>se_offset = Some (Fin False 60), se_condition = None, se_action = ''inject'',
     se_params = Some [(''subsystem'', VStr ''tcs''), (''failure'', VStr ''heater_failure'')], se_fired = False\<rparr>"

definition heater_scenario :: scenario_definition where
  "heater_scenario = \<lparr>sd_name = ''heater'', sd_difficulty = ''BASIC'', sd_duration = Fin False 600, sd_briefing = [],
     sd_events = [heater_event], sd_expected = [], sd_initial = no_conditions\<rparr>"

definition heater_engine :: scenario_engine where
  "heater_engine = (new_scenario_engine fallback_defaults)\<lparr>sx_scenarios := [(''heater'', heater_scenario)]\<rparr>"

definition heater_running :: scenario_engine where
  "heater_running = heater_engine\<lparr>sx_active := Some heater_scenario\<rparr>"

lemmas heater_simps = heater_running_def heater_engine_def heater_scenario_def heater_event_def new_scenario_engine_def

lemma heater_reset: "reset_fired heater_scenario = heater_scenario"
  by (simp add: reset_fired_def heater_scenario_def heater_event_def)

lemma heater_start:
  "start_scenario still_host still_environment ''heater'' (((), new_failure_manager ()), heater_engine) =
     (Inr True, (((), new_failure_manager ()), heater_running))"
  by (simp add: start_scenario_def heater_engine_def heater_running_def bind_py_def modify_def heater_reset
      heater_scenario_def [THEN arg_cong [where f = sd_initial]] apply_initial_conditions_def no_conditions_def seq_py_def ret_def
      new_scenario_engine_def)

lemma a_minute: "fadd f0 (Fin False 60) = Fin False 60"
  using of_pyint_exact [of 60] by (simp add: fadd_def fneg_def fin_val_def of_pyint_def)

lemma heater_fires: "\<exists>s. fire_event h env heater_event (wm, x) = (Inr (), s)"
  by (simp add: fire_event_def heater_event_def fire_action_def inject_from_def param_float_def modify_def split: prod.split)

lemma heater_tick:
  "\<exists>wm' x'. tick_scenario still_host still_environment (Fin False 60) (((), new_failure_manager ()), heater_running) =
     (Inr (), (wm', x'))"
proof -
  let ?x = "heater_running\<lparr>sx_elapsed := Fin False 60\<rparr>"
  have a: "sx_active heater_running = Some heater_scenario" "sx_elapsed heater_running = f0" "sd_events heater_scenario = [heater_event]"
    by (simp_all add: heater_running_def heater_engine_def heater_scenario_def new_scenario_engine_def)
  obtain s where "fire_event still_host still_environment heater_event (((), new_failure_manager ()), mark_fired 0 ?x) = (Inr (), s)"
    using heater_fires by metis
  moreover have "events_of ?x = [heater_event]" "event_due ?x Map.empty heater_event" "\<not> se_fired heater_event"
    using a by (simp_all add: events_of_def event_due_def heater_event_def fle_def fin_val_def)
  ultimately have "tick_event still_host still_environment 0 (((), new_failure_manager ()), ?x) = (Inr (), s)"
    by (simp add: tick_event_def Let_def still_host_def)
  then show ?thesis
    by (simp add: tick_scenario_def a a_minute seq_py_def bind_py_def modify_def ret_def end_on_duration_def)
qed

lemma tick_fires_due_events_witness:
  "sx_active (snd (snd (tick_scenario still_host still_environment (Fin False 60)
      (((), new_failure_manager ()), heater_running)))) =
   Some (heater_scenario\<lparr>sd_events := [heater_event\<lparr>se_fired := True\<rparr>]\<rparr>)"
proof -
  obtain wm' x' where t: "tick_scenario still_host still_environment (Fin False 60)
      (((), new_failure_manager ()), heater_running) = (Inr (), (wm', x'))" using heater_tick by blast
  have a: "sx_active heater_running = Some heater_scenario" "sx_elapsed heater_running = f0" "sd_events heater_scenario = [heater_event]"
    "sd_duration heater_scenario = Fin False 600"
    by (simp_all add: heater_running_def heater_engine_def heater_scenario_def new_scenario_engine_def)
  have "\<not> fle (sd_duration heater_scenario) (sx_elapsed (heater_running\<lparr>sx_elapsed := fadd (sx_elapsed heater_running) (Fin False 60)\<rparr>))"
    by (simp add: a a_minute fle_def fin_val_def)
  from tick_fires_due_events [OF a(1) t this] show ?thesis
    by (auto simp: t a a_minute fire_due_returns fires_def event_due_def heater_event_def fle_def fin_val_def ret_def
        simp del: fire_due.simps(2))
qed

lemma scenario_leaves_no_failure_witness:
  "failure_keys (fst (snd (stop_scenario still_environment (((), new_failure_manager ()), heater_running)))) = {}"
proof -
  have "(stage_step still_host still_environment)\<^sup>*\<^sup>* (((), new_failure_manager ()), heater_running)
      (snd (stop_scenario still_environment (((), new_failure_manager ()), heater_running)))"
    by (rule r_into_rtranclp) (rule instructor_stops)
  from scenario_leaves_no_failure [OF heater_start this] show ?thesis
    by (simp add: stop_scenario_def finish_scenario_def heater_running_def failure_keys_def new_failure_manager_def)
qed

lemma scenario_breakpoint_witness:
  "sx_active (scenario_set_state (scenario_get_state heater_running) heater_engine) = Some heater_scenario"
  by (subst scenario_breakpoint [where d = heater_scenario and e = heater_scenario])
    (simp_all add: heater_running_def heater_engine_def heater_scenario_def)

end
