(* ===== verification/Sim_Platform.thy ===== *)
theory Sim_Platform
  imports Fdir_Advanced Scenario_Engine Monitoring Obcp Tm_Emission Spacecraft_Phase
begin

text \<open>
  The simulation engine around the on-board software (\<open>smo_simulator/engine.py\<close>): its state, what the
  configuration fixes, and the parts of a tick that are its own: the subsystem models, propulsion and
  the orbit, the events derived from parameters, from the models and from the orbit. \<open>platform\<close> holds
  what the engine has beside the failure manager and the scenario engine; time is in microseconds, as
  in Python's \<open>datetime\<close>.
\<close>

section \<open>State\<close>

text \<open>What the engine reads of the orbit.\<close>

record orbit_view =
  ow_in_contact :: bool
  ow_active_gs :: "string option"
  ow_elevation :: py_float
  ow_in_eclipse :: bool

record impulse =
  iv_dv :: "py_float list"
  iv_utc_mid :: "pytext option"
  iv_dv_mag :: "py_float option"

text \<open>An entry of the models' event queue: a dictionary, a tuple with its first entries, or another object.\<close>

datatype model_event = Event_dict event | Event_tuple "int option" "pytext option" | Event_malformed

text \<open>
  A snapshot of the simulation. The states of the models and the element set are dictionaries;
  \<open>None\<close> is a missing entry.
\<close>

record 'r saved_engine =
  se_phase :: "int option"
  se_sep_timer :: "py_float option"
  se_sep_duration :: "py_float option"
  se_auto_tx :: "py_float option"
  se_shed_stage :: "int option"
  se_elapsed_fdir :: "py_float option"
  se_safe :: "bool option"
  se_emergency :: "bool option"
  se_prev_contact :: "bool option"
  se_prev_eclipse :: "bool option"
  se_contact :: "bool option"
  se_active_gs :: "string option option"
  se_prev_gs :: "string option option"
  se_prev_aocs :: "int option option"
  se_prev_payload :: "int option option"
  se_prev_obdh :: "int option option"
  se_flags :: "(string \<times> bool) list option"
  se_violation_active :: "int list option"
  se_violation_records :: "(int \<times> violation) list option"
  se_dump_pending :: "(string \<times> int) list option"
  se_dump_active :: "int list option"
  se_dump_budget :: "py_float option"
  se_rt_pending :: "string list option"
  se_rt_budget :: "py_float option"
  se_override :: "bool option"
  se_tm_apid :: "int option"
  se_tm_seq :: "int option"
  se_seed :: "int option"
  se_rng :: "'r option"
  se_clamped :: "bool option"

record 'r snapshot =
  sn_name :: pytext
  sn_tick_count :: "nat option"
  sn_sim_time :: "int option"
  sn_speed :: "py_float option"
  sn_sc_mode :: "int option"
  sn_params :: "(int \<rightharpoonup> py_float) option"
  sn_triggered :: "(string \<times> bool) list option"
  sn_hk_timers :: "(int \<times> py_float) list option"
  sn_models :: "(string \<times> command) list"
  sn_engine :: "'r saved_engine option"
  sn_scheduler :: "saved_schedule option"
  sn_failures :: "'r failures_state option"
  sn_scenario :: "scenario_state option option"
  sn_dispatcher :: "saved_dispatcher option"
  sn_shedding :: "(int option \<times> py_float option) option"
  sn_propagator :: "propagator_state option"
  sn_executor :: "procedure_execution list option"
  sn_storage :: "saved_storage option"
  sn_obcp :: "saved_obcp option"
  sn_memory :: "(int \<times> string) list option"
  sn_rng_engine :: "'r option"
  sn_rng_failures :: "'r option"
  sn_hk_enabled :: "(int \<times> bool) list option"
  sn_orbit_elset :: "command option"
  sn_orbit_utc :: "int option"

record ('m, 'o, 'r) platform =
  pf_fdir :: "'m fdir"
  pf_orbit :: 'o
  pf_rng :: 'r
  pf_seed :: int
  pf_time :: int
  pf_speed :: py_float
  pf_paused_speed :: "py_float option"
  pf_sep_duration :: py_float
  pf_prev_contact :: bool
  pf_prev_eclipse :: bool
  pf_prev_gs :: "string option"
  pf_prev_aocs :: "int option"
  pf_prev_payload :: "int option"
  pf_prev_obdh :: "int option"
  pf_flags :: "(string \<times> bool) list"
  pf_clamped :: bool
  pf_tc_queue :: "bytes list"
  pf_instructions :: "command list"
  pf_rejects :: nat
  pf_ticks :: nat
  pf_fault_count :: nat
  pf_fault :: "py_error option"
  pf_breakpoints :: "(pytext \<times> 'r snapshot) list"

type_synonym ('m, 'o, 'r) stage_of = "(('m, 'o, 'r) platform, 'r) stage"

text \<open>
  What is fixed: the configuration, and the subsystem models, the propagator and the standard library
  as functions. \<open>sm_depth\<close> bounds the recursion of events, \<open>sm_events_max\<close> the model events of one
  step; \<open>sm_impulse\<close> is \<open>consume_pending_impulse\<close> and \<open>sm_couple\<close> sets the battery's ambient
  temperature, both \<open>None\<close> for models without these methods; \<open>sm_stamp\<close> is the name a breakpoint without
  one gets from the time of day, \<open>sm_inline_state\<close> reads a snapshot that comes with a command.
\<close>

record ('m, 'o, 'r) sim_config =
  sm_fdir :: "'m fdir_config"
  sm_fdir_enabled :: bool
  sm_names :: "string list"
  sm_depth :: nat
  sm_events_max :: nat
  sm_message :: "py_error \<Rightarrow> string"
  sm_random :: "'r \<Rightarrow> py_float \<times> 'r"
  sm_dt_max :: py_float
  sm_max_substeps :: int
  sm_speed_max :: py_float
  sm_burn_speed :: py_float
  sm_model_tick :: "string \<Rightarrow> py_float \<Rightarrow> 'o \<Rightarrow> ((int \<rightharpoonup> py_float) \<times> 'm, unit) py"
  sm_model_inject :: "string \<Rightarrow> string \<Rightarrow> py_float \<Rightarrow> command \<Rightarrow> ('m, unit) py"
  sm_model_clear :: "string \<Rightarrow> string \<Rightarrow> command \<Rightarrow> ('m, unit) py"
  sm_model_state :: "string \<Rightarrow> 'm \<Rightarrow> command result"
  sm_model_restore :: "string \<Rightarrow> command \<Rightarrow> ('m, unit) py"
  sm_next_event :: "'m \<Rightarrow> (model_event \<times> 'm) option"
  sm_couple :: "('m \<Rightarrow> 'm) option"
  sm_impulse :: "('m, impulse option) py option"
  sm_advance :: "py_float \<Rightarrow> ('o, unit) py"
  sm_view :: "'o \<Rightarrow> orbit_view"
  sm_orbit_utc :: "'o \<Rightarrow> int"
  sm_apply_dv :: "py_float list \<Rightarrow> int \<Rightarrow> ('o, string + py_float \<times> int) py"
  sm_elset :: "'o \<Rightarrow> command option"
  sm_set_elset :: "command option \<Rightarrow> ('o, unit) py"
  sm_reset_orbit :: "int \<Rightarrow> ('o, unit) py"
  sm_fromisoformat :: "pytext \<Rightarrow> int option"
  sm_stamp :: pytext
  sm_inline_state :: "pyval \<Rightarrow> 'r snapshot"

abbreviation board :: "('m, 'o, 'r) platform \<Rightarrow> 'm engine" where
  "board p \<equiv> fd_engine (pf_fdir p)"

abbreviation set_board :: "'m engine \<Rightarrow> ('m, 'o, 'r) platform \<Rightarrow> ('m, 'o, 'r) platform" where
  "set_board e p \<equiv> p\<lparr>pf_fdir := (pf_fdir p)\<lparr>fd_engine := e\<rparr>\<rparr>"

abbreviation on_fdir :: "('m fdir, 'a) py \<Rightarrow> (('m, 'o, 'r) platform, 'a) py" where
  "on_fdir \<equiv> zoom pf_fdir (\<lambda>f p. p\<lparr>pf_fdir := f\<rparr>)"

abbreviation on_board :: "('m engine, 'a) py \<Rightarrow> (('m, 'o, 'r) platform, 'a) py" where
  "on_board \<equiv> zoom board set_board"

abbreviation on_orbit :: "('o, 'a) py \<Rightarrow> (('m, 'o, 'r) platform, 'a) py" where
  "on_orbit \<equiv> zoom pf_orbit (\<lambda>x p. p\<lparr>pf_orbit := x\<rparr>)"

abbreviation change_board :: "('m engine \<Rightarrow> 'm engine) \<Rightarrow> (('m, 'o, 'r) platform, unit) py" where
  "change_board f \<equiv> modify (\<lambda>p. set_board (f (board p)) p)"

text \<open>The configuration of the on-board part at the current time, and \<open>_emit_event\<close>.\<close>

definition board_config :: "('m, 'o, 'r) sim_config \<Rightarrow> ('m, 'o, 'r) platform \<Rightarrow> 'm config" where
  "board_config c p = (fc_base (sm_fdir c))\<lparr>cf_time := of_int (pf_time p) / 10 ^ 6\<rparr>"

definition fdir_config_at :: "('m, 'o, 'r) sim_config \<Rightarrow> ('m, 'o, 'r) platform \<Rightarrow> 'm fdir_config" where
  "fdir_config_at c p = (sm_fdir c)\<lparr>fc_base := board_config c p\<rparr>"

abbreviation models_of :: "('m, 'o, 'r) sim_config \<Rightarrow> 'm subsystems" where
  "models_of c \<equiv> cf_sys (fc_base (sm_fdir c))"

definition with_board ::
  "('m, 'o, 'r) sim_config \<Rightarrow> ('m config \<Rightarrow> (event \<Rightarrow> ('m engine, unit) py) \<Rightarrow> ('m engine, 'a) py) \<Rightarrow>
   (('m, 'o, 'r) platform, 'a) py" where
  "with_board c m = bind_py (gets (board_config c)) (\<lambda>cf. on_board (m cf (emit_event cf (sm_depth c))))"

definition emit :: "('m, 'o, 'r) sim_config \<Rightarrow> event \<Rightarrow> (('m, 'o, 'r) platform, unit) py" where
  "emit c ev = with_board c (\<lambda>_ em. em ev)"

definition an_event :: "int \<Rightarrow> int \<Rightarrow> pytext \<Rightarrow> event" where
  "an_event k severity text = \<lparr>ev_id = k, ev_severity = Sev_int severity, ev_description = text, ev_extra = []\<rparr>"

definition a_named_event :: "int \<Rightarrow> string \<Rightarrow> pytext \<Rightarrow> event" where
  "a_named_event k severity text = \<lparr>ev_id = k, ev_severity = Sev_name severity, ev_description = text, ev_extra = []\<rparr>"

definition set_param :: "int \<Rightarrow> py_float \<Rightarrow> (('m, 'o, 'r) platform, unit) py" where
  "set_param k x = change_board (\<lambda>e. e\<lparr>en_params := (en_params e)(k \<mapsto> x)\<rparr>)"

definition publish_override :: "(('m, 'o, 'r) platform, unit) py" where
  "publish_override = bind_py (gets (\<lambda>p. en_override_passes (board p))) (\<lambda>b. set_param 0x05FF (of_pyint (of_bool b)))"

section \<open>The orbit and the models\<close>

definition advance_orbit :: "('m, 'o, 'r) sim_config \<Rightarrow> py_float \<Rightarrow> (('m, 'o, 'r) platform, orbit_view) py" where
  "advance_orbit c dt = seq_py (on_orbit (sm_advance c dt)) (bind_py (gets (\<lambda>p. sm_view c (pf_orbit p))) (\<lambda>v.
     seq_py (modify (\<lambda>p. set_board ((board p)\<lparr>en_in_contact := ow_in_contact v\<rparr>)
         (p\<lparr>pf_fdir := (pf_fdir p)\<lparr>fd_active_gs := ow_active_gs v\<rparr>\<rparr>)))
     (seq_py publish_override
     (seq_py (bind_py (gets pf_speed) (set_param 0x05FE)) (ret v)))))"

text \<open>The subsystems that run in a phase.\<close>

definition ALWAYS_ON :: "string list" where "ALWAYS_ON = [''eps'', ''ttc'', ''obdh'']"

definition ticks_in_phase :: "int \<Rightarrow> string \<Rightarrow> bool" where
  "ticks_in_phase phase name =
     (if phase < 2 then name \<in> set ALWAYS_ON else if phase < 4 then name \<in> set ALWAYS_ON \<or> name = ''tcs'' else True)"

definition tick_model :: "('m, 'o, 'r) sim_config \<Rightarrow> py_float \<Rightarrow> 'o \<Rightarrow> string \<Rightarrow> (('m, 'o, 'r) platform, unit) py" where
  "tick_model c dt orb name = logged_call (on_board (zoom (\<lambda>e. (en_params e, en_models e))
     (\<lambda>(ps, m) e. e\<lparr>en_params := ps, en_models := m\<rparr>) (sm_model_tick c name dt orb)))"

definition tick_models :: "('m, 'o, 'r) sim_config \<Rightarrow> py_float \<Rightarrow> (('m, 'o, 'r) platform, unit) py" where
  "tick_models c dt = bind_py (gets (\<lambda>p. (en_phase (board p), pf_orbit p))) (\<lambda>(phase, orb).
     each (tick_model c dt orb) (filter (ticks_in_phase phase) (sm_names c)))"

definition couple_battery :: "('m, 'o, 'r) sim_config \<Rightarrow> (('m, 'o, 'r) platform, unit) py" where
  "couple_battery c = (case sm_couple c of
     Some f \<Rightarrow> when_py (sy_present (models_of c) ''eps'' \<and> sy_present (models_of c) ''tcs'')
       (change_board (\<lambda>e. e\<lparr>en_models := f (en_models e)\<rparr>))
   | None \<Rightarrow> ret ())"

section \<open>Propulsion\<close>

definition fmt_signed :: "nat \<Rightarrow> py_float \<Rightarrow> string" where
  "fmt_signed places x = (case x of Fin s m \<Rightarrow> (if s then [] else ''+'') @ fmt_fixed places x
     | Infinite s \<Rightarrow> (if s then [] else ''+'') @ fmt_fixed places x | NaN \<Rightarrow> ''+'' @ fmt_fixed places x)"

definition impulse_utc :: "('m, 'o, 'r) sim_config \<Rightarrow> impulse \<Rightarrow> 'o \<Rightarrow> int" where
  "impulse_utc c imp orb = (case iv_utc_mid imp of None \<Rightarrow> sm_orbit_utc c orb
     | Some t \<Rightarrow> (case sm_fromisoformat c t of Some u \<Rightarrow> u | None \<Rightarrow> sm_orbit_utc c orb))"

definition apply_prop_impulse :: "('m, 'o, 'r) sim_config \<Rightarrow> impulse \<Rightarrow> (('m, 'o, 'r) platform, unit) py" where
  "apply_prop_impulse c imp = bind_py (gets (\<lambda>p. impulse_utc c imp (pf_orbit p))) (\<lambda>utc.
     bind_py (on_orbit (sm_apply_dv c (iv_dv imp) utc)) (\<lambda>res. case res of
         Inl err \<Rightarrow> emit c (a_named_event 0x0812 ''HIGH'' (py (''PROP_ORBIT_FIT_FAILED: '' @ err @ '' '') @ [0x2014] @
             py '' element set unchanged, flight dynamics to investigate''))
       | Inr (da, epoch) \<Rightarrow> emit c (a_named_event 0x080F ''INFO'' (py (''PROP_ORBIT_UPDATED: dv '' @
             fmt_fixed 3 (case iv_dv_mag imp of Some x \<Rightarrow> x | None \<Rightarrow> f0) @ '' m/s, da '' @ fmt_signed 3 da @
             '' km, epoch_version '' @ str_int epoch)))))"

definition burn_firing :: "('m, 'o, 'r) sim_config \<Rightarrow> 'm \<Rightarrow> bool" where
  "burn_firing c m = (case sy_attr (models_of c) ''prop'' ''state'' m of
     None \<Rightarrow> False | Some v \<Rightarrow> (case value_int v of Inr k \<Rightarrow> k = 2 | Inl _ \<Rightarrow> False))"

definition tick_prop_speed_clamp :: "('m, 'o, 'r) sim_config \<Rightarrow> (('m, 'o, 'r) platform, unit) py" where
  "tick_prop_speed_clamp c = bind_py (gets (\<lambda>p. (burn_firing c (en_models (board p)), pf_speed p, pf_clamped p)))
     (\<lambda>(firing, speed, clamped).
       if \<not> firing then modify (\<lambda>p. p\<lparr>pf_clamped := False\<rparr>)
       else when_py (fless (sm_burn_speed c) speed)
         (seq_py (modify (\<lambda>p. p\<lparr>pf_speed := sm_burn_speed c\<rparr>))
         (when_py (\<not> clamped) (seq_py (modify (\<lambda>p. p\<lparr>pf_clamped := True\<rparr>))
           (emit c (a_named_event 0x0811 ''INFO'' (py (''PROP_SPEED_CLAMPED: time acceleration clamped to '' @
              fmt_fixed 0 (sm_burn_speed c) @ ''x during burn''))))))))"

definition tick_propulsion :: "('m, 'o, 'r) sim_config \<Rightarrow> (('m, 'o, 'r) platform, unit) py" where
  "tick_propulsion c = (case sm_impulse c of
     Some consume \<Rightarrow> when_py (sy_present (models_of c) ''prop'')
       (bind_py (catch (on_board (on_models consume)) (\<lambda>_. ret None)) (\<lambda>imp.
        seq_py (case imp of None \<Rightarrow> ret () | Some i \<Rightarrow> when_py (iv_dv i \<noteq> []) (apply_prop_impulse c i))
          (tick_prop_speed_clamp c)))
   | None \<Rightarrow> ret ())"

end
