(* ===== verification/Sim_Events.thy ===== *)
theory Sim_Events
  imports Sim_Platform
begin

text \<open>
  The events the engine derives in a step (\<open>smo_simulator/engine.py\<close>): mode changes and thresholds read
  off the parameters, what the subsystem models have queued, and the transitions of the orbit.
\<close>

section \<open>Mode changes\<close>

definition mode_name :: "(int \<times> string) list \<Rightarrow> int \<Rightarrow> string" where
  "mode_name names k = (case map_of names k of Some s \<Rightarrow> s | None \<Rightarrow> ''?'')"

definition mode_text :: "string \<Rightarrow> (int \<times> string) list \<Rightarrow> int \<Rightarrow> int \<Rightarrow> pytext" where
  "mode_text title names before k = py (title @ '' mode: '' @ mode_name names before @ '' -> '' @ mode_name names k)"

definition AOCS_MODES :: "(int \<times> string) list" where
  "AOCS_MODES = [(0, ''OFF''), (1, ''DETUMBLE''), (2, ''SAFE''), (3, ''NADIR''), (4, ''TARGET'')]"

definition PAYLOAD_MODES :: "(int \<times> string) list" where
  "PAYLOAD_MODES = [(0, ''OFF''), (1, ''STANDBY''), (2, ''IMAGING''), (3, ''PLAYBACK'')]"

definition OBDH_MODES :: "(int \<times> string) list" where
  "OBDH_MODES = [(0, ''NOMINAL''), (1, ''SAFE''), (2, ''EMERGENCY'')]"

definition aocs_mode_event :: "int \<Rightarrow> int \<Rightarrow> event" where
  "aocs_mode_event before k = an_event 0x0200 (if k \<le> 2 then 2 else 1) (mode_text ''AOCS'' AOCS_MODES before k)"

definition payload_mode_event :: "int \<Rightarrow> int \<Rightarrow> event" where
  "payload_mode_event before k =
     (if k = 2 then an_event 0x0600 1 (py ''Imaging started'')
      else if before = 2 then an_event 0x0601 1 (py ''Imaging stopped'')
      else an_event 0x0602 1 (mode_text ''Payload'' PAYLOAD_MODES before k))"

definition obdh_mode_event :: "int \<Rightarrow> int \<Rightarrow> event" where
  "obdh_mode_event before k =
     an_event 0x0300 (if 2 \<le> k then 3 else if k = 1 then 2 else 1) (mode_text ''OBC'' OBDH_MODES before k)"

text \<open>\<open>int(p.get(pid, 0))\<close>, and one edge detector: the first value it sees raises no event.\<close>

definition int_param :: "int \<Rightarrow> ('m, 'o, 'r) platform \<Rightarrow> int result" where
  "int_param pid p = (case en_params (board p) pid of None \<Rightarrow> Inr 0 | Some x \<Rightarrow> trunc_float x)"

definition mode_change ::
  "('m, 'o, 'r) sim_config \<Rightarrow> int \<Rightarrow> (('m, 'o, 'r) platform \<Rightarrow> int option) \<Rightarrow>
   (int option \<Rightarrow> ('m, 'o, 'r) platform \<Rightarrow> ('m, 'o, 'r) platform) \<Rightarrow> (int \<Rightarrow> int \<Rightarrow> event) \<Rightarrow>
   (('m, 'o, 'r) platform, unit) py" where
  "mode_change c pid rd wr ev = bind_py (gets (int_param pid)) (\<lambda>r. bind_py (of_result r) (\<lambda>mode.
     bind_py (gets rd) (\<lambda>prev.
     seq_py (case prev of None \<Rightarrow> ret () | Some k \<Rightarrow> when_py (mode \<noteq> k) (emit c (ev k mode)))
       (modify (wr (Some mode))))))"

section \<open>Thresholds\<close>

definition flag :: "string \<Rightarrow> ('m, 'o, 'r) platform \<Rightarrow> bool" where
  "flag name p \<longleftrightarrow> map_of (pf_flags p) name = Some True"

definition set_flag :: "string \<Rightarrow> bool \<Rightarrow> ('m, 'o, 'r) platform \<Rightarrow> ('m, 'o, 'r) platform" where
  "set_flag name b p = p\<lparr>pf_flags := AList.update name b (pf_flags p)\<rparr>"

text \<open>A threshold with hysteresis: one event on the way in, armed again on the way out.\<close>

definition hysteresis ::
  "('m, 'o, 'r) sim_config \<Rightarrow> string \<Rightarrow> bool \<Rightarrow> bool \<Rightarrow> event \<Rightarrow> (('m, 'o, 'r) platform, unit) py" where
  "hysteresis c name bad good ev = bind_py (gets (flag name)) (\<lambda>up.
     if bad \<and> \<not> up then seq_py (modify (set_flag name True)) (emit c ev)
     else when_py good (modify (set_flag name False)))"

definition param_or :: "int \<Rightarrow> py_float \<Rightarrow> ('m, 'o, 'r) platform \<Rightarrow> py_float" where
  "param_or pid d p = (case en_params (board p) pid of Some x \<Rightarrow> x | None \<Rightarrow> d)"

definition below :: "rat \<Rightarrow> py_float \<Rightarrow> bool" where "below k x = fless x (Fin False k)"
definition above :: "rat \<Rightarrow> py_float \<Rightarrow> bool" where "above k x = fless (Fin False k) x"
definition at_least :: "rat \<Rightarrow> py_float \<Rightarrow> bool" where "at_least k x = fle (Fin False k) x"
definition at_most :: "rat \<Rightarrow> py_float \<Rightarrow> bool" where "at_most k x = fle x (Fin False k)"

definition level_event :: "int \<Rightarrow> int \<Rightarrow> string \<Rightarrow> string \<Rightarrow> py_float \<Rightarrow> event" where
  "level_event k severity title unit x = an_event k severity (py (title @ '': '' @ fmt_fixed 1 x @ unit))"

definition check_charge :: "('m, 'o, 'r) sim_config \<Rightarrow> (('m, 'o, 'r) platform, unit) py" where
  "check_charge c = bind_py (gets (param_or 0x0101 (Fin False 75))) (\<lambda>soc.
     seq_py (hysteresis c ''low_soc_20'' (below 20 soc) (at_least 22 soc)
         (level_event 0x0100 4 ''Battery SoC critical'' ''%'' soc))
       (hysteresis c ''low_soc_30'' (below 30 soc) (at_least 32 soc) (level_event 0x0101 3 ''Battery SoC low'' ''%'' soc)))"

definition check_bus :: "('m, 'o, 'r) sim_config \<Rightarrow> (('m, 'o, 'r) platform, unit) py" where
  "check_bus c = bind_py (gets (param_or 0x0105 (Fin False 28))) (\<lambda>v.
     hysteresis c ''undervoltage'' (below 24 v) (at_least 25 v) (level_event 0x0102 4 ''Bus undervoltage'' ''V'' v))"

definition check_store :: "('m, 'o, 'r) sim_config \<Rightarrow> (('m, 'o, 'r) platform, unit) py" where
  "check_store c = bind_py (gets (param_or 0x0604 f0)) (\<lambda>pct.
     hysteresis c ''store_warn'' (above 90 pct) (at_most 85 pct) (level_event 0x0603 2 ''Payload storage > 90%'' ''%'' pct))"

definition check_subsystem_events :: "('m, 'o, 'r) sim_config \<Rightarrow> (('m, 'o, 'r) platform, unit) py" where
  "check_subsystem_events c =
     seq_py (mode_change c 0x020F pf_prev_aocs (\<lambda>k p. p\<lparr>pf_prev_aocs := k\<rparr>) aocs_mode_event)
     (seq_py (mode_change c 0x0600 pf_prev_payload (\<lambda>k p. p\<lparr>pf_prev_payload := k\<rparr>) payload_mode_event)
     (seq_py (mode_change c 0x0300 pf_prev_obdh (\<lambda>k p. p\<lparr>pf_prev_obdh := k\<rparr>) obdh_mode_event)
     (seq_py (check_charge c) (seq_py (check_bus c) (check_store c)))))"

section \<open>Events of the models\<close>

definition delivered :: "model_event \<Rightarrow> event option" where
  "delivered ev = (case ev of Event_dict e \<Rightarrow> Some e
     | Event_tuple k t \<Rightarrow> Some (an_event (case k of Some k \<Rightarrow> k | None \<Rightarrow> 0) 2 (case t of Some t \<Rightarrow> t | None \<Rightarrow> []))
     | Event_malformed \<Rightarrow> None)"

definition deliver :: "('m, 'o, 'r) sim_config \<Rightarrow> model_event \<Rightarrow> (('m, 'o, 'r) platform, unit) py" where
  "deliver c ev = (case delivered ev of None \<Rightarrow> ret () | Some e \<Rightarrow> logged_call (emit c e))"

text \<open>
  The loop runs until the queue is empty; an event may raise others. It is cut off after \<open>n\<close> events.
\<close>

fun drain_model_events :: "('m, 'o, 'r) sim_config \<Rightarrow> nat \<Rightarrow> (('m, 'o, 'r) platform, unit) py" where
  "drain_model_events c 0 = ret ()"
| "drain_model_events c (Suc n) = (\<lambda>p. case sm_next_event c (en_models (board p)) of
       None \<Rightarrow> (Inr (), p)
     | Some (ev, m) \<Rightarrow> seq_py (deliver c ev) (drain_model_events c n) (set_board ((board p)\<lparr>en_models := m\<rparr>) p))"

section \<open>Transitions of the orbit\<close>

definition station_tag :: "string option \<Rightarrow> string" where
  "station_tag gs = (case gs of None \<Rightarrow> [] | Some g \<Rightarrow> if g = [] then [] else '' '' @ g)"

definition aos_event :: "orbit_view \<Rightarrow> event" where
  "aos_event v = an_event 0x0001 1 (py (''AOS'' @ station_tag (ow_active_gs v) @ '' '') @ [0x2014] @
     py ('' elevation '' @ fmt_fixed 1 (ow_elevation v)) @ [0xB0])"

definition los_event :: "string option \<Rightarrow> event" where
  "los_event gs = an_event 0x0002 1 (py (''LOS'' @ station_tag gs))"

definition check_transitions :: "('m, 'o, 'r) sim_config \<Rightarrow> orbit_view \<Rightarrow> (('m, 'o, 'r) platform, unit) py" where
  "check_transitions c v =
     seq_py (bind_py (gets (\<lambda>p. (pf_prev_contact p, pf_prev_gs p))) (\<lambda>(prev, gs).
       if ow_in_contact v \<and> \<not> prev then emit c (aos_event v)
       else when_py (\<not> ow_in_contact v \<and> prev) (emit c (los_event gs))))
     (seq_py (when_py (ow_in_contact v \<and> station_tag (ow_active_gs v) \<noteq> [])
         (modify (\<lambda>p. p\<lparr>pf_prev_gs := ow_active_gs v\<rparr>)))
     (seq_py (bind_py (gets pf_prev_eclipse) (\<lambda>prev.
         if ow_in_eclipse v \<and> \<not> prev then emit c (an_event 0x0010 1 (py ''Eclipse entry''))
         else when_py (\<not> ow_in_eclipse v \<and> prev) (emit c (an_event 0x0011 1 (py ''Sunlight entry'')))))
       (modify (\<lambda>p. p\<lparr>pf_prev_contact := ow_in_contact v, pf_prev_eclipse := ow_in_eclipse v\<rparr>))))"

end
