(* ===== verification/Breakpoints.thy ===== *)
theory Breakpoints
  imports Sim_Platform
begin

text \<open>
  Breakpoints (\<open>smo_simulator/breakpoints.py\<close>, \<open>get_state\<close> and \<open>set_state\<close> of
  \<open>SimulationEngine\<close>): the snapshot of a simulation and its restoration, component by component. The
  JSON files and the time of day in a generated name are not modelled: a snapshot is the dictionary.
\<close>

section \<open>The engine\<close>

definition engine_get_state :: "('m, 'o, 'r) platform \<Rightarrow> 'r saved_engine" where
  "engine_get_state p = (let f = pf_fdir p; e = fd_engine f in
     \<lparr>se_phase = Some (en_phase e), se_sep_timer = Some (en_sep_timer e), se_sep_duration = Some (pf_sep_duration p),
      se_auto_tx = Some (en_auto_tx e), se_shed_stage = Some (fd_shed_stage f), se_elapsed_fdir = Some (fd_elapsed f),
      se_safe = Some (fd_safe f), se_emergency = Some (fd_emergency f), se_prev_contact = Some (pf_prev_contact p),
      se_prev_eclipse = Some (pf_prev_eclipse p), se_contact = Some (en_in_contact e),
      se_active_gs = Some (fd_active_gs f), se_prev_gs = Some (pf_prev_gs p), se_prev_aocs = Some (pf_prev_aocs p),
      se_prev_payload = Some (pf_prev_payload p), se_prev_obdh = Some (pf_prev_obdh p), se_flags = Some (pf_flags p),
      se_violation_active = Some (sorted_list_of_set (en_violation_active e)),
      se_violation_records = Some (en_violation_records e),
      se_dump_pending = Some (map (\<lambda>(pkt, store_id). (bytes_hex pkt, store_id)) (en_dump_pending e)),
      se_dump_active = Some (sort (en_dump_active e)), se_dump_budget = Some (en_dump_budget e),
      se_rt_pending = Some (map bytes_hex (en_rt_pending e)), se_rt_budget = Some (en_rt_budget e),
      se_override = Some (en_override_passes e), se_tm_apid = Some (tb_apid (en_builder e)),
      se_tm_seq = Some (tb_seq_count (en_builder e)), se_seed = Some (pf_seed p), se_rng = Some (pf_rng p),
      se_clamped = Some (pf_clamped p)\<rparr>)"

fun all_fromhex :: "string list \<Rightarrow> bytes list result" where
  "all_fromhex [] = Inr []"
| "all_fromhex (h # hs) = bind_result (bytes_fromhex h) (\<lambda>b. bind_result (all_fromhex hs) (\<lambda>bs. Inr (b # bs)))"

definition dump_fromhex :: "(string \<times> int) list \<Rightarrow> (bytes \<times> int) list result" where
  "dump_fromhex l = bind_result (all_fromhex (map fst l)) (\<lambda>bs. Inr (zip bs (map snd l)))"

text \<open>\<open>g(key, current)\<close>.\<close>

abbreviation (input) or_else :: "'a option \<Rightarrow> 'a \<Rightarrow> 'a" where "or_else x cur \<equiv> defaulted cur x"

text \<open>
  The assignments in their order: up to the packets of the dump, which may not parse, then up to the
  real-time packets, then the rest.
\<close>

definition restore_flags :: "'r saved_engine \<Rightarrow> ('m, 'o, 'r) platform \<Rightarrow> ('m, 'o, 'r) platform" where
  "restore_flags st p = (let f = pf_fdir p; e = fd_engine f in
     p\<lparr>pf_fdir := f\<lparr>
         fd_engine := e\<lparr>en_phase := or_else (se_phase st) (en_phase e),
           en_sep_timer := or_else (se_sep_timer st) (en_sep_timer e),
           en_auto_tx := or_else (se_auto_tx st) (en_auto_tx e),
           en_in_contact := or_else (se_contact st) (en_in_contact e),
           en_violation_active := set (or_else (se_violation_active st) []),
           en_violation_records := or_else (se_violation_records st) []\<rparr>,
         fd_shed_stage := or_else (se_shed_stage st) (fd_shed_stage f),
         fd_elapsed := or_else (se_elapsed_fdir st) (fd_elapsed f),
         fd_safe := or_else (se_safe st) (fd_safe f),
         fd_emergency := or_else (se_emergency st) (fd_emergency f),
         fd_active_gs := or_else (se_active_gs st) (fd_active_gs f)\<rparr>,
       pf_sep_duration := or_else (se_sep_duration st) (pf_sep_duration p),
       pf_prev_contact := or_else (se_prev_contact st) (pf_prev_contact p),
       pf_prev_eclipse := or_else (se_prev_eclipse st) (pf_prev_eclipse p),
       pf_prev_gs := or_else (se_prev_gs st) (pf_prev_gs p),
       pf_prev_aocs := or_else (se_prev_aocs st) (pf_prev_aocs p),
       pf_prev_payload := or_else (se_prev_payload st) (pf_prev_payload p),
       pf_prev_obdh := or_else (se_prev_obdh st) (pf_prev_obdh p),
       pf_flags := or_else (se_flags st) []\<rparr>)"

definition restore_counters :: "'r saved_engine \<Rightarrow> 'm engine \<Rightarrow> 'm engine" where
  "restore_counters st e = e
     \<lparr>en_rt_budget := or_else (se_rt_budget st) (en_rt_budget e),
      en_override_passes := or_else (se_override st) (en_override_passes e),
      en_builder := (let b = (case se_tm_apid st of Some ap \<Rightarrow> set_apid ap (en_builder e) | None \<Rightarrow> en_builder e)
        in case se_tm_seq st of Some k \<Rightarrow> b\<lparr>tb_seq_count := k\<rparr> | None \<Rightarrow> b)\<rparr>"

definition restore_rest :: "'r saved_engine \<Rightarrow> ('m, 'o, 'r) platform \<Rightarrow> ('m, 'o, 'r) platform" where
  "restore_rest st p = (set_board (restore_counters st (board p)) p)
     \<lparr>pf_seed := or_else (se_seed st) (pf_seed p), pf_clamped := or_else (se_clamped st) (pf_clamped p),
      pf_rng := or_else (se_rng st) (pf_rng p)\<rparr>"

definition engine_set_state :: "'r saved_engine \<Rightarrow> (('m, 'o, 'r) platform, unit) py" where
  "engine_set_state st =
     seq_py (modify (restore_flags st))
     (bind_py (of_result (dump_fromhex (or_else (se_dump_pending st) []))) (\<lambda>dump.
      seq_py (change_board (\<lambda>e. e\<lparr>en_dump_pending := dump, en_dump_active := remdups (or_else (se_dump_active st) []),
                                  en_dump_budget := or_else (se_dump_budget st) (en_dump_budget e)\<rparr>))
      (bind_py (of_result (all_fromhex (or_else (se_rt_pending st) []))) (\<lambda>rt.
       seq_py (change_board (\<lambda>e. e\<lparr>en_rt_pending := rt\<rparr>)) (modify (restore_rest st))))))"

section \<open>Saving\<close>

text \<open>The failure of one component fails the whole save; the first failing model decides.\<close>

fun model_states :: "('m, 'o, 'r) sim_config \<Rightarrow> string list \<Rightarrow> 'm \<Rightarrow> (string \<times> command) list result" where
  "model_states c [] m = Inr []"
| "model_states c (n # ns) m = (case sm_model_state c n m of
       Inl _ \<Rightarrow> Inl (OtherError ''BreakpointSaveError'')
     | Inr st \<Rightarrow> bind_result (model_states c ns m) (\<lambda>rest. Inr ((n, st) # rest)))"

definition save_breakpoint :: "('m, 'o, 'r) sim_config \<Rightarrow> pytext \<Rightarrow> ('m, 'o, 'r) stage_of \<Rightarrow> 'r snapshot result" where
  "save_breakpoint c name = (\<lambda>((p, fm), x). let f = pf_fdir p; e = fd_engine f in
     bind_result (model_states c (sm_names c) (en_models e)) (\<lambda>ms.
     Inr \<lparr>sn_name = name, sn_tick_count = Some (pf_ticks p), sn_sim_time = Some (pf_time p),
       sn_speed = Some (pf_speed p), sn_sc_mode = Some (fd_sc_mode f), sn_params = Some (en_params e),
       sn_triggered = Some (fd_triggered f), sn_hk_timers = Some (en_hk_timers e), sn_models = ms,
       sn_engine = Some (engine_get_state p), sn_scheduler = Some (get_state (en_scheduler e)),
       sn_failures = Some (failures_get_state fm), sn_scenario = Some (scenario_get_state x),
       sn_dispatcher = Some (dispatcher_state (en_disp e)),
       sn_shedding = (case shedding_get_state (fd_shedding f) of (k, t) \<Rightarrow> Some (Some k, Some t)),
       sn_propagator = Some (propagator_get_state (fd_propagator f)),
       sn_executor = Some (executor_get_state (fd_executor f)),
       sn_storage = Some (storage_state (en_storage e)), sn_obcp = Some (obcp_state e),
       sn_memory = Some (image_state (en_memory e)), sn_rng_engine = Some (pf_rng p),
       sn_rng_failures = Some (fm_rng fm), sn_hk_enabled = Some (en_hk_enabled e),
       sn_orbit_elset = sm_elset c (pf_orbit p), sn_orbit_utc = Some (sm_orbit_utc c (pf_orbit p))\<rparr>))"

section \<open>Loading\<close>

abbreviation on_platform :: "(('m, 'o, 'r) platform, 'a) py \<Rightarrow> (('m, 'o, 'r) stage_of, 'a) py" where
  "on_platform m \<equiv> on_stage_world m"

text \<open>An assignment the snapshot may lack.\<close>

definition given :: "'a option \<Rightarrow> ('a \<Rightarrow> ('s, unit) py) \<Rightarrow> ('s, unit) py" where
  "given x f = (case x of Some a \<Rightarrow> f a | None \<Rightarrow> ret ())"

definition restore_top :: "'r snapshot \<Rightarrow> ('m, 'o, 'r) platform \<Rightarrow> ('m, 'o, 'r) platform" where
  "restore_top st p = (let f = pf_fdir p; e = fd_engine f in
     p\<lparr>pf_ticks := or_else (sn_tick_count st) 0, pf_time := or_else (sn_sim_time st) (pf_time p),
       pf_speed := or_else (sn_speed st) (Fin False 1),
       pf_fdir := f\<lparr>fd_sc_mode := or_else (sn_sc_mode st) 0, fd_triggered := or_else (sn_triggered st) [],
         fd_engine := e\<lparr>en_params := or_else (sn_params st) Map.empty, en_hk_timers := or_else (sn_hk_timers st) []\<rparr>\<rparr>\<rparr>)"

definition restore_model :: "('m, 'o, 'r) sim_config \<Rightarrow> string \<times> command \<Rightarrow> (('m, 'o, 'r) platform, unit) py" where
  "restore_model c ns = when_py (fst ns \<in> set (sm_names c)) (on_board (on_models (sm_model_restore c (fst ns) (snd ns))))"

definition restore_board_parts :: "'r snapshot \<Rightarrow> ('m fdir, unit) py" where
  "restore_board_parts st =
     seq_py (given (sn_dispatcher st) (\<lambda>d. on_engine (on_disp (set_dispatcher_state d))))
     (seq_py (given (sn_shedding st) (\<lambda>l. modify (\<lambda>f. f\<lparr>fd_shedding := shedding_set_state l (fd_shedding f)\<rparr>)))
     (seq_py (given (sn_propagator st) (\<lambda>q. modify (\<lambda>f. f\<lparr>fd_propagator := propagator_set_state q (fd_propagator f)\<rparr>)))
     (seq_py (given (sn_executor st) (\<lambda>x. modify (\<lambda>f. f\<lparr>fd_executor := executor_set_state x (fd_executor f)\<rparr>)))
       (on_engine
         (seq_py (given (sn_storage st) (\<lambda>g. bind_py (gets (\<lambda>e. set_storage_state (Some g) (en_storage e))) (\<lambda>r.
             bind_py (of_result r) (\<lambda>s. modify (\<lambda>e. e\<lparr>en_storage := s\<rparr>)))))
         (seq_py (given (sn_obcp st) (\<lambda>q. modify (set_obcp_state q)))
           (given (sn_memory st) (\<lambda>q. modify (\<lambda>e. e\<lparr>en_memory := set_image_state (Some q) (en_memory e)\<rparr>)))))))))"

definition restore_scheduler :: "'r snapshot \<Rightarrow> ('m engine, unit) py" where
  "restore_scheduler st = given (sn_scheduler st) (\<lambda>s. bind_py (of_result (set_state s)) (\<lambda>s'. on_scheduler (\<lambda>_. s')))"

definition restore_hk_enabled :: "(int \<times> bool) list \<Rightarrow> 'm engine \<Rightarrow> 'm engine" where
  "restore_hk_enabled l e = e\<lparr>en_hk_enabled := fold (\<lambda>(sid, on) m. AList.update sid on m) l (en_hk_enabled e)\<rparr>"

definition restore_orbit :: "('m, 'o, 'r) sim_config \<Rightarrow> 'r snapshot \<Rightarrow> (('m, 'o, 'r) platform, unit) py" where
  "restore_orbit c st =
     seq_py (logged_call (on_orbit (sm_set_elset c (sn_orbit_elset st))))
       (given (case sn_orbit_utc st of Some t \<Rightarrow> Some t | None \<Rightarrow> sn_sim_time st) (\<lambda>t. logged_call (on_orbit (sm_reset_orbit c t))))"

definition restore_all :: "('m, 'o, 'r) sim_config \<Rightarrow> 'r snapshot \<Rightarrow> (('m, 'o, 'r) stage_of, unit) py" where
  "restore_all c st =
     seq_py (on_platform (modify (restore_top st)))
     (seq_py (on_platform (each (restore_model c) (sn_models st)))
     (seq_py (on_platform (given (sn_engine st) engine_set_state))
     (seq_py (on_platform (on_board (restore_scheduler st)))
     (seq_py (modify (\<lambda>((p, fm), x). ((p, case sn_failures st of Some q \<Rightarrow> failures_set_state q fm | None \<Rightarrow> fm),
         case sn_scenario st of Some q \<Rightarrow> scenario_set_state q x | None \<Rightarrow> x)))
     (seq_py (on_platform (on_fdir (restore_board_parts st)))
     (seq_py (modify (\<lambda>((p, fm), x). ((p\<lparr>pf_rng := or_else (sn_rng_engine st) (pf_rng p)\<rparr>,
         fm\<lparr>fm_rng := or_else (sn_rng_failures st) (fm_rng fm)\<rparr>), x)))
     (seq_py (on_platform (given (sn_hk_enabled st) (\<lambda>l. change_board (restore_hk_enabled l))))
       (on_platform (restore_orbit c st)))))))))"

text \<open>\<open>load\<close>: an exception stops the restoration where it is, and the load has failed.\<close>

definition load_breakpoint :: "('m, 'o, 'r) sim_config \<Rightarrow> 'r snapshot \<Rightarrow> (('m, 'o, 'r) stage_of, bool) py" where
  "load_breakpoint c st = catch (seq_py (restore_all c st) (ret True)) (\<lambda>_. ret False)"

end
