(* ===== verification/Instructor.thy ===== *)
theory Instructor
  imports Breakpoints
begin

text \<open>
  Instructor commands (\<open>smo_simulator/engine.py\<close>): their validation and queue, and what each does to the
  simulation: speed, phase, failures, breakpoints, separation and scenarios. A command is a dictionary;
  objects of other types, which the validation refuses, and the events that wake a waiting server
  thread are not modelled.
\<close>

section \<open>Validation\<close>

definition INSTRUCTOR_CMD_TYPES :: "string list" where
  "INSTRUCTOR_CMD_TYPES = [''set_speed'', ''freeze'', ''resume'', ''inject'', ''clear_failure'', ''failure_inject'',
     ''failure_clear'', ''failure_clear_all'', ''override_passes'', ''set_phase'', ''pause_scenario'', ''start_separation'',
     ''save_breakpoint'', ''load_breakpoint'', ''start_scenario'', ''stop_scenario'']"

definition INSTRUCTOR_NUMERIC_FIELDS :: "string \<Rightarrow> (string \<times> rat option \<times> rat option) list" where
  "INSTRUCTOR_NUMERIC_FIELDS t =
     (if t = ''set_speed'' then [(''value'', Some 0, None)]
      else if t = ''set_phase'' then [(''phase'', Some 0, Some 6)]
      else if t = ''failure_inject'' then
        [(''magnitude'', None, None), (''duration_s'', Some 0, None), (''onset_duration_s'', Some 0, None)]
      else [])"

text \<open>The limits of a finite number; of the conversions' exceptions two are caught.\<close>

definition within_bounds :: "rat option \<Rightarrow> rat option \<Rightarrow> rat \<Rightarrow> bool" where
  "within_bounds lo hi x = ((case lo of Some l \<Rightarrow> l \<le> x | None \<Rightarrow> True) \<and> (case hi of Some h \<Rightarrow> x \<le> h | None \<Rightarrow> True))"

definition number_ok :: "rat option \<Rightarrow> rat option \<Rightarrow> pyval \<Rightarrow> bool result" where
  "number_ok lo hi v = (case value_float v of
       Inl e \<Rightarrow> (if e = TypeError \<or> e = ValueError then Inr False else Inl e)
     | Inr x \<Rightarrow> Inr (case x of Fin s m \<Rightarrow> within_bounds lo hi (fin_val s m) | _ \<Rightarrow> False))"

definition field_ok :: "command \<Rightarrow> string \<times> rat option \<times> rat option \<Rightarrow> bool result" where
  "field_ok c = (\<lambda>(field, lo, hi). case map_of c field of
       None \<Rightarrow> Inr True
     | Some VNone \<Rightarrow> Inr True
     | Some (VInt k) \<Rightarrow> number_ok lo hi (VInt k)
     | Some (VFloat x) \<Rightarrow> number_ok lo hi (VFloat x)
     | Some (VStr t) \<Rightarrow> number_ok lo hi (VStr t)
     | Some (VText t) \<Rightarrow> number_ok lo hi (VText t)
     | Some _ \<Rightarrow> Inr False)"

fun fields_ok :: "command \<Rightarrow> (string \<times> rat option \<times> rat option) list \<Rightarrow> bool result" where
  "fields_ok c [] = Inr True"
| "fields_ok c (f # fs) = bind_result (field_ok c f) (\<lambda>ok. if ok then fields_ok c fs else Inr False)"

definition validate_instructor_cmd :: "command \<Rightarrow> bool result" where
  "validate_instructor_cmd c = (let t = param_string c ''type'' [] in
     if t \<notin> set INSTRUCTOR_CMD_TYPES then Inr False else fields_ok c (INSTRUCTOR_NUMERIC_FIELDS t))"

definition INSTR_QUEUE_SIZE :: nat where "INSTR_QUEUE_SIZE = 200"

definition submit_instructor_cmd :: "command \<Rightarrow> (('m, 'o, 'r) platform, bool) py" where
  "submit_instructor_cmd c = bind_py (of_result (validate_instructor_cmd c)) (\<lambda>ok.
     bind_py (gets (\<lambda>p. length (pf_instructions p) < INSTR_QUEUE_SIZE)) (\<lambda>room.
       if ok \<and> room then seq_py (modify (\<lambda>p. p\<lparr>pf_instructions := pf_instructions p @ [c]\<rparr>)) (ret True)
       else seq_py (modify (\<lambda>p. p\<lparr>pf_rejects := pf_rejects p + 1\<rparr>)) (ret False)))"

section \<open>Speed and phase\<close>

definition count_reject :: "(('m, 'o, 'r) platform, unit) py" where
  "count_reject = modify (\<lambda>p. p\<lparr>pf_rejects := pf_rejects p + 1\<rparr>)"

definition put_speed :: "py_float \<Rightarrow> ('m, 'o, 'r) platform \<Rightarrow> ('m, 'o, 'r) platform" where
  "put_speed x p = p\<lparr>pf_speed := x\<rparr>"

definition handle_set_speed :: "('m, 'o, 'r) sim_config \<Rightarrow> command \<Rightarrow> (('m, 'o, 'r) platform, unit) py" where
  "handle_set_speed c q = (case param_float q ''value'' (Fin False 1) of
       Inl e \<Rightarrow> (if e = TypeError \<or> e = ValueError then count_reject else raise e)
     | Inr x \<Rightarrow> seq_py (modify (put_speed (fmax f0 (fmin x (sm_speed_max c)))))
         (when_py (sy_present (models_of c) ''prop'') (tick_prop_speed_clamp c)))"

definition resume_speed :: "py_float \<Rightarrow> py_float" where
  "resume_speed x = (if fbool x then x else fmax (Fin False 1) x)"

text \<open>
  A phase up to 3 is the bootloader: the separation timer is armed after the mode has been entered,
  which stops it. From 4 on the application runs.
\<close>

definition start_application :: "'m config \<Rightarrow> int \<Rightarrow> 'm engine \<Rightarrow> 'm engine" where
  "start_application cf old e =
     (let e1 = e\<lparr>en_models := set_existing (cf_sys cf) ''obdh'' [(''boot_app_pending'', VBool False)]
                  (set_attrs (cf_sys cf) ''obdh'' [(''sw_image'', VInt 1)] (en_models e))\<rparr>
      in if old \<le> 3 then exit_bootloader_mode cf e1
         else e1\<lparr>en_hk_enabled := restrict_hk (\<lambda>sid. sid \<in> set (cf_default_sids cf)) (en_hk_enabled e1)\<rparr>)"

definition enter_phase :: "'m config \<Rightarrow> py_float \<Rightarrow> int \<Rightarrow> 'm engine \<Rightarrow> 'm engine" where
  "enter_phase cf sep k e =
     (if k \<le> 3 then (enter_bootloader_mode cf (e\<lparr>en_phase := k\<rparr>))\<lparr>en_phase := k,
          en_sep_timer := (if k = 1 then sep else en_sep_timer (enter_bootloader_mode cf (e\<lparr>en_phase := k\<rparr>)))\<rparr>
      else start_application cf (en_phase e) (e\<lparr>en_phase := k\<rparr>))"

definition handle_set_phase :: "('m, 'o, 'r) sim_config \<Rightarrow> command \<Rightarrow> (('m, 'o, 'r) platform, unit) py" where
  "handle_set_phase c q =
     bind_py (of_result (value_int (case map_of q ''phase'' of Some v \<Rightarrow> v | None \<Rightarrow> VInt 6))) (\<lambda>k.
       if 0 \<le> k \<and> k \<le> 6 then
         bind_py (gets (\<lambda>p. (en_phase (board p), pf_sep_duration p))) (\<lambda>(old, sep).
         seq_py (change_board (enter_phase (fc_base (sm_fdir c)) sep k))
           (emit c (an_event 0x0052 2 (py (''Phase change: '' @ str_int old @ '' -> '' @ str_int k)))))
       else ret ())"

text \<open>The first key that is given decides; without one the override is toggled.\<close>

definition explicit_override :: "command \<Rightarrow> bool option" where
  "explicit_override q = (case List.map_filter (map_of q) [''enabled'', ''on'', ''value'', ''state''] of
     v # _ \<Rightarrow> Some (val_bool v) | [] \<Rightarrow> None)"

definition handle_override :: "command \<Rightarrow> (('m, 'o, 'r) platform, unit) py" where
  "handle_override q = seq_py (change_board (\<lambda>e. e\<lparr>en_override_passes :=
       (case explicit_override q of Some b \<Rightarrow> b | None \<Rightarrow> \<not> en_override_passes e)\<rparr>)) publish_override"

section \<open>Failures of the models\<close>

definition without :: "string list \<Rightarrow> command \<Rightarrow> command" where
  "without ks q = filter (\<lambda>(k, _). k \<notin> set ks) q"

definition handle_failure_inject :: "('m, 'o, 'r) sim_config \<Rightarrow> command \<Rightarrow> (('m, 'o, 'r) platform, unit) py" where
  "handle_failure_inject c q = bind_py (of_result (param_float q ''magnitude'' (Fin False 1))) (\<lambda>magnitude.
     let subsys = param_string q ''subsystem'' [] in
     when_py (subsys \<in> set (sm_names c)) (on_board (on_models (sm_model_inject c subsys (param_string q ''failure'' []) magnitude
       (without [''type'', ''subsystem'', ''failure'', ''magnitude''] q)))))"

definition handle_failure_clear :: "('m, 'o, 'r) sim_config \<Rightarrow> command \<Rightarrow> (('m, 'o, 'r) platform, unit) py" where
  "handle_failure_clear c q = (let subsys = param_string q ''subsystem'' [] in
     when_py (subsys \<in> set (sm_names c)) (on_board (on_models (sm_model_clear c subsys (param_string q ''failure'' [])
       (without [''type'', ''subsystem'', ''failure''] q)))))"

definition failure_environment :: "('m, 'o, 'r) sim_config \<Rightarrow> (('m, 'o, 'r) platform, 'r) environment" where
  "failure_environment c = \<lparr>ev_inject = handle_failure_inject c, ev_clear = handle_failure_clear c, ev_random = sm_random c\<rparr>"

definition text_param :: "command \<Rightarrow> string \<Rightarrow> pytext" where
  "text_param q key = (case map_of q key of Some (VStr t) \<Rightarrow> py t | Some (VText t) \<Rightarrow> t | _ \<Rightarrow> [])"

definition string_or :: "command \<Rightarrow> string \<Rightarrow> string \<Rightarrow> string" where
  "string_or q key other = (if param_string q key [] \<noteq> [] then param_string q key [] else param_string q other [])"

definition duration_param :: "command \<Rightarrow> py_float result" where
  "duration_param q = (case map_of q ''duration_s'' of Some v \<Rightarrow> if val_bool v then value_float v else Inr f0 | None \<Rightarrow> Inr f0)"

definition instructor_inject :: "('m, 'o, 'r) sim_config \<Rightarrow> command \<Rightarrow> (('m, 'o, 'r) stage_of, unit) py" where
  "instructor_inject c q =
     bind_py (of_result (param_float q ''magnitude'' (Fin False 1))) (\<lambda>magnitude.
     bind_py (of_result (duration_param q)) (\<lambda>duration.
     bind_py (of_result (param_float q ''onset_duration_s'' (Fin False 90))) (\<lambda>od.
       modify (\<lambda>(wm, x). (snd (inject (failure_environment c) (param_string q ''subsystem'' []) (string_or q ''failure'' ''mode'')
         magnitude (onset_of (param_string q ''onset'' ''step'')) duration (Some od)
         (without [''type'', ''subsystem'', ''failure'', ''mode'', ''magnitude'', ''onset'', ''duration_s'', ''onset_duration_s''] q)
         wm), x)))))"

section \<open>Separation\<close>

definition SWITCHABLE_LINES :: "string list" where
  "SWITCHABLE_LINES = [''ttc_tx'', ''payload'', ''fpa_cooler'', ''htr_bat'', ''htr_obc'', ''aocs_wheels'', ''prop'']"

definition lines_off :: "'m subsystems \<Rightarrow> 'm \<Rightarrow> 'm" where
  "lines_off sy m = fold (\<lambda>n m. if sy_power_line sy n m = None then m else sy_set_line sy n False m) SWITCHABLE_LINES m"

definition separated_eps :: "'m subsystems \<Rightarrow> 'm \<Rightarrow> 'm" where
  "separated_eps sy m = (if sy_present sy ''eps''
     then lines_off sy (set_attrs sy ''eps'' [(''bat_soc_pct'', VFloat (Fin False 95))] m) else m)"

text \<open>The tumbling rates: a magnitude and a sign for each axis, drawn in turn.\<close>

definition tumble_rate :: "('m, 'o, 'r) sim_config \<Rightarrow> 'r \<Rightarrow> py_float \<times> 'r" where
  "tumble_rate c r = (case uniform (failure_environment c) (fl (8 / 10), Fin False 2) r of (x, r1) \<Rightarrow>
     (case sm_random c r1 of (y, r2) \<Rightarrow> (fmul x (if fless (Fin False (1 / 2)) y then Fin False 1 else Fin True 1), r2)))"

definition separated_aocs :: "('m, 'o, 'r) sim_config \<Rightarrow> 'r \<times> 'm \<Rightarrow> 'r \<times> 'm" where
  "separated_aocs c = (\<lambda>(r, m). let sy = models_of c in
     if sy_present sy ''aocs'' then
       (case tumble_rate c r of (x, r1) \<Rightarrow> case tumble_rate c r1 of (y, r2) \<Rightarrow> case tumble_rate c r2 of (z, r3) \<Rightarrow>
         (r3, aocs_off sy (set_attrs sy ''aocs'' [(''mode'', VInt 0), (''rate_roll'', VFloat x), (''rate_pitch'', VFloat y),
            (''rate_yaw'', VFloat z)] m)))
     else (r, m))"

definition separated_tcs :: "'m subsystems \<Rightarrow> 'm \<Rightarrow> 'm" where
  "separated_tcs sy m = set_attrs sy ''tcs''
     ([(''htr_battery'', VBool False), (''htr_obc'', VBool False), (''htr_thruster'', VBool False)] @
      map (\<lambda>z. (''temp_'' @ z, VFloat (Fin False 20)))
        [''panel_px'', ''panel_mx'', ''panel_py'', ''panel_my'', ''panel_pz'', ''panel_mz'', ''obc'', ''battery'', ''fpa'', ''thruster'']) m"

definition separated_ttc :: "'m subsystems \<Rightarrow> 'm \<Rightarrow> 'm" where
  "separated_ttc sy m = (if sy_present sy ''ttc''
     then sy_apply_tier sy (sy_beacon_tier sy m) (set_attrs sy ''ttc''
       [(''antenna_deployed'', VBool False), (''beacon_mode'', VBool True), (''pa_on'', VBool False),
        (''cmd_decode_timer'', VFloat (Fin False 900)), (''cmd_channel_active'', VBool True),
        (''data_rate_mode'', VInt (sy_beacon_tier sy m)), (''downlink_mode'', VBool False)] m)
     else m)"

definition separated_computers :: "'m subsystems \<Rightarrow> 'm \<Rightarrow> 'm" where
  "separated_computers sy m = set_attrs sy ''payload'' [(''mode'', VInt 0), (''cooler_active'', VBool False)]
     (set_attrs sy ''obdh'' [(''sw_image'', VInt 0), (''boot_app_pending'', VBool False), (''boot_app_timer'', VFloat f0),
        (''cpu_load'', VFloat (Fin False 15))] m)"

definition configure_separation_state :: "('m, 'o, 'r) sim_config \<Rightarrow> ('m, 'o, 'r) platform \<Rightarrow> ('m, 'o, 'r) platform" where
  "configure_separation_state c p = (let cf = fc_base (sm_fdir c); sy = cf_sys cf; e = board p in
     case separated_aocs c (pf_rng p, separated_eps sy (en_models e)) of (r, m) \<Rightarrow>
       (set_board (e\<lparr>en_phase := 1, en_sep_timer := pf_sep_duration p,
            en_models := separated_computers sy (separated_ttc sy (separated_tcs sy m)),
            en_hk_enabled := restrict_hk (\<lambda>sid. sid = BOOTLOADER_BEACON_SID) (en_hk_enabled e),
            en_builder := set_apid (cf_bootloader_apid cf) (en_builder e),
            en_storage := close_stores (en_storage e)\<rparr>) p)\<lparr>pf_rng := r\<rparr>)"

definition handle_separation :: "('m, 'o, 'r) sim_config \<Rightarrow> (('m, 'o, 'r) platform, unit) py" where
  "handle_separation c = seq_py (modify (configure_separation_state c))
     (emit c (an_event 0x0053 2 (py ''Separation initiated '' @ [0x2014] @ py '' 30 min timer started'')))"

section \<open>Commands that stay within the platform\<close>

definition platform_instruction :: "('m, 'o, 'r) sim_config \<Rightarrow> command \<Rightarrow> (('m, 'o, 'r) platform, unit) py" where
  "platform_instruction c q = (let t = param_string q ''type'' [] in
     if t = ''set_speed'' then handle_set_speed c q
     else if t = ''freeze'' then modify (put_speed f0)
     else if t = ''resume'' then modify (\<lambda>p. put_speed (resume_speed (pf_speed p)) p)
     else if t = ''inject'' then handle_failure_inject c q
     else if t = ''clear_failure'' then handle_failure_clear c q
     else if t = ''override_passes'' then handle_override q
     else if t = ''set_phase'' then handle_set_phase c q
     else if t = ''start_separation'' then handle_separation c
     else ret ())"

text \<open>The engine as the scenarios reach it; they send the commands \<open>set_phase\<close> and \<open>override_passes\<close> only.\<close>

definition scenario_host :: "('m, 'o, 'r) sim_config \<Rightarrow> ('m, 'o, 'r) platform host" where
  "scenario_host c = (let sy = models_of c in
     \<lparr>sh_params = (\<lambda>p. en_params (board p)),
      sh_set_param = (\<lambda>k v p. case value_float v of Inr x \<Rightarrow>
          set_board ((board p)\<lparr>en_params := (en_params (board p))(k \<mapsto> x)\<rparr>) p | Inl _ \<Rightarrow> p),
      sh_speed_max = sm_speed_max c, sh_set_speed = put_speed, sh_instructor = platform_instruction c,
      sh_soc = (if sy_present sy ''eps'' then Some (\<lambda>x p. set_board ((board p)\<lparr>en_models :=
          sy_set_attr sy ''eps'' ''bat_soc_pct'' (VFloat x) (en_models (board p))\<rparr>) p) else None),
      sh_has_line = (\<lambda>n p. sy_present sy ''eps'' \<and> sy_power_line sy n (en_models (board p)) \<noteq> None),
      sh_set_line = (\<lambda>n b p. set_board ((board p)\<lparr>en_models := sy_set_line sy n b (en_models (board p))\<rparr>) p)\<rparr>)"

section \<open>All commands\<close>

definition handle_start_scenario :: "('m, 'o, 'r) sim_config \<Rightarrow> command \<Rightarrow> (('m, 'o, 'r) stage_of, unit) py" where
  "handle_start_scenario c q =
     logged_call (seq_py (start_scenario (scenario_host c) (failure_environment c) (string_or q ''name'' ''scenario'')) (ret ()))"

definition handle_stop_scenario :: "('m, 'o, 'r) sim_config \<Rightarrow> (('m, 'o, 'r) stage_of, unit) py" where
  "handle_stop_scenario c = modify (\<lambda>s. snd (stop_scenario (failure_environment c) s))"

definition handle_save_breakpoint :: "('m, 'o, 'r) sim_config \<Rightarrow> command \<Rightarrow> (('m, 'o, 'r) stage_of, unit) py" where
  "handle_save_breakpoint c q = (let name = text_param q ''name'' in
     bind_py (gets (save_breakpoint c (if name = [] then sm_stamp c else name))) (\<lambda>r. case r of
         Inl _ \<Rightarrow> ret ()
       | Inr sn \<Rightarrow> change_world (\<lambda>p. p\<lparr>pf_breakpoints := AList.update (sn_name sn) sn (pf_breakpoints p)\<rparr>)))"

definition wanted_snapshot :: "('m, 'o, 'r) sim_config \<Rightarrow> command \<Rightarrow> ('m, 'o, 'r) platform \<Rightarrow> 'r snapshot option" where
  "wanted_snapshot c q p = (if param_value q ''state'' \<noteq> VNone then Some (sm_inline_state c (param_value q ''state''))
     else map_of (pf_breakpoints p) (text_param q ''name''))"

definition hk_burst :: "'m engine \<Rightarrow> 'm engine" where
  "hk_burst e = e\<lparr>en_hk_timers := fold (\<lambda>(sid, i) l. AList.update sid (fadd i (fl (1 / 1000))) l) (en_hk_intervals e) (en_hk_timers e)\<rparr>"

definition handle_load_breakpoint :: "('m, 'o, 'r) sim_config \<Rightarrow> command \<Rightarrow> (('m, 'o, 'r) stage_of, unit) py" where
  "handle_load_breakpoint c q = bind_py (gets (\<lambda>s. wanted_snapshot c q (fst (fst s)))) (\<lambda>w. case w of
       None \<Rightarrow> ret ()
     | Some st \<Rightarrow> bind_py (load_breakpoint c st) (\<lambda>ok. when_py ok (on_platform (seq_py (change_board hk_burst)
         (logged_call (emit c (an_event 0x0054 2 (py ''Breakpoint loaded: '' @ text_param q ''name''))))))))"

definition pause_scenario :: "(('m, 'o, 'r) stage_of, unit) py" where
  "pause_scenario = modify (\<lambda>((p, fm), x). ((put_speed f0
     (if sx_active x \<noteq> None \<and> pf_paused_speed p = None then p\<lparr>pf_paused_speed := Some (pf_speed p)\<rparr> else p), fm), x))"

definition handle_instructor_cmd :: "('m, 'o, 'r) sim_config \<Rightarrow> command \<Rightarrow> (('m, 'o, 'r) stage_of, unit) py" where
  "handle_instructor_cmd c q = (let t = param_string q ''type'' []; env = failure_environment c in
     if t = ''failure_inject'' then instructor_inject c q
     else if t = ''failure_clear'' then modify (\<lambda>(wm, x).
       (case failure_ref q of Some fid \<Rightarrow> snd (clear_id env fid wm) | None \<Rightarrow> clear_all env wm, x))
     else if t = ''failure_clear_all'' then modify (\<lambda>(wm, x). (clear_all env wm, x))
     else if t = ''pause_scenario'' then pause_scenario
     else if t = ''save_breakpoint'' then handle_save_breakpoint c q
     else if t = ''load_breakpoint'' then handle_load_breakpoint c q
     else if t = ''start_scenario'' then handle_start_scenario c q
     else if t = ''stop_scenario'' then handle_stop_scenario c
     else on_platform (platform_instruction c q))"

text \<open>
  The queue is emptied at the start of a tick; a command that raises is counted as rejected. The code
  takes the commands one at a time, and none of them puts another one into the queue.
\<close>

definition instruct :: "('m, 'o, 'r) sim_config \<Rightarrow> command \<Rightarrow> (('m, 'o, 'r) stage_of, unit) py" where
  "instruct c q = catch (handle_instructor_cmd c q) (\<lambda>_. on_platform count_reject)"

definition drain_instr_queue :: "('m, 'o, 'r) sim_config \<Rightarrow> (('m, 'o, 'r) stage_of, unit) py" where
  "drain_instr_queue c = bind_py (gets (\<lambda>s. pf_instructions (fst (fst s)))) (\<lambda>qs.
     seq_py (change_world (\<lambda>p. p\<lparr>pf_instructions := []\<rparr>)) (each (instruct c) qs))"

end
