(* ===== verification/Sim_Tick.thy ===== *)
theory Sim_Tick
  imports Sim_Events Instructor
begin

text \<open>
  The tick of the simulation (\<open>_tick_once\<close>, \<open>_tick_substep\<close> and the loop of
  \<open>smo_simulator/engine.py\<close>): sub-steps of the physics, the handlers that run once in a tick, the
  advance of the simulated time, and the faults the loop survives. Waiting for the wall clock and the
  snapshot published to the servers are not modelled.
\<close>

section \<open>Handlers of the last sub-step\<close>

definition tick_scenario_engine :: "('m, 'o, 'r) sim_config \<Rightarrow> py_float \<Rightarrow> (('m, 'o, 'r) stage_of, unit) py" where
  "tick_scenario_engine c dt = bind_py (gets (\<lambda>s. sx_active (snd s) \<noteq> None)) (\<lambda>on.
     when_py on (logged_call (tick_scenario (scenario_host c) (failure_environment c) dt)))"

definition drain_telecommands :: "('m, 'o, 'r) sim_config \<Rightarrow> (('m, 'o, 'r) platform, unit) py" where
  "drain_telecommands c = bind_py (gets pf_tc_queue) (\<lambda>raws.
     seq_py (modify (\<lambda>p. p\<lparr>pf_tc_queue := []\<rparr>)) (with_board c (\<lambda>cf em. drain_tc_queue cf em raws)))"

definition tick_once_handlers :: "('m, 'o, 'r) sim_config \<Rightarrow> py_float \<Rightarrow> (('m, 'o, 'r) stage_of, unit) py" where
  "tick_once_handlers c dt =
     seq_py (tick_scenario_engine c dt)
     (on_platform (seq_py (drain_telecommands c)
       (seq_py (with_board c release_schedule)
         (logged_call (with_board c (\<lambda>cf em. tick_procedures em (dispatch_tc cf em) (sm_message c) dt))))))"

definition tick_emissions :: "('m, 'o, 'r) sim_config \<Rightarrow> py_float \<Rightarrow> (('m, 'o, 'r) platform, unit) py" where
  "tick_emissions c dt = with_board c (\<lambda>cf em. seq_py (emit_hk_packets cf dt)
     (seq_py (modify (tick_rt_emission cf dt)) (modify (tick_dump_emission cf dt))))"

section \<open>A sub-step\<close>

definition tick_physics :: "('m, 'o, 'r) sim_config \<Rightarrow> py_float \<Rightarrow> (('m, 'o, 'r) platform, orbit_view) py" where
  "tick_physics c dt = bind_py (advance_orbit c dt) (\<lambda>v.
     seq_py (with_board c (\<lambda>cf em. seq_py (tick_spacecraft_phase cf em dt) (modify (tick_auto_tx_hold cf dt))))
     (seq_py (tick_models c dt) (ret v)))"

definition tick_checks :: "('m, 'o, 'r) sim_config \<Rightarrow> orbit_view \<Rightarrow> py_float \<Rightarrow> (('m, 'o, 'r) platform, unit) py" where
  "tick_checks c v dt =
     seq_py (couple_battery c)
     (seq_py (tick_propulsion c)
     (seq_py (with_board c tick_s12_monitoring)
     (seq_py (bind_py (gets (\<lambda>p. (fdir_config_at c p, board_config c p))) (\<lambda>(fc, cf).
         on_fdir (tick_fdir_all fc (sm_fdir_enabled c) (emit_event cf (sm_depth c)) dt)))
     (seq_py (check_subsystem_events c)
     (seq_py (drain_model_events c (sm_events_max c))
       (check_transitions c v))))))"

definition tick_failure_manager :: "('m, 'o, 'r) sim_config \<Rightarrow> py_float \<Rightarrow> (('m, 'o, 'r) stage_of, unit) py" where
  "tick_failure_manager c dt = modify (\<lambda>(wm, x). (tick_failures (failure_environment c) dt wm, x))"

definition tick_substep :: "('m, 'o, 'r) sim_config \<Rightarrow> py_float \<Rightarrow> py_float \<Rightarrow> bool \<Rightarrow> (('m, 'o, 'r) stage_of, unit) py" where
  "tick_substep c dt dt_outer final =
     bind_py (on_platform (tick_physics c dt)) (\<lambda>v.
     seq_py (when_py final (tick_once_handlers c dt_outer))
     (seq_py (on_platform (tick_checks c v dt))
     (seq_py (when_py final (on_platform (tick_emissions c dt_outer)))
       (tick_failure_manager c dt))))"

section \<open>A tick\<close>

text \<open>\<open>timedelta(seconds=x)\<close> in microseconds: the fraction is rounded half to even.\<close>

definition timedelta_us :: "py_float \<Rightarrow> int result" where
  "timedelta_us x = (case x of
       Fin s m \<Rightarrow> Inr (let k = \<lfloor>m\<rfloor> * 10 ^ 6 +
           (case fmul (Fin False (m - of_int \<lfloor>m\<rfloor>)) (Fin False (10 ^ 6)) of Fin _ u \<Rightarrow> round_even u | _ \<Rightarrow> 0)
         in if s then - k else k)
     | Infinite _ \<Rightarrow> Inl OverflowError | NaN \<Rightarrow> Inl ValueError)"

definition advance_time :: "py_float \<Rightarrow> (('m, 'o, 'r) stage_of, unit) py" where
  "advance_time dt = bind_py (of_result (timedelta_us dt)) (\<lambda>us. change_world (\<lambda>p. p\<lparr>pf_time := pf_time p + us\<rparr>))"

text \<open>\<open>int(math.ceil(x))\<close>.\<close>

definition ceil_float :: "py_float \<Rightarrow> int result" where
  "ceil_float x = (case x of Fin s m \<Rightarrow> Inr \<lceil>fin_val s m\<rceil> | Infinite _ \<Rightarrow> Inl OverflowError | NaN \<Rightarrow> Inl ValueError)"

definition substeps :: "('m, 'o, 'r) sim_config \<Rightarrow> py_float \<Rightarrow> int result" where
  "substeps c dt = (if fless f0 (sm_dt_max c) \<and> fless (sm_dt_max c) dt
     then bind_result (fdiv dt (sm_dt_max c)) (\<lambda>q. bind_result (ceil_float q) (\<lambda>n. Inr (min n (sm_max_substeps c))))
     else Inr 1)"

definition run_substeps :: "('m, 'o, 'r) sim_config \<Rightarrow> py_float \<Rightarrow> py_float \<Rightarrow> nat \<Rightarrow> (('m, 'o, 'r) stage_of, unit) py" where
  "run_substeps c dt dt_outer n =
     each (\<lambda>i. seq_py (tick_substep c dt dt_outer (Suc i = n)) (advance_time dt)) [0..<n]"

definition tick_once :: "('m, 'o, 'r) sim_config \<Rightarrow> py_float \<Rightarrow> (('m, 'o, 'r) stage_of, unit) py" where
  "tick_once c dt_sim =
     seq_py (drain_instr_queue c)
     (bind_py (of_result (substeps c dt_sim)) (\<lambda>n.
      bind_py (of_result (fdiv dt_sim (of_pyint n))) (\<lambda>dt_sub.
      seq_py (run_substeps c dt_sub dt_sim (nat n))
        (change_world (\<lambda>p. p\<lparr>pf_ticks := pf_ticks p + 1\<rparr>)))))"

section \<open>The loop\<close>

definition record_engine_fault :: "py_error \<Rightarrow> (('m, 'o, 'r) stage_of, unit) py" where
  "record_engine_fault e = change_world (\<lambda>p. p\<lparr>pf_fault_count := pf_fault_count p + 1, pf_fault := Some e\<rparr>)"

text \<open>
  One turn of the loop: the length of the tick is taken from the speed before the commands are read.
  \<open>dt_real\<close> is \<open>1.0 / tick_hz\<close>.
\<close>

definition loop_turn :: "('m, 'o, 'r) sim_config \<Rightarrow> py_float \<Rightarrow> (('m, 'o, 'r) stage_of, unit) py" where
  "loop_turn c dt_real = bind_py (gets (\<lambda>s. fmul dt_real (pf_speed (fst (fst s))))) (\<lambda>dt.
     catch (tick_once c dt) record_engine_fault)"

definition tick_period :: "py_float option \<Rightarrow> py_float result" where
  "tick_period tick_hz = (let hz = (case tick_hz of Some x \<Rightarrow> if fless f0 x then x else Fin False 1 | None \<Rightarrow> Fin False 1)
     in fdiv (Fin False 1) hz)"

end
