(* ===== verification/Bare_Simulation.thy ===== *)
theory Bare_Simulation
  imports Sim_Tick Fdir_Rules
begin

text \<open>
  A simulation without subsystem models, FDIR rules and scenarios around the bare spacecraft, with an
  orbit that does not move: the concrete configuration and state on which theorems about the engine are
  instantiated.
\<close>

definition empty_snapshot :: "unit snapshot" where
  "empty_snapshot = \<lparr>sn_name = [], sn_tick_count = None, sn_sim_time = None, sn_speed = None, sn_sc_mode = None,
     sn_params = None, sn_triggered = None, sn_hk_timers = None, sn_models = [], sn_engine = None, sn_scheduler = None,
     sn_failures = None, sn_scenario = None, sn_dispatcher = None, sn_shedding = None, sn_propagator = None,
     sn_executor = None, sn_storage = None, sn_obcp = None, sn_memory = None, sn_rng_engine = None,
     sn_rng_failures = None, sn_hk_enabled = None, sn_orbit_elset = None, sn_orbit_utc = None\<rparr>"

definition bare_sim :: "(unit, unit, unit) sim_config" where
  "bare_sim = \<lparr>sm_fdir = bare_fdir_config, sm_fdir_enabled = False, sm_names = [], sm_depth = 10, sm_events_max = 100,
     sm_message = (\<lambda>_. []), sm_random = (\<lambda>r. (f0, r)), sm_dt_max = Fin False 1, sm_max_substeps = 600,
     sm_speed_max = Fin False 1000, sm_burn_speed = Fin False 10, sm_model_tick = (\<lambda>_ _ _. ret ()),
     sm_model_inject = (\<lambda>_ _ _ _. ret ()), sm_model_clear = (\<lambda>_ _ _. ret ()), sm_model_state = (\<lambda>_ _. Inr []),
     sm_model_restore = (\<lambda>_ _. ret ()), sm_next_event = (\<lambda>_. None), sm_couple = None, sm_impulse = None,
     sm_advance = (\<lambda>_. ret ()), sm_view = (\<lambda>_. \<lparr>ow_in_contact = False, ow_active_gs = None, ow_elevation = f0,
       ow_in_eclipse = False\<rparr>), sm_orbit_utc = (\<lambda>_. 0), sm_apply_dv = (\<lambda>_ _. ret (Inl [])), sm_elset = (\<lambda>_. None),
     sm_set_elset = (\<lambda>_. ret ()), sm_reset_orbit = (\<lambda>_. ret ()), sm_fromisoformat = (\<lambda>_. None), sm_stamp = py ''breakpoint'',
     sm_inline_state = (\<lambda>_. empty_snapshot)\<rparr>"

definition bare_platform :: "command list \<Rightarrow> (unit, unit, unit) platform" where
  "bare_platform qs = \<lparr>pf_fdir = bare_fdir (bare_engine 6), pf_orbit = (), pf_rng = (), pf_seed = 0, pf_time = 0,
     pf_speed = Fin False 1, pf_paused_speed = None, pf_sep_duration = Fin False 1800, pf_prev_contact = False,
     pf_prev_eclipse = False, pf_prev_gs = None, pf_prev_aocs = None, pf_prev_payload = None, pf_prev_obdh = None,
     pf_flags = [], pf_clamped = False, pf_tc_queue = [], pf_instructions = qs, pf_rejects = 0, pf_ticks = 0,
     pf_fault_count = 0, pf_fault = None, pf_breakpoints = []\<rparr>"

definition bare_stage :: "command list \<Rightarrow> (unit, unit, unit) stage_of" where
  "bare_stage qs = ((bare_platform qs, new_failure_manager ()), new_scenario_engine fallback_defaults)"

lemmas bare_sim_simps = bare_sim_def bare_stage_def bare_platform_def bare_fdir_simps bare_simps empty_snapshot_def

end
