(* ===== verification/Scenario_Frame.thy ===== *)
theory Scenario_Frame
  imports Scenario_Engine
begin

text \<open>
  What failures and scenarios do to the world they act on: a preorder that holds between the worlds
  before and after each call they can make holds between the worlds before and after the operations
  of the failure manager and of the scenario engine. The interface is stated once as two locales; the
  engine provides it.
\<close>

section \<open>Failures\<close>

locale failure_frame = py_frame R for R :: "'w \<Rightarrow> 'w \<Rightarrow> bool" +
  fixes env :: "('w, 'r) environment"
  assumes on_inject: "rel_py R (ev_inject env c)"
    and on_clear: "rel_py R (ev_clear env c)"
begin

lemma applied: "R w (apply_failure env af x w)" "R w (clear_failure env af w)"
  using on_inject on_clear unfolding apply_failure_def clear_failure_def guarded_def rel_py_def by blast+

lemma injected: "R w (fst (snd (inject env subsystem failure magnitude onset duration od extra (w, m))))"
  by (auto simp: inject_def Let_def frame_refl applied split: prod.split)

lemma cleared: "R w (fst (snd (clear_id env fid (w, m))))"
  by (auto simp: clear_id_def frame_refl applied split: option.split)

lemma cleared_fold: "R w (fold (clear_failure env) afs w)"
  by (induction afs arbitrary: w) (auto intro: frame_refl frame_trans applied)

lemma cleared_all: "R w (fst (clear_all env (w, m)))"
  by (simp add: clear_all_def cleared_fold)

lemma cleared_ids: "R (fst wm) (fst (fold (\<lambda>fid wm. snd (clear_id env fid wm)) fids wm))"
proof (induction fids arbitrary: wm)
  case (Cons fid fids)
  have "R (fst wm) (fst (snd (clear_id env fid wm)))" using cleared [of "fst wm" fid "snd wm"] by simp
  then show ?case using Cons.IH frame_trans by simp
qed (simp add: frame_refl)

lemma failure_ticked: "R w (fst (snd (tick_failure env dt af (w, m))))"
  by (auto simp: tick_failure_def tick_gradual_def tick_intermittent_def Let_def frame_refl applied split: prod.split)

lemma entries_ticked: "R (fst wm) (fst (snd (tick_entries env dt fs wm)))"
proof (induction fs arbitrary: wm)
  case (Cons f fs)
  obtain fid af where f: "f = (fid, af)" by fastforce
  obtain r wm1 where 1: "tick_failure env dt af wm = (r, wm1)" by (rule prod.exhaust)
  obtain rest wm2 where 2: "tick_entries env dt fs wm1 = (rest, wm2)" by (rule prod.exhaust)
  have "R (fst wm) (fst wm1)" using failure_ticked [of "fst wm" dt af "snd wm"] by (simp add: 1)
  then show ?case using Cons.IH [of wm1] by (auto simp: f 1 2 intro: frame_trans)
qed (simp add: frame_refl)

lemma failures_ticked: "R (fst wm) (fst (tick_failures env dt wm))"
  using entries_ticked [of "(fst wm, (snd wm)\<lparr>fm_elapsed := fadd (fm_elapsed (snd wm)) dt\<rparr>)"]
  by (auto simp: tick_failures_def Let_def split: prod.split) (metis fst_conv snd_conv)

end

section \<open>Scenarios\<close>

definition on_stage :: "('w \<Rightarrow> 'w \<Rightarrow> bool) \<Rightarrow> ('w, 'r) stage \<Rightarrow> ('w, 'r) stage \<Rightarrow> bool" where
  "on_stage R s s' = R (fst (fst s)) (fst (fst s'))"

locale stage_frame = failure_frame R env for R :: "'w \<Rightarrow> 'w \<Rightarrow> bool" and env :: "('w, 'r) environment" +
  fixes h :: "'w host"
  assumes on_set_param: "R w (sh_set_param h k v w)"
    and on_set_speed: "R w (sh_set_speed h x w)"
    and on_instructor: "rel_py R (sh_instructor h c)"
    and on_soc: "sh_soc h = Some f \<Longrightarrow> R w (f x w)"
    and on_line: "R w (sh_set_line h n b w)"

sublocale stage_frame \<subseteq> st: py_frame "on_stage R"
  by unfold_locales (auto simp: on_stage_def intro: frame_refl frame_trans)

lemma relI: "(\<And>s. R s (snd (m s))) \<Longrightarrow> rel_py R m"
  by (simp add: rel_py_def)

lemma bind_modify: "bind_py (modify g) f s = f () (g s)" "seq_py (modify g) n s = n (g s)"
  by (simp_all add: bind_py_def modify_def)

context stage_frame
begin

lemma world_called: "rel_py R m \<Longrightarrow> rel_py (on_stage R) (on_stage_world m)"
  by (auto simp: rel_py_def on_stage_def zoom_def split: prod.split) (metis snd_conv)

lemma world_changed: "(\<And>w. R w (f w)) \<Longrightarrow> rel_py (on_stage R) (change_world f)"
  by (intro st.rel_modify) (simp add: on_stage_def)

lemma scenario_changed: "rel_py (on_stage R) (change_scenario f)"
  by (intro st.rel_modify) (simp add: on_stage_def frame_refl)

lemma logged: "rel_py (on_stage R) m \<Longrightarrow> rel_py (on_stage R) (logged_call m)"
  unfolding logged_call_def by (intro st.rel_catch st.rel_ret)

lemma injection: "rel_py (on_stage R) (inject_from env c od extra)"
  unfolding inject_from_def
proof (intro st.rel_bind st.rel_of_result st.rel_modify)
  fix magnitude duration and s :: "('w, 'r) stage"
  obtain w m x where s: "s = ((w, m), x)" using prod.exhaust by metis
  show "on_stage R s (case s of (wm, x) \<Rightarrow> case inject env (param_string c ''subsystem'' []) (param_string c ''failure'' [])
      magnitude (onset_of (param_string c ''onset'' ''step'')) duration od extra wm of
      (fid, wm') \<Rightarrow> (wm', x\<lparr>sx_injected := sx_injected x @ [fid]\<rparr>))"
    using injected by (simp add: s on_stage_def split: prod.split) (metis fst_conv snd_conv)
qed

lemma parameter_set: "rel_py (on_stage R) (set_initial_param h kv)"
  unfolding set_initial_param_def by (intro st.rel_sum world_changed on_set_param st.rel_ret)

lemma conditions_applied: "rel_py (on_stage R) (apply_initial_conditions h env ic)"
proof -
  have soc: "rel_py (on_stage R) (case (ic_soc ic, sh_soc h) of
      (Some v, Some set_soc) \<Rightarrow> bind_py (of_result (value_float v)) (\<lambda>x. change_world (set_soc x)) | _ \<Rightarrow> ret ())"
    by (auto intro!: st.frame_rules world_changed on_soc split: option.split)
  show ?thesis
    unfolding apply_initial_conditions_def set_initial_line_def set_speed_def
    by (intro st.rel_seq soc st.rel_each st.rel_option st.rel_ret st.rel_bind st.rel_of_result logged world_called
        on_instructor world_changed on_set_speed parameter_set injection) (simp add: frame_refl on_line)
qed

lemma scenario_started: "rel_py (on_stage R) (start_scenario h env name)"
proof (intro relI)
  fix s :: "('w, 'r) stage"
  have "on_stage R t (snd (bind_py (apply_initial_conditions h env ic) (\<lambda>_. ret True) t))" for ic and t :: "('w, 'r) stage"
  proof -
    have "rel_py (on_stage R) (bind_py (apply_initial_conditions h env ic) (\<lambda>_. ret True))"
      by (intro st.rel_bind conditions_applied st.rel_ret)
    then show ?thesis unfolding rel_py_def by blast
  qed
  then have "on_stage R s (snd (bind_py (apply_initial_conditions h env ic) (\<lambda>_. ret True) (fst s, x)))" for ic x
    unfolding on_stage_def by (metis fst_conv)
  then show "on_stage R s (snd (start_scenario h env name s))"
    by (auto simp: start_scenario_def bind_modify st.frame_refl split: option.split)
qed

lemma scenario_finished: "on_stage R s (snd (finish_scenario env s))"
  using cleared_ids by (auto simp: finish_scenario_def on_stage_def frame_refl split: option.split prod.split)

lemma clearing: "rel_py (on_stage R) (modify (\<lambda>(wm, x). (case failure_ref c of
    Some fid \<Rightarrow> snd (clear_id env fid wm) | None \<Rightarrow> clear_all env wm, x)))"
proof (intro st.rel_modify)
  fix s :: "('w, 'r) stage"
  obtain w m x where s: "s = ((w, m), x)" using prod.exhaust by metis
  show "on_stage R s (case s of (wm, x) \<Rightarrow> (case failure_ref c of
      Some fid \<Rightarrow> snd (clear_id env fid wm) | None \<Rightarrow> clear_all env wm, x))"
    using cleared cleared_all by (auto simp: s on_stage_def split: option.split)
qed

lemma event_fired: "rel_py (on_stage R) (fire_event h env ev)"
proof -
  have "rel_py (on_stage R) (fire_action h env action c)" for action c
    unfolding fire_action_def set_speed_def
    by (intro st.rel_if injection clearing st.rel_ret parameter_set st.rel_bind st.rel_of_result world_changed on_set_speed
        logged world_called on_instructor)
  then show ?thesis unfolding fire_event_def by (auto intro: st.rel_raise st.rel_ret split: option.split)
qed

lemma scenario_ticked: "rel_py (on_stage R) (tick_scenario h env dt)"
proof -
  have event: "rel_py (on_stage R) (tick_event h env i)" for i
  proof -
    have "rel_py (on_stage R) (seq_py (change_scenario (mark_fired i)) (fire_event h env ev))" for ev
      by (intro st.rel_seq scenario_changed event_fired)
    then show ?thesis unfolding tick_event_def rel_py_def by (auto simp: Let_def st.frame_refl)
  qed
  have finish: "rel_py (on_stage R) (end_on_duration env)"
    unfolding end_on_duration_def
    by (intro st.rel_modify) (auto simp: st.frame_refl scenario_finished split: option.split)
  have "rel_py (on_stage R) (seq_py (change_scenario f) (seq_py (each (tick_event h env) is) (end_on_duration env)))" for f "is"
    by (intro st.rel_seq scenario_changed st.rel_each event finish)
  then show ?thesis unfolding tick_scenario_def rel_py_def by (auto split: option.split simp: st.frame_refl)
qed

end

end
