(* ===== verification/Sim_Rules.thy ===== *)
theory Sim_Rules
  imports Bare_Simulation Scenario_Frame Tc_Verdict Downlink_Rules
begin

text \<open>
  The simulation as a whole: whatever happens in a tick, faults included, the bounded queues of the
  engine stay within their bounds; and what a tick does to the simulated time.
\<close>

section \<open>The handlers on board\<close>

definition stays :: "'m config \<Rightarrow> 'm engine \<Rightarrow> 'm engine \<Rightarrow> bool" where
  "stays cf e e' \<longleftrightarrow> (within_limits cf e \<longrightarrow> within_limits cf e')"

interpretation lm: py_frame "stays cf" for cf
  by unfold_locales (auto simp: stays_def)

lemma stays_sends: "rel_py (sends cf P) m \<Longrightarrow> rel_py (stays cf) m"
  by (simp add: rel_py_def sends_def stays_def)

lemma stays_evt: "rel_py (evt cf) m \<Longrightarrow> rel_py (stays cf) m"
  by (simp add: rel_py_def evt_def sends_def stays_def)

lemma stays_silent:
  assumes "\<And>e. en_tm_queue (f e) = en_tm_queue e" "\<And>e. en_rt_pending (f e) = en_rt_pending e"
    "\<And>e. en_event_queue (f e) = en_event_queue e"
  shows "rel_py (stays cf) (modify f)"
  by (rule lm.rel_modify) (simp add: stays_def within_limits_def assms)

lemma stays_models: "rel_py (stays cf) (on_models m)"
  by (rule stays_evt [OF ev_on_models])

lemma stays_enqueue: "rel_py (stays cf) (enqueue_tm cf p)"
  by (rule stays_sends [OF sends_enqueue [where P = "\<lambda>_. True"]]) simp

lemma stays_send_tm: "rel_py (stays cf) (send_tm cf b)"
  unfolding send_tm_def by (intro lm.rel_bind stays_enqueue stays_evt [OF ev_on_builder])

lemma stays_count: "rel_py (stays cf) (count_obdh cf' n)"
  unfolding count_obdh_def by (intro lm.rel_when stays_silent; simp)

lemma stays_dispatch_tc: "(\<And>x. rel_py (evt cf) (em x)) \<Longrightarrow> rel_py (stays cf) (dispatch_tc cf em raw)"
  using adds_dispatch_tc [of cf em raw] by (auto simp: rel_py_def adds_some_def adds_def stays_def)

lemma stays_gate:
  "rel_py (stays cf) a \<Longrightarrow> rel_py (stays cf) b \<Longrightarrow> rel_py (stays cf) d \<Longrightarrow>
   rel_py (stays cf) (case g of Skip \<Rightarrow> a | Hold \<Rightarrow> b | Run \<Rightarrow> d)"
  by (cases g) simp_all

lemma stays_progress:
  "(\<And>i w. rel_py (stays cf) (a i w)) \<Longrightarrow> rel_py (stays cf) b \<Longrightarrow> (\<And>i w. rel_py (stays cf) (d i w)) \<Longrightarrow>
   rel_py (stays cf) (case g of Waiting i w \<Rightarrow> a i w | Finished \<Rightarrow> b | Broken i w \<Rightarrow> d i w)"
  by (cases g) simp_all

lemma stays_verdict:
  "rel_py (stays cf) a \<Longrightarrow> rel_py (stays cf) b \<Longrightarrow> rel_py (stays cf) (case v of True \<Rightarrow> a | False \<Rightarrow> b)"
  by (cases v) simp_all

lemma stays_drain_tc:
  assumes "\<And>x. rel_py (evt cf) (em x)"
  shows "rel_py (stays cf) (drain_tc_queue cf em raws)"
  unfolding drain_tc_queue_def drain_one_def refuse_uplink_def
  by (intro lm.frame_rules stays_dispatch_tc stays_send_tm assms)

lemma stays_release_schedule:
  assumes "\<And>x. rel_py (evt cf) (em x)"
  shows "rel_py (stays cf) (release_schedule cf em)"
  unfolding release_schedule_def
  by (intro lm.frame_rules stays_dispatch_tc stays_silent assms; simp)

lemma stays_procedures:
  assumes "\<And>x. rel_py (evt cf) (em x)"
  shows "rel_py (stays cf) (tick_procedures em (dispatch_tc cf em) message dt)"
proof -
  have adv: "rel_py (stays cf) (advance_all dt ps)" for ps
  proof (induction ps)
    case (Cons a ps)
    then show ?case unfolding advance_all.simps advance_procedure_def Let_def
      by (intro lm.frame_rules stays_progress stays_silent; simp)
  qed (simp add: lm.rel_ret)
  have fails: "rel_py (stays cf) (fail_step em i k t)" for i k t
    unfolding fail_step_def abort_procedure_def obcp_emit_def
    by (intro lm.frame_rules stays_evt [OF assms] stays_silent; simp)
  show ?thesis
    unfolding tick_procedures_def execute_step_def obcp_emit_def
    by (intro lm.frame_rules adv fails stays_verdict stays_dispatch_tc stays_evt [OF assms] stays_silent assms; simp)
qed

lemma stays_phase:
  assumes "\<And>x. rel_py (evt cf) (em x)"
  shows "rel_py (stays cf) (tick_spacecraft_phase cf' em dt)"
  unfolding tick_spacecraft_phase_def publish_phase_def
  by (intro lm.frame_rules stays_evt [OF assms] stays_silent;
      simp add: exit_bootloader_mode_def enter_bootloader_mode_def Let_def)

lemma stays_s12:
  assumes "\<And>x. rel_py (evt cf) (em x)"
  shows "rel_py (stays cf) (tick_s12_monitoring cf em)"
proof -
  have check: "rel_py (stays cf) (check_all cf ps)" for ps
    by (induction ps) (auto simp: check_one_def set_last_def intro!: lm.frame_rules stays_silent)
  show ?thesis
    unfolding tick_s12_monitoring_def check_monitoring_def announce_def announce_cleared_def emit_s12_transition_def Let_def
    by (intro lm.frame_rules check stays_evt [OF assms] stays_silent stays_send_tm stays_enqueue
        stays_evt [OF ev_on_builder]; simp add: record_violations_def)
qed

lemma stays_hk: "rel_py (stays cf) (emit_hk_packets cf dt)"
  unfolding emit_hk_packets_def hk_slot_def set_timer_def
  by (intro lm.frame_rules stays_gate stays_silent stays_sends [OF sends_hk]; simp)


lemma stays_put:
  assumes "within_limits cf e"
  shows "within_limits cf (put_tm p e)" "within_limits cf (put_quiet p e)"
  using assms by (simp_all add: within_limits_def put_tm_def put_quiet_def)

lemma stays_fold: "(\<And>p e. within_limits cf e \<Longrightarrow> within_limits cf (f p e)) \<Longrightarrow> within_limits cf e \<Longrightarrow> within_limits cf (fold f ps e)"
  by (induction ps arbitrary: e) simp_all

lemma stays_rt: "rel_py (stays cf) (modify (tick_rt_emission cf' dt))"
proof (rule lm.rel_modify)
  fix e
  obtain out rest b' where r: "release (fadd (en_rt_budget e) (fmul (bytes_per_second cf' e) (fmax dt f0))) (en_rt_pending e) = (out, rest, b')"
    using prod_cases3 by blast
  have n: "length rest \<le> length (en_rt_pending e)" using release_order [OF r] by simp
  have "within_limits cf (fold put_tm out e)" if "within_limits cf e" by (rule stays_fold [OF stays_put(1) that])
  moreover have "en_rt_pending (fold put_tm out e) = en_rt_pending e"
    by (induction out arbitrary: e) (simp_all add: put_tm_def)
  ultimately show "stays cf e (tick_rt_emission cf' dt e)"
    using n by (auto simp: tick_rt_emission_def r stays_def within_limits_def Let_def)
qed

lemma stays_dump: "rel_py (stays cf) (modify (tick_dump_emission cf' dt))"
proof (rule lm.rel_modify)
  fix e
  have "within_limits cf (if downlink_active e then fold put_quiet out e else e)" if "within_limits cf e" for out
    using that by (auto intro: stays_fold stays_put(2))
  then show "stays cf e (tick_dump_emission cf' dt e)"
    by (auto simp: tick_dump_emission_def stays_def within_limits_def Let_def clear_dumped_def split: prod.split)
qed

lemma stays_hold: "rel_py (stays cf) (modify (tick_auto_tx_hold cf' dt))"
  by (rule stays_silent) (simp_all add: tick_auto_tx_hold_def Let_def)

section \<open>Fault detection and recovery\<close>

definition fdir_stays :: "'m config \<Rightarrow> 'm fdir \<Rightarrow> 'm fdir \<Rightarrow> bool" where
  "fdir_stays cf f f' = stays cf (fd_engine f) (fd_engine f')"

interpretation fs: py_frame "fdir_stays cf" for cf
  by unfold_locales (auto simp: fdir_stays_def stays_def)

lemma rel_pyI: "(\<And>s. R s (snd (m s))) \<Longrightarrow> rel_py R m"
  by (simp add: rel_py_def)

lemma rel_pyE: "rel_py R m \<Longrightarrow> R s (snd (m s))"
  by (simp add: rel_py_def)

lemma zoom_snd: "snd (zoom rd wr m s) = wr (snd (m (rd s))) s"
  by (simp add: zoom_def split: prod.split)

lemma fdir_stays_engine: "rel_py (stays cf) m \<Longrightarrow> rel_py (fdir_stays cf) (on_engine m)"
  by (intro rel_pyI) (simp add: zoom_snd fdir_stays_def rel_py_def)

lemma fdir_stays_silent: "(\<And>f. stays cf (fd_engine f) (fd_engine (g f))) \<Longrightarrow> rel_py (fdir_stays cf) (modify g)"
  by (intro fs.rel_modify) (simp add: fdir_stays_def)

lemma fdir_stays_aside:
  "rel_py (fdir_stays cf) (on_propagator p)" "rel_py (fdir_stays cf) (on_shedding l)"
  by (intro rel_pyI; simp add: zoom_snd fdir_stays_def stays_def)+

lemma fdir_stays_event: "(\<And>x. rel_py (evt cf) (em x)) \<Longrightarrow> rel_py (fdir_stays cf) (raise_event em k s t)"
  unfolding raise_event_def by (intro fdir_stays_engine stays_evt)

lemma fdir_stays_recovery: "rel_py (fdir_stays cf) (with_recovery i g)"
  unfolding with_recovery_def by (rule fdir_stays_aside)

definition with_stays :: "'m config \<Rightarrow> 'm engine \<times> 'x \<Rightarrow> 'm engine \<times> 'x \<Rightarrow> bool" where
  "with_stays cf wx wx' = stays cf (fst wx) (fst wx')"

interpretation ws: py_frame "with_stays cf" for cf
  by unfold_locales (auto simp: with_stays_def stays_def)

lemma with_stays_first: "rel_py (stays cf) m \<Longrightarrow> rel_py (with_stays cf) (zoom fst (\<lambda>w wp. (w, g wp)) m)"
  by (intro rel_pyI) (simp add: zoom_snd with_stays_def rel_py_def)

lemma with_stays_second: "(\<And>w x. fst (g (w, x)) = w) \<Longrightarrow> rel_py (with_stays cf) (modify g)"
  by (intro ws.rel_modify) (auto simp: with_stays_def stays_def)

lemma fdir_stays_executor: "rel_py (with_stays cf) m \<Longrightarrow> rel_py (fdir_stays cf) (on_executor_of m)"
  by (intro rel_pyI) (auto simp: zoom_snd with_stays_def fdir_stays_def rel_py_def split: prod.split, metis fst_conv)

lemma with_stays_emit: "(\<And>x. rel_py (evt cf) (em x)) \<Longrightarrow> rel_py (with_stays cf) (zoom fst (\<lambda>w wp. (w, g wp)) (em y))"
  by (intro with_stays_first stays_evt)

lemma stays_procedure_callback:
  assumes "procedure_callback cf em n = Some cb" "\<And>x. rel_py (evt cf) (em x)"
  shows "rel_py (stays cf) (cb params)"
proof -
  have "rel_py (stays cf) (execute_s8_command cf em params)"
    unfolding execute_s8_command_def
    by (intro lm.frame_rules stays_sends [OF out_dispatch] stays_enqueue assms)
  then show ?thesis using assms(1) by (simp add: procedure_callback_def split: if_splits)
qed

lemma with_stays_tick_execution:
  assumes em: "\<And>x. rel_py (evt cf) (em x)" and cb: "\<And>n g params. callbacks n = Some g \<Longrightarrow> rel_py (stays cf) (g params)"
  shows "rel_py (with_stays cf) (tick_execution callbacks em now)"
proof -
  have step: "rel_py (with_stays cf) (executor_step callbacks em now st)" for st
  proof (cases "callbacks (ps_command st)")
    case None
    then show ?thesis by (simp add: executor_step_def ws.rel_ret)
  next
    case (Some g)
    show ?thesis unfolding executor_step_def Some option.case
      by (intro ws.frame_rules with_stays_first with_stays_second cb [OF Some] stays_evt [OF em]) simp
  qed
  show ?thesis unfolding tick_execution_def tick_step_def
    by (intro ws.frame_rules step with_stays_first with_stays_second stays_evt [OF em]; simp)
qed

lemma with_stays_executor:
  assumes em: "\<And>x. rel_py (evt cf) (em x)" and cb: "\<And>n g params. callbacks n = Some g \<Longrightarrow> rel_py (stays cf) (g params)"
  shows "rel_py (with_stays cf) (executor_tick callbacks em now)"
proof -
  have at: "rel_py (with_stays cf) (at_execution k (tick_execution callbacks em now))" for k
  proof (rule rel_pyI)
    fix s :: "'a engine \<times> procedure_executor"
    obtain w x where s: "s = (w, x)" by fastforce
    have "with_stays cf (w, the (map_of (px_active x) k)) (snd (tick_execution callbacks em now (w, the (map_of (px_active x) k))))"
      using with_stays_tick_execution [of cf em callbacks now] em cb unfolding rel_py_def by blast
    then show "with_stays cf s (snd (at_execution k (tick_execution callbacks em now) s))"
      by (auto simp: s zoom_snd with_stays_def split: prod.split)
  qed
  have act: "rel_py (with_stays cf) (tick_active callbacks em now ks)" for ks
  proof (induction ks)
    case (Cons k ks)
    then show ?case unfolding tick_active.simps by (intro ws.frame_rules at with_stays_second) auto
  qed (simp add: ws.rel_ret)
  show ?thesis unfolding executor_tick_def
    by (intro ws.frame_rules act with_stays_second) auto
qed

lemma with_stays_start:
  "(\<And>x. rel_py (evt cf) (em x)) \<Longrightarrow> rel_py (with_stays cf) (executor_start em p now)"
  unfolding executor_start_def Let_def
  by (intro ws.frame_rules with_stays_first with_stays_second stays_evt; auto)


section \<open>Orders to the subsystems\<close>

lemma stays_orders:
  "rel_py (stays cf) (order_to cf' n c)" "rel_py (stays cf) (set_mode_of cf' n k)"
  "rel_py (stays cf) (battery_heater cf' on)" "rel_py (stays cf) (tcs_duty_limit_all cf' x)"
  "rel_py (stays cf) (cascade_reduce_data_rate cf')"
  unfolding order_to_def set_mode_of_def battery_heater_def tcs_duty_limit_all_def cascade_reduce_data_rate_def
  by ((intro lm.frame_rules stays_models)+)

text \<open>What a table of callbacks gives.\<close>

definition every :: "('x \<Rightarrow> bool) \<Rightarrow> 'x option \<Rightarrow> bool" where
  "every P x \<longleftrightarrow> (\<forall>m. x = Some m \<longrightarrow> P m)"

lemma every_intros:
  "every P None" "P m \<Longrightarrow> every P (Some m)" "every P x \<Longrightarrow> every P y \<Longrightarrow> every P (if b then x else y)"
  by (simp_all add: every_def)

lemma everyD: "every P x \<Longrightarrow> x = Some m \<Longrightarrow> P m"
  by (simp add: every_def)

lemma rel_callback: "every P x \<Longrightarrow> rel_py R m \<Longrightarrow> (\<And>f. P f \<Longrightarrow> rel_py R (g f)) \<Longrightarrow> rel_py R (case x of None \<Rightarrow> m | Some f \<Rightarrow> g f)"
  by (cases x) (simp_all add: every_def)

lemma cascade_callbacks: "every (rel_py (stays cf)) (cascade_callback cf' k)"
  unfolding cascade_callback_def Let_def by (intro every_intros stays_orders)

lemma shed_callbacks: "every (\<lambda>m. \<forall>v. rel_py (stays cf) (m v)) (shed_callback cf' k)"
  unfolding shed_callback_def Let_def
  by (intro every_intros allI lm.frame_rules stays_orders)

lemma fdir_callbacks: "every (rel_py (fdir_stays cf)) (fdir_callback cf' k)"
  unfolding fdir_callback_def bound_def
  by (intro every_intros fdir_stays_engine stays_orders fdir_stays_silent) (simp add: stays_def)

lemma stays_execute_stage: "rel_py (stays cf) (execute_stage (shed_callback cf') l k)"
proof -
  have "rel_py (stays cf) (shed_step (shed_callback cf') x)" for x
    unfolding shed_step_def attempt_def
    by (intro lm.rel_option lm.rel_raise rel_callback [OF shed_callbacks [of cf]] lm.rel_catch lm.rel_ret) blast
  then show ?thesis unfolding execute_stage_def by (intro lm.frame_rules)
qed

section \<open>The FDIR tick\<close>

lemma fdir_stays_load_shedding:
  assumes "\<And>x. rel_py (evt cf) (em x)"
  shows "rel_py (fdir_stays cf) (tick_load_shedding c em now)"
  unfolding tick_load_shedding_def
  by (intro fs.frame_rules fdir_stays_aside fdir_stays_event assms fdir_stays_silent fdir_stays_engine stays_execute_stage)
    (auto simp: stays_def)

lemma fdir_stays_enter:
  assumes "\<And>x. rel_py (evt cf) (em x)"
  shows "rel_py (fdir_stays cf) (enter_recovery_level c em i rs k now esc)"
  unfolding enter_recovery_level_def Let_def
  by (intro fs.frame_rules fdir_stays_recovery fdir_stays_executor with_stays_start fdir_stays_event assms)

lemma fdir_stays_judge:
  assumes "\<And>x. rel_py (evt cf) (em x)"
  shows "rel_py (fdir_stays cf) (judge_rule c em dt now r)"
  unfolding judge_rule_def judge_value_def fault_appears_def fault_vanishes_def complete_recovery_def start_recovery_def Let_def
  by (intro fs.frame_rules fdir_stays_enter fdir_stays_aside fdir_stays_recovery fdir_stays_event assms fdir_stays_silent;
      simp add: withdraw_fault_def stays_def)

lemma fdir_stays_cascades:
  assumes "\<And>x. rel_py (evt cf) (em x)"
  shows "rel_py (fdir_stays cf) (tick_pending_cascades c em now)"
proof -
  have "rel_py (fdir_stays cf) (apply_cascade c em ca)" for ca
    unfolding apply_cascade_def
    by (intro rel_callback [OF cascade_callbacks [of cf]] fs.rel_bind fs.rel_catch fs.rel_seq fs.rel_ret fs.rel_when
        fdir_stays_engine fdir_stays_event assms)
  then show ?thesis unfolding tick_pending_cascades_def
    by (intro fs.frame_rules fdir_stays_silent) (auto simp: stays_def)
qed

lemma fdir_stays_tick_recovery:
  assumes "\<And>x. rel_py (evt cf) (em x)"
  shows "rel_py (fdir_stays cf) (tick_recovery c em now)"
  unfolding tick_recovery_def tick_one_recovery_def
  by (intro fs.frame_rules fdir_stays_enter fdir_stays_recovery fdir_stays_event assms)

lemma fdir_stays_advanced:
  assumes "\<And>x. rel_py (evt cf) (em x)" "fc_base c = cf"
  shows "rel_py (fdir_stays cf) (tick_fdir_advanced c em dt)"
  unfolding tick_fdir_advanced_def tick_fault_detection_def publish_fdir_parameters_def assms(2)
  by (intro fs.frame_rules fdir_stays_load_shedding fdir_stays_judge fdir_stays_cascades fdir_stays_tick_recovery
      fdir_stays_executor with_stays_executor stays_procedure_callback [OF _ assms(1)] fdir_stays_silent assms(1);
      (assumption | simp add: stays_def disarm_def within_limits_def)?)

lemma fdir_stays_rules:
  assumes "\<And>x. rel_py (evt cf) (em x)"
  shows "rel_py (fdir_stays cf) (tick_fdir c em)"
proof -
  have "rel_py (fdir_stays cf) (run_action cf' r)" for cf' r
    unfolding run_action_def attempt_def
    by (intro rel_callback [OF fdir_callbacks [of cf]] fs.rel_catch fs.rel_ret)
  then show ?thesis unfolding tick_fdir_def tick_rule_def set_triggered_def
    by (intro fs.frame_rules fdir_stays_engine stays_evt assms fdir_stays_silent) (auto simp: stays_def)
qed

lemma fdir_stays_all:
  assumes "\<And>x. rel_py (evt cf) (em x)" "fc_base c = cf"
  shows "rel_py (fdir_stays cf) (tick_fdir_all c on em dt)"
proof -
  have "rel_py (fdir_stays cf) update_sc_mode"
    by (intro rel_pyI) (simp add: update_sc_mode_def fdir_stays_def stays_def split: sum.split)
  then show ?thesis
    unfolding tick_fdir_all_def check_safe_mode_events_def check_safe_mode_def check_eps_mode_def
    by (intro fs.frame_rules fdir_stays_rules fdir_stays_advanced fdir_stays_event assms fdir_stays_silent)
      (auto simp: stays_def)
qed


section \<open>The platform\<close>

text \<open>
  What no part of a tick but the advance of time and the loading of a breakpoint changes: the simulated
  time, the number of ticks and the stored breakpoints; and it keeps the queues within their limits.
\<close>

definition steady :: "'m config \<Rightarrow> ('m, 'o, 'r) platform \<Rightarrow> ('m, 'o, 'r) platform \<Rightarrow> bool" where
  "steady cf p p' \<longleftrightarrow> pf_time p' = pf_time p \<and> pf_ticks p' = pf_ticks p \<and> pf_breakpoints p' = pf_breakpoints p \<and>
     stays cf (board p) (board p')"

interpretation sd: py_frame "steady cf" for cf
  by unfold_locales (auto simp: steady_def stays_def)

lemma limits_time [simp]: "within_limits (cf\<lparr>cf_time := t\<rparr>) = within_limits cf"
  by (rule ext) (simp add: within_limits_def)

lemma stays_time [simp]: "stays (cf\<lparr>cf_time := t\<rparr>) = stays cf"
  by (intro ext) (simp add: stays_def)

lemma evt_time [simp]: "evt (cf\<lparr>cf_time := t\<rparr>) = evt cf"
  by (intro ext) (simp add: evt_def sends_def outbox_def)

lemma steady_board: "rel_py (stays cf) m \<Longrightarrow> rel_py (steady cf) (on_board m)"
  by (intro rel_pyI) (simp add: zoom_snd steady_def rel_py_def)

lemma steady_fdir: "rel_py (fdir_stays cf) m \<Longrightarrow> rel_py (steady cf) (on_fdir m)"
  by (intro rel_pyI) (simp add: zoom_snd steady_def fdir_stays_def rel_py_def)

lemma steady_orbit: "rel_py (steady cf) (on_orbit m)"
  by (intro rel_pyI) (simp add: zoom_snd steady_def stays_def)

lemma steady_modify:
  assumes "\<And>p. pf_time (f p) = pf_time p" "\<And>p. pf_ticks (f p) = pf_ticks p" "\<And>p. pf_breakpoints (f p) = pf_breakpoints p"
    "\<And>p. stays cf (board p) (board (f p))"
  shows "rel_py (steady cf) (modify f)"
  by (intro sd.rel_modify) (simp add: steady_def assms)

abbreviation base_of :: "('m, 'o, 'r) sim_config \<Rightarrow> 'm config" where
  "base_of c \<equiv> fc_base (sm_fdir c)"

lemma rel_after_gets: "(\<And>p. rel_py R (g (f p))) \<Longrightarrow> rel_py R (bind_py (gets f) g)"
  by (simp add: rel_py_def)

lemma steady_with_board:
  assumes "\<And>cf em. (\<And>x. rel_py (evt cf) (em x)) \<Longrightarrow> rel_py (stays cf) (m cf em)"
  shows "rel_py (steady (base_of c)) (with_board c m)"
  unfolding with_board_def
proof (intro rel_after_gets steady_board)
  fix p
  show "rel_py (stays (base_of c)) (m (board_config c p) (emit_event (board_config c p) (sm_depth c)))"
    using assms [of "board_config c p" "emit_event (board_config c p) (sm_depth c)", OF ev_emit_event] by (simp add: board_config_def)
qed

lemma steady_emit: "rel_py (steady (base_of c)) (emit c x)"
  unfolding emit_def by (intro steady_with_board stays_evt)

lemma steady_logged: "rel_py (steady cf) m \<Longrightarrow> rel_py (steady cf) (logged_call m)"
  unfolding logged_call_def by (intro sd.rel_catch sd.rel_ret)

lemma steady_change_board:
  "(\<And>e. stays cf e (f e)) \<Longrightarrow> rel_py (steady cf) (change_board f)"
  by (intro steady_modify) simp_all

lemma steady_publish: "rel_py (steady cf) publish_override" "rel_py (steady cf) (set_param k x)"
  unfolding publish_override_def set_param_def
  by (intro sd.frame_rules steady_change_board; simp add: stays_def within_limits_def)+

lemma steady_clamp: "rel_py (steady (base_of c)) (tick_prop_speed_clamp c)"
  unfolding tick_prop_speed_clamp_def
  by (intro sd.frame_rules steady_modify steady_emit) (simp_all add: stays_def)

lemma steady_physics: "rel_py (steady (base_of c)) (tick_physics c dt)"
proof -
  have "rel_py (steady (base_of c)) (advance_orbit c dt)"
    unfolding advance_orbit_def
    by (intro sd.frame_rules steady_orbit steady_modify steady_publish) (simp_all add: stays_def within_limits_def)
  moreover have "rel_py (steady cf) (tick_model c dt orb n)" for cf orb n
    unfolding tick_model_def
    by (intro steady_logged steady_board rel_pyI) (auto simp: zoom_snd stays_def within_limits_def split: prod.split)
  ultimately show ?thesis
    unfolding tick_physics_def tick_models_def
    by (intro sd.frame_rules steady_with_board lm.rel_seq stays_phase stays_hold)
qed

lemma steady_events: "rel_py (steady (base_of c)) (check_subsystem_events c)"
  unfolding check_subsystem_events_def mode_change_def check_charge_def check_bus_def check_store_def hysteresis_def
  by (intro sd.frame_rules steady_emit steady_modify) (simp_all add: stays_def set_flag_def)

lemma steady_drain:
  fixes c :: "('m, 'o, 'r) sim_config"
  shows "rel_py (steady (base_of c)) (drain_model_events c n)"
proof (induction n)
  case (Suc n)
  have deliver: "rel_py (steady (base_of c)) (deliver c ev)" for ev
    unfolding deliver_def by (intro sd.frame_rules steady_logged steady_emit)
  have "rel_py (steady (base_of c)) (seq_py (deliver c ev) (drain_model_events c n))" for ev
    by (intro sd.rel_seq deliver Suc)
  moreover have "steady (base_of c) p (set_board ((board p)\<lparr>en_models := m\<rparr>) p)"
    for p :: "('m, 'o, 'r) platform" and m
    by (simp add: steady_def stays_def within_limits_def)
  ultimately show ?case
    unfolding rel_py_def drain_model_events.simps
    by (auto split: option.split intro: sd.frame_refl) (metis sd.frame_trans)
qed (simp add: sd.rel_ret)

lemma steady_transitions: "rel_py (steady (base_of c)) (check_transitions c v)"
  unfolding check_transitions_def
  by (intro sd.frame_rules steady_emit steady_modify) (simp_all add: stays_def)

lemma steady_propulsion: "rel_py (steady (base_of c)) (tick_propulsion c)"
  unfolding tick_propulsion_def apply_prop_impulse_def
  by (intro sd.frame_rules steady_emit steady_orbit steady_clamp steady_board stays_models)

lemma steady_checks: "rel_py (steady (base_of c)) (tick_checks c v dt)"
proof -
  have "rel_py (steady (base_of c)) (couple_battery c)"
    unfolding couple_battery_def by (intro sd.frame_rules steady_change_board) (simp add: stays_def within_limits_def)
  moreover have "rel_py (steady (base_of c)) (on_fdir (tick_fdir_all (fdir_config_at c p) b
      (emit_event (board_config c p) (sm_depth c)) dt))" for p b
  proof (intro steady_fdir)
    have "rel_py (fdir_stays (board_config c p)) (tick_fdir_all (fdir_config_at c p) b
        (emit_event (board_config c p) (sm_depth c)) dt)"
      by (intro fdir_stays_all ev_emit_event) (simp add: fdir_config_at_def)
    then show "rel_py (fdir_stays (base_of c)) (tick_fdir_all (fdir_config_at c p) b
        (emit_event (board_config c p) (sm_depth c)) dt)"
      by (simp add: board_config_def fdir_stays_def [abs_def])
  qed
  ultimately show ?thesis
    unfolding tick_checks_def
    by (intro sd.rel_seq steady_propulsion steady_with_board stays_s12 rel_after_gets steady_events steady_drain
        steady_transitions) (simp_all add: split_def)
qed


section \<open>Instructions, failures and scenarios\<close>

lemma steady_instruction: "rel_py (steady (base_of c)) (platform_instruction c q)"
proof -
  have separation: "rel_py (steady (base_of c)) (handle_separation c)"
    unfolding handle_separation_def
    by (intro sd.rel_seq steady_emit steady_modify)
      (simp_all add: configure_separation_state_def Let_def stays_def within_limits_def split: prod.split)
  have phase: "rel_py (steady (base_of c)) (handle_set_phase c q)"
    unfolding handle_set_phase_def
    by (intro sd.frame_rules steady_change_board steady_emit)
      (simp add: enter_phase_def start_application_def exit_bootloader_mode_def enter_bootloader_mode_def Let_def stays_def
        within_limits_def)
  have speed: "rel_py (steady (base_of c)) (handle_set_speed c q)"
    unfolding handle_set_speed_def count_reject_def
    by (intro sd.frame_rules steady_modify steady_clamp) (simp_all add: stays_def put_speed_def)
  have others: "rel_py (steady (base_of c)) (handle_failure_inject c q)" "rel_py (steady (base_of c)) (handle_failure_clear c q)"
    "rel_py (steady (base_of c)) (handle_override q)"
    unfolding handle_failure_inject_def handle_failure_clear_def handle_override_def Let_def
    by (intro sd.frame_rules steady_board stays_models steady_change_board steady_publish; simp add: stays_def within_limits_def)+
  show ?thesis unfolding platform_instruction_def Let_def
    by (intro sd.rel_if speed phase separation others sd.rel_ret steady_modify; simp add: stays_def put_speed_def)
qed

interpretation tk: stage_frame "steady (base_of c)" "failure_environment c" "scenario_host c" for c
  by unfold_locales
    (auto simp: failure_environment_def scenario_host_def Let_def put_speed_def steady_def stays_def within_limits_def
      handle_failure_inject_def handle_failure_clear_def split: sum.split if_splits
      intro!: steady_instruction sd.frame_rules steady_board stays_models)

abbreviation steady_stage :: "('m, 'o, 'r) sim_config \<Rightarrow> ('m, 'o, 'r) stage_of \<Rightarrow> ('m, 'o, 'r) stage_of \<Rightarrow> bool" where
  "steady_stage c \<equiv> on_stage (steady (base_of c))"

lemma steady_substep: "rel_py (steady_stage c) (tick_substep c dt dt_outer final)"
proof -
  have handlers: "rel_py (steady_stage c) (tick_once_handlers c dt_outer)"
    unfolding tick_once_handlers_def tick_scenario_engine_def drain_telecommands_def
    by (intro tk.st.rel_seq tk.st.rel_bind tk.st.rel_gets tk.st.rel_when tk.logged tk.scenario_ticked tk.world_called
        sd.frame_rules steady_modify steady_with_board stays_drain_tc stays_release_schedule stays_procedures steady_logged)
      (simp_all add: stays_def)
  have emissions: "rel_py (steady (base_of c)) (tick_emissions c dt_outer)"
    unfolding tick_emissions_def by (intro steady_with_board lm.rel_seq stays_hk stays_rt stays_dump)
  have failures: "rel_py (steady_stage c) (tick_failure_manager c dt)"
    unfolding tick_failure_manager_def
    using tk.failures_ticked by (intro tk.st.rel_modify) (auto simp: on_stage_def split: prod.split)
  show ?thesis
    unfolding tick_substep_def
    by (intro tk.st.rel_seq tk.st.rel_bind tk.st.rel_when tk.world_called handlers emissions failures steady_physics
        steady_checks)
qed


section \<open>Bounded queues\<close>

text \<open>A snapshot that restores no more real-time packets than the backlog may hold.\<close>

definition fits :: "'m config \<Rightarrow> 'r snapshot \<Rightarrow> bool" where
  "fits cf st \<longleftrightarrow> (case sn_engine st of None \<Rightarrow> True | Some e \<Rightarrow>
     (case se_rt_pending e of None \<Rightarrow> True | Some l \<Rightarrow> length l \<le> cf_rt_backlog_max cf))"

definition bounded_queues :: "'m config \<Rightarrow> ('m, 'o, 'r) platform \<Rightarrow> bool" where
  "bounded_queues cf p \<longleftrightarrow> within_limits cf (board p) \<and> (\<forall>sn\<in>snd ` set (pf_breakpoints p). fits cf sn)"

definition keeps_bounds :: "'m config \<Rightarrow> ('m, 'o, 'r) platform \<Rightarrow> ('m, 'o, 'r) platform \<Rightarrow> bool" where
  "keeps_bounds cf p p' \<longleftrightarrow> (bounded_queues cf p \<longrightarrow> bounded_queues cf p')"

interpretation kb: py_frame "keeps_bounds cf" for cf
  by unfold_locales (auto simp: keeps_bounds_def)

interpretation ks: py_frame "on_stage (keeps_bounds cf)" for cf
  by unfold_locales (auto simp: on_stage_def keeps_bounds_def)

lemma steady_keeps: "steady cf p p' \<Longrightarrow> keeps_bounds cf p p'"
  by (simp add: steady_def keeps_bounds_def bounded_queues_def stays_def)

lemma keeps_steady: "rel_py (steady cf) m \<Longrightarrow> rel_py (keeps_bounds cf) m"
  "rel_py (on_stage (steady cf)) n \<Longrightarrow> rel_py (on_stage (keeps_bounds cf)) n"
  by (simp_all add: rel_py_def on_stage_def steady_keeps)

lemma keeps_world: "rel_py (keeps_bounds cf) m \<Longrightarrow> rel_py (on_stage (keeps_bounds cf)) (on_stage_world m)"
  by (intro rel_pyI) (simp add: zoom_snd on_stage_def rel_py_def)

lemma keeps_change: "(\<And>p. keeps_bounds cf p (f p)) \<Longrightarrow> rel_py (on_stage (keeps_bounds cf)) (change_world f)"
  by (intro ks.rel_modify) (simp add: on_stage_def)

lemma keeps_rest: "(\<And>s. fst (fst (f s)) = fst (fst s)) \<Longrightarrow> rel_py (on_stage (keeps_bounds cf)) (modify f)"
  by (intro ks.rel_modify) (simp add: on_stage_def keeps_bounds_def)

lemma all_fromhex_length: "all_fromhex hs = Inr bs \<Longrightarrow> length bs = length hs"
  by (induction hs arbitrary: bs) (auto simp: bind_result_def split: sum.splits)

lemma keeps_silent:
  assumes "\<And>p. pf_breakpoints (f p) = pf_breakpoints p" "\<And>p. stays cf (board p) (board (f p))"
  shows "rel_py (keeps_bounds cf) (modify f)"
  by (intro kb.rel_modify) (use assms in \<open>simp add: keeps_bounds_def bounded_queues_def stays_def\<close>)

lemma keeps_engine_state:
  assumes "case se_rt_pending st of None \<Rightarrow> True | Some l \<Rightarrow> length l \<le> cf_rt_backlog_max cf"
  shows "rel_py (keeps_bounds cf) (engine_set_state st)"
proof -
  have rt: "rel_py (keeps_bounds cf) (bind_py (of_result (all_fromhex (defaulted [] (se_rt_pending st)))) (\<lambda>rt.
       seq_py (change_board (\<lambda>e. e\<lparr>en_rt_pending := rt\<rparr>)) (modify (restore_rest st))))"
  proof (cases "all_fromhex (defaulted [] (se_rt_pending st))")
    case (Inr rt)
    have "length rt \<le> cf_rt_backlog_max cf"
      using all_fromhex_length [OF Inr] assms by (auto simp: defaulted_def split: option.splits)
    then have "rel_py (keeps_bounds cf) (seq_py (change_board (\<lambda>e. e\<lparr>en_rt_pending := rt\<rparr>)) (modify (restore_rest st)))"
      by (intro kb.rel_seq keeps_silent) (simp_all add: stays_def within_limits_def restore_rest_def restore_counters_def)
    then show ?thesis by (simp only: Inr bind_of_Inr)
  qed (simp add: rel_py_def kb.frame_refl)
  have flags: "rel_py (keeps_bounds cf) (modify (restore_flags st))"
    by (intro keeps_silent) (simp_all add: restore_flags_def Let_def stays_def within_limits_def)
  show ?thesis
    unfolding engine_set_state_def
    by (rule kb.rel_seq [OF flags], rule kb.rel_bind [OF kb.rel_of_result], rule kb.rel_seq [OF _ rt], rule keeps_silent)
      (simp_all add: stays_def within_limits_def)
qed

lemma keeps_load:
  assumes "fits (base_of c) st"
  shows "rel_py (on_stage (keeps_bounds (base_of c))) (load_breakpoint c st)"
proof -
  let ?K = "keeps_bounds (base_of c)"
  have parts: "rel_py (fdir_stays (base_of c)) (restore_board_parts st)"
    unfolding restore_board_parts_def given_def
    by (intro fs.frame_rules fdir_stays_silent fdir_stays_engine lm.frame_rules stays_silent;
        simp add: stays_def set_obcp_state_def Let_def)
  have engine: "rel_py ?K (given (sn_engine st) engine_set_state)"
    using assms by (auto simp: given_def fits_def intro!: keeps_engine_state kb.rel_ret split: option.splits)
  have scheduler: "rel_py ?K (on_board (restore_scheduler st))"
    unfolding restore_scheduler_def given_def
    by (intro keeps_steady steady_board lm.frame_rules stays_silent; simp)
  have models: "rel_py ?K (each (restore_model c) (sn_models st))"
    unfolding restore_model_def by (intro kb.rel_each kb.rel_when keeps_steady steady_board stays_models)
  have orbit: "rel_py ?K (restore_orbit c st)"
    unfolding restore_orbit_def given_def logged_call_def by (intro kb.frame_rules keeps_steady steady_orbit)
  have hk: "rel_py ?K (given (sn_hk_enabled st) (\<lambda>l. change_board (restore_hk_enabled l)))"
    unfolding given_def by (intro kb.rel_option kb.rel_ret keeps_silent) (simp_all add: stays_def within_limits_def restore_hk_enabled_def)
  have top: "rel_py ?K (modify (restore_top st))"
    by (intro keeps_silent) (simp_all add: restore_top_def Let_def stays_def within_limits_def)
  have rng: "rel_py (on_stage ?K) (modify (\<lambda>((p, fm), x). ((p\<lparr>pf_rng := defaulted (pf_rng p) (sn_rng_engine st)\<rparr>,
         fm\<lparr>fm_rng := defaulted (fm_rng fm) (sn_rng_failures st)\<rparr>), x)))"
    by (intro ks.rel_modify) (auto simp: on_stage_def keeps_bounds_def bounded_queues_def)
  have others: "rel_py (on_stage ?K) (modify (\<lambda>((p, fm), x). ((p, case sn_failures st of Some q \<Rightarrow> failures_set_state q fm | None \<Rightarrow> fm),
         case sn_scenario st of Some q \<Rightarrow> scenario_set_state q x | None \<Rightarrow> x)))"
    by (intro keeps_rest) auto
  show ?thesis
    unfolding load_breakpoint_def restore_all_def
    by (intro ks.rel_catch ks.rel_seq ks.rel_ret keeps_world top models engine scheduler others rng hk orbit
        keeps_steady(1) [OF steady_fdir [OF parts]])
qed

lemma saved_fits: "save_breakpoint c name s = Inr sn \<Longrightarrow> bounded_queues cf (fst (fst s)) \<Longrightarrow> fits cf sn"
  by (cases s; cases "fst s")
    (auto simp: save_breakpoint_def Let_def bind_result_def fits_def engine_get_state_def bounded_queues_def within_limits_def
      split: sum.splits prod.splits)


lemma update_values: "(a, b) \<in> set (AList.update k v l) \<Longrightarrow> b = v \<or> (a, b) \<in> set l"
  by (induction l) (auto split: if_splits)

lemma keeps_instruction:
  assumes "\<And>v. fits (base_of c) (sm_inline_state c v)"
  shows "rel_py (on_stage (keeps_bounds (base_of c))) (handle_instructor_cmd c q)"
proof -
  let ?K = "on_stage (keeps_bounds (base_of c))"
  let ?env = "failure_environment c"
  have world: "rel_py ?K (modify (\<lambda>(wm, x). (f wm, x)))" if "\<And>wm. steady (base_of c) (fst wm) (fst (f wm))" for f
    using that by (intro ks.rel_modify) (auto simp: on_stage_def intro: steady_keeps)
  have inject: "rel_py ?K (instructor_inject c q)"
    unfolding instructor_inject_def
    by (intro ks.rel_bind ks.rel_of_result world) (metis tk.injected prod.collapse)
  have clear: "rel_py ?K (modify (\<lambda>(wm, x). (clear_all ?env wm, x)))"
    by (rule world) (metis tk.cleared_all prod.collapse)
  have save: "rel_py ?K (handle_save_breakpoint c q)"
    unfolding rel_py_def
  proof
    fix s
    show "?K s (snd (handle_save_breakpoint c q s))"
    proof (cases "save_breakpoint c (if text_param q ''name'' = [] then sm_stamp c else text_param q ''name'') s")
      case (Inr sn)
      show ?thesis
        using Inr saved_fits [OF Inr, of "base_of c"]
        by (auto dest!: update_values simp: handle_save_breakpoint_def Let_def modify_def on_stage_def keeps_bounds_def bounded_queues_def)
    qed (simp add: handle_save_breakpoint_def Let_def ret_def ks.frame_refl)
  qed
  have load: "rel_py ?K (handle_load_breakpoint c q)"
    unfolding rel_py_def
  proof
    fix s
    have after: "rel_py ?K (bind_py (load_breakpoint c st) (\<lambda>ok. when_py ok (on_platform (seq_py (change_board hk_burst)
         (logged_call (emit c (an_event 0x0054 2 t)))))))" if "fits (base_of c) st" for st t
      by (intro ks.rel_bind ks.rel_when keeps_load that keeps_world kb.rel_seq keeps_steady steady_logged steady_emit
          steady_change_board) (simp add: hk_burst_def stays_def within_limits_def)
    show "?K s (snd (handle_load_breakpoint c q s))"
    proof (cases "wanted_snapshot c q (fst (fst s))")
      case (Some st)
      show ?thesis
      proof (cases "bounded_queues (base_of c) (fst (fst s))")
        case True
        then have "fits (base_of c) st"
          using Some assms by (auto simp: wanted_snapshot_def bounded_queues_def dest!: map_of_SomeD split: if_splits)
        from after [OF this] show ?thesis by (simp add: handle_load_breakpoint_def Some rel_py_def del: split_paired_All)
      qed (simp add: on_stage_def keeps_bounds_def)
    qed (simp add: handle_load_breakpoint_def ret_def ks.frame_refl)
  qed
  have scenario: "rel_py ?K (handle_start_scenario c q)" "rel_py ?K (handle_stop_scenario c)"
    unfolding handle_start_scenario_def handle_stop_scenario_def stop_scenario_def
    by (intro keeps_steady(2) tk.logged tk.st.rel_seq tk.scenario_started tk.st.rel_ret tk.st.rel_modify tk.scenario_finished)+
  have pause: "rel_py ?K pause_scenario"
    unfolding pause_scenario_def
    by (intro ks.rel_modify) (simp add: on_stage_def keeps_bounds_def bounded_queues_def put_speed_def split: prod.split)
  show ?thesis
    unfolding handle_instructor_cmd_def Let_def
    by (intro ks.rel_if inject keeps_steady(2) [OF tk.clearing] clear pause save load scenario keeps_world
        keeps_steady(1) [OF steady_instruction])
qed

lemma keeps_turn:
  assumes "\<And>v. fits (base_of c) (sm_inline_state c v)"
  shows "rel_py (on_stage (keeps_bounds (base_of c))) (loop_turn c dt_real)"
proof -
  let ?K = "on_stage (keeps_bounds (base_of c))"
  have quiet: "rel_py ?K (change_world f)"
    if "\<And>p. pf_breakpoints (f p) = pf_breakpoints p" "\<And>p. board (f p) = board p" for f
    using that by (intro keeps_change) (simp add: keeps_bounds_def bounded_queues_def)
  have count: "rel_py (keeps_bounds (base_of c)) count_reject"
    unfolding count_reject_def by (intro keeps_silent) (simp_all add: stays_def)
  have drain: "rel_py ?K (drain_instr_queue c)"
    unfolding drain_instr_queue_def instruct_def
    by (intro ks.rel_bind ks.rel_gets ks.rel_seq quiet ks.rel_each ks.rel_catch keeps_instruction assms keeps_world count) simp_all
  have steps: "rel_py ?K (run_substeps c dt dt_outer n)" for dt dt_outer n
    unfolding run_substeps_def advance_time_def
    by (intro ks.rel_each ks.rel_seq keeps_steady(2) [OF steady_substep] ks.rel_bind ks.rel_of_result quiet) simp_all
  show ?thesis
    unfolding loop_turn_def tick_once_def record_engine_fault_def
    by (intro ks.rel_bind ks.rel_gets ks.rel_catch ks.rel_seq drain ks.rel_of_result steps quiet) simp_all
qed


section \<open>Runs of the simulation\<close>

text \<open>
  What happens to a simulation: turns of its loop, telecommands and instructor commands that arrive, and
  the servers taking packets and events from their queues.
\<close>

inductive simulation_step :: "('m, 'o, 'r) sim_config \<Rightarrow> py_float \<Rightarrow> ('m, 'o, 'r) stage_of \<Rightarrow> ('m, 'o, 'r) stage_of \<Rightarrow> bool"
  for c :: "('m, 'o, 'r) sim_config" and dt_real :: py_float where
  turn: "simulation_step c dt_real s (snd (loop_turn c dt_real s))"
| telecommand: "simulation_step c dt_real s (snd (change_world (\<lambda>p. p\<lparr>pf_tc_queue := pf_tc_queue p @ [raw]\<rparr>) s))"
| instruction: "simulation_step c dt_real s (snd (on_platform (submit_instructor_cmd q) s))"
| packets_taken: "simulation_step c dt_real s
    (snd (on_platform (change_board (\<lambda>e. e\<lparr>en_tm_queue := drop n (en_tm_queue e)\<rparr>)) s))"
| events_taken: "simulation_step c dt_real s
    (snd (on_platform (change_board (\<lambda>e. e\<lparr>en_event_queue := drop n (en_event_queue e)\<rparr>)) s))"

lemma keeps_submit: "rel_py (keeps_bounds cf) (submit_instructor_cmd q)"
  unfolding submit_instructor_cmd_def by (intro kb.frame_rules keeps_silent) (simp_all add: stays_def)

lemma simulation_step_keeps:
  assumes "\<And>v. fits (base_of c) (sm_inline_state c v)" "simulation_step c dt_real s s'"
  shows "on_stage (keeps_bounds (base_of c)) s s'"
  using assms(2)
proof cases
  case turn
  then show ?thesis using keeps_turn [OF assms(1)] by (simp add: rel_py_def del: split_paired_All)
next
  case (telecommand raw)
  then show ?thesis by (simp add: modify_def on_stage_def keeps_bounds_def bounded_queues_def)
next
  case (instruction q)
  show ?thesis unfolding instruction by (rule rel_pyE [OF keeps_world [OF keeps_submit]])
next
  case (packets_taken n)
  have "rel_py (keeps_bounds (base_of c)) (change_board (\<lambda>e. e\<lparr>en_tm_queue := drop n (en_tm_queue e)\<rparr>))"
    by (intro keeps_silent) (auto simp: stays_def within_limits_def)
  from rel_pyE [OF keeps_world [OF this]] show ?thesis unfolding packets_taken .
next
  case (events_taken n)
  have "rel_py (keeps_bounds (base_of c)) (change_board (\<lambda>e. e\<lparr>en_event_queue := drop n (en_event_queue e)\<rparr>))"
    by (intro keeps_silent) (auto simp: stays_def within_limits_def)
  from rel_pyE [OF keeps_world [OF this]] show ?thesis unfolding events_taken .
qed

text \<open>
  C26: However long the simulation runs, from a start within these limits and without breakpoints, the
  telemetry queue holds at most 2000 packets, the real-time backlog at most its configured size and the event
  queue at most 500 events, in every turn of the loop, also in those that an exception cuts short, and across
  telecommands, instructor commands, scenarios, injected failures and the breakpoints the simulation has
  saved and loads again. A snapshot that comes with a command may not hold more real-time packets than the
  backlog's size (the code loads any).
\<close>
theorem simulation_queues_bounded:
  assumes "\<And>v. fits (base_of c) (sm_inline_state c v)"
    and "(simulation_step c dt_real)\<^sup>*\<^sup>* s s'"
    and "within_limits (base_of c) (board (fst (fst s)))" "pf_breakpoints (fst (fst s)) = []"
  shows "length (en_tm_queue (board (fst (fst s')))) \<le> 2000 \<and>
    length (en_rt_pending (board (fst (fst s')))) \<le> cf_rt_backlog_max (base_of c) \<and>
    length (en_event_queue (board (fst (fst s')))) \<le> 500"
proof -
  have "on_stage (keeps_bounds (base_of c)) s s'"
    using assms(2) by (induction rule: rtranclp_induct) (auto intro: ks.frame_refl ks.frame_trans simulation_step_keeps [OF assms(1)])
  then show ?thesis
    using assms(3,4)
    by (simp add: on_stage_def keeps_bounds_def bounded_queues_def within_limits_def TM_QUEUE_SIZE_def EVENT_QUEUE_SIZE_def)
qed

theorem simulation_queues_bounded_witness:
  "length (en_tm_queue (board (fst (fst (snd (loop_turn bare_sim (Fin False 1) (bare_stage []))))))) \<le> 2000"
proof -
  have "simulation_step bare_sim (Fin False 1) (bare_stage []) (snd (loop_turn bare_sim (Fin False 1) (bare_stage [])))"
    by (rule simulation_step.turn)
  then show ?thesis
    using simulation_queues_bounded [OF _ r_into_rtranclp, of bare_sim "Fin False 1" "bare_stage []"]
    by (simp add: bare_sim_simps fits_def within_limits_def)
qed

section \<open>Simulated time\<close>

text \<open>
  A tick without pending instructor commands advances the simulated time by its sub-steps and nothing
  else: by the number of sub-steps times the length of one as \<open>timedelta\<close> rounds it to microseconds, and
  the tick counter by one, whatever the models, telecommands, events and scenarios do in it.
\<close>
theorem tick_advances_time:
  assumes "pf_instructions (fst (fst s)) = []" "substeps c dt_sim = Inr n" "fdiv dt_sim (of_pyint n) = Inr dt_sub"
    and "timedelta_us dt_sub = Inr us" "tick_once c dt_sim s = (Inr (), s')"
  shows "pf_time (fst (fst s')) = pf_time (fst (fst s)) + int (nat n) * us \<and>
    pf_ticks (fst (fst s')) = pf_ticks (fst (fst s)) + 1"
proof -
  let ?p = "\<lambda>s. fst (fst s)"
  have steps: "pf_time (?p t') = pf_time (?p t) + int (length is) * us \<and> pf_ticks (?p t') = pf_ticks (?p t)"
    if "each (\<lambda>i. seq_py (tick_substep c dt_sub dt_sim (Suc i = m)) (advance_time dt_sub)) is t = (Inr (), t')" for "is" t t' m
    using that
  proof (induction "is" arbitrary: t)
    case (Cons i "is")
    obtain u v where u: "tick_substep c dt_sub dt_sim (Suc i = m) t = (Inr (), u)" and v: "advance_time dt_sub u = (Inr (), v)"
      and w: "each (\<lambda>i. seq_py (tick_substep c dt_sub dt_sim (Suc i = m)) (advance_time dt_sub)) is v = (Inr (), t')"
      using Cons.prems by (auto simp: seq_returns)
    have "steady (base_of c) (?p t) (?p u)" using rel_pyD [OF steady_substep u] by (simp add: on_stage_def)
    moreover have "pf_time (?p v) = pf_time (?p u) + us" "pf_ticks (?p v) = pf_ticks (?p u)"
      using v by (auto simp: advance_time_def assms(4) modify_def)
    ultimately show ?case using Cons.IH [OF w] by (simp add: steady_def algebra_simps)
  qed (simp add: ret_def)
  have drain: "drain_instr_queue c s = (Inr (), ((?p s)\<lparr>pf_instructions := []\<rparr>, snd (fst s)), snd s)"
    using assms(1) by (simp add: drain_instr_queue_def modify_def ret_def)
  obtain t' where "run_substeps c dt_sub dt_sim (nat n) (((?p s)\<lparr>pf_instructions := []\<rparr>, snd (fst s)), snd s) = (Inr (), t')"
    and "s' = (((?p t')\<lparr>pf_ticks := pf_ticks (?p t') + 1\<rparr>, snd (fst t')), snd t')"
    using assms(5) by (auto simp: tick_once_def seq_returns drain assms(2,3) modify_def)
  then show ?thesis using steps [of "nat n" "[0..<nat n]"] by (auto simp: run_substeps_def)
qed

end
