(* ===== verification/Command_Codec.thy ===== *)
theory Command_Codec
  imports Pus_Reports Model_Basics "HOL-Library.List_Lexorder" "HOL-Library.Char_ord"
begin

text \<open>
  The catalogue of telecommands and its codec (\<open>smo_common/commanding/catalog.py\<close>, \<open>encode.py\<close>,
  \<open>decode.py\<close>): engineering values to the octets of a command's data field and back, and the expected
  length of the data field (\<open>smo_mcs/tc_lengths.py\<close>). A command is the parsed entry of the YAML file.
\<close>

section \<open>Catalogue\<close>

text \<open>A calibration and a field with the defaults of their optional entries filled in; \<open>None\<close> is an absent entry.\<close>

record calibration =
  cl_type :: string
  cl_scale :: py_float
  cl_offset :: py_float
  cl_coefficients :: "py_float list"

record arg_field =
  fa_name :: string
  fa_type :: "string option"
  fa_cal :: calibration
  fa_range :: "(pyval \<times> pyval) option"
  fa_raw_range :: "(pyval \<times> pyval) option"
  fa_enum :: "int list"
  fa_bits :: "(int \<times> bool) list"
  fa_default :: "pyval option"
  fa_endian :: string

record tc_entry =
  ce_name :: string
  ce_aliases :: "string list"
  ce_service :: int
  ce_subtype :: int
  ce_func :: "int option"
  ce_fields :: "arg_field list option"

definition no_calibration :: calibration where
  "no_calibration = \<lparr>cl_type = ''none'', cl_scale = Fin False 1, cl_offset = f0, cl_coefficients = []\<rparr>"

definition lower :: "string \<Rightarrow> string" where "lower = map lower_char"

text \<open>The widths of the scalar types, with the format and the sign of their \<open>struct\<close> codes.\<close>

definition FIELD_WIDTHS :: "string \<rightharpoonup> nat" where
  "FIELD_WIDTHS = map_of [(''uint8'', 1), (''int8'', 1), (''uint16'', 2), (''int16'', 2), (''uint32'', 4), (''int32'', 4),
     (''float32'', 4), (''float64'', 8)]"

definition INT_FMT :: "string \<rightharpoonup> hk_format" where
  "INT_FMT = map_of [(''uint8'', Fmt_B), (''int8'', Fmt_b), (''uint16'', Fmt_H), (''int16'', Fmt_h), (''uint32'', Fmt_I), (''int32'', Fmt_i)]"

definition VARIABLE_FIELD_TYPES :: "string list" where
  "VARIABLE_FIELD_TYPES = [''bytes'', ''string'', ''blob'']"

definition field_width :: "string \<Rightarrow> nat option" where
  "field_width t = (let k = lower (strip t) in if k \<in> set VARIABLE_FIELD_TYPES then None else FIELD_WIDTHS k)"

definition field_type :: "arg_field \<Rightarrow> string" where
  "field_type f = lower (or_else (fa_type f) ''uint8'')"

definition is_float :: "arg_field \<Rightarrow> bool" where
  "is_float f \<longleftrightarrow> take 5 (field_type f) = ''float''"

definition cal_type :: "arg_field \<Rightarrow> string" where
  "cal_type f = lower (cl_type (fa_cal f))"

text \<open>The indexes: a name belongs to the last command of that name, an alias and a key to the first.\<close>

definition name_index :: "tc_entry list \<Rightarrow> string \<rightharpoonup> tc_entry" where
  "name_index cs = fold (\<lambda>c m. fold (\<lambda>a m. if m a = None then m(a \<mapsto> c) else m) (ce_aliases c) (m(ce_name c \<mapsto> c))) cs Map.empty"

definition by_func :: "tc_entry list \<Rightarrow> int \<Rightarrow> int \<Rightarrow> int option \<Rightarrow> tc_entry option" where
  "by_func cs service subtype func = List.find (\<lambda>c. ce_service c = service \<and> ce_subtype c = subtype \<and> ce_func c = func) cs"

datatype command_ref = ByName string | ByKey int int "int option"

definition resolve_command :: "tc_entry list \<Rightarrow> command_ref \<Rightarrow> tc_entry result" where
  "resolve_command cs r = (case (case r of ByName n \<Rightarrow> name_index cs n | ByKey s t f \<Rightarrow> by_func cs s t f) of
       Some c \<Rightarrow> Inr c | None \<Rightarrow> Inl KeyError)"

section \<open>Engineering values and raw values\<close>

text \<open>
  A raw value is a \<open>VInt\<close> or a \<open>VFloat\<close>. \<open>EncodeError\<close> and \<open>DecodeError\<close> are the module's own exceptions;
  their messages are not modelled. \<open>lm_pow\<close> is the power of a polynomial calibration.
\<close>

abbreviation "EncodeError \<equiv> OtherError ''EncodeError''"
abbreviation "DecodeError \<equiv> OtherError ''DecodeError''"

definition rounded :: "py_float result \<Rightarrow> pyval result" where
  "rounded r = bind_result r (\<lambda>x. bind_result (round_float x) (\<lambda>k. Inr (VInt k)))"

definition eng_to_raw :: "arg_field \<Rightarrow> pyval \<Rightarrow> pyval result" where
  "eng_to_raw f v =
     (let cal = fa_cal f; cs = cl_coefficients cal in
      if is_float f then bind_result (value_float v) (\<lambda>x. Inr (VFloat x))
      else if cal_type f = ''linear'' then
        if \<not> fbool (cl_scale cal) then Inl EncodeError
        else rounded (bind_result (value_float v) (\<lambda>x. fdiv (fsub x (cl_offset cal)) (cl_scale cal)))
      else if cal_type f = ''polynomial'' then
        if 2 < length cs then Inl EncodeError
        else let c0 = (case cs of c # _ \<Rightarrow> c | [] \<Rightarrow> f0); c1 = (case cs of _ # c # _ \<Rightarrow> c | _ \<Rightarrow> Fin False 1) in
          if \<not> fbool c1 then Inl EncodeError else rounded (bind_result (value_float v) (\<lambda>x. fdiv (fsub x c0) c1))
      else rounded (value_float v))"

fun poly_terms :: "libm \<Rightarrow> py_float \<Rightarrow> nat \<Rightarrow> py_float list \<Rightarrow> py_float list result" where
  "poly_terms lm x i [] = Inr []"
| "poly_terms lm x i (c # cs) = bind_result (lm_pow lm x (of_pyint (int i))) (\<lambda>p.
     bind_result (poly_terms lm x (Suc i) cs) (\<lambda>ts. Inr (fmul c p # ts)))"

definition raw_to_eng :: "libm \<Rightarrow> arg_field \<Rightarrow> pyval \<Rightarrow> pyval result" where
  "raw_to_eng lm f raw =
     (let cal = fa_cal f in
      if is_float f then bind_result (value_float raw) (\<lambda>x. Inr (VFloat x))
      else if cal_type f = ''linear'' then bind_result (value_float raw) (\<lambda>x. Inr (VFloat (fadd (fmul x (cl_scale cal)) (cl_offset cal))))
      else if cal_type f = ''polynomial'' then bind_result (value_float raw) (\<lambda>x.
        bind_result (poly_terms lm x 0 (cl_coefficients cal)) (\<lambda>ts. Inr (VFloat (fsum ts))))
      else bind_result (value_int raw) (\<lambda>k. Inr (VInt k)))"

section \<open>Validation\<close>

definition int_bounds :: "string \<Rightarrow> int \<times> int" where
  "int_bounds t =
     (let bits = 8 * or_else (field_width t) 1 in
      if take 3 t = ''int'' then (- (2 ^ (bits - 1)), 2 ^ (bits - 1) - 1) else (0, 2 ^ bits - 1))"

definition require :: "bool \<Rightarrow> unit result" where
  "require b = (if b then Inr () else Inl EncodeError)"

definition check_range :: "arg_field \<Rightarrow> pyval \<Rightarrow> unit result" where
  "check_range f eng = (case fa_range f of None \<Rightarrow> Inr ()
     | Some (lo, hi) \<Rightarrow> bind_result (value_float lo) (\<lambda>l. bind_result (value_float hi) (\<lambda>h. bind_result (value_float eng) (\<lambda>x.
         require (fle l x \<and> fle x h)))))"

definition allowed_mask :: "(int \<times> bool) list \<Rightarrow> int" where
  "allowed_mask bits = fold (\<lambda>(b, reserved) m. if reserved then m else m OR 2 ^ nat b) bits 0"

definition check_labels :: "arg_field \<Rightarrow> pyval \<Rightarrow> unit result" where
  "check_labels f raw =
     (if cal_type f = ''enum'' \<and> fa_enum f \<noteq> [] then bind_result (value_int raw) (\<lambda>k. require (k \<in> set (fa_enum f)))
      else if cal_type f = ''bitfield'' \<and> fa_bits f \<noteq> []
      then bind_result (value_int raw) (\<lambda>k. require (k AND NOT (allowed_mask (fa_bits f)) = 0))
      else Inr ())"

definition check_raw :: "arg_field \<Rightarrow> pyval \<Rightarrow> unit result" where
  "check_raw f raw =
     (if is_float f then Inr ()
      else bind_result (value_int raw) (\<lambda>k. bind_result (case int_bounds (field_type f) of (lo, hi) \<Rightarrow> require (lo \<le> k \<and> k \<le> hi)) (\<lambda>_.
        case fa_raw_range f of None \<Rightarrow> Inr ()
        | Some (lo, hi) \<Rightarrow> bind_result (value_float lo) (\<lambda>l. bind_result (value_float hi) (\<lambda>h.
            require (fle l (of_pyint k) \<and> fle (of_pyint k) h))))))"

definition validate_field :: "arg_field \<Rightarrow> pyval \<Rightarrow> pyval \<Rightarrow> unit result" where
  "validate_field f eng raw =
     bind_result (check_range f eng) (\<lambda>_. bind_result (check_labels f raw) (\<lambda>_. check_raw f raw))"

section \<open>Octets of a field\<close>

text \<open>\<open>struct.pack('>d', x)\<close> and its inverse: the fields of binary64.\<close>

definition f64_bits :: "bool \<Rightarrow> rat \<Rightarrow> int" where
  "f64_bits s m =
     (let (e, r) = round_mag 53 (-1022) m
      in (if s then 2 ^ 63 else 0) + (e + 1022) * 2 ^ 52 + r)"

definition pack_d :: "py_float \<Rightarrow> bytes" where
  "pack_d x = be_bytes 8 (case x of Fin s m \<Rightarrow> f64_bits s m
     | Infinite s \<Rightarrow> (if s then 2 ^ 63 else 0) + 2047 * 2 ^ 52 | NaN \<Rightarrow> 2047 * 2 ^ 52 + 2 ^ 51)"

definition unpack_d :: "bytes \<Rightarrow> py_float" where
  "unpack_d bs =
     (let n = be_int bs; s = (2 ^ 63 \<le> n); e = n div 2 ^ 52 mod 2048; f = n mod 2 ^ 52
      in if e = 2047 then (if f = 0 then Infinite s else NaN)
         else Fin s (if e = 0 then of_int f * pow2 (-1074) else of_int (2 ^ 52 + f) * pow2 (e - 1075)))"

definition big_endian :: "arg_field \<Rightarrow> bool" where
  "big_endian f \<longleftrightarrow> lower (fa_endian f) \<in> {''big'', ''be'', []}"

definition ordered :: "arg_field \<Rightarrow> bytes \<Rightarrow> bytes" where
  "ordered f bs = (if big_endian f then bs else rev bs)"

definition pack_field :: "arg_field \<Rightarrow> pyval \<Rightarrow> bytes result" where
  "pack_field f raw =
     (let t = field_type f in
      if t \<in> set VARIABLE_FIELD_TYPES
      then (case raw of VBytes b \<Rightarrow> Inr b | VInt k \<Rightarrow> bytes_fromhex (str_int k) | VFloat x \<Rightarrow> bytes_fromhex (float_repr x) | _ \<Rightarrow> Inl ValueError)
      else if t = ''float32'' then bind_result (bind_result (value_float raw) pack_f) (\<lambda>b. Inr (ordered f b))
      else if t = ''float64'' then bind_result (value_float raw) (\<lambda>x. Inr (ordered f (pack_d x)))
      else (case INT_FMT t of None \<Rightarrow> Inl EncodeError
        | Some fmt \<Rightarrow> bind_result (bind_result (value_int raw) (pack_format fmt)) (\<lambda>b. Inr (ordered f b))))"

definition unpack_int :: "hk_format \<Rightarrow> bytes \<Rightarrow> int" where
  "unpack_int fmt bs = (let n = be_int bs; w = 256 ^ format_size fmt in if format_signed fmt \<and> w div 2 \<le> n then n - w else n)"

definition unpack_field :: "arg_field \<Rightarrow> bytes \<Rightarrow> pyval result" where
  "unpack_field f bs =
     (let t = field_type f; b = ordered f bs in
      if t = ''float32'' then Inr (VFloat (unpack_f b))
      else if t = ''float64'' then Inr (VFloat (unpack_d b))
      else (case INT_FMT t of None \<Rightarrow> Inl KeyError | Some fmt \<Rightarrow> Inr (VInt (unpack_int fmt b))))"

section \<open>Encoding\<close>

definition field_default :: "arg_field \<Rightarrow> pyval" where
  "field_default f = (case fa_default f of Some v \<Rightarrow> v
     | None \<Rightarrow> (case fa_range f of Some (lo, _) \<Rightarrow> lo | None \<Rightarrow> (case fa_enum f of k # _ \<Rightarrow> VInt k | [] \<Rightarrow> VInt 0)))"

definition encode_field :: "bool \<Rightarrow> arg_field \<Rightarrow> pyval \<Rightarrow> bytes result" where
  "encode_field checked f eng =
     bind_result (eng_to_raw f eng) (\<lambda>raw. bind_result (if checked then validate_field f eng raw else Inr ()) (\<lambda>_. pack_field f raw))"

text \<open>Each field takes its argument out of the dictionary; what is left at the end is unknown.\<close>

fun encode_fields :: "bool \<Rightarrow> arg_field list \<Rightarrow> command \<Rightarrow> bytes result" where
  "encode_fields checked [] args = (if args = [] then Inr [] else Inl EncodeError)"
| "encode_fields checked (f # fs) args =
     bind_result (encode_field checked f (or_else (map_of args (fa_name f)) (field_default f))) (\<lambda>b.
     bind_result (encode_fields checked fs (AList.delete (fa_name f) args)) (\<lambda>bs. Inr (b @ bs)))"

definition encode_args :: "bool \<Rightarrow> tc_entry \<Rightarrow> command \<Rightarrow> bytes result" where
  "encode_args checked c args = encode_fields checked (or_else (ce_fields c) []) args"

definition is_function :: "tc_entry \<Rightarrow> bool" where
  "is_function c \<longleftrightarrow> ce_service c = 8 \<and> ce_subtype c = 1 \<and> ce_func c \<noteq> None"

definition func_octet :: "tc_entry \<Rightarrow> byte" where
  "func_octet c = word_of_int (the (ce_func c))"

definition encode :: "tc_entry list \<Rightarrow> bool \<Rightarrow> command_ref \<Rightarrow> command \<Rightarrow> bytes result" where
  "encode cs checked r args =
     bind_result (resolve_command cs r) (\<lambda>c. bind_result (encode_args checked c args) (\<lambda>body.
       Inr (if is_function c then func_octet c # body else body)))"

section \<open>Decoding\<close>

text \<open>A repeated name overwrites its first value; a field of variable length takes the rest.\<close>

fun decode_fields :: "libm \<Rightarrow> arg_field list \<Rightarrow> bytes \<Rightarrow> command \<Rightarrow> command result" where
  "decode_fields lm [] bs out = (if bs = [] then Inr out else Inl DecodeError)"
| "decode_fields lm (f # fs) bs out =
     (if field_type f \<in> set VARIABLE_FIELD_TYPES
      then if fs \<noteq> [] then Inl DecodeError else Inr (AList.update (fa_name f) (VStr (bytes_hex bs)) out)
      else (case field_width (field_type f) of
          None \<Rightarrow> Inl DecodeError
        | Some w \<Rightarrow> if length bs < w then Inl DecodeError
            else bind_result (unpack_field f (take w bs)) (\<lambda>raw. bind_result (raw_to_eng lm f raw) (\<lambda>v.
              decode_fields lm fs (drop w bs) (AList.update (fa_name f) v out)))))"

definition decode_args :: "libm \<Rightarrow> tc_entry \<Rightarrow> bytes \<Rightarrow> command result" where
  "decode_args lm c bs = decode_fields lm (or_else (ce_fields c) []) bs []"

definition named :: "tc_entry \<Rightarrow> command result \<Rightarrow> (string \<times> command) result" where
  "named c r = bind_result r (\<lambda>args. Inr (ce_name c, args))"

definition decode_named :: "libm \<Rightarrow> tc_entry list \<Rightarrow> string \<Rightarrow> bytes \<Rightarrow> (string \<times> command) result" where
  "decode_named lm cs name bs =
     bind_result (resolve_command cs (ByName name)) (\<lambda>c.
       if is_function c then (case bs of [] \<Rightarrow> Inl DecodeError
         | b # body \<Rightarrow> if b \<noteq> func_octet c then Inl DecodeError else named c (decode_args lm c body))
       else named c (decode_args lm c bs))"

definition decode :: "libm \<Rightarrow> tc_entry list \<Rightarrow> int \<Rightarrow> int \<Rightarrow> bytes \<Rightarrow> (string \<times> command) result" where
  "decode lm cs service subtype bs =
     (if service = 8 \<and> subtype = 1
      then (case bs of [] \<Rightarrow> Inl DecodeError
        | b # body \<Rightarrow> (case by_func cs 8 1 (Some (uint b)) of None \<Rightarrow> Inl DecodeError | Some c \<Rightarrow> named c (decode_args lm c body)))
      else (case by_func cs service subtype None of None \<Rightarrow> Inl DecodeError | Some c \<Rightarrow> named c (decode_args lm c bs)))"

section \<open>Expected lengths\<close>

record length_info =
  li_expected :: "int option"
  li_variable :: bool
  li_min :: int
  li_note :: pytext

definition type_text :: "arg_field \<Rightarrow> string" where
  "type_text f = or_else (fa_type f) ''None''"

definition declared_width :: "arg_field \<Rightarrow> nat option" where
  "declared_width f = field_width (or_else (fa_type f) [])"

definition declared_variable :: "arg_field \<Rightarrow> bool" where
  "declared_variable f \<longleftrightarrow> lower (strip (or_else (fa_type f) [])) \<in> set VARIABLE_FIELD_TYPES"

definition join_with :: "string \<Rightarrow> string list \<Rightarrow> string" where
  "join_with sep xs = (case xs of [] \<Rightarrow> [] | x # xs \<Rightarrow> x @ concat (map (\<lambda>y. sep @ y) xs))"

definition expected_data_bytes :: "tc_entry \<Rightarrow> length_info" where
  "expected_data_bytes c =
     (let prefix = (if ce_service c = 8 \<and> ce_subtype c = 1 then 1 else 0) in
      case ce_fields c of
        None \<Rightarrow> \<lparr>li_expected = None, li_variable = False, li_min = prefix,
          li_note = py (''catalogue entry has no '' @ [CHR 0x27] @ ''fields'' @ [CHR 0x27] @ '' key '') @ [0x2014] @ py '' length unknown'' @
            (if prefix = 1 then py ''; at least the 1 func_id byte'' else [])\<rparr>
      | Some fs \<Rightarrow>
          let total = prefix + (\<Sum>f\<leftarrow>fs. case declared_width f of Some w \<Rightarrow> int w | None \<Rightarrow> 0);
              unknown = map type_text (filter (\<lambda>f. declared_width f = None \<and> \<not> declared_variable f) fs) in
          if unknown \<noteq> []
          then \<lparr>li_expected = None, li_variable = False, li_min = total,
            li_note = py (''unknown field type(s): '' @ join_with '', '' (sort (remdups unknown)))\<rparr>
          else if \<exists>f\<in>set fs. declared_variable f
          then \<lparr>li_expected = None, li_variable = True, li_min = total,
            li_note = py ''variable '' @ [0x2014] @ py ('' '' @ str_int total @ '' fixed byte(s) + payload'')\<rparr>
          else \<lparr>li_expected = Some total, li_variable = False, li_min = total, li_note = []\<rparr>)"

end
