(* ===== verification/Command_Rules.thy ===== *)
theory Command_Rules
  imports Command_Codec
begin

text \<open>
  The codec of the telecommand catalogue: decoding inverts encoding, encoding inverts decoding, the encoded
  length is the one the command builder announces, and no value outside its declared range is encoded.
\<close>

section \<open>Fields\<close>

lemma round_of_int: "\<bar>k\<bar> < 2 ^ 53 \<Longrightarrow> round_float (of_pyint k) = Inr k"
proof (cases "0 \<le> k")
  case True
  then show "\<bar>k\<bar> < 2 ^ 53 \<Longrightarrow> ?thesis" by (simp add: of_pyint_exact round_float_def fin_val_def)
next
  case False
  have r: "round_even (- of_int j :: rat) = - j" for j using round_even_int [of "- j"] by simp
  show "\<bar>k\<bar> < 2 ^ 53 \<Longrightarrow> ?thesis"
    using False round64_int [of "- k" True] r [of "- k"] by (simp add: of_pyint_def fl_def round_float_def fin_val_def)
qed

lemma fmt_cases:
  assumes "INT_FMT t = Some fmt"
  shows "take 5 t \<noteq> ''float'' \<and> t \<notin> set VARIABLE_FIELD_TYPES \<and> field_width t = Some (format_size fmt) \<and> lower t = t \<and> strip t = t"
proof -
  have "t \<in> {''uint8'', ''int8'', ''uint16'', ''int16'', ''uint32'', ''int32''}"
    using assms by (auto simp: INT_FMT_def split: if_splits)
  moreover have "\<forall>t\<in>set [''uint8'', ''int8'', ''uint16'', ''int16'', ''uint32'', ''int32''].
      take 5 t \<noteq> ''float'' \<and> t \<notin> set VARIABLE_FIELD_TYPES \<and> field_width t = map_option format_size (INT_FMT t) \<and> lower t = t \<and> strip t = t"
    by code_simp
  ultimately show ?thesis using assms by auto
qed

lemma signed_mod: "- w \<le> k \<Longrightarrow> k < w \<Longrightarrow> k mod w = (if k < 0 then k + w else k)" for k w :: int
proof (cases "k < 0")
  assume h: "- w \<le> k" "k < w" "k < 0"
  then have "(k + w) mod w = k + w" by (intro mod_pos_pos_trivial) linarith+
  then show ?thesis using h by simp
qed (simp add: mod_pos_pos_trivial)

lemma pack_format_read:
  assumes "pack_format fmt k = Inr b"
  shows "length b = format_size fmt \<and> unpack_int fmt b = k"
proof -
  define w where "w = (256 :: int) ^ format_size fmt"
  have w: "0 < w" "w div 2 * 2 = w" by (cases fmt; simp add: w_def)+
  show ?thesis
  proof (cases "format_signed fmt")
    case True
    then have k: "- (w div 2) \<le> k" "k < w div 2" and b: "b = be_bytes (format_size fmt) (k mod w)"
      using assms by (auto simp: pack_format_def w_def Let_def split: if_splits)
    have m: "k mod w = (if k < 0 then k + w else k)" using signed_mod [of w k] k w by linarith
    have "be_int b = k mod w" by (simp add: b be_int_be_bytes w_def [symmetric])
    then show ?thesis using True b k w m by (simp add: unpack_int_def w_def [symmetric] Let_def)
  next
    case False
    then show ?thesis
      using assms by (auto simp: pack_format_def unpack_int_def Let_def dest: pack_be_roundtrip)
  qed
qed

lemma unpack_pack_format: "length b = format_size fmt \<Longrightarrow> pack_format fmt (unpack_int fmt b) = Inr b"
proof -
  assume l: "length b = format_size fmt"
  have n: "0 \<le> be_int b" "be_int b < 256 ^ format_size fmt" "be_bytes (format_size fmt) (be_int b) = b"
    using be_int_bounds [of b] be_bytes_be_int [of b] l by simp_all
  define w where "w = (256 :: int) ^ format_size fmt"
  have w: "0 < w" "w div 2 * 2 = w" by (cases fmt; simp add: w_def)+
  show ?thesis
  proof (cases "format_signed fmt")
    case True
    let ?k = "unpack_int fmt b"
    have k: "?k = (if w div 2 \<le> be_int b then be_int b - w else be_int b)" using True by (simp add: unpack_int_def w_def Let_def)
    have n': "0 \<le> be_int b" "be_int b < w" using n(1,2) by (simp_all add: w_def)
    have "- (w div 2) \<le> ?k \<and> ?k < w div 2 \<and> ?k mod w = be_int b"
    proof (cases "w div 2 \<le> be_int b")
      case True
      then have k': "?k = be_int b - w" using k by simp
      then have "- w \<le> ?k" "?k < w" "?k < 0" using n' w(1) by linarith+
      then have "?k mod w = ?k + w" using signed_mod [of w ?k] by simp
      moreover have "- (w div 2) \<le> ?k" "?k < w div 2" using k' True w n' by linarith+
      ultimately show ?thesis using k' by linarith
    next
      case False
      then have k': "?k = be_int b" using k by simp
      have "- (w div 2) \<le> ?k" "?k < w div 2" using k' False w n' by linarith+
      moreover have "?k mod w = be_int b" using k' n' by (simp add: mod_pos_pos_trivial)
      ultimately show ?thesis by blast
    qed
    then show ?thesis using True n by (simp add: pack_format_def w_def [symmetric] Let_def)
  next
    case False
    then show ?thesis using n by (simp add: pack_format_def unpack_int_def Let_def)
  qed
qed

lemma size_small: "256 ^ format_size fmt \<le> (2 ^ 32 :: int)"
  by (cases fmt) simp_all

lemma unpack_small: "length b = format_size fmt \<Longrightarrow> \<bar>unpack_int fmt b\<bar> < 2 ^ 53"
  using be_int_bounds [of b] size_small [of fmt] by (auto simp: unpack_int_def Let_def)

text \<open>The fields with an exact inverse: integers without a calibration, and \<open>float32\<close>.\<close>

definition plain_int :: "arg_field \<Rightarrow> bool" where
  "plain_int f \<longleftrightarrow> INT_FMT (field_type f) \<noteq> None \<and> cal_type f \<noteq> ''linear'' \<and> cal_type f \<noteq> ''polynomial''"

definition plain :: "arg_field \<Rightarrow> bool" where
  "plain f \<longleftrightarrow> plain_int f \<or> field_type f = ''float32''"

lemma ordered_ordered [simp]: "ordered f (ordered f b) = b" "length (ordered f b) = length b"
  by (simp_all add: ordered_def)

lemma float32_type: "field_type f = ''float32'' \<Longrightarrow> is_float f \<and> field_type f \<notin> set VARIABLE_FIELD_TYPES \<and> field_width (field_type f) = Some 4"
  by (simp add: is_float_def) (code_simp)

lemma int_type: "INT_FMT (field_type f) = Some fmt \<Longrightarrow> \<not> is_float f \<and> field_type f \<notin> set VARIABLE_FIELD_TYPES \<and>
    field_width (field_type f) = Some (format_size fmt) \<and> field_type f \<noteq> ''float32'' \<and> field_type f \<noteq> ''float64''"
  using fmt_cases [of "field_type f" fmt] by (auto simp: is_float_def)

lemma value_int_VInt [simp]: "value_int (VInt k) = Inr k" "value_float (VInt k) = Inr (of_pyint k)" "value_float (VFloat x) = Inr x"
  by (simp_all add: value_int_def value_float_def val_int_def val_float_def)

lemma field_reencoded:
  assumes "plain f" "field_width (field_type f) = Some w" "length b = w" "unpack_field f b = Inr raw" "raw_to_eng lm f raw = Inr v" "v \<noteq> VFloat NaN"
  shows "encode_field False f v = Inr b"
proof (cases "field_type f = ''float32''")
  case True
  then have f: "is_float f" "field_type f \<notin> set VARIABLE_FIELD_TYPES" "length b = 4"
    using float32_type [of f] assms(2,3) by auto
  then have v: "v = VFloat (unpack_f (ordered f b))" using assms(4,5) True by (auto simp: unpack_field_def raw_to_eng_def Let_def)
  have "pack_f (unpack_f (ordered f b)) = Inr (ordered f b)"
    using assms(6) f v by (intro pack_unpack_f) auto
  then show ?thesis
    using f True v by (simp add: encode_field_def eng_to_raw_def pack_field_def)
next
  case False
  then obtain fmt where fmt: "INT_FMT (field_type f) = Some fmt" "cal_type f \<noteq> ''linear''" "cal_type f \<noteq> ''polynomial''"
    using assms(1) by (auto simp: plain_def plain_int_def)
  note t = int_type [OF fmt(1)]
  have l: "length (ordered f b) = format_size fmt" using t assms(2,3) by simp
  let ?k = "unpack_int fmt (ordered f b)"
  have v: "v = VInt ?k" using assms(4,5) fmt t by (auto simp: unpack_field_def raw_to_eng_def Let_def)
  show ?thesis
    using t fmt round_of_int [OF unpack_small [OF l]] unpack_pack_format [OF l]
    by (simp add: v encode_field_def eng_to_raw_def rounded_def pack_field_def Let_def)
qed

lemma field_received:
  assumes "plain_int f" "encode_field checked f (VInt k) = Inr b" "\<bar>k\<bar> < 2 ^ 53"
  shows "field_type f \<notin> set VARIABLE_FIELD_TYPES \<and> field_width (field_type f) = Some (length b) \<and>
    unpack_field f b = Inr (VInt k) \<and> raw_to_eng lm f (VInt k) = Inr (VInt k)"
proof -
  obtain fmt where fmt: "INT_FMT (field_type f) = Some fmt" "cal_type f \<noteq> ''linear''" "cal_type f \<noteq> ''polynomial''"
    using assms(1) by (auto simp: plain_int_def)
  note t = int_type [OF fmt(1)]
  have raw: "eng_to_raw f (VInt k) = Inr (VInt k)"
    using t fmt round_of_int [OF assms(3)] by (simp add: eng_to_raw_def rounded_def Let_def)
  obtain c where c: "pack_format fmt k = Inr c" "b = ordered f c"
    using assms(2) raw t fmt by (auto simp: encode_field_def pack_field_def Let_def bind_result_Inr_iff)
  then show ?thesis
    using t fmt pack_format_read [OF c(1)] by (simp add: unpack_field_def raw_to_eng_def Let_def)
qed

section \<open>Sequences of fields\<close>

definition distinct_names :: "arg_field list \<Rightarrow> bool" where
  "distinct_names fs \<longleftrightarrow> distinct (map fa_name fs)"

lemma update_new: "n \<notin> fst ` set al \<Longrightarrow> AList.update n v al = al @ [(n, v)]"
  by (induction al) auto

lemma delete_absent: "n \<notin> fst ` set al \<Longrightarrow> AList.delete n al = al"
  by (induction al) (auto simp: AList.delete_eq)

text \<open>What is decoded: one value for each field, in their order; encoding these values gives the octets back.\<close>

lemma decoded_reencodes:
  assumes "decode_fields lm fs bs out = Inr res" "distinct_names fs" "\<forall>f\<in>set fs. plain f" "fa_name ` set fs \<inter> fst ` set out = {}"
    and "\<forall>v\<in>snd ` set res. v \<noteq> VFloat NaN"
  shows "\<exists>vs. res = out @ vs \<and> map fst vs = map fa_name fs \<and> encode_fields False fs vs = Inr bs"
  using assms
proof (induction fs arbitrary: bs out)
  case Nil
  then show ?case by (auto split: if_splits)
next
  case (Cons f fs)
  have var: "field_type f \<notin> set VARIABLE_FIELD_TYPES"
    using Cons.prems(3) float32_type [of f] int_type [of f] by (auto simp: plain_def plain_int_def)
  then obtain w raw v where w: "field_width (field_type f) = Some w" "w \<le> length bs"
    and raw: "unpack_field f (take w bs) = Inr raw" "raw_to_eng lm f raw = Inr v"
    and rest: "decode_fields lm fs (drop w bs) (AList.update (fa_name f) v out) = Inr res"
    using Cons.prems(1) by (auto simp: bind_result_Inr_iff not_less split: option.splits if_splits)
  have upd: "AList.update (fa_name f) v out = out @ [(fa_name f, v)]"
    using Cons.prems(4) by (intro update_new) auto
  have "fa_name ` set fs \<inter> fst ` set (out @ [(fa_name f, v)]) = {}"
    using Cons.prems(2,4) by (auto simp: distinct_names_def)
  then obtain vs where vs: "res = (out @ [(fa_name f, v)]) @ vs" "map fst vs = map fa_name fs" "encode_fields False fs vs = Inr (drop w bs)"
    using Cons.IH [of "drop w bs" "out @ [(fa_name f, v)]"] rest Cons.prems(2,3,5) by (auto simp: upd distinct_names_def)
  have "v \<noteq> VFloat NaN" using Cons.prems(5) vs(1) by auto
  then have f: "encode_field False f v = Inr (take w bs)"
    using Cons.prems(3) w raw by (intro field_reencoded [where w = w]) auto
  have "fa_name f \<notin> fst ` set vs"
    using Cons.prems(2) vs(2) by (metis distinct.simps(2) distinct_names_def list.set_map list.simps(9))
  then have "encode_fields False (f # fs) ((fa_name f, v) # vs) = Inr bs"
    using f vs(3) by (simp add: or_else_def delete_absent)
  then show ?case using vs by (intro exI [of _ "(fa_name f, v) # vs"]) simp
qed

text \<open>What was encoded is decoded: the arguments, in the order of the fields.\<close>

lemma encoded_decodes:
  assumes "encode_fields checked fs args = Inr bs" "distinct_names fs" "\<forall>f\<in>set fs. plain_int f" "fa_name ` set fs \<inter> fst ` set out = {}"
    and "\<forall>f\<in>set fs. \<exists>k. map_of args (fa_name f) = Some (VInt k) \<and> \<bar>k\<bar> < 2 ^ 53"
  shows "decode_fields lm fs bs out = Inr (out @ map (\<lambda>f. (fa_name f, the (map_of args (fa_name f)))) fs)"
  using assms
proof (induction fs arbitrary: bs out args)
  case Nil
  then show ?case by (simp split: if_splits)
next
  case (Cons f fs)
  obtain k where k: "map_of args (fa_name f) = Some (VInt k)" "\<bar>k\<bar> < 2 ^ 53" using Cons.prems(5) by auto
  obtain b cs where b: "encode_field checked f (VInt k) = Inr b" "encode_fields checked fs (AList.delete (fa_name f) args) = Inr cs" "bs = b @ cs"
    using Cons.prems(1) k by (auto simp: bind_result_Inr_iff or_else_def)
  have f: "field_type f \<notin> set VARIABLE_FIELD_TYPES" "field_width (field_type f) = Some (length b)"
    "unpack_field f b = Inr (VInt k)" "raw_to_eng lm f (VInt k) = Inr (VInt k)"
    using field_received [OF _ b(1) k(2)] Cons.prems(3) by auto
  have upd: "AList.update (fa_name f) (VInt k) out = out @ [(fa_name f, VInt k)]"
    using Cons.prems(4) by (intro update_new) auto
  have others: "map_of (AList.delete (fa_name f) args) (fa_name g) = map_of args (fa_name g)" if "g \<in> set fs" for g
    using Cons.prems(2) that by (auto simp: AList.delete_conv' distinct_names_def image_iff)
  have "decode_fields lm fs cs (out @ [(fa_name f, VInt k)]) =
      Inr ((out @ [(fa_name f, VInt k)]) @ map (\<lambda>g. (fa_name g, the (map_of (AList.delete (fa_name f) args) (fa_name g)))) fs)"
    using Cons.prems(2,3,4,5) others by (intro Cons.IH [OF b(2)]) (auto simp: distinct_names_def)
  also have "map (\<lambda>g. (fa_name g, the (map_of (AList.delete (fa_name f) args) (fa_name g)))) fs = map (\<lambda>g. (fa_name g, the (map_of args (fa_name g)))) fs"
    using others by simp
  finally show ?case using f b(3) k by (simp add: upd)
qed

section \<open>Commands\<close>

text \<open>The values a field of an integer type can carry, and what their encoding needs.\<close>

definition fits :: "arg_field \<Rightarrow> int \<Rightarrow> bool" where
  "fits f k \<longleftrightarrow> (case int_bounds (field_type f) of (lo, hi) \<Rightarrow> lo \<le> k \<and> k \<le> hi)"

lemma fits_format:
  assumes "INT_FMT t = Some fmt" "case int_bounds t of (lo, hi) \<Rightarrow> lo \<le> k \<and> k \<le> hi"
  shows "\<bar>k\<bar> < 2 ^ 53 \<and> (\<exists>b. pack_format fmt k = Inr b)"
proof -
  have t: "(t, fmt) \<in> {(''uint8'', Fmt_B), (''int8'', Fmt_b), (''uint16'', Fmt_H), (''int16'', Fmt_h), (''uint32'', Fmt_I), (''int32'', Fmt_i)}"
    using assms(1) by (auto simp: INT_FMT_def split: if_splits)
  have "int_bounds ''uint8'' = (0, 255)" "int_bounds ''int8'' = (- 128, 127)" "int_bounds ''uint16'' = (0, 65535)"
    "int_bounds ''int16'' = (- 32768, 32767)" "int_bounds ''uint32'' = (0, 4294967295)"
    "int_bounds ''int32'' = (- 2147483648, 2147483647)" by code_simp+
  then show ?thesis
    using t assms(2) by (elim insertE emptyE) (simp_all add: pack_format_def format_signed_def pack_be_def abs_less_iff)
qed

lemma field_sent:
  assumes "plain_int f" "fits f k"
  shows "\<bar>k\<bar> < 2 ^ 53" "\<exists>b. encode_field False f (VInt k) = Inr b"
proof -
  obtain fmt where fmt: "INT_FMT (field_type f) = Some fmt" "cal_type f \<noteq> ''linear''" "cal_type f \<noteq> ''polynomial''"
    using assms(1) by (auto simp: plain_int_def)
  note t = int_type [OF fmt(1)]
  show k: "\<bar>k\<bar> < 2 ^ 53" using fits_format [OF fmt(1)] assms(2) by (simp add: fits_def)
  obtain b where "pack_format fmt k = Inr b" using fits_format [OF fmt(1) assms(2) [unfolded fits_def]] by blast
  then show "\<exists>b. encode_field False f (VInt k) = Inr b"
    using t fmt round_of_int [OF k] by (simp add: encode_field_def eng_to_raw_def rounded_def pack_field_def Let_def)
qed

lemma fields_sent:
  assumes "\<forall>f\<in>set fs. plain_int f \<and> (\<exists>k. map_of args (fa_name f) = Some (VInt k) \<and> fits f k)"
    "fst ` set args \<subseteq> fa_name ` set fs" "distinct (map fa_name fs)"
  shows "\<exists>bs. encode_fields False fs args = Inr bs"
  using assms
proof (induction fs arbitrary: args)
  case Nil
  then show ?case by simp
next
  case (Cons f fs)
  let ?args = "AList.delete (fa_name f) args"
  obtain k b where k: "map_of args (fa_name f) = Some (VInt k)" "encode_field False f (VInt k) = Inr b"
    using Cons.prems(1) field_sent(2) by (metis list.set_intros(1))
  have others: "map_of ?args (fa_name g) = map_of args (fa_name g)" if "g \<in> set fs" for g
    using Cons.prems(3) that by (auto simp: AList.delete_conv' image_iff)
  have "fst ` set ?args \<subseteq> fa_name ` set fs" using Cons.prems(2) by (auto simp: AList.delete_eq)
  then obtain bs where "encode_fields False fs ?args = Inr bs"
    using Cons.IH [of ?args] Cons.prems(1,3) others by auto
  then show ?case using k by (simp add: or_else_def)
qed

lemma checked_same: "encode_fields True fs args = Inr bs \<Longrightarrow> encode_fields False fs args = Inr bs"
  by (induction fs arbitrary: args bs) (auto simp: bind_result_Inr_iff encode_field_def)

text \<open>
  C14: A command is decoded as it was sent. For a function command that the catalogue lists first under its
  function code 0..255, whose fields have distinct names and are integers without a linear or polynomial
  calibration, and for arguments that give each field, and nothing else, an integer within the bounds of its
  type, encoding without validation succeeds, encoding with validation gives the same octets if it accepts
  the values, and the command is recognised by its first octet and decoded to its name and exactly these
  arguments, whatever the widths, signs and byte orders.
\<close>

theorem command_roundtrip:
  assumes "resolve_command cs r = Inr c" "is_function c" "by_func cs 8 1 (Some k) = Some c" "0 \<le> k" "k < 256"
    and "ce_fields c = Some fs" "distinct (map fa_name fs)"
    and "\<forall>f\<in>set fs. plain_int f \<and> (\<exists>k. map_of args (fa_name f) = Some (VInt k) \<and> fits f k)"
    and "fst ` set args \<subseteq> fa_name ` set fs"
  shows "\<exists>data. encode cs False r args = Inr data \<and> (\<forall>d. encode cs True r args = Inr d \<longrightarrow> d = data) \<and>
    decode lm cs 8 1 data = Inr (ce_name c, map (\<lambda>f. (fa_name f, the (map_of args (fa_name f)))) fs)"
proof -
  obtain body where body: "encode_fields False fs args = Inr body" using fields_sent [OF assms(8,9,7)] by blast
  have sent: "encode cs False r args = Inr (func_octet c # body)"
    using assms(1,2,6) body by (simp add: encode_def encode_args_def or_else_def)
  have same: "d = func_octet c # body" if "encode cs True r args = Inr d" for d
    using that assms(1,2,6) checked_same body
    by (fastforce simp: encode_def encode_args_def or_else_def bind_result_Inr_iff)
  have func: "ce_func c = Some k" using assms(3) by (auto simp: by_func_def find_Some_iff)
  have "uint (func_octet c) = k" using func assms(4,5) by (simp add: func_octet_def uint_word_of_int_byte)
  moreover have "\<forall>f\<in>set fs. \<exists>k. map_of args (fa_name f) = Some (VInt k) \<and> \<bar>k\<bar> < 2 ^ 53"
    using assms(8) field_sent(1) by blast
  then have "decode_fields lm fs body [] = Inr ([] @ map (\<lambda>f. (fa_name f, the (map_of args (fa_name f)))) fs)"
    using assms(7,8) by (intro encoded_decodes [OF body]) (auto simp: distinct_names_def)
  ultimately have "decode lm cs 8 1 (func_octet c # body) =
      Inr (ce_name c, map (\<lambda>f. (fa_name f, the (map_of args (fa_name f)))) fs)"
    using assms(3,6) by (simp add: decode_def decode_args_def named_def or_else_def)
  then show ?thesis using sent same by blast
qed

text \<open>
  A received command is encoded again to the same octets. When a data field is decoded as a function
  command of the catalogue with fields that are \<open>float32\<close> or integers without a calibration, encoding the
  values that were read gives the octets back, unless one of them is no number.
\<close>

theorem decoded_command_reencodes:
  assumes "decode lm cs 8 1 data = Inr (ce_name c, args)" "name_index cs (ce_name c) = Some c" "by_func cs 8 1 (Some (uint (hd data))) = Some c"
    and "ce_fields c = Some fs" "distinct (map fa_name fs)" "\<forall>f\<in>set fs. plain f" "\<forall>v\<in>snd ` set args. v \<noteq> VFloat NaN"
  shows "encode cs False (ByName (ce_name c)) args = Inr data"
proof -
  obtain b body where data: "data = b # body" and args: "decode_fields lm fs body [] = Inr args"
    using assms(1,3,4) by (auto simp: decode_def decode_args_def named_def or_else_def bind_result_Inr_iff split: list.splits)
  have c: "ce_service c = 8" "ce_subtype c = 1" "ce_func c = Some (uint b)"
    using assms(3) data by (auto simp: by_func_def find_Some_iff)
  have "encode_fields False fs args = Inr body"
    using decoded_reencodes [OF args] assms(5-7) by (auto simp: distinct_names_def)
  then show ?thesis
    using assms(2,4) c data by (simp add: encode_def resolve_command_def encode_args_def or_else_def is_function_def func_octet_def)
qed

section \<open>Lengths\<close>

lemma lower_strip: "lower (strip t) = strip (lower t)"
proof -
  have sp: "is_space (lower_char c) = is_space c" for c
    by (auto simp: is_space_def lower_char_def)
  have "dropWhile is_space (map lower_char xs) = map lower_char (dropWhile is_space xs)" for xs
    by (simp add: dropWhile_map comp_def sp)
  then show ?thesis by (simp add: lower_def strip_def rev_map)
qed

lemma float32_length: "pack_f x = Inr b \<Longrightarrow> length b = 4"
  by (auto simp: pack_f_def Let_def split: py_float.splits if_splits prod.splits)

lemma pack_length:
  assumes "pack_field f raw = Inr b" "declared_width f = Some w"
  shows "length b = w"
proof -
  have empty: "field_width [] = None" by code_simp
  obtain t where t: "fa_type f = Some t" using assms(2) by (cases "fa_type f") (auto simp: declared_width_def or_else_def empty)
  have low: "field_type f = lower t" using t by (simp add: field_type_def or_else_def)
  have w: "FIELD_WIDTHS (strip (lower t)) = Some w" "strip (lower t) \<notin> set VARIABLE_FIELD_TYPES"
    using assms(2) t by (auto simp: declared_width_def field_width_def or_else_def Let_def lower_strip split: if_splits)
  have var: "field_type f \<notin> set VARIABLE_FIELD_TYPES"
  proof
    assume "field_type f \<in> set VARIABLE_FIELD_TYPES"
    moreover have "\<forall>n\<in>set VARIABLE_FIELD_TYPES. strip n = n" by code_simp
    ultimately show False using w low by metis
  qed
  have widths: "strip ''float32'' = ''float32''" "strip ''float64'' = ''float64''" "FIELD_WIDTHS ''float32'' = Some 4" "FIELD_WIDTHS ''float64'' = Some 8"
    by code_simp+
  consider "field_type f = ''float32''" | "field_type f = ''float64''" | fmt where "INT_FMT (field_type f) = Some fmt" "field_type f \<noteq> ''float32''" "field_type f \<noteq> ''float64''"
    using assms(1) var by (cases "INT_FMT (field_type f)") (auto simp: pack_field_def Let_def split: if_splits)
  then show ?thesis
  proof cases
    case 1
    then show ?thesis using assms(1) var w low widths
      by (auto simp: pack_field_def bind_result_Inr_iff dest!: float32_length)
  next
    case 2
    then show ?thesis using assms(1) var w low widths
      by (auto simp: pack_field_def bind_result_Inr_iff pack_d_def)
  next
    case 3
    have "field_width (field_type f) = Some w" using fmt_cases [OF 3(1)] w low by (simp add: field_width_def Let_def)
    then show ?thesis using 3 assms(1) var fmt_cases [OF 3(1)]
      by (auto simp: pack_field_def bind_result_Inr_iff dest!: pack_format_read)
  qed
qed

lemma fields_length:
  assumes "encode_fields checked fs args = Inr bs" "\<forall>f\<in>set fs. declared_width f \<noteq> None"
  shows "int (length bs) = (\<Sum>f\<leftarrow>fs. case declared_width f of Some w \<Rightarrow> int w | None \<Rightarrow> 0)"
  using assms
proof (induction fs arbitrary: args bs)
  case (Cons f fs)
  then obtain b cs raw where b: "pack_field f raw = Inr b" "encode_fields checked fs (AList.delete (fa_name f) args) = Inr cs" "bs = b @ cs"
    by (auto simp: encode_field_def bind_result_Inr_iff)
  obtain w where "declared_width f = Some w" using Cons.prems(2) by auto
  then show ?case using b pack_length [OF b(1)] Cons.IH [OF b(2)] Cons.prems(2) by simp
qed (simp split: if_splits)

text \<open>
  C15: The announced length is the length that is sent. Whenever the command builder of the control system can
  announce a length for a command of the catalogue (which, as an S8.1 command, has a function code), every
  successful encoding of that command has exactly this length, with or without validation, with arguments
  given or by default.
\<close>

theorem announced_length_is_sent:
  assumes "li_expected (expected_data_bytes c) = Some n" "resolve_command cs r = Inr c" "encode cs checked r args = Inr data"
    and "ce_service c = 8 \<and> ce_subtype c = 1 \<longrightarrow> ce_func c \<noteq> None"
  shows "int (length data) = n"
proof -
  obtain fs where fs: "ce_fields c = Some fs" using assms(1) by (auto simp: expected_data_bytes_def Let_def split: option.splits)
  have known: "\<forall>f\<in>set fs. declared_width f \<noteq> None"
    and n: "n = (if ce_service c = 8 \<and> ce_subtype c = 1 then 1 else 0) + (\<Sum>f\<leftarrow>fs. case declared_width f of Some w \<Rightarrow> int w | None \<Rightarrow> 0)"
    using assms(1) fs by (auto simp: expected_data_bytes_def Let_def filter_empty_conv declared_variable_def split: if_splits)
  obtain body where body: "encode_fields checked fs args = Inr body" "data = (if is_function c then func_octet c # body else body)"
    using assms(2,3) fs by (auto simp: encode_def encode_args_def or_else_def bind_result_Inr_iff)
  show ?thesis
    using fields_length [OF body(1) known] body(2) n assms(4) by (auto simp: is_function_def)
qed

section \<open>Ranges\<close>

lemma fields_checked:
  assumes "encode_fields True fs args = Inr bs" "distinct_names fs" "f \<in> set fs"
  shows "\<exists>raw. validate_field f (or_else (map_of args (fa_name f)) (field_default f)) raw = Inr ()"
  using assms
proof (induction fs arbitrary: args bs)
  case (Cons g fs)
  obtain b cs where b: "encode_field True g (or_else (map_of args (fa_name g)) (field_default g)) = Inr b"
    "encode_fields True fs (AList.delete (fa_name g) args) = Inr cs"
    using Cons.prems(1) by (auto simp: bind_result_Inr_iff)
  show ?case
  proof (cases "f = g")
    case True
    then show ?thesis using b(1) by (auto simp: encode_field_def bind_result_Inr_iff)
  next
    case False
    then have f: "f \<in> set fs" "fa_name f \<noteq> fa_name g" using Cons.prems(2,3) by (auto simp: distinct_names_def image_iff)
    then have "map_of (AList.delete (fa_name g) args) (fa_name f) = map_of args (fa_name f)" by (simp add: AList.delete_conv')
    then show ?thesis using Cons.IH [OF b(2)] Cons.prems(2) f(1) by (auto simp: distinct_names_def)
  qed
qed simp

lemma validated_range:
  assumes "validate_field f v raw = Inr ()" "fa_range f = Some (lo, hi)"
  shows "\<exists>l x h. value_float lo = Inr l \<and> value_float hi = Inr h \<and> value_float v = Inr x \<and> fle l x \<and> fle x h"
  using assms by (auto simp: validate_field_def check_range_def require_def bind_result_Inr_iff split: if_splits)

text \<open>
  No value outside its declared range is sent. When a command with distinct field names is encoded with
  validation, every field with a declared range has a range whose limits are numbers, and an argument, or
  the default in its place, that is a number within it.
\<close>

theorem validated_values_in_range:
  assumes "encode cs True r args = Inr data" "resolve_command cs r = Inr c" "ce_fields c = Some fs" "distinct (map fa_name fs)"
    and "f \<in> set fs" "fa_range f = Some (lo, hi)"
  shows "\<exists>l x h. value_float lo = Inr l \<and> value_float hi = Inr h \<and>
    value_float (or_else (map_of args (fa_name f)) (field_default f)) = Inr x \<and> fle l x \<and> fle x h"
proof -
  obtain body where "encode_fields True fs args = Inr body"
    using assms(1-3) by (auto simp: encode_def encode_args_def or_else_def bind_result_Inr_iff)
  then obtain raw where "validate_field f (or_else (map_of args (fa_name f)) (field_default f)) raw = Inr ()"
    using fields_checked [of fs args body f] assms(4,5) by (auto simp: distinct_names_def)
  then show ?thesis by (rule validated_range [OF _ assms(6)])
qed

section \<open>An instance\<close>

definition int_field :: "string \<Rightarrow> string \<Rightarrow> arg_field" where
  "int_field name t = \<lparr>fa_name = name, fa_type = Some t, fa_cal = no_calibration, fa_range = Some (VFloat (Fin True 400), VFloat (Fin False 400)),
     fa_raw_range = None, fa_enum = [], fa_bits = [], fa_default = None, fa_endian = ''big''\<rparr>"

definition example_fields :: "arg_field list" where
  "example_fields = [int_field ''speed'' ''int16'', int_field ''wheel'' ''uint8'']"

definition example_command :: tc_entry where
  "example_command = \<lparr>ce_name = ''WHEEL_SPEED'', ce_aliases = [], ce_service = 8, ce_subtype = 1, ce_func = Some 4, ce_fields = Some example_fields\<rparr>"

abbreviation "example_catalogue \<equiv> [example_command]"
abbreviation "example_args \<equiv> [(''wheel'', VInt 2), (''speed'', VInt (- 300))]"

lemma example_int: "plain_int (int_field name ''int16'')" "plain_int (int_field name ''uint8'')"
proof -
  have l: "lower ''int16'' = ''int16''" "lower ''uint8'' = ''uint8''" "lower ''none'' = ''none''" by code_simp+
  show "plain_int (int_field name ''int16'')" "plain_int (int_field name ''uint8'')"
    by (simp_all add: plain_int_def int_field_def field_type_def cal_type_def no_calibration_def or_else_def l INT_FMT_def)
qed

lemma example_resolved: "resolve_command example_catalogue (ByName ''WHEEL_SPEED'') = Inr example_command"
  "by_func example_catalogue 8 1 (Some 4) = Some example_command" "name_index example_catalogue ''WHEEL_SPEED'' = Some example_command"
  by (simp_all add: resolve_command_def name_index_def by_func_def example_command_def)

lemma example_encoded: "encode_field True (int_field name ''int16'') (VInt (- 300)) = Inr [0xFE, 0xD4]"
  "encode_field True (int_field name ''uint8'') (VInt 2) = Inr [2]"
proof -
  have t: "field_type (int_field name ''int16'') = ''int16''" "field_type (int_field name ''uint8'') = ''uint8''"
    "cal_type (int_field name t) = ''none''" "big_endian (int_field name t)" for t
    by (simp_all add: int_field_def field_type_def cal_type_def no_calibration_def or_else_def big_endian_def) code_simp+
  have b: "int_bounds ''int16'' = (- 32768, 32767)" "int_bounds ''uint8'' = (0, 255)" by code_simp+
  have v: "of_pyint (- 300) = Fin True 300" "of_pyint 2 = Fin False 2"
    by (simp_all add: of_pyint_def fl_def round64_numeral)
  have r: "round_float (Fin True 300) = Inr (- 300)" "round_float (Fin False 2) = Inr 2"
    using round_of_int [of "- 300"] round_of_int [of 2] by (simp_all add: v)
  have be2: "be_bytes 2 x = [word_of_int (x div 256), word_of_int x]" for x by (simp add: numeral_2_eq_2)
  have p: "pack_format Fmt_h (- 300) = Inr [0xFE, 0xD4]" "pack_format Fmt_B 2 = Inr [2]"
    by (simp_all add: pack_format_def format_signed_def be2)
  have f: "INT_FMT ''int16'' = Some Fmt_h" "INT_FMT ''uint8'' = Some Fmt_B" by (simp_all add: INT_FMT_def)
  have n: "''int16'' \<notin> set VARIABLE_FIELD_TYPES" "''uint8'' \<notin> set VARIABLE_FIELD_TYPES" by code_simp+
  have range: "fa_range (int_field name t) = Some (VFloat (Fin True 400), VFloat (Fin False 400))" "fa_raw_range (int_field name t) = None" for t
    by (simp_all add: int_field_def)
  show "encode_field True (int_field name ''int16'') (VInt (- 300)) = Inr [0xFE, 0xD4]"
    by (simp add: encode_field_def eng_to_raw_def rounded_def is_float_def t r v validate_field_def check_range_def range require_def fle_def fin_val_def
        check_labels_def check_raw_def b pack_field_def f p n ordered_def)
  show "encode_field True (int_field name ''uint8'') (VInt 2) = Inr [2]"
    by (simp add: encode_field_def eng_to_raw_def rounded_def is_float_def t r v validate_field_def check_range_def range require_def fle_def fin_val_def
        check_labels_def check_raw_def b pack_field_def f p n ordered_def)
qed

lemma example_data: "encode example_catalogue True (ByName ''WHEEL_SPEED'') example_args = Inr [4, 0xFE, 0xD4, 2]"
proof -
  have names: "fa_name (int_field name t) = name" for name t by (simp add: int_field_def)
  have "encode_args True example_command example_args = Inr [0xFE, 0xD4, 2]"
    by (simp add: encode_args_def example_command_def example_fields_def or_else_def names example_encoded AList.delete_eq)
  then show ?thesis
    by (simp add: encode_def example_resolved is_function_def func_octet_def) (simp add: example_command_def)
qed

theorem command_roundtrip_witness:
  "decode plain_libm example_catalogue 8 1 [4, 0xFE, 0xD4, 2] = Inr (''WHEEL_SPEED'', [(''speed'', VInt (- 300)), (''wheel'', VInt 2)])"
proof -
  have names: "fa_name (int_field name t) = name" for name t by (simp add: int_field_def)
  have c: "is_function example_command" "ce_fields example_command = Some example_fields" "ce_name example_command = ''WHEEL_SPEED''"
    by (simp_all add: is_function_def example_command_def)
  have "field_type (int_field name ''int16'') = ''int16''" "field_type (int_field name ''uint8'') = ''uint8''" for name
    by (simp_all add: int_field_def field_type_def or_else_def) code_simp+
  moreover have "int_bounds ''uint8'' = (0, 255)" "int_bounds ''int16'' = (- 32768, 32767)" by code_simp+
  ultimately have "\<forall>f\<in>set example_fields. plain_int f \<and> (\<exists>k. map_of example_args (fa_name f) = Some (VInt k) \<and> fits f k)"
    by (simp add: example_fields_def names example_int fits_def)
  then obtain data where "\<forall>d. encode example_catalogue True (ByName ''WHEEL_SPEED'') example_args = Inr d \<longrightarrow> d = data"
    "decode plain_libm example_catalogue 8 1 data =
       Inr (''WHEEL_SPEED'', map (\<lambda>f. (fa_name f, the (map_of example_args (fa_name f)))) example_fields)"
    using command_roundtrip [OF example_resolved(1) c(1) example_resolved(2) _ _ c(2), of example_args plain_libm]
    by (auto simp: example_fields_def names c(3))
  then show ?thesis using example_data by (simp add: example_fields_def names)
qed

theorem announced_length_is_sent_witness:
  "li_expected (expected_data_bytes example_command) = Some 4 \<and> int (length [4 :: byte, 0xFE, 0xD4, 2]) = 4"
proof -
  have l: "li_expected (expected_data_bytes example_command) = Some 4" by code_simp
  show ?thesis using announced_length_is_sent [OF l example_resolved(1) example_data] l by (simp add: example_command_def)
qed

theorem validated_values_in_range_witness:
  "\<exists>x. value_float (VInt (- 300)) = Inr x \<and> fle (Fin True 400) x \<and> fle x (Fin False 400)"
proof -
  have c: "ce_fields example_command = Some example_fields" "distinct (map fa_name example_fields)"
    "int_field ''speed'' ''int16'' \<in> set example_fields"
    "fa_range (int_field ''speed'' ''int16'') = Some (VFloat (Fin True 400), VFloat (Fin False 400))"
    by (simp_all add: example_command_def example_fields_def int_field_def)
  show ?thesis
    using validated_values_in_range [OF example_data example_resolved(1) c] by (simp add: int_field_def or_else_def)
qed

theorem decoded_command_reencodes_witness:
  "encode example_catalogue False (ByName ''WHEEL_SPEED'') [(''speed'', VInt (- 300)), (''wheel'', VInt 2)] = Inr [4, 0xFE, 0xD4, 2]"
proof -
  have names: "fa_name (int_field name t) = name" for name t by (simp add: int_field_def)
  have c: "is_function example_command" "ce_fields example_command = Some example_fields" "ce_name example_command = ''WHEEL_SPEED''"
    by (simp_all add: is_function_def example_command_def)
  have "decode plain_libm example_catalogue 8 1 [4, 0xFE, 0xD4, 2] = Inr (ce_name example_command, [(''speed'', VInt (- 300)), (''wheel'', VInt 2)])"
    using encoded_decodes [of True example_fields example_args "[0xFE, 0xD4, 2]" "[]" plain_libm] example_resolved(2)
    by (simp add: decode_def decode_args_def named_def or_else_def c example_fields_def names example_int example_encoded AList.delete_eq distinct_names_def)
  then show ?thesis
    using decoded_command_reencodes [of plain_libm example_catalogue "[4, 0xFE, 0xD4, 2]" example_command
        "[(''speed'', VInt (- 300)), (''wheel'', VInt 2)]" example_fields] example_resolved
    by (simp add: c example_fields_def names example_int plain_def)
qed

section \<open>Deviations\<close>

text \<open>A field of octets is read as a number first: hexadecimal text such as \<open>a1b2\<close> is no number.\<close>

lemma octets_read_as_number:
  "encode_field False ((int_field name ''bytes'')\<lparr>fa_range := None\<rparr>) (VStr ''a1b2'') = Inl ValueError"
proof -
  have "parse_float ''a1b2'' = None" by code_simp
  moreover have "lower ''bytes'' = ''bytes''" "lower ''none'' = ''none''" by code_simp+
  ultimately show ?thesis
    by (simp add: encode_field_def eng_to_raw_def rounded_def is_float_def int_field_def field_type_def cal_type_def no_calibration_def or_else_def
        value_float_def)
qed

end
