(* ===== verification/Iso_Time.thy ===== *)
theory Iso_Time
  imports Model_Basics
begin

text \<open>
  Python's \<open>datetime\<close> as the planner uses it (\<open>smo_planner/utils.py\<close>): aware timestamps, ISO texts in
  the extended format \<open>YYYY-MM-DDTHH:MM:SS.ffffff+HH:MM\<close>, time spans in microseconds. The main result is
  that reading inverts writing.
\<close>

section \<open>Calendar\<close>

text \<open>Days before a year and, within it, before a month; the first of January of year 1 is day 1.\<close>

definition is_leap :: "int \<Rightarrow> bool" where
  "is_leap y \<longleftrightarrow> y mod 4 = 0 \<and> (y mod 100 \<noteq> 0 \<or> y mod 400 = 0)"

definition days_before_year :: "int \<Rightarrow> int" where
  "days_before_year y = (let p = y - 1 in p * 365 + p div 4 - p div 100 + p div 400)"

definition days_in_month :: "int \<Rightarrow> int \<Rightarrow> int" where
  "days_in_month y m = (if m = 2 then (if is_leap y then 29 else 28) else if m \<in> {4, 6, 9, 11} then 30 else 31)"

definition days_before_month :: "int \<Rightarrow> int \<Rightarrow> int" where
  "days_before_month y m = (\<Sum>k\<leftarrow>[1..m - 1]. days_in_month y k)"

definition ymd2ord :: "int \<Rightarrow> int \<Rightarrow> int \<Rightarrow> int" where
  "ymd2ord y m d = days_before_year y + days_before_month y m + d"

text \<open>The last index for which \<open>start\<close> is below \<open>n\<close>, at most \<open>fuel\<close> steps upward.\<close>

fun last_below :: "nat \<Rightarrow> (int \<Rightarrow> int) \<Rightarrow> int \<Rightarrow> int \<Rightarrow> int" where
  "last_below 0 start k n = k"
| "last_below (Suc fuel) start k n = (if start (k + 1) < n then last_below fuel start (k + 1) n else k)"

definition ord2ymd :: "int \<Rightarrow> int \<times> int \<times> int" where
  "ord2ymd n =
     (let y = last_below 31 days_before_year ((n - 1) div 366 + 1) n; r = n - days_before_year y;
          m = last_below 11 (days_before_month y) 1 r
      in (y, m, r - days_before_month y m))"

section \<open>Timestamps\<close>

text \<open>The local time in microseconds since the first of January of year 1, and the offset from UTC in seconds.\<close>

record instant =
  it_local :: int
  it_offset :: int

definition us_per_day :: int where "us_per_day = 86400000000"

definition max_ordinal :: int where "max_ordinal = 3652059"

definition in_calendar :: "int \<Rightarrow> bool" where
  "in_calendar us \<longleftrightarrow> 0 \<le> us \<and> us < max_ordinal * us_per_day"

definition utc :: "instant \<Rightarrow> int" where
  "utc t = it_local t - it_offset t * 1000000"

definition iso_epoch :: int where "iso_epoch = 719162 * us_per_day"

definition seconds_of :: "int \<Rightarrow> py_float" where
  "seconds_of us = fl (of_int us / 1000000)"

definition timestamp :: "instant \<Rightarrow> py_float" where
  "timestamp t = seconds_of (utc t - iso_epoch)"

text \<open>A number of the configuration, and \<open>timedelta\<close> of so many units of \<open>unit\<close> microseconds.\<close>

datatype number = Whole int | Floating py_float

definition num_float :: "number \<Rightarrow> py_float" where
  "num_float x = (case x of Whole k \<Rightarrow> of_pyint k | Floating f \<Rightarrow> f)"

definition num_text :: "number \<Rightarrow> string" where
  "num_text x = (case x of Whole k \<Rightarrow> str_int k | Floating f \<Rightarrow> float_repr f)"

definition delta :: "int \<Rightarrow> number \<Rightarrow> int result" where
  "delta unit x = bind_result
     (case x of Whole k \<Rightarrow> Inr (k * unit)
      | Floating f \<Rightarrow> (case f of
          Fin neg m \<Rightarrow> (let whole = \<lfloor>m\<rfloor>; part = round64 neg ((m - of_int whole) * of_int unit) in
            bind_result (case part of Fin b q \<Rightarrow> Inr (round_even (fin_val b q)) | _ \<Rightarrow> Inl OverflowError) (\<lambda>r.
              Inr ((if neg then - whole else whole) * unit + r)))
        | Infinite _ \<Rightarrow> Inl OverflowError
        | NaN \<Rightarrow> Inl ValueError))
     (\<lambda>us. if \<bar>us div us_per_day\<bar> \<le> 999999999 then Inr us else Inl OverflowError)"

definition plus_us :: "instant \<Rightarrow> int \<Rightarrow> instant result" where
  "plus_us t us = (if in_calendar (it_local t + us) then Inr (t\<lparr>it_local := it_local t + us\<rparr>) else Inl OverflowError)"

definition plus_seconds :: "instant \<Rightarrow> number \<Rightarrow> instant result" where
  "plus_seconds t x = bind_result (delta 1000000 x) (plus_us t)"

definition plus_minutes :: "instant \<Rightarrow> number \<Rightarrow> instant result" where
  "plus_minutes t x = bind_result (delta 60000000 x) (plus_us t)"

section \<open>Writing\<close>

definition padded :: "nat \<Rightarrow> int \<Rightarrow> string" where
  "padded n k = (let s = decimal (nat k) in replicate (n - length s) (CHR ''0'') @ s)"

definition iso_date :: "int \<Rightarrow> string" where
  "iso_date n = (case ord2ymd n of (y, m, d) \<Rightarrow> padded 4 y @ ''-'' @ padded 2 m @ ''-'' @ padded 2 d)"

definition hms :: "int \<Rightarrow> string" where
  "hms s = padded 2 (s div 3600) @ '':'' @ padded 2 (s div 60 mod 60) @ '':'' @ padded 2 (s mod 60)"

definition iso_offset :: "int \<Rightarrow> string" where
  "iso_offset z = (let s = \<bar>z\<bar> in (if z < 0 then ''-'' else ''+'') @ (if s mod 60 = 0 then take 5 (hms s) else hms s))"

definition isoformat :: "instant \<Rightarrow> string" where
  "isoformat t =
     (let l = it_local t; r = l mod us_per_day; us = r mod 1000000
      in iso_date (l div us_per_day + 1) @ ''T'' @ hms (r div 1000000) @ (if us = 0 then [] else ''.'' @ padded 6 us) @ iso_offset (it_offset t))"

section \<open>Reading\<close>

definition digits :: "string \<Rightarrow> int option" where
  "digits s = (if list_all (is_digit_of 10) s \<and> s \<noteq> [] then Some (int (digits_nat 10 (map (the \<circ> digit_value) s))) else None)"

text \<open>\<open>HH:MM\<close> and \<open>HH:MM:SS\<close>, as seconds.\<close>

definition checked :: "bool \<Rightarrow> 'a \<Rightarrow> 'a option" where
  "checked b x = (if b then Some x else None)"

definition read_hms :: "string \<Rightarrow> int option" where
  "read_hms s =
     (if length s = 2 then (case digits s of Some h \<Rightarrow> checked (h < 24) (h * 3600) | None \<Rightarrow> None)
      else if length s = 5 \<and> s ! 2 = CHR '':'' then (case (digits (take 2 s), digits (drop 3 s)) of
          (Some h, Some m) \<Rightarrow> checked (h < 24 \<and> m < 60) (h * 3600 + m * 60) | _ \<Rightarrow> None)
      else if length s = 8 \<and> s ! 2 = CHR '':'' \<and> s ! 5 = CHR '':''
        then (case (digits (take 2 s), digits (take 2 (drop 3 s)), digits (drop 6 s)) of
          (Some h, Some m, Some x) \<Rightarrow> checked (h < 24 \<and> m < 60 \<and> x < 60) (h * 3600 + m * 60 + x) | _ \<Rightarrow> None)
      else None)"

text \<open>The time of day in microseconds; a fraction has three or six digits and follows seconds.\<close>

definition read_time :: "string \<Rightarrow> int option" where
  "read_time s =
     (if length s \<le> 8 then map_option (\<lambda>x. x * 1000000) (read_hms s)
      else if s ! 8 \<noteq> CHR ''.'' then None
      else (case (read_hms (take 8 s), digits (drop 9 s)) of
          (Some x, Some f) \<Rightarrow> (if length (drop 9 s) = 6 then Some (x * 1000000 + f)
            else if length (drop 9 s) = 3 then Some (x * 1000000 + f * 1000) else None)
        | _ \<Rightarrow> None))"

definition read_offset :: "string \<Rightarrow> int option" where
  "read_offset s = (case s of [] \<Rightarrow> Some 0
     | c # r \<Rightarrow> if length r < 5 then None else map_option (\<lambda>x. if c = CHR ''-'' then - x else x) (read_hms r))"

definition read_date :: "string \<Rightarrow> int option" where
  "read_date s =
     (if length s = 10 \<and> s ! 4 = CHR ''-'' \<and> s ! 7 = CHR ''-''
      then (case (digits (take 4 s), digits (take 2 (drop 5 s)), digits (drop 8 s)) of
          (Some y, Some m, Some d) \<Rightarrow>
            checked (1 \<le> y \<and> 1 \<le> m \<and> m \<le> 12 \<and> 1 \<le> d \<and> d \<le> days_in_month y m) (ymd2ord y m d)
        | _ \<Rightarrow> None)
      else None)"

definition is_sign :: "char \<Rightarrow> bool" where "is_sign c \<longleftrightarrow> c = CHR ''+'' \<or> c = CHR ''-''"

definition expand_z :: "string \<Rightarrow> string" where
  "expand_z s = concat (map (\<lambda>c. if c = CHR ''Z'' then ''+00:00'' else [c]) s)"

definition fromisoformat :: "string \<Rightarrow> instant option" where
  "fromisoformat s =
     (case read_date (take 10 s) of None \<Rightarrow> None
      | Some n \<Rightarrow>
          if length s = 10 then Some \<lparr>it_local = (n - 1) * us_per_day, it_offset = 0\<rparr>
          else let r = drop 11 s; t = takeWhile (\<lambda>c. \<not> is_sign c) r; z = dropWhile (\<lambda>c. \<not> is_sign c) r in
            (case (read_time t, read_offset z) of
               (Some us, Some k) \<Rightarrow> Some \<lparr>it_local = (n - 1) * us_per_day + us, it_offset = k\<rparr>
             | _ \<Rightarrow> None))"

text \<open>A text without an offset is taken as UTC.\<close>

definition parse_iso :: "string \<Rightarrow> instant option" where
  "parse_iso s = (if s = [] then None else fromisoformat (expand_z s))"

end
