(* ===== verification/Planner_Activity.thy ===== *)
theory Planner_Activity
  imports Iso_Time "HOL-Library.List_Lexorder" "HOL-Library.Char_ord"
begin

text \<open>
  The activities of the mission planner (\<open>smo_planner/activity_scheduler.py\<close>): what the scheduler and the
  constraint checkers read of an activity's dictionary, the types of the catalogue, and the time an
  activity occupies. Numbers come from JSON and YAML and are integers or floats.
\<close>

section \<open>Numbers\<close>

text \<open>A number as a comparison sees it, which is exact, and as float arithmetic converts it.\<close>

definition exact :: "number \<Rightarrow> py_float" where
  "exact x = (case x of Whole k \<Rightarrow> Fin (k < 0) (of_int \<bar>k\<bar>) | Floating f \<Rightarrow> f)"

definition real_of :: "number \<Rightarrow> py_float result" where
  "real_of x = (case num_float x of Infinite s \<Rightarrow> (case x of Whole _ \<Rightarrow> Inl OverflowError | Floating _ \<Rightarrow> Inr (Infinite s)) | f \<Rightarrow> Inr f)"

definition fixed :: "nat \<Rightarrow> number \<Rightarrow> string result" where
  "fixed n x = bind_result (real_of x) (\<lambda>f. Inr (fmt_fixed n f))"

section \<open>Texts\<close>

definition quoted :: "string \<Rightarrow> string" where
  "quoted s = [CHR 0x27] @ s @ [CHR 0x27]"

fun contains :: "string \<Rightarrow> string \<Rightarrow> bool" where
  "contains w [] \<longleftrightarrow> w = []"
| "contains w (c # s) \<longleftrightarrow> take (length w) (c # s) = w \<or> contains w s"

definition mentions :: "string \<Rightarrow> string \<Rightarrow> bool" where
  "mentions w name \<longleftrightarrow> contains w (map lower_char name)"

section \<open>Activities\<close>

datatype activity_state = PLANNED | VALIDATED | UPLOADED | EXECUTING | COMPLETED | FAILED | CANCELLED

definition state_code :: "activity_state \<Rightarrow> int" where
  "state_code s = (case s of PLANNED \<Rightarrow> 0 | VALIDATED \<Rightarrow> 1 | UPLOADED \<Rightarrow> 2 | EXECUTING \<Rightarrow> 3 | COMPLETED \<Rightarrow> 4
     | FAILED \<Rightarrow> 5 | CANCELLED \<Rightarrow> 6)"

definition state_label :: "activity_state \<Rightarrow> string" where
  "state_label s = (case s of PLANNED \<Rightarrow> ''PLANNED'' | VALIDATED \<Rightarrow> ''VALIDATED'' | UPLOADED \<Rightarrow> ''UPLOADED''
     | EXECUTING \<Rightarrow> ''EXECUTING'' | COMPLETED \<Rightarrow> ''COMPLETED'' | FAILED \<Rightarrow> ''FAILED'' | CANCELLED \<Rightarrow> ''CANCELLED'')"

text \<open>An entry of the catalogue of types; \<open>None\<close> is an absent key. A step of a command sequence is not looked into.\<close>

record activity_type =
  at_name :: string
  at_duration :: "number option"
  at_power :: "number option"
  at_volume :: "number option"
  at_priority :: "string option"
  at_procedure :: "string option"
  at_commands :: "pyval list"
  at_conflicts :: "string list"
  at_pre :: "string list"

record activity =
  ac_id :: int
  ac_name :: string
  ac_start :: string
  ac_duration :: number
  ac_power :: number
  ac_volume :: number
  ac_priority :: string
  ac_procedure :: "string option"
  ac_commands :: "pyval list"
  ac_conflicts :: "string list"
  ac_pre :: "string list"
  ac_state :: int
  ac_state_name :: string
  ac_warnings :: "string list"
  ac_pass :: "int option"
  ac_pass_gs :: "string option"
  ac_pass_aos :: "string option"
  ac_pass_los :: "string option"
  ac_offset :: "number option"
  ac_capture_lat :: "py_float option"
  ac_capture_lon :: "py_float option"
  ac_max_elevation :: "py_float option"
  ac_pass_elevation :: "py_float option"

definition untyped :: "string \<Rightarrow> activity_type" where
  "untyped name = \<lparr>at_name = name, at_duration = None, at_power = None, at_volume = None, at_priority = None, at_procedure = None,
     at_commands = [], at_conflicts = [], at_pre = []\<rparr>"

definition types_index :: "activity_type list \<Rightarrow> string \<rightharpoonup> activity_type" where
  "types_index ts = map_of (rev (map (\<lambda>t. (at_name t, t)) ts))"

definition type_duration :: "activity_type \<Rightarrow> number" where
  "type_duration t = or_else (at_duration t) (Whole 300)"

definition cancelled_or_failed :: "activity \<Rightarrow> bool" where
  "cancelled_or_failed a \<longleftrightarrow> ac_state a \<in> {state_code CANCELLED, state_code FAILED}"

definition dropped :: "activity \<Rightarrow> bool" where
  "dropped a \<longleftrightarrow> ac_state_name a \<in> {''CANCELLED'', ''FAILED''}"

section \<open>Time\<close>

text \<open>
  The start and the end of an activity, \<open>None\<close> when its start is no timestamp; an end outside the
  calendar raises. Aware timestamps are compared as instants.
\<close>

definition activity_span :: "activity \<Rightarrow> (instant \<times> instant) option result" where
  "activity_span a = (case parse_iso (ac_start a) of None \<Rightarrow> Inr None
     | Some t \<Rightarrow> bind_result (plus_seconds t (ac_duration a)) (\<lambda>e. Inr (Some (t, e))))"

definition earlier :: "instant \<Rightarrow> instant \<Rightarrow> bool" where
  "earlier s t \<longleftrightarrow> utc s < utc t"

definition spans_overlap :: "instant \<times> instant \<Rightarrow> instant \<times> instant \<Rightarrow> bool" where
  "spans_overlap p q = (case (p, q) of ((s, e), (s', e')) \<Rightarrow> earlier s e' \<and> earlier s' e)"

definition seconds_between :: "instant \<Rightarrow> instant \<Rightarrow> py_float" where
  "seconds_between s t = seconds_of (utc t - utc s)"

definition by_start :: "activity list \<Rightarrow> activity list" where
  "by_start = sort_key ac_start"

end
