(* ===== verification/Planner_Constraints.thy ===== *)
theory Planner_Constraints
  imports Planner_Activity
begin

text \<open>
  The constraint checkers of the planner (\<open>smo_planner/constraint_checkers.py\<close>), with the plan validation
  that runs them all. A checker returns its violations or the exception its arithmetic raises.
\<close>

section \<open>Violations\<close>

datatype severity = Error | Warning | Info

record plan_violation =
  vi_checker :: string
  vi_severity :: severity
  vi_id :: int
  vi_name :: string
  vi_message :: string
  vi_fix :: string

definition violation_of :: "string \<Rightarrow> severity \<Rightarrow> activity \<Rightarrow> string \<Rightarrow> string \<Rightarrow> plan_violation" where
  "violation_of checker sev a msg fix = \<lparr>vi_checker = checker, vi_severity = sev, vi_id = ac_id a, vi_name = ac_name a, vi_message = msg, vi_fix = fix\<rparr>"

section \<open>Power\<close>

record power_checker =
  pc_capacity :: py_float
  pc_min_soc :: py_float
  pc_bus :: py_float
  pc_solar :: py_float

definition default_power_checker :: power_checker where
  "default_power_checker = \<lparr>pc_capacity = Fin False 1120, pc_min_soc = Fin False 20, pc_bus = Fin False 300, pc_solar = Fin False 280\<rparr>"

definition check_activity_power :: "power_checker \<Rightarrow> activity \<Rightarrow> plan_violation list result" where
  "check_activity_power c a =
     (if fless (pc_bus c) (exact (ac_power a))
      then bind_result (fixed 1 (ac_power a)) (\<lambda>p.
        Inr [violation_of ''PowerConstraintChecker'' Error a
          (''Activity power consumption ('' @ p @ ''W) exceeds bus capacity ('' @ fmt_fixed 1 (pc_bus c) @ ''W)'')
          ''Reduce concurrent high-power activities or increase bus capacity''])
      else Inr [])"

text \<open>The ground track is a list of timestamps with the eclipse flag; the timestamps are compared as texts.\<close>

definition estimate_eclipse_fraction :: "instant \<Rightarrow> instant \<Rightarrow> (string \<times> bool) list \<Rightarrow> py_float" where
  "estimate_eclipse_fraction start stop track =
     (let inside = filter (\<lambda>(u, _). isoformat start \<le> u \<and> u \<le> isoformat stop) track in
      if inside = [] then fl (35 / 100)
      else fl (of_nat (length (filter snd inside)) / of_nat (length inside)))"

record soc_entry =
  se_id :: int
  se_name :: string
  se_start :: string
  se_before :: py_float
  se_after :: py_float

text \<open>The energy of one activity: consumed by the platform and by the activity, and charged.\<close>

definition energy :: "power_checker \<Rightarrow> activity \<Rightarrow> py_float \<Rightarrow> (py_float \<times> py_float \<times> py_float) result" where
  "energy c a ecl =
     bind_result (real_of (ac_duration a)) (\<lambda>d. bind_result (real_of (ac_power a)) (\<lambda>p.
       let hours = fquot d (Fin False 3600); dark = fmul hours ecl; sun = fmul hours (fsub (Fin False 1) ecl)
       in Inr (fadd (fmul (Fin False 95) dark) (fmul (Fin False 95) sun), fmul p hours,
            fmul (fmul (pc_solar c) (fl (85 / 100))) sun)))"

definition percent_of :: "power_checker \<Rightarrow> py_float \<Rightarrow> py_float result" where
  "percent_of c wh = bind_result (fdiv wh (pc_capacity c)) (\<lambda>q. Inr (fmul q (Fin False 100)))"

definition soc_violation :: "power_checker \<Rightarrow> activity \<Rightarrow> py_float \<Rightarrow> plan_violation" where
  "soc_violation c a pct = violation_of ''PowerConstraintChecker'' Error a
     (''Activity would result in SoC of '' @ fmt_fixed 1 pct @ ''% (below minimum '' @ float_repr (pc_min_soc c) @ ''%)'')
     (''Delay activity or reduce power consumption; need '' @ fmt_fixed 1 (fsub pct (pc_min_soc c)) @ ''% more charge'')"

text \<open>One activity of the plan, from the stored energy before it.\<close>

definition power_step :: "power_checker \<Rightarrow> (string \<times> bool) list \<Rightarrow> activity \<Rightarrow> py_float \<Rightarrow>
    (py_float \<times> soc_entry list \<times> plan_violation list) result" where
  "power_step c track a soc =
     (if dropped a \<or> fle (exact (ac_duration a)) f0 \<or> fle (exact (ac_power a)) f0 then Inr (soc, [], [])
      else bind_result (activity_span a) (\<lambda>span. case span of None \<Rightarrow> Inr (soc, [], [])
        | Some (s, e) \<Rightarrow> bind_result (energy c a (estimate_eclipse_fraction s e track)) (\<lambda>(drain, used, charge).
            let soc' = clamp f0 (pc_capacity c) (fsub (fsub (fadd soc charge) drain) used) in
            bind_result (percent_of c soc') (\<lambda>pct. bind_result (percent_of c (fsub (fadd (fadd soc' drain) used) charge)) (\<lambda>pre.
              Inr (soc', [\<lparr>se_id = ac_id a, se_name = ac_name a, se_start = ac_start a, se_before = fround 1 pre, se_after = fround 1 pct\<rparr>],
                if fless pct (pc_min_soc c) then [soc_violation c a pct] else []))))))"

fun power_steps :: "power_checker \<Rightarrow> (string \<times> bool) list \<Rightarrow> activity list \<Rightarrow> py_float \<Rightarrow>
    (py_float \<times> soc_entry list \<times> plan_violation list) result" where
  "power_steps c track [] soc = Inr (soc, [], [])"
| "power_steps c track (a # as) soc =
     bind_result (power_step c track a soc) (\<lambda>(soc', es, vs).
     bind_result (power_steps c track as soc') (\<lambda>(soc'', es', vs'). Inr (soc'', es @ es', vs @ vs')))"

record power_result =
  pr_violations :: "plan_violation list"
  pr_timeline :: "soc_entry list"
  pr_final_soc :: py_float

definition check_plan_power :: "power_checker \<Rightarrow> activity list \<Rightarrow> py_float \<Rightarrow> (string \<times> bool) list \<Rightarrow> power_result result" where
  "check_plan_power c sched initial track =
     bind_result (power_steps c track (by_start sched) (fquot (fmul (pc_capacity c) initial) (Fin False 100))) (\<lambda>(soc, es, vs).
     bind_result (percent_of c soc) (\<lambda>pct. Inr \<lparr>pr_violations = vs, pr_timeline = es, pr_final_soc = fround 1 pct\<rparr>))"

section \<open>Attitude\<close>

record aocs_checker =
  sc_rate :: py_float
  sc_settle :: py_float
  sc_momentum :: py_float

definition default_aocs_checker :: aocs_checker where
  "default_aocs_checker = \<lparr>sc_rate = Fin False 1, sc_settle = Fin False 30, sc_momentum = Fin False 100\<rparr>"

definition angular_distance :: "libm \<Rightarrow> py_float \<Rightarrow> py_float \<Rightarrow> py_float \<Rightarrow> py_float \<Rightarrow> py_float result" where
  "angular_distance lm lat1 lon1 lat2 lon2 =
     (let dlat = fsub lat2 lat1; dlon = fsub lon2 lon1 in
      bind_result (lm_cos lm (radians (fquot (fadd lat1 lat2) (Fin False 2)))) (\<lambda>k.
      bind_result (fsquare dlat) (\<lambda>x. bind_result (fsquare (fmul dlon k)) (\<lambda>y. lm_sqrt lm (fadd x y)))))"

text \<open>The coordinates of both activities, when none of them is missing or zero (\<open>all([...])\<close>).\<close>

definition targets :: "activity \<Rightarrow> activity \<Rightarrow> (py_float \<times> py_float \<times> py_float \<times> py_float) option" where
  "targets a b = (case (ac_capture_lat a, ac_capture_lon a, ac_capture_lat b, ac_capture_lon b) of
       (Some w, Some x, Some y, Some z) \<Rightarrow> if fbool w \<and> fbool x \<and> fbool y \<and> fbool z then Some (w, x, y, z) else None
     | _ \<Rightarrow> None)"

text \<open>The time from the end of an activity to the start of the next, when both have timestamps.\<close>

definition gap_after :: "activity \<Rightarrow> activity \<Rightarrow> py_float option result" where
  "gap_after a b = (case (parse_iso (ac_start a), parse_iso (ac_start b)) of
       (Some s, Some t) \<Rightarrow> bind_result (plus_seconds s (ac_duration a)) (\<lambda>e. Inr (Some (seconds_between e t)))
     | _ \<Rightarrow> Inr None)"

definition slew_violation :: "aocs_checker \<Rightarrow> activity \<Rightarrow> py_float \<Rightarrow> py_float \<Rightarrow> py_float \<Rightarrow> plan_violation" where
  "slew_violation c b slew need gap = violation_of ''AOCSConstraintChecker'' Error b
     (''Insufficient slew time between activities: need '' @ fmt_fixed 0 need @ ''s ('' @ fmt_fixed 0 slew @ ''s slew + '' @
      float_repr (sc_settle c) @ ''s settle), have '' @ fmt_fixed 0 gap @ ''s'')
     (''Delay next activity by '' @ fmt_fixed 0 (fsub need gap) @ ''s'')"

definition slew_pair :: "libm \<Rightarrow> aocs_checker \<Rightarrow> activity \<Rightarrow> activity \<Rightarrow> plan_violation list result" where
  "slew_pair lm c a b = (case targets a b of None \<Rightarrow> Inr []
     | Some (w, x, y, z) \<Rightarrow>
         bind_result (angular_distance lm w x y z) (\<lambda>sep. bind_result (fdiv sep (sc_rate c)) (\<lambda>slew.
           let need = fadd slew (sc_settle c) in
           bind_result (gap_after a b) (\<lambda>gap. Inr (case gap of None \<Rightarrow> []
             | Some g \<Rightarrow> if fless g need then [slew_violation c b slew need g] else [])))))"

text \<open>A check of each activity with its successor.\<close>

fun successive :: "(activity \<Rightarrow> activity \<Rightarrow> plan_violation list result) \<Rightarrow> activity list \<Rightarrow> plan_violation list result" where
  "successive f (a # b # as) = bind_result (f a b) (\<lambda>vs. bind_result (successive f (b # as)) (\<lambda>vs'. Inr (vs @ vs')))"
| "successive f _ = Inr []"

definition check_slew_constraints :: "libm \<Rightarrow> aocs_checker \<Rightarrow> activity list \<Rightarrow> plan_violation list result" where
  "check_slew_constraints lm c acts = successive (slew_pair lm c) (by_start acts)"

definition momentum_limit :: "aocs_checker \<Rightarrow> py_float" where
  "momentum_limit c = fmul (fl (8 / 10)) (sc_momentum c)"

fun momentum_steps :: "aocs_checker \<Rightarrow> py_float \<Rightarrow> activity list \<Rightarrow> py_float \<Rightarrow> plan_violation list" where
  "momentum_steps c per [] h = []"
| "momentum_steps c per (a # as) h =
     (if mentions ''imaging'' (ac_name a)
      then let h' = fadd h per in
        (if fless (momentum_limit c) h'
         then [violation_of ''AOCSConstraintChecker'' Warning a
            (''Momentum accumulation ('' @ fmt_fixed 2 h' @ '' h*km^2/s) exceeds 80% of capacity ('' @ fmt_fixed 2 (momentum_limit c) @ '')'')
            ''Schedule momentum_desaturation activity after this pass or before next imaging'']
         else []) @ momentum_steps c per as h'
      else momentum_steps c per as (if mentions ''desaturate'' (ac_name a) \<or> mentions ''desat'' (ac_name a) then f0 else h))"

definition check_momentum_budget :: "aocs_checker \<Rightarrow> activity list \<Rightarrow> plan_violation list" where
  "check_momentum_budget c acts = momentum_steps c (fl (15 / 100)) (by_start acts) f0"

section \<open>Thermal\<close>

record thermal_checker =
  hc_imaging_minutes :: py_float
  hc_orbit_minutes :: py_float
  hc_cooldown :: py_float

definition default_thermal_checker :: thermal_checker where
  "default_thermal_checker = \<lparr>hc_imaging_minutes = Fin False 30, hc_orbit_minutes = Fin False 91, hc_cooldown = Fin False 300\<rparr>"

text \<open>The imaging activities of each orbit, in the order in which the orbits first occur.\<close>

definition orbit_number :: "thermal_checker \<Rightarrow> instant \<Rightarrow> int result" where
  "orbit_number c t = bind_result (fdiv (timestamp t) (fmul (hc_orbit_minutes c) (Fin False 60))) trunc_float"

fun group_by_orbit :: "thermal_checker \<Rightarrow> activity list \<Rightarrow> (int \<times> activity list) list \<Rightarrow> (int \<times> activity list) list result" where
  "group_by_orbit c [] orbits = Inr orbits"
| "group_by_orbit c (a # as) orbits =
     (if \<not> mentions ''imaging'' (ac_name a) then group_by_orbit c as orbits
      else (case parse_iso (ac_start a) of None \<Rightarrow> group_by_orbit c as orbits
        | Some t \<Rightarrow> bind_result (orbit_number c t) (\<lambda>n.
            group_by_orbit c as (AList.update n (or_else (map_of orbits n) [] @ [a]) orbits))))"

fun total_duration :: "activity list \<Rightarrow> py_float \<Rightarrow> py_float result" where
  "total_duration [] t = Inr t"
| "total_duration (a # as) t = bind_result (real_of (ac_duration a)) (\<lambda>d. total_duration as (fadd t d))"

fun check_orbits :: "thermal_checker \<Rightarrow> (int \<times> activity list) list \<Rightarrow> plan_violation list result" where
  "check_orbits c [] = Inr []"
| "check_orbits c ((n, as) # os) =
     bind_result (total_duration as f0) (\<lambda>t. let m = fquot t (Fin False 60) in
     bind_result (check_orbits c os) (\<lambda>vs.
       Inr ((if fless (hc_imaging_minutes c) m
         then [(violation_of ''ThermalConstraintChecker'' Warning (hd as)
             (''Imaging duty cycle in orbit '' @ str_int n @ '' ('' @ fmt_fixed 1 m @ '' min) exceeds limit ('' @ fmt_fixed 1 (hc_imaging_minutes c) @ '' min)'')
             ''Spread imaging activities across multiple orbits'')\<lparr>vi_name := ''imaging_pass (multiple)''\<rparr>]
         else []) @ vs)))"

definition check_payload_duty_cycle :: "thermal_checker \<Rightarrow> activity list \<Rightarrow> plan_violation list result" where
  "check_payload_duty_cycle c acts = bind_result (group_by_orbit c acts []) (check_orbits c)"

definition cooldown_pair :: "thermal_checker \<Rightarrow> activity \<Rightarrow> activity \<Rightarrow> plan_violation list result" where
  "cooldown_pair c a b =
     (if mentions ''imaging'' (ac_name a) \<and> mentions ''imaging'' (ac_name b)
      then bind_result (gap_after a b) (\<lambda>gap. Inr (case gap of None \<Rightarrow> []
        | Some g \<Rightarrow> if fless g (hc_cooldown c)
            then [violation_of ''ThermalConstraintChecker'' Warning b
               (''Insufficient cooldown between imaging activities: need '' @ fmt_fixed 0 (hc_cooldown c) @ ''s, have '' @ fmt_fixed 0 g @ ''s'')
               (''Delay next imaging by '' @ fmt_fixed 0 (fsub (hc_cooldown c) g) @ ''s'')]
            else []))
      else Inr [])"

definition check_cooldown_periods :: "thermal_checker \<Rightarrow> activity list \<Rightarrow> plan_violation list result" where
  "check_cooldown_periods c acts = successive (cooldown_pair c) (by_start acts)"

section \<open>Data volume\<close>

record data_checker =
  dc_capacity :: py_float
  dc_margin_percent :: py_float
  dc_dump_rate :: py_float
  dc_overhead :: py_float
  dc_routine_rate :: py_float
  dc_min_elevation :: py_float
  dc_min_margin :: py_float

text \<open>The resolved data parameters; \<open>None\<close> is an absent key.\<close>

record data_params =
  dp_capacity :: "py_float option"
  dp_margin_percent :: "py_float option"
  dp_rate :: "py_float option"
  dp_overhead :: "py_float option"
  dp_routine_rate :: "py_float option"
  dp_min_elevation :: "py_float option"

definition no_params :: data_params where
  "no_params = \<lparr>dp_capacity = None, dp_margin_percent = None, dp_rate = None, dp_overhead = None, dp_routine_rate = None, dp_min_elevation = None\<rparr>"

definition DUMP_RATE_BPS :: py_float where "DUMP_RATE_BPS = Fin False 128000"
definition MIN_DUMP_ELEVATION_DEG :: py_float where "MIN_DUMP_ELEVATION_DEG = Fin False 10"

definition from_params :: "data_params \<Rightarrow> data_checker" where
  "from_params p =
     (let cap = or_else (dp_capacity p) (Fin False 20000); pct = or_else (dp_margin_percent p) (Fin False 10); rate = or_else (dp_rate p) DUMP_RATE_BPS in
      \<lparr>dc_capacity = cap, dc_margin_percent = pct, dc_dump_rate = rate, dc_overhead = or_else (dp_overhead p) (fl (2 / 10)),
       dc_routine_rate = or_else (dp_routine_rate p) rate, dc_min_elevation = or_else (dp_min_elevation p) MIN_DUMP_ELEVATION_DEG,
       dc_min_margin = fquot (fmul cap pct) (Fin False 100)\<rparr>)"

definition dump_rate_for_pass :: "data_checker \<Rightarrow> py_float option \<Rightarrow> py_float" where
  "dump_rate_for_pass c elevation = (case elevation of None \<Rightarrow> dc_dump_rate c
     | Some e \<Rightarrow> if fle (dc_min_elevation c) e then dc_dump_rate c else dc_routine_rate c)"

definition downlinked :: "data_checker \<Rightarrow> activity \<Rightarrow> py_float result" where
  "downlinked c a =
     (let rate = dump_rate_for_pass c (case ac_max_elevation a of Some e \<Rightarrow> Some e | None \<Rightarrow> ac_pass_elevation a) in
      bind_result (real_of (ac_duration a)) (\<lambda>d.
        Inr (fquot (fmul (fmul rate (fsub (Fin False 1) (dc_overhead c))) d) (Fin False 8388608))))"

definition over_capacity :: "data_checker \<Rightarrow> activity \<Rightarrow> py_float \<Rightarrow> py_float \<Rightarrow> plan_violation list" where
  "over_capacity c a gen stored =
     (if fless (dc_capacity c) stored
      then [violation_of ''DataVolumeConstraintChecker'' Error a
         (''Data generation ('' @ fmt_fixed 1 gen @ '' MB) would result in total onboard storage of '' @ fmt_fixed 1 stored @
          '' MB, exceeding capacity ('' @ fmt_fixed 1 (dc_capacity c) @ '' MB)'')
         (''Schedule data_dump before this activity to free '' @ fmt_fixed 1 (fsub stored (dc_capacity c)) @ '' MB'')]
      else [])"

definition below_margin :: "data_checker \<Rightarrow> activity \<Rightarrow> py_float \<Rightarrow> plan_violation list result" where
  "below_margin c a stored =
     (if fless (fsub (dc_capacity c) stored) (dc_min_margin c) \<and> fless f0 (exact (ac_volume a))
      then bind_result (fdiv stored (dc_capacity c)) (\<lambda>q.
        Inr [violation_of ''DataVolumeConstraintChecker'' Warning a
          (''Storage utilization is '' @ fmt_fixed 1 (fmul q (Fin False 100)) @ ''%, below desired margin of '' @ float_repr (dc_margin_percent c) @ ''%'')
          ''Schedule a data dump to reduce onboard data volume''])
      else Inr [])"

fun storage_steps :: "data_checker \<Rightarrow> activity list \<Rightarrow> py_float \<Rightarrow> plan_violation list result" where
  "storage_steps c [] onboard = Inr []"
| "storage_steps c (a # as) onboard =
     (if dropped a then storage_steps c as onboard
      else bind_result (real_of (ac_volume a)) (\<lambda>gen. let stored = fadd onboard gen in
        bind_result (below_margin c a stored) (\<lambda>margin.
        bind_result (if mentions ''dump'' (ac_name a) \<or> mentions ''downlink'' (ac_name a)
            then bind_result (downlinked c a) (\<lambda>d. Inr (fmax f0 (fsub stored d))) else Inr stored) (\<lambda>left.
        bind_result (storage_steps c as left) (\<lambda>vs. Inr (over_capacity c a gen stored @ margin @ vs))))))"

definition check_storage_capacity :: "data_checker \<Rightarrow> activity list \<Rightarrow> py_float \<Rightarrow> plan_violation list result" where
  "check_storage_capacity c acts onboard = storage_steps c (by_start acts) onboard"

section \<open>Exclusive resources\<close>

definition ACTIVITY_PRIORITIES :: "string \<rightharpoonup> int" where
  "ACTIVITY_PRIORITIES = map_of [(''imaging_pass'', 100), (''data_dump'', 80), (''software_upload'', 85), (''calibration'', 40),
     (''momentum_desaturation'', 50), (''housekeeping_collection'', 10)]"

definition priority_of :: "string \<Rightarrow> int" where
  "priority_of name = or_else (ACTIVITY_PRIORITIES name) 50"

definition uses_antenna :: "string \<Rightarrow> bool" where
  "uses_antenna name \<longleftrightarrow> (\<exists>x\<in>{''data_dump'', ''downlink'', ''software_upload'', ''housekeeping_collection''}. mentions x name)"

text \<open>The last rule of the code, for two high-power activities, has the same answer as its default.\<close>

definition have_exclusive_resources :: "string \<Rightarrow> string \<Rightarrow> bool" where
  "have_exclusive_resources n m \<longleftrightarrow>
     uses_antenna n \<and> uses_antenna m \<or> mentions ''imaging'' n \<and> uses_antenna m \<or> mentions ''imaging'' m \<and> uses_antenna n"

definition conflict_violation :: "activity \<Rightarrow> instant \<times> instant \<Rightarrow> activity \<Rightarrow> instant \<times> instant \<Rightarrow> plan_violation" where
  "conflict_violation a p b q =
     (let (loser, winner) = (if priority_of (ac_name b) \<le> priority_of (ac_name a) then (b, a) else (a, b)) in
      violation_of ''ConflictResolutionChecker'' Error loser
        (''Time overlap with '' @ quoted (ac_name winner) @ '' ('' @ isoformat (fst p) @ '' to '' @ isoformat (snd p) @
         ''); both require exclusive antenna/transmitter'')
        (''Delay '' @ quoted (ac_name loser) @ '' by at least '' @ fmt_fixed 0 (seconds_between (fst q) (snd q)) @ ''s''))"

fun conflicts_after :: "activity \<Rightarrow> instant \<times> instant \<Rightarrow> activity list \<Rightarrow> plan_violation list result" where
  "conflicts_after a p [] = Inr []"
| "conflicts_after a p (b # bs) =
     (if dropped b then conflicts_after a p bs
      else bind_result (activity_span b) (\<lambda>span. bind_result (conflicts_after a p bs) (\<lambda>vs. Inr ((case span of None \<Rightarrow> []
        | Some q \<Rightarrow> if spans_overlap p q \<and> have_exclusive_resources (ac_name a) (ac_name b) then [conflict_violation a p b q] else []) @ vs))))"

fun check_resource_conflicts :: "activity list \<Rightarrow> plan_violation list result" where
  "check_resource_conflicts [] = Inr []"
| "check_resource_conflicts (a # as) =
     (if dropped a then check_resource_conflicts as
      else bind_result (activity_span a) (\<lambda>span.
        bind_result (case span of None \<Rightarrow> Inr [] | Some p \<Rightarrow> conflicts_after a p as) (\<lambda>vs.
        bind_result (check_resource_conflicts as) (\<lambda>vs'. Inr (vs @ vs')))))"

section \<open>Validation\<close>

record validation_result =
  vr_violations :: "plan_violation list"
  vr_power :: "(py_float \<times> soc_entry list) option"
  vr_valid :: bool

definition new_validation :: validation_result where
  "new_validation = \<lparr>vr_violations = [], vr_power = None, vr_valid = True\<rparr>"

definition add_violations :: "plan_violation list \<Rightarrow> validation_result \<Rightarrow> validation_result" where
  "add_violations vs r = (let r' = r\<lparr>vr_violations := vr_violations r @ vs\<rparr> in
     if \<exists>v\<in>set vs. vi_severity v = Error then r'\<lparr>vr_valid := False\<rparr> else r')"

record summary =
  sm_valid :: bool
  sm_count :: nat
  sm_violations :: "plan_violation list"
  sm_errors :: nat
  sm_warnings :: nat

definition summary_of :: "validation_result \<Rightarrow> summary" where
  "summary_of r = \<lparr>sm_valid = vr_valid r, sm_count = length (vr_violations r), sm_violations = vr_violations r,
     sm_errors = length (filter (\<lambda>v. vi_severity v = Error) (vr_violations r)),
     sm_warnings = length (filter (\<lambda>v. vi_severity v = Warning) (vr_violations r))\<rparr>"

definition validate_plan :: "libm \<Rightarrow> activity list \<Rightarrow> (string \<times> bool) list \<Rightarrow> py_float \<Rightarrow> data_params \<Rightarrow> validation_result result" where
  "validate_plan lm acts track soc params =
     bind_result (check_plan_power default_power_checker acts soc track) (\<lambda>power.
     bind_result (check_slew_constraints lm default_aocs_checker acts) (\<lambda>slew.
     bind_result (check_payload_duty_cycle default_thermal_checker acts) (\<lambda>duty.
     bind_result (check_cooldown_periods default_thermal_checker acts) (\<lambda>cool.
     bind_result (check_storage_capacity (from_params params) acts f0) (\<lambda>data.
     bind_result (check_resource_conflicts acts) (\<lambda>conflicts.
       Inr (fold add_violations
         [pr_violations power, slew, check_momentum_budget default_aocs_checker acts, duty, cool, data, conflicts]
         (new_validation\<lparr>vr_power := Some (pr_final_soc power, pr_timeline power)\<rparr>))))))))"

end
