(* ===== verification/Planner_Schedule.thy ===== *)
theory Planner_Schedule
  imports Planner_Constraints Py_State
begin

text \<open>
  The activity scheduler of the planner (\<open>smo_planner/activity_scheduler.py\<close>) and the request that edits an
  activity (\<open>_handle_update_activity\<close> of \<open>server.py\<close>). Keyword arguments and request fields that are
  written over the defaults of an activity are a function on activities.
\<close>

section \<open>State\<close>

record planner =
  sd_types :: "string \<rightharpoonup> activity_type"
  sd_data :: data_params
  sd_schedule :: "activity list"
  sd_next :: int

definition new_planner :: "activity_type list \<Rightarrow> data_params \<Rightarrow> planner" where
  "new_planner ts p = \<lparr>sd_types = types_index ts, sd_data = p, sd_schedule = [], sd_next = 1\<rparr>"

definition type_of :: "planner \<Rightarrow> string \<Rightarrow> activity_type" where
  "type_of d name = or_else (sd_types d name) (untyped name)"

text \<open>A new activity with the defaults of its type, before the keyword arguments.\<close>

definition from_type :: "int \<Rightarrow> activity_type \<Rightarrow> string \<Rightarrow> string \<Rightarrow> activity" where
  "from_type k t name start =
     \<lparr>ac_id = k, ac_name = name, ac_start = start, ac_duration = type_duration t, ac_power = or_else (at_power t) (Whole 0),
      ac_volume = or_else (at_volume t) (Whole 0), ac_priority = or_else (at_priority t) ''medium'', ac_procedure = at_procedure t,
      ac_commands = at_commands t, ac_conflicts = at_conflicts t, ac_pre = at_pre t, ac_state = state_code PLANNED,
      ac_state_name = state_label PLANNED, ac_warnings = [], ac_pass = None, ac_pass_gs = None, ac_pass_aos = None, ac_pass_los = None,
      ac_offset = None, ac_capture_lat = None, ac_capture_lon = None, ac_max_elevation = None, ac_pass_elevation = None\<rparr>"

section \<open>Conflicts\<close>

definition conflict_text :: "activity \<Rightarrow> string" where
  "conflict_text x = ''Conflicts with '' @ ac_name x @ '' (id='' @ str_int (ac_id x) @ '')''"

definition check_conflicts :: "activity list \<Rightarrow> activity \<Rightarrow> string list" where
  "check_conflicts sched a = map conflict_text (filter (\<lambda>x. \<not> cancelled_or_failed x \<and> ac_start a \<noteq> [] \<and> ac_start x \<noteq> [] \<and>
     (ac_name x \<in> set (ac_conflicts a) \<or> ac_name a \<in> set (ac_conflicts x))) sched)"

definition overlap_text :: "activity \<Rightarrow> string" where
  "overlap_text x = ''Time overlap with '' @ quoted (ac_name x) @ '' (id='' @ str_int (ac_id x) @ '', '' @ ac_start x @ '' +'' @ num_text (ac_duration x) @ ''s)''"

fun overlaps_in :: "int \<Rightarrow> instant \<times> instant \<Rightarrow> activity list \<Rightarrow> string list result" where
  "overlaps_in k p [] = Inr []"
| "overlaps_in k p (x # xs) =
     (if cancelled_or_failed x \<or> ac_id x = k then overlaps_in k p xs
      else bind_result (activity_span x) (\<lambda>span. bind_result (overlaps_in k p xs) (\<lambda>os.
        Inr ((case span of None \<Rightarrow> [] | Some q \<Rightarrow> if spans_overlap p q then [overlap_text x] else []) @ os))))"

definition check_time_overlap :: "activity list \<Rightarrow> activity \<Rightarrow> string list result" where
  "check_time_overlap sched a = bind_result (activity_span a) (\<lambda>span. case span of None \<Rightarrow> Inr [] | Some p \<Rightarrow> overlaps_in (ac_id a) p sched)"

section \<open>Adding, changing and deleting\<close>

definition take_id :: "(planner, int) py" where
  "take_id = bind_py (gets sd_next) (\<lambda>n. seq_py (modify (\<lambda>d. d\<lparr>sd_next := n + 1\<rparr>)) (ret n))"

definition add_activity :: "string \<Rightarrow> string \<Rightarrow> (activity \<Rightarrow> activity) \<Rightarrow> (planner, activity) py" where
  "add_activity name start kwargs =
     bind_py (gets (\<lambda>d. kwargs (from_type (sd_next d) (type_of d name) name start))) (\<lambda>a.
     seq_py take_id
       (bind_py (gets (\<lambda>d. check_conflicts (sd_schedule d) a)) (\<lambda>cs.
        bind_py (bind_py (gets (\<lambda>d. check_time_overlap (sd_schedule d) a)) of_result) (\<lambda>os.
        let a' = (if cs @ os = [] then a else a\<lparr>ac_warnings := cs @ os\<rparr>) in
        seq_py (modify (\<lambda>d. d\<lparr>sd_schedule := by_start (sd_schedule d @ [a'])\<rparr>)) (ret a')))))"

definition get_activity :: "planner \<Rightarrow> int \<Rightarrow> activity option" where
  "get_activity d k = List.find (\<lambda>a. ac_id a = k) (sd_schedule d)"

fun change_first :: "int \<Rightarrow> (activity \<Rightarrow> activity) \<Rightarrow> activity list \<Rightarrow> activity list" where
  "change_first k f [] = []"
| "change_first k f (a # as) = (if ac_id a = k then f a # as else a # change_first k f as)"

fun delete_first :: "int \<Rightarrow> activity list \<Rightarrow> activity list" where
  "delete_first k [] = []"
| "delete_first k (a # as) = (if ac_id a = k then as else a # delete_first k as)"

definition change_activity :: "int \<Rightarrow> (activity \<Rightarrow> activity) \<Rightarrow> planner \<Rightarrow> planner" where
  "change_activity k f d = d\<lparr>sd_schedule := change_first k f (sd_schedule d)\<rparr>"

definition update_state :: "int \<Rightarrow> activity_state \<Rightarrow> planner \<Rightarrow> bool \<times> planner" where
  "update_state k s d =
     (get_activity d k \<noteq> None, change_activity k (\<lambda>a. a\<lparr>ac_state := state_code s, ac_state_name := state_label s\<rparr>) d)"

definition delete_activity :: "int \<Rightarrow> planner \<Rightarrow> bool \<times> planner" where
  "delete_activity k d = (get_activity d k \<noteq> None, d\<lparr>sd_schedule := delete_first k (sd_schedule d)\<rparr>)"

definition clear_schedule :: "planner \<Rightarrow> nat \<times> planner" where
  "clear_schedule d = (length (sd_schedule d), d\<lparr>sd_schedule := []\<rparr>)"

definition clear :: "planner \<Rightarrow> planner" where
  "clear d = d\<lparr>sd_schedule := [], sd_next := 1\<rparr>"

definition get_command_sequence :: "planner \<Rightarrow> int \<Rightarrow> pyval list" where
  "get_command_sequence d k = (case get_activity d k of None \<Rightarrow> [] | Some a \<Rightarrow> ac_commands a)"

text \<open>The request that edits an activity: a new state by its name, then a start, a duration and a priority.\<close>

datatype edit_reply = NotFound | InvalidState | Edited "activity option"

definition state_named :: "string \<Rightarrow> activity_state option" where
  "state_named s = List.find (\<lambda>x. state_label x = s) [PLANNED, VALIDATED, UPLOADED, EXECUTING, COMPLETED, FAILED, CANCELLED]"

definition upper_char :: "char \<Rightarrow> char" where
  "upper_char c = (if 97 \<le> (of_char c :: nat) \<and> (of_char c :: nat) \<le> 122 then char_of ((of_char c :: nat) - 32) else c)"

definition edit_activity :: "int \<Rightarrow> string option \<Rightarrow> string option \<Rightarrow> number option \<Rightarrow> string option \<Rightarrow> planner \<Rightarrow> edit_reply \<times> planner" where
  "edit_activity k state start duration priority d =
     (let fields = change_activity k (\<lambda>a. a\<lparr>ac_start := or_else start (ac_start a), ac_duration := or_else duration (ac_duration a),
            ac_priority := or_else priority (ac_priority a)\<rparr>);
          finish = (\<lambda>d. (Edited (get_activity (fields d) k), fields d))
      in if get_activity d k = None then (NotFound, d)
         else (case state of None \<Rightarrow> finish d
           | Some s \<Rightarrow> (case state_named (map upper_char s) of None \<Rightarrow> (InvalidState, d)
               | Some x \<Rightarrow> finish (snd (update_state k x d)))))"

section \<open>Scheduling in a pass\<close>

record contact =
  ct_aos :: string
  ct_los :: string
  ct_gs :: string

text \<open>
  The messages of the \<open>ValueError\<close> are not modelled. The keyword arguments contain none of the fields of
  the pass, which the call writes itself.
\<close>

definition with_pass :: "int \<Rightarrow> contact \<Rightarrow> number \<Rightarrow> activity \<Rightarrow> activity" where
  "with_pass pass_id c offset a = a\<lparr>ac_pass := Some pass_id, ac_pass_gs := Some (ct_gs c), ac_pass_aos := Some (ct_aos c),
     ac_pass_los := Some (ct_los c), ac_offset := Some offset\<rparr>"

definition pass_duration :: "planner \<Rightarrow> string \<Rightarrow> (activity \<Rightarrow> activity) \<Rightarrow> number" where
  "pass_duration d name kwargs = ac_duration (kwargs (from_type (sd_next d) (type_of d name) name []))"

text \<open>The start of the activity, when it fits into the pass.\<close>

definition start_in_pass :: "contact \<Rightarrow> number \<Rightarrow> number \<Rightarrow> instant result" where
  "start_in_pass c offset duration = (case (parse_iso (ct_aos c), parse_iso (ct_los c)) of
       (Some aos, Some los) \<Rightarrow> bind_result (plus_minutes aos offset) (\<lambda>s. bind_result (plus_seconds s duration) (\<lambda>e.
         if earlier los e then Inl ValueError else if earlier s aos then Inl ValueError else Inr s))
     | _ \<Rightarrow> Inl ValueError)"

definition schedule_pass_activity :: "int \<Rightarrow> number \<Rightarrow> string \<Rightarrow> contact list \<Rightarrow> (activity \<Rightarrow> activity) \<Rightarrow> (planner, activity) py" where
  "schedule_pass_activity pass_id offset name contacts kwargs =
     (if contacts = [] \<or> pass_id < 1 \<or> int (length contacts) < pass_id \<or> fless (exact offset) f0 then raise ValueError
      else let c = contacts ! nat (pass_id - 1) in
        bind_py (bind_py (gets (\<lambda>d. start_in_pass c offset (pass_duration d name kwargs))) of_result) (\<lambda>s.
          add_activity name (isoformat s) (kwargs \<circ> with_pass pass_id c offset)))"

section \<open>Pre-conditions\<close>

text \<open>
  The regular expression of a condition has neighbouring parts without common characters, so a match is
  found by taking as many characters as possible for each part.
\<close>

definition is_word :: "char \<Rightarrow> bool" where
  "is_word c \<longleftrightarrow> (let n = of_char c :: nat in 48 \<le> n \<and> n \<le> 57 \<or> 65 \<le> n \<and> n \<le> 90 \<or> 97 \<le> n \<and> n \<le> 122 \<or> c = CHR ''_'' \<or> c = CHR ''.'')"

definition is_operator :: "char \<Rightarrow> bool" where
  "is_operator c \<longleftrightarrow> c \<in> set ''><=!''"

definition is_numeric :: "char \<Rightarrow> bool" where
  "is_numeric c \<longleftrightarrow> is_digit_of 10 c \<or> c \<in> set ''.eE+-''"

definition match_condition :: "string \<Rightarrow> (string \<times> string \<times> string) option" where
  "match_condition s =
     (let s1 = dropWhile is_space s; param = takeWhile is_word s1; s2 = dropWhile is_space (dropWhile is_word s1);
          op = takeWhile is_operator s2; s3 = dropWhile is_space (dropWhile is_operator s2);
          num = takeWhile is_numeric s3; rest = dropWhile is_numeric s3
      in if param = [] \<or> op = [] \<or> num = [] \<or> \<not> list_all is_space rest then None else Some (param, op, num))"

definition satisfied :: "string \<Rightarrow> py_float \<Rightarrow> py_float \<Rightarrow> bool option" where
  "satisfied op actual threshold =
     (let near = fless (fabs (fsub actual threshold)) (fl (1 / 1000000)) in
      if op = ''>'' then Some (fless threshold actual)
      else if op = ''>='' then Some (fle threshold actual)
      else if op = ''<'' then Some (fless actual threshold)
      else if op = ''<='' then Some (fle actual threshold)
      else if op = ''=='' \<or> op = ''='' then Some near
      else if op = ''!='' \<or> op = ''<>'' then Some (fle (fl (1 / 1000000)) (fabs (fsub actual threshold)))
      else None)"

definition unmet :: "(string \<rightharpoonup> py_float) \<Rightarrow> string \<Rightarrow> string list" where
  "unmet tm cond = (case match_condition cond of None \<Rightarrow> [''Unparseable pre-condition: '' @ cond]
     | Some (param, op, num) \<Rightarrow> (case parse_float num of None \<Rightarrow> [''Invalid threshold in: '' @ cond]
         | Some threshold \<Rightarrow> (case tm param of None \<Rightarrow> [''Telemetry '' @ quoted param @ '' not available for: '' @ cond]
             | Some actual \<Rightarrow> (case satisfied op actual threshold of None \<Rightarrow> [''Unknown operator '' @ quoted op @ '' in: '' @ cond]
                 | Some True \<Rightarrow> []
                 | Some False \<Rightarrow> [''Pre-condition NOT met: '' @ cond @ '' (actual '' @ param @ ''='' @ fmt_fixed 2 actual @ '')'']))))"

definition check_pre_conditions :: "activity \<Rightarrow> (string \<rightharpoonup> py_float) option \<Rightarrow> string list" where
  "check_pre_conditions a tm = (case tm of None \<Rightarrow> [] | Some t \<Rightarrow> concat (map (unmet t) (ac_pre a)))"

section \<open>Validation\<close>

record issue =
  is_activity :: "int option"
  is_kind :: string
  is_text :: string

definition issues_of :: "activity \<Rightarrow> string \<Rightarrow> string list \<Rightarrow> issue list" where
  "issues_of a kind ts = map (\<lambda>t. \<lparr>is_activity = Some (ac_id a), is_kind = kind, is_text = t\<rparr>) ts"

definition boundary_text :: "instant \<Rightarrow> instant \<Rightarrow> int \<Rightarrow> string" where
  "boundary_text e los pass_id = ''Activity extends past LOS ('' @ isoformat e @ '' > '' @ isoformat los @ '') for pass '' @ str_int pass_id"

definition check_pass_boundary :: "contact list \<Rightarrow> activity \<Rightarrow> string list result" where
  "check_pass_boundary contacts a = (case ac_pass a of None \<Rightarrow> Inr []
     | Some p \<Rightarrow> if p < 1 \<or> int (length contacts) < p then Inr []
         else (case (parse_iso (ac_start a), parse_iso (ct_los (contacts ! nat (p - 1)))) of
             (Some s, Some los) \<Rightarrow> bind_result (plus_seconds s (ac_duration a)) (\<lambda>e. Inr (if earlier los e then [boundary_text e los p] else []))
           | _ \<Rightarrow> Inr []))"

fun activity_issues :: "contact list \<Rightarrow> (string \<rightharpoonup> py_float) option \<Rightarrow> activity list \<Rightarrow> activity list \<Rightarrow> issue list result" where
  "activity_issues contacts tm sched [] = Inr []"
| "activity_issues contacts tm sched (a # as) =
     (if cancelled_or_failed a then activity_issues contacts tm sched as
      else bind_result (check_time_overlap sched a) (\<lambda>os. bind_result (check_pass_boundary contacts a) (\<lambda>bs.
        bind_result (activity_issues contacts tm sched as) (\<lambda>rest.
          Inr (issues_of a ''conflict'' (check_conflicts sched a) @ issues_of a ''time_overlap'' os @
            issues_of a ''pre_condition'' (check_pre_conditions a tm) @ issues_of a ''pass_boundary'' bs @ rest)))))"

definition budget_issues :: "string \<Rightarrow> string list option \<Rightarrow> issue list" where
  "budget_issues kind ws = map (\<lambda>t. \<lparr>is_activity = None, is_kind = kind, is_text = t\<rparr>) (or_else ws [])"

definition validate_pass_plan :: "planner \<Rightarrow> contact list \<Rightarrow> string list option \<Rightarrow> string list option \<Rightarrow> (string \<rightharpoonup> py_float) option \<Rightarrow> issue list result" where
  "validate_pass_plan d contacts pw dw tm =
     bind_result (activity_issues contacts tm (sd_schedule d) (sd_schedule d)) (\<lambda>issues.
       Inr (issues @ budget_issues ''power_constraint'' pw @ budget_issues ''data_constraint'' dw))"

definition validate_schedule :: "planner \<Rightarrow> issue list" where
  "validate_schedule d = concat (map (\<lambda>a. issues_of a ''conflict'' (check_conflicts (sd_schedule d) a)) (filter (\<lambda>a. \<not> cancelled_or_failed a) (sd_schedule d)))"

section \<open>Constraint checks of the schedule\<close>

definition validate_constraints :: "libm \<Rightarrow> planner \<Rightarrow> (string \<times> bool) list \<Rightarrow> py_float \<Rightarrow> validation_result result" where
  "validate_constraints lm d track soc = validate_plan lm (sd_schedule d) track soc (sd_data d)"

definition check_power_constraints :: "planner \<Rightarrow> (string \<times> bool) list \<Rightarrow> power_result result" where
  "check_power_constraints d track = check_plan_power default_power_checker (sd_schedule d) (Fin False 80) track"

definition check_aocs_constraints :: "libm \<Rightarrow> planner \<Rightarrow> (plan_violation list \<times> plan_violation list) result" where
  "check_aocs_constraints lm d =
     bind_result (check_slew_constraints lm default_aocs_checker (filter (\<lambda>a. mentions ''imaging'' (ac_name a)) (sd_schedule d))) (\<lambda>slew.
       Inr (slew, check_momentum_budget default_aocs_checker (sd_schedule d)))"

definition check_thermal_constraints :: "planner \<Rightarrow> (plan_violation list \<times> plan_violation list) result" where
  "check_thermal_constraints d =
     bind_result (check_payload_duty_cycle default_thermal_checker (sd_schedule d)) (\<lambda>duty.
     bind_result (check_cooldown_periods default_thermal_checker (sd_schedule d)) (\<lambda>cool. Inr (duty, cool)))"

definition check_data_volume_constraints :: "planner \<Rightarrow> py_float \<Rightarrow> plan_violation list result" where
  "check_data_volume_constraints d onboard = check_storage_capacity (from_params (sd_data d)) (sd_schedule d) onboard"

definition check_schedule_conflicts :: "planner \<Rightarrow> plan_violation list result" where
  "check_schedule_conflicts d = check_resource_conflicts (sd_schedule d)"

end
