(* ===== verification/Iso_Rules.thy ===== *)
theory Iso_Rules
  imports Iso_Time
begin

text \<open>Reading an ISO timestamp inverts writing it.\<close>

section \<open>Calendar\<close>

lemma last_below_result:
  assumes "start k < n"
  shows "k \<le> last_below fuel start k n \<and> last_below fuel start k n \<le> k + int fuel \<and> start (last_below fuel start k n) < n \<and>
    (n \<le> start (last_below fuel start k n + 1) \<or> last_below fuel start k n = k + int fuel)"
  using assms
proof (induction fuel arbitrary: k)
  case (Suc fuel)
  show ?case
  proof (cases "start (k + 1) < n")
    case True
    then have e: "last_below (Suc fuel) start k n = last_below fuel start (k + 1) n" by simp
    have "k + int (Suc fuel) = k + 1 + int fuel" by simp
    then show ?thesis using Suc.IH [OF True] unfolding e by auto
  next
    case False
    then show ?thesis using Suc.prems by simp
  qed
qed simp

lemma div_step: "0 < c \<Longrightarrow> (y :: int) div c - (y - 1) div c = (if y mod c = 0 then 1 else 0)"
proof -
  assume c: "0 < c"
  have y: "y = c * (y div c) + y mod c" "0 \<le> y mod c" "y mod c < c" using c by simp_all
  show ?thesis
  proof (cases "y mod c = 0")
    case True
    then have "y - 1 = c * (y div c - 1) + (c - 1)" using y(1) by (simp add: algebra_simps)
    then have "(y - 1) div c = y div c - 1" using c by (metis div_mult_self4 div_pos_pos_trivial diff_ge_0_iff_ge add.right_neutral
          int_one_le_iff_zero_less less_diff_eq zle_diff1_eq add.commute diff_add_cancel less_add_one not_less)
    then show ?thesis using True by simp
  next
    case False
    then have "y - 1 = c * (y div c) + (y mod c - 1)" "0 \<le> y mod c - 1" "y mod c - 1 < c" using y by linarith+
    then have "(y - 1) div c = y div c" by (metis int_div_pos_eq)
    then show ?thesis using False by simp
  qed
qed

lemma year_sum: "(a - a') - (b - b') + (c - c') = l \<Longrightarrow> d = y * 365 + a - b + c \<Longrightarrow> e = (y - 1) * 365 + a' - b' + c' \<Longrightarrow> d - e = 365 + l"
  for a b c d e l y a' b' c' :: int
  by (simp add: algebra_simps)

lemma year_length: "days_before_year (y + 1) = days_before_year y + (if is_leap y then 366 else 365)"
proof -
  have b: "(if a then 1 else 0) - (if b then 1 else 0) + (if c then 1 else 0) = (if a \<and> (b \<longrightarrow> c) then 1 else 0 :: int)"
    if "c \<longrightarrow> b" "b \<longrightarrow> a" for a b c using that by (cases a; cases b; cases c) simp_all
  have "(if y mod 4 = 0 then 1 else 0) - (if y mod 100 = 0 then 1 else 0) + (if y mod 400 = 0 then 1 else 0) = (if is_leap y then 1 else 0 :: int)"
    unfolding is_leap_def imp_conv_disj [symmetric] not_not by (subst b) (presburger, presburger, simp)
  then have "(y div 4 - (y - 1) div 4) - (y div 100 - (y - 1) div 100) + (y div 400 - (y - 1) div 400) = (if is_leap y then 1 else 0)"
    by (simp only: div_step [of 4 y, OF zero_less_numeral] div_step [of 100 y, OF zero_less_numeral] div_step [of 400 y, OF zero_less_numeral])
  moreover have "days_before_year (y + 1) = y * 365 + y div 4 - y div 100 + y div 400" by (simp add: days_before_year_def Let_def)
  moreover have "days_before_year y = (y - 1) * 365 + (y - 1) div 4 - (y - 1) div 100 + (y - 1) div 400" by (simp add: days_before_year_def Let_def)
  ultimately have "days_before_year (y + 1) - days_before_year y = 365 + (if is_leap y then 1 else 0)" by (rule year_sum)
  then show ?thesis by (simp split: if_splits)
qed

lemma month_step: "1 \<le> m \<Longrightarrow> days_before_month y (m + 1) = days_before_month y m + days_in_month y m"
  using upto_rec2 [of 1 m] by (simp add: days_before_month_def)

lemma months_of_year: "days_before_month y 13 = (if is_leap y then 366 else 365)"
  by (simp add: days_before_month_def days_in_month_def upto.simps)

lemma year_bounds: "365 * (y - 1) \<le> days_before_year y \<and> days_before_year y \<le> 366 * (y - 1)" if "1 \<le> y" for y
proof -
  have "(y - 1) div 100 \<le> (y - 1) div 4" "(y - 1) div 400 \<le> (y - 1) div 100" "0 \<le> (y - 1) div 400" "(y - 1) div 4 \<le> y - 1"
    using that by (auto intro!: zdiv_mono2)
  moreover have "(y - 1) div 4 \<le> y - 1" using that by simp
  ultimately show ?thesis by (simp add: days_before_year_def Let_def)
qed

lemma ord2ymd_correct:
  assumes "1 \<le> n" "n \<le> max_ordinal" "ord2ymd n = (y, m, d)"
  shows "1 \<le> y \<and> y \<le> 9999 \<and> 1 \<le> m \<and> m \<le> 12 \<and> 1 \<le> d \<and> d \<le> days_in_month y m \<and> ymd2ord y m d = n"
proof -
  define p where "p = (n - 1) div 366"
  have p: "0 \<le> p" "366 * p \<le> n - 1" "n - 1 < 366 * p + 366" "p \<le> 9978"
    using assms(1,2) by (auto simp: p_def max_ordinal_def)
  define z where "z = last_below 31 days_before_year (p + 1) n"
  have s: "days_before_year (p + 1) < n" using year_bounds [of "p + 1"] p by simp
  have z: "p + 1 \<le> z" "z \<le> p + 32" "days_before_year z < n" "n \<le> days_before_year (z + 1) \<or> z = p + 32"
    using last_below_result [of days_before_year "p + 1" n 31, OF s] by (simp_all add: z_def algebra_simps)
  have top: "n \<le> days_before_year (z + 1)"
  proof (cases "z = p + 32")
    case True
    then have e: "z + 1 = p + 33" by simp
    have "n \<le> days_before_year (p + 33)" using year_bounds [THEN conjunct1, of "p + 33"] p by simp
    then show ?thesis by (simp only: e)
  qed (use z(4) in simp)
  define r where "r = n - days_before_year z"
  have r: "1 \<le> r" "r \<le> days_before_month z 13" using z(3) top year_length [of z] months_of_year [of z] by (simp_all add: r_def)
  have one: "days_before_month z 1 < r" using r(1) by (simp add: days_before_month_def)
  define k where "k = last_below 11 (days_before_month z) 1 r"
  have k: "1 \<le> k" "k \<le> 12" "days_before_month z k < r" "r \<le> days_before_month z (k + 1) \<or> k = 12"
    using last_below_result [of "days_before_month z" 1 r 11, OF one] by (simp_all add: k_def)
  have last: "r \<le> days_before_month z k + days_in_month z k"
    using k(4) r(2) month_step [OF k(1), of z] by auto
  have e: "y = z" "m = k" "d = r - days_before_month z k"
    using assms(3) by (auto simp: ord2ymd_def Let_def z_def [symmetric] p_def [symmetric] r_def [symmetric] k_def [symmetric])
  have "z \<le> 9999"
  proof (rule ccontr)
    assume "\<not> z \<le> 9999"
    then have "days_before_year 10000 \<le> days_before_year z"
    proof (induction "nat (z - 10000)" arbitrary: z)
      case 0
      then have "z = 10000" by auto
      then show ?case by simp
    next
      case (Suc j)
      then have "days_before_year 10000 \<le> days_before_year (z - 1)" by (intro Suc(1)) auto
      then show ?case using year_length [of "z - 1"] by (simp split: if_splits)
    qed
    then show False using z(3) assms(2) by (simp add: days_before_year_def max_ordinal_def)
  qed
  then show ?thesis
    using k last z(1) p(1) by (simp add: e ymd2ord_def r_def)
qed

section \<open>Digits\<close>

lemma decimal_digits: "list_all (is_digit_of 10) (decimal k) \<and> digits_nat 10 (map (the \<circ> digit_value) (decimal k)) = k \<and> decimal k \<noteq> []"
proof (induction k rule: decimal.induct)
  case (1 n)
  have "\<forall>j\<in>set [0..<10]. is_digit_of 10 (''0123456789'' ! j) \<and> the (digit_value (''0123456789'' ! j)) = j" by code_simp
  then have d: "is_digit_of 10 (''0123456789'' ! j) \<and> the (digit_value (''0123456789'' ! j)) = j" if "j < 10" for j
    using that by simp
  show ?case
  proof (cases "n < 10")
    case True
    then show ?thesis using d [of n] by (subst (1 2 3) decimal.simps) (simp add: digits_nat_def)
  next
    case False
    then show ?thesis using d [of "n mod 10"] 1 by (subst (1 2 3) decimal.simps) (simp add: digits_nat_def comp_def)
  qed
qed

lemma padded_digits:
  assumes "0 \<le> k" "k < 10 ^ n" "0 < n"
  shows "length (padded n k) = n \<and> digits (padded n k) = Some k"
proof -
  have len: "j < 10 ^ i \<Longrightarrow> 0 < i \<Longrightarrow> length (decimal j) \<le> i" for i j
  proof (induction j arbitrary: i rule: decimal.induct)
    case (1 j)
    show ?case
    proof (cases "j < 10")
      case True
      then show ?thesis using 1(3) by (subst decimal.simps) simp
    next
      case False
      then obtain i' where i: "i = Suc i'" "0 < i'" using 1(2,3) by (cases i; cases "i - 1") auto
      have "length (decimal (j div 10)) \<le> i'" using 1(2) i by (intro 1(1) [OF False]) auto
      then show ?thesis using False i by (subst decimal.simps) simp
    qed
  qed
  have l: "length (decimal (nat k)) \<le> n" using assms by (intro len) (auto simp: nat_less_iff)
  have z: "digits_nat 10 (map (the \<circ> digit_value) (replicate i (CHR ''0'') @ s)) = digits_nat 10 (map (the \<circ> digit_value) s)" for i s
    by (induction i) (simp_all add: digits_nat_def digit_value_def)
  have "is_digit_of 10 (CHR ''0'')" by (simp add: is_digit_of_def digit_value_def)
  then show ?thesis
    using l assms decimal_digits [of "nat k"] z by (auto simp: padded_def digits_def Let_def list_all_iff simp del: map_append map_replicate)
qed

lemma padded_chars: "c \<in> set (padded n k) \<Longrightarrow> is_digit_of 10 c"
proof -
  have "is_digit_of 10 (CHR ''0'')" by (simp add: is_digit_of_def digit_value_def)
  then show "c \<in> set (padded n k) \<Longrightarrow> ?thesis" using decimal_digits [of "nat k"] by (auto simp: padded_def Let_def list_all_iff)
qed

section \<open>Times\<close>

lemma sexagesimal: "h * 60 + m = q \<Longrightarrow> q * 60 + x = s \<Longrightarrow> h * 3600 + m * 60 + x = s" for h m q x s :: int
  by simp

lemma read_hms_parts:
  assumes "0 \<le> h" "h < 24" "0 \<le> m" "m < 60" "0 \<le> x" "x < 60"
  defines "t \<equiv> padded 2 h @ '':'' @ padded 2 m @ '':'' @ padded 2 x"
  shows "length t = 8 \<and> read_hms t = Some (h * 3600 + m * 60 + x) \<and> read_hms (take 5 t) = Some (h * 3600 + m * 60)"
proof -
  have p: "length (padded 2 k) = 2 \<and> digits (padded 2 k) = Some k" if "0 \<le> k" "k < 60" for k
    using padded_digits [of k 2] that by simp
  show ?thesis
    using p [of h] p [of m] p [of x] assms(1-6) by (simp add: t_def read_hms_def checked_def nth_append)
qed

lemma read_hms_hms:
  assumes "0 \<le> s" "s < 86400"
  shows "length (hms s) = 8 \<and> read_hms (hms s) = Some s \<and> (s mod 60 = 0 \<longrightarrow> read_hms (take 5 (hms s)) = Some s)"
proof -
  have c: "(3600 :: int) = 60 * 60" by simp
  have e: "s div 3600 = s div 60 div 60" unfolding c by (rule zdiv_zmult2_eq) simp
  have sum: "s div 3600 * 3600 + s div 60 mod 60 * 60 + s mod 60 = s"
    unfolding e by (rule sexagesimal [OF div_mult_mod_eq div_mult_mod_eq])
  have b: "0 \<le> s div 3600" "s div 3600 < 24" using assms by auto
  have k: "0 \<le> j mod 60 \<and> j mod 60 < 60" for j :: int by simp
  note r = read_hms_parts [OF b k [THEN conjunct1] k [THEN conjunct2] k [THEN conjunct1] k [THEN conjunct2], of "s div 60" s, folded hms_def]
  have zero: "s mod 60 = 0 \<Longrightarrow> s div 3600 * 3600 + s div 60 mod 60 * 60 = s" using sum by linarith
  show ?thesis using r unfolding sum using zero by metis
qed

lemma no_sign: "is_digit_of 10 c \<Longrightarrow> \<not> is_sign c" "is_digit_of 10 c \<Longrightarrow> c \<noteq> CHR ''Z''"
  by (auto simp: is_digit_of_def digit_value_def is_sign_def)

lemma hms_chars: "c \<in> set (hms s) \<Longrightarrow> is_digit_of 10 c \<or> c = CHR '':''"
  using padded_chars by (auto simp: hms_def)

lemma take_chars: "c \<in> set (take n xs) \<Longrightarrow> c \<in> set xs"
  by (rule in_set_takeD)

lemma read_time_written:
  assumes "0 \<le> r" "r < us_per_day"
  shows "read_time (hms (r div 1000000) @ (if r mod 1000000 = 0 then [] else ''.'' @ padded 6 (r mod 1000000))) = Some r"
proof -
  have h: "length (hms (r div 1000000)) = 8" "read_hms (hms (r div 1000000)) = Some (r div 1000000)"
    using read_hms_hms [of "r div 1000000"] assms by (auto simp: us_per_day_def)
  have p: "length (padded 6 (r mod 1000000)) = 6 \<and> digits (padded 6 (r mod 1000000)) = Some (r mod 1000000)"
    using padded_digits [of "r mod 1000000" 6] by simp
  have sum: "r div 1000000 * 1000000 + r mod 1000000 = r" by simp
  show ?thesis
  proof (cases "r mod 1000000 = 0")
    case True
    then show ?thesis using h sum by (simp add: read_time_def)
  next
    case False
    then show ?thesis using h p sum by (simp add: read_time_def nth_append)
  qed
qed

lemma read_offset_written:
  assumes "\<bar>z\<bar> < 86400"
  shows "read_offset (iso_offset z) = Some z \<and> (\<exists>c r. iso_offset z = c # r \<and> is_sign c)"
proof -
  have h: "length (hms \<bar>z\<bar>) = 8" "read_hms (hms \<bar>z\<bar>) = Some \<bar>z\<bar>" "\<bar>z\<bar> mod 60 = 0 \<longrightarrow> read_hms (take 5 (hms \<bar>z\<bar>)) = Some \<bar>z\<bar>"
    using read_hms_hms [of "\<bar>z\<bar>"] assms by auto
  then show ?thesis by (auto simp: read_offset_def iso_offset_def is_sign_def Let_def)
qed

lemma read_date_written:
  assumes "1 \<le> n" "n \<le> max_ordinal"
  shows "length (iso_date n) = 10 \<and> read_date (iso_date n) = Some n"
proof -
  obtain y m d where e: "ord2ymd n = (y, m, d)" by (cases "ord2ymd n")
  note c = ord2ymd_correct [OF assms e]
  have d: "d \<le> 31" using c by (auto simp: days_in_month_def split: if_splits)
  have p: "length (padded 4 y) = 4 \<and> digits (padded 4 y) = Some y" "length (padded 2 m) = 2 \<and> digits (padded 2 m) = Some m"
    "length (padded 2 d) = 2 \<and> digits (padded 2 d) = Some d"
    using padded_digits [of y 4] padded_digits [of m 2] padded_digits [of d 2] c d by auto
  then show ?thesis using c by (simp add: iso_date_def e read_date_def checked_def nth_append)
qed

lemma iso_date_chars: "c \<in> set (iso_date n) \<Longrightarrow> is_digit_of 10 c \<or> c = CHR ''-''"
  using padded_chars by (auto simp: iso_date_def split: prod.splits)

lemma expand_z_id: "CHR ''Z'' \<notin> set s \<Longrightarrow> expand_z s = s"
  by (induction s) (auto simp: expand_z_def)

lemma iso_offset_chars: "c \<in> set (iso_offset z) \<Longrightarrow> c \<noteq> CHR ''Z''"
  using hms_chars no_sign(2) by (fastforce simp: iso_offset_def Let_def split: if_splits dest: take_chars)

text \<open>
  A written timestamp is read back: for every time of the calendar and every offset from UTC of less than a
  day, to the microsecond.
\<close>

theorem timestamp_read_back:
  assumes "in_calendar (it_local t)" "\<bar>it_offset t\<bar> < 86400"
  shows "parse_iso (isoformat t) = Some t"
proof -
  define n r where "n = it_local t div us_per_day + 1" and "r = it_local t mod us_per_day"
  have n: "1 \<le> n" "n \<le> max_ordinal" and r: "0 \<le> r" "r < us_per_day"
    using assms(1) by (auto simp: n_def r_def in_calendar_def us_per_day_def max_ordinal_def)
  have l: "(n - 1) * us_per_day + r = it_local t" by (simp add: n_def r_def us_per_day_def)
  define time where "time = hms (r div 1000000) @ (if r mod 1000000 = 0 then [] else ''.'' @ padded 6 (r mod 1000000))"
  have iso: "isoformat t = iso_date n @ ''T'' @ time @ iso_offset (it_offset t)"
    by (simp add: isoformat_def n_def r_def time_def Let_def)
  have tc: "\<not> is_sign c \<and> c \<noteq> CHR ''Z''" if "c \<in> set time" for c
    using that hms_chars [of c] padded_chars [of c] no_sign [of c] by (auto simp: time_def is_sign_def split: if_splits)
  obtain c z where z: "iso_offset (it_offset t) = c # z" "is_sign c" using read_offset_written [OF assms(2)] by blast
  have cut: "takeWhile (\<lambda>c. \<not> is_sign c) (time @ c # z) = time" "dropWhile (\<lambda>c. \<not> is_sign c) (time @ c # z) = c # z"
    using tc z(2) by (auto simp: takeWhile_append dropWhile_append)
  have "CHR ''Z'' \<notin> set (isoformat t)"
    using tc iso_date_chars [of "CHR ''Z''" n] iso_offset_chars no_sign(2) by (auto simp: iso)
  then have "parse_iso (isoformat t) = fromisoformat (iso_date n @ ''T'' @ time @ c # z)"
    by (simp add: parse_iso_def expand_z_id iso z)
  also have "\<dots> = Some \<lparr>it_local = (n - 1) * us_per_day + r, it_offset = it_offset t\<rparr>"
    using read_date_written [OF n] read_time_written [OF r] read_offset_written [OF assms(2)] cut
    by (simp add: fromisoformat_def Let_def time_def [symmetric] z)
  finally show ?thesis using l by simp
qed

lemma read_offset_bound: "read_offset z = Some k \<Longrightarrow> \<bar>k\<bar> < 86400"
proof -
  have h: "0 \<le> x \<and> x < 86400" if "read_hms r = Some x" for r x
    using that by (auto simp: read_hms_def checked_def digits_def split: if_splits option.splits)
  show "read_offset z = Some k \<Longrightarrow> ?thesis"
    using h by (fastforce simp: read_offset_def split: list.splits if_splits)
qed

lemma parse_iso_offset: "parse_iso s = Some t \<Longrightarrow> \<bar>it_offset t\<bar> < 86400"
  using read_offset_bound by (auto simp: parse_iso_def fromisoformat_def Let_def split: option.splits if_splits)

end
