(* ===== verification/Float_Order.thy ===== *)
theory Float_Order
  imports Float_Arith
begin

text \<open>Rounding to binary64 and to decimals preserves the order.\<close>

lemma round_even_mono:
  assumes "x \<le> y"
  shows "round_even x \<le> round_even y"
proof -
  have f: "\<lfloor>x\<rfloor> \<le> \<lfloor>y\<rfloor>" using assms by (rule floor_mono)
  have b: "\<lfloor>z\<rfloor> \<le> round_even z \<and> round_even z \<le> \<lfloor>z\<rfloor> + 1" for z by (auto simp: round_even_def Let_def)
  show ?thesis
  proof (cases "\<lfloor>x\<rfloor> = \<lfloor>y\<rfloor>")
    case True
    then show ?thesis using assms by (auto simp: round_even_def Let_def)
  next
    case False
    then have "\<lfloor>x\<rfloor> + 1 \<le> \<lfloor>y\<rfloor>" using f by simp
    then show ?thesis using b [of x] b [of y] by linarith
  qed
qed

lemma pow2_le: "a \<le> b \<Longrightarrow> pow2 a \<le> pow2 b"
  using pow2_less [of a b] by (cases "a = b") auto

text \<open>The value of a rounded magnitude, before the range is looked at.\<close>

definition rounded_mag :: "rat \<Rightarrow> rat" where
  "rounded_mag m = (case round_mag 53 (-1022) m of (e, r) \<Rightarrow> of_int r * pow2 (e - 52))"

lemma round64_value: "round64 s m = (if pow2 1024 \<le> rounded_mag m then Infinite s else Fin s (rounded_mag m))"
  by (simp add: round64_def rounded_mag_def Let_def split: prod.split)

lemma rounded_mag_pos:
  assumes "0 < m"
  defines "e \<equiv> max (ilog2 m) (-1022)"
  shows "rounded_mag m = of_int (round_even (m / pow2 (e - 52))) * pow2 (e - 52)"
  using assms by (simp add: rounded_mag_def round_mag_def Let_def)

lemma rounded_mag_0 [simp]: "rounded_mag 0 = 0"
  by (simp add: rounded_mag_def round_mag_def)

lemma rounded_mag_nonneg: "0 \<le> m \<Longrightarrow> 0 \<le> rounded_mag m"
  using rounded_mag_pos [of m] round_even_nonneg [of "m / pow2 (max (ilog2 m) (-1022) - 52)"]
  by (cases "m = 0") (simp_all add: less_imp_le)

lemma rounded_mag_mono:
  assumes "0 \<le> m" "m \<le> n"
  shows "rounded_mag m \<le> rounded_mag n"
proof (cases "m = 0")
  case True
  then show ?thesis using rounded_mag_nonneg assms by simp
next
  case False
  then have pos: "0 < m" "0 < n" using assms by auto
  define d e where "d = max (ilog2 m) (-1022)" and "e = max (ilog2 n) (-1022)"
  have "ilog2 m \<le> ilog2 n"
  proof (rule ccontr)
    assume "\<not> ilog2 m \<le> ilog2 n"
    then have "pow2 (ilog2 n + 1) \<le> pow2 (ilog2 m)" by (intro pow2_le) simp
    then show False using ilog2_bounds [OF pos(1)] ilog2_bounds [OF pos(2)] assms(2) by linarith
  qed
  then have de: "d \<le> e" by (auto simp: d_def e_def)
  have vm: "rounded_mag m = of_int (round_even (m / pow2 (d - 52))) * pow2 (d - 52)"
    and vn: "rounded_mag n = of_int (round_even (n / pow2 (e - 52))) * pow2 (e - 52)"
    using rounded_mag_pos pos by (simp_all add: d_def e_def)
  show ?thesis
  proof (cases "d = e")
    case True
    have "m / pow2 (e - 52) \<le> n / pow2 (e - 52)" using assms(2) by (intro divide_right_mono) (simp_all add: less_imp_le)
    then show ?thesis
      unfolding vm vn True by (intro mult_right_mono) (simp_all add: round_even_mono less_imp_le)
  next
    case less: False
    have split: "pow2 (k + 52) = pow2 k * of_int (2 ^ 52)" "pow2 (k + 53) = pow2 k * of_int (2 ^ 53)" for k
      using pow2_add [of k 52] pow2_add [of k 53] by (simp_all add: pow2_def)
    have "e = ilog2 n" using less de by (auto simp: d_def e_def)
    then have "pow2 (e - 52) * of_int (2 ^ 52) \<le> n"
      using ilog2_bounds(1) [OF pos(2)] split(1) [of "e - 52"] by simp
    then have "of_int (2 ^ 52) \<le> n / pow2 (e - 52)" by (simp add: pos_le_divide_eq mult.commute)
    then have "2 ^ 52 \<le> round_even (n / pow2 (e - 52))" using round_even_mono round_even_int by metis
    then have "of_int (2 ^ 52) * pow2 (e - 52) \<le> rounded_mag n"
      unfolding vn by (intro mult_right_mono) (simp_all only: of_int_le_iff less_imp_le [OF pow2_pos])
    then have up: "pow2 e \<le> rounded_mag n" using split(1) [of "e - 52"] by (simp add: mult.commute)
    have "pow2 (ilog2 m + 1) \<le> pow2 (d + 1)" by (intro pow2_le) (simp add: d_def)
    then have "m \<le> pow2 (d - 52) * of_int (2 ^ 53)"
      using ilog2_bounds(2) [OF pos(1)] split(2) [of "d - 52"] by (simp add: add.commute)
    then have "m / pow2 (d - 52) \<le> of_int (2 ^ 53)" by (simp add: pos_divide_le_eq mult.commute)
    then have "round_even (m / pow2 (d - 52)) \<le> 2 ^ 53" using round_even_mono round_even_int by metis
    then have "rounded_mag m \<le> of_int (2 ^ 53) * pow2 (d - 52)"
      unfolding vm by (intro mult_right_mono) (simp_all only: of_int_le_iff less_imp_le [OF pow2_pos])
    then have "rounded_mag m \<le> pow2 (d + 1)" using split(2) [of "d - 52"] by (simp add: mult.commute add.commute)
    also have "\<dots> \<le> pow2 e" using less de by (intro pow2_le) simp
    finally show ?thesis using up by linarith
  qed
qed

text \<open>Between two representable numbers a magnitude stays after rounding.\<close>

lemma rounded_int: "0 \<le> k \<Longrightarrow> k < 2 ^ 53 \<Longrightarrow> rounded_mag (of_int k) = of_int k"
  using round64_int [of k False] by (auto simp: round64_value split: if_splits)

lemma round64_within:
  assumes "0 \<le> k" "of_int k \<le> m" "m \<le> of_int l" "l < 2 ^ 53"
  shows "\<exists>v. round64 s m = Fin s v \<and> of_int k \<le> v \<and> v \<le> of_int l"
proof -
  have kl: "k \<le> l" using assms(2,3) by (metis of_int_le_iff order_trans)
  have m: "0 \<le> m" using assms(1,2) by (metis of_int_0_le_iff order_trans)
  have "rounded_mag (of_int k) \<le> rounded_mag m" using assms(1,2) by (intro rounded_mag_mono) simp_all
  moreover have "rounded_mag m \<le> rounded_mag (of_int l)" by (rule rounded_mag_mono [OF m assms(3)])
  ultimately have b: "of_int k \<le> rounded_mag m" "rounded_mag m \<le> of_int l"
    using rounded_int [of k] rounded_int [of l] assms(1,4) kl by auto
  have "of_int l < (2 ^ 53 :: rat)" using assms(4) by (metis of_int_less_iff of_int_numeral of_int_power)
  then have "rounded_mag m < pow2 1024" using b(2) by (simp add: pow2_def)
  then show ?thesis using b by (simp add: round64_value)
qed

lemma fround_within:
  assumes "0 \<le> k" "of_int k \<le> m" "m \<le> of_int l" "l < 2 ^ 53"
  shows "\<exists>v. fround n (Fin s m) = Fin s v \<and> of_int k \<le> v \<and> v \<le> of_int l"
proof -
  have r: "round_even (of_int (j * 10 ^ n)) = j * 10 ^ n" for j by (rule round_even_int)
  have "of_int (k * 10 ^ n) \<le> m * 10 ^ n" "m * 10 ^ n \<le> of_int (l * 10 ^ n)" using assms(2,3) by simp_all
  then have "k * 10 ^ n \<le> round_even (m * 10 ^ n)" "round_even (m * 10 ^ n) \<le> l * 10 ^ n"
    using round_even_mono r by metis+
  then have "of_int (k * 10 ^ n) \<le> (of_int (round_even (m * 10 ^ n)) :: rat)" "(of_int (round_even (m * 10 ^ n)) :: rat) \<le> of_int (l * 10 ^ n)"
    by (simp_all only: of_int_le_iff)
  then have "of_int k \<le> of_int (round_even (m * 10 ^ n)) / (10 ^ n :: rat)" "of_int (round_even (m * 10 ^ n)) / (10 ^ n :: rat) \<le> of_int l"
    by (simp_all add: pos_le_divide_eq pos_divide_le_eq)
  then show ?thesis
    using round64_within [OF assms(1) _ _ assms(4)] by (simp add: fround_def)
qed

end
