(* ===== verification/Planner_Rules.thy ===== *)
theory Planner_Rules
  imports Planner_Schedule Iso_Rules Float_Order
begin

text \<open>What the scheduler and the plan validation of the planner guarantee.\<close>

section \<open>Results\<close>

lemma when_result: "bind_result x (\<lambda>v. Inr (f v)) = Inr y \<Longrightarrow> \<exists>v. x = Inr v \<and> y = f v"
  by (auto simp: bind_result_Inr_iff)

section \<open>Periods\<close>

text \<open>The instants at which an activity is going on.\<close>

definition period :: "activity \<Rightarrow> int set" where
  "period a = (case activity_span a of Inr (Some (s, e)) \<Rightarrow> {utc s ..< utc e} | _ \<Rightarrow> {})"

lemma overlap_meets:
  assumes "utc s < utc e" "utc s' < utc e'"
  shows "spans_overlap (s, e) (s', e') \<longleftrightarrow> {utc s ..< utc e} \<inter> {utc s' ..< utc e'} \<noteq> {}"
proof -
  have "max (utc s) (utc s') \<in> {utc s ..< utc e} \<inter> {utc s' ..< utc e'}" if "spans_overlap (s, e) (s', e')"
    using that assms by (auto simp: spans_overlap_def earlier_def)
  then show ?thesis by (fastforce simp: spans_overlap_def earlier_def)
qed


definition takes_time :: "activity \<Rightarrow> bool" where
  "takes_time a \<longleftrightarrow> (case activity_span a of Inr (Some (s, e)) \<Rightarrow> utc s < utc e | _ \<Rightarrow> True)"

lemma overlaps_in_exact:
  assumes "overlaps_in k (s, e) xs = Inr ws" "utc s < utc e" "\<forall>x\<in>set xs. takes_time x"
  shows "ws = map overlap_text (filter (\<lambda>x. \<not> cancelled_or_failed x \<and> ac_id x \<noteq> k \<and> {utc s ..< utc e} \<inter> period x \<noteq> {}) xs)"
  using assms(1,3)
proof (induction xs arbitrary: ws)
  case (Cons x xs)
  show ?case
  proof (cases "cancelled_or_failed x \<or> ac_id x = k")
    case True
    then show ?thesis using Cons by auto
  next
    case False
    then obtain span os where so: "activity_span x = Inr span" "overlaps_in k (s, e) xs = Inr os"
      and ws: "ws = (case span of None \<Rightarrow> [] | Some q \<Rightarrow> if spans_overlap (s, e) q then [overlap_text x] else []) @ os"
      using Cons.prems(1) by (auto simp: bind_result_Inr_iff)
    have os: "os = map overlap_text (filter (\<lambda>x. \<not> cancelled_or_failed x \<and> ac_id x \<noteq> k \<and> {utc s ..< utc e} \<inter> period x \<noteq> {}) xs)"
      using Cons.IH [OF so(2)] Cons.prems(2) by simp
    show ?thesis
    proof (cases span)
      case None
      then show ?thesis using so(1) ws os False by (simp add: period_def)
    next
      case (Some q)
      obtain s' e' where q: "q = (s', e')" by (cases q)
      have "utc s' < utc e'" using Cons.prems(2) so(1) by (simp add: takes_time_def Some q)
      then show ?thesis
        using overlap_meets [OF assms(2), of s' e'] so(1) ws os False by (simp add: period_def Some q)
    qed
  qed
qed simp

text \<open>
  C20: Overlaps are reported exactly. For an activity with a timestamp, and a schedule in which every activity
  lasts some time, whenever the check returns, the reported time overlaps are those of the activities that are neither cancelled nor
  failed, that are not the activity itself, and that share an instant with it, in the order of the schedule.
\<close>

theorem overlaps_reported_exactly:
  assumes "check_time_overlap sched a = Inr ws" "activity_span a = Inr (Some p)" "\<forall>x\<in>insert a (set sched). takes_time x"
  shows "ws = map overlap_text (filter (\<lambda>x. \<not> cancelled_or_failed x \<and> ac_id x \<noteq> ac_id a \<and> period a \<inter> period x \<noteq> {}) sched)"
proof -
  obtain s e where p: "p = (s, e)" by (cases p)
  have "utc s < utc e" using assms(2,3) by (simp add: takes_time_def p)
  moreover have "overlaps_in (ac_id a) (s, e) sched = Inr ws" using assms(1,2) by (simp add: check_time_overlap_def p)
  moreover have "period a = {utc s ..< utc e}" using assms(2) by (simp add: period_def p)
  ultimately show ?thesis using overlaps_in_exact [of "ac_id a" s e sched ws] assms(3) by simp
qed

section \<open>Adding\<close>

text \<open>A run of \<open>add_activity\<close> that returns.\<close>

lemma same_warnings: "\<exists>ws. a = a\<lparr>ac_warnings := ws\<rparr>" for a :: activity
  by (rule exI [of _ "ac_warnings a"]) simp

lemma added:
  assumes "add_activity name start kw d = (Inr a, d')"
  shows "\<exists>ws. a = (kw (from_type (sd_next d) (type_of d name) name start))\<lparr>ac_warnings := ws\<rparr> \<and>
    sd_schedule d' = by_start (sd_schedule d @ [a]) \<and> sd_next d' = sd_next d + 1"
  using assms same_warnings [of a] by (auto simp: add_activity_def take_id_def returns py_evals Let_def split: if_splits)

lemma not_added:
  assumes "add_activity name start kw d = (Inl e, d')"
  shows "sd_schedule d' = sd_schedule d \<and> sd_next d' = sd_next d + 1"
  using assms by (auto simp: add_activity_def take_id_def bind_py_def seq_py_def py_evals Let_def split: prod.splits sum.splits if_splits)

text \<open>Keyword arguments that leave the id and the start of an activity alone.\<close>

definition plain_kwargs :: "(activity \<Rightarrow> activity) \<Rightarrow> bool" where
  "plain_kwargs kw \<longleftrightarrow> (\<forall>a. ac_id (kw a) = ac_id a \<and> ac_start (kw a) = ac_start a)"

lemma added_fields:
  assumes "add_activity name start kw d = (Inr a, d')" "plain_kwargs kw"
  shows "ac_id a = sd_next d \<and> ac_start a = start"
  using added [OF assms(1)] assms(2) by (auto simp: plain_kwargs_def from_type_def)

section \<open>Reachable schedules\<close>

text \<open>
  The operations on the schedule. An edit gives no new start here: the code changes the start in place and
  does not sort again (\<open>edited_start_is_not_sorted\<close>).
\<close>

inductive planner_step :: "planner \<Rightarrow> planner \<Rightarrow> bool" where
  "plain_kwargs kw \<Longrightarrow> planner_step d (snd (add_activity name start kw d))"
| "plain_kwargs kw \<Longrightarrow> planner_step d (snd (schedule_pass_activity p offset name contacts kw d))"
| "planner_step d (snd (update_state k s d))"
| "planner_step d (snd (delete_activity k d))"
| "planner_step d (snd (edit_activity k state None duration priority d))"
| "planner_step d (snd (clear_schedule d))"
| "planner_step d (clear d)"

definition well_kept :: "planner \<Rightarrow> bool" where
  "well_kept d \<longleftrightarrow> sorted (map ac_start (sd_schedule d)) \<and> distinct (map ac_id (sd_schedule d)) \<and>
     (\<forall>a\<in>set (sd_schedule d). 1 \<le> ac_id a \<and> ac_id a < sd_next d) \<and> 1 \<le> sd_next d"

lemma by_start_sorted: "sorted (map ac_start (by_start as))"
  by (simp add: by_start_def)

lemma by_start_ids: "distinct (map ac_id (by_start as)) \<longleftrightarrow> distinct (map ac_id as)"
  by (simp add: by_start_def distinct_map)

lemma add_well_kept:
  assumes "well_kept d" "plain_kwargs kw"
  shows "well_kept (snd (add_activity name start kw d))"
proof (cases "add_activity name start kw d")
  case (Pair r d')
  show ?thesis
  proof (cases r)
    case (Inl e)
    then show ?thesis using not_added [of name start kw d e d'] assms(1) Pair by (fastforce simp: well_kept_def)
  next
    case (Inr a)
    have f: "ac_id a = sd_next d" "sd_schedule d' = by_start (sd_schedule d @ [a])" "sd_next d' = sd_next d + 1"
      using added_fields [of name start kw d a d'] added [of name start kw d a d'] assms(2) Pair Inr by auto
    have "distinct (map ac_id (sd_schedule d @ [a]))" using assms(1) f(1) by (auto simp: well_kept_def)
    then have "distinct (map ac_id (by_start (sd_schedule d @ [a])))" using by_start_ids by blast
    moreover have "set (by_start (sd_schedule d @ [a])) = insert a (set (sd_schedule d))" by (simp add: by_start_def)
    ultimately show ?thesis using assms(1) f Pair by_start_sorted by (fastforce simp: well_kept_def)
  qed
qed

lemma changed_keys:
  assumes "\<And>a. ac_id (f a) = ac_id a" "\<And>a. ac_start (f a) = ac_start a"
  shows "map ac_id (change_first k f as) = map ac_id as" "map ac_start (change_first k f as) = map ac_start as"
  using assms by (induction as) auto

lemma same_keys:
  assumes "map ac_id as = map ac_id bs"
  shows "(\<forall>a\<in>set as. P (ac_id a)) \<longleftrightarrow> (\<forall>b\<in>set bs. P (ac_id b))"
  using assms by (metis (mono_tags, lifting) imageE image_eqI list.set_map)

lemma change_well_kept:
  assumes "well_kept d" "\<And>a. ac_id (f a) = ac_id a" "\<And>a. ac_start (f a) = ac_start a"
  shows "well_kept (change_activity k f d)"
  using assms(1) changed_keys [of f k "sd_schedule d", OF assms(2,3)]
    same_keys [OF changed_keys(1) [of f k "sd_schedule d", OF assms(2,3)], of "\<lambda>i. 1 \<le> i \<and> i < sd_next d"]
  by (simp add: well_kept_def change_activity_def)

lemma delete_first_parts:
  "set (delete_first k as) \<subseteq> set as \<and> (sorted (map ac_start as) \<longrightarrow> sorted (map ac_start (delete_first k as))) \<and>
   (distinct (map ac_id as) \<longrightarrow> distinct (map ac_id (delete_first k as)))"
  by (induction as) auto

lemma delete_well_kept: "well_kept d \<Longrightarrow> well_kept (snd (delete_activity k d))"
  using delete_first_parts [of k "sd_schedule d"] by (auto simp: well_kept_def delete_activity_def)

lemma update_well_kept: "well_kept d \<Longrightarrow> well_kept (snd (update_state k s d))"
  by (simp add: update_state_def change_well_kept)

lemma edit_well_kept: "well_kept d \<Longrightarrow> well_kept (snd (edit_activity k state None duration priority d))"
  by (auto simp: edit_activity_def Let_def or_else_def intro!: change_well_kept update_well_kept split: option.split)

lemma pass_well_kept: "well_kept d \<Longrightarrow> plain_kwargs kw \<Longrightarrow> well_kept (snd (schedule_pass_activity p offset name contacts kw d))"
proof -
  assume w: "well_kept d" "plain_kwargs kw"
  have k: "plain_kwargs (kw \<circ> with_pass p c offset)" for c using w(2) by (simp add: plain_kwargs_def with_pass_def)
  show ?thesis
  proof (cases "start_in_pass (contacts ! nat (p - 1)) offset (pass_duration d name kw)")
    case (Inl e)
    then show ?thesis using w(1) by (simp add: schedule_pass_activity_def Let_def raise_def bind_py_def gets_def of_result_def)
  next
    case (Inr s)
    then show ?thesis using w(1) add_well_kept [OF w(1) k] by (simp add: schedule_pass_activity_def Let_def raise_def bind_py_def gets_def of_result_def)
  qed
qed

text \<open>
  C18: The schedule stays in order and its ids stay unique. After every sequence of operations on an empty
  scheduler the activities are sorted by their start, no two have the same id, and every id has been given
  out. The arguments of a request may not set an id or a start, and edits leave the start alone.
\<close>

theorem schedule_well_kept:
  assumes "planner_step\<^sup>*\<^sup>* (new_planner types params) d"
  shows "sorted (map ac_start (sd_schedule d)) \<and> distinct (map ac_id (sd_schedule d)) \<and>
    (\<forall>a\<in>set (sd_schedule d). 1 \<le> ac_id a \<and> ac_id a < sd_next d)"
proof -
  have "well_kept d" using assms
  proof (induction rule: rtranclp_induct)
    case base
    then show ?case by (simp add: well_kept_def new_planner_def)
  next
    case (step b c)
    from step(2,3) show ?case
      by (cases rule: planner_step.cases) (auto intro: add_well_kept pass_well_kept update_well_kept delete_well_kept edit_well_kept
          simp: clear_schedule_def clear_def, simp_all add: well_kept_def)
  qed
  then show ?thesis by (simp add: well_kept_def)
qed

section \<open>Passes\<close>

lemma plus_us_within: "plus_us t us = Inr t' \<Longrightarrow> in_calendar (it_local t') \<and> it_offset t' = it_offset t \<and> utc t' = utc t + us"
  by (auto simp: plus_us_def utc_def split: if_splits)

lemma plus_minutes_within: "plus_minutes t x = Inr t' \<Longrightarrow> in_calendar (it_local t') \<and> it_offset t' = it_offset t"
  using plus_us_within by (auto simp: plus_minutes_def bind_result_Inr_iff)

text \<open>
  C17: An activity scheduled in a pass lies within the pass. When scheduling relative to a contact succeeds, the
  activity is in the schedule, belongs to the pass that was asked for, and its start and end, read from its
  own entry, lie between acquisition and loss of signal of that contact. The further arguments of the request
  may not set the id, the start or the pass, and a duration they set does not depend on the other fields.
\<close>

theorem pass_activity_within_pass:
  assumes "schedule_pass_activity p offset name contacts kw d = (Inr a, d')"
    and "plain_kwargs kw" "\<forall>x y. ac_duration x = ac_duration y \<longrightarrow> ac_duration (kw x) = ac_duration (kw y)"
    and "\<forall>x. ac_pass (kw x) = ac_pass x"
  shows "a \<in> set (sd_schedule d') \<and> ac_pass a = Some p \<and> (\<exists>aos los s e. parse_iso (ct_aos (contacts ! nat (p - 1))) = Some aos \<and>
    parse_iso (ct_los (contacts ! nat (p - 1))) = Some los \<and> activity_span a = Inr (Some (s, e)) \<and> utc aos \<le> utc s \<and> utc e \<le> utc los)"
proof -
  let ?c = "contacts ! nat (p - 1)" and ?D = "pass_duration d name kw" and ?k = "kw \<circ> with_pass p (contacts ! nat (p - 1)) offset"
  obtain s where s: "start_in_pass ?c offset ?D = Inr s" and add: "add_activity name (isoformat s) ?k d = (Inr a, d')"
    using assms(1) by (auto simp: schedule_pass_activity_def Let_def returns py_evals split: if_splits)
  obtain aos los e where t: "parse_iso (ct_aos ?c) = Some aos" "parse_iso (ct_los ?c) = Some los" "plus_minutes aos offset = Inr s"
      "plus_seconds s ?D = Inr e" "utc aos \<le> utc s" "utc e \<le> utc los"
    using s by (auto simp: start_in_pass_def bind_result_Inr_iff earlier_def split: option.splits if_splits)
  have read: "parse_iso (isoformat s) = Some s"
    using timestamp_read_back plus_minutes_within [OF t(3)] parse_iso_offset [OF t(1)] by simp
  have k: "plain_kwargs ?k" using assms(2) by (simp add: plain_kwargs_def with_pass_def)
  obtain ws where a: "a = (?k (from_type (sd_next d) (type_of d name) name (isoformat s)))\<lparr>ac_warnings := ws\<rparr>"
    and sched: "sd_schedule d' = by_start (sd_schedule d @ [a])"
    using added [OF add] by blast
  have "ac_duration a = ?D" using assms(3) by (auto simp: a pass_duration_def with_pass_def from_type_def)
  moreover have "ac_start a = isoformat s" using added_fields [OF add k] by simp
  moreover have "ac_pass a = Some p" using assms(4) by (simp add: a with_pass_def)
  moreover have "a \<in> set (sd_schedule d')" by (simp add: sched by_start_def)
  ultimately show ?thesis using read t by (simp add: activity_span_def)
qed

section \<open>Valid plans\<close>

lemma validity:
  "vr_valid (fold add_violations vss r) \<longleftrightarrow> vr_valid r \<and> (\<forall>vs\<in>set vss. \<forall>v\<in>set vs. vi_severity v \<noteq> Error)"
  "vr_power (fold add_violations vss r) = vr_power r"
  by (induction vss arbitrary: r) (auto simp: add_violations_def Let_def)

text \<open>What a valid plan says of the checkers.\<close>

lemma valid_plan:
  assumes "validate_plan lm acts track soc params = Inr r" "vr_valid r"
  shows "\<exists>power conflicts. check_plan_power default_power_checker acts soc track = Inr power \<and> check_resource_conflicts acts = Inr conflicts \<and>
    (\<forall>v\<in>set (pr_violations power @ conflicts). vi_severity v \<noteq> Error) \<and> vr_power r = Some (pr_final_soc power, pr_timeline power)"
proof -
  obtain power slew duty cool data conflicts where p: "check_plan_power default_power_checker acts soc track = Inr power"
      "check_resource_conflicts acts = Inr conflicts"
    and r: "r = fold add_violations [pr_violations power, slew, check_momentum_budget default_aocs_checker acts, duty, cool, data, conflicts]
        (new_validation\<lparr>vr_power := Some (pr_final_soc power, pr_timeline power)\<rparr>)"
    using assms(1) unfolding validate_plan_def bind_result_Inr_iff by blast
  have "vr_power r = Some (pr_final_soc power, pr_timeline power)" unfolding r validity by simp
  moreover have "\<forall>v\<in>set (pr_violations power @ conflicts). vi_severity v \<noteq> Error"
    using assms(2) unfolding r validity by auto
  ultimately show ?thesis using p by blast
qed






section \<open>Charge\<close>

lemma fl_magnitude: "fl x = Fin s m \<Longrightarrow> 0 \<le> m"
  using rounded_mag_nonneg [of "\<bar>x\<bar>"] by (auto simp: fl_def round64_value split: if_splits)

lemma fsub_magnitude: "fsub x y = Fin s m \<Longrightarrow> 0 \<le> m"
  by (cases x; cases y) (auto dest: fl_magnitude split: if_splits)

lemma clamped_energy:
  "\<exists>m. clamp f0 (Fin False 1120) (fsub x y) = Fin False m \<and> 0 \<le> m \<and> m \<le> 1120"
proof (cases "fsub x y")
  case (Fin s n)
  then show ?thesis using fsub_magnitude [OF Fin] by (auto simp: clamp_def fmax_def fmin_def fin_val_def)
qed (auto simp: clamp_def fmax_def fmin_def)

lemma percent_within:
  assumes "0 \<le> m" "m \<le> 1120" "percent_of default_power_checker (Fin False m) = Inr pct"
  shows "\<exists>v. pct = Fin False v \<and> 0 \<le> v \<and> v \<le> 100"
proof -
  obtain q where q: "round64 False (m / 1120) = Fin False q" "0 \<le> q" "q \<le> 1"
    using round64_within [of 0 "m / 1120" 1 False] assms(1,2) by auto
  have "pct = round64 False (q * 100)"
    using assms(3) q(1) by (simp add: percent_of_def default_power_checker_def)
  then show ?thesis using round64_within [of 0 "q * 100" 100 False] q(2,3) by auto
qed

lemma power_step_charge:
  assumes "power_step default_power_checker track a soc = Inr (soc', es, vs)" "\<forall>v\<in>set vs. vi_severity v \<noteq> Error" "en \<in> set es"
  shows "between (Fin False 20) (Fin False 100) (se_after en)"
proof -
  obtain x y pct where p: "percent_of default_power_checker (clamp f0 (Fin False 1120) (fsub x y)) = Inr pct"
      "se_after en = fround 1 pct" "\<not> fless pct (Fin False 20)"
    using assms by (auto simp: power_step_def bind_result_Inr_iff Let_def soc_violation_def violation_of_def default_power_checker_def
        split: if_splits option.splits prod.splits)
  obtain m where m: "clamp f0 (Fin False 1120) (fsub x y) = Fin False m" "0 \<le> m" "m \<le> 1120" using clamped_energy by blast
  obtain v where v: "pct = Fin False v" "0 \<le> v" "v \<le> 100" using percent_within [OF m(2,3)] p(1) m(1) by auto
  obtain w where "fround 1 pct = Fin False w" "20 \<le> w" "w \<le> 100"
    using fround_within [of 20 v 100 1 False] v p(3) by (auto simp: fin_val_def)
  then show ?thesis using p(2) by (simp add: between_def)
qed

lemma power_steps_charge:
  assumes "power_steps default_power_checker track as soc = Inr (soc', es, vs)" "\<forall>v\<in>set vs. vi_severity v \<noteq> Error" "en \<in> set es"
  shows "between (Fin False 20) (Fin False 100) (se_after en)"
  using assms
proof (induction as arbitrary: soc soc' es vs)
  case (Cons a as)
  obtain s1 es1 vs1 s2 es2 vs2 where s: "power_step default_power_checker track a soc = Inr (s1, es1, vs1)"
      "power_steps default_power_checker track as s1 = Inr (s2, es2, vs2)" "es = es1 @ es2" "vs = vs1 @ vs2"
    using Cons.prems(1) by (auto simp: bind_result_Inr_iff)
  then show ?case using power_step_charge [OF s(1)] Cons.IH [OF s(2)] Cons.prems(2,3) by auto
qed simp

text \<open>
  C19: A valid plan keeps the battery charged. When the plan validation finds a plan valid and has made a power
  timeline, every state of charge after an activity that the timeline gives (rounded to a tenth of a percent)
  lies between 20 and 100 percent.
\<close>

theorem valid_plan_keeps_charge:
  assumes "validate_plan lm acts track soc params = Inr r" "vr_valid r" "vr_power r = Some (final, timeline)" "en \<in> set timeline"
  shows "between (Fin False 20) (Fin False 100) (se_after en)"
proof -
  obtain power where p: "check_plan_power default_power_checker acts soc track = Inr power" "\<forall>v\<in>set (pr_violations power). vi_severity v \<noteq> Error"
      "vr_power r = Some (pr_final_soc power, pr_timeline power)"
    using valid_plan [OF assms(1,2)] by auto
  then show ?thesis
    using power_steps_charge assms(3,4) by (fastforce simp: check_plan_power_def bind_result_Inr_iff)
qed

section \<open>Concrete plans\<close>

definition sample :: "int \<Rightarrow> string \<Rightarrow> string \<Rightarrow> int \<Rightarrow> activity" where
  "sample k name start s = (from_type k (untyped name) name start)\<lparr>ac_duration := Whole s\<rparr>"

definition noon :: instant where "noon = \<lparr>it_local = 63907963200000000, it_offset = 0\<rparr>"

definition later :: "int \<Rightarrow> instant" where "later s = noon\<lparr>it_local := it_local noon + s * 1000000\<rparr>"

lemma noon_read [simp]: "parse_iso ''2026-03-01T12:00:00Z'' = Some noon"
  by code_simp

lemma sample_fields [simp]:
  "ac_id (sample k name start s) = k" "ac_name (sample k name start s) = name" "ac_start (sample k name start s) = start"
  "ac_duration (sample k name start s) = Whole s" "ac_power (sample k name start s) = Whole 0" "ac_volume (sample k name start s) = Whole 0"
  "\<not> dropped (sample k name start s)" "\<not> cancelled_or_failed (sample k name start s)" "ac_capture_lat (sample k name start s) = None"
  by (simp_all add: sample_def from_type_def untyped_def or_else_def dropped_def cancelled_or_failed_def state_label_def state_code_def)

lemma sample_overlaps:
  "check_time_overlap [sample 1 ''imaging'' ''2026-03-01T12:00:00Z'' 600, sample 3 ''imaging'' ''2026-03-01T13:00:00Z'' 600]
     (sample 2 ''dump'' ''2026-03-01T12:05:00Z'' 600) = Inr [overlap_text (sample 1 ''imaging'' ''2026-03-01T12:00:00Z'' 600)]"
  by code_simp

lemma sample_spans [simp]:
  "activity_span (sample k name ''2026-03-01T12:00:00Z'' 600) = Inr (Some (noon, later 600))"
  "activity_span (sample k name ''2026-03-01T12:05:00Z'' 600) = Inr (Some (later 300, later 900))"
  "activity_span (sample k name ''2026-03-01T13:00:00Z'' 600) = Inr (Some (later 3600, later 4200))"
  unfolding activity_span_def sample_fields by code_simp+

theorem overlaps_reported_exactly_witness:
  "[overlap_text (sample 1 ''imaging'' ''2026-03-01T12:00:00Z'' 600)] =
     map overlap_text (filter (\<lambda>x. \<not> cancelled_or_failed x \<and> ac_id x \<noteq> 2 \<and> period (sample 2 ''dump'' ''2026-03-01T12:05:00Z'' 600) \<inter> period x \<noteq> {})
       [sample 1 ''imaging'' ''2026-03-01T12:00:00Z'' 600, sample 3 ''imaging'' ''2026-03-01T13:00:00Z'' 600])"
  using overlaps_reported_exactly [OF sample_overlaps sample_spans(2)] by (simp add: takes_time_def later_def noon_def utc_def)

definition upload_contact :: contact where
  "upload_contact = \<lparr>ct_aos = ''2026-03-01T12:00:00Z'', ct_los = ''2026-03-01T12:10:00Z'', ct_gs = ''Troll''\<rparr>"

lemma sample_start: "start_in_pass upload_contact (Whole 2) (Whole 300) = Inr (later 120)"
  by code_simp

lemma later_read: "0 \<le> s \<Longrightarrow> s < 1000000 \<Longrightarrow> parse_iso (isoformat (later s)) = Some (later s)"
  using timestamp_read_back [of "later s"] by (simp add: later_def noon_def in_calendar_def max_ordinal_def us_per_day_def)

lemma sample_in_pass:
  "\<exists>a d. schedule_pass_activity 1 (Whole 2) ''software_upload'' [upload_contact] (\<lambda>a. a) (new_planner [] no_params) = (Inr a, d)"
proof -
  let ?d = "new_planner [] no_params"
  have "pass_duration ?d ''software_upload'' (\<lambda>a. a) = Whole 300"
    by (simp add: pass_duration_def from_type_def type_of_def new_planner_def types_index_def or_else_def untyped_def type_duration_def)
  then have s: "start_in_pass upload_contact (Whole 2) (pass_duration ?d ''software_upload'' (\<lambda>a. a)) = Inr (later 120)"
    by (simp add: sample_start)
  have "plus_seconds (later 120) (Whole 300) = Inr (later 420)" by code_simp
  then show ?thesis
    using s later_read [of 120]
    by (simp add: schedule_pass_activity_def Let_def bind_py_def seq_py_def gets_def modify_def ret_def of_result_def raise_def exact_def add_activity_def take_id_def
        check_time_overlap_def activity_span_def with_pass_def from_type_def type_of_def new_planner_def types_index_def or_else_def untyped_def type_duration_def fin_val_def)
qed

theorem pass_activity_within_pass_witness:
  "\<exists>(a :: activity) (d :: planner). a \<in> set (sd_schedule d) \<and> ac_pass a = Some 1 \<and> (\<exists>aos los s e. parse_iso (ct_aos ([upload_contact] ! nat (1 - 1))) = Some aos \<and>
     parse_iso (ct_los ([upload_contact] ! nat (1 - 1))) = Some los \<and> activity_span a = Inr (Some (s, e)) \<and> utc aos \<le> utc s \<and> utc e \<le> utc los)"
proof -
  obtain a d where run: "schedule_pass_activity 1 (Whole 2) ''software_upload'' [upload_contact] (\<lambda>a. a) (new_planner [] no_params) = (Inr a, d)"
    using sample_in_pass by blast
  have "plain_kwargs (\<lambda>a. a)" "\<forall>x y. ac_duration x = ac_duration y \<longrightarrow> ac_duration x = ac_duration y" "\<forall>x. ac_pass x = ac_pass x"
    by (simp_all add: plain_kwargs_def)
  from pass_activity_within_pass [OF run this] show ?thesis by blast
qed

definition two_dumps :: planner where
  "two_dumps = snd (add_activity ''data_dump'' ''2026-03-01T12:00:00Z'' (\<lambda>a. a)
     (snd (add_activity ''data_dump'' ''2026-03-01T13:00:00Z'' (\<lambda>a. a) (new_planner [] no_params))))"

lemma two_dumps_reached: "planner_step\<^sup>*\<^sup>* (new_planner [] no_params) two_dumps"
proof -
  have k: "plain_kwargs (\<lambda>a. a)" by (simp add: plain_kwargs_def)
  show ?thesis
    unfolding two_dumps_def
    by (rule rtranclp.rtrancl_into_rtrancl, rule r_into_rtranclp, rule planner_step.intros(1) [OF k], rule planner_step.intros(1) [OF k])
qed

theorem schedule_well_kept_witness:
  "sorted (map ac_start (sd_schedule two_dumps)) \<and> distinct (map ac_id (sd_schedule two_dumps))"
  using schedule_well_kept [OF two_dumps_reached] by blast

section \<open>Concrete validations\<close>



lemma half: "round64 False (1 / 2) = Fin False (1 / 2)"
  by code_simp

lemma percent_half: "percent_of default_power_checker (Fin False 560) = Inr (Fin False 50)"
  using half round64_int [of 50 False] by (simp add: percent_of_def default_power_checker_def)


lemma not_mentioned: "\<not> mentions ''imaging'' ''software_upload''" "\<not> mentions ''dump'' ''software_upload''" "\<not> mentions ''downlink'' ''software_upload''"
    "\<not> mentions ''imaging'' ''calibration''" "\<not> mentions ''dump'' ''calibration''" "\<not> mentions ''downlink'' ''calibration''"
  by code_simp+



lemma no_data: "real_of (Whole 0) = Inr f0" "fadd f0 f0 = f0"
  using of_pyint_exact [of 0] by (simp_all add: real_of_def num_float_def fadd_def fneg_def)



definition night_work :: activity where
  "night_work = (sample 1 ''calibration'' ''2026-03-01T12:00:00Z'' 3600)\<lparr>ac_power := Whole 465\<rparr>"

lemma night_fields [simp]:
  "ac_id night_work = 1" "ac_name night_work = ''calibration''" "ac_start night_work = ''2026-03-01T12:00:00Z''"
  "ac_duration night_work = Whole 3600" "ac_power night_work = Whole 465" "ac_volume night_work = Whole 0" "\<not> dropped night_work"
  by (simp_all add: night_work_def sample_def from_type_def untyped_def or_else_def dropped_def state_label_def)

lemma night_span [simp]: "activity_span night_work = Inr (Some (noon, later 3600))"
  unfolding activity_span_def night_fields by code_simp

lemma night_eclipse: "estimate_eclipse_fraction noon (later 3600) [(''2026-03-01T12:00:00+00:00'', True)] = Fin False 1"
proof -
  have "isoformat noon \<le> ''2026-03-01T12:00:00+00:00'' \<and> ''2026-03-01T12:00:00+00:00'' \<le> isoformat (later 3600)" by code_simp
  then show ?thesis using round64_int [of 1 False] by (simp add: estimate_eclipse_fraction_def fl_def)
qed

lemma whole_floats [simp]: "round64 s 0 = Fin s 0" "round64 s 1 = Fin s 1" "fl 0 = Fin False 0" "fl 1 = Fin False 1"
    "numeral n < (2 ^ 53 :: int) \<Longrightarrow> fl (numeral n) = Fin False (numeral n)" "numeral n < (2 ^ 53 :: int) \<Longrightarrow> round64 s (numeral n) = Fin s (numeral n)"
  using round64_int [of 0] round64_int [of 1] round64_numeral by (simp_all add: fl_def)

lemma night_energy: "energy default_power_checker night_work (Fin False 1) = Inr (Fin False 95, Fin False 465, Fin False 0)"
proof -
  obtain v where v: "fl (85 / 100) = Fin False v" "0 \<le> v" "v \<le> 1" using round64_within [of 0 "85 / 100" 1 False] by (auto simp: fl_def)
  then obtain w where "round64 False (280 * v) = Fin False w" using round64_within [of 0 "280 * v" 280 False] by auto
  then show ?thesis
    using v(1) by (simp add: energy_def real_of_def num_float_def of_pyint_def default_power_checker_def fquot_def Let_def fadd_def fneg_def fin_val_def)
qed

lemma night_power:
  "check_plan_power default_power_checker [night_work] (Fin False 100) [(''2026-03-01T12:00:00+00:00'', True)] =
     Inr \<lparr>pr_violations = [], pr_timeline = [\<lparr>se_id = 1, se_name = ''calibration'', se_start = ''2026-03-01T12:00:00Z'',
       se_before = fround 1 (Fin False 100), se_after = fround 1 (Fin False 50)\<rparr>], pr_final_soc = fround 1 (Fin False 50)\<rparr>"
proof -
  have full: "percent_of default_power_checker (Fin False 1120) = Inr (Fin False 100)" by (simp add: percent_of_def default_power_checker_def)
  show ?thesis
    using percent_half full
    by (simp add: check_plan_power_def by_start_def power_step_def exact_def night_eclipse night_energy Let_def fle_def fin_val_def)
       (simp add: default_power_checker_def fquot_def fadd_def fneg_def fin_val_def clamp_def fmax_def fmin_def)
qed

lemma night_valid: "\<exists>r en. validate_plan plain_libm [night_work] [(''2026-03-01T12:00:00+00:00'', True)] (Fin False 100) no_params = Inr r \<and>
    vr_valid r \<and> vr_power r = Some (fround 1 (Fin False 50), [en]) \<and> se_name en = ''calibration''"
proof -
  have "check_slew_constraints plain_libm default_aocs_checker [night_work] = Inr []" by (simp add: check_slew_constraints_def by_start_def)
  moreover have "check_momentum_budget default_aocs_checker [night_work] = []" by (simp add: check_momentum_budget_def by_start_def not_mentioned)
  moreover have "check_payload_duty_cycle default_thermal_checker [night_work] = Inr []" by (simp add: check_payload_duty_cycle_def not_mentioned)
  moreover have "check_cooldown_periods default_thermal_checker [night_work] = Inr []" by (simp add: check_cooldown_periods_def by_start_def)
  moreover have "check_storage_capacity (from_params no_params) [night_work] f0 = Inr []"
    by (simp add: check_storage_capacity_def by_start_def not_mentioned no_data below_margin_def over_capacity_def exact_def fin_val_def from_params_def
        no_params_def or_else_def)
  moreover have "check_resource_conflicts [night_work] = Inr []" by simp
  ultimately show ?thesis by (simp add: validate_plan_def night_power add_violations_def new_validation_def Let_def)
qed

theorem valid_plan_keeps_charge_witness:
  "\<exists>r final en. validate_plan plain_libm [night_work] [(''2026-03-01T12:00:00+00:00'', True)] (Fin False 100) no_params = Inr r \<and>
     vr_power r = Some (final, [en]) \<and> between (Fin False 20) (Fin False 100) (se_after en)"
proof -
  obtain r en where r: "validate_plan plain_libm [night_work] [(''2026-03-01T12:00:00+00:00'', True)] (Fin False 100) no_params = Inr r"
      "vr_valid r" "vr_power r = Some (fround 1 (Fin False 50), [en])"
    using night_valid by blast
  have "en \<in> set [en]" by simp
  from valid_plan_keeps_charge [OF r this] show ?thesis using r by blast
qed

section \<open>Deviations\<close>

text \<open>A conflict of names is reported whatever the times of the two activities are.\<close>

lemma conflicts_ignore_time:
  "start \<noteq> [] \<Longrightarrow> ac_start a \<noteq> [] \<Longrightarrow> check_conflicts sched (a\<lparr>ac_start := start\<rparr>) = check_conflicts sched a"
  by (simp add: check_conflicts_def)

text \<open>An edit of a start leaves the schedule out of order.\<close>

lemma edited_start_is_not_sorted:
  "map ac_start (sd_schedule (snd (edit_activity 1 None (Some ''2026-03-02'') None None
     ((new_planner [] no_params)\<lparr>sd_schedule := [sample 1 ''a'' ''2026-03-01'' 60, sample 2 ''b'' ''2026-03-01T12'' 60]\<rparr>)))) =
   [''2026-03-02'', ''2026-03-01T12'']"
  by (simp add: edit_activity_def get_activity_def change_activity_def or_else_def Let_def)

text \<open>A request that gives an id overrides the one of the scheduler.\<close>

lemma requested_id_wins:
  "\<exists>a. fst (add_activity name [] (\<lambda>a. a\<lparr>ac_id := 7\<rparr>) d) = Inr a \<and> ac_id a = 7"
  by (simp add: add_activity_def take_id_def bind_py_def seq_py_def gets_def modify_def ret_def of_result_def check_time_overlap_def activity_span_def
      parse_iso_def from_type_def check_conflicts_def Let_def)

text \<open>A target on the equator or on the meridian counts as missing.\<close>

lemma zero_coordinate_is_missing: "ac_capture_lon a = Some f0 \<Longrightarrow> slew_pair lm c a b = Inr []"
  by (simp add: slew_pair_def targets_def fbool_def split: option.split)

end
