(* ===== verification/Spec2Isabelle.thy ===== *)
theory Spec2Isabelle
  imports Ecss_Packet Bch_Cltu Conv_Viterbi Interleave_Scramble Asm_Sync Tm_Frame Virtual_Channel Framing Tc_Scheduler Tm_Storage Tc_Verdict Phase_Rules Downlink_Rules Ground_Readback Monitor_Rules Obcp_Rules Memory_Rules Fdir_Rules Executor_Rules Failure_Rules Obdh_Rules Eps_Rules Ttc_Rules Scenario_Rules Sim_Rules Command_Rules Planner_Rules
begin

text \<open>
  The Space Mission Simulator is a spacecraft simulator with a ground segment: the simulator executes
  PUS telecommands and produces telemetry, a radio simulator carries both over CCSDS channel codes, and a
  mission control system and a planner work on the ground. This library models the code that carries the
  protocol: the packets, the channel coding and framing, the telecommand path with its services, the
  on-board memory, stores, schedule, procedures and monitoring, and the telemetry path.

  Reading the theories in the order of the code:

  \<^item> \<open>Prelude\<close>, \<open>Text_Codecs\<close>, \<open>Py_Float\<close>, \<open>Py_State\<close>: Python's bytes, \<open>struct\<close> fields, UTF-8, base64 and
    hexadecimal text, binary64 floats as exact rationals with their rounding, and code that changes state
    and may raise (a state, and a result that is an error or a value). \<open>Py_State\<close> holds the calculus the
    later proofs use: the locale \<open>py_frame\<close> propagates a preorder on states through the combinators, \<open>ends\<close>
    a property of the returned value.
  \<^item> \<open>Ecss_Packet\<close>, \<open>Framing\<close> (\<open>smo_common/protocol\<close>): space packets with their CRC, and packets on a TCP
    stream. Round trips, detection of corruption, equivalence of the CRC with a 16-bit register.
  \<^item> \<open>Bch_Cltu\<close>, \<open>Conv_Viterbi\<close>, \<open>Interleave_Scramble\<close>, \<open>Asm_Sync\<close>, \<open>Tm_Frame\<close>, \<open>Virtual_Channel\<close>
    (\<open>smo_rfsim/ccsds\<close>): the channel codes, frame synchronisation, transfer frames and virtual channels.
  \<^item> \<open>Pus_Reports\<close> (\<open>tm_builder.py\<close>, \<open>pus_services.py\<close>): the telemetry packet builder and the parsers of the
    ground; \<open>Ground_Readback\<close> composes the two.
  \<^item> \<open>Tm_Storage\<close>, \<open>Tc_Scheduler\<close>, \<open>Memory_Map\<close> (\<open>tm_storage.py\<close>, \<open>tc_scheduler.py\<close>, \<open>memory_map.py\<close>): the
    packet stores refine a bounded queue, the schedule executes each command once and when due, the memory
    image refines a map from addresses to bytes.
  \<^item> \<open>Subsystems\<close>, \<open>On_Board\<close>: the interface of the subsystem models and the state of the engine
    (\<open>SimulationEngine\<close> of \<open>engine.py\<close>) and of its dispatcher. The models are a parameter: a record of the
    calls the engine makes on them, over a state \<open>'m\<close> of any type, each of which may raise.
  \<^item> \<open>Function_Routing\<close>, \<open>Event_Actions\<close>, \<open>Memory_Service\<close>, \<open>Monitoring\<close>, \<open>Obcp\<close>, \<open>Service_Dispatch\<close>
    (\<open>service_dispatch.py\<close>, \<open>obcp.py\<close>): the handlers of all services, S8 with every function code, and
    \<open>dispatch\<close> with its outcome.
  \<^item> \<open>Tc_Acceptance\<close>, \<open>Tc_Pipeline\<close>, \<open>Tm_Emission\<close>, \<open>Spacecraft_Phase\<close> (\<open>engine.py\<close>): acceptance, refusal and
    execution of a telecommand, the uplink queue and the schedule; housekeeping, pacing, dumps and the
    transmitter's hold-down; the phase machine with the bootloader.
  \<^item> \<open>Fdir\<close>, \<open>Fdir_Engine\<close>, \<open>Fdir_Advanced\<close> (\<open>fdir.py\<close>, \<open>engine.py\<close>): fault propagation, load shedding and the
    procedure executor; the basic rules and the derived spacecraft mode; detection, cascades and the
    escalating recovery of the engine's tick. \<open>Fdir_Rules\<close> and \<open>Executor_Rules\<close> hold their theorems.
  \<^item> \<open>Failure_Manager\<close> (\<open>failure_manager.py\<close>): injected failures with step, gradual and intermittent onset;
    \<open>Failure_Rules\<close> bounds their magnitude and their life.
  \<^item> \<open>Model_Basics\<close>: what the subsystem models share, that is their random source and the platform's \<open>math\<close> functions
    (both parameters, the latter may raise), the arguments and replies of commands, the shared parameters.
    \<open>Py_Total\<close> holds the rules for code that never raises.
  \<^item> \<open>Obdh_Model\<close>, \<open>Obdh_Commands\<close> (\<open>models/obdh_basic.py\<close>): the on-board computer, also as an instance of the
    subsystem interface; \<open>Obdh_Rules\<close> says when it boots, resets and refuses.
  \<^item> \<open>Eps_Model\<close>, \<open>Eps_Tick\<close>, \<open>Eps_Commands\<close> (\<open>models/eps_basic.py\<close>): the power subsystem with solar array, battery,
    overcurrent protection and load shedding, in binary64 arithmetic. \<open>Eps_Rules\<close> shows that the essential lines stay on
    over every sequence of steps (locale \<open>line_frame\<close>), that low voltage sheds every load, and that no switchable line
    is left above its current limit.
  \<^item> \<open>Ttc_Model\<close>, \<open>Ttc_Tick\<close>, \<open>Ttc_Commands\<close> (\<open>models/ttc_basic.py\<close>): the radio with its rate ladder, uplink locks, link
    budget and amplifier. \<open>Ttc_Rules\<close> shows that the rate on air obeys its permissions, that the locks come in order on
    a live uplink, and that a latched amplifier is off.
  \<^item> \<open>Number_Text\<close>, \<open>Scenario_Engine\<close> (\<open>scenario_engine.py\<close>): Python's reading of numbers in texts; the training
    scenarios with their timed and conditional events. \<open>Scenario_Rules\<close> says which events a tick runs, that a
    scenario leaves no failure of its own behind, and that its breakpoint restores it.
  \<^item> \<open>Sim_Platform\<close>, \<open>Sim_Events\<close>, \<open>Breakpoints\<close>, \<open>Instructor\<close>, \<open>Sim_Tick\<close> (\<open>engine.py\<close>, \<open>breakpoints.py\<close>): the
    whole simulation, that is the on-board part with the orbit, the propulsion coupling and the events raised by the engine
    itself; saving and loading of its state; the commands of the instructor; and the tick with its sub-steps, in which
    every part above is called in the order of the code. \<open>Scenario_Frame\<close> carries a property of the engine
    through scenarios and failures (locales \<open>failure_frame\<close>, \<open>stage_frame\<close>); \<open>Sim_Rules\<close> interprets it and shows that
    no sequence of ticks, instructor commands, telecommands and loaded breakpoints takes a queue over its limit.
    \<open>Bare_Simulation\<close> is its concrete instance.
  \<^item> \<open>Command_Codec\<close> (\<open>smo_common/commanding\<close>, \<open>smo_mcs/tc_lengths.py\<close>): the catalogue of telecommands, the encoder
    of their arguments with calibration and validation, the decoder, the announced lengths. \<open>Command_Rules\<close> shows
    that the two invert each other, that the announced length is sent, and that validation keeps the declared ranges.
  \<^item> \<open>Iso_Time\<close>, \<open>Planner_Activity\<close>, \<open>Planner_Constraints\<close>, \<open>Planner_Schedule\<close> (\<open>smo_planner\<close>: \<open>utils.py\<close>,
    \<open>constraint_checkers.py\<close>, \<open>activity_scheduler.py\<close>): timestamps with the part of \<open>datetime\<close> the planner uses, the
    activities, the constraint checkers and the scheduler. \<open>Iso_Rules\<close> shows that a written timestamp is read back,
    \<open>Float_Order\<close> that rounding keeps the order, and \<open>Planner_Rules\<close> that overlaps are reported exactly, that an
    activity booked in a pass lies in it, and what a plan that is found valid guarantees.
  \<^item> \<open>Outbox\<close>: what each of these leaves alone and what it sends, propagated by \<open>py_frame\<close>; \<open>Event_Reports\<close>: what
    \<open>emit_event\<close> does when no rule watches the event, and that it returns when telemetry can be stored; \<open>Tc_Verdict\<close>,
    \<open>Phase_Rules\<close>, \<open>Downlink_Rules\<close>, \<open>Monitor_Rules\<close>, \<open>Obcp_Rules\<close>, \<open>Memory_Rules\<close> hold the theorems that
    rest on it. \<open>Bare_Spacecraft\<close> is the concrete spacecraft on which they are instantiated.

  How the parts interact. A packet reaches \<open>drain_tc_queue\<close>, which refuses it or calls \<open>dispatch_tc\<close>. That
  applies the gates of \<open>refusal\<close>, sends the S1 reports, and runs \<open>dispatch\<close>, which isolates the outcome
  accumulators and calls a handler. A handler may raise an event through \<open>emit\<close>, an event may run an
  event-action rule, a rule runs an S8 function, and that may raise an event again: \<open>emit_event\<close> is this
  loop, tied by a bound on the nesting that stands for the interpreter's stack. The theorems hold for
  every bound; when it is exhausted the call raises \<open>RecursionError\<close>, as the interpreter does. Reports go
  through \<open>enqueue_tm\<close> to the downlink and the packet stores.

  Bounds. Apart from the nesting of events every recursion is structural or has a measure; the one loop
  of the code that may not end, the frame builder with an empty data zone, is a \<open>partial_function\<close>, and
  \<open>add_packet_terminates_iff\<close> says exactly when it returns.

  Not modelled: the models of attitude, payload, propulsion and thermal control and the orbit (they are the parameter
  \<open>'m subsystems\<close> of the engine, of which only the on-board
  computer is given as an instance), the radio's signal processing (numpy arrays),
  the servers, user interfaces, archives and reports (input and output), and the configuration loaders
  (YAML files). Logging is left out throughout. Time is a parameter of the configuration of a tick.
\<close>

end
